(* ===== verification/Prelude.thy ===== *)
theory Prelude
  imports Main "HOL-Library.Word"
begin

unbundle bit_operations_syntax

section \<open>Prelude: machine types, byte strings and shared lemmas\<close>

text \<open>
  The types and generic lemmas the components share.  The firmware's fixed-width integers are
  words of the same width, so that addition, subtraction and shifts wrap as they do in the code.
  A byte buffer (\<^verbatim>\<open>const uint8_t *\<close> with a length, \<^verbatim>\<open>std::vector<uint8_t>\<close>,
  \<^verbatim>\<open>std::array<uint8_t, N>\<close>) is a list of bytes; a \<^verbatim>\<open>std::string\<close> is a
  HOL string, whose characters are bytes.  \<^verbatim>\<open>size_t\<close> values that only count bytes of a
  buffer are natural numbers; where the code's arithmetic on them can wrap they are words.
\<close>

named_theorems codec_simps \<open>length and decoding facts of the wire codecs\<close>

named_theorems frame_simps \<open>which fields an operation leaves unchanged\<close>

type_synonym u8 = "8 word"

type_synonym u16 = "16 word"

type_synonym u32 = "32 word"

type_synonym u64 = "64 word"

type_synonym bytes = "8 word list"

type_synonym mac = "8 word list"

section \<open>Characters and bytes\<close>

definition char_of_byte :: "u8 \<Rightarrow> char" where
  "char_of_byte b = char_of (unat b)"

definition byte_of_char :: "char \<Rightarrow> u8" where
  "byte_of_char c = word_of_nat (of_char c)"

definition string_of_bytes :: "bytes \<Rightarrow> string" where
  "string_of_bytes bs = map char_of_byte bs"

definition bytes_of_string :: "string \<Rightarrow> bytes" where
  "bytes_of_string s = map byte_of_char s"

lemma char_of_byte_of_char [simp]: "char_of_byte (byte_of_char c) = c"
  by (simp add: char_of_byte_def byte_of_char_def unat_of_nat of_char_mod_256)

lemma byte_of_char_of_byte [simp]: "byte_of_char (char_of_byte b) = b"
proof -
  have "unat b < 256" using unsigned_less [of b] by simp
  then show ?thesis by (simp add: char_of_byte_def byte_of_char_def of_char_of)
qed

lemma string_of_bytes_of_string [simp]: "string_of_bytes (bytes_of_string s) = s"
  by (simp add: string_of_bytes_def bytes_of_string_def comp_def)

lemma bytes_of_string_of_bytes [simp]: "bytes_of_string (string_of_bytes bs) = bs"
  by (simp add: string_of_bytes_def bytes_of_string_def comp_def)

lemma length_bytes_of_string [simp]: "length (bytes_of_string s) = length s"
  by (simp add: bytes_of_string_def)

lemma length_string_of_bytes [simp]: "length (string_of_bytes bs) = length bs"
  by (simp add: string_of_bytes_def)

section \<open>Decimal and hexadecimal text\<close>

fun dec_digits :: "nat \<Rightarrow> string" where
  "dec_digits n =
     (if n < 10 then [char_of (48 + n)] else dec_digits (n div 10) @ [char_of (48 + n mod 10)])"

declare dec_digits.simps [simp del]

text \<open>\<^verbatim>\<open>%02X\<close> of a byte.\<close>

definition hex_digit_upper :: "nat \<Rightarrow> char" where
  "hex_digit_upper n = (if n < 10 then char_of (48 + n) else char_of (55 + n))"

definition hex2_upper :: "u8 \<Rightarrow> string" where
  "hex2_upper b = [hex_digit_upper (unat b div 16), hex_digit_upper (unat b mod 16)]"

section \<open>Little-endian words\<close>

text \<open>
  The packed structs of the protocol are copied with \<^verbatim>\<open>memcpy\<close> on little-endian
  cores, so a multi-byte field is laid out least significant byte first.
\<close>

fun le_bytes :: "nat \<Rightarrow> 'a::len word \<Rightarrow> bytes" where
  "le_bytes 0 w = []"
| "le_bytes (Suc n) w = ucast w # le_bytes n (drop_bit 8 w)"

fun le_word :: "bytes \<Rightarrow> 'a::len word" where
  "le_word [] = 0"
| "le_word (b # bs) = ucast b OR push_bit 8 (le_word bs)"

lemma length_le_bytes [simp]: "length (le_bytes n w) = n"
  by (induction n arbitrary: w) auto

lemma le_word_le_bytes: "le_word (le_bytes n w) = take_bit (8 * n) (w :: 'a::len word)"
proof (induction n arbitrary: w)
  case 0
  then show ?case by simp
next
  case (Suc n)
  have "ucast (ucast w :: u8) OR push_bit 8 (take_bit (8 * n) (drop_bit 8 w)) = take_bit (8 + 8 * n) w"
    by (rule bit_word_eqI)
       (auto simp: bit_or_iff bit_ucast_iff bit_push_bit_iff bit_take_bit_iff bit_drop_bit_eq
             dest: bit_imp_le_length)
  with Suc.IH show ?case by simp
qed

lemma le_word_le_bytes_full [simp]:
  "8 * n = LENGTH('a::len) \<Longrightarrow> le_word (le_bytes n (w :: 'a word)) = w"
  by (simp add: le_word_le_bytes)

lemma bit_le_word_cons:
  fixes b :: u8
  assumes "8 * Suc (length bs) \<le> LENGTH('a::len)"
  shows "ucast (ucast b OR push_bit 8 (x :: 'a word)) = b"
  using assms
  by (intro bit_word_eqI)
     (auto simp: bit_or_iff bit_ucast_iff bit_push_bit_iff)

lemma le_bytes_le_word [simp]:
  "n = length bs \<Longrightarrow> 8 * n \<le> LENGTH('a::len) \<Longrightarrow> le_bytes n (le_word bs :: 'a word) = bs"
proof (induction bs arbitrary: n)
  case Nil
  then show ?case by simp
next
  case (Cons b bs)
  have small: "\<not> bit (le_word bs :: 'a word) i" if "8 * length bs \<le> i" for i
    using that
  proof (induction bs arbitrary: i)
    case Nil
    then show ?case by simp
  next
    case (Cons c cs)
    then show ?case
      by (auto simp: bit_or_iff bit_ucast_iff bit_push_bit_iff dest: bit_imp_le_length)
  qed
  have tl: "drop_bit 8 (ucast b OR push_bit 8 (le_word bs :: 'a word)) = le_word bs"
  proof (rule bit_word_eqI)
    fix i
    assume "i < LENGTH('a)"
    show "bit (drop_bit 8 (ucast b OR push_bit 8 (le_word bs :: 'a word))) i = bit (le_word bs :: 'a word) i"
      using Cons.prems small [of i]
      by (auto simp: bit_drop_bit_eq bit_or_iff bit_ucast_iff bit_push_bit_iff
               dest: bit_imp_le_length)
  qed
  have hd: "ucast (ucast b OR push_bit 8 (le_word bs :: 'a word)) = b"
    using bit_le_word_cons [of bs b "le_word bs :: 'a word"] Cons.prems by simp
  have "le_bytes (length bs) (le_word bs :: 'a word) = bs"
    using Cons.IH [OF refl] Cons.prems by simp
  with hd tl Cons.prems(1) show ?case by simp
qed

lemma take_bit_self_iff:
  assumes "n < LENGTH('a)"
  shows "take_bit n (w :: 'a::len word) = w \<longleftrightarrow> w < 2 ^ n"
proof -
  have "take_bit n w = w \<longleftrightarrow> unat (take_bit n w) = unat w"
    by (simp add: word_unat_eq_iff)
  also have "\<dots> \<longleftrightarrow> unat w mod 2 ^ n = unat w" by (simp add: unsigned_take_bit_eq) (simp add: take_bit_eq_mod)
  also have "\<dots> \<longleftrightarrow> unat w < 2 ^ n" by (metis mod_less mod_less_divisor zero_less_numeral zero_less_power)
  also have "(2 ^ n :: nat) = unat (2 ^ n :: 'a word)"
    using assms unat_of_nat [of "2 ^ n", where 'a = 'a] by (simp add: take_bit_eq_mod)
  finally show ?thesis by (simp add: word_less_nat_alt)
qed

section \<open>Fixed-size C arrays\<close>

text \<open>
  \<open>c_array n bs\<close> is a zeroed array of \<open>n\<close> bytes after
  \<^verbatim>\<open>memcpy(a, bs, std::min(len, sizeof(a)))\<close>.  \<open>c_string n a\<close> is what
  \<^verbatim>\<open>assign(a, strnlen(a, n))\<close> reads back: the bytes before the first zero.
\<close>

definition c_array :: "nat \<Rightarrow> bytes \<Rightarrow> bytes" where
  "c_array n bs = take n bs @ replicate (n - length bs) 0"

definition c_strnlen :: "bytes \<Rightarrow> nat \<Rightarrow> nat" where
  "c_strnlen bs n = length (takeWhile (\<lambda>b. b \<noteq> 0) (take n bs))"

definition c_string :: "nat \<Rightarrow> bytes \<Rightarrow> string" where
  "c_string n bs = string_of_bytes (take (c_strnlen bs n) bs)"

definition part_of :: "nat \<Rightarrow> nat \<Rightarrow> 'a list \<Rightarrow> 'a list" where
  "part_of off n xs = take n (drop off xs)"

lemma length_c_array [simp]: "length (c_array n bs) = n"
  by (simp add: c_array_def)

lemma c_array_id: "length bs = n \<Longrightarrow> c_array n bs = bs"
  by (simp add: c_array_def)

lemma length_part_of [simp]: "length (part_of off n xs) = min n (length xs - off)"
  by (simp add: part_of_def)

lemma part_of_append_mid:
  "length xs = off \<Longrightarrow> length ys = n \<Longrightarrow> part_of off n (xs @ ys @ zs) = ys"
  by (simp add: part_of_def)

lemma takeWhile_c_array:
  assumes "0 \<notin> set bs" "length bs \<le> n"
  shows "takeWhile (\<lambda>b. b \<noteq> 0) (c_array n bs) = bs"
proof -
  have "takeWhile (\<lambda>b. b \<noteq> 0) (bs @ replicate (n - length bs) 0) = bs"
    using assms(1) by (subst takeWhile_append2) (auto simp: takeWhile_replicate)
  with assms(2) show ?thesis by (simp add: c_array_def)
qed

lemma c_string_c_array:
  assumes "0 \<notin> set bs" "length bs \<le> n"
  shows "c_string n (c_array n bs) = string_of_bytes bs"
proof -
  have len: "c_strnlen (c_array n bs) n = length bs"
    by (simp add: c_strnlen_def takeWhile_c_array [OF assms])
  with assms(2) show ?thesis by (simp add: c_string_def c_array_def)
qed

section \<open>Words without wrap-around\<close>

lemma unat_ucast_up:
  assumes "LENGTH('a) \<le> LENGTH('b)"
  shows "unat (ucast (x :: 'a::len word) :: 'b::len word) = unat x"
proof -
  have "unat x < 2 ^ LENGTH('a)" by (rule unsigned_less)
  also have "(2 :: nat) ^ LENGTH('a) \<le> 2 ^ LENGTH('b)" using assms by simp
  finally show ?thesis by (simp add: unsigned_ucast_eq take_bit_nat_eq_self)
qed

lemma unat_ucast_fits: "unat (x :: 'a::len word) < 2 ^ LENGTH('b) \<Longrightarrow> unat (ucast x :: 'b::len word) = unat x"
  by (simp add: unsigned_ucast_eq take_bit_nat_eq_self)

lemma unat_plus_fits: "unat a + unat b < 2 ^ LENGTH('a) \<Longrightarrow> unat (a + b) = unat (a :: 'a::len word) + unat b"
  by (simp add: unat_add_lem [symmetric])

lemma unat_times_fits: "unat a * unat b < 2 ^ LENGTH('a) \<Longrightarrow> unat (a * b) = unat (a :: 'a::len word) * unat b"
  by (simp add: unat_mult_lem [symmetric])

end
