(* ===== verification/Wire_Types.thy ===== *)
theory Wire_Types
  imports Prelude
begin

unbundle bit_operations_syntax

text \<open>
  The constants, enumerations and packed structs of
  \<^verbatim>\<open>esp_tree_common/espnow_types.h\<close>.  Each struct is a record with an encoder (the bytes
  \<^verbatim>\<open>memcpy\<close> of the packed struct gives on a little-endian core) and a decoder (what a
  \<^verbatim>\<open>reinterpret_cast\<close> of at least \<^verbatim>\<open>sizeof\<close> bytes reads).  The locale
  \<open>wire_struct\<close> is the contract between the two; every struct interprets it, and the parsers
  and builders of the later theories use the interpreted facts.
\<close>

section \<open>Protocol constants\<close>

abbreviation (input) ESPNOW_PROTOCOL_VER :: u8 where "ESPNOW_PROTOCOL_VER \<equiv> 3"

abbreviation (input) ESPNOW_HEADER_WITH_PSK_TAG_LEN :: nat where "ESPNOW_HEADER_WITH_PSK_TAG_LEN \<equiv> 17"

abbreviation (input) ESPNOW_PSK_TAG_LEN :: nat where "ESPNOW_PSK_TAG_LEN \<equiv> 4"

abbreviation (input) ESPNOW_SESSION_TAG_LEN :: nat where "ESPNOW_SESSION_TAG_LEN \<equiv> 8"

abbreviation (input) ESPNOW_V1_MAX_PAYLOAD :: u16 where "ESPNOW_V1_MAX_PAYLOAD \<equiv> 250"

abbreviation (input) ESPNOW_V2_MAX_PAYLOAD :: u16 where "ESPNOW_V2_MAX_PAYLOAD \<equiv> 1470"

abbreviation (input) ESPNOW_SESSION_FLAG_V2_MTU :: u8 where "ESPNOW_SESSION_FLAG_V2_MTU \<equiv> 1"

abbreviation (input) ESPNOW_MAX_ENTITY_FRAGMENT_LEN :: u16 where "ESPNOW_MAX_ENTITY_FRAGMENT_LEN \<equiv> 220"

abbreviation (input) ESPNOW_ENTITY_FLAG_MORE_FRAGMENTS :: u8 where "ESPNOW_ENTITY_FLAG_MORE_FRAGMENTS \<equiv> 1"

abbreviation (input) ESPNOW_ENTITY_FLAG_MORE_DIRTY :: u8 where "ESPNOW_ENTITY_FLAG_MORE_DIRTY \<equiv> 2"

abbreviation (input) ESPNOW_MAX_FRAGMENT_ASSEMBLY_BYTES :: u16 where "ESPNOW_MAX_FRAGMENT_ASSEMBLY_BYTES \<equiv> 1024"

abbreviation (input) ESPNOW_MAX_TOTAL_FRAGMENT_BYTES_PER_SESSION :: u16 where
  "ESPNOW_MAX_TOTAL_FRAGMENT_BYTES_PER_SESSION \<equiv> 4096"

abbreviation (input) ESPNOW_MAX_PENDING_FRAGMENT_ASSEMBLIES :: nat where
  "ESPNOW_MAX_PENDING_FRAGMENT_ASSEMBLIES \<equiv> 8"

abbreviation (input) ESPNOW_FRAGMENT_ASSEMBLY_TIMEOUT_MS :: u32 where
  "ESPNOW_FRAGMENT_ASSEMBLY_TIMEOUT_MS \<equiv> 5000"

abbreviation (input) ESPNOW_PARENT_MAC_LEN :: nat where "ESPNOW_PARENT_MAC_LEN \<equiv> 6"

abbreviation (input) ESPNOW_HOPS_LIMIT :: u8 where "ESPNOW_HOPS_LIMIT \<equiv> 8"

abbreviation (input) ESPNOW_MAX_RETRIES :: u8 where "ESPNOW_MAX_RETRIES \<equiv> 4"

abbreviation (input) ESPNOW_RETRY_JITTER_MS :: u32 where "ESPNOW_RETRY_JITTER_MS \<equiv> 50"

abbreviation (input) ESPNOW_DISCOVER_ANNOUNCE_JITTER_MS :: u32 where "ESPNOW_DISCOVER_ANNOUNCE_JITTER_MS \<equiv> 20"

section \<open>Enumerations\<close>

datatype espnow_field_type_t =
    FIELD_TYPE_SENSOR | FIELD_TYPE_SWITCH | FIELD_TYPE_BINARY | FIELD_TYPE_BUTTON
  | FIELD_TYPE_NUMBER | FIELD_TYPE_TEXT | FIELD_TYPE_CLIMATE | FIELD_TYPE_COVER
  | FIELD_TYPE_LIGHT | FIELD_TYPE_FAN | FIELD_TYPE_LOCK | FIELD_TYPE_ALARM
  | FIELD_TYPE_SELECT | FIELD_TYPE_EVENT | FIELD_TYPE_HUMIDIFIER | FIELD_TYPE_DEHUMIDIFIER
  | FIELD_TYPE_VALVE | FIELD_TYPE_TIME | FIELD_TYPE_DATETIME | FIELD_TYPE_TEXT_SENSOR

fun field_type_code :: "espnow_field_type_t \<Rightarrow> u8" where
  "field_type_code FIELD_TYPE_SENSOR = 0x01"
| "field_type_code FIELD_TYPE_SWITCH = 0x02"
| "field_type_code FIELD_TYPE_BINARY = 0x03"
| "field_type_code FIELD_TYPE_BUTTON = 0x04"
| "field_type_code FIELD_TYPE_NUMBER = 0x05"
| "field_type_code FIELD_TYPE_TEXT = 0x06"
| "field_type_code FIELD_TYPE_CLIMATE = 0x07"
| "field_type_code FIELD_TYPE_COVER = 0x08"
| "field_type_code FIELD_TYPE_LIGHT = 0x09"
| "field_type_code FIELD_TYPE_FAN = 0x0A"
| "field_type_code FIELD_TYPE_LOCK = 0x0B"
| "field_type_code FIELD_TYPE_ALARM = 0x0C"
| "field_type_code FIELD_TYPE_SELECT = 0x0D"
| "field_type_code FIELD_TYPE_EVENT = 0x0E"
| "field_type_code FIELD_TYPE_HUMIDIFIER = 0x0F"
| "field_type_code FIELD_TYPE_DEHUMIDIFIER = 0x10"
| "field_type_code FIELD_TYPE_VALVE = 0x11"
| "field_type_code FIELD_TYPE_TIME = 0x12"
| "field_type_code FIELD_TYPE_DATETIME = 0x13"
| "field_type_code FIELD_TYPE_TEXT_SENSOR = 0x14"

datatype espnow_packet_type_t =
    PKT_DISCOVER | PKT_DISCOVER_ANNOUNCE | PKT_JOIN | PKT_JOIN_ACK | PKT_STATE | PKT_ACK
  | PKT_COMMAND | PKT_CONFIG | PKT_SCHEMA_REQUEST | PKT_SCHEMA_PUSH | PKT_HEARTBEAT
  | PKT_DEAUTH | PKT_FILE_TRANSFER | PKT_FILE_DATA

fun packet_type_code :: "espnow_packet_type_t \<Rightarrow> u8" where
  "packet_type_code PKT_DISCOVER = 0x00"
| "packet_type_code PKT_DISCOVER_ANNOUNCE = 0x01"
| "packet_type_code PKT_JOIN = 0x02"
| "packet_type_code PKT_JOIN_ACK = 0x03"
| "packet_type_code PKT_STATE = 0x04"
| "packet_type_code PKT_ACK = 0x05"
| "packet_type_code PKT_COMMAND = 0x06"
| "packet_type_code PKT_CONFIG = 0x07"
| "packet_type_code PKT_SCHEMA_REQUEST = 0x08"
| "packet_type_code PKT_SCHEMA_PUSH = 0x09"
| "packet_type_code PKT_HEARTBEAT = 0x10"
| "packet_type_code PKT_DEAUTH = 0x11"
| "packet_type_code PKT_FILE_TRANSFER = 0x12"
| "packet_type_code PKT_FILE_DATA = 0x13"

text \<open>
  The code casts the header byte to the enumeration.  A byte that is no enumerator is \<open>None\<close>;
  \<open>is_valid_packet_type\<close> is the switch that tells the two apart.
\<close>

definition packet_types :: "espnow_packet_type_t list" where
  "packet_types = [PKT_DISCOVER, PKT_DISCOVER_ANNOUNCE, PKT_JOIN, PKT_JOIN_ACK, PKT_STATE, PKT_ACK,
     PKT_COMMAND, PKT_CONFIG, PKT_SCHEMA_REQUEST, PKT_SCHEMA_PUSH, PKT_HEARTBEAT, PKT_DEAUTH,
     PKT_FILE_TRANSFER, PKT_FILE_DATA]"

definition packet_type_of :: "u8 \<Rightarrow> espnow_packet_type_t option" where
  "packet_type_of b = find (\<lambda>t. packet_type_code t = b) packet_types"

fun packet_type_name :: "espnow_packet_type_t option \<Rightarrow> string" where
  "packet_type_name (Some PKT_DISCOVER) = ''DISCOVER''"
| "packet_type_name (Some PKT_DISCOVER_ANNOUNCE) = ''DISCOVER_ANNOUNCE''"
| "packet_type_name (Some PKT_JOIN) = ''JOIN''"
| "packet_type_name (Some PKT_JOIN_ACK) = ''JOIN_ACK''"
| "packet_type_name (Some PKT_STATE) = ''STATE''"
| "packet_type_name (Some PKT_ACK) = ''ACK''"
| "packet_type_name (Some PKT_COMMAND) = ''COMMAND''"
| "packet_type_name (Some PKT_CONFIG) = ''CONFIG''"
| "packet_type_name (Some PKT_SCHEMA_REQUEST) = ''SCHEMA_REQUEST''"
| "packet_type_name (Some PKT_SCHEMA_PUSH) = ''SCHEMA_PUSH''"
| "packet_type_name (Some PKT_HEARTBEAT) = ''HEARTBEAT''"
| "packet_type_name (Some PKT_DEAUTH) = ''DEAUTH''"
| "packet_type_name (Some PKT_FILE_TRANSFER) = ''FILE_TRANSFER''"
| "packet_type_name (Some PKT_FILE_DATA) = ''FILE_DATA''"
| "packet_type_name None = ''UNKNOWN''"

fun is_encrypted_packet :: "espnow_packet_type_t \<Rightarrow> bool" where
  "is_encrypted_packet PKT_STATE = True"
| "is_encrypted_packet PKT_ACK = True"
| "is_encrypted_packet PKT_COMMAND = True"
| "is_encrypted_packet PKT_CONFIG = True"
| "is_encrypted_packet PKT_SCHEMA_REQUEST = True"
| "is_encrypted_packet PKT_SCHEMA_PUSH = True"
| "is_encrypted_packet PKT_HEARTBEAT = True"
| "is_encrypted_packet PKT_FILE_TRANSFER = True"
| "is_encrypted_packet PKT_FILE_DATA = True"
| "is_encrypted_packet _ = False"

definition is_valid_packet_type :: "u8 \<Rightarrow> bool" where
  "is_valid_packet_type b \<longleftrightarrow>
     b \<in> {0x00, 0x01, 0x02, 0x03, 0x04, 0x05, 0x06, 0x07, 0x08, 0x09, 0x10, 0x11, 0x12, 0x13}"

section \<open>The hop count byte\<close>

abbreviation (input) ESPNOW_HOPS_DIR_BIT :: u8 where "ESPNOW_HOPS_DIR_BIT \<equiv> 0x80"

abbreviation (input) ESPNOW_HOPS_PARENT_CHECK_BIT :: u8 where "ESPNOW_HOPS_PARENT_CHECK_BIT \<equiv> 0x40"

abbreviation (input) ESPNOW_HOPS_COUNT_MASK :: u8 where "ESPNOW_HOPS_COUNT_MASK \<equiv> 0x0F"

abbreviation (input) ESPNOW_HOPS_DIR_UP :: u8 where "ESPNOW_HOPS_DIR_UP \<equiv> 0"

abbreviation (input) ESPNOW_HOPS_DIR_DOWN :: u8 where "ESPNOW_HOPS_DIR_DOWN \<equiv> 0x80"

definition ESPNOW_HOPS_IS_UPSTREAM :: "u8 \<Rightarrow> bool" where
  "ESPNOW_HOPS_IS_UPSTREAM h \<longleftrightarrow> h AND ESPNOW_HOPS_DIR_BIT = 0"

definition ESPNOW_HOPS_IS_DOWNSTREAM :: "u8 \<Rightarrow> bool" where
  "ESPNOW_HOPS_IS_DOWNSTREAM h \<longleftrightarrow> h AND ESPNOW_HOPS_DIR_BIT \<noteq> 0"

definition ESPNOW_HOPS_MAKE :: "u8 \<Rightarrow> u8 \<Rightarrow> u8" where
  "ESPNOW_HOPS_MAKE dir count =
     (dir AND ESPNOW_HOPS_DIR_BIT) OR (count AND ESPNOW_HOPS_COUNT_MASK)"

definition ESPNOW_HOPS_COUNT :: "u8 \<Rightarrow> u8" where
  "ESPNOW_HOPS_COUNT h = h AND ESPNOW_HOPS_COUNT_MASK"

definition has_parent_check :: "u8 \<Rightarrow> bool" where
  "has_parent_check h \<longleftrightarrow> h AND ESPNOW_HOPS_PARENT_CHECK_BIT \<noteq> 0"

definition espnow_is_parent_mac_all_zeros :: "mac \<Rightarrow> bool" where
  "espnow_is_parent_mac_all_zeros m \<longleftrightarrow>
     m ! 0 = 0 \<and> m ! 1 = 0 \<and> m ! 2 = 0 \<and> m ! 3 = 0 \<and> m ! 4 = 0 \<and> m ! 5 = 0"

section \<open>The codec contract\<close>

text \<open>
  \<open>enc\<close> lays a struct out, \<open>dec\<close> reads one from the start of a buffer, \<open>wf\<close> says
  that the array members have their declared sizes and \<open>sz\<close> is \<^verbatim>\<open>sizeof\<close>, which
  the \<^verbatim>\<open>static_assert\<close>s of the header fix.
\<close>

locale wire_struct =
  fixes enc :: "'a \<Rightarrow> bytes" and dec :: "bytes \<Rightarrow> 'a" and wf :: "'a \<Rightarrow> bool" and sz :: nat
  assumes enc_length: "wf x \<Longrightarrow> length (enc x) = sz"
    and dec_enc: "wf x \<Longrightarrow> dec (enc x @ rest) = x"
    and enc_dec: "sz \<le> length bs \<Longrightarrow> enc (dec bs) = take sz bs"
    and wf_dec: "sz \<le> length bs \<Longrightarrow> wf (dec bs)"
begin

lemma dec_enc_nil: "wf x \<Longrightarrow> dec (enc x) = x"
  using dec_enc [of x "[]"] by simp

lemma enc_inject: "wf x \<Longrightarrow> wf y \<Longrightarrow> enc x = enc y \<longleftrightarrow> x = y"
  using dec_enc_nil by metis

lemma dec_take: "sz \<le> length bs \<Longrightarrow> dec (take sz bs) = dec bs"
  using dec_enc_nil wf_dec enc_dec by metis

lemma dec_determines:
  assumes "sz \<le> length bs" "sz \<le> length cs" "dec bs = dec cs"
  shows "take sz bs = take sz cs"
  using assms enc_dec by metis

lemma split_frame:
  assumes "sz \<le> length bs"
  shows "enc (dec bs) @ drop sz bs = bs"
  using enc_dec [OF assms] by simp

end

text \<open>
  How a decoder's field reads cancel against an encoder's concatenation, and the other way round.
\<close>

lemma part_of_append_left: "n \<le> length xs \<Longrightarrow> part_of 0 n (xs @ ys) = take n xs"
  by (simp add: part_of_def)

lemma part_of_append_skip:
  "length xs \<le> off \<Longrightarrow> part_of off n (xs @ ys) = part_of (off - length xs) n ys"
  by (simp add: part_of_def)

lemma part_of_join: "off' = off + m \<Longrightarrow> part_of off m bs @ part_of off' n bs = part_of off (m + n) bs"
  by (simp add: part_of_def take_add add.commute)

lemma part_of_join_assoc:
  "off' = off + m \<Longrightarrow> part_of off m bs @ part_of off' n bs @ ys = part_of off (m + n) bs @ ys"
  by (simp add: part_of_join flip: append_assoc)

lemma part_of_0: "part_of 0 n bs = take n bs"
  by (simp add: part_of_def)

lemma part_of_all: "length bs = n \<Longrightarrow> part_of 0 n bs = bs"
  by (simp add: part_of_def)

lemma part_of_0_take: "n = m \<Longrightarrow> (part_of 0 n bs = take m bs) \<longleftrightarrow> True"
  by (simp add: part_of_0)

lemmas wire_simps = part_of_append_left part_of_append_skip part_of_join part_of_join_assoc
  part_of_all part_of_0_take

declare le_bytes.simps [simp del]

section \<open>The packed structs\<close>

subsection \<open>espnow frame header t\<close>

record espnow_frame_header_t =
  fh_protocol_version :: u8
  fh_hop_count :: u8
  fh_packet_type :: u8
  fh_leaf_mac :: bytes
  fh_tx_counter :: u32
  fh_psk_tag :: bytes

definition enc_frame_header :: "espnow_frame_header_t \<Rightarrow> bytes" where
  "enc_frame_header x =
     le_bytes 1 (fh_protocol_version x) @
     le_bytes 1 (fh_hop_count x) @
     le_bytes 1 (fh_packet_type x) @
     fh_leaf_mac x @
     le_bytes 4 (fh_tx_counter x) @
     fh_psk_tag x"

definition dec_frame_header :: "bytes \<Rightarrow> espnow_frame_header_t" where
  "dec_frame_header bs =
     \<lparr>fh_protocol_version = le_word (part_of 0 1 bs),
      fh_hop_count = le_word (part_of 1 1 bs),
      fh_packet_type = le_word (part_of 2 1 bs),
      fh_leaf_mac = part_of 3 6 bs,
      fh_tx_counter = le_word (part_of 9 4 bs),
      fh_psk_tag = part_of 13 4 bs\<rparr>"

definition wf_frame_header :: "espnow_frame_header_t \<Rightarrow> bool" where
  "wf_frame_header x \<longleftrightarrow> length (fh_leaf_mac x) = 6 \<and> length (fh_psk_tag x) = 4"

lemmas frame_header_defs = enc_frame_header_def dec_frame_header_def wf_frame_header_def

interpretation fh: wire_struct enc_frame_header dec_frame_header wf_frame_header 17
  by unfold_locales (auto simp: frame_header_defs wire_simps)

subsection \<open>espnow discover t\<close>

record espnow_discover_t =
  disc_network_id :: bytes
  disc_network_id_len :: u8
  disc_capability_flags :: u8

definition enc_discover :: "espnow_discover_t \<Rightarrow> bytes" where
  "enc_discover x =
     disc_network_id x @
     le_bytes 1 (disc_network_id_len x) @
     le_bytes 1 (disc_capability_flags x)"

definition dec_discover :: "bytes \<Rightarrow> espnow_discover_t" where
  "dec_discover bs =
     \<lparr>disc_network_id = part_of 0 32 bs,
      disc_network_id_len = le_word (part_of 32 1 bs),
      disc_capability_flags = le_word (part_of 33 1 bs)\<rparr>"

definition wf_discover :: "espnow_discover_t \<Rightarrow> bool" where
  "wf_discover x \<longleftrightarrow> length (disc_network_id x) = 32"

lemmas discover_defs = enc_discover_def dec_discover_def wf_discover_def

interpretation disc: wire_struct enc_discover dec_discover wf_discover 34
  by unfold_locales (auto simp: discover_defs wire_simps)

subsection \<open>espnow discover announce t\<close>

record espnow_discover_announce_t =
  ann_network_id :: bytes
  ann_network_id_len :: u8
  ann_responder_mac :: bytes
  ann_responder_role :: u8
  ann_hops_to_bridge :: u8
  ann_bridge_reachable :: u8
  ann_flags :: u8

definition enc_discover_announce :: "espnow_discover_announce_t \<Rightarrow> bytes" where
  "enc_discover_announce x =
     ann_network_id x @
     le_bytes 1 (ann_network_id_len x) @
     ann_responder_mac x @
     le_bytes 1 (ann_responder_role x) @
     le_bytes 1 (ann_hops_to_bridge x) @
     le_bytes 1 (ann_bridge_reachable x) @
     le_bytes 1 (ann_flags x)"

definition dec_discover_announce :: "bytes \<Rightarrow> espnow_discover_announce_t" where
  "dec_discover_announce bs =
     \<lparr>ann_network_id = part_of 0 32 bs,
      ann_network_id_len = le_word (part_of 32 1 bs),
      ann_responder_mac = part_of 33 6 bs,
      ann_responder_role = le_word (part_of 39 1 bs),
      ann_hops_to_bridge = le_word (part_of 40 1 bs),
      ann_bridge_reachable = le_word (part_of 41 1 bs),
      ann_flags = le_word (part_of 42 1 bs)\<rparr>"

definition wf_discover_announce :: "espnow_discover_announce_t \<Rightarrow> bool" where
  "wf_discover_announce x \<longleftrightarrow> length (ann_network_id x) = 32 \<and> length (ann_responder_mac x) = 6"

lemmas discover_announce_defs = enc_discover_announce_def dec_discover_announce_def wf_discover_announce_def

interpretation ann: wire_struct enc_discover_announce dec_discover_announce wf_discover_announce 43
  by unfold_locales (auto simp: discover_announce_defs wire_simps)

subsection \<open>espnow join t\<close>

record espnow_join_t =
  join_remote_nonce :: bytes
  join_schema_hash :: bytes
  join_hops_to_bridge :: u8
  join_dirty_count :: u8
  join_session_flags :: u8

definition enc_join :: "espnow_join_t \<Rightarrow> bytes" where
  "enc_join x =
     join_remote_nonce x @
     join_schema_hash x @
     le_bytes 1 (join_hops_to_bridge x) @
     le_bytes 1 (join_dirty_count x) @
     le_bytes 1 (join_session_flags x)"

definition dec_join :: "bytes \<Rightarrow> espnow_join_t" where
  "dec_join bs =
     \<lparr>join_remote_nonce = part_of 0 16 bs,
      join_schema_hash = part_of 16 32 bs,
      join_hops_to_bridge = le_word (part_of 48 1 bs),
      join_dirty_count = le_word (part_of 49 1 bs),
      join_session_flags = le_word (part_of 50 1 bs)\<rparr>"

definition wf_join :: "espnow_join_t \<Rightarrow> bool" where
  "wf_join x \<longleftrightarrow> length (join_remote_nonce x) = 16 \<and> length (join_schema_hash x) = 32"

lemmas join_defs = enc_join_def dec_join_def wf_join_def

interpretation join: wire_struct enc_join dec_join wf_join 51
  by unfold_locales (auto simp: join_defs wire_simps)

subsection \<open>espnow join ack t\<close>

record espnow_join_ack_t =
  jack_accepted :: u8
  jack_reason :: u8
  jack_stage :: u8
  jack_bridge_nonce :: bytes
  jack_session_flags :: u8

definition enc_join_ack :: "espnow_join_ack_t \<Rightarrow> bytes" where
  "enc_join_ack x =
     le_bytes 1 (jack_accepted x) @
     le_bytes 1 (jack_reason x) @
     le_bytes 1 (jack_stage x) @
     jack_bridge_nonce x @
     le_bytes 1 (jack_session_flags x)"

definition dec_join_ack :: "bytes \<Rightarrow> espnow_join_ack_t" where
  "dec_join_ack bs =
     \<lparr>jack_accepted = le_word (part_of 0 1 bs),
      jack_reason = le_word (part_of 1 1 bs),
      jack_stage = le_word (part_of 2 1 bs),
      jack_bridge_nonce = part_of 3 16 bs,
      jack_session_flags = le_word (part_of 19 1 bs)\<rparr>"

definition wf_join_ack :: "espnow_join_ack_t \<Rightarrow> bool" where
  "wf_join_ack x \<longleftrightarrow> length (jack_bridge_nonce x) = 16"

lemmas join_ack_defs = enc_join_ack_def dec_join_ack_def wf_join_ack_def

interpretation jack: wire_struct enc_join_ack dec_join_ack wf_join_ack 20
  by unfold_locales (auto simp: join_ack_defs wire_simps)

subsection \<open>espnow heartbeat t\<close>

record espnow_heartbeat_t =
  hb_uptime_seconds :: u32
  hb_expected_contact_interval_seconds :: u32
  hb_parent_mac :: bytes
  hb_direct_child_count :: u8
  hb_total_child_count :: u16
  hb_remote_rssi_dbm :: u8

definition enc_heartbeat :: "espnow_heartbeat_t \<Rightarrow> bytes" where
  "enc_heartbeat x =
     le_bytes 4 (hb_uptime_seconds x) @
     le_bytes 4 (hb_expected_contact_interval_seconds x) @
     hb_parent_mac x @
     le_bytes 1 (hb_direct_child_count x) @
     le_bytes 2 (hb_total_child_count x) @
     le_bytes 1 (hb_remote_rssi_dbm x)"

definition dec_heartbeat :: "bytes \<Rightarrow> espnow_heartbeat_t" where
  "dec_heartbeat bs =
     \<lparr>hb_uptime_seconds = le_word (part_of 0 4 bs),
      hb_expected_contact_interval_seconds = le_word (part_of 4 4 bs),
      hb_parent_mac = part_of 8 6 bs,
      hb_direct_child_count = le_word (part_of 14 1 bs),
      hb_total_child_count = le_word (part_of 15 2 bs),
      hb_remote_rssi_dbm = le_word (part_of 17 1 bs)\<rparr>"

definition wf_heartbeat :: "espnow_heartbeat_t \<Rightarrow> bool" where
  "wf_heartbeat x \<longleftrightarrow> length (hb_parent_mac x) = 6"

lemmas heartbeat_defs = enc_heartbeat_def dec_heartbeat_def wf_heartbeat_def

interpretation hb: wire_struct enc_heartbeat dec_heartbeat wf_heartbeat 18
  by unfold_locales (auto simp: heartbeat_defs wire_simps)

subsection \<open>espnow entity packet header t\<close>

record espnow_entity_packet_header_t =
  eph_entity_index :: u8
  eph_flags :: u8
  eph_fragment_index :: u8
  eph_fragment_count :: u8
  eph_value_len :: u8

definition enc_entity_packet_header :: "espnow_entity_packet_header_t \<Rightarrow> bytes" where
  "enc_entity_packet_header x =
     le_bytes 1 (eph_entity_index x) @
     le_bytes 1 (eph_flags x) @
     le_bytes 1 (eph_fragment_index x) @
     le_bytes 1 (eph_fragment_count x) @
     le_bytes 1 (eph_value_len x)"

definition dec_entity_packet_header :: "bytes \<Rightarrow> espnow_entity_packet_header_t" where
  "dec_entity_packet_header bs =
     \<lparr>eph_entity_index = le_word (part_of 0 1 bs),
      eph_flags = le_word (part_of 1 1 bs),
      eph_fragment_index = le_word (part_of 2 1 bs),
      eph_fragment_count = le_word (part_of 3 1 bs),
      eph_value_len = le_word (part_of 4 1 bs)\<rparr>"

definition wf_entity_packet_header :: "espnow_entity_packet_header_t \<Rightarrow> bool" where
  "wf_entity_packet_header x \<longleftrightarrow> True"

lemmas entity_packet_header_defs = enc_entity_packet_header_def dec_entity_packet_header_def wf_entity_packet_header_def

interpretation eph: wire_struct enc_entity_packet_header dec_entity_packet_header wf_entity_packet_header 5
  by unfold_locales (auto simp: entity_packet_header_defs wire_simps)

subsection \<open>espnow ack t\<close>

record espnow_ack_t =
  ack_ack_type :: u8
  ack_result :: u8
  ack_ref_tx_counter :: u32

definition enc_ack :: "espnow_ack_t \<Rightarrow> bytes" where
  "enc_ack x =
     le_bytes 1 (ack_ack_type x) @
     le_bytes 1 (ack_result x) @
     le_bytes 4 (ack_ref_tx_counter x)"

definition dec_ack :: "bytes \<Rightarrow> espnow_ack_t" where
  "dec_ack bs =
     \<lparr>ack_ack_type = le_word (part_of 0 1 bs),
      ack_result = le_word (part_of 1 1 bs),
      ack_ref_tx_counter = le_word (part_of 2 4 bs)\<rparr>"

definition wf_ack :: "espnow_ack_t \<Rightarrow> bool" where
  "wf_ack x \<longleftrightarrow> True"

lemmas ack_defs = enc_ack_def dec_ack_def wf_ack_def

interpretation ack: wire_struct enc_ack dec_ack wf_ack 6
  by unfold_locales (auto simp: ack_defs wire_simps)

subsection \<open>espnow config t\<close>

record espnow_config_t =
  cfg_command :: u8
  cfg_flags :: u8
  cfg_payload_len :: u8

definition enc_config :: "espnow_config_t \<Rightarrow> bytes" where
  "enc_config x =
     le_bytes 1 (cfg_command x) @
     le_bytes 1 (cfg_flags x) @
     le_bytes 1 (cfg_payload_len x)"

definition dec_config :: "bytes \<Rightarrow> espnow_config_t" where
  "dec_config bs =
     \<lparr>cfg_command = le_word (part_of 0 1 bs),
      cfg_flags = le_word (part_of 1 1 bs),
      cfg_payload_len = le_word (part_of 2 1 bs)\<rparr>"

definition wf_config :: "espnow_config_t \<Rightarrow> bool" where
  "wf_config x \<longleftrightarrow> True"

lemmas config_defs = enc_config_def dec_config_def wf_config_def

interpretation cfg: wire_struct enc_config dec_config wf_config 3
  by unfold_locales (auto simp: config_defs wire_simps)

subsection \<open>espnow schema request t\<close>

record espnow_schema_request_t =
  sreq_descriptor_type :: u8
  sreq_descriptor_index :: u8

definition enc_schema_request :: "espnow_schema_request_t \<Rightarrow> bytes" where
  "enc_schema_request x =
     le_bytes 1 (sreq_descriptor_type x) @
     le_bytes 1 (sreq_descriptor_index x)"

definition dec_schema_request :: "bytes \<Rightarrow> espnow_schema_request_t" where
  "dec_schema_request bs =
     \<lparr>sreq_descriptor_type = le_word (part_of 0 1 bs),
      sreq_descriptor_index = le_word (part_of 1 1 bs)\<rparr>"

definition wf_schema_request :: "espnow_schema_request_t \<Rightarrow> bool" where
  "wf_schema_request x \<longleftrightarrow> True"

lemmas schema_request_defs = enc_schema_request_def dec_schema_request_def wf_schema_request_def

interpretation sreq: wire_struct enc_schema_request dec_schema_request wf_schema_request 2
  by unfold_locales (auto simp: schema_request_defs wire_simps)

subsection \<open>espnow schema push t\<close>

record espnow_schema_push_t =
  spush_descriptor_type :: u8
  spush_descriptor_index :: u8
  spush_entity_index :: u8
  spush_total_entities :: u8
  spush_entity_type :: u8
  spush_entity_name :: bytes
  spush_entity_unit :: bytes
  spush_entity_id :: bytes

definition enc_schema_push :: "espnow_schema_push_t \<Rightarrow> bytes" where
  "enc_schema_push x =
     le_bytes 1 (spush_descriptor_type x) @
     le_bytes 1 (spush_descriptor_index x) @
     le_bytes 1 (spush_entity_index x) @
     le_bytes 1 (spush_total_entities x) @
     le_bytes 1 (spush_entity_type x) @
     spush_entity_name x @
     spush_entity_unit x @
     spush_entity_id x"

definition dec_schema_push :: "bytes \<Rightarrow> espnow_schema_push_t" where
  "dec_schema_push bs =
     \<lparr>spush_descriptor_type = le_word (part_of 0 1 bs),
      spush_descriptor_index = le_word (part_of 1 1 bs),
      spush_entity_index = le_word (part_of 2 1 bs),
      spush_total_entities = le_word (part_of 3 1 bs),
      spush_entity_type = le_word (part_of 4 1 bs),
      spush_entity_name = part_of 5 32 bs,
      spush_entity_unit = part_of 37 8 bs,
      spush_entity_id = part_of 45 32 bs\<rparr>"

definition wf_schema_push :: "espnow_schema_push_t \<Rightarrow> bool" where
  "wf_schema_push x \<longleftrightarrow> length (spush_entity_name x) = 32 \<and> length (spush_entity_unit x) = 8 \<and> length (spush_entity_id x) = 32"

lemmas schema_push_defs = enc_schema_push_def dec_schema_push_def wf_schema_push_def

interpretation spush: wire_struct enc_schema_push dec_schema_push wf_schema_push 77
  by unfold_locales (auto simp: schema_push_defs wire_simps)

subsection \<open>espnow identity descriptor t\<close>

record espnow_identity_descriptor_t =
  ident_esphome_name :: bytes
  ident_node_label :: bytes
  ident_firmware_epoch :: u32
  ident_project_name :: bytes
  ident_project_version :: bytes
  ident_total_entities :: u8
  ident_max_frame_payload :: u16
  ident_chip_model :: u32
  ident_build_date :: bytes
  ident_build_time :: bytes
  ident_firmware_md5 :: bytes

definition enc_identity_descriptor :: "espnow_identity_descriptor_t \<Rightarrow> bytes" where
  "enc_identity_descriptor x =
     ident_esphome_name x @
     ident_node_label x @
     le_bytes 4 (ident_firmware_epoch x) @
     ident_project_name x @
     ident_project_version x @
     le_bytes 1 (ident_total_entities x) @
     le_bytes 2 (ident_max_frame_payload x) @
     le_bytes 4 (ident_chip_model x) @
     ident_build_date x @
     ident_build_time x @
     ident_firmware_md5 x"

definition dec_identity_descriptor :: "bytes \<Rightarrow> espnow_identity_descriptor_t" where
  "dec_identity_descriptor bs =
     \<lparr>ident_esphome_name = part_of 0 32 bs,
      ident_node_label = part_of 32 64 bs,
      ident_firmware_epoch = le_word (part_of 96 4 bs),
      ident_project_name = part_of 100 32 bs,
      ident_project_version = part_of 132 16 bs,
      ident_total_entities = le_word (part_of 148 1 bs),
      ident_max_frame_payload = le_word (part_of 149 2 bs),
      ident_chip_model = le_word (part_of 151 4 bs),
      ident_build_date = part_of 155 16 bs,
      ident_build_time = part_of 171 16 bs,
      ident_firmware_md5 = part_of 187 16 bs\<rparr>"

definition wf_identity_descriptor :: "espnow_identity_descriptor_t \<Rightarrow> bool" where
  "wf_identity_descriptor x \<longleftrightarrow> length (ident_esphome_name x) = 32 \<and> length (ident_node_label x) = 64 \<and> length (ident_project_name x) = 32 \<and> length (ident_project_version x) = 16 \<and> length (ident_build_date x) = 16 \<and> length (ident_build_time x) = 16 \<and> length (ident_firmware_md5 x) = 16"

lemmas identity_descriptor_defs = enc_identity_descriptor_def dec_identity_descriptor_def wf_identity_descriptor_def

interpretation ident: wire_struct enc_identity_descriptor dec_identity_descriptor wf_identity_descriptor 203
  by unfold_locales (auto simp: identity_descriptor_defs wire_simps)

subsection \<open>espnow file announce t\<close>

record espnow_file_announce_t =
  fann_phase :: u8
  fann_file_size :: u32
  fann_md5 :: bytes
  fann_chunk_size :: u16
  fann_action :: u8
  fann_file_id :: bytes

definition enc_file_announce :: "espnow_file_announce_t \<Rightarrow> bytes" where
  "enc_file_announce x =
     le_bytes 1 (fann_phase x) @
     le_bytes 4 (fann_file_size x) @
     fann_md5 x @
     le_bytes 2 (fann_chunk_size x) @
     le_bytes 1 (fann_action x) @
     fann_file_id x"

definition dec_file_announce :: "bytes \<Rightarrow> espnow_file_announce_t" where
  "dec_file_announce bs =
     \<lparr>fann_phase = le_word (part_of 0 1 bs),
      fann_file_size = le_word (part_of 1 4 bs),
      fann_md5 = part_of 5 16 bs,
      fann_chunk_size = le_word (part_of 21 2 bs),
      fann_action = le_word (part_of 23 1 bs),
      fann_file_id = part_of 24 12 bs\<rparr>"

definition wf_file_announce :: "espnow_file_announce_t \<Rightarrow> bool" where
  "wf_file_announce x \<longleftrightarrow> length (fann_md5 x) = 16 \<and> length (fann_file_id x) = 12"

lemmas file_announce_defs = enc_file_announce_def dec_file_announce_def wf_file_announce_def

interpretation fann: wire_struct enc_file_announce dec_file_announce wf_file_announce 36
  by unfold_locales (auto simp: file_announce_defs wire_simps)

subsection \<open>espnow file abort t\<close>

record espnow_file_abort_t =
  fabort_phase :: u8
  fabort_reason :: u8

definition enc_file_abort :: "espnow_file_abort_t \<Rightarrow> bytes" where
  "enc_file_abort x =
     le_bytes 1 (fabort_phase x) @
     le_bytes 1 (fabort_reason x)"

definition dec_file_abort :: "bytes \<Rightarrow> espnow_file_abort_t" where
  "dec_file_abort bs =
     \<lparr>fabort_phase = le_word (part_of 0 1 bs),
      fabort_reason = le_word (part_of 1 1 bs)\<rparr>"

definition wf_file_abort :: "espnow_file_abort_t \<Rightarrow> bool" where
  "wf_file_abort x \<longleftrightarrow> True"

lemmas file_abort_defs = enc_file_abort_def dec_file_abort_def wf_file_abort_def

interpretation fabort: wire_struct enc_file_abort dec_file_abort wf_file_abort 2
  by unfold_locales (auto simp: file_abort_defs wire_simps)

subsection \<open>espnow file blast complete t\<close>

record espnow_file_blast_complete_t =
  fblast_phase :: u8
  fblast_increment_index :: u16

definition enc_file_blast_complete :: "espnow_file_blast_complete_t \<Rightarrow> bytes" where
  "enc_file_blast_complete x =
     le_bytes 1 (fblast_phase x) @
     le_bytes 2 (fblast_increment_index x)"

definition dec_file_blast_complete :: "bytes \<Rightarrow> espnow_file_blast_complete_t" where
  "dec_file_blast_complete bs =
     \<lparr>fblast_phase = le_word (part_of 0 1 bs),
      fblast_increment_index = le_word (part_of 1 2 bs)\<rparr>"

definition wf_file_blast_complete :: "espnow_file_blast_complete_t \<Rightarrow> bool" where
  "wf_file_blast_complete x \<longleftrightarrow> True"

lemmas file_blast_complete_defs = enc_file_blast_complete_def dec_file_blast_complete_def wf_file_blast_complete_def

interpretation fblast: wire_struct enc_file_blast_complete dec_file_blast_complete wf_file_blast_complete 3
  by unfold_locales (auto simp: file_blast_complete_defs wire_simps)

subsection \<open>espnow file data header t\<close>

record espnow_file_data_header_t =
  fdata_sequence :: u32

definition enc_file_data_header :: "espnow_file_data_header_t \<Rightarrow> bytes" where
  "enc_file_data_header x =
     le_bytes 4 (fdata_sequence x)"

definition dec_file_data_header :: "bytes \<Rightarrow> espnow_file_data_header_t" where
  "dec_file_data_header bs =
     \<lparr>fdata_sequence = le_word (part_of 0 4 bs)\<rparr>"

definition wf_file_data_header :: "espnow_file_data_header_t \<Rightarrow> bool" where
  "wf_file_data_header x \<longleftrightarrow> True"

lemmas file_data_header_defs = enc_file_data_header_def dec_file_data_header_def wf_file_data_header_def

interpretation fdata: wire_struct enc_file_data_header dec_file_data_header wf_file_data_header 4
  by unfold_locales (auto simp: file_data_header_defs wire_simps)

subsection \<open>espnow deauth t\<close>

record espnow_deauth_t =
  deauth_reason :: u8
  deauth_response_to_packet_type :: u8
  deauth_response_to_tx_counter :: u32
  deauth_request_fingerprint :: bytes

definition enc_deauth :: "espnow_deauth_t \<Rightarrow> bytes" where
  "enc_deauth x =
     le_bytes 1 (deauth_reason x) @
     le_bytes 1 (deauth_response_to_packet_type x) @
     le_bytes 4 (deauth_response_to_tx_counter x) @
     deauth_request_fingerprint x"

definition dec_deauth :: "bytes \<Rightarrow> espnow_deauth_t" where
  "dec_deauth bs =
     \<lparr>deauth_reason = le_word (part_of 0 1 bs),
      deauth_response_to_packet_type = le_word (part_of 1 1 bs),
      deauth_response_to_tx_counter = le_word (part_of 2 4 bs),
      deauth_request_fingerprint = part_of 6 4 bs\<rparr>"

definition wf_deauth :: "espnow_deauth_t \<Rightarrow> bool" where
  "wf_deauth x \<longleftrightarrow> length (deauth_request_fingerprint x) = 4"

lemmas deauth_defs = enc_deauth_def dec_deauth_def wf_deauth_def

interpretation deauth: wire_struct enc_deauth dec_deauth wf_deauth 10
  by unfold_locales (auto simp: deauth_defs wire_simps)

section \<open>Facts about the enumerations and the hop byte\<close>

lemma packet_type_of_code [simp]: "packet_type_of (packet_type_code t) = Some t"
  by (cases t) (simp_all add: packet_type_of_def packet_types_def)

lemma packet_type_of_eq_Some: "packet_type_of b = Some t \<longleftrightarrow> b = packet_type_code t"
  by (auto simp: packet_type_of_def find_Some_iff dest: sym)
     (metis packet_type_of_code packet_type_of_def find_Some_iff)

lemma is_valid_packet_type_iff: "is_valid_packet_type b \<longleftrightarrow> packet_type_of b \<noteq> None"
  unfolding is_valid_packet_type_def packet_type_of_def packet_types_def
  by (auto simp: find_None_iff)

end
