(* ===== verification/Wire_Payloads.thy ===== *)
theory Wire_Payloads
  imports Wire_Types
begin

unbundle bit_operations_syntax

text \<open>
  The payload views, parsers and builders of the C++ part of
  \<^verbatim>\<open>esp_tree_common/espnow_types.h\<close>: entity fragments, schema and identity descriptors,
  the replay-counter comparison and the MTU arithmetic.  A view's pointers into the payload are the
  bytes they point at.
\<close>

section \<open>Views and session data\<close>

record EntityPayloadView =
  epv_entity_index :: u8
  epv_flags :: u8
  epv_fragment_index :: u8
  epv_fragment_count :: u8
  epv_value :: bytes

record espnow_fragment_assembly_t =
  fa_entity_index :: u8
  fa_flags :: u8
  fa_fragment_count :: u8
  fa_message_tx_base :: u32
  fa_first_seen_ms :: u32
  fa_last_seen_ms :: u32
  fa_bytes_received :: nat
  fa_lengths :: "u16 list"
  fa_received :: "u8 list"
  fa_data :: bytes
  fa_active :: bool

record SchemaPushView =
  spv_descriptor_type :: u8
  spv_descriptor_index :: u8
  spv_entity_index :: u8
  spv_total_entities :: u8
  spv_entity_type :: u8
  spv_entity_name :: bytes
  spv_entity_unit :: bytes
  spv_entity_id :: bytes
  spv_entity_options :: bytes

record espnow_entity_schema_t =
  es_entity_index :: u8
  es_entity_type :: u8
  es_entity_name :: string
  es_entity_unit :: string
  es_entity_options :: string
  es_entity_id :: string

datatype espnow_log_state_t =
  LOG_NONE | DISCOVERING | JOINING | JOINED | STATE_SYNC | NORMAL | PROVIDING_RELAY

definition abort_reason_to_string :: "u8 \<Rightarrow> string" where
  "abort_reason_to_string reason =
     (if reason = 0 then ''user_abort''
      else if reason = 1 then ''timeout''
      else if reason = 2 then ''session_lost''
      else if reason = 3 then ''send_failure''
      else if reason = 4 then ''flash_error''
      else ''abort_unknown'')"

section \<open>Entity fragments\<close>

text \<open>The tx counter of a message's first fragment: unsigned subtraction, so it may wrap.\<close>

definition fragment_message_tx_base :: "espnow_frame_header_t \<Rightarrow> EntityPayloadView \<Rightarrow> u32" where
  "fragment_message_tx_base header view = fh_tx_counter header - ucast (epv_fragment_index view)"

definition parse_entity_payload :: "bytes \<Rightarrow> EntityPayloadView option" where
  "parse_entity_payload payload =
     (if length payload < 5 then None
      else let header = dec_entity_packet_header payload in
        if eph_fragment_count header = 0 then None
        else if eph_fragment_index header \<ge> eph_fragment_count header then None
        else Some \<lparr>epv_entity_index = eph_entity_index header, epv_flags = eph_flags header,
                   epv_fragment_index = eph_fragment_index header,
                   epv_fragment_count = eph_fragment_count header,
                   epv_value = drop 5 payload\<rparr>)"

text \<open>
  \<^verbatim>\<open>payload.resize(n)\<close> keeps what is there and fills with zeros, which is
  \<open>c_array n payload\<close>; a null value pointer leaves those bytes in place.
\<close>

definition append_entity_payload ::
  "bytes \<Rightarrow> u8 \<Rightarrow> u8 \<Rightarrow> u8 \<Rightarrow> u8 \<Rightarrow> bytes option \<Rightarrow> nat \<Rightarrow> bytes" where
  "append_entity_payload payload entity_index flags fragment_index fragment_count val value_len =
     (let resized = c_array (5 + value_len) payload;
          header = \<lparr>eph_entity_index = entity_index, eph_flags = flags,
                    eph_fragment_index = fragment_index,
                    eph_fragment_count = (if fragment_count = 0 then 1 else fragment_count),
                    eph_value_len = word_of_nat value_len\<rparr>
      in enc_entity_packet_header header @
         (case val of
            Some v \<Rightarrow> if value_len > 0 then take value_len v else drop 5 resized
          | None \<Rightarrow> drop 5 resized))"

section \<open>The replay counter\<close>

text \<open>\<^verbatim>\<open>static_cast<int32_t>(candidate - previous) > 0\<close>: serial-number comparison.\<close>

definition counter_is_newer :: "u32 \<Rightarrow> u32 \<Rightarrow> bool" where
  "counter_is_newer candidate previous \<longleftrightarrow> sint (candidate - previous) > 0"

section \<open>Schema and identity descriptors\<close>

abbreviation (input) ESPNOW_DESCRIPTOR_TYPE_IDENTITY :: u8 where "ESPNOW_DESCRIPTOR_TYPE_IDENTITY \<equiv> 0"

abbreviation (input) ESPNOW_DESCRIPTOR_TYPE_ENTITY :: u8 where "ESPNOW_DESCRIPTOR_TYPE_ENTITY \<equiv> 1"

definition schema_push_payload_len :: nat where
  "schema_push_payload_len = 77"

definition parse_schema_push_payload :: "bytes \<Rightarrow> SchemaPushView option" where
  "parse_schema_push_payload payload =
     (if length payload < 77 then None
      else let schema = dec_schema_push payload in
        Some \<lparr>spv_descriptor_type = spush_descriptor_type schema,
              spv_descriptor_index = spush_descriptor_index schema,
              spv_entity_index = spush_entity_index schema,
              spv_total_entities = spush_total_entities schema,
              spv_entity_type = spush_entity_type schema,
              spv_entity_name = spush_entity_name schema,
              spv_entity_unit = spush_entity_unit schema,
              spv_entity_id = spush_entity_id schema,
              spv_entity_options = drop 77 payload\<rparr>)"

text \<open>The result of the identity parser: the view's fields and the descriptor index.\<close>

definition parse_identity_descriptor_payload ::
  "bytes \<Rightarrow> (espnow_identity_descriptor_t \<times> u8) option" where
  "parse_identity_descriptor_payload payload =
     (if length payload < 205 then None
      else if length payload \<noteq> 205 then None
      else if le_word (part_of 0 1 payload) \<noteq> ESPNOW_DESCRIPTOR_TYPE_IDENTITY then None
      else Some (dec_identity_descriptor (drop 2 payload), le_word (part_of 1 1 payload)))"

text \<open>A null source pointer or a zero length leaves the zeroed array as it is.\<close>

definition field_copy :: "nat \<Rightarrow> bytes option \<Rightarrow> bytes" where
  "field_copy n src = (case src of None \<Rightarrow> replicate n 0 | Some bs \<Rightarrow> c_array n bs)"

definition append_identity_descriptor_payload ::
  "bytes option \<Rightarrow> bytes option \<Rightarrow> u32 \<Rightarrow> bytes option \<Rightarrow> bytes option \<Rightarrow> u8 \<Rightarrow> u16 \<Rightarrow> u32 \<Rightarrow>
   bytes option \<Rightarrow> bytes option \<Rightarrow> bytes option \<Rightarrow> bytes" where
  "append_identity_descriptor_payload esphome_name node_label firmware_epoch project_name
     project_version total_entities max_frame_payload chip_model build_date build_time firmware_md5 =
     le_bytes 1 ESPNOW_DESCRIPTOR_TYPE_IDENTITY @ le_bytes 1 (0 :: u8) @
     enc_identity_descriptor
       \<lparr>ident_esphome_name = field_copy 32 esphome_name,
        ident_node_label = field_copy 64 node_label,
        ident_firmware_epoch = firmware_epoch,
        ident_project_name = field_copy 32 project_name,
        ident_project_version = field_copy 16 project_version,
        ident_total_entities = total_entities,
        ident_max_frame_payload = max_frame_payload,
        ident_chip_model = chip_model,
        ident_build_date = field_copy 16 build_date,
        ident_build_time = field_copy 16 build_time,
        ident_firmware_md5 = field_copy 16 firmware_md5\<rparr>"

definition append_schema_push_payload ::
  "u8 \<Rightarrow> u8 \<Rightarrow> u8 \<Rightarrow> u8 \<Rightarrow> u8 \<Rightarrow> bytes option \<Rightarrow> bytes option \<Rightarrow> bytes option \<Rightarrow>
   bytes option \<Rightarrow> nat \<Rightarrow> bytes" where
  "append_schema_push_payload descriptor_type descriptor_index entity_index total_entities
     entity_type entity_name entity_unit entity_id entity_options entity_options_len =
     enc_schema_push
       \<lparr>spush_descriptor_type = descriptor_type, spush_descriptor_index = descriptor_index,
        spush_entity_index = entity_index, spush_total_entities = total_entities,
        spush_entity_type = entity_type, spush_entity_name = field_copy 32 entity_name,
        spush_entity_unit = field_copy 8 entity_unit, spush_entity_id = field_copy 32 entity_id\<rparr> @
     (case entity_options of
        Some o' \<Rightarrow> take entity_options_len o'
      | None \<Rightarrow> replicate entity_options_len 0)"

section \<open>MTU arithmetic\<close>

definition RETRY_BACKOFF_MS :: "u16 list" where
  "RETRY_BACKOFF_MS = [200, 400, 800, 1600]"

definition espnow_max_plaintext :: "u16 \<Rightarrow> u16" where
  "espnow_max_plaintext max_payload = max_payload - 17 - 8"

definition espnow_max_plaintext_with_parent :: "u16 \<Rightarrow> u16" where
  "espnow_max_plaintext_with_parent max_payload = max_payload - 17 - 6 - 8"

definition espnow_max_entity_fragment :: "u16 \<Rightarrow> u16" where
  "espnow_max_entity_fragment max_payload = espnow_max_plaintext max_payload - 5"

definition espnow_max_entity_fragment_with_parent :: "u16 \<Rightarrow> u16" where
  "espnow_max_entity_fragment_with_parent max_payload =
     espnow_max_plaintext_with_parent max_payload - 5"

definition espnow_max_assembly_bytes :: "u16 \<Rightarrow> u16" where
  "espnow_max_assembly_bytes max_payload = espnow_max_entity_fragment max_payload * 6"

definition espnow_max_total_fragment_bytes :: "u16 \<Rightarrow> u16" where
  "espnow_max_total_fragment_bytes max_payload = espnow_max_assembly_bytes max_payload * 4"

lemmas mtu_defs = espnow_max_plaintext_def espnow_max_plaintext_with_parent_def
  espnow_max_entity_fragment_def espnow_max_entity_fragment_with_parent_def
  espnow_max_assembly_bytes_def espnow_max_total_fragment_bytes_def

section \<open>Lemmas\<close>

lemma length_field_copy [simp]: "length (field_copy n src) = n"
  by (simp add: field_copy_def split: option.splits)

lemma wf_entity_packet_header [simp]: "wf_entity_packet_header h"
  by (simp add: wf_entity_packet_header_def)

lemma length_append_entity_payload:
  assumes "\<And>v. val = Some v \<Longrightarrow> value_len \<le> length v"
  shows "length (append_entity_payload payload ei fl fi fc val value_len) = 5 + value_len"
  using assms by (auto simp: append_entity_payload_def Let_def eph.enc_length split: option.splits)

lemma parse_entity_payload_append:
  assumes "fc \<noteq> 0" "fi < fc" "length v = n"
  shows "parse_entity_payload (append_entity_payload p ei fl fi fc (Some v) n) =
    Some \<lparr>epv_entity_index = ei, epv_flags = fl, epv_fragment_index = fi,
          epv_fragment_count = fc, epv_value = v\<rparr>"
proof -
  have val: "(if 0 < n then take n v else drop 5 (c_array (5 + n) p)) = v"
    using assms(3) by auto
  then show ?thesis
    using assms
    by (simp add: parse_entity_payload_def append_entity_payload_def Let_def eph.dec_enc
        eph.enc_length not_le)
qed

lemma sint_small_pos: "k < 2147483648 \<Longrightarrow> sint (k :: u32) = uint k"
  by (simp add: sint_uint signed_take_bit_eq_if_positive word_less_def bit_iff_odd
      take_bit_eq_mod)

lemma sint_pos_iff: "0 < sint (k :: u32) \<longleftrightarrow> 0 < k \<and> k < 2147483648"
proof (cases "k < 2147483648")
  case True
  then show ?thesis by (simp add: sint_small_pos word_less_def)
next
  case False
  have "\<not> 0 \<le> sint k"
  proof
    assume nonneg: "0 \<le> sint k"
    have "sint k < 2147483648" using sint_lt [of k] by simp
    with nonneg have "uint k = sint k" by (simp add: uint_sint take_bit_eq_mod)
    with \<open>sint k < 2147483648\<close> False show False by (simp add: word_less_def)
  qed
  with False show ?thesis by simp
qed

lemma counter_is_newer_alt:
  "counter_is_newer c p \<longleftrightarrow> 0 < c - p \<and> c - p < 2147483648"
  by (simp add: counter_is_newer_def sint_pos_iff)

lemma counter_is_newer_add:
  "counter_is_newer (p + k) p \<longleftrightarrow> 0 < k \<and> k < 2147483648"
  by (simp add: counter_is_newer_alt)

lemma counter_is_newer_irrefl [simp]: "\<not> counter_is_newer c c"
  by (simp add: counter_is_newer_alt)

lemma word32_half_neg: "0 < k \<Longrightarrow> k < 2147483648 \<Longrightarrow> \<not> - k < (2147483648 :: u32)"
  by (auto simp: word_less_def uint_word_ariths zmod_zminus1_eq_if)

lemma counter_is_newer_asym:
  assumes "counter_is_newer a b"
  shows "\<not> counter_is_newer b a"
proof -
  have "0 < a - b" "a - b < 2147483648"
    using assms by (simp_all add: counter_is_newer_alt)
  then have "\<not> - (a - b) < 2147483648" by (rule word32_half_neg)
  then show ?thesis by (simp add: counter_is_newer_alt)
qed

lemma parse_entity_payload_Some:
  assumes "parse_entity_payload payload = Some view"
  shows "epv_fragment_index view < epv_fragment_count view"
    and "epv_fragment_count view \<noteq> 0"
    and "length (epv_value view) + 5 = length payload"
  using assms by (auto simp: parse_entity_payload_def Let_def split: if_splits)

lemma parse_append_schema_push:
  assumes "length opts = n"
  shows "parse_schema_push_payload (append_schema_push_payload dt di ei te ty nm un idn (Some opts) n) =
    Some \<lparr>spv_descriptor_type = dt, spv_descriptor_index = di, spv_entity_index = ei,
          spv_total_entities = te, spv_entity_type = ty, spv_entity_name = field_copy 32 nm,
          spv_entity_unit = field_copy 8 un, spv_entity_id = field_copy 32 idn,
          spv_entity_options = opts\<rparr>"
proof -
  let ?s = "\<lparr>spush_descriptor_type = dt, spush_descriptor_index = di, spush_entity_index = ei,
    spush_total_entities = te, spush_entity_type = ty, spush_entity_name = field_copy 32 nm,
    spush_entity_unit = field_copy 8 un, spush_entity_id = field_copy 32 idn\<rparr>"
  have wf: "wf_schema_push ?s" by (simp add: wf_schema_push_def)
  show ?thesis
    using assms
    by (simp add: parse_schema_push_payload_def append_schema_push_payload_def Let_def
        spush.dec_enc [OF wf] spush.enc_length [OF wf])
qed

lemma parse_append_identity:
  "parse_identity_descriptor_payload
     (append_identity_descriptor_payload en nl fe pn pv te mp cm bd bt fm) =
   Some (\<lparr>ident_esphome_name = field_copy 32 en, ident_node_label = field_copy 64 nl,
          ident_firmware_epoch = fe, ident_project_name = field_copy 32 pn,
          ident_project_version = field_copy 16 pv, ident_total_entities = te,
          ident_max_frame_payload = mp, ident_chip_model = cm,
          ident_build_date = field_copy 16 bd, ident_build_time = field_copy 16 bt,
          ident_firmware_md5 = field_copy 16 fm\<rparr>, 0)"
  (is "_ = Some (?i, 0)")
proof -
  have wf: "wf_identity_descriptor ?i" by (simp add: wf_identity_descriptor_def)
  show ?thesis
    by (simp add: parse_identity_descriptor_payload_def append_identity_descriptor_payload_def
        ident.dec_enc_nil [OF wf] ident.enc_length [OF wf] wire_simps)
qed

end
