(* ===== verification/Crypto.thy ===== *)
theory Crypto
  imports Wire_Payloads
begin

unbundle bit_operations_syntax

text \<open>
  \<^verbatim>\<open>esp_tree_common/espnow_crypto.cpp\<close>: the AES-256 block function and counter mode the
  firmware carries itself, the HKDF construction, the truncated tags and the module's one piece of
  state, the pre-shared key.  HMAC-SHA256 comes from mbedTLS, BearSSL or OpenSSL; it is the parameter
  \<open>hmac\<close> (key, then data) of the definitions that use it.  Every caller passes a 32-byte
  output array, which \<open>hmac_sha256\<close> fills.
\<close>

type_synonym hmac_fn = "bytes \<Rightarrow> bytes \<Rightarrow> bytes"

definition hmac_sha256 :: "hmac_fn \<Rightarrow> bytes \<Rightarrow> bytes \<Rightarrow> bytes" where
  "hmac_sha256 hmac key data = c_array 32 (hmac key data)"

section \<open>Constant-time comparison\<close>

definition constant_time_equal :: "bytes \<Rightarrow> bytes \<Rightarrow> nat \<Rightarrow> bool" where
  "constant_time_equal a b len =
     (fold (\<lambda>i diff. diff OR (a ! i XOR b ! i)) [0..<len] (0 :: u8) = 0)"

section \<open>AES-256\<close>

definition kAesSBox :: "u8 list" where
  "kAesSBox =
     [0x63,0x7c,0x77,0x7b,0xf2,0x6b,0x6f,0xc5,0x30,0x01,0x67,0x2b,0xfe,0xd7,0xab,0x76,
      0xca,0x82,0xc9,0x7d,0xfa,0x59,0x47,0xf0,0xad,0xd4,0xa2,0xaf,0x9c,0xa4,0x72,0xc0,
      0xb7,0xfd,0x93,0x26,0x36,0x3f,0xf7,0xcc,0x34,0xa5,0xe5,0xf1,0x71,0xd8,0x31,0x15,
      0x04,0xc7,0x23,0xc3,0x18,0x96,0x05,0x9a,0x07,0x12,0x80,0xe2,0xeb,0x27,0xb2,0x75,
      0x09,0x83,0x2c,0x1a,0x1b,0x6e,0x5a,0xa0,0x52,0x3b,0xd6,0xb3,0x29,0xe3,0x2f,0x84,
      0x53,0xd1,0x00,0xed,0x20,0xfc,0xb1,0x5b,0x6a,0xcb,0xbe,0x39,0x4a,0x4c,0x58,0xcf,
      0xd0,0xef,0xaa,0xfb,0x43,0x4d,0x33,0x85,0x45,0xf9,0x02,0x7f,0x50,0x3c,0x9f,0xa8,
      0x51,0xa3,0x40,0x8f,0x92,0x9d,0x38,0xf5,0xbc,0xb6,0xda,0x21,0x10,0xff,0xf3,0xd2,
      0xcd,0x0c,0x13,0xec,0x5f,0x97,0x44,0x17,0xc4,0xa7,0x7e,0x3d,0x64,0x5d,0x19,0x73,
      0x60,0x81,0x4f,0xdc,0x22,0x2a,0x90,0x88,0x46,0xee,0xb8,0x14,0xde,0x5e,0x0b,0xdb,
      0xe0,0x32,0x3a,0x0a,0x49,0x06,0x24,0x5c,0xc2,0xd3,0xac,0x62,0x91,0x95,0xe4,0x79,
      0xe7,0xc8,0x37,0x6d,0x8d,0xd5,0x4e,0xa9,0x6c,0x56,0xf4,0xea,0x65,0x7a,0xae,0x08,
      0xba,0x78,0x25,0x2e,0x1c,0xa6,0xb4,0xc6,0xe8,0xdd,0x74,0x1f,0x4b,0xbd,0x8b,0x8a,
      0x70,0x3e,0xb5,0x66,0x48,0x03,0xf6,0x0e,0x61,0x35,0x57,0xb9,0x86,0xc1,0x1d,0x9e,
      0xe1,0xf8,0x98,0x11,0x69,0xd9,0x8e,0x94,0x9b,0x1e,0x87,0xe9,0xce,0x55,0x28,0xdf,
      0x8c,0xa1,0x89,0x0d,0xbf,0xe6,0x42,0x68,0x41,0x99,0x2d,0x0f,0xb0,0x54,0xbb,0x16]"

definition kAesRcon :: "u8 list" where
  "kAesRcon = [0x00,0x01,0x02,0x04,0x08,0x10,0x20,0x40,0x80,0x1B,0x36,0x6C,0xD8,0xAB,0x4D]"

definition xtime :: "u8 \<Rightarrow> u8" where
  "xtime x = push_bit 1 x XOR ((drop_bit 7 x AND 1) * 0x1B)"

definition sub_word :: "bytes \<Rightarrow> bytes" where
  "sub_word w = [kAesSBox ! unat (w ! 0), kAesSBox ! unat (w ! 1), kAesSBox ! unat (w ! 2),
     kAesSBox ! unat (w ! 3)]"

definition rot_word :: "bytes \<Rightarrow> bytes" where
  "rot_word w = [w ! 1, w ! 2, w ! 3, w ! 0]"

text \<open>
  The key schedule.  The array \<^verbatim>\<open>round_keys\<close> is written front to back, so the list holds
  the bytes generated so far and its length is \<^verbatim>\<open>bytes_generated\<close>.
\<close>

function aes256_key_expand_loop :: "bytes \<Rightarrow> nat \<Rightarrow> bytes" where
  "aes256_key_expand_loop round_keys rcon_iter =
     (if length round_keys < 240 then
        let n = length round_keys;
            temp = part_of (n - 4) 4 round_keys;
            (temp', rcon') =
              (if n mod 32 = 0 then
                 let s = sub_word (rot_word temp)
                 in (s[0 := s ! 0 XOR kAesRcon ! rcon_iter], rcon_iter + 1)
               else if n mod 32 = 16 then (sub_word temp, rcon_iter)
               else (temp, rcon_iter))
        in aes256_key_expand_loop
             (round_keys @ map (\<lambda>i. round_keys ! (n + i - 32) XOR temp' ! i) [0..<4]) rcon'
      else round_keys)"
  by pat_completeness auto
termination
  by (relation "measure (\<lambda>(round_keys, rcon_iter). 240 - length round_keys)") auto

definition aes256_key_expand :: "bytes \<Rightarrow> bytes" where
  "aes256_key_expand key = aes256_key_expand_loop (take 32 key) 1"

definition add_round_key :: "bytes \<Rightarrow> bytes \<Rightarrow> bytes" where
  "add_round_key state round_key = map (\<lambda>i. state ! i XOR round_key ! i) [0..<16]"

definition sub_bytes :: "bytes \<Rightarrow> bytes" where
  "sub_bytes state = map (\<lambda>i. kAesSBox ! unat (state ! i)) [0..<16]"

definition shift_rows :: "bytes \<Rightarrow> bytes" where
  "shift_rows t =
     [t ! 0, t ! 5, t ! 10, t ! 15, t ! 4, t ! 9, t ! 14, t ! 3,
      t ! 8, t ! 13, t ! 2, t ! 7, t ! 12, t ! 1, t ! 6, t ! 11]"

definition mix_column :: "u8 \<Rightarrow> u8 \<Rightarrow> u8 \<Rightarrow> u8 \<Rightarrow> bytes" where
  "mix_column a0 a1 a2 a3 =
     (let t = a0 XOR a1 XOR a2 XOR a3; u = a0 in
      [a0 XOR (t XOR xtime (a0 XOR a1)),
       a1 XOR (t XOR xtime (a1 XOR a2)),
       a2 XOR (t XOR xtime (a2 XOR a3)),
       a3 XOR (t XOR xtime (a3 XOR u))])"

definition mix_columns :: "bytes \<Rightarrow> bytes" where
  "mix_columns state = concat (map (\<lambda>i.
     mix_column (state ! (4 * i)) (state ! (4 * i + 1)) (state ! (4 * i + 2)) (state ! (4 * i + 3)))
     [0..<4])"

definition aes256_encrypt_block :: "bytes \<Rightarrow> bytes \<Rightarrow> bytes" where
  "aes256_encrypt_block round_keys input =
     (let s0 = add_round_key input round_keys;
          s1 = fold (\<lambda>round s. add_round_key (mix_columns (shift_rows (sub_bytes s)))
                                 (drop (round * 16) round_keys)) [1..<14] s0
      in add_round_key (shift_rows (sub_bytes s1)) (drop 224 round_keys))"

section \<open>Counter mode\<close>

text \<open>The loop runs from byte 15 down to byte 0 and stops at the first byte that does not wrap.\<close>

fun increment_rev :: "bytes \<Rightarrow> bytes" where
  "increment_rev [] = []"
| "increment_rev (b # bs) = (if b + 1 \<noteq> 0 then (b + 1) # bs else (b + 1) # increment_rev bs)"

definition increment_counter :: "bytes \<Rightarrow> bytes" where
  "increment_counter counter = rev (increment_rev (rev counter))"

definition initial_counter :: "u32 \<Rightarrow> bytes" where
  "initial_counter tx_counter =
     [ucast (tx_counter AND 0xFF), ucast (drop_bit 8 tx_counter AND 0xFF),
      ucast (drop_bit 16 tx_counter AND 0xFF), ucast (drop_bit 24 tx_counter AND 0xFF)] @
     replicate 12 0"

function ctr_loop :: "bytes \<Rightarrow> bytes \<Rightarrow> bytes \<Rightarrow> bytes" where
  "ctr_loop round_keys counter input =
     (if input \<noteq> [] then
        let keystream = aes256_encrypt_block round_keys counter;
            block_len = min (length input) 16
        in map (\<lambda>i. input ! i XOR keystream ! i) [0..<block_len] @
           ctr_loop round_keys (increment_counter counter) (drop block_len input)
      else [])"
  by pat_completeness auto
termination
  by (relation "measure (\<lambda>(round_keys, counter, input). length input)") auto

definition aes256_ctr_crypt :: "bytes \<Rightarrow> u32 \<Rightarrow> bytes \<Rightarrow> bytes" where
  "aes256_ctr_crypt key tx_counter input =
     ctr_loop (aes256_key_expand key) (initial_counter tx_counter) input"

declare aes256_key_expand_loop.simps [simp del] ctr_loop.simps [simp del]

section \<open>HKDF\<close>

definition hkdf_extract :: "hmac_fn \<Rightarrow> bytes \<Rightarrow> bytes \<Rightarrow> bytes" where
  "hkdf_extract hmac salt ikm = hmac_sha256 hmac salt ikm"

text \<open>
  One iteration per 32 bytes of output: \<open>t\<close> is the previous block, \<open>counter\<close> the 8-bit block
  number.  The loop's \<^verbatim>\<open>offset\<close> is the length of the output so far.
\<close>

function hkdf_expand_loop :: "hmac_fn \<Rightarrow> bytes \<Rightarrow> bytes \<Rightarrow> nat \<Rightarrow> bytes \<Rightarrow> u8 \<Rightarrow> bytes \<Rightarrow> bytes" where
  "hkdf_expand_loop hmac prk info out_len t counter out =
     (if length out < out_len then
        let counter' = counter + 1;
            block = (if counter' = 1 then info else t @ info) @ [counter'];
            t' = hmac_sha256 hmac prk block;
            copy = (if length out + 32 \<le> out_len then 32 else out_len - length out)
        in hkdf_expand_loop hmac prk info out_len t' counter' (out @ take copy t')
      else out)"
  by pat_completeness auto
termination
  by (relation "measure (\<lambda>(hmac, prk, info, out_len, t, counter, out). out_len - length out)")
     (auto simp: hmac_sha256_def)

declare hkdf_expand_loop.simps [simp del]

definition hkdf_expand :: "hmac_fn \<Rightarrow> bytes \<Rightarrow> bytes \<Rightarrow> nat \<Rightarrow> bytes" where
  "hkdf_expand hmac prk info out_len = hkdf_expand_loop hmac prk info out_len [] 0 []"

definition kHkdfSalt :: bytes where
  "kHkdfSalt = replicate 32 0"

section \<open>The pre-shared key\<close>

record crypto_state =
  g_psk :: bytes
  g_psk_set :: bool

definition hex_nibble :: "char \<Rightarrow> nat option" where
  "hex_nibble c =
     (let n = of_char c :: nat in
      if 97 \<le> n \<and> n \<le> 102 then Some (n - 97 + 10)
      else if 65 \<le> n \<and> n \<le> 70 then Some (n - 65 + 10)
      else if 48 \<le> n \<and> n \<le> 57 then Some (n - 48)
      else None)"

text \<open>\<open>None\<close> is the return value -1: an odd length or a character that is no hex digit.\<close>

fun hex_to_bytes :: "string \<Rightarrow> bytes option" where
  "hex_to_bytes [] = Some []"
| "hex_to_bytes [_] = None"
| "hex_to_bytes (hi # lo # rest) =
     (case (hex_nibble hi, hex_nibble lo) of
        (Some h, Some l) \<Rightarrow> map_option ((#) (word_of_nat (16 * h + l))) (hex_to_bytes rest)
      | _ \<Rightarrow> None)"

definition derive_psk_from_string :: "hmac_fn \<Rightarrow> string \<Rightarrow> bytes" where
  "derive_psk_from_string hmac input =
     (let prk = hkdf_extract hmac kHkdfSalt (bytes_of_string input)
      in hkdf_expand hmac prk (bytes_of_string ''esp-tree-psk'') 32)"

definition espnow_crypto_init :: "hmac_fn \<Rightarrow> string \<Rightarrow> int \<times> crypto_state" where
  "espnow_crypto_init hmac psk_input =
     (case (if length psk_input = 64 then hex_to_bytes psk_input else None) of
        Some key \<Rightarrow> (0, \<lparr>g_psk = key, g_psk_set = True\<rparr>)
      | None \<Rightarrow>
          if length psk_input = 0 then (-1, \<lparr>g_psk = replicate 32 0, g_psk_set = False\<rparr>)
          else (0, \<lparr>g_psk = derive_psk_from_string hmac psk_input, g_psk_set = True\<rparr>))"

section \<open>Session keys and tags\<close>

definition espnow_crypto_derive_session_key ::
  "hmac_fn \<Rightarrow> crypto_state \<Rightarrow> bytes \<Rightarrow> bytes \<Rightarrow> bytes" where
  "espnow_crypto_derive_session_key hmac g bridge_nonce remote_nonce =
     (if \<not> g_psk_set g then replicate 32 0
      else let info = take 16 bridge_nonce @ take 16 remote_nonce;
               prk = hkdf_extract hmac kHkdfSalt (g_psk g)
           in hkdf_expand hmac prk info 32)"

text \<open>The authenticated data: header bytes 2 to 12 (packet type, leaf MAC, tx counter), then the payload.\<close>

definition tag_data :: "bytes \<Rightarrow> bytes \<Rightarrow> bytes" where
  "tag_data header_bytes payload = part_of 2 11 header_bytes @ payload"

definition espnow_crypto_psk_tag :: "hmac_fn \<Rightarrow> crypto_state \<Rightarrow> bytes \<Rightarrow> bytes \<Rightarrow> bytes" where
  "espnow_crypto_psk_tag hmac g header_bytes payload =
     (if \<not> g_psk_set g then replicate ESPNOW_PSK_TAG_LEN 0
      else take ESPNOW_PSK_TAG_LEN (hmac_sha256 hmac (g_psk g) (tag_data header_bytes payload)))"

definition espnow_crypto_verify_psk_tag ::
  "hmac_fn \<Rightarrow> crypto_state \<Rightarrow> bytes \<Rightarrow> bytes \<Rightarrow> bytes \<Rightarrow> bool" where
  "espnow_crypto_verify_psk_tag hmac g header_bytes payload received_psk_tag =
     (if \<not> g_psk_set g then False
      else constant_time_equal (espnow_crypto_psk_tag hmac g header_bytes payload) received_psk_tag
             ESPNOW_PSK_TAG_LEN)"

definition espnow_crypto_session_tag :: "hmac_fn \<Rightarrow> bytes \<Rightarrow> bytes \<Rightarrow> bytes \<Rightarrow> bytes" where
  "espnow_crypto_session_tag hmac session_key header_bytes ciphertext =
     take ESPNOW_SESSION_TAG_LEN (hmac_sha256 hmac session_key (tag_data header_bytes ciphertext))"

definition espnow_crypto_verify_session_tag ::
  "hmac_fn \<Rightarrow> bytes \<Rightarrow> bytes \<Rightarrow> bytes \<Rightarrow> bytes \<Rightarrow> bool" where
  "espnow_crypto_verify_session_tag hmac session_key header_bytes ciphertext received_session_tag =
     constant_time_equal (espnow_crypto_session_tag hmac session_key header_bytes ciphertext)
       received_session_tag ESPNOW_SESSION_TAG_LEN"

text \<open>\<open>None\<close> is the return value -1: no pre-shared key has been set.\<close>

definition espnow_crypto_crypt :: "crypto_state \<Rightarrow> bytes \<Rightarrow> u32 \<Rightarrow> bytes \<Rightarrow> bytes option" where
  "espnow_crypto_crypt g session_key tx_counter payload_in =
     (if \<not> g_psk_set g then None else Some (aes256_ctr_crypt session_key tx_counter payload_in))"

end
