(* ===== verification/Crypto_Laws.thy ===== *)
theory Crypto_Laws
  imports Crypto
begin

unbundle bit_operations_syntax

text \<open>
  What the cryptographic core guarantees, given any HMAC: the constant-time comparison decides
  equality, counter mode XORs the plaintext with the keystream of consecutive counter blocks and is
  its own inverse, no two counter blocks of a session coincide, HKDF-Expand is the construction of RFC
  5869, MixColumns is the matrix product of FIPS 197, and the truncated tags cover exactly the
  authenticated header bytes and the payload.
\<close>

section \<open>Comparison and counter mode\<close>

lemma xor_zero_iff: "(a :: 'a::len word) XOR b = 0 \<longleftrightarrow> a = b"
  by (auto simp: bit_eq_iff bit_xor_iff)

lemma fold_or_zero:
  "fold (\<lambda>i diff. diff OR f i) is (d :: 'a::len word) = 0 \<longleftrightarrow> d = 0 \<and> (\<forall>i\<in>set is. f i = 0)"
proof (induction "is" arbitrary: d)
  case (Cons i "is")
  have "d OR f i = 0 \<longleftrightarrow> d = 0 \<and> f i = 0" by (auto simp: bit_eq_iff bit_or_iff)
  with Cons.IH [of "d OR f i"] show ?case by auto
qed simp

lemma constant_time_equal_iff:
  assumes "len \<le> length a" "len \<le> length b"
  shows "constant_time_equal a b len \<longleftrightarrow> take len a = take len b"
proof -
  have "constant_time_equal a b len \<longleftrightarrow> (\<forall>i<len. a ! i XOR b ! i = 0)"
    by (auto simp: constant_time_equal_def fold_or_zero)
  also have "\<dots> \<longleftrightarrow> (\<forall>i<len. a ! i = b ! i)" by (auto simp: xor_zero_iff)
  also have "\<dots> \<longleftrightarrow> take len a = take len b" using assms by (auto simp: list_eq_iff_nth_eq)
  finally show ?thesis .
qed

lemma length_add_round_key: "length (add_round_key s k) = 16"
  by (simp add: add_round_key_def)

lemma length_encrypt: "length (aes256_encrypt_block rk x) = 16"
  by (simp add: aes256_encrypt_block_def add_round_key_def Let_def)

lemma length_ctr_loop: "length (ctr_loop rk c xs) = length xs"
  apply (induction rk c xs rule: ctr_loop.induct)
  apply (subst ctr_loop.simps)
  apply (simp add: Let_def)
  done

lemma ctr_loop_involution: "ctr_loop rk c (ctr_loop rk c xs) = xs"
proof (induction rk c xs rule: ctr_loop.induct)
  case (1 rk c xs)
  show ?case
  proof (cases "xs = []")
    case True then show ?thesis by (simp add: ctr_loop.simps)
  next
    case False
    let ?n = "min (length xs) 16"
    let ?k = "aes256_encrypt_block rk c"
    let ?h = "map (\<lambda>i. xs ! i XOR ?k ! i) [0..<?n]"
    let ?t = "ctr_loop rk (increment_counter c) (drop ?n xs)"
    have e: "ctr_loop rk c xs = ?h @ ?t" using False by (subst ctr_loop.simps) (simp add: Let_def)
    have ne: "?h @ ?t \<noteq> []" using False by simp
    have len: "min (length (?h @ ?t)) 16 = ?n" by (simp add: length_ctr_loop)
    have "ctr_loop rk c (?h @ ?t) =
       map (\<lambda>i. (?h @ ?t) ! i XOR ?k ! i) [0..<?n] @ ctr_loop rk (increment_counter c) (drop ?n (?h @ ?t))"
      using ne len by (subst ctr_loop.simps) (simp add: Let_def)
    also have "map (\<lambda>i. (?h @ ?t) ! i XOR ?k ! i) [0..<?n] = take ?n xs"
      by (intro nth_equalityI) (simp_all add: nth_append xor.assoc)
    also have "drop ?n (?h @ ?t) = ?t" by simp
    also have "ctr_loop rk (increment_counter c) ?t = drop ?n xs" using 1 [OF False] by (simp add: Let_def)
    finally show ?thesis by (simp add: e)
  qed
qed

lemma ctr_loop_nth:
  "i < length xs \<Longrightarrow>
   ctr_loop rk c xs ! i =
     xs ! i XOR aes256_encrypt_block rk ((increment_counter ^^ (i div 16)) c) ! (i mod 16)"
proof (induction rk c xs arbitrary: i rule: ctr_loop.induct)
  case (1 rk c xs)
  then have ne: "xs \<noteq> []" by auto
  let ?n = "min (length xs) 16"
  let ?h = "map (\<lambda>i. xs ! i XOR aes256_encrypt_block rk c ! i) [0..<?n]"
  have e: "ctr_loop rk c xs = ?h @ ctr_loop rk (increment_counter c) (drop ?n xs)"
    using ne by (subst ctr_loop.simps) (simp add: Let_def)
  show ?case
  proof (cases "i < ?n")
    case True
    then show ?thesis by (simp add: e nth_append)
  next
    case False
    then have n: "?n = 16" and i: "16 \<le> i" using 1(2) by auto
    have "i - 16 < length (drop ?n xs)" using 1(2) i n by simp
    from 1(1) [OF ne refl refl this]
    have "ctr_loop rk (increment_counter c) (drop 16 xs) ! (i - 16) =
      drop 16 xs ! (i - 16) XOR
      aes256_encrypt_block rk ((increment_counter ^^ ((i - 16) div 16)) (increment_counter c)) ! ((i - 16) mod 16)"
      by (simp only: n)
    moreover have "(i - 16) div 16 = i div 16 - 1" "(i - 16) mod 16 = i mod 16" "0 < i div 16"
      using i by (simp_all add: le_div_geq le_mod_geq)
    moreover have "(increment_counter ^^ (i div 16 - 1)) (increment_counter c) = (increment_counter ^^ (i div 16)) c"
      using \<open>0 < i div 16\<close> by (metis Suc_diff_1 funpow_swap1 funpow.simps(2) comp_apply)
    ultimately show ?thesis using e i n 1(2) by (simp add: nth_append)
  qed
qed

text \<open>The counter block as a big-endian number.\<close>

fun le_nat :: "bytes \<Rightarrow> nat" where
  "le_nat [] = 0"
| "le_nat (b # bs) = unat b + 256 * le_nat bs"

definition be_nat :: "bytes \<Rightarrow> nat" where
  "be_nat bs = le_nat (rev bs)"

lemma le_nat_less: "le_nat bs < 256 ^ length bs"
proof (induction bs)
  case (Cons b bs)
  have "unat b < 256" using unsigned_less [of b] by simp
  with Cons show ?case by simp
qed simp

lemma le_nat_append: "le_nat (xs @ ys) = le_nat xs + 256 ^ length xs * le_nat ys"
  by (induction xs) (auto simp: algebra_simps)

lemma le_nat_replicate_0: "le_nat (replicate n 0) = 0"
  by (induction n) auto

lemma le_nat_inject: "length xs = length ys \<Longrightarrow> le_nat xs = le_nat ys \<Longrightarrow> xs = ys"
proof (induction xs ys rule: list_induct2)
  case (Cons x xs y ys)
  have u: "unat x < 256" "unat y < 256" using unsigned_less [of x] unsigned_less [of y] by simp_all
  have "unat x + 256 * le_nat xs = unat y + 256 * le_nat ys" using Cons.prems by simp
  then have "(unat x + 256 * le_nat xs) mod 256 = (unat y + 256 * le_nat ys) mod 256"
    "(unat x + 256 * le_nat xs) div 256 = (unat y + 256 * le_nat ys) div 256" by simp_all
  then have "unat x = unat y" "le_nat xs = le_nat ys" using u by simp_all
  with Cons.IH show ?case by (simp add: word_unat_eq_iff)
qed simp

lemma length_increment_rev: "length (increment_rev bs) = length bs"
  by (induction bs) auto

lemma le_nat_increment_rev: "le_nat (increment_rev bs) = (le_nat bs + 1) mod 256 ^ length bs"
proof (induction bs)
  case (Cons b bs)
  show ?case
  proof (cases "b + 1 = 0")
    case True
    then have "b = - 1" by (simp add: eq_neg_iff_add_eq_0)
    then have b: "unat b = 255" by (simp add: unsigned_minus_1_eq_mask mask_eq_exp_minus_1)
    show ?thesis using True b Cons.IH by (simp add: mult_mod_right)
  next
    case False
    have u: "unat (b + 1) = unat b + 1"
      using False unatSuc [of b] by (simp add: add.commute)
    have "le_nat (b # bs) + 1 < 256 ^ length (b # bs)"
    proof -
      have "le_nat ((b + 1) # bs) < 256 ^ length ((b + 1) # bs)" by (rule le_nat_less)
      with u show ?thesis by simp
    qed
    then show ?thesis using False u by simp
  qed
qed simp

lemma length_increment_counter [simp]: "length (increment_counter c) = length c"
  by (simp add: increment_counter_def length_increment_rev)

lemma be_nat_increment_counter: "be_nat (increment_counter c) = (be_nat c + 1) mod 256 ^ length c"
  by (simp add: be_nat_def increment_counter_def le_nat_increment_rev)

lemma length_counter_block [simp]: "length ((increment_counter ^^ j) c) = length c"
  by (induction j) auto

lemma be_nat_counter_block:
  "be_nat ((increment_counter ^^ j) c) = (be_nat c + j) mod 256 ^ length c"
proof (induction j)
  case 0
  show ?case using le_nat_less [of "rev c"] by (simp add: be_nat_def)
next
  case (Suc j)
  then show ?case by (simp add: be_nat_increment_counter mod_Suc_eq)
qed

lemma initial_counter_eq: "initial_counter tx = le_bytes 4 tx @ replicate 12 0"
proof -
  have byte: "ucast (drop_bit k tx AND 0xFF) = (ucast (drop_bit k tx) :: u8)" for k
  proof -
    have "(0xFF :: u32) = mask 8" by (simp add: mask_eq_exp_minus_1)
    then have "(drop_bit k tx AND 0xFF) = take_bit 8 (drop_bit k tx)" by (simp only: take_bit_eq_mask)
    then show ?thesis by (intro bit_word_eqI) (simp add: bit_ucast_iff bit_take_bit_iff)
  qed
  have 0: "ucast (tx AND 0xFF) = (ucast tx :: u8)" using byte [of 0] by simp
  show ?thesis by (simp add: initial_counter_def byte 0 numeral_eq_Suc le_bytes.simps)
qed

lemma be_nat_initial_counter: "be_nat (initial_counter tx) = 256 ^ 12 * be_nat (le_bytes 4 tx)"
  by (simp add: be_nat_def initial_counter_eq le_nat_append le_nat_replicate_0)

lemma be_nat_session_block:
  assumes "j < 256 ^ 12"
  shows "be_nat ((increment_counter ^^ j) (initial_counter tx)) = 256 ^ 12 * be_nat (le_bytes 4 tx) + j"
proof -
  have "be_nat (le_bytes 4 tx) < 256 ^ 4"
    using le_nat_less [of "rev (le_bytes 4 tx)"] by (simp add: be_nat_def)
  then have "256 ^ 12 * be_nat (le_bytes 4 tx) + j < 256 ^ 16" using assms by simp
  moreover have "length (initial_counter tx) = 16" by (simp add: initial_counter_eq)
  ultimately show ?thesis
    by (simp only: be_nat_counter_block be_nat_initial_counter mod_less)
qed

lemma session_blocks_distinct:
  assumes "j < 256 ^ 12" "j' < 256 ^ 12"
    and eq: "(increment_counter ^^ j) (initial_counter tx) = (increment_counter ^^ j') (initial_counter tx')"
  shows "tx = tx' \<and> j = j'"
proof -
  let ?K = "be_nat (le_bytes 4 tx)" and ?K' = "be_nat (le_bytes 4 tx')"
  have e: "256 ^ 12 * ?K + j = 256 ^ 12 * ?K' + j'"
    using arg_cong [OF eq, of be_nat] be_nat_session_block [OF assms(1)] be_nat_session_block [OF assms(2)]
    by simp
  then have "(256 ^ 12 * ?K + j) mod 256 ^ 12 = (256 ^ 12 * ?K' + j') mod 256 ^ 12"
    "(256 ^ 12 * ?K + j) div 256 ^ 12 = (256 ^ 12 * ?K' + j') div 256 ^ 12" by simp_all
  then have j: "j = j'" and K: "?K = ?K'" using assms(1,2) by simp_all
  have "rev (le_bytes 4 tx) = rev (le_bytes 4 tx')"
    using K by (intro le_nat_inject) (simp_all add: be_nat_def)
  then have "le_word (le_bytes 4 tx) = (le_word (le_bytes 4 tx') :: u32)" by simp
  with j show ?thesis by simp
qed

section \<open>The stream-cipher interface\<close>

text \<open>
  What the protocol relies on when it encrypts a payload in place: the length is kept and applying
  the cipher twice with the same key and counter gives the payload back.
\<close>

locale stream_cipher =
  fixes crypt :: "'key \<Rightarrow> 'ctr \<Rightarrow> 'a list \<Rightarrow> 'a list"
  assumes length_crypt: "length (crypt k t xs) = length xs"
    and crypt_crypt: "crypt k t (crypt k t xs) = xs"
begin

lemma crypt_inject: "crypt k t xs = crypt k t ys \<longleftrightarrow> xs = ys"
  by (metis crypt_crypt)

lemma crypt_eq_iff: "crypt k t xs = ys \<longleftrightarrow> xs = crypt k t ys"
  by (metis crypt_crypt)

lemma crypt_nil_iff: "crypt k t xs = [] \<longleftrightarrow> xs = []"
  by (metis length_crypt length_0_conv)

end

interpretation aes: stream_cipher aes256_ctr_crypt
  by unfold_locales (simp_all add: aes256_ctr_crypt_def length_ctr_loop ctr_loop_involution)

section \<open>HKDF\<close>

lemma length_hmac_sha256 [simp]: "length (hmac_sha256 hmac k d) = 32"
  by (simp add: hmac_sha256_def)

text \<open>The blocks \<open>T(1), T(2), ...\<close> of RFC 5869.\<close>

fun rfc5869_T :: "hmac_fn \<Rightarrow> bytes \<Rightarrow> bytes \<Rightarrow> nat \<Rightarrow> bytes" where
  "rfc5869_T hmac prk info 0 = []"
| "rfc5869_T hmac prk info (Suc n) =
     hmac_sha256 hmac prk (rfc5869_T hmac prk info n @ info @ [word_of_nat (Suc n)])"

definition rfc5869_okm :: "hmac_fn \<Rightarrow> bytes \<Rightarrow> bytes \<Rightarrow> nat \<Rightarrow> bytes" where
  "rfc5869_okm hmac prk info n = concat (map (rfc5869_T hmac prk info) [1..<Suc n])"

lemma okm_Suc: "rfc5869_okm hmac prk info (Suc n) = rfc5869_okm hmac prk info n @ rfc5869_T hmac prk info (Suc n)"
  by (simp add: rfc5869_okm_def)

lemma length_okm: "length (rfc5869_okm hmac prk info n) = 32 * n"
  by (induction n) (simp_all add: rfc5869_okm_def)

lemma hkdf_expand_loop_rfc:
  assumes "out_len \<le> 255 * 32" "32 * n < out_len"
  shows "hkdf_expand_loop hmac prk info out_len (rfc5869_T hmac prk info n) (word_of_nat n)
           (rfc5869_okm hmac prk info n) = take out_len (rfc5869_okm hmac prk info ((out_len + 31) div 32))"
  using assms(2)
proof (induction "out_len - 32 * n" arbitrary: n rule: less_induct)
  case less
  let ?T = "rfc5869_T hmac prk info" and ?O = "rfc5869_okm hmac prk info"
  have n: "n < 255" using less.prems assms(1) by simp
  have c: "(word_of_nat n + 1 :: u8) = word_of_nat (Suc n)" by simp
  have c1: "(word_of_nat (Suc n) :: u8) = 1 \<longleftrightarrow> n = 0"
  proof -
    have "unat (word_of_nat (Suc n) :: u8) = Suc n"
      using n by (simp only: unat_of_nat) (simp add: take_bit_eq_mod)
    then show ?thesis by (metis One_nat_def nat.inject of_nat_1 unsigned_1)
  qed
  have block: "(if n = 0 then info else ?T n @ info) @ [word_of_nat (Suc n)] = ?T n @ info @ [word_of_nat (Suc n)]"
    by simp
  let ?copy = "if 32 * n + 32 \<le> out_len then 32 else out_len - 32 * n"
  have step: "hkdf_expand_loop hmac prk info out_len (?T n) (word_of_nat n) (?O n) =
    hkdf_expand_loop hmac prk info out_len (?T (Suc n)) (word_of_nat (Suc n)) (?O n @ take ?copy (?T (Suc n)))"
    using less.prems
    by (subst hkdf_expand_loop.simps) (simp only: Let_def length_okm if_True c c1 block rfc5869_T.simps)
  show ?case
  proof (cases "32 * Suc n < out_len")
    case True
    then have "?O n @ take ?copy (?T (Suc n)) = ?O (Suc n)" by (simp add: okm_Suc)
    with step less.hyps [of "Suc n"] True less.prems show ?thesis by simp
  next
    case False
    then have N: "(out_len + 31) div 32 = Suc n" using less.prems by simp
    have "take ?copy (?T (Suc n)) = take (out_len - 32 * n) (?T (Suc n))" using False by auto
    then have out: "?O n @ take ?copy (?T (Suc n)) = take out_len (?O (Suc n))"
      using less.prems by (simp add: okm_Suc length_okm)
    have "\<not> length (take out_len (?O (Suc n))) < out_len" using False by (simp add: length_okm)
    then show ?thesis unfolding step out N by (subst hkdf_expand_loop.simps) simp
  qed
qed

lemma hkdf_expand_rfc5869:
  assumes "out_len \<le> 255 * 32"
  shows "hkdf_expand hmac prk info out_len = take out_len (rfc5869_okm hmac prk info ((out_len + 31) div 32))"
proof (cases "out_len = 0")
  case True
  then show ?thesis by (simp add: hkdf_expand_def hkdf_expand_loop.simps)
next
  case False
  then show ?thesis
    using hkdf_expand_loop_rfc [OF assms, of 0] by (simp add: hkdf_expand_def rfc5869_okm_def)
qed

lemma hkdf_expand_32: "hkdf_expand hmac prk info 32 = hmac_sha256 hmac prk (info @ [1])"
proof -
  have "rfc5869_okm hmac prk info 1 = hmac_sha256 hmac prk (info @ [1])"
    using rfc5869_T.simps(2) [of hmac prk info 0] by (simp add: rfc5869_okm_def)
  then show ?thesis using hkdf_expand_rfc5869 [of 32 hmac prk info] by simp
qed

section \<open>MixColumns\<close>

lemma xtime_alt: "xtime x = push_bit 1 x XOR (if bit x 7 then 0x1B else 0)"
proof -
  have "drop_bit 7 x AND 1 = (if bit x 7 then 1 else 0)"
    by (simp add: bit_iff_odd_drop_bit and_one_eq odd_iff_mod_2_eq_one even_iff_mod_2_eq_zero)
  then show ?thesis by (simp add: xtime_def)
qed

lemma xtime_xor: "xtime (x XOR y) = xtime x XOR xtime y"
  by (rule bit_word_eqI) (auto simp: xtime_alt bit_xor_iff bit_push_bit_iff)

text \<open>The product with the circulant matrix (2 3 1 1) over GF(2^8), as FIPS 197 gives it.\<close>

definition fips_mix_column :: "u8 \<Rightarrow> u8 \<Rightarrow> u8 \<Rightarrow> u8 \<Rightarrow> bytes" where
  "fips_mix_column a b c d =
     (let two = xtime; three = (\<lambda>x. xtime x XOR x) in
      [two a XOR three b XOR c XOR d, a XOR two b XOR three c XOR d,
       a XOR b XOR two c XOR three d, three a XOR b XOR c XOR two d])"

lemma mix_column_fips: "mix_column a b c d = fips_mix_column a b c d"
  by (simp add: mix_column_def fips_mix_column_def Let_def xtime_xor ac_simps)

section \<open>The key schedule\<close>

lemma length_key_expand_loop:
  "length rk \<le> 240 \<Longrightarrow> length rk mod 4 = 0 \<Longrightarrow> length (aes256_key_expand_loop rk r) = 240"
proof (induction rk r rule: aes256_key_expand_loop.induct)
  case (1 rk r)
  show ?case
  proof (cases "length rk < 240")
    case True
    have "length rk + 4 \<le> 240" "(length rk + 4) mod 4 = 0" using True 1(3) by presburger+
    with 1(1) [OF True refl refl] True show ?thesis
      by (subst aes256_key_expand_loop.simps) (auto simp: Let_def split: prod.split if_splits)
  next
    case False
    with 1(2) show ?thesis by (subst aes256_key_expand_loop.simps) simp
  qed
qed

section \<open>The pre-shared key\<close>

lemma length_hex_to_bytes: "hex_to_bytes s = Some k \<Longrightarrow> 2 * length k = length s"
  by (induction s arbitrary: k rule: hex_to_bytes.induct) (auto split: option.splits)

lemma length_derive_psk [simp]: "length (derive_psk_from_string hmac s) = 32"
  by (simp add: derive_psk_from_string_def Let_def hkdf_expand_32)

lemma length_session_key [simp]: "length (espnow_crypto_derive_session_key hmac g bn rn) = 32"
  by (simp add: espnow_crypto_derive_session_key_def Let_def hkdf_expand_32)

section \<open>Tags\<close>

lemma length_psk_tag [simp]: "length (espnow_crypto_psk_tag hmac g h p) = 4"
  by (simp add: espnow_crypto_psk_tag_def)

lemma length_session_tag [simp]: "length (espnow_crypto_session_tag hmac k h p) = 8"
  by (simp add: espnow_crypto_session_tag_def)

text \<open>
  The contract of both authentication tags: a received tag is accepted exactly when it is
  the tag computed from the key, and that tag depends on the header only through the
  authenticated bytes 2 to 12, so that a relay may rewrite the hop byte and the protocol byte.
\<close>

locale tag_scheme =
  fixes tag :: "'key \<Rightarrow> bytes \<Rightarrow> bytes \<Rightarrow> bytes"
    and verify :: "'key \<Rightarrow> bytes \<Rightarrow> bytes \<Rightarrow> bytes \<Rightarrow> bool"
    and keyed :: "'key \<Rightarrow> bool"
    and tag_len :: nat
  assumes verify_iff: "keyed k \<Longrightarrow> length r = tag_len \<Longrightarrow> verify k h p r \<longleftrightarrow> r = tag k h p"
    and tag_cong: "part_of 2 11 h = part_of 2 11 h' \<Longrightarrow> tag k h p = tag k h' p"
    and length_tag: "length (tag k h p) = tag_len"
begin

lemma verify_own: "keyed k \<Longrightarrow> verify k h p (tag k h p)"
  by (simp add: verify_iff length_tag)

lemma verify_relayed:
  "keyed k \<Longrightarrow> part_of 2 11 h = part_of 2 11 h' \<Longrightarrow> verify k h' p (tag k h p)"
  using tag_cong [of h h' k p] by (simp add: verify_iff length_tag)

lemma verify_unique:
  "keyed k \<Longrightarrow> length r = tag_len \<Longrightarrow> length r' = tag_len \<Longrightarrow> verify k h p r \<Longrightarrow> verify k h p r' \<Longrightarrow> r = r'"
  by (simp add: verify_iff)

end

interpretation psk: tag_scheme "espnow_crypto_psk_tag hmac" "espnow_crypto_verify_psk_tag hmac" g_psk_set 4
  for hmac
  by unfold_locales
     (auto simp: espnow_crypto_verify_psk_tag_def constant_time_equal_iff espnow_crypto_psk_tag_def tag_data_def)

interpretation sess: tag_scheme "espnow_crypto_session_tag hmac" "espnow_crypto_verify_session_tag hmac" "\<lambda>_. True" 8
  for hmac
  by unfold_locales
     (auto simp: espnow_crypto_verify_session_tag_def constant_time_equal_iff espnow_crypto_session_tag_def tag_data_def)

lemma verify_psk_unset: "\<not> g_psk_set g \<Longrightarrow> \<not> espnow_crypto_verify_psk_tag hmac g h p r"
  by (simp add: espnow_crypto_verify_psk_tag_def)

end
