(* ===== verification/Frames.thy ===== *)
theory Frames
  imports Crypto_Laws
begin

unbundle bit_operations_syntax

text \<open>
  \<^verbatim>\<open>esp_tree_common/espnow_frames.h\<close>, \<^verbatim>\<open>espnow_mac_utils.h\<close> and
  \<^verbatim>\<open>esp_tree_utils.h\<close>: payload builders, plain frames with their truncated tag, the
  receive-side header parser and the textual forms of MAC addresses and object ids.  SHA-256 is the
  parameter \<open>sha\<close>.
\<close>

section \<open>Textual MAC addresses and object ids\<close>

definition ESPNOW_BROADCAST_MAC :: mac where
  "ESPNOW_BROADCAST_MAC = replicate 6 0xFF"

definition mac_hex :: "mac \<Rightarrow> string" where
  "mac_hex m = hex2_upper (m ! 0) @ hex2_upper (m ! 1) @ hex2_upper (m ! 2) @ hex2_upper (m ! 3) @
     hex2_upper (m ! 4) @ hex2_upper (m ! 5)"

definition mac_display :: "mac \<Rightarrow> string" where
  "mac_display m = hex2_upper (m ! 0) @ '':'' @ hex2_upper (m ! 1) @ '':'' @ hex2_upper (m ! 2) @
     '':'' @ hex2_upper (m ! 3) @ '':'' @ hex2_upper (m ! 4) @ '':'' @ hex2_upper (m ! 5)"

definition sanitize_char :: "char \<Rightarrow> char" where
  "sanitize_char ch =
     (let n = of_char ch :: nat;
          n' = (if 65 \<le> n \<and> n \<le> 90 then n - 65 + 97 else n)
      in if (97 \<le> n' \<and> n' \<le> 122) \<or> (48 \<le> n' \<and> n' \<le> 57) then char_of n' else CHR ''_'')"

definition sanitize_object_id :: "string \<Rightarrow> string" where
  "sanitize_object_id input = map sanitize_char input"

definition slugify_name :: "string \<Rightarrow> string" where
  "slugify_name input = sanitize_object_id input"

section \<open>Payload builders\<close>

definition build_frame_header ::
  "mac \<Rightarrow> u8 \<Rightarrow> u8 \<Rightarrow> u8 \<Rightarrow> u32 \<Rightarrow> bytes option \<Rightarrow> bytes \<Rightarrow> bytes" where
  "build_frame_header src_mac protocol_version hop_count packet_type tx_counter psk_tag frame =
     enc_frame_header
       \<lparr>fh_protocol_version = protocol_version, fh_hop_count = hop_count,
        fh_packet_type = packet_type, fh_leaf_mac = src_mac, fh_tx_counter = tx_counter,
        fh_psk_tag = (case psk_tag of Some t \<Rightarrow> t | None \<Rightarrow> part_of 13 4 frame)\<rparr>"

definition make_discover_payload :: "string \<Rightarrow> u8 \<Rightarrow> espnow_discover_t" where
  "make_discover_payload network_id capability_flags =
     \<lparr>disc_network_id = c_array 32 (bytes_of_string network_id),
      disc_network_id_len = word_of_nat (length network_id),
      disc_capability_flags = capability_flags\<rparr>"

definition make_discover_announce_payload ::
  "string \<Rightarrow> mac \<Rightarrow> u8 \<Rightarrow> u8 \<Rightarrow> bool \<Rightarrow> espnow_discover_announce_t" where
  "make_discover_announce_payload network_id responder_mac responder_role hops_to_bridge
     bridge_reachable =
     \<lparr>ann_network_id = c_array 32 (bytes_of_string network_id),
      ann_network_id_len = word_of_nat (length network_id),
      ann_responder_mac = responder_mac, ann_responder_role = responder_role,
      ann_hops_to_bridge = hops_to_bridge,
      ann_bridge_reachable = (if bridge_reachable then 1 else 0), ann_flags = 0\<rparr>"

definition make_join_payload :: "bytes \<Rightarrow> bytes option \<Rightarrow> u8 \<Rightarrow> u8 \<Rightarrow> u8 \<Rightarrow> espnow_join_t" where
  "make_join_payload remote_nonce schema_hash hops_to_bridge dirty_count session_flags =
     \<lparr>join_remote_nonce = remote_nonce,
      join_schema_hash = (case schema_hash of Some h \<Rightarrow> h | None \<Rightarrow> replicate 32 0),
      join_hops_to_bridge = hops_to_bridge, join_dirty_count = dirty_count,
      join_session_flags = session_flags\<rparr>"

definition make_join_ack_payload :: "bool \<Rightarrow> u8 \<Rightarrow> u8 \<Rightarrow> bytes \<Rightarrow> u8 \<Rightarrow> espnow_join_ack_t" where
  "make_join_ack_payload accepted reason stage bridge_nonce session_flags =
     \<lparr>jack_accepted = (if accepted then 1 else 0), jack_reason = reason, jack_stage = stage,
      jack_bridge_nonce = bridge_nonce, jack_session_flags = session_flags\<rparr>"

text \<open>A null pointer and an empty C string both contribute nothing before the separator.\<close>

definition compute_schema_hash_for_empty_node ::
  "(bytes \<Rightarrow> bytes) \<Rightarrow> string \<Rightarrow> string \<Rightarrow> u32 \<Rightarrow> string \<Rightarrow> string \<Rightarrow> bytes" where
  "compute_schema_hash_for_empty_node sha esphome_name node_label firmware_epoch project_name
     project_version =
     sha (bytes_of_string esphome_name @ [0] @ bytes_of_string node_label @ [0] @
          map (\<lambda>i. ucast (drop_bit (i * 8) firmware_epoch AND 0xFF)) [0..<4] @
          bytes_of_string project_name @ [0] @ bytes_of_string project_version @ [0])"

definition make_schema_push_payload ::
  "u8 \<Rightarrow> u8 \<Rightarrow> u8 \<Rightarrow> u8 \<Rightarrow> bytes option \<Rightarrow> bytes option \<Rightarrow> bytes option \<Rightarrow> espnow_schema_push_t" where
  "make_schema_push_payload descriptor_index entity_index total_entities entity_type entity_name
     entity_unit entity_id =
     \<lparr>spush_descriptor_type = ESPNOW_DESCRIPTOR_TYPE_ENTITY,
      spush_descriptor_index = descriptor_index, spush_entity_index = entity_index,
      spush_total_entities = total_entities, spush_entity_type = entity_type,
      spush_entity_name = field_copy 32 entity_name, spush_entity_unit = field_copy 8 entity_unit,
      spush_entity_id = field_copy 32 entity_id\<rparr>"

section \<open>Plain frames\<close>

text \<open>The tag is computed over the header buffer before its tag bytes are written.\<close>

definition assemble_plain_frame ::
  "hmac_fn \<Rightarrow> crypto_state \<Rightarrow> espnow_packet_type_t \<Rightarrow> mac \<Rightarrow> u8 \<Rightarrow> u32 \<Rightarrow> bytes \<Rightarrow> bytes" where
  "assemble_plain_frame hmac g packet_type leaf_mac hop_count tx_counter payload =
     (let hdr = \<lparr>fh_protocol_version = ESPNOW_PROTOCOL_VER, fh_hop_count = hop_count,
                 fh_packet_type = packet_type_code packet_type, fh_leaf_mac = leaf_mac,
                 fh_tx_counter = tx_counter, fh_psk_tag = replicate ESPNOW_PSK_TAG_LEN 0\<rparr>;
          tag = espnow_crypto_psk_tag hmac g (enc_frame_header hdr) payload
      in enc_frame_header (hdr\<lparr>fh_psk_tag := tag\<rparr>) @ payload)"

definition make_discover_frame :: "hmac_fn \<Rightarrow> crypto_state \<Rightarrow> mac \<Rightarrow> string \<Rightarrow> u8 \<Rightarrow> bytes" where
  "make_discover_frame hmac g leaf_mac network_id capability_flags =
     assemble_plain_frame hmac g PKT_DISCOVER leaf_mac ESPNOW_HOPS_DIR_UP 0
       (enc_discover (make_discover_payload network_id capability_flags))"

definition make_join_frame ::
  "hmac_fn \<Rightarrow> crypto_state \<Rightarrow> mac \<Rightarrow> u8 \<Rightarrow> u8 \<Rightarrow> u8 \<Rightarrow> bytes \<Rightarrow> bytes option \<Rightarrow> bytes" where
  "make_join_frame hmac g leaf_mac hops_to_bridge dirty_count session_flags remote_nonce schema_hash =
     assemble_plain_frame hmac g PKT_JOIN leaf_mac ESPNOW_HOPS_DIR_UP 1
       (enc_join (make_join_payload remote_nonce schema_hash hops_to_bridge dirty_count session_flags))"

definition make_discover_announce_frame ::
  "hmac_fn \<Rightarrow> crypto_state \<Rightarrow> mac \<Rightarrow> string \<Rightarrow> mac \<Rightarrow> u8 \<Rightarrow> u8 \<Rightarrow> bool \<Rightarrow> bytes" where
  "make_discover_announce_frame hmac g leaf_mac network_id responder_mac responder_role
     hops_to_bridge bridge_reachable =
     assemble_plain_frame hmac g PKT_DISCOVER_ANNOUNCE leaf_mac ESPNOW_HOPS_DIR_DOWN 0
       (enc_discover_announce (make_discover_announce_payload network_id responder_mac responder_role
          hops_to_bridge bridge_reachable))"

definition make_schema_push_frame ::
  "hmac_fn \<Rightarrow> crypto_state \<Rightarrow> mac \<Rightarrow> u8 \<Rightarrow> u32 \<Rightarrow> u8 \<Rightarrow> u8 \<Rightarrow> u8 \<Rightarrow> u8 \<Rightarrow> bytes option \<Rightarrow>
   bytes option \<Rightarrow> bytes option \<Rightarrow> bytes" where
  "make_schema_push_frame hmac g leaf_mac hops_to_bridge tx_counter descriptor_index entity_index
     total_entities entity_type entity_name entity_unit entity_id =
     assemble_plain_frame hmac g PKT_SCHEMA_PUSH leaf_mac
       (ESPNOW_HOPS_MAKE ESPNOW_HOPS_DIR_UP hops_to_bridge) tx_counter
       (enc_schema_push (make_schema_push_payload descriptor_index entity_index total_entities
          entity_type entity_name entity_unit entity_id))"

definition verify_frame_psk_tag :: "hmac_fn \<Rightarrow> crypto_state \<Rightarrow> bytes \<Rightarrow> bytes \<Rightarrow> bool" where
  "verify_frame_psk_tag hmac g frame payload =
     (if length payload = 0 then False
      else espnow_crypto_verify_psk_tag hmac g frame payload (fh_psk_tag (dec_frame_header frame)))"

section \<open>Receiving\<close>

text \<open>The result: the header, the parent MAC (zeros without the parent-check bit) and the payload.\<close>

definition parse_received_header :: "bytes \<Rightarrow> (espnow_frame_header_t \<times> mac \<times> bytes) option" where
  "parse_received_header frame =
     (if length frame < 17 then None
      else let hdr = dec_frame_header frame;
               has_parent = has_parent_check (fh_hop_count hdr);
               header_size = 17 + (if has_parent then ESPNOW_PARENT_MAC_LEN else 0)
        in if length frame < header_size then None
           else Some (hdr, if has_parent then part_of 17 6 frame else replicate 6 0,
                      drop header_size frame))"

definition parse_join_ack :: "bytes \<Rightarrow> espnow_join_ack_t option" where
  "parse_join_ack payload = (if length payload < 20 then None else Some (dec_join_ack payload))"

definition parse_discover_announce :: "bytes \<Rightarrow> espnow_discover_announce_t option" where
  "parse_discover_announce payload =
     (if length payload < 43 then None else Some (dec_discover_announce payload))"

definition parse_discover :: "bytes \<Rightarrow> espnow_discover_t option" where
  "parse_discover payload = (if length payload < 34 then None else Some (dec_discover payload))"

text \<open>
  \<^verbatim>\<open>memcmp\<close> reads \<open>network_id_len\<close> bytes from the start of the struct, so a length over 32
  continues into the fields behind the array.
\<close>

definition verify_network_id :: "espnow_discover_t \<Rightarrow> string \<Rightarrow> bool" where
  "verify_network_id discover expected_network_id =
     (if unat (disc_network_id_len discover) \<noteq> length expected_network_id then False
      else take (unat (disc_network_id_len discover)) (enc_discover discover) =
             bytes_of_string expected_network_id)"

definition derive_session_key :: "hmac_fn \<Rightarrow> crypto_state \<Rightarrow> bytes \<Rightarrow> bytes \<Rightarrow> bytes" where
  "derive_session_key hmac g bridge_nonce remote_nonce =
     espnow_crypto_derive_session_key hmac g bridge_nonce remote_nonce"

definition derive_session_key_from_join_ack ::
  "hmac_fn \<Rightarrow> crypto_state \<Rightarrow> espnow_join_ack_t \<Rightarrow> bytes \<Rightarrow> bytes" where
  "derive_session_key_from_join_ack hmac g join_ack remote_nonce =
     derive_session_key hmac g (jack_bridge_nonce join_ack) remote_nonce"

section \<open>Textual forms\<close>

lemma hex_digit_upper_inject: "m < 16 \<Longrightarrow> n < 16 \<Longrightarrow> hex_digit_upper m = hex_digit_upper n \<longleftrightarrow> m = n"
proof -
  assume a: "m < 16" "n < 16"
  have inj: "char_of x = (char_of y :: char) \<longleftrightarrow> x = y" if "x < 256" "y < 256" for x y :: nat
    using that by (metis of_char_of mod_less)
  show ?thesis using a by (auto simp: hex_digit_upper_def inj split: if_splits)
qed

lemma hex2_upper_inject: "hex2_upper a = hex2_upper b \<longleftrightarrow> a = b"
proof -
  have lt: "unat (x :: u8) div 16 < 16" "unat x mod 16 < 16" for x
    using unsigned_less [of x, where 'a = nat] by simp_all
  have "a = b" if e: "unat a div 16 = unat b div 16" "unat a mod 16 = unat b mod 16"
    using that by (metis div_mult_mod_eq word_unat_eq_iff)
  then show ?thesis by (auto simp: hex2_upper_def hex_digit_upper_inject lt)
qed

lemma length_hex2_upper [simp]: "length (hex2_upper b) = 2"
  by (simp add: hex2_upper_def)

lemma mac_six: "length (m :: mac) = 6 \<Longrightarrow> m = [m ! 0, m ! 1, m ! 2, m ! 3, m ! 4, m ! 5]"
  by (rule nth_equalityI) (auto simp: less_Suc_eq numeral_eq_Suc)

lemma mac_hex_inject:
  assumes "length m = 6" "length m' = 6"
  shows "mac_hex m = mac_hex m' \<longleftrightarrow> m = m'"
proof
  assume "mac_hex m = mac_hex m'"
  then have "m ! 0 = m' ! 0 \<and> m ! 1 = m' ! 1 \<and> m ! 2 = m' ! 2 \<and> m ! 3 = m' ! 3 \<and> m ! 4 = m' ! 4 \<and> m ! 5 = m' ! 5"
    by (simp add: mac_hex_def append_eq_append_conv hex2_upper_inject)
  then show "m = m'" using mac_six [OF assms(1)] mac_six [OF assms(2)] by metis
qed simp

lemma mac_display_inject:
  assumes "length m = 6" "length m' = 6"
  shows "mac_display m = mac_display m' \<longleftrightarrow> m = m'"
proof
  assume "mac_display m = mac_display m'"
  then have "m ! 0 = m' ! 0 \<and> m ! 1 = m' ! 1 \<and> m ! 2 = m' ! 2 \<and> m ! 3 = m' ! 3 \<and> m ! 4 = m' ! 4 \<and> m ! 5 = m' ! 5"
    by (simp add: mac_display_def append_eq_append_conv hex2_upper_inject)
  then show "m = m'" using mac_six [OF assms(1)] mac_six [OF assms(2)] by metis
qed simp

text \<open>Lower-case letters, digits and the underscore.\<close>

definition is_id_char :: "char \<Rightarrow> bool" where
  "is_id_char c \<longleftrightarrow>
     (let n = of_char c :: nat in (97 \<le> n \<and> n \<le> 122) \<or> (48 \<le> n \<and> n \<le> 57) \<or> n = 95)"

lemma underscore_code: "(of_char c :: nat) = 95 \<Longrightarrow> c = CHR ''_''"
proof -
  assume "(of_char c :: nat) = 95"
  also have "(95 :: nat) = of_char (CHR ''_'')" by simp
  finally show ?thesis by (simp only: of_char_eq_iff)
qed

lemma sanitize_char_ok: "is_id_char (sanitize_char c)" "is_id_char c \<Longrightarrow> sanitize_char c = c"
  by (auto simp: is_id_char_def sanitize_char_def Let_def of_char_of split: if_splits
      dest: underscore_code)

lemma sanitize_object_id_chars: "\<forall>c\<in>set (sanitize_object_id s). is_id_char c"
  by (auto simp: sanitize_object_id_def sanitize_char_ok)

lemma sanitize_object_id_idem: "sanitize_object_id (sanitize_object_id s) = sanitize_object_id s"
  by (simp add: sanitize_object_id_def sanitize_char_ok)

section \<open>Frames\<close>

text \<open>Authenticated bytes of a header: everything between the hop byte and the tag.\<close>

lemma tagged_part_enc:
  "length (fh_leaf_mac h) = 6 \<Longrightarrow>
   part_of 2 11 (enc_frame_header h @ rest) =
     le_bytes 1 (fh_packet_type h) @ fh_leaf_mac h @ le_bytes 4 (fh_tx_counter h)"
  by (simp add: enc_frame_header_def part_of_def)

lemma tagged_part_update:
  assumes "\<And>i. 2 \<le> i \<Longrightarrow> i < 13 \<Longrightarrow> f ! i = f' ! i" "13 \<le> length f" "13 \<le> length f'"
  shows "part_of 2 11 f = part_of 2 11 f'"
  using assms by (intro nth_equalityI) (auto simp: part_of_def)

lemma plain_frame_eq:
  assumes "length leaf = 6"
  obtains tag where "length tag = 4"
    and "tag = espnow_crypto_psk_tag hmac g (assemble_plain_frame hmac g ty leaf hop tx pl) pl"
    and "assemble_plain_frame hmac g ty leaf hop tx pl =
      enc_frame_header \<lparr>fh_protocol_version = 3, fh_hop_count = hop, fh_packet_type = packet_type_code ty,
        fh_leaf_mac = leaf, fh_tx_counter = tx, fh_psk_tag = tag\<rparr> @ pl"
proof -
  define h where "h tag = \<lparr>fh_protocol_version = 3, fh_hop_count = hop, fh_packet_type = packet_type_code ty,
        fh_leaf_mac = leaf, fh_tx_counter = tx, fh_psk_tag = tag\<rparr>" for tag
  define t where "t = espnow_crypto_psk_tag hmac g (enc_frame_header (h (replicate 4 0))) pl"
  have frame: "assemble_plain_frame hmac g ty leaf hop tx pl = enc_frame_header (h t) @ pl"
    by (simp add: assemble_plain_frame_def Let_def t_def h_def)
  have "part_of 2 11 (enc_frame_header (h (replicate 4 0))) = part_of 2 11 (enc_frame_header (h t) @ pl)"
    using tagged_part_enc [of "h (replicate 4 0)" "[]"] tagged_part_enc [of "h t" pl] assms
    by (simp add: h_def)
  then have "t = espnow_crypto_psk_tag hmac g (enc_frame_header (h t) @ pl) pl"
    unfolding t_def by (rule psk.tag_cong)
  moreover have "length t = 4" by (simp add: t_def)
  ultimately show ?thesis using that [of t] frame unfolding h_def by (metis (no_types))
qed

lemma parse_plain_frame:
  assumes "length leaf = 6" "\<not> has_parent_check hop"
  shows "\<exists>tag. parse_received_header (assemble_plain_frame hmac g ty leaf hop tx pl) =
     Some (\<lparr>fh_protocol_version = 3, fh_hop_count = hop, fh_packet_type = packet_type_code ty,
            fh_leaf_mac = leaf, fh_tx_counter = tx, fh_psk_tag = tag\<rparr>, replicate 6 0, pl)"
proof -
  obtain tag where t: "length tag = 4"
    "assemble_plain_frame hmac g ty leaf hop tx pl =
      enc_frame_header \<lparr>fh_protocol_version = 3, fh_hop_count = hop, fh_packet_type = packet_type_code ty,
        fh_leaf_mac = leaf, fh_tx_counter = tx, fh_psk_tag = tag\<rparr> @ pl" (is "_ = enc_frame_header ?h @ pl")
    by (rule plain_frame_eq [OF assms(1)])
  have wf: "wf_frame_header ?h" using t(1) assms(1) by (simp add: wf_frame_header_def)
  show ?thesis
    using assms(2) by (auto simp: parse_received_header_def t(2) Let_def fh.dec_enc [OF wf] fh.enc_length [OF wf])
qed

lemma fh_psk_tag_dec: "fh_psk_tag (dec_frame_header f) = part_of 13 4 f"
  by (simp add: dec_frame_header_def)

lemma verify_plain_frame:
  assumes "length leaf = 6" "g_psk_set g" "pl \<noteq> []"
  shows "verify_frame_psk_tag hmac g (assemble_plain_frame hmac g ty leaf hop tx pl) pl"
proof -
  obtain tag where t: "length tag = 4"
    "tag = espnow_crypto_psk_tag hmac g (assemble_plain_frame hmac g ty leaf hop tx pl) pl"
    "assemble_plain_frame hmac g ty leaf hop tx pl =
      enc_frame_header \<lparr>fh_protocol_version = 3, fh_hop_count = hop, fh_packet_type = packet_type_code ty,
        fh_leaf_mac = leaf, fh_tx_counter = tx, fh_psk_tag = tag\<rparr> @ pl" (is "_ = enc_frame_header ?h @ pl")
    by (rule plain_frame_eq [OF assms(1)])
  have wf: "wf_frame_header ?h" using t(1) assms(1) by (simp add: wf_frame_header_def)
  have "fh_psk_tag (dec_frame_header (assemble_plain_frame hmac g ty leaf hop tx pl)) = tag"
    by (simp add: t(3) fh.dec_enc [OF wf])
  then show ?thesis
    using psk.verify_own [OF assms(2)] assms(3) by (simp add: verify_frame_psk_tag_def t(2))
qed

text \<open>A relay that rewrites the protocol and hop bytes of a frame does not invalidate its tag.\<close>

lemma verify_relayed_frame:
  assumes "17 \<le> length f" "length f' = length f" "drop 2 f' = drop 2 f"
  shows "verify_frame_psk_tag hmac g f' pl = verify_frame_psk_tag hmac g f pl"
proof -
  have p: "part_of 2 11 f' = part_of 2 11 f" using assms(3) by (simp add: part_of_def)
  have "part_of 11 4 (drop 2 f') = part_of 11 4 (drop 2 f)" using assms(3) by simp
  then have q: "part_of 13 4 f' = part_of 13 4 f" by (simp add: part_of_def)
  have "espnow_crypto_psk_tag hmac g f' pl = espnow_crypto_psk_tag hmac g f pl"
    using psk.tag_cong [OF p] .
  then show ?thesis
    by (simp add: verify_frame_psk_tag_def fh_psk_tag_dec q espnow_crypto_verify_psk_tag_def)
qed

lemma verify_network_id_discover:
  assumes "length net \<le> 32"
  shows "verify_network_id (make_discover_payload net flags) expected \<longleftrightarrow> expected = net"
proof -
  have len: "unat (word_of_nat (length net) :: u8) = length net"
    using assms by (simp add: unat_of_nat take_bit_eq_mod)
  have "take (length net) (enc_discover (make_discover_payload net flags)) = bytes_of_string net"
    using assms by (simp add: enc_discover_def make_discover_payload_def c_array_def)
  moreover have "unat (disc_network_id_len (make_discover_payload net flags)) = length net"
    by (simp add: make_discover_payload_def len)
  moreover have "bytes_of_string net = bytes_of_string expected \<longleftrightarrow> expected = net"
    by (metis string_of_bytes_of_string)
  ultimately show ?thesis by (auto simp: verify_network_id_def)
qed

end
