(* ===== verification/Transfer_Geometry.thy ===== *)
theory Transfer_Geometry
  imports Prelude
begin

text \<open>
  How a file is cut into chunks and the chunks into increments.  Both ends of a transfer compute this
  geometry with their own code (\<^verbatim>\<open>handle_accept_\<close> in the bridge's OTA manager,
  \<^verbatim>\<open>compute_increment_geometry_\<close> in the remote's file receiver); the locale is what the two
  must agree on, and its lemmas are proved once for both.
\<close>

section \<open>Rounding up\<close>

definition ceil_div :: "nat \<Rightarrow> nat \<Rightarrow> nat" where
  "ceil_div n c = n div c + (if n mod c \<noteq> 0 then 1 else 0)"

lemma ceil_div_bounds:
  assumes "0 < c"
  shows "n \<le> ceil_div n c * c" "0 < n \<Longrightarrow> (ceil_div n c - 1) * c < n" "0 < n \<Longrightarrow> 0 < ceil_div n c"
proof -
  have n: "n = n div c * c + n mod c" by simp
  have m: "n mod c < c" using assms by simp
  show "n \<le> ceil_div n c * c"
  proof -
    have "n div c * c + n mod c \<le> n div c * c + (if n mod c \<noteq> 0 then 1 else 0) * c"
      using m by (intro add_left_mono) simp
    then show ?thesis by (simp add: ceil_div_def add_mult_distrib)
  qed
  show "0 < ceil_div n c" if "0 < n"
    using that n assms by (cases "n div c = 0") (auto simp: ceil_div_def)
  show "(ceil_div n c - 1) * c < n" if "0 < n"
  proof (cases "n mod c = 0")
    case True
    then have "n div c * c = n" using n by simp
    moreover have "0 < n div c" using True that n by (metis add_0_right mult_0 neq0_conv)
    ultimately have "(n div c - 1) * c < n" using assms
      by (metis diff_less mult_less_cancel2 zero_less_one)
    then show ?thesis using True by (simp add: ceil_div_def)
  next
    case False
    then have "n div c * c < n" using n by linarith
    then show ?thesis using False by (simp add: ceil_div_def)
  qed
qed

lemma ceil_div_le:
  assumes "0 < c"
  shows "ceil_div n c \<le> n"
proof (cases "n = 0")
  case False
  have "(ceil_div n c - 1) * 1 \<le> (ceil_div n c - 1) * c" using assms by (intro mult_le_mono) simp_all
  also have "\<dots> < n" using False by (intro ceil_div_bounds(2) [OF assms]) simp
  finally show ?thesis by simp
qed (simp add: ceil_div_def)

section \<open>Slices of a list\<close>

definition slice :: "nat \<Rightarrow> 'a list \<Rightarrow> nat \<Rightarrow> 'a list" where
  "slice c xs q = take c (drop (q * c) xs)"

lemma concat_slices_take: "concat (map (slice c xs) [0..<n]) = take (n * c) xs"
  by (induction n) (simp_all add: slice_def take_add [symmetric] add.commute)

lemma concat_slices:
  assumes "length xs \<le> n * c"
  shows "concat (map (slice c xs) [0..<n]) = xs"
  using assms by (simp add: concat_slices_take)

lemma length_slice: "length (slice c xs q) = min c (length xs - q * c)"
  by (simp add: slice_def)

section \<open>Increments\<close>

text \<open>
  \<open>k\<close> is an increment, \<open>p\<close> the chunks per increment, \<open>l\<close> the chunks in the last one, \<open>T\<close> the
  number of chunks and \<open>m\<close> the number of increments.
\<close>

definition inc_chunks :: "nat \<Rightarrow> nat \<Rightarrow> nat \<Rightarrow> nat \<Rightarrow> nat" where
  "inc_chunks m p l k = (if k + 1 \<ge> m then l else p)"

definition inc_seqs :: "nat \<Rightarrow> nat \<Rightarrow> nat \<Rightarrow> nat \<Rightarrow> nat \<Rightarrow> nat list" where
  "inc_seqs T m p l k = [k * p..<min (k * p + inc_chunks m p l k) T]"

lemma concat_inc_seqs_prefix:
  assumes "(m - 1) * p \<le> T" "j < m"
  shows "concat (map (inc_seqs T m p l) [0..<j]) = [0..<j * p]"
  using assms(2)
proof (induction j)
  case (Suc j)
  then have j: "Suc j \<le> m - 1" "\<not> Suc j \<ge> m" by simp_all
  have "Suc j * p \<le> (m - 1) * p" using j(1) by (rule mult_le_mono1)
  then have "p + j * p \<le> T" using assms(1) by simp
  then have "inc_seqs T m p l j = [j * p..<j * p + p]"
    using j by (simp add: inc_seqs_def inc_chunks_def)
  moreover have "concat (map (inc_seqs T m p l) [0..<j]) = [0..<j * p]" using Suc by simp
  moreover have "[0..<j * p] @ [j * p..<j * p + p] = [0..<j * p + p]"
    by (rule upt_add_eq_append [symmetric]) simp
  ultimately show ?case by (simp add: add.commute)
qed simp

lemma concat_inc_seqs:
  assumes "0 < m" "(m - 1) * p \<le> T" "l = T - (m - 1) * p"
  shows "concat (map (inc_seqs T m p l) [0..<m]) = [0..<T]"
proof -
  obtain j where m: "m = Suc j" using assms(1) by (cases m) auto
  have "inc_seqs T m p l j = [j * p..<T]"
    using assms by (simp add: inc_seqs_def inc_chunks_def m)
  moreover have "concat (map (inc_seqs T m p l) [0..<j]) = [0..<j * p]"
    using concat_inc_seqs_prefix [of m p T j l] assms(2) m by simp
  moreover have "j * p \<le> T" using assms(2) m by simp
  moreover have "[0..<j * p] @ [j * p..<T] = [0..<T]"
    using \<open>j * p \<le> T\<close> upt_add_eq_append [of 0 "j * p" "T - j * p"] by simp
  ultimately show ?thesis by (simp add: m)
qed

section \<open>The arithmetic at its width\<close>

text \<open>
  The expressions both ends evaluate, with the casts of the code: as long as the number of increments
  fits its 16 bits, nothing is truncated.
\<close>

lemma unat_ceil:
  assumes "unat n < 2 ^ LENGTH('a) - 1"
  shows "unat ((n :: 'a::len word) div c + (if n mod c \<noteq> 0 then 1 else 0)) = ceil_div (unat n) (unat c)"
proof -
  have "unat (n div c) \<le> unat n" by (simp add: unat_div div_le_dividend)
  then have "unat (n div c) + 1 < 2 ^ LENGTH('a)" using assms by simp
  then have "unat (n div c + (if n mod c \<noteq> 0 then 1 else 0)) = unat (n div c) + (if n mod c \<noteq> 0 then 1 else 0)"
    by (auto intro: unat_plus_fits [where b = "1 :: 'a word", simplified] )
  moreover have "n mod c = 0 \<longleftrightarrow> unat n mod unat c = 0"
    by (metis unat_eq_zero unat_mod)
  ultimately show ?thesis by (simp add: ceil_div_def unat_div)
qed

lemma unat_if_zero: "unat (if x = 0 then 1 else x) = max 1 (unat (x :: 'a::len word))"
  by (cases "x = 0") (simp_all add: max_def Suc_le_eq unat_gt_0)

lemma unat_cpi:
  fixes c :: u16 and kb :: u8
  assumes "c \<noteq> 0"
  shows "unat (let cpi0 = ucast (ucast (min (ucast kb) (8 :: u16)) * 1024 div (ucast c :: u32)) :: u16
               in if cpi0 = 0 then 1 else cpi0) = max 1 (min (unat kb) 8 * 1024 div unat c)"
proof -
  have m: "unat (min (ucast kb) (8 :: u16)) = min (unat kb) 8"
    by (simp add: min_def word_le_nat_alt unat_ucast_up)
  have d: "unat (ucast (min (ucast kb) (8 :: u16)) * 1024 :: u32) = min (unat kb) 8 * 1024"
    by (subst unat_times_fits) (simp_all add: unat_ucast_up m)
  have q: "unat (ucast (min (ucast kb) (8 :: u16)) * 1024 div (ucast c :: u32)) = min (unat kb) 8 * 1024 div unat c"
    by (simp only: unat_div d) (simp add: unat_ucast_up)
  have le: "min (unat kb) 8 * 1024 div unat c \<le> 8 * 1024"
    by (rule order_trans [OF div_le_dividend]) simp
  have r: "unat (ucast (ucast (min (ucast kb) (8 :: u16)) * 1024 div (ucast c :: u32)) :: u16) = min (unat kb) 8 * 1024 div unat c"
    by (subst unat_ucast_fits) (use le q in simp_all)
  show ?thesis unfolding Let_def unat_if_zero r by simp
qed

lemma unat_increments:
  fixes total :: u32 and cpi :: u16
  assumes "0 < unat total" "unat total \<le> 2 ^ 30" "0 < unat cpi" "ceil_div (unat total) (unat cpi) < 2 ^ 16"
  shows "unat (let ti0 = ucast (total div ucast cpi + (if total mod ucast cpi \<noteq> 0 then 1 else 0)) :: u16
               in if ti0 = 0 then 1 else ti0) = ceil_div (unat total) (unat cpi)"
proof -
  have "unat total < 2 ^ LENGTH(32) - 1" using assms(2) by simp
  then have q: "unat (total div ucast cpi + (if total mod ucast cpi \<noteq> 0 then 1 else 0)) = ceil_div (unat total) (unat cpi)"
    using unat_ceil [of total "ucast cpi"] by (simp add: unat_ucast_up)
  have r: "unat (ucast (total div ucast cpi + (if total mod ucast cpi \<noteq> 0 then 1 else 0)) :: u16) = ceil_div (unat total) (unat cpi)"
    by (subst unat_ucast_fits) (use assms(4) q in simp_all)
  show ?thesis
    unfolding Let_def unat_if_zero r using ceil_div_bounds(3) [OF assms(3,1)] by simp
qed

lemma unat_in_last:
  fixes total :: u32 and cpi ti :: u16
  assumes "0 < unat total" "unat total \<le> 2 ^ 30" "0 < unat cpi" "unat ti = ceil_div (unat total) (unat cpi)"
  shows "unat (let last0 = ucast (total - (ucast ti - 1) * ucast cpi) :: u16
               in if last0 = 0 then cpi else last0) = unat total - (unat ti - 1) * unat cpi"
proof -
  have ti: "0 < unat ti" using ceil_div_bounds(3) [OF assms(3,1)] assms(4) by simp
  have t1: "unat (ucast ti - 1 :: u32) = unat ti - 1"
    using ti by (subst unat_sub) (simp_all add: unat_ucast_up word_le_nat_alt)
  have lt: "(unat ti - 1) * unat cpi < unat total"
    using ceil_div_bounds(2) [OF assms(3,1)] assms(4) by simp
  have pr: "unat ((ucast ti - 1 :: u32) * ucast cpi) = (unat ti - 1) * unat cpi"
    by (subst unat_times_fits) (use lt assms(2) t1 in \<open>simp_all add: unat_ucast_up\<close>)
  have d: "unat (total - (ucast ti - 1 :: u32) * ucast cpi) = unat total - (unat ti - 1) * unat cpi"
    using lt pr by (subst unat_sub) (simp_all add: word_le_nat_alt)
  have "unat total \<le> unat ti * unat cpi" using ceil_div_bounds(1) [OF assms(3)] assms(4) by simp
  also have "\<dots> = (unat ti - 1) * unat cpi + unat cpi" using ti by (cases "unat ti") auto
  finally have "unat total - (unat ti - 1) * unat cpi \<le> unat cpi" by simp
  also have "\<dots> < 2 ^ 16" using unsigned_less [of cpi, where 'a = nat] by simp
  finally have r: "unat (ucast (total - (ucast ti - 1 :: u32) * ucast cpi) :: u16) = unat total - (unat ti - 1) * unat cpi"
    by (subst unat_ucast_fits) (use d in simp_all)
  then have "(ucast (total - (ucast ti - 1 :: u32) * ucast cpi) :: u16) \<noteq> 0"
    using lt by (metis unsigned_0 zero_less_diff less_irrefl)
  then show ?thesis unfolding Let_def by (simp only: if_False r)
qed

lemma geometry_total:
  fixes c :: u16
  assumes "c \<noteq> 0" "n \<le> 2 ^ 30"
  shows "unat (n div ucast c + (if n mod ucast c \<noteq> 0 then 1 else 0) :: u32) = ceil_div (unat n) (unat c)"
proof -
  have "unat n < 2 ^ LENGTH(32) - 1" using assms(2) by (simp add: word_le_nat_alt)
  then show ?thesis using unat_ceil [of n "ucast c"] by (simp add: unat_ucast_up)
qed

section \<open>The agreement of the two ends\<close>

text \<open>Files whose increments can be counted in 16 bits.\<close>

definition increments_fit :: "u32 \<Rightarrow> u16 \<Rightarrow> u8 \<Rightarrow> bool" where
  "increments_fit n c kb \<longleftrightarrow>
     ceil_div (ceil_div (unat n) (unat c)) (max 1 (min (unat kb) 8 * 1024 div unat c)) < 2 ^ 16"

locale chunk_geometry =
  fixes geo :: "u32 \<Rightarrow> u16 \<Rightarrow> u8 \<Rightarrow> 'g"
    and total :: "'g \<Rightarrow> u32" and per_increment increments in_last :: "'g \<Rightarrow> u16"
  assumes total_eq: "c \<noteq> 0 \<Longrightarrow> n \<le> 2 ^ 30 \<Longrightarrow> unat (total (geo n c kb)) = ceil_div (unat n) (unat c)"
    and per_increment_eq:
      "c \<noteq> 0 \<Longrightarrow> unat (per_increment (geo n c kb)) = max 1 (min (unat kb) 8 * 1024 div unat c)"
    and increments_eq:
      "c \<noteq> 0 \<Longrightarrow> 0 < n \<Longrightarrow> n \<le> 2 ^ 30 \<Longrightarrow>
       ceil_div (unat (total (geo n c kb))) (unat (per_increment (geo n c kb))) < 2 ^ 16 \<Longrightarrow>
       unat (increments (geo n c kb)) =
         ceil_div (unat (total (geo n c kb))) (unat (per_increment (geo n c kb)))"
    and in_last_eq:
      "c \<noteq> 0 \<Longrightarrow> 0 < n \<Longrightarrow> n \<le> 2 ^ 30 \<Longrightarrow>
       ceil_div (unat (total (geo n c kb))) (unat (per_increment (geo n c kb))) < 2 ^ 16 \<Longrightarrow>
       unat (in_last (geo n c kb)) =
         unat (total (geo n c kb)) -
         (unat (increments (geo n c kb)) - 1) * unat (per_increment (geo n c kb))"
begin

definition seqs :: "'g \<Rightarrow> nat \<Rightarrow> nat list" where
  "seqs g k = inc_seqs (unat (total g)) (unat (increments g)) (unat (per_increment g)) (unat (in_last g)) k"

lemma fit_geometry:
  assumes "c \<noteq> 0" "n \<le> 2 ^ 30" "increments_fit n c kb"
  shows "ceil_div (unat (total (geo n c kb))) (unat (per_increment (geo n c kb))) < 2 ^ 16"
  using assms(3) unfolding increments_fit_def total_eq [OF assms(1,2)] per_increment_eq [OF assms(1)] .

text \<open>The chunks of increment \<open>k\<close> lie inside the file, and the last one ends it.\<close>

lemma increment_in_file:
  assumes "c \<noteq> 0" "0 < n" "n \<le> 2 ^ 30" "increments_fit n c kb" "k < unat (increments (geo n c kb))"
  shows "k * unat (per_increment (geo n c kb)) +
      inc_chunks (unat (increments (geo n c kb))) (unat (per_increment (geo n c kb))) (unat (in_last (geo n c kb))) k =
      (if k + 1 = unat (increments (geo n c kb)) then ceil_div (unat n) (unat c)
       else (k + 1) * unat (per_increment (geo n c kb)))" (is ?A)
    and "k * unat (per_increment (geo n c kb)) +
      inc_chunks (unat (increments (geo n c kb))) (unat (per_increment (geo n c kb))) (unat (in_last (geo n c kb))) k
      \<le> ceil_div (unat n) (unat c)" (is ?B)
    and "inc_chunks (unat (increments (geo n c kb))) (unat (per_increment (geo n c kb))) (unat (in_last (geo n c kb))) k
      \<le> unat (per_increment (geo n c kb))" (is ?C)
    and "0 < inc_chunks (unat (increments (geo n c kb))) (unat (per_increment (geo n c kb)))
      (unat (in_last (geo n c kb))) k" (is ?D)
proof -
  let ?g = "geo n c kb"
  let ?p = "unat (per_increment ?g)" and ?m = "unat (increments ?g)" and ?T = "ceil_div (unat n) (unat c)"
  note fit = fit_geometry [OF assms(1,3,4)]
  have T: "unat (total ?g) = ?T" by (rule total_eq [OF assms(1,3)])
  have c: "0 < unat c" "0 < unat n" using assms(1,2) by (simp_all add: unat_gt_0 word_gt_0)
  have p: "0 < ?p" using per_increment_eq [OF assms(1)] by simp
  have T0: "0 < ?T" using ceil_div_bounds(3) [OF c] .
  have m: "?m = ceil_div ?T ?p" using increments_eq [OF assms(1-3) fit] T by simp
  have l: "unat (in_last ?g) = ?T - (?m - 1) * ?p" using in_last_eq [OF assms(1-3) fit] T by simp
  have lt: "(?m - 1) * ?p < ?T" using ceil_div_bounds(2) [OF p T0] m by simp
  have "?T \<le> ?m * ?p" using ceil_div_bounds(1) [OF p, of ?T] m by simp
  also have "?m * ?p = (?m - 1 + 1) * ?p" using assms(5) by (intro arg_cong2 [where f = "(*)"]) simp_all
  finally have up: "?T \<le> (?m - 1) * ?p + ?p" by (simp only: add_mult_distrib mult_1)
  have mid: "(k + 1) * ?p \<le> (?m - 1) * ?p" if "k + 1 \<noteq> ?m"
    using that assms(5) by (intro mult_le_mono1) simp
  have lastk: "k = ?m - 1" if "k + 1 = ?m" using that by simp
  show ?A
  proof (cases "k + 1 = ?m")
    case True
    then show ?thesis using l lt lastk by (simp add: inc_chunks_def)
  next
    case False
    then show ?thesis using assms(5) by (simp add: inc_chunks_def)
  qed
  then show ?B using mid lt by (cases "k + 1 = ?m") simp_all
  have "unat (in_last ?g) \<le> ?p" using l up by linarith
  then show ?C by (simp add: inc_chunks_def)
  show ?D using l lt p by (simp add: inc_chunks_def)
qed

lemma increments_partition:
  assumes "c \<noteq> 0" "0 < n" "n \<le> 2 ^ 30"
    and "ceil_div (unat (total (geo n c kb))) (unat (per_increment (geo n c kb))) < 2 ^ 16"
  shows "concat (map (seqs (geo n c kb)) [0..<unat (increments (geo n c kb))]) = [0..<ceil_div (unat n) (unat c)]"
proof -
  let ?g = "geo n c kb"
  have c: "0 < unat c" and n: "0 < unat n" using assms(1,2) by (simp_all add: unat_gt_0 word_gt_0)
  have p: "0 < unat (per_increment ?g)" using per_increment_eq [OF assms(1)] by simp
  have T: "0 < unat (total ?g)" using total_eq [OF assms(1,3)] ceil_div_bounds(3) [OF c n] by simp
  have m: "unat (increments ?g) = ceil_div (unat (total ?g)) (unat (per_increment ?g))"
    by (rule increments_eq [OF assms])
  have "0 < unat (increments ?g)" using ceil_div_bounds(3) [OF p T] m by simp
  moreover have "(unat (increments ?g) - 1) * unat (per_increment ?g) \<le> unat (total ?g)"
    using ceil_div_bounds(2) [OF p T] m by simp
  ultimately have "concat (map (seqs ?g) [0..<unat (increments ?g)]) = [0..<unat (total ?g)]"
    unfolding seqs_def using in_last_eq [OF assms] by (rule concat_inc_seqs)
  then show ?thesis by (simp only: total_eq [OF assms(1,3)])
qed

lemma chunks_cover_file:
  assumes "c \<noteq> 0" "n \<le> 2 ^ 30" "length F = unat n"
  shows "concat (map (slice (unat c) F) [0..<unat (total (geo n c kb))]) = F"
proof -
  have "0 < unat c" using assms(1) by (simp add: unat_gt_0)
  then have "length F \<le> ceil_div (unat n) (unat c) * unat c" using ceil_div_bounds(1) assms(3) by simp
  then show ?thesis using total_eq [OF assms(1,2)] by (simp add: concat_slices)
qed

end

text \<open>The code's own expressions give that contract.\<close>

locale word_geometry =
  fixes geo :: "u32 \<Rightarrow> u16 \<Rightarrow> u8 \<Rightarrow> 'g"
    and total :: "'g \<Rightarrow> u32" and per_increment increments in_last :: "'g \<Rightarrow> u16"
  assumes total_word: "total (geo n c kb) = n div ucast c + (if n mod ucast c \<noteq> 0 then 1 else 0)"
    and per_increment_word: "per_increment (geo n c kb) =
      (let cpi0 = ucast (ucast (min (ucast kb) (8 :: u16)) * 1024 div (ucast c :: u32)) :: u16
       in if cpi0 = 0 then 1 else cpi0)"
    and increments_word: "increments (geo n c kb) =
      (let tot = total (geo n c kb); cpi = per_increment (geo n c kb);
           ti0 = ucast (tot div ucast cpi + (if tot mod ucast cpi \<noteq> 0 then 1 else 0)) :: u16
       in if ti0 = 0 then 1 else ti0)"
    and in_last_word: "in_last (geo n c kb) =
      (let tot = total (geo n c kb); cpi = per_increment (geo n c kb); ti = increments (geo n c kb);
           last0 = ucast (tot - (ucast ti - 1) * ucast cpi) :: u16
       in if last0 = 0 then cpi else last0)"
begin

lemma geometry_facts:
  assumes "c \<noteq> 0" "0 < n" "n \<le> 2 ^ 30"
  shows "0 < unat (total (geo n c kb))" "unat (total (geo n c kb)) \<le> 2 ^ 30"
    "0 < unat (per_increment (geo n c kb))"
proof -
  have c: "0 < unat c" "0 < unat n" using assms by (simp_all add: unat_gt_0 word_gt_0)
  have T: "unat (total (geo n c kb)) = ceil_div (unat n) (unat c)"
    unfolding total_word by (rule geometry_total [OF assms(1,3)])
  show "0 < unat (total (geo n c kb))" using ceil_div_bounds(3) [OF c] T by simp
  have "unat n \<le> 2 ^ 30" using assms(3) by (simp add: word_le_nat_alt)
  then show "unat (total (geo n c kb)) \<le> 2 ^ 30" using ceil_div_le [OF c(1), of "unat n"] T by simp
  show "0 < unat (per_increment (geo n c kb))"
    unfolding per_increment_word unat_cpi [OF assms(1)] by simp
qed

end

sublocale word_geometry \<subseteq> chunk_geometry
proof unfold_locales
  fix c :: u16 and n :: u32 and kb :: u8
  assume c: "c \<noteq> 0"
  show "unat (per_increment (geo n c kb)) = max 1 (min (unat kb) 8 * 1024 div unat c)"
    unfolding per_increment_word by (rule unat_cpi [OF c])
  assume n: "n \<le> 2 ^ 30"
  show "unat (total (geo n c kb)) = ceil_div (unat n) (unat c)"
    unfolding total_word by (rule geometry_total [OF c n])
  assume pos: "0 < n"
    and fits: "ceil_div (unat (total (geo n c kb))) (unat (per_increment (geo n c kb))) < 2 ^ 16"
  note facts = geometry_facts [OF c pos n]
  show inc: "unat (increments (geo n c kb)) = ceil_div (unat (total (geo n c kb))) (unat (per_increment (geo n c kb)))"
    using unat_increments [OF facts fits] unfolding increments_word [of n c kb] Let_def .
  show "unat (in_last (geo n c kb)) = unat (total (geo n c kb)) -
      (unat (increments (geo n c kb)) - 1) * unat (per_increment (geo n c kb))"
    using unat_in_last [OF facts inc] unfolding in_last_word [of n c kb] Let_def .
qed

end
