(* ===== verification/OTA_Manager.thy ===== *)
theory OTA_Manager
  imports Frames Transfer_Geometry
begin

unbundle bit_operations_syntax

text \<open>
  \<^verbatim>\<open>esp_tree_bridge/bridge_ota_manager.cpp\<close>: the bridge side of a firmware transfer.  The
  file is cut into chunks, the chunks into increments that fit the remote's buffer; an increment is
  sent in one blast, the remote answers with the bitmap of what arrived, and the gaps are sent again
  until the increment is complete.

  The members of \<^verbatim>\<open>ESPNowOTAManager\<close> are the record \<open>ota\<close>.  Its callbacks and the
  clock are the record \<open>ota_env\<close>: one reading of \<^verbatim>\<open>millis()\<close> per call, the answer of
  \<^verbatim>\<open>send_frame_fn_\<close> as a function of every frame handed to it so far, and
  \<^verbatim>\<open>target_reachable_fn_\<close>.  \<open>om_tx\<close> is the list of those frames, oldest first.  The mutex is
  recursive and taken per handler, so handlers run one after the other.
\<close>

section \<open>State\<close>

datatype esp_err_t = ESP_OK | ESP_ERR_ESPNOW_NO_MEM | ESP_ERR_NOT_FOUND | ESP_ERR_INVALID_ARG | ESP_FAIL

type_synonym sent_frame = "mac \<times> espnow_packet_type_t \<times> bytes"

record ota_env =
  env_now :: u32
  env_send :: "sent_frame list \<Rightarrow> esp_err_t \<times> u32"
  env_reachable :: "mac \<Rightarrow> bool"

record ota_config =
  oc_global_timeout_ms :: u32
  oc_no_mem_backoff_ms :: u32
  oc_max_no_mem_backoff_ms :: u32
  oc_tx_cooldown_ms :: u32

definition default_ota_config :: ota_config where
  "default_ota_config = \<lparr>oc_global_timeout_ms = 900000, oc_no_mem_backoff_ms = 5,
     oc_max_no_mem_backoff_ms = 250, oc_tx_cooldown_ms = 2\<rparr>"

record IncrementTracker =
  it_current_increment :: u16
  it_total_increments :: u16
  it_chunks_per_increment :: u16
  it_chunks_in_last_increment :: u16
  it_total_chunks :: u32
  it_buffer_size_kb :: u16
  it_retransmit_round :: u8
  it_blast_complete_retries :: u8
  it_blast_complete_sent_ms :: u32
  it_last_blast_complete_tx_counter :: u32
  it_blast_complete_tx_history :: "u32 list"
  it_received_bitmap :: bytes
  it_gap_sequences :: "u32 set"
  it_requested_sequences :: "u32 set"
  it_sent_sequences :: "u32 set"
  it_last_remote_activity_ms :: u32

datatype ota_run_state =
  OTA_IDLE | ANNOUNCING | BLASTING | WAITING_GAPS | ENDING | ABORTING | OTA_COMPLETE | FAILED

record ota =
  om_config :: ota_config
  om_send_frame_fn_set :: bool
  om_state :: ota_run_state
  om_tracker :: IncrementTracker
  om_leaf_mac :: mac
  om_md5 :: bytes
  om_file_id :: string
  om_last_error :: string
  om_file_size :: u32
  om_transfer_started_ms :: u32
  om_last_activity_ms :: u32
  om_last_control_send_ms :: u32
  om_announce_tx_counter :: u32
  om_no_mem_backoff_until_ms :: u32
  om_last_chunk_send_ms :: u32
  om_requested_chunk_size :: u16
  om_negotiated_chunk_size :: u16
  om_max_encrypted_plaintext :: u16
  om_action :: u8
  om_control_attempt_count :: u8
  om_progress_pct :: u8
  om_consecutive_no_mem_errors :: u8
  om_public_busy :: bool
  om_public_progress_pct :: u8
  om_public_state :: string
  om_status_leaf_mac :: mac
  om_pending_chunks :: "(u32 \<times> bytes) list"
  om_tx :: "sent_frame list"

abbreviation (input) ESPNOW_MAX_INCREMENT_KB :: u16 where "ESPNOW_MAX_INCREMENT_KB \<equiv> 8"

abbreviation (input) ESPNOW_FILE_DATA_HEADER_OVERHEAD :: u16 where "ESPNOW_FILE_DATA_HEADER_OVERHEAD \<equiv> 29"

abbreviation (input) ESPNOW_FILE_MAX_RETRIES :: u8 where "ESPNOW_FILE_MAX_RETRIES \<equiv> 3"

abbreviation (input) ESPNOW_MAX_BLAST_COMPLETE_RETRIES :: u8 where "ESPNOW_MAX_BLAST_COMPLETE_RETRIES \<equiv> 20"

abbreviation (input) ESPNOW_MAX_RETRANSMIT_ROUNDS :: u8 where "ESPNOW_MAX_RETRANSMIT_ROUNDS \<equiv> 10"

definition tracker_reset :: IncrementTracker where
  "tracker_reset = \<lparr>it_current_increment = 0, it_total_increments = 0, it_chunks_per_increment = 0,
     it_chunks_in_last_increment = 0, it_total_chunks = 0, it_buffer_size_kb = ESPNOW_MAX_INCREMENT_KB,
     it_retransmit_round = 0, it_blast_complete_retries = 0, it_blast_complete_sent_ms = 0,
     it_last_blast_complete_tx_counter = 0, it_blast_complete_tx_history = [],
     it_received_bitmap = [], it_gap_sequences = {}, it_requested_sequences = {},
     it_sent_sequences = {}, it_last_remote_activity_ms = 0\<rparr>"

definition is_last_increment :: "IncrementTracker \<Rightarrow> bool" where
  "is_last_increment t \<longleftrightarrow> (ucast (it_current_increment t) + 1 :: u32) \<ge> ucast (it_total_increments t)"

definition chunks_in_this_increment :: "IncrementTracker \<Rightarrow> u16" where
  "chunks_in_this_increment t =
     (if is_last_increment t then it_chunks_in_last_increment t else it_chunks_per_increment t)"

definition increment_start_seq :: "IncrementTracker \<Rightarrow> u32" where
  "increment_start_seq t = ucast (it_current_increment t) * ucast (it_chunks_per_increment t)"

definition increment_end_seq :: "IncrementTracker \<Rightarrow> u32" where
  "increment_end_seq t =
     min (increment_start_seq t + ucast (chunks_in_this_increment t)) (it_total_chunks t)"

definition is_busy :: "ota \<Rightarrow> bool" where
  "is_busy s \<longleftrightarrow> om_state s \<noteq> OTA_IDLE"

definition ota_initial :: "ota_config \<Rightarrow> bool \<Rightarrow> ota" where
  "ota_initial config send_fn_set = \<lparr>om_config = config, om_send_frame_fn_set = send_fn_set,
     om_state = OTA_IDLE, om_tracker = tracker_reset, om_leaf_mac = replicate 6 0,
     om_md5 = replicate 16 0, om_file_id = [], om_last_error = [], om_file_size = 0,
     om_transfer_started_ms = 0, om_last_activity_ms = 0, om_last_control_send_ms = 0,
     om_announce_tx_counter = 0, om_no_mem_backoff_until_ms = 0, om_last_chunk_send_ms = 0,
     om_requested_chunk_size = 0, om_negotiated_chunk_size = 0, om_max_encrypted_plaintext = 0,
     om_action = 0, om_control_attempt_count = 0, om_progress_pct = 0,
     om_consecutive_no_mem_errors = 0, om_public_busy = False, om_public_progress_pct = 0,
     om_public_state = ''IDLE'', om_status_leaf_mac = replicate 6 0, om_pending_chunks = [],
     om_tx = []\<rparr>"

definition reject_reason_to_string :: "u8 \<Rightarrow> string" where
  "reject_reason_to_string reason =
     (if reason = 1 then ''busy''
      else if reason = 2 then ''no_space''
      else if reason = 3 then ''unsupported_action''
      else if reason = 4 then ''already_receiving''
      else if reason = 5 then ''deep_sleep''
      else if reason = 6 then ''chip_mismatch''
      else ''reject_unknown'')"

definition complete_result_to_string :: "u8 \<Rightarrow> string" where
  "complete_result_to_string result =
     (if result = 0 then ''success''
      else if result = 1 then ''md5_mismatch''
      else if result = 2 then ''flash_error''
      else if result = 3 then ''write_error''
      else if result = 4 then ''aborted''
      else ''complete_unknown'')"

section \<open>Back-off, reset and failure\<close>

definition mark_no_mem_backoff :: "ota_env \<Rightarrow> ota \<Rightarrow> ota" where
  "mark_no_mem_backoff env s =
     (let consecutive = om_consecutive_no_mem_errors s + 1;
          shift = min (consecutive - 1) 7;
          cfg = om_config s;
          expanded = push_bit (unat shift) (ucast (oc_no_mem_backoff_ms cfg) :: u64);
          backoff_ms = (if shift > 0 then ucast (min expanded (ucast (oc_max_no_mem_backoff_ms cfg)))
                        else oc_no_mem_backoff_ms cfg)
      in s\<lparr>om_consecutive_no_mem_errors := consecutive,
           om_no_mem_backoff_until_ms := env_now env + min backoff_ms (oc_max_no_mem_backoff_ms cfg)\<rparr>)"

definition decay_no_mem_backoff :: "ota \<Rightarrow> ota" where
  "decay_no_mem_backoff s =
     (if om_consecutive_no_mem_errors s > 0 then
        let c = om_consecutive_no_mem_errors s div 2 in
        s\<lparr>om_consecutive_no_mem_errors := c,
          om_no_mem_backoff_until_ms := (if c = 0 then 0 else om_no_mem_backoff_until_ms s)\<rparr>
      else s)"

definition clear_no_mem_backoff :: "ota \<Rightarrow> ota" where
  "clear_no_mem_backoff s = s\<lparr>om_consecutive_no_mem_errors := 0, om_no_mem_backoff_until_ms := 0\<rparr>"

definition ota_reset :: "ota \<Rightarrow> ota" where
  "ota_reset s = s\<lparr>om_state := OTA_IDLE, om_tracker := tracker_reset, om_pending_chunks := [],
     om_file_size := 0, om_transfer_started_ms := 0, om_last_activity_ms := 0,
     om_last_control_send_ms := 0, om_announce_tx_counter := 0, om_no_mem_backoff_until_ms := 0,
     om_last_chunk_send_ms := 0, om_requested_chunk_size := 0, om_negotiated_chunk_size := 0,
     om_action := 0, om_control_attempt_count := 0, om_progress_pct := 0,
     om_consecutive_no_mem_errors := 0, om_file_id := [], om_leaf_mac := replicate 6 0,
     om_md5 := replicate 16 0\<rparr>"

text \<open>Every call of \<^verbatim>\<open>send_frame_fn_\<close>, answered or not, is appended to the log.\<close>

definition send_frame :: "ota_env \<Rightarrow> espnow_packet_type_t \<Rightarrow> bytes \<Rightarrow> ota \<Rightarrow> esp_err_t \<times> u32 \<times> ota" where
  "send_frame env ty payload s =
     (let tx = om_tx s @ [(om_leaf_mac s, ty, payload)];
          (err, counter) = env_send env tx
      in (err, counter, s\<lparr>om_tx := tx\<rparr>))"

definition send_abort :: "ota_env \<Rightarrow> u8 \<Rightarrow> ota \<Rightarrow> bool \<times> ota" where
  "send_abort env reason s =
     (if \<not> om_send_frame_fn_set s then (False, s)
      else let (err, _, s1) = send_frame env PKT_FILE_TRANSFER
                 (enc_file_abort \<lparr>fabort_phase = 2, fabort_reason = reason\<rparr>) s
        in if err = ESP_ERR_ESPNOW_NO_MEM then (False, mark_no_mem_backoff env s1)
           else (err = ESP_OK, clear_no_mem_backoff s1))"

definition fail_transfer :: "ota_env \<Rightarrow> u8 \<Rightarrow> string \<Rightarrow> bool \<Rightarrow> ota \<Rightarrow> ota" where
  "fail_transfer env abort_reason message notify_remote s =
     (let s1 = s\<lparr>om_last_error := message, om_public_busy := False, om_public_state := ''FAIL''\<rparr>;
          s2 = (if notify_remote \<and> om_state s1 \<noteq> ABORTING
                then snd (send_abort env abort_reason (s1\<lparr>om_state := ABORTING\<rparr>)) else s1)
      in ota_reset s2)"

section \<open>Sending\<close>

definition send_announce :: "ota_env \<Rightarrow> ota \<Rightarrow> bool \<times> ota" where
  "send_announce env s =
     (if om_state s \<noteq> ANNOUNCING then (False, s)
      else if om_control_attempt_count s \<ge> ESPNOW_FILE_MAX_RETRIES then
        (False, fail_transfer env 1 ''announce retry limit exceeded'' True s)
      else
        let announce = \<lparr>fann_phase = 0, fann_file_size = om_file_size s, fann_md5 = om_md5 s,
              fann_chunk_size = om_requested_chunk_size s, fann_action = om_action s,
              fann_file_id = c_array 12 (bytes_of_string (om_file_id s))\<rparr>;
            (err, tx_counter, s1) = send_frame env PKT_FILE_TRANSFER (enc_file_announce announce) s
        in if err = ESP_ERR_ESPNOW_NO_MEM then (False, mark_no_mem_backoff env s1)
           else let s2 = clear_no_mem_backoff s1 in
             if err \<noteq> ESP_OK then
               (False, fail_transfer env (if err = ESP_ERR_NOT_FOUND then 2 else 3)
                  (if err = ESP_ERR_NOT_FOUND then ''target unreachable'' else ''failed to send announce'')
                  False s2)
             else (True, s2\<lparr>om_announce_tx_counter := tx_counter, om_last_control_send_ms := env_now env,
                             om_last_activity_ms := env_now env,
                             om_control_attempt_count := om_control_attempt_count s2 + 1\<rparr>))"

definition push_history :: "u32 list \<Rightarrow> u32 \<Rightarrow> u32 list" where
  "push_history hist tx = (let h = hist @ [tx] in if length h > 8 then drop 1 h else h)"

definition send_blast_complete :: "ota_env \<Rightarrow> ota \<Rightarrow> bool \<times> ota" where
  "send_blast_complete env s =
     (let bc = \<lparr>fblast_phase = 3, fblast_increment_index = it_current_increment (om_tracker s)\<rparr>;
          (err, tx_counter, s1) = send_frame env PKT_FILE_TRANSFER (enc_file_blast_complete bc) s
      in if err = ESP_ERR_ESPNOW_NO_MEM then (False, mark_no_mem_backoff env s1)
         else let s2 = clear_no_mem_backoff s1 in
           if err \<noteq> ESP_OK then
             (False, if err = ESP_ERR_NOT_FOUND
                     then fail_transfer env 2 ''target unreachable during BLAST_COMPLETE'' False s2
                     else s2)
           else let t = om_tracker s2 in
             (True, s2\<lparr>om_tracker := t\<lparr>it_last_blast_complete_tx_counter := tx_counter,
                 it_blast_complete_tx_history := push_history (it_blast_complete_tx_history t) tx_counter,
                 it_blast_complete_sent_ms := env_now env,
                 it_blast_complete_retries := it_blast_complete_retries t + 1\<rparr>,
               om_last_activity_ms := env_now env\<rparr>))"

definition send_end :: "ota_env \<Rightarrow> ota \<Rightarrow> bool \<times> ota" where
  "send_end env s =
     (if om_state s \<noteq> WAITING_GAPS \<and> om_state s \<noteq> ENDING then (False, s)
      else if om_control_attempt_count s \<ge> ESPNOW_FILE_MAX_RETRIES then
        (False, fail_transfer env 1 ''end retry limit exceeded'' True s)
      else
        let (err, _, s1) = send_frame env PKT_FILE_TRANSFER [1] s
        in if err = ESP_ERR_ESPNOW_NO_MEM then
             (False, fail_transfer env 3 ''end no mem'' True (mark_no_mem_backoff env s1))
           else let s2 = clear_no_mem_backoff s1 in
             if err \<noteq> ESP_OK then
               (False, fail_transfer env (if err = ESP_ERR_NOT_FOUND then 2 else 3)
                  (if err = ESP_ERR_NOT_FOUND then ''target unreachable'' else ''failed to send end'')
                  (err \<noteq> ESP_ERR_NOT_FOUND) s2)
             else (True, s2\<lparr>om_state := ENDING, om_last_control_send_ms := env_now env,
                             om_last_activity_ms := env_now env,
                             om_control_attempt_count := om_control_attempt_count s2 + 1\<rparr>))"

definition send_chunk :: "ota_env \<Rightarrow> u32 \<Rightarrow> bytes \<Rightarrow> ota \<Rightarrow> bool \<times> ota" where
  "send_chunk env sequence data s =
     (let payload = enc_file_data_header \<lparr>fdata_sequence = sequence\<rparr> @ data in
      if length payload > unat (om_max_encrypted_plaintext s) then
        (False, fail_transfer env 3 ''chunk payload exceeds encrypted limit'' True s)
      else
        let (err, _, s1) = send_frame env PKT_FILE_DATA payload s
        in if err = ESP_ERR_ESPNOW_NO_MEM then (False, mark_no_mem_backoff env s1)
           else let s2 = decay_no_mem_backoff s1 in
             if err \<noteq> ESP_OK then (False, s2)
             else (True, s2\<lparr>om_last_chunk_send_ms := env_now env, om_last_activity_ms := env_now env,
                    om_tracker := (if om_state s2 = BLASTING
                                   then (om_tracker s2)\<lparr>it_last_remote_activity_ms := env_now env\<rparr>
                                   else om_tracker s2)\<rparr>))"

text \<open>The loop over the sequence numbers of the increment, from the first to before the end.\<close>

definition seq_range :: "u32 \<Rightarrow> u32 \<Rightarrow> u32 set" where
  "seq_range a b = set (map word_of_nat [unat a..<unat b])"

definition request_increment_chunks :: "IncrementTracker \<Rightarrow> IncrementTracker" where
  "request_increment_chunks t =
     (if it_retransmit_round t = 0 then
        t\<lparr>it_sent_sequences := {},
          it_requested_sequences := seq_range (increment_start_seq t) (increment_end_seq t)\<rparr>
      else t\<lparr>it_requested_sequences := it_gap_sequences t, it_sent_sequences := {}\<rparr>)"

definition cooling_down :: "ota_env \<Rightarrow> ota \<Rightarrow> bool" where
  "cooling_down env s \<longleftrightarrow> oc_tx_cooldown_ms (om_config s) > 0 \<and> om_last_chunk_send_ms s > 0 \<and>
     env_now env - om_last_chunk_send_ms s < oc_tx_cooldown_ms (om_config s)"

definition pump_blasting :: "ota_env \<Rightarrow> ota \<Rightarrow> ota" where
  "pump_blasting env s =
     (if om_state s \<noteq> BLASTING then s
      else if env_now env < om_no_mem_backoff_until_ms s then s
      else if cooling_down env s then s
      else let t = om_tracker s in
        if it_requested_sequences t = {} \<and> it_sent_sequences t = {} \<and> om_pending_chunks s = [] then
          s\<lparr>om_tracker := request_increment_chunks t, om_public_state := ''TRANSFERRING''\<rparr>
        else s)"

definition blast_done :: "ota_env \<Rightarrow> ota \<Rightarrow> ota" where
  "blast_done env s =
     (let (ok, s1) = send_blast_complete env s in if ok then s1\<lparr>om_state := WAITING_GAPS\<rparr> else s1)"

definition pump_queued_chunks :: "ota_env \<Rightarrow> ota \<Rightarrow> ota" where
  "pump_queued_chunks env s =
     (if om_state s \<noteq> BLASTING then s
      else if env_now env < om_no_mem_backoff_until_ms s then s
      else if cooling_down env s then s
      else case om_pending_chunks s of
        [] \<Rightarrow>
          if it_requested_sequences (om_tracker s) = {} \<and> it_sent_sequences (om_tracker s) \<noteq> {}
          then blast_done env s else s
      | (sequence, data) # rest \<Rightarrow>
          let (ok, s1) = send_chunk env sequence data s in
          if \<not> ok then s1
          else let t = om_tracker s1;
                   s2 = s1\<lparr>om_tracker := t\<lparr>it_sent_sequences := insert sequence (it_sent_sequences t)\<rparr>,
                           om_pending_chunks := rest\<rparr>
            in if rest = [] \<and> it_requested_sequences (om_tracker s2) = {}
               then blast_done env s2 else s2)"

section \<open>Acknowledgements\<close>

definition clamp_chunk_size :: "u16 \<Rightarrow> u16" where
  "clamp_chunk_size remote_max_frame_payload =
     (if remote_max_frame_payload \<le> ESPNOW_FILE_DATA_HEADER_OVERHEAD then 0
      else remote_max_frame_payload - ESPNOW_FILE_DATA_HEADER_OVERHEAD)"

definition expected_chunk_len :: "ota \<Rightarrow> u32 \<Rightarrow> nat" where
  "expected_chunk_len s sequence =
     (if om_negotiated_chunk_size s = 0 \<or> sequence \<ge> it_total_chunks (om_tracker s) then 0
      else let offset = (ucast sequence :: u64) * ucast (om_negotiated_chunk_size s) in
        if offset \<ge> ucast (om_file_size s) then 0
        else unat (min (ucast (om_file_size s) - offset) (ucast (om_negotiated_chunk_size s) :: u64)))"

text \<open>The geometry of a transfer, computed when the remote accepts it.\<close>

definition accept_geometry :: "u32 \<Rightarrow> u16 \<Rightarrow> u8 \<Rightarrow> IncrementTracker \<Rightarrow> IncrementTracker" where
  "accept_geometry file_size negotiated remote_buffer_kb t =
     (let effective_kb = min (ucast remote_buffer_kb) ESPNOW_MAX_INCREMENT_KB;
          increment_data_size = (ucast effective_kb :: u32) * 1024;
          cpi0 = ucast (increment_data_size div ucast negotiated) :: u16;
          cpi = (if cpi0 = 0 then 1 else cpi0);
          total_chunks = file_size div ucast negotiated +
                         (if file_size mod ucast negotiated \<noteq> 0 then 1 else 0);
          ti0 = ucast (total_chunks div ucast cpi +
                       (if total_chunks mod ucast cpi \<noteq> 0 then 1 else 0)) :: u16;
          ti = (if ti0 = 0 then 1 else ti0);
          last0 = ucast (total_chunks - (ucast ti - 1) * ucast cpi) :: u16;
          last_chunks = (if last0 = 0 then cpi else last0)
      in t\<lparr>it_buffer_size_kb := effective_kb, it_chunks_per_increment := cpi,
           it_total_chunks := total_chunks, it_total_increments := ti,
           it_chunks_in_last_increment := last_chunks, it_current_increment := 0,
           it_retransmit_round := 0, it_blast_complete_retries := 0,
           it_blast_complete_tx_history := []\<rparr>)"

definition handle_accept :: "ota_env \<Rightarrow> bytes \<Rightarrow> ota \<Rightarrow> ota" where
  "handle_accept env trailing s =
     (if length trailing < 4 then fail_transfer env 3 ''malformed accept ack'' True s
      else let negotiated = le_word (part_of 0 2 trailing) :: u16;
               remote_buffer_kb = trailing ! 2;
               action = trailing ! 3
        in if action \<noteq> om_action s then fail_transfer env 3 ''accept ack action mismatch'' True s
           else if negotiated = 0 \<or> negotiated > om_requested_chunk_size s then
             fail_transfer env 3 ''invalid negotiated chunk size'' True s
           else if remote_buffer_kb = 0 then
             fail_transfer env 3 ''remote buffer_size_kb is 0'' True s
           else let t = (accept_geometry (om_file_size s) negotiated remote_buffer_kb (om_tracker s))
                          \<lparr>it_last_remote_activity_ms := env_now env\<rparr>;
                    s1 = s\<lparr>om_negotiated_chunk_size := negotiated, om_tracker := t\<rparr>
             in if it_total_chunks t = 0 then
                  fail_transfer env 3 ''invalid negotiated geometry'' True s1
                else s1\<lparr>om_control_attempt_count := 0, om_progress_pct := 0,
                        om_public_progress_pct := 0, om_public_state := ''TRANSFERRING'',
                        om_state := BLASTING, om_tracker := request_increment_chunks t\<rparr>)"

definition progress_after :: "ota \<Rightarrow> u8" where
  "progress_after s =
     (let t = om_tracker s;
          done = (ucast (it_current_increment t) + 1 :: u64) * ucast (it_chunks_per_increment t) *
                 ucast (om_negotiated_chunk_size s);
          bytes_done = min (ucast (om_file_size s)) done;
          pct = ucast (min 100 (bytes_done * 100 div ucast (om_file_size s))) :: u8
      in if pct \<ge> 100 then 99 else pct)"

definition bitmap_received :: "bytes \<Rightarrow> u16 \<Rightarrow> nat \<Rightarrow> bool" where
  "bitmap_received bitmap bitmap_len i \<longleftrightarrow>
     i div 8 < unat bitmap_len \<and> bitmap ! (i div 8) AND push_bit (i mod 8) 1 \<noteq> 0"

definition gap_set :: "IncrementTracker \<Rightarrow> bytes \<Rightarrow> u16 \<Rightarrow> u32 set" where
  "gap_set t bitmap bitmap_len =
     set (map (\<lambda>i. ucast (it_current_increment t) * ucast (it_chunks_per_increment t) + word_of_nat i)
       (filter (\<lambda>i. \<not> bitmap_received bitmap bitmap_len i) [0..<unat (chunks_in_this_increment t)]))"

definition handle_gaps_ack :: "ota_env \<Rightarrow> bytes \<Rightarrow> ota \<Rightarrow> ota" where
  "handle_gaps_ack env trailing s =
     (if length trailing < 2 then fail_transfer env 3 ''malformed gaps ack'' True s
      else let bitmap_len = le_word (part_of 0 2 trailing) :: u16;
               bitmap = drop 2 trailing;
               t = om_tracker s
        in if length trailing < 2 + unat bitmap_len then
             fail_transfer env 3 ''gaps ack trailing too short'' True s
           else if bitmap_len = 0 then
             let s1 = s\<lparr>om_progress_pct := progress_after s, om_public_progress_pct := progress_after s\<rparr>
             in if is_last_increment t then
                  snd (send_end env (s1\<lparr>om_state := ENDING, om_control_attempt_count := 0,
                                        om_public_state := ''VERIFYING''\<rparr>))
                else s1\<lparr>om_tracker := request_increment_chunks
                         (t\<lparr>it_blast_complete_retries := 0, it_blast_complete_tx_history := [],
                            it_retransmit_round := 0,
                            it_current_increment := it_current_increment t + 1,
                            it_requested_sequences := {}, it_sent_sequences := {},
                            it_gap_sequences := {}\<rparr>),
                        om_state := BLASTING\<rparr>
           else if it_retransmit_round t \<ge> ESPNOW_MAX_RETRANSMIT_ROUNDS then
             fail_transfer env 1 ''retransmit rounds exceeded'' True s
           else let gaps = gap_set t bitmap bitmap_len in
             if gaps = {} then
               s\<lparr>om_tracker := request_increment_chunks
                   (t\<lparr>it_retransmit_round := 0, it_blast_complete_retries := 0,
                      it_requested_sequences := {}, it_sent_sequences := {}, it_gap_sequences := {},
                      it_current_increment := it_current_increment t + 1\<rparr>),
                 om_state := BLASTING\<rparr>
             else s\<lparr>om_tracker := t\<lparr>it_gap_sequences := gaps,
                      it_retransmit_round := it_retransmit_round t + 1,
                      it_blast_complete_retries := 0, it_blast_complete_tx_history := [],
                      it_requested_sequences := gaps, it_sent_sequences := {}\<rparr>,
                    om_state := BLASTING\<rparr>)"

definition handle_complete :: "ota_env \<Rightarrow> bytes \<Rightarrow> ota \<Rightarrow> ota" where
  "handle_complete env trailing s =
     (if length trailing < 2 then fail_transfer env 3 ''malformed complete ack'' False s
      else if trailing ! 0 \<noteq> om_action s then
        fail_transfer env 3 ''complete ack action mismatch'' False s
      else if trailing ! 1 = 0 then
        ota_reset (s\<lparr>om_progress_pct := 100, om_public_progress_pct := 100, om_public_busy := False,
                     om_public_state := ''SUCCESS'', om_last_error := [], om_state := OTA_COMPLETE\<rparr>)
      else fail_transfer env 4 (complete_result_to_string (trailing ! 1)) False s)"

definition handle_reject :: "ota_env \<Rightarrow> bytes \<Rightarrow> ota \<Rightarrow> ota" where
  "handle_reject env trailing s =
     (if length trailing < 2 then fail_transfer env 3 ''malformed reject ack'' False s
      else fail_transfer env 3 (reject_reason_to_string (trailing ! 1)) False s)"

definition handle_abort_ack :: "ota_env \<Rightarrow> bytes \<Rightarrow> ota \<Rightarrow> ota" where
  "handle_abort_ack env trailing s =
     (let reason = (if length trailing \<ge> 1 then trailing ! 0 else 1)
      in fail_transfer env reason (abort_reason_to_string reason) False s)"

section \<open>The public operations\<close>

definition start_transfer ::
  "ota_env \<Rightarrow> mac \<Rightarrow> u32 \<Rightarrow> bytes \<Rightarrow> u8 \<Rightarrow> u16 \<Rightarrow> string option \<Rightarrow> ota \<Rightarrow> bool \<times> ota" where
  "start_transfer env leaf_mac file_size md5 action remote_max_frame_payload file_id s =
     (if file_size = 0 then (False, s)
      else if is_busy s then (False, s\<lparr>om_last_error := ''busy''\<rparr>)
      else if \<not> om_send_frame_fn_set s then
        (False, s\<lparr>om_last_error := ''send_frame_fn not configured''\<rparr>)
      else if file_size > 1073741824 then
        (False, s\<lparr>om_last_error := ''file_size exceeds 1GB limit''\<rparr>)
      else let requested = clamp_chunk_size remote_max_frame_payload in
        if requested < 64 then (False, s\<lparr>om_last_error := ''remote chunk size below minimum''\<rparr>)
        else
          let s1 = (ota_reset (s\<lparr>om_max_encrypted_plaintext := espnow_max_plaintext remote_max_frame_payload\<rparr>))
                \<lparr>om_leaf_mac := leaf_mac, om_status_leaf_mac := leaf_mac, om_md5 := md5,
                 om_file_size := file_size, om_requested_chunk_size := requested,
                 om_negotiated_chunk_size := requested, om_action := action,
                 om_file_id := take 12 (case file_id of Some f \<Rightarrow> f | None \<Rightarrow> ''ota.bin''),
                 om_transfer_started_ms := env_now env, om_last_activity_ms := env_now env,
                 om_public_busy := True, om_public_progress_pct := 0,
                 om_public_state := ''START_RECEIVED'', om_last_error := [], om_state := ANNOUNCING\<rparr>;
              (sent, s2) = send_announce env s1
          in (\<not> (\<not> sent \<and> om_state s2 = OTA_IDLE), s2))"

definition on_source_chunk :: "u32 \<Rightarrow> bytes \<Rightarrow> ota \<Rightarrow> bool \<times> ota" where
  "on_source_chunk sequence data s =
     (if om_state s \<noteq> BLASTING then (False, s)
      else let t = om_tracker s in
        if sequence \<notin> it_requested_sequences t then (False, s)
        else let expected_len = expected_chunk_len s sequence in
          if expected_len = 0 \<or> length data \<noteq> expected_len then (False, s)
          else (True, s\<lparr>om_pending_chunks := om_pending_chunks s @ [(sequence, data)],
                        om_tracker := t\<lparr>it_requested_sequences := it_requested_sequences t - {sequence}\<rparr>\<rparr>))"

definition on_source_abort :: "ota_env \<Rightarrow> u8 \<Rightarrow> ota \<Rightarrow> ota" where
  "on_source_abort env reason s =
     (if \<not> is_busy s then s
      else fail_transfer env reason (abort_reason_to_string reason) True s)"

definition same_leaf :: "ota \<Rightarrow> mac \<Rightarrow> bool" where
  "same_leaf s leaf_mac \<longleftrightarrow> om_leaf_mac s = leaf_mac"

definition on_file_ack :: "ota_env \<Rightarrow> mac \<Rightarrow> espnow_ack_t \<Rightarrow> bytes \<Rightarrow> ota \<Rightarrow> bool \<times> ota" where
  "on_file_ack env leaf_mac ack_header trailing s =
     (if \<not> is_busy s then (False, s)
      else if ack_ack_type ack_header \<noteq> packet_type_code PKT_FILE_TRANSFER then (False, s)
      else if \<not> same_leaf s leaf_mac then (False, s)
      else
        let s1 = s\<lparr>om_last_activity_ms := env_now env,
                   om_tracker := (om_tracker s)\<lparr>it_last_remote_activity_ms := env_now env\<rparr>\<rparr>;
            result = ack_result ack_header
        in if result = 0 then
             if om_state s1 = ANNOUNCING then
               if ack_ref_tx_counter ack_header \<noteq> om_announce_tx_counter s1 then (False, s1)
               else (True, handle_accept env trailing s1)
             else (True, s1)
           else if result = 1 then (True, handle_reject env trailing s1)
           else if result = 5 then
             if om_state s1 = WAITING_GAPS then
               if ack_ref_tx_counter ack_header \<notin> set (it_blast_complete_tx_history (om_tracker s1))
               then (False, s1)
               else (True, handle_gaps_ack env trailing s1)
             else (True, s1)
           else if result = 3 then (True, handle_complete env trailing s1)
           else if result = 4 then (True, handle_abort_ack env trailing s1)
           else (False, s1))"

definition silence_timeout :: "ota_run_state \<Rightarrow> u32" where
  "silence_timeout st = (if st = WAITING_GAPS then 45000 else 10000)"

definition ota_loop :: "ota_env \<Rightarrow> ota \<Rightarrow> ota" where
  "ota_loop env s =
     (if \<not> is_busy s then s
      else let now = env_now env; t = om_tracker s in
        if \<not> env_reachable env (om_leaf_mac s) then
          fail_transfer env 2 ''target unreachable'' False s
        else if oc_global_timeout_ms (om_config s) > 0 \<and>
                now - om_transfer_started_ms s > oc_global_timeout_ms (om_config s) then
          fail_transfer env 1 ''transfer global timeout'' True s
        else if now < om_no_mem_backoff_until_ms s then s
        else if it_last_remote_activity_ms t > 0 \<and>
                (om_state s = BLASTING \<or> om_state s = WAITING_GAPS) \<and>
                now - it_last_remote_activity_ms t > silence_timeout (om_state s) then
          fail_transfer env 1 ''radio silence from remote'' True s
        else case om_state s of
          ANNOUNCING \<Rightarrow>
            if om_control_attempt_count s = 0 \<or> now - om_last_control_send_ms s \<ge> 5000
            then snd (send_announce env s) else s
        | BLASTING \<Rightarrow> pump_queued_chunks env (pump_blasting env s)
        | WAITING_GAPS \<Rightarrow>
            if it_blast_complete_sent_ms t > 0 \<and> now - it_blast_complete_sent_ms t \<ge> 1000 then
              if it_blast_complete_retries t \<ge> ESPNOW_MAX_BLAST_COMPLETE_RETRIES
              then fail_transfer env 1 ''BLAST_COMPLETE retry limit exceeded'' True s
              else snd (send_blast_complete env s)
            else s
        | ENDING \<Rightarrow>
            if om_control_attempt_count s = 0 \<or> now - om_last_control_send_ms s \<ge> 5000
            then snd (send_end env s) else s
        | _ \<Rightarrow> s)"

section \<open>The status report\<close>

definition escape_json :: "string \<Rightarrow> string" where
  "escape_json val = concat (map (\<lambda>ch. if ch = CHR 0x5C \<or> ch = CHR 0x22 then [CHR 0x5C, ch] else [ch]) val)"

fun join_comma :: "string list \<Rightarrow> string" where
  "join_comma [] = []"
| "join_comma [x] = x"
| "join_comma (x # xs) = x @ '','' @ join_comma xs"

definition json_key :: "string \<Rightarrow> string" where
  "json_key k = [CHR 0x22] @ k @ [CHR 0x22] @ '':''"

definition json_str :: "string \<Rightarrow> string" where
  "json_str v = [CHR 0x22] @ v @ [CHR 0x22]"

definition status_json :: "ota \<Rightarrow> string" where
  "status_json s =
     (let t = om_tracker s in
      ''{'' @ join_comma
       [json_key ''state'' @ json_str (om_public_state s),
        json_key ''busy'' @ (if om_public_busy s then ''true'' else ''false''),
        json_key ''leaf_mac'' @ json_str (mac_display (if om_public_busy s then om_leaf_mac s else om_status_leaf_mac s)),
        json_key ''file_size'' @ dec_digits (unat (om_file_size s)),
        json_key ''chunk_size'' @ dec_digits (unat (om_negotiated_chunk_size s)),
        json_key ''total_chunks'' @ dec_digits (unat (it_total_chunks t)),
        json_key ''current_increment'' @ dec_digits (unat (it_current_increment t)),
        json_key ''total_increments'' @ dec_digits (unat (it_total_increments t)),
        json_key ''retransmit_round'' @ dec_digits (unat (it_retransmit_round t)),
        json_key ''buffer_size_kb'' @ dec_digits (unat (it_buffer_size_kb t)),
        json_key ''progress_pct'' @ dec_digits (unat (om_public_progress_pct s)),
        json_key ''error'' @ json_str (escape_json (om_last_error s)),
        json_key ''requested'' @ ''['' @
          join_comma (map (\<lambda>q. dec_digits (unat q)) (sorted_list_of_set (it_requested_sequences t))) @ '']''] @
      ''}'')"

end
