(* ===== verification/OTA_Laws.thy ===== *)
theory OTA_Laws
  imports OTA_Manager
begin

unbundle bit_operations_syntax

text \<open>
  The bridge's OTA manager: the geometry it computes, its invariant and how every operation keeps it,
  the bounds on retries, and what a gap report makes it send again.
\<close>

section \<open>Geometry\<close>

lemma accept_geometry_sel:
  "it_total_chunks (accept_geometry n c kb t) = n div ucast c + (if n mod ucast c \<noteq> 0 then 1 else 0)"
  "it_chunks_per_increment (accept_geometry n c kb t) =
     (let cpi0 = ucast (ucast (min (ucast kb) (8 :: u16)) * 1024 div (ucast c :: u32)) :: u16
      in if cpi0 = 0 then 1 else cpi0)"
  "it_total_increments (accept_geometry n c kb t) =
     (let total = it_total_chunks (accept_geometry n c kb t);
          cpi = it_chunks_per_increment (accept_geometry n c kb t);
          ti0 = ucast (total div ucast cpi + (if total mod ucast cpi \<noteq> 0 then 1 else 0)) :: u16
      in if ti0 = 0 then 1 else ti0)"
  "it_chunks_in_last_increment (accept_geometry n c kb t) =
     (let total = it_total_chunks (accept_geometry n c kb t);
          cpi = it_chunks_per_increment (accept_geometry n c kb t);
          ti = it_total_increments (accept_geometry n c kb t);
          last0 = ucast (total - (ucast ti - 1) * ucast cpi) :: u16
      in if last0 = 0 then cpi else last0)"
  by (simp_all add: accept_geometry_def Let_def)

interpretation mgr: word_geometry "\<lambda>n c kb. accept_geometry n c kb t"
  it_total_chunks it_chunks_per_increment it_total_increments it_chunks_in_last_increment for t
  by unfold_locales (rule accept_geometry_sel)+

section \<open>The invariant\<close>

text \<open>
  While a transfer runs, its sizes are within what was negotiated, every queued chunk has exactly the
  length its place in the file gives it, chunks are queued only while blasting, and every retry
  counter is within its limit.
\<close>

definition sizes_ok :: "ota \<Rightarrow> bool" where
  "sizes_ok s \<longleftrightarrow>
     om_send_frame_fn_set s \<and> 0 < om_file_size s \<and> om_file_size s \<le> 2 ^ 30 \<and>
     64 \<le> om_requested_chunk_size s \<and> 0 < om_negotiated_chunk_size s \<and>
     om_negotiated_chunk_size s \<le> om_requested_chunk_size s \<and>
     unat (om_max_encrypted_plaintext s) = unat (om_requested_chunk_size s) + 4"

definition chunk_len_at :: "u16 \<Rightarrow> u32 \<Rightarrow> u32 \<Rightarrow> u32 \<Rightarrow> nat" where
  "chunk_len_at c tot n q =
     (if c = 0 \<or> q \<ge> tot then 0
      else let offset = (ucast q :: u64) * ucast c in
        if offset \<ge> ucast n then 0 else unat (min (ucast n - offset) (ucast c :: u64)))"

lemma expected_chunk_len_at:
  "expected_chunk_len s q =
     chunk_len_at (om_negotiated_chunk_size s) (it_total_chunks (om_tracker s)) (om_file_size s) q"
  by (simp add: expected_chunk_len_def chunk_len_at_def)

definition queue_ok :: "ota \<Rightarrow> bool" where
  "queue_ok s \<longleftrightarrow> list_all (\<lambda>(q, d). expected_chunk_len s q \<noteq> 0 \<and> length d = expected_chunk_len s q)
     (om_pending_chunks s)"

definition counters_ok :: "ota \<Rightarrow> bool" where
  "counters_ok s \<longleftrightarrow>
     om_control_attempt_count s \<le> ESPNOW_FILE_MAX_RETRIES \<and>
     it_retransmit_round (om_tracker s) \<le> ESPNOW_MAX_RETRANSMIT_ROUNDS \<and>
     it_blast_complete_retries (om_tracker s) \<le> ESPNOW_MAX_BLAST_COMPLETE_RETRIES \<and>
     length (it_blast_complete_tx_history (om_tracker s)) \<le> 8"

definition ota_inv :: "ota \<Rightarrow> bool" where
  "ota_inv s \<longleftrightarrow>
     om_state s \<in> {OTA_IDLE, ANNOUNCING, BLASTING, WAITING_GAPS, ENDING} \<and>
     counters_ok s \<and> (is_busy s \<longrightarrow> sizes_ok s) \<and> queue_ok s \<and>
     (om_state s \<noteq> BLASTING \<longrightarrow> om_pending_chunks s = []) \<and>
     (om_state s \<in> {ANNOUNCING, BLASTING} \<longrightarrow> it_blast_complete_retries (om_tracker s) = 0)"

lemmas inv_defs = ota_inv_def counters_ok_def sizes_ok_def queue_ok_def is_busy_def expected_chunk_len_at

lemma ota_inv_reset [simp]: "ota_inv (ota_reset s)"
  by (simp add: inv_defs ota_reset_def tracker_reset_def)

lemma ota_inv_fail [simp]: "ota_inv (fail_transfer env r m n s)"
  by (simp add: fail_transfer_def Let_def)

lemma fail_transfer_idle [simp]: "om_state (fail_transfer env r m n s) = OTA_IDLE"
  by (simp add: fail_transfer_def ota_reset_def Let_def)

text \<open>The back-off bookkeeping and the log are outside the invariant.\<close>

lemma ota_inv_irrelevant:
  assumes "ota_inv s"
    and "om_state s' = om_state s" "om_tracker s' = om_tracker s"
    "om_pending_chunks s' = om_pending_chunks s" "om_control_attempt_count s' = om_control_attempt_count s"
    "om_send_frame_fn_set s' = om_send_frame_fn_set s" "om_file_size s' = om_file_size s"
    "om_requested_chunk_size s' = om_requested_chunk_size s"
    "om_negotiated_chunk_size s' = om_negotiated_chunk_size s"
    "om_max_encrypted_plaintext s' = om_max_encrypted_plaintext s"
  shows "ota_inv s'"
  using assms by (simp add: inv_defs)

lemma ota_inv_backoff [simp]:
  "ota_inv s \<Longrightarrow> ota_inv (mark_no_mem_backoff env s)"
  "ota_inv s \<Longrightarrow> ota_inv (clear_no_mem_backoff s)"
  "ota_inv s \<Longrightarrow> ota_inv (decay_no_mem_backoff s)"
  "ota_inv s \<Longrightarrow> ota_inv (s\<lparr>om_tx := l\<rparr>)"
  by (erule ota_inv_irrelevant;
      simp add: mark_no_mem_backoff_def clear_no_mem_backoff_def decay_no_mem_backoff_def Let_def)+

lemma backoff_sel [simp, frame_simps]:
  "om_state (mark_no_mem_backoff env s) = om_state s"
  "om_state (clear_no_mem_backoff s) = om_state s" "om_tracker (clear_no_mem_backoff s) = om_tracker s"
  "om_pending_chunks (clear_no_mem_backoff s) = om_pending_chunks s"
  "om_control_attempt_count (clear_no_mem_backoff s) = om_control_attempt_count s"
  "om_state (decay_no_mem_backoff s) = om_state s" "om_tracker (decay_no_mem_backoff s) = om_tracker s"
  "om_pending_chunks (decay_no_mem_backoff s) = om_pending_chunks s"
  by (simp_all add: mark_no_mem_backoff_def clear_no_mem_backoff_def decay_no_mem_backoff_def Let_def)

text \<open>The shape of a send: the frame is logged and the answer is the environment's.\<close>

definition logged :: "espnow_packet_type_t \<Rightarrow> bytes \<Rightarrow> ota \<Rightarrow> ota" where
  "logged ty p s = s\<lparr>om_tx := om_tx s @ [(om_leaf_mac s, ty, p)]\<rparr>"

lemma send_frame_eq:
  "send_frame env ty p s = (fst (env_send env (om_tx (logged ty p s))), snd (env_send env (om_tx (logged ty p s))), logged ty p s)"
  by (simp add: send_frame_def Let_def logged_def split_beta)

lemma ota_inv_logged [simp]: "ota_inv s \<Longrightarrow> ota_inv (logged ty p s)"
  by (simp add: logged_def)

lemma logged_sel [simp, frame_simps]:
  "om_state (logged ty p s) = om_state s" "om_tracker (logged ty p s) = om_tracker s"
  "om_pending_chunks (logged ty p s) = om_pending_chunks s"
  "om_control_attempt_count (logged ty p s) = om_control_attempt_count s"
  by (simp_all add: logged_def)

lemma word8_suc_le: "(x :: u8) < b \<Longrightarrow> x + 1 \<le> b"
  by (rule inc_le)

text \<open>One more attempt, with the counter still below its limit.\<close>

lemma ota_inv_attempt:
  assumes "ota_inv s" "om_control_attempt_count s < 3"
    and "s' = s\<lparr>om_announce_tx_counter := c, om_last_control_send_ms := n, om_last_activity_ms := n,
                om_control_attempt_count := om_control_attempt_count s + 1\<rparr>"
  shows "ota_inv s'"
  using assms word8_suc_le [of "om_control_attempt_count s" 3] by (simp add: inv_defs)

lemma ota_inv_ending:
  assumes "ota_inv s" "om_control_attempt_count s < 3" "om_state s = WAITING_GAPS \<or> om_state s = ENDING"
    and "s' = s\<lparr>om_state := ENDING, om_last_control_send_ms := n, om_last_activity_ms := n,
                om_control_attempt_count := om_control_attempt_count s + 1\<rparr>"
  shows "ota_inv s'"
  using assms(3) assms(1,2,4) word8_suc_le [of "om_control_attempt_count s" 3]
  by (elim disjE) (simp_all add: inv_defs)

lemma ota_inv_send_announce: "ota_inv s \<Longrightarrow> ota_inv (snd (send_announce env s))"
  by (simp add: send_announce_def send_frame_eq Let_def not_le)
     (auto intro: ota_inv_attempt [where s = "clear_no_mem_backoff (logged _ _ s)"])

lemma length_push_history: "length h \<le> 8 \<Longrightarrow> length (push_history h x) \<le> 8"
  by (auto simp: push_history_def Let_def)

text \<open>The tracker after a BLAST_COMPLETE that went out, with the retry counter still below its limit.\<close>

definition blast_sent :: "u32 \<Rightarrow> u32 \<Rightarrow> ota \<Rightarrow> ota" where
  "blast_sent n c s = s\<lparr>om_tracker := (om_tracker s)\<lparr>it_last_blast_complete_tx_counter := c,
      it_blast_complete_tx_history := push_history (it_blast_complete_tx_history (om_tracker s)) c,
      it_blast_complete_sent_ms := n,
      it_blast_complete_retries := it_blast_complete_retries (om_tracker s) + 1\<rparr>,
    om_last_activity_ms := n\<rparr>"

definition blast_frame :: "ota \<Rightarrow> bytes" where
  "blast_frame s = enc_file_blast_complete
     \<lparr>fblast_phase = 3, fblast_increment_index = it_current_increment (om_tracker s)\<rparr>"

lemma send_blast_complete_eq:
  "send_blast_complete env s =
     (let s1 = logged PKT_FILE_TRANSFER (blast_frame s) s; (err, c) = env_send env (om_tx s1) in
      case err of
        ESP_ERR_ESPNOW_NO_MEM \<Rightarrow> (False, mark_no_mem_backoff env s1)
      | ESP_ERR_NOT_FOUND \<Rightarrow> (False, fail_transfer env 2 ''target unreachable during BLAST_COMPLETE'' False
                                  (clear_no_mem_backoff s1))
      | ESP_ERR_INVALID_ARG \<Rightarrow> (False, clear_no_mem_backoff s1)
      | ESP_FAIL \<Rightarrow> (False, clear_no_mem_backoff s1)
      | ESP_OK \<Rightarrow> (True, blast_sent (env_now env) c (clear_no_mem_backoff s1)))"
proof -
  obtain err c where e: "env_send env (om_tx (logged PKT_FILE_TRANSFER (blast_frame s) s)) = (err, c)"
    by (cases "env_send env (om_tx (logged PKT_FILE_TRANSFER (blast_frame s) s))")
  show ?thesis
    unfolding send_blast_complete_def blast_frame_def [symmetric] send_frame_eq Let_def e
    by (cases err) (simp_all add: blast_sent_def)
qed

lemma ota_inv_blast_sent:
  assumes "ota_inv s" "it_blast_complete_retries (om_tracker s) < 20" "om_state s \<noteq> OTA_IDLE"
    "om_pending_chunks s = []"
  shows "ota_inv ((blast_sent n c s)\<lparr>om_state := WAITING_GAPS\<rparr>)"
  using assms word8_suc_le [of "it_blast_complete_retries (om_tracker s)" 20]
  by (simp add: inv_defs blast_sent_def length_push_history)

lemma blast_sent_waiting:
  "om_state s = WAITING_GAPS \<Longrightarrow> (blast_sent n c s)\<lparr>om_state := WAITING_GAPS\<rparr> = blast_sent n c s"
  by (simp add: blast_sent_def)

lemma ota_inv_blast_waiting:
  assumes "ota_inv s" "om_state s = WAITING_GAPS" "it_blast_complete_retries (om_tracker s) < 20"
  shows "ota_inv (snd (send_blast_complete env s))"
proof -
  have q: "om_pending_chunks s = []" using assms(1,2) by (simp add: ota_inv_def)
  let ?s1 = "clear_no_mem_backoff (logged PKT_FILE_TRANSFER (blast_frame s) s)"
  have "ota_inv (blast_sent n c ?s1)" for n c
    using ota_inv_blast_sent [of ?s1 n c] blast_sent_waiting [of ?s1 n c] assms q by simp
  then show ?thesis
    using assms(1) by (simp add: send_blast_complete_eq Let_def split_beta split: esp_err_t.split)
qed

lemma ota_inv_blast_done:
  assumes "ota_inv s" "om_state s = BLASTING" "om_pending_chunks s = []"
  shows "ota_inv (blast_done env s)"
proof -
  have r: "it_blast_complete_retries (om_tracker s) = 0" using assms(1,2) by (simp add: ota_inv_def)
  let ?s1 = "clear_no_mem_backoff (logged PKT_FILE_TRANSFER (blast_frame s) s)"
  have "ota_inv ((blast_sent n c ?s1)\<lparr>om_state := WAITING_GAPS\<rparr>)" for n c
    using ota_inv_blast_sent [of ?s1 n c] assms r by simp
  then show ?thesis
    using assms(1)
    by (simp add: blast_done_def send_blast_complete_eq Let_def split_beta split: esp_err_t.split)
qed

lemma ota_inv_send_end: "ota_inv s \<Longrightarrow> ota_inv (snd (send_end env s))"
  by (simp add: send_end_def send_frame_eq Let_def not_le)
     (auto intro: ota_inv_ending [where s = "clear_no_mem_backoff (logged _ _ s)"])

lemma send_chunk_ok:
  assumes "ota_inv s" "om_state s = BLASTING" "om_pending_chunks s = (q, d) # rest"
  shows "length d + 4 \<le> unat (om_max_encrypted_plaintext s)"
proof -
  have "length d = chunk_len_at (om_negotiated_chunk_size s) (it_total_chunks (om_tracker s)) (om_file_size s) q"
    using assms(1,3) by (simp add: inv_defs)
  moreover have "\<dots> \<le> unat (om_negotiated_chunk_size s)"
  proof -
    have "unat (min a (ucast (om_negotiated_chunk_size s) :: u64)) \<le> unat (om_negotiated_chunk_size s)" for a
    proof -
      have "unat (min a (ucast (om_negotiated_chunk_size s) :: u64)) \<le> unat (ucast (om_negotiated_chunk_size s) :: u64)"
        by (simp flip: word_le_nat_alt)
      then show ?thesis by (simp add: unat_ucast_up)
    qed
    then show ?thesis by (simp add: chunk_len_at_def Let_def)
  qed
  moreover have "om_negotiated_chunk_size s \<le> om_requested_chunk_size s"
    "unat (om_max_encrypted_plaintext s) = unat (om_requested_chunk_size s) + 4"
    using assms(1,2) by (simp_all add: inv_defs)
  ultimately show ?thesis by (simp add: word_le_nat_alt)
qed

definition chunk_sent :: "u32 \<Rightarrow> u32 \<Rightarrow> (u32 \<times> bytes) list \<Rightarrow> ota \<Rightarrow> ota" where
  "chunk_sent n q rest s = s\<lparr>om_last_chunk_send_ms := n, om_last_activity_ms := n,
     om_tracker := (om_tracker s)\<lparr>it_last_remote_activity_ms := n,
       it_sent_sequences := insert q (it_sent_sequences (om_tracker s))\<rparr>,
     om_pending_chunks := rest\<rparr>"

lemma ota_inv_chunk_sent:
  assumes "ota_inv s" "om_state s = BLASTING" "om_pending_chunks s = (q, d) # rest"
  shows "ota_inv (chunk_sent n q rest s)" "om_state (chunk_sent n q rest s) = BLASTING"
    "om_pending_chunks (chunk_sent n q rest s) = rest"
    "it_requested_sequences (om_tracker (chunk_sent n q rest s)) = it_requested_sequences (om_tracker s)"
  using assms by (simp_all add: inv_defs chunk_sent_def)

definition chunk_frame :: "u32 \<Rightarrow> bytes \<Rightarrow> bytes" where
  "chunk_frame q d = enc_file_data_header \<lparr>fdata_sequence = q\<rparr> @ d"

lemma length_chunk_frame: "length (chunk_frame q d) = 4 + length d"
  by (simp add: chunk_frame_def enc_file_data_header_def)

text \<open>Sending the head of the queue, when nothing holds the sender back.\<close>

lemma pump_queued_head:
  assumes "ota_inv s" "om_state s = BLASTING" "om_pending_chunks s = (q, d) # rest"
    and "\<not> env_now env < om_no_mem_backoff_until_ms s" "\<not> cooling_down env s"
  shows "pump_queued_chunks env s =
    (let s1 = logged PKT_FILE_DATA (chunk_frame q d) s; err = fst (env_send env (om_tx s1)) in
     if err = ESP_ERR_ESPNOW_NO_MEM then mark_no_mem_backoff env s1
     else if err \<noteq> ESP_OK then decay_no_mem_backoff s1
     else let s2 = chunk_sent (env_now env) q rest (decay_no_mem_backoff s1) in
       if rest = [] \<and> it_requested_sequences (om_tracker s2) = {} then blast_done env s2 else s2)"
proof -
  let ?s1 = "logged PKT_FILE_DATA (chunk_frame q d) s"
  have fits: "\<not> length (chunk_frame q d) > unat (om_max_encrypted_plaintext s)"
    using send_chunk_ok [OF assms(1-3)] by (simp add: length_chunk_frame)
  obtain err c where e: "env_send env (om_tx ?s1) = (err, c)" by (cases "env_send env (om_tx ?s1)")
  have c: "send_chunk env q d s =
    (if err = ESP_ERR_ESPNOW_NO_MEM then (False, mark_no_mem_backoff env ?s1)
     else if err \<noteq> ESP_OK then (False, decay_no_mem_backoff ?s1)
     else (True, (decay_no_mem_backoff ?s1)\<lparr>om_last_chunk_send_ms := env_now env, om_last_activity_ms := env_now env,
            om_tracker := (om_tracker (decay_no_mem_backoff ?s1))\<lparr>it_last_remote_activity_ms := env_now env\<rparr>\<rparr>))"
    using fits assms(2)
    unfolding send_chunk_def chunk_frame_def [symmetric] send_frame_eq Let_def e by simp
  show ?thesis
    using assms(2-5)
    unfolding pump_queued_chunks_def Let_def e fst_conv
    by (cases "err = ESP_ERR_ESPNOW_NO_MEM"; cases "err = ESP_OK") (simp_all add: c chunk_sent_def)
qed

lemma ota_inv_pump_queued: "ota_inv s \<Longrightarrow> ota_inv (pump_queued_chunks env s)"
proof (cases "om_state s = BLASTING \<and> \<not> env_now env < om_no_mem_backoff_until_ms s \<and> \<not> cooling_down env s")
  case False
  assume "ota_inv s"
  with False show ?thesis by (auto simp: pump_queued_chunks_def)
next
  case True
  assume inv: "ota_inv s"
  show ?thesis
  proof (cases "om_pending_chunks s")
    case Nil
    then show ?thesis
      using True inv ota_inv_blast_done [OF inv] by (simp add: pump_queued_chunks_def)
  next
    case (Cons c rest)
    obtain q d where c: "c = (q, d)" by (cases c)
    let ?s1 = "decay_no_mem_backoff (logged PKT_FILE_DATA (chunk_frame q d) s)"
    note sent = ota_inv_chunk_sent [of ?s1 q d rest "env_now env"]
    have "ota_inv (chunk_sent (env_now env) q rest ?s1)"
      and "rest = [] \<Longrightarrow> ota_inv (blast_done env (chunk_sent (env_now env) q rest ?s1))"
      using sent True inv Cons c by (auto intro!: ota_inv_blast_done)
    then show ?thesis
      using inv True Cons c by (simp add: pump_queued_head [of s q d rest env] Let_def)
  qed
qed

text \<open>The invariant does not look at the sets of sequence numbers.\<close>

lemma ota_inv_request:
  "ota_inv s \<Longrightarrow> ota_inv (s\<lparr>om_tracker := request_increment_chunks (om_tracker s), om_public_state := p\<rparr>)"
  by (simp add: inv_defs request_increment_chunks_def)

lemma ota_inv_pump_blasting: "ota_inv s \<Longrightarrow> ota_inv (pump_blasting env s)"
  using ota_inv_request by (simp add: pump_blasting_def Let_def)

lemma ota_inv_touch: "ota_inv s \<Longrightarrow>
  ota_inv (s\<lparr>om_last_activity_ms := n, om_tracker := (om_tracker s)\<lparr>it_last_remote_activity_ms := n\<rparr>\<rparr>)"
  by (simp add: inv_defs)

lemma request_sel [simp, frame_simps]:
  "it_retransmit_round (request_increment_chunks t) = it_retransmit_round t"
  "it_blast_complete_retries (request_increment_chunks t) = it_blast_complete_retries t"
  "it_blast_complete_tx_history (request_increment_chunks t) = it_blast_complete_tx_history t"
  "it_total_chunks (request_increment_chunks t) = it_total_chunks t"
  by (simp_all add: request_increment_chunks_def)

lemma ota_inv_handle_accept:
  assumes "ota_inv s" "om_state s = ANNOUNCING"
  shows "ota_inv (handle_accept env trailing s)"
proof -
  have q: "om_pending_chunks s = []" and ok: "sizes_ok s" and b: "counters_ok s"
    using assms by (simp_all add: ota_inv_def is_busy_def)
  have geo: "it_retransmit_round (accept_geometry n c kb t) = 0"
    "it_blast_complete_retries (accept_geometry n c kb t) = 0"
    "it_blast_complete_tx_history (accept_geometry n c kb t) = []" for n c kb t
    by (simp_all add: accept_geometry_def Let_def)
  show ?thesis
    using q ok b
    by (simp add: handle_accept_def Let_def) (auto simp: inv_defs geo word_gt_0)
qed

lemma ota_inv_handle_gaps:
  assumes "ota_inv s" "om_state s = WAITING_GAPS"
  shows "ota_inv (handle_gaps_ack env trailing s)"
proof -
  have q: "om_pending_chunks s = []" and ok: "sizes_ok s" and b: "counters_ok s"
    using assms by (simp_all add: ota_inv_def is_busy_def)
  let ?s1 = "s\<lparr>om_progress_pct := progress_after s, om_public_progress_pct := progress_after s\<rparr>"
  have e: "ota_inv (?s1\<lparr>om_state := ENDING, om_control_attempt_count := 0, om_public_state := p\<rparr>)" for p
    using q ok b by (simp add: inv_defs)
  have r: "it_retransmit_round (om_tracker s) + 1 \<le> 10" if "it_retransmit_round (om_tracker s) < 10"
    using that by (rule word8_suc_le)
  show ?thesis
    using q ok b r
    by (simp add: handle_gaps_ack_def Let_def ota_inv_send_end [OF e] not_le)
       (auto simp: inv_defs)
qed

lemma ota_inv_on_file_ack: "ota_inv s \<Longrightarrow> ota_inv (snd (on_file_ack env m ack tr s))"
proof -
  assume inv: "ota_inv s"
  let ?s1 = "s\<lparr>om_last_activity_ms := env_now env,
               om_tracker := (om_tracker s)\<lparr>it_last_remote_activity_ms := env_now env\<rparr>\<rparr>"
  have 1: "ota_inv ?s1" by (rule ota_inv_touch [OF inv])
  have a: "om_state s = ANNOUNCING \<Longrightarrow> ota_inv (handle_accept env tr ?s1)"
    by (rule ota_inv_handle_accept [OF 1]) simp
  have g: "om_state s = WAITING_GAPS \<Longrightarrow> ota_inv (handle_gaps_ack env tr ?s1)"
    by (rule ota_inv_handle_gaps [OF 1]) simp
  show ?thesis
    using inv 1 a g
    by (simp add: on_file_ack_def Let_def handle_reject_def handle_complete_def handle_abort_ack_def)
qed

lemma clamp_plaintext:
  assumes "64 \<le> clamp_chunk_size r"
  shows "unat (espnow_max_plaintext r) = unat (clamp_chunk_size r) + 4"
proof -
  have r: "29 < unat r" "clamp_chunk_size r = r - 29"
    using assms by (auto simp: clamp_chunk_size_def word_less_nat_alt word_le_nat_alt split: if_splits)
  have "unat (r - 29) = unat r - 29" using r by (subst unat_sub) (simp_all add: word_le_nat_alt)
  moreover have "unat (r - 25) = unat r - 25" using r by (subst unat_sub) (simp_all add: word_le_nat_alt)
  moreover have "espnow_max_plaintext r = r - 25" by (simp add: espnow_max_plaintext_def)
  ultimately show ?thesis using r by simp
qed

lemma ota_inv_start:
  assumes "ota_inv s"
  shows "ota_inv (snd (start_transfer env m n md5 a r f s))"
proof -
  have upd: "ota_inv (s\<lparr>om_last_error := e\<rparr>)" for e
    using assms by (rule ota_inv_irrelevant) simp_all
  have "ota_inv ((ota_reset (s\<lparr>om_max_encrypted_plaintext := espnow_max_plaintext r\<rparr>))
          \<lparr>om_leaf_mac := m, om_status_leaf_mac := m, om_md5 := md5, om_file_size := n,
           om_requested_chunk_size := clamp_chunk_size r, om_negotiated_chunk_size := clamp_chunk_size r,
           om_action := a, om_file_id := fid, om_transfer_started_ms := env_now env,
           om_last_activity_ms := env_now env, om_public_busy := True, om_public_progress_pct := 0,
           om_public_state := ps, om_last_error := [], om_state := ANNOUNCING\<rparr>)"
    if "n \<noteq> 0" "om_send_frame_fn_set s" "\<not> n > 1073741824" "\<not> clamp_chunk_size r < 64" for fid ps
  proof -
    have "64 \<le> clamp_chunk_size r" using that(4) by simp
    moreover from this have "0 < clamp_chunk_size r" by (rule less_le_trans [rotated]) simp
    ultimately show ?thesis
      using that clamp_plaintext [of r]
      by (simp add: inv_defs ota_reset_def tracker_reset_def word_gt_0 not_less)
  qed
  then show ?thesis
    using assms upd by (simp add: start_transfer_def Let_def split_beta ota_inv_send_announce)
qed

lemma ota_inv_source_chunk: "ota_inv s \<Longrightarrow> ota_inv (snd (on_source_chunk q d s))"
  by (simp add: on_source_chunk_def Let_def) (simp add: inv_defs)

lemma ota_inv_source_abort: "ota_inv s \<Longrightarrow> ota_inv (on_source_abort env r s)"
  by (simp add: on_source_abort_def)

lemma ota_inv_loop: "ota_inv s \<Longrightarrow> ota_inv (ota_loop env s)"
  by (auto simp: ota_loop_def Let_def ota_inv_send_announce ota_inv_send_end not_le
      intro!: ota_inv_pump_queued ota_inv_pump_blasting ota_inv_blast_waiting split: ota_run_state.split)

section \<open>Runs\<close>

text \<open>Any interleaving of the manager's operations, each in any environment.\<close>

inductive ota_step :: "ota \<Rightarrow> ota \<Rightarrow> bool" where
  start: "ota_step s (snd (start_transfer env m n md5 a r f s))"
| chunk: "ota_step s (snd (on_source_chunk q d s))"
| source_abort: "ota_step s (on_source_abort env r s)"
| ack: "ota_step s (snd (on_file_ack env m a tr s))"
| tick: "ota_step s (ota_loop env s)"

inductive_cases ota_stepE: "ota_step s s'"

lemma ota_step_inv: "ota_step s s' \<Longrightarrow> ota_inv s \<Longrightarrow> ota_inv s'"
  by (erule ota_stepE)
     (simp_all add: ota_inv_start ota_inv_source_chunk ota_inv_source_abort ota_inv_on_file_ack ota_inv_loop)

definition ota_reachable :: "ota \<Rightarrow> bool" where
  "ota_reachable s \<longleftrightarrow> (\<exists>cfg b. ota_step\<^sup>*\<^sup>* (ota_initial cfg b) s)"

lemma ota_inv_initial: "ota_inv (ota_initial cfg b)"
  by (simp add: inv_defs ota_initial_def tracker_reset_def)

lemma ota_reachable_inv: "ota_reachable s \<Longrightarrow> ota_inv s"
proof -
  assume "ota_reachable s"
  then obtain cfg b where "ota_step\<^sup>*\<^sup>* (ota_initial cfg b) s" by (auto simp: ota_reachable_def)
  then show ?thesis by (induction rule: rtranclp_induct) (auto intro: ota_step_inv ota_inv_initial)
qed

section \<open>What an increment asks for\<close>

lemma unat_image_seq_range: "unat ` seq_range a b = {unat a..<unat b}"
proof -
  have u: "unat (word_of_nat i :: u32) = i" if "i < unat b" for i
    using that unsigned_less [of b, where 'a = nat] by (simp add: unat_of_nat take_bit_nat_eq_self)
  show ?thesis by (force simp: seq_range_def image_image u intro!: image_cong)
qed

text \<open>The tracker holds the geometry of a file of \<open>n\<close> bytes in chunks of \<open>c\<close>.\<close>

definition has_geometry :: "IncrementTracker \<Rightarrow> u32 \<Rightarrow> u16 \<Rightarrow> u8 \<Rightarrow> bool" where
  "has_geometry t n c kb \<longleftrightarrow>
     (let g = accept_geometry n c kb t in
      it_total_chunks t = it_total_chunks g \<and> it_chunks_per_increment t = it_chunks_per_increment g \<and>
      it_total_increments t = it_total_increments g \<and>
      it_chunks_in_last_increment t = it_chunks_in_last_increment g)"

abbreviation tracker_seqs :: "IncrementTracker \<Rightarrow> nat \<Rightarrow> nat list" where
  "tracker_seqs t k \<equiv> inc_seqs (unat (it_total_chunks t)) (unat (it_total_increments t))
     (unat (it_chunks_per_increment t)) (unat (it_chunks_in_last_increment t)) k"

lemma increment_bounds:
  assumes "c \<noteq> 0" "0 < n" "n \<le> 2 ^ 30" "increments_fit n c kb" "has_geometry t n c kb"
    and k: "unat (it_current_increment t) < unat (it_total_increments t)"
  shows "unat (increment_start_seq t) = unat (it_current_increment t) * unat (it_chunks_per_increment t)"
    and "unat (increment_end_seq t) =
      min (unat (it_current_increment t) * unat (it_chunks_per_increment t) + unat (chunks_in_this_increment t))
        (unat (it_total_chunks t))"
    and "unat (it_total_chunks t) \<le> 2 ^ 30"
proof -
  let ?g = "accept_geometry n c kb t"
  note fit = mgr.fit_geometry [OF assms(1,3,4), of t]
  have g: "it_total_chunks t = it_total_chunks ?g" "it_chunks_per_increment t = it_chunks_per_increment ?g"
    "it_total_increments t = it_total_increments ?g"
    using assms(5) by (simp_all add: has_geometry_def Let_def)
  have T: "0 < unat (it_total_chunks t)" "0 < unat (it_chunks_per_increment t)"
    using mgr.geometry_facts [OF assms(1-3), of kb t] g by simp_all
  show le: "unat (it_total_chunks t) \<le> 2 ^ 30"
    using mgr.geometry_facts(2) [OF assms(1-3), of kb t] g by simp
  have m: "unat (it_total_increments t) = ceil_div (unat (it_total_chunks t)) (unat (it_chunks_per_increment t))"
    using mgr.increments_eq [OF assms(1-3) fit] g by simp
  have "unat (it_current_increment t) * unat (it_chunks_per_increment t) \<le>
        (unat (it_total_increments t) - 1) * unat (it_chunks_per_increment t)"
    using k by (intro mult_le_mono1) simp
  also have "\<dots> < unat (it_total_chunks t)" using ceil_div_bounds(2) [OF T(2,1)] m by simp
  finally have lt: "unat (it_current_increment t) * unat (it_chunks_per_increment t) < unat (it_total_chunks t)" .
  show s: "unat (increment_start_seq t) = unat (it_current_increment t) * unat (it_chunks_per_increment t)"
    unfolding increment_start_seq_def
    by (subst unat_times_fits) (use lt le in \<open>simp_all add: unat_ucast_up\<close>)
  have "unat (chunks_in_this_increment t) < 2 ^ 16"
    using unsigned_less [of "chunks_in_this_increment t", where 'a = nat] by simp
  then have "unat (increment_start_seq t + ucast (chunks_in_this_increment t)) =
      unat (increment_start_seq t) + unat (chunks_in_this_increment t)"
    by (subst unat_plus_fits) (use s lt le in \<open>simp_all add: unat_ucast_up\<close>)
  then show "unat (increment_end_seq t) =
      min (unat (it_current_increment t) * unat (it_chunks_per_increment t) + unat (chunks_in_this_increment t))
        (unat (it_total_chunks t))"
    by (simp add: increment_end_seq_def min_def word_le_nat_alt s)
qed

lemma chunks_in_this_increment_nat:
  "unat (chunks_in_this_increment t) =
     inc_chunks (unat (it_total_increments t)) (unat (it_chunks_per_increment t))
       (unat (it_chunks_in_last_increment t)) (unat (it_current_increment t))"
proof -
  have "unat (ucast (it_current_increment t) + 1 :: u32) = unat (it_current_increment t) + 1"
    by (subst unat_plus_fits) (use unsigned_less [of "it_current_increment t", where 'a = nat] in
        \<open>simp_all add: unat_ucast_up\<close>)
  then show ?thesis
    by (simp add: chunks_in_this_increment_def is_last_increment_def inc_chunks_def word_le_nat_alt unat_ucast_up)
qed

lemma request_increment_exact:
  assumes "c \<noteq> 0" "0 < n" "n \<le> 2 ^ 30" "increments_fit n c kb" "has_geometry t n c kb"
    and "unat (it_current_increment t) < unat (it_total_increments t)" "it_retransmit_round t = 0"
  shows "unat ` it_requested_sequences (request_increment_chunks t) =
           set (tracker_seqs t (unat (it_current_increment t)))"
proof -
  note b = increment_bounds [OF assms(1-6)]
  have "it_requested_sequences (request_increment_chunks t) =
          seq_range (increment_start_seq t) (increment_end_seq t)"
    using assms(7) by (simp add: request_increment_chunks_def)
  then show ?thesis
    by (simp add: unat_image_seq_range b(1,2) inc_seqs_def chunks_in_this_increment_nat)
qed

section \<open>Gap reports\<close>

lemma mem_gap_set:
  "q \<in> gap_set t bitmap len \<longleftrightarrow>
     (\<exists>i < unat (chunks_in_this_increment t). \<not> bitmap_received bitmap len i \<and>
        q = increment_start_seq t + word_of_nat i)"
  by (auto simp: gap_set_def increment_start_seq_def)

lemma handle_gaps_retransmit:
  assumes "length tr \<ge> 2 + unat (le_word (part_of 0 2 tr) :: u16)" "(le_word (part_of 0 2 tr) :: u16) \<noteq> 0"
    and "it_retransmit_round (om_tracker s) < 10"
    and "gap_set (om_tracker s) (drop 2 tr) (le_word (part_of 0 2 tr)) \<noteq> {}"
  shows "om_state (handle_gaps_ack env tr s) = BLASTING"
    and "it_requested_sequences (om_tracker (handle_gaps_ack env tr s)) =
           gap_set (om_tracker s) (drop 2 tr) (le_word (part_of 0 2 tr))"
    and "it_sent_sequences (om_tracker (handle_gaps_ack env tr s)) = {}"
    and "it_current_increment (om_tracker (handle_gaps_ack env tr s)) = it_current_increment (om_tracker s)"
    and "it_retransmit_round (om_tracker (handle_gaps_ack env tr s)) = it_retransmit_round (om_tracker s) + 1"
  using assms(1,2,4) assms(3) [unfolded not_le [symmetric]] by (simp_all add: handle_gaps_ack_def Let_def)

text \<open>
  A report whose bitmap is complete but not empty, for the last increment, moves the counter past the
  last increment.  Nothing is requested, queued or sent any more, and every further iteration of the
  loop leaves it so until a timeout fails the transfer.
\<close>

definition exhausted :: "ota \<Rightarrow> bool" where
  "exhausted s \<longleftrightarrow> om_state s = BLASTING \<and> om_pending_chunks s = [] \<and>
     it_requested_sequences (om_tracker s) = {} \<and> it_sent_sequences (om_tracker s) = {} \<and>
     it_retransmit_round (om_tracker s) = 0 \<and>
     increment_end_seq (om_tracker s) \<le> increment_start_seq (om_tracker s)"

lemma seq_range_empty: "b \<le> a \<Longrightarrow> seq_range a b = {}"
  by (simp add: seq_range_def word_le_nat_alt)

lemma request_range:
  "increment_start_seq (request_increment_chunks t) = increment_start_seq t"
  "increment_end_seq (request_increment_chunks t) = increment_end_seq t"
  by (simp_all add: request_increment_chunks_def increment_end_seq_def increment_start_seq_def
      chunks_in_this_increment_def is_last_increment_def)

lemma request_fresh:
  "it_retransmit_round t = 0 \<Longrightarrow> it_sent_sequences (request_increment_chunks t) = {}"
  "it_retransmit_round t = 0 \<Longrightarrow>
   it_requested_sequences (request_increment_chunks t) = seq_range (increment_start_seq t) (increment_end_seq t)"
  by (simp_all add: request_increment_chunks_def)

lemma exhausted_request:
  "exhausted s \<Longrightarrow> request_increment_chunks (om_tracker s) = om_tracker s"
  by (simp add: exhausted_def request_increment_chunks_def seq_range_empty)

lemma exhausted_pump:
  assumes "exhausted s"
  shows "exhausted (pump_queued_chunks env (pump_blasting env s))"
    "om_tx (pump_queued_chunks env (pump_blasting env s)) = om_tx s"
proof -
  have b: "pump_blasting env s = s \<or> pump_blasting env s = s\<lparr>om_public_state := ''TRANSFERRING''\<rparr>"
    using exhausted_request [OF assms] by (auto simp: pump_blasting_def Let_def)
  have ex: "exhausted (pump_blasting env s)" and tx: "om_tx (pump_blasting env s) = om_tx s"
    using b assms by (auto simp: exhausted_def)
  have "pump_queued_chunks env (pump_blasting env s) = pump_blasting env s"
    using ex by (simp add: exhausted_def pump_queued_chunks_def)
  then show "exhausted (pump_queued_chunks env (pump_blasting env s))"
    "om_tx (pump_queued_chunks env (pump_blasting env s)) = om_tx s" using ex tx by simp_all
qed

lemma exhausted_loop:
  assumes "exhausted s"
  shows "om_state (ota_loop env s) = OTA_IDLE \<or> (exhausted (ota_loop env s) \<and> om_tx (ota_loop env s) = om_tx s)"
proof -
  have "om_state s = BLASTING" using assms by (simp add: exhausted_def)
  then show ?thesis
    using assms exhausted_pump [OF assms, of env] by (simp add: ota_loop_def is_busy_def Let_def)
qed

lemma exhausted_rejects_chunks: "exhausted s \<Longrightarrow> on_source_chunk q d s = (False, s)"
  by (simp add: exhausted_def on_source_chunk_def Let_def)

lemma full_bitmap_exhausts:
  assumes "c \<noteq> 0" "0 < n" "n \<le> 2 ^ 30" "increments_fit n c kb" "has_geometry (om_tracker s) n c kb"
    and last: "unat (it_current_increment (om_tracker s)) + 1 = unat (it_total_increments (om_tracker s))"
    and "om_pending_chunks s = []"
    and "length tr \<ge> 2 + unat (le_word (part_of 0 2 tr) :: u16)" "(le_word (part_of 0 2 tr) :: u16) \<noteq> 0"
    and "it_retransmit_round (om_tracker s) < 10"
    and "gap_set (om_tracker s) (drop 2 tr) (le_word (part_of 0 2 tr)) = {}"
  shows "exhausted (handle_gaps_ack env tr s)"
proof -
  let ?t = "om_tracker s"
  let ?g = "accept_geometry n c kb ?t"
  let ?t' = "?t\<lparr>it_retransmit_round := 0, it_blast_complete_retries := 0,
       it_requested_sequences := {}, it_sent_sequences := {}, it_gap_sequences := {},
       it_current_increment := it_current_increment ?t + 1\<rparr>"
  note fit = mgr.fit_geometry [OF assms(1,3,4), of ?t]
  have g: "it_total_chunks ?t = it_total_chunks ?g" "it_chunks_per_increment ?t = it_chunks_per_increment ?g"
    "it_total_increments ?t = it_total_increments ?g"
    using assms(5) by (simp_all add: has_geometry_def Let_def)
  have T: "0 < unat (it_total_chunks ?t)" "unat (it_total_chunks ?t) \<le> 2 ^ 30" "0 < unat (it_chunks_per_increment ?t)"
    using mgr.geometry_facts [OF assms(1-3), of kb ?t] g by simp_all
  have m: "unat (it_total_increments ?t) = ceil_div (unat (it_total_chunks ?t)) (unat (it_chunks_per_increment ?t))"
    using mgr.increments_eq [OF assms(1-3) fit] g by simp
  have cur: "unat (it_current_increment ?t') = unat (it_total_increments ?t)"
    using last unsigned_less [of "it_total_increments ?t", where 'a = nat]
    by (simp add: unat_plus_fits)
  have "unat (it_chunks_per_increment ?t) < 2 ^ 16" "(unat (it_total_increments ?t) - 1) * unat (it_chunks_per_increment ?t) < 2 ^ 30"
    using unsigned_less [of "it_chunks_per_increment ?t", where 'a = nat] ceil_div_bounds(2) [OF T(3,1)] m T(2) by simp_all
  moreover have "unat (it_total_increments ?t) * unat (it_chunks_per_increment ?t) =
      (unat (it_total_increments ?t) - 1) * unat (it_chunks_per_increment ?t) + unat (it_chunks_per_increment ?t)"
    using last by (cases "unat (it_total_increments ?t)") simp_all
  ultimately have "unat (it_total_increments ?t) * unat (it_chunks_per_increment ?t) < 2 ^ 32" by simp
  then have "unat (increment_start_seq ?t') = unat (it_total_increments ?t) * unat (it_chunks_per_increment ?t)"
    unfolding increment_start_seq_def
    by (subst unat_times_fits) (use cur in \<open>simp_all add: unat_ucast_up\<close>)
  also have "\<dots> \<ge> unat (it_total_chunks ?t)" using ceil_div_bounds(1) [OF T(3)] m by simp
  finally have "increment_end_seq ?t' \<le> increment_start_seq ?t'"
    by (auto simp: increment_end_seq_def word_le_nat_alt min_def)
  moreover have "om_tracker (handle_gaps_ack env tr s) = request_increment_chunks ?t'"
    "om_state (handle_gaps_ack env tr s) = BLASTING" "om_pending_chunks (handle_gaps_ack env tr s) = []"
    using assms(7-9,11) assms(10) [unfolded not_le [symmetric]] by (simp_all add: handle_gaps_ack_def Let_def)
  ultimately show ?thesis
    by (simp add: exhausted_def request_range seq_range_empty request_fresh)
qed

end
