(* ===== verification/File_Receiver.thy ===== *)
theory File_Receiver
  imports Wire_Payloads Transfer_Geometry
begin

unbundle bit_operations_syntax

text \<open>
  \<^verbatim>\<open>esp_tree_remote/remote_file_receiver.cpp\<close>: the remote side of a firmware transfer, for
  the ESP32 build.  The members of \<^verbatim>\<open>FileReceiver\<close> are the record \<open>recv\<close>, those of its only
  action handler, \<^verbatim>\<open>OTAFlashHandler\<close>, the record \<open>flash\<close>.

  The platform is the record \<open>recv_env\<close>: the clock (one reading per call), the answer of
  \<^verbatim>\<open>send_ack_fn_\<close> as a function of the acknowledgements handed to it so far, the update
  partition, the heap, the results of the \<^verbatim>\<open>esp_ota_*\<close> calls and MD5.  An open
  \<^verbatim>\<open>ota_handle_\<close> is the bytes written through it, \<open>None\<close> is the handle 0; a write that fails
  appends nothing.  The MD5 digest is the bytes fed to it.
\<close>

section \<open>State\<close>

record recv_env =
  re_now :: u32
  re_ack :: "bytes list \<Rightarrow> bool"
  re_partition :: "u32 option"
  re_begin_ok :: bool
  re_largest_free :: u32
  re_write :: "nat \<Rightarrow> bool"
  re_end_ok :: bool
  re_set_boot_ok :: bool
  re_md5 :: "bytes \<Rightarrow> bytes"

record IncrementBuffer =
  ib_data :: bytes
  ib_received_bitmap :: bytes
  ib_chunks_received :: u16
  ib_chunks_expected :: u16

datatype flash_state = FL_IDLE | FL_RECEIVING | FL_VERIFYING

record flash =
  fl_state :: flash_state
  fl_file_size :: u32
  fl_expected_md5 :: bytes
  fl_chunk_size :: u16
  fl_max_chunk_size :: u16
  fl_total_written :: u32
  fl_restart_requested :: bool
  fl_md5_active :: bool
  fl_md5_data :: bytes
  fl_ota_handle :: "bytes option"
  fl_writes :: nat
  fl_boot_image :: "bytes option"

datatype recv_state =
  RV_IDLE | RV_ANNOUNCED | RV_RECEIVING | RV_CHECKING | RV_WRITING | RV_WAITING_END | RV_VERIFYING | RV_COMPLETE

record recv =
  fr_state :: recv_state
  fr_active_handler :: bool
  fr_handlers :: "u8 set"
  fr_flash :: flash
  fr_increment_buf :: IncrementBuffer
  fr_file_size :: u32
  fr_chunk_payload_size :: u16
  fr_buffer_size_kb :: u16
  fr_chunks_per_increment :: u16
  fr_total_increments :: u16
  fr_chunks_in_last_increment :: u16
  fr_current_increment :: u16
  fr_total_chunks :: u32
  fr_action :: u8
  fr_file_id :: bytes
  fr_last_announce_md5 :: bytes
  fr_announce_tx_counter :: u32
  fr_last_activity_ms :: u32
  fr_last_blast_complete_tx_counter :: u32
  fr_retransmit_round :: u8
  fr_increment_written :: bool
  fr_send_ack_fn_set :: bool
  fr_ota_enabled :: bool
  fr_deep_sleep_active :: bool
  fr_max_chunk_size :: u16
  fr_restart_pending :: bool
  fr_restart_due_ms :: u32
  fr_in_complete_phase :: bool
  fr_complete_action :: u8
  fr_complete_result :: u8
  fr_complete_ack_remaining :: int
  fr_next_complete_ack_ms :: u32
  fr_acks :: "bytes list"
  fr_restarted :: bool

section \<open>The increment buffer\<close>

definition ib_empty :: IncrementBuffer where
  "ib_empty = \<lparr>ib_data = [], ib_received_bitmap = [], ib_chunks_received = 0, ib_chunks_expected = 0\<rparr>"

definition ib_reset :: "u16 \<Rightarrow> u32 \<Rightarrow> IncrementBuffer" where
  "ib_reset num_chunks data_size =
     \<lparr>ib_data = replicate (unat data_size) 0,
      ib_received_bitmap = replicate ((unat num_chunks + 7) div 8) 0,
      ib_chunks_received = 0, ib_chunks_expected = num_chunks\<rparr>"

definition ib_is_complete :: "IncrementBuffer \<Rightarrow> bool" where
  "ib_is_complete b \<longleftrightarrow> ib_chunks_received b = ib_chunks_expected b"

definition is_chunk_received :: "IncrementBuffer \<Rightarrow> u16 \<Rightarrow> bool" where
  "is_chunk_received b chunk_in_increment =
     (if ib_received_bitmap b = [] then False
      else let byte_idx = unat chunk_in_increment div 8 in
        if byte_idx \<ge> length (ib_received_bitmap b) then False
        else ib_received_bitmap b ! byte_idx AND push_bit (unat chunk_in_increment mod 8) 1 \<noteq> 0)"

definition mark_chunk_received :: "u16 \<Rightarrow> IncrementBuffer \<Rightarrow> IncrementBuffer" where
  "mark_chunk_received chunk_in_increment b =
     (let byte_idx = unat chunk_in_increment div 8;
          bit_mask = push_bit (unat chunk_in_increment mod 8) 1 :: u8;
          bm = ib_received_bitmap b
      in if byte_idx < length bm \<and> bm ! byte_idx AND bit_mask = 0 then
           b\<lparr>ib_received_bitmap := bm[byte_idx := bm ! byte_idx OR bit_mask],
             ib_chunks_received := ib_chunks_received b + 1\<rparr>
         else b)"

section \<open>The flash handler\<close>

definition flash_reset_state :: "flash \<Rightarrow> flash" where
  "flash_reset_state h = h\<lparr>fl_state := FL_IDLE, fl_file_size := 0, fl_chunk_size := 0,
     fl_total_written := 0, fl_restart_requested := False, fl_expected_md5 := replicate 16 0,
     fl_ota_handle := None, fl_md5_active := False\<rparr>"

text \<open>The result: a reject reason, or the negotiated chunk size and the buffer size in KB.\<close>

definition on_announce ::
  "recv_env \<Rightarrow> u32 \<Rightarrow> bytes \<Rightarrow> u16 \<Rightarrow> flash \<Rightarrow> (u8 + u16 \<times> u16) \<times> flash" where
  "on_announce env file_size md5 chunk_size h =
     (if fl_state h \<noteq> FL_IDLE then (Inl 4, h)
      else if file_size = 0 \<or> chunk_size = 0 then (Inl 3, h)
      else let negotiated = min chunk_size (fl_max_chunk_size h) in
        if negotiated = 0 then (Inl 3, h)
        else case re_partition env of
          None \<Rightarrow> (Inl 3, h)
        | Some part_size \<Rightarrow>
            if file_size > part_size then (Inl 2, h)
            else if \<not> re_begin_ok env then (Inl 1, h\<lparr>fl_ota_handle := None\<rparr>)
            else
              let heap_kb0 = ucast ((ucast (re_largest_free env) :: u64) * 50 div 100 div 1024) :: u16;
                  heap_kb1 = (if heap_kb0 < 8 then 8 else heap_kb0);
                  heap_kb = (if heap_kb1 > 8 then 8 else heap_kb1)
              in (Inr (negotiated, heap_kb),
                  h\<lparr>fl_ota_handle := Some [], fl_md5_active := True, fl_md5_data := [],
                    fl_file_size := file_size, fl_chunk_size := negotiated, fl_total_written := 0,
                    fl_restart_requested := False, fl_expected_md5 := md5, fl_state := FL_RECEIVING\<rparr>))"

definition on_data :: "recv_env \<Rightarrow> bytes \<Rightarrow> flash \<Rightarrow> bool \<times> flash" where
  "on_data env data h =
     (if fl_state h \<noteq> FL_RECEIVING \<or> length data = 0 then (False, h)
      else if fl_total_written h = 0 \<and> data ! 0 \<noteq> 0xE9 then (False, h)
      else
        let h1 = h\<lparr>fl_writes := fl_writes h + 1\<rparr> in
        if \<not> re_write env (fl_writes h) then (False, h1)
        else let h2 = h1\<lparr>fl_ota_handle := map_option (\<lambda>w. w @ data) (fl_ota_handle h1)\<rparr> in
          if \<not> fl_md5_active h2 then (False, h2)
          else (True, h2\<lparr>fl_md5_data := fl_md5_data h2 @ data,
                         fl_total_written := fl_total_written h2 + word_of_nat (length data)\<rparr>))"

definition on_end :: "recv_env \<Rightarrow> flash \<Rightarrow> u8 \<times> flash" where
  "on_end env h =
     (if fl_state h \<noteq> FL_RECEIVING then (4, h)
      else let h1 = h\<lparr>fl_state := FL_VERIFYING\<rparr> in
        if fl_total_written h1 \<noteq> fl_file_size h1 then (3, flash_reset_state h1)
        else if \<not> fl_md5_active h1 then (2, flash_reset_state h1)
        else let computed = re_md5 env (fl_md5_data h1); h2 = h1\<lparr>fl_md5_active := False\<rparr> in
          if computed \<noteq> fl_expected_md5 h2 then (1, flash_reset_state h2)
          else if \<not> re_end_ok env then (2, flash_reset_state h2)
          else if \<not> re_set_boot_ok env then (2, flash_reset_state h2)
          else (0, (flash_reset_state (h2\<lparr>fl_boot_image := fl_ota_handle h2\<rparr>))\<lparr>fl_restart_requested := True\<rparr>))"

definition flash_on_abort :: "flash \<Rightarrow> flash" where
  "flash_on_abort h = flash_reset_state h"

definition flash_is_receiving :: "flash \<Rightarrow> bool" where
  "flash_is_receiving h \<longleftrightarrow> fl_state h \<noteq> FL_IDLE"

section \<open>Acknowledgements\<close>

definition send_ack :: "recv_env \<Rightarrow> u8 \<Rightarrow> bytes \<Rightarrow> recv \<Rightarrow> bool \<times> recv" where
  "send_ack env result trailing r =
     (if \<not> fr_send_ack_fn_set r then (False, r)
      else let ack = \<lparr>ack_ack_type = packet_type_code PKT_FILE_TRANSFER, ack_result = result,
                      ack_ref_tx_counter = (if result = 5 then fr_last_blast_complete_tx_counter r
                                            else fr_announce_tx_counter r)\<rparr>;
               acks = fr_acks r @ [enc_ack ack @ trailing]
        in (re_ack env acks, r\<lparr>fr_acks := acks\<rparr>))"

definition send_ack_accept :: "recv_env \<Rightarrow> u16 \<Rightarrow> u8 \<Rightarrow> u16 \<Rightarrow> recv \<Rightarrow> bool \<times> recv" where
  "send_ack_accept env chunk_size action buffer_size_kb r =
     send_ack env 0 (le_bytes 2 chunk_size @ [ucast buffer_size_kb, action]) r"

definition send_ack_reject :: "recv_env \<Rightarrow> u8 \<Rightarrow> u8 \<Rightarrow> recv \<Rightarrow> bool \<times> recv" where
  "send_ack_reject env action reason r = send_ack env 1 [action, reason] r"

definition send_gaps_ack :: "recv_env \<Rightarrow> bytes \<Rightarrow> recv \<Rightarrow> bool \<times> recv" where
  "send_gaps_ack env bitmap r =
     send_ack env 5 (le_bytes 2 (word_of_nat (length bitmap) :: u16) @ bitmap) r"

definition send_ack_complete :: "recv_env \<Rightarrow> u8 \<Rightarrow> u8 \<Rightarrow> recv \<Rightarrow> bool \<times> recv" where
  "send_ack_complete env action result r = send_ack env 3 [action, result] r"

definition send_ack_abort :: "recv_env \<Rightarrow> u8 \<Rightarrow> recv \<Rightarrow> bool \<times> recv" where
  "send_ack_abort env reason r = send_ack env 4 [reason] r"

section \<open>Geometry and reset\<close>

definition compute_increment_geometry :: "recv \<Rightarrow> recv" where
  "compute_increment_geometry r =
     (let effective_kb = min (fr_buffer_size_kb r) 8;
          increment_data_size = (ucast effective_kb :: u32) * 1024;
          cpi0 = ucast (increment_data_size div ucast (fr_chunk_payload_size r)) :: u16;
          cpi = (if cpi0 = 0 then 1 else cpi0);
          total_chunks = fr_file_size r div ucast (fr_chunk_payload_size r) +
                         (if fr_file_size r mod ucast (fr_chunk_payload_size r) \<noteq> 0 then 1 else 0);
          ti0 = ucast (total_chunks div ucast cpi +
                       (if total_chunks mod ucast cpi \<noteq> 0 then 1 else 0)) :: u16;
          ti = (if ti0 = 0 then 1 else ti0);
          last0 = ucast (total_chunks - (ucast ti - 1) * ucast cpi) :: u16;
          last_chunks = (if last0 = 0 then cpi else last0)
      in r\<lparr>fr_chunks_per_increment := cpi, fr_total_chunks := total_chunks,
           fr_total_increments := ti, fr_chunks_in_last_increment := last_chunks\<rparr>)"

definition chunks_in_increment :: "recv \<Rightarrow> u16 \<Rightarrow> u16" where
  "chunks_in_increment r increment_index =
     (if (ucast increment_index + 1 :: u32) \<ge> ucast (fr_total_increments r)
      then fr_chunks_in_last_increment r else fr_chunks_per_increment r)"

definition recv_expected_chunk_len :: "recv \<Rightarrow> u32 \<Rightarrow> nat" where
  "recv_expected_chunk_len r sequence =
     (if fr_chunk_payload_size r = 0 \<or> sequence \<ge> fr_total_chunks r then 0
      else let offset = (ucast sequence :: u64) * ucast (fr_chunk_payload_size r) in
        if offset \<ge> ucast (fr_file_size r) then 0
        else unat (min (ucast (fr_file_size r) - offset) (ucast (fr_chunk_payload_size r) :: u64)))"

definition recv_reset :: "recv \<Rightarrow> recv" where
  "recv_reset r = r\<lparr>fr_state := RV_IDLE, fr_active_handler := False, fr_file_size := 0,
     fr_chunk_payload_size := 0, fr_buffer_size_kb := 8, fr_chunks_per_increment := 0,
     fr_total_increments := 0, fr_chunks_in_last_increment := 0, fr_current_increment := 0,
     fr_total_chunks := 0, fr_action := 0, fr_file_id := replicate 12 0,
     fr_last_announce_md5 := replicate 16 0, fr_announce_tx_counter := 0, fr_last_activity_ms := 0,
     fr_last_blast_complete_tx_counter := 0, fr_retransmit_round := 0,
     fr_increment_written := False, fr_increment_buf := ib_empty, fr_in_complete_phase := False,
     fr_complete_ack_remaining := 0, fr_next_complete_ack_ms := 0\<rparr>"

definition recv_abort :: "recv_env \<Rightarrow> u8 \<Rightarrow> bool \<Rightarrow> recv \<Rightarrow> recv" where
  "recv_abort env reason notify_sender r =
     (let r1 = (if fr_active_handler r then r\<lparr>fr_flash := flash_on_abort (fr_flash r)\<rparr> else r);
          r2 = (if notify_sender then snd (send_ack_abort env reason r1) else r1)
      in recv_reset r2)"

section \<open>Writing an increment\<close>

text \<open>
  The bytes of chunk \<open>i\<close> of the buffered increment, \<open>num\<close> chunks long: only the last one can be
  shorter.  Offsets into the buffer are 32-bit \<^verbatim>\<open>size_t\<close> values, offsets into the file 64-bit.
\<close>

definition slice_offset :: "recv \<Rightarrow> nat \<Rightarrow> u32" where
  "slice_offset r i = word_of_nat i * ucast (fr_chunk_payload_size r)"

definition slice_len_at :: "recv \<Rightarrow> nat \<Rightarrow> nat \<Rightarrow> u32" where
  "slice_len_at r num i =
     (let chunk = ucast (fr_chunk_payload_size r) :: u64;
          file_offset = ucast (fr_current_increment r) * ucast (fr_chunks_per_increment r) * chunk +
                        ucast (slice_offset r i)
      in if i = num - 1 \<and> file_offset + chunk > ucast (fr_file_size r)
         then ucast (ucast (fr_file_size r) - file_offset)
         else ucast (fr_chunk_payload_size r))"

text \<open>
  One pass over the chunks, from the first: \<open>False\<close> when the handler refuses one.  The loop and the
  retry loop inside it make the same pass.
\<close>

fun write_pass :: "recv_env \<Rightarrow> nat \<Rightarrow> nat list \<Rightarrow> recv \<Rightarrow> bool \<times> recv" where
  "write_pass env num [] r = (True, r)"
| "write_pass env num (i # is) r =
     (let off = slice_offset r i; len = slice_len_at r num i;
          buf = ib_data (fr_increment_buf r)
      in if len = 0 then (True, r)
         else if unat (off + len) > length buf then (True, r)
         else let (accepted, h) = on_data env (part_of (unat off) (unat len) buf) (fr_flash r);
                  r1 = r\<lparr>fr_flash := h\<rparr>
           in if accepted then write_pass env num is r1 else (False, r1))"

definition finish_increment :: "recv_env \<Rightarrow> recv \<Rightarrow> bool \<times> recv" where
  "finish_increment env r =
     (let r1 = r\<lparr>fr_increment_written := True\<rparr> in
      if (ucast (fr_current_increment r1) + 1 :: u32) \<ge> ucast (fr_total_increments r1) then
        send_gaps_ack env [] (r1\<lparr>fr_state := RV_WAITING_END\<rparr>)
      else
        let (ack_ok, r2) = send_gaps_ack env [] r1;
            r3 = r2\<lparr>fr_current_increment := fr_current_increment r2 + 1, fr_retransmit_round := 0,
                    fr_increment_written := False\<rparr>;
            next_chunks = chunks_in_increment r3 (fr_current_increment r3);
            next_size = (ucast next_chunks :: u32) * ucast (fr_chunk_payload_size r3)
        in (ack_ok, r3\<lparr>fr_increment_buf := ib_reset next_chunks next_size, fr_state := RV_RECEIVING\<rparr>))"

definition write_increment_to_flash :: "recv_env \<Rightarrow> recv \<Rightarrow> bool \<times> recv" where
  "write_increment_to_flash env r =
     (if \<not> fr_active_handler r \<or> ib_data (fr_increment_buf r) = [] then (False, r)
      else
        let num = unat (chunks_in_increment r (fr_current_increment r));
            (ok, r1) = write_pass env num [0..<num] r
        in if ok then finish_increment env r1
           else let (ok2, r2) = write_pass env num [0..<num] r1
             in if ok2 then finish_increment env r2
                else (False, recv_abort env 4 True r2))"

section \<open>The handlers\<close>

definition accept_transfer :: "recv_env \<Rightarrow> espnow_file_announce_t \<Rightarrow> u16 \<Rightarrow> u16 \<Rightarrow> recv \<Rightarrow> bool \<times> recv" where
  "accept_transfer env announce negotiated remote_buffer_size_kb r =
     (let r1 = compute_increment_geometry
            (r\<lparr>fr_active_handler := True, fr_file_size := fann_file_size announce,
               fr_chunk_payload_size := negotiated, fr_action := fann_action announce,
               fr_file_id := fann_file_id announce, fr_last_announce_md5 := fann_md5 announce,
               fr_buffer_size_kb := remote_buffer_size_kb\<rparr>)
      in if fr_total_chunks r1 = 0 \<or> fr_total_increments r1 = 0 \<or> fr_chunks_per_increment r1 = 0 then
           send_ack_reject env (fann_action announce) 3
             (recv_reset (r1\<lparr>fr_flash := flash_on_abort (fr_flash r1)\<rparr>))
         else
           let first_chunks = chunks_in_increment r1 0;
               r2 = r1\<lparr>fr_current_increment := 0, fr_retransmit_round := 0,
                       fr_increment_written := False,
                       fr_increment_buf := ib_reset first_chunks
                         (ucast first_chunks * ucast (fr_chunk_payload_size r1)),
                       fr_state := RV_ANNOUNCED\<rparr>;
               (ack_sent, r3) = send_ack_accept env (fr_chunk_payload_size r2) (fr_action r2)
                                  (fr_buffer_size_kb r2) r2
           in if \<not> ack_sent then (False, recv_reset (r3\<lparr>fr_flash := flash_on_abort (fr_flash r3)\<rparr>))
              else (True, r3\<lparr>fr_state := RV_RECEIVING\<rparr>))"

definition handle_announce :: "recv_env \<Rightarrow> espnow_file_announce_t \<Rightarrow> recv \<Rightarrow> bool \<times> recv" where
  "handle_announce env announce r =
     (if \<not> fr_ota_enabled r \<and> fann_action announce = 1 then
        send_ack_reject env (fann_action announce) 3 r
      else if fr_deep_sleep_active r then send_ack_reject env (fann_action announce) 5 r
      else if fr_state r \<noteq> RV_IDLE \<or> (fr_active_handler r \<and> flash_is_receiving (fr_flash r)) then
        if fr_file_id r = fann_file_id announce \<and> fr_file_size r = fann_file_size announce \<and>
           fr_action r = fann_action announce \<and> fr_last_announce_md5 r = fann_md5 announce \<and>
           fr_state r \<in> {RV_ANNOUNCED, RV_RECEIVING, RV_CHECKING, RV_WRITING} then
          send_ack_accept env (fr_chunk_payload_size r) (fr_action r) (fr_buffer_size_kb r) r
        else send_ack_reject env (fann_action announce) 4 r
      else if fann_file_size announce = 0 \<or> fann_chunk_size announce = 0 then
        send_ack_reject env (fann_action announce) 3 r
      else if fann_file_size announce > 1073741824 then
        send_ack_reject env (fann_action announce) 2 r
      else if fann_action announce \<notin> fr_handlers r then
        send_ack_reject env (fann_action announce) 3 r
      else
        let (response, h) = on_announce env (fann_file_size announce) (fann_md5 announce)
              (fann_chunk_size announce) (fr_flash r);
            r1 = r\<lparr>fr_flash := h\<rparr>
        in case response of
             Inl reason \<Rightarrow> send_ack_reject env (fann_action announce) reason r1
           | Inr (negotiated, remote_buffer_size_kb) \<Rightarrow>
               if negotiated = 0 \<or> negotiated > fann_chunk_size announce \<or>
                  negotiated > fr_max_chunk_size r1 then
                 send_ack_reject env (fann_action announce) 3 (r1\<lparr>fr_flash := flash_on_abort h\<rparr>)
               else accept_transfer env announce negotiated remote_buffer_size_kb r1)"

definition handle_blast_complete :: "recv_env \<Rightarrow> espnow_file_blast_complete_t \<Rightarrow> recv \<Rightarrow> bool \<times> recv" where
  "handle_blast_complete env bc r =
     (if fr_state r \<noteq> RV_RECEIVING \<or> \<not> fr_active_handler r then (False, r)
      else
        let r1 = r\<lparr>fr_last_activity_ms := re_now env\<rparr> in
        if fblast_increment_index bc = fr_current_increment r1 \<and> fr_increment_written r1 then
          send_gaps_ack env [] r1
        else if fblast_increment_index bc < fr_current_increment r1 then send_gaps_ack env [] r1
        else if fblast_increment_index bc \<noteq> fr_current_increment r1 then (False, r1)
        else if ib_is_complete (fr_increment_buf r1) then
          let (sent, r2) = send_gaps_ack env [] (r1\<lparr>fr_state := RV_WRITING\<rparr>) in
          if \<not> sent then (False, r2) else write_increment_to_flash env r2
        else if fr_retransmit_round r1 \<ge> 10 then (True, recv_abort env 1 True r1)
        else
          let (ack_ok, r2) = send_gaps_ack env (ib_received_bitmap (fr_increment_buf r1))
                (r1\<lparr>fr_retransmit_round := fr_retransmit_round r1 + 1\<rparr>)
          in (ack_ok, r2\<lparr>fr_state := RV_RECEIVING\<rparr>))"

definition handle_end :: "recv_env \<Rightarrow> u8 \<Rightarrow> recv \<Rightarrow> bool \<times> recv" where
  "handle_end env phase r =
     (if phase \<noteq> 1 then (False, r)
      else if fr_state r \<noteq> RV_WAITING_END \<or> \<not> fr_active_handler r then (False, r)
      else
        let (result, h) = on_end env (fr_flash r);
            r1 = r\<lparr>fr_state := RV_VERIFYING, fr_flash := h\<rparr>
        in if result = 0 \<and> fl_restart_requested h then
             (True, r1\<lparr>fr_complete_action := fr_action r1, fr_complete_result := result,
                       fr_complete_ack_remaining := 5, fr_next_complete_ack_ms := re_now env,
                       fr_in_complete_phase := True\<rparr>)
           else let (ack_sent, r2) = send_ack_complete env (fr_action r1) result r1
             in (ack_sent, recv_reset r2))"

definition handle_abort :: "espnow_file_abort_t \<Rightarrow> recv \<Rightarrow> bool \<times> recv" where
  "handle_abort abort_packet r =
     (if fabort_phase abort_packet \<noteq> 2 then (False, r)
      else if fr_state r = RV_IDLE \<or> \<not> fr_active_handler r then (True, r)
      else (True, recv_reset (r\<lparr>fr_flash := flash_on_abort (fr_flash r)\<rparr>)))"

definition handle_file_transfer :: "recv_env \<Rightarrow> bytes \<Rightarrow> recv \<Rightarrow> bool \<times> recv" where
  "handle_file_transfer env payload r =
     (if length payload < 1 then (False, r)
      else let r1 = r\<lparr>fr_last_activity_ms := re_now env\<rparr>; phase = payload ! 0 in
        if phase = 0 then
          if length payload \<noteq> 36 then (False, r1)
          else handle_announce env (dec_file_announce payload) r1
        else if phase = 1 then
          if length payload \<noteq> 1 then (False, r1) else handle_end env (payload ! 0) r1
        else if phase = 2 then
          if length payload \<noteq> 2 then (False, r1) else handle_abort (dec_file_abort payload) r1
        else if phase = 3 then
          if length payload \<noteq> 3 then (False, r1)
          else handle_blast_complete env (dec_file_blast_complete payload) r1
        else (False, r1))"

definition write_at :: "nat \<Rightarrow> bytes \<Rightarrow> bytes \<Rightarrow> bytes" where
  "write_at off data buf = take off buf @ data @ drop (off + length data) buf"

definition handle_file_data :: "recv_env \<Rightarrow> bytes \<Rightarrow> recv \<Rightarrow> bool \<times> recv" where
  "handle_file_data env payload r =
     (if length payload < 4 then (False, r)
      else if fr_state r \<noteq> RV_RECEIVING \<or> \<not> fr_active_handler r then (False, r)
      else
        let sequence = fdata_sequence (dec_file_data_header payload);
            data = drop 4 payload;
            inc_start = ucast (fr_current_increment r) * ucast (fr_chunks_per_increment r) :: u32;
            inc_end = min (inc_start + ucast (chunks_in_increment r (fr_current_increment r)))
                        (fr_total_chunks r)
        in if sequence \<ge> fr_total_chunks r then (False, r)
           else if sequence < inc_start \<or> sequence \<ge> inc_end then
             (sequence < inc_start \<and> fr_increment_written r, r)
           else
             let expected_len = recv_expected_chunk_len r sequence in
             if expected_len = 0 \<or> length data \<noteq> expected_len then (False, r)
             else
               let r1 = r\<lparr>fr_last_activity_ms := re_now env\<rparr>;
                   chunk_in_increment = ucast (sequence mod ucast (fr_chunks_per_increment r1)) :: u16;
                   buf = fr_increment_buf r1
               in if is_chunk_received buf chunk_in_increment then (True, r1)
                  else
                    let off = unat chunk_in_increment * unat (fr_chunk_payload_size r1) in
                    if off + length data > length (ib_data buf) then (False, r1)
                    else (True, r1\<lparr>fr_increment_buf := mark_chunk_received chunk_in_increment
                                     (buf\<lparr>ib_data := write_at off data (ib_data buf)\<rparr>)\<rparr>))"

definition schedule_restart :: "recv_env \<Rightarrow> recv \<Rightarrow> recv" where
  "schedule_restart env r = r\<lparr>fr_restart_pending := True, fr_restart_due_ms := re_now env + 250\<rparr>"

definition perform_restart_if_due :: "recv_env \<Rightarrow> recv \<Rightarrow> recv" where
  "perform_restart_if_due env r =
     (if \<not> fr_restart_pending r then r
      else if sint (re_now env - fr_restart_due_ms r) < 0 then r
      else r\<lparr>fr_restart_pending := False, fr_restarted := True\<rparr>)"

definition recv_loop :: "recv_env \<Rightarrow> recv \<Rightarrow> recv" where
  "recv_loop env r0 =
     (let r = perform_restart_if_due env r0; now = re_now env in
      if fr_in_complete_phase r then
        let r1 = (if now - fr_next_complete_ack_ms r \<ge> 1000 then
                    (snd (send_ack_complete env (fr_complete_action r) (fr_complete_result r) r))
                      \<lparr>fr_complete_ack_remaining := fr_complete_ack_remaining r - 1,
                       fr_next_complete_ack_ms := now\<rparr>
                  else r)
        in if fr_complete_ack_remaining r1 \<le> 0 then
             (schedule_restart env (recv_reset r1))\<lparr>fr_in_complete_phase := False\<rparr>
           else r1
      else if fr_state r = RV_IDLE \<or> \<not> fr_active_handler r then r
      else if fr_state r = RV_ANNOUNCED then
        if now - fr_last_activity_ms r > 5000 then recv_abort env 1 True r else r
      else if fr_state r = RV_WRITING \<or> fr_state r = RV_CHECKING then r
      else if now - fr_last_activity_ms r > 10000 then recv_abort env 1 True r
      else r)"

section \<open>Configuration\<close>

definition recv_initial :: recv where
  "recv_initial =
     \<lparr>fr_state = RV_IDLE, fr_active_handler = False, fr_handlers = {1},
      fr_flash = \<lparr>fl_state = FL_IDLE, fl_file_size = 0, fl_expected_md5 = replicate 16 0,
        fl_chunk_size = 0, fl_max_chunk_size = 221, fl_total_written = 0,
        fl_restart_requested = False, fl_md5_active = False, fl_md5_data = [],
        fl_ota_handle = None, fl_writes = 0, fl_boot_image = None\<rparr>,
      fr_increment_buf = ib_empty, fr_file_size = 0, fr_chunk_payload_size = 0,
      fr_buffer_size_kb = 8, fr_chunks_per_increment = 0, fr_total_increments = 0,
      fr_chunks_in_last_increment = 0, fr_current_increment = 0, fr_total_chunks = 0,
      fr_action = 0, fr_file_id = replicate 12 0, fr_last_announce_md5 = replicate 16 0,
      fr_announce_tx_counter = 0, fr_last_activity_ms = 0, fr_last_blast_complete_tx_counter = 0,
      fr_retransmit_round = 0, fr_increment_written = False, fr_send_ack_fn_set = False,
      fr_ota_enabled = False, fr_deep_sleep_active = False, fr_max_chunk_size = 221,
      fr_restart_pending = False, fr_restart_due_ms = 0, fr_in_complete_phase = False,
      fr_complete_action = 0, fr_complete_result = 0, fr_complete_ack_remaining = 0,
      fr_next_complete_ack_ms = 0, fr_acks = [], fr_restarted = False\<rparr>"

definition set_announce_tx_counter :: "u32 \<Rightarrow> recv \<Rightarrow> recv" where
  "set_announce_tx_counter tx_counter r = r\<lparr>fr_announce_tx_counter := tx_counter\<rparr>"

definition set_blast_complete_tx_counter :: "u32 \<Rightarrow> recv \<Rightarrow> recv" where
  "set_blast_complete_tx_counter tx_counter r = r\<lparr>fr_last_blast_complete_tx_counter := tx_counter\<rparr>"

definition set_ota_enabled :: "bool \<Rightarrow> recv \<Rightarrow> recv" where
  "set_ota_enabled enabled r = r\<lparr>fr_ota_enabled := enabled\<rparr>"

definition set_deep_sleep_active :: "bool \<Rightarrow> recv \<Rightarrow> recv" where
  "set_deep_sleep_active active r = r\<lparr>fr_deep_sleep_active := active\<rparr>"

definition set_max_chunk_size :: "u16 \<Rightarrow> recv \<Rightarrow> recv" where
  "set_max_chunk_size max_chunk r =
     r\<lparr>fr_max_chunk_size := max_chunk, fr_flash := (fr_flash r)\<lparr>fl_max_chunk_size := max_chunk\<rparr>\<rparr>"

definition set_send_ack_fn :: "recv \<Rightarrow> recv" where
  "set_send_ack_fn r = r\<lparr>fr_send_ack_fn_set := True\<rparr>"

text \<open>A null handler is \<open>False\<close>; the flash handler is the only one the sources define.\<close>

definition register_handler :: "u8 \<Rightarrow> bool \<Rightarrow> recv \<Rightarrow> recv" where
  "register_handler action handler r =
     r\<lparr>fr_handlers := (if handler then insert action (fr_handlers r) else fr_handlers r - {action})\<rparr>"

end
