(* ===== verification/File_Receiver_Laws.thy ===== *)
theory File_Receiver_Laws
  imports File_Receiver
begin

unbundle bit_operations_syntax

text \<open>
  The remote's file receiver: its geometry, the increment buffer as a set of received chunks, the
  invariant kept by every operation, and what it writes to flash.
\<close>

section \<open>Geometry\<close>

definition geometry_of :: "recv \<Rightarrow> u32 \<Rightarrow> u16 \<Rightarrow> u8 \<Rightarrow> recv" where
  "geometry_of r n c kb = compute_increment_geometry
     (r\<lparr>fr_file_size := n, fr_chunk_payload_size := c, fr_buffer_size_kb := ucast kb\<rparr>)"

lemma geometry_of_sel:
  "fr_total_chunks (geometry_of r n c kb) = n div ucast c + (if n mod ucast c \<noteq> 0 then 1 else 0)"
  "fr_chunks_per_increment (geometry_of r n c kb) =
     (let cpi0 = ucast (ucast (min (ucast kb) (8 :: u16)) * 1024 div (ucast c :: u32)) :: u16
      in if cpi0 = 0 then 1 else cpi0)"
  "fr_total_increments (geometry_of r n c kb) =
     (let tot = fr_total_chunks (geometry_of r n c kb);
          cpi = fr_chunks_per_increment (geometry_of r n c kb);
          ti0 = ucast (tot div ucast cpi + (if tot mod ucast cpi \<noteq> 0 then 1 else 0)) :: u16
      in if ti0 = 0 then 1 else ti0)"
  "fr_chunks_in_last_increment (geometry_of r n c kb) =
     (let tot = fr_total_chunks (geometry_of r n c kb);
          cpi = fr_chunks_per_increment (geometry_of r n c kb);
          ti = fr_total_increments (geometry_of r n c kb);
          last0 = ucast (tot - (ucast ti - 1) * ucast cpi) :: u16
      in if last0 = 0 then cpi else last0)"
  by (simp_all add: geometry_of_def compute_increment_geometry_def Let_def)

interpretation rcv: word_geometry "geometry_of r"
  fr_total_chunks fr_chunks_per_increment fr_total_increments fr_chunks_in_last_increment for r
  by unfold_locales (rule geometry_of_sel)+

section \<open>The increment buffer as a set of chunks\<close>

definition recvd :: "IncrementBuffer \<Rightarrow> nat \<Rightarrow> bool" where
  "recvd b j \<longleftrightarrow> j div 8 < length (ib_received_bitmap b) \<and> bit (ib_received_bitmap b ! (j div 8)) (j mod 8)"

definition received_set :: "IncrementBuffer \<Rightarrow> nat set" where
  "received_set b = {j. j < unat (ib_chunks_expected b) \<and> recvd b j}"

definition ib_wf :: "IncrementBuffer \<Rightarrow> nat \<Rightarrow> nat \<Rightarrow> bool" where
  "ib_wf b num c \<longleftrightarrow> unat (ib_chunks_expected b) = num \<and>
     length (ib_received_bitmap b) = (num + 7) div 8 \<and> length (ib_data b) = num * c \<and>
     unat (ib_chunks_received b) = card (received_set b)"

lemma and_mask_bit: "(x :: u8) AND 2 ^ k = 0 \<longleftrightarrow> \<not> bit x k"
  by (simp add: and_exp_eq_0_iff_not_bit)

lemma is_chunk_received_recvd: "is_chunk_received b i \<longleftrightarrow> recvd b (unat i)"
  by (auto simp: is_chunk_received_def recvd_def Let_def and_mask_bit)

lemma div8_bound: "i < num \<Longrightarrow> i div 8 < (num + 7) div (8 :: nat)"
  by simp

lemma recvd_mark:
  assumes "unat i div 8 < length (ib_received_bitmap b)"
  shows "recvd (mark_chunk_received i b) j \<longleftrightarrow> recvd b j \<or> j = unat i"
proof -
  have "j = unat i \<longleftrightarrow> j div 8 = unat i div 8 \<and> j mod 8 = unat i mod 8"
    by (metis div_mult_mod_eq)
  moreover have "bit (push_bit m (1 :: u8)) k \<longleftrightarrow> k = m" if "m < 8" for m k
    using that by (auto simp: push_bit_eq_mult bit_exp_iff)
  ultimately show ?thesis
    using assms
    by (auto simp: mark_chunk_received_def recvd_def Let_def and_mask_bit bit_or_iff nth_list_update)
qed

lemma mark_sel [simp, frame_simps]:
  "ib_data (mark_chunk_received i b) = ib_data b"
  "ib_chunks_expected (mark_chunk_received i b) = ib_chunks_expected b"
  "length (ib_received_bitmap (mark_chunk_received i b)) = length (ib_received_bitmap b)"
  by (simp_all add: mark_chunk_received_def Let_def)

lemma finite_received_set [simp]: "finite (received_set b)"
  by (simp add: received_set_def)

lemma card_received_le: "card (received_set b) \<le> unat (ib_chunks_expected b)"
  using card_mono [of "{..<unat (ib_chunks_expected b)}" "received_set b"] by (auto simp: received_set_def)

lemma received_set_mark:
  assumes "ib_wf b num c" "unat i < num"
  shows "received_set (mark_chunk_received i b) = insert (unat i) (received_set b)"
  using assms div8_bound [OF assms(2)] by (auto simp: received_set_def recvd_mark ib_wf_def)

lemma ib_wf_mark:
  assumes "ib_wf b num c" "unat i < num" "\<not> recvd b (unat i)"
  shows "ib_wf (mark_chunk_received i b) num c"
proof -
  have i: "unat i \<notin> received_set b" using assms(3) by (simp add: received_set_def)
  have "card (insert (unat i) (received_set b)) \<le> num"
    using card_received_le [of "mark_chunk_received i b"] received_set_mark [OF assms(1,2)] assms(1)
    by (simp add: ib_wf_def)
  then have lt: "card (received_set b) + 1 \<le> num" using i by simp
  have "num < 2 ^ 16" using assms(1) unsigned_less [of "ib_chunks_expected b", where 'a = nat] by (auto simp: ib_wf_def)
  then have "unat (ib_chunks_received b + 1) = unat (ib_chunks_received b) + 1"
    using lt assms(1) by (subst unat_plus_fits) (simp_all add: ib_wf_def)
  moreover have "ib_chunks_received (mark_chunk_received i b) = ib_chunks_received b + 1"
    using assms div8_bound [OF assms(2)]
    by (simp add: mark_chunk_received_def Let_def and_mask_bit recvd_def ib_wf_def)
  ultimately show ?thesis
    using assms(1) i by (simp add: ib_wf_def received_set_mark [OF assms(1,2)])
qed

lemma ib_wf_reset:
  assumes "unat sz = unat num * c"
  shows "ib_wf (ib_reset num sz) (unat num) c" "\<not> recvd (ib_reset num sz) j"
proof -
  show r: "\<not> recvd (ib_reset num sz) j" for j by (simp add: recvd_def ib_reset_def)
  have "received_set (ib_reset num sz) = {}" by (simp add: received_set_def r)
  then show "ib_wf (ib_reset num sz) (unat num) c"
    using assms by (simp add: ib_wf_def ib_reset_def)
qed

lemma ib_complete_iff:
  assumes "ib_wf b num c"
  shows "ib_is_complete b \<longleftrightarrow> (\<forall>j<num. recvd b j)"
proof -
  have "ib_is_complete b \<longleftrightarrow> card (received_set b) = num"
    using assms by (auto simp: ib_is_complete_def ib_wf_def word_unat_eq_iff)
  also have "\<dots> \<longleftrightarrow> received_set b = {..<num}"
  proof
    assume "card (received_set b) = num"
    moreover have "received_set b \<subseteq> {..<num}" using assms by (auto simp: received_set_def ib_wf_def)
    ultimately show "received_set b = {..<num}" by (intro card_subset_eq) simp_all
  qed simp
  also have "\<dots> \<longleftrightarrow> (\<forall>j<num. recvd b j)" using assms by (auto simp: received_set_def ib_wf_def)
  finally show ?thesis .
qed

section \<open>The flash handler\<close>

text \<open>While an image is being received, the digest has seen exactly the bytes that were written.\<close>

definition flash_inv :: "flash \<Rightarrow> bool" where
  "flash_inv h \<longleftrightarrow> fl_state h \<noteq> FL_VERIFYING \<and>
     (fl_state h = FL_RECEIVING \<longrightarrow> fl_md5_active h \<and> fl_ota_handle h = Some (fl_md5_data h) \<and>
        fl_total_written h = word_of_nat (length (fl_md5_data h)))"

lemma flash_inv_reset [simp]: "flash_inv (flash_reset_state h)" "flash_inv (flash_on_abort h)"
  by (simp_all add: flash_inv_def flash_reset_state_def flash_on_abort_def)

lemma flash_state_reset [simp]:
  "fl_state (flash_reset_state h) = FL_IDLE" "fl_state (flash_on_abort h) = FL_IDLE"
  by (simp_all add: flash_reset_state_def flash_on_abort_def)

lemma flash_inv_on_announce: "flash_inv h \<Longrightarrow> flash_inv (snd (on_announce env n m c h))"
  by (simp add: on_announce_def flash_inv_def Let_def split: option.split)

lemma on_announce_accepted:
  assumes "on_announce env n m c h = (Inr (neg, kb), h')"
  shows "fl_state h' = FL_RECEIVING" "fl_file_size h' = n" "fl_expected_md5 h' = m" "kb = 8"
    "neg \<noteq> 0" "neg \<le> c" "fl_md5_data h' = []"
proof -
  have "fl_state h' = FL_RECEIVING \<and> fl_file_size h' = n \<and> fl_expected_md5 h' = m \<and> kb = 8 \<and>
    neg \<noteq> 0 \<and> neg \<le> c \<and> fl_md5_data h' = []"
    using assms by (auto simp: on_announce_def Let_def split: option.splits if_splits)
  then show "fl_state h' = FL_RECEIVING" "fl_file_size h' = n" "fl_expected_md5 h' = m" "kb = 8"
    "neg \<noteq> 0" "neg \<le> c" "fl_md5_data h' = []" by blast+
qed

lemma on_announce_rejected:
  "on_announce env n m c h = (Inl reason, h') \<Longrightarrow> fl_state h' = fl_state h"
  by (auto simp: on_announce_def Let_def split: option.splits if_splits)

lemma on_data_keeps:
  "flash_inv h \<Longrightarrow> flash_inv (snd (on_data env d h))"
  "fl_state (snd (on_data env d h)) = fl_state h"
  "fl_file_size (snd (on_data env d h)) = fl_file_size h"
  "fl_expected_md5 (snd (on_data env d h)) = fl_expected_md5 h"
  "fl_boot_image (snd (on_data env d h)) = fl_boot_image h"
  by (simp_all add: on_data_def flash_inv_def Let_def)

lemma on_data_accepts:
  assumes "flash_inv h" "fl_state h = FL_RECEIVING" "d \<noteq> []" "re_write env (fl_writes h)"
    and "fl_total_written h = 0 \<longrightarrow> d ! 0 = 0xE9"
  shows "fst (on_data env d h)" "fl_md5_data (snd (on_data env d h)) = fl_md5_data h @ d"
  using assms by (simp_all add: on_data_def flash_inv_def Let_def)

lemma flash_inv_on_end: "flash_inv h \<Longrightarrow> flash_inv (snd (on_end env h))"
  by (simp add: on_end_def flash_inv_def Let_def flash_reset_state_def)

lemma on_end_idle: "fl_state h = FL_RECEIVING \<Longrightarrow> fl_state (snd (on_end env h)) = FL_IDLE"
  by (simp add: on_end_def Let_def flash_reset_state_def)

text \<open>The only way a new image becomes bootable.\<close>

lemma on_end_boot:
  assumes "flash_inv h" "fl_boot_image (snd (on_end env h)) \<noteq> fl_boot_image h"
  shows "fl_state h = FL_RECEIVING \<and> fst (on_end env h) = 0 \<and>
    fl_boot_image (snd (on_end env h)) = Some (fl_md5_data h) \<and>
    re_md5 env (fl_md5_data h) = fl_expected_md5 h \<and>
    word_of_nat (length (fl_md5_data h)) = fl_file_size h"
  using assms by (auto simp: on_end_def flash_inv_def Let_def flash_reset_state_def split: if_splits)

section \<open>The invariant of the receiver\<close>

definition geo :: "u32 \<Rightarrow> u16 \<Rightarrow> recv" where
  "geo n c = geometry_of recv_initial n c 8"

definition geo_ok :: "recv \<Rightarrow> bool" where
  "geo_ok r \<longleftrightarrow> fr_chunk_payload_size r \<noteq> 0 \<and> 0 < fr_file_size r \<and> fr_file_size r \<le> 2 ^ 30 \<and>
     fr_buffer_size_kb r = 8 \<and>
     (let g = geo (fr_file_size r) (fr_chunk_payload_size r) in
      fr_total_chunks r = fr_total_chunks g \<and> fr_chunks_per_increment r = fr_chunks_per_increment g \<and>
      fr_total_increments r = fr_total_increments g \<and>
      fr_chunks_in_last_increment r = fr_chunks_in_last_increment g)"

definition buf_ok :: "recv \<Rightarrow> bool" where
  "buf_ok r \<longleftrightarrow> ib_wf (fr_increment_buf r) (unat (chunks_in_increment r (fr_current_increment r)))
     (unat (fr_chunk_payload_size r))"

definition serving :: "recv \<Rightarrow> bool" where
  "serving r \<longleftrightarrow> fl_state (fr_flash r) = FL_RECEIVING \<and> fl_file_size (fr_flash r) = fr_file_size r \<and>
     fl_expected_md5 (fr_flash r) = fr_last_announce_md5 r"

definition recv_inv :: "recv \<Rightarrow> bool" where
  "recv_inv r \<longleftrightarrow> flash_inv (fr_flash r) \<and>
     fr_state r \<in> {RV_IDLE, RV_RECEIVING, RV_WRITING, RV_WAITING_END, RV_VERIFYING} \<and>
     fr_active_handler r = (fr_state r \<noteq> RV_IDLE) \<and>
     (fr_state r \<in> {RV_IDLE, RV_VERIFYING} \<longrightarrow> fl_state (fr_flash r) = FL_IDLE) \<and>
     (fr_state r \<in> {RV_RECEIVING, RV_WRITING, RV_WAITING_END} \<longrightarrow> serving r \<and> geo_ok r) \<and>
     (fr_state r \<in> {RV_RECEIVING, RV_WRITING} \<longrightarrow> \<not> fr_increment_written r \<and> buf_ok r) \<and>
     fr_in_complete_phase r = (fr_state r = RV_VERIFYING) \<and> fr_retransmit_round r \<le> 10"

definition chunks_of :: "u16 \<Rightarrow> u16 \<Rightarrow> u16 \<Rightarrow> u16 \<Rightarrow> u16" where
  "chunks_of ti lst cpi k = (if (ucast k + 1 :: u32) \<ge> ucast ti then lst else cpi)"

lemma chunks_in_increment_of:
  "chunks_in_increment r k =
     chunks_of (fr_total_increments r) (fr_chunks_in_last_increment r) (fr_chunks_per_increment r) k"
  by (simp add: chunks_in_increment_def chunks_of_def)

lemmas recv_inv_defs = recv_inv_def serving_def geo_ok_def buf_ok_def chunks_in_increment_of

lemma recv_inv_reset: "flash_inv (fr_flash r) \<Longrightarrow> fl_state (fr_flash r) = FL_IDLE \<Longrightarrow> recv_inv (recv_reset r)"
  by (simp add: recv_inv_def recv_reset_def)

lemma recv_inv_acks [simp]: "recv_inv (r\<lparr>fr_acks := a\<rparr>) = recv_inv r"
  by (simp add: recv_inv_defs)

lemma recv_inv_activity [simp]: "recv_inv (r\<lparr>fr_last_activity_ms := n\<rparr>) = recv_inv r"
  by (simp add: recv_inv_defs)

lemma send_ack_eq: "\<exists>a. snd (send_ack env res tr r) = r\<lparr>fr_acks := a\<rparr>"
proof (cases "fr_send_ack_fn_set r")
  case False
  then have "snd (send_ack env res tr r) = r\<lparr>fr_acks := fr_acks r\<rparr>" by (simp add: send_ack_def)
  then show ?thesis by blast
qed (auto simp: send_ack_def Let_def)

lemma send_ack_recv_inv [simp]: "recv_inv (snd (send_ack env res tr r)) = recv_inv r"
  using send_ack_eq [of env res tr r] by auto

lemmas recv_ack_defs = send_ack_accept_def send_ack_reject_def send_gaps_ack_def send_ack_complete_def
  send_ack_abort_def

lemma send_ack_sel [simp, frame_simps]:
  "fr_state (snd (send_ack env res tr r)) = fr_state r"
  "fr_flash (snd (send_ack env res tr r)) = fr_flash r"
  "fr_active_handler (snd (send_ack env res tr r)) = fr_active_handler r"
  "fr_increment_buf (snd (send_ack env res tr r)) = fr_increment_buf r"
  "fr_current_increment (snd (send_ack env res tr r)) = fr_current_increment r"
  "fr_total_increments (snd (send_ack env res tr r)) = fr_total_increments r"
  "fr_increment_written (snd (send_ack env res tr r)) = fr_increment_written r"
  "fr_chunk_payload_size (snd (send_ack env res tr r)) = fr_chunk_payload_size r"
  using send_ack_eq [of env res tr r] by auto

lemma recv_inv_abort:
  assumes "recv_inv r"
  shows "recv_inv (recv_abort env reason nt r)"
proof -
  have "flash_inv (fr_flash r)" "\<not> fr_active_handler r \<Longrightarrow> fl_state (fr_flash r) = FL_IDLE"
    using assms by (simp_all add: recv_inv_def)
  then show ?thesis
    unfolding recv_abort_def recv_ack_defs Let_def by (intro recv_inv_reset) simp_all
qed

text \<open>A write pass touches the flash handler only.\<close>

lemma write_pass_frame:
  "snd (write_pass env num is r) = r\<lparr>fr_flash := fr_flash (snd (write_pass env num is r))\<rparr>"
proof (induction "is" arbitrary: r)
  case (Cons i "is")
  let ?h = "snd (on_data env (part_of (unat (slice_offset r i)) (unat (slice_len_at r num i))
                   (ib_data (fr_increment_buf r))) (fr_flash r))"
  show ?case using Cons.IH [of "r\<lparr>fr_flash := ?h\<rparr>"] by (simp add: Let_def split_beta)
qed simp

lemma write_pass_flash:
  "flash_inv (fr_flash r) \<Longrightarrow> flash_inv (fr_flash (snd (write_pass env num is r)))"
  "fl_state (fr_flash (snd (write_pass env num is r))) = fl_state (fr_flash r)"
  "fl_file_size (fr_flash (snd (write_pass env num is r))) = fl_file_size (fr_flash r)"
  "fl_expected_md5 (fr_flash (snd (write_pass env num is r))) = fl_expected_md5 (fr_flash r)"
  "fl_boot_image (fr_flash (snd (write_pass env num is r))) = fl_boot_image (fr_flash r)"
  by (induction "is" arbitrary: r) (simp_all add: Let_def split_beta on_data_keeps)

lemma recv_inv_flash:
  assumes "recv_inv r" "flash_inv h" "fl_state h = fl_state (fr_flash r)"
    "fl_file_size h = fl_file_size (fr_flash r)" "fl_expected_md5 h = fl_expected_md5 (fr_flash r)"
  shows "recv_inv (r\<lparr>fr_flash := h\<rparr>)"
  using assms by (simp add: recv_inv_defs)

lemma recv_inv_write_pass: "recv_inv r \<Longrightarrow> recv_inv (snd (write_pass env num is r))"
  by (subst write_pass_frame) (rule recv_inv_flash, simp_all add: write_pass_flash recv_inv_def)

lemma write_pass_sel [simp, frame_simps]:
  "fr_state (snd (write_pass env num is r)) = fr_state r"
  "fr_active_handler (snd (write_pass env num is r)) = fr_active_handler r"
  "fr_current_increment (snd (write_pass env num is r)) = fr_current_increment r"
  by (subst write_pass_frame, simp)+

lemma unat_size_product: "unat (ucast (a :: u16) * ucast (b :: u16) :: u32) = unat a * unat b"
proof -
  have "unat a < 2 ^ 16" "unat b < 2 ^ 16"
    using unsigned_less [of a, where 'a = nat] unsigned_less [of b, where 'a = nat] by simp_all
  then have "unat a * unat b < 2 ^ 16 * 2 ^ 16" by (intro mult_strict_mono) simp_all
  then show ?thesis by (subst unat_times_fits) (simp_all add: unat_ucast_up)
qed

lemma recv_inv_finish:
  assumes "recv_inv r" "fr_state r = RV_WRITING"
  shows "recv_inv (snd (finish_increment env r))"
proof -
  have s: "serving r" "geo_ok r" "flash_inv (fr_flash r)" "fr_active_handler r" "fr_retransmit_round r \<le> 10"
    "\<not> fr_in_complete_phase r"
    using assms by (simp_all add: recv_inv_def)
  let ?e = "r\<lparr>fr_increment_written := True, fr_state := RV_WAITING_END\<rparr>"
  have e: "recv_inv ?e" using s by (simp add: recv_inv_defs)
  define r2 where "r2 = snd (send_gaps_ack env [] (r\<lparr>fr_increment_written := True\<rparr>))"
  obtain a where r2: "r2 = r\<lparr>fr_increment_written := True, fr_acks := a\<rparr>"
    using send_ack_eq [of env 5 _ "r\<lparr>fr_increment_written := True\<rparr>"] unfolding r2_def recv_ack_defs by metis
  define r3 where "r3 = r2\<lparr>fr_current_increment := fr_current_increment r2 + 1, fr_retransmit_round := 0,
                    fr_increment_written := False\<rparr>"
  let ?n = "chunks_in_increment r3 (fr_current_increment r3)"
  let ?r4 = "r3\<lparr>fr_increment_buf := ib_reset ?n (ucast ?n * ucast (fr_chunk_payload_size r3)), fr_state := RV_RECEIVING\<rparr>"
  have "ib_wf (fr_increment_buf ?r4) (unat ?n) (unat (fr_chunk_payload_size r3))"
    using ib_wf_reset(1) [of "ucast ?n * ucast (fr_chunk_payload_size r3)" ?n] by (simp add: unat_size_product)
  moreover have "serving r3" "geo_ok r3" "fr_active_handler r3" "flash_inv (fr_flash r3)" "\<not> fr_increment_written r3"
    "fr_retransmit_round r3 = 0" "\<not> fr_in_complete_phase r3"
    using s by (simp_all add: r3_def r2 serving_def geo_ok_def)
  ultimately have "recv_inv ?r4" by (simp add: recv_inv_defs)
  moreover have "snd (finish_increment env r) =
    (if (ucast (fr_current_increment r) + 1 :: u32) \<ge> ucast (fr_total_increments r)
     then snd (send_gaps_ack env [] ?e) else ?r4)"
    unfolding finish_increment_def Let_def split_beta r3_def r2_def by simp
  ultimately show ?thesis using e by (simp add: recv_ack_defs)
qed

lemma recv_inv_write_increment:
  assumes "recv_inv r" "fr_state r = RV_WRITING"
  shows "recv_inv (snd (write_increment_to_flash env r))"
  using assms recv_inv_write_pass recv_inv_finish recv_inv_abort
  by (simp add: write_increment_to_flash_def Let_def split_beta)

lemma geometry_of_indep:
  "fr_total_chunks (geometry_of r n c kb) = fr_total_chunks (geometry_of r' n c kb)"
  "fr_chunks_per_increment (geometry_of r n c kb) = fr_chunks_per_increment (geometry_of r' n c kb)"
  "fr_total_increments (geometry_of r n c kb) = fr_total_increments (geometry_of r' n c kb)"
  "fr_chunks_in_last_increment (geometry_of r n c kb) = fr_chunks_in_last_increment (geometry_of r' n c kb)"
  by (simp_all only: geometry_of_sel)

lemma compute_geometry_sel [simp, frame_simps]:
  "fr_flash (compute_increment_geometry r) = fr_flash r"
  "fr_file_size (compute_increment_geometry r) = fr_file_size r"
  "fr_chunk_payload_size (compute_increment_geometry r) = fr_chunk_payload_size r"
  "fr_last_announce_md5 (compute_increment_geometry r) = fr_last_announce_md5 r"
  "fr_active_handler (compute_increment_geometry r) = fr_active_handler r"
  "fr_in_complete_phase (compute_increment_geometry r) = fr_in_complete_phase r"
  "fr_buffer_size_kb (compute_increment_geometry r) = fr_buffer_size_kb r"
  by (simp_all add: compute_increment_geometry_def Let_def)

lemma compute_geometry_geo:
  assumes "fr_chunk_payload_size r \<noteq> 0" "0 < fr_file_size r" "fr_file_size r \<le> 2 ^ 30" "fr_buffer_size_kb r = 8"
  shows "geo_ok (compute_increment_geometry r)"
proof -
  have c: "compute_increment_geometry r = geometry_of r (fr_file_size r) (fr_chunk_payload_size r) 8"
  proof -
    have "r\<lparr>fr_file_size := fr_file_size r, fr_chunk_payload_size := fr_chunk_payload_size r,
             fr_buffer_size_kb := ucast (8 :: u8)\<rparr> = r"
      using assms(4) by (cases r) simp
    then show ?thesis by (simp only: geometry_of_def)
  qed
  show ?thesis
    using assms unfolding geo_ok_def compute_geometry_sel Let_def geo_def
    unfolding c by (metis geometry_of_indep)
qed

lemma recv_inv_accept:
  assumes "flash_inv (fr_flash r)" "fl_state (fr_flash r) = FL_RECEIVING"
    "fl_file_size (fr_flash r) = fann_file_size a" "fl_expected_md5 (fr_flash r) = fann_md5 a"
    "neg \<noteq> 0" "0 < fann_file_size a" "fann_file_size a \<le> 2 ^ 30" "kb = 8" "\<not> fr_in_complete_phase r"
  shows "recv_inv (snd (accept_transfer env a neg kb r))"
proof -
  define r1 where "r1 = compute_increment_geometry
            (r\<lparr>fr_active_handler := True, fr_file_size := fann_file_size a,
               fr_chunk_payload_size := neg, fr_action := fann_action a,
               fr_file_id := fann_file_id a, fr_last_announce_md5 := fann_md5 a,
               fr_buffer_size_kb := kb\<rparr>)"
  have g: "geo_ok r1" "serving r1" "flash_inv (fr_flash r1)" "fr_active_handler r1" "\<not> fr_in_complete_phase r1"
    using assms by (simp_all add: r1_def compute_geometry_geo serving_def)
  let ?n = "chunks_in_increment r1 0"
  define r2 where "r2 = r1\<lparr>fr_current_increment := 0, fr_retransmit_round := 0,
                       fr_increment_written := False,
                       fr_increment_buf := ib_reset ?n (ucast ?n * ucast (fr_chunk_payload_size r1)),
                       fr_state := RV_ANNOUNCED\<rparr>"
  have "ib_wf (ib_reset ?n (ucast ?n * ucast (fr_chunk_payload_size r1))) (unat ?n) (unat (fr_chunk_payload_size r1))"
    by (rule ib_wf_reset(1)) (simp add: unat_size_product)
  then have rec: "recv_inv (r2\<lparr>fr_acks := acks, fr_state := RV_RECEIVING\<rparr>)" for acks
    using g by (simp add: r2_def recv_inv_defs)
  define r3 where "r3 = snd (send_ack_accept env (fr_chunk_payload_size r2) (fr_action r2) (fr_buffer_size_kb r2) r2)"
  obtain acks where r3: "r3 = r2\<lparr>fr_acks := acks\<rparr>"
    using send_ack_eq unfolding r3_def recv_ack_defs by metis
  have "recv_inv (r3\<lparr>fr_state := RV_RECEIVING\<rparr>)" using rec r3 by simp
  moreover have "recv_inv (recv_reset (r'\<lparr>fr_flash := flash_on_abort (fr_flash r')\<rparr>))" for r'
    by (rule recv_inv_reset) simp_all
  ultimately show ?thesis
    unfolding accept_transfer_def Let_def r1_def [symmetric] r2_def [symmetric] split_beta r3_def [symmetric]
    by (simp add: recv_ack_defs)
qed

lemma recv_inv_idle_flash:
  "recv_inv r \<Longrightarrow> fr_state r = RV_IDLE \<Longrightarrow> flash_inv h \<Longrightarrow> fl_state h = FL_IDLE \<Longrightarrow> recv_inv (r\<lparr>fr_flash := h\<rparr>)"
  by (simp add: recv_inv_def)

lemma recv_inv_announce:
  assumes "recv_inv r"
  shows "recv_inv (snd (handle_announce env a r))"
proof (cases "fr_state r \<noteq> RV_IDLE \<or> (fr_active_handler r \<and> flash_is_receiving (fr_flash r)) \<or>
    fann_file_size a = 0 \<or> fann_file_size a > 1073741824")
  case True
  with assms show ?thesis by (auto simp: handle_announce_def recv_ack_defs)
next
  case False
  then have idle: "fr_state r = RV_IDLE" "fl_state (fr_flash r) = FL_IDLE" "flash_inv (fr_flash r)"
    "\<not> fr_in_complete_phase r"
    using assms by (simp_all add: recv_inv_def)
  obtain resp h where oa: "on_announce env (fann_file_size a) (fann_md5 a) (fann_chunk_size a) (fr_flash r) = (resp, h)"
    by (cases "on_announce env (fann_file_size a) (fann_md5 a) (fann_chunk_size a) (fr_flash r)")
  have h: "flash_inv h" using flash_inv_on_announce [OF idle(3)] oa by (metis snd_conv)
  have rej: "recv_inv (r\<lparr>fr_flash := h\<rparr>)" if "resp = Inl e" for e
    using recv_inv_idle_flash [OF assms idle(1) h] on_announce_rejected [OF oa [unfolded that]] idle(2) by simp
  have ab: "recv_inv (r\<lparr>fr_flash := flash_on_abort h\<rparr>)"
    by (rule recv_inv_idle_flash [OF assms idle(1)]) simp_all
  have acc: "recv_inv (snd (accept_transfer env a neg kb (r\<lparr>fr_flash := h\<rparr>)))" if "resp = Inr (neg, kb)" for neg kb
    using on_announce_accepted [OF oa [unfolded that]] h False idle(4)
    by (intro recv_inv_accept) (simp_all add: word_gt_0 not_less)
  show ?thesis
  proof (cases resp)
    case (Inl e)
    then show ?thesis
      using assms idle(1) False rej by (simp add: handle_announce_def oa recv_ack_defs)
  next
    case (Inr p)
    obtain neg kb where p: "p = (neg, kb)" by (cases p)
    then show ?thesis
      using assms idle(1) False ab acc Inr by (simp add: handle_announce_def oa Let_def) (simp add: recv_ack_defs)
  qed
qed

lemma recv_inv_blast:
  assumes "recv_inv r"
  shows "recv_inv (snd (handle_blast_complete env bc r))"
proof (cases "fr_state r = RV_RECEIVING")
  case True
  let ?r1 = "r\<lparr>fr_last_activity_ms := re_now env\<rparr>"
  have i1: "recv_inv ?r1" using assms by simp
  have w: "recv_inv (?r1\<lparr>fr_state := RV_WRITING\<rparr>)" using assms True by (simp add: recv_inv_defs)
  have w': "recv_inv (snd (write_increment_to_flash env (snd (send_gaps_ack env [] (?r1\<lparr>fr_state := RV_WRITING\<rparr>)))))"
    by (rule recv_inv_write_increment) (use w in \<open>simp_all add: recv_ack_defs\<close>)
  have "recv_inv (r\<lparr>fr_last_activity_ms := n, fr_retransmit_round := fr_retransmit_round r + 1, fr_acks := a, fr_state := RV_RECEIVING\<rparr>)"
    if "\<not> fr_retransmit_round r \<ge> 10" for n a
    using assms True that inc_le [of "fr_retransmit_round r" 10] by (simp add: recv_inv_defs)
  then have g: "recv_inv ((snd (send_gaps_ack env bm (?r1\<lparr>fr_retransmit_round := fr_retransmit_round r + 1\<rparr>)))\<lparr>fr_state := RV_RECEIVING\<rparr>)"
    if "\<not> fr_retransmit_round r \<ge> 10" for bm
  proof -
    obtain a where "snd (send_gaps_ack env bm (?r1\<lparr>fr_retransmit_round := fr_retransmit_round r + 1\<rparr>)) =
        ?r1\<lparr>fr_retransmit_round := fr_retransmit_round r + 1, fr_acks := a\<rparr>"
      unfolding recv_ack_defs using send_ack_eq by metis
    with that show ?thesis
      using \<open>\<And>n a. \<not> fr_retransmit_round r \<ge> 10 \<Longrightarrow> recv_inv (r\<lparr>fr_last_activity_ms := n,
        fr_retransmit_round := fr_retransmit_round r + 1, fr_acks := a, fr_state := RV_RECEIVING\<rparr>)\<close> by simp
  qed
  show ?thesis
    using i1 w w' g recv_inv_abort [OF i1] assms
    by (simp add: handle_blast_complete_def Let_def split_beta) (simp add: recv_ack_defs)
qed (use assms in \<open>simp add: handle_blast_complete_def\<close>)

lemma recv_inv_end:
  assumes "recv_inv r"
  shows "recv_inv (snd (handle_end env ph r))"
proof (cases "fr_state r = RV_WAITING_END")
  case True
  let ?h = "snd (on_end env (fr_flash r))"
  have h: "flash_inv ?h" "fl_state ?h = FL_IDLE"
    using assms True by (simp_all add: recv_inv_def serving_def flash_inv_on_end on_end_idle)
  have a: "fr_active_handler r" "fr_retransmit_round r \<le> 10" using assms True by (simp_all add: recv_inv_def)
  have ok: "recv_inv (r\<lparr>fr_state := RV_VERIFYING, fr_flash := ?h, fr_complete_action := x,
       fr_complete_result := y, fr_complete_ack_remaining := z, fr_next_complete_ack_ms := n,
       fr_in_complete_phase := True\<rparr>)" for x y z n
    using h a by (simp add: recv_inv_def)
  have "recv_inv (recv_reset (snd (send_ack env x y (r\<lparr>fr_state := RV_VERIFYING, fr_flash := ?h\<rparr>))))" for x y
    using h by (intro recv_inv_reset) simp_all
  with ok show ?thesis
    using assms by (simp add: handle_end_def Let_def split_beta recv_ack_defs)
qed (use assms in \<open>simp add: handle_end_def\<close>)

lemma recv_inv_handle_abort: "recv_inv r \<Longrightarrow> recv_inv (snd (handle_abort p r))"
  by (auto simp: handle_abort_def intro!: recv_inv_reset)

lemma recv_inv_file_transfer: "recv_inv r \<Longrightarrow> recv_inv (snd (handle_file_transfer env p r))"
  by (simp add: handle_file_transfer_def Let_def recv_inv_announce recv_inv_end recv_inv_handle_abort
      recv_inv_blast)

text \<open>The place of an accepted chunk in the increment buffer.\<close>

lemma chunk_index:
  fixes q :: u32 and cur cpi num :: u16
  assumes "ucast cur * ucast cpi \<le> q" "q < ucast cur * ucast cpi + ucast num"
  shows "unat (ucast (q mod ucast cpi) :: u16) < unat num"
    and "unat (ucast (q mod ucast cpi) :: u16) = (unat q - unat cur * unat cpi) mod unat cpi"
proof -
  have s: "unat (ucast cur * ucast cpi :: u32) = unat cur * unat cpi" by (rule unat_size_product)
  have "unat cur \<le> 2 ^ 16 - 1" "unat cpi \<le> 2 ^ 16 - 1" "unat num \<le> 2 ^ 16 - 1"
    using unsigned_less [of cur, where 'a = nat] unsigned_less [of cpi, where 'a = nat]
      unsigned_less [of num, where 'a = nat] by simp_all
  moreover from this have "unat cur * unat cpi \<le> (2 ^ 16 - 1) * (2 ^ 16 - 1)" by (intro mult_le_mono)
  ultimately have e: "unat (ucast cur * ucast cpi + ucast num :: u32) = unat cur * unat cpi + unat num"
    by (subst unat_plus_fits) (simp_all add: s unat_ucast_up)
  have q: "unat cur * unat cpi \<le> unat q" "unat q < unat cur * unat cpi + unat num"
    using assms s e by (simp_all add: word_le_nat_alt word_less_nat_alt)
  have m: "unat (q mod ucast cpi) = unat q mod unat cpi" by (simp add: unat_mod unat_ucast_up)
  have "(unat cur * unat cpi + (unat q - unat cur * unat cpi)) mod unat cpi = (unat q - unat cur * unat cpi) mod unat cpi"
    by (rule mod_mult_self3)
  then have d: "unat q mod unat cpi = (unat q - unat cur * unat cpi) mod unat cpi" using q(1) by simp
  have le: "(unat q - unat cur * unat cpi) mod unat cpi \<le> unat q - unat cur * unat cpi" by (rule mod_less_eq_dividend)
  have lt: "(unat q - unat cur * unat cpi) mod unat cpi < unat num" using q le by linarith
  have "unat (q mod ucast cpi) < 2 ^ 16"
    using m d lt unsigned_less [of num, where 'a = nat] by simp
  then have u: "unat (ucast (q mod ucast cpi) :: u16) = unat (q mod ucast cpi)" by (subst unat_ucast_fits) simp_all
  show "unat (ucast (q mod ucast cpi) :: u16) < unat num" using u m d lt by simp
  show "unat (ucast (q mod ucast cpi) :: u16) = (unat q - unat cur * unat cpi) mod unat cpi" using u m d by simp
qed

lemma length_write_at [simp]: "off + length d \<le> length b \<Longrightarrow> length (write_at off d b) = length b"
  by (simp add: write_at_def)

definition chunk_slot :: "recv \<Rightarrow> u32 \<Rightarrow> u16" where
  "chunk_slot r q = ucast (q mod ucast (fr_chunks_per_increment r))"

text \<open>What storing one chunk does, once the guards have passed.\<close>

definition store_chunk :: "recv_env \<Rightarrow> u32 \<Rightarrow> bytes \<Rightarrow> recv \<Rightarrow> recv" where
  "store_chunk env q d r = r\<lparr>fr_last_activity_ms := re_now env,
     fr_increment_buf := mark_chunk_received (chunk_slot r q)
       ((fr_increment_buf r)\<lparr>ib_data := write_at (unat (chunk_slot r q) * unat (fr_chunk_payload_size r)) d
           (ib_data (fr_increment_buf r))\<rparr>)\<rparr>"

definition stores :: "recv \<Rightarrow> u32 \<Rightarrow> bytes \<Rightarrow> bool" where
  "stores r q d \<longleftrightarrow> fr_state r = RV_RECEIVING \<and> fr_active_handler r \<and> q < fr_total_chunks r \<and>
     ucast (fr_current_increment r) * ucast (fr_chunks_per_increment r) \<le> q \<and>
     q < ucast (fr_current_increment r) * ucast (fr_chunks_per_increment r) +
           ucast (chunks_in_increment r (fr_current_increment r)) \<and>
     d \<noteq> [] \<and> length d = recv_expected_chunk_len r q \<and>
     \<not> is_chunk_received (fr_increment_buf r) (chunk_slot r q) \<and>
     unat (chunk_slot r q) * unat (fr_chunk_payload_size r) + length d \<le> length (ib_data (fr_increment_buf r))"

lemma handle_file_data_stores:
  assumes "4 \<le> length p" "fdata_sequence (dec_file_data_header p) = q" "drop 4 p = d" "stores r q d"
  shows "handle_file_data env p r = (True, store_chunk env q d r)"
proof -
  let ?s = "ucast (fr_current_increment r) * ucast (fr_chunks_per_increment r) :: u32"
  let ?e = "?s + ucast (chunks_in_increment r (fr_current_increment r))"
  have "0 < recv_expected_chunk_len r q" using assms(4) unfolding stores_def by (metis length_greater_0_conv)
  moreover have "\<not> q < ?s" "\<not> min ?e (fr_total_chunks r) \<le> q" "\<not> fr_total_chunks r \<le> q"
    using assms(4) by (auto simp: stores_def min_def)
  ultimately show ?thesis
    using assms by (simp add: handle_file_data_def Let_def chunk_slot_def store_chunk_def stores_def)
qed

lemma handle_file_data_ignores:
  assumes "fdata_sequence (dec_file_data_header p) = q" "drop 4 p = d" "length p < 4 \<or> \<not> stores r q d"
  shows "snd (handle_file_data env p r) = r \<or> snd (handle_file_data env p r) = r\<lparr>fr_last_activity_ms := re_now env\<rparr>"
  using assms
  by (auto simp: handle_file_data_def Let_def chunk_slot_def stores_def not_le not_less min_less_iff_conj)

lemma recv_inv_store:
  assumes "recv_inv r" "fr_state r = RV_RECEIVING" "unat (chunk_slot r q) < unat (chunks_in_increment r (fr_current_increment r))"
    "\<not> is_chunk_received (fr_increment_buf r) (chunk_slot r q)"
    "unat (chunk_slot r q) * unat (fr_chunk_payload_size r) + length d \<le> length (ib_data (fr_increment_buf r))"
  shows "recv_inv (store_chunk env q d r)"
proof -
  let ?num = "unat (chunks_in_increment r (fr_current_increment r))"
  let ?b = "(fr_increment_buf r)\<lparr>ib_data := write_at (unat (chunk_slot r q) * unat (fr_chunk_payload_size r)) d
           (ib_data (fr_increment_buf r))\<rparr>"
  have "ib_wf (fr_increment_buf r) ?num (unat (fr_chunk_payload_size r))"
    using assms(1,2) by (simp add: recv_inv_def buf_ok_def)
  then have "ib_wf ?b ?num (unat (fr_chunk_payload_size r))"
    using assms(5) by (simp add: ib_wf_def received_set_def recvd_def)
  moreover have "\<not> recvd ?b (unat (chunk_slot r q))"
    using assms(4) by (simp add: is_chunk_received_recvd recvd_def)
  ultimately have "ib_wf (mark_chunk_received (chunk_slot r q) ?b) ?num (unat (fr_chunk_payload_size r))"
    using assms(3) by (intro ib_wf_mark)
  then show ?thesis using assms(1,2) by (simp add: store_chunk_def recv_inv_defs)
qed

lemma stores_slot:
  "stores r q d \<Longrightarrow> unat (chunk_slot r q) < unat (chunks_in_increment r (fr_current_increment r))"
  unfolding stores_def chunk_slot_def by (intro chunk_index(1)) auto

lemma recv_inv_file_data:
  assumes "recv_inv r"
  shows "recv_inv (snd (handle_file_data env p r))"
proof (cases "4 \<le> length p \<and> stores r (fdata_sequence (dec_file_data_header p)) (drop 4 p)")
  case True
  let ?q = "fdata_sequence (dec_file_data_header p)" and ?d = "drop 4 p"
  have s: "stores r ?q ?d" using True ..
  have "recv_inv (store_chunk env ?q ?d r)"
    by (rule recv_inv_store [OF assms _ stores_slot [OF s]]) (use s in \<open>simp_all add: stores_def\<close>)
  then show ?thesis using handle_file_data_stores [OF _ refl refl s] True by simp
next
  case False
  then have "length p < 4 \<or> \<not> stores r (fdata_sequence (dec_file_data_header p)) (drop 4 p)" by auto
  then show ?thesis using handle_file_data_ignores [OF refl refl, of p r env] assms by auto
qed

lemma recv_inv_restart [simp]: "recv_inv (perform_restart_if_due env r) = recv_inv r"
  by (simp add: perform_restart_if_due_def recv_inv_defs)

lemma recv_inv_complete_ack:
  "recv_inv r \<Longrightarrow> recv_inv (r\<lparr>fr_complete_ack_remaining := k, fr_next_complete_ack_ms := n\<rparr>)"
  by (simp add: recv_inv_defs)

lemma recv_inv_idle_tail: "recv_inv r \<Longrightarrow> fr_state r = RV_IDLE \<Longrightarrow>
  recv_inv (r\<lparr>fr_restart_pending := b, fr_restart_due_ms := n, fr_in_complete_phase := False\<rparr>)"
  by (simp add: recv_inv_def)

lemma recv_inv_loop:
  assumes "recv_inv r"
  shows "recv_inv (recv_loop env r)"
proof -
  define r1 where "r1 = perform_restart_if_due env r"
  have i: "recv_inv r1" using assms by (simp add: r1_def)
  define r2 where "r2 = (if re_now env - fr_next_complete_ack_ms r1 \<ge> 1000 then
       (snd (send_ack_complete env (fr_complete_action r1) (fr_complete_result r1) r1))
         \<lparr>fr_complete_ack_remaining := fr_complete_ack_remaining r1 - 1, fr_next_complete_ack_ms := re_now env\<rparr>
       else r1)"
  have r2: "recv_inv r2" "fr_state r2 = fr_state r1" "fr_flash r2 = fr_flash r1"
    using i by (simp_all add: r2_def recv_inv_complete_ack recv_ack_defs)
  have fin: "recv_inv ((schedule_restart env (recv_reset r2))\<lparr>fr_in_complete_phase := False\<rparr>)"
    if "fr_in_complete_phase r1"
  proof -
    have "recv_inv (recv_reset r2)"
      using i that r2 by (intro recv_inv_reset) (simp_all add: recv_inv_def)
    then show ?thesis
      using recv_inv_idle_tail [of "recv_reset r2"] by (simp add: schedule_restart_def recv_reset_def)
  qed
  show ?thesis
    using i r2(1) fin recv_inv_abort [OF i]
    unfolding recv_loop_def Let_def r1_def [symmetric] r2_def [symmetric] by simp
qed

section \<open>Runs\<close>

inductive recv_step :: "recv \<Rightarrow> recv \<Rightarrow> bool" where
  transfer: "recv_step r (snd (handle_file_transfer env p r))"
| data: "recv_step r (snd (handle_file_data env p r))"
| tick: "recv_step r (recv_loop env r)"
| abort: "recv_step r (recv_abort env reason nt r)"
| announce_counter: "recv_step r (set_announce_tx_counter c r)"
| blast_counter: "recv_step r (set_blast_complete_tx_counter c r)"
| ota_enabled: "recv_step r (set_ota_enabled b r)"
| deep_sleep: "recv_step r (set_deep_sleep_active b r)"
| max_chunk: "recv_step r (set_max_chunk_size m r)"
| ack_fn: "recv_step r (set_send_ack_fn r)"
| handler: "recv_step r (register_handler a h r)"

inductive_cases recv_stepE: "recv_step r r'"

lemma recv_inv_setters:
  assumes "recv_inv r"
  shows "recv_inv (set_announce_tx_counter c r)" "recv_inv (set_blast_complete_tx_counter c r)"
    "recv_inv (set_ota_enabled b r)" "recv_inv (set_deep_sleep_active b r)" "recv_inv (set_send_ack_fn r)"
    "recv_inv (register_handler a h r)"
  using assms
  by (simp_all add: set_announce_tx_counter_def set_blast_complete_tx_counter_def set_ota_enabled_def
      set_deep_sleep_active_def set_send_ack_fn_def register_handler_def recv_inv_defs)

lemma recv_inv_max_chunk: "recv_inv r \<Longrightarrow> recv_inv (set_max_chunk_size m r)"
  by (simp add: set_max_chunk_size_def recv_inv_defs flash_inv_def)

lemma recv_step_inv: "recv_step r r' \<Longrightarrow> recv_inv r \<Longrightarrow> recv_inv r'"
  by (erule recv_stepE)
     (simp_all add: recv_inv_file_transfer recv_inv_file_data recv_inv_loop recv_inv_abort
       recv_inv_setters recv_inv_max_chunk)

definition recv_reachable :: "recv \<Rightarrow> bool" where
  "recv_reachable r \<longleftrightarrow> recv_step\<^sup>*\<^sup>* recv_initial r"

lemma recv_inv_initial: "recv_inv recv_initial"
  by (simp add: recv_inv_def recv_initial_def flash_inv_def)

lemma recv_reachable_inv: "recv_reachable r \<Longrightarrow> recv_inv r"
  unfolding recv_reachable_def by (induction rule: rtranclp_induct) (auto intro: recv_step_inv recv_inv_initial)

section \<open>Which image can be booted\<close>

abbreviation boot_image :: "recv \<Rightarrow> bytes option" where
  "boot_image r \<equiv> fl_boot_image (fr_flash r)"

lemma boot_same [simp]:
  "fl_boot_image (flash_reset_state h) = fl_boot_image h" "fl_boot_image (flash_on_abort h) = fl_boot_image h"
  "fl_boot_image (snd (on_announce env n m c h)) = fl_boot_image h"
  "boot_image (recv_reset r) = boot_image r"
  by (simp_all add: flash_reset_state_def flash_on_abort_def on_announce_def recv_reset_def Let_def
      split: option.split)

lemma boot_same_abort [simp]: "boot_image (recv_abort env x nt r) = boot_image r"
  by (simp add: recv_abort_def recv_ack_defs Let_def)

lemma boot_same_announce: "boot_image (snd (handle_announce env a r)) = boot_image r"
proof -
  have acc: "boot_image (snd (accept_transfer env a neg kb r')) = boot_image r'" for neg kb r'
    by (simp add: accept_transfer_def Let_def split_beta recv_ack_defs)
  have "fl_boot_image h = boot_image r"
    if "on_announce env (fann_file_size a) (fann_md5 a) (fann_chunk_size a) (fr_flash r) = (resp, h)" for resp h
    using boot_same(3) [of env "fann_file_size a" "fann_md5 a" "fann_chunk_size a" "fr_flash r"] that by simp
  then show ?thesis
    by (simp add: handle_announce_def recv_ack_defs acc split_beta Let_def split: sum.split prod.split)
qed

lemma boot_same_write: "boot_image (snd (write_increment_to_flash env r)) = boot_image r"
proof -
  have "boot_image (snd (finish_increment env r')) = boot_image r'" for r'
    by (simp add: finish_increment_def Let_def split_beta recv_ack_defs)
  then show ?thesis by (simp add: write_increment_to_flash_def Let_def split_beta write_pass_flash)
qed

lemma boot_same_blast: "boot_image (snd (handle_blast_complete env bc r)) = boot_image r"
  by (simp add: handle_blast_complete_def Let_def split_beta boot_same_write) (simp add: recv_ack_defs)

lemma boot_same_handle_abort: "boot_image (snd (handle_abort p r)) = boot_image r"
  by (simp add: handle_abort_def)

lemma boot_handle_end:
  assumes "recv_inv r" "boot_image (snd (handle_end env ph r)) \<noteq> boot_image r"
  shows "fr_state r = RV_WAITING_END \<and> boot_image (snd (handle_end env ph r)) = Some (fl_md5_data (fr_flash r)) \<and>
    re_md5 env (fl_md5_data (fr_flash r)) = fr_last_announce_md5 r \<and>
    word_of_nat (length (fl_md5_data (fr_flash r))) = fr_file_size r"
proof -
  have st: "fr_state r = RV_WAITING_END"
    using assms(2) by (rule contrapos_np) (simp add: handle_end_def)
  then have f: "flash_inv (fr_flash r)" "serving r" using assms(1) by (simp_all add: recv_inv_def)
  have "boot_image (snd (handle_end env ph r)) = boot_image r \<or>
        boot_image (snd (handle_end env ph r)) = fl_boot_image (snd (on_end env (fr_flash r)))"
    by (simp add: handle_end_def Let_def split_beta recv_ack_defs)
  with assms(2) have b: "boot_image (snd (handle_end env ph r)) = fl_boot_image (snd (on_end env (fr_flash r)))"
    "fl_boot_image (snd (on_end env (fr_flash r))) \<noteq> boot_image r" by auto
  show ?thesis using on_end_boot [OF f(1) b(2)] b(1) st f(2) by (simp add: serving_def)
qed

lemma boot_file_transfer:
  assumes "recv_inv r" "boot_image (snd (handle_file_transfer env p r)) \<noteq> boot_image r"
  shows "\<exists>w. boot_image (snd (handle_file_transfer env p r)) = Some w \<and>
    re_md5 env w = fr_last_announce_md5 r \<and> word_of_nat (length w) = fr_file_size r"
proof -
  let ?r1 = "r\<lparr>fr_last_activity_ms := re_now env\<rparr>"
  have e: "handle_file_transfer env p r = handle_end env (p ! 0) ?r1"
    using assms(2)
    by (auto simp: handle_file_transfer_def Let_def boot_same_announce boot_same_blast boot_same_handle_abort
        split: if_splits)
  have "boot_image (snd (handle_end env (p ! 0) ?r1)) \<noteq> boot_image ?r1" using assms(2) e by simp
  from boot_handle_end [OF _ this] assms(1) show ?thesis by (simp add: e)
qed

lemma boot_same_others:
  "boot_image (snd (handle_file_data env p r)) = boot_image r"
  "boot_image (recv_loop env r) = boot_image r"
proof -
  show "boot_image (snd (handle_file_data env p r)) = boot_image r"
    by (simp add: handle_file_data_def Let_def)
  show "boot_image (recv_loop env r) = boot_image r"
    by (simp add: recv_loop_def Let_def perform_restart_if_due_def schedule_restart_def recv_ack_defs)
qed

end
