(* ===== verification/Transfer_Correct.thy ===== *)
theory Transfer_Correct
  imports OTA_Laws File_Receiver_Laws
begin

unbundle bit_operations_syntax

text \<open>
  The two ends together: the geometry they agree on, the receiver filling its buffer with the chunks
  of a file \<open>F\<close> and writing it to flash in order, and the acknowledgements of one end as the other
  end reads them.
\<close>

section \<open>A file being received\<close>

text \<open>
  The receiver is in the middle of file \<open>F\<close>: the image so far is the chunks of the increments before
  the current one, and every chunk marked as received holds its bytes of the file.
\<close>

definition chunk_held :: "bytes \<Rightarrow> recv \<Rightarrow> nat \<Rightarrow> bool" where
  "chunk_held F r i \<longleftrightarrow>
     (let c = unat (fr_chunk_payload_size r);
          s = slice c F (unat (fr_current_increment r) * unat (fr_chunks_per_increment r) + i)
      in part_of (i * c) (length s) (ib_data (fr_increment_buf r)) = s)"

definition flash_prefix :: "bytes \<Rightarrow> recv \<Rightarrow> nat \<Rightarrow> bool" where
  "flash_prefix F r q \<longleftrightarrow> fl_md5_data (fr_flash r) = take (q * unat (fr_chunk_payload_size r)) F"

definition of_file :: "bytes \<Rightarrow> recv \<Rightarrow> bool" where
  "of_file F r \<longleftrightarrow> length F = unat (fr_file_size r) \<and>
     increments_fit (fr_file_size r) (fr_chunk_payload_size r) 8 \<and>
     unat (fr_current_increment r) < unat (fr_total_increments r)"

definition receiving :: "bytes \<Rightarrow> recv \<Rightarrow> bool" where
  "receiving F r \<longleftrightarrow> recv_inv r \<and> fr_state r \<in> {RV_RECEIVING, RV_WRITING} \<and> of_file F r \<and>
     flash_prefix F r (unat (fr_current_increment r) * unat (fr_chunks_per_increment r)) \<and>
     (\<forall>i < unat (chunks_in_increment r (fr_current_increment r)). recvd (fr_increment_buf r) i \<longrightarrow> chunk_held F r i)"

lemma chunks_in_increment_nat:
  "unat (chunks_in_increment r k) =
     inc_chunks (unat (fr_total_increments r)) (unat (fr_chunks_per_increment r))
       (unat (fr_chunks_in_last_increment r)) (unat k)"
proof -
  have "unat (ucast k + 1 :: u32) = unat k + 1"
    by (subst unat_plus_fits) (use unsigned_less [of k, where 'a = nat] in \<open>simp_all add: unat_ucast_up\<close>)
  then show ?thesis
    by (simp add: chunks_in_increment_def inc_chunks_def word_le_nat_alt unat_ucast_up)
qed

lemma of_file_nat:
  assumes "geo_ok r" "of_file F r"
  defines "c \<equiv> unat (fr_chunk_payload_size r)" and "p \<equiv> unat (fr_chunks_per_increment r)"
    and "k \<equiv> unat (fr_current_increment r)" and "num \<equiv> unat (chunks_in_increment r (fr_current_increment r))"
    and "T \<equiv> ceil_div (length F) (unat (fr_chunk_payload_size r))"
  shows "0 < c" "0 < p" "T * c \<ge> length F" "(T - 1) * c < length F" "k * p + num \<le> T"
    "k * p + num = (if k + 1 = unat (fr_total_increments r) then T else (k + 1) * p)" "num \<le> p"
    "unat (fr_total_chunks r) = T" "length F \<le> 2 ^ 30" "0 < length F" "0 < num"
proof -
  let ?g = "geometry_of recv_initial (fr_file_size r) (fr_chunk_payload_size r) 8"
  have g: "fr_chunk_payload_size r \<noteq> 0" "0 < fr_file_size r" "fr_file_size r \<le> 2 ^ 30"
    and sel: "fr_total_chunks r = fr_total_chunks ?g" "fr_chunks_per_increment r = fr_chunks_per_increment ?g"
    "fr_total_increments r = fr_total_increments ?g" "fr_chunks_in_last_increment r = fr_chunks_in_last_increment ?g"
    using assms(1) by (simp_all add: geo_ok_def geo_def Let_def)
  have f: "length F = unat (fr_file_size r)" "increments_fit (fr_file_size r) (fr_chunk_payload_size r) 8"
    "k < unat (fr_total_increments ?g)"
    using assms(2) sel(3) by (simp_all add: of_file_def k_def)
  show c: "0 < c" using g(1) by (simp add: c_def unat_gt_0)
  show n: "0 < length F" using g(2) f(1) by (simp add: unat_gt_0 word_gt_0)
  show "length F \<le> 2 ^ 30" using g(3) f(1) by (simp add: word_le_nat_alt)
  show "0 < p" using rcv.geometry_facts(3) [OF g, where kb = 8 and r = recv_initial] sel by (simp add: p_def)
  show "T * c \<ge> length F" using ceil_div_bounds(1) [OF c] by (simp add: T_def c_def)
  show "(T - 1) * c < length F" using ceil_div_bounds(2) [OF c n] by (simp add: T_def c_def)
  have num: "num = inc_chunks (unat (fr_total_increments ?g)) (unat (fr_chunks_per_increment ?g))
      (unat (fr_chunks_in_last_increment ?g)) k"
    by (simp add: num_def chunks_in_increment_nat sel k_def)
  note inf = rcv.increment_in_file [OF g f(2,3)]
  show "k * p + num \<le> T" "k * p + num = (if k + 1 = unat (fr_total_increments r) then T else (k + 1) * p)" "num \<le> p"
    "0 < num"
    using inf num f(1) by (simp_all add: p_def T_def sel)
  show "unat (fr_total_chunks r) = T"
    using rcv.total_eq [OF g(1,3), where kb = 8 and r = recv_initial] f(1) by (simp add: sel T_def)
qed

lemma slice_length_pos:
  assumes "0 < c" "(T - 1) * c < length F" "q < T"
  shows "0 < length (slice c F q)"
proof -
  have "q * c \<le> (T - 1) * c" using assms(3) by (intro mult_le_mono1) simp
  then have "q * c < length F" using assms(2) by (rule le_less_trans)
  with assms(1) show ?thesis by (simp add: length_slice)
qed

lemma slice_length_full: "(q + 1) * c \<le> length F \<Longrightarrow> length (slice c F q) = c"
  by (simp add: length_slice)

lemma take_slice: "take (q * c) F @ slice c F q = take ((q + 1) * c) F"
  by (simp add: slice_def take_add [symmetric] add.commute)

section \<open>Writing an increment\<close>

text \<open>The slices the write loop hands to the flash handler are the chunks of the file.\<close>

lemma chunk_offset_bound:
  assumes "0 < c" "(T - 1) * c < length F" "q < T"
  shows "q * c < length F"
proof -
  have "q * c \<le> (T - 1) * c" using assms(3) by (intro mult_le_mono1) simp
  then show ?thesis using assms(2) by (rule le_less_trans)
qed

lemma slice_offset_nat:
  assumes "i < unat (chunks_in_increment r k)"
  shows "unat (slice_offset r i) = i * unat (fr_chunk_payload_size r)"
proof -
  have i: "i < 2 ^ 16" using assms unsigned_less [of "chunks_in_increment r k", where 'a = nat] by simp
  have c: "unat (fr_chunk_payload_size r) < 2 ^ 16" using unsigned_less [of "fr_chunk_payload_size r", where 'a = nat] by simp
  have u: "unat (word_of_nat i :: u32) = i" using i by (simp add: unat_of_nat take_bit_nat_eq_self)
  have "i * unat (fr_chunk_payload_size r) < 2 ^ 16 * 2 ^ 16" using i c by (intro mult_strict_mono) simp_all
  then show ?thesis unfolding slice_offset_def by (subst unat_times_fits) (simp_all add: u unat_ucast_up)
qed

lemma slice_len_nat:
  assumes "geo_ok r" "of_file F r" "i < unat (chunks_in_increment r (fr_current_increment r))"
  shows "unat (slice_len_at r (unat (chunks_in_increment r (fr_current_increment r))) i) =
    length (slice (unat (fr_chunk_payload_size r)) F
      (unat (fr_current_increment r) * unat (fr_chunks_per_increment r) + i))"
proof -
  let ?c = "unat (fr_chunk_payload_size r)" and ?p = "unat (fr_chunks_per_increment r)"
  let ?k = "unat (fr_current_increment r)" and ?num = "unat (chunks_in_increment r (fr_current_increment r))"
  let ?T = "ceil_div (length F) ?c"
  let ?q = "?k * ?p + i"
  note nat = of_file_nat [OF assms(1,2)]
  have F: "length F = unat (fr_file_size r)" using assms(2) by (simp add: of_file_def)
  have q: "?q < ?T" using nat(5) assms(3) by simp
  have qc: "?q * ?c < length F" by (rule chunk_offset_bound [OF nat(1,4) q])
  have c16: "?c < 2 ^ 16" using unsigned_less [of "fr_chunk_payload_size r", where 'a = nat] by simp
  let ?chunk = "ucast (fr_chunk_payload_size r) :: u64"
  let ?off = "ucast (fr_current_increment r) * ucast (fr_chunks_per_increment r) * ?chunk + ucast (slice_offset r i) :: u64"
  have kp: "?k * ?p * ?c \<le> ?q * ?c" by (intro mult_le_mono1) simp
  have F64: "length F < 2 ^ 64" using nat(9) by (rule le_less_trans) simp
  have b2: "?k * ?p * ?c < 2 ^ 64" using le_less_trans [OF kp qc] F64 by (rule less_trans)
  have "?k * ?p * 1 \<le> ?k * ?p * ?c" using nat(1) by (intro mult_le_mono) simp_all
  with b2 have b1: "?k * ?p < 2 ^ 64" by linarith
  have m1: "unat (ucast (fr_current_increment r) * ucast (fr_chunks_per_increment r) :: u64) = ?k * ?p"
    by (subst unat_times_fits) (use b1 in \<open>simp_all add: unat_ucast_up\<close>)
  have m2: "unat (ucast (fr_current_increment r) * ucast (fr_chunks_per_increment r) * ?chunk :: u64) = ?k * ?p * ?c"
    by (subst unat_times_fits) (use m1 b2 in \<open>simp_all add: unat_ucast_up\<close>)
  have sum: "?k * ?p * ?c + i * ?c = ?q * ?c" by (simp add: add_mult_distrib)
  have off: "unat ?off = ?q * ?c"
    by (subst unat_plus_fits)
       (use m2 slice_offset_nat [OF assms(3)] sum qc nat(9) in \<open>simp_all add: unat_ucast_up\<close>)
  have offc: "unat (?off + ?chunk) = ?q * ?c + ?c"
    by (subst unat_plus_fits) (use off qc nat(9) c16 in \<open>simp_all add: unat_ucast_up\<close>)
  have cond: "?off + ?chunk > ucast (fr_file_size r) \<longleftrightarrow> length F < ?q * ?c + ?c"
    by (simp add: word_less_nat_alt offc unat_ucast_up F)
  have diff: "unat (ucast (fr_file_size r) - ?off :: u64) = length F - ?q * ?c"
    using qc by (subst unat_sub) (simp_all add: word_le_nat_alt off unat_ucast_up F)
  have short: "unat (ucast (ucast (fr_file_size r) - ?off :: u64) :: u32) = length F - ?q * ?c"
    by (subst unat_ucast_fits) (use diff nat(9) in simp_all)
  show ?thesis
  proof (cases "i = ?num - 1")
    case True
    then show ?thesis
      using cond short by (simp add: slice_len_at_def Let_def length_slice unat_ucast_up)
  next
    case False
    then have "?q + 1 < ?T" using nat(5) assms(3) by simp
    then have "(?q + 1) * ?c < length F" by (rule chunk_offset_bound [OF nat(1,4)])
    then show ?thesis
      using False slice_length_full [of ?q ?c F] by (simp add: slice_len_at_def Let_def unat_ucast_up)
  qed
qed

text \<open>Flash that takes every write, and an image that starts with the ESP image magic.\<close>

definition good_flash :: "recv_env \<Rightarrow> bytes \<Rightarrow> bool" where
  "good_flash env F \<longleftrightarrow> (\<forall>j. re_write env j) \<and> F ! 0 = 0xE9"

lemma chunk_slot_fits:
  assumes "geo_ok r" "of_file F r" "buf_ok r" "i < unat (chunks_in_increment r (fr_current_increment r))"
  shows "unat (slice_offset r i + slice_len_at r (unat (chunks_in_increment r (fr_current_increment r))) i)
    \<le> length (ib_data (fr_increment_buf r))"
proof -
  let ?c = "unat (fr_chunk_payload_size r)" and ?num = "unat (chunks_in_increment r (fr_current_increment r))"
  have len: "length (ib_data (fr_increment_buf r)) = ?num * ?c" using assms(3) by (simp add: buf_ok_def ib_wf_def)
  have "unat (slice_len_at r ?num i) \<le> ?c" using slice_len_nat [OF assms(1,2,4)] by (simp add: length_slice)
  then have "unat (slice_offset r i) + unat (slice_len_at r ?num i) \<le> i * ?c + ?c"
    using slice_offset_nat [OF assms(4)] by simp
  also have "\<dots> = (i + 1) * ?c" by simp
  also have "\<dots> \<le> ?num * ?c" using assms(4) by (intro mult_le_mono1) simp
  finally have s: "unat (slice_offset r i) + unat (slice_len_at r ?num i) \<le> ?num * ?c" .
  have "?num < 2 ^ 16" "?c < 2 ^ 16"
    using unsigned_less [of "chunks_in_increment r (fr_current_increment r)", where 'a = nat]
      unsigned_less [of "fr_chunk_payload_size r", where 'a = nat] by simp_all
  then have "?num * ?c < 2 ^ 16 * 2 ^ 16" by (intro mult_strict_mono) simp_all
  then show ?thesis using s len by (subst unat_plus_fits) simp_all
qed

lemma on_data_chunk:
  assumes "geo_ok r" "of_file F r" "flash_inv (fr_flash r)" "serving r" "good_flash env F"
    and q: "q < ceil_div (length F) (unat (fr_chunk_payload_size r))" and "flash_prefix F r q"
  shows "fst (on_data env (slice (unat (fr_chunk_payload_size r)) F q) (fr_flash r))"
    and "fl_md5_data (snd (on_data env (slice (unat (fr_chunk_payload_size r)) F q) (fr_flash r))) =
      take ((q + 1) * unat (fr_chunk_payload_size r)) F"
proof -
  let ?c = "unat (fr_chunk_payload_size r)" and ?h = "fr_flash r"
  note nat = of_file_nat [OF assms(1,2)]
  have pre: "fl_md5_data ?h = take (q * ?c) F" using assms(7) by (simp add: flash_prefix_def)
  have ne: "slice ?c F q \<noteq> []" using slice_length_pos [OF nat(1,4) q] by auto
  have qc: "q * ?c < length F" by (rule chunk_offset_bound [OF nat(1,4) q])
  have magic: "slice ?c F q ! 0 = 0xE9" if "fl_total_written ?h = 0"
  proof -
    have "word_of_nat (q * ?c) = (0 :: u32)"
      using that assms(3,4) pre qc by (simp add: flash_inv_def serving_def)
    moreover have "q * ?c < 2 ^ 32" using qc nat(9) by simp
    ultimately have "q * ?c = 0"
      using unat_of_nat [of "q * ?c", where 'a = 32] by (simp add: take_bit_nat_eq_self del: mult_eq_0_iff)
    then show ?thesis using assms(5) nat(1) ne by (simp add: slice_def good_flash_def)
  qed
  show "fst (on_data env (slice ?c F q) ?h)"
    "fl_md5_data (snd (on_data env (slice ?c F q) ?h)) = take ((q + 1) * ?c) F"
    using on_data_accepts [of ?h "slice ?c F q" env] assms(3-5) ne magic
    by (simp_all add: serving_def good_flash_def pre take_slice)
qed

lemma write_pass_writes:
  assumes "geo_ok r" "of_file F r" "buf_ok r" "flash_inv (fr_flash r)" "serving r" "good_flash env F"
    and "\<forall>i < num. chunk_held F r i" "num = unat (chunks_in_increment r (fr_current_increment r))"
    and "i \<le> num" "flash_prefix F r (unat (fr_current_increment r) * unat (fr_chunks_per_increment r) + i)"
  shows "fst (write_pass env num [i..<num] r) \<and>
    flash_prefix F (snd (write_pass env num [i..<num] r))
      (unat (fr_current_increment r) * unat (fr_chunks_per_increment r) + num)"
  using assms
proof (induction "num - i" arbitrary: i r)
  case 0
  then show ?case by simp
next
  case (Suc d)
  let ?c = "unat (fr_chunk_payload_size r)"
  let ?q = "unat (fr_current_increment r) * unat (fr_chunks_per_increment r) + i"
  have i: "i < num" and d: "d = num - Suc i" using Suc.hyps(2) by simp_all
  have i': "i < unat (chunks_in_increment r (fr_current_increment r))" using i Suc.prems(8) by simp
  note nat = of_file_nat [OF Suc.prems(1,2)]
  have q: "?q < ceil_div (length F) ?c" using nat(5) i' by simp
  have len: "unat (slice_len_at r num i) = length (slice ?c F ?q)"
    using slice_len_nat [OF Suc.prems(1,2) i'] Suc.prems(8) by simp
  have data: "part_of (unat (slice_offset r i)) (unat (slice_len_at r num i)) (ib_data (fr_increment_buf r)) = slice ?c F ?q"
    using Suc.prems(7) i slice_offset_nat [OF i'] len by (simp add: chunk_held_def Let_def)
  have pos: "slice_len_at r num i \<noteq> 0" using slice_length_pos [OF nat(1,4) q] len by auto
  have fits: "\<not> unat (slice_offset r i + slice_len_at r num i) > length (ib_data (fr_increment_buf r))"
    using chunk_slot_fits [OF Suc.prems(1,2,3) i'] Suc.prems(8) by simp
  note od = on_data_chunk [OF Suc.prems(1,2,4,5,6) q Suc.prems(10)]
  define h where "h = snd (on_data env (slice ?c F ?q) (fr_flash r))"
  let ?r1 = "r\<lparr>fr_flash := h\<rparr>"
  have step: "write_pass env num (i # [Suc i..<num]) r = write_pass env num [Suc i..<num] ?r1"
    using pos fits od(1) by (simp add: Let_def data split_beta h_def)
  have keep: "geo_ok ?r1" "of_file F ?r1" "buf_ok ?r1" "flash_inv (fr_flash ?r1)" "serving ?r1"
    "\<forall>i < num. chunk_held F ?r1 i" "num = unat (chunks_in_increment ?r1 (fr_current_increment ?r1))"
    using Suc.prems on_data_keeps [where h = "fr_flash r" and env = env and d = "slice ?c F ?q"]
    by (simp_all add: geo_ok_def of_file_def buf_ok_def serving_def chunk_held_def h_def chunks_in_increment_of)
  have pre: "flash_prefix F ?r1 (unat (fr_current_increment ?r1) * unat (fr_chunks_per_increment ?r1) + Suc i)"
    using od(2) by (simp add: flash_prefix_def h_def)
  have "fst (write_pass env num [Suc i..<num] ?r1) \<and>
    flash_prefix F (snd (write_pass env num [Suc i..<num] ?r1))
      (unat (fr_current_increment ?r1) * unat (fr_chunks_per_increment ?r1) + num)"
    using i d by (intro Suc.hyps(1) [OF d keep(1-5) Suc.prems(6) keep(6,7) _ pre]) simp
  then show ?case using step i by (simp add: upt_conv_Cons)
qed

section \<open>Filling the buffer\<close>

lemma part_of_write_at: "off + length d \<le> length b \<Longrightarrow> part_of off (length d) (write_at off d b) = d"
  by (simp add: part_of_def write_at_def)

lemma part_of_write_at_other:
  assumes "off + length d \<le> length b" "a + n \<le> off \<or> off + length d \<le> a"
  shows "part_of a n (write_at off d b) = part_of a n b"
  using assms(2)
proof
  assume le: "a + n \<le> off"
  then have "take (a + n) (write_at off d b) = take (a + n) b"
    using assms(1) by (simp add: write_at_def min_def)
  then have "drop a (take (a + n) (write_at off d b)) = drop a (take (a + n) b)" by simp
  then show ?thesis by (simp add: part_of_def drop_take)
next
  assume ge: "off + length d \<le> a"
  then have "drop a (write_at off d b) = drop a b"
    using assms(1) by (simp add: write_at_def)
  then show ?thesis by (simp add: part_of_def)
qed

text \<open>An authentic data frame: the sequence number and that chunk of the file.\<close>

definition authentic :: "bytes \<Rightarrow> recv \<Rightarrow> bytes \<Rightarrow> bool" where
  "authentic F r p \<longleftrightarrow> 4 \<le> length p \<and>
     drop 4 p = slice (unat (fr_chunk_payload_size r)) F (unat (fdata_sequence (dec_file_data_header p)))"

lemma stored_chunk_index:
  assumes "geo_ok r" "of_file F r" "stores r q d"
  shows "unat q = unat (fr_current_increment r) * unat (fr_chunks_per_increment r) + unat (chunk_slot r q)"
    and "unat (chunk_slot r q) < unat (chunks_in_increment r (fr_current_increment r))"
proof -
  let ?num = "chunks_in_increment r (fr_current_increment r)"
  let ?kp = "unat (fr_current_increment r) * unat (fr_chunks_per_increment r)"
  have s: "ucast (fr_current_increment r) * ucast (fr_chunks_per_increment r) \<le> q"
    "q < ucast (fr_current_increment r) * ucast (fr_chunks_per_increment r) + ucast ?num" and t: "q < fr_total_chunks r"
    using assms(3) by (simp_all add: stores_def)
  note nat = of_file_nat [OF assms(1,2)]
  show lt: "unat (chunk_slot r q) < unat ?num" using stores_slot [OF assms(3)] .
  have le: "?kp \<le> unat q"
    using s(1) by (simp add: word_le_nat_alt unat_size_product)
  have up: "unat q < ?kp + unat ?num"
  proof -
    have "unat (ucast (fr_current_increment r) * ucast (fr_chunks_per_increment r) + ucast ?num :: u32) \<le>
      unat (ucast (fr_current_increment r) * ucast (fr_chunks_per_increment r) :: u32) + unat (ucast ?num :: u32)"
      by (simp add: unat_word_ariths)
    then show ?thesis using s(2) by (simp add: word_less_nat_alt unat_size_product unat_ucast_up)
  qed
  have "unat (chunk_slot r q) = (unat q - ?kp) mod unat (fr_chunks_per_increment r)"
    using chunk_index(2) [OF s] by (simp add: chunk_slot_def)
  also have "\<dots> = unat q - ?kp" using up le nat(7) by (intro mod_less) simp
  finally show "unat q = ?kp + unat (chunk_slot r q)" using le by simp
qed

lemma receiving_store:
  assumes "receiving F r" "stores r q d" "d = slice (unat (fr_chunk_payload_size r)) F (unat q)"
  shows "receiving F (store_chunk env q d r)"
proof -
  let ?c = "unat (fr_chunk_payload_size r)" and ?i = "unat (chunk_slot r q)"
  let ?kp = "unat (fr_current_increment r) * unat (fr_chunks_per_increment r)"
  let ?num = "unat (chunks_in_increment r (fr_current_increment r))"
  let ?b = "fr_increment_buf r" and ?r' = "store_chunk env q d r"
  have inv: "recv_inv r" and st: "fr_state r = RV_RECEIVING" and fo: "of_file F r"
    using assms(1,2) by (simp_all add: receiving_def stores_def)
  have g: "geo_ok r" "buf_ok r" using inv st by (simp_all add: recv_inv_def)
  note idx = stored_chunk_index [OF g(1) fo assms(2)]
  have room: "?i * ?c + length d \<le> length (ib_data ?b)" using assms(2) by (simp add: stores_def)
  have inv': "recv_inv ?r'"
    by (rule recv_inv_store [OF inv st idx(2)]) (use assms(2) in \<open>simp_all add: stores_def\<close>)
  have bm: "?i div 8 < length (ib_received_bitmap ?b)"
    using g(2) div8_bound [OF idx(2)] by (simp add: buf_ok_def ib_wf_def)
  have rec: "recvd (fr_increment_buf ?r') j \<longleftrightarrow> recvd ?b j \<or> j = ?i" for j
    using recvd_mark [of "chunk_slot r q" "?b\<lparr>ib_data := x\<rparr>" j for x] bm
    by (simp add: store_chunk_def recvd_def)
  have held: "chunk_held F ?r' j" if "j < ?num" "recvd (fr_increment_buf ?r') j" for j
  proof (cases "j = ?i")
    case True
    then show ?thesis
      using part_of_write_at [OF room] idx(1) assms(3)
      by (simp add: chunk_held_def Let_def store_chunk_def)
  next
    case False
    let ?s = "slice ?c F (?kp + j)"
    have h: "part_of (j * ?c) (length ?s) (ib_data ?b) = ?s"
      using assms(1) that False rec by (simp add: receiving_def chunk_held_def Let_def)
    have len: "length ?s \<le> ?c" "length d \<le> ?c" by (simp_all add: length_slice assms(3))
    have "j * ?c + length ?s \<le> ?i * ?c \<or> ?i * ?c + length d \<le> j * ?c"
    proof (cases "j < ?i")
      case True
      then have "(j + 1) * ?c \<le> ?i * ?c" by (intro mult_le_mono1) simp
      then show ?thesis using len by simp
    next
      case False
      then have "(?i + 1) * ?c \<le> j * ?c" using \<open>j \<noteq> ?i\<close> by (intro mult_le_mono1) simp
      then show ?thesis using len by simp
    qed
    from part_of_write_at_other [OF room this] h show ?thesis
      by (simp add: chunk_held_def Let_def store_chunk_def)
  qed
  have sel: "fr_state ?r' = fr_state r" "of_file F ?r'" "flash_prefix F ?r' ?kp"
    "fr_current_increment ?r' = fr_current_increment r" "fr_chunks_per_increment ?r' = fr_chunks_per_increment r"
    "chunks_in_increment ?r' (fr_current_increment r) = chunks_in_increment r (fr_current_increment r)"
    using assms(1) fo by (simp_all add: store_chunk_def of_file_def flash_prefix_def receiving_def chunks_in_increment_of)
  show ?thesis using inv' held sel st by (simp add: receiving_def)
qed

lemma receiving_activity: "receiving F (r\<lparr>fr_last_activity_ms := n\<rparr>) = receiving F r"
  by (simp add: receiving_def of_file_def flash_prefix_def chunk_held_def chunks_in_increment_of)

lemma receiving_data:
  assumes "receiving F r" "authentic F r p"
  shows "receiving F (snd (handle_file_data env p r))"
proof (cases "stores r (fdata_sequence (dec_file_data_header p)) (drop 4 p)")
  case True
  have "4 \<le> length p" using assms(2) by (simp add: authentic_def)
  from handle_file_data_stores [OF this refl refl True]
  show ?thesis using receiving_store [OF assms(1) True] assms(2) by (simp add: authentic_def)
next
  case False
  then show ?thesis
    using handle_file_data_ignores [OF refl refl disjI2 [OF False], of env] assms(1)
    by (auto simp: receiving_activity)
qed

section \<open>From one increment to the next\<close>

text \<open>All of \<open>F\<close> is in flash and only END is missing.\<close>

definition written :: "bytes \<Rightarrow> recv \<Rightarrow> bool" where
  "written F r \<longleftrightarrow> recv_inv r \<and> fr_state r = RV_WAITING_END \<and> length F = unat (fr_file_size r) \<and>
     fl_ota_handle (fr_flash r) = Some F \<and> fl_md5_data (fr_flash r) = F"

lemma finish_increment_keeps:
  assumes "recv_inv r" "fr_state r = RV_WRITING" "of_file F r"
    and "flash_prefix F r (unat (fr_current_increment r) * unat (fr_chunks_per_increment r) +
           unat (chunks_in_increment r (fr_current_increment r)))"
  shows "if unat (fr_current_increment r) + 1 = unat (fr_total_increments r)
    then written F (snd (finish_increment env r))
    else receiving F (snd (finish_increment env r)) \<and> fr_state (snd (finish_increment env r)) = RV_RECEIVING \<and>
         unat (fr_current_increment (snd (finish_increment env r))) = unat (fr_current_increment r) + 1"
proof -
  let ?r' = "snd (finish_increment env r)" and ?k = "unat (fr_current_increment r)"
  have inv': "recv_inv ?r'" by (rule recv_inv_finish [OF assms(1,2)])
  have g: "geo_ok r" and fi: "flash_inv (fr_flash r)" "serving r" using assms(1,2) by (simp_all add: recv_inv_def)
  note nat = of_file_nat [OF g assms(3)]
  have k: "?k < unat (fr_total_increments r)" and F: "length F = unat (fr_file_size r)"
    using assms(3) by (simp_all add: of_file_def)
  have k1: "unat (fr_current_increment r + 1) = ?k + 1"
    using k unsigned_less [of "fr_total_increments r", where 'a = nat] by (subst unat_plus_fits) simp_all
  have cond: "(ucast (fr_current_increment r) + 1 :: u32) \<ge> ucast (fr_total_increments r) \<longleftrightarrow> ?k + 1 = unat (fr_total_increments r)"
  proof -
    have "unat (ucast (fr_current_increment r) + 1 :: u32) = ?k + 1"
      by (subst unat_plus_fits) (use unsigned_less [of "fr_current_increment r", where 'a = nat] in \<open>simp_all add: unat_ucast_up\<close>)
    then show ?thesis using k by (auto simp: word_le_nat_alt unat_ucast_up)
  qed
  have flash: "fr_flash ?r' = fr_flash r"
    by (simp add: finish_increment_def Let_def split_beta recv_ack_defs)
  show ?thesis
  proof (cases "?k + 1 = unat (fr_total_increments r)")
    case True
    then have all: "fl_md5_data (fr_flash r) = F"
      using assms(4) nat(3,6) by (simp add: flash_prefix_def)
    have "fr_state ?r' = RV_WAITING_END" "fr_file_size ?r' = fr_file_size r"
      using True cond send_ack_eq [of env 5 "le_bytes 2 (0 :: u16)" "r\<lparr>fr_increment_written := True, fr_state := RV_WAITING_END\<rparr>"]
      by (auto simp: finish_increment_def recv_ack_defs)
    then show ?thesis
      using True inv' flash all fi F by (simp add: written_def flash_inv_def serving_def)
  next
    case False
    let ?s = "snd (send_gaps_ack env [] (r\<lparr>fr_increment_written := True\<rparr>))"
    obtain a where s: "?s = r\<lparr>fr_increment_written := True, fr_acks := a\<rparr>"
      unfolding recv_ack_defs using send_ack_eq by metis
    have sel: "fr_state ?r' = RV_RECEIVING" "fr_current_increment ?r' = fr_current_increment r + 1"
      "fr_chunks_per_increment ?r' = fr_chunks_per_increment r" "fr_file_size ?r' = fr_file_size r"
      "fr_chunk_payload_size ?r' = fr_chunk_payload_size r" "fr_total_increments ?r' = fr_total_increments r"
      "\<exists>n sz. fr_increment_buf ?r' = ib_reset n sz"
      using False cond s by (auto simp: finish_increment_def Let_def split_beta)
    have "of_file F ?r'" using assms(3) sel k1 False k by (simp add: of_file_def)
    moreover have "\<not> recvd (fr_increment_buf ?r') j" for j
    proof -
      obtain n sz where "fr_increment_buf ?r' = ib_reset n sz" using sel(7) by blast
      then show ?thesis by (simp add: recvd_def ib_reset_def)
    qed
    moreover have "flash_prefix F ?r' (unat (fr_current_increment ?r') * unat (fr_chunks_per_increment ?r'))"
      using assms(4) nat(6) False sel k1 flash by (simp add: flash_prefix_def)
    ultimately show ?thesis using False inv' sel k1 by (simp add: receiving_def)
  qed
qed

lemma receiving_write:
  assumes "receiving F r" "fr_state r = RV_WRITING" "ib_is_complete (fr_increment_buf r)" "good_flash env F"
  shows "if unat (fr_current_increment r) + 1 = unat (fr_total_increments r)
    then written F (snd (write_increment_to_flash env r))
    else receiving F (snd (write_increment_to_flash env r)) \<and>
         fr_state (snd (write_increment_to_flash env r)) = RV_RECEIVING \<and>
         unat (fr_current_increment (snd (write_increment_to_flash env r))) = unat (fr_current_increment r) + 1"
proof -
  let ?num = "unat (chunks_in_increment r (fr_current_increment r))"
  let ?kp = "unat (fr_current_increment r) * unat (fr_chunks_per_increment r)"
  have inv: "recv_inv r" and fo: "of_file F r" and pre: "flash_prefix F r (?kp + 0)"
    using assms(1) by (simp_all add: receiving_def)
  have g: "geo_ok r" "buf_ok r" "flash_inv (fr_flash r)" "serving r" "fr_active_handler r"
    using inv assms(2) by (simp_all add: recv_inv_def)
  note nat = of_file_nat [OF g(1) fo]
  have held: "\<forall>i < ?num. chunk_held F r i"
    using assms(1,3) g(2) ib_complete_iff unfolding receiving_def buf_ok_def by blast
  define r1 where "r1 = snd (write_pass env ?num [0..<?num] r)"
  have w: "fst (write_pass env ?num [0..<?num] r)" "flash_prefix F r1 (?kp + ?num)"
    using write_pass_writes [OF g(1) fo g(2-4) assms(4) held refl _ pre] by (simp_all add: r1_def)
  have r1: "r1 = r\<lparr>fr_flash := fr_flash r1\<rparr>" unfolding r1_def by (rule write_pass_frame)
  have i1: "recv_inv r1" unfolding r1_def by (rule recv_inv_write_pass [OF inv])
  have sel: "fr_state r1 = RV_WRITING" "of_file F r1" "fr_current_increment r1 = fr_current_increment r"
    "fr_total_increments r1 = fr_total_increments r" "fr_chunks_per_increment r1 = fr_chunks_per_increment r"
    "chunks_in_increment r1 (fr_current_increment r) = chunks_in_increment r (fr_current_increment r)"
    by (subst r1, use assms(2) fo in \<open>simp add: of_file_def chunks_in_increment_of\<close>)+
  have ne: "ib_data (fr_increment_buf r) \<noteq> []"
    using g(2) nat(1,11) by (auto simp: buf_ok_def ib_wf_def)
  have "write_increment_to_flash env r = finish_increment env r1"
    using w(1) ne g(5) by (simp add: write_increment_to_flash_def Let_def split_beta r1_def)
  then show ?thesis
    using finish_increment_keeps [OF i1 sel(1,2), of env] w(2) sel by simp
qed

text \<open>
  A BLAST_COMPLETE for the current increment, with every chunk received, writes the increment.
\<close>

lemma blast_complete_writes:
  assumes "receiving F r" "fr_state r = RV_RECEIVING" "fblast_increment_index bc = fr_current_increment r"
    "ib_is_complete (fr_increment_buf r)" "good_flash env F"
    and sent: "fst (send_gaps_ack env [] (r\<lparr>fr_last_activity_ms := re_now env, fr_state := RV_WRITING\<rparr>))"
  shows "if unat (fr_current_increment r) + 1 = unat (fr_total_increments r)
    then written F (snd (handle_blast_complete env bc r))
    else receiving F (snd (handle_blast_complete env bc r)) \<and>
         fr_state (snd (handle_blast_complete env bc r)) = RV_RECEIVING \<and>
         unat (fr_current_increment (snd (handle_blast_complete env bc r))) = unat (fr_current_increment r) + 1"
proof -
  let ?w = "r\<lparr>fr_last_activity_ms := re_now env, fr_state := RV_WRITING\<rparr>"
  obtain a where s: "snd (send_gaps_ack env [] ?w) = ?w\<lparr>fr_acks := a\<rparr>"
    unfolding recv_ack_defs using send_ack_eq by metis
  have inv: "recv_inv r" "\<not> fr_increment_written r" "fr_active_handler r"
    using assms(1,2) by (simp_all add: receiving_def recv_inv_def)
  have "recv_inv (?w\<lparr>fr_acks := a\<rparr>)" using inv(1) assms(2) by (simp add: recv_inv_defs)
  then have "receiving F (?w\<lparr>fr_acks := a\<rparr>)"
    using assms(1) by (simp add: receiving_def of_file_def flash_prefix_def chunk_held_def chunks_in_increment_of)
  moreover have "snd (handle_blast_complete env bc r) = snd (write_increment_to_flash env (?w\<lparr>fr_acks := a\<rparr>))"
    using assms(2-4) inv sent s by (simp add: handle_blast_complete_def Let_def split_beta)
  ultimately show ?thesis
    using receiving_write [of F "?w\<lparr>fr_acks := a\<rparr>" env] assms(4,5) by simp
qed

lemma receiving_acks: "receiving F (r\<lparr>fr_acks := a\<rparr>) = receiving F r"
  by (simp add: receiving_def of_file_def flash_prefix_def chunk_held_def chunks_in_increment_of)

lemma receiving_snd_ack: "receiving F (snd (send_ack env res tr r)) = receiving F r"
  using send_ack_eq [of env res tr r] receiving_acks by auto

text \<open>Where a transfer of \<open>F\<close> can be.\<close>

definition in_transfer :: "bytes \<Rightarrow> recv \<Rightarrow> bool" where
  "in_transfer F r \<longleftrightarrow> receiving F r \<or> written F r \<or> (recv_inv r \<and> fr_state r = RV_IDLE)"

lemma in_transfer_abort: "recv_inv r \<Longrightarrow> in_transfer F (recv_abort env x nt r)"
  using recv_inv_abort [of r env x nt] by (simp add: in_transfer_def recv_abort_def Let_def recv_reset_def)

lemma in_transfer_blast:
  assumes "in_transfer F r" "good_flash env F"
  shows "in_transfer F (snd (handle_blast_complete env bc r))"
proof (cases "receiving F r \<and> fr_state r = RV_RECEIVING")
  case False
  then have "fr_state r \<noteq> RV_RECEIVING" using assms(1) by (auto simp: in_transfer_def written_def)
  then show ?thesis using assms(1) by (simp add: handle_blast_complete_def)
next
  case True
  let ?r1 = "r\<lparr>fr_last_activity_ms := re_now env\<rparr>"
  let ?w = "?r1\<lparr>fr_state := RV_WRITING\<rparr>"
  have inv: "recv_inv r" "\<not> fr_increment_written r" "fr_active_handler r"
    using True by (simp_all add: receiving_def recv_inv_def)
  have r1: "receiving F ?r1" "recv_inv ?r1" using True inv by (simp_all add: receiving_activity)
  have w: "receiving F ?w" using True inv(1)
    by (simp add: receiving_def of_file_def flash_prefix_def chunk_held_def chunks_in_increment_of recv_inv_defs)
  show ?thesis
  proof (cases "fblast_increment_index bc = fr_current_increment r")
    case other: False
    then show ?thesis
      using True inv r1 by (auto simp: handle_blast_complete_def Let_def recv_ack_defs receiving_snd_ack in_transfer_def)
  next
    case same: True
    show ?thesis
    proof (cases "ib_is_complete (fr_increment_buf r)")
      case complete: True
      show ?thesis
      proof (cases "fst (send_gaps_ack env [] ?w)")
        case ok: True
        show ?thesis
          using blast_complete_writes [OF conjunct1 [OF True] conjunct2 [OF True] same complete assms(2) ok]
          by (auto simp: in_transfer_def split: if_splits)
      next
        case no: False
        then show ?thesis
          using True inv same complete w
          by (simp add: handle_blast_complete_def Let_def split_beta) (simp add: recv_ack_defs receiving_snd_ack in_transfer_def)
      qed
    next
      case gaps: False
      let ?g = "?r1\<lparr>fr_retransmit_round := fr_retransmit_round r + 1\<rparr>"
      have "receiving F ((snd (send_gaps_ack env bm ?g))\<lparr>fr_state := RV_RECEIVING\<rparr>)"
        if "\<not> fr_retransmit_round r \<ge> 10" for bm
      proof -
        obtain a where "snd (send_gaps_ack env bm ?g) = ?g\<lparr>fr_acks := a\<rparr>"
          unfolding recv_ack_defs using send_ack_eq by metis
        moreover have "recv_inv (?g\<lparr>fr_acks := a, fr_state := RV_RECEIVING\<rparr>)"
          using inv(1) True that inc_le [of "fr_retransmit_round r" 10] by (simp add: recv_inv_defs)
        ultimately show ?thesis
          using True by (simp add: receiving_def of_file_def flash_prefix_def chunk_held_def chunks_in_increment_of)
      qed
      then show ?thesis
        using True inv same gaps in_transfer_abort [OF r1(2)]
        by (simp add: handle_blast_complete_def Let_def split_beta in_transfer_def)
    qed
  qed
qed

lemma in_transfer_data:
  assumes "in_transfer F r" "authentic F r p"
  shows "in_transfer F (snd (handle_file_data env p r))"
proof (cases "receiving F r")
  case True
  then show ?thesis using receiving_data [OF True assms(2)] by (simp add: in_transfer_def)
next
  case False
  then have "fr_state r \<noteq> RV_RECEIVING" using assms(1) by (auto simp: in_transfer_def written_def)
  then show ?thesis using assms(1) by (simp add: handle_file_data_def)
qed

lemma in_transfer_restart: "in_transfer F (perform_restart_if_due env r) = in_transfer F r"
proof -
  have "receiving F (r\<lparr>fr_restart_pending := b, fr_restarted := c\<rparr>) = receiving F r"
    "written F (r\<lparr>fr_restart_pending := b, fr_restarted := c\<rparr>) = written F r"
    "recv_inv (r\<lparr>fr_restart_pending := b, fr_restarted := c\<rparr>) = recv_inv r" for b c
    by (simp_all add: receiving_def written_def of_file_def flash_prefix_def chunk_held_def recv_inv_defs)
  then show ?thesis by (simp add: perform_restart_if_due_def in_transfer_def)
qed

lemma in_transfer_loop:
  assumes "in_transfer F r"
  shows "in_transfer F (recv_loop env r)"
proof -
  define r1 where "r1 = perform_restart_if_due env r"
  have t: "in_transfer F r1" using assms by (simp add: r1_def in_transfer_restart)
  then have inv: "recv_inv r1" "fr_state r1 \<noteq> RV_VERIFYING"
    by (auto simp: in_transfer_def receiving_def written_def)
  then have "\<not> fr_in_complete_phase r1" by (simp add: recv_inv_def)
  then show ?thesis
    using t in_transfer_abort [OF inv(1)] by (simp add: recv_loop_def Let_def flip: r1_def)
qed

text \<open>
  A radio that loses, repeats and reorders authentic data frames, with BLAST_COMPLETEs of any index
  in between and time passing.
\<close>

inductive rx_event :: "bytes \<Rightarrow> recv \<Rightarrow> recv \<Rightarrow> bool" for F where
  data: "authentic F r p \<Longrightarrow> rx_event F r (snd (handle_file_data env p r))"
| blast: "good_flash env F \<Longrightarrow> rx_event F r (snd (handle_blast_complete env bc (set_blast_complete_tx_counter c r)))"
| tick: "rx_event F r (recv_loop env r)"

inductive_cases rx_eventE: "rx_event F r r'"

lemma in_transfer_counter: "in_transfer F (set_blast_complete_tx_counter c r) = in_transfer F r"
  by (simp add: set_blast_complete_tx_counter_def in_transfer_def receiving_def written_def of_file_def
      flash_prefix_def chunk_held_def recv_inv_defs)

lemma rx_event_in_transfer: "rx_event F r r' \<Longrightarrow> in_transfer F r \<Longrightarrow> in_transfer F r'"
  by (erule rx_eventE)
     (simp_all add: in_transfer_data in_transfer_loop in_transfer_blast in_transfer_counter)

lemma rx_run_in_transfer: "(rx_event F)\<^sup>*\<^sup>* r r' \<Longrightarrow> in_transfer F r \<Longrightarrow> in_transfer F r'"
  by (induction rule: rtranclp_induct) (auto intro: rx_event_in_transfer)

section \<open>Starting and ending\<close>

lemma accept_transfer_fresh:
  assumes "fr_state (snd (accept_transfer env a neg kb r)) = RV_RECEIVING"
  shows "fr_file_size (snd (accept_transfer env a neg kb r)) = fann_file_size a"
    "fr_current_increment (snd (accept_transfer env a neg kb r)) = 0"
    "fr_flash (snd (accept_transfer env a neg kb r)) = fr_flash r"
    "\<exists>n sz. fr_increment_buf (snd (accept_transfer env a neg kb r)) = ib_reset n sz"
    "fr_chunk_payload_size (snd (accept_transfer env a neg kb r)) = neg"
proof -
  define r1 where "r1 = compute_increment_geometry
            (r\<lparr>fr_active_handler := True, fr_file_size := fann_file_size a,
               fr_chunk_payload_size := neg, fr_action := fann_action a,
               fr_file_id := fann_file_id a, fr_last_announce_md5 := fann_md5 a,
               fr_buffer_size_kb := kb\<rparr>)"
  have r1: "fr_file_size r1 = fann_file_size a" "fr_flash r1 = fr_flash r" "fr_chunk_payload_size r1 = neg"
    by (simp_all add: r1_def)
  let ?n = "chunks_in_increment r1 0"
  define r2 where "r2 = r1\<lparr>fr_current_increment := 0, fr_retransmit_round := 0,
                       fr_increment_written := False,
                       fr_increment_buf := ib_reset ?n (ucast ?n * ucast (fr_chunk_payload_size r1)),
                       fr_state := RV_ANNOUNCED\<rparr>"
  obtain acks where s: "snd (send_ack_accept env (fr_chunk_payload_size r2) (fr_action r2) (fr_buffer_size_kb r2) r2) =
      r2\<lparr>fr_acks := acks\<rparr>"
    unfolding recv_ack_defs using send_ack_eq by metis
  have idle: "fr_state (snd (send_ack env x y (recv_reset r'))) = RV_IDLE" "fr_state (recv_reset r') = RV_IDLE" for x y r'
    by (simp_all add: recv_reset_def)
  have e: "snd (accept_transfer env a neg kb r) = r2\<lparr>fr_acks := acks, fr_state := RV_RECEIVING\<rparr>"
    using assms
    unfolding accept_transfer_def Let_def r1_def [symmetric] r2_def [symmetric] split_beta s
    by (auto simp: recv_ack_defs idle split: if_splits)
  show "fr_file_size (snd (accept_transfer env a neg kb r)) = fann_file_size a"
    "fr_current_increment (snd (accept_transfer env a neg kb r)) = 0"
    "fr_flash (snd (accept_transfer env a neg kb r)) = fr_flash r"
    "\<exists>n sz. fr_increment_buf (snd (accept_transfer env a neg kb r)) = ib_reset n sz"
    "fr_chunk_payload_size (snd (accept_transfer env a neg kb r)) = neg"
    unfolding e r2_def using r1 by auto
qed

lemma accepted_fresh:
  assumes "fr_state r = RV_IDLE" "fr_state (snd (handle_announce env a r)) = RV_RECEIVING"
  defines "r' \<equiv> snd (handle_announce env a r)"
  shows "fr_file_size r' = fann_file_size a" "fr_current_increment r' = 0" "fl_md5_data (fr_flash r') = []"
    "\<not> recvd (fr_increment_buf r') j" "fr_chunk_payload_size r' \<le> fann_chunk_size a"
proof -
  obtain resp h where oa: "on_announce env (fann_file_size a) (fann_md5 a) (fann_chunk_size a) (fr_flash r) = (resp, h)"
    by (cases "on_announce env (fann_file_size a) (fann_md5 a) (fann_chunk_size a) (fr_flash r)")
  obtain neg kb where acc: "resp = Inr (neg, kb)"
    and e: "handle_announce env a r = accept_transfer env a neg kb (r\<lparr>fr_flash := h\<rparr>)"
    using assms(1,2) unfolding handle_announce_def oa Let_def
    by (auto simp: recv_ack_defs split: if_splits sum.splits)
  have st: "fr_state (snd (accept_transfer env a neg kb (r\<lparr>fr_flash := h\<rparr>))) = RV_RECEIVING"
    using assms(2) e by simp
  note f = accept_transfer_fresh [OF st]
  note o = on_announce_accepted [OF oa [unfolded acc]]
  obtain n sz where "fr_increment_buf r' = ib_reset n sz" using f(4) by (auto simp: r'_def e)
  then show "\<not> recvd (fr_increment_buf r') j" by (simp add: recvd_def ib_reset_def)
  show "fr_file_size r' = fann_file_size a" "fr_current_increment r' = 0" "fl_md5_data (fr_flash r') = []"
    "fr_chunk_payload_size r' \<le> fann_chunk_size a"
    using f o by (simp_all add: r'_def e)
qed

lemma accepted_receiving:
  assumes "recv_inv r" "fr_state r = RV_IDLE" "r' = snd (handle_announce env a r)"
    "fr_state r' = RV_RECEIVING" "length F = unat (fann_file_size a)"
    "increments_fit (fr_file_size r') (fr_chunk_payload_size r') 8"
  shows "receiving F r'"
proof -
  have inv: "recv_inv r'" unfolding assms(3) by (rule recv_inv_announce [OF assms(1)])
  then have g: "geo_ok r'" using assms(4) by (simp add: recv_inv_def)
  let ?g = "geometry_of recv_initial (fr_file_size r') (fr_chunk_payload_size r') 8"
  have "fr_total_increments r' = fr_total_increments ?g"
    using g by (simp add: geo_ok_def geo_def Let_def)
  then have "0 < unat (fr_total_increments r')"
    by (simp add: geometry_of_sel(3) Let_def unat_if_zero)
  moreover note fresh = accepted_fresh [OF assms(2) assms(4) [unfolded assms(3)], folded assms(3)]
  ultimately have "of_file F r'" using assms(5,6) by (simp add: of_file_def)
  then show ?thesis using inv assms(4) fresh by (simp add: receiving_def flash_prefix_def)
qed

lemma written_end_boots:
  assumes "written F r" "re_md5 env F = fr_last_announce_md5 r" "re_end_ok env" "re_set_boot_ok env"
  shows "boot_image (snd (handle_end env 1 r)) = Some F" "fr_in_complete_phase (snd (handle_end env 1 r))"
    "fr_complete_result (snd (handle_end env 1 r)) = 0"
proof -
  have w: "recv_inv r" "fr_state r = RV_WAITING_END" "fl_ota_handle (fr_flash r) = Some F"
    "fl_md5_data (fr_flash r) = F" "length F = unat (fr_file_size r)"
    using assms(1) by (simp_all add: written_def)
  have s: "serving r" "flash_inv (fr_flash r)" "fr_active_handler r" using w(1,2) by (simp_all add: recv_inv_def)
  have "fl_total_written (fr_flash r) = fl_file_size (fr_flash r)"
    using s w by (simp add: flash_inv_def serving_def)
  then have e: "on_end env (fr_flash r) =
     (0, (flash_reset_state ((fr_flash r)\<lparr>fl_state := FL_VERIFYING, fl_md5_active := False, fl_boot_image := Some F\<rparr>))
           \<lparr>fl_restart_requested := True\<rparr>)"
    using s w assms(2-4) by (simp add: on_end_def Let_def flash_inv_def serving_def)
  show "boot_image (snd (handle_end env 1 r)) = Some F" "fr_in_complete_phase (snd (handle_end env 1 r))"
    "fr_complete_result (snd (handle_end env 1 r)) = 0"
    using w s by (simp_all add: handle_end_def e)
qed

section \<open>The two ends agree\<close>

lemma geometry_agrees:
  "it_total_chunks (accept_geometry n c kb t) = fr_total_chunks (geometry_of r n c kb)"
  "it_chunks_per_increment (accept_geometry n c kb t) = fr_chunks_per_increment (geometry_of r n c kb)"
  "it_total_increments (accept_geometry n c kb t) = fr_total_increments (geometry_of r n c kb)"
  "it_chunks_in_last_increment (accept_geometry n c kb t) = fr_chunks_in_last_increment (geometry_of r n c kb)"
  by (simp_all only: accept_geometry_sel geometry_of_sel)

text \<open>The trailing bytes of a gap report, and what the manager reads in them.\<close>

definition gap_report :: "recv \<Rightarrow> bytes" where
  "gap_report r = le_bytes 2 (word_of_nat (length (ib_received_bitmap (fr_increment_buf r))) :: u16) @
     ib_received_bitmap (fr_increment_buf r)"

lemma gap_report_read:
  assumes "length (ib_received_bitmap (fr_increment_buf r)) < 2 ^ 16"
  shows "drop 2 (gap_report r) = ib_received_bitmap (fr_increment_buf r)"
    and "unat (le_word (part_of 0 2 (gap_report r)) :: u16) = length (ib_received_bitmap (fr_increment_buf r))"
    and "length (gap_report r) = 2 + length (ib_received_bitmap (fr_increment_buf r))"
proof -
  let ?n = "length (ib_received_bitmap (fr_increment_buf r))"
  have "(le_word (part_of 0 2 (gap_report r)) :: u16) = word_of_nat ?n"
    by (simp add: gap_report_def part_of_def)
  then show "unat (le_word (part_of 0 2 (gap_report r)) :: u16) = ?n"
    using assms by (simp add: unat_of_nat take_bit_nat_eq_self)
  show "drop 2 (gap_report r) = ib_received_bitmap (fr_increment_buf r)"
    "length (gap_report r) = 2 + ?n" by (simp_all add: gap_report_def)
qed

lemma bitmap_received_recvd:
  assumes "length (ib_received_bitmap (fr_increment_buf r)) < 2 ^ 16"
  shows "bitmap_received (drop 2 (gap_report r)) (le_word (part_of 0 2 (gap_report r))) i \<longleftrightarrow>
    recvd (fr_increment_buf r) i"
  using gap_report_read [OF assms] by (simp add: bitmap_received_def recvd_def and_mask_bit)

lemma same_chunk_count:
  assumes "it_total_increments t = fr_total_increments r" "it_chunks_per_increment t = fr_chunks_per_increment r"
    "it_chunks_in_last_increment t = fr_chunks_in_last_increment r" "it_current_increment t = fr_current_increment r"
  shows "chunks_in_this_increment t = chunks_in_increment r (fr_current_increment r)"
  using assms by (simp add: chunks_in_this_increment_def is_last_increment_def chunks_in_increment_def)

lemma gap_set_missing:
  assumes "recv_inv r" "fr_state r = RV_RECEIVING"
    and "it_total_increments t = fr_total_increments r" "it_chunks_per_increment t = fr_chunks_per_increment r"
    "it_chunks_in_last_increment t = fr_chunks_in_last_increment r" "it_current_increment t = fr_current_increment r"
  shows "gap_set t (drop 2 (gap_report r)) (le_word (part_of 0 2 (gap_report r))) =
    {increment_start_seq t + word_of_nat i | i.
       i < unat (chunks_in_increment r (fr_current_increment r)) \<and> \<not> recvd (fr_increment_buf r) i}"
proof -
  let ?num = "unat (chunks_in_increment r (fr_current_increment r))"
  have "length (ib_received_bitmap (fr_increment_buf r)) = (?num + 7) div 8"
    using assms(1,2) by (simp add: recv_inv_def buf_ok_def ib_wf_def)
  moreover have "?num < 2 ^ 16"
    using unsigned_less [of "chunks_in_increment r (fr_current_increment r)", where 'a = nat] by simp
  ultimately have "length (ib_received_bitmap (fr_increment_buf r)) < 2 ^ 16" by simp
  from bitmap_received_recvd [OF this] show ?thesis
    using same_chunk_count [OF assms(3-6)] by (auto simp: mem_gap_set)
qed

section \<open>States the receiver does not leave\<close>

lemma writing_stuck:
  assumes "fr_state r = RV_WRITING" "\<not> fr_in_complete_phase r"
  shows "fr_state (recv_loop env r) = RV_WRITING" "handle_blast_complete env bc r = (False, r)"
    "4 \<le> length p \<Longrightarrow> handle_file_data env p r = (False, r)" "handle_end env ph r = (False, r)"
  using assms
  by (simp_all add: recv_loop_def perform_restart_if_due_def Let_def handle_blast_complete_def
      handle_file_data_def handle_end_def)

end
