(* ===== verification/Runtime_Pb.thy ===== *)
theory Runtime_Pb
  imports Prelude
begin

unbundle bit_operations_syntax

text \<open>
  The protobuf wire format of the runtime API, \<^verbatim>\<open>esp_tree_bridge/bridge_api_proto_messages.cpp\<close>:
  the varint and field reader, the \<^verbatim>\<open>Writer\<close>, the request parsers and the response
  encoders.  A \<^verbatim>\<open>Writer\<close> appends to a byte vector, so each of its methods maps the vector
  before the call to the vector after it.  The reader advances a position in a buffer and fails with
  \<open>None\<close> where the code returns false.
\<close>

section \<open>Reading\<close>

definition zigzag32 :: "u32 \<Rightarrow> u64" where
  "zigzag32 v = ucast (push_bit 1 v XOR signed_drop_bit 31 v)"

definition zigzag64 :: "u64 \<Rightarrow> u64" where
  "zigzag64 v = push_bit 1 v XOR signed_drop_bit 63 v"

text \<open>
  The loop of \<^verbatim>\<open>read_varint\<close>: \<open>acc\<close> is \<^verbatim>\<open>out\<close> so far.  The code
  stops after ten bytes, when \<^verbatim>\<open>shift\<close> reaches 70.
\<close>

function read_varint_loop :: "bytes \<Rightarrow> nat \<Rightarrow> nat \<Rightarrow> u64 \<Rightarrow> (u64 \<times> nat) option" where
  "read_varint_loop data pos shift acc =
     (if pos < length data \<and> shift < 64 then
        let byte = data ! pos;
            acc' = acc OR push_bit shift (ucast (byte AND 0x7F))
        in if byte AND 0x80 = 0 then Some (acc', pos + 1)
           else read_varint_loop data (pos + 1) (shift + 7) acc'
      else None)"
  by pat_completeness auto
termination
  by (relation "measure (\<lambda>(data, pos, shift, acc). length data - pos)") auto

definition read_varint :: "bytes \<Rightarrow> nat \<Rightarrow> (u64 \<times> nat) option" where
  "read_varint data pos = read_varint_loop data pos 0 0"

text \<open>
  One field: its number, its wire type, the bytes it carries (wire types 1 and 2), its varint value
  (wire type 0) and the position after it.
\<close>

record pb_field =
  pf_field :: u32
  pf_wire :: u8
  pf_value :: bytes
  pf_varint :: u64

definition read_field :: "bytes \<Rightarrow> nat \<Rightarrow> (pb_field \<times> nat) option" where
  "read_field data pos =
     (case read_varint data pos of
        None \<Rightarrow> None
      | Some (tag, pos1) \<Rightarrow>
          let field = ucast (drop_bit 3 tag); wire = ucast (tag AND 0x07) in
          if wire = (0 :: u8) then
            (case read_varint data pos1 of
               None \<Rightarrow> None
             | Some (v, pos2) \<Rightarrow>
                 Some (\<lparr>pf_field = field, pf_wire = wire, pf_value = [], pf_varint = v\<rparr>, pos2))
          else if wire = 1 then
            if pos1 + 8 > length data then None
            else Some (\<lparr>pf_field = field, pf_wire = wire, pf_value = part_of pos1 8 data,
                        pf_varint = 0\<rparr>, pos1 + 8)
          else if wire = 2 then
            (case read_varint data pos1 of
               None \<Rightarrow> None
             | Some (n, pos2) \<Rightarrow>
                 if unat n > length data - pos2 then None
                 else Some (\<lparr>pf_field = field, pf_wire = wire,
                             pf_value = part_of pos2 (unat n) data, pf_varint = 0\<rparr>,
                            pos2 + unat n))
          else None)"

definition as_string :: "bytes \<Rightarrow> string" where
  "as_string bs = string_of_bytes bs"

text \<open>
  \<^verbatim>\<open>std::to_string(double)\<close> is \<^verbatim>\<open>%f\<close>: six decimals, the exact binary
  value rounded to nearest, ties to even.  \<open>bits\<close> is the IEEE 754 binary64 pattern; its value
  is \<open>m * 2 ^ e / 2 ^ 1074\<close> below, so the scaled value is an exact fraction.
\<close>

definition round_half_even :: "nat \<Rightarrow> nat \<Rightarrow> nat" where
  "round_half_even num den =
     (let q = num div den; r = num mod den in
      if 2 * r < den then q else if 2 * r > den then q + 1 else if even q then q else q + 1)"

definition pad6 :: "string \<Rightarrow> string" where
  "pad6 s = replicate (6 - length s) (CHR ''0'') @ s"

definition double_to_string :: "u64 \<Rightarrow> string" where
  "double_to_string bits =
     (let sgn = bit bits 63;
          ex = unat (drop_bit 52 bits AND 0x7FF);
          frac = unat (take_bit 52 bits);
          prefix = (if sgn then ''-'' else [])
      in if ex = 2047 then prefix @ (if frac = 0 then ''inf'' else ''nan'')
         else let m = (if ex = 0 then frac else 2 ^ 52 + frac);
                  e = (if ex = 0 then 0 else ex - 1);
                  scaled = round_half_even (m * 2 ^ e * 1000000) (2 ^ 1074)
              in prefix @ dec_digits (scaled div 1000000) @ ''.'' @
                 pad6 (dec_digits (scaled mod 1000000)))"

definition value_to_string :: "u8 \<Rightarrow> bytes \<Rightarrow> u64 \<Rightarrow> string" where
  "value_to_string wire dat varint_value =
     (if wire = 0 then dec_digits (unat varint_value)
      else if wire = 1 \<and> length dat = 8 then double_to_string (le_word dat)
      else if wire = 2 then as_string dat
      else [])"

section \<open>Progress of the reader\<close>

declare read_varint_loop.simps [simp del]

lemma read_varint_loop_advances:
  "read_varint_loop data pos shift acc = Some (v, pos') \<Longrightarrow> pos < pos' \<and> pos' \<le> length data"
proof (induction data pos shift acc rule: read_varint_loop.induct)
  case (1 data pos shift acc)
  then show ?case
    by (subst (asm) read_varint_loop.simps) (fastforce simp: Let_def split: if_splits)
qed

lemma read_varint_advances:
  "read_varint data pos = Some (v, pos') \<Longrightarrow> pos < pos' \<and> pos' \<le> length data"
  by (simp add: read_varint_def read_varint_loop_advances)

lemma read_field_advances:
  "read_field data pos = Some (f, pos') \<Longrightarrow> pos < pos' \<and> pos' \<le> length data"
  by (auto simp: read_field_def Let_def split: option.splits if_splits prod.splits
      dest!: read_varint_advances)

section \<open>Writing\<close>

function Writer_raw_varint :: "u64 \<Rightarrow> bytes \<Rightarrow> bytes" where
  "Writer_raw_varint v out =
     (if v \<ge> 0x80 then Writer_raw_varint (drop_bit 7 v) (out @ [ucast (v OR 0x80)])
      else out @ [ucast v])"
  by pat_completeness auto
termination
proof (relation "measure (\<lambda>(v, out). unat v)", goal_cases)
  case 1
  then show ?case by simp
next
  case (2 v out)
  then have "unat v \<ge> 128" by (simp add: word_le_nat_alt)
  then have "drop_bit 7 (unat v) < unat v" by (simp add: drop_bit_eq_div)
  then show ?case by (simp add: unat_drop_bit_eq)
qed

declare Writer_raw_varint.simps [simp del]

definition Writer_tag :: "u32 \<Rightarrow> u8 \<Rightarrow> bytes \<Rightarrow> bytes" where
  "Writer_tag field wire_type out = Writer_raw_varint (push_bit 3 (ucast field) OR ucast wire_type) out"

definition Writer_varint :: "u32 \<Rightarrow> u64 \<Rightarrow> bytes \<Rightarrow> bytes" where
  "Writer_varint field v out = Writer_raw_varint v (Writer_tag field 0 out)"

definition Writer_sint32 :: "u32 \<Rightarrow> u32 \<Rightarrow> bytes \<Rightarrow> bytes" where
  "Writer_sint32 field v out = Writer_raw_varint (zigzag32 v) (Writer_tag field 0 out)"

definition Writer_sint64 :: "u32 \<Rightarrow> u64 \<Rightarrow> bytes \<Rightarrow> bytes" where
  "Writer_sint64 field v out = Writer_raw_varint (zigzag64 v) (Writer_tag field 0 out)"

definition Writer_boolean :: "u32 \<Rightarrow> bool \<Rightarrow> bytes \<Rightarrow> bytes" where
  "Writer_boolean field v out = Writer_varint field (if v then 1 else 0) out"

definition Writer_fixed64 :: "u32 \<Rightarrow> u64 \<Rightarrow> bytes \<Rightarrow> bytes" where
  "Writer_fixed64 field v out =
     Writer_tag field 1 out @ map (\<lambda>i. ucast (drop_bit (8 * i) v AND 0xFF)) [0..<8]"

definition Writer_bytes :: "u32 \<Rightarrow> bytes \<Rightarrow> bytes \<Rightarrow> bytes" where
  "Writer_bytes field dat out =
     Writer_raw_varint (word_of_nat (length dat)) (Writer_tag field 2 out) @ dat"

definition Writer_string :: "u32 \<Rightarrow> string \<Rightarrow> bytes \<Rightarrow> bytes" where
  "Writer_string field v out =
     (if v = [] then out else Writer_bytes field (bytes_of_string v) out)"

text \<open>A nested message is built in a vector of its own, then written as bytes.\<close>

definition Writer_message :: "u32 \<Rightarrow> (bytes \<Rightarrow> bytes) \<Rightarrow> bytes \<Rightarrow> bytes" where
  "Writer_message field builder out = Writer_bytes field (builder []) out"

section \<open>Parsing messages\<close>

text \<open>
  Every request parser is the same loop: read a field, store it, go on until the end of the buffer;
  a malformed field fails the whole parse.  The loop ends because each field is at least one byte.
\<close>

function pb_loop :: "(pb_field \<Rightarrow> 's \<Rightarrow> 's option) \<Rightarrow> bytes \<Rightarrow> nat \<Rightarrow> 's \<Rightarrow> 's option" where
  "pb_loop step data pos s =
     (if pos < length data then
        (case read_field data pos of
           None \<Rightarrow> None
         | Some (f, pos') \<Rightarrow>
             (case step f s of None \<Rightarrow> None | Some s' \<Rightarrow> pb_loop step data pos' s'))
      else Some s)"
  by pat_completeness auto
termination
  by (relation "measure (\<lambda>(step, data, pos, s). length data - pos)")
     (auto dest: read_field_advances)

declare pb_loop.simps [simp del]

record ParsedEnvelope =
  pe_request_id :: string
  pe_api_version :: u32
  pe_msg_field :: u32
  pe_msg_data :: "bytes option"

definition envelope_step :: "pb_field \<Rightarrow> ParsedEnvelope \<Rightarrow> ParsedEnvelope option" where
  "envelope_step f out = Some
     (if pf_field f = 1 \<and> pf_wire f = 2 then out\<lparr>pe_request_id := as_string (pf_value f)\<rparr>
      else if pf_field f = 2 \<and> pf_wire f = 0 then out\<lparr>pe_api_version := ucast (pf_varint f)\<rparr>
      else if pf_field f \<ge> 10 \<and> pf_wire f = 2 then
        out\<lparr>pe_msg_field := pf_field f, pe_msg_data := Some (pf_value f)\<rparr>
      else out)"

definition parse_envelope :: "bytes \<Rightarrow> ParsedEnvelope option" where
  "parse_envelope data =
     (case pb_loop envelope_step data 0
        \<lparr>pe_request_id = [], pe_api_version = 0, pe_msg_field = 0, pe_msg_data = None\<rparr> of
        None \<Rightarrow> None
      | Some out \<Rightarrow>
          if pe_msg_field out \<noteq> 0
          then Some out else None)"

record ParsedAuthResponse =
  par_client_kind :: string
  par_client_name :: string
  par_client_nonce :: bytes
  par_hmac_sha256 :: bytes

definition auth_response_step :: "pb_field \<Rightarrow> ParsedAuthResponse \<Rightarrow> ParsedAuthResponse option" where
  "auth_response_step f out = Some
     (if pf_wire f \<noteq> 2 then out
      else if pf_field f = 1 then out\<lparr>par_client_kind := as_string (pf_value f)\<rparr>
      else if pf_field f = 2 then out\<lparr>par_client_name := as_string (pf_value f)\<rparr>
      else if pf_field f = 3 then out\<lparr>par_client_nonce := pf_value f\<rparr>
      else if pf_field f = 4 then out\<lparr>par_hmac_sha256 := pf_value f\<rparr>
      else out)"

definition parse_auth_response :: "bytes \<Rightarrow> ParsedAuthResponse option" where
  "parse_auth_response data =
     (case pb_loop auth_response_step data 0
        \<lparr>par_client_kind = [], par_client_name = [], par_client_nonce = [], par_hmac_sha256 =
         []\<rparr> of
        None \<Rightarrow> None
      | Some out \<Rightarrow>
          if par_client_kind out \<noteq> [] \<and> par_client_nonce out \<noteq> [] \<and>
             length (par_hmac_sha256 out) = 32
          then Some out else None)"

record ParsedCommandArgument =
  pca_name :: string
  pca_value :: string

definition command_argument_step ::
  "pb_field \<Rightarrow> ParsedCommandArgument \<Rightarrow> ParsedCommandArgument option" where
  "command_argument_step f arg = Some
     (if pf_field f = 1 \<and> pf_wire f = 2 then arg\<lparr>pca_name := as_string (pf_value f)\<rparr>
      else if pf_field f \<ge> 10 then
        arg\<lparr>pca_value := value_to_string (pf_wire f) (pf_value f) (pf_varint f)\<rparr>
      else arg)"

record ParsedCommandRequest =
  pcr_remote_mac :: string
  pcr_object_id :: string
  pcr_command :: string
  pcr_args :: "ParsedCommandArgument list"

definition command_request_step :: "pb_field \<Rightarrow> ParsedCommandRequest \<Rightarrow> ParsedCommandRequest option" where
  "command_request_step f out =
     (if pf_wire f = 2 \<and> pf_field f = 1 then Some (out\<lparr>pcr_remote_mac := as_string (pf_value f)\<rparr>)
      else if pf_wire f = 2 \<and> pf_field f = 2 then Some (out\<lparr>pcr_object_id := as_string (pf_value f)\<rparr>)
      else if pf_wire f = 2 \<and> pf_field f = 3 then Some (out\<lparr>pcr_command := as_string (pf_value f)\<rparr>)
      else if pf_wire f = 2 \<and> pf_field f = 4 then
        (case pb_loop command_argument_step (pf_value f) 0 \<lparr>pca_name = [], pca_value = []\<rparr> of
           None \<Rightarrow> None
         | Some arg \<Rightarrow> Some (out\<lparr>pcr_args := pcr_args out @ [arg]\<rparr>))
      else Some out)"

definition parse_command_request :: "bytes \<Rightarrow> ParsedCommandRequest option" where
  "parse_command_request data =
     (case pb_loop command_request_step data 0
        \<lparr>pcr_remote_mac = [], pcr_object_id = [], pcr_command = [], pcr_args = []\<rparr> of
        None \<Rightarrow> None
      | Some out \<Rightarrow>
          if pcr_remote_mac out \<noteq> [] \<and> pcr_object_id out \<noteq> [] \<and> pcr_command out \<noteq> []
          then Some out else None)"

record ParsedConfigCommandRequest =
  pcc_remote_mac :: string
  pcc_command :: string
  pcc_interval_seconds :: u32
  pcc_parent_mac :: string
  pcc_clear_parent :: bool
  pcc_relay_enable :: bool

definition config_command_step :: "pb_field \<Rightarrow> ParsedConfigCommandRequest \<Rightarrow> ParsedConfigCommandRequest option" where
  "config_command_step f out = Some
     (if pf_field f = 1 \<and> pf_wire f = 2 then out\<lparr>pcc_remote_mac := as_string (pf_value f)\<rparr>
      else if pf_field f = 2 \<and> pf_wire f = 2 then out\<lparr>pcc_command := as_string (pf_value f)\<rparr>
      else if pf_field f = 3 \<and> pf_wire f = 0 then out\<lparr>pcc_interval_seconds := ucast (pf_varint f)\<rparr>
      else if pf_field f = 4 \<and> pf_wire f = 2 then out\<lparr>pcc_parent_mac := as_string (pf_value f)\<rparr>
      else if pf_field f = 5 \<and> pf_wire f = 0 then out\<lparr>pcc_clear_parent := pf_varint f \<noteq> 0\<rparr>
      else if pf_field f = 6 \<and> pf_wire f = 0 then out\<lparr>pcc_relay_enable := pf_varint f \<noteq> 0\<rparr>
      else out)"

definition parse_config_command_request :: "bytes \<Rightarrow> ParsedConfigCommandRequest option" where
  "parse_config_command_request data =
     (case pb_loop config_command_step data 0
        \<lparr>pcc_remote_mac = [], pcc_command = [], pcc_interval_seconds = 0, pcc_parent_mac = [],
         pcc_clear_parent = False, pcc_relay_enable = False\<rparr> of
        None \<Rightarrow> None
      | Some out \<Rightarrow>
          if pcc_remote_mac out \<noteq> [] \<and> pcc_command out \<noteq> []
          then Some out else None)"

record ParsedStateReceipt =
  psr_remote_mac :: string
  psr_bridge_mac :: string
  psr_session_id :: string
  psr_state_tx_counter :: u32
  psr_entity_index :: u8

definition state_receipt_step :: "pb_field \<Rightarrow> ParsedStateReceipt \<Rightarrow> ParsedStateReceipt option" where
  "state_receipt_step f out = Some
     (if pf_field f = 1 \<and> pf_wire f = 2 then out\<lparr>psr_remote_mac := as_string (pf_value f)\<rparr>
      else if pf_field f = 2 \<and> pf_wire f = 2 then out\<lparr>psr_bridge_mac := as_string (pf_value f)\<rparr>
      else if pf_field f = 3 \<and> pf_wire f = 2 then out\<lparr>psr_session_id := as_string (pf_value f)\<rparr>
      else if pf_field f = 4 \<and> pf_wire f = 0 then out\<lparr>psr_state_tx_counter := ucast (pf_varint f)\<rparr>
      else if pf_field f = 5 \<and> pf_wire f = 0 then out\<lparr>psr_entity_index := ucast (pf_varint f)\<rparr>
      else out)"

definition parse_state_receipt :: "bytes \<Rightarrow> ParsedStateReceipt option" where
  "parse_state_receipt data =
     (case pb_loop state_receipt_step data 0
        \<lparr>psr_remote_mac = [], psr_bridge_mac = [], psr_session_id = [], psr_state_tx_counter =
         0, psr_entity_index = 0\<rparr> of
        None \<Rightarrow> None
      | Some out \<Rightarrow>
          if psr_remote_mac out \<noteq> []
          then Some out else None)"

record ParsedOtaStartRequest =
  pos_target_mac :: string
  pos_file_size :: u32
  pos_md5 :: string
  pos_sha256 :: string
  pos_filename :: string
  pos_preferred_chunk_size :: u16

definition ota_start_step :: "pb_field \<Rightarrow> ParsedOtaStartRequest \<Rightarrow> ParsedOtaStartRequest option" where
  "ota_start_step f out = Some
     (if pf_field f = 1 \<and> pf_wire f = 2 then out\<lparr>pos_target_mac := as_string (pf_value f)\<rparr>
      else if pf_field f = 2 \<and> pf_wire f = 0 then out\<lparr>pos_file_size := ucast (pf_varint f)\<rparr>
      else if pf_field f = 3 \<and> pf_wire f = 2 then out\<lparr>pos_md5 := as_string (pf_value f)\<rparr>
      else if pf_field f = 4 \<and> pf_wire f = 2 then out\<lparr>pos_sha256 := as_string (pf_value f)\<rparr>
      else if pf_field f = 5 \<and> pf_wire f = 2 then out\<lparr>pos_filename := as_string (pf_value f)\<rparr>
      else if pf_field f = 6 \<and> pf_wire f = 0 then out\<lparr>pos_preferred_chunk_size := ucast (pf_varint f)\<rparr>
      else out)"

definition parse_ota_start_request :: "bytes \<Rightarrow> ParsedOtaStartRequest option" where
  "parse_ota_start_request data =
     (case pb_loop ota_start_step data 0
        \<lparr>pos_target_mac = [], pos_file_size = 0, pos_md5 = [], pos_sha256 = [], pos_filename =
         [], pos_preferred_chunk_size = 0\<rparr> of
        None \<Rightarrow> None
      | Some out \<Rightarrow>
          if pos_target_mac out \<noteq> [] \<and> pos_file_size out > 0 \<and> pos_md5 out \<noteq> []
          then Some out else None)"

record ParsedOtaChunk =
  poc_sequence :: u32
  poc_offset :: u32
  poc_payload :: "bytes option"
  poc_flags :: u32
  poc_crc32 :: u32

definition ota_chunk_step :: "pb_field \<Rightarrow> ParsedOtaChunk \<Rightarrow> ParsedOtaChunk option" where
  "ota_chunk_step f out = Some
     (if pf_field f = 1 \<and> pf_wire f = 0 then out\<lparr>poc_sequence := ucast (pf_varint f)\<rparr>
      else if pf_field f = 2 \<and> pf_wire f = 0 then out\<lparr>poc_offset := ucast (pf_varint f)\<rparr>
      else if pf_field f = 3 \<and> pf_wire f = 2 then out\<lparr>poc_payload := Some (pf_value f)\<rparr>
      else if pf_field f = 4 \<and> pf_wire f = 0 then out\<lparr>poc_flags := ucast (pf_varint f)\<rparr>
      else if pf_field f = 5 \<and> pf_wire f = 0 then out\<lparr>poc_crc32 := ucast (pf_varint f)\<rparr>
      else out)"

definition parse_ota_chunk_message :: "bytes \<Rightarrow> ParsedOtaChunk option" where
  "parse_ota_chunk_message data =
     (case pb_loop ota_chunk_step data 0
        \<lparr>poc_sequence = 0, poc_offset = 0, poc_payload = None, poc_flags = 0, poc_crc32 = 0\<rparr> of
        None \<Rightarrow> None
      | Some out \<Rightarrow>
          if poc_payload out \<noteq> None
          then Some out else None)"

record ParsedOtaChunkBatch =
  pob_job_id :: string
  pob_response_request_id :: string
  pob_chunks :: "ParsedOtaChunk list"

definition ota_batch_step :: "pb_field \<Rightarrow> ParsedOtaChunkBatch \<Rightarrow> ParsedOtaChunkBatch option" where
  "ota_batch_step f out =
     (if pf_field f = 1 \<and> pf_wire f = 2 then Some (out\<lparr>pob_job_id := as_string (pf_value f)\<rparr>)
      else if pf_field f = 2 \<and> pf_wire f = 2 then
        Some (out\<lparr>pob_response_request_id := as_string (pf_value f)\<rparr>)
      else if pf_field f = 3 \<and> pf_wire f = 2 then
        (case parse_ota_chunk_message (pf_value f) of
           None \<Rightarrow> None
         | Some chunk \<Rightarrow> Some (out\<lparr>pob_chunks := pob_chunks out @ [chunk]\<rparr>))
      else Some out)"

definition parse_ota_chunk_batch :: "bytes \<Rightarrow> ParsedOtaChunkBatch option" where
  "parse_ota_chunk_batch data =
     (case pb_loop ota_batch_step data 0
        \<lparr>pob_job_id = [], pob_response_request_id = [], pob_chunks = []\<rparr> of
        None \<Rightarrow> None
      | Some out \<Rightarrow>
          if pob_job_id out \<noteq> [] \<and> pob_response_request_id out \<noteq> [] \<and> pob_chunks out \<noteq> []
          then Some out else None)"

record ParsedOtaAbortRequest =
  poa_job_id :: string
  poa_reason :: string

definition ota_abort_step :: "pb_field \<Rightarrow> ParsedOtaAbortRequest \<Rightarrow> ParsedOtaAbortRequest option" where
  "ota_abort_step f out = Some
     (if pf_field f = 1 \<and> pf_wire f = 2 then out\<lparr>poa_job_id := as_string (pf_value f)\<rparr>
      else if pf_field f = 2 \<and> pf_wire f = 2 then out\<lparr>poa_reason := as_string (pf_value f)\<rparr>
      else out)"

definition parse_ota_abort_request :: "bytes \<Rightarrow> ParsedOtaAbortRequest option" where
  "parse_ota_abort_request data =
     (case pb_loop ota_abort_step data 0
        \<lparr>poa_job_id = [], poa_reason = []\<rparr> of
        None \<Rightarrow> None
      | Some out \<Rightarrow>
          Some (if poa_reason out = [] then out\<lparr>poa_reason := ''user''\<rparr> else out))"

text \<open>\<^verbatim>\<open>ping_monotonic_ms\<close> returns at the first field 1; a malformed message gives 0.\<close>

function ping_loop :: "bytes \<Rightarrow> nat \<Rightarrow> u64" where
  "ping_loop data pos =
     (if pos < length data then
        (case read_field data pos of
           None \<Rightarrow> 0
         | Some (f, pos') \<Rightarrow>
             if pf_field f = 1 \<and> pf_wire f = 0 then pf_varint f else ping_loop data pos')
      else 0)"
  by pat_completeness auto
termination
  by (relation "measure (\<lambda>(data, pos). length data - pos)") (auto dest: read_field_advances)

declare ping_loop.simps [simp del]

definition ping_monotonic_ms :: "bytes \<Rightarrow> u64" where
  "ping_monotonic_ms data = ping_loop data 0"

section \<open>Encoding messages\<close>

abbreviation (input) kRuntimeApiVersion :: u64 where "kRuntimeApiVersion \<equiv> 2"

datatype OtaState =
    OTA_STATE_UNSPECIFIED | OTA_STATE_IDLE | OTA_STATE_ANNOUNCING | OTA_STATE_TRANSFERRING
  | OTA_STATE_VERIFYING | OTA_STATE_SUCCESS | OTA_STATE_FAILED | OTA_STATE_ABORTED

fun ota_state_code :: "OtaState \<Rightarrow> u64" where
  "ota_state_code OTA_STATE_UNSPECIFIED = 0"
| "ota_state_code OTA_STATE_IDLE = 1"
| "ota_state_code OTA_STATE_ANNOUNCING = 2"
| "ota_state_code OTA_STATE_TRANSFERRING = 3"
| "ota_state_code OTA_STATE_VERIFYING = 4"
| "ota_state_code OTA_STATE_SUCCESS = 5"
| "ota_state_code OTA_STATE_FAILED = 6"
| "ota_state_code OTA_STATE_ABORTED = 7"

definition envelope :: "string \<Rightarrow> u32 \<Rightarrow> (bytes \<Rightarrow> bytes) \<Rightarrow> bytes" where
  "envelope request_id msg_field builder =
     Writer_message msg_field builder (Writer_varint 2 kRuntimeApiVersion (Writer_string 1 request_id []))"

definition encode_ota_accepted ::
  "string \<Rightarrow> string \<Rightarrow> string \<Rightarrow> u32 \<Rightarrow> u32 \<Rightarrow> u32 \<Rightarrow> bytes" where
  "encode_ota_accepted request_id job_id target_mac max_chunk_size total_chunks max_chunks_per_batch =
     envelope request_id 33 (\<lambda>w.
       Writer_varint 5 (ucast max_chunks_per_batch)
         (Writer_varint 4 (ucast total_chunks)
           (Writer_varint 3 (ucast max_chunk_size)
             (Writer_string 2 target_mac (Writer_string 1 job_id w)))))"

definition encode_ota_chunk_request ::
  "string \<Rightarrow> string \<Rightarrow> string \<Rightarrow> u32 list \<Rightarrow> u32 \<Rightarrow> u32 \<Rightarrow> u32 \<Rightarrow> u32 \<Rightarrow> u32 \<Rightarrow> u32 \<Rightarrow> u32 \<Rightarrow> bytes" where
  "encode_ota_chunk_request request_id job_id chunk_request_id sequences chunks_sent chunks_confirmed
     current_increment total_increments retransmit_round buffer_size_kb percent =
     envelope request_id 34 (\<lambda>w.
       Writer_message 4 (\<lambda>p.
         Writer_varint 7 (ucast percent)
          (Writer_varint 6 (ucast buffer_size_kb)
           (Writer_varint 5 (ucast retransmit_round)
            (Writer_varint 4 (ucast total_increments)
             (Writer_varint 3 (ucast current_increment)
              (Writer_varint 2 (ucast chunks_confirmed)
               (Writer_varint 1 (ucast chunks_sent) p)))))))
        (fold (\<lambda>s. Writer_varint 3 (ucast s)) sequences
          (Writer_string 2 chunk_request_id (Writer_string 1 job_id w))))"

definition encode_ota_status ::
  "string \<Rightarrow> string \<Rightarrow> OtaState \<Rightarrow> u32 \<Rightarrow> u32 \<Rightarrow> u32 \<Rightarrow> string \<Rightarrow> bytes" where
  "encode_ota_status request_id job_id state percent bytes_received file_size error_detail =
     envelope request_id 35 (\<lambda>w.
       Writer_string 6 error_detail
        (Writer_varint 5 (ucast file_size)
         (Writer_varint 4 (ucast bytes_received)
          (Writer_varint 3 (ucast percent)
           (Writer_varint 2 (ota_state_code state) (Writer_string 1 job_id w))))))"

definition encode_ota_aborted :: "string \<Rightarrow> string \<Rightarrow> string \<Rightarrow> bytes" where
  "encode_ota_aborted request_id job_id reason =
     envelope request_id 36 (\<lambda>w. Writer_string 2 reason (Writer_string 1 job_id w))"

definition error_envelope :: "string \<Rightarrow> string \<Rightarrow> string \<Rightarrow> bytes" where
  "error_envelope request_id code message =
     envelope request_id 99 (\<lambda>w. Writer_string 2 message (Writer_string 1 code w))"

definition auth_failed_envelope :: "string \<Rightarrow> string \<Rightarrow> string \<Rightarrow> bytes" where
  "auth_failed_envelope request_id code message =
     envelope request_id 13 (\<lambda>w. Writer_string 2 message (Writer_string 1 code w))"

end
