(* ===== verification/Runtime_Pb_Laws.thy ===== *)
theory Runtime_Pb_Laws
  imports Runtime_Pb
begin

unbundle bit_operations_syntax

text \<open>
  What the wire-format code of \<open>Runtime_Pb\<close> promises: every varint, tag and field the
  \<^verbatim>\<open>Writer\<close> appends is read back as it was written, whatever precedes and follows it, and a
  parser over a concatenation of fields is the fold of its step over them.
\<close>

section \<open>Seven-bit groups\<close>

lemma and_0x7F: "(x :: 'a::len word) AND 0x7F = take_bit 7 x"
  by (simp add: take_bit_eq_mask mask_eq_exp_minus_1)

lemma and_0x80: "(x :: 'a::len word) AND 0x80 = 0 \<longleftrightarrow> \<not> bit x 7"
  using and_exp_eq_0_iff_not_bit [of x 7] by simp

lemma bit_0x80: "bit (0x80 :: 'a::len word) n \<longleftrightarrow> n = 7 \<and> 7 < LENGTH('a)"
  using bit_exp_iff [where 'a = "'a word", of 7 n] by (auto simp: possible_bit_def)

lemma low7_of_byte: "(ucast ((ucast (w :: u64) :: u8) AND 0x7F) :: u64) = take_bit 7 w"
  unfolding and_0x7F
  by (rule bit_word_eqI) (auto simp: bit_take_bit_iff bit_ucast_iff)

lemma low7_of_marked: "(ucast ((ucast (v OR 0x80) :: u8) AND 0x7F) :: u64) = take_bit 7 v"
  unfolding low7_of_byte by simp

lemma marked_byte: "(ucast (v OR 0x80 :: u64) :: u8) AND 0x80 \<noteq> 0"
  unfolding and_0x80 by (simp add: bit_ucast_iff bit_or_iff bit_0x80)

lemma less_0x80: "(v :: u64) < 0x80 \<longleftrightarrow> take_bit 7 v = v"
  by (simp add: take_bit_self_iff)

lemma last_byte:
  assumes "v < 0x80"
  shows "(ucast (v :: u64) :: u8) AND 0x80 = 0"
proof -
  have "\<not> bit (take_bit 7 v) 7" by (simp add: bit_take_bit_iff)
  with assms have "\<not> bit v 7" by (simp add: less_0x80)
  then show ?thesis unfolding and_0x80 by (simp add: bit_ucast_iff)
qed

lemma join_groups:
  "push_bit s (take_bit 7 v) OR push_bit (s + 7) (drop_bit 7 v) = push_bit s (v :: u64)"
proof (rule bit_word_eqI)
  fix n
  assume "n < LENGTH(64)"
  show "bit (push_bit s (take_bit 7 v) OR push_bit (s + 7) (drop_bit 7 v)) n = bit (push_bit s v) n"
    by (cases "s + 7 \<le> n")
       (auto simp: bit_or_iff bit_push_bit_iff bit_take_bit_iff bit_drop_bit_eq)
qed

section \<open>Varints\<close>

lemma raw_varint_append: "Writer_raw_varint v (pre @ out) = pre @ Writer_raw_varint v out"
proof (induction v out rule: Writer_raw_varint.induct)
  case (1 v out)
  show ?case
    by (cases "v \<ge> 0x80"; subst (1 2) Writer_raw_varint.simps) (use "1" in simp_all)
qed

lemma raw_varint_eq: "Writer_raw_varint v out = out @ Writer_raw_varint v []"
  using raw_varint_append [of v out "[]"] by simp

lemma raw_varint_large:
  "v \<ge> 0x80 \<Longrightarrow>
   Writer_raw_varint v [] = ucast (v OR 0x80) # Writer_raw_varint (drop_bit 7 v) []"
  by (subst Writer_raw_varint.simps) (simp add: raw_varint_eq [of "drop_bit 7 v" "[_]"])

lemma raw_varint_small: "v < 0x80 \<Longrightarrow> Writer_raw_varint v [] = [ucast v]"
  by (subst Writer_raw_varint.simps) (auto dest: leD)

text \<open>
  The reader's loop, started at the encoding of \<open>v\<close> with \<open>shift\<close> bits already read, gets
  all of \<open>v\<close>, provided \<open>v\<close> fits in the bits that are left.
\<close>

lemma read_varint_loop_encoding:
  assumes "unat v < 2 ^ (64 - shift)" "shift < 64"
  shows "read_varint_loop (pre @ Writer_raw_varint v [] @ suf) (length pre) shift acc =
    Some (acc OR push_bit shift v, length pre + length (Writer_raw_varint v []))"
  using assms
proof (induction "unat v" arbitrary: v pre shift acc rule: less_induct)
  case less
  show ?case
  proof (cases "v \<ge> 0x80")
    case True
    then have v: "unat v \<ge> 2 ^ 7" by (simp add: word_le_nat_alt)
    with less.prems(1) have "(2::nat) ^ 7 < 2 ^ (64 - shift)" by linarith
    then have "7 < 64 - shift" by (rule power_less_imp_less_exp [rotated]) simp
    then have shift: "shift + 7 < 64" and split: "64 - shift = (64 - (shift + 7)) + 7"
      by simp_all
    have small: "unat (drop_bit 7 v) = unat v div 2 ^ 7"
      by (simp add: unat_drop_bit_eq) (simp add: drop_bit_eq_div)
    have fits: "unat (drop_bit 7 v) < 2 ^ (64 - (shift + 7))"
      using less.prems(1) unfolding split power_add small by (rule less_mult_imp_div_less)
    have dec: "unat (drop_bit 7 v) < unat v"
      using v by (simp add: small)
    let ?b = "ucast (v OR 0x80) :: u8"
    have "read_varint_loop (pre @ Writer_raw_varint v [] @ suf) (length pre) shift acc =
      read_varint_loop ((pre @ [?b]) @ Writer_raw_varint (drop_bit 7 v) [] @ suf)
        (length (pre @ [?b])) (shift + 7) (acc OR push_bit shift (take_bit 7 v))"
      using True less.prems(2)
      by (subst read_varint_loop.simps)
         (simp add: raw_varint_large low7_of_marked marked_byte nth_append Let_def)
    also have "\<dots> = Some ((acc OR push_bit shift (take_bit 7 v)) OR push_bit (shift + 7) (drop_bit 7 v),
        length (pre @ [?b]) + length (Writer_raw_varint (drop_bit 7 v) []))"
      by (rule less.hyps [OF dec fits shift])
    finally show ?thesis
      using True by (simp add: raw_varint_large or.assoc join_groups)
  next
    case False
    then show ?thesis
      using less.prems
      by (subst read_varint_loop.simps)
         (simp add: raw_varint_small not_le last_byte low7_of_byte less_0x80 Let_def nth_append)
  qed
qed

lemma read_varint_encoding:
  "read_varint (pre @ Writer_raw_varint v [] @ suf) (length pre) =
     Some (v, length pre + length (Writer_raw_varint v []))"
  using read_varint_loop_encoding [of v 0 pre suf 0] unsigned_less [of v]
  by (simp add: read_varint_def)

section \<open>Tags and fields\<close>

lemma tag_eq: "Writer_tag field wire out = out @ Writer_tag field wire []"
  unfolding Writer_tag_def by (rule raw_varint_eq)

lemma varint_eq: "Writer_varint field v out = out @ Writer_varint field v []"
  unfolding Writer_varint_def
  by (subst tag_eq, subst raw_varint_append, rule refl)

lemma bytes_eq: "Writer_bytes field dat out = out @ Writer_bytes field dat []"
  unfolding Writer_bytes_def
  by (subst tag_eq, subst raw_varint_append, simp)

lemma fixed64_eq: "Writer_fixed64 field v out = out @ Writer_fixed64 field v []"
  unfolding Writer_fixed64_def by (subst tag_eq, simp)

lemma string_eq: "Writer_string field v out = out @ Writer_string field v []"
  unfolding Writer_string_def by (simp add: bytes_eq [of _ _ out])

lemma message_eq: "Writer_message field builder out = out @ Writer_message field builder []"
  unfolding Writer_message_def by (rule bytes_eq)

lemma tag_field:
  fixes wire :: u8
  assumes "wire < 8"
  shows "(ucast (drop_bit 3 (push_bit 3 (ucast field) OR ucast wire) :: u64) :: u32) = field"
proof -
  have wire: "\<not> bit wire n" if "3 \<le> n" for n
  proof -
    have "take_bit 3 wire = wire"
      using assms by (simp add: take_bit_self_iff)
    moreover have "\<not> bit (take_bit 3 wire) n"
      using that by (simp add: bit_take_bit_iff)
    ultimately show ?thesis by simp
  qed
  show ?thesis
    by (rule bit_word_eqI)
       (auto simp: bit_ucast_iff bit_drop_bit_eq bit_or_iff bit_push_bit_iff wire)
qed

lemma tag_wire:
  fixes wire :: u8
  assumes "wire < 8"
  shows "(ucast ((push_bit 3 (ucast field) OR ucast wire :: u64) AND 0x07) :: u8) = wire"
proof -
  have "(push_bit 3 (ucast field) OR ucast wire :: u64) AND 0x07 =
      take_bit 3 (push_bit 3 (ucast field) OR ucast wire)"
    by (simp add: take_bit_eq_mask mask_eq_exp_minus_1)
  also have "\<dots> = ucast (take_bit 3 wire)"
    by (rule bit_word_eqI) (auto simp: bit_take_bit_iff bit_or_iff bit_push_bit_iff bit_ucast_iff)
  also have "take_bit 3 wire = wire"
    using assms by (simp add: take_bit_self_iff)
  finally have "(push_bit 3 (ucast field) OR ucast wire :: u64) AND 0x07 = ucast wire" .
  moreover have "(ucast (ucast wire :: u64) :: u8) = wire"
    by (rule bit_word_eqI) (auto simp: bit_ucast_iff)
  ultimately show ?thesis by simp
qed

text \<open>
  \<open>pb_encodes bs f\<close>: the reader, at \<open>bs\<close> inside any buffer, reads the field \<open>f\<close> and
  stops right after \<open>bs\<close>.
\<close>

definition pb_encodes :: "bytes \<Rightarrow> pb_field \<Rightarrow> bool" where
  "pb_encodes bs f \<longleftrightarrow>
     (\<forall>pre suf. read_field (pre @ bs @ suf) (length pre) = Some (f, length pre + length bs))"

lemma read_varint_tag:
  "read_varint (pre @ Writer_tag field wire [] @ suf) (length pre) =
     Some (push_bit 3 (ucast field) OR ucast wire, length pre + length (Writer_tag field wire []))"
  unfolding Writer_tag_def by (rule read_varint_encoding)

lemma pb_encodes_varint:
  "pb_encodes (Writer_varint field v []) \<lparr>pf_field = field, pf_wire = 0, pf_value = [], pf_varint = v\<rparr>"
  unfolding pb_encodes_def
proof (intro allI)
  fix pre suf
  let ?t = "Writer_tag field 0 []" and ?v = "Writer_raw_varint v []"
  have split: "Writer_varint field v [] = ?t @ ?v"
    unfolding Writer_varint_def by (rule raw_varint_eq)
  have "read_varint (pre @ ?t @ ?v @ suf) (length pre + length ?t) =
      Some (v, length pre + length ?t + length ?v)"
    using read_varint_encoding [of "pre @ ?t" v suf] by simp
  with read_varint_tag [of pre field 0 "?v @ suf"] tag_field [of 0 field] tag_wire [of 0 field]
  show "read_field (pre @ Writer_varint field v [] @ suf) (length pre) =
     Some (\<lparr>pf_field = field, pf_wire = 0, pf_value = [], pf_varint = v\<rparr>,
       length pre + length (Writer_varint field v []))"
    by (simp add: read_field_def split Let_def)
qed

lemma pb_encodes_bytes:
  assumes "length dat < 2 ^ 64"
  shows "pb_encodes (Writer_bytes field dat [])
    \<lparr>pf_field = field, pf_wire = 2, pf_value = dat, pf_varint = 0\<rparr>"
  unfolding pb_encodes_def
proof (intro allI)
  fix pre suf
  let ?t = "Writer_tag field 2 []" and ?n = "Writer_raw_varint (word_of_nat (length dat)) []"
  have split: "Writer_bytes field dat [] = ?t @ ?n @ dat"
    unfolding Writer_bytes_def by (subst raw_varint_eq) simp
  have n: "unat (word_of_nat (length dat) :: u64) = length dat"
    using assms by (simp add: unat_of_nat)
  have "read_varint (pre @ ?t @ ?n @ dat @ suf) (length pre + length ?t) =
      Some (word_of_nat (length dat), length pre + length ?t + length ?n)"
    using read_varint_encoding [of "pre @ ?t" "word_of_nat (length dat)" "dat @ suf"] by simp
  with read_varint_tag [of pre field 2 "?n @ dat @ suf"] tag_field [of 2 field] tag_wire [of 2 field]
  show "read_field (pre @ Writer_bytes field dat [] @ suf) (length pre) =
     Some (\<lparr>pf_field = field, pf_wire = 2, pf_value = dat, pf_varint = 0\<rparr>,
       length pre + length (Writer_bytes field dat []))"
    by (simp add: read_field_def split Let_def n part_of_def)
qed

lemma pb_encodes_fixed64:
  "pb_encodes (Writer_fixed64 field v [])
    \<lparr>pf_field = field, pf_wire = 1,
     pf_value = map (\<lambda>i. ucast (drop_bit (8 * i) v AND 0xFF)) [0..<8], pf_varint = 0\<rparr>"
  unfolding pb_encodes_def
proof (intro allI)
  fix pre suf
  let ?t = "Writer_tag field 1 []" and ?b = "map (\<lambda>i. ucast (drop_bit (8 * i) v AND 0xFF) :: u8) [0..<8]"
  have "Writer_fixed64 field v [] = ?t @ ?b" by (simp add: Writer_fixed64_def)
  moreover have "length ?b = 8" by simp
  ultimately show "read_field (pre @ Writer_fixed64 field v [] @ suf) (length pre) =
     Some (\<lparr>pf_field = field, pf_wire = 1, pf_value = ?b, pf_varint = 0\<rparr>,
       length pre + length (Writer_fixed64 field v []))"
    using read_varint_tag [of pre field 1 "?b @ suf"] tag_field [of 1 field] tag_wire [of 1 field]
    by (simp add: read_field_def Let_def part_of_def del: upt_conv_Cons upt_Suc)
qed

section \<open>Parsers over whole messages\<close>

fun fold_fields :: "(pb_field \<Rightarrow> 's \<Rightarrow> 's option) \<Rightarrow> pb_field list \<Rightarrow> 's \<Rightarrow> 's option" where
  "fold_fields step [] s = Some s"
| "fold_fields step (f # fs) s =
     (case step f s of None \<Rightarrow> None | Some s' \<Rightarrow> fold_fields step fs s')"

lemma pb_encodes_read:
  "pb_encodes bs f \<Longrightarrow> read_field (pre @ bs @ suf) (length pre) = Some (f, length pre + length bs)"
  by (simp add: pb_encodes_def)

lemma pb_encodes_nonempty: "pb_encodes bs f \<Longrightarrow> bs \<noteq> []"
  using pb_encodes_read [of bs f "[]" "[]"] read_field_advances [of "[]" 0 f 0] by auto

lemma pb_loop_done: "pb_loop step dat (length dat) s = Some s"
  by (simp add: pb_loop.simps)

lemma pb_loop_fields:
  assumes "list_all2 pb_encodes bss fs"
  shows "pb_loop step (pre @ concat bss @ suf) (length pre) s =
    (case fold_fields step fs s of
       None \<Rightarrow> None
     | Some s' \<Rightarrow> pb_loop step (pre @ concat bss @ suf) (length pre + length (concat bss)) s')"
  using assms
proof (induction bss fs arbitrary: pre s rule: list_all2_induct)
  case Nil
  then show ?case by simp
next
  case (Cons bs bss f fs)
  have "length pre < length (pre @ concat (bs # bss) @ suf)"
    using pb_encodes_nonempty [OF Cons.hyps(1)] by simp
  then have "pb_loop step (pre @ concat (bs # bss) @ suf) (length pre) s =
      (case step f s of None \<Rightarrow> None
       | Some s' \<Rightarrow> pb_loop step ((pre @ bs) @ concat bss @ suf) (length (pre @ bs)) s')"
    using pb_encodes_read [OF Cons.hyps(1), of pre "concat bss @ suf"]
    by (subst pb_loop.simps) (simp split: option.splits)
  with Cons.IH [of "pre @ bs"] show ?case
    by (simp add: add.assoc split: option.splits)
qed

text \<open>
  The contract of a request parser: run the loop from an initial record, then apply the final check.
  The consequences hold for every parser of the file.
\<close>

locale pb_parser =
  fixes step :: "pb_field \<Rightarrow> 's \<Rightarrow> 's option" and init :: 's and finish :: "'s \<Rightarrow> 's option"
    and parse :: "bytes \<Rightarrow> 's option"
  assumes parse_loop:
    "parse dat = (case pb_loop step dat 0 init of None \<Rightarrow> None | Some s \<Rightarrow> finish s)"
begin

lemma parse_fields:
  assumes "list_all2 pb_encodes bss fs"
  shows "parse (concat bss) = (case fold_fields step fs init of None \<Rightarrow> None | Some s \<Rightarrow> finish s)"
  using pb_loop_fields [OF assms, of step "[]" "[]" init] pb_loop_done [of step "concat bss"]
  by (simp add: parse_loop split: option.splits)

lemma parse_malformed:
  assumes "list_all2 pb_encodes bss fs" and "bad \<noteq> []"
    and "read_field (concat bss @ bad) (length (concat bss)) = None"
  shows "parse (concat bss @ bad) = None"
proof -
  have "pb_loop step (concat bss @ bad) (length (concat bss)) s = None" for s
    using assms(2,3) by (subst pb_loop.simps) simp
  with pb_loop_fields [OF assms(1), of step "[]" bad init] show ?thesis
    by (simp add: parse_loop split: option.splits)
qed

end

abbreviation (input) accept_if :: "('s \<Rightarrow> bool) \<Rightarrow> 's \<Rightarrow> 's option" where
  "accept_if P s \<equiv> if P s then Some s else None"

interpretation env: pb_parser envelope_step
  "\<lparr>pe_request_id = [], pe_api_version = 0, pe_msg_field = 0, pe_msg_data = None\<rparr>"
  "accept_if (\<lambda>out. pe_msg_field out \<noteq> 0)" parse_envelope
  by unfold_locales (simp add: parse_envelope_def split: option.splits)

interpretation auth_resp: pb_parser auth_response_step
  "\<lparr>par_client_kind = [], par_client_name = [], par_client_nonce = [], par_hmac_sha256 = []\<rparr>"
  "accept_if (\<lambda>out. par_client_kind out \<noteq> [] \<and> par_client_nonce out \<noteq> [] \<and>
     length (par_hmac_sha256 out) = 32)" parse_auth_response
  by unfold_locales (simp add: parse_auth_response_def split: option.splits)

interpretation chunk_msg: pb_parser ota_chunk_step
  "\<lparr>poc_sequence = 0, poc_offset = 0, poc_payload = None, poc_flags = 0, poc_crc32 = 0\<rparr>"
  "accept_if (\<lambda>out. poc_payload out \<noteq> None)" parse_ota_chunk_message
  by unfold_locales (simp add: parse_ota_chunk_message_def split: option.splits)

interpretation chunk_batch: pb_parser ota_batch_step
  "\<lparr>pob_job_id = [], pob_response_request_id = [], pob_chunks = []\<rparr>"
  "accept_if (\<lambda>out. pob_job_id out \<noteq> [] \<and> pob_response_request_id out \<noteq> [] \<and> pob_chunks out \<noteq> [])"
  parse_ota_chunk_batch
  by unfold_locales (simp add: parse_ota_chunk_batch_def split: option.splits)

interpretation ota_start: pb_parser ota_start_step
  "\<lparr>pos_target_mac = [], pos_file_size = 0, pos_md5 = [], pos_sha256 = [], pos_filename = [],
    pos_preferred_chunk_size = 0\<rparr>"
  "accept_if (\<lambda>out. pos_target_mac out \<noteq> [] \<and> pos_file_size out > 0 \<and> pos_md5 out \<noteq> [])"
  parse_ota_start_request
  by unfold_locales (simp add: parse_ota_start_request_def split: option.splits)

interpretation receipt: pb_parser state_receipt_step
  "\<lparr>psr_remote_mac = [], psr_bridge_mac = [], psr_session_id = [], psr_state_tx_counter = 0,
    psr_entity_index = 0\<rparr>"
  "accept_if (\<lambda>out. psr_remote_mac out \<noteq> [])" parse_state_receipt
  by unfold_locales (simp add: parse_state_receipt_def split: option.splits)

section \<open>Round trips\<close>

lemma string_field:
  assumes "v \<noteq> []" "length v < 2 ^ 64"
  shows "pb_encodes (Writer_string field v [])
    \<lparr>pf_field = field, pf_wire = 2, pf_value = bytes_of_string v, pf_varint = 0\<rparr>"
  using assms pb_encodes_bytes [of "bytes_of_string v" field] by (simp add: Writer_string_def)

lemma message_field:
  assumes "length (builder []) < 2 ^ 64"
  shows "pb_encodes (Writer_message field builder [])
    \<lparr>pf_field = field, pf_wire = 2, pf_value = builder [], pf_varint = 0\<rparr>"
  using pb_encodes_bytes [OF assms] by (simp add: Writer_message_def)

lemma envelope_concat:
  "envelope rid field builder = concat
     [Writer_string 1 rid [], Writer_varint 2 2 [], Writer_message field builder []]"
  unfolding envelope_def
  by (subst message_eq, subst varint_eq, simp)

lemma parse_envelope_roundtrip:
  assumes "10 \<le> field" "length rid < 2 ^ 64" "length (builder []) < 2 ^ 64"
  shows "parse_envelope (envelope rid field builder) = Some
    \<lparr>pe_request_id = rid, pe_api_version = 2, pe_msg_field = field, pe_msg_data = Some (builder [])\<rparr>"
proof -
  have ne: "field \<noteq> 0" "field \<noteq> 1" "field \<noteq> 2"
    using assms(1) by (auto simp: word_le_nat_alt)
  show ?thesis
  proof (cases "rid = []")
  case True
  have "list_all2 pb_encodes [Writer_varint 2 2 [], Writer_message field builder []]
    [\<lparr>pf_field = 2, pf_wire = 0, pf_value = [], pf_varint = 2\<rparr>,
     \<lparr>pf_field = field, pf_wire = 2, pf_value = builder [], pf_varint = 0\<rparr>]"
    by (simp add: pb_encodes_varint message_field [of builder, OF assms(3)])
  from env.parse_fields [OF this] True assms(1) ne show ?thesis
    unfolding envelope_concat
    by (simp add: envelope_step_def Writer_string_def as_string_def)
next
  case False
  have "list_all2 pb_encodes
    [Writer_string 1 rid [], Writer_varint 2 2 [], Writer_message field builder []]
    [\<lparr>pf_field = 1, pf_wire = 2, pf_value = bytes_of_string rid, pf_varint = 0\<rparr>,
     \<lparr>pf_field = 2, pf_wire = 0, pf_value = [], pf_varint = 2\<rparr>,
     \<lparr>pf_field = field, pf_wire = 2, pf_value = builder [], pf_varint = 0\<rparr>]"
    by (simp add: pb_encodes_varint string_field [OF False assms(2)] message_field [of builder, OF assms(3)])
  from env.parse_fields [OF this] assms(1) ne show ?thesis
    unfolding envelope_concat
    by (simp add: envelope_step_def as_string_def)
  qed
qed

text \<open>
  An \<^verbatim>\<open>OtaChunkBatch\<close> as a client writes it with the same primitives: the fields of each
  chunk in order, each chunk a nested message in field 3.
\<close>

definition chunk_builder :: "ParsedOtaChunk \<Rightarrow> bytes \<Rightarrow> bytes" where
  "chunk_builder c w =
     Writer_varint 5 (ucast (poc_crc32 c))
      (Writer_varint 4 (ucast (poc_flags c))
       (Writer_bytes 3 (the (poc_payload c))
        (Writer_varint 2 (ucast (poc_offset c)) (Writer_varint 1 (ucast (poc_sequence c)) w))))"

definition batch_message :: "string \<Rightarrow> string \<Rightarrow> ParsedOtaChunk list \<Rightarrow> bytes" where
  "batch_message job_id request_id chunks =
     Writer_string 1 job_id [] @ Writer_string 2 request_id [] @
     concat (map (\<lambda>c. Writer_message 3 (chunk_builder c) []) chunks)"

lemma ucast_up_down: "(ucast (ucast (x :: u32) :: u64) :: u32) = x"
  by (rule bit_word_eqI) (auto simp: bit_ucast_iff)

lemma chunk_builder_concat:
  "chunk_builder c [] = concat
     [Writer_varint 1 (ucast (poc_sequence c)) [], Writer_varint 2 (ucast (poc_offset c)) [],
      Writer_bytes 3 (the (poc_payload c)) [], Writer_varint 4 (ucast (poc_flags c)) [],
      Writer_varint 5 (ucast (poc_crc32 c)) []]"
  unfolding chunk_builder_def
  by (subst varint_eq, subst varint_eq, subst bytes_eq, subst varint_eq, simp)

lemma parse_chunk_roundtrip:
  assumes "poc_payload c = Some p" "length p < 2 ^ 64"
  shows "parse_ota_chunk_message (chunk_builder c []) = Some c"
proof -
  have "list_all2 pb_encodes
     [Writer_varint 1 (ucast (poc_sequence c)) [], Writer_varint 2 (ucast (poc_offset c)) [],
      Writer_bytes 3 p [], Writer_varint 4 (ucast (poc_flags c)) [],
      Writer_varint 5 (ucast (poc_crc32 c)) []]
     [\<lparr>pf_field = 1, pf_wire = 0, pf_value = [], pf_varint = ucast (poc_sequence c)\<rparr>,
      \<lparr>pf_field = 2, pf_wire = 0, pf_value = [], pf_varint = ucast (poc_offset c)\<rparr>,
      \<lparr>pf_field = 3, pf_wire = 2, pf_value = p, pf_varint = 0\<rparr>,
      \<lparr>pf_field = 4, pf_wire = 0, pf_value = [], pf_varint = ucast (poc_flags c)\<rparr>,
      \<lparr>pf_field = 5, pf_wire = 0, pf_value = [], pf_varint = ucast (poc_crc32 c)\<rparr>]"
    by (simp add: pb_encodes_varint pb_encodes_bytes [OF assms(2)])
  from chunk_msg.parse_fields [OF this] assms(1) show ?thesis
    unfolding chunk_builder_concat
    by (simp add: ota_chunk_step_def ucast_up_down)
qed

lemma fold_chunks:
  assumes "\<forall>c \<in> set chunks. parse_ota_chunk_message (chunk_builder c []) = Some c"
  shows "fold_fields ota_batch_step
      (map (\<lambda>c. \<lparr>pf_field = 3, pf_wire = 2, pf_value = chunk_builder c [], pf_varint = 0\<rparr>) chunks) s =
    Some (s\<lparr>pob_chunks := pob_chunks s @ chunks\<rparr>)"
  using assms
proof (induction chunks arbitrary: s)
  case Nil
  then show ?case by simp
next
  case (Cons c cs)
  then show ?case by (simp add: ota_batch_step_def)
qed

lemma raw_varint_length_le:
  "0 < n \<Longrightarrow> unat v < 2 ^ (7 * n) \<Longrightarrow> length (Writer_raw_varint v []) \<le> n"
proof (induction n arbitrary: v)
  case 0
  then show ?case by simp
next
  case (Suc n)
  show ?case
  proof (cases "v < 0x80")
    case True
    then show ?thesis by (simp add: raw_varint_small)
  next
    case False
    then have v: "unat v \<ge> 2 ^ 7" by (simp add: word_le_nat_alt not_less)
    with Suc.prems(2) have n: "0 < n" by (cases n) auto
    have "unat (drop_bit 7 v) = unat v div 2 ^ 7"
      by (simp add: unat_drop_bit_eq) (simp add: drop_bit_eq_div)
    moreover have "unat v < 2 ^ (7 * n) * 2 ^ 7"
      using Suc.prems(2) by (simp add: power_add)
    ultimately have "unat (drop_bit 7 v) < 2 ^ (7 * n)"
      using less_mult_imp_div_less by metis
    with Suc.IH n False show ?thesis by (simp add: raw_varint_large not_less)
  qed
qed

lemma raw_varint_length: "length (Writer_raw_varint v []) \<le> 10"
proof -
  have "unat v < 2 ^ 64" using unsigned_less [of v] by simp
  then show ?thesis using raw_varint_length_le [of 10 v] by simp
qed

lemma batch_message_concat:
  "batch_message job rid chunks = concat
     (Writer_string 1 job [] # Writer_string 2 rid [] #
      map (\<lambda>c. Writer_message 3 (chunk_builder c) []) chunks)"
  by (simp add: batch_message_def)

lemma parse_batch_roundtrip:
  assumes "job \<noteq> []" "length job < 2 ^ 64" "rid \<noteq> []" "length rid < 2 ^ 64" "chunks \<noteq> []"
    and "\<forall>c \<in> set chunks. (\<exists>p. poc_payload c = Some p \<and> length p < 2 ^ 64) \<and>
           length (chunk_builder c []) < 2 ^ 64"
  shows "parse_ota_chunk_batch (batch_message job rid chunks) = Some
    \<lparr>pob_job_id = job, pob_response_request_id = rid, pob_chunks = chunks\<rparr>"
proof -
  let ?f = "\<lambda>c. \<lparr>pf_field = 3, pf_wire = 2, pf_value = chunk_builder c [], pf_varint = 0\<rparr>"
  have ok: "\<forall>c \<in> set chunks. parse_ota_chunk_message (chunk_builder c []) = Some c"
    using assms(6) parse_chunk_roundtrip by blast
  have "list_all2 pb_encodes (map (\<lambda>c. Writer_message 3 (chunk_builder c) []) chunks) (map ?f chunks)"
    using assms(6)
    by (auto simp: list_all2_map1 list_all2_map2 intro!: list_all2_same [THEN iffD2] message_field)
  then have "list_all2 pb_encodes
     (Writer_string 1 job [] # Writer_string 2 rid [] #
       map (\<lambda>c. Writer_message 3 (chunk_builder c) []) chunks)
     (\<lparr>pf_field = 1, pf_wire = 2, pf_value = bytes_of_string job, pf_varint = 0\<rparr> #
      \<lparr>pf_field = 2, pf_wire = 2, pf_value = bytes_of_string rid, pf_varint = 0\<rparr> # map ?f chunks)"
    by (simp add: string_field [OF assms(1,2)] string_field [OF assms(3,4)])
  from chunk_batch.parse_fields [OF this] assms(1,3,5) show ?thesis
    unfolding batch_message_concat
    by (simp add: ota_batch_step_def fold_chunks [OF ok] as_string_def)
qed

text \<open>The zigzag maps are injective: a signed varint determines the integer it encodes.\<close>

definition unzigzag64 :: "u64 \<Rightarrow> u64" where
  "unzigzag64 z = drop_bit 1 z XOR (- (z AND 1))"

lemma zigzag64_inverse: "unzigzag64 (zigzag64 v) = v"
proof -
  have b: "bit (zigzag64 v) n \<longleftrightarrow> n < 64 \<and> ((0 < n \<and> bit v (n - 1)) \<noteq> bit v 63)" for n
    unfolding zigzag64_def bit_xor_iff bit_push_bit_iff bit_signed_drop_bit_iff
    by (cases n) (auto dest: bit_imp_le_length)
  have lsb: "- (zigzag64 v AND 1) = (if bit v 63 then - 1 else 0)"
    using b [of 0] by (auto simp: bit_0 and_one_eq mod_2_eq_odd)
  show ?thesis
    unfolding unzigzag64_def lsb
  proof (rule bit_word_eqI)
    fix n
    assume "n < LENGTH(64)"
    then show "bit (drop_bit 1 (zigzag64 v) XOR (if bit v 63 then - 1 else 0)) n = bit v n"
      by (cases "n = 63") (auto simp: bit_xor_iff bit_drop_bit_eq b)
  qed
qed

end
