(* ===== verification/Packet_Log.thy ===== *)
theory Packet_Log
  imports Wire_Types
begin

text \<open>
  \<^verbatim>\<open>PacketLogEntry\<close> of \<^verbatim>\<open>esp_tree_common/espnow_types.h\<close>: what the bridge and the remote note
  about a frame until the main loop prints it.  Both keep the entries in a ring of
  \<open>PACKET_LOG_SIZE\<close> slots.
\<close>

record PacketLogEntry =
  le_tx :: bool
  le_type :: espnow_packet_type_t
  le_mac :: mac
  le_channel :: u8
  le_length :: u16
  le_rssi :: u8
  le_show_channel :: bool
  le_show_entity :: bool
  le_entity_index :: u8
  le_entity_total :: u8
  le_chunk_index :: u8
  le_chunk_total :: u8
  le_rtt_ms :: u32
  le_allowed :: u8
  le_hops :: u8
  le_retry_count :: u8
  le_pkt_uid :: u32
  le_show_ack_type :: bool
  le_ack_type :: u8
  le_parent_check :: bool

definition PACKET_LOG_SIZE :: nat where
  "PACKET_LOG_SIZE = 32"

text \<open>The fields the callers always give; the others have the defaults of the struct.\<close>

definition log_entry :: "bool \<Rightarrow> espnow_packet_type_t \<Rightarrow> mac \<Rightarrow> nat \<Rightarrow> u8 \<Rightarrow> u32 \<Rightarrow> PacketLogEntry" where
  "log_entry tx ty m len rssi pkt_uid = \<lparr>le_tx = tx, le_type = ty, le_mac = m, le_channel = 0,
     le_length = word_of_nat len, le_rssi = rssi, le_show_channel = False, le_show_entity = False,
     le_entity_index = 0, le_entity_total = 0, le_chunk_index = 0, le_chunk_total = 0, le_rtt_ms = 0,
     le_allowed = 0xFF, le_hops = 0, le_retry_count = 0,
     le_pkt_uid = pkt_uid, le_show_ack_type = False, le_ack_type = 0, le_parent_check = False\<rparr>"

definition empty_log :: "PacketLogEntry list" where
  "empty_log = replicate PACKET_LOG_SIZE (log_entry False PKT_DISCOVER (replicate 6 0) 0 0 0)"

end
