(* ===== verification/Fragments.thy ===== *)
theory Fragments
  imports Wire_Payloads
begin

unbundle bit_operations_syntax

text \<open>
  Reassembly of entity messages: the file-local functions at the head of
  \<^verbatim>\<open>esp_tree_bridge/bridge_protocol.cpp\<close>.  A message of \<open>n\<close> fragments is collected in one
  buffer of \<open>n\<close> slots; each slot remembers whether and how long it was filled.  The locale
  \<open>fragment_store\<close> is what the handlers rely on: storing refines the update of a finite map from
  slots to byte strings.
\<close>

definition fresh_assembly :: espnow_fragment_assembly_t where
  "fresh_assembly = \<lparr>fa_entity_index = 0, fa_flags = 0, fa_fragment_count = 0, fa_message_tx_base = 0,
     fa_first_seen_ms = 0, fa_last_seen_ms = 0, fa_bytes_received = 0, fa_lengths = [], fa_received = [],
     fa_data = [], fa_active = False\<rparr>"

definition reset_fragment_assembly :: "espnow_fragment_assembly_t \<Rightarrow> espnow_fragment_assembly_t" where
  "reset_fragment_assembly assembly = fresh_assembly"

text \<open>Opening the buffer, or checking that the fragment belongs to the message in it.\<close>

definition open_assembly ::
  "espnow_fragment_assembly_t \<Rightarrow> EntityPayloadView \<Rightarrow> u32 \<Rightarrow> u32 \<Rightarrow> u16 \<Rightarrow> u16 \<Rightarrow> espnow_fragment_assembly_t option" where
  "open_assembly assembly view message_tx_base now_ms max_entity_fragment max_assembly_bytes =
     (if \<not> fa_active assembly then
        let reserved = unat (epv_fragment_count view) * unat max_entity_fragment in
        if reserved > unat max_assembly_bytes then None
        else Some (assembly\<lparr>fa_active := True, fa_entity_index := epv_entity_index view,
               fa_flags := epv_flags view, fa_fragment_count := epv_fragment_count view,
               fa_message_tx_base := message_tx_base, fa_first_seen_ms := now_ms, fa_last_seen_ms := now_ms,
               fa_bytes_received := 0, fa_lengths := replicate (unat (epv_fragment_count view)) 0,
               fa_received := replicate (unat (epv_fragment_count view)) 0, fa_data := replicate reserved 0\<rparr>)
      else if fa_message_tx_base assembly \<noteq> message_tx_base \<or>
              fa_fragment_count assembly \<noteq> epv_fragment_count view then None
      else Some (assembly\<lparr>fa_last_seen_ms := now_ms\<rparr>))"

definition overwrite :: "nat \<Rightarrow> 'a list \<Rightarrow> 'a list \<Rightarrow> 'a list" where
  "overwrite off xs ys = take off ys @ xs @ drop (off + length xs) ys"

definition fill_slot :: "EntityPayloadView \<Rightarrow> u16 \<Rightarrow> u16 \<Rightarrow> espnow_fragment_assembly_t \<Rightarrow> bool \<times> espnow_fragment_assembly_t" where
  "fill_slot view max_entity_fragment max_assembly_bytes a =
     (let i = unat (epv_fragment_index view); off = i * unat max_entity_fragment; n = length (epv_value view) in
      if i \<ge> unat (fa_fragment_count a) then (False, a)
      else if fa_received a ! i \<noteq> 0 then (True, a)
      else if off + n > length (fa_data a) then (False, a)
      else let total = fa_bytes_received a + n in
        (total \<le> unat max_assembly_bytes,
         a\<lparr>fa_data := overwrite off (epv_value view) (fa_data a), fa_received := (fa_received a)[i := 1],
           fa_lengths := (fa_lengths a)[i := word_of_nat n], fa_bytes_received := total\<rparr>))"

definition store_fragment ::
  "espnow_fragment_assembly_t \<Rightarrow> EntityPayloadView \<Rightarrow> u32 \<Rightarrow> u32 \<Rightarrow> u16 \<Rightarrow> u16 \<Rightarrow>
   bool \<times> espnow_fragment_assembly_t" where
  "store_fragment assembly view message_tx_base now_ms max_entity_fragment max_assembly_bytes =
     (case open_assembly assembly view message_tx_base now_ms max_entity_fragment max_assembly_bytes of
        None \<Rightarrow> (False, assembly)
      | Some a \<Rightarrow>
          fill_slot view max_entity_fragment max_assembly_bytes
            (if unat (epv_fragment_index view) + 1 = unat (fa_fragment_count a)
             then a\<lparr>fa_flags := epv_flags view\<rparr> else a))"

definition fragment_assembly_complete :: "espnow_fragment_assembly_t \<Rightarrow> bool" where
  "fragment_assembly_complete a \<longleftrightarrow> fa_active a \<and> fa_fragment_count a \<noteq> 0 \<and>
     list_all (\<lambda>i. fa_received a ! i \<noteq> 0) [0..<unat (fa_fragment_count a)]"

definition assemble_fragment_payload :: "espnow_fragment_assembly_t \<Rightarrow> u16 \<Rightarrow> bytes" where
  "assemble_fragment_payload a max_entity_fragment =
     concat (map (\<lambda>i. part_of (i * unat max_entity_fragment) (unat (fa_lengths a ! i)) (fa_data a))
       [0..<unat (fa_fragment_count a)])"

section \<open>The contract\<close>

text \<open>What an assembly holds, as a map from slots to byte strings.\<close>

definition frag_of :: "u16 \<Rightarrow> espnow_fragment_assembly_t \<Rightarrow> nat \<Rightarrow> bytes option" where
  "frag_of mef a i = (if i < unat (fa_fragment_count a) \<and> fa_received a ! i \<noteq> 0
     then Some (part_of (i * unat mef) (unat (fa_lengths a ! i)) (fa_data a)) else None)"

definition slot_len :: "espnow_fragment_assembly_t \<Rightarrow> nat \<Rightarrow> nat" where
  "slot_len a i = (if fa_received a ! i \<noteq> 0 then unat (fa_lengths a ! i) else 0)"

definition assembling :: "nat \<Rightarrow> u32 \<Rightarrow> u16 \<Rightarrow> espnow_fragment_assembly_t \<Rightarrow> bool" where
  "assembling n tx mef a \<longleftrightarrow> fa_active a \<and> unat (fa_fragment_count a) = n \<and> fa_message_tx_base a = tx \<and>
     length (fa_received a) = n \<and> length (fa_lengths a) = n \<and> length (fa_data a) = n * unat mef \<and>
     (\<forall>i<n. slot_len a i \<le> unat mef) \<and> fa_bytes_received a = (\<Sum>i<n. slot_len a i)"

text \<open>A fragment of a message of \<open>n\<close> fragments that fits its slot.\<close>

definition fits :: "nat \<Rightarrow> u16 \<Rightarrow> EntityPayloadView \<Rightarrow> bool" where
  "fits n mef v \<longleftrightarrow> unat (epv_fragment_count v) = n \<and> unat (epv_fragment_index v) < n \<and>
     length (epv_value v) \<le> unat mef"

text \<open>Storing the fragments of one message, in the order they arrive.\<close>

fun store_all ::
  "(espnow_fragment_assembly_t \<Rightarrow> EntityPayloadView \<Rightarrow> u32 \<Rightarrow> u32 \<Rightarrow> u16 \<Rightarrow> u16 \<Rightarrow> bool \<times> espnow_fragment_assembly_t) \<Rightarrow>
   u32 \<Rightarrow> u16 \<Rightarrow> u16 \<Rightarrow> (EntityPayloadView \<times> u32) list \<Rightarrow> espnow_fragment_assembly_t \<Rightarrow> espnow_fragment_assembly_t" where
  "store_all store tx mef cap [] a = a"
| "store_all store tx mef cap ((v, now) # vs) a = store_all store tx mef cap vs (snd (store a v tx now mef cap))"

definition slots :: "(EntityPayloadView \<times> u32) list \<Rightarrow> nat set" where
  "slots vs = (\<lambda>(v, now). unat (epv_fragment_index v)) ` set vs"

lemma complete_iff:
  assumes "assembling n tx mef a" "n \<noteq> 0"
  shows "fragment_assembly_complete a \<longleftrightarrow> {..<n} \<subseteq> dom (frag_of mef a)"
proof -
  have "fa_active a" "unat (fa_fragment_count a) = n" "fa_fragment_count a \<noteq> 0"
    using assms by (auto simp: assembling_def)
  then show ?thesis
    by (auto simp: fragment_assembly_complete_def list_all_iff frag_of_def dom_def subset_iff)
qed

lemma assemble_frags:
  assumes "assembling n tx mef a" "\<And>i. i < n \<Longrightarrow> frag_of mef a i = Some (m ! i)"
  shows "assemble_fragment_payload a mef = concat (map ((!) m) [0..<n])"
proof -
  have "part_of (i * unat mef) (unat (fa_lengths a ! i)) (fa_data a) = m ! i" if "i < n" for i
    using assms(2) [OF that] by (simp add: frag_of_def split: if_splits)
  then have "map (\<lambda>i. part_of (i * unat mef) (unat (fa_lengths a ! i)) (fa_data a)) [0..<n] = map ((!) m) [0..<n]"
    by simp
  moreover have "unat (fa_fragment_count a) = n" using assms(1) by (simp add: assembling_def)
  ultimately show ?thesis unfolding assemble_fragment_payload_def by (simp only:)
qed

locale fragment_store =
  fixes store :: "espnow_fragment_assembly_t \<Rightarrow> EntityPayloadView \<Rightarrow> u32 \<Rightarrow> u32 \<Rightarrow> u16 \<Rightarrow> u16 \<Rightarrow>
    bool \<times> espnow_fragment_assembly_t"
  assumes store_first: "\<not> fa_active a \<Longrightarrow> fits n mef v \<Longrightarrow> n * unat mef \<le> unat cap \<Longrightarrow>
      fst (store a v tx now mef cap) \<and> assembling n tx mef (snd (store a v tx now mef cap)) \<and>
      frag_of mef (snd (store a v tx now mef cap)) = [unat (epv_fragment_index v) \<mapsto> epv_value v]"
    and store_next: "assembling n tx mef a \<Longrightarrow> fits n mef v \<Longrightarrow> n * unat mef \<le> unat cap \<Longrightarrow>
      fst (store a v tx now mef cap) \<and> assembling n tx mef (snd (store a v tx now mef cap)) \<and>
      frag_of mef (snd (store a v tx now mef cap)) =
        (if frag_of mef a (unat (epv_fragment_index v)) = None
         then (frag_of mef a)(unat (epv_fragment_index v) \<mapsto> epv_value v) else frag_of mef a)"
    and store_other: "fa_active a \<Longrightarrow> fa_message_tx_base a \<noteq> tx \<or> fa_fragment_count a \<noteq> epv_fragment_count v \<Longrightarrow>
      store a v tx now mef cap = (False, a)"
begin

lemma store_all_assembling:
  assumes "n * unat mef \<le> unat cap" "assembling n tx mef a"
    and "\<forall>(v, now) \<in> set vs. fits n mef v \<and> msg (unat (epv_fragment_index v)) = Some (epv_value v)"
    and "frag_of mef a \<subseteq>\<^sub>m msg"
  shows "assembling n tx mef (store_all store tx mef cap vs a) \<and>
    frag_of mef (store_all store tx mef cap vs a) \<subseteq>\<^sub>m msg \<and>
    dom (frag_of mef (store_all store tx mef cap vs a)) = dom (frag_of mef a) \<union> slots vs"
  using assms(2-4)
proof (induction vs arbitrary: a)
  case (Cons p vs)
  obtain v now where p: "p = (v, now)" by (cases p)
  let ?a = "snd (store a v tx now mef cap)" and ?i = "unat (epv_fragment_index v)"
  have f: "fits n mef v" "msg ?i = Some (epv_value v)"
    and rest: "\<forall>(v, now) \<in> set vs. fits n mef v \<and> msg (unat (epv_fragment_index v)) = Some (epv_value v)"
    using Cons.prems(2) by (simp_all add: p)
  have st: "assembling n tx mef ?a"
    "frag_of mef ?a = (if frag_of mef a ?i = None then (frag_of mef a)(?i \<mapsto> epv_value v) else frag_of mef a)"
    using store_next [OF Cons.prems(1) f(1) assms(1)] by blast+
  have le: "frag_of mef ?a \<subseteq>\<^sub>m msg"
    unfolding st(2) using Cons.prems(3) f(2) by (simp add: map_le_def)
  have "dom (frag_of mef ?a) = insert ?i (dom (frag_of mef a))" unfolding st(2) by auto
  with Cons.IH [OF st(1) rest le] show ?case by (simp add: p slots_def)
qed (simp add: slots_def)

text \<open>
  Starting from an inactive assembly: whatever the order and the repetitions, once every slot is
  filled the reassembled payload is the message.
\<close>

lemma store_all_message:
  assumes "n * unat mef \<le> unat cap" "\<not> fa_active a" "length m = n" "vs \<noteq> []"
    and vs: "\<forall>(v, now) \<in> set vs. fits n mef v \<and> epv_value v = m ! unat (epv_fragment_index v)"
  shows "(fragment_assembly_complete (store_all store tx mef cap vs a) \<longleftrightarrow> {..<n} \<subseteq> slots vs) \<and>
    (fragment_assembly_complete (store_all store tx mef cap vs a) \<longrightarrow>
      assemble_fragment_payload (store_all store tx mef cap vs a) mef = concat m)"
proof -
  obtain v now ws where w: "vs = (v, now) # ws" using assms(4) by (cases vs) auto
  define msg where "msg i = (if i < n then Some (m ! i) else None)" for i
  let ?a = "snd (store a v tx now mef cap)" and ?r = "store_all store tx mef cap vs a"
  have f: "fits n mef v" "epv_value v = m ! unat (epv_fragment_index v)" using vs by (simp_all add: w)
  have ms: "\<forall>(v, now) \<in> set ws. fits n mef v \<and> msg (unat (epv_fragment_index v)) = Some (epv_value v)"
    using vs by (auto simp: w msg_def fits_def)
  note s1 = store_first [OF assms(2) f(1) assms(1), of tx now]
  have le: "frag_of mef ?a \<subseteq>\<^sub>m msg" using s1 f by (simp add: map_le_def msg_def fits_def)
  have r: "assembling n tx mef ?r" "frag_of mef ?r \<subseteq>\<^sub>m msg" "dom (frag_of mef ?r) = slots vs"
    using store_all_assembling [OF assms(1) _ ms le, of tx] s1 by (simp_all add: w slots_def)
  have c: "fragment_assembly_complete ?r \<longleftrightarrow> {..<n} \<subseteq> dom (frag_of mef ?r)"
    using complete_iff [OF r(1)] f(1) by (auto simp: fits_def)
  have "assemble_fragment_payload ?r mef = concat m" if "{..<n} \<subseteq> dom (frag_of mef ?r)"
  proof -
    have "frag_of mef ?r i = Some (m ! i)" if i: "i < n" for i
    proof -
      have "i \<in> dom (frag_of mef ?r)" using \<open>{..<n} \<subseteq> dom (frag_of mef ?r)\<close> i by blast
      then have "frag_of mef ?r i = msg i" using r(2) unfolding map_le_def by blast
      then show ?thesis using i by (simp add: msg_def)
    qed
    then have "assemble_fragment_payload ?r mef = concat (map ((!) m) [0..<n])" by (rule assemble_frags [OF r(1)])
    then show ?thesis using assms(3) map_nth [of m] by simp
  qed
  then show ?thesis by (simp only: c r(3)) blast
qed

end

section \<open>The code keeps the contract\<close>

lemma length_overwrite: "off + length xs \<le> length ys \<Longrightarrow> length (overwrite off xs ys) = length ys"
  by (simp add: overwrite_def)

lemma part_of_overwrite_same: "off \<le> length ys \<Longrightarrow> part_of off (length xs) (overwrite off xs ys) = xs"
  by (simp add: overwrite_def part_of_def)

lemma part_of_overwrite_other:
  assumes "off' + n \<le> off \<or> off + length xs \<le> off'" "off + length xs \<le> length ys"
  shows "part_of off' n (overwrite off xs ys) = part_of off' n ys"
  using assms(1)
proof
  assume "off' + n \<le> off"
  then show ?thesis using assms(2) by (simp add: part_of_def overwrite_def drop_take)
next
  assume l: "off + length xs \<le> off'"
  have "length (take off ys @ xs) = off + length xs" using assms(2) by simp
  then have "drop off' ((take off ys @ xs) @ drop (off + length xs) ys) = drop off' ys"
    using l unfolding drop_append by simp
  then show ?thesis by (simp add: part_of_def overwrite_def)
qed

lemma slots_apart:
  assumes "i \<noteq> j" "l \<le> (m :: nat)" "k \<le> m"
  shows "j * m + k \<le> i * m \<or> i * m + l \<le> j * m"
proof (cases "j < i")
  case True
  then have "(j + 1) * m \<le> i * m" by (intro mult_le_mono1) simp
  with assms(3) show ?thesis by simp
next
  case False
  then have "(i + 1) * m \<le> j * m" using assms(1) by (intro mult_le_mono1) simp
  with assms(2) show ?thesis by simp
qed

lemma fill_slot_assembling:
  assumes "assembling n tx mef a" "fits n mef v" "n * unat mef \<le> unat cap"
  shows "fst (fill_slot v mef cap a) \<and> assembling n tx mef (snd (fill_slot v mef cap a)) \<and>
    frag_of mef (snd (fill_slot v mef cap a)) =
      (if frag_of mef a (unat (epv_fragment_index v)) = None
       then (frag_of mef a)(unat (epv_fragment_index v) \<mapsto> epv_value v) else frag_of mef a)"
proof -
  let ?i = "unat (epv_fragment_index v)" and ?n = "length (epv_value v)" and ?m = "unat mef"
  have A: "unat (fa_fragment_count a) = n" "length (fa_received a) = n" "length (fa_lengths a) = n"
    "length (fa_data a) = n * ?m" "\<forall>i<n. slot_len a i \<le> ?m" "fa_bytes_received a = (\<Sum>i<n. slot_len a i)"
    and F: "?i < n" "?n \<le> ?m" using assms by (auto simp: assembling_def fits_def)
  show ?thesis
  proof (cases "fa_received a ! ?i \<noteq> 0")
    case True
    then have e: "fill_slot v mef cap a = (True, a)" using A F by (simp add: fill_slot_def)
    show ?thesis unfolding e using assms(1) True A F by (auto simp: frag_of_def)
  next
    case False
    define b where "b = a\<lparr>fa_data := overwrite (?i * ?m) (epv_value v) (fa_data a), fa_received := (fa_received a)[?i := 1],
      fa_lengths := (fa_lengths a)[?i := word_of_nat ?n], fa_bytes_received := fa_bytes_received a + ?n\<rparr>"
    have room: "?i * ?m + ?n \<le> length (fa_data a)"
      using mult_le_mono1 [of "?i + 1" n ?m] A(4) F by simp
    have w: "unat (word_of_nat ?n :: u16) = ?n"
      using F(2) unsigned_less [of mef, where 'a = nat] by (simp add: unat_of_nat take_bit_nat_eq_self)
    have sl: "slot_len b j = (if j = ?i then ?n else slot_len a j)" if "j < n" for j
      using that A F w by (simp add: slot_len_def b_def)
    have "(\<Sum>i<n. slot_len b i) = (\<Sum>i<n. if i = ?i then ?n else slot_len a i)" by (rule sum.cong) (auto simp: sl)
    also have "\<dots> = (\<Sum>i<n. slot_len a i + (if i = ?i then ?n else 0))"
      using False by (intro sum.cong) (auto simp: slot_len_def)
    also have "\<dots> = fa_bytes_received a + ?n" using A(6) F(1) by (simp add: sum.distrib)
    finally have sum: "(\<Sum>i<n. slot_len b i) = fa_bytes_received a + ?n" .
    have asm: "assembling n tx mef b"
      using assms(1) A F(2) sl sum length_overwrite [OF room]
      by (simp add: assembling_def) (simp add: b_def)
    have "(\<Sum>i<n. slot_len b i) \<le> (\<Sum>i<n. ?m)" using asm by (intro sum_mono) (simp add: assembling_def)
    then have cap: "fa_bytes_received a + ?n \<le> unat cap" using sum assms(3) by simp
    have e: "fill_slot v mef cap a = (True, b)"
      using False A(1) F(1) room cap by (simp add: fill_slot_def Let_def b_def)
    have keep: "part_of (j * ?m) (unat (fa_lengths a ! j)) (overwrite (?i * ?m) (epv_value v) (fa_data a)) =
        part_of (j * ?m) (unat (fa_lengths a ! j)) (fa_data a)" if "j < n" "j \<noteq> ?i" "fa_received a ! j \<noteq> 0" for j
    proof -
      have "unat (fa_lengths a ! j) \<le> ?m" using A(5) that by (auto simp: slot_len_def)
      then show ?thesis using slots_apart [of ?i j ?n ?m "unat (fa_lengths a ! j)"] that F(2) room
        by (intro part_of_overwrite_other) auto
    qed
    have "frag_of mef b = (frag_of mef a)(?i \<mapsto> epv_value v)"
    proof
      fix j
      show "frag_of mef b j = ((frag_of mef a)(?i \<mapsto> epv_value v)) j"
        using A F w keep room part_of_overwrite_same [of "?i * ?m" "fa_data a" "epv_value v"]
        by (auto simp: frag_of_def b_def)
    qed
    then show ?thesis unfolding e using asm False by (simp add: frag_of_def)
  qed
qed

lemma open_assembly_fresh:
  assumes "\<not> fa_active a" "fits n mef v" "n * unat mef \<le> unat cap"
  obtains b where "open_assembly a v tx now mef cap = Some b" "assembling n tx mef b" "frag_of mef b = Map.empty"
proof -
  obtain b where b: "open_assembly a v tx now mef cap = Some b"
    using assms by (auto simp: open_assembly_def fits_def)
  have "assembling n tx mef b" "frag_of mef b = Map.empty"
    using b assms by (auto simp: open_assembly_def fits_def assembling_def slot_len_def frag_of_def Let_def split: if_splits)
  with b that show thesis by blast
qed

lemma open_assembly_same:
  assumes "assembling n tx mef a" "fits n mef v"
  shows "open_assembly a v tx now mef cap = Some (a\<lparr>fa_last_seen_ms := now\<rparr>)"
  using assms by (auto simp: open_assembly_def assembling_def fits_def word_unat_eq_iff)

lemma assembling_flags [simp]:
  "assembling n tx mef (a\<lparr>fa_flags := f\<rparr>) = assembling n tx mef a"
  "assembling n tx mef (a\<lparr>fa_last_seen_ms := t\<rparr>) = assembling n tx mef a"
proof -
  have "slot_len (a\<lparr>fa_flags := f\<rparr>) = slot_len a" "slot_len (a\<lparr>fa_last_seen_ms := t\<rparr>) = slot_len a"
    by (simp_all add: slot_len_def fun_eq_iff)
  then show "assembling n tx mef (a\<lparr>fa_flags := f\<rparr>) = assembling n tx mef a"
    "assembling n tx mef (a\<lparr>fa_last_seen_ms := t\<rparr>) = assembling n tx mef a"
    by (simp_all add: assembling_def)
qed

lemma frag_of_flags [simp]:
  "frag_of mef (a\<lparr>fa_flags := f\<rparr>) = frag_of mef a"
  "frag_of mef (a\<lparr>fa_last_seen_ms := t\<rparr>) = frag_of mef a"
  by (auto simp: frag_of_def)

interpretation bridge_frag: fragment_store store_fragment
proof
  fix a :: espnow_fragment_assembly_t and n :: nat and mef cap :: u16 and v :: EntityPayloadView and tx now :: u32
  assume f: "fits n mef v" and c: "n * unat mef \<le> unat cap"
  {
    assume "\<not> fa_active a"
    then obtain b where b: "open_assembly a v tx now mef cap = Some b" "assembling n tx mef b" "frag_of mef b = Map.empty"
      by (rule open_assembly_fresh [OF _ f c])
    then show "fst (store_fragment a v tx now mef cap) \<and> assembling n tx mef (snd (store_fragment a v tx now mef cap)) \<and>
      frag_of mef (snd (store_fragment a v tx now mef cap)) = [unat (epv_fragment_index v) \<mapsto> epv_value v]"
      using fill_slot_assembling [OF _ f c, of tx] by (simp add: store_fragment_def)
  next
    assume a: "assembling n tx mef a"
    show "fst (store_fragment a v tx now mef cap) \<and> assembling n tx mef (snd (store_fragment a v tx now mef cap)) \<and>
      frag_of mef (snd (store_fragment a v tx now mef cap)) =
        (if frag_of mef a (unat (epv_fragment_index v)) = None
         then (frag_of mef a)(unat (epv_fragment_index v) \<mapsto> epv_value v) else frag_of mef a)"
      using open_assembly_same [OF a f] fill_slot_assembling [OF _ f c, of tx] a by (auto simp: store_fragment_def)
  }
next
  fix a :: espnow_fragment_assembly_t and tx now :: u32 and v :: EntityPayloadView and mef cap :: u16
  assume "fa_active a" "fa_message_tx_base a \<noteq> tx \<or> fa_fragment_count a \<noteq> epv_fragment_count v"
  then show "store_fragment a v tx now mef cap = (False, a)" by (simp add: store_fragment_def open_assembly_def)
qed

end
