(* ===== verification/Ordered_Map.thy ===== *)
theory Ordered_Map
  imports Main
begin

text \<open>
  \<^verbatim>\<open>std::map\<close>: an association list in ascending key order, so that a range-based loop over the map
  is a recursion over the list.  The locale \<open>std_map\<close> is the contract the bridge and the remote
  rely on; the lists interpret it.
\<close>

type_synonym ('k, 'v) omap = "('k \<times> 'v) list"

definition omap_find :: "('k, 'v) omap \<Rightarrow> 'k \<Rightarrow> 'v option" where
  "omap_find m k = map_of m k"

fun omap_put :: "'k::linorder \<Rightarrow> 'v \<Rightarrow> ('k, 'v) omap \<Rightarrow> ('k, 'v) omap" where
  "omap_put k v [] = [(k, v)]"
| "omap_put k v ((k', v') # m) =
     (if k < k' then (k, v) # (k', v') # m
      else if k = k' then (k, v) # m
      else (k', v') # omap_put k v m)"

definition omap_erase :: "'k \<Rightarrow> ('k, 'v) omap \<Rightarrow> ('k, 'v) omap" where
  "omap_erase k m = filter (\<lambda>p. fst p \<noteq> k) m"

definition omap_ok :: "('k::linorder, 'v) omap \<Rightarrow> bool" where
  "omap_ok m \<longleftrightarrow> sorted_wrt (<) (map fst m)"

section \<open>The contract\<close>

locale std_map =
  fixes find :: "'m \<Rightarrow> 'k \<Rightarrow> 'v option" and put :: "'k \<Rightarrow> 'v \<Rightarrow> 'm \<Rightarrow> 'm" and erase :: "'k \<Rightarrow> 'm \<Rightarrow> 'm"
    and entries :: "'m \<Rightarrow> ('k \<times> 'v) list" and ok :: "'m \<Rightarrow> bool"
  assumes find_put: "find (put k v m) k' = (if k' = k then Some v else find m k')"
    and find_erase: "find (erase k m) k' = (if k' = k then None else find m k')"
    and ok_put: "ok m \<Longrightarrow> ok (put k v m)"
    and ok_erase: "ok m \<Longrightarrow> ok (erase k m)"
    and entries_find: "ok m \<Longrightarrow> (k, v) \<in> set (entries m) \<longleftrightarrow> find m k = Some v"
    and distinct_entries: "ok m \<Longrightarrow> distinct (map fst (entries m))"
begin

lemma find_put_same: "find (put k v m) k = Some v"
  by (simp add: find_put)

lemma entries_put: "ok m \<Longrightarrow> set (entries (put k v m)) = {(k, v)} \<union> {p \<in> set (entries m). fst p \<noteq> k}"
  by (auto simp: entries_find ok_put find_put split: if_splits)

lemma entries_erase: "ok m \<Longrightarrow> set (entries (erase k m)) = {p \<in> set (entries m). fst p \<noteq> k}"
  by (auto simp: entries_find ok_erase find_erase split: if_splits)

lemma all_put:
  assumes "ok m" "\<forall>(k, v) \<in> set (entries m). P k v" "P k v"
  shows "\<forall>(k, v) \<in> set (entries (put k v m)). P k v"
  using assms by (auto simp: entries_put)

lemma all_erase:
  assumes "ok m" "\<forall>(k, v) \<in> set (entries m). P k v"
  shows "\<forall>(k, v) \<in> set (entries (erase k m)). P k v"
  using assms by (auto simp: entries_erase)

lemma size_put:
  assumes "ok m"
  shows "length (entries (put k v m)) = (if find m k = None then length (entries m) + 1 else length (entries m))"
proof -
  have c: "length (entries x) = card (fst ` set (entries x))" if "ok x" for x
    using distinct_card [OF distinct_entries [OF that]] by simp
  have "fst ` set (entries (put k v m)) = insert k (fst ` set (entries m))"
    by (force simp: entries_put [OF assms])
  moreover have "k \<in> fst ` set (entries m) \<longleftrightarrow> find m k \<noteq> None"
    using entries_find [OF assms] by (force simp: image_iff)
  ultimately show ?thesis
    using c [OF assms] c [OF ok_put [OF assms]] by (auto simp: card_insert_if)
qed

lemma size_erase: "ok m \<Longrightarrow> length (entries (erase k m)) \<le> length (entries m)"
proof -
  assume o: "ok m"
  have c: "length (entries x) = card (fst ` set (entries x))" if "ok x" for x
    using distinct_card [OF distinct_entries [OF that]] by simp
  have "fst ` set (entries (erase k m)) \<subseteq> fst ` set (entries m)" by (auto simp: entries_erase [OF o])
  then show ?thesis using c [OF o] c [OF ok_erase [OF o]] card_mono by (metis List.finite_set finite_imageI)
qed

end

section \<open>Sorted lists are such maps\<close>

lemma omap_find_put: "omap_find (omap_put k v m) k' = (if k' = k then Some v else omap_find m k')"
  by (induction m) (auto simp: omap_find_def)

lemma omap_find_erase: "omap_find (omap_erase k m) k' = (if k' = k then None else omap_find m k')"
  by (induction m) (auto simp: omap_find_def omap_erase_def)

lemma keys_omap_put: "fst ` set (omap_put k v m) = insert k (fst ` set m)"
  by (induction k v m rule: omap_put.induct) (simp_all add: insert_commute)

lemma omap_ok_put: "omap_ok m \<Longrightarrow> omap_ok (omap_put k v m)"
proof (induction m)
  case (Cons p m)
  obtain k' v' where p: "p = (k', v')" by (cases p)
  have "\<forall>x \<in> set (map fst (omap_put k v m)). k' < x" if "\<not> k < k'" "k \<noteq> k'"
    using that Cons.prems keys_omap_put [of k v m] by (auto simp: omap_ok_def p)
  with Cons show ?case by (auto simp: omap_ok_def p)
qed (simp add: omap_ok_def)

lemma sorted_wrt_map_filter: "sorted_wrt P (map f xs) \<Longrightarrow> sorted_wrt P (map f (filter Q xs))"
  by (induction xs) auto

lemma omap_ok_erase: "omap_ok m \<Longrightarrow> omap_ok (omap_erase k m)"
  by (simp add: omap_ok_def omap_erase_def sorted_wrt_map_filter)

lemma omap_ok_distinct: "omap_ok m \<Longrightarrow> distinct (map fst m)"
  by (simp add: omap_ok_def strict_sorted_iff)

lemma omap_ok_entries: "omap_ok m \<Longrightarrow> (k, v) \<in> set m \<longleftrightarrow> omap_find m k = Some v"
  by (simp add: omap_find_def map_of_eq_Some_iff omap_ok_distinct)

interpretation omap: std_map omap_find omap_put omap_erase "\<lambda>m. m" omap_ok
  by unfold_locales
     (simp_all add: omap_find_put omap_find_erase omap_ok_put omap_ok_erase omap_ok_distinct omap_ok_entries)

lemma omap_ok_empty [simp]: "omap_ok []"
  by (simp add: omap_ok_def)

end
