(* ===== verification/Bridge_Session.thy ===== *)
theory Bridge_Session
  imports OTA_Manager Packet_Log Fragments Ordered_Map "HOL-Library.List_Lexorder" "HOL-Library.Char_ord"
begin

unbundle bit_operations_syntax

text \<open>
  \<^verbatim>\<open>esp_tree_bridge/bridge_protocol.h\<close>: the state of the bridge's protocol engine, and the
  sending half of \<^verbatim>\<open>bridge_protocol.cpp\<close>.

  The members of \<^verbatim>\<open>BridgeProtocol\<close> are the record \<open>bridge\<close>, one remote's session the record
  \<open>BridgeSession\<close>.  A method that works on a reference into the session map takes and returns the
  pair of the session and the bridge (\<open>conn\<close>); its caller puts the session back under its key.  A
  callback is an element of \<open>bp_fns\<close> when it has been set, and calling it appends an event to
  \<open>bp_events\<close>.  Callbacks do not re-enter the engine.

  The platform is the record \<open>bridge_env\<close>: one reading of \<^verbatim>\<open>millis()\<close> per handler, HMAC-SHA256, and,
  for the calls whose answer changes from call to call (\<^verbatim>\<open>esp_random\<close>, \<^verbatim>\<open>fill_random_bytes\<close>, the
  free heap, the results of sending), a function of the number \<open>bp_calls\<close> of platform calls made so
  far.  \<^verbatim>\<open>int8_t\<close> signal strengths are bytes.
\<close>

section \<open>State\<close>

record BridgeIdentity =
  bi_chip_model :: u32
  bi_firmware_epoch :: u32
  bi_build_date :: string
  bi_build_time :: string
  bi_project_name :: string
  bi_project_version :: string
  bi_firmware_md5 :: bytes

record BridgeSession =
  bs_leaf_mac :: mac
  bs_parent_mac :: mac
  bs_session_key :: bytes
  bs_bridge_nonce :: bytes
  bs_remote_nonce :: bytes
  bs_schema_hash :: bytes
  bs_next_hop_mac :: mac
  bs_last_seen_counter :: u32
  bs_tx_counter :: u32
  bs_last_seen_bridge_uptime_s :: u32
  bs_discover_announce_deadline_ms :: u32
  bs_discover_announce_leaf_mac :: mac
  bs_joined_ms :: u32
  bs_expected_contact_interval_s :: u32
  bs_uptime_seconds :: u32
  bs_hops_to_bridge :: u8
  bs_last_reported_hops_to_bridge :: u8
  bs_total_entities :: u8
  bs_session_max_payload :: u16
  bs_max_entity_fragment :: u16
  bs_max_assembly_bytes :: u16
  bs_max_total_fragment_bytes :: u16
  bs_leaf_session_flags :: u8
  bs_firmware_md5 :: bytes
  bs_chip_model :: u32
  bs_pending_schema_index :: u8
  bs_pending_schema_descriptor_type :: u8
  bs_schema_request_retries :: u8
  bs_join_complete_retry_count :: u8
  bs_direct_child_count :: u8
  bs_total_child_count :: u16
  bs_last_rssi :: u8
  bs_rx_packets :: u32
  bs_tx_packets :: u32
  bs_last_schema_request_ms :: u32
  bs_last_join_complete_ms :: u32
  bs_last_completed_state_message_tx_base :: u32
  bs_session_key_valid :: bool
  bs_bridge_nonce_valid :: bool
  bs_remote_nonce_valid :: bool
  bs_online :: bool
  bs_remote_state :: espnow_log_state_t
  bs_schema_received :: bool
  bs_schema_request_in_flight :: bool
  bs_awaiting_discovery_confirm :: bool
  bs_pending_schema_request_index :: u8
  bs_last_discovery_confirm_ms :: u32
  bs_join_complete_pending :: bool
  bs_state_sync_pending :: bool
  bs_awaiting_more_dirty :: bool
  bs_join_in_progress :: bool
  bs_pending_discovery_count :: u8
  bs_discovery_all_confirmed :: bool
  bs_esphome_name :: string
  bs_node_label :: string
  bs_firmware_epoch :: u32
  bs_build_date :: string
  bs_build_time :: string
  bs_project_name :: string
  bs_project_version :: string
  bs_mac_hex_key :: string
  bs_parent_mac_hex_key :: string
  bs_last_offline_reason :: string
  bs_schema_entities :: "espnow_entity_schema_t list"
  bs_pending_state_assemblies :: "(u8, espnow_fragment_assembly_t) omap"
  bs_pending_schema_assemblies :: "(u8, espnow_fragment_assembly_t) omap"
  bs_state_reserved_bytes :: u32
  bs_schema_reserved_bytes :: u32

definition new_session :: BridgeSession where
  "new_session = \<lparr>bs_leaf_mac = replicate 6 0, bs_parent_mac = replicate 6 0, bs_session_key = replicate 32 0,
     bs_bridge_nonce = replicate 16 0, bs_remote_nonce = replicate 16 0, bs_schema_hash = replicate 32 0,
     bs_next_hop_mac = replicate 6 0, bs_last_seen_counter = 0, bs_tx_counter = 1,
     bs_last_seen_bridge_uptime_s = 0, bs_discover_announce_deadline_ms = 0,
     bs_discover_announce_leaf_mac = replicate 6 0, bs_joined_ms = 0, bs_expected_contact_interval_s = 0,
     bs_uptime_seconds = 0, bs_hops_to_bridge = 0, bs_last_reported_hops_to_bridge = 0, bs_total_entities = 0,
     bs_session_max_payload = 250, bs_max_entity_fragment = 220, bs_max_assembly_bytes = 1024,
     bs_max_total_fragment_bytes = 4096, bs_leaf_session_flags = 0, bs_firmware_md5 = replicate 16 0,
     bs_chip_model = 0, bs_pending_schema_index = 0xFF, bs_pending_schema_descriptor_type = 1,
     bs_schema_request_retries = 0, bs_join_complete_retry_count = 0, bs_direct_child_count = 0,
     bs_total_child_count = 0, bs_last_rssi = 0x80, bs_rx_packets = 0, bs_tx_packets = 0,
     bs_last_schema_request_ms = 0, bs_last_join_complete_ms = 0, bs_last_completed_state_message_tx_base = 0,
     bs_session_key_valid = False, bs_bridge_nonce_valid = False, bs_remote_nonce_valid = False,
     bs_online = False, bs_remote_state = LOG_NONE, bs_schema_received = False,
     bs_schema_request_in_flight = False, bs_awaiting_discovery_confirm = False,
     bs_pending_schema_request_index = 0xFF, bs_last_discovery_confirm_ms = 0, bs_join_complete_pending = False,
     bs_state_sync_pending = False, bs_awaiting_more_dirty = True, bs_join_in_progress = False,
     bs_pending_discovery_count = 0, bs_discovery_all_confirmed = False, bs_esphome_name = [],
     bs_node_label = [], bs_firmware_epoch = 0, bs_build_date = [], bs_build_time = [], bs_project_name = [],
     bs_project_version = [], bs_mac_hex_key = [], bs_parent_mac_hex_key = [], bs_last_offline_reason = [],
     bs_schema_entities = [], bs_pending_state_assemblies = [], bs_pending_schema_assemblies = [],
     bs_state_reserved_bytes = 0, bs_schema_reserved_bytes = 0\<rparr>"

definition update_from_mtu :: "BridgeSession \<Rightarrow> BridgeSession" where
  "update_from_mtu x = x\<lparr>bs_max_entity_fragment := espnow_max_entity_fragment (bs_session_max_payload x),
     bs_max_assembly_bytes := espnow_max_assembly_bytes (bs_session_max_payload x),
     bs_max_total_fragment_bytes := espnow_max_total_fragment_bytes (bs_session_max_payload x)\<rparr>"

record CachedSessionData =
  cd_schema_entities :: "espnow_entity_schema_t list"
  cd_esphome_name :: string
  cd_node_label :: string
  cd_firmware_epoch :: u32
  cd_build_date :: string
  cd_build_time :: string
  cd_project_name :: string
  cd_project_version :: string
  cd_session_max_payload :: u16
  cd_chip_model :: u32
  cd_firmware_md5 :: bytes

record ConfigAckResult =
  car_acked :: bool
  car_timed_out :: bool
  car_no_session :: bool
  car_result :: u8
  car_command_echo :: u8

record PendingCommand =
  pc_field_index :: u8
  pc_value :: bytes
  pc_leaf_mac :: mac
  pc_next_hop_mac :: mac
  pc_tx_base :: u32
  pc_last_tx_ms :: u32
  pc_retry_count :: u8

text \<open>The callback of a configuration request is a number that identifies it.\<close>

record PendingConfig =
  pg_leaf_mac :: mac
  pg_next_hop_mac :: mac
  pg_command :: u8
  pg_payload :: bytes
  pg_tx_base :: u32
  pg_retry_count :: u8
  pg_next_retry_ms :: u32
  pg_ack_timeout_ms :: u32
  pg_callback :: "nat option"

datatype bridge_fn =
    SEND_FN | PUBLISH_STATE_FN | PUBLISH_DISCOVERY_FN | PUBLISH_AVAILABILITY_FN | PUBLISH_TOPOLOGY_CHANGED_FN
  | PUBLISH_BRIDGE_DIAG_FN | CLEAR_ENTITIES_FN | SCHEMA_COMPLETE_FN | FILE_ACK_FN | SEND_ERR_FN | SEND_OTA_FRAME_FN

datatype bridge_event =
    SendFrame mac bytes
  | SendErrFrame mac bytes
  | PublishState mac espnow_entity_schema_t bytes u8 string u32 mac
  | PublishDiscovery mac espnow_entity_schema_t u8 bool
  | PublishAvailability mac bool string
  | PublishTopologyChanged mac string
  | PublishBridgeDiag u32 u8
  | ClearEntities mac "espnow_entity_schema_t list"
  | SchemaComplete mac u8
  | FileAck mac espnow_ack_t bytes
  | ConfigAck nat ConfigAckResult

record bridge =
  bp_log_queue :: "PacketLogEntry list"
  bp_log_head :: nat
  bp_log_tail :: nat
  bp_log_count :: nat
  bp_pending_state :: espnow_log_state_t
  bp_pending_state_log_msg :: string
  bp_network_id :: string
  bp_heartbeat_interval :: u16
  bp_crypto :: crypto_state
  bp_psk_valid :: bool
  bp_bridge_mac :: mac
  bp_bridge_mac_valid :: bool
  bp_bridge_nonce_ready :: bool
  bp_runtime_ready :: bool
  bp_joining_in_progress :: bool
  bp_joining_leaf_mac :: mac
  bp_join_started_ms :: u32
  bp_sessions :: "(u64, BridgeSession) omap"
  bp_schema_cache :: "(string, CachedSessionData) omap"
  bp_schema_hash_cache :: "(string, bytes) omap"
  bp_bridge_uptime_s :: u32
  bp_last_diag_publish_ms :: u32
  bp_last_uptime_tick_ms :: u32
  bp_last_session_cleanup_ms :: u32
  bp_last_diag_online_count :: u8
  bp_bridge_session_flags :: u8
  bp_bridge_identity :: BridgeIdentity
  bp_fns :: "bridge_fn list"
  bp_command_queue :: "PendingCommand list"
  bp_pending_configs :: "PendingConfig list"
  bp_events :: "bridge_event list"
  bp_calls :: nat

record bridge_env =
  be_now :: u32
  be_hmac :: hmac_fn
  be_random :: "nat \<Rightarrow> u32"
  be_nonce :: "nat \<Rightarrow> bytes"
  be_channel :: u8
  be_free_heap :: "nat \<Rightarrow> u32"
  be_total_heap :: u32
  be_send :: "nat \<Rightarrow> bool"
  be_send_err :: "nat \<Rightarrow> esp_err_t"

type_synonym conn = "BridgeSession \<times> bridge"

section \<open>Callbacks and platform calls\<close>

definition call_fn :: "bridge_fn \<Rightarrow> bridge_event \<Rightarrow> bridge \<Rightarrow> bridge" where
  "call_fn f ev s = (if f \<in> set (bp_fns s) then s\<lparr>bp_events := bp_events s @ [ev]\<rparr> else s)"

definition set_fn :: "bridge_fn \<Rightarrow> bool \<Rightarrow> bridge \<Rightarrow> bridge" where
  "set_fn f b s = s\<lparr>bp_fns := (if b then f # removeAll f (bp_fns s) else removeAll f (bp_fns s))\<rparr>"

definition asked :: "bridge \<Rightarrow> bridge" where
  "asked s = s\<lparr>bp_calls := bp_calls s + 1\<rparr>"

definition call_send :: "bridge_env \<Rightarrow> mac \<Rightarrow> bytes \<Rightarrow> bridge \<Rightarrow> bool \<times> bridge" where
  "call_send env dest frame s =
     (be_send env (bp_calls s), asked (s\<lparr>bp_events := bp_events s @ [SendFrame dest frame]\<rparr>))"

definition call_send_err :: "bridge_env \<Rightarrow> mac \<Rightarrow> bytes \<Rightarrow> bridge \<Rightarrow> esp_err_t \<times> bridge" where
  "call_send_err env dest frame s =
     (be_send_err env (bp_calls s), asked (s\<lparr>bp_events := bp_events s @ [SendErrFrame dest frame]\<rparr>))"

definition esp_random :: "bridge_env \<Rightarrow> bridge \<Rightarrow> u32 \<times> bridge" where
  "esp_random env s = (be_random env (bp_calls s), asked s)"

definition esp_get_free_heap_size :: "bridge_env \<Rightarrow> bridge \<Rightarrow> u32 \<times> bridge" where
  "esp_get_free_heap_size env s = (be_free_heap env (bp_calls s), asked s)"

definition fill_random_16 :: "bridge_env \<Rightarrow> bridge \<Rightarrow> bytes \<times> bridge" where
  "fill_random_16 env s = (c_array 16 (be_nonce env (bp_calls s)), asked s)"

section \<open>The packet log\<close>

text \<open>A full ring drops the entry.\<close>

definition queue_log :: "PacketLogEntry \<Rightarrow> bridge \<Rightarrow> bridge" where
  "queue_log e s =
     (if bp_log_count s \<ge> PACKET_LOG_SIZE then s
      else s\<lparr>bp_log_queue := (bp_log_queue s)[bp_log_head s := e],
             bp_log_head := (bp_log_head s + 1) mod PACKET_LOG_SIZE, bp_log_count := bp_log_count s + 1\<rparr>)"

text \<open>\<^verbatim>\<open>vsnprintf\<close> into a buffer of 96 bytes keeps 95 characters.\<close>

definition queue_state_log :: "espnow_log_state_t \<Rightarrow> string \<Rightarrow> bridge \<Rightarrow> bridge" where
  "queue_state_log state msg s = s\<lparr>bp_pending_state_log_msg := take 95 msg, bp_pending_state := state\<rparr>"

text \<open>Draining the ring; the text the loop prints is not part of the model.\<close>

fun drain_log :: "nat \<Rightarrow> bridge \<Rightarrow> bridge" where
  "drain_log 0 s = s"
| "drain_log (Suc n) s =
     drain_log n (s\<lparr>bp_log_tail := (bp_log_tail s + 1) mod PACKET_LOG_SIZE, bp_log_count := bp_log_count s - 1\<rparr>)"

definition flush_log_queue :: "bridge \<Rightarrow> bridge" where
  "flush_log_queue s = drain_log (bp_log_count s) (s\<lparr>bp_pending_state := LOG_NONE\<rparr>)"

section \<open>Set-up\<close>

definition default_identity :: BridgeIdentity where
  "default_identity = \<lparr>bi_chip_model = 0, bi_firmware_epoch = 0, bi_build_date = [], bi_build_time = [],
     bi_project_name = [], bi_project_version = [], bi_firmware_md5 = replicate 16 0\<rparr>"

definition bridge_initial :: bridge where
  "bridge_initial = \<lparr>bp_log_queue = empty_log, bp_log_head = 0, bp_log_tail = 0, bp_log_count = 0,
     bp_pending_state = LOG_NONE, bp_pending_state_log_msg = [], bp_network_id = [], bp_heartbeat_interval = 60,
     bp_crypto = \<lparr>g_psk = replicate 32 0, g_psk_set = False\<rparr>, bp_psk_valid = False,
     bp_bridge_mac = replicate 6 0, bp_bridge_mac_valid = False, bp_bridge_nonce_ready = False,
     bp_runtime_ready = False, bp_joining_in_progress = False, bp_joining_leaf_mac = replicate 6 0,
     bp_join_started_ms = 0, bp_sessions = [], bp_schema_cache = [], bp_schema_hash_cache = [],
     bp_bridge_uptime_s = 0, bp_last_diag_publish_ms = 0, bp_last_uptime_tick_ms = 0,
     bp_last_session_cleanup_ms = 0, bp_last_diag_online_count = 0xFF, bp_bridge_session_flags = 0,
     bp_bridge_identity = default_identity, bp_fns = [], bp_command_queue = [], bp_pending_configs = [],
     bp_events = [], bp_calls = 0\<rparr>"

text \<open>The chip model is fixed by the build target.\<close>

definition bridge_init :: "hmac_fn \<Rightarrow> u32 \<Rightarrow> string \<Rightarrow> string \<Rightarrow> u16 \<Rightarrow> bridge \<Rightarrow> int \<times> bridge" where
  "bridge_init hmac chip_model psk_hex network_id heartbeat_interval s =
     (let (rc, g) = espnow_crypto_init hmac psk_hex;
          s1 = s\<lparr>bp_network_id := network_id, bp_heartbeat_interval := heartbeat_interval, bp_crypto := g,
                 bp_psk_valid := (rc = 0), bp_bridge_nonce_ready := False,
                 bp_bridge_identity := (bp_bridge_identity s)\<lparr>bi_chip_model := chip_model\<rparr>\<rparr>
      in (if bp_psk_valid s1 then 0 else -1, s1))"

definition set_bridge_identity ::
  "u32 \<Rightarrow> u32 \<Rightarrow> string \<Rightarrow> string \<Rightarrow> string \<Rightarrow> string \<Rightarrow> bytes \<Rightarrow> bridge \<Rightarrow> bridge" where
  "set_bridge_identity chip_model firmware_epoch build_date build_time project_name project_version firmware_md5 s =
     s\<lparr>bp_bridge_identity := \<lparr>bi_chip_model = chip_model, bi_firmware_epoch = firmware_epoch,
         bi_build_date = build_date, bi_build_time = build_time, bi_project_name = project_name,
         bi_project_version = project_version, bi_firmware_md5 = firmware_md5\<rparr>\<rparr>"

definition set_bridge_mac :: "mac \<Rightarrow> bridge \<Rightarrow> bridge" where
  "set_bridge_mac m s = s\<lparr>bp_bridge_mac := m, bp_bridge_mac_valid := True\<rparr>"

definition set_session_flags :: "u8 \<Rightarrow> bridge \<Rightarrow> bridge" where
  "set_session_flags flags s = s\<lparr>bp_bridge_session_flags := flags\<rparr>"

definition set_runtime_ready :: "bool \<Rightarrow> bridge \<Rightarrow> bridge" where
  "set_runtime_ready ready s = s\<lparr>bp_runtime_ready := ready\<rparr>"

section \<open>The session map\<close>

definition mac_to_key :: "mac \<Rightarrow> u64" where
  "mac_to_key m = fold (\<lambda>i key. key OR push_bit (i * 8) (ucast (m ! i))) [0..<6] 0"

definition schema_cache_key :: "BridgeSession \<Rightarrow> string" where
  "schema_cache_key x = (if bs_esphome_name x \<noteq> [] then bs_esphome_name x else mac_hex (bs_leaf_mac x))"

definition get_session :: "bridge \<Rightarrow> mac \<Rightarrow> BridgeSession option" where
  "get_session s leaf_mac = omap_find (bp_sessions s) (mac_to_key leaf_mac)"

definition put_session :: "mac \<Rightarrow> BridgeSession \<Rightarrow> bridge \<Rightarrow> bridge" where
  "put_session leaf_mac x s = s\<lparr>bp_sessions := omap_put (mac_to_key leaf_mac) x (bp_sessions s)\<rparr>"

definition put_conn :: "mac \<Rightarrow> conn \<Rightarrow> bridge" where
  "put_conn leaf_mac c = put_session leaf_mac (fst c) (snd c)"

text \<open>The session under the key, created when there is none.\<close>

definition ensure_session :: "bridge \<Rightarrow> mac \<Rightarrow> BridgeSession" where
  "ensure_session s leaf_mac =
     (let x = (case get_session s leaf_mac of Some x \<Rightarrow> x | None \<Rightarrow> new_session);
          x1 = (if bs_mac_hex_key x = [] then x\<lparr>bs_mac_hex_key := mac_hex leaf_mac\<rparr> else x)
      in x1\<lparr>bs_leaf_mac := leaf_mac\<rparr>)"

definition get_active_remote_count :: "bridge \<Rightarrow> u8" where
  "get_active_remote_count s = fold (\<lambda>(k, x) count. if bs_online x then count + 1 else count) (bp_sessions s) 0"

definition get_direct_remote_count :: "bridge \<Rightarrow> u8" where
  "get_direct_remote_count s =
     fold (\<lambda>(k, x) count. if bs_online x \<and> bs_hops_to_bridge x = 1 then count + 1 else count) (bp_sessions s) 0"

text \<open>What the bridge announces of a session it removes; the key is erased afterwards.\<close>

fun announce_removed :: "(u64, BridgeSession) omap \<Rightarrow> bridge \<Rightarrow> bridge" where
  "announce_removed [] s = s"
| "announce_removed ((k, x) # m) s =
     announce_removed m
       (call_fn CLEAR_ENTITIES_FN (ClearEntities (bs_leaf_mac x) (bs_schema_entities x))
         (call_fn PUBLISH_TOPOLOGY_CHANGED_FN (PublishTopologyChanged (bs_leaf_mac x) ''node_removed'')
           (call_fn PUBLISH_AVAILABILITY_FN (PublishAvailability (bs_leaf_mac x) False ''manual'') s)))"

definition invalidate_all_sessions :: "bridge \<Rightarrow> bridge" where
  "invalidate_all_sessions s =
     (announce_removed (bp_sessions s) s)\<lparr>bp_sessions := [], bp_schema_cache := [], bp_schema_hash_cache := []\<rparr>"

section \<open>Sending frames\<close>

definition downstream_hop_count :: u8 where
  "downstream_hop_count = ESPNOW_HOPS_MAKE ESPNOW_HOPS_DIR_DOWN 0"

definition send_plain_psk ::
  "bridge_env \<Rightarrow> mac \<Rightarrow> mac \<Rightarrow> espnow_packet_type_t \<Rightarrow> u8 \<Rightarrow> u32 \<Rightarrow> bytes \<Rightarrow> bridge \<Rightarrow> bool \<times> bridge" where
  "send_plain_psk env dest leaf_mac ty hop_count tx_counter payload s =
     (if SEND_FN \<notin> set (bp_fns s) then (False, s)
      else
        let e = log_entry True ty dest (17 + length payload) 0 tx_counter;
            e1 = (if ty = PKT_DISCOVER_ANNOUNCE
                  then e\<lparr>le_show_channel := True, le_channel := be_channel env\<rparr> else e);
            frame = assemble_plain_frame (be_hmac env) (bp_crypto s) ty leaf_mac hop_count tx_counter payload
        in call_send env dest frame (queue_log e1 s))"

text \<open>Header, ciphertext and session tag; \<open>None\<close> when the cipher reports that no key is set.\<close>

definition encrypted_frame ::
  "hmac_fn \<Rightarrow> crypto_state \<Rightarrow> bytes \<Rightarrow> mac \<Rightarrow> espnow_packet_type_t \<Rightarrow> u8 \<Rightarrow> u32 \<Rightarrow> bytes \<Rightarrow> bytes option" where
  "encrypted_frame hmac g session_key leaf_mac ty hop_count tx_counter plaintext =
     (case espnow_crypto_crypt g session_key tx_counter plaintext of
        None \<Rightarrow> None
      | Some ciphertext \<Rightarrow>
          let frame = assemble_plain_frame hmac g ty leaf_mac hop_count tx_counter ciphertext
          in Some (frame @ espnow_crypto_session_tag hmac session_key frame ciphertext))"

definition send_encrypted ::
  "bridge_env \<Rightarrow> mac \<Rightarrow> espnow_packet_type_t \<Rightarrow> u8 \<Rightarrow> bytes \<Rightarrow> u8 \<Rightarrow> conn \<Rightarrow> bool \<times> conn" where
  "send_encrypted env dest ty hop_count plaintext ack_type c =
     (let (x, s) = c in
      if SEND_FN \<notin> set (bp_fns s) \<or> \<not> bs_session_key_valid x then (False, x, s)
      else if length plaintext > unat (espnow_max_plaintext (bs_session_max_payload x)) then (False, x, s)
      else
        let e = log_entry True ty dest (length plaintext + 17 + 8) 0 (bs_tx_counter x);
            e1 = (if ty = PKT_ACK then e\<lparr>le_show_ack_type := True, le_ack_type := ack_type\<rparr> else e);
            s1 = (if ty \<noteq> PKT_SCHEMA_REQUEST \<and> ty \<noteq> PKT_COMMAND then queue_log e1 s else s);
            x1 = x\<lparr>bs_tx_counter := bs_tx_counter x + 1\<rparr>
        in case encrypted_frame (be_hmac env) (bp_crypto s1) (bs_session_key x) (bs_leaf_mac x) ty hop_count
                  (bs_tx_counter x) plaintext of
             None \<Rightarrow> (False, x1, s1)
           | Some frame \<Rightarrow>
               let (ok, s2) = call_send env dest frame s1 in (ok, x1\<lparr>bs_tx_packets := bs_tx_packets x1 + 1\<rparr>, s2))"

definition send_encrypted_with_tx_counter_result ::
  "bridge_env \<Rightarrow> mac \<Rightarrow> espnow_packet_type_t \<Rightarrow> u8 \<Rightarrow> u32 \<Rightarrow> bytes \<Rightarrow> conn \<Rightarrow> esp_err_t \<times> conn" where
  "send_encrypted_with_tx_counter_result env dest ty hop_count tx_counter plaintext c =
     (let (x, s) = c in
      if (SEND_FN \<notin> set (bp_fns s) \<and> SEND_ERR_FN \<notin> set (bp_fns s)) \<or> \<not> bs_session_key_valid x then (ESP_FAIL, x, s)
      else if length plaintext > unat (espnow_max_plaintext (bs_session_max_payload x)) then (ESP_FAIL, x, s)
      else
        let (free_heap, s1) = esp_get_free_heap_size env s; needed = 17 + length plaintext + 8 in
        if unat free_heap < needed + 4096 then (ESP_ERR_ESPNOW_NO_MEM, x, s1)
        else
          case encrypted_frame (be_hmac env) (bp_crypto s1) (bs_session_key x) (bs_leaf_mac x) ty hop_count
                 tx_counter plaintext of
            None \<Rightarrow> (ESP_FAIL, x, s1)
          | Some frame \<Rightarrow>
              let x1 = x\<lparr>bs_tx_packets := bs_tx_packets x + 1\<rparr> in
              if SEND_ERR_FN \<in> set (bp_fns s1) then
                let (err, s2) = call_send_err env dest frame s1 in (err, x1, s2)
              else
                let (ok, s2) = call_send env dest frame s1 in (if ok then ESP_OK else ESP_FAIL, x1, s2))"

definition send_encrypted_with_tx_counter ::
  "bridge_env \<Rightarrow> mac \<Rightarrow> espnow_packet_type_t \<Rightarrow> u8 \<Rightarrow> u32 \<Rightarrow> bytes \<Rightarrow> conn \<Rightarrow> bool \<times> conn" where
  "send_encrypted_with_tx_counter env dest ty hop_count tx_counter plaintext c =
     (let (err, c1) = send_encrypted_with_tx_counter_result env dest ty hop_count tx_counter plaintext c
      in (err = ESP_OK, c1))"

section \<open>Messages\<close>

definition fill_discover_announce :: "bridge \<Rightarrow> u8 \<Rightarrow> espnow_discover_announce_t" where
  "fill_discover_announce s hops_to_bridge =
     \<lparr>ann_network_id = c_array 32 (bytes_of_string (bp_network_id s)),
      ann_network_id_len = word_of_nat (length (bp_network_id s)), ann_responder_mac = bp_bridge_mac s,
      ann_responder_role = 0, ann_hops_to_bridge = hops_to_bridge, ann_bridge_reachable = 1, ann_flags = 0\<rparr>"

definition send_discover_announce :: "bridge_env \<Rightarrow> mac \<Rightarrow> mac \<Rightarrow> u8 \<Rightarrow> bridge \<Rightarrow> bool \<times> bridge" where
  "send_discover_announce env dest leaf_mac hops_to_bridge s =
     send_plain_psk env dest leaf_mac PKT_DISCOVER_ANNOUNCE downstream_hop_count 0
       (enc_discover_announce (fill_discover_announce s hops_to_bridge)) s"

text \<open>\<^verbatim>\<open>session.tx_counter++\<close> in the argument list: the counter advances whether or not the frame is sent.\<close>

definition send_join_ack :: "bridge_env \<Rightarrow> mac \<Rightarrow> u8 \<Rightarrow> u8 \<Rightarrow> u8 \<Rightarrow> conn \<Rightarrow> bool \<times> conn" where
  "send_join_ack env dest accepted reason schema_status c =
     (let (x, s) = c;
          ack = \<lparr>jack_accepted = accepted, jack_reason = reason, jack_stage = schema_status,
                 jack_bridge_nonce = bs_bridge_nonce x, jack_session_flags = bp_bridge_session_flags s\<rparr>;
          x1 = (if accepted \<noteq> 0 then x\<lparr>bs_join_in_progress := True\<rparr> else x);
          s1 = (if accepted \<noteq> 0 \<and> \<not> bp_joining_in_progress s then
                  s\<lparr>bp_joining_in_progress := True, bp_joining_leaf_mac := bs_leaf_mac x,
                    bp_join_started_ms := be_now env\<rparr> else s);
          (ok, s2) = send_plain_psk env dest (bs_leaf_mac x1) PKT_JOIN_ACK downstream_hop_count
                       (bs_tx_counter x1) (enc_join_ack ack) s1
      in (ok, x1\<lparr>bs_tx_counter := bs_tx_counter x1 + 1\<rparr>, s2))"

definition send_join_complete :: "bridge_env \<Rightarrow> mac \<Rightarrow> bool \<Rightarrow> conn \<Rightarrow> bool \<times> conn" where
  "send_join_complete env dest reset_retry_state c =
     (let (sent, x, s) = send_join_ack env dest 1 0 100 c;
          x1 = x\<lparr>bs_join_complete_pending := True, bs_join_in_progress := False,
                 bs_last_join_complete_ms := be_now env,
                 bs_join_complete_retry_count := (if reset_retry_state then 0 else bs_join_complete_retry_count x)\<rparr>
      in (sent, x1, s\<lparr>bp_joining_in_progress := False, bp_joining_leaf_mac := replicate 6 0,
                      bp_join_started_ms := 0\<rparr>))"

definition send_state_ack :: "bridge_env \<Rightarrow> mac \<Rightarrow> u32 \<Rightarrow> u8 \<Rightarrow> conn \<Rightarrow> bool \<times> conn" where
  "send_state_ack env dest rx_counter result c =
     send_encrypted env dest PKT_ACK downstream_hop_count
       (enc_ack \<lparr>ack_ack_type = 0x04, ack_result = result, ack_ref_tx_counter = rx_counter\<rparr>) 0x04 c"

definition send_command_ack :: "bridge_env \<Rightarrow> mac \<Rightarrow> u8 \<Rightarrow> conn \<Rightarrow> bool \<times> conn" where
  "send_command_ack env dest result c =
     send_encrypted env dest PKT_ACK downstream_hop_count
       (enc_ack \<lparr>ack_ack_type = 0x06, ack_result = result, ack_ref_tx_counter = bs_tx_counter (fst c)\<rparr>) 0x06 c"

definition send_schema_request :: "bridge_env \<Rightarrow> mac \<Rightarrow> u8 \<Rightarrow> u8 \<Rightarrow> conn \<Rightarrow> bool \<times> conn" where
  "send_schema_request env dest descriptor_type descriptor_index c =
     (let (x, s) = c;
          e = (log_entry True PKT_SCHEMA_REQUEST dest (2 + 17 + 8) 0 (bs_tx_counter x))
                \<lparr>le_show_entity := True, le_entity_index := descriptor_index, le_entity_total := bs_total_entities x\<rparr>;
          (sent, x1, s1) = send_encrypted env dest PKT_SCHEMA_REQUEST downstream_hop_count
            (enc_schema_request \<lparr>sreq_descriptor_type = descriptor_type, sreq_descriptor_index = descriptor_index\<rparr>)
            0 (x, queue_log e s)
      in (sent, x1\<lparr>bs_pending_schema_descriptor_type := descriptor_type,
                   bs_pending_schema_index := descriptor_index, bs_last_schema_request_ms := be_now env\<rparr>, s1))"

definition command_chunk_count :: "u16 \<Rightarrow> bytes \<Rightarrow> nat" where
  "command_chunk_count frag_size val =
     max 1 ((length val + unat frag_size - 1) div unat frag_size)"

definition command_fragment :: "u16 \<Rightarrow> u8 \<Rightarrow> bytes \<Rightarrow> nat \<Rightarrow> bytes" where
  "command_fragment frag_size field_index val chunk =
     (let n = command_chunk_count frag_size val;
          off = chunk * unat frag_size;
          remaining = (if length val > off then length val - off else 0);
          len = min (unat frag_size) remaining;
          flags = (if chunk + 1 < n then ESPNOW_ENTITY_FLAG_MORE_FRAGMENTS else 0)
      in append_entity_payload [] field_index flags (word_of_nat chunk) (word_of_nat n)
           (if len > 0 then Some (drop off val) else None) len)"

fun send_chunks ::
  "bridge_env \<Rightarrow> mac \<Rightarrow> u8 \<Rightarrow> bytes \<Rightarrow> u32 \<Rightarrow> bool \<Rightarrow> u8 \<Rightarrow> nat list \<Rightarrow> conn \<Rightarrow> bool \<times> conn" where
  "send_chunks env dest field_index val tx_base consume retry_count [] c = (True, c)"
| "send_chunks env dest field_index val tx_base consume retry_count (chunk # chunks) c =
     (let (x, s) = c;
          frag_size = bs_max_entity_fragment x;
          command = command_fragment frag_size field_index val chunk;
          tx_counter = tx_base + word_of_nat chunk;
          e = (log_entry True PKT_COMMAND dest (length command + 17 + 8) 0 tx_counter)
                \<lparr>le_show_entity := True, le_entity_index := field_index, le_entity_total := bs_total_entities x,
                  le_chunk_index := word_of_nat (chunk + 1),
                  le_chunk_total := word_of_nat (command_chunk_count frag_size val), le_retry_count := retry_count\<rparr>;
          x1 = (if consume then x\<lparr>bs_tx_counter := tx_counter + 1\<rparr> else x);
          (ok, c2) = send_encrypted_with_tx_counter env dest PKT_COMMAND downstream_hop_count tx_counter command
                       (x1, queue_log e s)
      in if \<not> ok then (False, c2)
         else send_chunks env dest field_index val tx_base consume retry_count chunks c2)"

definition send_command_fragments ::
  "bridge_env \<Rightarrow> mac \<Rightarrow> u8 \<Rightarrow> bytes \<Rightarrow> u32 \<Rightarrow> bool \<Rightarrow> u8 \<Rightarrow> conn \<Rightarrow> bool \<times> conn" where
  "send_command_fragments env dest field_index val tx_base consume retry_count c =
     send_chunks env dest field_index val tx_base consume retry_count
       [0..<command_chunk_count (bs_max_entity_fragment (fst c)) val] c"

text \<open>The flag \<^verbatim>\<open>reset_retry_state\<close> sets a count to zero that is zero already.\<close>

definition send_command :: "bridge_env \<Rightarrow> mac \<Rightarrow> u8 \<Rightarrow> bytes \<Rightarrow> conn \<Rightarrow> bool \<times> conn" where
  "send_command env dest field_index val c =
     (let tx_base = bs_tx_counter (fst c);
          (ok, x, s) = send_command_fragments env dest field_index val tx_base True 0 c
      in if \<not> ok then (False, x, s)
         else (True, x, s\<lparr>bp_command_queue := bp_command_queue s @
           [\<lparr>pc_field_index = field_index, pc_value = val, pc_leaf_mac = bs_leaf_mac x, pc_next_hop_mac = dest,
             pc_tx_base = tx_base, pc_last_tx_ms = be_now env, pc_retry_count = 0\<rparr>]\<rparr>))"

definition trigger_header :: "mac \<Rightarrow> u8 \<Rightarrow> u32 \<Rightarrow> espnow_frame_header_t" where
  "trigger_header leaf_mac packet_type tx_counter =
     \<lparr>fh_protocol_version = 3, fh_hop_count = 0, fh_packet_type = packet_type, fh_leaf_mac = leaf_mac,
      fh_tx_counter = tx_counter, fh_psk_tag = replicate 4 0\<rparr>"

definition send_deauth :: "bridge_env \<Rightarrow> mac \<Rightarrow> u8 \<Rightarrow> u32 \<Rightarrow> bytes \<Rightarrow> conn \<Rightarrow> bool \<times> conn" where
  "send_deauth env dest response_type response_tx request_payload c =
     (let (x, s) = c;
          fingerprint = espnow_crypto_psk_tag (be_hmac env) (bp_crypto s)
            (enc_frame_header (trigger_header (bs_leaf_mac x) response_type response_tx)) request_payload;
          deauth = \<lparr>deauth_reason = 1, deauth_response_to_packet_type = response_type,
                    deauth_response_to_tx_counter = response_tx, deauth_request_fingerprint = fingerprint\<rparr>;
          (ok, s1) = send_plain_psk env dest (bs_leaf_mac x) PKT_DEAUTH downstream_hop_count (bs_tx_counter x)
                       (enc_deauth deauth) s
      in (ok, x\<lparr>bs_tx_counter := bs_tx_counter x + 1\<rparr>, s1))"

text \<open>Unlike \<open>send_deauth\<close>, this fingerprint is computed with a zero leaf MAC.\<close>

definition compute_request_fingerprint :: "bridge_env \<Rightarrow> bridge \<Rightarrow> u8 \<Rightarrow> u32 \<Rightarrow> bytes \<Rightarrow> bytes" where
  "compute_request_fingerprint env s response_type response_tx request_payload =
     espnow_crypto_psk_tag (be_hmac env) (bp_crypto s)
       (enc_frame_header (trigger_header (replicate 6 0) response_type response_tx)) request_payload"

section \<open>Publishing\<close>

definition mark_online :: "bridge_env \<Rightarrow> u8 \<Rightarrow> u32 \<Rightarrow> u8 \<Rightarrow> conn \<Rightarrow> conn" where
  "mark_online env rssi tx_counter remote_reported_rssi c =
     (let (x, s) = c;
          first_join = (bs_joined_ms x = 0);
          x1 = x\<lparr>bs_online := True, bs_last_seen_counter := tx_counter, bs_joined_ms := be_now env,
                 bs_last_rssi := (if remote_reported_rssi \<noteq> 0 then remote_reported_rssi else rssi),
                 bs_last_offline_reason := []\<rparr>
      in (x1, call_fn PUBLISH_TOPOLOGY_CHANGED_FN (PublishTopologyChanged (bs_leaf_mac x) ''node_joined'')
                (call_fn PUBLISH_AVAILABILITY_FN
                  (PublishAvailability (bs_leaf_mac x) True (if first_join then ''joined'' else ''rejoined'')) s)))"

definition refresh_schema_cache :: "conn \<Rightarrow> conn" where
  "refresh_schema_cache c =
     (let (x, s) = c;
          cache_key = schema_cache_key x;
          cd = \<lparr>cd_schema_entities = bs_schema_entities x, cd_esphome_name = bs_esphome_name x,
                cd_node_label = bs_node_label x, cd_firmware_epoch = bs_firmware_epoch x,
                cd_build_date = bs_build_date x, cd_build_time = bs_build_time x,
                cd_project_name = bs_project_name x, cd_project_version = bs_project_version x,
                cd_session_max_payload = bs_session_max_payload x, cd_chip_model = bs_chip_model x,
                cd_firmware_md5 = bs_firmware_md5 x\<rparr>
      in (x, s\<lparr>bp_schema_cache := omap_put cache_key cd (bp_schema_cache s),
               bp_schema_hash_cache := omap_put cache_key (bs_schema_hash x) (bp_schema_hash_cache s)\<rparr>))"

definition is_commandable :: "u8 \<Rightarrow> bool" where
  "is_commandable ty \<longleftrightarrow> ty \<notin> {field_type_code FIELD_TYPE_SENSOR, field_type_code FIELD_TYPE_BINARY,
     field_type_code FIELD_TYPE_BUTTON, field_type_code FIELD_TYPE_EVENT, field_type_code FIELD_TYPE_TEXT_SENSOR}"

definition is_unimplemented :: "u8 \<Rightarrow> bool" where
  "is_unimplemented ty \<longleftrightarrow> ty \<in> {field_type_code FIELD_TYPE_CLIMATE, field_type_code FIELD_TYPE_HUMIDIFIER,
     field_type_code FIELD_TYPE_DEHUMIDIFIER, field_type_code FIELD_TYPE_TIME, field_type_code FIELD_TYPE_DATETIME}"

definition publish_entity :: "BridgeSession \<Rightarrow> espnow_entity_schema_t \<Rightarrow> bridge \<Rightarrow> bridge" where
  "publish_entity x entity s =
     (if es_entity_type entity = 0 \<or> is_unimplemented (es_entity_type entity) then s
      else call_fn PUBLISH_DISCOVERY_FN
        (PublishDiscovery (bs_leaf_mac x) entity (bs_total_entities x) (is_commandable (es_entity_type entity))) s)"

definition publish_discovery_for_entity :: "u8 \<Rightarrow> conn \<Rightarrow> conn" where
  "publish_discovery_for_entity entity_index c =
     (let (x, s) = c in
      if PUBLISH_DISCOVERY_FN \<notin> set (bp_fns s) \<or> unat entity_index \<ge> length (bs_schema_entities x) then (x, s)
      else (x, publish_entity x (bs_schema_entities x ! unat entity_index) s))"

definition publish_all_entities :: "conn \<Rightarrow> conn" where
  "publish_all_entities c =
     (let (x, s) = c in
      if PUBLISH_DISCOVERY_FN \<notin> set (bp_fns s) then (x, s)
      else (x, fold (publish_entity x) (bs_schema_entities x) s))"

section \<open>Commands and configuration to a leaf\<close>

definition send_command_to_leaf :: "bridge_env \<Rightarrow> mac \<Rightarrow> u8 \<Rightarrow> bytes \<Rightarrow> bridge \<Rightarrow> bool \<times> bridge" where
  "send_command_to_leaf env leaf_mac field_index val s =
     (case get_session s leaf_mac of
        None \<Rightarrow> (False, s)
      | Some x \<Rightarrow>
          if \<not> bs_online x \<or> \<not> bs_session_key_valid x then (False, s)
          else let (ok, c) = send_command env (bs_next_hop_mac x) field_index val (x, s) in (ok, put_conn leaf_mac c))"

definition send_config_frame :: "bridge_env \<Rightarrow> PendingConfig \<Rightarrow> u8 \<Rightarrow> conn \<Rightarrow> bool \<times> conn" where
  "send_config_frame env pending retry_count c =
     (let (x, s) = c in
      if \<not> bs_session_key_valid x \<or> \<not> bs_online x then (False, x, s)
      else if length (pg_payload pending) > 220 - 3 then (False, x, s)
      else
        let payload = enc_config \<lparr>cfg_command = pg_command pending, cfg_flags = 0,
              cfg_payload_len = word_of_nat (length (pg_payload pending))\<rparr> @ pg_payload pending;
            e = (log_entry True PKT_CONFIG (pg_next_hop_mac pending) (length payload + 17 + 8) 0 (pg_tx_base pending))
                  \<lparr>le_retry_count := retry_count\<rparr>
        in send_encrypted_with_tx_counter env (pg_next_hop_mac pending) PKT_CONFIG downstream_hop_count
             (pg_tx_base pending) payload (x, queue_log e s))"

definition send_config_to_leaf :: "bridge_env \<Rightarrow> mac \<Rightarrow> u8 \<Rightarrow> bytes \<Rightarrow> nat option \<Rightarrow> bridge \<Rightarrow> bool \<times> bridge" where
  "send_config_to_leaf env leaf_mac command payload callback s =
     (if length payload > 220 - 3 then (False, s)
      else case get_session s leaf_mac of
        None \<Rightarrow> (False, s)
      | Some x \<Rightarrow>
          if \<not> bs_online x \<or> \<not> bs_session_key_valid x then (False, s)
          else
            let pending = \<lparr>pg_leaf_mac = bs_leaf_mac x, pg_next_hop_mac = bs_next_hop_mac x, pg_command = command,
                  pg_payload = payload, pg_tx_base = bs_tx_counter x, pg_retry_count = 0,
                  pg_next_retry_ms = be_now env + 500, pg_ack_timeout_ms = 500, pg_callback = callback\<rparr>;
                (ok, c) = send_config_frame env pending 0 (x\<lparr>bs_tx_counter := bs_tx_counter x + 1\<rparr>, s);
                s1 = put_conn leaf_mac c
            in if \<not> ok then (False, s1)
               else (True, s1\<lparr>bp_pending_configs := bp_pending_configs s1 @ [pending]\<rparr>))"

text \<open>The second component is what \<^verbatim>\<open>*tx_counter_out\<close> receives, when it is written.\<close>

definition send_ota_frame ::
  "bridge_env \<Rightarrow> mac \<Rightarrow> espnow_packet_type_t \<Rightarrow> bytes \<Rightarrow> bridge \<Rightarrow> esp_err_t \<times> u32 option \<times> bridge" where
  "send_ota_frame env leaf_mac ty payload s =
     (if ty \<noteq> PKT_FILE_TRANSFER \<and> ty \<noteq> PKT_FILE_DATA then (ESP_ERR_INVALID_ARG, None, s)
      else case get_session s leaf_mac of
        None \<Rightarrow> (ESP_ERR_NOT_FOUND, None, s)
      | Some x \<Rightarrow>
          if \<not> bs_session_key_valid x then (ESP_ERR_NOT_FOUND, None, s)
          else
            let (err, c) = send_encrypted_with_tx_counter_result env (bs_next_hop_mac x) ty downstream_hop_count
                  (bs_tx_counter x) payload (x\<lparr>bs_tx_counter := bs_tx_counter x + 1\<rparr>, s)
            in (err, Some (bs_tx_counter x), put_conn leaf_mac c))"

end
