(* ===== verification/Bridge_Handlers.thy ===== *)
theory Bridge_Handlers
  imports Bridge_Session
begin

unbundle bit_operations_syntax

text \<open>
  The receiving half of \<^verbatim>\<open>esp_tree_bridge/bridge_protocol.cpp\<close>: the frame parser, the check of a
  session packet and one definition per packet handler, composed by \<open>on_espnow_frame\<close>.  Every
  handler returns the bool of the code and the new state of the engine.  The sender's address is
  never a null pointer: the receive callback of the radio always passes one.  A handler reads the
  clock once.
\<close>

section \<open>Frames\<close>

text \<open>Header, payload without the session tag, the session tag of an encrypted packet, and the parent's address.\<close>

definition parse_frame ::
  "bridge_env \<Rightarrow> bridge \<Rightarrow> bytes \<Rightarrow> (espnow_frame_header_t \<times> bytes \<times> bytes option \<times> mac) option" where
  "parse_frame env s frame =
     (if length frame < 17 then None
      else if length frame > 1470 then None
      else
        let header = dec_frame_header frame in
        if fh_protocol_version header \<noteq> ESPNOW_PROTOCOL_VER then None
        else case packet_type_of (fh_packet_type header) of
          None \<Rightarrow> None
        | Some ty \<Rightarrow>
            let parent_check = has_parent_check (fh_hop_count header);
                header_size = 17 + (if parent_check then ESPNOW_PARENT_MAC_LEN else 0) in
            if length frame < header_size then None
            else
              let parent_mac = (if parent_check then part_of 17 6 frame else replicate 6 0);
                  payload = drop header_size frame in
              if is_encrypted_packet ty \<and> length payload < ESPNOW_SESSION_TAG_LEN then None
              else
                let session_tag = (if is_encrypted_packet ty
                      then Some (drop (length frame - ESPNOW_SESSION_TAG_LEN) frame) else None);
                    payload1 = (if is_encrypted_packet ty
                      then take (length payload - ESPNOW_SESSION_TAG_LEN) payload else payload) in
                if espnow_crypto_verify_psk_tag (be_hmac env) (bp_crypto s) frame payload1 (fh_psk_tag header)
                then Some (header, payload1, session_tag, parent_mac) else None)"

definition validate_session_packet ::
  "bridge_env \<Rightarrow> bridge \<Rightarrow> BridgeSession \<Rightarrow> espnow_frame_header_t \<Rightarrow> bytes \<Rightarrow> bytes option \<Rightarrow> bytes option" where
  "validate_session_packet env s x header ciphertext session_tag =
     (if \<not> bs_session_key_valid x then None
      else case session_tag of
        None \<Rightarrow> None
      | Some tag \<Rightarrow>
          if \<not> espnow_crypto_verify_session_tag (be_hmac env) (bs_session_key x) (enc_frame_header header) ciphertext tag
          then None
          else espnow_crypto_crypt (bp_crypto s) (bs_session_key x) (fh_tx_counter header) ciphertext)"

section \<open>Discovery\<close>

text \<open>\<^verbatim>\<open>memcmp\<close> over the length of the bridge's own network id, which the payload's 34 bytes cover.\<close>

definition handle_discover :: "bridge_env \<Rightarrow> mac \<Rightarrow> espnow_frame_header_t \<Rightarrow> bytes \<Rightarrow> bridge \<Rightarrow> bool \<times> bridge" where
  "handle_discover env sender_mac header payload s =
     (if length payload \<noteq> 34 then (False, s)
      else if unat (disc_network_id_len (dec_discover payload)) \<noteq> length (bp_network_id s) then (False, s)
      else if take (length (bp_network_id s)) payload \<noteq> bytes_of_string (bp_network_id s) then (False, s)
      else
        let x = ensure_session s (fh_leaf_mac header);
            (r, s1) = esp_random env s;
            x1 = x\<lparr>bs_discover_announce_deadline_ms := be_now env + r mod 21,
                   bs_discover_announce_leaf_mac := sender_mac\<rparr>
        in (True, put_session (fh_leaf_mac header) x1 s1))"

section \<open>Joining\<close>

abbreviation (input) ESPNOW_JOIN_STATUS_SCHEMA_REFRESH :: u8 where "ESPNOW_JOIN_STATUS_SCHEMA_REFRESH \<equiv> 1"

abbreviation (input) ESPNOW_JOIN_STATUS_SEND_STATE :: u8 where "ESPNOW_JOIN_STATUS_SEND_STATE \<equiv> 2"

abbreviation (input) ESPNOW_JOIN_STATUS_COMPLETE :: u8 where "ESPNOW_JOIN_STATUS_COMPLETE \<equiv> 100"

abbreviation (input) ESPNOW_JOIN_REASON_WAIT :: u8 where "ESPNOW_JOIN_REASON_WAIT \<equiv> 3"

text \<open>A JOIN that repeats the one in progress: the acknowledgement of the stage reached is sent again.\<close>

definition join_retry_stage :: "BridgeSession \<Rightarrow> u8" where
  "join_retry_stage x =
     (if bs_join_complete_pending x then ESPNOW_JOIN_STATUS_COMPLETE
      else if bs_state_sync_pending x \<or> bs_schema_received x then ESPNOW_JOIN_STATUS_SEND_STATE
      else ESPNOW_JOIN_STATUS_SCHEMA_REFRESH)"

definition join_retry :: "bridge_env \<Rightarrow> mac \<Rightarrow> espnow_frame_header_t \<Rightarrow> u8 \<Rightarrow> conn \<Rightarrow> bool \<times> conn" where
  "join_retry env sender_mac header rssi c =
     (let (x, s) = c;
          stage = join_retry_stage x;
          x1 = x\<lparr>bs_next_hop_mac := sender_mac, bs_last_seen_bridge_uptime_s := be_now env div 1000,
                 bs_last_seen_counter := fh_tx_counter header, bs_last_rssi := rssi\<rparr>
      in send_join_ack env sender_mac 1 0 stage (x1, s))"

text \<open>A fresh JOIN: new nonces, a new session key, the negotiated frame size, and a session without history.\<close>

definition join_keys :: "bridge_env \<Rightarrow> espnow_join_t \<Rightarrow> conn \<Rightarrow> conn" where
  "join_keys env join c =
     (let (x, s) = c;
          (nonce, s1) = fill_random_16 env s
      in (x\<lparr>bs_remote_nonce := join_remote_nonce join, bs_remote_nonce_valid := True, bs_bridge_nonce := nonce,
            bs_bridge_nonce_valid := True, bs_join_complete_pending := False, bs_join_complete_retry_count := 0,
            bs_session_key := espnow_crypto_derive_session_key (be_hmac env) (bp_crypto s1) nonce (join_remote_nonce join),
            bs_session_key_valid := True\<rparr>, s1))"

definition join_mtu :: "bridge \<Rightarrow> espnow_join_t \<Rightarrow> BridgeSession \<Rightarrow> BridgeSession" where
  "join_mtu s join x =
     (let x1 = x\<lparr>bs_session_max_payload := ESPNOW_V1_MAX_PAYLOAD,
                 bs_max_entity_fragment := ESPNOW_MAX_ENTITY_FRAGMENT_LEN,
                 bs_max_assembly_bytes := ESPNOW_MAX_FRAGMENT_ASSEMBLY_BYTES,
                 bs_max_total_fragment_bytes := ESPNOW_MAX_TOTAL_FRAGMENT_BYTES_PER_SESSION,
                 bs_leaf_session_flags := join_session_flags join\<rparr>
      in if bs_leaf_session_flags x1 AND ESPNOW_SESSION_FLAG_V2_MTU \<noteq> 0 \<and>
            bp_bridge_session_flags s AND ESPNOW_SESSION_FLAG_V2_MTU \<noteq> 0
         then update_from_mtu (x1\<lparr>bs_session_max_payload := ESPNOW_V2_MAX_PAYLOAD\<rparr>)
         else x1\<lparr>bs_session_max_payload := ESPNOW_V1_MAX_PAYLOAD\<rparr>)"

definition join_fresh ::
  "bridge_env \<Rightarrow> mac \<Rightarrow> espnow_frame_header_t \<Rightarrow> espnow_join_t \<Rightarrow> u8 \<Rightarrow> conn \<Rightarrow> conn" where
  "join_fresh env sender_mac header join rssi c =
     (let (x, s) = join_keys env join c;
          x1 = join_mtu s join (x\<lparr>bs_esphome_name := [], bs_node_label := [], bs_firmware_epoch := 0,
                 bs_project_name := [], bs_project_version := []\<rparr>);
          x2 = x1\<lparr>bs_schema_hash := join_schema_hash join, bs_next_hop_mac := sender_mac,
                  bs_hops_to_bridge := ESPNOW_HOPS_COUNT (fh_hop_count header),
                  bs_last_reported_hops_to_bridge := ESPNOW_HOPS_COUNT (fh_hop_count header),
                  bs_remote_state := JOINED, bs_last_seen_bridge_uptime_s := be_now env div 1000,
                  bs_last_seen_counter := fh_tx_counter header, bs_last_rssi := rssi,
                  bs_pending_schema_index := 0xFF, bs_pending_schema_descriptor_type := ESPNOW_DESCRIPTOR_TYPE_ENTITY,
                  bs_schema_request_retries := 0, bs_schema_request_in_flight := False,
                  bs_last_completed_state_message_tx_base := 0, bs_state_sync_pending := False,
                  bs_state_reserved_bytes := 0, bs_pending_state_assemblies := [],
                  bs_schema_reserved_bytes := 0, bs_pending_schema_assemblies := []\<rparr>
      in (x2, s))"

definition adopt_cached :: "CachedSessionData \<Rightarrow> BridgeSession \<Rightarrow> BridgeSession" where
  "adopt_cached cd x = x\<lparr>bs_schema_entities := cd_schema_entities cd, bs_esphome_name := cd_esphome_name cd,
     bs_node_label := cd_node_label cd, bs_firmware_epoch := cd_firmware_epoch cd,
     bs_project_name := cd_project_name cd, bs_project_version := cd_project_version cd,
     bs_chip_model := cd_chip_model cd, bs_build_date := cd_build_date cd, bs_build_time := cd_build_time cd,
     bs_session_max_payload := cd_session_max_payload cd, bs_firmware_md5 := cd_firmware_md5 cd\<rparr>"

definition join_cached ::
  "bridge_env \<Rightarrow> mac \<Rightarrow> espnow_frame_header_t \<Rightarrow> espnow_join_t \<Rightarrow> string \<Rightarrow> conn \<Rightarrow> bool \<times> conn" where
  "join_cached env sender_mac header join cache_key c =
     (let (x, s) = c;
          x1 = (case omap_find (bp_schema_cache s) cache_key of Some cd \<Rightarrow> adopt_cached cd x | None \<Rightarrow> x);
          x2 = x1\<lparr>bs_schema_received := True, bs_total_entities := word_of_nat (length (bs_schema_entities x1))\<rparr>;
          s1 = call_fn SCHEMA_COMPLETE_FN (SchemaComplete (bs_leaf_mac x2) (bs_total_entities x2)) s
      in if join_dirty_count join = 0 then
           let (sent, x3, s2) = send_join_complete env sender_mac True (x2, s1)
           in (sent, x3, queue_state_log JOINED
                (''State: JOINED remote='' @ mac_hex (fh_leaf_mac header) @ '' (Complete, no dirty state)'') s2)
         else
           let x3 = x2\<lparr>bs_state_sync_pending := True, bs_awaiting_more_dirty := True\<rparr>;
               s2 = queue_state_log STATE_SYNC (''State: STATE_SYNC remote='' @ mac_hex sender_mac @
                      '' (dirty_count='' @ dec_digits (unat (join_dirty_count join)) @ '')'') s1;
               (sent, x4, s3) = send_join_ack env sender_mac 1 0 ESPNOW_JOIN_STATUS_SEND_STATE (x3, s2)
           in if \<not> sent then
                (False, x4\<lparr>bs_join_in_progress := False, bs_online := False, bs_remote_state := LOG_NONE,
                           bs_schema_received := False, bs_schema_request_in_flight := False,
                           bs_session_key_valid := False\<rparr>, s3)
              else (True, x4, s3))"

definition join_schema_refresh :: "bridge_env \<Rightarrow> mac \<Rightarrow> espnow_frame_header_t \<Rightarrow> conn \<Rightarrow> bool \<times> conn" where
  "join_schema_refresh env sender_mac header c =
     (let (x, s) = c;
          x1 = x\<lparr>bs_schema_entities := [], bs_schema_received := False,
                 bs_pending_schema_descriptor_type := ESPNOW_DESCRIPTOR_TYPE_IDENTITY, bs_pending_schema_index := 0\<rparr>;
          (ok, x2, s2) = send_join_ack env sender_mac 1 0 ESPNOW_JOIN_STATUS_SCHEMA_REFRESH (x1, s)
      in if \<not> ok then
           (False, x2\<lparr>bs_join_in_progress := False, bs_online := False, bs_remote_state := LOG_NONE,
                      bs_schema_request_in_flight := False, bs_session_key_valid := False\<rparr>, s2)
         else
           let s3 = queue_state_log JOINED
                      (''State: JOINED remote='' @ mac_hex (fh_leaf_mac header) @ '' (Schema Refresh)'') s2;
               (sent, x3, s4) = send_schema_request env sender_mac ESPNOW_DESCRIPTOR_TYPE_IDENTITY 0
                                  (x2\<lparr>bs_schema_request_retries := 0\<rparr>, s3);
               x4 = x3\<lparr>bs_schema_request_in_flight := sent\<rparr>
           in if \<not> sent then
                (False, x4\<lparr>bs_join_in_progress := False, bs_online := False, bs_remote_state := LOG_NONE,
                           bs_schema_received := False, bs_session_key_valid := False\<rparr>, s4)
              else (True, x4\<lparr>bs_last_schema_request_ms := be_now env\<rparr>, s4))"

definition join_session ::
  "bridge_env \<Rightarrow> mac \<Rightarrow> espnow_frame_header_t \<Rightarrow> espnow_join_t \<Rightarrow> u8 \<Rightarrow> conn \<Rightarrow> bool \<times> conn" where
  "join_session env sender_mac header join rssi c =
     (let (x, s) = c in
      if bp_joining_in_progress s \<and> fh_leaf_mac header \<noteq> bp_joining_leaf_mac s then
        send_join_ack env sender_mac 0 ESPNOW_JOIN_REASON_WAIT 0 (x, s)
      else if bs_join_in_progress x \<and> bs_remote_nonce x = join_remote_nonce join \<and> bs_schema_hash x = join_schema_hash join then
        join_retry env sender_mac header rssi (x, s)
      else
        let prior = bs_esphome_name x;
            (x1, s1) = join_fresh env sender_mac header join rssi (x\<lparr>bs_join_in_progress := False\<rparr>, s);
            cache_key = (if prior \<noteq> [] then prior else schema_cache_key x1)
        in if omap_find (bp_schema_hash_cache s1) cache_key = Some (bs_schema_hash x1)
           then join_cached env sender_mac header join cache_key (x1, s1)
           else join_schema_refresh env sender_mac header (x1, s1))"

definition handle_join ::
  "bridge_env \<Rightarrow> mac \<Rightarrow> espnow_frame_header_t \<Rightarrow> bytes \<Rightarrow> u8 \<Rightarrow> bridge \<Rightarrow> bool \<times> bridge" where
  "handle_join env sender_mac header payload rssi s =
     (if length payload \<noteq> 51 then (False, s)
      else
        let (ok, c) = join_session env sender_mac header (dec_join payload) rssi
                        (ensure_session s (fh_leaf_mac header), s)
        in (ok, put_conn (fh_leaf_mac header) c))"

section \<open>Staging a fragment\<close>

text \<open>
  The text STATE and SCHEMA\_PUSH share: find or create the assembly of the entity (at most eight),
  drop the message in it when an older one is still open, check the reservation, store the fragment.
  \<^verbatim>\<open>size_t\<close> has 32 bits.
\<close>

definition fragment_reservation :: "EntityPayloadView \<Rightarrow> u16 \<Rightarrow> u32" where
  "fragment_reservation view mef = ucast (epv_fragment_count view) * ucast mef"

definition pick_assembly ::
  "EntityPayloadView \<Rightarrow> u32 \<Rightarrow> u16 \<Rightarrow> (u8, espnow_fragment_assembly_t) omap \<Rightarrow> u32 \<Rightarrow>
   (espnow_fragment_assembly_t \<times> u32) option" where
  "pick_assembly view tx mef m reserved =
     (case omap_find m (epv_entity_index view) of
        None \<Rightarrow>
          if length m \<ge> ESPNOW_MAX_PENDING_FRAGMENT_ASSEMBLIES then None
          else Some (fresh_assembly, reserved + fragment_reservation view mef)
      | Some a \<Rightarrow>
          if fa_active a \<and> fa_message_tx_base a \<noteq> tx \<and> fa_message_tx_base a < tx
          then Some (reset_fragment_assembly a, reserved) else Some (a, reserved))"

definition stage_fragment ::
  "EntityPayloadView \<Rightarrow> u32 \<Rightarrow> u32 \<Rightarrow> u16 \<Rightarrow> u16 \<Rightarrow> u16 \<Rightarrow> (u8, espnow_fragment_assembly_t) omap \<times> u32 \<Rightarrow>
   espnow_fragment_assembly_t option \<times> (u8, espnow_fragment_assembly_t) omap \<times> u32" where
  "stage_fragment view tx now mef cap total_cap p =
     (let (m, reserved) = p in
      case pick_assembly view tx mef m reserved of
        None \<Rightarrow> (None, m, reserved)
      | Some (a, r) \<Rightarrow>
          if \<not> fa_active a \<and> r + fragment_reservation view mef > ucast total_cap
          then (None, omap_put (epv_entity_index view) a m, r)
          else let (ok, a1) = store_fragment a view tx now mef cap
               in (if ok then Some a1 else None, omap_put (epv_entity_index view) a1 m, r))"

section \<open>Schema\<close>

definition rx_fragment_log ::
  "espnow_packet_type_t \<Rightarrow> mac \<Rightarrow> nat \<Rightarrow> u8 \<Rightarrow> BridgeSession \<Rightarrow> EntityPayloadView \<Rightarrow> espnow_frame_header_t \<Rightarrow> PacketLogEntry" where
  "rx_fragment_log ty sender_mac len rssi x view header =
     (log_entry False ty sender_mac len rssi (fh_tx_counter header))
       \<lparr>le_show_entity := True, le_entity_index := epv_entity_index view, le_entity_total := bs_total_entities x,
         le_chunk_index := epv_fragment_index view + 1, le_chunk_total := epv_fragment_count view\<rparr>"

definition request_next_entity :: "bridge_env \<Rightarrow> mac \<Rightarrow> u8 \<Rightarrow> conn \<Rightarrow> bool \<times> conn" where
  "request_next_entity env sender_mac next_index c =
     (let (sent, x, s) = send_schema_request env sender_mac ESPNOW_DESCRIPTOR_TYPE_ENTITY next_index c;
          x1 = x\<lparr>bs_schema_request_in_flight := sent\<rparr>
      in (sent, if sent then x1\<lparr>bs_last_schema_request_ms := be_now env\<rparr> else x1, s))"

definition accept_identity :: "bridge_env \<Rightarrow> mac \<Rightarrow> espnow_identity_descriptor_t \<Rightarrow> conn \<Rightarrow> bool \<times> conn" where
  "accept_identity env sender_mac ident c =
     (let (x, s) = c;
          x1 = x\<lparr>bs_esphome_name := c_string 32 (ident_esphome_name ident),
                 bs_node_label := c_string 64 (ident_node_label ident),
                 bs_firmware_epoch := ident_firmware_epoch ident,
                 bs_project_name := c_string 32 (ident_project_name ident),
                 bs_project_version := c_string 16 (ident_project_version ident),
                 bs_total_entities := ident_total_entities ident, bs_chip_model := ident_chip_model ident,
                 bs_build_date := c_string 16 (ident_build_date ident),
                 bs_build_time := c_string 16 (ident_build_time ident),
                 bs_firmware_md5 := ident_firmware_md5 ident,
                 bs_pending_schema_descriptor_type := ESPNOW_DESCRIPTOR_TYPE_ENTITY,
                 bs_pending_schema_index := 0, bs_schema_request_retries := 0\<rparr>;
          s1 = (if bs_schema_entities x1 \<noteq> []
                then call_fn CLEAR_ENTITIES_FN (ClearEntities (bs_leaf_mac x1) (bs_schema_entities x1)) s else s)
      in if ident_total_entities ident = 0 then
           let (x2, s2) = publish_all_entities (refresh_schema_cache
                 (x1\<lparr>bs_schema_received := True, bs_schema_request_in_flight := False, bs_pending_schema_index := 0xFF\<rparr>, s1))
           in send_join_complete env sender_mac True
                (x2, call_fn SCHEMA_COMPLETE_FN (SchemaComplete (bs_leaf_mac x2) (bs_total_entities x2)) s2)
         else request_next_entity env sender_mac 0 (x1, s1))"

definition empty_entity :: espnow_entity_schema_t where
  "empty_entity = \<lparr>es_entity_index = 0, es_entity_type = 0, es_entity_name = [], es_entity_unit = [],
     es_entity_options = [], es_entity_id = []\<rparr>"

definition entity_of_push :: "SchemaPushView \<Rightarrow> espnow_entity_schema_t" where
  "entity_of_push v = \<lparr>es_entity_index = spv_entity_index v, es_entity_type = spv_entity_type v,
     es_entity_name = c_string 32 (spv_entity_name v), es_entity_unit = c_string 8 (spv_entity_unit v),
     es_entity_options = c_string (min (length (spv_entity_options v)) 145) (spv_entity_options v),
     es_entity_id = c_string 32 (spv_entity_id v)\<rparr>"

text \<open>\<^verbatim>\<open>resize(index + 1)\<close> when the vector is too short, then the assignment.\<close>

definition put_entity :: "nat \<Rightarrow> espnow_entity_schema_t \<Rightarrow> espnow_entity_schema_t list \<Rightarrow> espnow_entity_schema_t list" where
  "put_entity i e es = (es @ replicate (i + 1 - length es) empty_entity)[i := e]"

definition accept_entity :: "bridge_env \<Rightarrow> mac \<Rightarrow> SchemaPushView \<Rightarrow> conn \<Rightarrow> bool \<times> conn" where
  "accept_entity env sender_mac push c =
     (let (x, s) = c;
          x1 = x\<lparr>bs_schema_entities := put_entity (unat (spv_entity_index push)) (entity_of_push push) (bs_schema_entities x),
                 bs_total_entities := spv_total_entities push, bs_next_hop_mac := sender_mac\<rparr>
      in if spv_total_entities push = 0 \<or> unat (spv_entity_index push) + 1 \<ge> unat (spv_total_entities push) then
           let (x2, s2) = publish_all_entities (refresh_schema_cache
                 (x1\<lparr>bs_schema_received := True, bs_schema_request_in_flight := False, bs_pending_schema_index := 0xFF,
                     bs_pending_schema_descriptor_type := ESPNOW_DESCRIPTOR_TYPE_ENTITY\<rparr>, s));
               x3 = x2\<lparr>bs_pending_discovery_count := 0, bs_discovery_all_confirmed := True\<rparr>;
               s3 = call_fn SCHEMA_COMPLETE_FN (SchemaComplete (bs_leaf_mac x3) (bs_total_entities x3)) s2
           in if spv_total_entities push = 0 then send_join_complete env sender_mac True (x3, s3)
              else
                let (sent, x4, s4) = send_join_ack env sender_mac 1 0 ESPNOW_JOIN_STATUS_SEND_STATE
                      (x3\<lparr>bs_state_sync_pending := True, bs_awaiting_more_dirty := True\<rparr>, s3)
                in (sent, x4, queue_state_log STATE_SYNC (''State: STATE_SYNC remote='' @ mac_hex sender_mac) s4)
         else
           request_next_entity env sender_mac (spv_entity_index push + 1)
             (publish_discovery_for_entity (spv_entity_index push)
               (x1\<lparr>bs_awaiting_discovery_confirm := False, bs_pending_schema_request_index := 0xFF,
                   bs_last_discovery_confirm_ms := 0,
                   bs_pending_schema_descriptor_type := ESPNOW_DESCRIPTOR_TYPE_ENTITY,
                   bs_pending_schema_index := spv_entity_index push, bs_schema_request_retries := 1\<rparr>, s)))"

definition accept_descriptor :: "bridge_env \<Rightarrow> mac \<Rightarrow> bytes \<Rightarrow> conn \<Rightarrow> bool \<times> conn" where
  "accept_descriptor env sender_mac descr c =
     (if length descr < 2 then (False, c)
      else if hd descr = ESPNOW_DESCRIPTOR_TYPE_IDENTITY then
        (case parse_identity_descriptor_payload descr of
           None \<Rightarrow> (False, c)
         | Some (ident, descriptor_index) \<Rightarrow>
             if descriptor_index \<noteq> 0 then (False, c) else accept_identity env sender_mac ident c)
      else
        (case parse_schema_push_payload descr of
           None \<Rightarrow> (False, c)
         | Some push \<Rightarrow>
             if spv_descriptor_type push \<noteq> ESPNOW_DESCRIPTOR_TYPE_ENTITY then (False, c)
             else accept_entity env sender_mac push c))"

definition schema_fragment ::
  "bridge_env \<Rightarrow> mac \<Rightarrow> espnow_frame_header_t \<Rightarrow> nat \<Rightarrow> EntityPayloadView \<Rightarrow> conn \<Rightarrow> bool \<times> conn" where
  "schema_fragment env sender_mac header payload_len view c =
     (let (x, s) = c;
          tx = fragment_message_tx_base header view;
          (stored, m, r) = stage_fragment view tx (be_now env) (bs_max_entity_fragment x) (bs_max_assembly_bytes x)
             (bs_max_total_fragment_bytes x) (bs_pending_schema_assemblies x, bs_schema_reserved_bytes x);
          x1 = x\<lparr>bs_pending_schema_assemblies := m, bs_schema_reserved_bytes := r\<rparr>
      in case stored of
           None \<Rightarrow> (False, x1, s)
         | Some a \<Rightarrow>
             let x2 = x1\<lparr>bs_last_seen_counter := max (bs_last_seen_counter x1) (fh_tx_counter header),
                         bs_last_seen_bridge_uptime_s := be_now env div 1000,
                         bs_pending_schema_index := epv_entity_index view, bs_schema_request_retries := 0,
                         bs_last_schema_request_ms := 0\<rparr>;
                 s1 = queue_log (rx_fragment_log PKT_SCHEMA_PUSH sender_mac payload_len 0 x2 view header) s
             in if \<not> fragment_assembly_complete a then (True, x2, s1)
                else accept_descriptor env sender_mac (assemble_fragment_payload a (bs_max_entity_fragment x2))
                  (x2\<lparr>bs_schema_reserved_bytes := bs_schema_reserved_bytes x2 -
                         ucast (fa_fragment_count a) * ucast (bs_max_entity_fragment x2),
                       bs_pending_schema_assemblies := omap_erase (epv_entity_index view) (bs_pending_schema_assemblies x2)\<rparr>, s1))"

definition handle_schema_push ::
  "bridge_env \<Rightarrow> mac \<Rightarrow> espnow_frame_header_t \<Rightarrow> bytes \<Rightarrow> bytes option \<Rightarrow> bridge \<Rightarrow> bool \<times> bridge" where
  "handle_schema_push env sender_mac header payload session_tag s =
     (case get_session s (fh_leaf_mac header) of
        None \<Rightarrow> (False, s)
      | Some x \<Rightarrow>
          if \<not> counter_is_newer (fh_tx_counter header) (bs_last_seen_counter x) then (False, s)
          else case validate_session_packet env s x header payload session_tag of
            None \<Rightarrow> (False, s)
          | Some plaintext \<Rightarrow>
              (case parse_entity_payload plaintext of
                 None \<Rightarrow> (False, s)
               | Some view \<Rightarrow>
                   let (ok, c) = schema_fragment env sender_mac header (length payload) view (x, s)
                   in (ok, put_conn (fh_leaf_mac header) c)))"

section \<open>State\<close>

text \<open>A STATE message that is complete: it is published, and acknowledged once its delivery is confirmed.\<close>

definition complete_state ::
  "bridge_env \<Rightarrow> mac \<Rightarrow> espnow_frame_header_t \<Rightarrow> u8 \<Rightarrow> EntityPayloadView \<Rightarrow> espnow_fragment_assembly_t \<Rightarrow> conn \<Rightarrow> conn" where
  "complete_state env sender_mac header rssi view a c =
     (let (x, s) = c;
          x1 = (if bs_state_sync_pending x
                then x\<lparr>bs_awaiting_more_dirty := (fa_flags a AND ESPNOW_ENTITY_FLAG_MORE_DIRTY \<noteq> 0)\<rparr> else x);
          entity = (if unat (epv_entity_index view) < length (bs_schema_entities x1)
                    then bs_schema_entities x1 ! unat (epv_entity_index view) else empty_entity);
          val = assemble_fragment_payload a (bs_max_entity_fragment x1);
          text_value = (if es_entity_type entity = field_type_code FIELD_TYPE_TEXT \<or>
                           es_entity_type entity = field_type_code FIELD_TYPE_EVENT
                        then string_of_bytes val else []);
          x2 = x1\<lparr>bs_state_reserved_bytes := bs_state_reserved_bytes x1 - word_of_nat (length (fa_data a)),
                  bs_pending_state_assemblies := omap_erase (epv_entity_index view) (bs_pending_state_assemblies x1)\<rparr>;
          (x3, s3) = (if bs_remote_state x2 = NORMAL \<and> \<not> bs_online x2
                      then mark_online env rssi (fh_tx_counter header) 0 (x2, s) else (x2, s))
      in (x3, call_fn PUBLISH_STATE_FN (PublishState (fh_leaf_mac header) entity val (es_entity_type entity) text_value
                (fragment_message_tx_base header view) sender_mac) s3))"

definition state_fragment ::
  "bridge_env \<Rightarrow> mac \<Rightarrow> espnow_frame_header_t \<Rightarrow> nat \<Rightarrow> u8 \<Rightarrow> EntityPayloadView \<Rightarrow> conn \<Rightarrow> bool \<times> conn" where
  "state_fragment env sender_mac header payload_len rssi view c =
     (let (x, s) = c;
          tx = fragment_message_tx_base header view in
      if \<not> counter_is_newer tx (bs_last_completed_state_message_tx_base x) then
        (if tx = bs_last_completed_state_message_tx_base x then send_state_ack env sender_mac tx 0 (x, s)
         else (True, x, s))
      else
        let s1 = queue_log (rx_fragment_log PKT_STATE sender_mac payload_len rssi x view header) s;
            (stored, m, r) = stage_fragment view tx (be_now env) (bs_max_entity_fragment x) (bs_max_assembly_bytes x)
               (bs_max_total_fragment_bytes x) (bs_pending_state_assemblies x, bs_state_reserved_bytes x);
            x1 = x\<lparr>bs_pending_state_assemblies := m, bs_state_reserved_bytes := r\<rparr>
        in case stored of
             None \<Rightarrow> (False, x1, s1)
           | Some a \<Rightarrow>
               let x2 = x1\<lparr>bs_last_seen_counter := max (bs_last_seen_counter x1) (fh_tx_counter header),
                           bs_last_seen_bridge_uptime_s := be_now env div 1000\<rparr>
               in if \<not> fragment_assembly_complete a then (True, x2, s1)
                  else (True, complete_state env sender_mac header rssi view a (x2, s1)))"

definition handle_state ::
  "bridge_env \<Rightarrow> mac \<Rightarrow> espnow_frame_header_t \<Rightarrow> bytes \<Rightarrow> u8 \<Rightarrow> bytes option \<Rightarrow> bridge \<Rightarrow> bool \<times> bridge" where
  "handle_state env sender_mac header payload rssi session_tag s =
     (case get_session s (fh_leaf_mac header) of
        None \<Rightarrow> (False, s)
      | Some x \<Rightarrow>
          if \<not> bs_session_key_valid x then (False, s)
          else case validate_session_packet env s x header payload session_tag of
            None \<Rightarrow>
              let (sent, c) = send_deauth env sender_mac (fh_packet_type header) (fh_tx_counter header) payload (x, s)
              in (False, put_conn (fh_leaf_mac header) c)
          | Some plaintext \<Rightarrow>
              (case parse_entity_payload plaintext of
                 None \<Rightarrow> (False, s)
               | Some view \<Rightarrow>
                   let (ok, c) = state_fragment env sender_mac header (length payload) rssi view (x, s)
                   in (ok, put_conn (fh_leaf_mac header) c)))"

text \<open>The argument \<^verbatim>\<open>entity_index\<close> of the code is unused.\<close>

definition confirm_state_delivery :: "bridge_env \<Rightarrow> mac \<Rightarrow> u32 \<Rightarrow> mac option \<Rightarrow> bridge \<Rightarrow> bool \<times> bridge" where
  "confirm_state_delivery env leaf_mac message_tx_base next_hop_mac s =
     (case (get_session s leaf_mac, next_hop_mac) of
        (Some x, Some hop) \<Rightarrow>
          let (x1, s1) =
            (if counter_is_newer message_tx_base (bs_last_completed_state_message_tx_base x) then
               let x0 = x\<lparr>bs_last_completed_state_message_tx_base := message_tx_base\<rparr> in
               if bs_state_sync_pending x0 \<and> \<not> bs_awaiting_more_dirty x0 \<and> bs_discovery_all_confirmed x0
               then snd (send_join_complete env hop True (x0\<lparr>bs_state_sync_pending := False\<rparr>, s))
               else (x0, s)
             else (x, s));
              (sent, c) = send_state_ack env hop message_tx_base 0 (x1, s1)
          in (sent, put_conn leaf_mac c)
      | _ \<Rightarrow> (False, s))"

section \<open>Heartbeats\<close>

definition accept_heartbeat ::
  "bridge_env \<Rightarrow> mac \<Rightarrow> espnow_frame_header_t \<Rightarrow> u8 \<Rightarrow> espnow_heartbeat_t \<Rightarrow> conn \<Rightarrow> conn" where
  "accept_heartbeat env sender_mac header rssi hb c =
     (let (x, s) = c;
          parent_changed = (bs_parent_mac x \<noteq> hb_parent_mac hb);
          x1 = x\<lparr>bs_last_seen_counter := fh_tx_counter header,
                 bs_last_seen_bridge_uptime_s := be_now env div 1000,
                 bs_uptime_seconds := hb_uptime_seconds hb,
                 bs_expected_contact_interval_s := hb_expected_contact_interval_seconds hb,
                 bs_parent_mac := hb_parent_mac hb, bs_parent_mac_hex_key := mac_hex (hb_parent_mac hb)\<rparr>;
          s1 = (if parent_changed \<and> bs_online x1
                then call_fn PUBLISH_TOPOLOGY_CHANGED_FN (PublishTopologyChanged (bs_leaf_mac x1) ''route_changed'') s
                else s);
          x2 = x1\<lparr>bs_direct_child_count := hb_direct_child_count hb, bs_total_child_count := hb_total_child_count hb,
                  bs_last_rssi := hb_remote_rssi_dbm hb, bs_next_hop_mac := sender_mac\<rparr>;
          (x3, s3) =
            (if bs_remote_state x2 \<noteq> NORMAL then
               let (y, t) = mark_online env rssi (fh_tx_counter header) (hb_remote_rssi_dbm hb)
                              (x2\<lparr>bs_remote_state := NORMAL\<rparr>, s1)
               in (y, queue_state_log NORMAL (''State: NORMAL remote='' @ mac_hex (bs_leaf_mac y)) t)
             else (x2, s1));
          x4 = (if bs_join_complete_pending x3
                then x3\<lparr>bs_join_complete_pending := False, bs_join_complete_retry_count := 0, bs_last_join_complete_ms := 0\<rparr>
                else x3)
      in (x4\<lparr>bs_join_in_progress := False\<rparr>, s3))"

definition handle_heartbeat ::
  "bridge_env \<Rightarrow> mac \<Rightarrow> espnow_frame_header_t \<Rightarrow> bytes \<Rightarrow> u8 \<Rightarrow> bytes option \<Rightarrow> bridge \<Rightarrow> bool \<times> bridge" where
  "handle_heartbeat env sender_mac header payload rssi session_tag s =
     (case get_session s (fh_leaf_mac header) of
        None \<Rightarrow> (False, s)
      | Some x \<Rightarrow>
          if \<not> bs_session_key_valid x then (False, s)
          else if \<not> counter_is_newer (fh_tx_counter header) (bs_last_seen_counter x) then (False, s)
          else case validate_session_packet env s x header payload session_tag of
            None \<Rightarrow> (False, s)
          | Some plaintext \<Rightarrow>
              if length plaintext \<noteq> 18 then (False, s)
              else (True, put_conn (fh_leaf_mac header)
                     (accept_heartbeat env sender_mac header rssi (dec_heartbeat plaintext) (x, s))))"

section \<open>Acknowledgements\<close>

abbreviation (input) ACK_STATE :: u8 where "ACK_STATE \<equiv> 4"

abbreviation (input) ACK_COMMAND :: u8 where "ACK_COMMAND \<equiv> 6"

abbreviation (input) CFG_RESULT_INVALID_PAYLOAD :: u8 where "CFG_RESULT_INVALID_PAYLOAD \<equiv> 3"

text \<open>Removing the first element of a vector that satisfies a condition.\<close>

fun extract_first :: "('a \<Rightarrow> bool) \<Rightarrow> 'a list \<Rightarrow> ('a \<times> 'a list) option" where
  "extract_first P [] = None"
| "extract_first P (y # ys) =
     (if P y then Some (y, ys) else map_option (\<lambda>(z, zs). (z, y # zs)) (extract_first P ys))"

definition online_again :: "bridge_env \<Rightarrow> u8 \<Rightarrow> u32 \<Rightarrow> conn \<Rightarrow> conn" where
  "online_again env rssi tx_counter c =
     (if bs_remote_state (fst c) = NORMAL \<and> \<not> bs_online (fst c) then mark_online env rssi tx_counter 0 c else c)"

definition config_ack ::
  "bridge_env \<Rightarrow> u32 \<Rightarrow> u8 \<Rightarrow> espnow_ack_t \<Rightarrow> bytes \<Rightarrow> conn \<Rightarrow> conn" where
  "config_ack env tx_counter rssi ack trailing c =
     (let (x, s) = c;
          command_echo = (case trailing of [] \<Rightarrow> 0 | b # _ \<Rightarrow> b)
      in case extract_first (\<lambda>p. ack_ref_tx_counter ack = pg_tx_base p \<and> bs_leaf_mac x = pg_leaf_mac p)
                (bp_pending_configs s) of
           None \<Rightarrow> (x, s)
         | Some (p, rest) \<Rightarrow>
             let result = (if trailing \<noteq> [] then ack_result ack else CFG_RESULT_INVALID_PAYLOAD);
                 result1 = (if command_echo \<noteq> pg_command p then CFG_RESULT_INVALID_PAYLOAD else result);
                 (x1, s1) = online_again env rssi tx_counter (x, s\<lparr>bp_pending_configs := rest\<rparr>)
             in (x1, case pg_callback p of
                       None \<Rightarrow> s1
                     | Some f \<Rightarrow> s1\<lparr>bp_events := bp_events s1 @ [ConfigAck f \<lparr>car_acked = True, car_timed_out = False,
                         car_no_session = False, car_result = result1, car_command_echo = command_echo\<rparr>]\<rparr>))"

definition command_acked :: "mac \<Rightarrow> espnow_ack_t \<Rightarrow> bridge \<Rightarrow> bridge" where
  "command_acked leaf_mac ack s =
     (case extract_first (\<lambda>p. ack_ref_tx_counter ack = pc_tx_base p \<and> leaf_mac = pc_leaf_mac p) (bp_command_queue s) of
        None \<Rightarrow> s
      | Some (p, rest) \<Rightarrow> s\<lparr>bp_command_queue := rest\<rparr>)"

definition accept_ack ::
  "bridge_env \<Rightarrow> espnow_frame_header_t \<Rightarrow> u8 \<Rightarrow> bytes \<Rightarrow> conn \<Rightarrow> bool \<times> conn" where
  "accept_ack env header rssi plaintext c =
     (let (x0, s) = c;
          x = x0\<lparr>bs_last_seen_counter := fh_tx_counter header, bs_last_seen_bridge_uptime_s := be_now env div 1000\<rparr> in
      if length plaintext < 6 then (False, x, s)
      else
        let ack = dec_ack plaintext; trailing = drop 6 plaintext in
        if ack_ack_type ack = packet_type_code PKT_FILE_TRANSFER \<and> FILE_ACK_FN \<in> set (bp_fns s) then
          (True, x, call_fn FILE_ACK_FN (FileAck (bs_leaf_mac x) ack trailing) s)
        else if ack_ack_type ack = packet_type_code PKT_CONFIG then
          (True, config_ack env (fh_tx_counter header) rssi ack trailing (x, s))
        else
          let s1 = (if ack_ack_type ack = ACK_COMMAND \<and> ack_result ack = 0
                    then command_acked (bs_leaf_mac x) ack s else s)
          in (True, online_again env rssi (fh_tx_counter header) (x, s1)))"

definition handle_ack ::
  "bridge_env \<Rightarrow> espnow_frame_header_t \<Rightarrow> bytes \<Rightarrow> u8 \<Rightarrow> bytes option \<Rightarrow> bridge \<Rightarrow> bool \<times> bridge" where
  "handle_ack env header payload rssi session_tag s =
     (case get_session s (fh_leaf_mac header) of
        None \<Rightarrow> (False, s)
      | Some x \<Rightarrow>
          if \<not> bs_session_key_valid x then (False, s)
          else if \<not> counter_is_newer (fh_tx_counter header) (bs_last_seen_counter x) then (False, s)
          else case validate_session_packet env s x header payload session_tag of
            None \<Rightarrow> (False, s)
          | Some plaintext \<Rightarrow>
              let (ok, c) = accept_ack env header rssi plaintext (x, s) in (ok, put_conn (fh_leaf_mac header) c))"

section \<open>The dispatcher\<close>

text \<open>The check of STATE, HEARTBEAT and ACK before their handlers run.\<close>

definition note_packet :: "mac \<Rightarrow> espnow_frame_header_t \<Rightarrow> u8 \<Rightarrow> conn \<Rightarrow> conn" where
  "note_packet sender_mac header rssi c =
     (let (x, s) = c;
          new_hops = ESPNOW_HOPS_COUNT (fh_hop_count header);
          x1 = x\<lparr>bs_next_hop_mac := sender_mac, bs_rx_packets := bs_rx_packets x + 1, bs_last_rssi := rssi\<rparr>
      in if new_hops \<noteq> bs_hops_to_bridge x1 then
           (x1\<lparr>bs_hops_to_bridge := new_hops\<rparr>,
            call_fn PUBLISH_AVAILABILITY_FN (PublishAvailability (bs_leaf_mac x1) True ''hop_count_changed'') s)
         else (x1, s))"

definition rx_log :: "bridge_env \<Rightarrow> espnow_packet_type_t \<Rightarrow> mac \<Rightarrow> nat \<Rightarrow> u8 \<Rightarrow> espnow_frame_header_t \<Rightarrow> bridge \<Rightarrow> bridge" where
  "rx_log env ty sender_mac len rssi header s =
     (let e = (log_entry False ty sender_mac len rssi (fh_tx_counter header))
                \<lparr>le_parent_check := has_parent_check (fh_hop_count header)\<rparr>
      in if ty = PKT_DISCOVER then queue_log (e\<lparr>le_show_channel := True, le_channel := be_channel env\<rparr>) s
         else if ty = PKT_SCHEMA_PUSH \<or> ty = PKT_ACK then s
         else queue_log e s)"

definition session_packet ::
  "bridge_env \<Rightarrow> mac \<Rightarrow> espnow_packet_type_t \<Rightarrow> espnow_frame_header_t \<Rightarrow> nat \<Rightarrow> bytes \<Rightarrow> u8 \<Rightarrow> bytes option \<Rightarrow> bridge \<Rightarrow>
   bool \<times> bridge" where
  "session_packet env sender_mac ty header len payload rssi session_tag s =
     (case get_session s (fh_leaf_mac header) of
        None \<Rightarrow>
          let (sent, x, s1) = send_deauth env sender_mac (fh_packet_type header) (fh_tx_counter header) payload
                (new_session\<lparr>bs_leaf_mac := fh_leaf_mac header, bs_next_hop_mac := sender_mac\<rparr>, s)
          in (sent, s1)
      | Some x \<Rightarrow>
          if \<not> bs_session_key_valid x then
            let (sent, c) = send_deauth env sender_mac (fh_packet_type header) (fh_tx_counter header) payload
                  (x\<lparr>bs_next_hop_mac := sender_mac, bs_last_rssi := rssi\<rparr>, s)
            in (sent, put_conn (fh_leaf_mac header) c)
          else
            let s1 = put_conn (fh_leaf_mac header) (note_packet sender_mac header rssi (x, s));
                x1 = ensure_session s1 (fh_leaf_mac header);
                s2 = put_session (fh_leaf_mac header) x1 s1
            in if len > unat (bs_session_max_payload x1) then (False, s2)
               else if ty = PKT_STATE then handle_state env sender_mac header payload rssi session_tag s2
               else if ty = PKT_HEARTBEAT then handle_heartbeat env sender_mac header payload rssi session_tag s2
               else handle_ack env header payload rssi session_tag s2)"

definition on_espnow_frame :: "bridge_env \<Rightarrow> mac \<Rightarrow> bytes \<Rightarrow> u8 \<Rightarrow> bridge \<Rightarrow> bool \<times> bridge" where
  "on_espnow_frame env sender_mac frame rssi s =
     (if length frame < 17 then (False, s)
      else if fh_protocol_version (dec_frame_header frame) \<noteq> ESPNOW_PROTOCOL_VER then (False, s)
      else case parse_frame env s frame of
        None \<Rightarrow> (False, s)
      | Some (header, payload, session_tag, parent_mac) \<Rightarrow>
          if has_parent_check (fh_hop_count header) \<and> \<not> espnow_is_parent_mac_all_zeros parent_mac \<and>
             parent_mac \<noteq> bp_bridge_mac s then (False, s)
          else case packet_type_of (fh_packet_type header) of
            None \<Rightarrow> (False, s)
          | Some ty \<Rightarrow>
              let s1 = rx_log env ty sender_mac (length frame) rssi header s in
              if ty = PKT_DISCOVER then handle_discover env sender_mac header payload s1
              else if ty = PKT_STATE \<or> ty = PKT_HEARTBEAT \<or> ty = PKT_ACK then
                session_packet env sender_mac ty header (length frame) payload rssi session_tag s1
              else if ty = PKT_JOIN then handle_join env sender_mac header payload rssi s1
              else if ty = PKT_SCHEMA_PUSH then handle_schema_push env sender_mac header payload session_tag s1
              else (False, s1))"

section \<open>Completion of a join\<close>

definition check_and_complete_join :: "bridge_env \<Rightarrow> mac \<Rightarrow> bridge \<Rightarrow> bridge" where
  "check_and_complete_join env leaf_mac s =
     (case get_session s leaf_mac of
        None \<Rightarrow> s
      | Some x \<Rightarrow>
          if \<not> bs_state_sync_pending x then s
          else if bs_discovery_all_confirmed x \<and> \<not> bs_awaiting_more_dirty x then
            put_conn leaf_mac (snd (send_join_complete env (bs_next_hop_mac x) True (x\<lparr>bs_state_sync_pending := False\<rparr>, s)))
          else s)"

definition get_joining_leaf_mac :: "bridge \<Rightarrow> mac option" where
  "get_joining_leaf_mac s = (if \<not> bp_joining_in_progress s then None else Some (bp_joining_leaf_mac s))"

definition confirm_one_discovery :: "BridgeSession \<Rightarrow> BridgeSession" where
  "confirm_one_discovery x =
     (if bs_pending_discovery_count x > 0 then
        let x1 = x\<lparr>bs_pending_discovery_count := bs_pending_discovery_count x - 1\<rparr>
        in if bs_pending_discovery_count x1 = 0 then x1\<lparr>bs_discovery_all_confirmed := True\<rparr> else x1
      else x)"

definition on_discovery_confirmed :: "bridge_env \<Rightarrow> mac \<Rightarrow> u8 \<Rightarrow> bool \<Rightarrow> bridge \<Rightarrow> bridge" where
  "on_discovery_confirmed env m entity_index success s =
     (case get_session s m of
        None \<Rightarrow> s
      | Some x \<Rightarrow>
          if \<not> bs_awaiting_discovery_confirm x then
            put_session m (if success then confirm_one_discovery x else x) s
          else if \<not> success \<or> be_now env - bs_last_discovery_confirm_ms x > 2000 then
            let (sent, x1, s1) = send_schema_request env (bs_next_hop_mac x) ESPNOW_DESCRIPTOR_TYPE_ENTITY entity_index
                  (x\<lparr>bs_schema_request_retries := 1\<rparr>, s)
            in put_session m (x1\<lparr>bs_schema_request_in_flight := sent, bs_last_schema_request_ms := be_now env,
                                bs_last_discovery_confirm_ms := be_now env\<rparr>) s1
          else
            let x1 = (confirm_one_discovery x)\<lparr>bs_awaiting_discovery_confirm := False\<rparr> in
            if bs_pending_schema_request_index x1 = 0xFF then put_session m x1 s
            else
              let (sent, x2, s2) = send_schema_request env (bs_next_hop_mac x) ESPNOW_DESCRIPTOR_TYPE_ENTITY
                    (bs_pending_schema_request_index x1) (x1\<lparr>bs_schema_request_retries := 1\<rparr>, s)
              in put_session m (x2\<lparr>bs_schema_request_in_flight := sent, bs_last_schema_request_ms := be_now env\<rparr>) s2)"

end
