(* ===== verification/Bridge_Loop.thy ===== *)
theory Bridge_Loop
  imports Bridge_Handlers
begin

unbundle bit_operations_syntax

text \<open>
  \<^verbatim>\<open>BridgeProtocol::loop\<close> and \<^verbatim>\<open>evict_sessions_for_ram_\<close> of
  \<^verbatim>\<open>esp_tree_bridge/bridge_protocol.cpp\<close>: the timers of the engine, one definition per stage, in the
  order of the code.  A loop over the session map visits the keys in ascending order; the bodies never
  add or remove a session.

  The comparisons of the free heap are in single precision: an unsigned integer is rounded to 24
  significant bits (to the nearest, ties to even), and so is the result of each operation.  \<open>0.20f\<close> is
  \<open>13421773 / 2 ^ 26\<close> and \<open>0.10f\<close> is \<open>13421773 / 2 ^ 27\<close>.
\<close>

section \<open>Single precision\<close>

fun excess_bits :: "nat \<Rightarrow> nat" where
  "excess_bits n = (if n < 2 ^ 24 then 0 else Suc (excess_bits (n div 2)))"

declare excess_bits.simps [simp del]

definition float_round :: "nat \<Rightarrow> nat" where
  "float_round n =
     (let k = excess_bits n; q = n div 2 ^ k; r = n mod 2 ^ k in
      if 2 * r > 2 ^ k \<or> (2 * r = 2 ^ k \<and> odd q) then (q + 1) * 2 ^ k else q * 2 ^ k)"

text \<open>
  The rounded quotient reaches the threshold exactly when the quotient is above the middle between
  the threshold and the number before it, whose last digit is even.  A quotient by zero is infinite,
  or no number when the numerator is zero too.
\<close>

definition free_pct_reaches :: "u32 \<Rightarrow> u32 \<Rightarrow> bool \<Rightarrow> bool" where
  "free_pct_reaches free_heap total_heap aggressive =
     (if total_heap = 0 then free_heap \<noteq> 0
      else float_round (unat free_heap) * (if aggressive then 2 ^ 28 else 2 ^ 27) >
           26843545 * float_round (unat total_heap))"

definition ram_critical :: "u32 \<Rightarrow> u32 \<Rightarrow> bool" where
  "ram_critical free_heap total_heap \<longleftrightarrow>
     float_round (unat free_heap) * 2 ^ 27 < float_round (float_round (unat total_heap) * 13421773)"

section \<open>Eviction\<close>

abbreviation (input) MAX_SESSIONS :: nat where "MAX_SESSIONS \<equiv> 128"

abbreviation (input) MIN_SESSIONS_TO_PROTECT :: u32 where "MIN_SESSIONS_TO_PROTECT \<equiv> 8"

definition drop_session :: "u64 \<Rightarrow> BridgeSession \<Rightarrow> bridge \<Rightarrow> bridge" where
  "drop_session k x s =
     (let s1 = call_fn CLEAR_ENTITIES_FN (ClearEntities (bs_leaf_mac x) (bs_schema_entities x))
                 (call_fn PUBLISH_TOPOLOGY_CHANGED_FN (PublishTopologyChanged (bs_leaf_mac x) ''node_removed'') s);
          cache_key = schema_cache_key x
      in s1\<lparr>bp_schema_cache := omap_erase cache_key (bp_schema_cache s1),
            bp_schema_hash_cache := omap_erase cache_key (bp_schema_hash_cache s1),
            bp_sessions := omap_erase k (bp_sessions s1)\<rparr>)"

fun evict_candidates :: "bridge_env \<Rightarrow> bool \<Rightarrow> u32 \<Rightarrow> u64 list \<Rightarrow> u32 \<Rightarrow> bridge \<Rightarrow> u32 \<times> bridge" where
  "evict_candidates env aggressive target_free [] evicted s = (evicted, s)"
| "evict_candidates env aggressive target_free (k # ks) evicted s =
     (let (free, s1) = esp_get_free_heap_size env s in
      if free \<ge> target_free then (evicted, s1)
      else if word_of_nat (length (bp_sessions s1)) - evicted \<le> MIN_SESSIONS_TO_PROTECT then (evicted, s1)
      else case omap_find (bp_sessions s1) k of
        None \<Rightarrow> evict_candidates env aggressive target_free ks evicted s1
      | Some x \<Rightarrow>
          if \<not> aggressive \<and> (bs_pending_state_assemblies x \<noteq> [] \<or> bs_pending_schema_assemblies x \<noteq> [])
          then evict_candidates env aggressive target_free ks evicted s1
          else
            let s2 = (if bs_online x
                      then call_fn PUBLISH_AVAILABILITY_FN (PublishAvailability (bs_leaf_mac x) False ''evicted'') s1 else s1)
            in evict_candidates env aggressive target_free ks (evicted + 1) (drop_session k x s2))"

text \<open>
  The candidates are the keys sorted by the time the session was last seen; \<^verbatim>\<open>std::sort\<close> leaves the
  order of equal times open, and the model keeps the order of the map.  The array of candidates has
  room for 128 sessions.
\<close>

definition eviction_order :: "bridge \<Rightarrow> u64 list" where
  "eviction_order s = map fst (sort_key (\<lambda>(k, x). bs_last_seen_bridge_uptime_s x) (bp_sessions s))"

definition evict_sessions_for_ram :: "bridge_env \<Rightarrow> bool \<Rightarrow> bridge \<Rightarrow> bool \<times> bridge" where
  "evict_sessions_for_ram env aggressive s =
     (let (free_heap, s1) = esp_get_free_heap_size env s in
      if free_pct_reaches free_heap (be_total_heap env) aggressive then (False, s1)
      else
        let (evicted, s2) = evict_candidates env aggressive (free_heap + 10240) (eviction_order s1) 0 s1;
            s3 = (if evicted > 0 then asked s2 else s2)
        in (evicted > 0, s3))"

section \<open>Uptime and periodic clean-up\<close>

definition tick_uptime :: "u32 \<Rightarrow> bridge \<Rightarrow> bridge" where
  "tick_uptime now s =
     (let s1 = (if bp_last_uptime_tick_ms s = 0 then s\<lparr>bp_last_uptime_tick_ms := now\<rparr> else s);
          tick = bp_last_uptime_tick_ms s1
      in if now > tick then
           s1\<lparr>bp_bridge_uptime_s := bp_bridge_uptime_s s1 + (now - tick) div 1000,
              bp_last_uptime_tick_ms := now - (now - tick) mod 1000\<rparr>
         else s1)"

text \<open>Dropping offline sessions until 128 are left.\<close>

fun trim_sessions :: "(u64, BridgeSession) omap \<Rightarrow> bridge \<Rightarrow> bridge" where
  "trim_sessions [] s = s"
| "trim_sessions ((k, x) # m) s =
     (if \<not> bs_online x then
        let s1 = drop_session k x s in
        if length (bp_sessions s1) \<le> MAX_SESSIONS then s1 else trim_sessions m s1
      else trim_sessions m s)"

definition fragment_expired :: "u32 \<Rightarrow> espnow_fragment_assembly_t \<Rightarrow> bool" where
  "fragment_expired now a \<longleftrightarrow> fa_active a \<and> now - fa_last_seen_ms a \<ge> 5000"

definition expire_schema_fragments :: "u32 \<Rightarrow> BridgeSession \<Rightarrow> BridgeSession" where
  "expire_schema_fragments now x =
     (let dead = filter (\<lambda>(i, a). fragment_expired now a) (bs_pending_schema_assemblies x) in
      x\<lparr>bs_schema_reserved_bytes := fold (\<lambda>(i, a) r. r - ucast (fa_fragment_count a) * ucast (bs_max_entity_fragment x))
            dead (bs_schema_reserved_bytes x),
        bs_pending_schema_assemblies := filter (\<lambda>(i, a). \<not> fragment_expired now a) (bs_pending_schema_assemblies x)\<rparr>)"

definition expire_state_fragments :: "u32 \<Rightarrow> BridgeSession \<Rightarrow> BridgeSession" where
  "expire_state_fragments now x =
     (let dead = filter (\<lambda>(i, a). fragment_expired now a) (bs_pending_state_assemblies x) in
      x\<lparr>bs_state_reserved_bytes := fold (\<lambda>(i, a) r. r - word_of_nat (length (fa_data a))) dead (bs_state_reserved_bytes x),
        bs_pending_state_assemblies := filter (\<lambda>(i, a). \<not> fragment_expired now a) (bs_pending_state_assemblies x)\<rparr>)"

text \<open>A loop over the sessions whose body changes the session it visits.\<close>

fun each_session :: "(conn \<Rightarrow> conn) \<Rightarrow> u64 list \<Rightarrow> bridge \<Rightarrow> bridge" where
  "each_session f [] s = s"
| "each_session f (k # ks) s =
     (case omap_find (bp_sessions s) k of
        None \<Rightarrow> each_session f ks s
      | Some x \<Rightarrow>
          let (x1, s1) = f (x, s)
          in each_session f ks (s1\<lparr>bp_sessions := omap_put k x1 (bp_sessions s1)\<rparr>))"

definition all_sessions :: "(conn \<Rightarrow> conn) \<Rightarrow> bridge \<Rightarrow> bridge" where
  "all_sessions f s = each_session f (map fst (bp_sessions s)) s"

definition session_cleanup :: "bridge_env \<Rightarrow> bridge \<Rightarrow> bridge" where
  "session_cleanup env s =
     (if be_now env - bp_last_session_cleanup_ms s < 60000 then s
      else
        let s1 = snd (evict_sessions_for_ram env False (s\<lparr>bp_last_session_cleanup_ms := be_now env\<rparr>));
            s2 = (if length (bp_sessions s1) > MAX_SESSIONS then trim_sessions (bp_sessions s1) s1 else s1)
        in all_sessions (\<lambda>(x, t). (expire_schema_fragments (be_now env) x, t)) s2)"

section \<open>The timers of a session\<close>

definition announce_offline :: "BridgeSession \<Rightarrow> bridge \<Rightarrow> bridge" where
  "announce_offline x s =
     call_fn PUBLISH_TOPOLOGY_CHANGED_FN (PublishTopologyChanged (bs_leaf_mac x) ''node_offline'')
       (call_fn PUBLISH_AVAILABILITY_FN (PublishAvailability (bs_leaf_mac x) False ''timeout'') s)"

definition offline_timeout_ms :: "bridge \<Rightarrow> BridgeSession \<Rightarrow> u32" where
  "offline_timeout_ms s x =
     max (ucast (bp_heartbeat_interval s) * 1000 + 5000)
       (if bs_expected_contact_interval_s x > 0 then bs_expected_contact_interval_s x * 3000 + 5000
        else ucast (bp_heartbeat_interval s) * 3000 + 5000)"

definition offline_check :: "u32 \<Rightarrow> conn \<Rightarrow> conn" where
  "offline_check now c =
     (let (x, s) = c in
      if bs_online x \<and> bs_last_seen_bridge_uptime_s x > 0 \<and>
         now div 1000 - bs_last_seen_bridge_uptime_s x > offline_timeout_ms s x div 1000 then
        let x1 = x\<lparr>bs_online := False, bs_remote_state := LOG_NONE, bs_last_offline_reason := ''timeout''\<rparr>
        in (x1, announce_offline x1 s)
      else (x, s))"

definition backoff_ms :: "u8 \<Rightarrow> u32" where
  "backoff_ms retries = ucast (RETRY_BACKOFF_MS ! min (unat retries) 3)"

definition schema_retry :: "bridge_env \<Rightarrow> conn \<Rightarrow> conn" where
  "schema_retry env c =
     (let (x, s) = c in
      if bs_online x \<and> \<not> bs_schema_received x \<and> bs_schema_request_in_flight x \<and> bs_last_schema_request_ms x > 0 then
        let (r, s1) = esp_random env s in
        if be_now env - bs_last_schema_request_ms x \<ge> backoff_ms (bs_schema_request_retries x) + r mod 101 then
          (if bs_schema_request_retries x < ESPNOW_MAX_RETRIES then
             let (sent, x1, s2) = send_schema_request env (bs_next_hop_mac x) (bs_pending_schema_descriptor_type x)
                   (bs_pending_schema_index x) (x\<lparr>bs_schema_request_retries := bs_schema_request_retries x + 1\<rparr>, s1)
             in (x1\<lparr>bs_schema_request_in_flight := sent\<rparr>, s2)
           else
             let x1 = x\<lparr>bs_online := False, bs_remote_state := LOG_NONE, bs_schema_request_in_flight := False,
                        bs_session_key_valid := False, bs_join_in_progress := False,
                        bs_last_offline_reason := ''timeout''\<rparr>
             in (x1, announce_offline x1 s1))
        else (x, s1)
      else (x, s))"

definition state_sync_timeout :: "u32 \<Rightarrow> BridgeSession \<Rightarrow> BridgeSession" where
  "state_sync_timeout now x =
     (if bs_state_sync_pending x \<and> \<not> bs_join_complete_pending x \<and> bs_last_seen_bridge_uptime_s x > 0 \<and>
         now div 1000 - bs_last_seen_bridge_uptime_s x \<ge> 30000 div 1000
      then x\<lparr>bs_state_sync_pending := False, bs_join_in_progress := False, bs_pending_state_assemblies := [],
             bs_state_reserved_bytes := 0\<rparr>
      else x)"

definition join_complete_retry :: "bridge_env \<Rightarrow> conn \<Rightarrow> conn" where
  "join_complete_retry env c =
     (let (x, s) = c in
      if bs_join_complete_pending x then
        let (r, s1) = esp_random env s in
        if bs_last_join_complete_ms x > 0 \<and>
           be_now env - bs_last_join_complete_ms x \<ge> backoff_ms (bs_join_complete_retry_count x) + r mod 101 then
          (if bs_join_complete_retry_count x < ESPNOW_MAX_RETRIES then
             let (sent, x1, s2) = send_join_complete env (bs_next_hop_mac x) False (x, s1)
             in (if sent then x1\<lparr>bs_join_complete_retry_count := bs_join_complete_retry_count x1 + 1\<rparr> else x1, s2)
           else
             let x1 = x\<lparr>bs_join_complete_pending := False, bs_join_complete_retry_count := 0,
                        bs_last_join_complete_ms := 0, bs_join_in_progress := False, bs_online := False,
                        bs_remote_state := LOG_NONE, bs_schema_request_in_flight := False,
                        bs_last_offline_reason := ''timeout''\<rparr>
             in (x1, call_fn CLEAR_ENTITIES_FN (ClearEntities (bs_leaf_mac x1) (bs_schema_entities x1))
                       (announce_offline x1 s1)))
        else (x, s1)
      else (x, s))"

definition session_timers :: "bridge_env \<Rightarrow> conn \<Rightarrow> conn" where
  "session_timers env c =
     (let (x, s) = c;
          x1 = expire_schema_fragments (be_now env) (expire_state_fragments (be_now env) x);
          (x2, s2) = schema_retry env (offline_check (be_now env) (x1, s))
      in join_complete_retry env (state_sync_timeout (be_now env) x2, s2))"

definition join_slot_timeout :: "u32 \<Rightarrow> bridge \<Rightarrow> bridge" where
  "join_slot_timeout now s =
     (if bp_joining_in_progress s \<and> bp_join_started_ms s > 0 \<and> now - bp_join_started_ms s \<ge> 45000
      then s\<lparr>bp_joining_in_progress := False, bp_joining_leaf_mac := replicate 6 0, bp_join_started_ms := 0\<rparr>
      else s)"

text \<open>\<^verbatim>\<open>std::array::empty\<close> is never true for an array of six bytes.\<close>

definition announce_due :: "bridge_env \<Rightarrow> conn \<Rightarrow> conn" where
  "announce_due env c =
     (let (x, s) = c in
      if bs_discover_announce_deadline_ms x > 0 \<and> be_now env \<ge> bs_discover_announce_deadline_ms x then
        (x\<lparr>bs_discover_announce_deadline_ms := 0, bs_discover_announce_leaf_mac := replicate 6 0\<rparr>,
         snd (send_discover_announce env (bs_discover_announce_leaf_mac x) (bs_leaf_mac x) 0 s))
      else (x, s))"

section \<open>Retries of configuration and commands\<close>

definition config_result :: "bool \<Rightarrow> bool \<Rightarrow> PendingConfig \<Rightarrow> bridge \<Rightarrow> bridge" where
  "config_result timed_out no_session p s =
     (case pg_callback p of
        None \<Rightarrow> s
      | Some f \<Rightarrow> s\<lparr>bp_events := bp_events s @ [ConfigAck f \<lparr>car_acked = False, car_timed_out = timed_out,
          car_no_session = no_session, car_result = 1, car_command_echo = pg_command p\<rparr>]\<rparr>)"

text \<open>One pending configuration: \<open>None\<close> removes it from the queue.\<close>

definition retry_config :: "bridge_env \<Rightarrow> PendingConfig \<Rightarrow> bridge \<Rightarrow> PendingConfig option \<times> bridge" where
  "retry_config env p s =
     (if be_now env < pg_next_retry_ms p then (Some p, s)
      else if pg_retry_count p \<ge> 3 then (None, config_result True False p s)
      else case get_session s (pg_leaf_mac p) of
        None \<Rightarrow> (None, config_result False True p s)
      | Some x \<Rightarrow>
          if \<not> bs_online x \<or> \<not> bs_session_key_valid x then (None, config_result False True p s)
          else
            let p1 = p\<lparr>pg_retry_count := pg_retry_count p + 1, pg_next_hop_mac := bs_next_hop_mac x\<rparr>;
                (sent, c) = send_config_frame env p1 (pg_retry_count p1) (x, s)
            in (Some (p1\<lparr>pg_next_retry_ms := be_now env + pg_ack_timeout_ms p1\<rparr>), put_conn (pg_leaf_mac p) c))"

definition command_timeout :: "PendingCommand \<Rightarrow> bridge \<Rightarrow> bridge" where
  "command_timeout p s =
     (case get_session s (pc_leaf_mac p) of
        None \<Rightarrow> s
      | Some x \<Rightarrow>
          call_fn PUBLISH_TOPOLOGY_CHANGED_FN (PublishTopologyChanged (pc_leaf_mac p) ''node_offline'')
            (call_fn PUBLISH_AVAILABILITY_FN (PublishAvailability (pc_leaf_mac p) False ''timeout'')
              (put_session (pc_leaf_mac p) (x\<lparr>bs_online := False, bs_last_offline_reason := ''timeout''\<rparr>) s)))"

definition retry_command :: "bridge_env \<Rightarrow> PendingCommand \<Rightarrow> bridge \<Rightarrow> PendingCommand option \<times> bridge" where
  "retry_command env p s =
     (if pc_retry_count p \<ge> ESPNOW_MAX_RETRIES then (None, command_timeout p s)
      else
        let (r, s1) = esp_random env s in
        if be_now env - pc_last_tx_ms p \<ge> ucast (RETRY_BACKOFF_MS ! unat (pc_retry_count p)) + r mod 101 then
          (case get_session s1 (pc_leaf_mac p) of
             None \<Rightarrow> (None, s1)
           | Some x \<Rightarrow>
               if \<not> bs_online x \<or> \<not> bs_session_key_valid x then (None, s1)
               else
                 let (sent, c) = send_command_fragments env (pc_next_hop_mac p) (pc_field_index p) (pc_value p)
                       (pc_tx_base p) False (pc_retry_count p) (x, s1)
                 in (Some (p\<lparr>pc_retry_count := pc_retry_count p + 1, pc_last_tx_ms := be_now env\<rparr>),
                     put_conn (pc_leaf_mac p) c))
        else (Some p, s1))"

text \<open>A pass over a vector of pending requests, erasing the ones that are settled.\<close>

fun retry_pass :: "('p \<Rightarrow> bridge \<Rightarrow> 'p option \<times> bridge) \<Rightarrow> 'p list \<Rightarrow> bridge \<Rightarrow> 'p list \<times> bridge" where
  "retry_pass f [] s = ([], s)"
| "retry_pass f (p # ps) s =
     (let (q, s1) = f p s; (qs, s2) = retry_pass f ps s1
      in (case q of None \<Rightarrow> qs | Some p1 \<Rightarrow> p1 # qs, s2))"

definition config_stage :: "bridge_env \<Rightarrow> bridge \<Rightarrow> bridge" where
  "config_stage env s =
     (let (qs, s1) = retry_pass (retry_config env) (bp_pending_configs s) s in s1\<lparr>bp_pending_configs := qs\<rparr>)"

definition command_stage :: "bridge_env \<Rightarrow> bridge \<Rightarrow> bridge" where
  "command_stage env s =
     (let (qs, s1) = retry_pass (retry_command env) (bp_command_queue s) s in s1\<lparr>bp_command_queue := qs\<rparr>)"

section \<open>The loop\<close>

definition ram_stage :: "bridge_env \<Rightarrow> bridge \<Rightarrow> bridge" where
  "ram_stage env s =
     (let (free_heap, s1) = esp_get_free_heap_size env s
      in if ram_critical free_heap (be_total_heap env) then snd (evict_sessions_for_ram env True s1) else s1)"

definition diag_stage :: "u32 \<Rightarrow> bridge \<Rightarrow> bridge" where
  "diag_stage now s =
     (let online_count = get_active_remote_count s in
      if PUBLISH_BRIDGE_DIAG_FN \<in> set (bp_fns s) \<and>
         (now - bp_last_diag_publish_ms s \<ge> 10000 \<or> online_count \<noteq> bp_last_diag_online_count s)
      then call_fn PUBLISH_BRIDGE_DIAG_FN (PublishBridgeDiag (bp_bridge_uptime_s s) online_count)
             (s\<lparr>bp_last_diag_publish_ms := now, bp_last_diag_online_count := online_count\<rparr>)
      else s)"

definition bridge_loop :: "bridge_env \<Rightarrow> bridge \<Rightarrow> bridge" where
  "bridge_loop env s =
     (let s1 = session_cleanup env (tick_uptime (be_now env) s);
          s2 = join_slot_timeout (be_now env) (all_sessions (session_timers env) s1);
          s3 = ram_stage env (all_sessions (announce_due env) s2)
      in diag_stage (be_now env) (command_stage env (config_stage env s3)))"

end
