(* ===== verification/Bridge_Inv.thy ===== *)
theory Bridge_Inv
  imports Bridge_Loop
begin

unbundle bit_operations_syntax

text \<open>
  The invariant of the bridge's protocol engine, and that every method that works on one session keeps
  it (\<open>keeps\<close>).  The locale \<open>session_property\<close> is the induction every invariant of the session map shares: a
  property of sessions that every handler keeps for the session it works on holds for all sessions,
  whatever the loops over the map do.
\<close>

section \<open>Properties of all sessions\<close>

definition sessions_inv :: "(BridgeSession \<Rightarrow> bool) \<Rightarrow> (bridge \<Rightarrow> bool) \<Rightarrow> bridge \<Rightarrow> bool" where
  "sessions_inv P E s \<longleftrightarrow> omap_ok (bp_sessions s) \<and>
     (\<forall>k x. omap_find (bp_sessions s) k = Some x \<longrightarrow> k = mac_to_key (bs_leaf_mac x) \<and> P x) \<and> E s"

text \<open>What a method that works on one session keeps.\<close>

definition conn_keeps :: "(BridgeSession \<Rightarrow> bool) \<Rightarrow> (bridge \<Rightarrow> bool) \<Rightarrow> conn \<Rightarrow> conn \<Rightarrow> bool" where
  "conn_keeps P E c c' \<longleftrightarrow> bp_sessions (snd c') = bp_sessions (snd c) \<and> bs_leaf_mac (fst c') = bs_leaf_mac (fst c) \<and>
     (P (fst c) \<longrightarrow> E (snd c) \<longrightarrow> P (fst c') \<and> E (snd c'))"

lemma conn_keeps_refl: "conn_keeps P E c c"
  by (simp add: conn_keeps_def)

lemma conn_keeps_trans: "conn_keeps P E c c' \<Longrightarrow> conn_keeps P E c' c'' \<Longrightarrow> conn_keeps P E c c''"
  by (auto simp: conn_keeps_def)

locale session_property =
  fixes P :: "BridgeSession \<Rightarrow> bool" and E :: "bridge \<Rightarrow> bool"
  assumes E_sessions: "E (s\<lparr>bp_sessions := m\<rparr>) \<longleftrightarrow> E s"
    and E_event: "E s \<Longrightarrow> E (call_fn f ev s)"
    and E_asked: "E s \<Longrightarrow> E (asked s)"
    and E_uncache: "E s \<Longrightarrow> E (s\<lparr>bp_schema_cache := omap_erase k (bp_schema_cache s),
          bp_schema_hash_cache := omap_erase k (bp_schema_hash_cache s)\<rparr>)"
begin

lemma inv_E: "sessions_inv P E s \<Longrightarrow> E s"
  by (simp add: sessions_inv_def)

lemma inv_get: "sessions_inv P E s \<Longrightarrow> get_session s m = Some x \<Longrightarrow> P x \<and> mac_to_key (bs_leaf_mac x) = mac_to_key m"
  by (auto simp: sessions_inv_def get_session_def)

lemma inv_io:
  assumes "sessions_inv P E s" "bp_sessions s' = bp_sessions s" "E s \<Longrightarrow> E s'"
  shows "sessions_inv P E s'"
  using assms by (simp add: sessions_inv_def)

lemma inv_put_key:
  assumes "sessions_inv P E s" "E s'" "P x" "k = mac_to_key (bs_leaf_mac x)" "bp_sessions s' = bp_sessions s"
  shows "sessions_inv P E (s'\<lparr>bp_sessions := omap_put k x (bp_sessions s')\<rparr>)"
  using assms by (simp add: sessions_inv_def E_sessions omap_ok_put omap_find_put)

lemma inv_put_conn:
  assumes inv: "sessions_inv P E s" and x: "get_session s m = Some x" and c: "conn_keeps P E (x, s) c"
  shows "sessions_inv P E (put_conn m c)"
  unfolding put_conn_def put_session_def
  using inv_put_key [OF inv, of "snd c" "fst c" "mac_to_key m"] inv_get [OF inv x] inv_E [OF inv] c
  by (simp add: conn_keeps_def)

text \<open>The session a handler works on may be a new one.\<close>

lemma inv_put_new:
  assumes inv: "sessions_inv P E s" and x: "P x" "bs_leaf_mac x = m" and c: "conn_keeps P E (x, s) c"
  shows "sessions_inv P E (put_conn m c)"
  unfolding put_conn_def put_session_def
  using inv_put_key [OF inv, of "snd c" "fst c" "mac_to_key m"] inv_E [OF inv] x c by (simp add: conn_keeps_def)

lemma inv_each_session:
  assumes f: "\<And>c. conn_keeps P E c (f c)"
  shows "sessions_inv P E s \<Longrightarrow> sessions_inv P E (each_session f ks s)"
proof (induction ks arbitrary: s)
  case (Cons k ks)
  show ?case
  proof (cases "omap_find (bp_sessions s) k")
    case None
    then show ?thesis using Cons by simp
  next
    case (Some x)
    obtain x1 s1 where f1: "f (x, s) = (x1, s1)" by fastforce
    have "k = mac_to_key (bs_leaf_mac x)" "P x" "E s" using Cons.prems Some by (auto simp: sessions_inv_def)
    then have "sessions_inv P E (s1\<lparr>bp_sessions := omap_put k x1 (bp_sessions s1)\<rparr>)"
      using f [of "(x, s)"] inv_put_key [OF Cons.prems, of s1 x1 k] by (simp add: conn_keeps_def f1)
    then show ?thesis using Cons.IH Some f1 by simp
  qed
qed simp

lemma inv_all_sessions:
  assumes "\<And>c. conn_keeps P E c (f c)" "sessions_inv P E s"
  shows "sessions_inv P E (all_sessions f s)"
  using inv_each_session [OF assms] by (simp add: all_sessions_def)

lemma inv_drop_session: "sessions_inv P E s \<Longrightarrow> sessions_inv P E (drop_session k x s)"
proof -
  assume inv: "sessions_inv P E s"
  let ?s = "call_fn CLEAR_ENTITIES_FN (ClearEntities (bs_leaf_mac x) (bs_schema_entities x))
              (call_fn PUBLISH_TOPOLOGY_CHANGED_FN (PublishTopologyChanged (bs_leaf_mac x) ''node_removed'') s)"
  let ?t = "?s\<lparr>bp_schema_cache := omap_erase (schema_cache_key x) (bp_schema_cache ?s),
              bp_schema_hash_cache := omap_erase (schema_cache_key x) (bp_schema_hash_cache ?s)\<rparr>"
  have E: "E ?t" using E_uncache E_event inv_E [OF inv] by blast
  have eq: "drop_session k x s = ?t\<lparr>bp_sessions := omap_erase k (bp_sessions s)\<rparr>"
    by (simp add: drop_session_def Let_def call_fn_def)
  show ?thesis
    using inv unfolding eq by (simp add: sessions_inv_def E_sessions E omap_ok_erase omap_find_erase)
qed

lemma inv_call_fn: "sessions_inv P E s \<Longrightarrow> sessions_inv P E (call_fn f ev s)"
  using E_event [of s f ev] by (simp add: sessions_inv_def call_fn_def split: if_splits)

lemma inv_asked: "sessions_inv P E s \<Longrightarrow> sessions_inv P E (asked s)"
  using E_asked by (auto simp: sessions_inv_def asked_def)

lemma inv_evict_candidates:
  "sessions_inv P E s \<Longrightarrow> sessions_inv P E (snd (evict_candidates env aggr target ks n s))"
  by (induction env aggr target ks n s rule: evict_candidates.induct)
     (auto simp: esp_get_free_heap_size_def Let_def inv_asked inv_call_fn inv_drop_session split: option.split)

lemma inv_evict: "sessions_inv P E s \<Longrightarrow> sessions_inv P E (snd (evict_sessions_for_ram env aggr s))"
  using inv_evict_candidates [OF inv_asked [of s], of env aggr "be_free_heap env (bp_calls s) + 10240" "eviction_order (asked s)" 0]
  by (auto simp: evict_sessions_for_ram_def esp_get_free_heap_size_def Let_def inv_asked split: prod.split)

lemma inv_trim: "sessions_inv P E s \<Longrightarrow> sessions_inv P E (trim_sessions m s)"
  by (induction m s rule: trim_sessions.induct) (auto simp: Let_def inv_drop_session)

lemma inv_retry_pass:
  assumes "\<And>p s. Q p \<Longrightarrow> sessions_inv P E s \<Longrightarrow> sessions_inv P E (snd (f p s))"
  shows "\<forall>p\<in>set ps. Q p \<Longrightarrow> sessions_inv P E s \<Longrightarrow> sessions_inv P E (snd (retry_pass f ps s))"
proof (induction ps arbitrary: s)
  case (Cons p ps)
  then have "sessions_inv P E (snd (f p s))" by (simp add: assms)
  then have "sessions_inv P E (snd (retry_pass f ps (snd (f p s))))" using Cons by simp
  then show ?case by (simp add: Let_def case_prod_beta)
qed simp

end

section \<open>The invariant\<close>

definition assembly_ok :: "u16 \<Rightarrow> espnow_fragment_assembly_t \<Rightarrow> bool" where
  "assembly_ok mef a \<longleftrightarrow> (fa_active a \<longrightarrow>
     (let n = unat (fa_fragment_count a) in
      length (fa_received a) = n \<and> length (fa_lengths a) = n \<and> length (fa_data a) = n * unat mef \<and>
      (\<forall>i<n. fa_received a ! i \<noteq> 0 \<longrightarrow> i * unat mef + unat (fa_lengths a ! i) \<le> length (fa_data a))))"

definition assemblies_ok :: "u16 \<Rightarrow> (u8, espnow_fragment_assembly_t) omap \<Rightarrow> bool" where
  "assemblies_ok mef m \<longleftrightarrow> omap_ok m \<and> length m \<le> ESPNOW_MAX_PENDING_FRAGMENT_ASSEMBLIES \<and>
     (\<forall>a\<in>snd ` set m. assembly_ok mef a)"

definition sane :: "BridgeSession \<Rightarrow> bool" where
  "sane x \<longleftrightarrow> length (bs_leaf_mac x) = 6 \<and> length (bs_parent_mac x) = 6 \<and> length (bs_session_key x) = 32 \<and>
     length (bs_bridge_nonce x) = 16 \<and> length (bs_remote_nonce x) = 16 \<and> length (bs_schema_hash x) = 32 \<and>
     length (bs_next_hop_mac x) = 6 \<and> length (bs_discover_announce_leaf_mac x) = 6 \<and>
     length (bs_firmware_md5 x) = 16 \<and> bs_schema_request_retries x \<le> ESPNOW_MAX_RETRIES \<and>
     bs_join_complete_retry_count x \<le> ESPNOW_MAX_RETRIES \<and>
     assemblies_ok (bs_max_entity_fragment x) (bs_pending_state_assemblies x) \<and>
     assemblies_ok (bs_max_entity_fragment x) (bs_pending_schema_assemblies x)"

definition log_ok :: "bridge \<Rightarrow> bool" where
  "log_ok s \<longleftrightarrow> length (bp_log_queue s) = PACKET_LOG_SIZE \<and> bp_log_count s \<le> PACKET_LOG_SIZE \<and>
     bp_log_tail s < PACKET_LOG_SIZE \<and> bp_log_head s = (bp_log_tail s + bp_log_count s) mod PACKET_LOG_SIZE"

definition engine_ok :: "bridge \<Rightarrow> bool" where
  "engine_ok s \<longleftrightarrow> log_ok s \<and> length (bp_bridge_mac s) = 6 \<and> length (bp_joining_leaf_mac s) = 6 \<and>
     length (g_psk (bp_crypto s)) = 32 \<and>
     (\<forall>p\<in>set (bp_command_queue s). pc_retry_count p \<le> ESPNOW_MAX_RETRIES \<and> length (pc_leaf_mac p) = 6 \<and>
        length (pc_next_hop_mac p) = 6) \<and>
     (\<forall>p\<in>set (bp_pending_configs s). pg_retry_count p \<le> 3 \<and> length (pg_payload p) \<le> 217) \<and>
     (\<forall>cd\<in>snd ` set (bp_schema_cache s). length (cd_firmware_md5 cd) = 16)"

abbreviation bridge_ok :: "bridge \<Rightarrow> bool" where
  "bridge_ok \<equiv> sessions_inv sane engine_ok"

abbreviation keeps :: "conn \<Rightarrow> conn \<Rightarrow> bool" where
  "keeps \<equiv> conn_keeps sane engine_ok"

text \<open>What a method without a session keeps.\<close>

definition quiet :: "bridge \<Rightarrow> bridge \<Rightarrow> bool" where
  "quiet s s' \<longleftrightarrow> bp_sessions s' = bp_sessions s \<and> (engine_ok s \<longrightarrow> engine_ok s')"

lemma quiet_refl: "quiet s s"
  by (simp add: quiet_def)

lemma quiet_trans: "quiet s s' \<Longrightarrow> quiet s' s'' \<Longrightarrow> quiet s s''"
  by (simp add: quiet_def)

lemma keeps_quiet: "quiet s s' \<Longrightarrow> keeps (x, s) (x, s')"
  by (simp add: quiet_def conn_keeps_def)

lemma keepsI:
  assumes "quiet s s'" "bs_leaf_mac x' = bs_leaf_mac x" "sane x \<Longrightarrow> sane x'"
  shows "keeps (x, s) (x', s')"
  using assms by (simp add: quiet_def conn_keeps_def)

lemmas keeps_trans = conn_keeps_trans [of sane engine_ok]

lemmas keeps_refl = conn_keeps_refl [of sane engine_ok]

lemma log_ok_events [simp]: "log_ok (s\<lparr>bp_events := e\<rparr>) = log_ok s" "log_ok (s\<lparr>bp_calls := n\<rparr>) = log_ok s"
  "log_ok (s\<lparr>bp_sessions := m\<rparr>) = log_ok s" "log_ok (s\<lparr>bp_schema_cache := sc\<rparr>) = log_ok s"
  "log_ok (s\<lparr>bp_schema_hash_cache := hc\<rparr>) = log_ok s" "log_ok (s\<lparr>bp_command_queue := cq\<rparr>) = log_ok s"
  "log_ok (s\<lparr>bp_pending_configs := pcs\<rparr>) = log_ok s" "log_ok (s\<lparr>bp_pending_state_log_msg := msg\<rparr>) = log_ok s"
  "log_ok (s\<lparr>bp_pending_state := st\<rparr>) = log_ok s" "log_ok (s\<lparr>bp_joining_in_progress := b\<rparr>) = log_ok s"
  "log_ok (s\<lparr>bp_joining_leaf_mac := lm\<rparr>) = log_ok s" "log_ok (s\<lparr>bp_join_started_ms := t\<rparr>) = log_ok s"
  by (simp_all add: log_ok_def)

lemma quiet_call_fn: "quiet s (call_fn f ev s)"
  by (simp add: quiet_def engine_ok_def call_fn_def)

lemma quiet_asked: "quiet s (asked s)"
  by (simp add: quiet_def engine_ok_def asked_def)

lemma quiet_event: "quiet s (s\<lparr>bp_events := e\<rparr>)"
  by (simp add: quiet_def engine_ok_def)

interpretation bridge_inv: session_property sane engine_ok
proof
  fix s :: bridge and m f ev k
  show "engine_ok (s\<lparr>bp_sessions := m\<rparr>) = engine_ok s" by (simp add: engine_ok_def)
  show "engine_ok s \<Longrightarrow> engine_ok (call_fn f ev s)" using quiet_call_fn by (simp add: quiet_def)
  show "engine_ok s \<Longrightarrow> engine_ok (asked s)" using quiet_asked by (simp add: quiet_def)
  show "engine_ok s \<Longrightarrow> engine_ok (s\<lparr>bp_schema_cache := omap_erase k (bp_schema_cache s),
          bp_schema_hash_cache := omap_erase k (bp_schema_hash_cache s)\<rparr>)"
    by (simp add: engine_ok_def omap_erase_def)
qed

section \<open>Sending\<close>

text \<open>The rules of \<open>quiet_intros\<close> follow the calls of a method backwards to its first state.\<close>

named_theorems quiet_intros \<open>what a call without a session keeps\<close>

declare quiet_refl [quiet_intros]

lemma log_ok_queue: "log_ok s \<Longrightarrow> log_ok (queue_log e s)"
  using mod_add_left_eq [of "bp_log_tail s + bp_log_count s" PACKET_LOG_SIZE 1]
  by (simp add: log_ok_def queue_log_def add.assoc)

lemma quiet_queue_log [quiet_intros]: "quiet s t \<Longrightarrow> quiet s (queue_log e t)"
proof -
  have "engine_ok t \<Longrightarrow> engine_ok (queue_log e t)"
    using log_ok_queue [of t e] unfolding engine_ok_def by (simp add: queue_log_def)
  moreover have "bp_sessions (queue_log e t) = bp_sessions t" by (simp add: queue_log_def)
  ultimately show "quiet s t \<Longrightarrow> quiet s (queue_log e t)" by (simp add: quiet_def)
qed

lemma log_ok_state_log [simp]: "log_ok (queue_state_log st msg s) = log_ok s"
  by (simp add: queue_state_log_def)

lemma engine_ok_state_log [simp]: "engine_ok (queue_state_log st msg s) = engine_ok s"
  by (simp add: engine_ok_def) (simp add: queue_state_log_def)

lemma quiet_state_log [quiet_intros]: "quiet s t \<Longrightarrow> quiet s (queue_state_log st msg t)"
  by (simp add: quiet_def) (simp add: queue_state_log_def)

lemma quiet_call_fn_intro [quiet_intros]: "quiet s t \<Longrightarrow> quiet s (call_fn f ev t)"
  by (rule quiet_trans [OF _ quiet_call_fn])

lemma quiet_event_intro [quiet_intros]: "quiet s t \<Longrightarrow> quiet s (t\<lparr>bp_events := e\<rparr>)"
  by (rule quiet_trans [OF _ quiet_event])

lemma quiet_asked_intro [quiet_intros]: "quiet s t \<Longrightarrow> quiet s (asked t)"
  by (rule quiet_trans [OF _ quiet_asked])

lemma quiet_send [quiet_intros]: "quiet s t \<Longrightarrow> quiet s (snd (call_send env dest frame t))"
  by (simp add: call_send_def quiet_asked_intro quiet_event_intro)

lemma quiet_send_err [quiet_intros]: "quiet s t \<Longrightarrow> quiet s (snd (call_send_err env dest frame t))"
  by (simp add: call_send_err_def quiet_asked_intro quiet_event_intro)

lemma quiet_random [quiet_intros]: "quiet s t \<Longrightarrow> quiet s (snd (esp_random env t))"
  by (simp add: esp_random_def quiet_asked_intro)

lemma quiet_heap [quiet_intros]: "quiet s t \<Longrightarrow> quiet s (snd (esp_get_free_heap_size env t))"
  by (simp add: esp_get_free_heap_size_def quiet_asked_intro)

lemma quiet_plain [quiet_intros]: "quiet s t \<Longrightarrow> quiet s (snd (send_plain_psk env dest leaf ty hop tx payload t))"
  by (simp add: send_plain_psk_def Let_def quiet_send quiet_queue_log)

lemma sane_tx [simp]: "sane (x\<lparr>bs_tx_counter := t\<rparr>) = sane x" "sane (x\<lparr>bs_tx_packets := n\<rparr>) = sane x"
  by (simp_all add: sane_def)

lemma keeps_send_encrypted: "keeps c (snd (send_encrypted env dest ty hop plain ack c))"
  by (cases c) (auto simp: send_encrypted_def Let_def case_prod_beta split: option.split
      intro!: keepsI quiet_intros)

lemma keeps_send_result: "keeps c (snd (send_encrypted_with_tx_counter_result env dest ty hop tx plain c))"
  by (cases c) (auto simp: send_encrypted_with_tx_counter_result_def Let_def case_prod_beta split: option.split
      intro!: keepsI quiet_intros)

lemma keeps_send_tx: "keeps c (snd (send_encrypted_with_tx_counter env dest ty hop tx plain c))"
  using keeps_send_result by (simp add: send_encrypted_with_tx_counter_def case_prod_beta)

text \<open>The join slot is three fields of the engine.\<close>

lemma quiet_join_slot [quiet_intros]:
  "quiet s t \<Longrightarrow> length m = 6 \<Longrightarrow>
    quiet s (t\<lparr>bp_joining_in_progress := b, bp_joining_leaf_mac := m, bp_join_started_ms := j\<rparr>)"
proof -
  assume "quiet s t" "length m = 6"
  moreover from this have "engine_ok t \<Longrightarrow>
      engine_ok (t\<lparr>bp_joining_in_progress := b, bp_joining_leaf_mac := m, bp_join_started_ms := j\<rparr>)"
    unfolding engine_ok_def by simp
  ultimately show ?thesis by (simp add: quiet_def)
qed

lemma keeps_send_join_ack: "keeps c (snd (send_join_ack env dest accepted reason stage c))"
proof (cases c)
  case (Pair x s)
  let ?s = "if accepted \<noteq> 0 \<and> \<not> bp_joining_in_progress s then
     s\<lparr>bp_joining_in_progress := True, bp_joining_leaf_mac := bs_leaf_mac x, bp_join_started_ms := be_now env\<rparr> else s"
  have "keeps (x, s) (x, ?s)"
    by (simp add: conn_keeps_def engine_ok_def sane_def)
  moreover have "keeps (x, ?s) (snd (send_join_ack env dest accepted reason stage c))"
    unfolding Pair send_join_ack_def Let_def case_prod_beta
    by (auto intro!: keepsI quiet_intros simp: sane_def)
  ultimately show ?thesis unfolding Pair by (rule keeps_trans)
qed

lemma keeps_send_join_complete: "keeps c (snd (send_join_complete env dest reset c))"
proof -
  obtain sent x s where e: "send_join_ack env dest 1 0 100 c = (sent, x, s)" by (metis prod_cases3)
  have "keeps c (x, s)" using keeps_send_join_ack [of c env dest 1 0 100] by (simp add: e)
  moreover have "keeps (x, s) (snd (send_join_complete env dest reset c))"
    unfolding send_join_complete_def Let_def e by (auto intro!: keepsI quiet_intros simp: sane_def)
  ultimately show ?thesis by (rule keeps_trans)
qed

lemma keeps_send_state_ack: "keeps c (snd (send_state_ack env dest tx res c))"
  by (simp add: send_state_ack_def keeps_send_encrypted)

lemma keeps_send_schema_request: "keeps c (snd (send_schema_request env dest ty i c))"
proof (cases c)
  case (Pair x s)
  let ?e = "(log_entry True PKT_SCHEMA_REQUEST dest (2 + 17 + 8) 0 (bs_tx_counter x))
       \<lparr>le_show_entity := True, le_entity_index := i, le_entity_total := bs_total_entities x\<rparr>"
  obtain sent x1 s1 where e: "send_encrypted env dest PKT_SCHEMA_REQUEST downstream_hop_count
      (enc_schema_request \<lparr>sreq_descriptor_type = ty, sreq_descriptor_index = i\<rparr>) 0 (x, queue_log ?e s) = (sent, x1, s1)"
    by (metis prod_cases3)
  have "keeps (x, s) (x, queue_log ?e s)" by (intro keepsI quiet_intros) auto
  moreover have "keeps (x, queue_log ?e s) (x1, s1)"
    using keeps_send_encrypted [of "(x, queue_log ?e s)"] e by (metis snd_conv)
  moreover have "keeps (x1, s1) (snd (send_schema_request env dest ty i c))"
    unfolding Pair send_schema_request_def Let_def prod.case e by (auto intro!: keepsI quiet_intros simp: sane_def)
  ultimately show ?thesis unfolding Pair by (blast intro: keeps_trans)
qed

lemma keeps_send_chunks: "keeps c (snd (send_chunks env dest i v tx consume rc chunks c))"
proof (induction chunks arbitrary: c consume)
  case (Cons chunk chunks)
  obtain x s where c: "c = (x, s)" by (cases c)
  have log: "keeps (x, s) (x\<lparr>bs_tx_counter := t\<rparr>, queue_log e s)" "keeps (x, s) (x, queue_log e s)" for t e
    by (intro keepsI quiet_intros; simp)+
  note sent = log [THEN keeps_trans, OF keeps_send_tx]
  show ?case
    unfolding c send_chunks.simps Let_def prod.case case_prod_beta
    by (auto intro: sent sent [THEN keeps_trans, OF Cons.IH])
qed (simp add: keeps_refl)

lemma keeps_send_command_fragments: "keeps c (snd (send_command_fragments env dest i v tx consume rc c))"
  by (simp add: send_command_fragments_def keeps_send_chunks)

lemma keeps_send_command:
  assumes "length dest = 6"
  shows "keeps c (snd (send_command env dest i v c))"
proof -
  obtain ok x s where e: "send_command_fragments env dest i v (bs_tx_counter (fst c)) True 0 c = (ok, x, s)"
    by (metis prod_cases3)
  have "keeps c (x, s)"
    using keeps_send_command_fragments [of c env dest i v "bs_tx_counter (fst c)" True 0] by (simp add: e)
  moreover have "keeps (x, s) (snd (send_command env dest i v c))"
    using assms by (simp add: send_command_def Let_def e keeps_refl) (simp add: conn_keeps_def engine_ok_def sane_def)
  ultimately show ?thesis by (rule keeps_trans)
qed

lemma keeps_send_deauth: "keeps c (snd (send_deauth env dest ty tx req c))"
  by (cases c) (auto simp: send_deauth_def Let_def case_prod_beta intro!: keepsI quiet_intros)

lemma keeps_mark_online: "keeps c (mark_online env rssi tx rr c)"
  by (cases c) (auto simp: mark_online_def Let_def sane_def intro!: keepsI quiet_intros)

lemma set_omap_put: "set (omap_put k v m) \<subseteq> insert (k, v) (set m)"
  by (induction k v m rule: omap_put.induct) auto

lemma keeps_refresh: "keeps c (refresh_schema_cache c)"
  using set_omap_put [of "schema_cache_key (fst c)" _ "bp_schema_cache (snd c)"]
  by (cases c) (fastforce simp: refresh_schema_cache_def Let_def conn_keeps_def engine_ok_def sane_def)

lemma quiet_publish_entity [quiet_intros]: "quiet s t \<Longrightarrow> quiet s (publish_entity x e t)"
  by (auto simp: publish_entity_def intro!: quiet_intros)

lemma quiet_publish_entities: "quiet s t \<Longrightarrow> quiet s (fold (publish_entity x) es t)"
  by (induction es arbitrary: t) (auto intro!: quiet_intros)

lemma keeps_publish_all: "keeps c (publish_all_entities c)"
  by (cases c) (auto simp: publish_all_entities_def intro!: keepsI quiet_publish_entities quiet_intros)

lemma keeps_publish_one: "keeps c (publish_discovery_for_entity i c)"
  by (cases c) (auto simp: publish_discovery_for_entity_def intro!: keepsI quiet_intros)

lemma keeps_send_config_frame: "keeps c (snd (send_config_frame env p rc c))"
proof (cases c)
  case (Pair x s)
  have log: "keeps (x, s) (x, queue_log e s)" for e by (intro keepsI quiet_intros) auto
  show ?thesis
    unfolding Pair send_config_frame_def Let_def prod.case
    by (auto intro!: keeps_refl keeps_trans [OF log keeps_send_tx])
qed

lemmas keeps_ops = keeps_send_encrypted keeps_send_result keeps_send_tx keeps_send_join_ack keeps_send_join_complete
  keeps_send_state_ack keeps_send_schema_request keeps_send_command_fragments keeps_send_deauth keeps_mark_online
  keeps_refresh keeps_publish_all keeps_publish_one keeps_send_config_frame

section \<open>Fragments\<close>

lemma assembly_ok_fresh [simp]: "assembly_ok mef fresh_assembly" "assembly_ok mef (reset_fragment_assembly a)"
  by (simp_all add: assembly_ok_def fresh_assembly_def reset_fragment_assembly_def)

lemma assembly_ok_flags [simp]: "assembly_ok mef (a\<lparr>fa_flags := f\<rparr>) = assembly_ok mef a"
  by (simp add: assembly_ok_def)

lemma assembly_ok_open:
  assumes "assembly_ok mef a" "open_assembly a view tx now mef cap = Some b"
  shows "assembly_ok mef b \<and> fa_active b"
  using assms by (auto simp: open_assembly_def assembly_ok_def Let_def split: if_splits)

lemma unat_of_nat_le: "unat (word_of_nat n :: 'a::len word) \<le> n"
  by (simp add: unat_of_nat)

lemma assembly_ok_fill:
  assumes "assembly_ok mef a" "fa_active a"
  shows "assembly_ok mef (snd (fill_slot view mef cap a))"
proof -
  let ?i = "unat (epv_fragment_index view)" and ?n = "length (epv_value view)"
  have bound: "?i * unat mef + ?n \<le> length (fa_data a) \<Longrightarrow>
      ?i * unat mef + unat (word_of_nat ?n :: u16) \<le> length (fa_data a)"
    using unat_of_nat_le [of ?n, where 'a = 16] by linarith
  show ?thesis
    using assms bound
    by (auto simp: fill_slot_def assembly_ok_def Let_def length_overwrite nth_list_update)
qed

lemma assembly_ok_store:
  assumes "assembly_ok mef a"
  shows "assembly_ok mef (snd (store_fragment a view tx now mef cap))"
  using assms assembly_ok_open [OF assms]
  by (auto simp: store_fragment_def assembly_ok_fill split: option.split)

lemma assemblies_ok_put:
  assumes m: "assemblies_ok mef m" and a: "assembly_ok mef a"
    and room: "omap_find m k = None \<Longrightarrow> length m < ESPNOW_MAX_PENDING_FRAGMENT_ASSEMBLIES"
  shows "assemblies_ok mef (omap_put k a m)"
proof -
  have "length (omap_put k a m) \<le> 8"
    using omap.size_put [of m k a] m room by (auto simp: assemblies_ok_def)
  then show ?thesis
    using m a set_omap_put [of k a m] by (fastforce simp: assemblies_ok_def omap_ok_put)
qed

lemma assemblies_ok_find: "assemblies_ok mef m \<Longrightarrow> omap_find m k = Some a \<Longrightarrow> assembly_ok mef a"
  by (force simp: assemblies_ok_def omap_find_def dest: map_of_SomeD)

lemma assemblies_ok_filter: "assemblies_ok mef m \<Longrightarrow> assemblies_ok mef (filter Q m)"
  using length_filter_le [of Q m]
  by (auto simp: assemblies_ok_def omap_ok_def sorted_wrt_map_filter simp del: length_filter_le)

lemma assemblies_ok_erase: "assemblies_ok mef m \<Longrightarrow> assemblies_ok mef (omap_erase k m)"
  by (simp add: omap_erase_def assemblies_ok_filter)

lemma assemblies_ok_nil [simp]: "assemblies_ok mef []"
  by (simp add: assemblies_ok_def)

lemma assemblies_ok_stage:
  assumes m: "assemblies_ok mef m"
  shows "assemblies_ok mef (fst (snd (stage_fragment view tx now mef cap tot (m, r))))"
proof (cases "pick_assembly view tx mef m r")
  case None
  then show ?thesis using m by (simp add: stage_fragment_def)
next
  case (Some p)
  obtain a r1 where p: "p = (a, r1)" by (cases p)
  have a: "assembly_ok mef a"
    using Some p m by (auto simp: pick_assembly_def assemblies_ok_find split: option.splits if_splits)
  have room: "omap_find m (epv_entity_index view) = None \<Longrightarrow> length m < 8"
    using Some p by (auto simp: pick_assembly_def split: if_splits)
  show ?thesis
    using assemblies_ok_put [OF m a room] assemblies_ok_put [OF m assembly_ok_store [OF a] room]
    by (auto simp: stage_fragment_def Some p Let_def case_prod_beta)
qed

section \<open>Joining\<close>

lemma keeps_join_retry: "length sender = 6 \<Longrightarrow> keeps c (snd (join_retry env sender header rssi c))"
proof (cases c)
  case (Pair x s)
  assume "length sender = 6"
  then have "keeps (x, s) (x\<lparr>bs_next_hop_mac := sender, bs_last_seen_bridge_uptime_s := be_now env div 1000,
                 bs_last_seen_counter := fh_tx_counter header, bs_last_rssi := rssi\<rparr>, s)"
    by (intro keepsI quiet_intros) (simp_all add: sane_def)
  then show ?thesis unfolding Pair join_retry_def Let_def prod.case by (rule keeps_trans [OF _ keeps_send_join_ack])
qed

lemma keeps_join_keys:
  "length (join_remote_nonce join) = 16 \<Longrightarrow> keeps c (join_keys env join c)"
  by (cases c) (auto simp: join_keys_def Let_def fill_random_16_def sane_def intro!: keepsI quiet_intros)

lemma join_mtu_simps [simp]:
  "bs_leaf_mac (join_mtu s join x) = bs_leaf_mac x" "bs_parent_mac (join_mtu s join x) = bs_parent_mac x"
  "bs_session_key (join_mtu s join x) = bs_session_key x" "bs_bridge_nonce (join_mtu s join x) = bs_bridge_nonce x"
  "bs_remote_nonce (join_mtu s join x) = bs_remote_nonce x" "bs_firmware_md5 (join_mtu s join x) = bs_firmware_md5 x"
  "bs_discover_announce_leaf_mac (join_mtu s join x) = bs_discover_announce_leaf_mac x"
  "bs_join_complete_retry_count (join_mtu s join x) = bs_join_complete_retry_count x"
  "bs_session_key_valid (join_mtu s join x) = bs_session_key_valid x"
  by (simp_all add: join_mtu_def update_from_mtu_def Let_def)

lemma keeps_join_fresh:
  assumes "length sender = 6" "length (join_remote_nonce join) = 16" "length (join_schema_hash join) = 32"
  shows "keeps c (join_fresh env sender header join rssi c)"
proof -
  obtain x s where e: "join_keys env join c = (x, s)" by fastforce
  have "keeps c (x, s)" using keeps_join_keys [OF assms(2), of c env] by (simp add: e)
  moreover have "keeps (x, s) (join_fresh env sender header join rssi c)"
    unfolding join_fresh_def Let_def e prod.case using assms
    by (intro keepsI quiet_intros) (simp_all add: sane_def)
  ultimately show ?thesis by (rule keeps_trans)
qed

lemma sane_adopt: "sane x \<Longrightarrow> length (cd_firmware_md5 cd) = 16 \<Longrightarrow> sane (adopt_cached cd x)"
  by (simp add: sane_def adopt_cached_def)

lemma keeps_join_cached: "keeps c (snd (join_cached env sender header join key c))"
proof (cases c)
  case (Pair x s)
  define x1 where "x1 = (case omap_find (bp_schema_cache s) key of Some cd \<Rightarrow> adopt_cached cd x | None \<Rightarrow> x)"
  define x2 where "x2 = x1\<lparr>bs_schema_received := True, bs_total_entities := word_of_nat (length (bs_schema_entities x1))\<rparr>"
  define s1 where "s1 = call_fn SCHEMA_COMPLETE_FN (SchemaComplete (bs_leaf_mac x2) (bs_total_entities x2)) s"
  have "keeps (x, s) (x1, s)"
    by (auto simp: x1_def conn_keeps_def engine_ok_def omap_find_def adopt_cached_def
        dest!: map_of_SomeD intro!: sane_adopt [unfolded adopt_cached_def] split: option.split)
  moreover have "keeps (x1, s) (x2, s1)"
    unfolding x2_def s1_def by (intro keepsI quiet_intros) (simp_all add: sane_def)
  ultimately have k: "keeps (x, s) (x2, s1)" by (rule keeps_trans)
  show ?thesis
  proof (cases "join_dirty_count join = 0")
    case True
    obtain sent x3 s3 where e: "send_join_complete env sender True (x2, s1) = (sent, x3, s3)" by (metis prod_cases3)
    have "keeps (x2, s1) (x3, s3)" using keeps_send_join_complete [of "(x2, s1)" env sender True] by (simp add: e)
    moreover have "keeps (x3, s3) (x3, queue_state_log st msg s3)" for st msg by (intro keepsI quiet_intros) simp_all
    ultimately show ?thesis using k
      unfolding Pair join_cached_def Let_def prod.case x1_def [symmetric] x2_def [symmetric] s1_def [symmetric]
      by (auto simp: True e intro: keeps_trans)
  next
    case False
    define x3 where "x3 = x2\<lparr>bs_state_sync_pending := True, bs_awaiting_more_dirty := True\<rparr>"
    define s2 where "s2 = queue_state_log STATE_SYNC (''State: STATE_SYNC remote='' @ mac_hex sender @
                      '' (dirty_count='' @ dec_digits (unat (join_dirty_count join)) @ '')'') s1"
    obtain sent x4 s4 where e: "send_join_ack env sender 1 0 2 (x3, s2) = (sent, x4, s4)" by (metis prod_cases3)
    have "keeps (x2, s1) (x3, s2)"
      unfolding x3_def s2_def by (intro keepsI quiet_intros) (simp_all add: sane_def)
    moreover have "keeps (x3, s2) (x4, s4)" using keeps_send_join_ack [of "(x3, s2)" env sender 1 0 2] by (simp add: e)
    moreover have "keeps (x4, s4) (snd (join_cached env sender header join key c))"
      unfolding Pair join_cached_def Let_def prod.case x1_def [symmetric] x2_def [symmetric] s1_def [symmetric]
        x3_def [symmetric] s2_def [symmetric] e
      using False by (auto intro!: keepsI quiet_intros simp: sane_def)
    ultimately show ?thesis using k unfolding Pair by (blast intro: keeps_trans)
  qed
qed

lemma keeps_join_schema_refresh: "keeps c (snd (join_schema_refresh env sender header c))"
proof (cases c)
  case (Pair x s)
  define x1 where "x1 = x\<lparr>bs_schema_entities := [], bs_schema_received := False,
     bs_pending_schema_descriptor_type := 0, bs_pending_schema_index := 0\<rparr>"
  obtain ok x2 s2 where a: "send_join_ack env sender 1 0 1 (x1, s) = (ok, x2, s2)" by (metis prod_cases3)
  define y where "y = x2\<lparr>bs_schema_request_retries := 0\<rparr>"
  define s3 where "s3 = queue_state_log JOINED (''State: JOINED remote='' @ mac_hex (fh_leaf_mac header) @ '' (Schema Refresh)'') s2"
  obtain sent x3 s4 where r: "send_schema_request env sender 0 0 (y, s3) = (sent, x3, s4)" by (metis prod_cases3)
  have "keeps (x, s) (x1, s)" unfolding x1_def by (intro keepsI quiet_intros) (simp_all add: sane_def)
  moreover have "keeps (x1, s) (x2, s2)" using keeps_send_join_ack [of "(x1, s)" env sender 1 0 1] by (simp add: a)
  ultimately have k2: "keeps (x, s) (x2, s2)" by (rule keeps_trans)
  have "keeps (x2, s2) (y, s3)" unfolding y_def s3_def by (intro keepsI quiet_intros) (simp_all add: sane_def)
  moreover have "keeps (y, s3) (x3, s4)" using keeps_send_schema_request [of "(y, s3)" env sender 0 0] by (simp add: r)
  ultimately have k3: "keeps (x, s) (x3, s4)" using k2 by (blast intro: keeps_trans)
  have eq: "join_schema_refresh env sender header c =
      (if \<not> ok then (False, x2\<lparr>bs_join_in_progress := False, bs_online := False, bs_remote_state := LOG_NONE,
                      bs_schema_request_in_flight := False, bs_session_key_valid := False\<rparr>, s2)
       else if \<not> sent then (False, x3\<lparr>bs_schema_request_in_flight := sent, bs_join_in_progress := False, bs_online := False,
                      bs_remote_state := LOG_NONE, bs_schema_received := False, bs_session_key_valid := False\<rparr>, s4)
       else (True, x3\<lparr>bs_schema_request_in_flight := sent, bs_last_schema_request_ms := be_now env\<rparr>, s4))"
    unfolding Pair join_schema_refresh_def Let_def prod.case x1_def [symmetric] a y_def [symmetric] s3_def [symmetric] r
    by simp
  have end2: "keeps (x2, s2) (x2\<lparr>bs_join_in_progress := False, bs_online := False, bs_remote_state := LOG_NONE,
      bs_schema_request_in_flight := False, bs_session_key_valid := False\<rparr>, s2)"
    by (intro keepsI quiet_intros) (simp_all add: sane_def)
  have end3: "keeps (x3, s4) (x3\<lparr>bs_schema_request_in_flight := b, bs_join_in_progress := False, bs_online := False,
      bs_remote_state := LOG_NONE, bs_schema_received := False, bs_session_key_valid := False\<rparr>, s4)"
    "keeps (x3, s4) (x3\<lparr>bs_schema_request_in_flight := b, bs_last_schema_request_ms := be_now env\<rparr>, s4)" for b
    by (intro keepsI quiet_intros; simp add: sane_def)+
  show ?thesis
    unfolding eq unfolding Pair
    by (auto intro: keeps_trans [OF k2 end2] end3 [THEN keeps_trans [OF k3]])
qed

lemma keeps_join_session:
  assumes "length sender = 6" "length (join_remote_nonce join) = 16" "length (join_schema_hash join) = 32"
  shows "keeps c (snd (join_session env sender header join rssi c))"
proof (cases c)
  case (Pair x s)
  have idle: "keeps (x, s) (x\<lparr>bs_join_in_progress := False\<rparr>, s)"
    by (intro keepsI quiet_intros) (simp_all add: sane_def)
  obtain x1 s1 where f: "join_fresh env sender header join rssi (x\<lparr>bs_join_in_progress := False\<rparr>, s) = (x1, s1)" by fastforce
  have k: "keeps (x, s) (x1, s1)"
    using keeps_trans [OF idle keeps_join_fresh [OF assms]] f by metis
  show ?thesis
    unfolding Pair join_session_def Let_def prod.case f
    by (auto intro!: keeps_send_join_ack keeps_join_retry assms keeps_trans [OF k keeps_join_cached]
        keeps_trans [OF k keeps_join_schema_refresh])
qed

section \<open>Schema and state\<close>

lemma keeps_request_next: "keeps c (snd (request_next_entity env sender i c))"
proof -
  obtain sent x s where e: "send_schema_request env sender 1 i c = (sent, x, s)" by (metis prod_cases3)
  have "keeps c (x, s)" using keeps_send_schema_request [of c env sender 1 i] by (simp add: e)
  moreover have "keeps (x, s) (snd (request_next_entity env sender i c))"
    by (auto simp: request_next_entity_def Let_def e sane_def intro!: keepsI quiet_intros)
  ultimately show ?thesis by (rule keeps_trans)
qed

lemma keeps_publish_cached: "keeps c (publish_all_entities (refresh_schema_cache c))"
  by (rule keeps_trans [OF keeps_refresh keeps_publish_all])

lemma keeps_accept_identity:
  assumes "length (ident_firmware_md5 ident) = 16"
  shows "keeps c (snd (accept_identity env sender ident c))"
proof (cases c)
  case (Pair x s)
  define x1 where "x1 = x\<lparr>bs_esphome_name := c_string 32 (ident_esphome_name ident),
                 bs_node_label := c_string 64 (ident_node_label ident),
                 bs_firmware_epoch := ident_firmware_epoch ident,
                 bs_project_name := c_string 32 (ident_project_name ident),
                 bs_project_version := c_string 16 (ident_project_version ident),
                 bs_total_entities := ident_total_entities ident, bs_chip_model := ident_chip_model ident,
                 bs_build_date := c_string 16 (ident_build_date ident),
                 bs_build_time := c_string 16 (ident_build_time ident),
                 bs_firmware_md5 := ident_firmware_md5 ident,
                 bs_pending_schema_descriptor_type := 1,
                 bs_pending_schema_index := 0, bs_schema_request_retries := 0\<rparr>"
  define s1 where "s1 = (if bs_schema_entities x1 \<noteq> []
                then call_fn CLEAR_ENTITIES_FN (ClearEntities (bs_leaf_mac x1) (bs_schema_entities x1)) s else s)"
  define y where "y = x1\<lparr>bs_schema_received := True, bs_schema_request_in_flight := False, bs_pending_schema_index := 0xFF\<rparr>"
  obtain x2 s2 where p: "publish_all_entities (refresh_schema_cache (y, s1)) = (x2, s2)" by fastforce
  have k1: "keeps (x, s) (x1, s1)"
    unfolding x1_def s1_def using assms by (intro keepsI) (auto simp: sane_def intro!: quiet_intros)
  have "keeps (x1, s1) (y, s1)" unfolding y_def by (intro keepsI quiet_intros) (simp_all add: sane_def)
  moreover have "keeps (y, s1) (x2, s2)" using keeps_publish_cached [of "(y, s1)"] by (simp add: p)
  ultimately have "keeps (x, s) (x2, s2)" using k1 by (blast intro: keeps_trans)
  moreover have "keeps (x2, s2) (x2, call_fn f ev s2)" for f ev by (intro keepsI quiet_intros) simp_all
  ultimately have k2: "keeps (x, s) (x2, call_fn f ev s2)" for f ev by (blast intro: keeps_trans)
  show ?thesis
    unfolding Pair accept_identity_def Let_def prod.case x1_def [symmetric] s1_def [symmetric] y_def [symmetric] p
    by (auto intro: keeps_trans [OF k1 keeps_request_next] keeps_trans [OF k2 keeps_send_join_complete])
qed

lemma keeps_accept_entity:
  assumes "length sender = 6"
  shows "keeps c (snd (accept_entity env sender push c))"
proof (cases c)
  case (Pair x s)
  define x1 where "x1 = x\<lparr>bs_schema_entities := put_entity (unat (spv_entity_index push)) (entity_of_push push) (bs_schema_entities x),
                 bs_total_entities := spv_total_entities push, bs_next_hop_mac := sender\<rparr>"
  define y where "y = x1\<lparr>bs_schema_received := True, bs_schema_request_in_flight := False, bs_pending_schema_index := 0xFF,
                     bs_pending_schema_descriptor_type := 1\<rparr>"
  define z where "z = x1\<lparr>bs_awaiting_discovery_confirm := False, bs_pending_schema_request_index := 0xFF,
                   bs_last_discovery_confirm_ms := 0, bs_pending_schema_descriptor_type := 1,
                   bs_pending_schema_index := spv_entity_index push, bs_schema_request_retries := 1\<rparr>"
  obtain x2 s2 where p: "publish_all_entities (refresh_schema_cache (y, s)) = (x2, s2)" by fastforce
  define x3 where "x3 = x2\<lparr>bs_pending_discovery_count := 0, bs_discovery_all_confirmed := True\<rparr>"
  define s3 where "s3 = call_fn SCHEMA_COMPLETE_FN (SchemaComplete (bs_leaf_mac x3) (bs_total_entities x3)) s2"
  define x4 where "x4 = x3\<lparr>bs_state_sync_pending := True, bs_awaiting_more_dirty := True\<rparr>"
  obtain sent x5 s5 where a: "send_join_ack env sender 1 0 2 (x4, s3) = (sent, x5, s5)" by (metis prod_cases3)
  have "keeps (x, s) (y, s)" "keeps (x, s) (z, s)"
    unfolding y_def z_def x1_def using assms by (intro keepsI quiet_intros; simp add: sane_def)+
  moreover have "keeps (y, s) (x2, s2)" using keeps_publish_cached [of "(y, s)"] by (simp add: p)
  moreover have "keeps (x2, s2) (x3, s3)" unfolding x3_def s3_def by (intro keepsI quiet_intros) (simp_all add: sane_def)
  ultimately have k3: "keeps (x, s) (x3, s3)" and kz: "keeps (x, s) (z, s)" by (blast intro: keeps_trans)+
  have "keeps (x3, s3) (x4, s3)" unfolding x4_def by (intro keepsI quiet_intros) (simp_all add: sane_def)
  moreover have "keeps (x4, s3) (x5, s5)" using keeps_send_join_ack [of "(x4, s3)" env sender 1 0 2] by (simp add: a)
  moreover have "keeps (x5, s5) (x5, queue_state_log st msg s5)" for st msg by (intro keepsI quiet_intros) simp_all
  ultimately have k5: "keeps (x, s) (x5, queue_state_log st msg s5)" for st msg using k3 by (blast intro: keeps_trans)
  show ?thesis
    unfolding Pair accept_entity_def Let_def prod.case x1_def [symmetric] y_def [symmetric] z_def [symmetric] p
      x3_def [symmetric] s3_def [symmetric] x4_def [symmetric] a
    by (auto intro: k5 keeps_trans [OF k3 keeps_send_join_complete]
        keeps_trans [OF keeps_trans [OF kz keeps_publish_one] keeps_request_next])
qed

lemma keeps_accept_descriptor:
  assumes "length sender = 6"
  shows "keeps c (snd (accept_descriptor env sender descr c))"
  using assms
  by (auto simp: accept_descriptor_def keeps_refl keeps_accept_entity parse_identity_descriptor_payload_def
      dec_identity_descriptor_def intro!: keeps_accept_identity split: option.split)

lemma keeps_schema_fragment:
  assumes "length sender = 6"
  shows "keeps c (snd (schema_fragment env sender header n view c))"
proof (cases c)
  case (Pair x s)
  obtain stored m r where st: "stage_fragment view (fragment_message_tx_base header view) (be_now env)
      (bs_max_entity_fragment x) (bs_max_assembly_bytes x) (bs_max_total_fragment_bytes x)
      (bs_pending_schema_assemblies x, bs_schema_reserved_bytes x) = (stored, m, r)" by (metis prod_cases3)
  have m: "sane x \<Longrightarrow> assemblies_ok (bs_max_entity_fragment x) m"
    using assemblies_ok_stage [of "bs_max_entity_fragment x" "bs_pending_schema_assemblies x" view _ _ _ _
        "bs_schema_reserved_bytes x"] st by (fastforce simp: sane_def dest: arg_cong [of _ _ "\<lambda>p. fst (snd p)"])
  define x1 where "x1 = x\<lparr>bs_pending_schema_assemblies := m, bs_schema_reserved_bytes := r\<rparr>"
  define x2 where "x2 = x1\<lparr>bs_last_seen_counter := max (bs_last_seen_counter x1) (fh_tx_counter header),
                         bs_last_seen_bridge_uptime_s := be_now env div 1000,
                         bs_pending_schema_index := epv_entity_index view, bs_schema_request_retries := 0,
                         bs_last_schema_request_ms := 0\<rparr>"
  have k1: "keeps (x, s) (x1, s)"
    unfolding x1_def using m by (intro keepsI quiet_intros) (simp_all add: sane_def)
  have k2: "keeps (x, s) (x2, queue_log e s)" for e
    by (rule keeps_trans [OF k1], unfold x2_def, intro keepsI quiet_intros) (simp_all add: sane_def)
  have k3: "keeps (x2, s1) (x2\<lparr>bs_schema_reserved_bytes := r1,
       bs_pending_schema_assemblies := omap_erase i (bs_pending_schema_assemblies x2)\<rparr>, s1)" for r1 i s1
    by (intro keepsI quiet_intros) (simp_all add: sane_def assemblies_ok_erase)
  show ?thesis
    unfolding Pair schema_fragment_def Let_def prod.case st x1_def [symmetric] x2_def [symmetric]
    by (auto intro: k1 k2 keeps_trans [OF keeps_trans [OF k2 k3] keeps_accept_descriptor [OF assms]] split: option.split)
qed

lemma keeps_online_again: "keeps c (online_again env rssi tx c)"
  by (simp add: online_again_def keeps_refl keeps_mark_online)

lemma keeps_complete_state: "keeps c (complete_state env sender header rssi view a c)"
proof (cases c)
  case (Pair x s)
  define x1 where "x1 = (if bs_state_sync_pending x
                then x\<lparr>bs_awaiting_more_dirty := (fa_flags a AND 2 \<noteq> 0)\<rparr> else x)"
  define x2 where "x2 = x1\<lparr>bs_state_reserved_bytes := bs_state_reserved_bytes x1 - word_of_nat (length (fa_data a)),
                  bs_pending_state_assemblies := omap_erase (epv_entity_index view) (bs_pending_state_assemblies x1)\<rparr>"
  obtain x3 s3 where o: "online_again env rssi (fh_tx_counter header) (x2, s) = (x3, s3)" by fastforce
  have "keeps (x, s) (x1, s)" unfolding x1_def by (intro keepsI quiet_intros) (simp_all add: sane_def)
  moreover have "keeps (x1, s) (x2, s)"
    unfolding x2_def by (intro keepsI quiet_intros) (simp_all add: sane_def assemblies_ok_erase)
  moreover have "keeps (x2, s) (x3, s3)" using keeps_online_again [of "(x2, s)" env rssi "fh_tx_counter header"] by (simp add: o)
  moreover have "keeps (x3, s3) (x3, call_fn f ev s3)" for f ev by (intro keepsI quiet_intros) simp_all
  ultimately have "keeps (x, s) (x3, call_fn f ev s3)" for f ev by (blast intro: keeps_trans)
  moreover have "(if bs_remote_state x2 = NORMAL \<and> \<not> bs_online x2
                      then mark_online env rssi (fh_tx_counter header) 0 (x2, s) else (x2, s)) = (x3, s3)"
    using o by (simp add: online_again_def)
  ultimately show ?thesis
    unfolding Pair complete_state_def Let_def prod.case x1_def [symmetric] x2_def [symmetric] by simp
qed

lemma keeps_state_fragment: "keeps c (snd (state_fragment env sender header n rssi view c))"
proof (cases c)
  case (Pair x s)
  obtain stored m r where st: "stage_fragment view (fragment_message_tx_base header view) (be_now env)
      (bs_max_entity_fragment x) (bs_max_assembly_bytes x) (bs_max_total_fragment_bytes x)
      (bs_pending_state_assemblies x, bs_state_reserved_bytes x) = (stored, m, r)" by (metis prod_cases3)
  have m: "sane x \<Longrightarrow> assemblies_ok (bs_max_entity_fragment x) m"
    using assemblies_ok_stage [of "bs_max_entity_fragment x" "bs_pending_state_assemblies x" view _ _ _ _
        "bs_state_reserved_bytes x"] st by (fastforce simp: sane_def dest: arg_cong [of _ _ "\<lambda>p. fst (snd p)"])
  define x1 where "x1 = x\<lparr>bs_pending_state_assemblies := m, bs_state_reserved_bytes := r\<rparr>"
  define x2 where "x2 = x1\<lparr>bs_last_seen_counter := max (bs_last_seen_counter x1) (fh_tx_counter header),
                         bs_last_seen_bridge_uptime_s := be_now env div 1000\<rparr>"
  have k1: "keeps (x, s) (x1, queue_log e s)" for e
    unfolding x1_def using m by (intro keepsI quiet_intros) (simp_all add: sane_def)
  have k2: "keeps (x, s) (x2, queue_log e s)" for e
    by (rule keeps_trans [OF k1 [of e]], unfold x2_def, intro keepsI quiet_intros) (simp_all add: sane_def)
  show ?thesis
    unfolding Pair state_fragment_def Let_def prod.case st x1_def [symmetric] x2_def [symmetric]
    by (auto intro: keeps_refl keeps_send_state_ack k1 k2 keeps_trans [OF k2 keeps_complete_state] split: option.split)
qed

section \<open>Heartbeats and acknowledgements\<close>

lemma keeps_accept_heartbeat:
  assumes "length sender = 6" "length (hb_parent_mac hb) = 6"
  shows "keeps c (accept_heartbeat env sender header rssi hb c)"
proof (cases c)
  case (Pair x s)
  define x1 where "x1 = x\<lparr>bs_last_seen_counter := fh_tx_counter header,
                 bs_last_seen_bridge_uptime_s := be_now env div 1000,
                 bs_uptime_seconds := hb_uptime_seconds hb,
                 bs_expected_contact_interval_s := hb_expected_contact_interval_seconds hb,
                 bs_parent_mac := hb_parent_mac hb, bs_parent_mac_hex_key := mac_hex (hb_parent_mac hb)\<rparr>"
  define s1 where "s1 = (if bs_parent_mac x \<noteq> hb_parent_mac hb \<and> bs_online x1
                then call_fn PUBLISH_TOPOLOGY_CHANGED_FN (PublishTopologyChanged (bs_leaf_mac x1) ''route_changed'') s
                else s)"
  define x2 where "x2 = x1\<lparr>bs_direct_child_count := hb_direct_child_count hb, bs_total_child_count := hb_total_child_count hb,
                  bs_last_rssi := hb_remote_rssi_dbm hb, bs_next_hop_mac := sender\<rparr>"
  obtain y t where o: "mark_online env rssi (fh_tx_counter header) (hb_remote_rssi_dbm hb)
                              (x2\<lparr>bs_remote_state := NORMAL\<rparr>, s1) = (y, t)" by fastforce
  have "keeps (x, s) (x1, s1)"
    unfolding x1_def s1_def using assms by (intro keepsI) (auto simp: sane_def intro!: quiet_intros)
  moreover have "keeps (x1, s1) (x2, s1)" "keeps (x2, s1) (x2\<lparr>bs_remote_state := NORMAL\<rparr>, s1)"
    unfolding x2_def using assms by (intro keepsI quiet_intros; simp add: sane_def)+
  moreover have "keeps (x2\<lparr>bs_remote_state := NORMAL\<rparr>, s1) (y, t)"
    using keeps_mark_online [of "(x2\<lparr>bs_remote_state := NORMAL\<rparr>, s1)"] o by metis
  moreover have "keeps (y, t) (y, queue_state_log st msg t)" for st msg by (intro keepsI quiet_intros) simp_all
  ultimately have k: "keeps (x, s) (x2, s1)" "keeps (x, s) (y, queue_state_log st msg t)" for st msg
    by (blast intro: keeps_trans)+
  have fin: "keeps (z, u) (z\<lparr>bs_join_complete_pending := False, bs_join_complete_retry_count := 0,
      bs_last_join_complete_ms := 0, bs_join_in_progress := False\<rparr>, u)" "keeps (z, u) (z\<lparr>bs_join_in_progress := False\<rparr>, u)"
    for z u by (intro keepsI quiet_intros; simp add: sane_def)+
  show ?thesis
    unfolding Pair accept_heartbeat_def Let_def prod.case x1_def [symmetric] s1_def [symmetric] x2_def [symmetric] o
    by (auto intro: k [THEN keeps_trans, OF fin(1)] k [THEN keeps_trans, OF fin(2)])
qed

lemma extract_first_set: "extract_first Q ys = Some (y, zs) \<Longrightarrow> set zs \<subseteq> set ys"
  by (induction ys arbitrary: zs) (auto split: if_splits)

lemma keeps_config_ack: "keeps c (config_ack env tx rssi ack trailing c)"
proof (cases c)
  case (Pair x s)
  show ?thesis
  proof (cases "extract_first (\<lambda>p. ack_ref_tx_counter ack = pg_tx_base p \<and> bs_leaf_mac x = pg_leaf_mac p) (bp_pending_configs s)")
    case None
    then show ?thesis by (simp add: Pair config_ack_def keeps_refl)
  next
    case (Some q)
    obtain p rest where q: "q = (p, rest)" by fastforce
    have sub: "set rest \<subseteq> set (bp_pending_configs s)" using extract_first_set Some q by metis
    obtain x1 s1 where o: "online_again env rssi tx (x, s\<lparr>bp_pending_configs := rest\<rparr>) = (x1, s1)" by fastforce
    have "engine_ok s \<Longrightarrow> engine_ok (s\<lparr>bp_pending_configs := rest\<rparr>)" using sub unfolding engine_ok_def by auto
    then have "keeps (x, s) (x, s\<lparr>bp_pending_configs := rest\<rparr>)" by (simp add: conn_keeps_def)
    moreover have "keeps (x, s\<lparr>bp_pending_configs := rest\<rparr>) (x1, s1)"
      using keeps_online_again [of "(x, s\<lparr>bp_pending_configs := rest\<rparr>)"] o by metis
    moreover have "keeps (x1, s1) (x1, s1\<lparr>bp_events := es\<rparr>)" for es by (intro keepsI quiet_intros) simp_all
    ultimately show ?thesis
      by (auto simp: Pair config_ack_def Let_def Some q o split: option.split intro: keeps_trans)
  qed
qed

lemma quiet_command_acked [quiet_intros]: "quiet s (command_acked m ack s)"
proof (cases "extract_first (\<lambda>p. ack_ref_tx_counter ack = pc_tx_base p \<and> m = pc_leaf_mac p) (bp_command_queue s)")
  case (Some q)
  obtain p rest where q: "q = (p, rest)" by fastforce
  have "set rest \<subseteq> set (bp_command_queue s)" using extract_first_set Some q by metis
  then have "engine_ok s \<Longrightarrow> engine_ok (s\<lparr>bp_command_queue := rest\<rparr>)" unfolding engine_ok_def by auto
  then show ?thesis by (simp add: quiet_def command_acked_def Some q)
qed (simp add: command_acked_def quiet_refl)

lemma keeps_accept_ack: "keeps c (snd (accept_ack env header rssi plaintext c))"
proof (cases c)
  case (Pair x s)
  define y where "y = x\<lparr>bs_last_seen_counter := fh_tx_counter header, bs_last_seen_bridge_uptime_s := be_now env div 1000\<rparr>"
  have k: "keeps (x, s) (y, t)" if "quiet s t" for t
    unfolding y_def using that by (intro keepsI) (simp_all add: sane_def)
  show ?thesis
    unfolding Pair accept_ack_def Let_def prod.case y_def [symmetric]
    by (auto intro!: k quiet_intros keeps_trans [OF k keeps_config_ack] keeps_trans [OF k keeps_online_again])
qed

end
