(* ===== verification/Bridge_Reach.thy ===== *)
theory Bridge_Reach
  imports Bridge_Inv
begin

text \<open>
  The states a bridge can get to.  \<open>bridge_step\<close> is one call into the protocol engine: a frame from the
  radio, a turn of the main loop, an answer of the exporter, a request of the configuration or of the
  transfer manager.  Every step keeps the invariant \<open>bridge_ok\<close>.
\<close>

section \<open>Handlers\<close>

lemma ok_quiet: "bridge_ok s \<Longrightarrow> quiet s t \<Longrightarrow> bridge_ok t"
  using bridge_inv.inv_io [of s t] by (simp add: quiet_def)

lemmas ok_put = bridge_inv.inv_put_conn

lemma sane_new_session: "sane new_session"
  by (simp add: sane_def new_session_def)

lemma ensure_session_leaf [simp]: "bs_leaf_mac (ensure_session s m) = m"
  by (simp add: ensure_session_def Let_def)

lemma sane_ensure_session: "bridge_ok s \<Longrightarrow> length m = 6 \<Longrightarrow> sane (ensure_session s m)"
  using sane_new_session bridge_inv.inv_get [of s m]
  by (auto simp: ensure_session_def Let_def sane_def split: option.split)

lemma ok_ensure:
  assumes "bridge_ok s" "length m = 6" "keeps (ensure_session s m, s) c"
  shows "bridge_ok (put_conn m c)"
  using bridge_inv.inv_put_new [OF assms(1) sane_ensure_session [OF assms(1, 2)] ensure_session_leaf assms(3)] .

lemma put_session_conn: "put_session m x s = put_conn m (x, s)"
  by (simp add: put_conn_def)

lemma ok_handle_discover:
  assumes "bridge_ok s" "length sender = 6" "length (fh_leaf_mac header) = 6"
  shows "bridge_ok (snd (handle_discover env sender header payload s))"
proof -
  let ?x = "ensure_session s (fh_leaf_mac header)"
  have "keeps (?x, s) (?x\<lparr>bs_discover_announce_deadline_ms := d, bs_discover_announce_leaf_mac := sender\<rparr>,
      snd (esp_random env s))" for d
    using assms(2) by (intro keepsI quiet_intros) (simp_all add: sane_def)
  then show ?thesis
    using assms by (auto simp: handle_discover_def Let_def case_prod_beta put_session_conn intro!: ok_ensure)
qed

lemma ok_handle_join:
  assumes "bridge_ok s" "length sender = 6" "length (fh_leaf_mac header) = 6"
  shows "bridge_ok (snd (handle_join env sender header payload rssi s))"
  using assms
  by (auto simp: handle_join_def Let_def case_prod_beta dec_join_def intro!: ok_ensure keeps_join_session)

lemma ok_handle_schema_push:
  assumes "bridge_ok s" "length sender = 6"
  shows "bridge_ok (snd (handle_schema_push env sender header payload tag s))"
  using assms
  by (auto simp: handle_schema_push_def Let_def case_prod_beta split: option.split
      intro: ok_put [OF assms(1) _ keeps_schema_fragment [OF assms(2)]])

lemma ok_handle_state:
  assumes "bridge_ok s"
  shows "bridge_ok (snd (handle_state env sender header payload rssi tag s))"
  using assms
  by (auto simp: handle_state_def Let_def case_prod_beta split: option.split
      intro: ok_put [OF assms _ keeps_state_fragment] ok_put [OF assms _ keeps_send_deauth])

lemma ok_handle_heartbeat:
  assumes "bridge_ok s" "length sender = 6"
  shows "bridge_ok (snd (handle_heartbeat env sender header payload rssi tag s))"
  using assms
  by (auto simp: handle_heartbeat_def Let_def dec_heartbeat_def split: option.split
      intro!: ok_put [OF assms(1) _ keeps_accept_heartbeat])

lemma ok_handle_ack:
  assumes "bridge_ok s"
  shows "bridge_ok (snd (handle_ack env header payload rssi tag s))"
  using assms
  by (auto simp: handle_ack_def Let_def case_prod_beta split: option.split intro: ok_put [OF assms _ keeps_accept_ack])

lemma keeps_note_packet: "length sender = 6 \<Longrightarrow> keeps c (note_packet sender header rssi c)"
  by (cases c) (auto simp: note_packet_def Let_def sane_def intro!: keepsI quiet_intros)

lemma ok_session_packet:
  assumes ok: "bridge_ok s" and len: "length sender = 6" "length (fh_leaf_mac header) = 6"
  shows "bridge_ok (snd (session_packet env sender ty header n payload rssi tag s))"
proof (cases "get_session s (fh_leaf_mac header)")
  case None
  let ?x = "new_session\<lparr>bs_leaf_mac := fh_leaf_mac header, bs_next_hop_mac := sender\<rparr>"
  have "sane ?x" using sane_new_session len by (simp add: sane_def)
  then have "bridge_ok (snd (snd (send_deauth env sender (fh_packet_type header) (fh_tx_counter header) payload (?x, s))))"
    using keeps_send_deauth [of "(?x, s)" env sender "fh_packet_type header" "fh_tx_counter header" payload]
      bridge_inv.inv_E [OF ok]
    by (intro bridge_inv.inv_io [OF ok]) (simp_all add: conn_keeps_def)
  then show ?thesis by (simp add: session_packet_def None case_prod_beta Let_def)
next
  case (Some x)
  let ?y = "x\<lparr>bs_next_hop_mac := sender, bs_last_rssi := rssi\<rparr>"
  have "keeps (x, s) (?y, s)" using len by (intro keepsI quiet_intros) (simp_all add: sane_def)
  note deauth = ok_put [OF ok Some keeps_trans [OF this keeps_send_deauth]]
  define s1 where "s1 = put_conn (fh_leaf_mac header) (note_packet sender header rssi (x, s))"
  have ok1: "bridge_ok s1" unfolding s1_def by (rule ok_put [OF ok Some keeps_note_packet [OF len(1)]])
  define s2 where "s2 = put_session (fh_leaf_mac header) (ensure_session s1 (fh_leaf_mac header)) s1"
  have ok2: "bridge_ok s2" unfolding s2_def put_session_conn by (rule ok_ensure [OF ok1 len(2) keeps_refl])
  show ?thesis
    unfolding session_packet_def Some option.case Let_def s1_def [symmetric] s2_def [symmetric] case_prod_beta
    using ok2 len deauth by (auto intro: ok_handle_state ok_handle_heartbeat ok_handle_ack)
qed

lemma quiet_rx_log [quiet_intros]: "quiet s t \<Longrightarrow> quiet s (rx_log env ty sender n rssi header t)"
  by (auto simp: rx_log_def Let_def intro!: quiet_intros)

lemma parse_frame_leaf: "parse_frame env s frame = Some (header, payload, tag, par) \<Longrightarrow> length (fh_leaf_mac header) = 6"
  by (auto simp: parse_frame_def Let_def dec_frame_header_def split: if_splits option.splits)

lemma ok_on_espnow_frame:
  assumes "bridge_ok s" "length sender = 6"
  shows "bridge_ok (snd (on_espnow_frame env sender frame rssi s))"
proof -
  have log: "bridge_ok (rx_log env ty sender (length frame) rssi header s)" for ty header
    using assms(1) by (rule ok_quiet) (intro quiet_intros)
  show ?thesis
    using assms parse_frame_leaf [of env s frame] log
    by (auto simp: on_espnow_frame_def Let_def split: option.split
        intro: ok_handle_discover ok_session_packet ok_handle_join ok_handle_schema_push)
qed

lemma ok_confirm_state:
  assumes ok: "bridge_ok s"
  shows "bridge_ok (snd (confirm_state_delivery env m tx hop s))"
proof (cases "get_session s m")
  case (Some x)
  have k: "keeps (x, s) (x\<lparr>bs_last_completed_state_message_tx_base := tx\<rparr>, s)"
    "keeps (x, s) (x\<lparr>bs_last_completed_state_message_tx_base := tx, bs_state_sync_pending := False\<rparr>, s)"
    by (intro keepsI quiet_intros; simp add: sane_def)+
  show ?thesis
    by (cases hop) (auto simp: ok confirm_state_delivery_def Some Let_def case_prod_beta keeps_refl
        intro!: ok_put [OF ok Some keeps_trans [OF _ keeps_send_state_ack]]
          k keeps_trans [OF k(2) keeps_send_join_complete, unfolded prod.collapse])
qed (simp add: ok confirm_state_delivery_def)

lemma ok_check_join:
  assumes ok: "bridge_ok s"
  shows "bridge_ok (check_and_complete_join env m s)"
proof (cases "get_session s m")
  case (Some x)
  have "keeps (x, s) (x\<lparr>bs_state_sync_pending := False\<rparr>, s)"
    by (intro keepsI quiet_intros) (simp_all add: sane_def)
  from ok_put [OF ok Some keeps_trans [OF this keeps_send_join_complete]] show ?thesis
    by (simp add: check_and_complete_join_def Some ok)
qed (simp add: ok check_and_complete_join_def)

lemma keeps_schema_rerequest:
  assumes "keeps (x, s) (x1, s)"
  shows "keeps (x, s) (case send_schema_request env hop ty i (x1\<lparr>bs_schema_request_retries := 1\<rparr>, s) of
     (sent, y, t) \<Rightarrow> (y\<lparr>bs_schema_request_in_flight := sent, bs_last_schema_request_ms := a, bs_last_discovery_confirm_ms := b\<rparr>, t))"
    "keeps (x, s) (case send_schema_request env hop ty i (x1\<lparr>bs_schema_request_retries := 1\<rparr>, s) of
     (sent, y, t) \<Rightarrow> (y\<lparr>bs_schema_request_in_flight := sent, bs_last_schema_request_ms := a\<rparr>, t))"
proof -
  obtain sent y t where e: "send_schema_request env hop ty i (x1\<lparr>bs_schema_request_retries := 1\<rparr>, s) = (sent, y, t)"
    by (metis prod_cases3)
  have "keeps (x1, s) (x1\<lparr>bs_schema_request_retries := 1\<rparr>, s)" by (intro keepsI quiet_intros) (simp_all add: sane_def)
  moreover have "keeps (x1\<lparr>bs_schema_request_retries := 1\<rparr>, s) (y, t)" using keeps_send_schema_request e by (metis snd_conv)
  ultimately have k: "keeps (x, s) (y, t)" using assms by (blast intro: keeps_trans)
  have "keeps (y, t) (y\<lparr>bs_schema_request_in_flight := sent, bs_last_schema_request_ms := a, bs_last_discovery_confirm_ms := b\<rparr>, t)"
    "keeps (y, t) (y\<lparr>bs_schema_request_in_flight := sent, bs_last_schema_request_ms := a\<rparr>, t)"
    by (intro keepsI quiet_intros; simp add: sane_def)+
  then show "keeps (x, s) (case send_schema_request env hop ty i (x1\<lparr>bs_schema_request_retries := 1\<rparr>, s) of
     (sent, y, t) \<Rightarrow> (y\<lparr>bs_schema_request_in_flight := sent, bs_last_schema_request_ms := a, bs_last_discovery_confirm_ms := b\<rparr>, t))"
    "keeps (x, s) (case send_schema_request env hop ty i (x1\<lparr>bs_schema_request_retries := 1\<rparr>, s) of
     (sent, y, t) \<Rightarrow> (y\<lparr>bs_schema_request_in_flight := sent, bs_last_schema_request_ms := a\<rparr>, t))"
    using k by (auto simp: e intro: keeps_trans)
qed

lemma ok_discovery:
  assumes ok: "bridge_ok s"
  shows "bridge_ok (on_discovery_confirmed env m i success s)"
proof (cases "get_session s m")
  case (Some x)
  have one: "keeps (x, s) (confirm_one_discovery x, s)" "keeps (x, s) ((confirm_one_discovery x)\<lparr>bs_awaiting_discovery_confirm := False\<rparr>, s)"
    by (intro keepsI quiet_intros; simp add: confirm_one_discovery_def Let_def sane_def)+
  show ?thesis
    using ok_put [OF ok Some one(1)] ok_put [OF ok Some one(2)] ok_put [OF ok Some keeps_refl]
      ok_put [OF ok Some keeps_schema_rerequest(1) [OF keeps_refl]] ok_put [OF ok Some keeps_schema_rerequest(2) [OF one(2)]]
    by (auto simp: on_discovery_confirmed_def Some Let_def put_session_conn case_prod_beta)
qed (simp add: ok on_discovery_confirmed_def)

section \<open>The loop\<close>

lemma quiet_tick [quiet_intros]: "quiet s (tick_uptime now s)"
  by (simp add: quiet_def engine_ok_def tick_uptime_def Let_def log_ok_def)

lemma keeps_expire_schema: "keeps (x, s) (expire_schema_fragments now x, s)"
  by (intro keepsI quiet_intros) (simp_all add: expire_schema_fragments_def Let_def sane_def assemblies_ok_filter)

lemma keeps_expire_state: "keeps (x, s) (expire_state_fragments now x, s)"
  by (intro keepsI quiet_intros) (simp_all add: expire_state_fragments_def Let_def sane_def assemblies_ok_filter)

lemma ok_session_cleanup:
  assumes "bridge_ok s"
  shows "bridge_ok (session_cleanup env s)"
proof -
  have q: "quiet s (s\<lparr>bp_last_session_cleanup_ms := n\<rparr>)" for n by (simp add: quiet_def engine_ok_def log_ok_def)
  have "bridge_ok (snd (evict_sessions_for_ram env False (s\<lparr>bp_last_session_cleanup_ms := n\<rparr>)))" for n
    by (rule bridge_inv.inv_evict [OF ok_quiet [OF assms q]])
  then show ?thesis
    using assms
    by (auto simp: session_cleanup_def Let_def keeps_expire_schema bridge_inv.inv_trim intro!: bridge_inv.inv_all_sessions)
qed

lemma quiet_announce_offline [quiet_intros]: "quiet s t \<Longrightarrow> quiet s (announce_offline x t)"
  by (simp add: announce_offline_def quiet_call_fn_intro)

lemma keeps_offline_check: "keeps c (offline_check now c)"
  by (cases c) (auto simp: offline_check_def Let_def sane_def intro!: keepsI quiet_intros)

lemma keeps_schema_retry: "keeps c (schema_retry env c)"
proof (cases c)
  case (Pair x s)
  let ?y = "x\<lparr>bs_schema_request_retries := bs_schema_request_retries x + 1\<rparr>"
  obtain r s1 where r: "esp_random env s = (r, s1)" by fastforce
  have q: "quiet s s1" using quiet_random [OF quiet_refl, of s env] by (simp add: r)
  obtain sent z t where e: "send_schema_request env (bs_next_hop_mac x) (bs_pending_schema_descriptor_type x)
      (bs_pending_schema_index x) (?y, s1) = (sent, z, t)" by (metis prod_cases3)
  have k: "keeps (x, s) (z\<lparr>bs_schema_request_in_flight := sent\<rparr>, t)" if "bs_schema_request_retries x < 4"
  proof -
    have "keeps (x, s) (?y, s1)" using q that inc_le [OF that] by (intro keepsI) (simp_all add: sane_def)
    moreover have "keeps (?y, s1) (z, t)" using keeps_send_schema_request e by (metis snd_conv)
    moreover have "keeps (z, t) (z\<lparr>bs_schema_request_in_flight := sent\<rparr>, t)"
      by (intro keepsI quiet_intros) (simp_all add: sane_def)
    ultimately show ?thesis by (blast intro: keeps_trans)
  qed
  show ?thesis
    unfolding Pair schema_retry_def Let_def prod.case r e
    by (auto intro: k) (auto intro!: keepsI quiet_intros q simp: sane_def)
qed

lemma keeps_state_sync_timeout: "keeps (x, s) (state_sync_timeout now x, s)"
  by (intro keepsI quiet_intros) (simp_all add: state_sync_timeout_def sane_def)

lemma join_complete_count:
  "bs_join_complete_retry_count (fst (snd (send_join_complete env dest False c))) = bs_join_complete_retry_count (fst c)"
  by (cases c) (simp add: send_join_complete_def send_join_ack_def Let_def case_prod_beta)

lemma keeps_join_complete_retry: "keeps c (join_complete_retry env c)"
proof (cases c)
  case (Pair x s)
  obtain r s1 where r: "esp_random env s = (r, s1)" by fastforce
  have q: "quiet s s1" using quiet_random [OF quiet_refl, of s env] by (simp add: r)
  obtain sent z t where e: "send_join_complete env (bs_next_hop_mac x) False (x, s1) = (sent, z, t)" by (metis prod_cases3)
  have z: "keeps (x, s) (z, t)"
    using keeps_trans [OF keeps_quiet [OF q] keeps_send_join_complete] e by (metis snd_conv)
  have k: "keeps (x, s) (z\<lparr>bs_join_complete_retry_count := bs_join_complete_retry_count z + 1\<rparr>, t)"
    if lt: "bs_join_complete_retry_count x < 4"
  proof -
    have "bs_join_complete_retry_count z < 4"
      using lt join_complete_count [of env "bs_next_hop_mac x" "(x, s1)"] by (simp add: e)
    from inc_le [OF this] have "keeps (z, t) (z\<lparr>bs_join_complete_retry_count := bs_join_complete_retry_count z + 1\<rparr>, t)"
      by (intro keepsI quiet_intros) (simp_all add: sane_def)
    then show ?thesis using z by (blast intro: keeps_trans)
  qed
  show ?thesis
    unfolding Pair join_complete_retry_def Let_def prod.case r e
    by (auto intro: k z) (auto intro!: keepsI quiet_intros q simp: sane_def)
qed

lemma keeps_session_timers: "keeps c (session_timers env c)"
proof (cases c)
  case (Pair x s)
  let ?x = "expire_schema_fragments (be_now env) (expire_state_fragments (be_now env) x)"
  obtain x2 s2 where e: "schema_retry env (offline_check (be_now env) (?x, s)) = (x2, s2)" by fastforce
  have "keeps (x, s) (?x, s)" by (rule keeps_trans [OF keeps_expire_state keeps_expire_schema])
  moreover have "keeps (?x, s) (x2, s2)"
    using keeps_trans [OF keeps_offline_check keeps_schema_retry] e by metis
  ultimately show ?thesis
    unfolding Pair session_timers_def Let_def prod.case e
    by (blast intro: keeps_trans keeps_state_sync_timeout keeps_join_complete_retry)
qed

lemma quiet_join_slot_timeout [quiet_intros]: "quiet s (join_slot_timeout now s)"
  unfolding join_slot_timeout_def by (auto intro: quiet_refl quiet_join_slot)

lemma keeps_announce_due: "keeps c (announce_due env c)"
  by (cases c) (auto simp: announce_due_def send_discover_announce_def sane_def intro!: keepsI quiet_intros)

lemma ok_ram_stage: "bridge_ok s \<Longrightarrow> bridge_ok (ram_stage env s)"
  using ok_quiet [OF _ quiet_heap [OF quiet_refl], of s env]
  by (auto simp: ram_stage_def Let_def case_prod_beta intro: bridge_inv.inv_evict)

lemma retry_pass_settled:
  "\<forall>q\<in>set (fst (retry_pass f ps s)). \<exists>p\<in>set ps. \<exists>t. fst (f p t) = Some q"
proof (induction ps arbitrary: s)
  case (Cons p ps)
  show ?case
    using Cons.IH [of "snd (f p s)"] by (fastforce simp: Let_def case_prod_beta split: option.splits)
qed simp

lemma quiet_config_result [quiet_intros]: "quiet s (config_result a b p s)"
  by (auto simp: config_result_def intro: quiet_refl quiet_event split: option.split)

lemma ok_retry_config: "bridge_ok s \<Longrightarrow> bridge_ok (snd (retry_config env p s))"
  by (auto simp: retry_config_def Let_def case_prod_beta split: option.split
      intro: ok_quiet quiet_config_result ok_put [OF _ _ keeps_send_config_frame])

lemma inc_le_neq: "a \<le> b \<Longrightarrow> a \<noteq> b \<Longrightarrow> a + 1 \<le> (b :: 'a::len word)"
  by (simp add: inc_le order_less_le)

lemma retry_config_bound:
  assumes "fst (retry_config env p s) = Some q" "pg_retry_count p \<le> 3" "length (pg_payload p) \<le> 217"
  shows "pg_retry_count q \<le> 3 \<and> length (pg_payload q) \<le> 217"
  using assms
  by (auto simp: retry_config_def Let_def case_prod_beta not_le inc_le_neq split: if_splits option.splits)

lemma ok_config_stage:
  assumes ok: "bridge_ok s"
  shows "bridge_ok (config_stage env s)"
proof -
  obtain qs t where e: "retry_pass (retry_config env) (bp_pending_configs s) s = (qs, t)" by fastforce
  have t: "bridge_ok t"
    using bridge_inv.inv_retry_pass [of "\<lambda>_. True" "retry_config env" "bp_pending_configs s" s] ok_retry_config ok
    by (simp add: e)
  have "\<forall>q\<in>set qs. pg_retry_count q \<le> 3 \<and> length (pg_payload q) \<le> 217"
    using retry_pass_settled [of "retry_config env" "bp_pending_configs s" s] retry_config_bound
      bridge_inv.inv_E [OF ok] unfolding e engine_ok_def fst_conv by metis
  then have "engine_ok t \<Longrightarrow> engine_ok (t\<lparr>bp_pending_configs := qs\<rparr>)" unfolding engine_ok_def by simp
  then show ?thesis using bridge_inv.inv_io [OF t] by (simp add: config_stage_def e)
qed

lemma ok_command_timeout: "bridge_ok s \<Longrightarrow> bridge_ok (command_timeout p s)"
proof (cases "get_session s (pc_leaf_mac p)")
  case (Some x)
  assume ok: "bridge_ok s"
  have "keeps (x, s) (x\<lparr>bs_online := False, bs_last_offline_reason := ''timeout''\<rparr>, s)"
    by (intro keepsI quiet_intros) (simp_all add: sane_def)
  then have "bridge_ok (put_session (pc_leaf_mac p) (x\<lparr>bs_online := False, bs_last_offline_reason := ''timeout''\<rparr>) s)"
    unfolding put_session_conn by (rule ok_put [OF ok Some])
  then show ?thesis by (simp add: command_timeout_def Some bridge_inv.inv_call_fn)
qed (simp add: command_timeout_def)

lemma ok_retry_command: "bridge_ok s \<Longrightarrow> bridge_ok (snd (retry_command env p s))"
  using ok_quiet [OF _ quiet_random [OF quiet_refl], of s env]
  by (auto simp: retry_command_def Let_def case_prod_beta ok_command_timeout split: option.split
      intro: ok_put [OF _ _ keeps_send_command_fragments])

lemma retry_command_bound:
  assumes "fst (retry_command env p s) = Some q" "pc_retry_count p \<le> 4"
  shows "pc_retry_count q \<le> 4 \<and> pc_leaf_mac q = pc_leaf_mac p \<and> pc_next_hop_mac q = pc_next_hop_mac p"
  using assms
  by (auto simp: retry_command_def Let_def case_prod_beta not_le inc_le_neq split: if_splits option.splits)

lemma ok_command_stage:
  assumes ok: "bridge_ok s"
  shows "bridge_ok (command_stage env s)"
proof -
  obtain qs t where e: "retry_pass (retry_command env) (bp_command_queue s) s = (qs, t)" by fastforce
  have t: "bridge_ok t"
    using bridge_inv.inv_retry_pass [of "\<lambda>_. True" "retry_command env" "bp_command_queue s" s] ok_retry_command ok
    by (simp add: e)
  have "\<forall>q\<in>set qs. pc_retry_count q \<le> 4 \<and> length (pc_leaf_mac q) = 6 \<and> length (pc_next_hop_mac q) = 6"
    using retry_pass_settled [of "retry_command env" "bp_command_queue s" s] retry_command_bound
      bridge_inv.inv_E [OF ok] unfolding e engine_ok_def fst_conv by metis
  then have "engine_ok t \<Longrightarrow> engine_ok (t\<lparr>bp_command_queue := qs\<rparr>)" unfolding engine_ok_def by simp
  then show ?thesis using bridge_inv.inv_io [OF t] by (simp add: command_stage_def e)
qed

lemma quiet_diag_stage: "quiet s (diag_stage now s)"
proof -
  have "quiet s (s\<lparr>bp_last_diag_publish_ms := a, bp_last_diag_online_count := b\<rparr>)" for a b
    by (simp add: quiet_def engine_ok_def log_ok_def)
  then show ?thesis by (auto simp: diag_stage_def Let_def intro!: quiet_intros)
qed

lemma ok_bridge_loop: "bridge_ok s \<Longrightarrow> bridge_ok (bridge_loop env s)"
proof -
  assume "bridge_ok s"
  then have "bridge_ok (session_cleanup env (tick_uptime (be_now env) s))"
    by (intro ok_session_cleanup ok_quiet [OF _ quiet_tick])
  then have "bridge_ok (join_slot_timeout (be_now env)
      (all_sessions (session_timers env) (session_cleanup env (tick_uptime (be_now env) s))))"
    by (intro ok_quiet [OF _ quiet_join_slot_timeout] bridge_inv.inv_all_sessions keeps_session_timers)
  then show ?thesis
    unfolding bridge_loop_def Let_def
    by (intro ok_quiet [OF _ quiet_diag_stage] ok_command_stage ok_config_stage ok_ram_stage
        bridge_inv.inv_all_sessions keeps_announce_due)
qed

section \<open>Steps\<close>

lemma ok_send_command_to_leaf: "bridge_ok s \<Longrightarrow> bridge_ok (snd (send_command_to_leaf env m i v s))"
  using bridge_inv.inv_get [of s m]
  by (auto simp: send_command_to_leaf_def Let_def case_prod_beta sane_def split: option.split
      intro!: ok_put keeps_send_command)

lemma ok_send_config_to_leaf:
  assumes ok: "bridge_ok s"
  shows "bridge_ok (snd (send_config_to_leaf env m cmd payload cb s))"
proof (cases "get_session s m")
  case (Some x)
  define p where "p = \<lparr>pg_leaf_mac = bs_leaf_mac x, pg_next_hop_mac = bs_next_hop_mac x, pg_command = cmd,
                  pg_payload = payload, pg_tx_base = bs_tx_counter x, pg_retry_count = 0,
                  pg_next_retry_ms = be_now env + 500, pg_ack_timeout_ms = 500, pg_callback = cb\<rparr>"
  obtain sent c where e: "send_config_frame env p 0 (x\<lparr>bs_tx_counter := bs_tx_counter x + 1\<rparr>, s) = (sent, c)"
    by (metis surj_pair)
  have "keeps (x, s) (x\<lparr>bs_tx_counter := bs_tx_counter x + 1\<rparr>, s)" by (intro keepsI quiet_intros) simp_all
  moreover have "keeps (x\<lparr>bs_tx_counter := bs_tx_counter x + 1\<rparr>, s) c" using keeps_send_config_frame e by (metis snd_conv)
  ultimately have t: "bridge_ok (put_conn m c)" by (intro ok_put [OF ok Some]) (rule keeps_trans)
  have "engine_ok t \<Longrightarrow> length payload \<le> 217 \<Longrightarrow>
      engine_ok (t\<lparr>bp_pending_configs := bp_pending_configs t @ [p]\<rparr>)" for t
    unfolding engine_ok_def by (auto simp: p_def)
  then show ?thesis
    using t bridge_inv.inv_io [OF t]
    by (auto simp: ok send_config_to_leaf_def Some Let_def p_def [symmetric] e)
qed (simp add: ok send_config_to_leaf_def)

lemma ok_send_ota_frame: "bridge_ok s \<Longrightarrow> bridge_ok (snd (snd (send_ota_frame env m ty payload s)))"
proof -
  assume ok: "bridge_ok s"
  have k: "keeps (x, s) (x\<lparr>bs_tx_counter := t\<rparr>, s)" for x t by (intro keepsI quiet_intros) simp_all
  show ?thesis
    by (auto simp: ok send_ota_frame_def Let_def case_prod_beta split: option.split
        intro!: ok_put [OF ok _ keeps_trans [OF k keeps_send_result]])
qed

lemma log_ok_drain: "log_ok s \<Longrightarrow> n \<le> bp_log_count s \<Longrightarrow> log_ok (drain_log n s)"
proof (induction n s rule: drain_log.induct)
  case (2 n s)
  let ?t = "s\<lparr>bp_log_tail := (bp_log_tail s + 1) mod PACKET_LOG_SIZE, bp_log_count := bp_log_count s - 1\<rparr>"
  have "(bp_log_tail s + bp_log_count s) mod PACKET_LOG_SIZE =
      ((bp_log_tail s + 1) mod PACKET_LOG_SIZE + (bp_log_count s - 1)) mod PACKET_LOG_SIZE"
    using "2.prems" mod_add_left_eq [of "bp_log_tail s + 1" PACKET_LOG_SIZE "bp_log_count s - 1"]
    by (simp del: One_nat_def)
  moreover have "bp_log_count s - 1 \<le> PACKET_LOG_SIZE" using "2.prems"(1) unfolding log_ok_def by linarith
  ultimately have "log_ok ?t" using "2.prems" by (simp add: log_ok_def)
  then show ?case using 2 by simp
qed simp

lemma drain_log_rest:
  "bp_sessions (drain_log n s) = bp_sessions s" "bp_bridge_mac (drain_log n s) = bp_bridge_mac s"
  "bp_joining_leaf_mac (drain_log n s) = bp_joining_leaf_mac s" "bp_crypto (drain_log n s) = bp_crypto s"
  "bp_command_queue (drain_log n s) = bp_command_queue s" "bp_pending_configs (drain_log n s) = bp_pending_configs s"
  "bp_schema_cache (drain_log n s) = bp_schema_cache s"
  by (induction n s rule: drain_log.induct) simp_all

lemma quiet_flush: "quiet s (flush_log_queue s)"
  using log_ok_drain [of "s\<lparr>bp_pending_state := LOG_NONE\<rparr>" "bp_log_count s"]
  by (simp add: quiet_def engine_ok_def flush_log_queue_def drain_log_rest)

lemma quiet_announce_removed: "quiet s t \<Longrightarrow> quiet s (announce_removed m t)"
  by (induction m t rule: announce_removed.induct) (simp_all add: quiet_call_fn_intro)

lemma ok_invalidate: "bridge_ok s \<Longrightarrow> bridge_ok (invalidate_all_sessions s)"
  using ok_quiet [OF _ quiet_announce_removed [OF quiet_refl], of s "bp_sessions s"]
  by (simp add: invalidate_all_sessions_def sessions_inv_def engine_ok_def omap_find_def)

inductive bridge_step :: "bridge \<Rightarrow> bridge \<Rightarrow> bool" where
  Receive: "length sender = 6 \<Longrightarrow> bridge_step s (snd (on_espnow_frame env sender frame rssi s))"
| Loop: "bridge_step s (bridge_loop env s)"
| Flush: "bridge_step s (flush_log_queue s)"
| Confirm_State: "bridge_step s (snd (confirm_state_delivery env m tx hop s))"
| Confirm_Discovery: "bridge_step s (on_discovery_confirmed env m i success s)"
| Complete_Join: "bridge_step s (check_and_complete_join env m s)"
| Command: "bridge_step s (snd (send_command_to_leaf env m i v s))"
| Config: "bridge_step s (snd (send_config_to_leaf env m cmd payload cb s))"
| Transfer: "bridge_step s (snd (snd (send_ota_frame env m ty payload s)))"
| Invalidate: "bridge_step s (invalidate_all_sessions s)"
| Set_Mac: "length m = 6 \<Longrightarrow> bridge_step s (set_bridge_mac m s)"
| Set_Flags: "bridge_step s (set_session_flags flags s)"
| Set_Ready: "bridge_step s (set_runtime_ready b s)"
| Set_Fn: "bridge_step s (set_fn f b s)"
| Set_Identity: "bridge_step s (set_bridge_identity cm fe bd bt pn pv md5 s)"

inductive bridge_reachable :: "bridge \<Rightarrow> bool" where
  Init: "bridge_reachable (snd (bridge_init hmac chip psk nid hb bridge_initial))"
| Step: "bridge_reachable s \<Longrightarrow> bridge_step s t \<Longrightarrow> bridge_reachable t"

lemma ok_bridge_init: "bridge_ok (snd (bridge_init hmac chip psk nid hb bridge_initial))"
proof -
  have "length (g_psk (snd (espnow_crypto_init hmac psk))) = 32"
    using length_hex_to_bytes [of psk] by (auto simp: espnow_crypto_init_def split: option.split)
  then show ?thesis
    by (simp add: bridge_init_def Let_def case_prod_beta sessions_inv_def engine_ok_def log_ok_def bridge_initial_def
        empty_log_def omap_find_def PACKET_LOG_SIZE_def)
qed

lemma ok_set:
  "bridge_ok s \<Longrightarrow> length m = 6 \<Longrightarrow> bridge_ok (set_bridge_mac m s)"
  "bridge_ok s \<Longrightarrow> bridge_ok (set_session_flags flags s)" "bridge_ok s \<Longrightarrow> bridge_ok (set_runtime_ready b s)"
  "bridge_ok s \<Longrightarrow> bridge_ok (set_fn f b s)" "bridge_ok s \<Longrightarrow> bridge_ok (set_bridge_identity cm fe bd bt pn pv md5 s)"
  by (simp_all add: sessions_inv_def engine_ok_def log_ok_def set_bridge_mac_def set_session_flags_def
      set_runtime_ready_def set_fn_def set_bridge_identity_def)

lemma bridge_step_ok: "bridge_step s t \<Longrightarrow> bridge_ok s \<Longrightarrow> bridge_ok t"
  by (induction rule: bridge_step.induct)
     (auto intro: ok_on_espnow_frame ok_bridge_loop ok_confirm_state ok_discovery ok_check_join ok_send_command_to_leaf
       ok_send_config_to_leaf ok_send_ota_frame ok_invalidate ok_set ok_quiet [OF _ quiet_flush])

lemma bridge_reachable_ok: "bridge_reachable s \<Longrightarrow> bridge_ok s"
  by (induction rule: bridge_reachable.induct) (auto intro: ok_bridge_init bridge_step_ok)

end
