(* ===== verification/Bridge_Laws.thy ===== *)
theory Bridge_Laws
  imports Bridge_Reach
begin

unbundle bit_operations_syntax

text \<open>
  What the bridge's protocol engine promises: frames it encrypts are read back by the parser, packets of
  a session are accepted only with a valid tag and a new counter, a JOIN ends with the key the remote
  derives, eviction keeps a working set of sessions, and commands that are never acknowledged leave the
  queue.
\<close>

section \<open>Encrypted frames\<close>

lemma crypt_inverse:
  assumes "espnow_crypto_crypt g key tx plain = Some ct"
  shows "espnow_crypto_crypt g key tx ct = Some plain" and "length ct = length plain" and "g_psk_set g"
  using assms by (auto simp: espnow_crypto_crypt_def aes.length_crypt aes.crypt_crypt split: if_splits)

lemma parse_encrypted_frame:
  assumes leaf: "length leaf = 6" and hop: "\<not> has_parent_check hop" and enc: "is_encrypted_packet ty"
    and len: "length plain \<le> 1445"
    and f: "encrypted_frame (be_hmac env) (bp_crypto s) key leaf ty hop tx plain = Some frame"
  obtains tag ct st where
    "parse_frame env s frame = Some (\<lparr>fh_protocol_version = 3, fh_hop_count = hop, fh_packet_type = packet_type_code ty,
       fh_leaf_mac = leaf, fh_tx_counter = tx, fh_psk_tag = tag\<rparr>, ct, Some st, replicate 6 0)"
    "\<And>x. bs_session_key_valid x \<Longrightarrow> bs_session_key x = key \<Longrightarrow>
       validate_session_packet env s x \<lparr>fh_protocol_version = 3, fh_hop_count = hop, fh_packet_type = packet_type_code ty,
         fh_leaf_mac = leaf, fh_tx_counter = tx, fh_psk_tag = tag\<rparr> ct (Some st) = Some plain"
proof -
  obtain ct where ct: "espnow_crypto_crypt (bp_crypto s) key tx plain = Some ct"
    and frame: "frame = assemble_plain_frame (be_hmac env) (bp_crypto s) ty leaf hop tx ct @
       espnow_crypto_session_tag (be_hmac env) key (assemble_plain_frame (be_hmac env) (bp_crypto s) ty leaf hop tx ct) ct"
    using f by (auto simp: encrypted_frame_def Let_def split: option.splits)
  obtain tag where t: "length tag = 4"
    "tag = espnow_crypto_psk_tag (be_hmac env) (bp_crypto s) (assemble_plain_frame (be_hmac env) (bp_crypto s) ty leaf hop tx ct) ct"
    "assemble_plain_frame (be_hmac env) (bp_crypto s) ty leaf hop tx ct =
      enc_frame_header \<lparr>fh_protocol_version = 3, fh_hop_count = hop, fh_packet_type = packet_type_code ty,
        fh_leaf_mac = leaf, fh_tx_counter = tx, fh_psk_tag = tag\<rparr> @ ct" (is "_ = enc_frame_header ?h @ ct")
    by (rule plain_frame_eq [OF leaf])
  define st where "st = espnow_crypto_session_tag (be_hmac env) key (enc_frame_header ?h @ ct) ct"
  have wf: "wf_frame_header ?h" using t(1) leaf by (simp add: wf_frame_header_def)
  have fr: "frame = enc_frame_header ?h @ ct @ st" by (simp add: frame t(3) st_def)
  have st8: "length st = 8" by (simp add: st_def)
  note ctl = crypt_inverse [OF ct]
  have part: "part_of 2 11 (enc_frame_header ?h) = part_of 2 11 (enc_frame_header ?h @ r)" for r
    using tagged_part_enc [of ?h "[]"] tagged_part_enc [of ?h r] leaf by simp
  have "part_of 2 11 frame = part_of 2 11 (assemble_plain_frame (be_hmac env) (bp_crypto s) ty leaf hop tx ct)"
    using part [of ct] part [of "ct @ st"] by (simp only: fr t(3))
  then have "espnow_crypto_psk_tag (be_hmac env) (bp_crypto s) frame ct = tag"
    by (rule trans [OF psk.tag_cong t(2) [symmetric]])
  then have psk: "espnow_crypto_verify_psk_tag (be_hmac env) (bp_crypto s) frame ct tag"
    using psk.verify_own [OF ctl(3)] by metis
  have parse: "parse_frame env s frame = Some (?h, ct, Some st, replicate 6 0)"
    using hop enc len ctl(2) psk st8 unfolding parse_frame_def
    by (simp add: fr fh.dec_enc [OF wf] fh.enc_length [OF wf] Let_def)
  have "espnow_crypto_verify_session_tag (be_hmac env) key (enc_frame_header ?h) ct st"
    unfolding st_def using part [of ct] by (intro sess.verify_relayed) simp_all
  then have "\<And>x. bs_session_key_valid x \<Longrightarrow> bs_session_key x = key \<Longrightarrow>
      validate_session_packet env s x ?h ct (Some st) = Some plain"
    by (simp add: validate_session_packet_def ctl(1))
  then show ?thesis using that [OF parse] by blast
qed

section \<open>Packets of a session\<close>

text \<open>
  What of a session a packet may change without a session tag: the route to the remote, its signal
  strength, packet counts and the counter of the frames sent to it.
\<close>

definition trusted :: "BridgeSession \<Rightarrow> BridgeSession" where
  "trusted x = x\<lparr>bs_next_hop_mac := [], bs_rx_packets := 0, bs_last_rssi := 0, bs_hops_to_bridge := 0,
     bs_tx_counter := 0, bs_mac_hex_key := []\<rparr>"

lemma trusted_eqD:
  assumes "trusted x = trusted y"
  shows "bs_session_key x = bs_session_key y" "bs_session_key_valid x = bs_session_key_valid y"
    "bs_last_seen_counter x = bs_last_seen_counter y" "bs_leaf_mac x = bs_leaf_mac y"
    "bs_session_max_payload x = bs_session_max_payload y"
  using arg_cong [OF assms, of bs_session_key] arg_cong [OF assms, of bs_session_key_valid]
    arg_cong [OF assms, of bs_last_seen_counter] arg_cong [OF assms, of bs_leaf_mac]
    arg_cong [OF assms, of bs_session_max_payload]
  by (simp_all add: trusted_def)

lemma get_put_session:
  "get_session (put_session m x s) m' = (if mac_to_key m' = mac_to_key m then Some x else get_session s m')"
  by (simp add: get_session_def put_session_def omap_find_put)

lemma put_session_rest [simp]:
  "bp_crypto (put_session m x s) = bp_crypto s" "bp_events (put_session m x s) = bp_events s"
  "bp_command_queue (put_session m x s) = bp_command_queue s" "bp_pending_configs (put_session m x s) = bp_pending_configs s"
  "bp_schema_cache (put_session m x s) = bp_schema_cache s" "bp_fns (put_session m x s) = bp_fns s"
  by (simp_all add: put_session_def)

lemma call_fn_rest [simp]:
  "bp_crypto (call_fn f ev s) = bp_crypto s" "bp_sessions (call_fn f ev s) = bp_sessions s"
  "bp_command_queue (call_fn f ev s) = bp_command_queue s" "bp_pending_configs (call_fn f ev s) = bp_pending_configs s"
  "bp_schema_cache (call_fn f ev s) = bp_schema_cache s" "bp_fns (call_fn f ev s) = bp_fns s"
  by (simp_all add: call_fn_def)

text \<open>The queues and the cache of an engine, and its sessions apart from one.\<close>

definition same_engine :: "mac \<Rightarrow> bridge \<Rightarrow> bridge \<Rightarrow> bool" where
  "same_engine m s t \<longleftrightarrow> bp_crypto t = bp_crypto s \<and> bp_command_queue t = bp_command_queue s \<and>
     bp_pending_configs t = bp_pending_configs s \<and> bp_schema_cache t = bp_schema_cache s \<and>
     (\<forall>m'. mac_to_key m' \<noteq> mac_to_key m \<longrightarrow> get_session t m' = get_session s m')"

definition harmless_event :: "mac \<Rightarrow> bridge_event \<Rightarrow> bool" where
  "harmless_event m ev \<longleftrightarrow> (case ev of
      SendFrame dest frame \<Rightarrow> True
    | PublishAvailability m' up reason \<Rightarrow> m' = m \<and> up \<and> reason = ''hop_count_changed''
    | _ \<Rightarrow> False)"

lemma get_session_cong: "bp_sessions t = bp_sessions s \<Longrightarrow> get_session t m = get_session s m"
  by (simp add: get_session_def)

lemma session_packet_split:
  assumes x: "get_session s (fh_leaf_mac header) = Some x" and key: "bs_session_key_valid x"
  obtains x1 s2 evs where
    "get_session s2 (fh_leaf_mac header) = Some x1"
    "trusted x1 = trusted (x\<lparr>bs_leaf_mac := fh_leaf_mac header\<rparr>)"
    "same_engine (fh_leaf_mac header) s s2"
    "bp_events s2 = bp_events s @ evs" "list_all (harmless_event (bs_leaf_mac x)) evs"
    "session_packet env sender ty header n payload rssi tag s =
       (if n > unat (bs_session_max_payload x1) then (False, s2)
        else if ty = PKT_STATE then handle_state env sender header payload rssi tag s2
        else if ty = PKT_HEARTBEAT then handle_heartbeat env sender header payload rssi tag s2
        else handle_ack env header payload rssi tag s2)"
proof -
  obtain y t where n: "note_packet sender header rssi (x, s) = (y, t)" by fastforce
  define s1 where "s1 = put_conn (fh_leaf_mac header) (y, t)"
  define x1 where "x1 = ensure_session s1 (fh_leaf_mac header)"
  define s2 where "s2 = put_session (fh_leaf_mac header) x1 s1"
  have y: "trusted y = trusted x"
    using n by (auto simp: note_packet_def Let_def trusted_def split: if_splits)
  have t: "bp_sessions t = bp_sessions s" "bp_crypto t = bp_crypto s" "bp_command_queue t = bp_command_queue s"
    "bp_pending_configs t = bp_pending_configs s" "bp_schema_cache t = bp_schema_cache s"
    using n by (auto simp: note_packet_def Let_def split: if_splits)
  obtain evs where evs: "bp_events t = bp_events s @ evs" "list_all (harmless_event (bs_leaf_mac x)) evs"
    using that n by (auto simp: note_packet_def Let_def call_fn_def harmless_event_def split: if_splits)
  have g1: "get_session s1 (fh_leaf_mac header) = Some y" by (simp add: s1_def put_conn_def get_put_session)
  have "trusted x1 = trusted (y\<lparr>bs_leaf_mac := fh_leaf_mac header\<rparr>)"
    by (simp add: x1_def ensure_session_def g1 Let_def trusted_def)
  also have "\<dots> = (trusted y)\<lparr>bs_leaf_mac := fh_leaf_mac header\<rparr>" by (simp add: trusted_def)
  also have "\<dots> = trusted (x\<lparr>bs_leaf_mac := fh_leaf_mac header\<rparr>)" unfolding y by (simp add: trusted_def)
  finally have tr: "trusted x1 = trusted (x\<lparr>bs_leaf_mac := fh_leaf_mac header\<rparr>)" .
  have g2: "get_session s2 (fh_leaf_mac header) = Some x1" by (simp add: s2_def get_put_session)
  have eng: "same_engine (fh_leaf_mac header) s s2"
    by (simp add: same_engine_def s2_def s1_def put_conn_def get_put_session t get_session_cong [OF t(1)])
  have ev: "bp_events s2 = bp_events s @ evs" by (simp add: s2_def s1_def put_conn_def evs(1))
  have "session_packet env sender ty header n payload rssi tag s =
       (if n > unat (bs_session_max_payload x1) then (False, s2)
        else if ty = PKT_STATE then handle_state env sender header payload rssi tag s2
        else if ty = PKT_HEARTBEAT then handle_heartbeat env sender header payload rssi tag s2
        else handle_ack env header payload rssi tag s2)"
    by (simp add: session_packet_def x key n s1_def x1_def s2_def Let_def)
  then show ?thesis using that [OF g2 tr eng ev evs(2)] by blast
qed

lemma validate_cong:
  assumes "bs_session_key x = bs_session_key y" "bs_session_key_valid x = bs_session_key_valid y" "bp_crypto s = bp_crypto t"
  shows "validate_session_packet env s x header ct tag = validate_session_packet env t y header ct tag"
  using assms by (simp add: validate_session_packet_def split: option.split)

lemma mark_online_fields:
  "bs_last_seen_counter (fst (mark_online env rssi tx rr c)) = tx"
  "bs_session_key_valid (fst (mark_online env rssi tx rr c)) = bs_session_key_valid (fst c)"
  by (simp_all add: mark_online_def Let_def case_prod_beta)

lemma accept_heartbeat_fields:
  "bs_last_seen_counter (fst (accept_heartbeat env sender header rssi hb c)) = fh_tx_counter header"
  "bs_session_key_valid (fst (accept_heartbeat env sender header rssi hb c)) = bs_session_key_valid (fst c)"
  by (simp_all add: accept_heartbeat_def Let_def case_prod_beta mark_online_fields)

lemma online_again_fields:
  "bs_last_seen_counter (fst c) = tx \<Longrightarrow> bs_last_seen_counter (fst (online_again env rssi tx c)) = tx"
  "bs_session_key_valid (fst (online_again env rssi tx c)) = bs_session_key_valid (fst c)"
  by (simp_all add: online_again_def mark_online_fields)

lemma config_ack_fields:
  "bs_last_seen_counter (fst c) = tx \<Longrightarrow> bs_last_seen_counter (fst (config_ack env tx rssi ack tr c)) = tx"
  "bs_session_key_valid (fst (config_ack env tx rssi ack tr c)) = bs_session_key_valid (fst c)"
  by (auto simp: config_ack_def Let_def case_prod_beta online_again_fields split: option.split)

lemma accept_ack_fields:
  "bs_last_seen_counter (fst (snd (accept_ack env header rssi plain c))) = fh_tx_counter header"
  "bs_session_key_valid (fst (snd (accept_ack env header rssi plain c))) = bs_session_key_valid (fst c)"
  by (simp_all add: accept_ack_def Let_def case_prod_beta online_again_fields config_ack_fields)

text \<open>A HEARTBEAT or an ACK is accepted only when it is new and authentic; its counter is then the last one seen.\<close>

lemma accepted_packet:
  assumes "get_session s (fh_leaf_mac header) = Some x" "ty = PKT_HEARTBEAT \<or> ty = PKT_ACK"
    and "(if ty = PKT_HEARTBEAT then handle_heartbeat env sender header payload rssi tag s
          else handle_ack env header payload rssi tag s) = (True, t)"
  shows "counter_is_newer (fh_tx_counter header) (bs_last_seen_counter x) \<and>
    validate_session_packet env s x header payload tag \<noteq> None \<and>
    (\<exists>y. get_session t (fh_leaf_mac header) = Some y \<and> bs_last_seen_counter y = fh_tx_counter header \<and> bs_session_key_valid y)"
  using assms
  by (auto simp: handle_heartbeat_def handle_ack_def put_conn_def get_put_session Let_def case_prod_beta
      accept_heartbeat_fields accept_ack_fields split: option.splits if_splits)

lemma stale_packet:
  assumes "get_session s (fh_leaf_mac header) = Some x" "\<not> counter_is_newer (fh_tx_counter header) (bs_last_seen_counter x)"
  shows "handle_heartbeat env sender header payload rssi tag s = (False, s)" "handle_ack env header payload rssi tag s = (False, s)"
  using assms by (simp_all add: handle_heartbeat_def handle_ack_def)

lemma parse_frame_header: "parse_frame env s frame = Some (header, payload, tag, par) \<Longrightarrow> header = dec_frame_header frame"
  by (auto simp: parse_frame_def Let_def split: if_splits option.splits)

lemma on_session_frame:
  assumes "packet_type_of (fh_packet_type (dec_frame_header frame)) = Some ty" "ty \<in> {PKT_STATE, PKT_HEARTBEAT, PKT_ACK}"
  shows "(\<exists>payload tag par. parse_frame env s frame = Some (dec_frame_header frame, payload, tag, par) \<and>
      on_espnow_frame env sender frame rssi s =
      session_packet env sender ty (dec_frame_header frame) (length frame) payload rssi tag
        (rx_log env ty sender (length frame) rssi (dec_frame_header frame) s)) \<or>
    on_espnow_frame env sender frame rssi s = (False, s)"
  using assms parse_frame_header [of env s frame]
  by (auto simp: on_espnow_frame_def Let_def split: option.split if_splits)

lemma on_schema_frame:
  assumes "packet_type_of (fh_packet_type (dec_frame_header frame)) = Some PKT_SCHEMA_PUSH"
  shows "(\<exists>payload tag par. parse_frame env s frame = Some (dec_frame_header frame, payload, tag, par) \<and>
      on_espnow_frame env sender frame rssi s =
      handle_schema_push env sender (dec_frame_header frame) payload tag
        (rx_log env PKT_SCHEMA_PUSH sender (length frame) rssi (dec_frame_header frame) s)) \<or>
    on_espnow_frame env sender frame rssi s = (False, s)"
  using assms parse_frame_header [of env s frame]
  by (auto simp: on_espnow_frame_def Let_def split: option.split if_splits)

lemma rx_log_rest [simp]:
  "bp_sessions (rx_log env ty sender n rssi header s) = bp_sessions s" "bp_crypto (rx_log env ty sender n rssi header s) = bp_crypto s"
  "bp_events (rx_log env ty sender n rssi header s) = bp_events s"
  "bp_command_queue (rx_log env ty sender n rssi header s) = bp_command_queue s"
  "bp_pending_configs (rx_log env ty sender n rssi header s) = bp_pending_configs s"
  "bp_schema_cache (rx_log env ty sender n rssi header s) = bp_schema_cache s"
  by (simp_all add: rx_log_def queue_log_def Let_def)

lemma accepted_frame:
  assumes ty: "packet_type_of (fh_packet_type (dec_frame_header frame)) = Some ty" "ty = PKT_HEARTBEAT \<or> ty = PKT_ACK"
    and x: "get_session s (fh_leaf_mac (dec_frame_header frame)) = Some x" "bs_session_key_valid x"
    and acc: "on_espnow_frame env sender frame rssi s = (True, t)"
  shows "counter_is_newer (fh_tx_counter (dec_frame_header frame)) (bs_last_seen_counter x) \<and>
    (\<exists>payload tag par. parse_frame env s frame = Some (dec_frame_header frame, payload, tag, par) \<and>
       validate_session_packet env s x (dec_frame_header frame) payload tag \<noteq> None) \<and>
    (\<exists>y. get_session t (fh_leaf_mac (dec_frame_header frame)) = Some y \<and>
       bs_last_seen_counter y = fh_tx_counter (dec_frame_header frame) \<and> bs_session_key_valid y)"
proof -
  let ?h = "dec_frame_header frame" and ?s = "rx_log env ty sender (length frame) rssi (dec_frame_header frame) s"
  obtain payload tag par where p: "parse_frame env s frame = Some (?h, payload, tag, par)"
    and f: "session_packet env sender ty ?h (length frame) payload rssi tag ?s = (True, t)"
    using on_session_frame [OF ty(1), of env s sender rssi] ty(2) acc by auto
  have g: "get_session ?s (fh_leaf_mac ?h) = Some x" using x(1) by (simp add: get_session_def)
  obtain x1 s2 evs where sp: "get_session s2 (fh_leaf_mac ?h) = Some x1" "trusted x1 = trusted (x\<lparr>bs_leaf_mac := fh_leaf_mac ?h\<rparr>)"
    "same_engine (fh_leaf_mac ?h) ?s s2"
    "session_packet env sender ty ?h (length frame) payload rssi tag ?s =
       (if length frame > unat (bs_session_max_payload x1) then (False, s2)
        else if ty = PKT_STATE then handle_state env sender ?h payload rssi tag s2
        else if ty = PKT_HEARTBEAT then handle_heartbeat env sender ?h payload rssi tag s2
        else handle_ack env ?h payload rssi tag s2)"
    by (rule session_packet_split [OF g x(2), of env sender ty "length frame" payload rssi tag])
  note tr = trusted_eqD [OF sp(2)]
  have "(if ty = PKT_HEARTBEAT then handle_heartbeat env sender ?h payload rssi tag s2
          else handle_ack env ?h payload rssi tag s2) = (True, t)"
    using f ty(2) unfolding sp(4) by (auto split: if_splits)
  note a = accepted_packet [OF sp(1) ty(2) this]
  have "validate_session_packet env s2 x1 ?h payload tag = validate_session_packet env s x ?h payload tag"
    using tr sp(3) by (intro validate_cong) (simp_all add: same_engine_def)
  then show ?thesis using a tr p by auto
qed

lemma replayed_frame:
  assumes ty: "packet_type_of (fh_packet_type (dec_frame_header frame)) = Some ty" "ty = PKT_HEARTBEAT \<or> ty = PKT_ACK"
    and x: "get_session s (fh_leaf_mac (dec_frame_header frame)) = Some x" "bs_session_key_valid x"
    and stale: "\<not> counter_is_newer (fh_tx_counter (dec_frame_header frame)) (bs_last_seen_counter x)"
  shows "\<not> fst (on_espnow_frame env sender frame rssi s)"
  using accepted_frame [OF ty x, of env sender rssi] stale by (metis prod.collapse)

text \<open>Without a valid session tag a packet of a session changes nothing that is \<open>trusted\<close> and publishes nothing.\<close>

lemma plain_rest:
  "bp_sessions (snd (send_plain_psk env dest leaf ty hop tx pl s)) = bp_sessions s"
  "bp_crypto (snd (send_plain_psk env dest leaf ty hop tx pl s)) = bp_crypto s"
  "bp_command_queue (snd (send_plain_psk env dest leaf ty hop tx pl s)) = bp_command_queue s"
  "bp_pending_configs (snd (send_plain_psk env dest leaf ty hop tx pl s)) = bp_pending_configs s"
  "bp_schema_cache (snd (send_plain_psk env dest leaf ty hop tx pl s)) = bp_schema_cache s"
  "bp_fns (snd (send_plain_psk env dest leaf ty hop tx pl s)) = bp_fns s"
  by (simp_all add: send_plain_psk_def Let_def call_send_def asked_def queue_log_def)

lemma plain_events:
  "bp_events (snd (send_plain_psk env dest leaf ty hop tx pl s)) =
    bp_events s @ (if SEND_FN \<in> set (bp_fns s)
      then [SendFrame dest (assemble_plain_frame (be_hmac env) (bp_crypto s) ty leaf hop tx pl)] else [])"
  by (simp add: send_plain_psk_def Let_def call_send_def asked_def queue_log_def)

lemma deauth_harmless:
  assumes "send_deauth env dest ty tx req (x, s) = (ok, y, t)"
  shows "trusted y = trusted x" "bp_sessions t = bp_sessions s" "bp_crypto t = bp_crypto s"
    "bp_command_queue t = bp_command_queue s" "bp_pending_configs t = bp_pending_configs s"
    "bp_schema_cache t = bp_schema_cache s" "\<exists>evs. bp_events t = bp_events s @ evs \<and> list_all (harmless_event m) evs"
  using assms
  by (auto simp: send_deauth_def Let_def case_prod_beta trusted_def plain_rest plain_events harmless_event_def)

lemma forged_state:
  assumes "get_session s (fh_leaf_mac header) = Some x" "bs_session_key_valid x"
    and "validate_session_packet env s x header payload tag = None"
    and "handle_state env sender header payload rssi tag s = (ok, t)"
  shows "\<not> ok \<and> same_engine (fh_leaf_mac header) s t \<and>
    (\<exists>y. get_session t (fh_leaf_mac header) = Some y \<and> trusted y = trusted x) \<and>
    (\<exists>evs. bp_events t = bp_events s @ evs \<and> list_all (harmless_event m) evs)"
proof -
  obtain sent y u where d: "send_deauth env sender (fh_packet_type header) (fh_tx_counter header) payload (x, s) = (sent, y, u)"
    by (metis prod_cases3)
  have t: "ok = False" "t = put_session (fh_leaf_mac header) y u"
    using assms d by (simp_all add: handle_state_def put_conn_def)
  note h = deauth_harmless [OF d]
  show ?thesis
    using h(1) h(7) [of m] by (simp add: t same_engine_def get_put_session h(2-6) get_session_cong [OF h(2)])
qed

lemma forged_other:
  assumes "get_session s (fh_leaf_mac header) = Some x" "bs_session_key_valid x"
    and "validate_session_packet env s x header payload tag = None"
  shows "handle_heartbeat env sender header payload rssi tag s = (False, s)"
    "handle_ack env header payload rssi tag s = (False, s)" "handle_schema_push env sender header payload tag s = (False, s)"
  using assms by (simp_all add: handle_heartbeat_def handle_ack_def handle_schema_push_def)

lemma same_engine_refl: "same_engine m s s"
  by (simp add: same_engine_def)

lemma same_engine_trans: "same_engine m s t \<Longrightarrow> same_engine m t u \<Longrightarrow> same_engine m s u"
  by (simp add: same_engine_def)

lemma forged_session_packet:
  assumes x: "get_session s (fh_leaf_mac header) = Some x" "bs_session_key_valid x" "bs_leaf_mac x = fh_leaf_mac header"
    and forged: "validate_session_packet env s x header payload tag = None"
    and r: "session_packet env sender ty header n payload rssi tag s = (ok, t)"
  shows "\<not> ok \<and> same_engine (fh_leaf_mac header) s t \<and>
    (\<exists>y. get_session t (fh_leaf_mac header) = Some y \<and> trusted y = trusted x) \<and>
    (\<exists>evs. bp_events t = bp_events s @ evs \<and> list_all (harmless_event (bs_leaf_mac x)) evs)"
proof -
  obtain x1 s2 evs where sp: "get_session s2 (fh_leaf_mac header) = Some x1" "trusted x1 = trusted (x\<lparr>bs_leaf_mac := fh_leaf_mac header\<rparr>)"
    "same_engine (fh_leaf_mac header) s s2" "bp_events s2 = bp_events s @ evs" "list_all (harmless_event (bs_leaf_mac x)) evs"
    "session_packet env sender ty header n payload rssi tag s =
       (if n > unat (bs_session_max_payload x1) then (False, s2)
        else if ty = PKT_STATE then handle_state env sender header payload rssi tag s2
        else if ty = PKT_HEARTBEAT then handle_heartbeat env sender header payload rssi tag s2
        else handle_ack env header payload rssi tag s2)"
    by (rule session_packet_split [OF x(1, 2), of env sender ty n payload rssi tag])
  have tr: "trusted x1 = trusted x" using sp(2) x(3) by (metis (no_types) BridgeSession.surjective BridgeSession.update_convs(1))
  note eq = trusted_eqD [OF tr]
  have bad: "validate_session_packet env s2 x1 header payload tag = None"
    using forged eq sp(3) validate_cong [of x1 x s2 s] by (simp add: same_engine_def)
  have key: "bs_session_key_valid x1" using eq(2) x(2) by simp
  show ?thesis
  proof (cases "n \<le> unat (bs_session_max_payload x1) \<and> ty = PKT_STATE")
    case True
    then have "handle_state env sender header payload rssi tag s2 = (ok, t)" using r sp(6) by simp
    from forged_state [OF sp(1) key bad this, of "bs_leaf_mac x"] show ?thesis
      using tr sp(4, 5) same_engine_trans [OF sp(3)] by auto
  next
    case False
    then have "ok = False \<and> t = s2" using r forged_other [OF sp(1) key bad] unfolding sp(6) by (auto split: if_splits)
    then show ?thesis using tr sp by auto
  qed
qed

lemma forged_frame:
  assumes ty: "packet_type_of (fh_packet_type (dec_frame_header frame)) = Some ty"
      "ty \<in> {PKT_STATE, PKT_HEARTBEAT, PKT_ACK, PKT_SCHEMA_PUSH}"
    and h: "header = dec_frame_header frame"
    and x: "get_session s (fh_leaf_mac header) = Some x" "bs_session_key_valid x" "bs_leaf_mac x = fh_leaf_mac header"
    and forged: "\<And>payload tag par. parse_frame env s frame = Some (header, payload, tag, par) \<Longrightarrow>
      validate_session_packet env s x header payload tag = None"
    and r: "on_espnow_frame env sender frame rssi s = (ok, t)"
  shows "\<not> ok \<and> same_engine (fh_leaf_mac header) s t \<and>
    (\<exists>y. get_session t (fh_leaf_mac header) = Some y \<and> trusted y = trusted x) \<and>
    (\<exists>evs. bp_events t = bp_events s @ evs \<and> list_all (harmless_event (bs_leaf_mac x)) evs)"
proof -
  let ?s = "rx_log env ty sender (length frame) rssi header s"
  have g: "get_session ?s m = get_session s m" for m by (simp add: get_session_def)
  have v: "validate_session_packet env ?s x header payload tag = validate_session_packet env s x header payload tag"
    for payload tag by (intro validate_cong) simp_all
  have e: "same_engine m ?s u = same_engine m s u" for m u by (simp add: same_engine_def g)
  have unchanged: ?thesis if "ok = False" "t = s \<or> t = ?s"
    using that x by (auto simp: e same_engine_refl g same_engine_def)
  show ?thesis
  proof (cases "ty = PKT_SCHEMA_PUSH")
    case True
    consider (none) "on_espnow_frame env sender frame rssi s = (False, s)"
      | (packet) payload tag par where "parse_frame env s frame = Some (header, payload, tag, par)"
          "handle_schema_push env sender header payload tag ?s = (ok, t)"
      using on_schema_frame [of frame env s sender rssi] ty(1) r h True by auto
    then have "ok = False \<and> (t = s \<or> t = ?s)"
    proof cases
      case packet
      have "validate_session_packet env ?s x header payload tag = None" using forged [OF packet(1)] v by simp
      from forged_other(3) [OF _ x(2) this] x(1) packet(2) show ?thesis by (simp add: g)
    qed (use r in auto)
    then show ?thesis using unchanged by blast
  next
    case False
    then consider (none) "on_espnow_frame env sender frame rssi s = (False, s)"
      | (packet) payload tag par where "parse_frame env s frame = Some (header, payload, tag, par)"
          "session_packet env sender ty header (length frame) payload rssi tag ?s = (ok, t)"
      using on_session_frame [OF ty(1), of env s sender rssi] ty(2) r h by auto
    then show ?thesis
    proof cases
      case none
      then show ?thesis using unchanged r by auto
    next
      case packet
      have "validate_session_packet env ?s x header payload tag = None" using forged [OF packet(1)] v by simp
      from forged_session_packet [OF _ x(2, 3) this packet(2)] x(1) show ?thesis by (simp add: g e)
    qed
  qed
qed

section \<open>The join handshake\<close>

text \<open>What the remote makes of a JOIN\_ACK: the frame is addressed to it, verifies, is accepted, and gives this session key.\<close>

definition offers_key :: "hmac_fn \<Rightarrow> crypto_state \<Rightarrow> mac \<Rightarrow> bytes \<Rightarrow> bytes \<Rightarrow> bytes \<Rightarrow> bool" where
  "offers_key hmac g leaf remote_nonce frame key \<longleftrightarrow>
     (case parse_received_header frame of
        None \<Rightarrow> False
      | Some (hdr, par, pl) \<Rightarrow>
          fh_protocol_version hdr = ESPNOW_PROTOCOL_VER \<and> fh_hop_count hdr = downstream_hop_count \<and>
          fh_packet_type hdr = packet_type_code PKT_JOIN_ACK \<and> fh_leaf_mac hdr = leaf \<and> length pl = 20 \<and> verify_frame_psk_tag hmac g frame pl \<and>
          (case parse_join_ack pl of
             None \<Rightarrow> False
           | Some ack \<Rightarrow> jack_accepted ack = 1 \<and> derive_session_key_from_join_ack hmac g ack remote_nonce = key))"

lemma enc_join_ack_length: "length (jack_bridge_nonce a) = 16 \<Longrightarrow> wf_join_ack a"
  by (simp add: wf_join_ack_def)

lemma downstream_no_parent: "\<not> has_parent_check downstream_hop_count"
  by (simp add: has_parent_check_def downstream_hop_count_def ESPNOW_HOPS_MAKE_def)

lemma offers_key_join_ack:
  assumes "length leaf = 6" "g_psk_set g" "length nonce = 16"
  shows "offers_key hmac g leaf rn (assemble_plain_frame hmac g PKT_JOIN_ACK leaf downstream_hop_count tx
      (enc_join_ack \<lparr>jack_accepted = 1, jack_reason = r, jack_stage = st, jack_bridge_nonce = nonce, jack_session_flags = fl\<rparr>))
    (espnow_crypto_derive_session_key hmac g nonce rn)"
proof -
  let ?a = "\<lparr>jack_accepted = 1, jack_reason = r, jack_stage = st, jack_bridge_nonce = nonce, jack_session_flags = fl\<rparr>"
  have wf: "wf_join_ack ?a" using assms(3) by (simp add: wf_join_ack_def)
  have len: "length (enc_join_ack ?a) = 20" by (rule jack.enc_length [OF wf])
  then have ne: "enc_join_ack ?a \<noteq> []" by auto
  obtain tag where p: "parse_received_header (assemble_plain_frame hmac g PKT_JOIN_ACK leaf downstream_hop_count tx (enc_join_ack ?a)) =
     Some (\<lparr>fh_protocol_version = 3, fh_hop_count = downstream_hop_count, fh_packet_type = packet_type_code PKT_JOIN_ACK,
            fh_leaf_mac = leaf, fh_tx_counter = tx, fh_psk_tag = tag\<rparr>, replicate 6 0, enc_join_ack ?a)"
    using parse_plain_frame [OF assms(1) downstream_no_parent] by blast
  show ?thesis
    using verify_plain_frame [OF assms(1, 2) ne] len
    by (simp add: offers_key_def p parse_join_ack_def jack.dec_enc_nil [OF wf] derive_session_key_from_join_ack_def
        derive_session_key_def)
qed

text \<open>New events are appended.\<close>

definition extends :: "bridge \<Rightarrow> bridge \<Rightarrow> bool" where
  "extends s t \<longleftrightarrow> (\<exists>evs. bp_events t = bp_events s @ evs) \<and> bp_crypto t = bp_crypto s \<and> bp_fns t = bp_fns s"

lemma extends_refl: "extends s s"
  by (simp add: extends_def)

lemma extends_trans: "extends s t \<Longrightarrow> extends t u \<Longrightarrow> extends s u"
  by (auto simp: extends_def)

lemma extends_call_fn: "extends s (call_fn f ev s)"
  by (simp add: extends_def call_fn_def)

lemma extends_state_log: "extends s (queue_state_log st msg s)"
  by (simp add: extends_def queue_state_log_def)

lemma extends_queue_log: "extends s (queue_log e s)"
  by (simp add: extends_def queue_log_def)

lemma extends_encrypted: "extends (snd c) (snd (snd (send_encrypted env dest ty hop plain ack c)))"
  by (cases c) (auto simp: send_encrypted_def Let_def call_send_def asked_def queue_log_def extends_def split: option.split)

lemma extends_schema_request: "extends (snd c) (snd (snd (send_schema_request env dest ty i c)))"
proof (cases c)
  case (Pair x s)
  have q: "extends s (snd (snd (send_encrypted env dest t hop plain ack (x, queue_log e s))))" for t hop plain ack e
    using extends_trans [OF extends_queue_log extends_encrypted [of "(x, queue_log e s)", unfolded snd_conv]] .
  show ?thesis
    using q by (simp add: Pair send_schema_request_def Let_def case_prod_beta)
qed

definition sent_since :: "bridge \<Rightarrow> bridge \<Rightarrow> mac \<Rightarrow> bytes \<Rightarrow> bool" where
  "sent_since s t dest frame \<longleftrightarrow> SendFrame dest frame \<in> set (drop (length (bp_events s)) (bp_events t))"

lemma sent_since_mono:
  assumes "sent_since s t dest frame" "extends t u"
  shows "sent_since s u dest frame"
  using assms by (auto simp: sent_since_def extends_def)

lemma sent_since_before:
  assumes "extends r s" "sent_since s t dest frame"
  shows "sent_since r t dest frame"
  using assms set_drop_subset_set_drop [of "length (bp_events r)" "length (bp_events s)" "bp_events t"]
  by (auto simp: sent_since_def extends_def)

text \<open>What the handshake keeps of the keys.\<close>

definition same_key :: "BridgeSession \<Rightarrow> BridgeSession \<Rightarrow> bool" where
  "same_key x y \<longleftrightarrow> bs_session_key y = bs_session_key x \<and> bs_session_key_valid y = bs_session_key_valid x \<and>
     bs_bridge_nonce y = bs_bridge_nonce x \<and> bs_leaf_mac y = bs_leaf_mac x"

lemma join_ack_effect:
  assumes "send_join_ack env dest 1 reason stage (x, s) = (ok, y, t)" "SEND_FN \<in> set (bp_fns s)"
  shows "same_key x y" "extends s t"
    "sent_since s t dest (assemble_plain_frame (be_hmac env) (bp_crypto s) PKT_JOIN_ACK (bs_leaf_mac x) downstream_hop_count
      (bs_tx_counter x) (enc_join_ack \<lparr>jack_accepted = 1, jack_reason = reason, jack_stage = stage,
                 jack_bridge_nonce = bs_bridge_nonce x, jack_session_flags = bp_bridge_session_flags s\<rparr>))"
  using assms
  by (auto simp: send_join_ack_def Let_def case_prod_beta same_key_def extends_def sent_since_def plain_rest plain_events)

lemma join_complete_effect:
  assumes "send_join_complete env dest reset (x, s) = (ok, y, t)" "SEND_FN \<in> set (bp_fns s)"
  shows "same_key x y" "extends s t"
    "sent_since s t dest (assemble_plain_frame (be_hmac env) (bp_crypto s) PKT_JOIN_ACK (bs_leaf_mac x) downstream_hop_count
      (bs_tx_counter x) (enc_join_ack \<lparr>jack_accepted = 1, jack_reason = 0, jack_stage = 100,
                 jack_bridge_nonce = bs_bridge_nonce x, jack_session_flags = bp_bridge_session_flags s\<rparr>))"
  using assms
  by (auto simp: send_join_complete_def send_join_ack_def Let_def case_prod_beta same_key_def extends_def sent_since_def
      plain_rest plain_events)

text \<open>The session a handshake works on: its key comes from its nonces.\<close>

definition keyed :: "bridge_env \<Rightarrow> crypto_state \<Rightarrow> mac \<Rightarrow> bytes \<Rightarrow> BridgeSession \<Rightarrow> bool" where
  "keyed env g leaf rn x \<longleftrightarrow> bs_leaf_mac x = leaf \<and> length leaf = 6 \<and> length (bs_bridge_nonce x) = 16 \<and> bs_session_key_valid x \<and>
     bs_session_key x = espnow_crypto_derive_session_key (be_hmac env) g (bs_bridge_nonce x) rn"

definition join_answered :: "bridge_env \<Rightarrow> mac \<Rightarrow> bytes \<Rightarrow> mac \<Rightarrow> bridge \<Rightarrow> conn \<Rightarrow> bool" where
  "join_answered env leaf rn dest s c \<longleftrightarrow> keyed env (bp_crypto s) leaf rn (fst c) \<and>
     (\<exists>frame. sent_since s (snd c) dest frame \<and> offers_key (be_hmac env) (bp_crypto s) leaf rn frame (bs_session_key (fst c)))"

lemma join_answeredI:
  assumes "keyed env (bp_crypto s) leaf rn x" "g_psk_set (bp_crypto s)" "same_key x y"
    and "sent_since s t dest (assemble_plain_frame (be_hmac env) (bp_crypto s) PKT_JOIN_ACK (bs_leaf_mac x) downstream_hop_count
      tx (enc_join_ack \<lparr>jack_accepted = 1, jack_reason = r, jack_stage = st,
                 jack_bridge_nonce = bs_bridge_nonce x, jack_session_flags = fl\<rparr>))"
  shows "join_answered env leaf rn dest s (y, t)"
proof -
  have "keyed env (bp_crypto s) leaf rn y" using assms(1, 3) by (simp add: keyed_def same_key_def)
  moreover have "bs_session_key y = espnow_crypto_derive_session_key (be_hmac env) (bp_crypto s) (bs_bridge_nonce x) rn"
    using assms(1, 3) by (simp add: keyed_def same_key_def)
  moreover note offers_key_join_ack [of "bs_leaf_mac x" "bp_crypto s" "bs_bridge_nonce x" "be_hmac env" rn tx r st fl]
  ultimately show ?thesis using assms by (auto simp: join_answered_def keyed_def)
qed

lemma join_answered_lift:
  assumes "extends r s" "join_answered env leaf rn dest s (x, t)" "extends t u" "same_key x y"
  shows "join_answered env leaf rn dest r (y, u)"
proof -
  obtain frame where f: "sent_since s t dest frame" "offers_key (be_hmac env) (bp_crypto s) leaf rn frame (bs_session_key x)"
    "keyed env (bp_crypto s) leaf rn x" using assms(2) by (auto simp: join_answered_def)
  have "sent_since r u dest frame" by (rule sent_since_mono [OF sent_since_before [OF assms(1) f(1)] assms(3)])
  moreover have "bp_crypto s = bp_crypto r" using assms(1) by (simp add: extends_def)
  ultimately show ?thesis using f assms(4) by (auto simp: join_answered_def keyed_def same_key_def)
qed

lemma same_key_refl: "same_key x x"
  by (simp add: same_key_def)

lemma keyed_same: "keyed env g leaf rn x \<Longrightarrow> same_key x y \<Longrightarrow> keyed env g leaf rn y"
  by (simp add: keyed_def same_key_def)

lemma join_cached_answered:
  assumes k: "keyed env (bp_crypto s) leaf rn x" and fn: "SEND_FN \<in> set (bp_fns s)" and psk: "g_psk_set (bp_crypto s)"
    and r: "join_cached env sender header join key (x, s) = (True, c)"
  shows "join_answered env leaf rn sender s c"
proof -
  define x1 where "x1 = (case omap_find (bp_schema_cache s) key of Some cd \<Rightarrow> adopt_cached cd x | None \<Rightarrow> x)"
  define x2 where "x2 = x1\<lparr>bs_schema_received := True, bs_total_entities := word_of_nat (length (bs_schema_entities x1))\<rparr>"
  define s1 where "s1 = call_fn SCHEMA_COMPLETE_FN (SchemaComplete (bs_leaf_mac x2) (bs_total_entities x2)) s"
  have "same_key x x2" by (simp add: same_key_def x2_def x1_def adopt_cached_def split: option.split)
  then have k2: "keyed env (bp_crypto s1) leaf rn x2" using keyed_same [OF k] by (simp add: s1_def)
  have e1: "extends s s1" by (simp add: s1_def extends_call_fn)
  have fn1: "SEND_FN \<in> set (bp_fns s1)" and psk1: "g_psk_set (bp_crypto s1)" using fn psk by (simp_all add: s1_def)
  note unf = join_cached_def [of env sender header join key "(x, s)"]
  show ?thesis
  proof (cases "join_dirty_count join = 0")
    case True
    obtain sent x3 s3 where e: "send_join_complete env sender True (x2, s1) = (sent, x3, s3)" by (metis prod_cases3)
    note eff = join_complete_effect [OF e fn1]
    have "c = (x3, queue_state_log JOINED (''State: JOINED remote='' @ mac_hex (fh_leaf_mac header) @ '' (Complete, no dirty state)'') s3)"
      using r unfolding unf Let_def prod.case x1_def [symmetric] x2_def [symmetric] s1_def [symmetric] e
      by (simp add: True)
    then show ?thesis
      using join_answered_lift [OF e1 join_answeredI [OF k2 psk1 eff(1, 3)] extends_state_log same_key_refl] by simp
  next
    case False
    define x3 where "x3 = x2\<lparr>bs_state_sync_pending := True, bs_awaiting_more_dirty := True\<rparr>"
    define s2 where "s2 = queue_state_log STATE_SYNC (''State: STATE_SYNC remote='' @ mac_hex sender @
                      '' (dirty_count='' @ dec_digits (unat (join_dirty_count join)) @ '')'') s1"
    obtain sent x4 s4 where e: "send_join_ack env sender 1 0 2 (x3, s2) = (sent, x4, s4)" by (metis prod_cases3)
    have "extends s1 s2" by (simp add: s2_def extends_state_log)
    then have e2: "extends s s2" and fn2: "SEND_FN \<in> set (bp_fns s2)" and psk2: "g_psk_set (bp_crypto s2)"
      and k3: "keyed env (bp_crypto s2) leaf rn x3"
      using e1 extends_trans fn1 psk1 keyed_same [OF k2, of x3] by (auto simp: extends_def same_key_def x3_def)
    note eff = join_ack_effect [OF e fn2]
    have "c = (x4, s4)"
      using r unfolding unf Let_def prod.case x1_def [symmetric] x2_def [symmetric] s1_def [symmetric]
        x3_def [symmetric] s2_def [symmetric] e by (auto simp: False split: if_splits)
    then show ?thesis
      using join_answered_lift [OF e2 join_answeredI [OF k3 psk2 eff(1, 3)] extends_refl same_key_refl] by simp
  qed
qed

lemma schema_request_key: "same_key (fst c) (fst (snd (send_schema_request env dest ty i c)))"
  by (cases c) (simp add: send_schema_request_def send_encrypted_def Let_def case_prod_beta same_key_def split: option.split)

lemma join_refresh_answered:
  assumes k: "keyed env (bp_crypto s) leaf rn x" and fn: "SEND_FN \<in> set (bp_fns s)" and psk: "g_psk_set (bp_crypto s)"
    and r: "join_schema_refresh env sender header (x, s) = (True, c)"
  shows "join_answered env leaf rn sender s c"
proof -
  define x1 where "x1 = x\<lparr>bs_schema_entities := [], bs_schema_received := False,
     bs_pending_schema_descriptor_type := 0, bs_pending_schema_index := 0\<rparr>"
  obtain ok x2 s2 where a: "send_join_ack env sender 1 0 1 (x1, s) = (ok, x2, s2)" by (metis prod_cases3)
  define y where "y = x2\<lparr>bs_schema_request_retries := 0\<rparr>"
  define s3 where "s3 = queue_state_log JOINED (''State: JOINED remote='' @ mac_hex (fh_leaf_mac header) @ '' (Schema Refresh)'') s2"
  obtain sent x3 s4 where q: "send_schema_request env sender 0 0 (y, s3) = (sent, x3, s4)" by (metis prod_cases3)
  have k1: "keyed env (bp_crypto s) leaf rn x1" using keyed_same [OF k] by (simp add: same_key_def x1_def)
  note eff = join_ack_effect [OF a fn]
  have c: "c = (x3\<lparr>bs_schema_request_in_flight := sent, bs_last_schema_request_ms := be_now env\<rparr>, s4)"
    using r unfolding join_schema_refresh_def Let_def prod.case x1_def [symmetric] a y_def [symmetric] s3_def [symmetric] q
    by (auto split: if_splits)
  have "extends s2 s3" by (simp add: s3_def extends_state_log)
  moreover have "extends s3 s4" using extends_schema_request [of "(y, s3)" env sender 0 0] by (simp add: q)
  ultimately have ext: "extends s2 s4" by (rule extends_trans)
  have "same_key y x3" using schema_request_key [of "(y, s3)" env sender 0 0] by (simp add: q)
  then have "same_key x2 (x3\<lparr>bs_schema_request_in_flight := sent, bs_last_schema_request_ms := be_now env\<rparr>)"
    by (simp add: same_key_def y_def)
  then show ?thesis
    unfolding c by (rule join_answered_lift [OF extends_refl join_answeredI [OF k1 psk eff(1, 3)] ext])
qed

lemma join_fresh_keyed:
  assumes "length (bs_leaf_mac x) = 6" and r: "join_fresh env sender header join rssi (x, s) = (y, t)"
  shows "keyed env (bp_crypto s) (bs_leaf_mac x) (join_remote_nonce join) y" "extends s t"
  using assms
  by (auto simp: join_fresh_def join_keys_def fill_random_16_def asked_def Let_def keyed_def extends_def)

lemma join_session_answered:
  assumes leaf: "length (bs_leaf_mac x) = 6" and fn: "SEND_FN \<in> set (bp_fns s)" and psk: "g_psk_set (bp_crypto s)"
    and slot: "\<not> (bp_joining_in_progress s \<and> fh_leaf_mac header \<noteq> bp_joining_leaf_mac s)"
    and fresh: "\<not> (bs_join_in_progress x \<and> bs_remote_nonce x = join_remote_nonce join \<and> bs_schema_hash x = join_schema_hash join)"
    and r: "join_session env sender header join rssi (x, s) = (True, c)"
  shows "join_answered env (bs_leaf_mac x) (join_remote_nonce join) sender s c"
proof -
  obtain y t where f: "join_fresh env sender header join rssi (x\<lparr>bs_join_in_progress := False\<rparr>, s) = (y, t)" by fastforce
  have k: "keyed env (bp_crypto s) (bs_leaf_mac x) (join_remote_nonce join) y" and e: "extends s t"
    using join_fresh_keyed [OF _ f] leaf by simp_all
  have k': "keyed env (bp_crypto t) (bs_leaf_mac x) (join_remote_nonce join) y" "SEND_FN \<in> set (bp_fns t)" "g_psk_set (bp_crypto t)"
    using k e fn psk by (simp_all add: extends_def)
  have "join_answered env (bs_leaf_mac x) (join_remote_nonce join) sender t c"
    using r slot fresh join_cached_answered [OF k'] join_refresh_answered [OF k']
    unfolding join_session_def Let_def prod.case f by (auto split: if_splits)
  then show ?thesis
    using join_answered_lift [OF e _ extends_refl same_key_refl] by (metis prod.collapse)
qed

section \<open>Fragments of a command\<close>

lemma concat_value_slices: "concat (map (\<lambda>i. take k (drop (i * k) xs)) [0..<n]) = take (n * k) xs"
  by (induction n) (simp_all add: take_add [symmetric] add.commute)

lemma append_entity_payload_take:
  "n \<le> length v \<Longrightarrow> append_entity_payload p ei fl fi fc (Some v) n = append_entity_payload p ei fl fi fc (Some (take n v)) n"
  by (simp add: append_entity_payload_def Let_def)

lemma append_entity_payload_none:
  "append_entity_payload [] ei fl fi fc None 0 = append_entity_payload [] ei fl fi fc (Some []) 0"
  by (simp add: append_entity_payload_def Let_def)

lemma parse_command_fragment:
  assumes n: "command_chunk_count mef val \<le> 255" and i: "i < command_chunk_count mef val"
  shows "\<exists>fl. parse_entity_payload (command_fragment mef field val i) =
    Some \<lparr>epv_entity_index = field, epv_flags = fl, epv_fragment_index = word_of_nat i,
          epv_fragment_count = word_of_nat (command_chunk_count mef val),
          epv_value = take (unat mef) (drop (i * unat mef) val)\<rparr>"
proof -
  let ?n = "command_chunk_count mef val" and ?v = "take (unat mef) (drop (i * unat mef) val)"
  let ?fl = "if i + 1 < ?n then ESPNOW_ENTITY_FLAG_MORE_FRAGMENTS else 0 :: u8"
  have un: "unat (word_of_nat ?n :: u8) = ?n" "unat (word_of_nat i :: u8) = i"
    using n i by (simp_all add: unat_of_nat)
  have ne: "(word_of_nat ?n :: u8) \<noteq> 0" "(word_of_nat i :: u8) < word_of_nat ?n"
    using un i by (auto simp: word_less_nat_alt unat_eq_zero)
  have "command_fragment mef field val i =
      append_entity_payload [] field ?fl (word_of_nat i) (word_of_nat ?n) (Some ?v) (length ?v)"
  proof (cases "length ?v > 0")
    case True
    then show ?thesis
      using append_entity_payload_take [of "length ?v" "drop (i * unat mef) val" "[]" field ?fl "word_of_nat i" "word_of_nat ?n"]
      by (auto simp: command_fragment_def Let_def min_def)
  next
    case False
    then show ?thesis by (auto simp: command_fragment_def Let_def append_entity_payload_none)
  qed
  then show ?thesis using parse_entity_payload_append [OF ne refl, of "[]" field ?fl ?v] by auto
qed

lemma chunk_count_covers:
  assumes "mef \<noteq> (0 :: u16)"
  shows "length val \<le> command_chunk_count mef val * unat mef"
proof -
  have pos: "0 < unat mef" using assms by (simp add: unat_gt_0)
  have "length val \<le> (length val + unat mef - 1) div unat mef * unat mef"
    using div_mult_mod_eq [of "length val + unat mef - 1" "unat mef"]
      mod_less_divisor [OF pos, of "length val + unat mef - 1"] pos by linarith
  also have "\<dots> \<le> command_chunk_count mef val * unat mef"
    by (intro mult_right_mono) (simp_all add: command_chunk_count_def)
  finally show ?thesis .
qed

lemma command_fragments_stored:
  assumes mef: "mef \<noteq> 0" and n: "n = command_chunk_count mef val" "n \<le> 255" and cap: "n * unat mef \<le> unat cap"
    and a: "\<not> fa_active a" and vs: "vs \<noteq> []"
    and frs: "\<forall>(v, now)\<in>set vs. \<exists>i<n. parse_entity_payload (command_fragment mef field val i) = Some v"
  shows "(fragment_assembly_complete (store_all store_fragment tx mef cap vs a) \<longleftrightarrow> {..<n} \<subseteq> slots vs) \<and>
    (fragment_assembly_complete (store_all store_fragment tx mef cap vs a) \<longrightarrow>
      assemble_fragment_payload (store_all store_fragment tx mef cap vs a) mef = val)"
proof -
  define m where "m = map (\<lambda>i. take (unat mef) (drop (i * unat mef) val)) [0..<n]"
  have len: "length m = n" by (simp add: m_def)
  have "concat m = val"
    using chunk_count_covers [OF mef, of val] by (simp add: m_def concat_value_slices n(1))
  moreover have "\<forall>(v, now)\<in>set vs. fits n mef v \<and> epv_value v = m ! unat (epv_fragment_index v)"
  proof clarify
    fix v now assume "(v, now) \<in> set vs"
    then obtain i where i: "i < n" "parse_entity_payload (command_fragment mef field val i) = Some v" using frs by fastforce
    obtain fl where v: "v = \<lparr>epv_entity_index = field, epv_flags = fl, epv_fragment_index = word_of_nat i,
          epv_fragment_count = word_of_nat n, epv_value = take (unat mef) (drop (i * unat mef) val)\<rparr>"
      using parse_command_fragment [of mef val i field] i n by auto
    have "unat (word_of_nat n :: u8) = n" "unat (word_of_nat i :: u8) = i" using i(1) n(2) by (simp_all add: unat_of_nat)
    then show "fits n mef v \<and> epv_value v = m ! unat (epv_fragment_index v)"
      using i(1) by (simp add: v fits_def m_def)
  qed
  ultimately show ?thesis using bridge_frag.store_all_message [OF cap a len vs, of tx] by simp
qed

end
