(* ===== verification/Bridge_Timers.thy ===== *)
theory Bridge_Timers
  imports Bridge_Laws
begin

text \<open>
  What the timers of the bridge guarantee: how many sessions an eviction leaves, and that every command
  leaves the queue, acknowledged or not.  The stages of the loop other than the command stage leave the
  queue alone, which is one more \<open>session_property\<close>.
\<close>

section \<open>Eviction\<close>

lemma length_erase_found:
  "omap_ok m \<Longrightarrow> omap_find m k = Some x \<Longrightarrow> Suc (length (omap_erase k m)) = length m"
proof (induction m)
  case (Cons p m)
  have ok: "omap_ok m" "\<forall>q\<in>set m. fst p < fst q" using Cons.prems(1) by (auto simp: omap_ok_def)
  show ?case
  proof (cases "fst p = k")
    case True
    then have "filter (\<lambda>q. fst q \<noteq> k) m = m" using ok(2) by (intro filter_True) auto
    then show ?thesis using True by (simp add: omap_erase_def)
  next
    case False
    then show ?thesis using Cons ok(1) by (simp add: omap_erase_def omap_find_def)
  qed
qed (simp add: omap_find_def)

lemma drop_session_sessions [simp]: "bp_sessions (drop_session k x s) = omap_erase k (bp_sessions s)"
  by (simp add: drop_session_def Let_def)

lemma asked_sessions [simp]: "bp_sessions (asked s) = bp_sessions s"
  by (simp add: asked_def)

lemma word_minus_gt:
  assumes "unat e \<le> n" "n < 2 ^ 32" "\<not> word_of_nat n - e \<le> (8 :: u32)"
  shows "unat e + 8 < n"
proof -
  have n: "unat (word_of_nat n :: u32) = n" using assms(2) by (simp add: unat_of_nat)
  have "unat (word_of_nat n - e) = n - unat e" using assms(1) n by (simp add: unat_sub word_le_nat_alt)
  then show ?thesis using assms(3) by (simp add: word_le_nat_alt)
qed

text \<open>Evicting one session subtracts it twice: from the number of sessions and through the count of evictions.\<close>

lemma evict_candidates_bound:
  assumes "omap_ok (bp_sessions s)" "length (bp_sessions s) + unat e \<le> 128" "e = 0 \<or> unat e + 7 \<le> length (bp_sessions s)"
    and "evict_candidates env aggr target ks e s = (e', t)"
  shows "length (bp_sessions t) + unat e' = length (bp_sessions s) + unat e \<and>
    (e' = 0 \<or> unat e' + 7 \<le> length (bp_sessions t))"
  using assms
proof (induction ks arbitrary: e s)
  case (Cons k ks)
  let ?n = "length (bp_sessions s)"
  define s1 where "s1 = asked s"
  have s1: "bp_sessions s1 = bp_sessions s" by (simp add: s1_def)
  show ?case
  proof (cases "be_free_heap env (bp_calls s) \<ge> target \<or> word_of_nat ?n - e \<le> 8")
    case True
    then have "e' = e \<and> bp_sessions t = bp_sessions s"
      using Cons.prems(4) by (auto simp: esp_get_free_heap_size_def Let_def split: if_splits)
    then show ?thesis using Cons.prems by simp
  next
    case go: False
    show ?thesis
    proof (cases "\<exists>x. omap_find (bp_sessions s) k = Some x \<and>
        (aggr \<or> (bs_pending_state_assemblies x = [] \<and> bs_pending_schema_assemblies x = []))")
      case False
      then have "evict_candidates env aggr target ks e s1 = (e', t)"
        using Cons.prems(4) go
        by (auto simp: esp_get_free_heap_size_def s1_def Let_def split: option.splits)
      then show ?thesis using Cons.IH [of s1 e] Cons.prems by (simp add: s1)
    next
      case True
      then obtain x where x: "omap_find (bp_sessions s) k = Some x"
        "aggr \<or> (bs_pending_state_assemblies x = [] \<and> bs_pending_schema_assemblies x = [])" by blast
      define u where "u = (if bs_online x then call_fn PUBLISH_AVAILABILITY_FN
          (PublishAvailability (bs_leaf_mac x) False ''evicted'') s1 else s1)"
      have run: "evict_candidates env aggr target ks (e + 1) (drop_session k x u) = (e', t)"
        using Cons.prems(4) go x
        by (auto simp: esp_get_free_heap_size_def s1_def u_def Let_def split: if_splits)
      have le: "unat e \<le> ?n" using Cons.prems(3) by auto
      have "\<not> word_of_nat ?n - e \<le> (8 :: u32)" using go by simp
      from word_minus_gt [OF le _ this] have gt: "unat e + 8 < ?n" using Cons.prems(2) by simp
      have e1: "unat (e + 1) = unat e + 1" using Cons.prems(2) unat_plus_fits [of e 1] by simp
      have len: "Suc (length (bp_sessions (drop_session k x u))) = ?n"
        using length_erase_found [OF Cons.prems(1) x(1)] by (simp add: u_def s1)
      have ok: "omap_ok (bp_sessions (drop_session k x u))" using Cons.prems(1) by (simp add: u_def s1 omap_ok_erase)
      from Cons.IH [OF ok _ _ run] show ?thesis using len e1 gt Cons.prems(2) by simp
    qed
  qed
qed simp

lemma evict_bound:
  assumes "omap_ok (bp_sessions s)" "length (bp_sessions s) \<le> 128"
  shows "length (bp_sessions s) \<le> 8 \<longrightarrow>
      length (bp_sessions (snd (evict_sessions_for_ram env aggr s))) = length (bp_sessions s)"
    and "8 < length (bp_sessions s) \<longrightarrow>
      length (bp_sessions s) + 7 \<le> 2 * length (bp_sessions (snd (evict_sessions_for_ram env aggr s)))"
proof -
  let ?f = "be_free_heap env (bp_calls s)"
  obtain e t where e: "evict_candidates env aggr (?f + 10240) (eviction_order (asked s)) 0 (asked s) = (e, t)" by fastforce
  note b = evict_candidates_bound [OF _ _ _ e]
  show "length (bp_sessions s) \<le> 8 \<longrightarrow>
      length (bp_sessions (snd (evict_sessions_for_ram env aggr s))) = length (bp_sessions s)"
    "8 < length (bp_sessions s) \<longrightarrow>
      length (bp_sessions s) + 7 \<le> 2 * length (bp_sessions (snd (evict_sessions_for_ram env aggr s)))"
    using b assms by (auto simp: evict_sessions_for_ram_def esp_get_free_heap_size_def Let_def e)
qed

section \<open>The command queue\<close>

interpretation command_queue: session_property "\<lambda>_. True" "\<lambda>s. bp_command_queue s = q"
  for q
  by unfold_locales (simp_all add: asked_def)

lemma queue_random [simp]: "bp_command_queue (snd (esp_random env s)) = bp_command_queue s"
  "bp_sessions (snd (esp_random env s)) = bp_sessions s"
  by (simp_all add: esp_random_def asked_def)

lemma queue_encrypted [simp]:
  "bp_command_queue (snd (snd (send_encrypted env dest ty hop plain ack c))) = bp_command_queue (snd c)"
  by (cases c) (simp add: send_encrypted_def Let_def call_send_def asked_def queue_log_def split: option.split)

lemma queue_schema_request [simp]:
  "bp_command_queue (snd (snd (send_schema_request env dest ty i c))) = bp_command_queue (snd c)"
  by (cases c) (simp add: send_schema_request_def Let_def case_prod_beta, simp add: queue_log_def)

lemma queue_join_ack [simp]:
  "bp_command_queue (snd (snd (send_join_ack env dest a r st c))) = bp_command_queue (snd c)"
  by (cases c) (simp add: send_join_ack_def Let_def case_prod_beta plain_rest)

lemma queue_join_complete [simp]:
  "bp_command_queue (snd (snd (send_join_complete env dest reset c))) = bp_command_queue (snd c)"
  by (simp add: send_join_complete_def Let_def case_prod_beta)

lemma queue_keeps:
  assumes "keeps c c'" "bp_command_queue (snd c') = bp_command_queue (snd c)"
  shows "conn_keeps (\<lambda>_. True) (\<lambda>s. bp_command_queue s = q) c c'"
  using assms by (simp add: conn_keeps_def)

lemma queue_timers: "bp_command_queue (snd (session_timers env c)) = bp_command_queue (snd c)"
proof -
  have off: "bp_command_queue (snd (offline_check now d)) = bp_command_queue (snd d)" for now d
    by (simp add: offline_check_def announce_offline_def Let_def case_prod_beta)
  have retry: "bp_command_queue (snd (schema_retry env d)) = bp_command_queue (snd d)" for d
    by (simp add: schema_retry_def announce_offline_def Let_def case_prod_beta)
  have complete: "bp_command_queue (snd (join_complete_retry env d)) = bp_command_queue (snd d)" for d
    by (simp add: join_complete_retry_def announce_offline_def Let_def case_prod_beta)
  show ?thesis by (simp add: session_timers_def Let_def case_prod_beta off retry complete)
qed

lemma queue_announce: "bp_command_queue (snd (announce_due env c)) = bp_command_queue (snd c)"
  by (simp add: announce_due_def send_discover_announce_def plain_rest case_prod_beta)

abbreviation queue_inv :: "PendingCommand list \<Rightarrow> bridge \<Rightarrow> bool" where
  "queue_inv q \<equiv> sessions_inv (\<lambda>_. True) (\<lambda>s. bp_command_queue s = q)"

lemma queue_cleanup:
  assumes "queue_inv q s"
  shows "queue_inv q (session_cleanup env s)"
proof -
  have "queue_inv q (s\<lparr>bp_last_session_cleanup_ms := n\<rparr>)" for n using assms by (simp add: sessions_inv_def)
  note ev = command_queue.inv_evict [OF this]
  have ex: "conn_keeps (\<lambda>_. True) (\<lambda>s. bp_command_queue s = q) c (case c of (x, t) \<Rightarrow> (expire_schema_fragments now x, t))" for c now
    by (cases c) (auto intro!: queue_keeps keeps_expire_schema)
  show ?thesis
    using assms ev command_queue.inv_trim [OF ev] ex
    by (auto simp: session_cleanup_def Let_def intro!: command_queue.inv_all_sessions)
qed

lemma queue_config_stage:
  assumes "queue_inv q s"
  shows "queue_inv q (config_stage env s)"
proof -
  have tx: "bp_command_queue (snd (snd (send_config_frame env p rc c))) = bp_command_queue (snd c)" for p rc c
    by (cases c) (simp add: send_config_frame_def send_encrypted_with_tx_counter_def send_encrypted_with_tx_counter_result_def
        esp_get_free_heap_size_def call_send_def call_send_err_def asked_def queue_log_def Let_def case_prod_beta split: option.split)
  have one: "queue_inv q (snd (retry_config env p t))" if inv: "queue_inv q t" for p t
  proof -
    have "conn_keeps (\<lambda>_. True) (\<lambda>s. bp_command_queue s = q) (x, t) (snd (send_config_frame env p1 rc (x, t)))" for x p1 rc
      by (intro queue_keeps keeps_send_config_frame) (simp add: tx)
    note put = command_queue.inv_put_conn [OF inv _ this]
    have res: "queue_inv q (config_result a b p t)" for a b
      using inv by (auto simp: sessions_inv_def config_result_def split: option.split)
    show ?thesis using inv put res by (auto simp: retry_config_def Let_def case_prod_beta split: option.split)
  qed
  have "queue_inv q (snd (retry_pass (retry_config env) (bp_pending_configs s) s))"
    using command_queue.inv_retry_pass [of "\<lambda>_. True" q "retry_config env" "bp_pending_configs s" s] one assms by simp
  then show ?thesis by (simp add: config_stage_def Let_def case_prod_beta sessions_inv_def)
qed

text \<open>The queue after a turn of the loop is what the command stage makes of the queue before.\<close>

lemma loop_queue:
  assumes "bridge_ok s"
  shows "\<exists>t. bp_command_queue (bridge_loop env s) = fst (retry_pass (retry_command env) (bp_command_queue s) t)"
proof -
  let ?q = "bp_command_queue s" and ?now = "be_now env"
  have "queue_inv ?q (tick_uptime ?now s)"
    using assms by (simp add: sessions_inv_def tick_uptime_def Let_def)
  then have "queue_inv ?q (session_cleanup env (tick_uptime ?now s))" by (rule queue_cleanup)
  then have "queue_inv ?q (all_sessions (session_timers env) (session_cleanup env (tick_uptime ?now s)))"
    by (intro command_queue.inv_all_sessions queue_keeps keeps_session_timers queue_timers)
  then have "queue_inv ?q (join_slot_timeout ?now (all_sessions (session_timers env) (session_cleanup env (tick_uptime ?now s))))"
    (is "queue_inv ?q ?s2") by (simp add: sessions_inv_def join_slot_timeout_def)
  then have "queue_inv ?q (all_sessions (announce_due env) ?s2)"
    by (intro command_queue.inv_all_sessions queue_keeps keeps_announce_due queue_announce)
  then have "queue_inv ?q (ram_stage env (all_sessions (announce_due env) ?s2))"
    by (auto simp: ram_stage_def esp_get_free_heap_size_def Let_def intro: command_queue.inv_evict command_queue.inv_asked)
  then have "queue_inv ?q (config_stage env (ram_stage env (all_sessions (announce_due env) ?s2)))" (is "queue_inv ?q ?s4")
    by (rule queue_config_stage)
  then have "bp_command_queue ?s4 = ?q" by (rule command_queue.inv_E)
  then have "bp_command_queue (command_stage env ?s4) = fst (retry_pass (retry_command env) ?q ?s4)"
    by (simp add: command_stage_def Let_def case_prod_beta)
  then show ?thesis by (auto simp: bridge_loop_def Let_def diag_stage_def)
qed

text \<open>A command that is due is sent again, at most four times, and then given up.\<close>

definition command_due :: "bridge_env \<Rightarrow> PendingCommand \<Rightarrow> bool" where
  "command_due env p \<longleftrightarrow> be_now env - pc_last_tx_ms p \<ge> 1700"

lemma backoff_jitter:
  assumes "r < (4 :: u8)"
  shows "ucast (RETRY_BACKOFF_MS ! unat r) + j mod 101 \<le> (1700 :: u32)"
proof -
  have "unat r < 4" using assms by (simp add: word_less_nat_alt)
  then have "unat r = 0 \<or> unat r = 1 \<or> unat r = 2 \<or> unat r = 3" by linarith
  then have b: "unat (ucast (RETRY_BACKOFF_MS ! unat r) :: u32) \<le> 1600" by (auto simp: RETRY_BACKOFF_MS_def)
  have m: "unat (j mod 101) \<le> 100" by (simp add: unat_mod)
  have "unat (ucast (RETRY_BACKOFF_MS ! unat r) + j mod 101 :: u32) \<le> 1700"
    using unat_plus_fits [of "ucast (RETRY_BACKOFF_MS ! unat r) :: u32" "j mod 101"] b m by simp
  then show ?thesis by (simp add: word_le_nat_alt)
qed

lemma due_retry:
  assumes "command_due env p" "fst (retry_command env p s) = Some q"
  shows "pc_retry_count p < 4 \<and> unat (pc_retry_count q) = unat (pc_retry_count p) + 1 \<and> pc_last_tx_ms q = be_now env"
proof -
  have lt: "pc_retry_count p < 4" using assms(2) by (auto simp: retry_command_def split: if_splits)
  then have "unat (pc_retry_count p + 1) = unat (pc_retry_count p) + 1"
    using unat_plus_fits [of "pc_retry_count p" 1] by (simp add: word_less_nat_alt)
  moreover have "ucast (RETRY_BACKOFF_MS ! unat (pc_retry_count p)) + fst (esp_random env s) mod 101 \<le> be_now env - pc_last_tx_ms p"
    using backoff_jitter [OF lt, of "fst (esp_random env s)"] assms(1) by (simp add: command_due_def)
  ultimately show ?thesis
    using assms(2) lt by (auto simp: retry_command_def Let_def case_prod_beta split: if_splits option.splits)
qed

text \<open>Turns of the loop at least 1.7 s apart.\<close>

fun spaced :: "u32 \<Rightarrow> bridge_env list \<Rightarrow> bool" where
  "spaced prev [] = True"
| "spaced prev (env # envs) = (be_now env - prev \<ge> 1700 \<and> spaced (be_now env) envs)"

lemma commands_age:
  assumes "bridge_ok s" "\<forall>p\<in>set (bp_command_queue s). pc_last_tx_ms p = prev \<and> n \<le> unat (pc_retry_count p)"
    and "spaced prev envs" "n + length envs = 5"
  shows "bp_command_queue (fold bridge_loop envs s) = []"
  using assms
proof (induction envs arbitrary: s prev n)
  case Nil
  show ?case
  proof (cases "bp_command_queue s")
    case (Cons p ps)
    then have p: "p \<in> set (bp_command_queue s)" by simp
    have "pc_retry_count p \<le> 4" using bridge_inv.inv_E [OF Nil.prems(1)] p by (simp add: engine_ok_def)
    then have "unat (pc_retry_count p) \<le> 4" by (simp add: word_le_nat_alt)
    moreover have "5 \<le> unat (pc_retry_count p)" using Nil.prems(2, 4) p by simp
    ultimately have False by linarith
    then show ?thesis ..
  qed simp
next
  case (Cons env envs)
  obtain t where t: "bp_command_queue (bridge_loop env s) = fst (retry_pass (retry_command env) (bp_command_queue s) t)"
    using loop_queue [OF Cons.prems(1)] by blast
  have "pc_last_tx_ms q = be_now env \<and> n + 1 \<le> unat (pc_retry_count q)" if q: "q \<in> set (bp_command_queue (bridge_loop env s))" for q
  proof -
    obtain p u where p: "p \<in> set (bp_command_queue s)" "fst (retry_command env p u) = Some q"
      using retry_pass_settled [of "retry_command env" "bp_command_queue s" t] q unfolding t by metis
    have "command_due env p" using p(1) Cons.prems(2, 3) by (simp add: command_due_def)
    from due_retry [OF this p(2)] show ?thesis using p(1) Cons.prems(2) by auto
  qed
  then show ?case
    using Cons.IH [OF ok_bridge_loop [OF Cons.prems(1)], of env "be_now env" "n + 1"] Cons.prems(3, 4) by simp
qed

lemma commands_settle:
  assumes ok: "bridge_ok s" and due: "\<forall>p\<in>set (bp_command_queue s). command_due env p"
    and sp: "spaced (be_now env) envs" "length envs = 4"
  shows "bp_command_queue (fold bridge_loop (env # envs) s) = []"
proof -
  obtain t where t: "bp_command_queue (bridge_loop env s) = fst (retry_pass (retry_command env) (bp_command_queue s) t)"
    using loop_queue [OF ok] by blast
  have "pc_last_tx_ms q = be_now env \<and> 1 \<le> unat (pc_retry_count q)" if q: "q \<in> set (bp_command_queue (bridge_loop env s))" for q
  proof -
    obtain p u where p: "p \<in> set (bp_command_queue s)" "fst (retry_command env p u) = Some q"
      using retry_pass_settled [of "retry_command env" "bp_command_queue s" t] q unfolding t by metis
    then show ?thesis using due_retry [of env p u q] due by simp
  qed
  then show ?thesis using commands_age [OF ok_bridge_loop [OF ok], of env "be_now env" 1 envs] sp by simp
qed

end
