(* ===== verification/Remote_Node.thy ===== *)
theory Remote_Node
  imports File_Receiver Packet_Log Fragments Frames Ordered_Map "HOL-Library.Signed_Division"
begin

unbundle bit_operations_syntax

text \<open>
  \<^verbatim>\<open>esp_tree_remote/remote_protocol.h\<close> and the first half of \<^verbatim>\<open>remote_protocol.cpp\<close>: the state of a
  remote node, its reassembly buffer, the routing table, the frame builder and what resets a session.

  The members of \<^verbatim>\<open>RemoteProtocol\<close> are the record \<open>remote\<close>; the atomics are plain members, every
  handler runs to its end.  The platform is the record \<open>remote_env\<close>: one reading of \<^verbatim>\<open>millis()\<close> per
  handler, HMAC and SHA-256, and for calls whose answer changes from call to call a function of the
  number \<open>rp_calls\<close> of platform calls made so far.  A call of a callback or of the radio appends to
  \<open>rp_events\<close>.  \<^verbatim>\<open>int8_t\<close> signal strengths are bytes, read with \<open>sint\<close>.  \<^verbatim>\<open>esp_restart\<close> and
  \<^verbatim>\<open>safe_reboot\<close> are the event \<open>Reboot\<close>, after which the handler returns.
\<close>

section \<open>State\<close>

record OutstandingRequest =
  or_packet_type :: u8
  or_tx_counter :: u32
  or_request_fingerprint :: bytes

record RemoteRouteEntry =
  rt_leaf_mac :: mac
  rt_next_hop_mac :: mac
  rt_expiry_ms :: u32
  rt_has_logged_providing_relay :: bool

record DiscoverCandidate =
  dc_next_hop_mac :: mac
  dc_responder_role :: u8
  dc_bridge_reachable :: bool
  dc_flags :: u8
  dc_channel :: u8
  dc_rssi :: u8
  dc_hops_to_bridge :: u8
  dc_valid :: bool
  dc_preferred_index :: u8

record PendingDiscover =
  pd_leaf_mac :: mac
  pd_expiry_ms :: u32

record PendingAnnounce =
  pa_leaf_mac :: mac
  pa_sender_mac :: mac
  pa_responder_role :: u8
  pa_hops_to_bridge :: u8
  pa_deadline_ms :: u32
  pa_valid :: bool

record EntityRecord =
  er_schema :: espnow_entity_schema_t
  er_current_value :: bytes
  er_dirty :: bool
  er_current_text :: string
  er_last_completed_command_message_tx_base :: u32

datatype remote_event =
    RemoteSend mac bytes
  | CommandFn u8 u8 bytes
  | SetChannel u8
  | WifiStart
  | Reboot

record remote =
  rp_parent_mac :: mac
  rp_parent_valid :: bool
  rp_last_parent_mac :: mac
  rp_leaf_mac :: mac
  rp_bridge_mac :: mac
  rp_remote_nonce :: bytes
  rp_bridge_nonce :: bytes
  rp_session_key :: bytes
  rp_session_key_valid :: bool
  rp_joined :: bool
  rp_local_session_flags :: u8
  rp_bridge_session_flags :: u8
  rp_session_max_payload :: u16
  rp_max_entity_fragment :: u16
  rp_max_assembly_bytes :: u16
  rp_max_total_fragment_bytes :: u16
  rp_discovering :: bool
  rp_join_in_flight :: bool
  rp_discover_announce_pending :: bool
  rp_announce_queue_head :: nat
  rp_announce_queue_tail :: nat
  rp_announce_queue :: "PendingAnnounce list"
  rp_relay_enabled :: bool
  rp_ota_over_espnow :: bool
  rp_can_relay :: bool
  rp_max_hops :: u8
  rp_max_discover_pending :: u8
  rp_preferred_parents :: "mac list"
  rp_hop_count :: u8
  rp_hops_to_bridge :: u8
  rp_tx_counter :: u32
  rp_last_seen_counter :: u32
  rp_last_tx_ms :: u32
  rp_last_successful_outbound_ms :: u32
  rp_last_successful_state_ms :: u32
  rp_last_successful_heartbeat_ms :: u32
  rp_last_heartbeat_tx_ms :: u32
  rp_last_join_attempt_ms :: u32
  rp_join_delay_until_ms :: u32
  rp_joined_started_ms :: u32
  rp_heartbeat_interval :: u16
  rp_route_ttl_seconds :: u32
  rp_boot_epoch_ms :: u32
  rp_network_id :: string
  rp_esphome_name :: string
  rp_node_label :: string
  rp_firmware_epoch :: u32
  rp_project_name :: string
  rp_project_version :: string
  rp_chip_model :: u32
  rp_build_date :: string
  rp_build_time :: string
  rp_firmware_md5 :: bytes
  rp_entities :: "espnow_entity_schema_t list"
  rp_outstanding_requests :: "OutstandingRequest list"
  rp_outstanding_count :: nat
  rp_routes :: "RemoteRouteEntry list"
  rp_pending_discovers :: "PendingDiscover list"
  rp_best_parent :: DiscoverCandidate
  rp_send_fn :: bool
  rp_command_fn :: bool
  rp_file_receiver :: recv
  rp_state_name :: string
  rp_heartbeat_due_ms :: u32
  rp_discover_due_ms :: u32
  rp_state_push_enabled :: bool
  rp_normal :: bool
  rp_waiting_for_state_ack :: bool
  rp_discover_retry_count :: u8
  rp_join_retry_count :: u8
  rp_wait_reject_count :: u8
  rp_state_retry_count :: u8
  rp_consecutive_send_failures :: u8
  rp_last_state_tx_ms :: u32
  rp_last_state_rtt_ms :: u32
  rp_pending_state_message_tx_base :: u32
  rp_last_config_tx_counter :: u32
  rp_last_config_command :: u8
  rp_last_config_result :: u8
  rp_last_config_valid :: bool
  rp_pending_state_field_index :: u8
  rp_pending_state_value :: bytes
  rp_pending_state_flags :: u8
  rp_pending_state_fragment_count :: u8
  rp_pending_state_payload_len :: nat
  rp_channel_index :: u8
  rp_last_known_channel :: u8
  rp_sweep_complete :: bool
  rp_fast_rejoin :: bool
  rp_discovery_resume_normal_after_success :: bool
  rp_discovery_current_channel_only :: bool
  rp_wifi_waiting :: bool
  rp_wifi_wait_deadline_ms :: u32
  rp_discover_retry_pending :: bool
  rp_discover_phase :: u8
  rp_initial_discovery_pending :: bool
  rp_parent_link_rssi_ema :: u8
  rp_topology_refresh_due_ms :: u32
  rp_ota_last_activity_ms :: u32
  rp_entity_records :: "EntityRecord list"
  rp_pending_command_assemblies :: "(u8, espnow_fragment_assembly_t) omap"
  rp_pending_command_reserved_bytes :: u32
  rp_log_queue :: "PacketLogEntry list"
  rp_log_head :: nat
  rp_log_tail :: nat
  rp_log_count :: nat
  rp_pending_state :: espnow_log_state_t
  rp_pending_state_log_msg :: string
  rp_crypto :: crypto_state
  rp_events :: "remote_event list"
  rp_calls :: nat

text \<open>The results of \<^verbatim>\<open>esp_wifi_set_channel\<close> and \<^verbatim>\<open>esp_wifi_start\<close> that the code tells apart.\<close>

datatype wifi_err_t = WIFI_OK | WIFI_NOT_STARTED | WIFI_CONN | WIFI_FAIL

text \<open>
  \<open>rn_get_channel\<close> is \<open>None\<close> when \<^verbatim>\<open>esp_wifi_get_channel\<close> fails and leaves its output alone.
  \<open>rn_running\<close> is the running partition: its build date and time when it has a description, and the
  bytes that can be read of it.
\<close>

record remote_env =
  rn_now :: u32
  rn_hmac :: hmac_fn
  rn_sha :: "bytes \<Rightarrow> bytes"
  rn_random :: "nat \<Rightarrow> u32"
  rn_nonce :: "nat \<Rightarrow> bytes"
  rn_send :: "nat \<Rightarrow> bool"
  rn_get_channel :: "nat \<Rightarrow> u8 option"
  rn_set_channel :: "nat \<Rightarrow> wifi_err_t"
  rn_wifi_start :: "nat \<Rightarrow> wifi_err_t"
  rn_wifi_present :: bool
  rn_wifi_connected :: bool
  rn_running :: "((string \<times> string) option \<times> bytes) option"
  rn_chip_model :: u32
  rn_flash :: recv_env

definition no_candidate :: DiscoverCandidate where
  "no_candidate = \<lparr>dc_next_hop_mac = replicate 6 0, dc_responder_role = 1, dc_bridge_reachable = False, dc_flags = 0,
     dc_channel = 1, dc_rssi = 0x81, dc_hops_to_bridge = 0xFF, dc_valid = False, dc_preferred_index = 0xFF\<rparr>"

definition no_announce :: PendingAnnounce where
  "no_announce = \<lparr>pa_leaf_mac = replicate 6 0, pa_sender_mac = replicate 6 0, pa_responder_role = 0,
     pa_hops_to_bridge = 0, pa_deadline_ms = 0, pa_valid = False\<rparr>"

definition no_request :: OutstandingRequest where
  "no_request = \<lparr>or_packet_type = 0, or_tx_counter = 0, or_request_fingerprint = replicate 4 0\<rparr>"

definition ANNOUNCE_QUEUE_SIZE :: nat where
  "ANNOUNCE_QUEUE_SIZE = 8"

definition remote_initial :: remote where
  "remote_initial =
     \<lparr>rp_parent_mac = replicate 6 0, rp_parent_valid = False, rp_last_parent_mac = replicate 6 0,
      rp_leaf_mac = replicate 6 0, rp_bridge_mac = replicate 6 0, rp_remote_nonce = replicate 16 0,
      rp_bridge_nonce = replicate 16 0, rp_session_key = replicate 32 0, rp_session_key_valid = False,
      rp_joined = False, rp_local_session_flags = 0, rp_bridge_session_flags = 0, rp_session_max_payload = 250,
      rp_max_entity_fragment = 220, rp_max_assembly_bytes = 1024, rp_max_total_fragment_bytes = 4096,
      rp_discovering = True, rp_join_in_flight = False, rp_discover_announce_pending = False,
      rp_announce_queue_head = 0, rp_announce_queue_tail = 0,
      rp_announce_queue = replicate ANNOUNCE_QUEUE_SIZE no_announce, rp_relay_enabled = True,
      rp_ota_over_espnow = False, rp_can_relay = False, rp_max_hops = 5, rp_max_discover_pending = 8,
      rp_preferred_parents = [], rp_hop_count = 0, rp_hops_to_bridge = 0xFF, rp_tx_counter = 1,
      rp_last_seen_counter = 0, rp_last_tx_ms = 0, rp_last_successful_outbound_ms = 0,
      rp_last_successful_state_ms = 0, rp_last_successful_heartbeat_ms = 0, rp_last_heartbeat_tx_ms = 0,
      rp_last_join_attempt_ms = 0, rp_join_delay_until_ms = 0, rp_joined_started_ms = 0,
      rp_heartbeat_interval = 60, rp_route_ttl_seconds = 172800, rp_boot_epoch_ms = 0, rp_network_id = [],
      rp_esphome_name = [], rp_node_label = [], rp_firmware_epoch = 0, rp_project_name = [],
      rp_project_version = [], rp_chip_model = 0, rp_build_date = [], rp_build_time = [],
      rp_firmware_md5 = replicate 16 0, rp_entities = [], rp_outstanding_requests = replicate 8 no_request,
      rp_outstanding_count = 0, rp_routes = [], rp_pending_discovers = [], rp_best_parent = no_candidate,
      rp_send_fn = False, rp_command_fn = False, rp_file_receiver = recv_initial, rp_state_name = ''DISCOVERING'',
      rp_heartbeat_due_ms = 0, rp_discover_due_ms = 0, rp_state_push_enabled = False, rp_normal = False,
      rp_waiting_for_state_ack = False, rp_discover_retry_count = 0, rp_join_retry_count = 0,
      rp_wait_reject_count = 0, rp_state_retry_count = 0, rp_consecutive_send_failures = 0,
      rp_last_state_tx_ms = 0, rp_last_state_rtt_ms = 0, rp_pending_state_message_tx_base = 0,
      rp_last_config_tx_counter = 0, rp_last_config_command = 0, rp_last_config_result = 0,
      rp_last_config_valid = False, rp_pending_state_field_index = 0, rp_pending_state_value = [],
      rp_pending_state_flags = 0, rp_pending_state_fragment_count = 0, rp_pending_state_payload_len = 0,
      rp_channel_index = 0, rp_last_known_channel = 1, rp_sweep_complete = False, rp_fast_rejoin = False,
      rp_discovery_resume_normal_after_success = False, rp_discovery_current_channel_only = False,
      rp_wifi_waiting = False, rp_wifi_wait_deadline_ms = 0, rp_discover_retry_pending = False,
      rp_discover_phase = 0, rp_initial_discovery_pending = False, rp_parent_link_rssi_ema = 0x81,
      rp_topology_refresh_due_ms = 0, rp_ota_last_activity_ms = 0, rp_entity_records = [],
      rp_pending_command_assemblies = [], rp_pending_command_reserved_bytes = 0, rp_log_queue = empty_log,
      rp_log_head = 0, rp_log_tail = 0, rp_log_count = 0, rp_pending_state = LOG_NONE,
      rp_pending_state_log_msg = [], rp_crypto = \<lparr>g_psk = replicate 32 0, g_psk_set = False\<rparr>, rp_events = [],
      rp_calls = 0\<rparr>"

section \<open>The file-local helpers\<close>

definition elapsed_ms_since :: "u32 \<Rightarrow> u32 \<Rightarrow> u32" where
  "elapsed_ms_since now before = (if before = 0 \<or> now < before then 0 else now - before)"

definition sweep_channel_from_index :: "u8 \<Rightarrow> u8" where
  "sweep_channel_from_index channel_index = channel_index mod 13 + 1"

definition discover_backoff_delay_ms :: "u8 \<Rightarrow> u32" where
  "discover_backoff_delay_ms stage =
     (let kBackoff = [500, 1000, 2000, 4000, 6000] in
      if unat stage \<ge> length kBackoff then kBackoff ! (length kBackoff - 1) else kBackoff ! unat stage)"

definition retry_backoff_ms :: "u8 \<Rightarrow> u32" where
  "retry_backoff_ms retry_count =
     ucast (RETRY_BACKOFF_MS ! min (unat retry_count) (length RETRY_BACKOFF_MS - 1))"

text \<open>The remote's reassembly buffer.  The slot index is in range: the parser checked it against the count.\<close>

definition remote_fill_slot ::
  "EntityPayloadView \<Rightarrow> u16 \<Rightarrow> u16 \<Rightarrow> espnow_fragment_assembly_t \<Rightarrow> bool \<times> espnow_fragment_assembly_t" where
  "remote_fill_slot view max_entity_fragment max_assembly_bytes a =
     (let i = unat (epv_fragment_index view); off = i * unat max_entity_fragment; n = length (epv_value view) in
      if fa_received a ! i \<noteq> 0 then (True, a)
      else if off + n > length (fa_data a) then (False, a)
      else let total = fa_bytes_received a + n in
        (total \<le> unat max_assembly_bytes,
         a\<lparr>fa_data := overwrite off (epv_value view) (fa_data a), fa_received := (fa_received a)[i := 1],
           fa_lengths := (fa_lengths a)[i := word_of_nat n], fa_bytes_received := total\<rparr>))"

definition remote_store_fragment ::
  "espnow_fragment_assembly_t \<Rightarrow> EntityPayloadView \<Rightarrow> u32 \<Rightarrow> u32 \<Rightarrow> u16 \<Rightarrow> u16 \<Rightarrow>
   bool \<times> espnow_fragment_assembly_t" where
  "remote_store_fragment assembly view message_tx_base now_ms max_entity_fragment max_assembly_bytes =
     (case open_assembly assembly view message_tx_base now_ms max_entity_fragment max_assembly_bytes of
        None \<Rightarrow> (False, assembly)
      | Some a \<Rightarrow> remote_fill_slot view max_entity_fragment max_assembly_bytes a)"

section \<open>Platform calls\<close>

definition rp_asked :: "remote \<Rightarrow> remote" where
  "rp_asked r = r\<lparr>rp_calls := rp_calls r + 1\<rparr>"

definition rp_event :: "remote_event \<Rightarrow> remote \<Rightarrow> remote" where
  "rp_event ev r = r\<lparr>rp_events := rp_events r @ [ev]\<rparr>"

definition call_send_fn :: "remote_env \<Rightarrow> mac \<Rightarrow> bytes \<Rightarrow> remote \<Rightarrow> bool \<times> remote" where
  "call_send_fn env m frame r = (rn_send env (rp_calls r), rp_asked (rp_event (RemoteSend m frame) r))"

definition remote_random :: "remote_env \<Rightarrow> remote \<Rightarrow> u32 \<times> remote" where
  "remote_random env r = (rn_random env (rp_calls r), rp_asked r)"

text \<open>\<^verbatim>\<open>fill_random_bytes(remote_nonce_)\<close>.\<close>

definition fresh_remote_nonce :: "remote_env \<Rightarrow> remote \<Rightarrow> remote" where
  "fresh_remote_nonce env r = rp_asked (r\<lparr>rp_remote_nonce := c_array 16 (rn_nonce env (rp_calls r))\<rparr>)"

definition esp_wifi_get_channel :: "remote_env \<Rightarrow> remote \<Rightarrow> u8 option \<times> remote" where
  "esp_wifi_get_channel env r = (rn_get_channel env (rp_calls r), rp_asked r)"

definition esp_wifi_set_channel :: "remote_env \<Rightarrow> u8 \<Rightarrow> remote \<Rightarrow> wifi_err_t \<times> remote" where
  "esp_wifi_set_channel env channel r = (rn_set_channel env (rp_calls r), rp_asked (rp_event (SetChannel channel) r))"

text \<open>The callers only log the error that comes back.\<close>

definition set_wifi_channel_with_recovery :: "remote_env \<Rightarrow> u8 \<Rightarrow> remote \<Rightarrow> remote" where
  "set_wifi_channel_with_recovery env channel r =
     (let (err, r1) = esp_wifi_set_channel env channel r in
      if err = WIFI_NOT_STARTED then
        let start_err = rn_wifi_start env (rp_calls r1); r2 = rp_asked (rp_event WifiStart r1) in
        if start_err \<noteq> WIFI_OK \<and> start_err \<noteq> WIFI_CONN then r2 else snd (esp_wifi_set_channel env channel r2)
      else r1)"

definition wifi_connected :: "remote_env \<Rightarrow> bool" where
  "wifi_connected env \<longleftrightarrow> rn_wifi_present env \<and> rn_wifi_connected env"

definition current_wifi_channel :: "remote_env \<Rightarrow> remote \<Rightarrow> u8 \<times> remote" where
  "current_wifi_channel env r =
     (let (res, r1) = esp_wifi_get_channel env r in
      case res of None \<Rightarrow> (1, r1) | Some ch \<Rightarrow> (if ch = 0 \<or> ch > 13 then 1 else ch, r1))"

section \<open>The packet log\<close>

definition remote_queue_log :: "PacketLogEntry \<Rightarrow> remote \<Rightarrow> remote" where
  "remote_queue_log e r =
     (if rp_log_count r \<ge> PACKET_LOG_SIZE then r
      else r\<lparr>rp_log_queue := (rp_log_queue r)[rp_log_head r := e],
             rp_log_head := (rp_log_head r + 1) mod PACKET_LOG_SIZE, rp_log_count := rp_log_count r + 1\<rparr>)"

definition remote_queue_state_log :: "espnow_log_state_t \<Rightarrow> string \<Rightarrow> remote \<Rightarrow> remote" where
  "remote_queue_state_log state msg r = r\<lparr>rp_pending_state_log_msg := take 95 msg, rp_pending_state := state\<rparr>"

text \<open>
  Several calls pass one argument less than the parameters before \<^verbatim>\<open>pkt_uid\<close>, so that every argument
  from \<^verbatim>\<open>rtt_ms\<close> on lands one parameter early: the number -1 in the round-trip time, the counter in the
  retry count (cut to 8 bits) and the parent-check flag in the packet id.
\<close>

definition shifted_log :: "u32 \<Rightarrow> bool \<Rightarrow> PacketLogEntry \<Rightarrow> PacketLogEntry" where
  "shifted_log tx_counter parent_check e = e\<lparr>le_rtt_ms := 0xFFFFFFFF, le_allowed := 0, le_hops := 0,
     le_retry_count := ucast tx_counter, le_pkt_uid := (if parent_check then 1 else 0)\<rparr>"

fun remote_drain_log :: "nat \<Rightarrow> remote \<Rightarrow> remote" where
  "remote_drain_log 0 r = r"
| "remote_drain_log (Suc n) r =
     remote_drain_log n (r\<lparr>rp_log_tail := (rp_log_tail r + 1) mod PACKET_LOG_SIZE, rp_log_count := rp_log_count r - 1\<rparr>)"

definition remote_flush_log_queue :: "remote \<Rightarrow> remote" where
  "remote_flush_log_queue r = remote_drain_log (rp_log_count r) (r\<lparr>rp_pending_state := LOG_NONE\<rparr>)"

section \<open>Set-up\<close>

definition refresh_can_relay :: "remote \<Rightarrow> remote" where
  "refresh_can_relay r = r\<lparr>rp_can_relay := rp_relay_enabled r \<and> rp_normal r \<and> rp_parent_valid r \<and>
     rp_hops_to_bridge r \<noteq> 0xFF\<rparr>"

definition remote_init ::
  "remote_env \<Rightarrow> string \<Rightarrow> string \<Rightarrow> string \<Rightarrow> string \<Rightarrow> u32 \<Rightarrow> string \<Rightarrow> string \<Rightarrow> u16 \<Rightarrow> remote \<Rightarrow> int \<times> remote" where
  "remote_init env psk_hex network_id esphome_name node_label firmware_epoch project_name project_version
     heartbeat_interval r =
     (let (rc, g) = espnow_crypto_init (rn_hmac env) psk_hex
      in (rc, r\<lparr>rp_network_id := network_id, rp_esphome_name := esphome_name, rp_node_label := node_label,
           rp_firmware_epoch := firmware_epoch, rp_project_name := project_name,
           rp_project_version := project_version, rp_heartbeat_interval := heartbeat_interval,
           rp_boot_epoch_ms := rn_now env, rp_initial_discovery_pending := True,
           rp_file_receiver := set_ota_enabled (rp_ota_over_espnow r) (set_send_ack_fn (rp_file_receiver r)),
           rp_crypto := g\<rparr>))"

text \<open>The receiver's copy of the address is written and never read.\<close>

definition set_local_mac :: "mac \<Rightarrow> remote \<Rightarrow> remote" where
  "set_local_mac m r = r\<lparr>rp_leaf_mac := m\<rparr>"

definition set_relay_config :: "bool \<Rightarrow> u8 \<Rightarrow> u8 \<Rightarrow> remote \<Rightarrow> remote" where
  "set_relay_config relay_enabled max_hops max_discover_pending r =
     refresh_can_relay (r\<lparr>rp_relay_enabled := relay_enabled, rp_max_hops := (if max_hops = 0 then 5 else max_hops),
       rp_max_discover_pending := (if max_discover_pending = 0 then 1 else max_discover_pending)\<rparr>)"

definition set_route_ttl :: "u32 \<Rightarrow> remote \<Rightarrow> remote" where
  "set_route_ttl route_ttl_seconds r = r\<lparr>rp_route_ttl_seconds := route_ttl_seconds\<rparr>"

definition add_preferred_parent :: "mac \<Rightarrow> remote \<Rightarrow> remote" where
  "add_preferred_parent m r = r\<lparr>rp_preferred_parents := rp_preferred_parents r @ [m]\<rparr>"

definition set_relay_enabled_runtime :: "bool \<Rightarrow> remote \<Rightarrow> remote" where
  "set_relay_enabled_runtime enabled r = refresh_can_relay (r\<lparr>rp_relay_enabled := enabled\<rparr>)"

definition set_ota_over_espnow :: "bool \<Rightarrow> remote \<Rightarrow> remote" where
  "set_ota_over_espnow enabled r =
     r\<lparr>rp_ota_over_espnow := enabled, rp_file_receiver := set_ota_enabled enabled (rp_file_receiver r)\<rparr>"

definition get_uptime_s :: "remote_env \<Rightarrow> remote \<Rightarrow> u32" where
  "get_uptime_s env r = (rn_now env - rp_boot_epoch_ms r) div 1000"

definition remote_set_session_flags :: "u8 \<Rightarrow> remote \<Rightarrow> remote" where
  "remote_set_session_flags flags r = r\<lparr>rp_local_session_flags := flags\<rparr>"

definition set_remote_fns :: "bool \<Rightarrow> bool \<Rightarrow> remote \<Rightarrow> remote" where
  "set_remote_fns send command r = r\<lparr>rp_send_fn := send, rp_command_fn := command\<rparr>"

section \<open>Entities\<close>

definition register_entity ::
  "espnow_field_type_t \<Rightarrow> string \<Rightarrow> string \<Rightarrow> string \<Rightarrow> string \<Rightarrow> remote \<Rightarrow> u8 \<times> remote" where
  "register_entity ty name unit options entity_id r =
     (let schema = \<lparr>es_entity_index = word_of_nat (length (rp_entities r)), es_entity_type = field_type_code ty,
            es_entity_name = name, es_entity_unit = unit, es_entity_options = options, es_entity_id = entity_id\<rparr>;
          record = \<lparr>er_schema = schema, er_current_value = [], er_dirty = True, er_current_text = [],
            er_last_completed_command_message_tx_base = 0\<rparr>
      in (es_entity_index schema, r\<lparr>rp_entities := rp_entities r @ [schema],
            rp_entity_records := rp_entity_records r @ [record]\<rparr>))"

definition set_entity_options :: "u8 \<Rightarrow> string \<Rightarrow> remote \<Rightarrow> remote" where
  "set_entity_options field_index options r =
     (let i = unat field_index in
      if i \<ge> length (rp_entities r) \<or> i \<ge> length (rp_entity_records r) then r
      else
        let rec = rp_entity_records r ! i in
        r\<lparr>rp_entities := (rp_entities r)[i := (rp_entities r ! i)\<lparr>es_entity_options := options\<rparr>],
          rp_entity_records := (rp_entity_records r)
            [i := rec\<lparr>er_schema := (er_schema rec)\<lparr>es_entity_options := options\<rparr>\<rparr>]\<rparr>)"

definition on_entity_state_change :: "u8 \<Rightarrow> bytes option \<Rightarrow> remote \<Rightarrow> remote" where
  "on_entity_state_change field_index val r =
     (case val of
        None \<Rightarrow> r
      | Some v \<Rightarrow>
          let i = unat field_index in
          if i \<ge> length (rp_entity_records r) then r
          else r\<lparr>rp_entity_records := (rp_entity_records r)
                 [i := (rp_entity_records r ! i)\<lparr>er_current_value := v, er_dirty := True\<rparr>]\<rparr>)"

definition on_entity_text_change :: "u8 \<Rightarrow> string \<Rightarrow> remote \<Rightarrow> remote" where
  "on_entity_text_change field_index val r =
     (let i = unat field_index in
      if i \<ge> length (rp_entity_records r) then r
      else r\<lparr>rp_entity_records := (rp_entity_records r)
             [i := (rp_entity_records r ! i)
                \<lparr>er_current_text := val, er_current_value := bytes_of_string val, er_dirty := True\<rparr>]\<rparr>)"

definition mark_all_entities_dirty :: "remote \<Rightarrow> remote" where
  "mark_all_entities_dirty r = r\<lparr>rp_entity_records := map (\<lambda>e. e\<lparr>er_dirty := True\<rparr>) (rp_entity_records r)\<rparr>"

text \<open>The node's description, hashed: names, versions and at most 222 bytes of each entity's descriptor.\<close>

definition schema_hash_entry :: "nat \<Rightarrow> nat \<Rightarrow> espnow_entity_schema_t \<Rightarrow> bytes" where
  "schema_hash_entry total_entities i schema =
     take 222 (append_schema_push_payload ESPNOW_DESCRIPTOR_TYPE_ENTITY (word_of_nat i) (word_of_nat i)
       (word_of_nat total_entities) (es_entity_type schema) (Some (bytes_of_string (es_entity_name schema)))
       (Some (bytes_of_string (es_entity_unit schema))) (Some (bytes_of_string (es_entity_id schema)))
       (Some (bytes_of_string (es_entity_options schema))) (length (es_entity_options schema)))"

definition compute_schema_hash :: "remote_env \<Rightarrow> remote \<Rightarrow> bytes" where
  "compute_schema_hash env r =
     rn_sha env (bytes_of_string (rp_esphome_name r) @ [0] @ bytes_of_string (rp_node_label r) @ [0] @
       le_bytes 4 (rp_firmware_epoch r) @ bytes_of_string (rp_project_name r) @ [0] @
       bytes_of_string (rp_project_version r) @ [0] @ le_bytes 4 (rp_chip_model r) @
       bytes_of_string (rp_build_date r) @ [0] @ bytes_of_string (rp_build_time r) @ [0] @
       concat (map (\<lambda>i. schema_hash_entry (length (rp_entity_records r)) i (er_schema (rp_entity_records r ! i)))
         [0..<length (rp_entity_records r)]))"

section \<open>Outstanding requests\<close>

text \<open>A ring of eight: when it is full, the oldest request makes room.\<close>

definition update_outstanding_request ::
  "remote_env \<Rightarrow> u8 \<Rightarrow> u32 \<Rightarrow> espnow_frame_header_t \<Rightarrow> bytes \<Rightarrow> remote \<Rightarrow> remote" where
  "update_outstanding_request env packet_type tx_counter header payload r =
     (let req = \<lparr>or_packet_type = packet_type, or_tx_counter = tx_counter,
            or_request_fingerprint = espnow_crypto_psk_tag (rn_hmac env) (rp_crypto r) (enc_frame_header header) payload\<rparr>;
          reqs = rp_outstanding_requests r
      in if rp_outstanding_count r < 8
         then r\<lparr>rp_outstanding_requests := reqs[rp_outstanding_count r := req],
                rp_outstanding_count := rp_outstanding_count r + 1\<rparr>
         else r\<lparr>rp_outstanding_requests := tl reqs @ [req]\<rparr>)"

definition upstream_header :: "remote \<Rightarrow> espnow_packet_type_t \<Rightarrow> u8 \<Rightarrow> u32 \<Rightarrow> espnow_frame_header_t" where
  "upstream_header r ty hop_count tx_counter =
     \<lparr>fh_protocol_version = ESPNOW_PROTOCOL_VER, fh_hop_count = hop_count, fh_packet_type = packet_type_code ty,
      fh_leaf_mac = rp_leaf_mac r, fh_tx_counter = tx_counter, fh_psk_tag = replicate 4 0\<rparr>"

definition record_outstanding_request :: "remote_env \<Rightarrow> espnow_packet_type_t \<Rightarrow> u32 \<Rightarrow> bytes \<Rightarrow> remote \<Rightarrow> remote" where
  "record_outstanding_request env ty tx_counter payload r =
     update_outstanding_request env (packet_type_code ty) tx_counter
       (upstream_header r ty ESPNOW_HOPS_DIR_UP tx_counter) payload r"

definition request_matches_outstanding :: "bytes \<Rightarrow> remote \<Rightarrow> bool" where
  "request_matches_outstanding payload r =
     (if length payload \<noteq> 10 then False
      else
        let deauth = dec_deauth payload in
        list_ex (\<lambda>req. or_packet_type req = deauth_response_to_packet_type deauth \<and>
                  or_tx_counter req = deauth_response_to_tx_counter deauth \<and>
                  or_request_fingerprint req = deauth_request_fingerprint deauth)
          (take (rp_outstanding_count r) (rp_outstanding_requests r)))"

section \<open>Frames\<close>

definition remote_parse_frame :: "bytes \<Rightarrow> (espnow_frame_header_t \<times> bytes \<times> bytes option \<times> mac) option" where
  "remote_parse_frame frame =
     (if length frame < 17 then None
      else if length frame > 1470 then None
      else
        let header = dec_frame_header frame in
        if fh_protocol_version header \<noteq> ESPNOW_PROTOCOL_VER then None
        else case packet_type_of (fh_packet_type header) of
          None \<Rightarrow> None
        | Some ty \<Rightarrow>
            let parent_check = has_parent_check (fh_hop_count header);
                header_size = 17 + (if parent_check then ESPNOW_PARENT_MAC_LEN else 0) in
            if length frame < header_size then None
            else
              let parent_mac = (if parent_check then part_of 17 6 frame else replicate 6 0);
                  payload = drop header_size frame in
              if is_encrypted_packet ty then
                if length payload < ESPNOW_SESSION_TAG_LEN then None
                else Some (header, take (length payload - ESPNOW_SESSION_TAG_LEN) payload,
                       Some (drop (length frame - ESPNOW_SESSION_TAG_LEN) frame), parent_mac)
              else Some (header, payload, None, parent_mac))"

definition validate_psk :: "remote_env \<Rightarrow> remote \<Rightarrow> espnow_frame_header_t \<Rightarrow> bytes \<Rightarrow> bool" where
  "validate_psk env r header payload =
     espnow_crypto_verify_psk_tag (rn_hmac env) (rp_crypto r) (enc_frame_header header) payload (fh_psk_tag header)"

definition validate_session :: "remote_env \<Rightarrow> remote \<Rightarrow> espnow_frame_header_t \<Rightarrow> bytes \<Rightarrow> bytes option \<Rightarrow> bool" where
  "validate_session env r header ciphertext session_tag =
     (if \<not> rp_session_key_valid r then False
      else case session_tag of
        None \<Rightarrow> False
      | Some tag \<Rightarrow>
          espnow_crypto_verify_session_tag (rn_hmac env) (rp_session_key r) (enc_frame_header header) ciphertext tag)"

text \<open>The check and the decryption every session packet goes through.\<close>

definition open_session_packet ::
  "remote_env \<Rightarrow> remote \<Rightarrow> espnow_frame_header_t \<Rightarrow> bytes \<Rightarrow> bytes option \<Rightarrow> bytes option" where
  "open_session_packet env r header payload session_tag =
     (if \<not> validate_session env r header payload session_tag then None
      else espnow_crypto_crypt (rp_crypto r) (rp_session_key r) (fh_tx_counter header) payload)"

text \<open>A frame as \<^verbatim>\<open>send_frame_\<close> lays it out; no caller passes a ciphertext of its own.\<close>

definition remote_frame ::
  "remote_env \<Rightarrow> remote \<Rightarrow> espnow_packet_type_t \<Rightarrow> u8 \<Rightarrow> u32 \<Rightarrow> bytes \<Rightarrow> bool \<Rightarrow> bytes option" where
  "remote_frame env r ty hop_count tx_counter payload encrypted =
     (if encrypted then
        (case espnow_crypto_crypt (rp_crypto r) (rp_session_key r) tx_counter payload of
           None \<Rightarrow> None
         | Some ciphertext \<Rightarrow>
             let frame = assemble_plain_frame (rn_hmac env) (rp_crypto r) ty (rp_leaf_mac r) hop_count tx_counter ciphertext
             in Some (frame @ espnow_crypto_session_tag (rn_hmac env) (rp_session_key r) frame ciphertext))
      else Some (assemble_plain_frame (rn_hmac env) (rp_crypto r) ty (rp_leaf_mac r) hop_count tx_counter payload))"

definition log_sent_frame :: "remote_env \<Rightarrow> mac \<Rightarrow> espnow_packet_type_t \<Rightarrow> u8 \<Rightarrow> u32 \<Rightarrow> nat \<Rightarrow> remote \<Rightarrow> remote" where
  "log_sent_frame env m ty hop_count tx_counter len r =
     (if ty = PKT_DISCOVER then
        let (res, r1) = esp_wifi_get_channel env r;
            requested = sweep_channel_from_index (rp_channel_index r);
            ch = (case res of None \<Rightarrow> requested | Some c \<Rightarrow> if c = 0 \<or> c > 13 then requested else c)
        in remote_queue_log (shifted_log tx_counter (has_parent_check hop_count)
             ((log_entry True ty m (17 + len) 0 0)\<lparr>le_show_channel := True, le_channel := ch\<rparr>)) r1
      else if ty = PKT_STATE \<or> ty = PKT_SCHEMA_PUSH \<or> ty = PKT_ACK then r
      else remote_queue_log (shifted_log tx_counter (has_parent_check hop_count) (log_entry True ty m (17 + len + 8) 0 0)) r)"

definition remote_send_frame ::
  "remote_env \<Rightarrow> mac \<Rightarrow> espnow_packet_type_t \<Rightarrow> u8 \<Rightarrow> u32 \<Rightarrow> bytes \<Rightarrow> bool \<Rightarrow> remote \<Rightarrow> bool \<times> remote" where
  "remote_send_frame env m ty hop_count tx_counter payload encrypted r =
     (if \<not> rp_send_fn r then (False, r)
      else if encrypted \<and> length payload > unat (espnow_max_plaintext (rp_session_max_payload r)) then (False, r)
      else
        let r1 = log_sent_frame env m ty hop_count tx_counter (length payload) r in
        case remote_frame env r1 ty hop_count tx_counter payload encrypted of
          None \<Rightarrow> (False, r1)
        | Some frame \<Rightarrow>
            let (sent, r2) = call_send_fn env m frame (r1\<lparr>rp_last_tx_ms := rn_now env\<rparr>)
            in (sent, if sent then r2\<lparr>rp_last_successful_outbound_ms := rp_last_tx_ms r2, rp_consecutive_send_failures := 0\<rparr>
                      else r2\<lparr>rp_consecutive_send_failures :=
                             (if rp_consecutive_send_failures r2 = 255 then 255 else rp_consecutive_send_failures r2 + 1)\<rparr>))"

section \<open>Routes\<close>

definition find_route :: "mac \<Rightarrow> remote \<Rightarrow> RemoteRouteEntry option" where
  "find_route leaf_mac r = find (\<lambda>route. rt_leaf_mac route = leaf_mac) (rp_routes r)"

text \<open>Writing through the pointer \<^verbatim>\<open>find_route_mut_\<close> returns: the first entry of the leaf is changed.\<close>

fun update_route :: "mac \<Rightarrow> (RemoteRouteEntry \<Rightarrow> RemoteRouteEntry) \<Rightarrow> RemoteRouteEntry list \<Rightarrow> RemoteRouteEntry list" where
  "update_route leaf_mac f [] = []"
| "update_route leaf_mac f (route # routes) =
     (if rt_leaf_mac route = leaf_mac then f route # routes else route # update_route leaf_mac f routes)"

definition new_route :: "mac \<Rightarrow> RemoteRouteEntry" where
  "new_route m = \<lparr>rt_leaf_mac = m, rt_next_hop_mac = replicate 6 0, rt_expiry_ms = 0, rt_has_logged_providing_relay = False\<rparr>"

definition refresh_route :: "remote_env \<Rightarrow> mac \<Rightarrow> mac \<Rightarrow> remote \<Rightarrow> bool \<times> remote" where
  "refresh_route env leaf_mac next_hop_mac r =
     (if leaf_mac = rp_leaf_mac r then (False, r)
      else if next_hop_mac = rp_leaf_mac r then (False, r)
      else
        let expiry = rn_now env + rp_route_ttl_seconds r * 1000;
            routes = (if find_route leaf_mac r = None
                      then rp_routes r @ [new_route leaf_mac]
                      else rp_routes r)
        in (True, r\<lparr>rp_routes := update_route leaf_mac
                     (\<lambda>route. route\<lparr>rt_next_hop_mac := next_hop_mac, rt_expiry_ms := expiry\<rparr>) routes\<rparr>))"

definition prune_routes :: "u32 \<Rightarrow> remote \<Rightarrow> remote" where
  "prune_routes now r = r\<lparr>rp_routes := filter (\<lambda>route. \<not> rt_expiry_ms route \<le> now) (rp_routes r)\<rparr>"

definition prune_pending_discovers :: "u32 \<Rightarrow> remote \<Rightarrow> remote" where
  "prune_pending_discovers now r =
     r\<lparr>rp_pending_discovers := filter (\<lambda>entry. \<not> pd_expiry_ms entry \<le> now) (rp_pending_discovers r)\<rparr>"

definition command_expired :: "u32 \<Rightarrow> espnow_fragment_assembly_t \<Rightarrow> bool" where
  "command_expired now a \<longleftrightarrow> fa_active a \<and> now - fa_last_seen_ms a \<ge> ESPNOW_FRAGMENT_ASSEMBLY_TIMEOUT_MS"

definition prune_pending_command_fragments :: "u32 \<Rightarrow> remote \<Rightarrow> remote" where
  "prune_pending_command_fragments now r =
     (let m = rp_pending_command_assemblies r;
          freed = fold (\<lambda>(k, a) n. if command_expired now a then n + word_of_nat (length (fa_data a)) else n) m 0
      in r\<lparr>rp_pending_command_assemblies := filter (\<lambda>(k, a). \<not> command_expired now a) m,
           rp_pending_command_reserved_bytes := rp_pending_command_reserved_bytes r - freed\<rparr>)"

definition direct_child_count :: "remote \<Rightarrow> u8" where
  "direct_child_count r =
     fold (\<lambda>route count. if rt_leaf_mac route = rp_leaf_mac r then count
              else if rt_next_hop_mac route = rt_leaf_mac route then count + 1 else count) (rp_routes r) 0"

text \<open>Does following the next hops from an address reach this node within so many steps?\<close>

fun reaches_self :: "remote \<Rightarrow> nat \<Rightarrow> mac \<Rightarrow> bool" where
  "reaches_self r 0 next_hop = False"
| "reaches_self r (Suc hops) next_hop =
     (if next_hop = rp_leaf_mac r then True
      else case find_route next_hop r of
        None \<Rightarrow> False
      | Some route \<Rightarrow> reaches_self r hops (rt_next_hop_mac route))"

definition total_children_count :: "remote \<Rightarrow> u16" where
  "total_children_count r =
     (if \<not> rp_can_relay r then 0
      else fold (\<lambda>route count. if rt_leaf_mac route = rp_leaf_mac r then count
              else if reaches_self r (length (rp_routes r) + 1) (rt_leaf_mac route) then count + 1 else count)
        (rp_routes r) 0)"

section \<open>The file receiver's callback\<close>

text \<open>An acknowledgement is sent encrypted to the parent; it takes the next counter.\<close>

definition remote_send_ack :: "remote_env \<Rightarrow> bytes \<Rightarrow> u32 \<Rightarrow> remote \<Rightarrow> bool \<times> remote" where
  "remote_send_ack env payload ref_tx_counter r =
     (if \<not> rp_joined r \<or> \<not> rp_parent_valid r \<or> length payload < 6 then (False, r)
      else
        let ack = dec_ack payload;
            ack_payload = enc_ack (ack\<lparr>ack_ref_tx_counter :=
              (if ref_tx_counter \<noteq> 0 then ref_tx_counter else ack_ref_tx_counter ack)\<rparr>) @ drop 6 payload;
            tx_counter = rp_tx_counter r;
            hop_count = ESPNOW_HOPS_MAKE ESPNOW_HOPS_DIR_UP (rp_hops_to_bridge r);
            r1 = r\<lparr>rp_tx_counter := tx_counter + 1\<rparr>
        in case espnow_crypto_crypt (rp_crypto r) (rp_session_key r) tx_counter ack_payload of
             None \<Rightarrow> (False, r1)
           | Some ciphertext \<Rightarrow>
               remote_send_frame env (rp_parent_mac r) PKT_ACK hop_count tx_counter ack_payload True
                 (update_outstanding_request env (packet_type_code PKT_ACK) tx_counter
                   (upstream_header r PKT_ACK hop_count tx_counter) ciphertext r1))"

definition send_acks :: "remote_env \<Rightarrow> bytes list \<Rightarrow> remote \<Rightarrow> remote" where
  "send_acks env acks r = fold (\<lambda>a r. snd (remote_send_ack env a 0 r)) acks r"

text \<open>
  A call of the file receiver: its callback \<open>remote_send_ack\<close> answers from the state the
  acknowledgements before it left, and the state after the call is the one after all of them.  The
  receiver does not read any other member of the node.
\<close>

definition receiver_env :: "remote_env \<Rightarrow> remote \<Rightarrow> recv_env" where
  "receiver_env env r = (rn_flash env)\<lparr>re_now := rn_now env,
     re_ack := (\<lambda>acks. fst (remote_send_ack env (last acks) 0
       (send_acks env (drop (length (fr_acks (rp_file_receiver r))) (butlast acks)) r)))\<rparr>"

definition put_receiver :: "remote_env \<Rightarrow> recv \<Rightarrow> remote \<Rightarrow> remote" where
  "put_receiver env fr r =
     (send_acks env (drop (length (fr_acks (rp_file_receiver r))) (fr_acks fr)) r)\<lparr>rp_file_receiver := fr\<rparr>"

definition is_receiving :: "remote \<Rightarrow> bool" where
  "is_receiving r \<longleftrightarrow> fr_state (rp_file_receiver r) \<noteq> RV_IDLE"

definition abort_receiver :: "remote_env \<Rightarrow> u8 \<Rightarrow> bool \<Rightarrow> remote \<Rightarrow> remote" where
  "abort_receiver env reason notify_sender r =
     put_receiver env (recv_abort (receiver_env env r) reason notify_sender (rp_file_receiver r)) r"

section \<open>Resetting a session\<close>

definition clear_session_state :: "remote_env \<Rightarrow> bool \<Rightarrow> bool \<Rightarrow> remote \<Rightarrow> remote" where
  "clear_session_state env clear_entities preserve_route r =
     (let r1 = (if is_receiving r then abort_receiver env 2 False r else r);
          r2 = r1\<lparr>rp_ota_last_activity_ms := 0, rp_joined := False, rp_join_in_flight := False,
                  rp_discovering := \<not> preserve_route, rp_session_key_valid := False\<rparr>;
          r3 = (if preserve_route then r2
                else r2\<lparr>rp_parent_valid := False, rp_best_parent := no_candidate, rp_bridge_mac := replicate 6 0,
                        rp_bridge_nonce := replicate 16 0\<rparr>);
          r4 = r3\<lparr>rp_last_seen_counter := 0, rp_last_config_tx_counter := 0, rp_last_config_command := 0,
                  rp_last_config_result := 0, rp_last_config_valid := False\<rparr>;
          r5 = (if preserve_route then r4 else r4\<lparr>rp_hop_count := 0, rp_hops_to_bridge := 0xFF\<rparr>);
          r6 = r5\<lparr>rp_outstanding_count := 0, rp_join_retry_count := 0, rp_wait_reject_count := 0,
                  rp_join_delay_until_ms := 0, rp_state_push_enabled := False, rp_last_heartbeat_tx_ms := 0,
                  rp_heartbeat_due_ms := 0, rp_waiting_for_state_ack := False, rp_state_retry_count := 0,
                  rp_last_state_tx_ms := 0, rp_pending_state_message_tx_base := 0,
                  rp_pending_state_field_index := 0, rp_pending_state_value := [],
                  rp_pending_state_fragment_count := 0, rp_pending_state_payload_len := 0, rp_normal := False\<rparr>;
          r7 = (refresh_can_relay r6)\<lparr>rp_joined_started_ms := 0, rp_last_successful_outbound_ms := 0,
                  rp_last_successful_state_ms := 0, rp_last_successful_heartbeat_ms := 0,
                  rp_consecutive_send_failures := 0, rp_pending_command_reserved_bytes := 0,
                  rp_pending_command_assemblies := [], rp_announce_queue_head := 0, rp_announce_queue_tail := 0,
                  rp_announce_queue := map (\<lambda>_. no_announce) (rp_announce_queue r6),
                  rp_discover_announce_pending := False\<rparr>;
          r8 = (if preserve_route then r7
                else r7\<lparr>rp_fast_rejoin := False, rp_discovery_resume_normal_after_success := False,
                        rp_discovery_current_channel_only := False, rp_wifi_waiting := False,
                        rp_wifi_wait_deadline_ms := 0, rp_discover_retry_pending := False\<rparr>)
      in if clear_entities then r8\<lparr>rp_entities := [], rp_entity_records := []\<rparr> else r8)"

definition start_discovery_cycle :: "remote_env \<Rightarrow> bool \<Rightarrow> remote \<Rightarrow> remote" where
  "start_discovery_cycle env wifi_wait_expired r =
     (let r1 = fresh_remote_nonce env ((clear_session_state env False False r)
                 \<lparr>rp_discovering := True, rp_fast_rejoin := False, rp_discovery_resume_normal_after_success := False,
                   rp_discovery_current_channel_only := False, rp_discover_retry_pending := False,
                   rp_discover_retry_count := 0, rp_discover_phase := 0, rp_sweep_complete := False,
                   rp_topology_refresh_due_ms := 0\<rparr>)
      in if \<not> wifi_wait_expired \<and> rn_wifi_present env \<and> \<not> wifi_connected env then
           remote_queue_state_log DISCOVERING ''State: WAIT_WIFI''
             (r1\<lparr>rp_wifi_waiting := True, rp_wifi_wait_deadline_ms := rn_now env + 15000,
                rp_state_name := ''WAIT_WIFI''\<rparr>)\<lparr>rp_discover_due_ms := rn_now env + 15000\<rparr>
         else
           let r2 = r1\<lparr>rp_wifi_waiting := False, rp_wifi_wait_deadline_ms := 0,
                       rp_discovery_current_channel_only := wifi_connected env, rp_channel_index := 0,
                       rp_state_name := ''DISCOVERING'', rp_discover_due_ms := rn_now env\<rparr>
           in if wifi_connected env then
                let (ch, r3) = current_wifi_channel env r2 in set_wifi_channel_with_recovery env ch r3
              else set_wifi_channel_with_recovery env (sweep_channel_from_index 0) r2)"

definition start_route_recovery_cycle :: "remote_env \<Rightarrow> remote \<Rightarrow> remote" where
  "start_route_recovery_cycle env r =
     (let r1 = refresh_can_relay (r\<lparr>rp_discovering := True, rp_fast_rejoin := True,
                 rp_discovery_resume_normal_after_success := True, rp_discovery_current_channel_only := True,
                 rp_normal := False\<rparr>)
      in remote_queue_state_log DISCOVERING ''State: DISCOVERING''
           (r1\<lparr>rp_best_parent := no_candidate, rp_state_push_enabled := False, rp_join_in_flight := False,
              rp_join_retry_count := 0, rp_join_delay_until_ms := 0, rp_waiting_for_state_ack := False,
              rp_state_retry_count := 0, rp_heartbeat_due_ms := 0, rp_last_heartbeat_tx_ms := 0,
              rp_last_successful_state_ms := 0, rp_last_successful_outbound_ms := 0,
              rp_last_successful_heartbeat_ms := 0, rp_wifi_waiting := False, rp_wifi_wait_deadline_ms := 0,
              rp_discover_retry_pending := False, rp_discover_retry_count := 0, rp_discover_phase := 0,
              rp_channel_index := 0, rp_discover_due_ms := rn_now env, rp_topology_refresh_due_ms := 0,
              rp_sweep_complete := False, rp_state_name := ''DISCOVERING''\<rparr>))"

definition start_config_full_rediscovery :: "remote_env \<Rightarrow> remote \<Rightarrow> remote" where
  "start_config_full_rediscovery env r =
     (let r1 = fresh_remote_nonce env ((clear_session_state env False True r)
                 \<lparr>rp_discovering := True, rp_sweep_complete := False, rp_fast_rejoin := False,
                   rp_discovery_resume_normal_after_success := False, rp_discovery_current_channel_only := False,
                   rp_wifi_waiting := False, rp_wifi_wait_deadline_ms := 0, rp_discover_retry_pending := False,
                   rp_discover_retry_count := 0, rp_discover_phase := 0, rp_channel_index := 0,
                   rp_discover_due_ms := rn_now env, rp_topology_refresh_due_ms := 0\<rparr>)
      in set_wifi_channel_with_recovery env (sweep_channel_from_index 0)
           (remote_queue_state_log DISCOVERING ''State: DISCOVERING'' (r1\<lparr>rp_state_name := ''DISCOVERING''\<rparr>)))"

text \<open>The flag is the reason \<^verbatim>\<open>no outbound progress\<close>: the session is cleared and the node restarts.\<close>

definition rejoin_due_to_transmit_stall :: "remote_env \<Rightarrow> bool \<Rightarrow> remote \<Rightarrow> remote" where
  "rejoin_due_to_transmit_stall env no_outbound_progress r =
     (if no_outbound_progress then rp_event Reboot (clear_session_state env False True r)
      else (start_route_recovery_cycle env r)\<lparr>rp_discover_due_ms := rn_now env\<rparr>)"

definition update_mtu_from_route :: "remote \<Rightarrow> remote" where
  "update_mtu_from_route r =
     r\<lparr>rp_max_entity_fragment := espnow_max_entity_fragment (rp_session_max_payload r),
       rp_max_assembly_bytes := espnow_max_assembly_bytes (rp_session_max_payload r),
       rp_max_total_fragment_bytes := espnow_max_total_fragment_bytes (rp_session_max_payload r),
       rp_file_receiver := set_max_chunk_size (rp_session_max_payload r) (rp_file_receiver r)\<rparr>"

definition adopt_best_parent_candidate :: "bool \<Rightarrow> remote \<Rightarrow> remote" where
  "adopt_best_parent_candidate resume r =
     (if \<not> dc_valid (rp_best_parent r) then r
      else
        let r1 = refresh_can_relay (r\<lparr>rp_parent_mac := dc_next_hop_mac (rp_best_parent r), rp_parent_valid := True,
              rp_hop_count := 0, rp_hops_to_bridge := dc_hops_to_bridge (rp_best_parent r) + 1,
              rp_last_known_channel := dc_channel (rp_best_parent r), rp_discovering := False,
              rp_sweep_complete := False, rp_fast_rejoin := False, rp_discover_retry_pending := False,
              rp_discover_retry_count := 0, rp_discovery_resume_normal_after_success := resume,
              rp_normal := resume, rp_joined := resume, rp_state_push_enabled := resume,
              rp_last_successful_state_ms := 0, rp_last_successful_outbound_ms := 0\<rparr>)
        in remote_queue_state_log NORMAL
             (''Discovery found parent '' @ mac_display (rp_parent_mac r1) @ ''; resuming normal traffic'')
             (r1\<lparr>rp_parent_link_rssi_ema := 0x81, rp_topology_refresh_due_ms := 0, rp_state_name := ''NORMAL''\<rparr>))"

end
