(* ===== verification/Remote_Send.thy ===== *)
theory Remote_Send
  imports Remote_Node
begin

unbundle bit_operations_syntax

text \<open>
  What a remote sends (\<^verbatim>\<open>esp_tree_remote/remote_protocol.cpp\<close>): DISCOVER on the channels of the
  sweep, JOIN, heartbeats, states and descriptors in fragments, acknowledgements, the delayed
  DISCOVER\_ANNOUNCE of a relay, and the frames it forwards.
\<close>

abbreviation (input) FIELD_TEXT :: u8 where "FIELD_TEXT \<equiv> 0x06"

abbreviation (input) FIELD_TEXT_SENSOR :: u8 where "FIELD_TEXT_SENSOR \<equiv> 0x14"

definition upstream_hops :: "remote \<Rightarrow> u8" where
  "upstream_hops r = ESPNOW_HOPS_MAKE ESPNOW_HOPS_DIR_UP (rp_hops_to_bridge r)"

section \<open>Joining\<close>

definition join_payload :: "remote_env \<Rightarrow> remote \<Rightarrow> espnow_join_t" where
  "join_payload env r =
     \<lparr>join_remote_nonce = rp_remote_nonce r, join_schema_hash = compute_schema_hash env r,
      join_hops_to_bridge = rp_hops_to_bridge r,
      join_dirty_count = word_of_nat (length (filter er_dirty (rp_entity_records r))),
      join_session_flags = rp_local_session_flags r\<rparr>"

definition send_join :: "remote_env \<Rightarrow> remote \<Rightarrow> bool \<times> remote" where
  "send_join env r =
     (if \<not> rp_parent_valid r \<or> \<not> dc_valid (rp_best_parent r) then (False, r)
      else
        let tx_counter = rp_tx_counter r;
            (sent, r1) = remote_send_frame env (rp_parent_mac r) PKT_JOIN (upstream_hops r) tx_counter
              (enc_join (join_payload env r)) False
              (r\<lparr>rp_join_delay_until_ms := 0, rp_tx_counter := tx_counter + 1\<rparr>);
            r2 = r1\<lparr>rp_join_in_flight := sent, rp_last_join_attempt_ms := rn_now env\<rparr>
        in (sent, if sent then r2\<lparr>rp_join_retry_count := rp_join_retry_count r2 + 1\<rparr> else r2))"

definition remote_send_deauth :: "remote_env \<Rightarrow> mac \<Rightarrow> espnow_frame_header_t \<Rightarrow> bytes \<Rightarrow> remote \<Rightarrow> bool \<times> remote" where
  "remote_send_deauth env m trigger payload r =
     remote_send_frame env m PKT_DEAUTH (ESPNOW_HOPS_MAKE ESPNOW_HOPS_DIR_UP 0) (rp_tx_counter r)
       (enc_deauth \<lparr>deauth_reason = 1, deauth_response_to_packet_type = fh_packet_type trigger,
         deauth_response_to_tx_counter = fh_tx_counter trigger,
         deauth_request_fingerprint = espnow_crypto_psk_tag (rn_hmac env) (rp_crypto r) (enc_frame_header trigger) payload\<rparr>)
       False (r\<lparr>rp_tx_counter := rp_tx_counter r + 1\<rparr>)"

section \<open>Discovery\<close>

definition discover_payload :: "remote \<Rightarrow> espnow_discover_t" where
  "discover_payload r =
     \<lparr>disc_network_id = c_array 32 (bytes_of_string (rp_network_id r)),
      disc_network_id_len = word_of_nat (length (rp_network_id r)),
      disc_capability_flags = (if rp_relay_enabled r then 1 else 0)\<rparr>"

definition send_on_channel :: "remote_env \<Rightarrow> u8 \<Rightarrow> remote \<Rightarrow> bool \<times> remote" where
  "send_on_channel env channel r =
     (let (sent, r1) = remote_send_frame env ESPNOW_BROADCAST_MAC PKT_DISCOVER (ESPNOW_HOPS_MAKE ESPNOW_HOPS_DIR_UP 0) 0
            (enc_discover (discover_payload r)) False (set_wifi_channel_with_recovery env channel r)
      in (sent, r1\<lparr>rp_discover_due_ms := rn_now env + 40\<rparr>))"

definition send_on_current_channel :: "remote_env \<Rightarrow> remote \<Rightarrow> bool \<times> remote" where
  "send_on_current_channel env r = (let (ch, r1) = current_wifi_channel env r in send_on_channel env ch r1)"

definition last_known_or_first :: "remote \<Rightarrow> u8" where
  "last_known_or_first r = (if rp_last_known_channel r \<ge> 1 \<and> rp_last_known_channel r \<le> 13 then rp_last_known_channel r else 1)"

text \<open>The next channel of the sweep.\<close>

definition send_on_sweep_channel :: "remote_env \<Rightarrow> remote \<Rightarrow> bool \<times> remote" where
  "send_on_sweep_channel env r =
     send_on_channel env (sweep_channel_from_index (rp_channel_index r)) (r\<lparr>rp_channel_index := rp_channel_index r + 1\<rparr>)"

definition discover_back_off :: "remote_env \<Rightarrow> remote \<Rightarrow> remote" where
  "discover_back_off env r =
     r\<lparr>rp_discover_retry_pending := True,
       rp_discover_due_ms := rn_now env + discover_backoff_delay_ms (rp_discover_phase r),
       rp_discover_phase := (if rp_discover_phase r < 4 then rp_discover_phase r + 1 else rp_discover_phase r)\<rparr>"

definition discover_retry :: "remote_env \<Rightarrow> remote \<Rightarrow> bool \<times> remote" where
  "discover_retry env r =
     (if rp_fast_rejoin r then
        send_on_channel env (last_known_or_first r) (r\<lparr>rp_discover_retry_count := rp_discover_retry_count r + 1\<rparr>)
      else if rp_discovery_current_channel_only r then
        send_on_current_channel env (r\<lparr>rp_discover_retry_count := rp_discover_retry_count r + 1\<rparr>)
      else send_on_sweep_channel env (if rp_channel_index r \<ge> 13 then r\<lparr>rp_channel_index := 0\<rparr> else r))"

definition discover_fast :: "remote_env \<Rightarrow> remote \<Rightarrow> bool \<times> remote" where
  "discover_fast env r =
     (if rp_discover_retry_count r = 0 then send_on_channel env (last_known_or_first r) (r\<lparr>rp_discover_retry_count := 1\<rparr>)
      else if rp_discover_retry_count r = 1 then
        (True, r\<lparr>rp_discover_retry_pending := True, rp_discover_due_ms := rn_now env + 500\<rparr>)
      else send_on_sweep_channel env (r\<lparr>rp_fast_rejoin := False, rp_discover_retry_count := 0, rp_discover_phase := 0,
             rp_discovery_current_channel_only := False, rp_discovery_resume_normal_after_success := True,
             rp_channel_index := 0\<rparr>))"

definition send_discover :: "remote_env \<Rightarrow> remote \<Rightarrow> bool \<times> remote" where
  "send_discover env r0 =
     (let r = remote_queue_state_log DISCOVERING ''State: DISCOVERING'' (r0\<lparr>rp_state_name := ''DISCOVERING''\<rparr>) in
      if rp_discover_retry_pending r then discover_retry env (r\<lparr>rp_discover_retry_pending := False\<rparr>)
      else if rp_fast_rejoin r then discover_fast env r
      else if rp_discovery_current_channel_only r then
        if rp_discover_retry_count r = 0 then send_on_current_channel env (r\<lparr>rp_discover_retry_count := 1\<rparr>)
        else (True, discover_back_off env r)
      else if rp_channel_index r \<ge> 13 then
        if dc_valid (rp_best_parent r) then (True, r\<lparr>rp_sweep_complete := True\<rparr>)
        else (True, (discover_back_off env r)\<lparr>rp_channel_index := 0\<rparr>)
      else send_on_sweep_channel env r)"

section \<open>Heartbeats and acknowledgements\<close>

definition heartbeat_payload :: "remote_env \<Rightarrow> remote \<Rightarrow> espnow_heartbeat_t" where
  "heartbeat_payload env r =
     \<lparr>hb_uptime_seconds = get_uptime_s env r, hb_expected_contact_interval_seconds = ucast (rp_heartbeat_interval r),
      hb_parent_mac = rp_parent_mac r, hb_direct_child_count = direct_child_count r,
      hb_total_child_count = (if rp_can_relay r then total_children_count r else 0),
      hb_remote_rssi_dbm = rp_parent_link_rssi_ema r\<rparr>"

definition send_heartbeat :: "remote_env \<Rightarrow> remote \<Rightarrow> bool \<times> remote" where
  "send_heartbeat env r =
     (if \<not> rp_joined r \<or> \<not> rp_parent_valid r \<or> \<not> rp_normal r then (False, r)
      else
        let (sent, r1) = remote_send_frame env (rp_parent_mac r) PKT_HEARTBEAT (upstream_hops r) (rp_tx_counter r)
              (enc_heartbeat (heartbeat_payload env r)) True (r\<lparr>rp_tx_counter := rp_tx_counter r + 1\<rparr>)
        in (sent, if sent then r1\<lparr>rp_last_heartbeat_tx_ms := rn_now env, rp_last_successful_heartbeat_ms := rn_now env,
                         rp_heartbeat_due_ms := rn_now env + ucast (rp_heartbeat_interval r1) * 1000\<rparr>
                  else r1\<lparr>rp_heartbeat_due_ms := rn_now env + 1000\<rparr>))"

definition remote_send_command_ack :: "remote_env \<Rightarrow> u8 \<Rightarrow> u32 \<Rightarrow> remote \<Rightarrow> bool \<times> remote" where
  "remote_send_command_ack env result ref_tx_counter r =
     (if \<not> rp_joined r \<or> \<not> rp_parent_valid r then (False, r)
      else
        let ack = enc_ack \<lparr>ack_ack_type = 6, ack_result = result, ack_ref_tx_counter = ref_tx_counter\<rparr>;
            tx_counter = rp_tx_counter r;
            r1 = r\<lparr>rp_tx_counter := tx_counter + 1\<rparr>
        in case espnow_crypto_crypt (rp_crypto r) (rp_session_key r) tx_counter ack of
             None \<Rightarrow> (False, r1)
           | Some ciphertext \<Rightarrow>
               remote_send_frame env (rp_parent_mac r) PKT_ACK (upstream_hops r) tx_counter ack True
                 (update_outstanding_request env (packet_type_code PKT_ACK) tx_counter
                   (upstream_header r PKT_ACK (upstream_hops r) tx_counter) ciphertext r1))"

definition send_config_ack :: "remote_env \<Rightarrow> u8 \<Rightarrow> u8 \<Rightarrow> u32 \<Rightarrow> remote \<Rightarrow> bool \<times> remote" where
  "send_config_ack env command result ref_tx_counter r =
     (if \<not> rp_joined r \<or> \<not> rp_parent_valid r then (False, r)
      else remote_send_ack env
        (enc_ack \<lparr>ack_ack_type = packet_type_code PKT_CONFIG, ack_result = result, ack_ref_tx_counter = ref_tx_counter\<rparr> @ [command])
        ref_tx_counter r)"

section \<open>States and descriptors in fragments\<close>

definition chunk_count_of :: "u16 \<Rightarrow> bytes \<Rightarrow> nat" where
  "chunk_count_of frag_size payload = max 1 ((length payload + unat frag_size - 1) div unat frag_size)"

definition fragment_chunk :: "u16 \<Rightarrow> u8 \<Rightarrow> u8 \<Rightarrow> bytes \<Rightarrow> nat \<Rightarrow> bytes" where
  "fragment_chunk frag_size entity_index flags payload chunk =
     (let off = chunk * unat frag_size;
          remaining = (if length payload > off then length payload - off else 0);
          len = min (unat frag_size) remaining
      in append_entity_payload [] entity_index flags (word_of_nat chunk) (word_of_nat (chunk_count_of frag_size payload))
           (if len > 0 then Some (drop off payload) else None) len)"

definition state_payload :: "EntityRecord \<Rightarrow> bytes \<Rightarrow> bytes" where
  "state_payload rec val =
     (if es_entity_type (er_schema rec) = FIELD_TEXT \<or> es_entity_type (er_schema rec) = FIELD_TEXT_SENSOR
      then bytes_of_string (er_current_text rec) else val)"

definition state_flags :: "remote \<Rightarrow> u8 \<Rightarrow> nat \<Rightarrow> nat \<Rightarrow> u8" where
  "state_flags r field_index n chunk =
     (if chunk + 1 < n then ESPNOW_ENTITY_FLAG_MORE_FRAGMENTS
      else if chunk + 1 = n \<and> list_ex er_dirty (drop (unat field_index + 1) (rp_entity_records r))
      then ESPNOW_ENTITY_FLAG_MORE_DIRTY else 0)"

definition log_fragment :: "espnow_packet_type_t \<Rightarrow> u8 \<Rightarrow> nat \<Rightarrow> nat \<Rightarrow> nat \<Rightarrow> u8 \<Rightarrow> u32 \<Rightarrow> remote \<Rightarrow> remote" where
  "log_fragment ty entity_index len chunk n retry_count tx_counter r =
     remote_queue_log ((log_entry True ty (rp_parent_mac r) (len + 17 + 8) 0 tx_counter)
       \<lparr>le_show_entity := True, le_entity_index := entity_index,
         le_entity_total := word_of_nat (length (rp_entity_records r)), le_chunk_index := word_of_nat (chunk + 1),
         le_chunk_total := word_of_nat n, le_retry_count := retry_count\<rparr>) r"

definition state_send_failed :: "remote_env \<Rightarrow> u8 \<Rightarrow> remote \<Rightarrow> remote" where
  "state_send_failed env field_index r =
     (let i = unat field_index in
      r\<lparr>rp_entity_records := (if i < length (rp_entity_records r)
           then (rp_entity_records r)[i := (rp_entity_records r ! i)\<lparr>er_dirty := True\<rparr>] else rp_entity_records r),
        rp_waiting_for_state_ack := False, rp_last_state_tx_ms := rn_now env\<rparr>)"

fun send_state_chunks :: "remote_env \<Rightarrow> u8 \<Rightarrow> bytes \<Rightarrow> u8 \<Rightarrow> nat list \<Rightarrow> remote \<Rightarrow> bool \<times> remote" where
  "send_state_chunks env field_index payload retry_count [] r = (True, r)"
| "send_state_chunks env field_index payload retry_count (chunk # chunks) r =
     (let n = chunk_count_of (rp_max_entity_fragment r) payload;
          state = fragment_chunk (rp_max_entity_fragment r) field_index (state_flags r field_index n chunk) payload chunk;
          tx_counter = rp_tx_counter r;
          r1 = r\<lparr>rp_tx_counter := tx_counter + 1\<rparr>
      in case espnow_crypto_crypt (rp_crypto r) (rp_session_key r) tx_counter state of
           None \<Rightarrow> (False, r1)
         | Some ciphertext \<Rightarrow>
             let r2 = log_fragment PKT_STATE field_index (length state) chunk n retry_count tx_counter
                   (update_outstanding_request env (packet_type_code PKT_STATE) tx_counter
                     (upstream_header r PKT_STATE (upstream_hops r) tx_counter) ciphertext r1);
                 (sent, r3) = remote_send_frame env (rp_parent_mac r) PKT_STATE (upstream_hops r) tx_counter state True r2
             in if sent then send_state_chunks env field_index payload retry_count chunks r3
                else (False, state_send_failed env field_index r3))"

definition send_state :: "remote_env \<Rightarrow> u8 \<Rightarrow> bytes \<Rightarrow> bool \<Rightarrow> u8 \<Rightarrow> remote \<Rightarrow> bool \<times> remote" where
  "send_state env field_index val reset_retry_state retry_count r =
     (if \<not> rp_joined r \<or> \<not> rp_parent_valid r \<or> \<not> rp_state_push_enabled r \<or> unat field_index \<ge> length (rp_entity_records r)
      then (False, r)
      else
        let payload = state_payload (rp_entity_records r ! unat field_index) val;
            n = chunk_count_of (rp_max_entity_fragment r) payload;
            (ok, r1) = send_state_chunks env field_index payload retry_count [0..<n] r
        in if \<not> ok then (False, r1)
           else (True, r1\<lparr>rp_pending_state_message_tx_base := rp_tx_counter r, rp_pending_state_field_index := field_index,
                   rp_pending_state_value := val, rp_pending_state_fragment_count := word_of_nat n,
                   rp_pending_state_payload_len := length payload, rp_last_state_tx_ms := rn_now env,
                   rp_state_retry_count := (if reset_retry_state then 0 else rp_state_retry_count r1)\<rparr>))"

text \<open>The compile-time chip model, and what the running partition says about the build.\<close>

definition send_identity_descriptor :: "remote_env \<Rightarrow> remote \<Rightarrow> bool \<times> remote" where
  "send_identity_descriptor env r =
     (if \<not> rp_joined r \<or> \<not> rp_parent_valid r then (False, r)
      else
        let (build_date, build_time) = (case rn_running env of Some (Some dt, img) \<Rightarrow> dt | _ \<Rightarrow> ([], []));
            firmware_md5 = (case rn_running env of
                Some (desc, img) \<Rightarrow> c_array 16 (re_md5 (rn_flash env) img) | None \<Rightarrow> replicate 16 0);
            r1 = r\<lparr>rp_chip_model := rn_chip_model env, rp_build_date := build_date, rp_build_time := build_time,
                   rp_firmware_md5 := firmware_md5\<rparr>;
            push = append_identity_descriptor_payload (Some (bytes_of_string (rp_esphome_name r)))
              (Some (bytes_of_string (rp_node_label r))) (rp_firmware_epoch r) (Some (bytes_of_string (rp_project_name r)))
              (Some (bytes_of_string (rp_project_version r))) (word_of_nat (length (rp_entity_records r)))
              (rp_session_max_payload r) (rn_chip_model env) (Some (bytes_of_string build_date))
              (Some (bytes_of_string build_time)) (Some firmware_md5);
            tx_counter = rp_tx_counter r;
            fragment = append_entity_payload [] 0 0 0 1 (Some push) (length push);
            r2 = log_fragment PKT_SCHEMA_PUSH 0 (length fragment) 0 1 0 tx_counter (r1\<lparr>rp_tx_counter := tx_counter + 1\<rparr>)
        in remote_send_frame env (rp_parent_mac r) PKT_SCHEMA_PUSH (upstream_hops r) tx_counter fragment True r2)"

fun send_schema_chunks :: "remote_env \<Rightarrow> u8 \<Rightarrow> bytes \<Rightarrow> nat list \<Rightarrow> remote \<Rightarrow> bool \<times> remote" where
  "send_schema_chunks env entity_index push [] r = (True, r)"
| "send_schema_chunks env entity_index push (chunk # chunks) r =
     (let n = chunk_count_of (rp_max_entity_fragment r) push;
          fragment = fragment_chunk (rp_max_entity_fragment r) entity_index
            (if chunk + 1 < n then ESPNOW_ENTITY_FLAG_MORE_FRAGMENTS else 0) push chunk;
          tx_counter = rp_tx_counter r;
          r1 = r\<lparr>rp_tx_counter := tx_counter + 1\<rparr>
      in case espnow_crypto_crypt (rp_crypto r) (rp_session_key r) tx_counter fragment of
           None \<Rightarrow> (False, r1)
         | Some ciphertext \<Rightarrow>
             let (sent, r2) = remote_send_frame env (rp_parent_mac r) PKT_SCHEMA_PUSH (upstream_hops r) tx_counter fragment True
                   (log_fragment PKT_SCHEMA_PUSH entity_index (length fragment) chunk n 0 tx_counter r1)
             in if sent then send_schema_chunks env entity_index push chunks r2 else (False, r2))"

text \<open>The options go out with their terminating zero.\<close>

definition schema_push_of :: "remote \<Rightarrow> u8 \<Rightarrow> bytes" where
  "schema_push_of r entity_index =
     (let schema = er_schema (rp_entity_records r ! unat entity_index)
      in append_schema_push_payload ESPNOW_DESCRIPTOR_TYPE_ENTITY entity_index entity_index
           (word_of_nat (length (rp_entity_records r))) (es_entity_type schema)
           (Some (bytes_of_string (es_entity_name schema))) (Some (bytes_of_string (es_entity_unit schema)))
           (Some (bytes_of_string (es_entity_id schema))) (Some (bytes_of_string (es_entity_options schema) @ [0]))
           (length (es_entity_options schema) + 1))"

definition send_schema_push :: "remote_env \<Rightarrow> u8 \<Rightarrow> remote \<Rightarrow> bool \<times> remote" where
  "send_schema_push env entity_index r =
     (if \<not> rp_joined r \<or> \<not> rp_parent_valid r then (False, r)
      else if unat entity_index \<ge> length (rp_entity_records r) then (False, r)
      else send_schema_chunks env entity_index (schema_push_of r entity_index)
        [0..<chunk_count_of (rp_max_entity_fragment r) (schema_push_of r entity_index)] r)"

section \<open>The announcements of a relay\<close>

definition remote_fill_discover_announce :: "remote \<Rightarrow> u8 \<Rightarrow> u8 \<Rightarrow> espnow_discover_announce_t" where
  "remote_fill_discover_announce r responder_role hops_to_bridge =
     \<lparr>ann_network_id = c_array 32 (bytes_of_string (rp_network_id r)),
      ann_network_id_len = word_of_nat (length (rp_network_id r)), ann_responder_mac = rp_leaf_mac r,
      ann_responder_role = responder_role, ann_hops_to_bridge = hops_to_bridge, ann_bridge_reachable = 1, ann_flags = 0\<rparr>"

definition send_discover_announce_with_jitter :: "remote_env \<Rightarrow> mac \<Rightarrow> mac \<Rightarrow> u8 \<Rightarrow> u8 \<Rightarrow> remote \<Rightarrow> bool \<times> remote" where
  "send_discover_announce_with_jitter env sender_mac leaf_mac responder_role hops_to_bridge r =
     (let next_tail = (rp_announce_queue_tail r + 1) mod ANNOUNCE_QUEUE_SIZE in
      if next_tail = rp_announce_queue_head r then (False, r)
      else
        let (random, r1) = remote_random env r;
            jitter_ms = random mod (ESPNOW_DISCOVER_ANNOUNCE_JITTER_MS + 1);
            entry = \<lparr>pa_leaf_mac = leaf_mac, pa_sender_mac = sender_mac, pa_responder_role = responder_role,
                     pa_hops_to_bridge = hops_to_bridge, pa_deadline_ms = rn_now env + jitter_ms, pa_valid = True\<rparr>
        in (True, r1\<lparr>rp_announce_queue := (rp_announce_queue r1)[rp_announce_queue_tail r1 := entry],
                     rp_announce_queue_tail := next_tail, rp_discover_announce_pending := True\<rparr>))"

definition flush_pending_discover_announce :: "remote_env \<Rightarrow> remote \<Rightarrow> remote" where
  "flush_pending_discover_announce env r =
     (if rp_announce_queue_head r = rp_announce_queue_tail r then r
      else
        let entry = rp_announce_queue r ! rp_announce_queue_head r in
        if \<not> pa_valid entry then r
        else if rn_now env < pa_deadline_ms entry then r
        else
          let payload = enc_discover_announce (remote_fill_discover_announce r (pa_responder_role entry) (pa_hops_to_bridge entry));
              r1 = remote_queue_log ((log_entry True PKT_DISCOVER_ANNOUNCE (pa_sender_mac entry) (17 + length payload) 0 0)
                     \<lparr>le_rtt_ms := 0xFFFFFFFF, le_allowed := pa_hops_to_bridge entry\<rparr>) r;
              frame = assemble_plain_frame (rn_hmac env) (rp_crypto r) PKT_DISCOVER_ANNOUNCE (pa_leaf_mac entry)
                        (ESPNOW_HOPS_MAKE ESPNOW_HOPS_DIR_DOWN 0) 0 payload;
              r2 = (if rp_send_fn r1 then snd (call_send_fn env (pa_sender_mac entry) frame r1) else r1);
              head = (rp_announce_queue_head r + 1) mod ANNOUNCE_QUEUE_SIZE
          in r2\<lparr>rp_announce_queue := (rp_announce_queue r2)[rp_announce_queue_head r := entry\<lparr>pa_valid := False\<rparr>],
                rp_announce_queue_head := head,
                rp_discover_announce_pending :=
                  (if head = rp_announce_queue_tail r then False else rp_discover_announce_pending r2)\<rparr>)"

section \<open>Forwarding\<close>

text \<open>The hop byte keeps its direction and parent-check bits; a parent address is blanked.\<close>

definition forwarded_hops :: "u8 \<Rightarrow> u8 \<Rightarrow> u8" where
  "forwarded_hops hop_count delta =
     ESPNOW_HOPS_MAKE (hop_count AND ESPNOW_HOPS_DIR_BIT) (ESPNOW_HOPS_COUNT hop_count + delta) OR
       (hop_count AND ESPNOW_HOPS_PARENT_CHECK_BIT)"

definition forwarded_frame ::
  "hmac_fn \<Rightarrow> crypto_state \<Rightarrow> espnow_frame_header_t \<Rightarrow> bytes \<Rightarrow> bytes option \<Rightarrow> u8 \<Rightarrow> bytes" where
  "forwarded_frame hmac g header payload session_tag hop_count_delta =
     (let hdr = header\<lparr>fh_hop_count := forwarded_hops (fh_hop_count header) hop_count_delta\<rparr>;
          psk_tag = espnow_crypto_psk_tag hmac g (enc_frame_header hdr) payload
      in enc_frame_header (hdr\<lparr>fh_psk_tag := psk_tag\<rparr>) @
         (if has_parent_check (fh_hop_count header) then replicate ESPNOW_PARENT_MAC_LEN 0 else []) @
         payload @ (case session_tag of None \<Rightarrow> [] | Some tag \<Rightarrow> take ESPNOW_SESSION_TAG_LEN tag))"

definition forward_frame ::
  "remote_env \<Rightarrow> mac \<Rightarrow> espnow_frame_header_t \<Rightarrow> bytes \<Rightarrow> bytes option \<Rightarrow> u8 \<Rightarrow> remote \<Rightarrow> bool \<times> remote" where
  "forward_frame env m header payload session_tag hop_count_delta r =
     (if \<not> rp_send_fn r then (False, r)
      else
        let (sent, r1) = call_send_fn env m
              (forwarded_frame (rn_hmac env) (rp_crypto r) header payload session_tag hop_count_delta) r
        in (sent, if sent then r1\<lparr>rp_last_successful_outbound_ms := rn_now env\<rparr> else r1))"

definition log_forward :: "espnow_frame_header_t \<Rightarrow> nat \<Rightarrow> u8 \<Rightarrow> remote \<Rightarrow> remote" where
  "log_forward header len total_hops r =
     (case packet_type_of (fh_packet_type header) of
        None \<Rightarrow> r
      | Some ty \<Rightarrow> remote_queue_log ((log_entry True ty (fh_leaf_mac header) (17 + len) 0 0)
          \<lparr>le_allowed := total_hops, le_pkt_uid := (if has_parent_check (fh_hop_count header) then 1 else 0)\<rparr>) r)"

definition forward_packet :: "remote_env \<Rightarrow> espnow_frame_header_t \<Rightarrow> bytes \<Rightarrow> bytes option \<Rightarrow> remote \<Rightarrow> bool \<times> remote" where
  "forward_packet env header payload session_tag r =
     (let len = length payload + (case session_tag of None \<Rightarrow> 0 | Some _ \<Rightarrow> 8) in
      if ESPNOW_HOPS_IS_UPSTREAM (fh_hop_count header) then
        if \<not> rp_parent_valid r then (False, r)
        else forward_frame env (rp_parent_mac r) header payload session_tag 0
               (log_forward header len (ESPNOW_HOPS_COUNT (fh_hop_count header)) r)
      else case find_route (fh_leaf_mac header) r of
        None \<Rightarrow> (False, r)
      | Some route \<Rightarrow>
          forward_frame env (rt_next_hop_mac route) header payload session_tag 1
            (log_forward header len (ESPNOW_HOPS_COUNT (fh_hop_count header) + 1)
              (snd (refresh_route env (fh_leaf_mac header) (rt_next_hop_mac route) r))))"

end
