(* ===== verification/Remote_Handlers.thy ===== *)
theory Remote_Handlers
  imports Remote_Send
begin

unbundle bit_operations_syntax

text \<open>
  The receiving half of \<^verbatim>\<open>esp_tree_remote/remote_protocol.cpp\<close>: one definition per packet handler,
  composed by \<open>remote_on_espnow_frame\<close>.  A handler returns the bool of the code and the new state.
  The sender's address is never a null pointer for a frame that comes from the radio.
\<close>

section \<open>Discovery\<close>

definition should_handle_locally :: "espnow_frame_header_t \<Rightarrow> remote \<Rightarrow> bool" where
  "should_handle_locally header r =
     (if fh_leaf_mac header = rp_leaf_mac r then True
      else if packet_type_of (fh_packet_type header) = Some PKT_DISCOVER \<and> rp_relay_enabled r \<and> rp_normal r then True
      else packet_type_of (fh_packet_type header) = Some PKT_DISCOVER_ANNOUNCE)"

definition remote_handle_discover ::
  "remote_env \<Rightarrow> mac \<Rightarrow> espnow_frame_header_t \<Rightarrow> bytes \<Rightarrow> remote \<Rightarrow> bool \<times> remote" where
  "remote_handle_discover env sender_mac header payload r =
     (if sender_mac = rp_leaf_mac r then (False, r)
      else if length payload \<noteq> 34 then (False, r)
      else if unat (disc_network_id_len (dec_discover payload)) \<noteq> length (rp_network_id r) then (False, r)
      else if take (length (rp_network_id r)) payload \<noteq> bytes_of_string (rp_network_id r) then (False, r)
      else if \<not> rp_can_relay r then (False, r)
      else if rp_hops_to_bridge r > rp_max_hops r then (False, r)
      else if list_ex (\<lambda>pending. pd_leaf_mac pending = fh_leaf_mac header) (rp_pending_discovers r) then (True, r)
      else if length (rp_pending_discovers r) \<ge> unat (rp_max_discover_pending r) then (False, r)
      else send_discover_announce_with_jitter env sender_mac (fh_leaf_mac header) 1 (rp_hops_to_bridge r)
             (r\<lparr>rp_pending_discovers := rp_pending_discovers r @
                 [\<lparr>pd_leaf_mac = fh_leaf_mac header, pd_expiry_ms = rn_now env + 500\<rparr>]\<rparr>))"

text \<open>The first entry of the preferred parents that names the sender or the responder, or 0xFF.\<close>

fun preferred_index_of :: "mac \<Rightarrow> mac \<Rightarrow> u8 \<Rightarrow> mac list \<Rightarrow> u8" where
  "preferred_index_of sender_mac responder_mac i [] = 0xFF"
| "preferred_index_of sender_mac responder_mac i (m # ms) =
     (if m = sender_mac \<or> m = responder_mac then i else preferred_index_of sender_mac responder_mac (i + 1) ms)"

definition better_candidate :: "u8 \<Rightarrow> u8 \<Rightarrow> u8 \<Rightarrow> DiscoverCandidate \<Rightarrow> bool" where
  "better_candidate preferred_index hops_to_bridge rssi best \<longleftrightarrow>
     \<not> dc_valid best \<or> preferred_index < dc_preferred_index best \<or>
     (preferred_index = dc_preferred_index best \<and>
      (hops_to_bridge < dc_hops_to_bridge best \<or>
       (hops_to_bridge = dc_hops_to_bridge best \<and> sint rssi > sint (dc_rssi best))))"

definition select_parent_candidate :: "remote_env \<Rightarrow> mac \<Rightarrow> espnow_discover_announce_t \<Rightarrow> u8 \<Rightarrow> remote \<Rightarrow> remote" where
  "select_parent_candidate env sender_mac announce rssi r =
     (let preferred_index = preferred_index_of sender_mac (ann_responder_mac announce) 0 (rp_preferred_parents r) in
      if \<not> better_candidate preferred_index (ann_hops_to_bridge announce) rssi (rp_best_parent r) then r
      else
        let (ch, r1) = esp_wifi_get_channel env r in
        r1\<lparr>rp_best_parent := \<lparr>dc_next_hop_mac = sender_mac, dc_responder_role = ann_responder_role announce,
             dc_bridge_reachable = (ann_bridge_reachable announce \<noteq> 0), dc_flags = ann_flags announce,
             dc_channel = (case ch of None \<Rightarrow> 1 | Some c \<Rightarrow> c), dc_rssi = rssi,
             dc_hops_to_bridge = ann_hops_to_bridge announce, dc_valid = True, dc_preferred_index = preferred_index\<rparr>\<rparr>)"

definition handle_discover_announce :: "remote_env \<Rightarrow> mac \<Rightarrow> bytes \<Rightarrow> u8 \<Rightarrow> remote \<Rightarrow> bool \<times> remote" where
  "handle_discover_announce env sender_mac payload rssi r =
     (if length payload \<noteq> 43 then (False, r)
      else
        let announce = dec_discover_announce payload in
        if unat (ann_network_id_len announce) \<noteq> length (rp_network_id r) then (False, r)
        else if take (length (rp_network_id r)) payload \<noteq> bytes_of_string (rp_network_id r) then (False, r)
        else if ann_bridge_reachable announce = 0 then (False, r)
        else if ann_hops_to_bridge announce > rp_max_hops r then (False, r)
        else (True, select_parent_candidate env sender_mac announce rssi r))"

section \<open>Joining\<close>

definition join_rejected :: "remote_env \<Rightarrow> espnow_join_ack_t \<Rightarrow> remote \<Rightarrow> remote" where
  "join_rejected env ack r0 =
     (let r = r0\<lparr>rp_session_key_valid := False, rp_fast_rejoin := False\<rparr> in
      if jack_reason ack = 3 then
        let r1 = r\<lparr>rp_wait_reject_count := rp_wait_reject_count r + 1, rp_join_in_flight := False\<rparr> in
        if rp_wait_reject_count r1 \<ge> ESPNOW_MAX_RETRIES then
          (start_discovery_cycle env False (r1\<lparr>rp_wait_reject_count := 0\<rparr>))\<lparr>rp_discover_due_ms := rn_now env + 1000\<rparr>
        else r1\<lparr>rp_join_delay_until_ms := rn_now env + 10000, rp_join_retry_count := 0,
                rp_discover_due_ms := rn_now env + 10000\<rparr>
      else start_discovery_cycle env False (r\<lparr>rp_join_in_flight := False\<rparr>))"

text \<open>Both flag members are set from the answer, so the two tests of the code are one.\<close>

definition join_accepted :: "remote_env \<Rightarrow> u32 \<Rightarrow> espnow_join_ack_t \<Rightarrow> remote \<Rightarrow> remote" where
  "join_accepted env tx_counter ack r =
     (let r1 = update_mtu_from_route (r\<lparr>rp_bridge_nonce := jack_bridge_nonce ack,
                 rp_bridge_session_flags := jack_session_flags ack, rp_local_session_flags := jack_session_flags ack,
                 rp_session_max_payload := (if jack_session_flags ack AND ESPNOW_SESSION_FLAG_V2_MTU \<noteq> 0
                   then ESPNOW_V2_MAX_PAYLOAD else ESPNOW_V1_MAX_PAYLOAD)\<rparr>)
      in r1\<lparr>rp_session_key := espnow_crypto_derive_session_key (rn_hmac env) (rp_crypto r1) (rp_bridge_nonce r1) (rp_remote_nonce r1),
            rp_session_key_valid := True, rp_joined := True, rp_fast_rejoin := False, rp_discovering := False,
            rp_join_in_flight := False, rp_join_retry_count := 0, rp_last_seen_counter := tx_counter\<rparr>)"

definition join_stage :: "remote_env \<Rightarrow> u8 \<Rightarrow> remote \<Rightarrow> remote" where
  "join_stage env stage r =
     (if stage = 1 then
        if rp_normal r then r
        else remote_queue_state_log JOINED ''State: JOINED (schema refresh)''
               ((refresh_can_relay (r\<lparr>rp_normal := False\<rparr>))\<lparr>rp_state_push_enabled := False, rp_state_name := ''JOINED''\<rparr>)
               \<lparr>rp_joined_started_ms := rn_now env\<rparr>
      else if stage = 2 then
        if rp_normal r then r
        else
          let r1 = (refresh_can_relay (r\<lparr>rp_normal := False\<rparr>))\<lparr>rp_state_push_enabled := True,
                      rp_waiting_for_state_ack := False, rp_state_retry_count := 0, rp_state_name := ''STATE_SYNC'',
                      rp_joined_started_ms := rn_now env\<rparr>
          in if rp_entity_records r1 \<noteq> [] then mark_all_entities_dirty r1 else r1
      else if stage = 100 then
        let r1 = refresh_can_relay (r\<lparr>rp_normal := True, rp_joined_started_ms := 0, rp_state_push_enabled := True,
                   rp_last_successful_outbound_ms := 0, rp_consecutive_send_failures := 0,
                   rp_last_successful_state_ms := 0, rp_parent_mac := dc_next_hop_mac (rp_best_parent r),
                   rp_parent_valid := True, rp_hop_count := 0,
                   rp_hops_to_bridge := dc_hops_to_bridge (rp_best_parent r) + 1\<rparr>)
        in snd (send_heartbeat env (remote_queue_state_log NORMAL
             (''ESPNOW Join Complete to '' @ rp_network_id r1 @ '' @ '' @ mac_display (rp_parent_mac r1) @
              ''. State: NORMAL. Mode: Long Range'') (r1\<lparr>rp_state_name := ''NORMAL''\<rparr>)))
      else remote_queue_state_log JOINED ''State: JOINED''
             ((refresh_can_relay (r\<lparr>rp_normal := False\<rparr>))\<lparr>rp_state_push_enabled := False, rp_state_name := ''JOINED''\<rparr>)
             \<lparr>rp_joined_started_ms := rn_now env\<rparr>)"

definition handle_join_ack :: "remote_env \<Rightarrow> espnow_frame_header_t \<Rightarrow> bytes \<Rightarrow> remote \<Rightarrow> bool \<times> remote" where
  "handle_join_ack env header payload r =
     (if rp_joined r \<and> \<not> counter_is_newer (fh_tx_counter header) (rp_last_seen_counter r) then (False, r)
      else if length payload \<noteq> 20 then (False, r)
      else
        let ack = dec_join_ack payload in
        if jack_accepted ack \<noteq> 1 then (False, join_rejected env ack r)
        else (True, join_stage env (jack_stage ack) (join_accepted env (fh_tx_counter header) ack r)))"

section \<open>Session packets\<close>

definition state_acked :: "remote_env \<Rightarrow> remote \<Rightarrow> remote" where
  "state_acked env r =
     (let i = unat (rp_pending_state_field_index r) in
      r\<lparr>rp_last_state_rtt_ms := rn_now env - rp_last_state_tx_ms r, rp_last_successful_state_ms := rn_now env,
        rp_waiting_for_state_ack := False, rp_state_retry_count := 0,
        rp_entity_records := (if i < length (rp_entity_records r)
          then (rp_entity_records r)[i := (rp_entity_records r ! i)\<lparr>er_dirty := False\<rparr>] else rp_entity_records r)\<rparr>)"

definition remote_handle_ack :: "remote_env \<Rightarrow> espnow_frame_header_t \<Rightarrow> bytes \<Rightarrow> bytes option \<Rightarrow> remote \<Rightarrow> bool \<times> remote" where
  "remote_handle_ack env header payload session_tag r =
     (if \<not> rp_joined r \<or> \<not> counter_is_newer (fh_tx_counter header) (rp_last_seen_counter r) then (False, r)
      else case open_session_packet env r header payload session_tag of
        None \<Rightarrow> (False, r)
      | Some plaintext \<Rightarrow>
          if length plaintext < 6 then (False, r)
          else
            let ack = dec_ack plaintext in
            if ack_ack_type ack = 4 then
              let r1 = r\<lparr>rp_last_seen_counter := fh_tx_counter header\<rparr> in
              (True, if rp_waiting_for_state_ack r1 \<and> ack_ref_tx_counter ack = rp_pending_state_message_tx_base r1
                     then state_acked env r1 else r1)
            else (True, r))"

text \<open>\<^verbatim>\<open>size_t\<close> has 32 bits.\<close>

definition command_reservation :: "EntityPayloadView \<Rightarrow> u16 \<Rightarrow> u32" where
  "command_reservation view mef = ucast (epv_fragment_count view) * ucast mef"

definition pick_command_assembly ::
  "EntityPayloadView \<Rightarrow> u32 \<Rightarrow> remote \<Rightarrow> (espnow_fragment_assembly_t \<times> u32) option" where
  "pick_command_assembly view tx r =
     (let m = rp_pending_command_assemblies r; reserved = rp_pending_command_reserved_bytes r in
      case omap_find m (epv_entity_index view) of
        None \<Rightarrow>
          if length m \<ge> ESPNOW_MAX_PENDING_FRAGMENT_ASSEMBLIES then None
          else Some (fresh_assembly, reserved + command_reservation view (rp_max_entity_fragment r))
      | Some a \<Rightarrow>
          if fa_active a \<and> fa_message_tx_base a \<noteq> tx \<and> fa_message_tx_base a < tx
          then Some (reset_fragment_assembly a, reserved) else Some (a, reserved))"

definition put_command_assembly :: "u8 \<Rightarrow> espnow_fragment_assembly_t \<Rightarrow> u32 \<Rightarrow> remote \<Rightarrow> remote" where
  "put_command_assembly i a reserved r =
     r\<lparr>rp_pending_command_assemblies := omap_put i a (rp_pending_command_assemblies r),
       rp_pending_command_reserved_bytes := reserved\<rparr>"

text \<open>\<open>None\<close> when the fragment is dropped, else the assembly with the fragment in it.\<close>

definition stage_command_fragment ::
  "remote_env \<Rightarrow> EntityPayloadView \<Rightarrow> u32 \<Rightarrow> remote \<Rightarrow> espnow_fragment_assembly_t option \<times> remote" where
  "stage_command_fragment env view tx r =
     (case pick_command_assembly view tx r of
        None \<Rightarrow> (None, r)
      | Some (a, reserved) \<Rightarrow>
          if \<not> fa_active a \<and> reserved + command_reservation view (rp_max_entity_fragment r) > ucast (rp_max_total_fragment_bytes r)
          then (None, put_command_assembly (epv_entity_index view) a reserved r)
          else
            let (ok, a1) = remote_store_fragment a view tx (rn_now env) (rp_max_entity_fragment r) (rp_max_assembly_bytes r)
            in (if ok then Some a1 else None, put_command_assembly (epv_entity_index view) a1 reserved r))"

text \<open>A complete command: the record takes the value, the callback runs and the bridge gets its answer.\<close>

definition complete_command ::
  "remote_env \<Rightarrow> EntityPayloadView \<Rightarrow> u32 \<Rightarrow> espnow_fragment_assembly_t \<Rightarrow> remote \<Rightarrow> bool \<times> remote" where
  "complete_command env view tx a r =
     (let i = unat (epv_entity_index view);
          val = assemble_fragment_payload a (rp_max_entity_fragment r);
          rec = rp_entity_records r ! i;
          rec1 = rec\<lparr>er_current_value := val, er_dirty := False, er_last_completed_command_message_tx_base := tx,
                     er_current_text := (if es_entity_type (er_schema rec) = FIELD_TEXT \<or>
                       es_entity_type (er_schema rec) = FIELD_TEXT_SENSOR then string_of_bytes val else er_current_text rec)\<rparr>;
          r1 = r\<lparr>rp_pending_command_reserved_bytes := rp_pending_command_reserved_bytes r - word_of_nat (length (fa_data a)),
                 rp_pending_command_assemblies := omap_erase (epv_entity_index view) (rp_pending_command_assemblies r),
                 rp_entity_records := (rp_entity_records r)[i := rec1]\<rparr>;
          r2 = (if rp_command_fn r1 then rp_event (CommandFn (epv_entity_index view) (epv_flags view) val) r1 else r1)
      in remote_send_command_ack env 0 tx r2)"

definition accept_command_fragment ::
  "remote_env \<Rightarrow> espnow_frame_header_t \<Rightarrow> EntityPayloadView \<Rightarrow> u32 \<Rightarrow> remote \<Rightarrow> bool \<times> remote" where
  "accept_command_fragment env header view tx r =
     (let (staged, r1) = stage_command_fragment env view tx r in
      case staged of
        None \<Rightarrow> (False, r1)
      | Some a \<Rightarrow>
          let r2 = r1\<lparr>rp_last_seen_counter := max (rp_last_seen_counter r1) (fh_tx_counter header)\<rparr> in
          if \<not> fragment_assembly_complete a then (True, r2) else complete_command env view tx a r2)"

text \<open>A command that was already executed is answered again and not executed again.\<close>

definition receive_command :: "remote_env \<Rightarrow> espnow_frame_header_t \<Rightarrow> EntityPayloadView \<Rightarrow> u32 \<Rightarrow> remote \<Rightarrow> bool \<times> remote" where
  "receive_command env header view tx r =
     (let i = unat (epv_entity_index view) in
      if i \<ge> length (rp_entity_records r) then remote_send_command_ack env 2 tx r
      else
        let done = er_last_completed_command_message_tx_base (rp_entity_records r ! i) in
        if \<not> counter_is_newer tx done then
          if tx = done then remote_send_command_ack env 0 tx r else (True, r)
        else accept_command_fragment env header view tx r)"

definition log_command :: "espnow_frame_header_t \<Rightarrow> nat \<Rightarrow> u8 \<Rightarrow> EntityPayloadView \<Rightarrow> remote \<Rightarrow> remote" where
  "log_command header len rssi view r =
     remote_queue_log ((log_entry False PKT_COMMAND (fh_leaf_mac header) len rssi (fh_tx_counter header))
       \<lparr>le_show_entity := True, le_entity_index := epv_entity_index view,
         le_entity_total := word_of_nat (length (rp_entity_records r)),
         le_parent_check := has_parent_check (fh_hop_count header)\<rparr>) r"

definition remote_handle_command ::
  "remote_env \<Rightarrow> espnow_frame_header_t \<Rightarrow> bytes \<Rightarrow> bytes option \<Rightarrow> u8 \<Rightarrow> remote \<Rightarrow> bool \<times> remote" where
  "remote_handle_command env header payload session_tag rssi r =
     (if \<not> rp_joined r then (False, r)
      else case open_session_packet env r header payload session_tag of
        None \<Rightarrow> (False, r)
      | Some plaintext \<Rightarrow>
          case parse_entity_payload plaintext of
            None \<Rightarrow> (False, r)
          | Some view \<Rightarrow>
              receive_command env header view (fragment_message_tx_base header view)
                (log_command header (length payload) rssi view r))"

section \<open>Configuration\<close>

definition ack_and_remember :: "remote_env \<Rightarrow> u32 \<Rightarrow> u8 \<Rightarrow> u8 \<Rightarrow> remote \<Rightarrow> bool \<times> remote" where
  "ack_and_remember env tx_counter command result r =
     send_config_ack env command result tx_counter
       (r\<lparr>rp_last_config_tx_counter := tx_counter, rp_last_config_command := command, rp_last_config_result := result,
          rp_last_config_valid := True\<rparr>)"

text \<open>Acknowledge, and act only when the acknowledgement went out.\<close>

definition ack_then :: "remote_env \<Rightarrow> u32 \<Rightarrow> u8 \<Rightarrow> (remote \<Rightarrow> remote) \<Rightarrow> remote \<Rightarrow> bool \<times> remote" where
  "ack_then env tx_counter command act r =
     (let (ok, r1) = ack_and_remember env tx_counter command 0 r in if ok then (True, act r1) else (False, r1))"

definition prefer_parent :: "remote_env \<Rightarrow> u8 \<Rightarrow> mac \<Rightarrow> remote \<Rightarrow> remote" where
  "prefer_parent env flags preferred r =
     (let parents = (if flags AND 1 \<noteq> 0 then [] else rp_preferred_parents r)
      in (start_route_recovery_cycle env (r\<lparr>rp_preferred_parents := preferred # remove1 preferred parents\<rparr>))
           \<lparr>rp_fast_rejoin := False, rp_discovery_current_channel_only := False\<rparr>)"

definition config_command :: "remote_env \<Rightarrow> u32 \<Rightarrow> u8 \<Rightarrow> bytes \<Rightarrow> remote \<Rightarrow> bool \<times> remote" where
  "config_command env tx_counter command args r =
     (let invalid = ack_and_remember env tx_counter command 3 r in
      if command = 1 then
        if args \<noteq> [] then invalid else ack_then env tx_counter command (rp_event Reboot) r
      else if command = 2 \<or> command = 3 then ack_and_remember env tx_counter command 2 r
      else if command = 4 then
        if length args \<noteq> 4 then invalid
        else
          let interval = le_word args :: u32 in
          if interval < 5 \<or> interval > 3600 then invalid
          else ack_then env tx_counter command (\<lambda>r1. r1\<lparr>rp_heartbeat_interval := ucast interval,
                 rp_heartbeat_due_ms := rn_now env + interval * 1000\<rparr>) r
      else if command = 5 then
        if args \<noteq> [] then invalid else ack_then env tx_counter command (start_config_full_rediscovery env) r
      else if command = 6 then
        if length args \<noteq> 7 then invalid
        else if hd args AND NOT 1 \<noteq> 0 then invalid
        else ack_then env tx_counter command (prefer_parent env (hd args) (tl args)) r
      else if command = 7 then
        if length args \<noteq> 1 \<or> hd args > 1 then invalid
        else ack_then env tx_counter command (set_relay_enabled_runtime (hd args \<noteq> 0)) r
      else ack_and_remember env tx_counter command 2 r)"

definition handle_config :: "remote_env \<Rightarrow> espnow_frame_header_t \<Rightarrow> bytes \<Rightarrow> bytes option \<Rightarrow> remote \<Rightarrow> bool \<times> remote" where
  "handle_config env header payload session_tag r =
     (if \<not> rp_joined r then (False, r)
      else case open_session_packet env r header payload session_tag of
        None \<Rightarrow> (False, r)
      | Some plaintext \<Rightarrow>
          let tx_counter = fh_tx_counter header in
          if rp_last_config_valid r \<and> tx_counter = rp_last_config_tx_counter r
          then send_config_ack env (rp_last_config_command r) (rp_last_config_result r) tx_counter r
          else if \<not> counter_is_newer tx_counter (rp_last_seen_counter r) then (False, r)
          else
            let r1 = r\<lparr>rp_last_seen_counter := tx_counter\<rparr> in
            if length plaintext < 3 then ack_and_remember env tx_counter 0 3 r1
            else
              let cfg = dec_config plaintext; args = drop 3 plaintext in
              if unat (cfg_payload_len cfg) \<noteq> length args then ack_and_remember env tx_counter (cfg_command cfg) 3 r1
              else if \<not> rp_normal r1 then ack_and_remember env tx_counter (cfg_command cfg) 4 r1
              else config_command env tx_counter (cfg_command cfg) args r1)"

section \<open>Schema requests and deauthentication\<close>

definition remote_handle_schema_request ::
  "remote_env \<Rightarrow> espnow_frame_header_t \<Rightarrow> bytes \<Rightarrow> bytes option \<Rightarrow> remote \<Rightarrow> bool \<times> remote" where
  "remote_handle_schema_request env header payload session_tag r =
     (if \<not> rp_joined r \<or> \<not> counter_is_newer (fh_tx_counter header) (rp_last_seen_counter r) then (False, r)
      else case open_session_packet env r header payload session_tag of
        None \<Rightarrow> (False, r)
      | Some plaintext \<Rightarrow>
          if length plaintext \<noteq> 2 then (False, r)
          else
            let request = dec_schema_request plaintext;
                r1 = r\<lparr>rp_last_seen_counter := fh_tx_counter header, rp_state_push_enabled := False,
                       rp_last_heartbeat_tx_ms := 0, rp_heartbeat_due_ms := 0, rp_last_successful_state_ms := 0,
                       rp_last_successful_heartbeat_ms := 0\<rparr>;
                r2 = remote_queue_log ((log_entry False PKT_SCHEMA_REQUEST (fh_leaf_mac header) 0 0 (fh_tx_counter header))
                  \<lparr>le_show_entity := True, le_entity_index := sreq_descriptor_index request,
                    le_entity_total := word_of_nat (length (rp_entity_records r1)),
                    le_parent_check := has_parent_check (fh_hop_count header)\<rparr>) r1
            in if sreq_descriptor_type request = ESPNOW_DESCRIPTOR_TYPE_IDENTITY then
                 if sreq_descriptor_index request = 0 then send_identity_descriptor env r2 else (False, r2)
               else if sreq_descriptor_type request = ESPNOW_DESCRIPTOR_TYPE_ENTITY
               then send_schema_push env (sreq_descriptor_index request) r2
               else (False, r2))"

text \<open>A DEAUTH that matches no outstanding request is logged and obeyed all the same.\<close>

definition remote_handle_deauth :: "remote_env \<Rightarrow> espnow_frame_header_t \<Rightarrow> bytes \<Rightarrow> remote \<Rightarrow> bool \<times> remote" where
  "remote_handle_deauth env header payload r =
     (if \<not> should_handle_locally header r then (False, r)
      else if length payload \<noteq> 10 then (False, r)
      else
        let have_route = rp_parent_valid r \<and> dc_valid (rp_best_parent r);
            r1 = fresh_remote_nonce env ((clear_session_state env False True r)\<lparr>rp_discovering := True,
                   rp_sweep_complete := True, rp_fast_rejoin := False,
                   rp_discovery_resume_normal_after_success := False, rp_discovery_current_channel_only := True\<rparr>);
            (sent, r2) = (if have_route then send_join env r1 else (False, r1))
        in if sent then (True, remote_queue_state_log JOINING ''State: JOINING'' (r2\<lparr>rp_state_name := ''JOINING''\<rparr>))
           else (True, start_discovery_cycle env False r2))"

section \<open>File transfers\<close>

definition remote_handle_file_transfer ::
  "remote_env \<Rightarrow> espnow_frame_header_t \<Rightarrow> bytes \<Rightarrow> bytes option \<Rightarrow> remote \<Rightarrow> bool \<times> remote" where
  "remote_handle_file_transfer env header payload session_tag r =
     (if fh_leaf_mac header \<noteq> rp_leaf_mac r then (False, r)
      else if \<not> rp_joined r then (False, r)
      else case open_session_packet env r header payload session_tag of
        None \<Rightarrow> (False, r)
      | Some plaintext \<Rightarrow>
          let r1 = r\<lparr>rp_ota_last_activity_ms := rn_now env\<rparr>;
              fr = rp_file_receiver r1;
              fr1 = (if plaintext \<noteq> [] \<and> hd plaintext = 0 then set_announce_tx_counter (fh_tx_counter header) fr else fr);
              fr2 = (if plaintext \<noteq> [] \<and> hd plaintext = 3 then set_blast_complete_tx_counter (fh_tx_counter header) fr1 else fr1);
              (ok, fr3) = handle_file_transfer (receiver_env env r1) plaintext fr2
          in (ok, put_receiver env fr3 r1))"

definition remote_handle_file_data ::
  "remote_env \<Rightarrow> espnow_frame_header_t \<Rightarrow> bytes \<Rightarrow> bytes option \<Rightarrow> remote \<Rightarrow> bool \<times> remote" where
  "remote_handle_file_data env header payload session_tag r =
     (if fh_leaf_mac header \<noteq> rp_leaf_mac r then (False, r)
      else if \<not> rp_joined r then (False, r)
      else case open_session_packet env r header payload session_tag of
        None \<Rightarrow> (False, r)
      | Some plaintext \<Rightarrow>
          let r1 = r\<lparr>rp_ota_last_activity_ms := rn_now env\<rparr>;
              (ok, fr) = handle_file_data (receiver_env env r1) plaintext (rp_file_receiver r1)
          in (ok, put_receiver env fr r1))"

section \<open>Relaying\<close>

definition note_relay :: "mac \<Rightarrow> remote \<Rightarrow> remote" where
  "note_relay leaf_mac r =
     (case find_route leaf_mac r of
        None \<Rightarrow> r
      | Some route \<Rightarrow>
          if rt_has_logged_providing_relay route then r
          else remote_queue_state_log PROVIDING_RELAY (''Now Providing Relay for '' @ mac_display leaf_mac)
                 (r\<lparr>rp_routes := update_route leaf_mac (\<lambda>rt. rt\<lparr>rt_has_logged_providing_relay := True\<rparr>) (rp_routes r)\<rparr>))"

definition handle_upstream ::
  "remote_env \<Rightarrow> mac \<Rightarrow> espnow_frame_header_t \<Rightarrow> bytes \<Rightarrow> bytes option \<Rightarrow> remote \<Rightarrow> bool \<times> remote" where
  "handle_upstream env sender_mac header payload session_tag r =
     (if \<not> rp_parent_valid r then (False, r)
      else
        let r1 = snd (refresh_route env (fh_leaf_mac header) sender_mac r);
            ty = packet_type_of (fh_packet_type header);
            r2 = (if ty = Some PKT_JOIN \<or> ty = Some PKT_HEARTBEAT then note_relay (fh_leaf_mac header) r1 else r1)
        in forward_packet env header payload session_tag r2)"

definition handle_downstream :: "remote_env \<Rightarrow> espnow_frame_header_t \<Rightarrow> bytes \<Rightarrow> bytes option \<Rightarrow> remote \<Rightarrow> bool \<times> remote" where
  "handle_downstream env header payload session_tag r =
     (let ty = packet_type_of (fh_packet_type header) in
      if should_handle_locally header r then
        if (ty = Some PKT_FILE_TRANSFER \<or> ty = Some PKT_FILE_DATA) \<and> \<not> rp_ota_over_espnow r then (False, r)
        else if ty = Some PKT_CONFIG then handle_config env header payload session_tag r
        else if ty = Some PKT_FILE_TRANSFER then remote_handle_file_transfer env header payload session_tag r
        else if ty = Some PKT_FILE_DATA then remote_handle_file_data env header payload session_tag r
        else (False, r)
      else forward_packet env header payload session_tag r)"

section \<open>The dispatcher\<close>

text \<open>The running average of the parent's signal strength: integer division that truncates towards zero.\<close>

definition rssi_average :: "u8 \<Rightarrow> u8 \<Rightarrow> u8" where
  "rssi_average rssi ema = (if ema = 0x81 then rssi else word_of_int ((sint rssi + 9 * sint ema) sdiv 10))"

definition note_parent_rssi :: "mac \<Rightarrow> u8 \<Rightarrow> remote \<Rightarrow> remote" where
  "note_parent_rssi sender_mac rssi r =
     (if rp_parent_valid r \<and> sender_mac = rp_parent_mac r
      then r\<lparr>rp_parent_link_rssi_ema := rssi_average rssi (rp_parent_link_rssi_ema r)\<rparr> else r)"

definition note_hops :: "espnow_frame_header_t \<Rightarrow> remote \<Rightarrow> remote" where
  "note_hops header r =
     (let observed_hops = ESPNOW_HOPS_COUNT (fh_hop_count header) in
      if fh_leaf_mac header = rp_leaf_mac r \<and> ESPNOW_HOPS_IS_UPSTREAM (fh_hop_count header) \<and>
         observed_hops < rp_hops_to_bridge r
      then r\<lparr>rp_hops_to_bridge := observed_hops\<rparr> else r)"

text \<open>
  The log of a DISCOVER\_ANNOUNCE reads its hop count before its length is checked; bytes behind a
  short payload are zero in the model.
\<close>

definition log_received ::
  "remote_env \<Rightarrow> mac \<Rightarrow> espnow_packet_type_t \<Rightarrow> espnow_frame_header_t \<Rightarrow> bytes \<Rightarrow> nat \<Rightarrow> u8 \<Rightarrow> remote \<Rightarrow> remote" where
  "log_received env sender_mac ty header payload len rssi r =
     (let pc = has_parent_check (fh_hop_count header) in
      if ty = PKT_DISCOVER_ANNOUNCE then
        let (ch, r1) = esp_wifi_get_channel env r in
        remote_queue_log ((log_entry False ty sender_mac len rssi 0)\<lparr>le_show_channel := True,
          le_channel := (case ch of None \<Rightarrow> 0 | Some c \<Rightarrow> c), le_rtt_ms := 1,
          le_allowed := ann_hops_to_bridge (dec_discover_announce (c_array 43 payload)),
          le_retry_count := ucast (fh_tx_counter header), le_pkt_uid := (if pc then 1 else 0)\<rparr>) r1
      else if ty = PKT_COMMAND \<or> ty = PKT_SCHEMA_REQUEST \<or> ty = PKT_SCHEMA_PUSH \<or> ty = PKT_ACK \<or> ty = PKT_JOIN_ACK \<or>
              (ty = PKT_DISCOVER \<and> \<not> rp_relay_enabled r) then r
      else remote_queue_log (shifted_log (fh_tx_counter header) pc (log_entry False ty sender_mac len rssi 0)) r)"

definition handle_local ::
  "remote_env \<Rightarrow> mac \<Rightarrow> espnow_packet_type_t \<Rightarrow> espnow_frame_header_t \<Rightarrow> bytes \<Rightarrow> bytes option \<Rightarrow> u8 \<Rightarrow> remote \<Rightarrow> bool \<times> remote" where
  "handle_local env sender_mac ty header payload session_tag rssi r =
     (if ty = PKT_DISCOVER then remote_handle_discover env sender_mac header payload r
      else if ty = PKT_DISCOVER_ANNOUNCE then handle_discover_announce env sender_mac payload rssi r
      else if ty = PKT_JOIN_ACK then handle_join_ack env header payload r
      else if ty = PKT_ACK then remote_handle_ack env header payload session_tag r
      else if ty = PKT_COMMAND then remote_handle_command env header payload session_tag rssi r
      else if ty = PKT_CONFIG then handle_config env header payload session_tag r
      else if ty = PKT_SCHEMA_REQUEST then remote_handle_schema_request env header payload session_tag r
      else if ty = PKT_DEAUTH then remote_handle_deauth env header payload r
      else if ty = PKT_FILE_TRANSFER then remote_handle_file_transfer env header payload session_tag r
      else if ty = PKT_FILE_DATA then remote_handle_file_data env header payload session_tag r
      else (False, r))"

definition dispatch_frame ::
  "remote_env \<Rightarrow> mac \<Rightarrow> espnow_packet_type_t \<Rightarrow> espnow_frame_header_t \<Rightarrow> bytes \<Rightarrow> bytes option \<Rightarrow> nat \<Rightarrow> u8 \<Rightarrow> remote \<Rightarrow> bool \<times> remote" where
  "dispatch_frame env sender_mac ty header payload session_tag len rssi r =
     (if should_handle_locally header r then
        let r1 = log_received env sender_mac ty header payload len rssi (note_hops header r) in
        if (ty = PKT_FILE_TRANSFER \<or> ty = PKT_FILE_DATA) \<and> \<not> rp_ota_over_espnow r1 then (False, r1)
        else handle_local env sender_mac ty header payload session_tag rssi r1
      else if \<not> rp_can_relay r then (False, r)
      else if ESPNOW_HOPS_IS_UPSTREAM (fh_hop_count header) then handle_upstream env sender_mac header payload session_tag r
      else handle_downstream env header payload session_tag r)"

definition remote_on_espnow_frame :: "remote_env \<Rightarrow> mac \<Rightarrow> bytes \<Rightarrow> u8 \<Rightarrow> remote \<Rightarrow> bool \<times> remote" where
  "remote_on_espnow_frame env sender_mac frame rssi r =
     (case remote_parse_frame frame of
        None \<Rightarrow> (False, r)
      | Some (header, payload, session_tag, parent_mac) \<Rightarrow>
          if \<not> validate_psk env r header payload then (False, r)
          else if ESPNOW_HOPS_COUNT (fh_hop_count header) \<ge> rp_max_hops r then (False, r)
          else if has_parent_check (fh_hop_count header) \<and> \<not> espnow_is_parent_mac_all_zeros parent_mac \<and>
                  parent_mac \<noteq> rp_leaf_mac r then (False, r)
          else case packet_type_of (fh_packet_type header) of
            None \<Rightarrow> (False, r)
          | Some ty \<Rightarrow>
              let r1 = (if has_parent_check (fh_hop_count header) then r\<lparr>rp_last_parent_mac := parent_mac\<rparr> else r);
                  r2 = note_parent_rssi sender_mac rssi r1
              in if is_encrypted_packet ty \<and> length frame > unat (rp_session_max_payload r2) then (False, r2)
                 else dispatch_frame env sender_mac ty header payload session_tag (length frame) rssi r2)"

end
