(* ===== verification/Remote_Loop.thy ===== *)
theory Remote_Loop
  imports Remote_Handlers
begin

unbundle bit_operations_syntax

text \<open>
  \<^verbatim>\<open>RemoteProtocol::loop\<close>, cut into its stages.  A stage answers \<open>Inr\<close> with the state when the loop goes
  on and \<open>Inl\<close> when it returns.  The two readings of \<^verbatim>\<open>millis()\<close> are one.
\<close>

type_synonym stage = "remote_env \<Rightarrow> remote \<Rightarrow> remote + remote"

fun run_stages :: "stage list \<Rightarrow> remote_env \<Rightarrow> remote \<Rightarrow> remote" where
  "run_stages [] env r = r"
| "run_stages (f # fs) env r = (case f env r of Inl r1 \<Rightarrow> r1 | Inr r1 \<Rightarrow> run_stages fs env r1)"

section \<open>Housekeeping\<close>

definition receiver_stage :: "remote_env \<Rightarrow> remote \<Rightarrow> remote" where
  "receiver_stage env r =
     (let r1 = put_receiver env (recv_loop (receiver_env env r) (rp_file_receiver r)) r in
      if is_receiving r1 then
        if rp_ota_last_activity_ms r1 = 0 then r1\<lparr>rp_ota_last_activity_ms := rn_now env\<rparr>
        else if elapsed_ms_since (rn_now env) (rp_ota_last_activity_ms r1) \<ge> 30000
        then (abort_receiver env 2 True r1)\<lparr>rp_ota_last_activity_ms := 0\<rparr>
        else r1
      else r1\<lparr>rp_ota_last_activity_ms := 0\<rparr>)"

definition housekeeping :: "remote_env \<Rightarrow> remote \<Rightarrow> remote" where
  "housekeeping env r =
     flush_pending_discover_announce env (receiver_stage env
       (prune_pending_command_fragments (rn_now env) (prune_pending_discovers (rn_now env) (prune_routes (rn_now env) r))))"

section \<open>Discovery\<close>

definition initial_stage :: stage where
  "initial_stage env r =
     (if rp_initial_discovery_pending r
      then Inl (start_discovery_cycle env False (r\<lparr>rp_initial_discovery_pending := False\<rparr>)) else Inr r)"

definition wifi_stage :: stage where
  "wifi_stage env r =
     (if \<not> rp_wifi_waiting r then Inr r
      else if wifi_connected env then Inl (start_discovery_cycle env True r)
      else if rn_now env < rp_wifi_wait_deadline_ms r then Inl r
      else Inl (start_discovery_cycle env True r))"

definition tx_queue_clear :: "remote \<Rightarrow> bool" where
  "tx_queue_clear r \<longleftrightarrow> \<not> rp_waiting_for_state_ack r \<and> rp_consecutive_send_failures r = 0 \<and> \<not> rp_discovering r"

text \<open>A refresh of the topology when it is due, the timer being started on the way.\<close>

definition refresh_topology :: "bool \<Rightarrow> stage" where
  "refresh_topology wanted env r =
     (if \<not> wanted then Inr r
      else
        let r1 = (if rp_topology_refresh_due_ms r = 0 then r\<lparr>rp_topology_refresh_due_ms := rn_now env + 120000\<rparr> else r) in
        if rn_now env \<ge> rp_topology_refresh_due_ms r1
        then Inl (start_route_recovery_cycle env (r1\<lparr>rp_topology_refresh_due_ms := rn_now env + 120000\<rparr>)) else Inr r1)"

text \<open>The floor is -85 dBm.\<close>

definition weak_parent_stage :: stage where
  "weak_parent_stage env r =
     refresh_topology (rp_normal r \<and> tx_queue_clear r \<and> sint (rp_parent_link_rssi_ema r) < -85) env r"

definition preferred_parent_stage :: stage where
  "preferred_parent_stage env r =
     refresh_topology (rp_normal r \<and> tx_queue_clear r \<and> rp_preferred_parents r \<noteq> []) env r"

definition resume_stage :: stage where
  "resume_stage env r =
     (if rp_discovering r \<and> rp_sweep_complete r \<and> dc_valid (rp_best_parent r) \<and> rp_discovery_resume_normal_after_success r
      then Inl (snd (send_heartbeat env (adopt_best_parent_candidate True r))) else Inr r)"

definition join_due :: "remote_env \<Rightarrow> u32 \<Rightarrow> remote \<Rightarrow> bool" where
  "join_due env jitter r \<longleftrightarrow> rp_join_retry_count r < ESPNOW_MAX_RETRIES \<and>
     (\<not> rp_join_in_flight r \<or> rn_now env - rp_last_join_attempt_ms r \<ge> retry_backoff_ms (rp_join_retry_count r) + jitter)"

definition attempt_join :: "remote_env \<Rightarrow> u32 \<Rightarrow> remote \<Rightarrow> bool \<times> remote" where
  "attempt_join env jitter r =
     (let timed_out = rp_join_in_flight r \<and>
            rn_now env - rp_last_join_attempt_ms r \<ge> retry_backoff_ms (rp_join_retry_count r) + jitter
      in send_join env (refresh_can_relay (r\<lparr>rp_last_known_channel := dc_channel (rp_best_parent r),
           rp_join_in_flight := (if timed_out then False else rp_join_in_flight r),
           rp_parent_mac := dc_next_hop_mac (rp_best_parent r), rp_parent_valid := True, rp_hop_count := 0,
           rp_hops_to_bridge := dc_hops_to_bridge (rp_best_parent r) + 1\<rparr>)))"

definition join_stage_due :: "u32 \<Rightarrow> stage" where
  "join_stage_due jitter env r =
     (if rp_discovering r \<and> \<not> rp_discovery_resume_normal_after_success r \<and> rp_sweep_complete r \<and>
         dc_valid (rp_best_parent r) \<and> \<not> rp_joined r \<and>
         (rp_join_delay_until_ms r = 0 \<or> rn_now env \<ge> rp_join_delay_until_ms r) \<and> join_due env jitter r
      then
        let (sent, r1) = attempt_join env jitter r
        in if sent then Inl (remote_queue_state_log JOINING ''State: JOINING'' (r1\<lparr>rp_state_name := ''JOINING''\<rparr>)) else Inr r1
      else Inr r)"

definition sweep_stage :: stage where
  "sweep_stage env r =
     (if rp_discovering r \<and> \<not> rp_sweep_complete r \<and> rn_now env \<ge> rp_discover_due_ms r then
        Inl (if dc_valid (rp_best_parent r) then r\<lparr>rp_sweep_complete := True\<rparr> else snd (send_discover env r))
      else Inr r)"

definition join_exhausted_stage :: stage where
  "join_exhausted_stage env r =
     Inr (if rp_join_in_flight r \<and> rp_join_retry_count r \<ge> ESPNOW_MAX_RETRIES \<and> \<not> rp_joined r
          then (start_discovery_cycle env False (r\<lparr>rp_join_in_flight := False, rp_fast_rejoin := False\<rparr>))
                 \<lparr>rp_discover_due_ms := rn_now env + 1000\<rparr>
          else r)"

section \<open>A joined node\<close>

definition joined_guard :: stage where
  "joined_guard env r = (if rp_joined r then Inr r else Inl r)"

definition normal_timeout_stage :: stage where
  "normal_timeout_stage env r =
     (if \<not> rp_normal r \<and> rp_joined_started_ms r > 0 \<and> rn_now env - rp_joined_started_ms r \<ge> 30000
      then Inl ((start_discovery_cycle env False ((clear_session_state env False False r)\<lparr>rp_fast_rejoin := False\<rparr>))
                  \<lparr>rp_discover_due_ms := rn_now env + 1000\<rparr>)
      else Inr r)"

definition stall_stage :: stage where
  "stall_stage env r =
     (if rp_consecutive_send_failures r \<ge> ESPNOW_MAX_RETRIES then Inl (rejoin_due_to_transmit_stall env False r)
      else if rp_waiting_for_state_ack r \<and> rp_last_successful_state_ms r > 0 \<and>
              elapsed_ms_since (rn_now env) (rp_last_successful_state_ms r) \<ge> 30000
      then Inl (rejoin_due_to_transmit_stall env False r)
      else if rp_last_successful_outbound_ms r > 0 \<and>
              elapsed_ms_since (rn_now env) (rp_last_successful_outbound_ms r) \<ge>
                max (ucast (rp_heartbeat_interval r) * 4000) 120000
      then Inl (rejoin_due_to_transmit_stall env True r)
      else Inr r)"

definition state_timed_out :: "remote_env \<Rightarrow> remote \<Rightarrow> remote" where
  "state_timed_out env r =
     (let i = unat (rp_pending_state_field_index r) in
      start_route_recovery_cycle env (r\<lparr>rp_waiting_for_state_ack := False, rp_state_retry_count := 0,
        rp_entity_records := (if i < length (rp_entity_records r)
          then (rp_entity_records r)[i := (rp_entity_records r ! i)\<lparr>er_dirty := True\<rparr>] else rp_entity_records r)\<rparr>))"

definition state_retry_stage :: stage where
  "state_retry_stage env r =
     (if \<not> rp_waiting_for_state_ack r then Inr r
      else if rp_state_retry_count r < ESPNOW_MAX_RETRIES then
        let (random, r1) = remote_random env r in
        if rn_now env - rp_last_state_tx_ms r1 \<ge>
             retry_backoff_ms (rp_state_retry_count r1) + random mod (ESPNOW_RETRY_JITTER_MS * 2 + 1) then
          let (sent, r2) = send_state env (rp_pending_state_field_index r1) (rp_pending_state_value r1) False (rp_state_retry_count r1) r1
          in Inr (if sent then r2\<lparr>rp_state_retry_count := rp_state_retry_count r2 + 1\<rparr>
                  else r2\<lparr>rp_last_state_tx_ms := rn_now env\<rparr>)
        else Inr r1
      else Inl (state_timed_out env r))"

definition push_guard :: stage where
  "push_guard env r = (if rp_state_push_enabled r then Inr r else Inl r)"

definition heartbeat_stage :: stage where
  "heartbeat_stage env r =
     (if \<not> rp_normal r then Inr r
      else
        let r1 = (if rp_heartbeat_due_ms r = 0
                  then r\<lparr>rp_heartbeat_due_ms := rn_now env + ucast (rp_heartbeat_interval r) * 1000\<rparr> else r) in
        if rn_now env \<ge> rp_heartbeat_due_ms r1 then Inl (snd (send_heartbeat env r1)) else Inr r1)"

text \<open>The first dirty entity is sent, unless an answer is outstanding.\<close>

definition dirty_stage :: stage where
  "dirty_stage env r =
     Inr (if rp_waiting_for_state_ack r then r
          else case find er_dirty (rp_entity_records r) of
            None \<Rightarrow> r
          | Some rec \<Rightarrow>
              let (sent, r1) = send_state env (es_entity_index (er_schema rec)) (er_current_value rec) True 0 r
              in if sent then r1\<lparr>rp_waiting_for_state_ack := True\<rparr> else r1)"

section \<open>The loop\<close>

definition remote_loop :: "remote_env \<Rightarrow> remote \<Rightarrow> remote" where
  "remote_loop env r =
     (let (random, r1) = remote_random env r;
          jitter = random mod (ESPNOW_RETRY_JITTER_MS * 2 + 1)
      in run_stages [initial_stage, wifi_stage, weak_parent_stage, preferred_parent_stage, resume_stage,
           join_stage_due jitter, sweep_stage, join_exhausted_stage, joined_guard, normal_timeout_stage, stall_stage,
           state_retry_stage, push_guard, heartbeat_stage, dirty_stage] env (housekeeping env r1))"

end
