(* ===== verification/Remote_Inv.thy ===== *)
theory Remote_Inv
  imports Remote_Loop File_Receiver_Laws
begin

unbundle bit_operations_syntax

text \<open>
  The invariant of a remote node.  \<open>remote_ok\<close> is about the data: the packet log is a ring, the queue
  of announcements and the table of outstanding requests stay inside their arrays, the reassembly map
  is ordered and bounded, no route leads to or through the node itself, the arrays have their widths,
  the counters stay in the ranges that index the tables, and the file receiver is in a state it can
  reach by itself.  \<open>flags_ok\<close> is about the modes: only a joined node is normal, and only a normal
  node with a parent relays.
\<close>

definition remote_log_ok :: "remote \<Rightarrow> bool" where
  "remote_log_ok r \<longleftrightarrow> length (rp_log_queue r) = PACKET_LOG_SIZE \<and> rp_log_count r \<le> PACKET_LOG_SIZE \<and>
     rp_log_tail r < PACKET_LOG_SIZE \<and> rp_log_head r = (rp_log_tail r + rp_log_count r) mod PACKET_LOG_SIZE"

definition command_assembly_ok :: "espnow_fragment_assembly_t \<Rightarrow> bool" where
  "command_assembly_ok a \<longleftrightarrow> (fa_active a \<longrightarrow>
     length (fa_received a) = unat (fa_fragment_count a) \<and> length (fa_lengths a) = unat (fa_fragment_count a))"

definition command_assemblies_ok :: "(u8, espnow_fragment_assembly_t) omap \<Rightarrow> bool" where
  "command_assemblies_ok m \<longleftrightarrow> omap_ok m \<and> length m \<le> ESPNOW_MAX_PENDING_FRAGMENT_ASSEMBLIES \<and>
     (\<forall>a\<in>snd ` set m. command_assembly_ok a)"

definition routes_ok :: "mac \<Rightarrow> RemoteRouteEntry list \<Rightarrow> bool" where
  "routes_ok self routes \<longleftrightarrow> distinct (map rt_leaf_mac routes) \<and>
     (\<forall>t\<in>set routes. rt_leaf_mac t \<noteq> self \<and> rt_next_hop_mac t \<noteq> self \<and> length (rt_leaf_mac t) = 6 \<and>
        length (rt_next_hop_mac t) = 6)"

definition remote_ok :: "remote \<Rightarrow> bool" where
  "remote_ok r \<longleftrightarrow> remote_log_ok r \<and>
     length (rp_announce_queue r) = ANNOUNCE_QUEUE_SIZE \<and> rp_announce_queue_head r < ANNOUNCE_QUEUE_SIZE \<and>
     rp_announce_queue_tail r < ANNOUNCE_QUEUE_SIZE \<and>
     length (rp_outstanding_requests r) = 8 \<and> rp_outstanding_count r \<le> 8 \<and>
     command_assemblies_ok (rp_pending_command_assemblies r) \<and> routes_ok (rp_leaf_mac r) (rp_routes r) \<and>
     length (rp_leaf_mac r) = 6 \<and> length (rp_parent_mac r) = 6 \<and> length (dc_next_hop_mac (rp_best_parent r)) = 6 \<and>
     length (rp_remote_nonce r) = 16 \<and> length (rp_bridge_nonce r) = 16 \<and> length (rp_session_key r) = 32 \<and>
     rp_join_retry_count r \<le> 4 \<and> rp_state_retry_count r \<le> 4 \<and> rp_discover_phase r \<le> 4 \<and>
     rp_channel_index r \<le> 13 \<and> rp_wait_reject_count r \<le> 3 \<and> recv_reachable (rp_file_receiver r)"

definition mode_of :: "remote \<Rightarrow> bool \<times> bool \<times> bool \<times> u8 \<times> bool \<times> bool" where
  "mode_of r = (rp_relay_enabled r, rp_normal r, rp_parent_valid r, rp_hops_to_bridge r, rp_can_relay r, rp_joined r)"

definition flags_ok :: "remote \<Rightarrow> bool" where
  "flags_ok r \<longleftrightarrow> (rp_can_relay r \<longrightarrow>
       rp_relay_enabled r \<and> rp_normal r \<and> rp_parent_valid r \<and> rp_hops_to_bridge r \<noteq> 0xFF) \<and>
     (rp_normal r \<longrightarrow> rp_joined r)"

section \<open>Updates the invariant does not see\<close>

lemma remote_ok_irrelevant [simp]:
  "remote_ok (r\<lparr>rp_parent_valid := v_rp_parent_valid\<rparr>) = remote_ok r"
  "remote_ok (r\<lparr>rp_last_parent_mac := v_rp_last_parent_mac\<rparr>) = remote_ok r"
  "remote_ok (r\<lparr>rp_bridge_mac := v_rp_bridge_mac\<rparr>) = remote_ok r"
  "remote_ok (r\<lparr>rp_session_key_valid := v_rp_session_key_valid\<rparr>) = remote_ok r"
  "remote_ok (r\<lparr>rp_joined := v_rp_joined\<rparr>) = remote_ok r"
  "remote_ok (r\<lparr>rp_local_session_flags := v_rp_local_session_flags\<rparr>) = remote_ok r"
  "remote_ok (r\<lparr>rp_bridge_session_flags := v_rp_bridge_session_flags\<rparr>) = remote_ok r"
  "remote_ok (r\<lparr>rp_session_max_payload := v_rp_session_max_payload\<rparr>) = remote_ok r"
  "remote_ok (r\<lparr>rp_max_entity_fragment := v_rp_max_entity_fragment\<rparr>) = remote_ok r"
  "remote_ok (r\<lparr>rp_max_assembly_bytes := v_rp_max_assembly_bytes\<rparr>) = remote_ok r"
  "remote_ok (r\<lparr>rp_max_total_fragment_bytes := v_rp_max_total_fragment_bytes\<rparr>) = remote_ok r"
  "remote_ok (r\<lparr>rp_discovering := v_rp_discovering\<rparr>) = remote_ok r"
  "remote_ok (r\<lparr>rp_join_in_flight := v_rp_join_in_flight\<rparr>) = remote_ok r"
  "remote_ok (r\<lparr>rp_discover_announce_pending := v_rp_discover_announce_pending\<rparr>) = remote_ok r"
  "remote_ok (r\<lparr>rp_relay_enabled := v_rp_relay_enabled\<rparr>) = remote_ok r"
  "remote_ok (r\<lparr>rp_ota_over_espnow := v_rp_ota_over_espnow\<rparr>) = remote_ok r"
  "remote_ok (r\<lparr>rp_can_relay := v_rp_can_relay\<rparr>) = remote_ok r"
  "remote_ok (r\<lparr>rp_max_hops := v_rp_max_hops\<rparr>) = remote_ok r"
  "remote_ok (r\<lparr>rp_max_discover_pending := v_rp_max_discover_pending\<rparr>) = remote_ok r"
  "remote_ok (r\<lparr>rp_preferred_parents := v_rp_preferred_parents\<rparr>) = remote_ok r"
  "remote_ok (r\<lparr>rp_hop_count := v_rp_hop_count\<rparr>) = remote_ok r"
  "remote_ok (r\<lparr>rp_hops_to_bridge := v_rp_hops_to_bridge\<rparr>) = remote_ok r"
  "remote_ok (r\<lparr>rp_tx_counter := v_rp_tx_counter\<rparr>) = remote_ok r"
  "remote_ok (r\<lparr>rp_last_seen_counter := v_rp_last_seen_counter\<rparr>) = remote_ok r"
  "remote_ok (r\<lparr>rp_last_tx_ms := v_rp_last_tx_ms\<rparr>) = remote_ok r"
  "remote_ok (r\<lparr>rp_last_successful_outbound_ms := v_rp_last_successful_outbound_ms\<rparr>) = remote_ok r"
  "remote_ok (r\<lparr>rp_last_successful_state_ms := v_rp_last_successful_state_ms\<rparr>) = remote_ok r"
  "remote_ok (r\<lparr>rp_last_successful_heartbeat_ms := v_rp_last_successful_heartbeat_ms\<rparr>) = remote_ok r"
  "remote_ok (r\<lparr>rp_last_heartbeat_tx_ms := v_rp_last_heartbeat_tx_ms\<rparr>) = remote_ok r"
  "remote_ok (r\<lparr>rp_last_join_attempt_ms := v_rp_last_join_attempt_ms\<rparr>) = remote_ok r"
  "remote_ok (r\<lparr>rp_join_delay_until_ms := v_rp_join_delay_until_ms\<rparr>) = remote_ok r"
  "remote_ok (r\<lparr>rp_joined_started_ms := v_rp_joined_started_ms\<rparr>) = remote_ok r"
  "remote_ok (r\<lparr>rp_heartbeat_interval := v_rp_heartbeat_interval\<rparr>) = remote_ok r"
  "remote_ok (r\<lparr>rp_route_ttl_seconds := v_rp_route_ttl_seconds\<rparr>) = remote_ok r"
  "remote_ok (r\<lparr>rp_boot_epoch_ms := v_rp_boot_epoch_ms\<rparr>) = remote_ok r"
  "remote_ok (r\<lparr>rp_network_id := v_rp_network_id\<rparr>) = remote_ok r"
  "remote_ok (r\<lparr>rp_esphome_name := v_rp_esphome_name\<rparr>) = remote_ok r"
  "remote_ok (r\<lparr>rp_node_label := v_rp_node_label\<rparr>) = remote_ok r"
  "remote_ok (r\<lparr>rp_firmware_epoch := v_rp_firmware_epoch\<rparr>) = remote_ok r"
  "remote_ok (r\<lparr>rp_project_name := v_rp_project_name\<rparr>) = remote_ok r"
  "remote_ok (r\<lparr>rp_project_version := v_rp_project_version\<rparr>) = remote_ok r"
  "remote_ok (r\<lparr>rp_chip_model := v_rp_chip_model\<rparr>) = remote_ok r"
  "remote_ok (r\<lparr>rp_build_date := v_rp_build_date\<rparr>) = remote_ok r"
  "remote_ok (r\<lparr>rp_build_time := v_rp_build_time\<rparr>) = remote_ok r"
  "remote_ok (r\<lparr>rp_firmware_md5 := v_rp_firmware_md5\<rparr>) = remote_ok r"
  "remote_ok (r\<lparr>rp_entities := v_rp_entities\<rparr>) = remote_ok r"
  "remote_ok (r\<lparr>rp_pending_discovers := v_rp_pending_discovers\<rparr>) = remote_ok r"
  "remote_ok (r\<lparr>rp_send_fn := v_rp_send_fn\<rparr>) = remote_ok r"
  "remote_ok (r\<lparr>rp_command_fn := v_rp_command_fn\<rparr>) = remote_ok r"
  "remote_ok (r\<lparr>rp_state_name := v_rp_state_name\<rparr>) = remote_ok r"
  "remote_ok (r\<lparr>rp_heartbeat_due_ms := v_rp_heartbeat_due_ms\<rparr>) = remote_ok r"
  "remote_ok (r\<lparr>rp_discover_due_ms := v_rp_discover_due_ms\<rparr>) = remote_ok r"
  "remote_ok (r\<lparr>rp_state_push_enabled := v_rp_state_push_enabled\<rparr>) = remote_ok r"
  "remote_ok (r\<lparr>rp_normal := v_rp_normal\<rparr>) = remote_ok r"
  "remote_ok (r\<lparr>rp_waiting_for_state_ack := v_rp_waiting_for_state_ack\<rparr>) = remote_ok r"
  "remote_ok (r\<lparr>rp_discover_retry_count := v_rp_discover_retry_count\<rparr>) = remote_ok r"
  "remote_ok (r\<lparr>rp_consecutive_send_failures := v_rp_consecutive_send_failures\<rparr>) = remote_ok r"
  "remote_ok (r\<lparr>rp_last_state_tx_ms := v_rp_last_state_tx_ms\<rparr>) = remote_ok r"
  "remote_ok (r\<lparr>rp_last_state_rtt_ms := v_rp_last_state_rtt_ms\<rparr>) = remote_ok r"
  "remote_ok (r\<lparr>rp_pending_state_message_tx_base := v_rp_pending_state_message_tx_base\<rparr>) = remote_ok r"
  "remote_ok (r\<lparr>rp_last_config_tx_counter := v_rp_last_config_tx_counter\<rparr>) = remote_ok r"
  "remote_ok (r\<lparr>rp_last_config_command := v_rp_last_config_command\<rparr>) = remote_ok r"
  "remote_ok (r\<lparr>rp_last_config_result := v_rp_last_config_result\<rparr>) = remote_ok r"
  "remote_ok (r\<lparr>rp_last_config_valid := v_rp_last_config_valid\<rparr>) = remote_ok r"
  "remote_ok (r\<lparr>rp_pending_state_field_index := v_rp_pending_state_field_index\<rparr>) = remote_ok r"
  "remote_ok (r\<lparr>rp_pending_state_value := v_rp_pending_state_value\<rparr>) = remote_ok r"
  "remote_ok (r\<lparr>rp_pending_state_flags := v_rp_pending_state_flags\<rparr>) = remote_ok r"
  "remote_ok (r\<lparr>rp_pending_state_fragment_count := v_rp_pending_state_fragment_count\<rparr>) = remote_ok r"
  "remote_ok (r\<lparr>rp_pending_state_payload_len := v_rp_pending_state_payload_len\<rparr>) = remote_ok r"
  "remote_ok (r\<lparr>rp_last_known_channel := v_rp_last_known_channel\<rparr>) = remote_ok r"
  "remote_ok (r\<lparr>rp_sweep_complete := v_rp_sweep_complete\<rparr>) = remote_ok r"
  "remote_ok (r\<lparr>rp_fast_rejoin := v_rp_fast_rejoin\<rparr>) = remote_ok r"
  "remote_ok (r\<lparr>rp_discovery_resume_normal_after_success := v_rp_discovery_resume_normal_after_success\<rparr>) = remote_ok r"
  "remote_ok (r\<lparr>rp_discovery_current_channel_only := v_rp_discovery_current_channel_only\<rparr>) = remote_ok r"
  "remote_ok (r\<lparr>rp_wifi_waiting := v_rp_wifi_waiting\<rparr>) = remote_ok r"
  "remote_ok (r\<lparr>rp_wifi_wait_deadline_ms := v_rp_wifi_wait_deadline_ms\<rparr>) = remote_ok r"
  "remote_ok (r\<lparr>rp_discover_retry_pending := v_rp_discover_retry_pending\<rparr>) = remote_ok r"
  "remote_ok (r\<lparr>rp_initial_discovery_pending := v_rp_initial_discovery_pending\<rparr>) = remote_ok r"
  "remote_ok (r\<lparr>rp_parent_link_rssi_ema := v_rp_parent_link_rssi_ema\<rparr>) = remote_ok r"
  "remote_ok (r\<lparr>rp_topology_refresh_due_ms := v_rp_topology_refresh_due_ms\<rparr>) = remote_ok r"
  "remote_ok (r\<lparr>rp_ota_last_activity_ms := v_rp_ota_last_activity_ms\<rparr>) = remote_ok r"
  "remote_ok (r\<lparr>rp_entity_records := v_rp_entity_records\<rparr>) = remote_ok r"
  "remote_ok (r\<lparr>rp_pending_command_reserved_bytes := v_rp_pending_command_reserved_bytes\<rparr>) = remote_ok r"
  "remote_ok (r\<lparr>rp_pending_state := v_rp_pending_state\<rparr>) = remote_ok r"
  "remote_ok (r\<lparr>rp_pending_state_log_msg := v_rp_pending_state_log_msg\<rparr>) = remote_ok r"
  "remote_ok (r\<lparr>rp_crypto := v_rp_crypto\<rparr>) = remote_ok r"
  "remote_ok (r\<lparr>rp_events := v_rp_events\<rparr>) = remote_ok r"
  "remote_ok (r\<lparr>rp_calls := v_rp_calls\<rparr>) = remote_ok r"
  by (simp_all add: remote_ok_def remote_log_ok_def)

lemma flags_irrelevant [simp]:
  "mode_of (r\<lparr>rp_parent_mac := v_rp_parent_mac\<rparr>) = mode_of r"
  "mode_of (r\<lparr>rp_last_parent_mac := v_rp_last_parent_mac\<rparr>) = mode_of r"
  "mode_of (r\<lparr>rp_leaf_mac := v_rp_leaf_mac\<rparr>) = mode_of r"
  "mode_of (r\<lparr>rp_bridge_mac := v_rp_bridge_mac\<rparr>) = mode_of r"
  "mode_of (r\<lparr>rp_remote_nonce := v_rp_remote_nonce\<rparr>) = mode_of r"
  "mode_of (r\<lparr>rp_bridge_nonce := v_rp_bridge_nonce\<rparr>) = mode_of r"
  "mode_of (r\<lparr>rp_session_key := v_rp_session_key\<rparr>) = mode_of r"
  "mode_of (r\<lparr>rp_session_key_valid := v_rp_session_key_valid\<rparr>) = mode_of r"
  "mode_of (r\<lparr>rp_local_session_flags := v_rp_local_session_flags\<rparr>) = mode_of r"
  "mode_of (r\<lparr>rp_bridge_session_flags := v_rp_bridge_session_flags\<rparr>) = mode_of r"
  "mode_of (r\<lparr>rp_session_max_payload := v_rp_session_max_payload\<rparr>) = mode_of r"
  "mode_of (r\<lparr>rp_max_entity_fragment := v_rp_max_entity_fragment\<rparr>) = mode_of r"
  "mode_of (r\<lparr>rp_max_assembly_bytes := v_rp_max_assembly_bytes\<rparr>) = mode_of r"
  "mode_of (r\<lparr>rp_max_total_fragment_bytes := v_rp_max_total_fragment_bytes\<rparr>) = mode_of r"
  "mode_of (r\<lparr>rp_discovering := v_rp_discovering\<rparr>) = mode_of r"
  "mode_of (r\<lparr>rp_join_in_flight := v_rp_join_in_flight\<rparr>) = mode_of r"
  "mode_of (r\<lparr>rp_discover_announce_pending := v_rp_discover_announce_pending\<rparr>) = mode_of r"
  "mode_of (r\<lparr>rp_announce_queue_head := v_rp_announce_queue_head\<rparr>) = mode_of r"
  "mode_of (r\<lparr>rp_announce_queue_tail := v_rp_announce_queue_tail\<rparr>) = mode_of r"
  "mode_of (r\<lparr>rp_announce_queue := v_rp_announce_queue\<rparr>) = mode_of r"
  "mode_of (r\<lparr>rp_ota_over_espnow := v_rp_ota_over_espnow\<rparr>) = mode_of r"
  "mode_of (r\<lparr>rp_max_hops := v_rp_max_hops\<rparr>) = mode_of r"
  "mode_of (r\<lparr>rp_max_discover_pending := v_rp_max_discover_pending\<rparr>) = mode_of r"
  "mode_of (r\<lparr>rp_preferred_parents := v_rp_preferred_parents\<rparr>) = mode_of r"
  "mode_of (r\<lparr>rp_hop_count := v_rp_hop_count\<rparr>) = mode_of r"
  "mode_of (r\<lparr>rp_tx_counter := v_rp_tx_counter\<rparr>) = mode_of r"
  "mode_of (r\<lparr>rp_last_seen_counter := v_rp_last_seen_counter\<rparr>) = mode_of r"
  "mode_of (r\<lparr>rp_last_tx_ms := v_rp_last_tx_ms\<rparr>) = mode_of r"
  "mode_of (r\<lparr>rp_last_successful_outbound_ms := v_rp_last_successful_outbound_ms\<rparr>) = mode_of r"
  "mode_of (r\<lparr>rp_last_successful_state_ms := v_rp_last_successful_state_ms\<rparr>) = mode_of r"
  "mode_of (r\<lparr>rp_last_successful_heartbeat_ms := v_rp_last_successful_heartbeat_ms\<rparr>) = mode_of r"
  "mode_of (r\<lparr>rp_last_heartbeat_tx_ms := v_rp_last_heartbeat_tx_ms\<rparr>) = mode_of r"
  "mode_of (r\<lparr>rp_last_join_attempt_ms := v_rp_last_join_attempt_ms\<rparr>) = mode_of r"
  "mode_of (r\<lparr>rp_join_delay_until_ms := v_rp_join_delay_until_ms\<rparr>) = mode_of r"
  "mode_of (r\<lparr>rp_joined_started_ms := v_rp_joined_started_ms\<rparr>) = mode_of r"
  "mode_of (r\<lparr>rp_heartbeat_interval := v_rp_heartbeat_interval\<rparr>) = mode_of r"
  "mode_of (r\<lparr>rp_route_ttl_seconds := v_rp_route_ttl_seconds\<rparr>) = mode_of r"
  "mode_of (r\<lparr>rp_boot_epoch_ms := v_rp_boot_epoch_ms\<rparr>) = mode_of r"
  "mode_of (r\<lparr>rp_network_id := v_rp_network_id\<rparr>) = mode_of r"
  "mode_of (r\<lparr>rp_esphome_name := v_rp_esphome_name\<rparr>) = mode_of r"
  "mode_of (r\<lparr>rp_node_label := v_rp_node_label\<rparr>) = mode_of r"
  "mode_of (r\<lparr>rp_firmware_epoch := v_rp_firmware_epoch\<rparr>) = mode_of r"
  "mode_of (r\<lparr>rp_project_name := v_rp_project_name\<rparr>) = mode_of r"
  "mode_of (r\<lparr>rp_project_version := v_rp_project_version\<rparr>) = mode_of r"
  "mode_of (r\<lparr>rp_chip_model := v_rp_chip_model\<rparr>) = mode_of r"
  "mode_of (r\<lparr>rp_build_date := v_rp_build_date\<rparr>) = mode_of r"
  "mode_of (r\<lparr>rp_build_time := v_rp_build_time\<rparr>) = mode_of r"
  "mode_of (r\<lparr>rp_firmware_md5 := v_rp_firmware_md5\<rparr>) = mode_of r"
  "mode_of (r\<lparr>rp_entities := v_rp_entities\<rparr>) = mode_of r"
  "mode_of (r\<lparr>rp_outstanding_requests := v_rp_outstanding_requests\<rparr>) = mode_of r"
  "mode_of (r\<lparr>rp_outstanding_count := v_rp_outstanding_count\<rparr>) = mode_of r"
  "mode_of (r\<lparr>rp_routes := v_rp_routes\<rparr>) = mode_of r"
  "mode_of (r\<lparr>rp_pending_discovers := v_rp_pending_discovers\<rparr>) = mode_of r"
  "mode_of (r\<lparr>rp_best_parent := v_rp_best_parent\<rparr>) = mode_of r"
  "mode_of (r\<lparr>rp_send_fn := v_rp_send_fn\<rparr>) = mode_of r"
  "mode_of (r\<lparr>rp_command_fn := v_rp_command_fn\<rparr>) = mode_of r"
  "mode_of (r\<lparr>rp_file_receiver := v_rp_file_receiver\<rparr>) = mode_of r"
  "mode_of (r\<lparr>rp_state_name := v_rp_state_name\<rparr>) = mode_of r"
  "mode_of (r\<lparr>rp_heartbeat_due_ms := v_rp_heartbeat_due_ms\<rparr>) = mode_of r"
  "mode_of (r\<lparr>rp_discover_due_ms := v_rp_discover_due_ms\<rparr>) = mode_of r"
  "mode_of (r\<lparr>rp_state_push_enabled := v_rp_state_push_enabled\<rparr>) = mode_of r"
  "mode_of (r\<lparr>rp_waiting_for_state_ack := v_rp_waiting_for_state_ack\<rparr>) = mode_of r"
  "mode_of (r\<lparr>rp_discover_retry_count := v_rp_discover_retry_count\<rparr>) = mode_of r"
  "mode_of (r\<lparr>rp_join_retry_count := v_rp_join_retry_count\<rparr>) = mode_of r"
  "mode_of (r\<lparr>rp_wait_reject_count := v_rp_wait_reject_count\<rparr>) = mode_of r"
  "mode_of (r\<lparr>rp_state_retry_count := v_rp_state_retry_count\<rparr>) = mode_of r"
  "mode_of (r\<lparr>rp_consecutive_send_failures := v_rp_consecutive_send_failures\<rparr>) = mode_of r"
  "mode_of (r\<lparr>rp_last_state_tx_ms := v_rp_last_state_tx_ms\<rparr>) = mode_of r"
  "mode_of (r\<lparr>rp_last_state_rtt_ms := v_rp_last_state_rtt_ms\<rparr>) = mode_of r"
  "mode_of (r\<lparr>rp_pending_state_message_tx_base := v_rp_pending_state_message_tx_base\<rparr>) = mode_of r"
  "mode_of (r\<lparr>rp_last_config_tx_counter := v_rp_last_config_tx_counter\<rparr>) = mode_of r"
  "mode_of (r\<lparr>rp_last_config_command := v_rp_last_config_command\<rparr>) = mode_of r"
  "mode_of (r\<lparr>rp_last_config_result := v_rp_last_config_result\<rparr>) = mode_of r"
  "mode_of (r\<lparr>rp_last_config_valid := v_rp_last_config_valid\<rparr>) = mode_of r"
  "mode_of (r\<lparr>rp_pending_state_field_index := v_rp_pending_state_field_index\<rparr>) = mode_of r"
  "mode_of (r\<lparr>rp_pending_state_value := v_rp_pending_state_value\<rparr>) = mode_of r"
  "mode_of (r\<lparr>rp_pending_state_flags := v_rp_pending_state_flags\<rparr>) = mode_of r"
  "mode_of (r\<lparr>rp_pending_state_fragment_count := v_rp_pending_state_fragment_count\<rparr>) = mode_of r"
  "mode_of (r\<lparr>rp_pending_state_payload_len := v_rp_pending_state_payload_len\<rparr>) = mode_of r"
  "mode_of (r\<lparr>rp_channel_index := v_rp_channel_index\<rparr>) = mode_of r"
  "mode_of (r\<lparr>rp_last_known_channel := v_rp_last_known_channel\<rparr>) = mode_of r"
  "mode_of (r\<lparr>rp_sweep_complete := v_rp_sweep_complete\<rparr>) = mode_of r"
  "mode_of (r\<lparr>rp_fast_rejoin := v_rp_fast_rejoin\<rparr>) = mode_of r"
  "mode_of (r\<lparr>rp_discovery_resume_normal_after_success := v_rp_discovery_resume_normal_after_success\<rparr>) = mode_of r"
  "mode_of (r\<lparr>rp_discovery_current_channel_only := v_rp_discovery_current_channel_only\<rparr>) = mode_of r"
  "mode_of (r\<lparr>rp_wifi_waiting := v_rp_wifi_waiting\<rparr>) = mode_of r"
  "mode_of (r\<lparr>rp_wifi_wait_deadline_ms := v_rp_wifi_wait_deadline_ms\<rparr>) = mode_of r"
  "mode_of (r\<lparr>rp_discover_retry_pending := v_rp_discover_retry_pending\<rparr>) = mode_of r"
  "mode_of (r\<lparr>rp_discover_phase := v_rp_discover_phase\<rparr>) = mode_of r"
  "mode_of (r\<lparr>rp_initial_discovery_pending := v_rp_initial_discovery_pending\<rparr>) = mode_of r"
  "mode_of (r\<lparr>rp_parent_link_rssi_ema := v_rp_parent_link_rssi_ema\<rparr>) = mode_of r"
  "mode_of (r\<lparr>rp_topology_refresh_due_ms := v_rp_topology_refresh_due_ms\<rparr>) = mode_of r"
  "mode_of (r\<lparr>rp_ota_last_activity_ms := v_rp_ota_last_activity_ms\<rparr>) = mode_of r"
  "mode_of (r\<lparr>rp_entity_records := v_rp_entity_records\<rparr>) = mode_of r"
  "mode_of (r\<lparr>rp_pending_command_assemblies := v_rp_pending_command_assemblies\<rparr>) = mode_of r"
  "mode_of (r\<lparr>rp_pending_command_reserved_bytes := v_rp_pending_command_reserved_bytes\<rparr>) = mode_of r"
  "mode_of (r\<lparr>rp_log_queue := v_rp_log_queue\<rparr>) = mode_of r"
  "mode_of (r\<lparr>rp_log_head := v_rp_log_head\<rparr>) = mode_of r"
  "mode_of (r\<lparr>rp_log_tail := v_rp_log_tail\<rparr>) = mode_of r"
  "mode_of (r\<lparr>rp_log_count := v_rp_log_count\<rparr>) = mode_of r"
  "mode_of (r\<lparr>rp_pending_state := v_rp_pending_state\<rparr>) = mode_of r"
  "mode_of (r\<lparr>rp_pending_state_log_msg := v_rp_pending_state_log_msg\<rparr>) = mode_of r"
  "mode_of (r\<lparr>rp_crypto := v_rp_crypto\<rparr>) = mode_of r"
  "mode_of (r\<lparr>rp_events := v_rp_events\<rparr>) = mode_of r"
  "mode_of (r\<lparr>rp_calls := v_rp_calls\<rparr>) = mode_of r"
  by (simp_all add: mode_of_def)

lemma flags_ok_cong: "mode_of r' = mode_of r \<Longrightarrow> flags_ok r' = flags_ok r"
  by (simp add: mode_of_def flags_ok_def)

section \<open>Platform calls, the log and the table of requests\<close>

lemma ok_call [simp]: "remote_ok (rp_asked r) = remote_ok r" "mode_of (rp_asked r) = mode_of r"
  "remote_ok (rp_event ev r) = remote_ok r" "mode_of (rp_event ev r) = mode_of r"
  by (simp_all add: rp_asked_def rp_event_def)

lemma ok_call_send_fn [simp]: "remote_ok (snd (call_send_fn env m frame r)) = remote_ok r"
  "mode_of (snd (call_send_fn env m frame r)) = mode_of r"
  by (simp_all add: call_send_fn_def)

lemma ok_random [simp]: "remote_ok (snd (remote_random env r)) = remote_ok r" "mode_of (snd (remote_random env r)) = mode_of r"
  by (simp_all add: remote_random_def)

lemma ok_nonce: "remote_ok r \<Longrightarrow> remote_ok (fresh_remote_nonce env r)"
  by (simp add: fresh_remote_nonce_def) (simp add: remote_ok_def remote_log_ok_def)

lemma flags_nonce [simp]: "mode_of (fresh_remote_nonce env r) = mode_of r"
  by (simp add: fresh_remote_nonce_def)

lemma ok_get_channel [simp]: "remote_ok (snd (esp_wifi_get_channel env r)) = remote_ok r"
  "mode_of (snd (esp_wifi_get_channel env r)) = mode_of r"
  by (simp_all add: esp_wifi_get_channel_def)

lemma ok_set_channel [simp]: "remote_ok (snd (esp_wifi_set_channel env ch r)) = remote_ok r"
  "mode_of (snd (esp_wifi_set_channel env ch r)) = mode_of r"
  by (simp_all add: esp_wifi_set_channel_def)

lemma ok_wifi_channel [simp]: "remote_ok (set_wifi_channel_with_recovery env ch r) = remote_ok r"
  "mode_of (set_wifi_channel_with_recovery env ch r) = mode_of r"
  by (simp_all add: set_wifi_channel_with_recovery_def Let_def case_prod_beta)

lemma ok_current_channel [simp]: "remote_ok (snd (current_wifi_channel env r)) = remote_ok r"
  "mode_of (snd (current_wifi_channel env r)) = mode_of r"
  by (simp_all add: current_wifi_channel_def Let_def case_prod_beta split: option.split)

lemma remote_log_ok_queue: "remote_log_ok r \<Longrightarrow> remote_log_ok (remote_queue_log e r)"
  using mod_add_left_eq [of "rp_log_tail r + rp_log_count r" PACKET_LOG_SIZE 1]
  by (auto simp: remote_log_ok_def remote_queue_log_def)

lemma ok_queue_log: "remote_ok r \<Longrightarrow> remote_ok (remote_queue_log e r)"
  using remote_log_ok_queue [of r e] by (auto simp: remote_ok_def remote_queue_log_def)

lemma flags_queue_log [simp]: "mode_of (remote_queue_log e r) = mode_of r"
  by (simp add: remote_queue_log_def)

lemma ok_state_log [simp]: "remote_ok (remote_queue_state_log st msg r) = remote_ok r"
  "mode_of (remote_queue_state_log st msg r) = mode_of r"
  by (simp_all add: remote_queue_state_log_def)

lemma ok_outstanding: "remote_ok r \<Longrightarrow> remote_ok (update_outstanding_request env ty tx header payload r)"
  by (simp add: update_outstanding_request_def Let_def remote_ok_def remote_log_ok_def)

lemma flags_outstanding [simp]: "mode_of (update_outstanding_request env ty tx header payload r) = mode_of r"
  by (simp add: update_outstanding_request_def Let_def)

section \<open>Sending\<close>

lemma ok_log_sent: "remote_ok r \<Longrightarrow> remote_ok (log_sent_frame env m ty h tx len r)"
  by (simp add: log_sent_frame_def Let_def case_prod_beta ok_queue_log)

lemma flags_log_sent [simp]: "mode_of (log_sent_frame env m ty h tx len r) = mode_of r"
  by (simp add: log_sent_frame_def Let_def case_prod_beta)

lemma ok_send_frame: "remote_ok r \<Longrightarrow> remote_ok (snd (remote_send_frame env m ty h tx p enc r))"
  by (simp add: remote_send_frame_def Let_def case_prod_beta ok_log_sent split: option.split)

lemma flags_send_frame [simp]: "mode_of (snd (remote_send_frame env m ty h tx p enc r)) = mode_of r"
  by (simp add: remote_send_frame_def Let_def case_prod_beta split: option.split)

lemma ok_send_ack: "remote_ok r \<Longrightarrow> remote_ok (snd (remote_send_ack env p ref r))"
  by (simp add: remote_send_ack_def Let_def ok_send_frame ok_outstanding split: option.split)

lemma flags_send_ack [simp]: "mode_of (snd (remote_send_ack env p ref r)) = mode_of r"
  by (simp add: remote_send_ack_def Let_def split: option.split)

lemma ok_send_acks: "remote_ok r \<Longrightarrow> remote_ok (send_acks env acks r)"
  unfolding send_acks_def by (induction acks arbitrary: r) (simp_all add: ok_send_ack)

lemma flags_send_acks [simp]: "mode_of (send_acks env acks r) = mode_of r"
  unfolding send_acks_def by (induction acks arbitrary: r) simp_all

section \<open>The file receiver\<close>

lemma ok_put_receiver: "remote_ok r \<Longrightarrow> recv_reachable fr \<Longrightarrow> remote_ok (put_receiver env fr r)"
  using ok_send_acks [of r env "drop (length (fr_acks (rp_file_receiver r))) (fr_acks fr)"]
  by (simp add: put_receiver_def) (simp add: remote_ok_def remote_log_ok_def)

lemma flags_put_receiver [simp]: "mode_of (put_receiver env fr r) = mode_of r"
  by (simp add: put_receiver_def)

lemma ok_receiver: "remote_ok r \<Longrightarrow> recv_reachable (rp_file_receiver r)"
  by (simp add: remote_ok_def)

lemma recv_reachable_step: "recv_reachable fr \<Longrightarrow> recv_step fr fr' \<Longrightarrow> recv_reachable fr'"
  by (simp add: recv_reachable_def)

lemmas receiver_steps = recv_reachable_step [OF _ recv_step.transfer] recv_reachable_step [OF _ recv_step.data]
  recv_reachable_step [OF _ recv_step.tick] recv_reachable_step [OF _ recv_step.abort]
  recv_reachable_step [OF _ recv_step.announce_counter] recv_reachable_step [OF _ recv_step.blast_counter]
  recv_reachable_step [OF _ recv_step.ota_enabled] recv_reachable_step [OF _ recv_step.max_chunk]
  recv_reachable_step [OF _ recv_step.ack_fn]

lemma ok_abort_receiver: "remote_ok r \<Longrightarrow> remote_ok (abort_receiver env reason nt r)"
  by (simp add: abort_receiver_def ok_put_receiver receiver_steps ok_receiver)

lemma flags_abort_receiver [simp]: "mode_of (abort_receiver env reason nt r) = mode_of r"
  by (simp add: abort_receiver_def)

section \<open>Updates the invariant allows\<close>

lemma ok_update:
  assumes "remote_ok r"
  shows "length m = 6 \<Longrightarrow> remote_ok (r\<lparr>rp_parent_mac := m\<rparr>)"
    "length (dc_next_hop_mac c) = 6 \<Longrightarrow> remote_ok (r\<lparr>rp_best_parent := c\<rparr>)"
    "length n = 16 \<Longrightarrow> remote_ok (r\<lparr>rp_bridge_nonce := n\<rparr>)"
    "length k = 32 \<Longrightarrow> remote_ok (r\<lparr>rp_session_key := k\<rparr>)"
    "b \<le> 4 \<Longrightarrow> remote_ok (r\<lparr>rp_join_retry_count := b\<rparr>)"
    "b \<le> 4 \<Longrightarrow> remote_ok (r\<lparr>rp_state_retry_count := b\<rparr>)"
    "b \<le> 4 \<Longrightarrow> remote_ok (r\<lparr>rp_discover_phase := b\<rparr>)"
    "b \<le> 13 \<Longrightarrow> remote_ok (r\<lparr>rp_channel_index := b\<rparr>)"
    "b \<le> 3 \<Longrightarrow> remote_ok (r\<lparr>rp_wait_reject_count := b\<rparr>)"
    "i \<le> 8 \<Longrightarrow> remote_ok (r\<lparr>rp_outstanding_count := i\<rparr>)"
    "i < ANNOUNCE_QUEUE_SIZE \<Longrightarrow> remote_ok (r\<lparr>rp_announce_queue_head := i\<rparr>)"
    "i < ANNOUNCE_QUEUE_SIZE \<Longrightarrow> remote_ok (r\<lparr>rp_announce_queue_tail := i\<rparr>)"
    "length q = ANNOUNCE_QUEUE_SIZE \<Longrightarrow> remote_ok (r\<lparr>rp_announce_queue := q\<rparr>)"
    "command_assemblies_ok a \<Longrightarrow> remote_ok (r\<lparr>rp_pending_command_assemblies := a\<rparr>)"
    "routes_ok (rp_leaf_mac r) t \<Longrightarrow> remote_ok (r\<lparr>rp_routes := t\<rparr>)"
    "recv_reachable fr \<Longrightarrow> remote_ok (r\<lparr>rp_file_receiver := fr\<rparr>)"
  using assms by (simp_all add: remote_ok_def remote_log_ok_def)

lemma ok_facts:
  assumes "remote_ok r"
  shows "length (rp_announce_queue r) = ANNOUNCE_QUEUE_SIZE" "length (rp_leaf_mac r) = 6" "length (rp_parent_mac r) = 6"
    "length (dc_next_hop_mac (rp_best_parent r)) = 6" "length (rp_remote_nonce r) = 16" "length (rp_session_key r) = 32"
    "rp_join_retry_count r \<le> 4" "rp_state_retry_count r \<le> 4" "rp_discover_phase r \<le> 4" "rp_channel_index r \<le> 13"
    "rp_wait_reject_count r \<le> 3" "command_assemblies_ok (rp_pending_command_assemblies r)"
    "routes_ok (rp_leaf_mac r) (rp_routes r)" "recv_reachable (rp_file_receiver r)"
    "rp_announce_queue_head r < ANNOUNCE_QUEUE_SIZE" "rp_announce_queue_tail r < ANNOUNCE_QUEUE_SIZE"
  using assms by (simp_all add: remote_ok_def)

lemma no_candidate_mac [simp]: "length (dc_next_hop_mac no_candidate) = 6"
  by (simp add: no_candidate_def)

lemma assemblies_nil [simp]: "command_assemblies_ok []"
  by (simp add: command_assemblies_ok_def)

lemma queue_pos [simp]: "0 < ANNOUNCE_QUEUE_SIZE"
  by (simp add: ANNOUNCE_QUEUE_SIZE_def)

lemma ok_refresh_can_relay [simp]: "remote_ok (refresh_can_relay r) = remote_ok r"
  by (simp add: refresh_can_relay_def)

lemma flags_ok_refresh: "flags_ok (refresh_can_relay r) \<longleftrightarrow> (rp_normal r \<longrightarrow> rp_joined r)"
  by (auto simp: refresh_can_relay_def flags_ok_def)

section \<open>Resetting a session\<close>

lemma ok_clear_session: "remote_ok r \<Longrightarrow> remote_ok (clear_session_state env ce pr r)"
proof -
  assume ok: "remote_ok r"
  define r1 where "r1 = (if is_receiving r then abort_receiver env 2 False r else r)"
  have "remote_ok r1" using ok by (simp add: r1_def ok_abort_receiver)
  moreover have "rp_announce_queue r1 = rp_announce_queue r1" ..
  ultimately show ?thesis
    unfolding clear_session_state_def Let_def r1_def [symmetric]
    by (simp add: ok_update ok_facts refresh_can_relay_def)
qed

lemma clear_session_flags:
  "rp_joined (clear_session_state env ce pr r) = False" "rp_normal (clear_session_state env ce pr r) = False"
  "rp_can_relay (clear_session_state env ce pr r) = False"
  by (simp_all add: clear_session_state_def Let_def refresh_can_relay_def)

lemma clear_session_counts:
  "rp_join_retry_count (clear_session_state env ce pr r) = 0"
  by (simp add: clear_session_state_def Let_def refresh_can_relay_def)

lemma flags_ok_clear: "flags_ok (clear_session_state env ce pr r)"
  by (simp add: flags_ok_def clear_session_flags)

lemma ok_start_discovery: "remote_ok r \<Longrightarrow> remote_ok (start_discovery_cycle env w r)"
  by (simp add: start_discovery_cycle_def Let_def case_prod_beta ok_nonce ok_update ok_clear_session)

lemma flags_ok_start_discovery: "flags_ok (start_discovery_cycle env w r)"
proof -
  have "mode_of (start_discovery_cycle env w r) = mode_of (clear_session_state env False False r)"
    by (simp add: start_discovery_cycle_def Let_def case_prod_beta)
  then show ?thesis using flags_ok_cong flags_ok_clear by blast
qed

lemma ok_route_recovery: "remote_ok r \<Longrightarrow> remote_ok (start_route_recovery_cycle env r)"
  by (simp add: start_route_recovery_cycle_def Let_def ok_update)

lemma flags_ok_route_recovery: "flags_ok (start_route_recovery_cycle env r)"
  by (simp add: start_route_recovery_cycle_def Let_def refresh_can_relay_def flags_ok_def remote_queue_state_log_def)

lemma ok_full_rediscovery: "remote_ok r \<Longrightarrow> remote_ok (start_config_full_rediscovery env r)"
  by (simp add: start_config_full_rediscovery_def Let_def ok_nonce ok_update ok_clear_session)

lemma flags_ok_full_rediscovery: "flags_ok (start_config_full_rediscovery env r)"
proof -
  have "mode_of (start_config_full_rediscovery env r) = mode_of (clear_session_state env False True r)"
    by (simp add: start_config_full_rediscovery_def Let_def)
  then show ?thesis using flags_ok_cong flags_ok_clear by blast
qed

lemma ok_stall: "remote_ok r \<Longrightarrow> remote_ok (rejoin_due_to_transmit_stall env b r)"
  by (simp add: rejoin_due_to_transmit_stall_def ok_clear_session ok_route_recovery)

lemma flags_ok_stall: "flags_ok (rejoin_due_to_transmit_stall env b r)"
proof (cases b)
  case True
  then show ?thesis
    using flags_ok_cong [of "rejoin_due_to_transmit_stall env b r" "clear_session_state env False True r"] flags_ok_clear
    by (simp add: rejoin_due_to_transmit_stall_def)
next
  case False
  then show ?thesis
    using flags_ok_cong [of "rejoin_due_to_transmit_stall env b r" "start_route_recovery_cycle env r"] flags_ok_route_recovery
    by (simp add: rejoin_due_to_transmit_stall_def)
qed

lemma ok_update_mtu: "remote_ok r \<Longrightarrow> remote_ok (update_mtu_from_route r)"
  by (simp add: update_mtu_from_route_def ok_update receiver_steps ok_facts)

lemma flags_update_mtu [simp]: "mode_of (update_mtu_from_route r) = mode_of r"
  by (simp add: update_mtu_from_route_def)

lemma ok_adopt: "remote_ok r \<Longrightarrow> remote_ok (adopt_best_parent_candidate b r)"
  by (simp add: adopt_best_parent_candidate_def Let_def ok_update ok_facts)

lemma flags_ok_adopt: "flags_ok r \<Longrightarrow> flags_ok (adopt_best_parent_candidate b r)"
  by (simp add: adopt_best_parent_candidate_def Let_def refresh_can_relay_def flags_ok_def remote_queue_state_log_def)

section \<open>Routes\<close>

lemma update_route_leaf: "(\<And>t. rt_leaf_mac (f t) = rt_leaf_mac t) \<Longrightarrow> map rt_leaf_mac (update_route m f ts) = map rt_leaf_mac ts"
  by (induction ts) auto

lemma routes_ok_update:
  assumes "routes_ok self ts" "\<And>t. rt_leaf_mac (f t) = rt_leaf_mac t"
    and "\<And>t. rt_leaf_mac t = m \<Longrightarrow> t \<in> set ts \<Longrightarrow> rt_next_hop_mac (f t) \<noteq> self \<and> length (rt_next_hop_mac (f t)) = 6"
  shows "routes_ok self (update_route m f ts)"
proof -
  have "\<forall>t\<in>set (update_route m f ts). (t \<in> set ts) \<or> (\<exists>u\<in>set ts. t = f u \<and> rt_leaf_mac u = m)"
    by (induction ts) auto
  then show ?thesis
    using assms update_route_leaf [of f m ts] by (fastforce simp: routes_ok_def)
qed

lemma find_route_None: "find_route m r = None \<longleftrightarrow> m \<notin> rt_leaf_mac ` set (rp_routes r)"
  by (auto simp: find_route_def find_None_iff)

lemma find_route_Some: "find_route m r = Some t \<Longrightarrow> t \<in> set (rp_routes r) \<and> rt_leaf_mac t = m"
  unfolding find_route_def find_Some_iff by auto

lemma update_route_append:
  "m \<notin> rt_leaf_mac ` set ts \<Longrightarrow> update_route m f (ts @ [new_route m]) = ts @ [f (new_route m)]"
  by (induction ts) (auto simp: new_route_def)

lemma ok_refresh_route:
  assumes "remote_ok r" "length m = 6" "length nh = 6"
  shows "remote_ok (snd (refresh_route env m nh r))"
proof -
  let ?f = "\<lambda>t. t\<lparr>rt_next_hop_mac := nh, rt_expiry_ms := rn_now env + rp_route_ttl_seconds r * 1000\<rparr>"
  have "routes_ok (rp_leaf_mac r) (update_route m ?f (if find_route m r = None then rp_routes r @ [new_route m] else rp_routes r))"
    if "m \<noteq> rp_leaf_mac r" "nh \<noteq> rp_leaf_mac r"
  proof (cases "find_route m r = None")
    case True
    then show ?thesis
      using that assms ok_facts(13) [OF assms(1)] update_route_append [of m "rp_routes r" ?f]
      by (auto simp: find_route_None routes_ok_def new_route_def)
  next
    case False
    then show ?thesis
      using that assms routes_ok_update [OF ok_facts(13) [OF assms(1)], of ?f m] by auto
  qed
  then show ?thesis
    using assms by (auto simp: refresh_route_def Let_def intro!: ok_update(15))
qed

lemma flags_refresh_route [simp]: "mode_of (snd (refresh_route env m nh r)) = mode_of r"
  by (simp add: refresh_route_def Let_def)

lemma ok_prune: "remote_ok r \<Longrightarrow> remote_ok (prune_routes now r)"
  "remote_ok r \<Longrightarrow> remote_ok (prune_pending_discovers now r)"
  using ok_facts(13) [of r]
  by (auto simp: prune_routes_def prune_pending_discovers_def routes_ok_def distinct_map_filter intro!: ok_update)

lemma assemblies_filter: "command_assemblies_ok m \<Longrightarrow> command_assemblies_ok (filter Q m)"
  using length_filter_le [of Q m]
  by (auto simp: command_assemblies_ok_def omap_ok_def sorted_wrt_map_filter simp del: length_filter_le)

lemma ok_prune_commands: "remote_ok r \<Longrightarrow> remote_ok (prune_pending_command_fragments now r)"
  by (simp add: prune_pending_command_fragments_def Let_def ok_update assemblies_filter ok_facts)

lemma flags_prune [simp]: "mode_of (prune_routes now r) = mode_of r" "mode_of (prune_pending_discovers now r) = mode_of r"
  "mode_of (prune_pending_command_fragments now r) = mode_of r"
  by (simp_all add: prune_routes_def prune_pending_discovers_def prune_pending_command_fragments_def Let_def)

section \<open>Messages\<close>

lemma word8_inc_le: "b < n \<Longrightarrow> b + 1 \<le> (n :: u8)"
  by (simp add: inc_le)

lemma ok_send_join: "remote_ok r \<Longrightarrow> rp_join_retry_count r < 4 \<Longrightarrow> remote_ok (snd (send_join env r))"
proof -
  assume a: "remote_ok r" "rp_join_retry_count r < 4"
  have c: "rp_join_retry_count (snd (remote_send_frame env m ty h tx p enc s)) = rp_join_retry_count s" for m ty h tx p enc s
    by (simp add: remote_send_frame_def Let_def case_prod_beta log_sent_frame_def remote_queue_log_def call_send_fn_def
        rp_asked_def rp_event_def esp_wifi_get_channel_def split: option.split)
  show ?thesis
    using a by (simp add: send_join_def Let_def case_prod_beta ok_send_frame ok_update c word8_inc_le)
qed

lemma flags_send_join [simp]: "mode_of (snd (send_join env r)) = mode_of r"
  by (simp add: send_join_def Let_def case_prod_beta)

lemma ok_on_channel: "remote_ok r \<Longrightarrow> remote_ok (snd (send_on_channel env ch r))"
  by (simp add: send_on_channel_def Let_def case_prod_beta ok_send_frame)

lemma ok_on_current: "remote_ok r \<Longrightarrow> remote_ok (snd (send_on_current_channel env r))"
  by (simp add: send_on_current_channel_def Let_def case_prod_beta ok_on_channel)

lemma ok_on_sweep: "remote_ok r \<Longrightarrow> rp_channel_index r < 13 \<Longrightarrow> remote_ok (snd (send_on_sweep_channel env r))"
  by (simp add: send_on_sweep_channel_def ok_on_channel ok_update word8_inc_le)

lemma flags_on_channel [simp]: "mode_of (snd (send_on_channel env ch r)) = mode_of r"
  "mode_of (snd (send_on_current_channel env r)) = mode_of r" "mode_of (snd (send_on_sweep_channel env r)) = mode_of r"
  by (simp_all add: send_on_channel_def send_on_current_channel_def send_on_sweep_channel_def Let_def case_prod_beta)

lemma ok_discover_back_off: "remote_ok r \<Longrightarrow> remote_ok (discover_back_off env r)"
  by (simp add: discover_back_off_def ok_update word8_inc_le ok_facts)

lemma ok_discover_retry: "remote_ok r \<Longrightarrow> remote_ok (snd (discover_retry env r))"
  by (auto simp: discover_retry_def not_le intro!: ok_on_channel ok_on_current ok_on_sweep ok_update(8))

lemma ok_discover_fast: "remote_ok r \<Longrightarrow> remote_ok (snd (discover_fast env r))"
  by (auto simp: discover_fast_def intro!: ok_on_channel ok_on_sweep ok_update)

lemma ok_send_discover: "remote_ok r \<Longrightarrow> remote_ok (snd (send_discover env r))"
  by (auto simp: send_discover_def Let_def not_le remote_queue_state_log_def
      intro!: ok_discover_retry ok_discover_fast ok_on_current ok_on_sweep ok_update ok_discover_back_off)

lemma flags_send_discover [simp]: "mode_of (snd (send_discover env r)) = mode_of r"
  by (simp add: send_discover_def discover_retry_def discover_fast_def discover_back_off_def Let_def)

lemma ok_heartbeat: "remote_ok r \<Longrightarrow> remote_ok (snd (send_heartbeat env r))"
  by (simp add: send_heartbeat_def Let_def case_prod_beta ok_send_frame)

lemma flags_heartbeat [simp]: "mode_of (snd (send_heartbeat env r)) = mode_of r"
  by (simp add: send_heartbeat_def Let_def case_prod_beta)

lemma ok_command_ack: "remote_ok r \<Longrightarrow> remote_ok (snd (remote_send_command_ack env result tx r))"
  by (simp add: remote_send_command_ack_def Let_def ok_send_frame ok_outstanding split: option.split)

lemma flags_command_ack [simp]: "mode_of (snd (remote_send_command_ack env result tx r)) = mode_of r"
  by (simp add: remote_send_command_ack_def Let_def split: option.split)

lemma ok_config_ack: "remote_ok r \<Longrightarrow> remote_ok (snd (send_config_ack env cmd result tx r))"
  by (simp add: send_config_ack_def ok_send_ack)

lemma flags_config_ack [simp]: "mode_of (snd (send_config_ack env cmd result tx r)) = mode_of r"
  by (simp add: send_config_ack_def)

lemma ok_log_fragment: "remote_ok r \<Longrightarrow> remote_ok (log_fragment ty i len c n rc tx r)"
  by (simp add: log_fragment_def ok_queue_log)

lemma flags_log_fragment [simp]: "mode_of (log_fragment ty i len c n rc tx r) = mode_of r"
  by (simp add: log_fragment_def)

lemma ok_state_failed [simp]: "remote_ok (state_send_failed env i r) = remote_ok r"
  "mode_of (state_send_failed env i r) = mode_of r"
  by (simp_all add: state_send_failed_def Let_def)

lemma ok_state_chunks: "remote_ok r \<Longrightarrow> remote_ok (snd (send_state_chunks env i p rc cs r))"
  by (induction cs arbitrary: r)
     (simp_all add: Let_def case_prod_beta ok_send_frame ok_log_fragment ok_outstanding split: option.split)

lemma flags_state_chunks [simp]: "mode_of (snd (send_state_chunks env i p rc cs r)) = mode_of r"
  by (induction cs arbitrary: r) (simp_all add: Let_def case_prod_beta split: option.split)

lemma ok_send_state: "remote_ok r \<Longrightarrow> remote_ok (snd (send_state env i v b rc r))"
  using ok_state_chunks [of r] ok_facts(8)
  by (auto simp: send_state_def Let_def case_prod_beta intro!: ok_update(6))

lemma flags_send_state [simp]: "mode_of (snd (send_state env i v b rc r)) = mode_of r"
  by (simp add: send_state_def Let_def case_prod_beta)

lemma ok_identity: "remote_ok r \<Longrightarrow> remote_ok (snd (send_identity_descriptor env r))"
  by (simp add: send_identity_descriptor_def Let_def case_prod_beta ok_send_frame ok_log_fragment)

lemma flags_identity [simp]: "mode_of (snd (send_identity_descriptor env r)) = mode_of r"
  by (simp add: send_identity_descriptor_def Let_def case_prod_beta)

lemma ok_schema_chunks: "remote_ok r \<Longrightarrow> remote_ok (snd (send_schema_chunks env i p cs r))"
  by (induction cs arbitrary: r) (simp_all add: Let_def case_prod_beta ok_send_frame ok_log_fragment split: option.split)

lemma flags_schema_chunks [simp]: "mode_of (snd (send_schema_chunks env i p cs r)) = mode_of r"
  by (induction cs arbitrary: r) (simp_all add: Let_def case_prod_beta split: option.split)

lemma ok_schema_push: "remote_ok r \<Longrightarrow> remote_ok (snd (send_schema_push env i r))"
  by (simp add: send_schema_push_def ok_schema_chunks)

lemma flags_schema_push [simp]: "mode_of (snd (send_schema_push env i r)) = mode_of r"
  by (simp add: send_schema_push_def)

lemma ok_announce: "remote_ok r \<Longrightarrow> remote_ok (snd (send_discover_announce_with_jitter env s m role h r))"
  using ok_facts(1) [of "snd (remote_random env r)"]
  by (auto simp: send_discover_announce_with_jitter_def Let_def case_prod_beta intro!: ok_update)

lemma flags_announce [simp]: "mode_of (snd (send_discover_announce_with_jitter env s m role h r)) = mode_of r"
  by (simp add: send_discover_announce_with_jitter_def Let_def case_prod_beta)

lemma ok_flush_announce: "remote_ok r \<Longrightarrow> remote_ok (flush_pending_discover_announce env r)"
proof -
  assume a: "remote_ok r"
  have "length (rp_announce_queue s) = ANNOUNCE_QUEUE_SIZE" if "remote_ok s" for s using ok_facts(1) [OF that] .
  then show ?thesis
    using a by (auto simp: flush_pending_discover_announce_def Let_def ok_queue_log intro!: ok_update)
qed

lemma flags_flush_announce [simp]: "mode_of (flush_pending_discover_announce env r) = mode_of r"
  by (simp add: flush_pending_discover_announce_def Let_def)

lemma ok_forward_frame [simp]: "remote_ok (snd (forward_frame env m h p t d r)) = remote_ok r"
  "mode_of (snd (forward_frame env m h p t d r)) = mode_of r"
  by (simp_all add: forward_frame_def Let_def case_prod_beta)

lemma ok_log_forward: "remote_ok r \<Longrightarrow> remote_ok (log_forward h len hops r)"
  by (simp add: log_forward_def ok_queue_log split: option.split)

lemma flags_log_forward [simp]: "mode_of (log_forward h len hops r) = mode_of r"
  by (simp add: log_forward_def split: option.split)

lemma ok_forward_packet:
  assumes "remote_ok r" "length (fh_leaf_mac h) = 6"
  shows "remote_ok (snd (forward_packet env h p t r))"
proof -
  have "length (rt_next_hop_mac route) = 6" if "find_route (fh_leaf_mac h) r = Some route" for route
    using find_route_Some [OF that] ok_facts(13) [OF assms(1)] by (auto simp: routes_ok_def)
  then show ?thesis
    using assms by (simp add: forward_packet_def Let_def ok_log_forward ok_refresh_route split: option.split)
qed

lemma flags_forward_packet [simp]: "mode_of (snd (forward_packet env h p t r)) = mode_of r"
  by (simp add: forward_packet_def Let_def split: option.split)

end
