(* ===== verification/Remote_Reach.thy ===== *)
theory Remote_Reach
  imports Remote_Inv
begin

unbundle bit_operations_syntax

text \<open>
  The states a remote can get to: \<open>remote_step\<close> is one call into the node (a frame from the radio, a turn
  of the loop, a changed entity, a setter), \<open>remote_reachable\<close> their closure from the state after
  \<^verbatim>\<open>init\<close> and \<^verbatim>\<open>set_local_mac\<close>.  Every reachable state satisfies the invariant.
\<close>

definition remote_inv :: "remote \<Rightarrow> bool" where
  "remote_inv r \<longleftrightarrow> remote_ok r \<and> flags_ok r"

lemma inv_flags: "remote_ok r' \<Longrightarrow> mode_of r' = mode_of r \<Longrightarrow> flags_ok r \<Longrightarrow> remote_inv r'"
  using flags_ok_cong [of r' r] by (simp add: remote_inv_def)

section \<open>Discovery and joining\<close>

lemma inv_handle_discover:
  assumes "remote_inv r"
  shows "remote_inv (snd (remote_handle_discover env sender header payload r))"
proof -
  have "mode_of (snd (remote_handle_discover env sender header payload r)) = mode_of r"
    by (simp add: remote_handle_discover_def)
  moreover have "remote_ok (snd (remote_handle_discover env sender header payload r))"
    using assms by (simp add: remote_handle_discover_def remote_inv_def ok_announce)
  ultimately show ?thesis using assms inv_flags unfolding remote_inv_def by blast
qed

lemma inv_select_parent:
  assumes "remote_inv r" "length sender = 6"
  shows "remote_inv (select_parent_candidate env sender announce rssi r)"
proof -
  have "mode_of (select_parent_candidate env sender announce rssi r) = mode_of r"
    by (simp add: select_parent_candidate_def Let_def case_prod_beta)
  moreover have "remote_ok (select_parent_candidate env sender announce rssi r)"
    using assms by (simp add: select_parent_candidate_def Let_def case_prod_beta remote_inv_def ok_update)
  ultimately show ?thesis using assms inv_flags unfolding remote_inv_def by blast
qed

lemma inv_handle_announce:
  "remote_inv r \<Longrightarrow> length sender = 6 \<Longrightarrow> remote_inv (snd (handle_discover_announce env sender payload rssi r))"
  by (simp add: handle_discover_announce_def Let_def inv_select_parent)

lemma inv_start_discovery: "remote_ok r \<Longrightarrow> remote_inv (start_discovery_cycle env w r)"
  by (simp add: remote_inv_def ok_start_discovery flags_ok_start_discovery)

lemma inv_flags_eq: "remote_inv (r\<lparr>rp_discover_due_ms := v\<rparr>) = remote_inv r"
  using flags_ok_cong [of "r\<lparr>rp_discover_due_ms := v\<rparr>" r] by (simp add: remote_inv_def)

lemma word8_le_3: "\<not> 4 \<le> b \<Longrightarrow> b \<le> (3 :: u8)"
  by (simp add: word_le_nat_alt not_le)

lemma inv_join_rejected:
  assumes "remote_inv r"
  shows "remote_inv (join_rejected env ack r)"
proof (cases "jack_reason ack = 3 \<and> \<not> 4 \<le> rp_wait_reject_count r + 1")
  case True
  then have "mode_of (join_rejected env ack r) = mode_of r" "remote_ok (join_rejected env ack r)"
    using assms by (simp_all add: join_rejected_def Let_def ok_update word8_le_3 remote_inv_def)
  then show ?thesis using assms inv_flags unfolding remote_inv_def by blast
next
  case False
  moreover have "remote_ok r" using assms by (simp add: remote_inv_def)
  ultimately show ?thesis
    by (auto simp: join_rejected_def Let_def inv_flags_eq intro!: inv_start_discovery ok_update)
qed

lemma ok_join_accepted:
  "remote_ok r \<Longrightarrow> length (jack_bridge_nonce ack) = 16 \<Longrightarrow> remote_ok (join_accepted env tx ack r)"
  by (simp add: join_accepted_def Let_def ok_update ok_update_mtu length_session_key)

lemma flags_join_accepted: "flags_ok r \<Longrightarrow> flags_ok (join_accepted env tx ack r) \<and> rp_joined (join_accepted env tx ack r)"
  by (simp add: join_accepted_def Let_def flags_ok_def update_mtu_from_route_def)

lemma joined_state_log [simp]: "rp_joined (remote_queue_state_log st msg r) = rp_joined r"
  by (simp add: remote_queue_state_log_def)

lemma inv_join_stage:
  assumes "remote_inv r" "rp_joined r"
  shows "remote_inv (join_stage env stage r)"
proof -
  have ok: "remote_ok (join_stage env stage r)"
    using assms by (simp add: join_stage_def Let_def remote_inv_def ok_update ok_facts ok_heartbeat mark_all_entities_dirty_def)
  have hb: "flags_ok (snd (send_heartbeat env s)) = flags_ok s" for s
    by (rule flags_ok_cong) simp
  have "flags_ok (join_stage env stage r)"
    using assms unfolding join_stage_def
    by (simp add: Let_def hb) (simp add: remote_inv_def flags_ok_def refresh_can_relay_def remote_queue_state_log_def mark_all_entities_dirty_def)
  with ok show ?thesis by (simp add: remote_inv_def)
qed

lemma inv_join_ack: "remote_inv r \<Longrightarrow> remote_inv (snd (handle_join_ack env header payload r))"
  using flags_join_accepted [of r]
  by (auto simp: handle_join_ack_def Let_def inv_join_rejected dec_join_ack_def remote_inv_def [of "join_accepted _ _ _ _"]
      remote_inv_def [of r] intro!: inv_join_stage ok_join_accepted)

section \<open>Session packets\<close>

lemma inv_state_acked: "remote_inv r \<Longrightarrow> remote_inv (state_acked env r)"
  by (simp add: remote_inv_def state_acked_def Let_def ok_update flags_ok_def)

lemma inv_keep: "remote_inv r \<Longrightarrow> remote_ok r' \<Longrightarrow> mode_of r' = mode_of r \<Longrightarrow> remote_inv r'"
  using inv_flags [of r' r] by (simp add: remote_inv_def)

lemma inv_handle_ack:
  assumes "remote_inv r"
  shows "remote_inv (snd (remote_handle_ack env header payload tag r))"
proof -
  have "remote_inv (r\<lparr>rp_last_seen_counter := c\<rparr>)" for c by (rule inv_keep [OF assms]) (use assms in \<open>simp_all add: remote_inv_def\<close>)
  then show ?thesis
    using assms inv_state_acked [of "r\<lparr>rp_last_seen_counter := fh_tx_counter header\<rparr>" env]
    by (simp add: remote_handle_ack_def Let_def split: option.split)
qed

lemma assemblies_put:
  assumes "command_assemblies_ok m" "omap_find m k = None \<Longrightarrow> length m < 8" "command_assembly_ok a"
  shows "command_assemblies_ok (omap_put k a m)"
proof -
  have "length (omap_put k a m) \<le> 8" "omap_ok (omap_put k a m)"
    using omap.size_put [of m k a] assms(1, 2) by (auto simp: command_assemblies_ok_def omap_ok_put)
  moreover have "set (omap_put k a m) \<subseteq> insert (k, a) (set m)"
    by (induction m rule: omap_put.induct) auto
  ultimately show ?thesis
    using assms(1, 3) unfolding command_assemblies_ok_def by fastforce
qed

lemma command_assembly_store:
  "command_assembly_ok a \<Longrightarrow> command_assembly_ok (snd (remote_store_fragment a view tx now mef cap))"
  by (auto simp: command_assembly_ok_def remote_store_fragment_def open_assembly_def remote_fill_slot_def Let_def)

lemma pick_command_ok:
  assumes "remote_ok r" "pick_command_assembly view tx r = Some (a, reserved)"
  shows "(omap_find (rp_pending_command_assemblies r) (epv_entity_index view) = None \<longrightarrow> length (rp_pending_command_assemblies r) < 8) \<and>
    command_assembly_ok a"
proof (cases "omap_find (rp_pending_command_assemblies r) (epv_entity_index view)")
  case None
  then show ?thesis
    using assms(2) by (auto simp: pick_command_assembly_def Let_def fresh_assembly_def command_assembly_ok_def split: if_splits)
next
  case (Some b)
  then have "b \<in> snd ` set (rp_pending_command_assemblies r)"
    by (force simp: omap_find_def dest: map_of_SomeD)
  then have "command_assembly_ok b" using ok_facts(12) [OF assms(1)] by (auto simp: command_assemblies_ok_def)
  then show ?thesis
    using assms(2) Some
    by (auto simp: pick_command_assembly_def Let_def reset_fragment_assembly_def fresh_assembly_def command_assembly_ok_def
        split: if_splits)
qed

lemma ok_put_command:
  assumes "remote_ok r" "pick_command_assembly view tx r = Some (a, reserved)" "command_assembly_ok b"
  shows "remote_ok (put_command_assembly (epv_entity_index view) b reserved r)"
  using pick_command_ok [OF assms(1, 2)] assms ok_facts(12) [OF assms(1)]
  by (auto simp: put_command_assembly_def intro!: ok_update assemblies_put)

lemma ok_stage_command:
  assumes "remote_ok r"
  shows "remote_ok (snd (stage_command_fragment env view tx r))"
proof (cases "pick_command_assembly view tx r")
  case (Some p)
  obtain a reserved where p: "p = (a, reserved)" by (cases p)
  note k = pick_command_ok [OF assms Some [unfolded p]] and put = ok_put_command [OF assms Some [unfolded p]]
  show ?thesis
    using k by (simp add: stage_command_fragment_def Some p case_prod_beta put command_assembly_store)
qed (simp add: stage_command_fragment_def assms)

lemma flags_stage_command [simp]: "mode_of (snd (stage_command_fragment env view tx r)) = mode_of r"
  by (simp add: stage_command_fragment_def put_command_assembly_def Let_def case_prod_beta split: option.split)

lemma ok_complete_command: "remote_ok r \<Longrightarrow> remote_ok (snd (complete_command env view tx a r))"
  by (simp add: complete_command_def Let_def omap_erase_def ok_command_ack ok_update assemblies_filter ok_facts)

lemma flags_complete_command [simp]: "mode_of (snd (complete_command env view tx a r)) = mode_of r"
  by (simp add: complete_command_def Let_def)

lemma inv_accept_command:
  assumes "remote_inv r"
  shows "remote_inv (snd (accept_command_fragment env header view tx r))"
  by (rule inv_keep [OF assms]) (use assms in \<open>simp_all add: accept_command_fragment_def Let_def case_prod_beta remote_inv_def
      ok_stage_command ok_complete_command split: option.split\<close>)

lemma inv_command_ack: "remote_inv r \<Longrightarrow> remote_inv (snd (remote_send_command_ack env result tx r))"
  by (rule inv_keep, assumption) (simp_all add: remote_inv_def ok_command_ack)

lemma inv_log: "remote_inv r \<Longrightarrow> remote_inv (remote_queue_log e r)"
  by (rule inv_keep, assumption) (simp_all add: remote_inv_def ok_queue_log)

lemma inv_handle_command: "remote_inv r \<Longrightarrow> remote_inv (snd (remote_handle_command env header payload tag rssi r))"
  by (simp add: remote_handle_command_def receive_command_def log_command_def Let_def inv_command_ack inv_accept_command inv_log
      split: option.split)

section \<open>Configuration, schema, deauthentication\<close>

lemma inv_ack_and_remember: "remote_inv r \<Longrightarrow> remote_inv (snd (ack_and_remember env tx cmd result r))"
  by (rule inv_keep, assumption) (simp_all add: ack_and_remember_def remote_inv_def ok_config_ack)

lemma inv_ack_then:
  assumes "remote_inv r" "\<And>s. remote_inv s \<Longrightarrow> remote_inv (act s)"
  shows "remote_inv (snd (ack_then env tx cmd act r))"
  using assms inv_ack_and_remember [OF assms(1), of env tx cmd 0] by (simp add: ack_then_def case_prod_beta)

lemma inv_relay_runtime: "remote_inv r \<Longrightarrow> remote_inv (set_relay_enabled_runtime b r)"
  by (simp add: remote_inv_def set_relay_enabled_runtime_def flags_ok_refresh) (simp add: flags_ok_def)

lemma inv_prefer_parent: "remote_inv r \<Longrightarrow> remote_inv (prefer_parent env fl m r)"
proof -
  assume "remote_inv r"
  let ?s = "start_route_recovery_cycle env (r\<lparr>rp_preferred_parents := m # remove1 m (if fl AND 1 \<noteq> 0 then [] else rp_preferred_parents r)\<rparr>)"
  have "remote_inv ?s" using \<open>remote_inv r\<close> by (simp add: remote_inv_def ok_route_recovery flags_ok_route_recovery)
  show ?thesis
    by (rule inv_keep [OF \<open>remote_inv ?s\<close>]) (use \<open>remote_inv ?s\<close> in \<open>simp_all add: prefer_parent_def Let_def remote_inv_def\<close>)
qed

lemma inv_reboot: "remote_inv r \<Longrightarrow> remote_inv (rp_event ev r)"
  by (rule inv_keep, assumption) (simp_all add: remote_inv_def)

lemma inv_interval: "remote_inv r \<Longrightarrow> remote_inv (r\<lparr>rp_heartbeat_interval := a, rp_heartbeat_due_ms := b\<rparr>)"
  by (rule inv_keep, assumption) (simp_all add: remote_inv_def)

lemma inv_full_rediscovery: "remote_inv r \<Longrightarrow> remote_inv (start_config_full_rediscovery env r)"
  by (simp add: remote_inv_def ok_full_rediscovery flags_ok_full_rediscovery)

lemma inv_config_command: "remote_inv r \<Longrightarrow> remote_inv (snd (config_command env tx cmd args r))"
  by (simp add: config_command_def Let_def inv_ack_and_remember inv_ack_then inv_relay_runtime inv_prefer_parent inv_reboot
      inv_interval inv_full_rediscovery)

lemma inv_last_seen: "remote_inv r \<Longrightarrow> remote_inv (r\<lparr>rp_last_seen_counter := c\<rparr>)"
  by (rule inv_keep, assumption) (simp_all add: remote_inv_def)

lemma inv_config_ack: "remote_inv r \<Longrightarrow> remote_inv (snd (send_config_ack env cmd result tx r))"
  by (rule inv_keep, assumption) (simp_all add: remote_inv_def ok_config_ack)

lemma inv_handle_config: "remote_inv r \<Longrightarrow> remote_inv (snd (handle_config env header payload tag r))"
  by (simp add: handle_config_def Let_def inv_ack_and_remember inv_config_command inv_last_seen inv_config_ack split: option.split)

lemma inv_handle_schema_request:
  assumes "remote_inv r"
  shows "remote_inv (snd (remote_handle_schema_request env header payload tag r))"
  by (rule inv_keep [OF assms]) (use assms in \<open>simp_all add: remote_handle_schema_request_def Let_def remote_inv_def
      ok_identity ok_schema_push ok_queue_log split: option.split\<close>)

lemma inv_handle_deauth:
  assumes "remote_inv r"
  shows "remote_inv (snd (remote_handle_deauth env header payload r))"
proof -
  have ok: "remote_ok r" using assms by (simp add: remote_inv_def)
  define s where "s = fresh_remote_nonce env ((clear_session_state env False True r)\<lparr>rp_discovering := True,
     rp_sweep_complete := True, rp_fast_rejoin := False, rp_discovery_resume_normal_after_success := False,
     rp_discovery_current_channel_only := True\<rparr>)"
  have s: "remote_ok s" "rp_join_retry_count s < 4"
    using ok by (simp_all add: s_def ok_nonce ok_clear_session) (simp add: fresh_remote_nonce_def rp_asked_def clear_session_counts)
  have "mode_of s = mode_of (clear_session_state env False True r)" by (simp add: s_def)
  then have fs: "flags_ok s" using flags_ok_cong flags_ok_clear by blast
  have j: "remote_ok (snd (send_join env s))" using ok_send_join [OF s] .
  have "remote_inv (remote_queue_state_log JOINING msg ((snd (send_join env s))\<lparr>rp_state_name := n\<rparr>))" for msg n
    using j fs flags_ok_cong [of "remote_queue_state_log JOINING msg ((snd (send_join env s))\<lparr>rp_state_name := n\<rparr>)" s]
    by (simp add: remote_inv_def)
  then show ?thesis
    using assms j s by (simp add: remote_handle_deauth_def Let_def s_def [symmetric] case_prod_beta inv_start_discovery)
qed

section \<open>Transfers\<close>

lemma inv_put_receiver: "remote_inv r \<Longrightarrow> recv_reachable fr \<Longrightarrow> remote_inv (put_receiver env fr r)"
  by (rule inv_keep, assumption) (simp_all add: remote_inv_def ok_put_receiver)

lemma inv_activity: "remote_inv r \<Longrightarrow> remote_inv (r\<lparr>rp_ota_last_activity_ms := v\<rparr>)"
  by (rule inv_keep, assumption) (simp_all add: remote_inv_def)

lemma inv_receiver: "remote_inv r \<Longrightarrow> recv_reachable (rp_file_receiver r)"
  by (simp add: remote_inv_def ok_receiver)

lemma inv_handle_file_transfer: "remote_inv r \<Longrightarrow> remote_inv (snd (remote_handle_file_transfer env header payload tag r))"
  by (simp add: remote_handle_file_transfer_def Let_def case_prod_beta inv_put_receiver inv_activity receiver_steps inv_receiver
      split: option.split)

lemma inv_handle_file_data: "remote_inv r \<Longrightarrow> remote_inv (snd (remote_handle_file_data env header payload tag r))"
  by (simp add: remote_handle_file_data_def Let_def case_prod_beta inv_put_receiver inv_activity receiver_steps inv_receiver
      split: option.split)

section \<open>Relaying and the dispatcher\<close>

lemma inv_note_relay: "remote_inv r \<Longrightarrow> remote_inv (note_relay m r)"
proof -
  assume r: "remote_inv r"
  then have "routes_ok (rp_leaf_mac r) (rp_routes r)" by (simp add: remote_inv_def ok_facts)
  then have "routes_ok (rp_leaf_mac r) (update_route m (\<lambda>rt. rt\<lparr>rt_has_logged_providing_relay := True\<rparr>) (rp_routes r))"
    by (rule routes_ok_update) (use \<open>routes_ok (rp_leaf_mac r) (rp_routes r)\<close> in \<open>auto simp: routes_ok_def\<close>)
  then show ?thesis
    by (intro inv_keep [OF r]) (use r in \<open>simp_all add: note_relay_def remote_inv_def ok_update split: option.split\<close>)
qed

lemma inv_refresh_route:
  "remote_inv r \<Longrightarrow> length m = 6 \<Longrightarrow> length nh = 6 \<Longrightarrow> remote_inv (snd (refresh_route env m nh r))"
  by (rule inv_keep, assumption) (simp_all add: remote_inv_def ok_refresh_route)

lemma inv_forward_packet: "remote_inv r \<Longrightarrow> length (fh_leaf_mac h) = 6 \<Longrightarrow> remote_inv (snd (forward_packet env h p t r))"
  by (rule inv_keep, assumption) (simp_all add: remote_inv_def ok_forward_packet)

lemma inv_handle_upstream:
  assumes "remote_inv r" "length sender = 6" "length (fh_leaf_mac header) = 6"
  shows "remote_inv (snd (handle_upstream env sender header payload tag r))"
  using assms by (simp add: handle_upstream_def Let_def inv_forward_packet inv_refresh_route inv_note_relay)

lemma inv_handle_downstream:
  assumes "remote_inv r" "length (fh_leaf_mac header) = 6"
  shows "remote_inv (snd (handle_downstream env header payload tag r))"
  using assms by (simp add: handle_downstream_def Let_def inv_forward_packet inv_handle_config inv_handle_file_transfer
      inv_handle_file_data)

lemma hops_count_small: "ESPNOW_HOPS_COUNT h \<noteq> 0xFF"
proof -
  have "ESPNOW_HOPS_COUNT h \<le> 0x0F" by (simp add: ESPNOW_HOPS_COUNT_def word_and_le1)
  then show ?thesis by auto
qed

lemma inv_note_hops: "remote_inv r \<Longrightarrow> remote_inv (note_hops header r)"
  using hops_count_small [of "fh_hop_count header"] by (simp add: note_hops_def Let_def remote_inv_def flags_ok_def)

lemma inv_log_received: "remote_inv r \<Longrightarrow> remote_inv (log_received env sender ty header payload len rssi r)"
  by (rule inv_keep, assumption) (simp_all add: remote_inv_def log_received_def Let_def case_prod_beta ok_queue_log)

lemma inv_handle_local:
  assumes "remote_inv r" "length sender = 6"
  shows "remote_inv (snd (handle_local env sender ty header payload tag rssi r))"
  using assms by (simp add: handle_local_def inv_handle_discover inv_handle_announce inv_join_ack inv_handle_ack inv_handle_command
      inv_handle_config inv_handle_schema_request inv_handle_deauth inv_handle_file_transfer inv_handle_file_data)

lemma inv_dispatch:
  assumes "remote_inv r" "length sender = 6" "length (fh_leaf_mac header) = 6"
  shows "remote_inv (snd (dispatch_frame env sender ty header payload tag len rssi r))"
  using assms by (simp add: dispatch_frame_def Let_def inv_handle_local inv_log_received inv_note_hops inv_handle_upstream
      inv_handle_downstream)

lemma remote_parse_header:
  "remote_parse_frame frame = Some (header, payload, tag, par) \<Longrightarrow> header = dec_frame_header frame \<and> 17 \<le> length frame"
  by (auto simp: remote_parse_frame_def Let_def split: if_splits option.splits)

lemma inv_parent_rssi: "remote_inv r \<Longrightarrow> remote_inv (note_parent_rssi m rssi r)"
  by (rule inv_keep, assumption) (simp_all add: remote_inv_def note_parent_rssi_def)

lemma inv_last_parent: "remote_inv r \<Longrightarrow> remote_inv (r\<lparr>rp_last_parent_mac := p\<rparr>)"
  by (rule inv_keep, assumption) (simp_all add: remote_inv_def)

lemma inv_on_espnow_frame:
  assumes "remote_inv r" "length sender = 6"
  shows "remote_inv (snd (remote_on_espnow_frame env sender frame rssi r))"
proof (cases "remote_parse_frame frame")
  case (Some q)
  obtain header payload tag par where q: "q = (header, payload, tag, par)" by (cases q)
  have "length (fh_leaf_mac header) = 6"
    using remote_parse_header [OF Some [unfolded q]] by (auto simp: dec_frame_header_def)
  then show ?thesis
    using assms Some by (simp add: remote_on_espnow_frame_def q Let_def inv_dispatch inv_parent_rssi inv_last_parent split: option.split)
qed (simp add: remote_on_espnow_frame_def assms)

section \<open>The loop\<close>

definition keeps_inv :: "stage \<Rightarrow> bool" where
  "keeps_inv f \<longleftrightarrow> (\<forall>env r. remote_inv r \<longrightarrow> (case f env r of Inl s \<Rightarrow> remote_inv s | Inr s \<Rightarrow> remote_inv s))"

lemma run_stages_inv: "list_all keeps_inv fs \<Longrightarrow> remote_inv r \<Longrightarrow> remote_inv (run_stages fs env r)"
proof (induction fs arbitrary: r)
  case (Cons f fs)
  then have "case f env r of Inl s \<Rightarrow> remote_inv s | Inr s \<Rightarrow> remote_inv s" by (simp add: keeps_inv_def)
  then show ?case using Cons by (cases "f env r") simp_all
qed simp

lemma inv_receiver_stage: "remote_inv r \<Longrightarrow> remote_inv (receiver_stage env r)"
proof -
  assume r: "remote_inv r"
  define s where "s = put_receiver env (recv_loop (receiver_env env r) (rp_file_receiver r)) r"
  have s: "remote_inv s" using r by (simp add: s_def inv_put_receiver receiver_steps inv_receiver)
  have "remote_inv (abort_receiver env 2 True s)" by (rule inv_keep [OF s]) (use s in \<open>simp_all add: remote_inv_def ok_abort_receiver\<close>)
  then show ?thesis using s by (simp add: receiver_stage_def Let_def s_def [symmetric] inv_activity)
qed

lemma inv_housekeeping: "remote_inv r \<Longrightarrow> remote_inv (housekeeping env r)"
proof -
  assume r: "remote_inv r"
  let ?s = "prune_pending_command_fragments (rn_now env) (prune_pending_discovers (rn_now env) (prune_routes (rn_now env) r))"
  have "remote_inv ?s" by (rule inv_keep [OF r]) (use r in \<open>simp_all add: remote_inv_def ok_prune ok_prune_commands\<close>)
  then have s: "remote_inv (receiver_stage env ?s)" by (rule inv_receiver_stage)
  show ?thesis
    unfolding housekeeping_def by (rule inv_keep [OF s]) (use s in \<open>simp_all add: remote_inv_def ok_flush_announce\<close>)
qed

lemma inv_recovery: "remote_ok r \<Longrightarrow> remote_inv (start_route_recovery_cycle env r)"
  by (simp add: remote_inv_def ok_route_recovery flags_ok_route_recovery)

lemma inv_topology_due: "remote_inv r \<Longrightarrow> remote_inv (r\<lparr>rp_topology_refresh_due_ms := v\<rparr>)"
  by (rule inv_keep, assumption) (simp_all add: remote_inv_def)

lemma keeps_discovery:
  "keeps_inv initial_stage" "keeps_inv wifi_stage" "keeps_inv (refresh_topology w)" "keeps_inv joined_guard" "keeps_inv push_guard"
  by (auto simp: keeps_inv_def initial_stage_def wifi_stage_def refresh_topology_def joined_guard_def push_guard_def Let_def
      intro!: inv_start_discovery inv_recovery inv_topology_due) (auto simp: remote_inv_def)

lemma keeps_topology: "keeps_inv weak_parent_stage" "keeps_inv preferred_parent_stage"
  using keeps_discovery(3) unfolding keeps_inv_def weak_parent_stage_def preferred_parent_stage_def by blast+

lemma keeps_resume: "keeps_inv resume_stage"
  unfolding keeps_inv_def
proof (intro allI impI)
  fix env r assume r: "remote_inv r"
  let ?s = "adopt_best_parent_candidate True r"
  have s: "remote_inv ?s" using r by (simp add: remote_inv_def ok_adopt flags_ok_adopt)
  have "remote_inv (snd (send_heartbeat env ?s))" by (rule inv_keep [OF s]) (use s in \<open>simp_all add: remote_inv_def ok_heartbeat\<close>)
  then show "case resume_stage env r of Inl s \<Rightarrow> remote_inv s | Inr s \<Rightarrow> remote_inv s" using r by (simp add: resume_stage_def)
qed

lemma inv_attempt_join:
  assumes "remote_inv r" "rp_join_retry_count r < 4"
  shows "remote_inv (snd (attempt_join env jitter r))"
proof -
  obtain s where s: "attempt_join env jitter r = send_join env (refresh_can_relay s)" "remote_ok s" "rp_join_retry_count s < 4"
    "rp_normal s = rp_normal r" "rp_joined s = rp_joined r"
    using assms by (simp add: attempt_join_def Let_def remote_inv_def ok_update ok_facts)
  have "remote_ok (snd (send_join env (refresh_can_relay s)))"
    by (rule ok_send_join) (use s in \<open>simp_all add: refresh_can_relay_def\<close>)
  moreover have "flags_ok (refresh_can_relay s)"
    using assms s(4, 5) unfolding flags_ok_refresh by (simp add: remote_inv_def flags_ok_def)
  ultimately show ?thesis
    unfolding s(1) remote_inv_def using flags_ok_cong [OF flags_send_join [of env "refresh_can_relay s"]] by simp
qed

lemma inv_state_name: "remote_inv r \<Longrightarrow> remote_inv (remote_queue_state_log st msg (r\<lparr>rp_state_name := n\<rparr>))"
  by (rule inv_keep, assumption) (simp_all add: remote_inv_def)

lemma keeps_join_due: "keeps_inv (join_stage_due jitter)"
  by (auto simp: keeps_inv_def join_stage_due_def Let_def join_due_def case_prod_beta intro!: inv_state_name inv_attempt_join)

lemma inv_sweep_done: "remote_inv r \<Longrightarrow> remote_inv (r\<lparr>rp_sweep_complete := b\<rparr>)"
  by (rule inv_keep, assumption) (simp_all add: remote_inv_def)

lemma inv_send_discover: "remote_inv r \<Longrightarrow> remote_inv (snd (send_discover env r))"
  by (rule inv_keep, assumption) (simp_all add: remote_inv_def ok_send_discover)

lemma keeps_sweep: "keeps_inv sweep_stage"
  by (simp add: keeps_inv_def sweep_stage_def inv_sweep_done inv_send_discover)

lemma keeps_restarts: "keeps_inv join_exhausted_stage" "keeps_inv normal_timeout_stage"
  by (simp_all add: keeps_inv_def join_exhausted_stage_def normal_timeout_stage_def inv_flags_eq)
     (auto simp: remote_inv_def intro!: inv_start_discovery [unfolded remote_inv_def] ok_clear_session)

lemma keeps_stall: "keeps_inv stall_stage"
  by (simp add: keeps_inv_def stall_stage_def remote_inv_def ok_stall flags_ok_stall)

section \<open>The retry counter of a state\<close>

lemma retry_send_frame: "rp_state_retry_count (snd (remote_send_frame env m ty h tx p enc r)) = rp_state_retry_count r"
  by (simp add: remote_send_frame_def Let_def case_prod_beta log_sent_frame_def remote_queue_log_def call_send_fn_def
      rp_asked_def rp_event_def esp_wifi_get_channel_def split: option.split)

lemma retry_state_chunks: "rp_state_retry_count (snd (send_state_chunks env i p rc cs r)) = rp_state_retry_count r"
  by (induction cs arbitrary: r)
     (simp_all add: Let_def case_prod_beta retry_send_frame log_fragment_def remote_queue_log_def
       update_outstanding_request_def state_send_failed_def split: option.split)

lemma retry_send_state: "rp_state_retry_count (snd (send_state env i v False rc r)) = rp_state_retry_count r"
  by (simp add: send_state_def Let_def case_prod_beta retry_state_chunks)

lemma inv_send_state: "remote_inv r \<Longrightarrow> remote_inv (snd (send_state env i v b rc r))"
  by (rule inv_keep, assumption) (simp_all add: remote_inv_def ok_send_state)

lemma inv_retry_count: "remote_inv r \<Longrightarrow> n \<le> 4 \<Longrightarrow> remote_inv (r\<lparr>rp_state_retry_count := n\<rparr>)"
  by (rule inv_keep, assumption) (simp_all add: remote_inv_def ok_update)

lemma inv_calls: "remote_inv r \<Longrightarrow> remote_inv (r\<lparr>rp_calls := n\<rparr>)"
  by (rule inv_keep, assumption) (simp_all add: remote_inv_def)

lemma inv_state_tx: "remote_inv r \<Longrightarrow> remote_inv (r\<lparr>rp_last_state_tx_ms := v\<rparr>)"
  by (rule inv_keep, assumption) (simp_all add: remote_inv_def)

lemma inv_state_timed_out: "remote_inv r \<Longrightarrow> remote_inv (state_timed_out env r)"
  by (auto simp: state_timed_out_def Let_def remote_inv_def intro!: inv_recovery [unfolded remote_inv_def] ok_update)

lemma keeps_state_retry: "keeps_inv state_retry_stage"
  by (simp add: keeps_inv_def state_retry_stage_def Let_def remote_random_def case_prod_beta inv_state_timed_out
      inv_state_tx inv_send_state inv_calls inv_retry_count retry_send_state word8_inc_le rp_asked_def)

lemma inv_heartbeat: "remote_inv r \<Longrightarrow> remote_inv (snd (send_heartbeat env r))"
  by (rule inv_keep, assumption) (simp_all add: remote_inv_def ok_heartbeat)

lemma inv_heartbeat_due: "remote_inv r \<Longrightarrow> remote_inv (r\<lparr>rp_heartbeat_due_ms := v\<rparr>)"
  by (rule inv_keep, assumption) (simp_all add: remote_inv_def)

lemma keeps_heartbeat: "keeps_inv heartbeat_stage"
  by (simp add: keeps_inv_def heartbeat_stage_def Let_def inv_heartbeat inv_heartbeat_due)

lemma inv_waiting: "remote_inv r \<Longrightarrow> remote_inv (r\<lparr>rp_waiting_for_state_ack := v\<rparr>)"
  by (rule inv_keep, assumption) (simp_all add: remote_inv_def)

lemma keeps_dirty: "keeps_inv dirty_stage"
  by (simp add: keeps_inv_def dirty_stage_def Let_def case_prod_beta inv_waiting inv_send_state split: option.split)

lemmas keeps_stages = keeps_discovery keeps_topology keeps_resume keeps_join_due keeps_sweep keeps_restarts keeps_stall
  keeps_state_retry keeps_heartbeat keeps_dirty

lemma inv_remote_loop: "remote_inv r \<Longrightarrow> remote_inv (remote_loop env r)"
  unfolding remote_loop_def Let_def case_prod_beta
  by (rule run_stages_inv) (simp_all add: keeps_stages remote_random_def rp_asked_def inv_housekeeping inv_calls)

section \<open>Setters, entities and the log\<close>

lemma inv_setters:
  assumes "remote_inv r"
  shows "remote_inv (set_relay_config b h d r)" "remote_inv (set_relay_enabled_runtime b r)"
  using assms unfolding remote_inv_def set_relay_config_def set_relay_enabled_runtime_def flags_ok_refresh
  by (simp_all add: flags_ok_def)

lemma inv_plain_setter:
  assumes "remote_inv r"
  shows "remote_inv (set_route_ttl t r) \<and> remote_inv (add_preferred_parent m r) \<and> remote_inv (set_remote_fns f g r) \<and>
    remote_inv (remote_set_session_flags fl r) \<and> remote_inv (mark_all_entities_dirty r)"
  by (intro conjI inv_keep [OF assms])
     (use assms in \<open>simp_all add: remote_inv_def set_route_ttl_def add_preferred_parent_def set_remote_fns_def
       remote_set_session_flags_def mark_all_entities_dirty_def\<close>)

lemma inv_ota_setter: "remote_inv r \<Longrightarrow> remote_inv (set_ota_over_espnow b r)"
  by (rule inv_keep, assumption) (simp_all add: remote_inv_def set_ota_over_espnow_def ok_update receiver_steps ok_facts)

lemma inv_entity_ops:
  assumes "remote_inv r"
  shows "remote_inv (snd (register_entity ty n u opts eid r)) \<and> remote_inv (set_entity_options i opts r) \<and>
    remote_inv (on_entity_state_change i v r) \<and> remote_inv (on_entity_text_change i t r)"
  by (intro conjI inv_keep [OF assms])
     (use assms in \<open>simp_all add: remote_inv_def register_entity_def set_entity_options_def on_entity_state_change_def
       on_entity_text_change_def Let_def split: option.split\<close>)

lemma ok_drain: "remote_ok r \<Longrightarrow> n \<le> rp_log_count r \<Longrightarrow> remote_ok (remote_drain_log n r)"
proof (induction n arbitrary: r)
  case (Suc n)
  let ?s = "r\<lparr>rp_log_tail := (rp_log_tail r + 1) mod PACKET_LOG_SIZE, rp_log_count := rp_log_count r - 1\<rparr>"
  have "((rp_log_tail r + 1) mod PACKET_LOG_SIZE + (rp_log_count r - 1)) mod PACKET_LOG_SIZE =
      (rp_log_tail r + rp_log_count r) mod PACKET_LOG_SIZE"
    using Suc.prems(2) mod_add_left_eq [of "rp_log_tail r + 1" PACKET_LOG_SIZE "rp_log_count r - 1"] by simp
  then have "remote_ok ?s"
    using Suc.prems by (simp add: remote_ok_def remote_log_ok_def PACKET_LOG_SIZE_def le_diff_conv trans_le_add1)
  moreover have "n \<le> rp_log_count ?s" using Suc.prems(2) by simp
  ultimately show ?case using Suc.IH by simp
qed simp

lemma flags_drain [simp]: "mode_of (remote_drain_log n r) = mode_of r"
  by (induction n arbitrary: r) simp_all

lemma inv_flush: "remote_inv r \<Longrightarrow> remote_inv (remote_flush_log_queue r)"
  by (rule inv_keep, assumption) (simp_all add: remote_inv_def remote_flush_log_queue_def ok_drain)

section \<open>Reachable states\<close>

inductive remote_step :: "remote \<Rightarrow> remote \<Rightarrow> bool" where
  frame: "length sender = 6 \<Longrightarrow> remote_step r (snd (remote_on_espnow_frame env sender fr rssi r))"
| loop: "remote_step r (remote_loop env r)"
| flush: "remote_step r (remote_flush_log_queue r)"
| relay_config: "remote_step r (set_relay_config b h d r)"
| relay_runtime: "remote_step r (set_relay_enabled_runtime b r)"
| route_ttl: "remote_step r (set_route_ttl t r)"
| preferred_parent: "remote_step r (add_preferred_parent m r)"
| callbacks: "remote_step r (set_remote_fns f g r)"
| session_flags: "remote_step r (remote_set_session_flags fl r)"
| ota_enabled: "remote_step r (set_ota_over_espnow b r)"
| register: "remote_step r (snd (register_entity ty n u opts eid r))"
| options: "remote_step r (set_entity_options i opts r)"
| state_change: "remote_step r (on_entity_state_change i v r)"
| text_change: "remote_step r (on_entity_text_change i txt r)"
| all_dirty: "remote_step r (mark_all_entities_dirty r)"

inductive remote_reachable :: "remote \<Rightarrow> bool" where
  start: "length m = 6 \<Longrightarrow>
    remote_reachable (set_local_mac m (snd (remote_init env psk net name label epoch pn pv hb remote_initial)))"
| step: "remote_reachable r \<Longrightarrow> remote_step r r' \<Longrightarrow> remote_reachable r'"

lemma remote_step_inv: "remote_step r r' \<Longrightarrow> remote_inv r \<Longrightarrow> remote_inv r'"
  by (induction rule: remote_step.induct)
     (simp_all add: inv_on_espnow_frame inv_remote_loop inv_flush inv_setters inv_plain_setter inv_ota_setter inv_entity_ops)

lemma remote_start_inv:
  "length m = 6 \<Longrightarrow>
    remote_inv (set_local_mac m (snd (remote_init env psk net name label epoch pn pv hb remote_initial)))"
proof -
  assume m: "length m = 6"
  have "recv_reachable (set_ota_enabled b (set_send_ack_fn recv_initial))" for b
    by (intro receiver_steps) (simp add: recv_reachable_def)
  then show ?thesis
    using m by (simp add: remote_inv_def set_local_mac_def remote_init_def case_prod_beta remote_initial_def remote_ok_def
        remote_log_ok_def flags_ok_def routes_ok_def empty_log_def PACKET_LOG_SIZE_def)
qed

theorem remote_reachable_inv: "remote_reachable r \<Longrightarrow> remote_inv r"
  by (induction rule: remote_reachable.induct) (simp_all add: remote_start_inv remote_step_inv)

end
