(* ===== verification/Remote_Laws.thy ===== *)
theory Remote_Laws
  imports Remote_Reach Bridge_Laws
begin

unbundle bit_operations_syntax

text \<open>
  What a tree of nodes does together: a session packet is the same packet after any number of relays, an
  answer takes the way back, a join ends with one key at both ends, and a command sent in fragments is
  executed once.
\<close>

section \<open>Packets on their way\<close>

text \<open>
  The frame parses at a node as a packet of this leaf, type, counter and body, and its network tag verifies.
  Nothing is said about the hop byte and the parent address, which relays rewrite.
\<close>

definition bears ::
  "hmac_fn \<Rightarrow> crypto_state \<Rightarrow> mac \<Rightarrow> espnow_packet_type_t \<Rightarrow> u32 \<Rightarrow> bytes \<Rightarrow> bytes option \<Rightarrow> bytes \<Rightarrow> bool" where
  "bears hmac g leaf ty tx body tag frame \<longleftrightarrow>
     (case remote_parse_frame frame of
        None \<Rightarrow> False
      | Some (h, pl, st, par) \<Rightarrow>
          pl = body \<and> st = tag \<and> packet_type_of (fh_packet_type h) = Some ty \<and> fh_leaf_mac h = leaf \<and> fh_tx_counter h = tx \<and>
          espnow_crypto_verify_psk_tag hmac g (enc_frame_header h) body (fh_psk_tag h))"

text \<open>A session packet: its session tag verifies as well, and it decrypts to this plaintext.\<close>

definition carries ::
  "hmac_fn \<Rightarrow> crypto_state \<Rightarrow> bytes \<Rightarrow> mac \<Rightarrow> espnow_packet_type_t \<Rightarrow> u32 \<Rightarrow> bytes \<Rightarrow> bytes \<Rightarrow> bool" where
  "carries hmac g key leaf ty tx plain frame \<longleftrightarrow>
     (case remote_parse_frame frame of
        Some (h, ct, Some st, par) \<Rightarrow>
          bears hmac g leaf ty tx ct (Some st) frame \<and>
          espnow_crypto_verify_session_tag hmac key (enc_frame_header h) ct st \<and>
          espnow_crypto_crypt g key tx ct = Some plain
      | _ \<Rightarrow> False)"

lemma bearsE:
  assumes "bears hmac g leaf ty tx body tag frame"
  obtains h par where "remote_parse_frame frame = Some (h, body, tag, par)"
    "packet_type_of (fh_packet_type h) = Some ty" "fh_leaf_mac h = leaf" "fh_tx_counter h = tx"
    "espnow_crypto_verify_psk_tag hmac g (enc_frame_header h) body (fh_psk_tag h)"
  using assms by (auto simp: bears_def split: option.splits)

lemma carriesE:
  assumes "carries hmac g key leaf ty tx plain frame"
  obtains h ct st par where "remote_parse_frame frame = Some (h, ct, Some st, par)"
    "bears hmac g leaf ty tx ct (Some st) frame"
    "packet_type_of (fh_packet_type h) = Some ty" "fh_leaf_mac h = leaf" "fh_tx_counter h = tx"
    "espnow_crypto_verify_psk_tag hmac g (enc_frame_header h) ct (fh_psk_tag h)"
    "espnow_crypto_verify_session_tag hmac key (enc_frame_header h) ct st"
    "espnow_crypto_crypt g key tx ct = Some plain"
  using assms by (auto simp: carries_def bears_def split: option.splits)

definition parent_len :: "u8 \<Rightarrow> nat" where
  "parent_len hop = (if has_parent_check hop then 6 else 0)"

definition tag_bytes :: "bytes option \<Rightarrow> bytes" where
  "tag_bytes tag = (case tag of None \<Rightarrow> [] | Some st \<Rightarrow> st)"

definition fits_type :: "espnow_packet_type_t \<Rightarrow> bytes option \<Rightarrow> bool" where
  "fits_type ty tag \<longleftrightarrow> (case tag of None \<Rightarrow> \<not> is_encrypted_packet ty | Some st \<Rightarrow> is_encrypted_packet ty \<and> length st = 8)"

lemma parse_relay_frame:
  assumes "wf_frame_header h" "fh_protocol_version h = 3" "packet_type_of (fh_packet_type h) = Some ty" "fits_type ty tag"
    and "length par = parent_len (fh_hop_count h)" "17 + length par + length body + length (tag_bytes tag) \<le> 1470"
  shows "remote_parse_frame (enc_frame_header h @ par @ body @ tag_bytes tag) =
    Some (h, body, tag, if has_parent_check (fh_hop_count h) then par else replicate 6 0)"
  using assms
  by (simp add: remote_parse_frame_def Let_def fh.dec_enc [OF assms(1)] fh.enc_length [OF assms(1)] parent_len_def part_of_def
      fits_type_def tag_bytes_def split: option.splits)

lemma remote_parse_split:
  assumes "remote_parse_frame frame = Some (h, body, tag, par)" "packet_type_of (fh_packet_type h) = Some ty"
  shows "wf_frame_header h" "fh_protocol_version h = 3" "fits_type ty tag"
    "length frame = 17 + parent_len (fh_hop_count h) + length body + length (tag_bytes tag)" "length frame \<le> 1470"
    "h = dec_frame_header frame"
  using assms fh.wf_dec [of frame]
  by (auto simp: remote_parse_frame_def Let_def parent_len_def fits_type_def tag_bytes_def split: if_splits option.splits)

lemma verify_psk_set: "espnow_crypto_verify_psk_tag hmac g h p t \<Longrightarrow> g_psk_set g"
  using verify_psk_unset by blast

lemma header_part:
  assumes "length (fh_leaf_mac h) = 6" "fh_packet_type h' = fh_packet_type h" "fh_leaf_mac h' = fh_leaf_mac h"
    "fh_tx_counter h' = fh_tx_counter h"
  shows "part_of 2 11 (enc_frame_header h @ r) = part_of 2 11 (enc_frame_header h' @ r')"
  using assms by (simp add: tagged_part_enc)

section \<open>Relaying\<close>

lemma forwarded_hops_bits:
  "has_parent_check (forwarded_hops hop d) = has_parent_check hop"
  "ESPNOW_HOPS_IS_UPSTREAM (forwarded_hops hop d) = ESPNOW_HOPS_IS_UPSTREAM hop"
  "ESPNOW_HOPS_COUNT (forwarded_hops hop d) = (ESPNOW_HOPS_COUNT hop + d) AND 0x0F"
proof -
  have m: "forwarded_hops hop d AND 0x40 = hop AND 0x40" "forwarded_hops hop d AND 0x80 = hop AND 0x80"
    "forwarded_hops hop d AND 0x0F = ((hop AND 0x0F) + d) AND 0x0F"
    by (simp_all add: forwarded_hops_def ESPNOW_HOPS_MAKE_def ESPNOW_HOPS_COUNT_def bit.conj_disj_distrib2 and.assoc)
  show "has_parent_check (forwarded_hops hop d) = has_parent_check hop"
    "ESPNOW_HOPS_IS_UPSTREAM (forwarded_hops hop d) = ESPNOW_HOPS_IS_UPSTREAM hop"
    "ESPNOW_HOPS_COUNT (forwarded_hops hop d) = (ESPNOW_HOPS_COUNT hop + d) AND 0x0F"
    using m by (simp_all add: has_parent_check_def ESPNOW_HOPS_IS_UPSTREAM_def ESPNOW_HOPS_COUNT_def)
qed

text \<open>The header a relay writes: another hop byte, and a network tag of its own.\<close>

lemma bears_forwarded:
  assumes b: "bears hmac g leaf ty tx body tag frame" and p: "remote_parse_frame frame = Some (h, body, tag, par)"
  obtains h2 par2 where "remote_parse_frame (forwarded_frame hmac g h body tag d) = Some (h2, body, tag, par2)"
    "bears hmac g leaf ty tx body tag (forwarded_frame hmac g h body tag d)"
    "length (forwarded_frame hmac g h body tag d) = length frame"
    "fh_hop_count h2 = forwarded_hops (fh_hop_count h) d" "h2 = dec_frame_header (forwarded_frame hmac g h body tag d)"
    "fh_packet_type h2 = fh_packet_type h" "fh_leaf_mac h2 = fh_leaf_mac h" "fh_tx_counter h2 = fh_tx_counter h"
proof -
  have k: "packet_type_of (fh_packet_type h) = Some ty" "fh_leaf_mac h = leaf" "fh_tx_counter h = tx"
    "espnow_crypto_verify_psk_tag hmac g (enc_frame_header h) body (fh_psk_tag h)"
    using b p by (auto simp: bears_def)
  note s = remote_parse_split [OF p k(1)]
  define h1 where "h1 = h\<lparr>fh_hop_count := forwarded_hops (fh_hop_count h) d\<rparr>"
  define h2 where "h2 = h1\<lparr>fh_psk_tag := espnow_crypto_psk_tag hmac g (enc_frame_header h1) body\<rparr>"
  define P where "P = replicate (parent_len (fh_hop_count h)) (0 :: u8)"
  have w: "wf_frame_header h2" using s(1) by (simp add: h2_def h1_def wf_frame_header_def)
  have h2: "fh_packet_type h2 = fh_packet_type h" "fh_leaf_mac h2 = fh_leaf_mac h" "fh_tx_counter h2 = fh_tx_counter h"
    "fh_hop_count h2 = forwarded_hops (fh_hop_count h) d" "fh_protocol_version h2 = fh_protocol_version h"
    by (simp_all add: h2_def h1_def)
  have f: "forwarded_frame hmac g h body tag d = enc_frame_header h2 @ P @ body @ tag_bytes tag"
    using s(3) by (auto simp: forwarded_frame_def Let_def h1_def [symmetric] h2_def [symmetric] P_def parent_len_def tag_bytes_def
        fits_type_def split: option.splits)
  have lP: "length P = parent_len (fh_hop_count h2)" by (simp add: P_def h2 parent_len_def forwarded_hops_bits)
  have parse: "remote_parse_frame (enc_frame_header h2 @ P @ body @ tag_bytes tag) =
     Some (h2, body, tag, if has_parent_check (fh_hop_count h2) then P else replicate 6 0)"
    using s k(1) lP h2 by (intro parse_relay_frame [OF w, of ty]) (simp_all add: P_def)
  have e: "part_of 2 11 (enc_frame_header h1) = part_of 2 11 (enc_frame_header h2)"
    by (rule header_part [of h1 h2 "[]" "[]", unfolded append_Nil2]) (use s(1) in \<open>simp_all add: h2_def h1_def wf_frame_header_def\<close>)
  have "espnow_crypto_verify_psk_tag hmac g (enc_frame_header h2) body (fh_psk_tag h2)"
    using psk.verify_relayed [OF verify_psk_set [OF k(4)] e] by (simp add: h2_def)
  then have "bears hmac g leaf ty tx body tag (enc_frame_header h2 @ P @ body @ tag_bytes tag)"
    using k h2 by (simp add: bears_def parse)
  moreover have "length (enc_frame_header h2 @ P @ body @ tag_bytes tag) = length frame"
    using s(4) lP by (simp add: fh.enc_length [OF w] P_def)
  moreover have "h2 = dec_frame_header (enc_frame_header h2 @ P @ body @ tag_bytes tag)" by (simp add: fh.dec_enc [OF w])
  ultimately show thesis using that parse h2 unfolding f by blast
qed

lemma carries_cong:
  assumes "carries hmac g key leaf ty tx plain frame" "remote_parse_frame frame = Some (h, body, tag, par)"
    and "bears hmac g leaf ty tx body tag frame'"
  shows "carries hmac g key leaf ty tx plain frame'"
proof -
  obtain st where c: "tag = Some st" "packet_type_of (fh_packet_type h) = Some ty" "fh_leaf_mac h = leaf" "fh_tx_counter h = tx"
    "espnow_crypto_verify_session_tag hmac key (enc_frame_header h) body st" "espnow_crypto_crypt g key tx body = Some plain"
    by (rule carriesE [OF assms(1)]) (use assms(2) in auto)
  obtain h' par' where p: "remote_parse_frame frame' = Some (h', body, tag, par')" "packet_type_of (fh_packet_type h') = Some ty"
    "fh_leaf_mac h' = leaf" "fh_tx_counter h' = tx" by (rule bearsE [OF assms(3)])
  have l: "length leaf = 6" "length st = 8"
    using remote_parse_split [OF assms(2) c(2)] c(1, 3) by (simp_all add: wf_frame_header_def fits_type_def)
  have "fh_packet_type h' = fh_packet_type h" using c(2) p(2) by (simp add: packet_type_of_eq_Some)
  then have e: "part_of 2 11 (enc_frame_header h) = part_of 2 11 (enc_frame_header h')"
    using header_part [of h h' "[]" "[]"] c p l by simp
  have "st = espnow_crypto_session_tag hmac key (enc_frame_header h) body" using c(5) l(2) by (simp add: sess.verify_iff)
  then have "espnow_crypto_verify_session_tag hmac key (enc_frame_header h') body st"
    using sess.verify_relayed [OF _ e] by metis
  then show ?thesis using assms(3) c p by (simp add: carries_def)
qed

section \<open>The routing table\<close>

text \<open>What relaying needs of the routes: the last neighbour a node was heard through is where its packets go.\<close>

locale routing_table =
  fixes lookup :: "'m \<Rightarrow> 't \<Rightarrow> 'm option" and learn :: "'m \<Rightarrow> 'm \<Rightarrow> 't \<Rightarrow> 't" and self :: "'t \<Rightarrow> 'm"
  assumes lookup_learn: "m \<noteq> self t \<Longrightarrow> nh \<noteq> self t \<Longrightarrow>
      lookup m' (learn m nh t) = (if m' = m then Some nh else lookup m' t)"
    and learn_self: "m = self t \<or> nh = self t \<Longrightarrow> learn m nh t = t"
    and self_learn: "self (learn m nh t) = self t"
begin

lemma lookup_learn_all:
  "lookup m (fold (\<lambda>(m, nh). learn m nh) ps t) =
     ((\<lambda>m. lookup m t) ++ map_of (rev (filter (\<lambda>(m, nh). m \<noteq> self t \<and> nh \<noteq> self t) ps))) m"
proof (induction ps arbitrary: t)
  case (Cons p ps)
  obtain k nh where p: "p = (k, nh)" by (cases p)
  show ?case
    using Cons.IH [of "learn k nh t"] learn_self [of k t nh] lookup_learn [of k t nh]
    by (auto simp: p self_learn map_add_def split: option.split)
qed (simp add: map_add_def)

lemma never_self:
  assumes "\<forall>m. lookup m t \<noteq> Some (self t)"
  shows "lookup m (learn k nh t) \<noteq> Some (self (learn k nh t))"
  using assms lookup_learn [of k t nh m] learn_self [of k t nh] by (cases "k = self t \<or> nh = self t") (auto simp: self_learn)

end

definition next_hop :: "mac \<Rightarrow> remote \<Rightarrow> mac option" where
  "next_hop leaf r = map_option rt_next_hop_mac (find_route leaf r)"

lemma find_update_route:
  assumes "\<And>t. rt_leaf_mac (f t) = rt_leaf_mac t"
  shows "find (\<lambda>t. rt_leaf_mac t = m') (update_route m f ts) =
    map_option (if m' = m then f else (\<lambda>t. t)) (find (\<lambda>t. rt_leaf_mac t = m') ts)"
  using assms by (induction ts) (auto simp: option.map_ident)

lemma find_snoc: "find P (xs @ [x]) = (case find P xs of None \<Rightarrow> if P x then Some x else None | Some y \<Rightarrow> Some y)"
  by (induction xs) auto

lemma refresh_route_self: "rp_leaf_mac (snd (refresh_route env m nh r)) = rp_leaf_mac r"
  by (simp add: refresh_route_def Let_def)

interpretation rt: routing_table next_hop "\<lambda>m nh r. snd (refresh_route env m nh r)" rp_leaf_mac for env
proof
  fix m nh m' :: mac and r :: remote
  assume "m \<noteq> rp_leaf_mac r" "nh \<noteq> rp_leaf_mac r"
  then show "next_hop m' (snd (refresh_route env m nh r)) = (if m' = m then Some nh else next_hop m' r)"
    by (auto simp: next_hop_def refresh_route_def find_route_def Let_def find_update_route find_snoc new_route_def
        option.map_comp comp_def split: option.splits)
qed (auto simp: refresh_route_def Let_def)

section \<open>A relay\<close>

lemma relay_keeps [simp]:
  "rp_events (note_relay m r) = rp_events r" "rp_crypto (note_relay m r) = rp_crypto r" "rp_parent_mac (note_relay m r) = rp_parent_mac r"
  "rp_events (log_forward h n k r) = rp_events r" "rp_crypto (log_forward h n k r) = rp_crypto r"
  "rp_parent_mac (log_forward h n k r) = rp_parent_mac r" "rp_routes (log_forward h n k r) = rp_routes r"
  "rp_send_fn (log_forward h n k r) = rp_send_fn r"
  "rp_events (snd (refresh_route env m nh r)) = rp_events r" "rp_crypto (snd (refresh_route env m nh r)) = rp_crypto r"
  "rp_parent_mac (snd (refresh_route env m nh r)) = rp_parent_mac r"
  by (simp_all add: note_relay_def remote_queue_state_log_def log_forward_def remote_queue_log_def refresh_route_def Let_def
      split: option.split)

lemma next_hop_note_relay: "next_hop m' (note_relay m r) = next_hop m' r"
proof (cases "find_route m r")
  case (Some rt)
  then show ?thesis
    by (simp add: note_relay_def next_hop_def find_route_def remote_queue_state_log_def find_update_route option.map_comp comp_def)
qed (simp add: note_relay_def)

lemma next_hop_cong: "rp_routes r' = rp_routes r \<Longrightarrow> next_hop m r' = next_hop m r"
  by (simp add: next_hop_def find_route_def)

lemma forward_frame_sent:
  assumes "forward_frame env m h p tag d r = (True, r')"
  shows "rp_events r' = rp_events r @ [RemoteSend m (forwarded_frame (rn_hmac env) (rp_crypto r) h p tag d)] \<and>
    rp_routes r' = rp_routes r"
  using assms by (auto simp: forward_frame_def Let_def call_send_fn_def rp_asked_def rp_event_def split: if_splits)

lemma forward_packet_sent:
  assumes "forward_packet env h p tag r = (True, r')"
  shows "\<exists>m. rp_events r' = rp_events r @ [RemoteSend m (forwarded_frame (rn_hmac env) (rp_crypto r) h p tag
        (if ESPNOW_HOPS_IS_UPSTREAM (fh_hop_count h) then 0 else 1))] \<and>
    (if ESPNOW_HOPS_IS_UPSTREAM (fh_hop_count h) then m = rp_parent_mac r \<and> rp_routes r' = rp_routes r
     else next_hop (fh_leaf_mac h) r = Some m)"
proof (cases "ESPNOW_HOPS_IS_UPSTREAM (fh_hop_count h)")
  case True
  then show ?thesis
    using assms forward_frame_sent [of env "rp_parent_mac r" h p tag 0] by (fastforce simp: forward_packet_def Let_def split: if_splits)
next
  case False
  then obtain rt where rt: "find_route (fh_leaf_mac h) r = Some rt"
    using assms by (auto simp: forward_packet_def Let_def split: option.splits)
  then show ?thesis
    using assms False forward_frame_sent [of env "rt_next_hop_mac rt" h p tag 1] by (fastforce simp: forward_packet_def Let_def next_hop_def)
qed

lemma handle_upstream_sent:
  assumes "handle_upstream env sender h p tag r = (True, r')" "ESPNOW_HOPS_IS_UPSTREAM (fh_hop_count h)"
  shows "rp_events r' = rp_events r @ [RemoteSend (rp_parent_mac r) (forwarded_frame (rn_hmac env) (rp_crypto r) h p tag 0)] \<and>
    next_hop m r' = next_hop m (snd (refresh_route env (fh_leaf_mac h) sender r))"
proof -
  define s where "s = (if packet_type_of (fh_packet_type h) = Some PKT_JOIN \<or> packet_type_of (fh_packet_type h) = Some PKT_HEARTBEAT
      then note_relay (fh_leaf_mac h) (snd (refresh_route env (fh_leaf_mac h) sender r)) else snd (refresh_route env (fh_leaf_mac h) sender r))"
  have f: "forward_packet env h p tag s = (True, r')"
    using assms(1) by (auto simp: handle_upstream_def Let_def s_def split: if_splits)
  have s: "rp_events s = rp_events r" "rp_crypto s = rp_crypto r" "rp_parent_mac s = rp_parent_mac r"
    "next_hop m s = next_hop m (snd (refresh_route env (fh_leaf_mac h) sender r))"
    by (simp_all add: s_def next_hop_note_relay)
  show ?thesis
    using forward_packet_sent [OF f] s next_hop_cong [of r' s] assms(2) by simp
qed

lemma relayed_not_local:
  assumes "packet_type_of (fh_packet_type h) = Some ty" "ty \<noteq> PKT_DISCOVER" "ty \<noteq> PKT_DISCOVER_ANNOUNCE" "fh_leaf_mac h \<noteq> rp_leaf_mac r"
  shows "\<not> should_handle_locally h r"
  using assms by (auto simp: should_handle_locally_def)

lemma noted_parent [simp]:
  "rp_events (note_parent_rssi m rssi r) = rp_events r" "rp_crypto (note_parent_rssi m rssi r) = rp_crypto r"
  "rp_parent_mac (note_parent_rssi m rssi r) = rp_parent_mac r" "rp_leaf_mac (note_parent_rssi m rssi r) = rp_leaf_mac r"
  "rp_routes (note_parent_rssi m rssi r) = rp_routes r"
  by (simp_all add: note_parent_rssi_def)

text \<open>A relay that forwards a packet sends the same packet on and, for one on its way up, learns the way back.\<close>

lemma relay_step:
  assumes c: "bears (rn_hmac env) (rp_crypto r) leaf ty tx body tag frame" and leaf: "leaf \<noteq> rp_leaf_mac r"
    and ty: "ty \<noteq> PKT_DISCOVER" "ty \<noteq> PKT_DISCOVER_ANNOUNCE"
    and step: "remote_on_espnow_frame env sender frame rssi r = (True, r')"
  shows "\<exists>m frame'. rp_events r' = rp_events r @ [RemoteSend m frame'] \<and>
    bears (rn_hmac env) (rp_crypto r) leaf ty tx body tag frame' \<and> length frame' = length frame \<and>
    (if ESPNOW_HOPS_IS_UPSTREAM (fh_hop_count (dec_frame_header frame))
     then m = rp_parent_mac r \<and> (sender \<noteq> rp_leaf_mac r \<longrightarrow> next_hop leaf r' = Some sender) \<and>
       fh_hop_count (dec_frame_header frame') = forwarded_hops (fh_hop_count (dec_frame_header frame)) 0
     else next_hop leaf r = Some m \<and>
       fh_hop_count (dec_frame_header frame') = forwarded_hops (fh_hop_count (dec_frame_header frame)) 1)"
proof -
  obtain h par where p: "remote_parse_frame frame = Some (h, body, tag, par)"
    and k: "packet_type_of (fh_packet_type h) = Some ty" "fh_leaf_mac h = leaf" by (rule bearsE [OF c])
  define r2 where "r2 = note_parent_rssi sender rssi (if has_parent_check (fh_hop_count h) then r\<lparr>rp_last_parent_mac := par\<rparr> else r)"
  have r2: "rp_events r2 = rp_events r" "rp_crypto r2 = rp_crypto r" "rp_parent_mac r2 = rp_parent_mac r"
    "rp_leaf_mac r2 = rp_leaf_mac r" "rp_routes r2 = rp_routes r" by (simp_all add: r2_def)
  have d: "dispatch_frame env sender ty h body tag (length frame) rssi r2 = (True, r')"
    using step p k(1) by (simp add: remote_on_espnow_frame_def Let_def r2_def split: if_splits)
  have loc: "\<not> should_handle_locally h r2" using relayed_not_local k leaf ty r2(4) by metis
  have up: "dec_frame_header frame = h" using remote_parse_header [OF p] by simp
  obtain f where fw: "bears (rn_hmac env) (rp_crypto r) leaf ty tx body tag (f d) \<and> length (f d) = length frame \<and>
      fh_hop_count (dec_frame_header (f d)) = forwarded_hops (fh_hop_count h) d \<and> f d = forwarded_frame (rn_hmac env) (rp_crypto r) h body tag d"
    for d using bears_forwarded [OF c p] by metis
  show ?thesis
  proof (cases "ESPNOW_HOPS_IS_UPSTREAM (fh_hop_count h)")
    case True
    then have u: "handle_upstream env sender h body tag r2 = (True, r')"
      using d loc by (simp add: dispatch_frame_def split: if_splits)
    have "next_hop leaf r' = Some sender" if "sender \<noteq> rp_leaf_mac r"
      using handle_upstream_sent [OF u True, of leaf] rt.lookup_learn [of leaf r2 sender leaf env] that leaf k(2) r2(4) by simp
    then show ?thesis
      using handle_upstream_sent [OF u True] fw [of 0] r2 True up by auto
  next
    case False
    then have "forward_packet env h body tag r2 = (True, r')"
      using d loc by (simp add: dispatch_frame_def handle_downstream_def Let_def split: if_splits)
    from forward_packet_sent [OF this] show ?thesis
      using fw [of 1] r2 False up next_hop_cong [OF r2(5)] k(2) by auto
  qed
qed

text \<open>The frame a node passes on, if it does, and a chain of relays.\<close>

definition relayed :: "remote_env \<Rightarrow> mac \<Rightarrow> u8 \<Rightarrow> remote \<Rightarrow> bytes \<Rightarrow> bytes option" where
  "relayed env sender rssi r frame =
     (case remote_on_espnow_frame env sender frame rssi r of
        (ok, r') \<Rightarrow> if \<not> ok then None
          else case drop (length (rp_events r)) (rp_events r') of [RemoteSend m f] \<Rightarrow> Some f | _ \<Rightarrow> None)"

fun along :: "(remote_env \<times> mac \<times> u8 \<times> remote) list \<Rightarrow> bytes \<Rightarrow> bytes option" where
  "along [] frame = Some frame"
| "along ((env, sender, rssi, r) # hops) frame =
     (case relayed env sender rssi r frame of None \<Rightarrow> None | Some f \<Rightarrow> along hops f)"

text \<open>The hop byte behind a chain of relays: the direction and the parent bit are kept, downstream hops are counted.\<close>

definition hops_after :: "nat \<Rightarrow> bytes \<Rightarrow> bytes \<Rightarrow> bool" where
  "hops_after n frame frame' \<longleftrightarrow>
     (let hop = fh_hop_count (dec_frame_header frame); hop' = fh_hop_count (dec_frame_header frame') in
      has_parent_check hop' = has_parent_check hop \<and> ESPNOW_HOPS_IS_UPSTREAM hop' = ESPNOW_HOPS_IS_UPSTREAM hop \<and>
      ESPNOW_HOPS_COUNT hop' = (ESPNOW_HOPS_COUNT hop + (if ESPNOW_HOPS_IS_UPSTREAM hop then 0 else word_of_nat n)) AND 0x0F)"

lemma hop_add: "((x AND 0x0F) + d) AND 0x0F = (x + d) AND (0x0F :: u8)"
proof -
  have m: "y AND 0x0F = take_bit 4 y" for y :: u8 by (simp add: take_bit_eq_mask mask_eq_exp_minus_1)
  show ?thesis unfolding m by transfer (simp add: take_bit_eq_mod mod_simps)
qed

lemma hops_after_0: "hops_after 0 frame frame"
  by (simp add: hops_after_def ESPNOW_HOPS_COUNT_def and.assoc)

lemma hops_after_Suc:
  assumes "fh_hop_count (dec_frame_header f) = forwarded_hops (fh_hop_count (dec_frame_header frame))
       (if ESPNOW_HOPS_IS_UPSTREAM (fh_hop_count (dec_frame_header frame)) then 0 else 1)" "hops_after n f frame'"
  shows "hops_after (Suc n) frame frame'"
  using assms by (simp add: hops_after_def Let_def forwarded_hops_bits hop_add add.assoc split: if_splits)

lemma along_bears:
  assumes "along hops frame = Some frame'" "bears hmac g leaf ty tx body tag frame" "ty \<noteq> PKT_DISCOVER" "ty \<noteq> PKT_DISCOVER_ANNOUNCE"
    and "\<forall>(env, sender, rssi, r)\<in>set hops. rn_hmac env = hmac \<and> rp_crypto r = g \<and> rp_leaf_mac r \<noteq> leaf"
  shows "bears hmac g leaf ty tx body tag frame' \<and> length frame' = length frame \<and> hops_after (length hops) frame frame'"
  using assms
proof (induction hops arbitrary: frame)
  case (Cons x hops)
  obtain env sender rssi r where x: "x = (env, sender, rssi, r)" by (cases x)
  then obtain f where f: "relayed env sender rssi r frame = Some f" "along hops f = Some frame'"
    using Cons.prems(1) by (auto split: option.splits)
  obtain r' where r': "remote_on_espnow_frame env sender frame rssi r = (True, r')"
    using f(1) by (auto simp: relayed_def split: prod.splits if_splits)
  have e: "rn_hmac env = hmac" "rp_crypto r = g" "rp_leaf_mac r \<noteq> leaf" using Cons.prems(5) by (auto simp: x)
  obtain m f' where f': "rp_events r' = rp_events r @ [RemoteSend m f']" "bears hmac g leaf ty tx body tag f'" "length f' = length frame"
    "fh_hop_count (dec_frame_header f') = forwarded_hops (fh_hop_count (dec_frame_header frame))
       (if ESPNOW_HOPS_IS_UPSTREAM (fh_hop_count (dec_frame_header frame)) then 0 else 1)"
    using relay_step [OF Cons.prems(2) [folded e(1, 2)] e(3) [symmetric] Cons.prems(3, 4) r'] e by auto
  then have "f' = f" using f(1) by (simp add: relayed_def r')
  then show ?case
    using Cons.IH [OF f(2)] Cons.prems(3-5) f'(2, 3) hops_after_Suc [OF f'(4), of "length hops" frame'] by (simp add: x)
qed (simp add: hops_after_0)

lemma along_carries:
  assumes "along hops frame = Some frame'" "carries hmac g key leaf ty tx plain frame"
    and "\<forall>(env, sender, rssi, r)\<in>set hops. rn_hmac env = hmac \<and> rp_crypto r = g \<and> rp_leaf_mac r \<noteq> leaf"
  shows "carries hmac g key leaf ty tx plain frame' \<and> length frame' = length frame \<and> hops_after (length hops) frame frame'"
proof -
  obtain h ct st par where p: "remote_parse_frame frame = Some (h, ct, Some st, par)" "bears hmac g leaf ty tx ct (Some st) frame"
    "packet_type_of (fh_packet_type h) = Some ty" by (rule carriesE [OF assms(2)])
  have "is_encrypted_packet ty" using remote_parse_split(3) [OF p(1, 3)] by (simp add: fits_type_def)
  then have "ty \<noteq> PKT_DISCOVER" "ty \<noteq> PKT_DISCOVER_ANNOUNCE" by auto
  from along_bears [OF assms(1) p(2) this assms(3)] show ?thesis using carries_cong [OF assms(2) p(1)] by blast
qed

section \<open>Commands\<close>

lemma remote_fill_slot_eq: "unat (epv_fragment_index v) < unat (fa_fragment_count a) \<Longrightarrow> remote_fill_slot v mef cap a = fill_slot v mef cap a"
  by (simp add: remote_fill_slot_def fill_slot_def Let_def)

interpretation remote_frag: fragment_store remote_store_fragment
proof
  fix a :: espnow_fragment_assembly_t and n :: nat and mef cap :: u16 and v :: EntityPayloadView and tx now :: u32
  assume f: "fits n mef v" and c: "n * unat mef \<le> unat cap"
  have e: "remote_fill_slot v mef cap b = fill_slot v mef cap b" if "assembling n tx mef b" for b
    using f that by (intro remote_fill_slot_eq) (simp add: fits_def assembling_def)
  {
    assume "\<not> fa_active a"
    then obtain b where b: "open_assembly a v tx now mef cap = Some b" "assembling n tx mef b" "frag_of mef b = Map.empty"
      by (rule open_assembly_fresh [OF _ f c])
    then show "fst (remote_store_fragment a v tx now mef cap) \<and> assembling n tx mef (snd (remote_store_fragment a v tx now mef cap)) \<and>
      frag_of mef (snd (remote_store_fragment a v tx now mef cap)) = [unat (epv_fragment_index v) \<mapsto> epv_value v]"
      using fill_slot_assembling [OF b(2) f c] by (simp add: remote_store_fragment_def e)
  next
    assume a: "assembling n tx mef a"
    then have "assembling n tx mef (a\<lparr>fa_last_seen_ms := now\<rparr>)" by simp
    from fill_slot_assembling [OF this f c] show
      "fst (remote_store_fragment a v tx now mef cap) \<and> assembling n tx mef (snd (remote_store_fragment a v tx now mef cap)) \<and>
      frag_of mef (snd (remote_store_fragment a v tx now mef cap)) =
        (if frag_of mef a (unat (epv_fragment_index v)) = None
         then (frag_of mef a)(unat (epv_fragment_index v) \<mapsto> epv_value v) else frag_of mef a)"
      using open_assembly_same [OF a f] a by (simp add: remote_store_fragment_def e)
  }
next
  fix a :: espnow_fragment_assembly_t and tx now :: u32 and v :: EntityPayloadView and mef cap :: u16
  assume "fa_active a" "fa_message_tx_base a \<noteq> tx \<or> fa_fragment_count a \<noteq> epv_fragment_count v"
  then show "remote_store_fragment a v tx now mef cap = (False, a)" by (simp add: remote_store_fragment_def open_assembly_def)
qed

text \<open>What a node's command handler works on, and the commands it has executed.\<close>

definition session_of :: "remote \<Rightarrow> bool \<times> bool \<times> bytes \<times> crypto_state \<times> mac \<times> u8 \<times> u16 \<times> u16 \<times> u16 \<times> u16 \<times> bool" where
  "session_of r = (rp_joined r, rp_session_key_valid r, rp_session_key r, rp_crypto r, rp_leaf_mac r, rp_max_hops r,
     rp_session_max_payload r, rp_max_entity_fragment r, rp_max_assembly_bytes r, rp_max_total_fragment_bytes r, rp_command_fn r)"

fun is_command :: "remote_event \<Rightarrow> bool" where
  "is_command (CommandFn i fl v) = True"
| "is_command _ = False"

definition desk ::
  "remote \<Rightarrow> EntityRecord list \<times> (u8, espnow_fragment_assembly_t) omap \<times> u32 \<times> remote_event list" where
  "desk r = (rp_entity_records r, rp_pending_command_assemblies r, rp_pending_command_reserved_bytes r,
     filter is_command (rp_events r))"

definition same_desk :: "remote \<Rightarrow> remote \<Rightarrow> bool" where
  "same_desk r r' \<longleftrightarrow> session_of r' = session_of r \<and> desk r' = desk r"

lemma same_desk_refl [simp]: "same_desk r r"
  by (simp add: same_desk_def)

lemma same_desk_trans: "same_desk r s \<Longrightarrow> same_desk s t \<Longrightarrow> same_desk r t"
  by (simp add: same_desk_def)

lemmas desk_defs = same_desk_def session_of_def desk_def

lemma desk_update [simp]:
  "same_desk r (s\<lparr>rp_last_tx_ms := a\<rparr>) = same_desk r s" "same_desk r (s\<lparr>rp_tx_counter := b\<rparr>) = same_desk r s"
  "same_desk r (s\<lparr>rp_last_successful_outbound_ms := c\<rparr>) = same_desk r s"
  "same_desk r (s\<lparr>rp_consecutive_send_failures := d\<rparr>) = same_desk r s" "same_desk r (s\<lparr>rp_last_seen_counter := e\<rparr>) = same_desk r s"
  "same_desk r (s\<lparr>rp_last_parent_mac := p\<rparr>) = same_desk r s"
  by (simp_all add: desk_defs)

lemma desk_log [simp]:
  "same_desk r (remote_queue_log l s) = same_desk r s" "same_desk r (log_received env sender ty h pl n rssi s) = same_desk r s"
  "same_desk r (log_sent_frame env m ty hop tx n s) = same_desk r s" "same_desk r (log_command h n rssi view s) = same_desk r s"
  by (simp_all add: desk_defs log_received_def log_sent_frame_def log_command_def Let_def esp_wifi_get_channel_def rp_asked_def
      remote_queue_log_def)

lemma desk_notes [simp]:
  "same_desk r (note_parent_rssi m rssi s) = same_desk r s" "same_desk r (note_hops h s) = same_desk r s"
  "same_desk r (update_outstanding_request env t tx h pl s) = same_desk r s"
  "same_desk r (snd (call_send_fn env m f s)) = same_desk r s"
  by (simp_all add: desk_defs note_parent_rssi_def note_hops_def update_outstanding_request_def call_send_fn_def rp_asked_def
      rp_event_def Let_def)

lemma desk_send_frame [simp]: "same_desk r (snd (remote_send_frame env m ty h tx p enc s)) = same_desk r s"
  by (simp add: remote_send_frame_def Let_def case_prod_beta split: option.split)

lemma desk_command_ack [simp]: "same_desk r (snd (remote_send_command_ack env result tx s)) = same_desk r s"
  by (simp add: remote_send_command_ack_def Let_def split: option.split)

section \<open>A command in fragments\<close>

text \<open>A frame a node takes: within the hop limit, not bound to another parent, not longer than its session allows.\<close>

definition admissible :: "remote \<Rightarrow> bytes \<Rightarrow> bool" where
  "admissible r frame \<longleftrightarrow> ESPNOW_HOPS_COUNT (fh_hop_count (dec_frame_header frame)) < rp_max_hops r \<and>
     \<not> has_parent_check (fh_hop_count (dec_frame_header frame)) \<and> length frame \<le> unat (rp_session_max_payload r)"

lemma command_frame:
  assumes c: "carries (rn_hmac env) (rp_crypto r) (rp_session_key r) (rp_leaf_mac r) PKT_COMMAND tx plain frame"
    and r: "rp_joined r" "rp_session_key_valid r" "admissible r frame" and v: "parse_entity_payload plain = Some view"
  obtains h s where "same_desk r s" "fh_tx_counter h = tx"
    "remote_on_espnow_frame env sender frame rssi r = receive_command env h view (tx - ucast (epv_fragment_index view)) s"
proof -
  obtain h ct st par where p: "remote_parse_frame frame = Some (h, ct, Some st, par)"
    and k: "packet_type_of (fh_packet_type h) = Some PKT_COMMAND" "fh_leaf_mac h = rp_leaf_mac r" "fh_tx_counter h = tx"
      "espnow_crypto_verify_psk_tag (rn_hmac env) (rp_crypto r) (enc_frame_header h) ct (fh_psk_tag h)"
      "espnow_crypto_verify_session_tag (rn_hmac env) (rp_session_key r) (enc_frame_header h) ct st"
      "espnow_crypto_crypt (rp_crypto r) (rp_session_key r) tx ct = Some plain" by (rule carriesE [OF c])
  have hd: "dec_frame_header frame = h" using remote_parse_header [OF p] by simp
  define r2 where "r2 = note_parent_rssi sender rssi r"
  define r3 where "r3 = log_received env sender PKT_COMMAND h ct (length frame) rssi (note_hops h r2)"
  define s where "s = log_command h (length ct) rssi view r3"
  have d: "same_desk r r2" "same_desk r r3" "same_desk r s" by (simp_all add: r2_def r3_def s_def)
  have f: "rp_joined r3" "rp_session_key_valid r3" "rp_session_key r3 = rp_session_key r" "rp_crypto r3 = rp_crypto r"
    "rp_leaf_mac r2 = rp_leaf_mac r" "rp_session_max_payload r2 = rp_session_max_payload r"
    using d(1, 2) r by (auto simp: same_desk_def session_of_def)
  have o: "open_session_packet env r3 h ct (Some st) = Some plain"
    using f k by (simp add: open_session_packet_def validate_session_def)
  have "remote_handle_command env h ct (Some st) rssi r3 = receive_command env h view (tx - ucast (epv_fragment_index view)) s"
    using f(1) v k(3) by (simp add: remote_handle_command_def o s_def fragment_message_tx_base_def)
  moreover have "dispatch_frame env sender PKT_COMMAND h ct (Some st) (length frame) rssi r2 = remote_handle_command env h ct (Some st) rssi r3"
    using k(2) f(5) by (simp add: dispatch_frame_def should_handle_locally_def handle_local_def r3_def Let_def)
  moreover have "remote_on_espnow_frame env sender frame rssi r =
      dispatch_frame env sender PKT_COMMAND h ct (Some st) (length frame) rssi r2"
    using r(3) k(1, 4) f(6) by (auto simp: remote_on_espnow_frame_def p admissible_def hd validate_psk_def Let_def r2_def)
  ultimately show ?thesis using that [OF d(3) k(3)] by simp
qed

text \<open>The fragments of one command, as the parser of the node sees them.\<close>

definition piece_of :: "u8 \<Rightarrow> u16 \<Rightarrow> bytes \<Rightarrow> nat \<Rightarrow> EntityPayloadView \<Rightarrow> bool" where
  "piece_of idx mef val i v \<longleftrightarrow> epv_entity_index v = idx \<and> i < command_chunk_count mef val \<and>
     unat (epv_fragment_index v) = i \<and> unat (epv_fragment_count v) = command_chunk_count mef val \<and>
     epv_value v = take (unat mef) (drop (i * unat mef) val)"

lemma piece_fits: "piece_of idx mef val i v \<Longrightarrow> fits (command_chunk_count mef val) mef v"
  by (simp add: piece_of_def fits_def)

lemma piece_of_fragment:
  assumes "command_chunk_count mef val \<le> 255" "i < command_chunk_count mef val"
  obtains v where "parse_entity_payload (command_fragment mef idx val i) = Some v" "piece_of idx mef val i v"
    "ucast (epv_fragment_index v) = (word_of_nat i :: u32)"
proof -
  obtain fl where p: "parse_entity_payload (command_fragment mef idx val i) =
    Some \<lparr>epv_entity_index = idx, epv_flags = fl, epv_fragment_index = word_of_nat i,
          epv_fragment_count = word_of_nat (command_chunk_count mef val),
          epv_value = take (unat mef) (drop (i * unat mef) val)\<rparr>"
    using parse_command_fragment [OF assms] by blast
  have u: "unat (word_of_nat i :: u8) = i" "unat (word_of_nat (command_chunk_count mef val) :: u8) = command_chunk_count mef val"
    using assms by (simp_all add: unat_of_nat)
  have "ucast (word_of_nat i :: u8) = (word_of_nat i :: u32)"
    using u(1) assms by (simp add: word_unat_eq_iff unat_of_nat unsigned_ucast_eq take_bit_nat_eq_self)
  then show thesis using that [OF p] u assms by (simp add: piece_of_def)
qed

definition pending :: "u8 \<Rightarrow> remote \<Rightarrow> espnow_fragment_assembly_t option" where
  "pending idx r = omap_find (rp_pending_command_assemblies r) idx"

definition completed :: "u8 \<Rightarrow> remote \<Rightarrow> u32" where
  "completed idx r = er_last_completed_command_message_tx_base (rp_entity_records r ! unat idx)"

text \<open>The fragments in \<open>S\<close> have arrived.  A buffer that is opened is counted against the total twice.\<close>

definition collecting :: "u8 \<Rightarrow> u16 \<Rightarrow> bytes \<Rightarrow> u32 \<Rightarrow> nat set \<Rightarrow> remote \<Rightarrow> bool" where
  "collecting idx mef val tx S r \<longleftrightarrow>
     (case pending idx r of
        None \<Rightarrow> S = {} \<and> length (rp_pending_command_assemblies r) < ESPNOW_MAX_PENDING_FRAGMENT_ASSEMBLIES \<and>
          unat (rp_pending_command_reserved_bytes r) + 2 * (command_chunk_count mef val * unat mef) \<le> unat (rp_max_total_fragment_bytes r)
      | Some a \<Rightarrow> assembling (command_chunk_count mef val) tx mef a \<and>
          frag_of mef a = (\<lambda>i. if i \<in> S then Some (take (unat mef) (drop (i * unat mef) val)) else None))"

lemma reservation_fits:
  assumes "unat (reserved :: u32) + 2 * (n * unat mef) \<le> unat (tot :: u16)" "unat (epv_fragment_count v) = n"
  shows "\<not> reserved + command_reservation v mef + command_reservation v mef > ucast tot"
proof -
  have b: "unat tot < 65536" using unsigned_less [of tot, where 'a = nat] by simp
  define k where "k = n * unat mef"
  have k: "unat reserved + 2 * k < 65536" using assms(1) b by (simp add: k_def)
  have c: "unat (command_reservation v mef) = k"
    using assms(2) k unsigned_less [of "epv_fragment_count v", where 'a = nat] unsigned_less [of mef, where 'a = nat]
    by (simp add: command_reservation_def unat_word_ariths unsigned_ucast_eq take_bit_nat_eq_self k_def [symmetric])
  have "unat (reserved + command_reservation v mef) = unat reserved + k" using k c by (simp add: unat_word_ariths)
  then have "unat (reserved + command_reservation v mef + command_reservation v mef) = unat reserved + 2 * (n * unat mef)"
    using k c by (simp add: unat_word_ariths k_def)
  then show ?thesis using assms(1) b by (simp add: word_less_nat_alt not_less unsigned_ucast_eq take_bit_nat_eq_self)
qed

lemma stage_collecting:
  assumes col: "collecting idx mef val tx S r" and pc: "piece_of idx mef val i v"
    and mef: "rp_max_entity_fragment r = mef" and cap: "command_chunk_count mef val * unat mef \<le> unat (rp_max_assembly_bytes r)"
    and n: "command_chunk_count mef val \<noteq> 0"
  obtains a reserved where "stage_command_fragment env v tx r = (Some a, put_command_assembly idx a reserved r)"
    "assembling (command_chunk_count mef val) tx mef a"
    "frag_of mef a = (\<lambda>j. if j \<in> insert i S then Some (take (unat mef) (drop (j * unat mef) val)) else None)"
proof (cases "pending idx r")
  case None
  then have c: "S = {}" "length (rp_pending_command_assemblies r) < ESPNOW_MAX_PENDING_FRAGMENT_ASSEMBLIES"
      "unat (rp_pending_command_reserved_bytes r) + 2 * (command_chunk_count mef val * unat mef) \<le> unat (rp_max_total_fragment_bytes r)"
    using col by (simp_all add: collecting_def)
  let ?s = "remote_store_fragment fresh_assembly v tx (rn_now env) mef (rp_max_assembly_bytes r)"
  have ok: "fst ?s" "assembling (command_chunk_count mef val) tx mef (snd ?s)" "frag_of mef (snd ?s) = [i \<mapsto> epv_value v]"
    using remote_frag.store_first [OF _ piece_fits [OF pc] cap, of fresh_assembly tx "rn_now env"] pc
    by (simp_all add: fresh_assembly_def piece_of_def)
  have "stage_command_fragment env v tx r = (Some (snd ?s), put_command_assembly idx (snd ?s)
      (rp_pending_command_reserved_bytes r + command_reservation v mef) r)"
    using None c(2) ok(1) pc mef reservation_fits [OF c(3), of v]
    by (simp add: stage_command_fragment_def pick_command_assembly_def pending_def piece_of_def fresh_assembly_def case_prod_beta Let_def)
  then show thesis using that ok pc c(1) by (auto simp: piece_of_def fun_eq_iff)
next
  case (Some b)
  then have b: "assembling (command_chunk_count mef val) tx mef b"
      "frag_of mef b = (\<lambda>j. if j \<in> S then Some (take (unat mef) (drop (j * unat mef) val)) else None)"
    using col by (simp_all add: collecting_def)
  let ?s = "remote_store_fragment b v tx (rn_now env) mef (rp_max_assembly_bytes r)"
  have ok: "fst ?s" "assembling (command_chunk_count mef val) tx mef (snd ?s)"
      "frag_of mef (snd ?s) = (if frag_of mef b i = None then (frag_of mef b)(i \<mapsto> epv_value v) else frag_of mef b)"
    using remote_frag.store_next [OF b(1) piece_fits [OF pc] cap, of "rn_now env"] pc by (simp_all add: piece_of_def)
  have "fa_active b" "fa_message_tx_base b = tx" using b(1) by (simp_all add: assembling_def)
  then have "stage_command_fragment env v tx r = (Some (snd ?s), put_command_assembly idx (snd ?s) (rp_pending_command_reserved_bytes r) r)"
    using Some ok(1) pc mef
    by (simp add: stage_command_fragment_def pick_command_assembly_def pending_def piece_of_def case_prod_beta Let_def)
  moreover have "frag_of mef (snd ?s) = (\<lambda>j. if j \<in> insert i S then Some (take (unat mef) (drop (j * unat mef) val)) else None)"
    using ok(3) b(2) pc by (auto simp: piece_of_def fun_eq_iff)
  ultimately show thesis using that ok(2) by blast
qed

lemma same_deskD:
  assumes "same_desk r s"
  shows "rp_entity_records s = rp_entity_records r" "rp_pending_command_assemblies s = rp_pending_command_assemblies r"
    "rp_pending_command_reserved_bytes s = rp_pending_command_reserved_bytes r"
    "filter is_command (rp_events s) = filter is_command (rp_events r)" "rp_max_entity_fragment s = rp_max_entity_fragment r"
    "rp_max_assembly_bytes s = rp_max_assembly_bytes r" "rp_max_total_fragment_bytes s = rp_max_total_fragment_bytes r"
    "rp_command_fn s = rp_command_fn r" "session_of s = session_of r"
  using assms by (simp_all add: same_desk_def session_of_def desk_def)

lemma same_desk_views:
  assumes "same_desk r s"
  shows "collecting idx mef val tx S s = collecting idx mef val tx S r" "completed idx s = completed idx r"
  using same_deskD [OF assms] by (simp_all add: collecting_def pending_def completed_def cong: option.case_cong)

lemma complete_pieces:
  assumes "mef \<noteq> 0" "assembling (command_chunk_count mef val) tx mef a"
    and "frag_of mef a = (\<lambda>j. if j \<in> S then Some (take (unat mef) (drop (j * unat mef) val)) else None)"
  shows "fragment_assembly_complete a \<longleftrightarrow> {..<command_chunk_count mef val} \<subseteq> S"
    "fragment_assembly_complete a \<Longrightarrow> assemble_fragment_payload a mef = val"
proof -
  let ?n = "command_chunk_count mef val"
  have n: "?n \<noteq> 0" by (simp add: command_chunk_count_def)
  have dom: "dom (frag_of mef a) = S" unfolding assms(3) by (auto simp: dom_def)
  show iff: "fragment_assembly_complete a \<longleftrightarrow> {..<?n} \<subseteq> S" using complete_iff [OF assms(2) n] dom by simp
  assume "fragment_assembly_complete a"
  with iff have S: "{..<?n} \<subseteq> S" by simp
  define m where "m = map (\<lambda>i. take (unat mef) (drop (i * unat mef) val)) [0..<?n]"
  have "assemble_fragment_payload a mef = concat (map ((!) m) [0..<?n])"
    using S by (intro assemble_frags [OF assms(2)]) (auto simp: assms(3) m_def)
  also have "map ((!) m) [0..<?n] = m" using map_nth [of m] by (simp add: m_def)
  also have "concat m = val" using chunk_count_covers [OF assms(1), of val] by (simp add: m_def concat_value_slices)
  finally show "assemble_fragment_payload a mef = val" .
qed

text \<open>
  One fragment at the desk: it is collected, or it completes the command, which is then executed and
  remembered.
\<close>

lemma collect_step:
  assumes col: "collecting idx mef val tx S r" "\<not> {..<command_chunk_count mef val} \<subseteq> S" and pc: "piece_of idx mef val i v"
    and mef: "rp_max_entity_fragment r = mef" "mef \<noteq> 0" and cap: "command_chunk_count mef val * unat mef \<le> unat (rp_max_assembly_bytes r)"
    and rec: "unat idx < length (rp_entity_records r)" "counter_is_newer tx (completed idx r)" and fn: "rp_command_fn r"
    and r': "r' = snd (receive_command env h v tx r)"
  shows "session_of r' = session_of r \<and> length (rp_entity_records r') = length (rp_entity_records r) \<and>
    (if {..<command_chunk_count mef val} \<subseteq> insert i S
     then (\<exists>fl. filter is_command (rp_events r') = filter is_command (rp_events r) @ [CommandFn idx fl val]) \<and>
       completed idx r' = tx \<and> er_current_value (rp_entity_records r' ! unat idx) = val
     else filter is_command (rp_events r') = filter is_command (rp_events r) \<and> completed idx r' = completed idx r \<and>
       collecting idx mef val tx (insert i S) r')"
proof -
  have n: "command_chunk_count mef val \<noteq> 0" by (simp add: command_chunk_count_def)
  obtain a reserved where st: "stage_command_fragment env v tx r = (Some a, put_command_assembly idx a reserved r)"
    and a: "assembling (command_chunk_count mef val) tx mef a"
      "frag_of mef a = (\<lambda>j. if j \<in> insert i S then Some (take (unat mef) (drop (j * unat mef) val)) else None)"
    by (rule stage_collecting [OF col(1) pc mef(1) cap n])
  note cp = complete_pieces [OF mef(2) a]
  have vi: "epv_entity_index v = idx" using pc by (simp add: piece_of_def)
  define s where "s = (put_command_assembly idx a reserved r)\<lparr>rp_last_seen_counter :=
      max (rp_last_seen_counter (put_command_assembly idx a reserved r)) (fh_tx_counter h)\<rparr>"
  have s: "rp_events s = rp_events r" "session_of s = session_of r" "rp_entity_records s = rp_entity_records r"
    "pending idx s = Some a" "rp_max_entity_fragment s = mef" "rp_command_fn s"
    using mef(1) fn by (simp_all add: s_def put_command_assembly_def session_of_def pending_def omap_find_put)
  have rc: "receive_command env h v tx r = (if \<not> fragment_assembly_complete a then (True, s) else complete_command env v tx a s)"
    using rec by (simp add: receive_command_def vi completed_def accept_command_fragment_def st s_def Let_def)
  show ?thesis
  proof (cases "fragment_assembly_complete a")
    case False
    then show ?thesis
      using r' rc cp(1) s a by (simp add: collecting_def completed_def)
  next
    case True
    define t where "t = rp_event (CommandFn idx (epv_flags v) val) (s\<lparr>rp_pending_command_reserved_bytes :=
        rp_pending_command_reserved_bytes s - word_of_nat (length (fa_data a)),
        rp_pending_command_assemblies := omap_erase idx (rp_pending_command_assemblies s),
        rp_entity_records := (rp_entity_records s)[unat idx := (rp_entity_records s ! unat idx)\<lparr>er_current_value := val, er_dirty := False,
          er_last_completed_command_message_tx_base := tx,
          er_current_text := (if es_entity_type (er_schema (rp_entity_records s ! unat idx)) = FIELD_TEXT \<or>
             es_entity_type (er_schema (rp_entity_records s ! unat idx)) = FIELD_TEXT_SENSOR
           then string_of_bytes val else er_current_text (rp_entity_records s ! unat idx))\<rparr>]\<rparr>)"
    have "complete_command env v tx a s = remote_send_command_ack env 0 tx t"
      using s(5, 6) cp(2) [OF True] by (simp add: complete_command_def Let_def vi t_def)
    then have "same_desk t r'" using r' rc True by simp
    note d = same_deskD [OF this]
    have "session_of t = session_of r" using s(2) by (simp add: t_def rp_event_def session_of_def)
    moreover have "er_current_value (rp_entity_records t ! unat idx) = val" "completed idx t = tx"
      "length (rp_entity_records t) = length (rp_entity_records r)"
      "filter is_command (rp_events t) = filter is_command (rp_events r) @ [CommandFn idx (epv_flags v) val]"
      using rec(1) s(1, 3) by (simp_all add: t_def rp_event_def completed_def)
    ultimately show ?thesis using True cp(1) d by (simp add: completed_def)
  qed
qed

text \<open>A fragment of a command that was executed is acknowledged again, nothing more.\<close>

lemma repeat_step:
  assumes "unat (epv_entity_index v) < length (rp_entity_records r)" "completed (epv_entity_index v) r = tx"
  shows "same_desk r (snd (receive_command env h v tx r))"
  using assms by (simp add: receive_command_def completed_def Let_def)

text \<open>Frames that arrive at a node one after the other, and a node that a command can be sent to.\<close>

fun deliver :: "(remote_env \<times> mac \<times> bytes \<times> u8) list \<Rightarrow> remote \<Rightarrow> remote" where
  "deliver [] r = r"
| "deliver ((env, sender, frame, rssi) # ds) r = deliver ds (snd (remote_on_espnow_frame env sender frame rssi r))"

definition commandable :: "u8 \<Rightarrow> bytes \<Rightarrow> remote \<Rightarrow> bool" where
  "commandable idx val r \<longleftrightarrow> rp_joined r \<and> rp_session_key_valid r \<and> rp_command_fn r \<and>
     unat idx < length (rp_entity_records r) \<and> rp_max_entity_fragment r \<noteq> 0 \<and>
     command_chunk_count (rp_max_entity_fragment r) val \<le> 255 \<and>
     command_chunk_count (rp_max_entity_fragment r) val * unat (rp_max_entity_fragment r) \<le> unat (rp_max_assembly_bytes r)"

definition brings :: "u8 \<Rightarrow> bytes \<Rightarrow> u32 \<Rightarrow> remote \<Rightarrow> nat \<Rightarrow> remote_env \<Rightarrow> bytes \<Rightarrow> bool" where
  "brings idx val tx r i env frame \<longleftrightarrow> i < command_chunk_count (rp_max_entity_fragment r) val \<and> admissible r frame \<and>
     carries (rn_hmac env) (rp_crypto r) (rp_session_key r) (rp_leaf_mac r) PKT_COMMAND (tx + word_of_nat i)
       (command_fragment (rp_max_entity_fragment r) idx val i) frame"

lemma session_cong:
  assumes "session_of s = session_of r" "length (rp_entity_records s) = length (rp_entity_records r)"
  shows "commandable idx val s = commandable idx val r" "brings idx val tx s i env f = brings idx val tx r i env f"
    "rp_max_entity_fragment s = rp_max_entity_fragment r"
  using assms by (auto simp: session_of_def commandable_def brings_def admissible_def)

lemma fragment_received:
  assumes "commandable idx val r" "brings idx val tx r i env frame"
  obtains h s v where "same_desk r s" "piece_of idx (rp_max_entity_fragment r) val i v"
    "remote_on_espnow_frame env sender frame rssi r = receive_command env h v tx s"
proof -
  let ?mef = "rp_max_entity_fragment r"
  have c: "command_chunk_count ?mef val \<le> 255" "i < command_chunk_count ?mef val" using assms by (simp_all add: commandable_def brings_def)
  obtain v where v: "parse_entity_payload (command_fragment ?mef idx val i) = Some v" "piece_of idx ?mef val i v"
    "ucast (epv_fragment_index v) = (word_of_nat i :: u32)" by (rule piece_of_fragment [OF c])
  obtain h s where "same_desk r s"
    "remote_on_espnow_frame env sender frame rssi r = receive_command env h v (tx + word_of_nat i - ucast (epv_fragment_index v)) s"
    using assms by (auto simp: brings_def commandable_def intro: command_frame [OF _ _ _ _ v(1)])
  then show thesis using that v by simp
qed

lemma deliver_executed:
  assumes "commandable idx val r" "completed idx r = tx" "\<forall>(i, env, sender, frame, rssi)\<in>set ds. brings idx val tx r i env frame"
  shows "same_desk r (deliver (map snd ds) r)"
  using assms
proof (induction ds arbitrary: r)
  case (Cons d ds)
  obtain i env sender frame rssi where d: "d = (i, env, sender, frame, rssi)" by (cases d)
  obtain h s v where f: "same_desk r s" "piece_of idx (rp_max_entity_fragment r) val i v"
    "remote_on_espnow_frame env sender frame rssi r = receive_command env h v tx s"
    using Cons.prems by (auto simp: d intro: fragment_received)
  let ?r = "snd (remote_on_espnow_frame env sender frame rssi r)"
  have "same_desk s ?r"
    using repeat_step [of v s tx env h] f Cons.prems(1, 2) same_deskD(1) [OF f(1)] same_desk_views(2) [OF f(1), of idx]
    by (simp add: piece_of_def commandable_def)
  then have r: "same_desk r ?r" by (rule same_desk_trans [OF f(1)])
  have "same_desk ?r (deliver (map snd ds) ?r)"
    using Cons.prems same_deskD(1, 9) [OF r] same_desk_views(2) [OF r] session_cong [of ?r r] by (intro Cons.IH) (auto simp: d)
  then show ?case using same_desk_trans [OF r] by (simp add: d)
qed simp

lemma deliver_collecting:
  assumes "commandable idx val r" "counter_is_newer tx (completed idx r)"
    and "collecting idx (rp_max_entity_fragment r) val tx S r" "\<not> {..<command_chunk_count (rp_max_entity_fragment r) val} \<subseteq> S"
    and "\<forall>(i, env, sender, frame, rssi)\<in>set ds. brings idx val tx r i env frame"
  shows "if {..<command_chunk_count (rp_max_entity_fragment r) val} \<subseteq> S \<union> fst ` set ds
    then (\<exists>fl. filter is_command (rp_events (deliver (map snd ds) r)) = filter is_command (rp_events r) @ [CommandFn idx fl val]) \<and>
      er_current_value (rp_entity_records (deliver (map snd ds) r) ! unat idx) = val
    else filter is_command (rp_events (deliver (map snd ds) r)) = filter is_command (rp_events r)"
  using assms
proof (induction ds arbitrary: r S)
  case (Cons d ds)
  let ?mef = "rp_max_entity_fragment r" and ?n = "command_chunk_count (rp_max_entity_fragment r) val"
  obtain i env sender frame rssi where d: "d = (i, env, sender, frame, rssi)" by (cases d)
  obtain h s v where f: "same_desk r s" "piece_of idx ?mef val i v"
    "remote_on_espnow_frame env sender frame rssi r = receive_command env h v tx s"
    using Cons.prems(1, 5) by (auto simp: d intro: fragment_received)
  note sd = same_deskD [OF f(1)] and sv = same_desk_views [OF f(1)]
  let ?r = "snd (remote_on_espnow_frame env sender frame rssi r)"
  have st: "session_of ?r = session_of s \<and> length (rp_entity_records ?r) = length (rp_entity_records s) \<and>
    (if {..<?n} \<subseteq> insert i S
     then (\<exists>fl. filter is_command (rp_events ?r) = filter is_command (rp_events s) @ [CommandFn idx fl val]) \<and>
       completed idx ?r = tx \<and> er_current_value (rp_entity_records ?r ! unat idx) = val
     else filter is_command (rp_events ?r) = filter is_command (rp_events s) \<and> completed idx ?r = completed idx s \<and>
       collecting idx ?mef val tx (insert i S) ?r)"
    using Cons.prems sd sv f by (intro collect_step [where env = env and h = h and v = v]) (auto simp: commandable_def)
  then have sc: "session_of ?r = session_of r" "length (rp_entity_records ?r) = length (rp_entity_records r)" using sd by simp_all
  note cong = session_cong [OF sc]
  have rest: "\<forall>(i, env, sender, frame, rssi)\<in>set ds. brings idx val tx ?r i env frame"
    using Cons.prems(5) cong by (auto simp: d)
  show ?case
  proof (cases "{..<?n} \<subseteq> insert i S")
    case True
    then obtain fl where e: "filter is_command (rp_events ?r) = filter is_command (rp_events r) @ [CommandFn idx fl val]"
      "completed idx ?r = tx" "er_current_value (rp_entity_records ?r ! unat idx) = val" using st sd by auto
    have "same_desk ?r (deliver (map snd ds) ?r)" using Cons.prems(1) cong rest e(2) by (intro deliver_executed) auto
    then show ?thesis using same_deskD(1, 4) e True by (auto simp: d)
  next
    case False
    then have e: "filter is_command (rp_events ?r) = filter is_command (rp_events r)" "completed idx ?r = completed idx r"
      "collecting idx ?mef val tx (insert i S) ?r" using st sd sv by auto
    have "S \<union> fst ` set (d # ds) = insert i S \<union> fst ` set ds" by (auto simp: d)
    moreover have "deliver (map snd (d # ds)) r = deliver (map snd ds) ?r" by (simp add: d)
    moreover note Cons.IH [of ?r "insert i S", unfolded e(1, 2) cong(1, 3), OF Cons.prems(1, 2) e(3) False rest]
    ultimately show ?thesis by (simp only:)
  qed
qed simp

section \<open>Frames as they are sent\<close>

lemma tag_of_own_header:
  assumes "length (fh_leaf_mac h) = 6"
  shows "part_of 2 11 (enc_frame_header h) = part_of 2 11 (enc_frame_header h @ r)"
  using tagged_part_enc [of h "[]"] tagged_part_enc [of h r] assms by simp

lemma plain_frame_bears:
  assumes leaf: "length leaf = 6" and hop: "\<not> has_parent_check hop" and ty: "\<not> is_encrypted_packet ty" and psk: "g_psk_set g"
    and len: "length body \<le> 1453"
  shows "bears hmac g leaf ty tx body None (assemble_plain_frame hmac g ty leaf hop tx body)"
    "fh_hop_count (dec_frame_header (assemble_plain_frame hmac g ty leaf hop tx body)) = hop"
proof -
  obtain t where t: "length t = 4" "t = espnow_crypto_psk_tag hmac g (assemble_plain_frame hmac g ty leaf hop tx body) body"
    "assemble_plain_frame hmac g ty leaf hop tx body =
      enc_frame_header \<lparr>fh_protocol_version = 3, fh_hop_count = hop, fh_packet_type = packet_type_code ty,
        fh_leaf_mac = leaf, fh_tx_counter = tx, fh_psk_tag = t\<rparr> @ body" (is "_ = enc_frame_header ?h @ body")
    by (rule plain_frame_eq [OF leaf])
  have wf: "wf_frame_header ?h" using t(1) leaf by (simp add: wf_frame_header_def)
  have p: "remote_parse_frame (enc_frame_header ?h @ body) = Some (?h, body, None, replicate 6 0)"
    using parse_relay_frame [OF wf, of ty None "[]" body] hop ty len by (simp add: fits_type_def tag_bytes_def parent_len_def)
  have "part_of 2 11 (enc_frame_header ?h) = part_of 2 11 (assemble_plain_frame hmac g ty leaf hop tx body)"
    unfolding t(3) by (rule tag_of_own_header) (simp add: leaf)
  then have "espnow_crypto_psk_tag hmac g (enc_frame_header ?h) body = t" by (rule trans [OF psk.tag_cong t(2) [symmetric]])
  then have "espnow_crypto_verify_psk_tag hmac g (enc_frame_header ?h) body t" using psk.verify_own [OF psk] by metis
  then show "bears hmac g leaf ty tx body None (assemble_plain_frame hmac g ty leaf hop tx body)"
    by (simp add: bears_def t(3) p)
  show "fh_hop_count (dec_frame_header (assemble_plain_frame hmac g ty leaf hop tx body)) = hop"
    by (simp add: t(3) fh.dec_enc [OF wf])
qed

lemma encrypted_frame_carries:
  assumes leaf: "length leaf = 6" and hop: "\<not> has_parent_check hop" and ty: "is_encrypted_packet ty" and len: "length plain \<le> 1445"
    and f: "encrypted_frame hmac g key leaf ty hop tx plain = Some frame"
  shows "carries hmac g key leaf ty tx plain frame" "fh_hop_count (dec_frame_header frame) = hop" "length frame = 25 + length plain"
proof -
  obtain ct where ct: "espnow_crypto_crypt g key tx plain = Some ct"
    and fr: "frame = assemble_plain_frame hmac g ty leaf hop tx ct @
       espnow_crypto_session_tag hmac key (assemble_plain_frame hmac g ty leaf hop tx ct) ct"
    using f by (auto simp: encrypted_frame_def Let_def split: option.splits)
  note c = crypt_inverse [OF ct]
  obtain t where t: "length t = 4" "t = espnow_crypto_psk_tag hmac g (assemble_plain_frame hmac g ty leaf hop tx ct) ct"
    "assemble_plain_frame hmac g ty leaf hop tx ct =
      enc_frame_header \<lparr>fh_protocol_version = 3, fh_hop_count = hop, fh_packet_type = packet_type_code ty,
        fh_leaf_mac = leaf, fh_tx_counter = tx, fh_psk_tag = t\<rparr> @ ct" (is "_ = enc_frame_header ?h @ ct")
    by (rule plain_frame_eq [OF leaf])
  define st where "st = espnow_crypto_session_tag hmac key (enc_frame_header ?h @ ct) ct"
  have wf: "wf_frame_header ?h" using t(1) leaf by (simp add: wf_frame_header_def)
  have fr': "frame = enc_frame_header ?h @ ct @ st" by (simp add: fr t(3) st_def)
  have p: "remote_parse_frame frame = Some (?h, ct, Some st, replicate 6 0)"
    using parse_relay_frame [OF wf, of ty "Some st" "[]" ct] hop ty len c(2)
    by (simp add: fits_type_def tag_bytes_def parent_len_def fr' st_def)
  have part: "part_of 2 11 (enc_frame_header ?h) = part_of 2 11 (enc_frame_header ?h @ ct)"
    by (rule tag_of_own_header) (simp add: leaf)
  have "espnow_crypto_psk_tag hmac g (enc_frame_header ?h) ct = t"
    by (rule trans [OF psk.tag_cong [OF part [folded t(3)]] t(2) [symmetric]])
  then have "espnow_crypto_verify_psk_tag hmac g (enc_frame_header ?h) ct t" using psk.verify_own [OF c(3)] by metis
  moreover have "espnow_crypto_verify_session_tag hmac key (enc_frame_header ?h) ct st"
    unfolding st_def using part by (intro sess.verify_relayed) simp_all
  ultimately show "carries hmac g key leaf ty tx plain frame" by (simp add: carries_def bears_def p c(1))
  show "fh_hop_count (dec_frame_header frame) = hop" by (simp add: fr' fh.dec_enc [OF wf])
  show "length frame = 25 + length plain" by (simp add: fr' fh.enc_length [OF wf] c(2) st_def)
qed

lemma remote_frame_encrypted:
  "remote_frame env r ty hop tx plain True = encrypted_frame (rn_hmac env) (rp_crypto r) (rp_session_key r) (rp_leaf_mac r) ty hop tx plain"
  by (simp add: remote_frame_def encrypted_frame_def Let_def)

section \<open>The join handshake between a node and the bridge\<close>

lemma part_of_frame:
  assumes "17 \<le> length frame"
  shows "part_of 2 11 (enc_frame_header (dec_frame_header frame)) = part_of 2 11 frame"
  using assms by (simp add: fh.enc_dec part_of_def drop_take take_take)

lemma verify_psk_cong:
  assumes "part_of 2 11 h = part_of 2 11 h'" "length t = 4"
  shows "espnow_crypto_verify_psk_tag hmac g h body t = espnow_crypto_verify_psk_tag hmac g h' body t"
  using psk.verify_iff [of g t hmac] psk.tag_cong [OF assms(1)] assms(2) verify_psk_set by metis

text \<open>What a node parses, the bridge parses.\<close>

lemma bridge_parses:
  assumes "bears (be_hmac env) (bp_crypto s) leaf ty tx body tag frame"
  obtains h par where "parse_frame env s frame = Some (h, body, tag, par)" "packet_type_of (fh_packet_type h) = Some ty"
    "fh_leaf_mac h = leaf" "fh_tx_counter h = tx" "h = dec_frame_header frame" "17 \<le> length frame" "fh_protocol_version h = 3"
proof -
  obtain h par where p: "remote_parse_frame frame = Some (h, body, tag, par)" "packet_type_of (fh_packet_type h) = Some ty"
    "fh_leaf_mac h = leaf" "fh_tx_counter h = tx"
    "espnow_crypto_verify_psk_tag (be_hmac env) (bp_crypto s) (enc_frame_header h) body (fh_psk_tag h)" by (rule bearsE [OF assms])
  note s = remote_parse_split [OF p(1, 2)]
  have "espnow_crypto_verify_psk_tag (be_hmac env) (bp_crypto s) frame body (fh_psk_tag h)"
    using verify_psk_cong [OF part_of_frame [of frame]] p(5) s by (simp add: wf_frame_header_def)
  then have "parse_frame env s frame = Some (h, body, tag, par)"
    using p(1, 2) unfolding parse_frame_def remote_parse_frame_def by (auto simp: Let_def split: if_splits option.splits)
  then show thesis using that p s by simp
qed

lemma send_join_frame:
  assumes "send_join env r = (True, r1)"
  shows "rp_events r1 = rp_events r @ [RemoteSend (rp_parent_mac r) (assemble_plain_frame (rn_hmac env) (rp_crypto r) PKT_JOIN
      (rp_leaf_mac r) (upstream_hops r) (rp_tx_counter r) (enc_join (join_payload env r)))]"
  using assms
  by (auto simp: send_join_def remote_send_frame_def Let_def remote_frame_def log_sent_frame_def remote_queue_log_def
      call_send_fn_def rp_asked_def rp_event_def split: if_splits)

lemma upstream_no_parent: "\<not> has_parent_check (upstream_hops r)"
proof -
  have "(ESPNOW_HOPS_DIR_UP OR (n AND 0x0F)) AND 0x40 = (0 :: u8)" for n
    by (simp add: bit.conj_disj_distrib2 and.assoc)
  then show ?thesis by (simp add: has_parent_check_def upstream_hops_def ESPNOW_HOPS_MAKE_def)
qed

lemma wf_join_payload:
  assumes "length (rp_remote_nonce r) = 16" "\<forall>d. length (rn_sha env d) = 32"
  shows "wf_join (join_payload env r)"
  using assms by (simp add: wf_join_def join_payload_def compute_schema_hash_def)

text \<open>A JOIN\_ACK as it travels: what \<open>offers_key\<close> says of it, without the hop byte.\<close>

lemma offers_key_bears:
  assumes "offers_key hmac g leaf rn frame key"
  obtains tx body where "bears hmac g leaf PKT_JOIN_ACK tx body None frame" "length body = 20" "jack_accepted (dec_join_ack body) = 1"
    "espnow_crypto_derive_session_key hmac g (jack_bridge_nonce (dec_join_ack body)) rn = key"
    "fh_hop_count (dec_frame_header frame) = downstream_hop_count"
proof -
  obtain h par body where p: "parse_received_header frame = Some (h, par, body)" "fh_protocol_version h = 3"
    "fh_hop_count h = downstream_hop_count" "fh_packet_type h = packet_type_code PKT_JOIN_ACK" "fh_leaf_mac h = leaf"
    "length body = 20" "verify_frame_psk_tag hmac g frame body" "jack_accepted (dec_join_ack body) = 1"
    "derive_session_key_from_join_ack hmac g (dec_join_ack body) rn = key"
    using assms by (auto simp: offers_key_def parse_join_ack_def split: option.splits)
  have h: "h = dec_frame_header frame" "body = drop 17 frame" "length frame = 37"
    using p(1, 3, 6) by (auto simp: parse_received_header_def Let_def downstream_no_parent split: if_splits)
  have ty: "packet_type_of (fh_packet_type h) = Some PKT_JOIN_ACK" unfolding p(4) by (rule packet_type_of_code)
  have r: "remote_parse_frame frame = Some (h, body, None, replicate 6 0)"
    using p(2, 3) ty h by (simp add: remote_parse_frame_def Let_def downstream_no_parent)
  have "length (fh_psk_tag h) = 4" using fh.wf_dec [of frame] h(1, 3) by (simp add: wf_frame_header_def)
  then have "espnow_crypto_verify_psk_tag hmac g (enc_frame_header h) body (fh_psk_tag h)"
    using verify_psk_cong [OF part_of_frame [of frame]] p(6, 7) h by (simp add: verify_frame_psk_tag_def)
  then have "bears hmac g leaf PKT_JOIN_ACK (fh_tx_counter h) body None frame" using r ty p(5) by (simp add: bears_def)
  then show thesis using that p h(1) by (simp add: derive_session_key_from_join_ack_def derive_session_key_def)
qed

lemma session_join_stage: "session_of (join_stage env stage r) = session_of r"
proof -
  have q: "session_of (remote_queue_state_log st msg t) = session_of t" "session_of (refresh_can_relay t) = session_of t"
    "session_of (mark_all_entities_dirty t) = session_of t" for st msg t
    by (simp_all add: session_of_def remote_queue_state_log_def refresh_can_relay_def mark_all_entities_dirty_def)
  have u: "session_of (t\<lparr>rp_normal := a\<rparr>) = session_of t" "session_of (t\<lparr>rp_state_push_enabled := a\<rparr>) = session_of t"
    "session_of (t\<lparr>rp_state_name := n\<rparr>) = session_of t" "session_of (t\<lparr>rp_joined_started_ms := w\<rparr>) = session_of t"
    "session_of (t\<lparr>rp_waiting_for_state_ack := a\<rparr>) = session_of t" "session_of (t\<lparr>rp_state_retry_count := c\<rparr>) = session_of t"
    "session_of (t\<lparr>rp_last_successful_outbound_ms := w\<rparr>) = session_of t" "session_of (t\<lparr>rp_consecutive_send_failures := c\<rparr>) = session_of t"
    "session_of (t\<lparr>rp_last_successful_state_ms := w\<rparr>) = session_of t" "session_of (t\<lparr>rp_parent_mac := m\<rparr>) = session_of t"
    "session_of (t\<lparr>rp_parent_valid := a\<rparr>) = session_of t" "session_of (t\<lparr>rp_hop_count := c\<rparr>) = session_of t"
    "session_of (t\<lparr>rp_hops_to_bridge := c\<rparr>) = session_of t" "session_of (t\<lparr>rp_tx_counter := w\<rparr>) = session_of t"
    "session_of (t\<lparr>rp_last_heartbeat_tx_ms := w\<rparr>) = session_of t" "session_of (t\<lparr>rp_last_successful_heartbeat_ms := w\<rparr>) = session_of t"
    "session_of (t\<lparr>rp_heartbeat_due_ms := w\<rparr>) = session_of t" for t a n w c m
    by (simp_all add: session_of_def)
  have sf: "session_of (snd (remote_send_frame env m ty h tx p enc t)) = session_of t" for m ty h tx p enc t
    using desk_send_frame [of t env m ty h tx p enc t] by (simp add: same_desk_def)
  have hb: "session_of (snd (send_heartbeat env t)) = session_of t" for t
    by (simp add: send_heartbeat_def case_prod_beta u sf)
  show ?thesis by (simp add: join_stage_def Let_def q u hb)
qed

lemma join_ack_taken:
  assumes b: "bears (rn_hmac env) (rp_crypto r) (rp_leaf_mac r) PKT_JOIN_ACK tx body None frame" and len: "length body = 20"
    and acc: "jack_accepted (dec_join_ack body) = 1"
    and hop: "ESPNOW_HOPS_COUNT (fh_hop_count (dec_frame_header frame)) < rp_max_hops r"
      "\<not> has_parent_check (fh_hop_count (dec_frame_header frame))"
    and new: "\<not> rp_joined r \<or> counter_is_newer tx (rp_last_seen_counter r)"
  shows "\<exists>r'. remote_on_espnow_frame env sender frame rssi r = (True, r') \<and> rp_joined r' \<and> rp_session_key_valid r' \<and>
    rp_session_key r' = espnow_crypto_derive_session_key (rn_hmac env) (rp_crypto r) (jack_bridge_nonce (dec_join_ack body)) (rp_remote_nonce r)"
proof -
  obtain h par where p: "remote_parse_frame frame = Some (h, body, None, par)"
    and k: "packet_type_of (fh_packet_type h) = Some PKT_JOIN_ACK" "fh_leaf_mac h = rp_leaf_mac r" "fh_tx_counter h = tx"
      "espnow_crypto_verify_psk_tag (rn_hmac env) (rp_crypto r) (enc_frame_header h) body (fh_psk_tag h)" by (rule bearsE [OF b])
  have h: "h = dec_frame_header frame" by (rule remote_parse_split(6) [OF p k(1)])
  define r2 where "r2 = note_hops h (note_parent_rssi sender rssi r)"
  have r2: "rp_joined r2 = rp_joined r" "rp_last_seen_counter r2 = rp_last_seen_counter r" "rp_remote_nonce r2 = rp_remote_nonce r"
    "rp_crypto r2 = rp_crypto r" by (simp_all add: r2_def note_hops_def note_parent_rssi_def Let_def)
  define r3 where "r3 = join_accepted env tx (dec_join_ack body) r2"
  have "remote_on_espnow_frame env sender frame rssi r = handle_join_ack env h body r2"
    using hop k p h by (auto simp: remote_on_espnow_frame_def validate_psk_def dispatch_frame_def should_handle_locally_def handle_local_def
        log_received_def r2_def Let_def note_parent_rssi_def)
  also have "\<dots> = (True, join_stage env (jack_stage (dec_join_ack body)) r3)"
    using new r2 len acc k(3) by (auto simp: handle_join_ack_def r3_def Let_def)
  finally show ?thesis
    using session_join_stage [of env "jack_stage (dec_join_ack body)" r3] r2
    by (simp add: session_of_def r3_def join_accepted_def update_mtu_from_route_def Let_def)
qed

text \<open>The bridge's side: a JOIN that reaches it and that it answers.\<close>

lemma bridge_answers_join:
  assumes b: "bears (be_hmac env) (bp_crypto s) leaf PKT_JOIN tx (enc_join j) None frame" and j: "wf_join j"
    and hop: "\<not> has_parent_check (fh_hop_count (dec_frame_header frame))"
    and leaf: "length leaf = 6" and s: "SEND_FN \<in> set (bp_fns s)" "g_psk_set (bp_crypto s)"
      "\<not> (bp_joining_in_progress s \<and> leaf \<noteq> bp_joining_leaf_mac s)" "\<not> bs_join_in_progress (ensure_session s leaf)"
    and step: "on_espnow_frame env sender frame rssi s = (True, t)"
  shows "\<exists>x ack. get_session t leaf = Some x \<and> bs_session_key_valid x \<and> sent_since s t sender ack \<and>
    offers_key (be_hmac env) (bp_crypto s) leaf (join_remote_nonce j) ack (bs_session_key x)"
proof -
  obtain h par where p: "parse_frame env s frame = Some (h, enc_join j, None, par)" "packet_type_of (fh_packet_type h) = Some PKT_JOIN"
    "fh_leaf_mac h = leaf" "h = dec_frame_header frame" "17 \<le> length frame" "fh_protocol_version h = 3"
    by (rule bridge_parses [OF b])
  define s1 where "s1 = rx_log env PKT_JOIN sender (length frame) rssi h s"
  have s1: "extends s s1" "bp_joining_in_progress s1 = bp_joining_in_progress s" "bp_joining_leaf_mac s1 = bp_joining_leaf_mac s"
    "ensure_session s1 leaf = ensure_session s leaf" "bp_crypto s1 = bp_crypto s" "bp_fns s1 = bp_fns s"
    by (simp_all add: s1_def rx_log_def Let_def queue_log_def extends_def ensure_session_def get_session_def)
  let ?x = "ensure_session s leaf"
  have dj: "dec_join (enc_join j) = j" "length (enc_join j) = 51" using j by (simp_all add: join.dec_enc_nil join.enc_length)
  obtain ok c where c: "join_session env sender h j rssi (?x, s1) = (ok, c)" by (metis surj_pair)
  have "handle_join env sender h (enc_join j) rssi s1 = (True, t)"
    using step p hop by (simp add: on_espnow_frame_def s1_def)
  then have ok: ok and t: "t = put_conn leaf c" using c dj s1(4) p(3) by (simp_all add: handle_join_def)
  have "join_answered env leaf (join_remote_nonce j) sender s1 c"
    using join_session_answered [of ?x s1 h j env sender rssi c] c ok s s1 p(3) leaf by simp
  from join_answered_lift [OF s1(1) _ extends_refl same_key_refl, of env leaf _ sender "fst c" "snd c"] this
  have "join_answered env leaf (join_remote_nonce j) sender s c" by simp
  then show ?thesis by (auto simp: join_answered_def keyed_def t put_conn_def get_put_session sent_since_def)
qed

text \<open>The relays between a node and the bridge: they share the network key and are not that node.\<close>

definition relays_for :: "hmac_fn \<Rightarrow> crypto_state \<Rightarrow> mac \<Rightarrow> (remote_env \<times> mac \<times> u8 \<times> remote) list \<Rightarrow> bool" where
  "relays_for hmac g leaf hops \<longleftrightarrow> (\<forall>(env, sender, rssi, r)\<in>set hops. rn_hmac env = hmac \<and> rp_crypto r = g \<and> rp_leaf_mac r \<noteq> leaf)"

lemma relayed_bears:
  assumes "along hops frame = Some frame'" "bears hmac g leaf ty tx body tag frame" "ty \<noteq> PKT_DISCOVER" "ty \<noteq> PKT_DISCOVER_ANNOUNCE"
    and "relays_for hmac g leaf hops"
  shows "bears hmac g leaf ty tx body tag frame'" "hops_after (length hops) frame frame'"
  using along_bears [OF assms(1-4)] assms(5) by (simp_all add: relays_for_def)

lemma relayed_downstream:
  assumes "hops_after n frame frame'" "fh_hop_count (dec_frame_header frame) = downstream_hop_count" "n < 16"
  shows "unat (ESPNOW_HOPS_COUNT (fh_hop_count (dec_frame_header frame'))) = n" "\<not> has_parent_check (fh_hop_count (dec_frame_header frame'))"
proof -
  have d: "\<not> ESPNOW_HOPS_IS_UPSTREAM downstream_hop_count" "ESPNOW_HOPS_COUNT downstream_hop_count = 0"
    by (simp_all add: downstream_hop_count_def ESPNOW_HOPS_MAKE_def ESPNOW_HOPS_IS_UPSTREAM_def ESPNOW_HOPS_COUNT_def)
  have m: "y AND 0x0F = take_bit 4 y" for y :: u8 by (simp add: take_bit_eq_mask mask_eq_exp_minus_1)
  have "unat ((word_of_nat n :: u8) AND 0x0F) = n"
    using assms(3) unfolding m by (simp add: unsigned_take_bit_eq unat_of_nat take_bit_nat_eq_self)
  then show "unat (ESPNOW_HOPS_COUNT (fh_hop_count (dec_frame_header frame'))) = n"
    using assms(1, 2) d by (simp add: hops_after_def Let_def)
  show "\<not> has_parent_check (fh_hop_count (dec_frame_header frame'))"
    using assms(1, 2) downstream_no_parent by (simp add: hops_after_def Let_def)
qed

lemma length_command_fragment: "length (command_fragment mef idx val i) \<le> 5 + unat mef"
proof -
  have "length (enc_entity_packet_header h) = 5" for h by (simp add: eph.enc_length)
  then show ?thesis by (auto simp: command_fragment_def append_entity_payload_def Let_def split: option.split)
qed

lemma relayed_command:
  assumes f: "encrypted_frame hmac g key leaf PKT_COMMAND downstream_hop_count tx plain = Some f" and len: "length leaf = 6" "length plain \<le> 1445"
    and hops: "along hops f = Some frame" "relays_for hmac g leaf hops" "length hops < 16"
  shows "carries hmac g key leaf PKT_COMMAND tx plain frame" "length frame = 25 + length plain"
    "unat (ESPNOW_HOPS_COUNT (fh_hop_count (dec_frame_header frame))) = length hops" "\<not> has_parent_check (fh_hop_count (dec_frame_header frame))"
proof -
  have e: "is_encrypted_packet PKT_COMMAND" by simp
  note c = encrypted_frame_carries [OF len(1) downstream_no_parent e len(2) f]
  have a: "carries hmac g key leaf PKT_COMMAND tx plain frame \<and> length frame = length f \<and> hops_after (length hops) f frame"
    using along_carries [OF hops(1) c(1)] hops(2) by (simp add: relays_for_def)
  then show "carries hmac g key leaf PKT_COMMAND tx plain frame" "length frame = 25 + length plain" using c(3) by simp_all
  show "unat (ESPNOW_HOPS_COUNT (fh_hop_count (dec_frame_header frame))) = length hops" "\<not> has_parent_check (fh_hop_count (dec_frame_header frame))"
    using relayed_downstream [OF _ c(2) hops(3)] a by blast+
qed

section \<open>Counting children\<close>

lemma never_reaches_self:
  assumes "routes_ok (rp_leaf_mac r) (rp_routes r)" "m \<noteq> rp_leaf_mac r"
  shows "\<not> reaches_self r n m"
  using assms(2)
proof (induction n arbitrary: m)
  case (Suc n)
  have "rt_next_hop_mac t \<noteq> rp_leaf_mac r" if "find_route m r = Some t" for t
    using that assms(1) by (auto simp: find_route_def find_Some_iff routes_ok_def)
  then show ?case using Suc by (simp split: option.split)
qed simp

lemma no_children_counted:
  assumes "routes_ok (rp_leaf_mac r) (rp_routes r)"
  shows "total_children_count r = 0"
proof -
  have "fold (\<lambda>t n. if rt_leaf_mac t = rp_leaf_mac r then n else if reaches_self r k (rt_leaf_mac t) then n + 1 else n) ts (0 :: u16) = 0"
    for ts :: "RemoteRouteEntry list" and k
    using never_reaches_self [OF assms] by (induction ts) auto
  then show ?thesis by (simp add: total_children_count_def)
qed

end
