(* ===== verification/Json_Utils.thy ===== *)
theory Json_Utils
  imports Wire_Types
begin

unbundle bit_operations_syntax

text \<open>
  Text helpers of the bridge API (\<^verbatim>\<open>bridge_json_utils.cpp\<close>, \<^verbatim>\<open>bridge_api_auth.cpp\<close>): JSON
  strings, entity options, state values as JSON, hexadecimal.  The two places with float arithmetic are arguments:
  the text of a float and the conversion of a colour (\<^verbatim>\<open>hsv_u8_to_rgb\<close>).
\<close>

section \<open>Options of an entity\<close>

fun split_string_aux :: "char \<Rightarrow> string \<Rightarrow> string \<Rightarrow> string list" where
  "split_string_aux sep current [] = [current]"
| "split_string_aux sep current (ch # input) =
     (if ch = sep then current # split_string_aux sep [] input else split_string_aux sep (current @ [ch]) input)"

definition split_string :: "string \<Rightarrow> char \<Rightarrow> string list" where
  "split_string input sep = split_string_aux sep [] input"

text \<open>The text before and behind the first \<open>=\<close>, if there is one.\<close>

definition key_value :: "string \<Rightarrow> (string \<times> string) option" where
  "key_value part =
     (if CHR ''='' \<in> set part
      then Some (takeWhile (\<lambda>c. c \<noteq> CHR ''='') part, tl (dropWhile (\<lambda>c. c \<noteq> CHR ''='') part)) else None)"

fun find_options :: "string list \<Rightarrow> string list option" where
  "find_options [] = None"
| "find_options (part # parts) =
     (case key_value part of
        Some (key, val) \<Rightarrow> if key = ''options'' then Some (split_string val CHR ''|'') else find_options parts
      | None \<Rightarrow> find_options parts)"

text \<open>The list of options is never empty, so the first one found is taken.\<close>

definition parse_select_options :: "string \<Rightarrow> string list" where
  "parse_select_options entity_options =
     (case find_options (split_string entity_options CHR '';'') of
        Some opts \<Rightarrow> opts
      | None \<Rightarrow> split_string entity_options CHR ''|'')"

definition parse_options_map :: "string \<Rightarrow> string \<Rightarrow> string option" where
  "parse_options_map entity_options =
     fold (\<lambda>part m. case key_value part of None \<Rightarrow> m | Some (key, val) \<Rightarrow> m(key \<mapsto> val))
       (split_string entity_options CHR '';'') Map.empty"

definition option_list :: "(string \<Rightarrow> string option) \<Rightarrow> string \<Rightarrow> string list" where
  "option_list opts key = (case opts key of None \<Rightarrow> [] | Some val \<Rightarrow> split_string val CHR ''|'')"

definition option_has_list_value :: "(string \<Rightarrow> string option) \<Rightarrow> string \<Rightarrow> string \<Rightarrow> bool" where
  "option_has_list_value opts key val =
     (case opts key of None \<Rightarrow> False | Some v \<Rightarrow> list_ex (\<lambda>x. x = val) (split_string v CHR ''|''))"

section \<open>Hexadecimal\<close>

definition lower_hex_digit :: "u8 \<Rightarrow> char" where
  "lower_hex_digit v = ''0123456789abcdef'' ! unat (v AND 0x0F)"

definition bytes_to_lower_hex :: "bytes \<Rightarrow> string" where
  "bytes_to_lower_hex data = concat (map (\<lambda>b. [lower_hex_digit (drop_bit 4 b), lower_hex_digit b]) data)"

section \<open>JSON strings\<close>

definition json_escape_char :: "char \<Rightarrow> string" where
  "json_escape_char ch =
     (if ch = CHR 0x22 then [CHR 0x5C, CHR 0x22]
      else if ch = CHR 0x5C then [CHR 0x5C, CHR 0x5C]
      else if ch = CHR 0x08 then [CHR 0x5C, CHR ''b'']
      else if ch = CHR 0x0C then [CHR 0x5C, CHR ''f'']
      else if ch = CHR 0x0A then [CHR 0x5C, CHR ''n'']
      else if ch = CHR 0x0D then [CHR 0x5C, CHR ''r'']
      else if ch = CHR 0x09 then [CHR 0x5C, CHR ''t'']
      else if (of_char ch :: nat) < 0x20 then
        [CHR 0x5C, CHR ''u''] @ bytes_to_lower_hex [0, word_of_nat (of_char ch)]
      else [ch])"

definition json_escape :: "string \<Rightarrow> string" where
  "json_escape val = concat (map json_escape_char val)"

definition quoted_json_string :: "string \<Rightarrow> string" where
  "quoted_json_string raw = [CHR 0x22] @ json_escape raw @ [CHR 0x22]"

section \<open>State values\<close>

definition bool_json :: "u8 \<Rightarrow> string" where
  "bool_json v = (if v \<noteq> 0 then ''true'' else ''false'')"

definition json_member :: "string \<Rightarrow> string \<Rightarrow> string" where
  "json_member key val = [CHR 0x22] @ key @ [CHR 0x22] @ '':'' @ val"

definition build_fan_state_json :: "bytes \<Rightarrow> string" where
  "build_fan_state_json val =
     (if length val < 1 then ''{}''
      else ''{'' @ json_member ''state'' (bool_json (val ! 0)) @
        (if length val > 1 then '','' @ json_member ''speed_level'' (dec_digits (unat (val ! 1))) else []) @
        (if length val > 2 then '','' @ json_member ''oscillating'' (bool_json (val ! 2)) else []) @
        (if length val > 3 then '','' @ json_member ''direction''
           ([CHR 0x22] @ (if val ! 3 \<noteq> 0 then ''reverse'' else ''forward'') @ [CHR 0x22]) else []) @ ''}'')"

definition alarm_state :: "u8 \<Rightarrow> string" where
  "alarm_state v =
     (if v = 1 then ''armed_home'' else if v = 2 then ''armed_away'' else if v = 3 then ''armed_night''
      else if v = 4 then ''armed_vacation'' else if v = 5 then ''armed_custom_bypass'' else if v = 6 then ''triggered''
      else if v = 7 then ''pending'' else if v = 8 then ''arming'' else if v = 9 then ''disarming'' else ''disarmed'')"

definition color_mode_name_json :: "u8 \<Rightarrow> string" where
  "color_mode_name_json cm =
     (if cm = 1 then ''onoff'' else if cm = 3 then ''brightness'' else if cm = 7 then ''white''
      else if cm = 11 then ''color_temp'' else if cm = 19 then ''color_temp'' else if cm = 35 then ''rgb''
      else if cm = 39 then ''rgbw'' else if cm = 47 then ''rgbw'' else if cm = 51 then ''rgbww'' else ''brightness'')"

definition json_quote :: "string \<Rightarrow> string" where
  "json_quote text = [CHR 0x22] @ text @ [CHR 0x22]"

definition has_color_mode :: "(string \<Rightarrow> string option) \<Rightarrow> string list \<Rightarrow> bool" where
  "has_color_mode opts names = list_ex (option_has_list_value opts ''color_modes'') names"

definition light_color_mode :: "(string \<Rightarrow> string option) \<Rightarrow> bytes \<Rightarrow> string" where
  "light_color_mode opts val =
     (if length val > 5 then color_mode_name_json (val ! 5)
      else if length val > 3 \<and> has_color_mode opts [''rgb'', ''rgbw'', ''rgbww''] then ''rgb''
      else if length val > 1 \<and> has_color_mode opts [''color_temp''] then ''color_temp''
      else ''brightness'')"

definition light_effect :: "(string \<Rightarrow> string option) \<Rightarrow> bytes \<Rightarrow> string" where
  "light_effect opts val =
     (let effects = option_list opts ''effects'' in
      if effects \<noteq> [] \<and> length val > 4 then
        (if val ! 4 > 0 \<and> unat (val ! 4) \<le> length effects
         then '','' @ json_member ''effect'' (json_quote (json_escape (effects ! (unat (val ! 4) - 1))))
         else '','' @ json_member ''effect'' (json_quote ''None''))
      else [])"

definition build_light_state_json :: "(u8 \<Rightarrow> u8 \<Rightarrow> u8 \<Rightarrow> u8 \<times> u8 \<times> u8) \<Rightarrow> bytes \<Rightarrow> string \<Rightarrow> string" where
  "build_light_state_json hsv_u8_to_rgb val entity_options =
     (if length val < 1 then ''{}''
      else let opts = parse_options_map entity_options;
               ct = (if length val > 7 then unat (val ! 6) + 256 * unat (val ! 7) else 0)
       in ''{'' @ json_member ''state'' (bool_json (val ! 0)) @
          '','' @ json_member ''color_mode'' (json_quote (light_color_mode opts val)) @
          (if length val > 1 \<and>
              has_color_mode opts [''brightness'', ''rgb'', ''rgbw'', ''rgbww'', ''white'', ''color_temp'']
           then '','' @ json_member ''brightness'' (dec_digits (unat (val ! 1))) else []) @
          (if length val > 3 \<and> has_color_mode opts [''rgb'', ''rgbw'', ''rgbww'']
           then (case hsv_u8_to_rgb (val ! 2) (val ! 3) (val ! 1) of (r, g, b) \<Rightarrow>
             '','' @ json_member ''color''
               (''{'' @ json_member ''r'' (dec_digits (unat r)) @ '','' @ json_member ''g'' (dec_digits (unat g)) @
                '','' @ json_member ''b'' (dec_digits (unat b)) @ ''}''))
           else []) @
          (if ct > 0 then '','' @ json_member ''color_temp'' (dec_digits ct) else []) @
          (if length val > 8 \<and> val ! 8 > 0 then '','' @ json_member ''white'' (dec_digits (unat (val ! 8))) else []) @
          light_effect opts val @ ''}'')"

text \<open>\<open>float_text\<close> is how a stream prints the float with these bytes.\<close>

definition state_value_json ::
  "(bytes \<Rightarrow> string) \<Rightarrow> (u8 \<Rightarrow> u8 \<Rightarrow> u8 \<Rightarrow> u8 \<times> u8 \<times> u8) \<Rightarrow> espnow_field_type_t \<Rightarrow> bytes \<Rightarrow> string \<Rightarrow> string" where
  "state_value_json float_text hsv_u8_to_rgb ty val entity_options =
     (if val = [] then ''null''
      else case ty of
        FIELD_TYPE_SENSOR \<Rightarrow> if length val < 4 then ''0'' else float_text (take 4 val)
      | FIELD_TYPE_NUMBER \<Rightarrow> if length val < 4 then ''0'' else float_text (take 4 val)
      | FIELD_TYPE_SWITCH \<Rightarrow> bool_json (val ! 0)
      | FIELD_TYPE_BINARY \<Rightarrow> bool_json (val ! 0)
      | FIELD_TYPE_BUTTON \<Rightarrow> bool_json (val ! 0)
      | FIELD_TYPE_HUMIDIFIER \<Rightarrow> bool_json (val ! 0)
      | FIELD_TYPE_DEHUMIDIFIER \<Rightarrow> bool_json (val ! 0)
      | FIELD_TYPE_LIGHT \<Rightarrow> build_light_state_json hsv_u8_to_rgb val entity_options
      | FIELD_TYPE_FAN \<Rightarrow> build_fan_state_json val
      | FIELD_TYPE_COVER \<Rightarrow> dec_digits (unat (val ! 0))
      | FIELD_TYPE_VALVE \<Rightarrow> dec_digits (unat (val ! 0))
      | FIELD_TYPE_LOCK \<Rightarrow>
          quoted_json_string (if val ! 0 = 1 then ''LOCKED'' else if val ! 0 = 2 then ''JAMMED'' else ''UNLOCKED'')
      | FIELD_TYPE_ALARM \<Rightarrow> quoted_json_string (alarm_state (val ! 0))
      | FIELD_TYPE_SELECT \<Rightarrow>
          if entity_options \<noteq> [] \<and> unat (val ! 0) < length (parse_select_options entity_options)
          then quoted_json_string (parse_select_options entity_options ! unat (val ! 0))
          else dec_digits (unat (val ! 0))
      | FIELD_TYPE_TEXT \<Rightarrow> quoted_json_string (string_of_bytes val)
      | FIELD_TYPE_TEXT_SENSOR \<Rightarrow> quoted_json_string (string_of_bytes val)
      | FIELD_TYPE_EVENT \<Rightarrow> quoted_json_string (string_of_bytes val)
      | FIELD_TYPE_TIME \<Rightarrow> quoted_json_string (string_of_bytes val)
      | FIELD_TYPE_DATETIME \<Rightarrow> quoted_json_string (string_of_bytes val)
      | _ \<Rightarrow> ''null'')"

section \<open>The API key\<close>

definition is_lower_or_upper_hex :: "string \<Rightarrow> bool" where
  "is_lower_or_upper_hex val =
     list_all (\<lambda>ch. let c = of_char ch :: nat in 48 \<le> c \<and> c \<le> 57 \<or> 97 \<le> c \<and> c \<le> 102 \<or> 65 \<le> c \<and> c \<le> 70) val"

text \<open>Strings are bytes here; the difference of the lengths is taken modulo 256 first.\<close>

definition auth_constant_time_equal :: "bytes \<Rightarrow> bytes \<Rightarrow> bool" where
  "auth_constant_time_equal a b =
     (fold (\<lambda>i diff. diff OR ((if i < length a then a ! i else 0) XOR (if i < length b then b ! i else 0)))
        [0..<max (length a) (length b)] (ucast (word_of_nat (length a) XOR word_of_nat (length b) :: u32) :: u8) = 0)"

section \<open>What is written is read back\<close>

text \<open>
  A JSON reader's view of a string, from behind its opening quote: the characters it stands for and the text
  behind its closing quote.  A raw control character is not allowed in it.
\<close>

definition hex_nibble :: "char \<Rightarrow> nat option" where
  "hex_nibble ch =
     (let c = of_char ch :: nat in
      if 48 \<le> c \<and> c \<le> 57 then Some (c - 48) else if 97 \<le> c \<and> c \<le> 102 then Some (c - 87)
      else if 65 \<le> c \<and> c \<le> 70 then Some (c - 55) else None)"

fun read_json_string :: "string \<Rightarrow> (string \<times> string) option" where
  "read_json_string [] = None"
| "read_json_string (ch # text) =
     (if ch = CHR 0x22 then Some ([], text)
      else if (of_char ch :: nat) < 0x20 then None
      else if ch \<noteq> CHR 0x5C then map_option (apfst ((#) ch)) (read_json_string text)
      else case text of
        [] \<Rightarrow> None
      | e # rest \<Rightarrow>
          if e = CHR 0x22 \<or> e = CHR 0x5C \<or> e = CHR ''/'' then map_option (apfst ((#) e)) (read_json_string rest)
          else if e = CHR ''b'' then map_option (apfst ((#) CHR 0x08)) (read_json_string rest)
          else if e = CHR ''f'' then map_option (apfst ((#) CHR 0x0C)) (read_json_string rest)
          else if e = CHR ''n'' then map_option (apfst ((#) CHR 0x0A)) (read_json_string rest)
          else if e = CHR ''r'' then map_option (apfst ((#) CHR 0x0D)) (read_json_string rest)
          else if e = CHR ''t'' then map_option (apfst ((#) CHR 0x09)) (read_json_string rest)
          else if e = CHR ''u'' then
            (case rest of
               a # b # c # d # rest2 \<Rightarrow>
                 (case (hex_nibble a, hex_nibble b, hex_nibble c, hex_nibble d) of
                    (Some 0, Some 0, Some hi, Some lo) \<Rightarrow>
                      map_option (apfst ((#) (char_of (hi * 16 + lo)))) (read_json_string rest2)
                  | _ \<Rightarrow> None)
             | _ \<Rightarrow> None)
          else None)"

lemma control_nibbles:
  "list_all (\<lambda>n. hex_nibble (lower_hex_digit (drop_bit 4 (word_of_nat n))) = Some (n div 16) \<and>
     hex_nibble (lower_hex_digit (word_of_nat n)) = Some (n mod 16)) [0..<32]"
  by code_simp

lemma escape_control:
  assumes "n < 0x20"
  shows "read_json_string ([CHR 0x5C, CHR ''u''] @ bytes_to_lower_hex [0, word_of_nat n] @ ys) =
    map_option (apfst ((#) (char_of n))) (read_json_string ys)"
proof -
  have "n \<in> set [0..<32]" using assms by simp
  then have "hex_nibble (lower_hex_digit (drop_bit 4 (word_of_nat n))) = Some (n div 16)"
    "hex_nibble (lower_hex_digit (word_of_nat n)) = Some (n mod 16)"
    using control_nibbles unfolding list_all_iff by blast+
  moreover have "hex_nibble (lower_hex_digit 0) = Some 0" by code_simp
  ultimately show ?thesis by (simp add: bytes_to_lower_hex_def)
qed

lemma read_escaped_char: "read_json_string (json_escape_char ch @ ys) = map_option (apfst ((#) ch)) (read_json_string ys)"
proof (cases "(of_char ch :: nat) < 0x20")
  case True
  have "json_escape_char ch = [CHR 0x5C, CHR ''u''] @ bytes_to_lower_hex [0, word_of_nat (of_char ch)]"
    if "ch \<notin> {CHR 0x22, CHR 0x5C, CHR 0x08, CHR 0x0C, CHR 0x0A, CHR 0x0D, CHR 0x09}"
    using that True by (simp add: json_escape_char_def)
  then show ?thesis using escape_control [OF True, of ys] by (auto simp: json_escape_char_def)
next
  case False
  then show ?thesis by (auto simp: json_escape_char_def)
qed

lemma read_quoted: "read_json_string (json_escape s @ [CHR 0x22] @ rest) = Some (s, rest)"
proof (induction s)
  case (Cons c s)
  have "read_json_string (json_escape (c # s) @ [CHR 0x22] @ rest) =
      read_json_string (json_escape_char c @ (json_escape s @ [CHR 0x22] @ rest))"
    by (simp add: json_escape_def)
  also have "\<dots> = Some (c # s, rest)" using Cons by (simp only: read_escaped_char) simp
  finally show ?case .
qed (simp add: json_escape_def)

lemma split_string_aux_ne: "split_string_aux sep current input \<noteq> []"
  by (induction input arbitrary: current) auto

lemma split_string_join:
  "foldr (\<lambda>part text. part @ sep # text) (butlast (split_string_aux sep current input)) (last (split_string_aux sep current input)) =
    current @ input"
  by (induction input arbitrary: current) (auto simp: split_string_aux_ne)

lemma split_string_parts:
  "sep \<notin> set current \<Longrightarrow> \<forall>part \<in> set (split_string_aux sep current input). sep \<notin> set part"
proof (induction input arbitrary: current)
  case (Cons c input)
  show ?case using Cons.prems Cons.IH [of "[]"] Cons.IH [of "current @ [c]"] by (cases "c = sep") simp_all
qed simp

text \<open>How the options of a select entity are written: joined by the separator.\<close>

definition join_parts :: "char \<Rightarrow> string list \<Rightarrow> string" where
  "join_parts sep parts = foldr (\<lambda>part text. part @ sep # text) (butlast parts) (last parts)"

lemma join_parts_simps [simp]:
  "join_parts sep [part] = part" "join_parts sep (part # next # parts) = part @ sep # join_parts sep (next # parts)"
  by (simp_all add: join_parts_def)

lemma split_string_aux_app:
  "sep \<notin> set part \<Longrightarrow> split_string_aux sep current (part @ text) = split_string_aux sep (current @ part) text"
  by (induction part arbitrary: current) auto

lemma split_string_aux_last: "sep \<notin> set part \<Longrightarrow> split_string_aux sep current part = [current @ part]"
  using split_string_aux_app [of sep part current "[]"] by simp

lemma split_join_parts:
  "parts \<noteq> [] \<Longrightarrow> \<forall>part \<in> set parts. sep \<notin> set part \<Longrightarrow> split_string (join_parts sep parts) sep = parts"
proof (induction parts rule: induct_list012)
  case (3 part nxt parts)
  then show ?case by (simp add: split_string_def split_string_aux_app)
qed (auto simp: split_string_def split_string_aux_last)

lemma set_join_parts: "parts \<noteq> [] \<Longrightarrow> set (join_parts sep parts) \<subseteq> insert sep (\<Union> (set ` set parts))"
  by (induction parts rule: induct_list012) auto

lemma one_option:
  assumes "opts \<noteq> []" "\<forall>part \<in> set opts. CHR '';'' \<notin> set part" "CHR '';'' \<notin> set key" "CHR ''='' \<notin> set key"
  shows "split_string (key @ ''='' @ join_parts CHR ''|'' opts) CHR '';'' = [key @ ''='' @ join_parts CHR ''|'' opts]"
    "key_value (key @ ''='' @ join_parts CHR ''|'' opts) = Some (key, join_parts CHR ''|'' opts)"
proof -
  have "CHR '';'' \<notin> set (key @ ''='' @ join_parts CHR ''|'' opts)"
    using assms set_join_parts [OF assms(1), of "CHR ''|''"] by auto
  then show "split_string (key @ ''='' @ join_parts CHR ''|'' opts) CHR '';'' = [key @ ''='' @ join_parts CHR ''|'' opts]"
    unfolding split_string_def by (subst split_string_aux_last) simp_all
  have "takeWhile (\<lambda>c. c \<noteq> CHR ''='') (key @ CHR ''='' # rest) = key" "dropWhile (\<lambda>c. c \<noteq> CHR ''='') (key @ CHR ''='' # rest) = CHR ''='' # rest" for rest
    using assms(4) by (simp_all add: takeWhile_tail dropWhile_append3 takeWhile_append dropWhile_append)
  then show "key_value (key @ ''='' @ join_parts CHR ''|'' opts) = Some (key, join_parts CHR ''|'' opts)"
    by (simp add: key_value_def)
qed

lemma parse_written_options:
  assumes "opts \<noteq> []" "\<forall>part \<in> set opts. CHR ''|'' \<notin> set part \<and> CHR '';'' \<notin> set part"
  shows "parse_select_options (''options='' @ join_parts CHR ''|'' opts) = opts"
proof -
  have "split_string (join_parts CHR ''|'' opts) CHR ''|'' = opts" using assms by (intro split_join_parts) auto
  then show ?thesis using one_option [of opts "''options''"] assms by (simp add: parse_select_options_def)
qed

lemma options_map_written:
  assumes "opts \<noteq> []" "\<forall>part \<in> set opts. CHR '';'' \<notin> set part" "CHR '';'' \<notin> set key" "CHR ''='' \<notin> set key"
  shows "parse_options_map (key @ ''='' @ join_parts CHR ''|'' opts) = [key \<mapsto> join_parts CHR ''|'' opts]"
  using one_option [OF assms] by (simp add: parse_options_map_def)

lemma join_parts_nil: "opts \<noteq> [] \<Longrightarrow> join_parts sep opts = [] \<longleftrightarrow> opts = [[]]"
  by (induction opts rule: induct_list012) auto

text \<open>The comparison does not see a difference of 256 in the lengths.\<close>

lemma auth_lengths_truncated: "auth_constant_time_equal [1] ([1] @ replicate 256 0)"
  by code_simp

end
