(* ===== verification/Ota_Job.thy ===== *)
theory Ota_Job
  imports OTA_Manager Bridge_Session Runtime_Pb Frames Json_Utils
begin

unbundle bit_operations_syntax

text \<open>
  The OTA job of the bridge component (\<^verbatim>\<open>esp_tree_bridge.cpp\<close>, the \<^verbatim>\<open>api_ota_\<close> methods and
  \<^verbatim>\<open>emit_ota_events_\<close>): it stands between the runtime API and the OTA manager.  The members of
  \<^verbatim>\<open>ESPTreeBridge\<close> it uses are the record ota_job; the manager is absent until the component is set up.
  The calls of \<^verbatim>\<open>OtaTransportCallbacks\<close> it makes are returned as a list, in order; none of them calls back
  into the job.
\<close>

section \<open>State\<close>

abbreviation (input) ESPNOW_FILE_ACTION_OTA_FLASH :: u8 where "ESPNOW_FILE_ACTION_OTA_FLASH \<equiv> 1"

abbreviation (input) ESPNOW_FILE_ABORT_USER :: u8 where "ESPNOW_FILE_ABORT_USER \<equiv> 0"

datatype OtaJobState =
  JOB_IDLE | WAITING_FOR_LEAF | TRANSFERRING | VERIFYING | JOB_SUCCESS | JOB_FAILED | JOB_ABORTED

record ota_job =
  oj_manager :: "ota option"
  oj_state :: OtaJobState
  oj_job_id :: string
  oj_job_counter :: u32
  oj_request_id :: string
  oj_session_id :: string
  oj_target_mac :: mac
  oj_prev_public_state :: string
  oj_callbacks :: bool
  oj_last_requested_sequences :: "u32 list"
  oj_chunk_request_counter :: u32
  oj_last_status_percent :: u8
  oj_last_status_ms :: u32

definition ota_job_initial :: ota_job where
  "ota_job_initial = \<lparr>oj_manager = None, oj_state = JOB_IDLE, oj_job_id = [], oj_job_counter = 0, oj_request_id = [],
     oj_session_id = [], oj_target_mac = replicate 6 0, oj_prev_public_state = [], oj_callbacks = False,
     oj_last_requested_sequences = [], oj_chunk_request_counter = 0, oj_last_status_percent = 255, oj_last_status_ms = 0\<rparr>"

text \<open>The callbacks: accepted (request, job, target, chunk size, chunks, batch size), a request for chunks, a status.\<close>

datatype ota_callback =
    OtaAccepted string string string u16 u32 u16
  | OtaChunkRequest string string "u32 list" u32 u32 u32 u32 u32 u32 u32
  | OtaStatus string OtaState u32 u32 u32 string

section \<open>Text\<close>

definition parse_hex_nibble :: "char \<Rightarrow> nat option" where
  "parse_hex_nibble ch =
     (let c = of_char ch :: nat in
      if 48 \<le> c \<and> c \<le> 57 then Some (c - 48)
      else if 97 \<le> c \<and> c \<le> 102 then Some (c - 97 + 10)
      else if 65 \<le> c \<and> c \<le> 70 then Some (c - 65 + 10)
      else None)"

fun parse_hex_pairs :: "string \<Rightarrow> bytes option" where
  "parse_hex_pairs [] = Some []"
| "parse_hex_pairs [c] = None"
| "parse_hex_pairs (a # b # cs) =
     (case (parse_hex_nibble a, parse_hex_nibble b) of
        (Some hi, Some lo) \<Rightarrow> map_option ((#) (word_of_nat (hi * 16 + lo))) (parse_hex_pairs cs)
      | _ \<Rightarrow> None)"

definition parse_md5_hex :: "string \<Rightarrow> bytes option" where
  "parse_md5_hex md5_hex = (if length md5_hex \<noteq> 32 then None else parse_hex_pairs md5_hex)"

text \<open>
  One conversion \<^verbatim>\<open>%2x\<close> of \<^verbatim>\<open>sscanf\<close>: white space is skipped, then at most two characters of a
  number with an optional sign are taken.  A lone prefix \<open>0x\<close> is not a number.
\<close>

definition is_space :: "char \<Rightarrow> bool" where
  "is_space ch = (let c = of_char ch :: nat in c = 32 \<or> 9 \<le> c \<and> c \<le> 13)"

definition scan_hex2 :: "string \<Rightarrow> (u32 \<times> string) option" where
  "scan_hex2 text =
     (case dropWhile is_space text of
        [] \<Rightarrow> None
      | a # rest \<Rightarrow>
          (case parse_hex_nibble a of
             Some hi \<Rightarrow>
               (case rest of
                  [] \<Rightarrow> Some (word_of_nat hi, [])
                | b # rest2 \<Rightarrow>
                    if a = CHR ''0'' \<and> b \<in> {CHR ''x'', CHR ''X''} then None
                    else case parse_hex_nibble b of
                      None \<Rightarrow> Some (word_of_nat hi, rest)
                    | Some lo \<Rightarrow> Some (word_of_nat (hi * 16 + lo), rest2))
           | None \<Rightarrow>
               if a \<in> {CHR ''+'', CHR ''-''} then
                 (case rest of
                    [] \<Rightarrow> None
                  | b # rest2 \<Rightarrow>
                      map_option (\<lambda>lo. (if a = CHR ''-'' then - word_of_nat lo else word_of_nat lo, rest2)) (parse_hex_nibble b))
               else None))"

fun scan_hex_fields :: "nat \<Rightarrow> string \<Rightarrow> u32 list" where
  "scan_hex_fields 0 text = []"
| "scan_hex_fields (Suc n) text =
     (case scan_hex2 text of None \<Rightarrow> [] | Some (v, rest) \<Rightarrow> v # scan_hex_fields n rest)"

definition parse_mac_hex :: "string \<Rightarrow> mac option" where
  "parse_mac_hex text =
     (if length text \<noteq> 12 then None
      else if length (scan_hex_fields 6 text) \<noteq> 6 then None
      else Some (map ucast (scan_hex_fields 6 text)))"

definition clean_mac_text :: "string \<Rightarrow> string" where
  "clean_mac_text text = filter (\<lambda>c. c \<noteq> CHR '':'' \<and> c \<noteq> CHR ''-'' \<and> c \<noteq> CHR '' '') text"

text \<open>The four hexadecimal digits \<^verbatim>\<open>snprintf\<close> prints of the job counter.\<close>

definition job_id_text :: "u32 \<Rightarrow> string" where
  "job_id_text n = bytes_to_lower_hex [ucast (drop_bit 8 n), ucast n]"

section \<open>Operations\<close>

text \<open>The SHA-256 argument and the preferred chunk size are not used by the code.\<close>

definition api_ota_start ::
  "ota_env \<Rightarrow> bridge \<Rightarrow> ParsedOtaStartRequest \<Rightarrow> string \<Rightarrow> ota_job \<Rightarrow> (string + string \<times> u16) \<times> ota_job" where
  "api_ota_start env protocol request request_id j =
     (case parse_mac_hex (clean_mac_text (pos_target_mac request)) of
        None \<Rightarrow> (Inl ''invalid target_mac'', j)
      | Some m \<Rightarrow>
     (case get_session protocol m of
        None \<Rightarrow> (Inl ''remote not found or offline'', j)
      | Some session \<Rightarrow>
     if \<not> bs_online session then (Inl ''remote not found or offline'', j)
     else (case oj_manager j of
        None \<Rightarrow> (Inl ''ota busy'', j)
      | Some mgr \<Rightarrow>
     if is_busy mgr then (Inl ''ota busy'', j)
     else (case parse_md5_hex (pos_md5 request) of
        None \<Rightarrow> (Inl ''invalid md5 hex'', j)
      | Some md5 \<Rightarrow>
          let (ok, mgr1) = start_transfer env m (pos_file_size request) md5 ESPNOW_FILE_ACTION_OTA_FLASH
                (bs_session_max_payload session)
                (Some (if pos_filename request = [] then ''ota.bin'' else pos_filename request)) mgr;
              j1 = j\<lparr>oj_manager := Some mgr1\<rparr>
          in if \<not> ok then (Inl (if om_last_error mgr1 = [] then ''start_transfer failed'' else om_last_error mgr1), j1)
             else
               let job_id = job_id_text (oj_job_counter j1 + 1)
               in (Inr (job_id, om_negotiated_chunk_size mgr1),
                   j1\<lparr>oj_job_counter := oj_job_counter j1 + 1, oj_job_id := job_id, oj_state := WAITING_FOR_LEAF,
                      oj_request_id := request_id, oj_target_mac := m, oj_session_id := [],
                      oj_last_requested_sequences := [], oj_chunk_request_counter := 0,
                      oj_last_status_percent := 255, oj_last_status_ms := 0\<rparr>)))))"

definition set_ota_transport_callbacks :: "ota_job \<Rightarrow> ota_job" where
  "set_ota_transport_callbacks j =
     (let j1 = j\<lparr>oj_callbacks := True\<rparr>
      in if oj_state j1 \<noteq> JOB_IDLE then j1\<lparr>oj_prev_public_state := []\<rparr> else j1)"

text \<open>There is one transport, so the comparison of the code is with its own pointer.\<close>

definition clear_ota_transport_callbacks :: "ota_job \<Rightarrow> ota_job" where
  "clear_ota_transport_callbacks j = j\<lparr>oj_callbacks := False\<rparr>"

definition api_ota_abort :: "ota_env \<Rightarrow> string \<Rightarrow> ota_job \<Rightarrow> bool \<times> ota_job" where
  "api_ota_abort env job_id j =
     (if oj_state j = JOB_IDLE then (False, j)
      else if job_id \<noteq> [] \<and> job_id \<noteq> oj_job_id j then (False, j)
      else (True, j\<lparr>oj_manager := map_option (\<lambda>m. if is_busy m then on_source_abort env ESPNOW_FILE_ABORT_USER m else m) (oj_manager j),
                    oj_state := JOB_IDLE\<rparr>))"

definition api_ota_inject_chunk :: "u32 \<Rightarrow> bytes \<Rightarrow> ota_job \<Rightarrow> bool \<times> ota_job" where
  "api_ota_inject_chunk sequence data j =
     (if oj_state j \<noteq> TRANSFERRING then (False, j)
      else case oj_manager j of
        None \<Rightarrow> (False, j)
      | Some m \<Rightarrow> let (ok, m1) = on_source_chunk sequence data m in (ok, j\<lparr>oj_manager := Some m1\<rparr>))"

definition api_ota_has_active_job :: "ota_job \<Rightarrow> bool" where
  "api_ota_has_active_job j \<longleftrightarrow> oj_state j \<noteq> JOB_IDLE"

definition api_ota_active_job_id :: "ota_job \<Rightarrow> string" where
  "api_ota_active_job_id j = (if oj_state j \<noteq> JOB_IDLE then oj_job_id j else [])"

definition api_ota_chunk_size :: "ota_job \<Rightarrow> u16" where
  "api_ota_chunk_size j = (case oj_manager j of None \<Rightarrow> 2048 | Some m \<Rightarrow> om_negotiated_chunk_size m)"

text \<open>A \<^verbatim>\<open>std::set\<close> is iterated in ascending order.\<close>

definition ota_requested_sequences :: "ota_job \<Rightarrow> u32 list" where
  "ota_requested_sequences j =
     (case oj_manager j of None \<Rightarrow> [] | Some m \<Rightarrow> sorted_list_of_set (it_requested_sequences (om_tracker m)))"

definition next_ota_chunk_request_id :: "ota_job \<Rightarrow> string \<times> ota_job" where
  "next_ota_chunk_request_id j =
     (let n = oj_chunk_request_counter j + 1
      in (oj_job_id j @ ''-'' @ dec_digits (unat n), j\<lparr>oj_chunk_request_counter := n\<rparr>))"

text \<open>The request for these sequences, with the manager's progress in it; it gets a new request id.\<close>

definition request_chunks :: "ota \<Rightarrow> u32 list \<Rightarrow> ota_job \<Rightarrow> ota_callback \<times> ota_job" where
  "request_chunks m requested j =
     (let (request_id, j1) = next_ota_chunk_request_id j
      in (OtaChunkRequest (oj_job_id j1) request_id requested 0 0 (ucast (it_current_increment (om_tracker m)))
            (ucast (it_total_increments (om_tracker m))) (ucast (it_retransmit_round (om_tracker m)))
            (ucast (it_buffer_size_kb (om_tracker m))) (ucast (om_public_progress_pct m)),
          j1\<lparr>oj_session_id := request_id\<rparr>))"

text \<open>Without a manager nothing is requested, so the defaults the code has for that case are never sent.\<close>

definition api_ota_resend_chunk_request :: "ota_job \<Rightarrow> ota_callback list \<times> ota_job" where
  "api_ota_resend_chunk_request j =
     (if oj_state j = TRANSFERRING \<and> oj_callbacks j then
        let j1 = j\<lparr>oj_last_requested_sequences := []\<rparr>;
            requested = ota_requested_sequences j1
        in case oj_manager j1 of
             None \<Rightarrow> ([], j1)
           | Some m \<Rightarrow>
               if requested = [] then ([], j1)
               else let (cb, j2) = request_chunks m requested j1
                    in ([cb], j2\<lparr>oj_last_requested_sequences := requested\<rparr>)
      else ([], j))"

definition emit_ota_status_callback :: "OtaState \<Rightarrow> string \<Rightarrow> ota_job \<Rightarrow> ota_callback list" where
  "emit_ota_status_callback state error_detail j =
     (if \<not> oj_callbacks j then []
      else
        let percent = (case oj_manager j of None \<Rightarrow> 0 | Some m \<Rightarrow> ucast (om_public_progress_pct m)) :: u32;
            file_size = (case oj_manager j of None \<Rightarrow> 0 | Some m \<Rightarrow> om_file_size m);
            bytes_received = (if file_size > 0 then (file_size * percent) div 100 else 0)
        in [OtaStatus (oj_job_id j) state percent bytes_received file_size error_detail])"

definition emit_waiting :: "ota_env \<Rightarrow> ota_job \<Rightarrow> ota_callback list \<times> ota_job" where
  "emit_waiting env j =
     (case oj_manager j of
        Some m \<Rightarrow>
          if is_busy m \<and> om_public_state m = ''TRANSFERRING'' \<and> oj_prev_public_state j \<noteq> ''TRANSFERRING'' then
            let requested = ota_requested_sequences j;
                j1 = j\<lparr>oj_state := TRANSFERRING, oj_prev_public_state := ''TRANSFERRING'',
                       oj_last_requested_sequences := requested, oj_last_status_percent := 255,
                       oj_last_status_ms := env_now env\<rparr>;
                (cb, j2) = request_chunks m requested j1
            in ([OtaAccepted (oj_request_id j1) (oj_job_id j1) (mac_display (oj_target_mac j1)) (om_negotiated_chunk_size m)
                   (it_total_chunks (om_tracker m)) 6, cb], j2)
          else if \<not> is_busy m then
            (emit_ota_status_callback OTA_STATE_FAILED ''OTA transfer failed before leaf accepted'' j,
             j\<lparr>oj_state := JOB_IDLE, oj_prev_public_state := [], oj_last_requested_sequences := []\<rparr>)
          else ([], j\<lparr>oj_prev_public_state := om_public_state m\<rparr>)
      | None \<Rightarrow>
          (emit_ota_status_callback OTA_STATE_FAILED ''OTA transfer failed before leaf accepted'' j,
           j\<lparr>oj_state := JOB_IDLE, oj_prev_public_state := [], oj_last_requested_sequences := []\<rparr>))"

definition emit_requests :: "ota \<Rightarrow> ota_job \<Rightarrow> ota_callback list \<times> ota_job" where
  "emit_requests m j =
     (let requested = ota_requested_sequences j;
          subset = list_all (\<lambda>seq. seq \<in> set (oj_last_requested_sequences j)) requested
      in if requested = [] then ([], j\<lparr>oj_last_requested_sequences := []\<rparr>)
         else if oj_last_requested_sequences j = [] \<or> \<not> subset then
           let (cb, j1) = request_chunks m requested (j\<lparr>oj_last_requested_sequences := requested\<rparr>) in ([cb], j1)
         else ([], j))"

definition emit_progress :: "ota_env \<Rightarrow> ota \<Rightarrow> ota_job \<Rightarrow> ota_callback list \<times> ota_job" where
  "emit_progress env m j =
     (let state = (if om_public_state m = ''VERIFYING'' then OTA_STATE_VERIFYING else OTA_STATE_TRANSFERRING);
          percent = om_public_progress_pct m; now = env_now env
      in if state = OTA_STATE_VERIFYING \<or> oj_last_status_percent j = 255 \<or>
            unat percent \<ge> unat (oj_last_status_percent j) + 10 \<or> now - oj_last_status_ms j \<ge> 5000
         then (emit_ota_status_callback state [] j, j\<lparr>oj_last_status_percent := percent, oj_last_status_ms := now\<rparr>)
         else ([], j))"

definition emit_transferring :: "ota_env \<Rightarrow> ota_job \<Rightarrow> ota_callback list \<times> ota_job" where
  "emit_transferring env j =
     (case oj_manager j of
        None \<Rightarrow> ([], j\<lparr>oj_state := JOB_IDLE, oj_prev_public_state := []\<rparr>)
      | Some m \<Rightarrow>
          if om_public_state m = ''SUCCESS'' \<and> oj_prev_public_state j \<noteq> ''SUCCESS'' then
            (emit_ota_status_callback OTA_STATE_SUCCESS [] j,
             j\<lparr>oj_state := JOB_SUCCESS, oj_prev_public_state := ''SUCCESS'', oj_last_requested_sequences := []\<rparr>)
          else if om_public_state m = ''FAIL'' \<and> oj_prev_public_state j \<noteq> ''FAIL'' then
            (emit_ota_status_callback OTA_STATE_FAILED (om_last_error m) j,
             j\<lparr>oj_state := JOB_FAILED, oj_prev_public_state := ''FAIL'', oj_last_requested_sequences := []\<rparr>)
          else if \<not> is_busy m then
            ([], j\<lparr>oj_state := JOB_IDLE, oj_prev_public_state := [], oj_last_requested_sequences := []\<rparr>)
          else
            let (cbs1, j1) = emit_requests m j;
                (cbs2, j2) = emit_progress env m j1
            in (cbs1 @ cbs2, j2\<lparr>oj_prev_public_state := om_public_state m\<rparr>))"

definition emit_ota_events :: "ota_env \<Rightarrow> ota_job \<Rightarrow> ota_callback list \<times> ota_job" where
  "emit_ota_events env j =
     (if \<not> oj_callbacks j then ([], j)
      else if oj_state j = JOB_IDLE then ([], j)
      else if oj_state j = WAITING_FOR_LEAF then emit_waiting env j
      else if oj_state j = TRANSFERRING then emit_transferring env j
      else ([], j))"

section \<open>Addresses as text\<close>

lemma upper_digit_code: "n < 16 \<Longrightarrow> (of_char (hex_digit_upper n) :: nat) = (if n < 10 then 48 + n else 55 + n)"
  by (simp add: hex_digit_upper_def)

lemma upper_digit:
  assumes "n < 16"
  shows "\<not> is_space (hex_digit_upper n)" "parse_hex_nibble (hex_digit_upper n) = Some n"
    "(of_char c :: nat) \<notin> {48..70} \<Longrightarrow> hex_digit_upper n \<noteq> c" "hex_digit_upper n \<noteq> CHR '':''"
proof -
  note c = upper_digit_code [OF assms]
  show "\<not> is_space (hex_digit_upper n)" "parse_hex_nibble (hex_digit_upper n) = Some n"
    using assms by (simp_all add: is_space_def parse_hex_nibble_def c)
  show "hex_digit_upper n \<noteq> c" if "(of_char c :: nat) \<notin> {48..70}" using that c assms by (auto split: if_splits)
  have "(of_char (hex_digit_upper n) :: nat) \<noteq> 58" using assms by (simp add: c)
  then show "hex_digit_upper n \<noteq> CHR '':''" by force
qed

lemma upper_digit_other:
  assumes "n < 16"
  shows "hex_digit_upper n \<noteq> CHR ''x''" "hex_digit_upper n \<noteq> CHR ''X''" "hex_digit_upper n \<noteq> CHR ''-''" "hex_digit_upper n \<noteq> CHR '' ''"
  by (rule upper_digit(3) [OF assms], simp)+

lemma byte_digits: "unat (b :: u8) div 16 < 16" "unat b mod 16 < 16"
  using unsigned_less [of b, where 'a = nat] by simp_all

lemma scan_hex2_upper: "scan_hex2 (hex2_upper b @ rest) = Some (ucast b, rest)"
proof -
  have "unat b div 16 * 16 + unat b mod 16 = unat b" by simp
  then show ?thesis by (simp add: scan_hex2_def hex2_upper_def upper_digit(1, 2) upper_digit_other byte_digits)
qed

lemma scan_mac_hex: "scan_hex_fields 6 (mac_hex m) = map ucast [m ! 0, m ! 1, m ! 2, m ! 3, m ! 4, m ! 5]"
proof -
  have "scan_hex2 (hex2_upper b) = Some (ucast b, [])" for b using scan_hex2_upper [of b "[]"] by simp
  then show ?thesis by (simp add: mac_hex_def numeral_eq_Suc scan_hex2_upper)
qed

lemma parse_mac_hex_text:
  assumes "length m = 6"
  shows "parse_mac_hex (mac_hex m) = Some m"
proof -
  have "length (mac_hex m) = 12" by (simp add: mac_hex_def)
  moreover have "map (ucast \<circ> (ucast :: u8 \<Rightarrow> u32)) m = m" by (intro map_idI) (simp add: unsigned_ucast_eq take_bit_word_eq_self)
  ultimately show ?thesis using assms mac_six [OF assms, symmetric] by (simp add: parse_mac_hex_def scan_mac_hex)
qed

lemma clean_hex2: "clean_mac_text (hex2_upper b) = hex2_upper b"
  by (simp add: clean_mac_text_def hex2_upper_def upper_digit(4) upper_digit_other byte_digits)

lemma clean_mac_display: "clean_mac_text (mac_display m) = mac_hex m"
proof -
  have "clean_mac_text (a @ b) = clean_mac_text a @ clean_mac_text b" "clean_mac_text '':'' = []" for a b
    by (simp_all add: clean_mac_text_def)
  then show ?thesis unfolding mac_display_def mac_hex_def by (simp only: clean_hex2) simp
qed

text \<open>An address that was printed in either form is read back.\<close>

lemma parse_mac_display: "length m = 6 \<Longrightarrow> parse_mac_hex (clean_mac_text (mac_display m)) = Some m"
  by (simp add: clean_mac_display parse_mac_hex_text)

end
