(* ===== verification/Runtime_Ws.thy ===== *)
theory Runtime_Ws
  imports Ota_Job Crypto
begin

unbundle bit_operations_syntax

text \<open>
  The runtime API's WebSocket transport (\<^verbatim>\<open>bridge_api_proto_ws.cpp\<close>): the members of \<^verbatim>\<open>Impl\<close> are the
  record ws, and a socket is the stream of bytes that arrive on it.  The transport and the OTA job it drives are
  the record api; calls into the rest of \<^verbatim>\<open>ESPTreeBridge\<close> are appended to a list, and what they encode
  comes from the environment.  A handler holds the transport's mutex around each access to its members and
  runs here as one step.
\<close>

section \<open>State\<close>

datatype ws_event = WsWrite int bytes | WsShutdown int

record ws =
  ws_registered :: bool
  ws_active_fd :: int
  ws_connected :: bool
  ws_authenticated :: bool
  ws_last_heartbeat_ms :: u32
  ws_last_status_log_ms :: u32
  ws_bytes_sent :: u32
  ws_bytes_received :: u32
  ws_server_nonce :: bytes
  ws_chunk_request_id :: string
  ws_job_id :: string
  ws_pending_sequences :: "u32 set"
  ws_max_chunk_size :: u32
  ws_max_chunks_per_batch :: u32
  ws_events :: "ws_event list"

datatype api_call =
    CallCommand string ParsedCommandRequest
  | CallConfig string ParsedConfigCommandRequest
  | CallReceipt ParsedStateReceipt
  | CallOtaStart string ParsedOtaStartRequest
  | CallOtaInject u32 bytes
  | CallOtaAbort string

record api =
  ap_ws :: ws
  ap_job :: ota_job
  ap_calls :: "api_call list"

definition ws_initial :: ws where
  "ws_initial = \<lparr>ws_registered = False, ws_active_fd = - 1, ws_connected = False, ws_authenticated = False,
     ws_last_heartbeat_ms = 0, ws_last_status_log_ms = 0, ws_bytes_sent = 0, ws_bytes_received = 0,
     ws_server_nonce = replicate 16 0, ws_chunk_request_id = [], ws_job_id = [], ws_pending_sequences = {},
     ws_max_chunk_size = 2048, ws_max_chunks_per_batch = 6, ws_events = []\<rparr>"

text \<open>
  What a handler asks of its surroundings: the clock and the radio (\<open>we_ota\<close>), HMAC, the bridge's key and address, whether a
  write of the socket succeeds, and what \<^verbatim>\<open>ESPTreeBridge\<close> encodes.  A configuration command answers
  at once or later, so its answers are a list.
\<close>

record ws_env =
  we_ota :: ota_env
  we_hmac :: hmac_fn
  we_api_key :: string
  we_bridge_mac :: string
  we_send :: "ws_event list \<Rightarrow> bool"
  we_nonce :: bytes
  we_accept_key :: "string \<Rightarrow> string"
  we_async_ok :: bool
  we_task_ok :: bool
  we_protocol :: bridge
  we_auth_ok :: "string \<Rightarrow> bytes"
  we_snapshot :: "string \<Rightarrow> bytes"
  we_heartbeat :: bytes
  we_command :: "string \<Rightarrow> ParsedCommandRequest \<Rightarrow> bytes"
  we_config :: "string \<Rightarrow> ParsedConfigCommandRequest \<Rightarrow> bytes list"

abbreviation (input) AUTH_CHALLENGE :: u32 where "AUTH_CHALLENGE \<equiv> 10"

abbreviation (input) AUTH_RESPONSE :: u32 where "AUTH_RESPONSE \<equiv> 11"

abbreviation (input) CLIENT_HELLO :: u32 where "CLIENT_HELLO \<equiv> 14"

abbreviation (input) COMMAND_REQUEST :: u32 where "COMMAND_REQUEST \<equiv> 17"

abbreviation (input) CONFIG_COMMAND_REQUEST :: u32 where "CONFIG_COMMAND_REQUEST \<equiv> 19"

abbreviation (input) PING :: u32 where "PING \<equiv> 21"

abbreviation (input) PONG :: u32 where "PONG \<equiv> 22"

abbreviation (input) STATE_RECEIPT :: u32 where "STATE_RECEIPT \<equiv> 23"

abbreviation (input) OTA_START_REQUEST :: u32 where "OTA_START_REQUEST \<equiv> 30"

abbreviation (input) OTA_CHUNK_BATCH :: u32 where "OTA_CHUNK_BATCH \<equiv> 31"

abbreviation (input) OTA_ABORT_REQUEST :: u32 where "OTA_ABORT_REQUEST \<equiv> 32"

abbreviation (input) kRuntimeMaxFrameBytes :: nat where "kRuntimeMaxFrameBytes \<equiv> 65536"

abbreviation (input) kRuntimeHeartbeatIntervalMs :: u32 where "kRuntimeHeartbeatIntervalMs \<equiv> 30000"

abbreviation (input) STATUS_LOG_INTERVAL_MS :: u32 where "STATUS_LOG_INTERVAL_MS \<equiv> 30000"

section \<open>Helpers\<close>

definition ws_constant_time_equal :: "bytes \<Rightarrow> bytes \<Rightarrow> nat \<Rightarrow> bool" where
  "ws_constant_time_equal a b len = (fold (\<lambda>i diff. diff OR (a ! i XOR b ! i)) [0..<len] (0 :: u8) = 0)"

definition crc32_bit :: "u32 \<Rightarrow> u32" where
  "crc32_bit crc = drop_bit 1 crc XOR (0xEDB88320 AND (0 - (crc AND 1)))"

definition crc32_bytes :: "bytes \<Rightarrow> u32" where
  "crc32_bytes data = fold (\<lambda>b crc. (crc32_bit ^^ 8) (crc XOR ucast b)) data 0xFFFFFFFF XOR 0xFFFFFFFF"

fun starts_with :: "string \<Rightarrow> string \<Rightarrow> bool" where
  "starts_with [] text = True"
| "starts_with (c # cs) [] = False"
| "starts_with (c # cs) (d # ds) = (c = d \<and> starts_with cs ds)"

fun contains :: "string \<Rightarrow> string \<Rightarrow> bool" where
  "contains needle [] = (needle = [])"
| "contains needle (d # ds) = (starts_with needle (d # ds) \<or> contains needle ds)"

definition to_lower :: "char \<Rightarrow> char" where
  "to_lower ch = (let c = of_char ch :: nat in if 65 \<le> c \<and> c \<le> 90 then char_of (c + 32) else ch)"

definition ota_start_error_code :: "string \<Rightarrow> string" where
  "ota_start_error_code message =
     (let text = map to_lower message in
      if contains ''not found'' text \<or> contains ''offline'' text then ''remote_not_found''
      else if contains ''busy'' text then ''ota_busy''
      else if contains ''md5'' text then ''ota_invalid_md5''
      else if contains ''size'' text then ''ota_invalid_size''
      else if contains ''reject'' text then ''ota_rejected''
      else ''internal_error'')"

section \<open>WebSocket frames\<close>

text \<open>
  \<^verbatim>\<open>read_exact\<close> gives up when the stream ends before it has what it wants.
\<close>

definition read_exact :: "nat \<Rightarrow> bytes \<Rightarrow> (bytes \<times> bytes) option" where
  "read_exact n stream = (if length stream < n then None else Some (take n stream, drop n stream))"

definition unmask :: "bytes \<Rightarrow> bytes \<Rightarrow> bytes" where
  "unmask key payload = map (\<lambda>i. payload ! i XOR key ! (i mod 4)) [0..<length payload]"

definition read_payload :: "u8 \<Rightarrow> nat \<Rightarrow> bytes \<Rightarrow> (u8 \<times> bytes \<times> bytes) option" where
  "read_payload opcode len stream =
     (if len > kRuntimeMaxFrameBytes then None
      else case read_exact 4 stream of
        None \<Rightarrow> None
      | Some (key, rest) \<Rightarrow>
          (case read_exact len rest of
             None \<Rightarrow> None
           | Some (payload, rest2) \<Rightarrow> Some (opcode, unmask key payload, rest2)))"

definition read_frame :: "bytes \<Rightarrow> (u8 \<times> bytes \<times> bytes) option" where
  "read_frame stream =
     (case read_exact 2 stream of
        None \<Rightarrow> None
      | Some (header, rest) \<Rightarrow>
          let final = (header ! 0 AND 0x80 \<noteq> 0);
              opcode = header ! 0 AND 0x0F;
              masked = (header ! 1 AND 0x80 \<noteq> 0);
              len = unat (header ! 1 AND 0x7F)
          in if \<not> final \<or> \<not> masked then None
             else if len = 126 then
               (case read_exact 2 rest of
                  None \<Rightarrow> None
                | Some (ext, rest2) \<Rightarrow> read_payload opcode (unat (ext ! 0) * 256 + unat (ext ! 1)) rest2)
             else if len = 127 then None
             else read_payload opcode len rest)"

definition frame_header :: "u8 \<Rightarrow> nat \<Rightarrow> bytes option" where
  "frame_header opcode len =
     (if len < 126 then Some [0x80 OR (opcode AND 0x0F), word_of_nat len]
      else if len \<le> 0xFFFF then
        Some [0x80 OR (opcode AND 0x0F), 126, word_of_nat (len div 256 mod 256), word_of_nat (len mod 256)]
      else None)"

definition ws_send_exact :: "ws_env \<Rightarrow> int \<Rightarrow> bytes \<Rightarrow> ws \<Rightarrow> bool \<times> ws" where
  "ws_send_exact env fd data w = (we_send env (ws_events w), w\<lparr>ws_events := ws_events w @ [WsWrite fd data]\<rparr>)"

definition ws_send_frame :: "ws_env \<Rightarrow> u8 \<Rightarrow> bytes \<Rightarrow> ws \<Rightarrow> bool \<times> ws" where
  "ws_send_frame env opcode payload w =
     (if \<not> ws_connected w \<or> ws_active_fd w < 0 then (False, w)
      else if length payload > kRuntimeMaxFrameBytes then (False, w)
      else case frame_header opcode (length payload) of
        None \<Rightarrow> (False, w)
      | Some header \<Rightarrow>
          let (ok, w1) = ws_send_exact env (ws_active_fd w) header w
          in if \<not> ok then (False, w1)
             else if payload = [] then (True, w1)
             else ws_send_exact env (ws_active_fd w) payload w1)"

definition send_binary :: "ws_env \<Rightarrow> bytes \<Rightarrow> ws \<Rightarrow> bool \<times> ws" where
  "send_binary env payload w =
     (let (ok, w1) = ws_send_frame env 0x2 payload w
      in (ok, if ok \<and> payload \<noteq> [] then w1\<lparr>ws_bytes_sent := ws_bytes_sent w1 + word_of_nat (length payload)\<rparr> else w1))"

section \<open>Sessions\<close>

definition has_authenticated_client :: "ws \<Rightarrow> bool" where
  "has_authenticated_client w \<longleftrightarrow> ws_connected w \<and> ws_authenticated w \<and> ws_active_fd w \<ge> 0"

definition register_with_web_server :: "bool \<Rightarrow> ws \<Rightarrow> bool \<times> ws" where
  "register_with_web_server server_present w =
     (if ws_registered w then (True, w)
      else if \<not> server_present then (False, w)
      else (True, w\<lparr>ws_registered := True\<rparr>))"

definition is_active_fd :: "int \<Rightarrow> ws \<Rightarrow> bool" where
  "is_active_fd fd w \<longleftrightarrow> ws_connected w \<and> ws_active_fd w = fd"

text \<open>In a record of the transport and the job, an operation of the transport alone.\<close>

definition on_ws :: "(ws \<Rightarrow> ws) \<Rightarrow> api \<Rightarrow> api" where
  "on_ws f a = a\<lparr>ap_ws := f (ap_ws a)\<rparr>"

definition reply :: "ws_env \<Rightarrow> bytes \<Rightarrow> api \<Rightarrow> api" where
  "reply env frame = on_ws (\<lambda>w. snd (send_binary env frame w))"

definition call :: "api_call \<Rightarrow> api \<Rightarrow> api" where
  "call c a = a\<lparr>ap_calls := ap_calls a @ [c]\<rparr>"

definition finish_session :: "int \<Rightarrow> api \<Rightarrow> api" where
  "finish_session fd a =
     (if ws_active_fd (ap_ws a) \<noteq> fd then a
      else a\<lparr>ap_ws := (ap_ws a)\<lparr>ws_connected := False, ws_authenticated := False, ws_active_fd := - 1,
               ws_chunk_request_id := [], ws_job_id := [], ws_pending_sequences := {}\<rparr>,
             ap_job := clear_ota_transport_callbacks (ap_job a)\<rparr>)"

text \<open>The members are reset before the close frame is sent, as in the code.\<close>

definition close_client :: "ws_env \<Rightarrow> ws \<Rightarrow> ws" where
  "close_client env w =
     (let fd = ws_active_fd w;
          w1 = w\<lparr>ws_connected := False, ws_authenticated := False, ws_active_fd := - 1\<rparr>
      in if fd \<ge> 0 then
           let (sent, w2) = ws_send_frame env 0x8 [] w1 in w2\<lparr>ws_events := ws_events w2 @ [WsShutdown fd]\<rparr>
         else w1)"

definition send_auth_challenge :: "ws_env \<Rightarrow> api \<Rightarrow> api" where
  "send_auth_challenge env a =
     reply env (envelope [] AUTH_CHALLENGE (\<lambda>w.
       Writer_string 5 (we_bridge_mac env)
        (Writer_string 4 ''esp-tree-pb''
         (Writer_varint 3 kRuntimeApiVersion
          (Writer_varint 2 kRuntimeApiVersion
           (Writer_bytes 1 (ws_server_nonce (ap_ws a)) w)))))) a"

datatype http_reply = BadRequest | ServiceUnavailable | Conflict | Dropped | SwitchingProtocols string

definition run_socket_session :: "ws_env \<Rightarrow> string option \<Rightarrow> int \<Rightarrow> api \<Rightarrow> http_reply \<times> api" where
  "run_socket_session env key fd a =
     (case key of
        None \<Rightarrow> (BadRequest, a)
      | Some k \<Rightarrow>
          if we_api_key env = [] then (ServiceUnavailable, a)
          else if ws_connected (ap_ws a) then (Conflict, a)
          else
            let a1 = on_ws (\<lambda>w. w\<lparr>ws_connected := True, ws_authenticated := False, ws_active_fd := fd,
                       ws_server_nonce := we_nonce env\<rparr>) a;
                accept = we_accept_key env k
            in if accept = [] \<or> \<not> we_async_ok env then (Dropped, finish_session fd a1)
               else if \<not> we_task_ok env then (SwitchingProtocols accept, finish_session fd a1)
               else (SwitchingProtocols accept, a1))"

section \<open>Authentication\<close>

definition auth_input :: "string \<Rightarrow> bytes \<Rightarrow> bytes \<Rightarrow> string" where
  "auth_input client_kind server_nonce client_nonce =
     ''esp-tree-pb'' @ ''|'' @ ''v2'' @ ''|'' @ client_kind @ ''|'' @ bytes_to_lower_hex server_nonce @ ''|'' @
       bytes_to_lower_hex client_nonce"

definition verify_auth_response :: "ws_env \<Rightarrow> ws \<Rightarrow> ParsedAuthResponse \<Rightarrow> bool" where
  "verify_auth_response env w response =
     (if par_client_kind response \<noteq> ''ha_integration'' \<or> par_client_nonce response = [] \<or>
         length (par_hmac_sha256 response) \<noteq> 32 then False
      else
        let digest = hmac_sha256 (we_hmac env) (bytes_of_string (we_api_key env))
              (bytes_of_string (auth_input (par_client_kind response) (ws_server_nonce w) (par_client_nonce response)))
        in ws_constant_time_equal digest (par_hmac_sha256 response) 32)"

section \<open>The OTA callbacks\<close>

definition on_ota_accepted ::
  "ws_env \<Rightarrow> string \<Rightarrow> string \<Rightarrow> string \<Rightarrow> u16 \<Rightarrow> u32 \<Rightarrow> u16 \<Rightarrow> ws \<Rightarrow> ws" where
  "on_ota_accepted env request_id job_id target_mac max_chunk_size total_chunks max_chunks_per_batch w =
     (if \<not> has_authenticated_client w then w
      else snd (send_binary env (encode_ota_accepted request_id job_id target_mac (ucast max_chunk_size) total_chunks
             (ucast max_chunks_per_batch))
           (w\<lparr>ws_job_id := job_id, ws_max_chunk_size := ucast max_chunk_size,
              ws_max_chunks_per_batch := ucast max_chunks_per_batch\<rparr>)))"

definition on_ota_chunk_request ::
  "ws_env \<Rightarrow> string \<Rightarrow> string \<Rightarrow> u32 list \<Rightarrow> u32 \<Rightarrow> u32 \<Rightarrow> u32 \<Rightarrow> u32 \<Rightarrow> u32 \<Rightarrow> u32 \<Rightarrow> u32 \<Rightarrow> ws \<Rightarrow> ws" where
  "on_ota_chunk_request env job_id request_id sequences chunks_sent chunks_confirmed current_increment total_increments
     retransmit_round buffer_size_kb percent w =
     (if \<not> has_authenticated_client w then w
      else snd (send_binary env (encode_ota_chunk_request [] job_id request_id sequences chunks_sent chunks_confirmed
             current_increment total_increments retransmit_round buffer_size_kb percent)
           (w\<lparr>ws_job_id := job_id, ws_chunk_request_id := request_id, ws_pending_sequences := set sequences\<rparr>)))"

definition on_ota_status :: "ws_env \<Rightarrow> string \<Rightarrow> OtaState \<Rightarrow> u32 \<Rightarrow> u32 \<Rightarrow> u32 \<Rightarrow> string \<Rightarrow> ws \<Rightarrow> ws" where
  "on_ota_status env job_id state percent bytes_received file_size error_detail w =
     (if \<not> has_authenticated_client w then w
      else snd (send_binary env (encode_ota_status [] job_id state percent bytes_received file_size error_detail) w))"

definition on_ota_aborted :: "ws_env \<Rightarrow> string \<Rightarrow> string \<Rightarrow> string \<Rightarrow> ws \<Rightarrow> ws" where
  "on_ota_aborted env request_id job_id reason w =
     (if \<not> has_authenticated_client w then w
      else snd (send_binary env (encode_ota_aborted request_id job_id reason)
           (w\<lparr>ws_chunk_request_id := [], ws_job_id := [], ws_pending_sequences := {}\<rparr>)))"

fun deliver_callback :: "ws_env \<Rightarrow> ota_callback \<Rightarrow> ws \<Rightarrow> ws" where
  "deliver_callback env (OtaAccepted rid job target sz chunks batch) w = on_ota_accepted env rid job target sz chunks batch w"
| "deliver_callback env (OtaChunkRequest job rid seqs sent conf inc incs round kb pct) w =
     on_ota_chunk_request env job rid seqs sent conf inc incs round kb pct w"
| "deliver_callback env (OtaStatus job state pct got sz err) w = on_ota_status env job state pct got sz err w"

text \<open>Nothing in the code calls this one.\<close>

definition send_current_ota_chunk_request :: "ws_env \<Rightarrow> ws \<Rightarrow> ws" where
  "send_current_ota_chunk_request env w =
     (let sequences = sorted_list_of_set (ws_pending_sequences w)
      in if sequences = [] then w
         else snd (send_binary env (encode_ota_chunk_request [] (ws_job_id w) (ws_chunk_request_id w) sequences 0 0 0 0 0 0 0) w))"

section \<open>OTA requests\<close>

definition handle_ota_start :: "ws_env \<Rightarrow> string \<Rightarrow> bytes \<Rightarrow> api \<Rightarrow> api" where
  "handle_ota_start env request_id data a =
     (case parse_ota_start_request data of
        None \<Rightarrow> reply env (error_envelope request_id ''invalid_ota_start'' ''Invalid OTA start request'') a
      | Some request \<Rightarrow>
          let (result, j) = api_ota_start (we_ota env) (we_protocol env) request request_id (ap_job a);
              a1 = (call (CallOtaStart request_id request) a)\<lparr>ap_job := j\<rparr>
          in (case result of
                Inl err \<Rightarrow> reply env (error_envelope request_id (ota_start_error_code err)
                             (if err = [] then ''OTA start failed'' else err)) a1
              | Inr (job_id, max_chunk_size) \<Rightarrow>
                  reply env (encode_ota_status [] job_id OTA_STATE_ANNOUNCING 0 0 (pos_file_size request) []) a1))"

definition chunk_invalid :: "ws \<Rightarrow> ParsedOtaChunk \<Rightarrow> bool" where
  "chunk_invalid w chunk \<longleftrightarrow>
     (case poc_payload chunk of
        None \<Rightarrow> True
      | Some payload \<Rightarrow>
          poc_sequence chunk \<notin> ws_pending_sequences w \<or> length payload = 0 \<or>
          length payload > unat (ws_max_chunk_size w) \<or>
          (ucast (poc_offset chunk) :: u64) \<noteq> ucast (poc_sequence chunk) * ucast (ws_max_chunk_size w) \<or>
          poc_flags chunk AND NOT 1 \<noteq> 0 \<or> crc32_bytes payload \<noteq> poc_crc32 chunk)"

definition abort_batch :: "ws_env \<Rightarrow> string \<Rightarrow> string \<Rightarrow> string \<Rightarrow> api \<Rightarrow> api" where
  "abort_batch env request_id message job_id a =
     (let a1 = reply env (error_envelope request_id ''ota_invalid_chunk'' message) a
      in (call (CallOtaAbort job_id) a1)\<lparr>ap_job := snd (api_ota_abort (we_ota env) job_id (ap_job a1))\<rparr>)"

fun inject_chunks :: "ws_env \<Rightarrow> string \<Rightarrow> string \<Rightarrow> ParsedOtaChunk list \<Rightarrow> api \<Rightarrow> api" where
  "inject_chunks env request_id job_id [] a = a"
| "inject_chunks env request_id job_id (chunk # chunks) a =
     (if chunk_invalid (ap_ws a) chunk then abort_batch env request_id ''OTA chunk rejected'' job_id a
      else
        let payload = (case poc_payload chunk of None \<Rightarrow> [] | Some p \<Rightarrow> p);
            (ok, j) = api_ota_inject_chunk (poc_sequence chunk) payload (ap_job a);
            a1 = (call (CallOtaInject (poc_sequence chunk) payload) a)\<lparr>ap_job := j\<rparr>
        in if \<not> ok then abort_batch env request_id ''OTA chunk rejected'' job_id a1
           else
             let pending = ws_pending_sequences (ap_ws a1) - {poc_sequence chunk}
             in inject_chunks env request_id job_id chunks
                  (on_ws (\<lambda>w. w\<lparr>ws_pending_sequences := pending,
                               ws_chunk_request_id := (if pending = {} then [] else ws_chunk_request_id w)\<rparr>) a1))"

definition handle_ota_chunk_batch :: "ws_env \<Rightarrow> string \<Rightarrow> bytes \<Rightarrow> api \<Rightarrow> api" where
  "handle_ota_chunk_batch env request_id data a =
     (case parse_ota_chunk_batch data of
        None \<Rightarrow> reply env (error_envelope request_id ''ota_invalid_chunk'' ''Invalid OTA chunk batch'') a
      | Some batch \<Rightarrow>
          if \<not> api_ota_has_active_job (ap_job a) \<or> pob_job_id batch \<noteq> api_ota_active_job_id (ap_job a) then
            reply env (error_envelope request_id ''ota_not_active'' ''No active OTA job for batch'') a
          else if pob_response_request_id batch \<noteq> ws_chunk_request_id (ap_ws a) then
            let (cbs, j) = api_ota_resend_chunk_request (ap_job a)
            in on_ws (fold (deliver_callback env) cbs) (a\<lparr>ap_job := j\<rparr>)
          else if length (pob_chunks batch) > unat (ws_max_chunks_per_batch (ap_ws a)) then
            abort_batch env request_id ''OTA chunk batch too large'' (pob_job_id batch) a
          else inject_chunks env request_id (pob_job_id batch) (pob_chunks batch) a)"

definition handle_ota_abort :: "ws_env \<Rightarrow> string \<Rightarrow> bytes \<Rightarrow> api \<Rightarrow> api" where
  "handle_ota_abort env request_id data a =
     (case parse_ota_abort_request data of
        None \<Rightarrow> reply env (error_envelope request_id ''ota_not_active'' ''Invalid OTA abort request'') a
      | Some request \<Rightarrow>
          reply env (encode_ota_aborted request_id (poa_job_id request) (poa_reason request))
            ((call (CallOtaAbort (poa_job_id request)) a)
               \<lparr>ap_job := snd (api_ota_abort (we_ota env) (poa_job_id request) (ap_job a))\<rparr>))"

section \<open>Binary frames\<close>

definition refuse :: "ws_env \<Rightarrow> bytes \<Rightarrow> api \<Rightarrow> api" where
  "refuse env frame a = on_ws (close_client env) (reply env frame a)"

definition authenticate :: "ws_env \<Rightarrow> ParsedEnvelope \<Rightarrow> bytes \<Rightarrow> api \<Rightarrow> api" where
  "authenticate env e data a =
     (if pe_msg_field e \<noteq> AUTH_RESPONSE then
        refuse env (auth_failed_envelope (pe_request_id e) ''auth_required'' ''Authenticate before sending runtime requests'') a
      else
        let accepted = (case parse_auth_response data of None \<Rightarrow> False
                        | Some response \<Rightarrow> verify_auth_response env (ap_ws a) response)
        in if \<not> accepted then
             refuse env (auth_failed_envelope (pe_request_id e) ''auth_failed'' ''Authentication failed'') a
           else
             reply env (we_auth_ok env (pe_request_id e))
               ((on_ws (\<lambda>w. w\<lparr>ws_authenticated := True, ws_last_heartbeat_ms := env_now (we_ota env)\<rparr>) a)
                  \<lparr>ap_job := set_ota_transport_callbacks (ap_job a)\<rparr>))"

definition handle_request :: "ws_env \<Rightarrow> ParsedEnvelope \<Rightarrow> bytes \<Rightarrow> api \<Rightarrow> api" where
  "handle_request env e data a =
     (let rid = pe_request_id e; ty = pe_msg_field e in
      if ty = CLIENT_HELLO then reply env (we_snapshot env rid) a
      else if ty = PING then reply env (envelope rid PONG (Writer_varint 1 (ping_monotonic_ms data))) a
      else if ty = COMMAND_REQUEST then
        (case parse_command_request data of
           None \<Rightarrow> reply env (error_envelope rid ''invalid_command'' ''Invalid command request'') a
         | Some request \<Rightarrow> reply env (we_command env rid request) (call (CallCommand rid request) a))
      else if ty = CONFIG_COMMAND_REQUEST then
        (case parse_config_command_request data of
           None \<Rightarrow> reply env (error_envelope rid ''invalid_config_command'' ''Invalid config command request'') a
         | Some request \<Rightarrow> fold (reply env) (we_config env rid request) (call (CallConfig rid request) a))
      else if ty = STATE_RECEIPT then
        (case parse_state_receipt data of
           None \<Rightarrow> reply env (error_envelope rid ''invalid_state_receipt'' ''Invalid state receipt'') a
         | Some receipt \<Rightarrow> call (CallReceipt receipt) a)
      else if ty = OTA_START_REQUEST then handle_ota_start env rid data a
      else if ty = OTA_CHUNK_BATCH then handle_ota_chunk_batch env rid data a
      else if ty = OTA_ABORT_REQUEST then handle_ota_abort env rid data a
      else reply env (error_envelope rid ''unsupported_message'' ''Unsupported runtime request'') a)"

definition handle_binary :: "ws_env \<Rightarrow> bytes \<Rightarrow> api \<Rightarrow> api" where
  "handle_binary env payload a =
     (case parse_envelope payload of
        None \<Rightarrow> reply env (error_envelope [] ''invalid_envelope'' ''Invalid protobuf envelope'') a
      | Some e \<Rightarrow>
          let data = (case pe_msg_data e of None \<Rightarrow> [] | Some d \<Rightarrow> d) in
          if pe_api_version e \<noteq> 0 \<and> pe_api_version e \<noteq> 2 then
            reply env (error_envelope [] ''invalid_envelope'' ''Invalid protobuf envelope'') a
          else if \<not> has_authenticated_client (ap_ws a) then authenticate env e data a
          else handle_request env e data a)"

section \<open>The socket task\<close>

text \<open>One frame of the loop; the first component says whether the loop goes on.\<close>

definition on_frame :: "ws_env \<Rightarrow> u8 \<Rightarrow> bytes \<Rightarrow> api \<Rightarrow> bool \<times> api" where
  "on_frame env opcode payload a =
     (if opcode = 0x8 then (False, on_ws (\<lambda>w. snd (ws_send_frame env 0x8 payload w)) a)
      else if opcode = 0x9 then (True, on_ws (\<lambda>w. snd (ws_send_frame env 0xA payload w)) a)
      else if opcode = 0x1 then
        (False, on_ws (\<lambda>w. snd (ws_send_frame env 0x2
           (error_envelope [] ''text_frames_unsupported'' ''Runtime API accepts binary protobuf frames only'') w)) a)
      else if opcode \<noteq> 0x2 then (False, a)
      else (True, on_ws (\<lambda>w. w\<lparr>ws_bytes_received := ws_bytes_received w + word_of_nat (length payload)\<rparr>)
                    (handle_binary env payload a)))"

lemma read_frame_shorter: "read_frame stream = Some (opcode, payload, rest) \<Longrightarrow> length rest < length stream"
  by (auto simp: read_frame_def read_exact_def read_payload_def Let_def split: if_splits option.splits)

text \<open>
  The environment may differ from frame to frame.  A \<^verbatim>\<open>select\<close> that times out changes nothing; one that fails
  is an end of the stream.
\<close>

function read_loop :: "(nat \<Rightarrow> ws_env) \<Rightarrow> int \<Rightarrow> bytes \<Rightarrow> api \<Rightarrow> api" where
  "read_loop env fd stream a =
     (if \<not> is_active_fd fd (ap_ws a) then a
      else case read_frame stream of
        None \<Rightarrow> a
      | Some (opcode, payload, rest) \<Rightarrow>
          let (continue, a1) = on_frame (env (length rest)) opcode payload a
          in if continue then read_loop env fd rest a1 else a1)"
  by pat_completeness auto
termination
  by (relation "measure (\<lambda>(env, fd, stream, a). length stream)") (auto dest: read_frame_shorter)

declare read_loop.simps [simp del]

definition run_socket_task :: "(nat \<Rightarrow> ws_env) \<Rightarrow> int \<Rightarrow> bytes \<Rightarrow> api \<Rightarrow> api" where
  "run_socket_task env fd stream a =
     finish_session fd (read_loop env fd stream (send_auth_challenge (env (length stream)) a))"

section \<open>The transport's loop\<close>

definition emit_status_log_if_due :: "ws_env \<Rightarrow> ws \<Rightarrow> ws" where
  "emit_status_log_if_due env w =
     (let now = env_now (we_ota env) in
      if ws_last_status_log_ms w = 0 \<or> now - ws_last_status_log_ms w \<ge> STATUS_LOG_INTERVAL_MS
      then w\<lparr>ws_last_status_log_ms := now, ws_bytes_sent := 0, ws_bytes_received := 0\<rparr> else w)"

definition emit_heartbeat_if_due :: "ws_env \<Rightarrow> ws \<Rightarrow> ws" where
  "emit_heartbeat_if_due env w =
     (let now = env_now (we_ota env) in
      if \<not> has_authenticated_client w then w
      else if ws_last_heartbeat_ms w \<noteq> 0 \<and> now - ws_last_heartbeat_ms w < kRuntimeHeartbeatIntervalMs then w
      else snd (send_binary env (we_heartbeat env) (emit_status_log_if_due env (w\<lparr>ws_last_heartbeat_ms := now\<rparr>))))"

definition ws_loop :: "ws_env \<Rightarrow> ws \<Rightarrow> ws" where
  "ws_loop env w = emit_heartbeat_if_due env (emit_status_log_if_due env w)"

text \<open>
  The events the bridge reports (topology, availability, schema) are sent alike: a frame for an
  authenticated client.
\<close>

definition emit_event :: "ws_env \<Rightarrow> bytes \<Rightarrow> ws \<Rightarrow> ws" where
  "emit_event env frame w = (if \<not> has_authenticated_client w then w else snd (send_binary env frame w))"

definition emit_remote_state :: "ws_env \<Rightarrow> bytes \<Rightarrow> bytes \<Rightarrow> ws \<Rightarrow> ws" where
  "emit_remote_state env val frame w = (if val = [] then w else emit_event env frame w)"

text \<open>The part of the component's loop that runs the OTA manager and reports to the transport.\<close>

definition ota_turn :: "ws_env \<Rightarrow> api \<Rightarrow> api" where
  "ota_turn env a =
     (case oj_manager (ap_job a) of
        None \<Rightarrow> a
      | Some m \<Rightarrow>
          let (cbs, j) = emit_ota_events (we_ota env) ((ap_job a)\<lparr>oj_manager := Some (ota_loop (we_ota env) m)\<rparr>)
          in on_ws (fold (deliver_callback env) cbs) (a\<lparr>ap_job := j\<rparr>))"

end
