(* ===== verification/Runtime_Ws_Laws.thy ===== *)
theory Runtime_Ws_Laws
  imports Runtime_Ws Crypto_Laws OTA_Laws
begin

unbundle bit_operations_syntax

text \<open>
  What the runtime API promises: frames of a client are read back, nothing is done for a client that has not
  proved that it knows the key, and chunks that were asked for reach the OTA manager.
\<close>

section \<open>Frames\<close>

text \<open>A client's frame (RFC 6455): one final, masked frame with the shortest length that fits.\<close>

definition client_frame :: "bytes \<Rightarrow> u8 \<Rightarrow> bytes \<Rightarrow> bytes" where
  "client_frame key opcode payload =
     (if length payload < 126 then [0x80 OR opcode, 0x80 OR word_of_nat (length payload)]
      else [0x80 OR opcode, 0x80 OR 126, word_of_nat (length payload div 256), word_of_nat (length payload)]) @
     key @ unmask key payload"

lemma unmask_unmask:
  assumes "length key = 4"
  shows "unmask key (unmask key payload) = payload"
  by (rule nth_equalityI) (simp_all add: unmask_def xor.assoc)

lemma length_unmask [simp]: "length (unmask key payload) = length payload"
  by (simp add: unmask_def)

lemma read_payload_client:
  assumes "length key = 4" "length payload \<le> 65535"
  shows "read_payload opcode (length payload) (key @ unmask key payload @ rest) = Some (opcode, payload, rest)"
  using assms by (simp add: read_payload_def read_exact_def unmask_unmask)

lemma low_bits:
  assumes "unat (x :: u8) < 2 ^ n"
  shows "take_bit n x = x"
  using assms by (simp add: word_unat_eq_iff unsigned_take_bit_eq take_bit_nat_eq_self)

lemma byte_masks: "y AND 0x0F = take_bit 4 (y :: u8)" "y AND 0x7F = take_bit 7 y"
  by (simp_all add: take_bit_eq_mask mask_eq_exp_minus_1)

lemma header_bits:
  "(0x80 OR x) AND 0x80 \<noteq> (0 :: u8)" "(0x80 OR x) AND 0x0F = take_bit 4 (x :: u8)" "(0x80 OR x) AND 0x7F = take_bit 7 (x :: u8)"
  unfolding byte_masks by (simp_all add: bit.conj_disj_distrib2)

lemma read_client_frame:
  assumes key: "length key = 4" and op: "opcode < 16" and len: "length payload \<le> 65535"
  shows "read_frame (client_frame key opcode payload @ rest) = Some (opcode, payload, rest)"
proof -
  have o: "take_bit 4 opcode = opcode" using op by (intro low_bits) (simp add: word_less_nat_alt)
  show ?thesis
  proof (cases "length payload < 126")
    case True
    then have u: "unat (word_of_nat (length payload) :: u8) = length payload" by (simp add: unat_of_nat)
    then have l: "take_bit 7 (word_of_nat (length payload) :: u8) = word_of_nat (length payload)" using True by (intro low_bits) simp
    show ?thesis
      using True u read_payload_client [OF key len]
      by (simp add: client_frame_def read_frame_def read_exact_def header_bits o l)
  next
    case False
    have "unat (word_of_nat (length payload div 256) :: u8) = length payload div 256"
      using len by (simp add: unat_of_nat div_less_iff_less_mult)
    moreover have "unat (word_of_nat (length payload) :: u8) = length payload mod 256" by (simp add: unat_of_nat)
    ultimately show ?thesis
      using False read_payload_client [OF key len]
      by (simp add: client_frame_def read_frame_def read_exact_def header_bits o)
  qed
qed

text \<open>What the transport sends is a frame of the same form, unmasked.\<close>

lemma frame_header_sent:
  assumes "length payload \<le> 65535"
  shows "\<exists>h. frame_header opcode (length payload) = Some h \<and> length h \<le> 4 \<and> h ! 0 = 0x80 OR (opcode AND 0x0F)"
  using assms by (auto simp: frame_header_def)

section \<open>Only authenticated clients\<close>

text \<open>What can happen to the API: a connection, a frame on it, its end, and the bridge's own loop.\<close>

datatype ws_input =
    Connect ws_env "string option" int
  | TaskStart ws_env
  | Frame ws_env u8 bytes
  | Disconnect int
  | Close ws_env
  | Tick ws_env
  | OtaTurn ws_env
  | Event ws_env bytes

fun ws_step :: "ws_input \<Rightarrow> api \<Rightarrow> api" where
  "ws_step (Connect env key fd) a = snd (run_socket_session env key fd a)"
| "ws_step (TaskStart env) a = send_auth_challenge env a"
| "ws_step (Frame env opcode payload) a = snd (on_frame env opcode payload a)"
| "ws_step (Disconnect fd) a = finish_session fd a"
| "ws_step (Close env) a = on_ws (close_client env) a"
| "ws_step (Tick env) a = on_ws (ws_loop env) a"
| "ws_step (OtaTurn env) a = ota_turn env a"
| "ws_step (Event env frame) a = on_ws (emit_event env frame) a"

text \<open>
  A service that acts for its clients, and the proof of identity it asks for.  Whatever it does after a start
  without an authenticated client, such a proof came first.
\<close>

locale guarded_service =
  fixes step :: "'i \<Rightarrow> 's \<Rightarrow> 's" and authed :: "'s \<Rightarrow> bool" and calls :: "'s \<Rightarrow> 'c list" and credential :: "'i \<Rightarrow> 's \<Rightarrow> bool"
  assumes no_calls: "\<not> authed s \<Longrightarrow> \<not> credential i s \<Longrightarrow> calls (step i s) = calls s"
    and needs_credential: "\<not> authed s \<Longrightarrow> authed (step i s) \<Longrightarrow> credential i s"
begin

lemma calls_need_credential:
  assumes "\<not> authed s" "calls (fold step is s) \<noteq> calls s"
  shows "\<exists>us i vs. is = us @ i # vs \<and> credential i (fold step us s) \<and> \<not> authed (fold step us s)"
  using assms
proof (induction "is" arbitrary: s)
  case (Cons i "is")
  show ?case
  proof (cases "credential i s")
    case True
    then have "i # is = [] @ i # is \<and> credential i (fold step [] s) \<and> \<not> authed (fold step [] s)" using Cons.prems(1) by simp
    then show ?thesis by blast
  next
    case False
    then have n: "\<not> authed (step i s)" using needs_credential Cons.prems(1) by blast
    have "calls (fold step is (step i s)) \<noteq> calls (step i s)" using Cons.prems no_calls False by simp
    from Cons.IH [OF n this] obtain us j vs
      where "is = us @ j # vs" "credential j (fold step us (step i s))" "\<not> authed (fold step us (step i s))" by blast
    then have "i # is = (i # us) @ j # vs \<and> credential j (fold step (i # us) s) \<and> \<not> authed (fold step (i # us) s)" by simp
    then show ?thesis by blast
  qed
qed simp

end

text \<open>What of the transport sending a frame leaves alone.\<close>

definition same_client :: "ws \<Rightarrow> ws \<Rightarrow> bool" where
  "same_client w w' \<longleftrightarrow> ws_connected w' = ws_connected w \<and> ws_authenticated w' = ws_authenticated w \<and>
     ws_active_fd w' = ws_active_fd w \<and> ws_server_nonce w' = ws_server_nonce w"

lemma same_client_refl [simp]: "same_client w w"
  by (simp add: same_client_def)

lemma same_client_trans: "same_client u v \<Longrightarrow> same_client v w \<Longrightarrow> same_client u w"
  by (simp add: same_client_def)

lemma same_client_authed: "same_client w w' \<Longrightarrow> has_authenticated_client w' = has_authenticated_client w"
  by (simp add: same_client_def has_authenticated_client_def)

lemma same_client_update [simp]:
  "same_client w (v\<lparr>ws_events := es\<rparr>) = same_client w v" "same_client w (v\<lparr>ws_bytes_sent := n\<rparr>) = same_client w v"
  "same_client w (v\<lparr>ws_job_id := s\<rparr>) = same_client w v" "same_client w (v\<lparr>ws_max_chunk_size := n\<rparr>) = same_client w v"
  "same_client w (v\<lparr>ws_max_chunks_per_batch := n\<rparr>) = same_client w v" "same_client w (v\<lparr>ws_chunk_request_id := s\<rparr>) = same_client w v"
  "same_client w (v\<lparr>ws_pending_sequences := ps\<rparr>) = same_client w v"
  by (simp_all add: same_client_def)

lemma client_send_frame [simp]: "same_client w (snd (ws_send_frame env opcode payload v)) = same_client w v"
  by (simp add: ws_send_frame_def ws_send_exact_def Let_def split: option.split)

lemma client_send_binary [simp]: "same_client w (snd (send_binary env payload v)) = same_client w v"
  by (simp add: send_binary_def Let_def case_prod_beta)

lemma client_callback: "same_client w (deliver_callback env cb w)"
  by (cases cb) (simp_all add: on_ota_accepted_def on_ota_chunk_request_def on_ota_status_def)

lemma client_callbacks: "same_client w (fold (deliver_callback env) cbs w)"
proof (induction cbs arbitrary: w)
  case (Cons cb cbs)
  then show ?case using same_client_trans [OF client_callback Cons.IH] by simp
qed simp

lemma reply_rest [simp]:
  "ap_job (reply env frame a) = ap_job a" "ap_calls (reply env frame a) = ap_calls a"
  "same_client (ap_ws a) (ap_ws (reply env frame a))"
  by (simp_all add: reply_def on_ws_def)

lemma unauthenticated_loop: "\<not> has_authenticated_client w \<Longrightarrow> \<not> has_authenticated_client (ws_loop env w)"
  by (auto simp: ws_loop_def emit_heartbeat_if_due_def emit_status_log_if_due_def has_authenticated_client_def Let_def)

lemma closed_client: "\<not> has_authenticated_client (close_client env w)"
  by (simp add: close_client_def has_authenticated_client_def Let_def ws_send_frame_def)

text \<open>The proof of identity: an HMAC of this session's nonce with the bridge's key.\<close>

definition proves_identity :: "ws_env \<Rightarrow> bytes \<Rightarrow> bytes \<Rightarrow> bool" where
  "proves_identity env nonce payload \<longleftrightarrow>
     (\<exists>e data r. parse_envelope payload = Some e \<and> pe_msg_field e = 11 \<and> pe_msg_data e = Some data \<and>
        parse_auth_response data = Some r \<and> par_client_kind r = ''ha_integration'' \<and>
        par_hmac_sha256 r = hmac_sha256 (we_hmac env) (bytes_of_string (we_api_key env))
          (bytes_of_string (auth_input ''ha_integration'' nonce (par_client_nonce r))))"

definition presents_credential :: "ws_input \<Rightarrow> api \<Rightarrow> bool" where
  "presents_credential i a \<longleftrightarrow> (case i of Frame env opcode payload \<Rightarrow> opcode = 2 \<and> proves_identity env (ws_server_nonce (ap_ws a)) payload | _ \<Rightarrow> False)"

lemma verify_auth_iff:
  "verify_auth_response env w r \<longleftrightarrow> par_client_kind r = ''ha_integration'' \<and> par_client_nonce r \<noteq> [] \<and>
     par_hmac_sha256 r = hmac_sha256 (we_hmac env) (bytes_of_string (we_api_key env))
       (bytes_of_string (auth_input ''ha_integration'' (ws_server_nonce w) (par_client_nonce r)))"
proof -
  have e: "ws_constant_time_equal d h 32 \<longleftrightarrow> d = h" if "length d = 32" "length h = 32" for d h
    using constant_time_equal_iff [of 32 d h] that by (simp add: ws_constant_time_equal_def constant_time_equal_def)
  show ?thesis
  proof (cases "length (par_hmac_sha256 r) = 32")
    case True
    then show ?thesis by (auto simp: verify_auth_response_def Let_def e)
  next
    case False
    then show ?thesis by (metis length_hmac_sha256 verify_auth_response_def)
  qed
qed

lemma parse_auth_response_nil: "parse_auth_response [] = None"
  by (simp add: parse_auth_response_def pb_loop.simps)

lemma authenticate_calls: "ap_calls (authenticate env e data a) = ap_calls a"
  by (simp add: authenticate_def refuse_def on_ws_def Let_def)

lemma refused: "\<not> has_authenticated_client (ap_ws (refuse env frame a))"
  by (simp add: refuse_def on_ws_def closed_client)

lemma authenticate_needs_proof:
  assumes "\<not> has_authenticated_client (ap_ws a)" "has_authenticated_client (ap_ws (authenticate env e data a))"
  shows "pe_msg_field e = 11 \<and> (\<exists>r. parse_auth_response data = Some r \<and> verify_auth_response env (ap_ws a) r)"
  using assms by (auto simp: authenticate_def Let_def refused split: if_splits option.splits)

lemma unauthenticated_binary:
  assumes "\<not> has_authenticated_client (ap_ws a)"
  shows "ap_calls (handle_binary env payload a) = ap_calls a"
    "has_authenticated_client (ap_ws (handle_binary env payload a)) \<Longrightarrow> proves_identity env (ws_server_nonce (ap_ws a)) payload"
proof -
  have r: "\<not> has_authenticated_client (ap_ws (reply env frame a))" for frame
    using same_client_authed [OF reply_rest(3)] assms by blast
  show "ap_calls (handle_binary env payload a) = ap_calls a"
    using assms by (simp add: handle_binary_def authenticate_calls Let_def split: option.split)
  assume h: "has_authenticated_client (ap_ws (handle_binary env payload a))"
  then obtain e where e: "parse_envelope payload = Some e"
    "has_authenticated_client (ap_ws (authenticate env e (case pe_msg_data e of None \<Rightarrow> [] | Some d \<Rightarrow> d) a))"
    using assms r by (auto simp: handle_binary_def Let_def split: option.splits if_splits)
  from authenticate_needs_proof [OF assms e(2)] obtain rsp where rsp: "pe_msg_field e = 11"
    "parse_auth_response (case pe_msg_data e of None \<Rightarrow> [] | Some d \<Rightarrow> d) = Some rsp" "verify_auth_response env (ap_ws a) rsp" by blast
  then obtain data where "pe_msg_data e = Some data" "parse_auth_response data = Some rsp"
    by (cases "pe_msg_data e") (auto simp: parse_auth_response_nil)
  then show "proves_identity env (ws_server_nonce (ap_ws a)) payload"
    using e(1) rsp by (auto simp: proves_identity_def verify_auth_iff)
qed

lemma authed_after [simp]:
  "has_authenticated_client (snd (ws_send_frame env opcode p w)) = has_authenticated_client w"
  "has_authenticated_client (snd (send_binary env p w)) = has_authenticated_client w"
  "has_authenticated_client (fold (deliver_callback env) cbs w) = has_authenticated_client w"
  "has_authenticated_client (ap_ws (reply env p a)) = has_authenticated_client (ap_ws a)"
  "has_authenticated_client (w\<lparr>ws_bytes_received := n\<rparr>) = has_authenticated_client w"
  by (rule same_client_authed, simp add: client_callbacks)+ (simp add: has_authenticated_client_def)

lemma unauthenticated_step:
  assumes "\<not> has_authenticated_client (ap_ws a)"
  shows "ap_calls (ws_step i a) = ap_calls a \<and>
    (has_authenticated_client (ap_ws (ws_step i a)) \<longrightarrow> presents_credential i a)"
proof (cases i)
  case (Connect env key fd)
  have f: "\<not> has_authenticated_client (ap_ws (finish_session fd b))" if "\<not> has_authenticated_client (ap_ws b)" for b
    using that by (auto simp: finish_session_def has_authenticated_client_def)
  have n: "\<not> has_authenticated_client (ap_ws (on_ws (\<lambda>w. w\<lparr>ws_connected := True, ws_authenticated := False, ws_active_fd := fd,
      ws_server_nonce := we_nonce env\<rparr>) a))" by (simp add: on_ws_def has_authenticated_client_def)
  have c: "ap_calls (finish_session fd b) = ap_calls b" "ap_calls (on_ws g b) = ap_calls b" for b g
    by (simp_all add: finish_session_def on_ws_def)
  show ?thesis
    using assms f [OF n] n by (simp add: Connect run_socket_session_def Let_def c split: option.split)
next
  case (Frame env opcode payload)
  then show ?thesis
    using assms unauthenticated_binary [OF assms] by (auto simp: on_frame_def on_ws_def presents_credential_def)
next
  case (Disconnect fd)
  then show ?thesis using assms by (auto simp: finish_session_def has_authenticated_client_def)
next
  case (OtaTurn env)
  then show ?thesis using assms by (auto simp: ota_turn_def on_ws_def Let_def case_prod_beta split: option.split)
qed (use assms in \<open>auto simp: on_ws_def closed_client unauthenticated_loop emit_event_def send_auth_challenge_def\<close>)

interpretation api: guarded_service ws_step "\<lambda>a. has_authenticated_client (ap_ws a)" ap_calls presents_credential
  by unfold_locales (use unauthenticated_step in blast)+

section \<open>Chunks of an image\<close>

text \<open>The chunk of an image that an app sends for a sequence number.\<close>

definition source_chunk :: "bytes \<Rightarrow> u16 \<Rightarrow> u32 \<Rightarrow> ParsedOtaChunk" where
  "source_chunk file c q =
     \<lparr>poc_sequence = q, poc_offset = q * ucast c, poc_payload = Some (slice (unat c) file (unat q)), poc_flags = 0,
      poc_crc32 = crc32_bytes (slice (unat c) file (unat q))\<rparr>"

text \<open>The sequence numbers the manager asks for lie in the image.\<close>

definition within :: "bytes \<Rightarrow> ota \<Rightarrow> u32 \<Rightarrow> bool" where
  "within file m q \<longleftrightarrow> om_negotiated_chunk_size m \<noteq> 0 \<and> q < it_total_chunks (om_tracker m) \<and>
     unat q * unat (om_negotiated_chunk_size m) < length file \<and> length file = unat (om_file_size m)"

lemma within_arith:
  assumes "within file m q"
  shows "unat ((ucast q :: u64) * ucast (om_negotiated_chunk_size m)) = unat q * unat (om_negotiated_chunk_size m)"
    "unat (q * ucast (om_negotiated_chunk_size m)) = unat q * unat (om_negotiated_chunk_size m)" "unat (ucast (om_file_size m) :: u64) = length file"
proof -
  have n: "length file < 2 ^ 32" using assms unsigned_less [of "om_file_size m", where 'a = nat] by (simp add: within_def)
  then have b: "unat q * unat (om_negotiated_chunk_size m) < 2 ^ 32" using assms by (simp add: within_def)
  then show "unat ((ucast q :: u64) * ucast (om_negotiated_chunk_size m)) = unat q * unat (om_negotiated_chunk_size m)"
    by (subst unat_times_fits) (simp_all add: unat_ucast_up)
  show "unat (q * ucast (om_negotiated_chunk_size m)) = unat q * unat (om_negotiated_chunk_size m)"
    using b by (subst unat_times_fits) (simp_all add: unat_ucast_up)
  show "unat (ucast (om_file_size m) :: u64) = length file" using assms by (simp add: within_def unat_ucast_up)
qed

lemma expected_len_slice:
  assumes "within file m q"
  shows "expected_chunk_len m q = length (slice (unat (om_negotiated_chunk_size m)) file (unat q))"
proof -
  let ?c = "om_negotiated_chunk_size m"
  note a = within_arith [OF assms]
  have w: "?c \<noteq> 0" "q < it_total_chunks (om_tracker m)" "unat q * unat ?c < length file" using assms by (simp_all add: within_def)
  have lt: "(ucast q :: u64) * ucast ?c < ucast (om_file_size m)" using w(3) a by (simp add: word_less_nat_alt)
  have "unat (ucast (om_file_size m) - (ucast q :: u64) * ucast ?c) = length file - unat q * unat ?c"
    using lt a by (subst unat_sub) (simp_all add: less_imp_le)
  then have "unat (min (ucast (om_file_size m) - (ucast q :: u64) * ucast ?c) (ucast ?c)) = min (unat ?c) (length file - unat q * unat ?c)"
    by (simp add: min_def word_le_nat_alt unat_ucast_up)
  then show ?thesis using w lt by (simp add: expected_chunk_len_def Let_def length_slice not_le)
qed

lemma source_chunk_valid:
  assumes "within file m q" "q \<in> ws_pending_sequences w" "ws_max_chunk_size w = ucast (om_negotiated_chunk_size m)"
  shows "\<not> chunk_invalid w (source_chunk file (om_negotiated_chunk_size m) q)"
proof -
  let ?c = "om_negotiated_chunk_size m"
  note a = within_arith [OF assms(1)]
  have w: "?c \<noteq> 0" "unat q * unat ?c < length file" using assms(1) by (simp_all add: within_def)
  then have "0 < length (slice (unat ?c) file (unat q))" "length (slice (unat ?c) file (unat q)) \<le> unat ?c"
    by (simp_all add: length_slice unat_gt_0)
  moreover have "(ucast (q * ucast ?c) :: u64) = ucast q * ucast (ucast ?c :: u32)"
  proof -
    have u: "(ucast (ucast ?c :: u32) :: u64) = ucast ?c" unfolding word_unat_eq_iff by (subst unat_ucast_up, simp)+ simp
    have "unat (ucast (q * ucast ?c) :: u64) = unat ((ucast q :: u64) * ucast ?c)" unfolding a(1) by (subst unat_ucast_up) (simp_all add: a(2))
    then show ?thesis unfolding u by (simp only: word_unat_eq_iff)
  qed
  ultimately show ?thesis using assms(2, 3) by (simp add: chunk_invalid_def source_chunk_def unat_ucast_up)
qed

text \<open>The chunks among the calls.\<close>

fun injected :: "api_call list \<Rightarrow> (u32 \<times> bytes) list" where
  "injected [] = []"
| "injected (CallOtaInject s d # cs) = (s, d) # injected cs"
| "injected (c # cs) = injected cs"

lemma injected_append: "injected (xs @ ys) = injected xs @ injected ys"
  by (induction xs rule: injected.induct) simp_all

text \<open>
  Chunks of the file, each asked for by the manager and by the last request to the app, are all queued, in
  their order, without an answer.
\<close>

definition asked_for :: "bytes \<Rightarrow> ota \<Rightarrow> ws \<Rightarrow> u32 \<Rightarrow> bool" where
  "asked_for file m w q \<longleftrightarrow> within file m q \<and> q \<in> it_requested_sequences (om_tracker m) \<and> q \<in> ws_pending_sequences w"

lemma inject_source_chunks:
  assumes "oj_state (ap_job a) = TRANSFERRING" "oj_manager (ap_job a) = Some m" "om_state m = BLASTING"
    and "ws_max_chunk_size (ap_ws a) = ucast (om_negotiated_chunk_size m)" "distinct qs" "\<forall>q\<in>set qs. asked_for file m (ap_ws a) q"
    and "c = om_negotiated_chunk_size m" "a' = inject_chunks env rid job (map (source_chunk file c) qs) a"
  shows "(\<exists>m'. oj_manager (ap_job a') = Some m' \<and> om_state m' = BLASTING \<and>
      om_pending_chunks m' = om_pending_chunks m @ map (\<lambda>q. (q, slice (unat c) file (unat q))) qs \<and>
      it_requested_sequences (om_tracker m') = it_requested_sequences (om_tracker m) - set qs) \<and>
    oj_state (ap_job a') = TRANSFERRING \<and> ws_pending_sequences (ap_ws a') = ws_pending_sequences (ap_ws a) - set qs \<and>
    ws_events (ap_ws a') = ws_events (ap_ws a) \<and> same_client (ap_ws a) (ap_ws a') \<and>
    injected (ap_calls a') = injected (ap_calls a) @ map (\<lambda>q. (q, slice (unat c) file (unat q))) qs"
  using assms
proof (induction qs arbitrary: a m)
  case (Cons q qs)
  let ?chunk = "slice (unat c) file (unat q)"
  define m1 where "m1 = m\<lparr>om_pending_chunks := om_pending_chunks m @ [(q, ?chunk)],
      om_tracker := (om_tracker m)\<lparr>it_requested_sequences := it_requested_sequences (om_tracker m) - {q}\<rparr>\<rparr>"
  define pending where "pending = ws_pending_sequences (ap_ws a) - {q}"
  define a1 where "a1 = on_ws (\<lambda>w. w\<lparr>ws_pending_sequences := pending,
      ws_chunk_request_id := (if pending = {} then [] else ws_chunk_request_id w)\<rparr>)
      ((call (CallOtaInject q ?chunk) a)\<lparr>ap_job := (ap_job a)\<lparr>oj_manager := Some m1\<rparr>\<rparr>)"
  have q: "within file m q" "q \<in> it_requested_sequences (om_tracker m)" "q \<in> ws_pending_sequences (ap_ws a)"
    using Cons.prems(6) by (simp_all add: asked_for_def)
  have len: "expected_chunk_len m q = length ?chunk" "?chunk \<noteq> []"
    using expected_len_slice [OF q(1)] q(1) Cons.prems(7) by (auto simp: length_slice within_def unat_gt_0 length_0_conv [symmetric] simp del: length_0_conv)
  then have "on_source_chunk q ?chunk m = (True, m1)" using Cons.prems(3) q(2) by (simp add: on_source_chunk_def m1_def Let_def)
  then have j: "api_ota_inject_chunk q ?chunk (ap_job a) = (True, (ap_job a)\<lparr>oj_manager := Some m1\<rparr>)"
    using Cons.prems(1, 2) by (simp add: api_ota_inject_chunk_def)
  have v: "\<not> chunk_invalid (ap_ws a) (source_chunk file c q)" using source_chunk_valid [OF q(1, 3) Cons.prems(4)] Cons.prems(7) by simp
  have step: "inject_chunks env rid job (map (source_chunk file c) (q # qs)) a = inject_chunks env rid job (map (source_chunk file c) qs) a1"
    using v j by (simp add: source_chunk_def a1_def pending_def call_def Let_def)
  have e: "asked_for file m1 (ap_ws a1) p" if "p \<in> set qs" for p
    using Cons.prems(5, 6) that by (auto simp: asked_for_def within_def m1_def a1_def on_ws_def pending_def)
  have p: "oj_state (ap_job a1) = TRANSFERRING" "oj_manager (ap_job a1) = Some m1" "om_state m1 = BLASTING"
    "ws_max_chunk_size (ap_ws a1) = ucast (om_negotiated_chunk_size m1)" "c = om_negotiated_chunk_size m1"
    using Cons.prems by (simp_all add: a1_def m1_def on_ws_def call_def)
  note ih = Cons.IH [OF p(1-4) _ _ p(5) Cons.prems(8) [unfolded step]]
  have ih: "(\<exists>m'. oj_manager (ap_job a') = Some m' \<and> om_state m' = BLASTING \<and>
      om_pending_chunks m' = om_pending_chunks m1 @ map (\<lambda>q. (q, slice (unat c) file (unat q))) qs \<and>
      it_requested_sequences (om_tracker m') = it_requested_sequences (om_tracker m1) - set qs) \<and>
    oj_state (ap_job a') = TRANSFERRING \<and> ws_pending_sequences (ap_ws a') = ws_pending_sequences (ap_ws a1) - set qs \<and>
    ws_events (ap_ws a') = ws_events (ap_ws a1) \<and> same_client (ap_ws a1) (ap_ws a') \<and>
    injected (ap_calls a') = injected (ap_calls a1) @ map (\<lambda>q. (q, slice (unat c) file (unat q))) qs"
    using Cons.prems(5) e by (intro ih) auto
  have "same_client (ap_ws a) (ap_ws a1)" "ws_events (ap_ws a1) = ws_events (ap_ws a)" "ws_pending_sequences (ap_ws a1) = ws_pending_sequences (ap_ws a) - {q}"
    "injected (ap_calls a1) = injected (ap_calls a) @ [(q, ?chunk)]"
    by (simp_all add: a1_def on_ws_def call_def pending_def injected_append)
  moreover have "om_pending_chunks m1 = om_pending_chunks m @ [(q, ?chunk)]"
    "it_requested_sequences (om_tracker m1) = it_requested_sequences (om_tracker m) - {q}" by (simp_all add: m1_def)
  ultimately show ?case using ih same_client_trans [of "ap_ws a" "ap_ws a1" "ap_ws a'"] by (auto simp: Diff_insert2 [symmetric] insert_Diff_if)
qed simp

text \<open>Whatever a batch holds, what is handed to the manager was asked for, checks out, and is handed over once.\<close>

definition well_formed :: "ws \<Rightarrow> ParsedOtaChunk \<Rightarrow> u32 \<times> bytes \<Rightarrow> bool" where
  "well_formed w chunk sd \<longleftrightarrow> (case sd of (s, d) \<Rightarrow>
     poc_sequence chunk = s \<and> poc_payload chunk = Some d \<and> s \<in> ws_pending_sequences w \<and> d \<noteq> [] \<and> length d \<le> unat (ws_max_chunk_size w) \<and>
     unat (poc_offset chunk) = unat s * unat (ws_max_chunk_size w) \<and> crc32_bytes d = poc_crc32 chunk)"

lemma valid_well_formed:
  assumes "\<not> chunk_invalid w chunk"
  obtains d where "poc_payload chunk = Some d" "well_formed w chunk (poc_sequence chunk, d)"
proof -
  obtain d where d: "poc_payload chunk = Some d" "poc_sequence chunk \<in> ws_pending_sequences w" "d \<noteq> []"
    "length d \<le> unat (ws_max_chunk_size w)" "crc32_bytes d = poc_crc32 chunk"
    "(ucast (poc_offset chunk) :: u64) = ucast (poc_sequence chunk) * ucast (ws_max_chunk_size w)"
    using assms by (auto simp: chunk_invalid_def split: option.splits)
  have "unat (poc_sequence chunk) * unat (ws_max_chunk_size w) \<le> (2 ^ 32 - 1) * (2 ^ 32 - 1)"
    using unsigned_less [of "poc_sequence chunk", where 'a = nat] unsigned_less [of "ws_max_chunk_size w", where 'a = nat]
    by (intro mult_le_mono) simp_all
  then have "unat (poc_sequence chunk) * unat (ws_max_chunk_size w) < 2 ^ 64" by simp
  then have "unat ((ucast (poc_sequence chunk) :: u64) * ucast (ws_max_chunk_size w)) = unat (poc_sequence chunk) * unat (ws_max_chunk_size w)"
    by (subst unat_times_fits) (simp_all add: unat_ucast_up)
  moreover have "unat (ucast (poc_offset chunk) :: u64) = unat (poc_offset chunk)" by (simp add: unat_ucast_up)
  ultimately have "unat (poc_offset chunk) = unat (poc_sequence chunk) * unat (ws_max_chunk_size w)" using d(6) by metis
  then show thesis using that d by (simp add: well_formed_def)
qed

lemma well_formed_mono:
  assumes "well_formed v chunk sd" "ws_pending_sequences v \<subseteq> ws_pending_sequences w" "ws_max_chunk_size v = ws_max_chunk_size w"
  shows "well_formed w chunk sd"
  using assms by (auto simp: well_formed_def)

lemma abort_batch_calls: "injected (ap_calls (abort_batch env rid msg job a)) = injected (ap_calls a)"
  by (simp add: abort_batch_def call_def Let_def injected_append)

lemma inject_chunks_sound:
  "\<exists>ys. injected (ap_calls (inject_chunks env rid job cs a)) = injected (ap_calls a) @ ys \<and>
    distinct (map fst ys) \<and> (\<forall>sd\<in>set ys. \<exists>chunk\<in>set cs. well_formed (ap_ws a) chunk sd)"
proof (induction cs arbitrary: a)
  case (Cons chunk cs)
  show ?case
  proof (cases "chunk_invalid (ap_ws a) chunk")
    case True
    then show ?thesis by (simp add: abort_batch_calls)
  next
    case False
    then obtain d where d: "poc_payload chunk = Some d" "well_formed (ap_ws a) chunk (poc_sequence chunk, d)" by (rule valid_well_formed)
    let ?s = "poc_sequence chunk"
    obtain ok j where j: "api_ota_inject_chunk ?s d (ap_job a) = (ok, j)" by fastforce
    define a1 where "a1 = (call (CallOtaInject ?s d) a)\<lparr>ap_job := j\<rparr>"
    have c1: "injected (ap_calls a1) = injected (ap_calls a) @ [(?s, d)]" "ap_ws a1 = ap_ws a"
      by (simp_all add: a1_def call_def injected_append)
    define pending where "pending = ws_pending_sequences (ap_ws a) - {?s}"
    define a2 where "a2 = on_ws (\<lambda>w. w\<lparr>ws_pending_sequences := pending,
        ws_chunk_request_id := (if pending = {} then [] else ws_chunk_request_id w)\<rparr>) a1"
    have r: "inject_chunks env rid job (chunk # cs) a =
      (if \<not> ok then abort_batch env rid ''OTA chunk rejected'' job a1 else inject_chunks env rid job cs a2)"
      using False d(1) j c1(2) by (simp add: a1_def a2_def pending_def Let_def call_def)
    show ?thesis
    proof (cases ok)
      case True
      obtain ys where ys: "injected (ap_calls (inject_chunks env rid job cs a2)) = injected (ap_calls a2) @ ys" "distinct (map fst ys)"
        "\<forall>sd\<in>set ys. \<exists>chunk\<in>set cs. well_formed (ap_ws a2) chunk sd" using Cons.IH by blast
      have a2: "injected (ap_calls a2) = injected (ap_calls a) @ [(?s, d)]" "ws_pending_sequences (ap_ws a2) = ws_pending_sequences (ap_ws a) - {?s}"
        "ws_max_chunk_size (ap_ws a2) = ws_max_chunk_size (ap_ws a)"
        using c1 by (simp_all add: a2_def on_ws_def pending_def)
      have "?s \<notin> fst ` set ys" using ys(3) a2(2) by (auto simp: well_formed_def)
      moreover have "\<exists>chunk\<in>set cs. well_formed (ap_ws a) chunk sd" if "sd \<in> set ys" for sd
        using ys(3) that well_formed_mono [of "ap_ws a2" _ sd "ap_ws a"] a2(2, 3) by blast
      ultimately have "injected (ap_calls (inject_chunks env rid job (chunk # cs) a)) = injected (ap_calls a) @ (?s, d) # ys \<and>
          distinct (map fst ((?s, d) # ys)) \<and> (\<forall>sd\<in>set ((?s, d) # ys). \<exists>chunk\<in>set (chunk # cs). well_formed (ap_ws a) chunk sd)"
        using True r ys(1, 2) a2(1) d(2) by auto
      then show ?thesis by blast
    next
      case False
      then show ?thesis using r c1(1) d(2) by (intro exI [of _ "[(?s, d)]"]) (simp add: abort_batch_calls)
    qed
  qed
qed simp

section \<open>Closing and reconnecting\<close>

text \<open>The close frame of \<^verbatim>\<open>close_client\<close> is never written: the transport has forgotten its socket.\<close>

lemma close_client_events:
  "ws_events (close_client env w) = ws_events w @ (if ws_active_fd w \<ge> 0 then [WsShutdown (ws_active_fd w)] else [])"
  by (simp add: close_client_def ws_send_frame_def Let_def)

text \<open>A session that \<^verbatim>\<open>close_client\<close> ended is not finished by its socket task: the job keeps its transport.\<close>

lemma closed_session_unfinished: "fd \<ge> 0 \<Longrightarrow> finish_session fd (on_ws (close_client env) a) = on_ws (close_client env) a"
  by (simp add: finish_session_def on_ws_def close_client_def ws_send_frame_def Let_def)

text \<open>While the manager wants nothing beyond the last request, a turn of the loop requests nothing, whoever is connected.\<close>

definition asks :: "ota_callback \<Rightarrow> bool" where
  "asks cb \<longleftrightarrow> (case cb of OtaChunkRequest _ _ _ _ _ _ _ _ _ _ \<Rightarrow> True | _ \<Rightarrow> False)"

lemma no_request_repeated:
  assumes "oj_state j = TRANSFERRING" "oj_last_requested_sequences j \<noteq> []" "set (ota_requested_sequences j) \<subseteq> set (oj_last_requested_sequences j)"
  shows "\<not> list_ex asks (fst (emit_ota_events env (set_ota_transport_callbacks j)))"
proof -
  have s: "\<not> list_ex asks (emit_ota_status_callback st e i)" for st e i
    by (simp add: emit_ota_status_callback_def asks_def Let_def)
  have r: "ota_requested_sequences (j\<lparr>oj_callbacks := b, oj_prev_public_state := p\<rparr>) = ota_requested_sequences j" for b p
    by (simp add: ota_requested_sequences_def)
  have l: "list_all (\<lambda>q. q \<in> set (oj_last_requested_sequences j)) (ota_requested_sequences j)" using assms(3) by (auto simp: list_all_iff)
  show ?thesis
    using assms(1, 2) l
    by (auto simp: emit_ota_events_def set_ota_transport_callbacks_def emit_transferring_def emit_requests_def emit_progress_def
        Let_def s r split: option.splits if_splits)
qed

end
