(* ===== verification/Bridge_Commands.thy ===== *)
theory Bridge_Commands
  imports Ota_Job
begin

unbundle bit_operations_syntax

text \<open>
  Commands and configuration of the runtime API (\<^verbatim>\<open>esp_tree_bridge.cpp\<close>): the text or JSON of a command
  becomes the bytes a remote understands, the entity is looked up in the schema of its session, and the bridge
  protocol sends it.  JSON is parsed by a library: its result is an argument, and so is float arithmetic.
\<close>

section \<open>Text\<close>

definition parse_on :: "string \<Rightarrow> bool" where
  "parse_on payload \<longleftrightarrow> payload = ''ON'' \<or> payload = ''on'' \<or> payload = ''1'' \<or> payload = ''true''"

definition dec_value :: "char \<Rightarrow> nat option" where
  "dec_value ch = (let c = of_char ch :: nat in if 48 \<le> c \<and> c \<le> 57 then Some (c - 48) else None)"

fun dec_prefix :: "nat \<Rightarrow> string \<Rightarrow> nat" where
  "dec_prefix acc [] = acc"
| "dec_prefix acc (ch # text) = (case dec_value ch of None \<Rightarrow> acc | Some d \<Rightarrow> dec_prefix (acc * 10 + d) text)"

text \<open>\<^verbatim>\<open>strtol\<close> in base 10, with a 32-bit \<^verbatim>\<open>long\<close> that saturates; None when no digit was read.\<close>

definition strtol :: "string \<Rightarrow> int option" where
  "strtol text =
     (let body = dropWhile is_space text;
          negative = (body \<noteq> [] \<and> hd body = CHR ''-'');
          digits = (if body \<noteq> [] \<and> hd body \<in> {CHR ''-'', CHR ''+''} then tl body else body)
      in if digits = [] \<or> dec_value (hd digits) = None then None
         else let n = int (dec_prefix 0 digits)
              in Some (if negative then max (- 2147483648) (- n) else min 2147483647 n))"

definition atoi :: "string \<Rightarrow> int" where
  "atoi text = (case strtol text of None \<Rightarrow> 0 | Some n \<Rightarrow> n)"

text \<open>\<^verbatim>\<open>strtoul\<close> saturates at the greatest 32-bit number; a minus sign negates the number.\<close>

definition strtoul :: "string \<Rightarrow> u32" where
  "strtoul text =
     (let body = dropWhile is_space text;
          negative = (body \<noteq> [] \<and> hd body = CHR ''-'');
          digits = (if body \<noteq> [] \<and> hd body \<in> {CHR ''-'', CHR ''+''} then tl body else body);
          n = dec_prefix 0 digits
      in if n > 4294967295 then 4294967295 else if negative then - word_of_nat n else word_of_nat n)"

definition option_u32 :: "(string \<Rightarrow> string option) \<Rightarrow> string \<Rightarrow> u32 \<Rightarrow> u32" where
  "option_u32 options key fallback = (case options key of None \<Rightarrow> fallback | Some text \<Rightarrow> strtoul text)"

text \<open>Here an empty option has no values, unlike in the JSON utilities.\<close>

definition bridge_option_list :: "(string \<Rightarrow> string option) \<Rightarrow> string \<Rightarrow> string list" where
  "bridge_option_list options key =
     (case options key of None \<Rightarrow> [] | Some text \<Rightarrow> if text = [] then [] else split_string text CHR ''|'')"

section \<open>JSON arguments\<close>

datatype json_value = JsonText string | JsonInt int | JsonReal string | JsonBool bool | JsonObj "(string \<times> json_value) list"

type_synonym json_object = "(string \<times> json_value) list"

definition json_text :: "json_object \<Rightarrow> string \<Rightarrow> string option" where
  "json_text root key = (case map_of root key of Some (JsonText t) \<Rightarrow> Some t | _ \<Rightarrow> None)"

text \<open>An integer that does not fit 32 bits is no \<^verbatim>\<open>int\<close>.\<close>

definition json_int :: "json_object \<Rightarrow> string \<Rightarrow> int option" where
  "json_int root key =
     (case map_of root key of Some (JsonInt n) \<Rightarrow> if - 2147483648 \<le> n \<and> n \<le> 2147483647 then Some n else None | _ \<Rightarrow> None)"

definition json_bool :: "json_object \<Rightarrow> string \<Rightarrow> bool option" where
  "json_bool root key = (case map_of root key of Some (JsonBool b) \<Rightarrow> Some b | _ \<Rightarrow> None)"

definition json_obj :: "json_object \<Rightarrow> string \<Rightarrow> json_object option" where
  "json_obj root key = (case map_of root key of Some (JsonObj fs) \<Rightarrow> Some fs | _ \<Rightarrow> None)"

definition json_number :: "json_object \<Rightarrow> string \<Rightarrow> json_value option" where
  "json_number root key =
     (case map_of root key of Some (JsonInt n) \<Rightarrow> Some (JsonInt n) | Some (JsonReal t) \<Rightarrow> Some (JsonReal t) | _ \<Rightarrow> None)"

text \<open>
  The library and the float operations: the parser, \<^verbatim>\<open>strtof\<close> as the four bytes of the float it reads, hue,
  saturation and value of a colour, and a colour temperature clamped to 16 bits.
\<close>

record conv =
  cv_parse_json :: "string \<Rightarrow> json_object option"
  cv_strtof :: "string \<Rightarrow> bytes option"
  cv_hsv :: "json_object \<Rightarrow> u8 \<times> u8 \<times> u8"
  cv_color_temp :: "json_value \<Rightarrow> u16"

section \<open>The bytes of a command\<close>

definition clamp :: "int \<Rightarrow> int \<Rightarrow> int \<Rightarrow> int" where
  "clamp lo hi n = max lo (min hi n)"

definition alarm_command :: "string \<Rightarrow> u8" where
  "alarm_command command =
     (if command = ''ARM_HOME'' then 1 else if command = ''ARM_AWAY'' then 2 else if command = ''ARM_NIGHT'' then 3
      else if command = ''ARM_VACATION'' then 4 else if command = ''ARM_CUSTOM_BYPASS'' then 5
      else if command = ''TRIGGERED'' then 6 else if command = ''PENDING'' then 7 else 0)"

definition bool_byte :: "bool \<Rightarrow> u8" where
  "bool_byte b = (if b then 1 else 0)"

definition is_json :: "string \<Rightarrow> bool" where
  "is_json payload \<longleftrightarrow> payload \<noteq> [] \<and> hd payload = CHR ''{''"

definition cover_command :: "string \<Rightarrow> bytes" where
  "cover_command payload =
     (if payload = ''OPEN'' then [1, 100] else if payload = ''CLOSE'' then [2, 0] else if payload = ''STOP'' then [3, 0]
      else [0, word_of_int (clamp 0 100 (atoi payload))])"

fun index_of :: "'a \<Rightarrow> 'a list \<Rightarrow> nat option" where
  "index_of x [] = None"
| "index_of x (y # ys) = (if y = x then Some 0 else map_option Suc (index_of x ys))"

definition select_command :: "string \<Rightarrow> string \<Rightarrow> bytes" where
  "select_command entity_options payload =
     (let listed = bridge_option_list (parse_options_map entity_options) ''options'';
          options = (if listed = [] then split_string entity_options CHR ''|'' else listed)
      in case (if entity_options = [] then None else index_of payload options) of
           Some i \<Rightarrow> [word_of_nat i]
         | None \<Rightarrow> [word_of_int (atoi payload)])"

definition alarm_json :: "json_object \<Rightarrow> bytes option" where
  "alarm_json root =
     (case json_text root ''state'' of
        None \<Rightarrow> None
      | Some command \<Rightarrow>
          let code = (case json_text root ''code'' of None \<Rightarrow> [] | Some c \<Rightarrow> c)
          in Some (alarm_command command # bytes_of_string code))"

datatype CommandRouteKind = PRIMARY | FAN_SPEED | FAN_OSCILLATION | FAN_DIRECTION

text \<open>
  A member that is present and of the right type replaces a byte; the result says whether one did.  A percentage
  is multiplied in 32-bit unsigned arithmetic, so a negative one wraps.
\<close>

definition fan_json :: "u32 \<Rightarrow> bytes \<Rightarrow> json_object \<Rightarrow> bytes option" where
  "fan_json speed_count v0 root =
     (let v1 = (case json_text root ''state'' of Some t \<Rightarrow> v0[0 := bool_byte (parse_on t)] | None \<Rightarrow> v0);
          v2 = (case json_int root ''speed_level'' of Some n \<Rightarrow> v1[1 := word_of_int n] | None \<Rightarrow> v1);
          v3 = (case json_bool root ''oscillating'' of Some b \<Rightarrow> v2[2 := bool_byte b] | None \<Rightarrow> v2);
          v4 = (case json_text root ''direction'' of
                  Some t \<Rightarrow> v3[3 := bool_byte (t = ''reverse'' \<or> t = ''REVERSE'')] | None \<Rightarrow> v3);
          pct = (case json_int root ''percentage'' of Some n \<Rightarrow> speed_count > 0 | None \<Rightarrow> False);
          v5 = (case json_int root ''percentage'' of
                  Some n \<Rightarrow> if speed_count > 0 then v4[1 := ucast ((word_of_int n * speed_count + 50) div 100)] else v4
                | None \<Rightarrow> v4)
      in if json_text root ''state'' \<noteq> None \<or> json_int root ''speed_level'' \<noteq> None \<or> json_bool root ''oscillating'' \<noteq> None \<or>
            json_text root ''direction'' \<noteq> None \<or> pct
         then Some v5 else None)"

definition fan_base :: "bytes \<Rightarrow> bytes" where
  "fan_base current = (if length current \<ge> 4 then take 4 current else replicate 4 0)"

definition fan_level :: "u32 \<Rightarrow> int \<Rightarrow> int" where
  "fan_level speed_count parsed =
     (let pct = clamp 0 100 parsed;
          n = sint speed_count;
          level = (if speed_count > 0 then (pct * n + 50) div 100 else 0)
      in clamp 0 n level)"

definition fan_command :: "CommandRouteKind \<Rightarrow> u32 \<Rightarrow> string \<Rightarrow> bytes \<Rightarrow> bytes option" where
  "fan_command route speed_count payload current =
     (case route of
        PRIMARY \<Rightarrow> Some ((fan_base current)[0 := bool_byte (parse_on payload)])
      | FAN_SPEED \<Rightarrow>
          (case strtol payload of
             None \<Rightarrow> None
           | Some parsed \<Rightarrow>
               let level = fan_level speed_count parsed
               in Some (if length current \<ge> 4 then (fan_base current)[1 := word_of_int level]
                        else [bool_byte (level > 0), word_of_int level, 0, 0]))
      | FAN_OSCILLATION \<Rightarrow>
          Some ((fan_base current)[2 := bool_byte (payload \<in> {''oscillate_on'', ''ON'', ''on'', ''1''})])
      | FAN_DIRECTION \<Rightarrow> Some ((fan_base current)[3 := bool_byte (payload = ''reverse'' \<or> payload = ''REVERSE'')]))"

definition light_effect_json :: "string list \<Rightarrow> json_object \<Rightarrow> bytes \<Rightarrow> bool \<times> bytes" where
  "light_effect_json effects root v =
     (case json_text root ''effect'' of
        None \<Rightarrow> (False, v)
      | Some effect \<Rightarrow>
          let (ok, v1) = (case index_of effect effects of None \<Rightarrow> (False, v) | Some i \<Rightarrow> (True, v[4 := word_of_nat i]))
          in if effect = ''None'' then (True, v1[4 := 0]) else (ok, v1))"

definition light_color_json :: "conv \<Rightarrow> json_object \<Rightarrow> bytes \<Rightarrow> bytes" where
  "light_color_json cv root v =
     (case json_obj root ''color'' of
        None \<Rightarrow> v
      | Some color \<Rightarrow>
          let (hue, sat, vmax) = cv_hsv cv color; v1 = v[2 := hue, 3 := sat]
          in if v1 ! 1 = 0 then v1[1 := vmax] else v1)"

definition light_json :: "conv \<Rightarrow> string list \<Rightarrow> json_object \<Rightarrow> bytes option" where
  "light_json cv effects root =
     (let v0 = replicate 9 0;
          v1 = (case json_text root ''state'' of Some t \<Rightarrow> v0[0 := bool_byte (parse_on t)] | None \<Rightarrow> v0);
          v2 = (case json_int root ''brightness'' of Some n \<Rightarrow> v1[1 := word_of_int (clamp 0 255 n)] | None \<Rightarrow> v1);
          (effect_ok, v3) = light_effect_json effects root v2;
          v4 = light_color_json cv root v3;
          v5 = (case json_number root ''color_temp'' of
                  Some n \<Rightarrow> let ct = cv_color_temp cv n in v4[6 := ucast ct, 7 := ucast (drop_bit 8 ct)] | None \<Rightarrow> v4);
          v6 = (case json_int root ''white'' of Some n \<Rightarrow> v5[8 := word_of_int (clamp 0 255 n)] | None \<Rightarrow> v5);
          has_state = (json_text root ''state'' \<noteq> None);
          other = (json_int root ''brightness'' \<noteq> None \<or> json_obj root ''color'' \<noteq> None \<or>
                   json_number root ''color_temp'' \<noteq> None \<or> json_int root ''white'' \<noteq> None);
          v7 = (if \<not> has_state \<and> (other \<or> json_text root ''effect'' \<noteq> None) then v6[0 := 1] else v6)
      in if has_state \<or> other \<or> effect_ok then Some v7 else None)"

definition parse_json_with :: "conv \<Rightarrow> string \<Rightarrow> (json_object \<Rightarrow> bytes option) \<Rightarrow> bytes option" where
  "parse_json_with cv payload f = (case cv_parse_json cv payload of None \<Rightarrow> None | Some root \<Rightarrow> f root)"

text \<open>The float of a number is the first four of 250 bytes.\<close>

definition decode_command_payload ::
  "conv \<Rightarrow> espnow_entity_schema_t \<Rightarrow> CommandRouteKind \<Rightarrow> string \<Rightarrow> bytes \<Rightarrow> bytes option" where
  "decode_command_payload cv entity route payload current =
     (let ty = es_entity_type entity; options = parse_options_map (es_entity_options entity) in
      if ty = field_type_code FIELD_TYPE_SWITCH then Some [bool_byte (parse_on payload)]
      else if ty = field_type_code FIELD_TYPE_NUMBER then
        map_option (\<lambda>f. f @ replicate 246 0) (cv_strtof cv payload)
      else if ty = field_type_code FIELD_TYPE_TEXT then Some (bytes_of_string payload)
      else if ty = field_type_code FIELD_TYPE_COVER \<or> ty = field_type_code FIELD_TYPE_VALVE then Some (cover_command payload)
      else if ty = field_type_code FIELD_TYPE_LOCK then Some [bool_byte (payload = ''LOCK'' \<or> payload = ''LOCKED'')]
      else if ty = field_type_code FIELD_TYPE_SELECT then Some (select_command (es_entity_options entity) payload)
      else if ty = field_type_code FIELD_TYPE_ALARM then
        (if is_json payload then parse_json_with cv payload alarm_json else Some [alarm_command payload])
      else if ty = field_type_code FIELD_TYPE_FAN then
        (let speed_count = option_u32 options ''speed_count'' 0 in
         if is_json payload then parse_json_with cv payload (fan_json speed_count (fan_base current))
         else fan_command route speed_count payload current)
      else if ty = field_type_code FIELD_TYPE_LIGHT then
        (if is_json payload then parse_json_with cv payload (light_json cv (bridge_option_list options ''effects''))
         else Some ((replicate 9 0)[0 := bool_byte (parse_on payload), 1 := if parse_on payload then 255 else 0]))
      else if ty = field_type_code FIELD_TYPE_BUTTON then Some [1]
      else None)"

section \<open>Command requests\<close>

record EntityValueCache =
  ev_current_value :: bytes
  ev_current_type :: u8
  ev_schema :: espnow_entity_schema_t

definition entity_value_key :: "mac \<Rightarrow> u8 \<Rightarrow> string" where
  "entity_value_key leaf_mac entity_index = mac_hex leaf_mac @ ''_'' @ dec_digits (unat entity_index)"

definition cached_value :: "(string, EntityValueCache) omap \<Rightarrow> mac \<Rightarrow> espnow_entity_schema_t \<Rightarrow> bytes" where
  "cached_value values leaf_mac entity =
     (case omap_find values (entity_value_key leaf_mac (es_entity_index entity)) of
        None \<Rightarrow> [] | Some cache \<Rightarrow> ev_current_value cache)"

definition entity_object_id :: "espnow_entity_schema_t \<Rightarrow> string" where
  "entity_object_id entity =
     (if es_entity_id entity = [] then sanitize_object_id (es_entity_name entity) else es_entity_id entity)"

definition find_entity :: "BridgeSession \<Rightarrow> string \<Rightarrow> espnow_entity_schema_t option" where
  "find_entity session object_id =
     find (\<lambda>entity. es_entity_type entity \<noteq> 0 \<and> entity_object_id entity = object_id) (bs_schema_entities session)"

definition command_text :: "string \<Rightarrow> ParsedCommandArgument list \<Rightarrow> string" where
  "command_text command args =
     (let simple =
        (if command = ''turn_on'' then ''ON'' else if command = ''turn_off'' then ''OFF''
         else if command = ''press'' then ''PRESS'' else if command = ''open'' then ''OPEN''
         else if command = ''close'' then ''CLOSE'' else if command = ''stop'' then ''STOP''
         else if command = ''lock'' then ''LOCK'' else if command = ''unlock'' then ''UNLOCK''
         else if command = ''arm_home'' then ''ARM_HOME'' else if command = ''arm_away'' then ''ARM_AWAY''
         else if command = ''arm_night'' then ''ARM_NIGHT'' else if command = ''arm_vacation'' then ''ARM_VACATION''
         else if command = ''arm_custom_bypass'' then ''ARM_CUSTOM_BYPASS'' else if command = ''disarm'' then ''DISARM''
         else if command = ''trigger'' then ''TRIGGERED''
         else if args \<noteq> [] then pca_value (hd args) else command)
      in if args \<noteq> [] \<and> is_json (pca_value (hd args)) then pca_value (hd args) else simple)"

definition command_route :: "espnow_entity_schema_t \<Rightarrow> string \<Rightarrow> CommandRouteKind" where
  "command_route entity command =
     (if es_entity_type entity = field_type_code FIELD_TYPE_FAN then
        (if command = ''set_speed'' then FAN_SPEED else if command = ''set_oscillation'' then FAN_OSCILLATION
         else if command = ''set_direction'' then FAN_DIRECTION else PRIMARY)
      else PRIMARY)"

datatype CommandStatus = COMMAND_ACCEPTED | COMMAND_FAILED | COMMAND_UNAVAILABLE | COMMAND_UNSUPPORTED | COMMAND_TIMEOUT

definition status_code :: "CommandStatus \<Rightarrow> u64" where
  "status_code status =
     (case status of COMMAND_ACCEPTED \<Rightarrow> 1 | COMMAND_FAILED \<Rightarrow> 3 | COMMAND_UNAVAILABLE \<Rightarrow> 4 | COMMAND_UNSUPPORTED \<Rightarrow> 5
      | COMMAND_TIMEOUT \<Rightarrow> 6)"

definition runtime_session_id :: "hmac_fn \<Rightarrow> string \<Rightarrow> BridgeSession \<Rightarrow> string" where
  "runtime_session_id hmac network_id session =
     bytes_to_lower_hex (take 8 (hmac_sha256 hmac (bs_session_key session)
       (bs_bridge_nonce session @ bs_remote_nonce session @ bs_leaf_mac session @ bytes_of_string network_id)))"

text \<open>The part of the request behind the look-up of the session: what is sent, and the outcome.\<close>

definition run_command ::
  "bridge_env \<Rightarrow> conv \<Rightarrow> (string, EntityValueCache) omap \<Rightarrow> mac \<Rightarrow> BridgeSession \<Rightarrow> ParsedCommandRequest \<Rightarrow> bridge \<Rightarrow>
     (CommandStatus \<times> string \<times> string) \<times> bridge" where
  "run_command env cv values leaf_mac session request s =
     (case find_entity session (pcr_object_id request) of
        None \<Rightarrow>
          ((COMMAND_UNSUPPORTED, ''entity_not_found'', ''Entity object_id is not in the current remote schema''), s)
      | Some entity \<Rightarrow>
          (case decode_command_payload cv entity (command_route entity (pcr_command request))
                  (command_text (pcr_command request) (pcr_args request)) (cached_value values leaf_mac entity) of
             None \<Rightarrow> ((COMMAND_UNSUPPORTED, ''unsupported_command'', ''Command is not supported for this entity''), s)
           | Some val \<Rightarrow>
               let (ok, s1) = send_command_to_leaf env leaf_mac (es_entity_index entity) val s
               in (if ok then (COMMAND_ACCEPTED, [], [])
                   else (COMMAND_FAILED, ''send_failed'', ''Bridge failed to queue command''), s1)))"

definition command_outcome ::
  "bridge_env \<Rightarrow> conv \<Rightarrow> (string, EntityValueCache) omap \<Rightarrow> ParsedCommandRequest \<Rightarrow> bridge \<Rightarrow>
     (CommandStatus \<times> string \<times> string) \<times> bridge" where
  "command_outcome env cv values request s =
     (case parse_mac_hex (clean_mac_text (pcr_remote_mac request)) of
        None \<Rightarrow> ((COMMAND_FAILED, ''invalid_remote_mac'', ''Invalid remote MAC''), s)
      | Some leaf_mac \<Rightarrow>
          (case get_session s leaf_mac of
             None \<Rightarrow> ((COMMAND_UNAVAILABLE, ''remote_unavailable'', ''Remote session is unavailable''), s)
           | Some session \<Rightarrow>
               if \<not> bs_online session \<or> \<not> bs_session_key_valid session
               then ((COMMAND_UNAVAILABLE, ''remote_unavailable'', ''Remote session is unavailable''), s)
               else run_command env cv values leaf_mac session request s))"

text \<open>The session whose id goes into the answer: only one that is available.\<close>

definition command_session_id :: "bridge_env \<Rightarrow> string \<Rightarrow> ParsedCommandRequest \<Rightarrow> bridge \<Rightarrow> string" where
  "command_session_id env network_id request s =
     (case Option.bind (parse_mac_hex (clean_mac_text (pcr_remote_mac request))) (get_session s) of
        None \<Rightarrow> []
      | Some session \<Rightarrow>
          if bs_online session \<and> bs_session_key_valid session then runtime_session_id (be_hmac env) network_id session else [])"

definition api_runtime_handle_command ::
  "bridge_env \<Rightarrow> conv \<Rightarrow> string \<Rightarrow> mac \<Rightarrow> (string, EntityValueCache) omap \<Rightarrow> string \<Rightarrow> ParsedCommandRequest \<Rightarrow> bridge \<Rightarrow>
     bytes \<times> bridge" where
  "api_runtime_handle_command env cv network_id sta_mac values request_id request s =
     (let ((status, error_code, error_message), s1) = command_outcome env cv values request s
      in (envelope request_id 18 (\<lambda>w.
            Writer_string 8 error_message
             (Writer_string 7 error_code
              (Writer_varint 6 (status_code status)
               (Writer_string 5 (command_session_id env network_id request s)
                (Writer_string 4 (mac_display sta_mac)
                 (Writer_string 3 (pcr_command request)
                  (Writer_string 2 (pcr_object_id request)
                   (Writer_string 1 (pcr_remote_mac request) w)))))))), s1))"

section \<open>Configuration requests\<close>

definition config_result_string :: "ConfigAckResult \<Rightarrow> string" where
  "config_result_string result =
     (if car_no_session result then ''no_session''
      else if car_timed_out result then ''timeout''
      else if \<not> car_acked result then ''timeout''
      else if car_result result = 0 then ''ok''
      else if car_result result = 1 then ''rejected''
      else if car_result result = 2 then ''unsupported''
      else if car_result result = 3 then ''invalid_payload''
      else if car_result result = 4 then ''busy''
      else ''rejected'')"

text \<open>The immediate result is empty when the configuration was sent and an answer will come through the callback.\<close>

definition api_node_config_start ::
  "bridge_env \<Rightarrow> mac \<Rightarrow> string \<Rightarrow> u8 \<Rightarrow> bytes \<Rightarrow> nat \<Rightarrow> bridge \<Rightarrow> string \<times> bridge" where
  "api_node_config_start env sta_mac mac_colon command payload callback s =
     (case parse_mac_hex (clean_mac_text mac_colon) of
        None \<Rightarrow> (''invalid_payload'', s)
      | Some leaf_mac \<Rightarrow>
          if leaf_mac = sta_mac then (''not_remote'', s)
          else case get_session s leaf_mac of
            None \<Rightarrow> (''no_session'', s)
          | Some session \<Rightarrow>
              if \<not> bs_online session \<or> \<not> bs_session_key_valid session then (''no_session'', s)
              else
                let (ok, s1) = send_config_to_leaf env leaf_mac command payload (Some callback) s
                in (if ok then [] else ''no_session'', s1))"

text \<open>The command and payload of a request; the error is the one of the code.\<close>

definition config_payload :: "ParsedConfigCommandRequest \<Rightarrow> (string \<times> string) + u8 \<times> bytes" where
  "config_payload request =
     (if pcc_command request = ''reboot'' then Inr (1, [])
      else if pcc_command request = ''heartbeat_interval'' then Inr (4, le_bytes 4 (pcc_interval_seconds request))
      else if pcc_command request = ''force_rediscover'' then Inr (5, [])
      else if pcc_command request = ''set_parent_mac'' then
        (let clean = clean_mac_text (pcc_parent_mac request);
             flag = bool_byte (pcc_clear_parent request)
         in if clean = [] then Inr (6, flag # replicate 6 0)
            else case parse_mac_hex clean of
              None \<Rightarrow> Inl (''invalid_parent_mac'', ''Invalid parent MAC'')
            | Some m \<Rightarrow> Inr (6, flag # m))
      else if pcc_command request = ''relay'' then Inr (7, [bool_byte (pcc_relay_enable request)])
      else Inl (''unsupported_config_command'', ''Unsupported config command''))"

definition config_result_frame :: "string \<Rightarrow> string \<Rightarrow> string \<Rightarrow> mac \<Rightarrow> CommandStatus \<Rightarrow> string \<Rightarrow> bytes" where
  "config_result_frame request_id remote_mac command sta_mac status result =
     envelope request_id 20 (\<lambda>w.
       Writer_string 7 result
        (Writer_varint 5 (status_code status)
         (Writer_string 3 (mac_display sta_mac)
          (Writer_string 2 command
           (Writer_string 1 remote_mac w)))))"

definition ack_status :: "string \<Rightarrow> CommandStatus" where
  "ack_status result =
     (if result = ''timeout'' \<or> result = ''no_session'' then COMMAND_TIMEOUT
      else if result = ''busy'' then COMMAND_UNAVAILABLE
      else if result = ''rejected'' \<or> result = ''unsupported'' \<or> result = ''invalid_payload'' then COMMAND_FAILED
      else COMMAND_ACCEPTED)"

definition immediate_status :: "string \<Rightarrow> CommandStatus" where
  "immediate_status result =
     (if result = ''timeout'' then COMMAND_TIMEOUT else if result = ''busy'' then COMMAND_UNAVAILABLE else COMMAND_FAILED)"

text \<open>What the callback sends when the remote has answered or the wait is over.\<close>

definition on_config_ack :: "string \<Rightarrow> ParsedConfigCommandRequest \<Rightarrow> mac \<Rightarrow> ConfigAckResult \<Rightarrow> bytes" where
  "on_config_ack request_id request sta_mac ack =
     (let result = config_result_string ack
      in config_result_frame request_id (pcc_remote_mac request) (pcc_command request) sta_mac (ack_status result) result)"

text \<open>The frames that are answered at once; none when the answer is left to the callback.\<close>

definition api_runtime_handle_config_command ::
  "bridge_env \<Rightarrow> mac \<Rightarrow> string \<Rightarrow> ParsedConfigCommandRequest \<Rightarrow> nat \<Rightarrow> bridge \<Rightarrow> bytes list \<times> bridge" where
  "api_runtime_handle_config_command env sta_mac request_id request callback s =
     (case config_payload request of
        Inl (code, message) \<Rightarrow> ([error_envelope request_id code message], s)
      | Inr (command, payload) \<Rightarrow>
          let (immediate, s1) = api_node_config_start env sta_mac (pcc_remote_mac request) command payload callback s
          in if immediate = [] then ([], s1)
             else ([config_result_frame request_id (pcc_remote_mac request) (pcc_command request) sta_mac
                      (immediate_status immediate) immediate], s1))"

end
