(* ===== verification/Bridge_Component.thy ===== *)
theory Bridge_Component
  imports Bridge_Commands Bridge_Handlers
begin

unbundle bit_operations_syntax

text \<open>
  The parts of the bridge component (\<^verbatim>\<open>esp_tree_bridge.cpp\<close>) that stand around its protocol engine: the queue
  of received frames, the table of radio peers, and the table of states that wait until every consumer has them
  before the remote gets its acknowledgement.  The members they use are the record component; the calls of the radio
  driver are answered by the environment and appended to a list.
\<close>

section \<open>State\<close>

record PendingRxFrame =
  rx_mac :: mac
  rx_data :: bytes
  rx_rssi :: u8

record AirtimeStats =
  as_tx_packets :: u32
  as_rx_packets :: u32
  as_tx_airtime_us :: u64
  as_rx_airtime_us :: u64
  as_rssi_sum :: u64
  as_rssi_count :: u32

record PendingStateDelivery =
  sd_leaf_mac :: mac
  sd_next_hop_mac :: mac
  sd_entity_index :: u8
  sd_message_tx_base :: u32
  sd_required_sinks :: u8
  sd_delivered_sinks :: u8
  sd_created_ms :: u32

datatype radio_call = PeerExists mac | AddPeer mac | DelPeer mac | RadioSend mac bytes

record component =
  co_protocol :: bridge
  co_network_id :: string
  co_sta_mac :: mac
  co_espnow_allowed :: bool
  co_pending_rx :: "PendingRxFrame list"
  co_rx_packets :: u32
  co_rx_dropped :: u32
  co_rx_dropped_while_disallowed :: u32
  co_tx_ok :: u32
  co_tx_fail :: u32
  co_peer_last_used_ms :: "(string, u32) omap"
  co_airtime :: AirtimeStats
  co_entity_values :: "(string, EntityValueCache) omap"
  co_deliveries :: "(string, PendingStateDelivery) omap"
  co_radio :: "radio_call list"
  co_confirmed :: "(mac \<times> u8 \<times> u32 \<times> mac) list"

text \<open>The answers of the driver depend on the calls made so far; a call returns whether it was \<^verbatim>\<open>ESP_OK\<close>.\<close>

record component_env =
  ce_bridge :: bridge_env
  ce_radio :: "radio_call list \<Rightarrow> radio_call \<Rightarrow> bool"
  ce_send :: "radio_call list \<Rightarrow> esp_err_t"
  ce_lock_ok :: bool
  ce_wifi_connected :: bool
  ce_api_client :: bool
  ce_mqtt_connected :: bool

abbreviation (input) MAX_PENDING_RX_FRAMES :: nat where "MAX_PENDING_RX_FRAMES \<equiv> 64"

abbreviation (input) STATE_DELIVERY_SINK_MQTT :: u8 where "STATE_DELIVERY_SINK_MQTT \<equiv> 0x01"

abbreviation (input) STATE_DELIVERY_SINK_PROTOBUF :: u8 where "STATE_DELIVERY_SINK_PROTOBUF \<equiv> 0x02"

abbreviation (input) STATE_DELIVERY_TIMEOUT_MS :: u32 where "STATE_DELIVERY_TIMEOUT_MS \<equiv> 2000"

definition calc_airtime_lr_us :: "nat \<Rightarrow> u32" where
  "calc_airtime_lr_us frame_bytes = 336 + 16 * word_of_nat frame_bytes"

section \<open>State deliveries\<close>

definition state_delivery_key :: "mac \<Rightarrow> u8 \<Rightarrow> u32 \<Rightarrow> string" where
  "state_delivery_key leaf_mac entity_index message_tx_base =
     mac_hex leaf_mac @ ''_'' @ dec_digits (unat entity_index) @ ''_'' @ dec_digits (unat message_tx_base)"

definition active_state_delivery_sinks :: "component_env \<Rightarrow> u8" where
  "active_state_delivery_sinks env =
     (let sinks = (if ce_api_client env then STATE_DELIVERY_SINK_PROTOBUF else 0)
      in if ce_mqtt_connected env then sinks OR STATE_DELIVERY_SINK_MQTT else sinks)"

text \<open>The protocol is told, and the call is noted.\<close>

definition confirm :: "component_env \<Rightarrow> mac \<Rightarrow> u8 \<Rightarrow> u32 \<Rightarrow> mac \<Rightarrow> component \<Rightarrow> component" where
  "confirm env leaf_mac entity_index message_tx_base next_hop c =
     c\<lparr>co_protocol := snd (confirm_state_delivery (ce_bridge env) leaf_mac message_tx_base (Some next_hop) (co_protocol c)),
       co_confirmed := co_confirmed c @ [(leaf_mac, entity_index, message_tx_base, next_hop)]\<rparr>"

definition begin_state_delivery ::
  "component_env \<Rightarrow> mac \<Rightarrow> u8 \<Rightarrow> u32 \<Rightarrow> mac \<Rightarrow> u8 \<Rightarrow> component \<Rightarrow> component" where
  "begin_state_delivery env leaf_mac entity_index message_tx_base next_hop required_sinks c =
     (if required_sinks = 0 then confirm env leaf_mac entity_index message_tx_base next_hop c
      else c\<lparr>co_deliveries := omap_put (state_delivery_key leaf_mac entity_index message_tx_base)
              \<lparr>sd_leaf_mac = leaf_mac, sd_next_hop_mac = next_hop, sd_entity_index = entity_index,
               sd_message_tx_base = message_tx_base, sd_required_sinks = required_sinks, sd_delivered_sinks = 0,
               sd_created_ms = be_now (ce_bridge env)\<rparr> (co_deliveries c)\<rparr>)"

definition mark_state_sink_delivered :: "component_env \<Rightarrow> mac \<Rightarrow> u8 \<Rightarrow> u32 \<Rightarrow> u8 \<Rightarrow> component \<Rightarrow> component" where
  "mark_state_sink_delivered env leaf_mac entity_index message_tx_base sink c =
     (let key = state_delivery_key leaf_mac entity_index message_tx_base in
      case omap_find (co_deliveries c) key of
        None \<Rightarrow> c
      | Some d0 \<Rightarrow>
          let d = d0\<lparr>sd_delivered_sinks := sd_delivered_sinks d0 OR sink\<rparr> in
          if sd_delivered_sinks d AND sd_required_sinks d \<noteq> sd_required_sinks d
          then c\<lparr>co_deliveries := omap_put key d (co_deliveries c)\<rparr>
          else (confirm env (sd_leaf_mac d) (sd_entity_index d) (sd_message_tx_base d) (sd_next_hop_mac d) c)
                 \<lparr>co_deliveries := omap_erase key (co_deliveries c)\<rparr>)"

definition mark_mqtt_state_delivered :: "component_env \<Rightarrow> mac \<Rightarrow> u8 \<Rightarrow> u32 \<Rightarrow> component \<Rightarrow> component" where
  "mark_mqtt_state_delivered env leaf_mac entity_index message_tx_base =
     mark_state_sink_delivered env leaf_mac entity_index message_tx_base STATE_DELIVERY_SINK_MQTT"

definition expire_state_deliveries :: "component_env \<Rightarrow> component \<Rightarrow> component" where
  "expire_state_deliveries env c =
     c\<lparr>co_deliveries :=
         filter (\<lambda>(k, d). be_now (ce_bridge env) - sd_created_ms d < STATE_DELIVERY_TIMEOUT_MS) (co_deliveries c)\<rparr>"

definition api_runtime_handle_state_receipt ::
  "component_env \<Rightarrow> string \<Rightarrow> string \<Rightarrow> u32 \<Rightarrow> u8 \<Rightarrow> component \<Rightarrow> component" where
  "api_runtime_handle_state_receipt env remote_mac session_id state_tx_counter entity_index c =
     (case parse_mac_hex (clean_mac_text remote_mac) of
        None \<Rightarrow> c
      | Some m \<Rightarrow>
          (case get_session (co_protocol c) m of
             None \<Rightarrow> c
           | Some session \<Rightarrow>
               if session_id \<noteq> [] \<and> session_id \<noteq> runtime_session_id (be_hmac (ce_bridge env)) (co_network_id c) session then c
               else mark_state_sink_delivered env m entity_index state_tx_counter STATE_DELIVERY_SINK_PROTOBUF c))"

text \<open>
  The callback of the protocol for a complete state.  The value is remembered before it goes to the consumers; the
  events for them follow and have no part in the delivery.
\<close>

definition publish_state ::
  "component_env \<Rightarrow> mac \<Rightarrow> espnow_entity_schema_t \<Rightarrow> bytes \<Rightarrow> u8 \<Rightarrow> u32 \<Rightarrow> mac \<Rightarrow> component \<Rightarrow> component" where
  "publish_state env leaf_mac entity val ty message_tx_base next_hop c =
     begin_state_delivery env leaf_mac (es_entity_index entity) message_tx_base next_hop (active_state_delivery_sinks env)
       (c\<lparr>co_entity_values := omap_put (entity_value_key leaf_mac (es_entity_index entity))
            \<lparr>ev_current_value = val, ev_current_type = ty, ev_schema = entity\<rparr> (co_entity_values c)\<rparr>)"

section \<open>Received frames\<close>

text \<open>
  The receive callback runs in the radio task: it takes the mutex without waiting and drops the frame when it
  cannot have it.  The mutex is created before the callback is registered.
\<close>

definition handle_received_frame :: "component_env \<Rightarrow> mac \<Rightarrow> bytes \<Rightarrow> u8 \<Rightarrow> component \<Rightarrow> component" where
  "handle_received_frame env sender data rssi c =
     (if \<not> co_espnow_allowed c then c\<lparr>co_rx_dropped_while_disallowed := co_rx_dropped_while_disallowed c + 1\<rparr>
      else if data = [] then c
      else if \<not> ce_lock_ok env then c\<lparr>co_rx_dropped := co_rx_dropped c + 1\<rparr>
      else if length (co_pending_rx c) \<ge> MAX_PENDING_RX_FRAMES then c\<lparr>co_rx_dropped := co_rx_dropped c + 1\<rparr>
      else c\<lparr>co_pending_rx := co_pending_rx c @ [\<lparr>rx_mac = sender, rx_data = data, rx_rssi = rssi\<rparr>]\<rparr>)"

definition handle_send_status :: "bool \<Rightarrow> component \<Rightarrow> component" where
  "handle_send_status success c =
     (if success then c\<lparr>co_tx_ok := co_tx_ok c + 1\<rparr> else c\<lparr>co_tx_fail := co_tx_fail c + 1\<rparr>)"

definition count_received :: "PendingRxFrame \<Rightarrow> AirtimeStats \<Rightarrow> AirtimeStats" where
  "count_received frame a =
     (let a1 = a\<lparr>as_rx_airtime_us := as_rx_airtime_us a + ucast (calc_airtime_lr_us (length (rx_data frame))),
                 as_rx_packets := as_rx_packets a + 1\<rparr>
      in if rx_rssi frame \<noteq> 0
         then a1\<lparr>as_rssi_sum := as_rssi_sum a1 + scast (rx_rssi frame), as_rssi_count := as_rssi_count a1 + 1\<rparr>
         else a1)"

text \<open>
  The handler of a complete state publishes it as its last action, so the callback runs on the state the handler
  returns.
\<close>

definition deliver_event :: "component_env \<Rightarrow> bridge_event \<Rightarrow> component \<Rightarrow> component" where
  "deliver_event env ev c =
     (case ev of
        PublishState leaf_mac entity val ty text_value message_tx_base next_hop \<Rightarrow>
          publish_state env leaf_mac entity val ty message_tx_base next_hop c
      | _ \<Rightarrow> c)"

definition process_frame :: "component_env \<Rightarrow> PendingRxFrame \<Rightarrow> component \<Rightarrow> component" where
  "process_frame env frame c =
     (let (ok, s) = on_espnow_frame (ce_bridge env) (rx_mac frame) (rx_data frame) (rx_rssi frame) (co_protocol c);
          c1 = fold (deliver_event env) (drop (length (bp_events (co_protocol c))) (bp_events s)) (c\<lparr>co_protocol := s\<rparr>)
      in if \<not> ok then c1\<lparr>co_rx_dropped := co_rx_dropped c1 + 1\<rparr>
         else c1\<lparr>co_rx_packets := co_rx_packets c1 + 1, co_airtime := count_received frame (co_airtime c1)\<rparr>)"

text \<open>The clock and the radio may change from frame to frame, so each frame has its environment.\<close>

definition drain_received_frames :: "component_env \<Rightarrow> (nat \<Rightarrow> component_env) \<Rightarrow> component \<Rightarrow> component" where
  "drain_received_frames env envs c =
     (if \<not> ce_lock_ok env then c
      else fold (\<lambda>(i, frame). process_frame (envs i) frame) (enumerate 0 (co_pending_rx c)) (c\<lparr>co_pending_rx := []\<rparr>))"

definition update_espnow_allowed :: "component_env \<Rightarrow> component \<Rightarrow> component" where
  "update_espnow_allowed env c =
     (if ce_wifi_connected env \<and> \<not> co_espnow_allowed c then c\<lparr>co_espnow_allowed := True\<rparr>
      else if \<not> ce_wifi_connected env \<and> co_espnow_allowed c then c\<lparr>co_espnow_allowed := False\<rparr> else c)"

section \<open>Radio peers\<close>

definition radio :: "component_env \<Rightarrow> radio_call \<Rightarrow> component \<Rightarrow> bool \<times> component" where
  "radio env call c = (ce_radio env (co_radio c) call, c\<lparr>co_radio := co_radio c @ [call]\<rparr>)"

definition note_peer_activity :: "component_env \<Rightarrow> mac \<Rightarrow> component \<Rightarrow> component" where
  "note_peer_activity env m c =
     c\<lparr>co_peer_last_used_ms := omap_put (mac_hex m) (be_now (ce_bridge env)) (co_peer_last_used_ms c)\<rparr>"

definition is_peer_protected :: "bridge \<Rightarrow> mac \<Rightarrow> bool" where
  "is_peer_protected s m =
     list_ex (\<lambda>(k, x). bs_online x \<and> (bs_next_hop_mac x = m \<or> bs_leaf_mac x = m)) (bp_sessions s)"

text \<open>The best candidate so far; an older entry replaces it.\<close>

definition consider_peer :: "bridge \<Rightarrow> mac \<Rightarrow> string \<times> u32 \<Rightarrow> (string \<times> u32) option \<Rightarrow> (string \<times> u32) option" where
  "consider_peer s preferred entry best =
     (case parse_mac_hex (fst entry) of
        None \<Rightarrow> best
      | Some m \<Rightarrow>
          if m = preferred \<or> is_peer_protected s m then best
          else case best of
            None \<Rightarrow> Some entry
          | Some b \<Rightarrow> if snd entry < snd b then Some entry else Some b)"

definition stalest_peer :: "bridge \<Rightarrow> mac \<Rightarrow> (string, u32) omap \<Rightarrow> (string \<times> u32) option" where
  "stalest_peer s preferred peers = fold (consider_peer s preferred) peers None"

definition evict_stale_peer :: "component_env \<Rightarrow> mac \<Rightarrow> component \<Rightarrow> bool \<times> component" where
  "evict_stale_peer env preferred c =
     (case stalest_peer (co_protocol c) preferred (co_peer_last_used_ms c) of
        None \<Rightarrow> (False, c)
      | Some (key, used) \<Rightarrow>
          let c1 = c\<lparr>co_peer_last_used_ms := omap_erase key (co_peer_last_used_ms c)\<rparr>
          in (case parse_mac_hex key of
                None \<Rightarrow> (False, c1)
              | Some m \<Rightarrow> radio env (DelPeer m) c1))"

definition add_peer :: "component_env \<Rightarrow> mac \<Rightarrow> component \<Rightarrow> bool \<times> component" where
  "add_peer env m c =
     (let (known, c1) = radio env (PeerExists m) c in
      if known then (True, note_peer_activity env m c1)
      else
        let (added, c2) = radio env (AddPeer m) c1 in
        if added then (True, note_peer_activity env m c2)
        else
          let (evicted, c3) = evict_stale_peer env m c2 in
          if \<not> evicted then (False, c3)
          else
            let (added2, c4) = radio env (AddPeer m) c3 in
            if added2 then (True, note_peer_activity env m c4) else (False, c4))"

definition send_frame_result :: "component_env \<Rightarrow> mac \<Rightarrow> bytes \<Rightarrow> component \<Rightarrow> esp_err_t \<times> component" where
  "send_frame_result env m frame c =
     (let (ok, c1) = add_peer env m c in
      if \<not> ok then (ESP_FAIL, c1)
      else
        let a = co_airtime c1;
            c2 = note_peer_activity env m
                   (c1\<lparr>co_airtime := a\<lparr>as_tx_airtime_us := as_tx_airtime_us a + ucast (calc_airtime_lr_us (length frame)),
                                        as_tx_packets := as_tx_packets a + 1\<rparr>\<rparr>)
        in (ce_send env (co_radio c2), c2\<lparr>co_radio := co_radio c2 @ [RadioSend m frame]\<rparr>))"

definition component_send_frame :: "component_env \<Rightarrow> mac \<Rightarrow> bytes \<Rightarrow> component \<Rightarrow> bool \<times> component" where
  "component_send_frame env m frame c = (let (err, c1) = send_frame_result env m frame c in (err = ESP_OK, c1))"

section \<open>Queries\<close>

definition send_force_rejoin :: "mac \<Rightarrow> component \<Rightarrow> component" where
  "send_force_rejoin m c =
     (case get_session (co_protocol c) m of
        None \<Rightarrow> c
      | Some x \<Rightarrow> c\<lparr>co_protocol := put_session m (x\<lparr>bs_state_sync_pending := True\<rparr>) (co_protocol c)\<rparr>)"

definition get_online_macs :: "component \<Rightarrow> mac list" where
  "get_online_macs c = map (bs_leaf_mac \<circ> snd) (filter (bs_online \<circ> snd) (bp_sessions (co_protocol c)))"

definition node_key :: "component \<Rightarrow> mac \<Rightarrow> string" where
  "node_key c m =
     (case get_session (co_protocol c) m of
        None \<Rightarrow> mac_hex m
      | Some x \<Rightarrow> if bs_esphome_name x \<noteq> [] then slugify_name (bs_esphome_name x) else mac_hex m)"

definition remote_display_name :: "component \<Rightarrow> mac \<Rightarrow> string" where
  "remote_display_name c m =
     (case get_session (co_protocol c) m of
        None \<Rightarrow> ''ESP-NOW LR Remote '' @ mac_hex m
      | Some x \<Rightarrow>
          if bs_node_label x \<noteq> [] then bs_node_label x
          else if bs_esphome_name x \<noteq> [] then bs_esphome_name x
          else ''ESP-NOW LR Remote '' @ mac_hex m)"

definition get_remote_mac_by_node_key :: "component \<Rightarrow> string \<Rightarrow> mac option" where
  "get_remote_mac_by_node_key c key =
     map_option (bs_leaf_mac \<circ> snd)
       (find (\<lambda>(k, x). slugify_name (bs_esphome_name x) = key \<or> mac_hex (bs_leaf_mac x) = key) (bp_sessions (co_protocol c)))"

definition unique_object_id :: "component \<Rightarrow> mac \<Rightarrow> espnow_entity_schema_t \<Rightarrow> string" where
  "unique_object_id c m entity =
     (let slug = slugify_name (if es_entity_id entity \<noteq> [] then es_entity_id entity else es_entity_name entity);
          base = (if slug = [] then ''entity'' else slug)
      in case get_session (co_protocol c) m of
           None \<Rightarrow> base
         | Some x \<Rightarrow>
             if unat (es_entity_index entity) \<ge> length (bs_schema_entities x) then base
             else if es_entity_id entity \<noteq> [] then base
             else
               let n = length (filter (\<lambda>e. es_entity_type e \<noteq> 0 \<and> slugify_name (es_entity_name e) = base)
                         (take (unat (es_entity_index entity) + 1) (bs_schema_entities x)))
               in if n > 1 then base @ ''_'' @ dec_digits n else base)"

end
