(* ===== verification/Bridge_Info.thy ===== *)
theory Bridge_Info
  imports Bridge_Component
begin

unbundle bit_operations_syntax

text \<open>
  What the bridge tells about itself and its remotes, shared by the web interface and the runtime API
  (\<^verbatim>\<open>esp_tree_bridge.cpp\<close>): build dates, names of types and chips, and the environment of the answers.
\<close>

section \<open>Names\<close>

definition field_types :: "espnow_field_type_t list" where
  "field_types = [FIELD_TYPE_SENSOR, FIELD_TYPE_SWITCH, FIELD_TYPE_BINARY, FIELD_TYPE_BUTTON, FIELD_TYPE_NUMBER, FIELD_TYPE_TEXT,
     FIELD_TYPE_CLIMATE, FIELD_TYPE_COVER, FIELD_TYPE_LIGHT, FIELD_TYPE_FAN, FIELD_TYPE_LOCK, FIELD_TYPE_ALARM, FIELD_TYPE_SELECT,
     FIELD_TYPE_EVENT, FIELD_TYPE_HUMIDIFIER, FIELD_TYPE_DEHUMIDIFIER, FIELD_TYPE_VALVE, FIELD_TYPE_TIME, FIELD_TYPE_DATETIME,
     FIELD_TYPE_TEXT_SENSOR]"

text \<open>The cast of a byte to the enumeration: a byte without a name takes the default branch of every switch.\<close>

definition field_type_of :: "u8 \<Rightarrow> espnow_field_type_t option" where
  "field_type_of code = find (\<lambda>ty. field_type_code ty = code) field_types"

definition component_for_type :: "u8 \<Rightarrow> string" where
  "component_for_type code =
     (case field_type_of code of
        Some FIELD_TYPE_SENSOR \<Rightarrow> ''sensor''
      | Some FIELD_TYPE_SWITCH \<Rightarrow> ''switch''
      | Some FIELD_TYPE_BINARY \<Rightarrow> ''binary_sensor''
      | Some FIELD_TYPE_BUTTON \<Rightarrow> ''button''
      | Some FIELD_TYPE_NUMBER \<Rightarrow> ''number''
      | Some FIELD_TYPE_TEXT \<Rightarrow> ''text''
      | Some FIELD_TYPE_TEXT_SENSOR \<Rightarrow> ''text_sensor''
      | Some FIELD_TYPE_COVER \<Rightarrow> ''cover''
      | Some FIELD_TYPE_LIGHT \<Rightarrow> ''light''
      | Some FIELD_TYPE_FAN \<Rightarrow> ''fan''
      | Some FIELD_TYPE_LOCK \<Rightarrow> ''lock''
      | Some FIELD_TYPE_ALARM \<Rightarrow> ''alarm_control_panel''
      | Some FIELD_TYPE_SELECT \<Rightarrow> ''select''
      | Some FIELD_TYPE_EVENT \<Rightarrow> ''event''
      | Some FIELD_TYPE_VALVE \<Rightarrow> ''valve''
      | _ \<Rightarrow> ''sensor'')"

definition native_type_for_type :: "u8 \<Rightarrow> string" where
  "native_type_for_type code =
     (case field_type_of code of
        None \<Rightarrow> ''float''
      | Some ty \<Rightarrow>
          if ty \<in> {FIELD_TYPE_SENSOR, FIELD_TYPE_NUMBER} then ''float''
          else if ty \<in> {FIELD_TYPE_SWITCH, FIELD_TYPE_BINARY, FIELD_TYPE_BUTTON, FIELD_TYPE_HUMIDIFIER, FIELD_TYPE_DEHUMIDIFIER}
          then ''bool''
          else if ty \<in> {FIELD_TYPE_TEXT, FIELD_TYPE_TEXT_SENSOR, FIELD_TYPE_SELECT, FIELD_TYPE_TIME, FIELD_TYPE_DATETIME}
          then ''string''
          else ''int'')"

definition chip_model_string :: "u32 \<Rightarrow> string" where
  "chip_model_string model =
     (if model = 1 then ''ESP32'' else if model = 2 then ''ESP32-S2'' else if model = 5 then ''ESP32-C3''
      else if model = 9 then ''ESP32-S3'' else if model = 12 then ''ESP32-C2'' else if model = 13 then ''ESP32-C6''
      else if model = 16 then ''ESP32-H2'' else if model = 18 then ''ESP32-P4'' else if model = 20 then ''ESP32-C61''
      else if model = 23 then ''ESP32-C5'' else if model = 33382 then ''ESP8266'' else ''Unknown'')"

section \<open>Build dates\<close>

text \<open>A string up to its first zero character, as \<^verbatim>\<open>c_str\<close> hands it on.\<close>

definition c_text :: "string \<Rightarrow> string" where
  "c_text s = takeWhile (\<lambda>ch. ch \<noteq> CHR 0x00) s"

text \<open>\<^verbatim>\<open>%7s\<close> and \<^verbatim>\<open>%d\<close> of \<^verbatim>\<open>sscanf\<close>, with the text behind what was read.\<close>

definition scan_word :: "string \<Rightarrow> (string \<times> string) option" where
  "scan_word text =
     (let body = dropWhile is_space text; word = take 7 (takeWhile (\<lambda>ch. \<not> is_space ch) body)
      in if word = [] then None else Some (word, drop (length word) body))"

definition scan_int :: "string \<Rightarrow> (int \<times> string) option" where
  "scan_int text =
     (let body = dropWhile is_space text;
          signed = (body \<noteq> [] \<and> hd body \<in> {CHR ''-'', CHR ''+''});
          rest = (if signed then tl body else body)
      in case strtol body of None \<Rightarrow> None | Some n \<Rightarrow> Some (n, dropWhile (\<lambda>ch. dec_value ch \<noteq> None) rest))"

definition months :: "string list" where
  "months = [''Jan'', ''Feb'', ''Mar'', ''Apr'', ''May'', ''Jun'', ''Jul'', ''Aug'', ''Sep'', ''Oct'', ''Nov'', ''Dec'']"

text \<open>\<^verbatim>\<open>%d\<close> and \<^verbatim>\<open>%04d\<close> of \<^verbatim>\<open>snprintf\<close>.\<close>

definition print_int :: "int \<Rightarrow> string" where
  "print_int n = (if n < 0 then ''-'' @ dec_digits (nat (- n)) else dec_digits (nat n))"

definition print_int4 :: "int \<Rightarrow> string" where
  "print_int4 n =
     (let digits = dec_digits (nat (abs n)); prefix = (if n < 0 then ''-'' else [])
      in prefix @ replicate (4 - length prefix - length digits) CHR ''0'' @ digits)"

definition format_build_date :: "string \<Rightarrow> string \<Rightarrow> string" where
  "format_build_date date_str time_str =
     (case scan_word (c_text date_str) of
        None \<Rightarrow> ''unknown''
      | Some (mon_str, rest) \<Rightarrow>
          (case scan_int rest of
             None \<Rightarrow> ''unknown''
           | Some (day, rest2) \<Rightarrow>
               (case scan_int rest2 of
                  None \<Rightarrow> ''unknown''
                | Some (year, rest3) \<Rightarrow>
                    if mon_str \<notin> set months then ''unknown''
                    else take 31 (mon_str @ '' '' @ print_int day @ '' '' @ print_int4 year @ '' '' @ c_text time_str))))"

definition session_build_date :: "BridgeSession \<Rightarrow> string" where
  "session_build_date x =
     (if bs_build_date x \<noteq> [] \<and> bs_build_time x \<noteq> [] then format_build_date (bs_build_date x) (bs_build_time x) else [])"

section \<open>The environment\<close>

text \<open>
  The clocks, the names compiled in, how floats are printed and widened, and the random bytes of a login.
\<close>

record info_env =
  ie_hmac :: hmac_fn
  ie_millis :: u32
  ie_time :: int
  ie_app_name :: string
  ie_esphome_version :: string
  ie_float_text :: "bytes \<Rightarrow> string"
  ie_double :: "bytes \<Rightarrow> u64"
  ie_hsv :: "u8 \<Rightarrow> u8 \<Rightarrow> u8 \<Rightarrow> u8 \<times> u8 \<times> u8"
  ie_random :: bytes

definition state_text :: "info_env \<Rightarrow> u8 \<Rightarrow> bytes \<Rightarrow> string \<Rightarrow> string" where
  "state_text env code val options =
     (case field_type_of code of
        None \<Rightarrow> ''null''
      | Some ty \<Rightarrow> state_value_json (ie_float_text env) (ie_hsv env) ty val options)"

section \<open>Facts\<close>

lemma field_type_of_code [simp]: "field_type_of (field_type_code ty) = Some ty"
  by (cases ty) (simp_all add: field_type_of_def field_types_def)

lemma field_type_of_Some: "field_type_of code = Some ty \<longleftrightarrow> code = field_type_code ty"
proof
  assume "field_type_of code = Some ty"
  then show "code = field_type_code ty" by (auto simp: field_type_of_def find_Some_iff)
qed simp

end
