(* ===== verification/Runtime_Encode.thy ===== *)
theory Runtime_Encode
  imports Bridge_Info Runtime_Pb
begin

unbundle bit_operations_syntax

text \<open>
  The messages the bridge sends to a client of the runtime API (\<^verbatim>\<open>esp_tree_bridge.cpp\<close>, the
  \<^verbatim>\<open>api_runtime_encode_\<close> methods): the answer to a login, the full snapshot, the heartbeat and the events.  A
  message is a sequence of calls of the writer, in the order of the code.
\<close>

section \<open>Parts\<close>

definition writes :: "(bytes \<Rightarrow> bytes) list \<Rightarrow> bytes \<Rightarrow> bytes" where
  "writes calls out = fold (\<lambda>call. call) calls out"

definition runtime_schema_hash :: "BridgeSession \<Rightarrow> string" where
  "runtime_schema_hash x = ''sha256:'' @ bytes_to_lower_hex (bs_schema_hash x)"

definition runtime_firmware_md5 :: "BridgeSession \<Rightarrow> string" where
  "runtime_firmware_md5 x = bytes_to_lower_hex (bs_firmware_md5 x)"

definition runtime_now_unix_ms :: "info_env \<Rightarrow> u64" where
  "runtime_now_unix_ms env = (if ie_time env \<le> 0 then 0 else word_of_int (ie_time env) * 1000)"

definition runtime_write_capabilities :: "bytes \<Rightarrow> bytes" where
  "runtime_write_capabilities =
     writes [Writer_boolean 1 True, Writer_boolean 2 True, Writer_boolean 3 True, Writer_boolean 4 True, Writer_boolean 5 True,
       Writer_boolean 6 True]"

definition runtime_entity_writable :: "u8 \<Rightarrow> bool" where
  "runtime_entity_writable code \<longleftrightarrow>
     field_type_of code \<in> Some ` {FIELD_TYPE_SWITCH, FIELD_TYPE_BUTTON, FIELD_TYPE_NUMBER, FIELD_TYPE_TEXT, FIELD_TYPE_SELECT, FIELD_TYPE_LIGHT,
       FIELD_TYPE_FAN, FIELD_TYPE_COVER, FIELD_TYPE_VALVE, FIELD_TYPE_LOCK, FIELD_TYPE_ALARM}"

text \<open>A float that is too short is zero, whose bits are zero.\<close>

definition decode_float :: "info_env \<Rightarrow> bytes \<Rightarrow> u64" where
  "decode_float env val = (if length val < 4 then 0 else ie_double env (take 4 val))"

definition entity_state_value :: "info_env \<Rightarrow> u8 \<Rightarrow> bytes \<Rightarrow> string \<Rightarrow> bytes \<Rightarrow> bytes" where
  "entity_state_value env code val options =
     (let first = (if val = [] then 0 else val ! 0); json = Writer_string 13 (state_text env code val options) in
      case field_type_of code of
        None \<Rightarrow> json
      | Some ty \<Rightarrow>
          if ty \<in> {FIELD_TYPE_SWITCH, FIELD_TYPE_BINARY} then Writer_boolean 10 (first \<noteq> 0)
          else if ty = FIELD_TYPE_LOCK then
            Writer_string 13 (if first = 1 then ''LOCKED'' else if first = 2 then ''JAMMED'' else ''UNLOCKED'')
          else if ty = FIELD_TYPE_ALARM then Writer_string 13 (alarm_state first)
          else if ty \<in> {FIELD_TYPE_COVER, FIELD_TYPE_VALVE, FIELD_TYPE_SELECT} then Writer_sint64 11 (ucast first)
          else if ty \<in> {FIELD_TYPE_SENSOR, FIELD_TYPE_NUMBER} then Writer_fixed64 12 (decode_float env val)
          else if ty \<in> {FIELD_TYPE_TEXT, FIELD_TYPE_TEXT_SENSOR, FIELD_TYPE_EVENT} then Writer_string 13 (string_of_bytes val)
          else json)"

definition runtime_write_entity_state ::
  "info_env \<Rightarrow> string \<Rightarrow> bool \<Rightarrow> u64 \<Rightarrow> u8 \<Rightarrow> bytes \<Rightarrow> string \<Rightarrow> bytes \<Rightarrow> bytes" where
  "runtime_write_entity_state env object_id available observed_unix_ms code val options =
     writes [Writer_string 1 object_id, Writer_boolean 2 available, Writer_varint 3 observed_unix_ms,
       entity_state_value env code val options]"

section \<open>Login and snapshot\<close>

definition bridge_description :: "info_env \<Rightarrow> string \<Rightarrow> component \<Rightarrow> (bytes \<Rightarrow> bytes) list" where
  "bridge_description env friendly_name c =
     (let ident = bp_bridge_identity (co_protocol c) in
      [Writer_string 1 (mac_display (co_sta_mac c)), Writer_string 2 (sanitize_object_id (ie_app_name env)),
       Writer_string 3 friendly_name, Writer_string 4 (co_network_id c), Writer_string 5 ''ESPHome'', Writer_string 6 ''esp_tree_bridge'',
       Writer_string 7 (bi_project_name ident), Writer_string 8 (bi_project_version ident),
       Writer_string 9 (format_build_date (bi_build_date ident) (bi_build_time ident)), Writer_string 10 ''esp-tree-pb''])"

definition api_runtime_encode_auth_ok :: "info_env \<Rightarrow> string \<Rightarrow> component \<Rightarrow> string \<Rightarrow> bytes" where
  "api_runtime_encode_auth_ok env friendly_name c request_id =
     envelope request_id 12 (writes [Writer_varint 1 2, Writer_string 2 friendly_name,
       Writer_message 3 (writes (bridge_description env friendly_name c)), Writer_message 4 runtime_write_capabilities])"

definition session_identity :: "BridgeSession \<Rightarrow> string \<Rightarrow> bytes \<Rightarrow> bytes" where
  "session_identity x schema_hash =
     writes [Writer_string 1 (mac_display (bs_leaf_mac x)), Writer_string 2 (bs_esphome_name x),
       Writer_string 3 (if bs_node_label x = [] then mac_display (bs_leaf_mac x) else bs_node_label x),
       Writer_string 4 ''ESPHome'', Writer_string 5 ''esp_tree_remote'', Writer_string 6 (bs_project_name x),
       Writer_string 7 (bs_project_version x), Writer_string 8 (session_build_date x), Writer_string 9 (runtime_firmware_md5 x),
       Writer_string 10 schema_hash, Writer_varint 11 (word_of_nat (length (bs_schema_entities x))),
       Writer_string 12 (chip_model_string (bs_chip_model x)), Writer_boolean 13 (bs_online x \<and> bs_session_key_valid x),
       Writer_boolean 14 (bs_direct_child_count x > 0 \<or> bs_total_child_count x > 0)]"

definition entity_description :: "espnow_entity_schema_t \<Rightarrow> bytes \<Rightarrow> bytes" where
  "entity_description entity =
     writes [Writer_string 1 (entity_object_id entity), Writer_string 2 (component_for_type (es_entity_type entity)),
       Writer_string 3 (es_entity_name entity), Writer_string 6 (es_entity_unit entity),
       Writer_boolean 11 (runtime_entity_writable (es_entity_type entity)), Writer_string 12 (native_type_for_type (es_entity_type entity)),
       Writer_string 13 (es_entity_options entity)]"

definition session_schema :: "BridgeSession \<Rightarrow> string \<Rightarrow> bytes \<Rightarrow> bytes" where
  "session_schema x schema_hash =
     writes (Writer_string 1 schema_hash #
       map (\<lambda>entity. Writer_message 2 (entity_description entity)) (filter (\<lambda>e. es_entity_type e \<noteq> 0) (bs_schema_entities x)))"

text \<open>The cached values whose key starts with the address of the remote.\<close>

definition session_values :: "component \<Rightarrow> BridgeSession \<Rightarrow> EntityValueCache list" where
  "session_values c x =
     (let prefix = mac_hex (bs_leaf_mac x) in
      map snd (filter (\<lambda>(key, v). take (length prefix) key = prefix \<and> ev_current_value v \<noteq> []) (co_entity_values c)))"

definition snapshot_remote :: "info_env \<Rightarrow> component \<Rightarrow> BridgeSession \<Rightarrow> bytes \<Rightarrow> bytes" where
  "snapshot_remote env c x =
     writes ([Writer_message 1 (session_identity x (runtime_schema_hash x)),
       Writer_message 2 (writes [Writer_boolean 1 (bs_online x), Writer_string 2 (mac_display (co_sta_mac c)),
         Writer_string 3 (mac_display (bs_parent_mac x)), Writer_varint 4 (ucast (bs_hops_to_bridge x)),
         Writer_sint32 5 (scast (bs_last_rssi x)), Writer_varint 7 (ucast (bs_last_seen_bridge_uptime_s x)),
         Writer_string 8 (runtime_session_id (ie_hmac env) (co_network_id c) x), Writer_varint 9 (ucast (bs_last_seen_counter x)),
         Writer_varint 10 (ucast (bs_uptime_seconds x))]),
       Writer_message 3 (session_schema x (runtime_schema_hash x))] @
       map (\<lambda>v. Writer_message 4 (runtime_write_entity_state env (entity_object_id (ev_schema v)) (bs_online x)
         (runtime_now_unix_ms env) (ev_current_type v) (ev_current_value v) (es_entity_options (ev_schema v)))) (session_values c x))"

definition api_runtime_encode_full_snapshot :: "info_env \<Rightarrow> string \<Rightarrow> component \<Rightarrow> string \<Rightarrow> bytes" where
  "api_runtime_encode_full_snapshot env friendly_name c request_id =
     (let s = co_protocol c in
      envelope request_id 15 (writes
       ([Writer_message 1 (writes (bridge_description env friendly_name c @
           [Writer_string 11 (chip_model_string (bi_chip_model (bp_bridge_identity s)))])),
         Writer_message 2 (writes [Writer_boolean 1 True, Writer_sint32 2 0, Writer_varint 3 (ucast (bp_bridge_uptime_s s)),
           Writer_varint 4 (ucast (get_active_remote_count s))])] @
        map (\<lambda>(k, x). Writer_message 3 (snapshot_remote env c x)) (bp_sessions s) @
        [Writer_varint 4 (runtime_now_unix_ms env)])))"

section \<open>Events\<close>

definition event_batch :: "u32 \<Rightarrow> (bytes \<Rightarrow> bytes) list \<Rightarrow> bytes" where
  "event_batch field calls = envelope [] 16 (Writer_message 1 (Writer_message field (writes calls)))"

definition api_runtime_encode_bridge_heartbeat :: "info_env \<Rightarrow> component \<Rightarrow> bytes" where
  "api_runtime_encode_bridge_heartbeat env c =
     event_batch 10
      ([Writer_string 1 (mac_display (co_sta_mac c)), Writer_varint 2 (runtime_now_unix_ms env),
        Writer_varint 3 (ucast (bp_bridge_uptime_s (co_protocol c)))] @
       map (\<lambda>(k, x). Writer_message 4 (writes [Writer_string 1 (mac_display (bs_leaf_mac x)), Writer_varint 2 (ucast (bs_last_seen_bridge_uptime_s x))]))
         (filter (\<lambda>(k, x). bs_online x \<and> bs_last_seen_bridge_uptime_s x \<noteq> 0) (bp_sessions (co_protocol c))))"

definition api_runtime_encode_topology_changed :: "info_env \<Rightarrow> component \<Rightarrow> mac \<Rightarrow> bytes" where
  "api_runtime_encode_topology_changed env c m =
     (let session = get_session (co_protocol c) m in
      event_batch 15
       [Writer_string 1 (mac_display m), Writer_string 2 (mac_display (co_sta_mac c)),
        Writer_string 3 (case session of None \<Rightarrow> [] | Some x \<Rightarrow> mac_display (bs_parent_mac x)),
        Writer_varint 4 (case session of None \<Rightarrow> 0 | Some x \<Rightarrow> ucast (bs_hops_to_bridge x)),
        Writer_sint32 5 (case session of None \<Rightarrow> - 127 | Some x \<Rightarrow> scast (bs_last_rssi x)),
        Writer_varint 6 (runtime_now_unix_ms env),
        Writer_varint 7 (case session of None \<Rightarrow> 0 | Some x \<Rightarrow> ucast (bs_uptime_seconds x))])"

definition event_session_id :: "info_env \<Rightarrow> component \<Rightarrow> mac \<Rightarrow> string" where
  "event_session_id env c m =
     (case get_session (co_protocol c) m of None \<Rightarrow> [] | Some x \<Rightarrow> runtime_session_id (ie_hmac env) (co_network_id c) x)"

definition event_counter :: "component \<Rightarrow> mac \<Rightarrow> u64" where
  "event_counter c m = (case get_session (co_protocol c) m of None \<Rightarrow> 0 | Some x \<Rightarrow> ucast (bs_last_seen_counter x))"

definition api_runtime_encode_remote_availability :: "info_env \<Rightarrow> component \<Rightarrow> mac \<Rightarrow> bool \<Rightarrow> string \<Rightarrow> u8 \<Rightarrow> u8 \<Rightarrow> bytes" where
  "api_runtime_encode_remote_availability env c m online reason rssi hop_count =
     event_batch 11
      [Writer_string 1 (mac_display m), Writer_boolean 2 online, Writer_string 3 (mac_display (co_sta_mac c)),
       Writer_string 4 (event_session_id env c m), Writer_varint 5 (event_counter c m), Writer_varint 6 (runtime_now_unix_ms env),
       Writer_sint32 7 (scast rssi), Writer_varint 8 (ucast hop_count), Writer_string 9 reason,
       Writer_varint 10 (case get_session (co_protocol c) m of None \<Rightarrow> 0 | Some x \<Rightarrow> ucast (bs_uptime_seconds x))]"

definition api_runtime_encode_remote_state ::
  "info_env \<Rightarrow> component \<Rightarrow> mac \<Rightarrow> espnow_entity_schema_t \<Rightarrow> bytes \<Rightarrow> u8 \<Rightarrow> u32 \<Rightarrow> bytes" where
  "api_runtime_encode_remote_state env c m entity val code state_tx_counter =
     event_batch 12
      [Writer_string 1 (mac_display m), Writer_string 2 (mac_display (co_sta_mac c)), Writer_string 3 (event_session_id env c m),
       Writer_varint 4 (event_counter c m),
       Writer_message 5 (runtime_write_entity_state env (entity_object_id entity) True (runtime_now_unix_ms env) code val (es_entity_options entity)),
       Writer_varint 6 (runtime_now_unix_ms env), Writer_varint 7 (ucast state_tx_counter), Writer_varint 8 (ucast (es_entity_index entity))]"

definition api_runtime_encode_remote_schema_changed :: "info_env \<Rightarrow> component \<Rightarrow> mac \<Rightarrow> string \<Rightarrow> bytes" where
  "api_runtime_encode_remote_schema_changed env c m schema_hash =
     event_batch 13
      ([Writer_string 1 (mac_display m), Writer_string 2 (mac_display (co_sta_mac c)), Writer_string 3 (event_session_id env c m),
        Writer_string 4 []] @
       (case get_session (co_protocol c) m of
          None \<Rightarrow> []
        | Some x \<Rightarrow>
            [Writer_message 5 (writes
              [Writer_message 1 (session_identity x schema_hash),
               Writer_message 2 (writes [Writer_boolean 1 (bs_online x), Writer_string 2 (mac_display (co_sta_mac c)),
                 Writer_string 3 (mac_display (bs_parent_mac x)), Writer_varint 4 (ucast (bs_hops_to_bridge x)),
                 Writer_sint32 5 (scast (bs_last_rssi x)), Writer_string 8 (event_session_id env c m),
                 Writer_varint 9 (ucast (bs_last_seen_counter x))]),
               Writer_message 3 (session_schema x schema_hash)])]))"

end
