(* ===== verification/Bridge_Commands_Laws.thy ===== *)
theory Bridge_Commands_Laws
  imports Bridge_Commands Bridge_Laws
begin

unbundle bit_operations_syntax

text \<open>
  What the API promises about commands: an accepted one is on the air, fragment by fragment; the option or mode a
  client names is the one its entity reports afterwards, with one exception.
\<close>

section \<open>Frames on the air\<close>

text \<open>The two callbacks the protocol may send with.\<close>

definition radio_frame :: "bridge_event \<Rightarrow> (mac \<times> bytes) option" where
  "radio_frame ev = (case ev of SendFrame dest frame \<Rightarrow> Some (dest, frame) | SendErrFrame dest frame \<Rightarrow> Some (dest, frame) | _ \<Rightarrow> None)"

definition transmits :: "bridge \<Rightarrow> bridge \<Rightarrow> (mac \<times> bytes) list \<Rightarrow> bool" where
  "transmits s t fs \<longleftrightarrow> (\<exists>evs. bp_events t = bp_events s @ evs \<and> map radio_frame evs = map Some fs)"

lemma transmits_append: "transmits s t fs \<Longrightarrow> transmits t u gs \<Longrightarrow> transmits s u (fs @ gs)"
  unfolding transmits_def by (metis append.assoc map_append)

lemma transmits_nil: "bp_events t = bp_events s \<Longrightarrow> transmits s t []"
  by (simp add: transmits_def)

lemma queue_log_rest [simp]:
  "bp_events (queue_log e s) = bp_events s" "bp_crypto (queue_log e s) = bp_crypto s"
  "bp_command_queue (queue_log e s) = bp_command_queue s" "bp_sessions (queue_log e s) = bp_sessions s"
  by (simp_all add: queue_log_def)

lemma send_encrypted_sent:
  assumes "send_encrypted_with_tx_counter env dest ty hop tx plain (x, s) = (True, y, t)"
  shows "\<exists>frame. encrypted_frame (be_hmac env) (bp_crypto s) (bs_session_key x) (bs_leaf_mac x) ty hop tx plain = Some frame \<and>
    transmits s t [(dest, frame)] \<and> y = x\<lparr>bs_tx_packets := bs_tx_packets x + 1\<rparr> \<and> bp_crypto t = bp_crypto s \<and>
    bp_command_queue t = bp_command_queue s"
  using assms
  by (auto simp: send_encrypted_with_tx_counter_def send_encrypted_with_tx_counter_result_def Let_def case_prod_beta transmits_def
      esp_get_free_heap_size_def call_send_err_def call_send_def asked_def radio_frame_def split: if_splits option.splits)

lemma send_chunks_sent:
  assumes "send_chunks env dest field val tx True n chunks (x, s) = (True, y, t)"
  shows "\<exists>frames. map (\<lambda>i. encrypted_frame (be_hmac env) (bp_crypto s) (bs_session_key x) (bs_leaf_mac x) PKT_COMMAND downstream_hop_count
        (tx + word_of_nat i) (command_fragment (bs_max_entity_fragment x) field val i)) chunks = map Some frames \<and>
    transmits s t (map (Pair dest) frames) \<and> bp_command_queue t = bp_command_queue s \<and> bs_leaf_mac y = bs_leaf_mac x"
  using assms
proof (induction chunks arbitrary: x s)
  case Nil
  then show ?case by (simp add: transmits_nil)
next
  case (Cons i chunks)
  let ?x = "x\<lparr>bs_tx_counter := tx + word_of_nat i + 1\<rparr>"
  let ?cmd = "command_fragment (bs_max_entity_fragment x) field val i"
  let ?e = "(log_entry True PKT_COMMAND dest (length ?cmd + 17 + 8) 0 (tx + word_of_nat i))
      \<lparr>le_show_entity := True, le_entity_index := field, le_entity_total := bs_total_entities x,
        le_chunk_index := word_of_nat (i + 1),
        le_chunk_total := word_of_nat (command_chunk_count (bs_max_entity_fragment x) val), le_retry_count := n\<rparr>"
  obtain ok x2 s2 where q: "send_encrypted_with_tx_counter env dest PKT_COMMAND downstream_hop_count (tx + word_of_nat i)
      ?cmd (?x, queue_log ?e s) = (ok, x2, s2)" by (metis prod_cases3)
  have ok: ok and rest: "send_chunks env dest field val tx True n chunks (x2, s2) = (True, y, t)"
    using Cons.prems unfolding send_chunks.simps Let_def prod.case if_True q by (simp_all split: if_splits)
  note s = q [unfolded eqTrueI [OF ok]]
  from send_encrypted_sent [OF s] obtain f where
    f: "encrypted_frame (be_hmac env) (bp_crypto s) (bs_session_key x) (bs_leaf_mac x) PKT_COMMAND downstream_hop_count
      (tx + word_of_nat i) (command_fragment (bs_max_entity_fragment x) field val i) = Some f"
    and t1: "transmits s s2 [(dest, f)]" and x2: "x2 = ?x\<lparr>bs_tx_packets := bs_tx_packets ?x + 1\<rparr>"
    and k: "bp_crypto s2 = bp_crypto s" "bp_command_queue s2 = bp_command_queue s"
    by (auto simp: transmits_def)
  from Cons.IH [OF rest] obtain frames where
    "map (\<lambda>i. encrypted_frame (be_hmac env) (bp_crypto s) (bs_session_key x) (bs_leaf_mac x) PKT_COMMAND downstream_hop_count
        (tx + word_of_nat i) (command_fragment (bs_max_entity_fragment x) field val i)) chunks = map Some frames"
    "transmits s2 t (map (Pair dest) frames)" "bp_command_queue t = bp_command_queue s2" "bs_leaf_mac y = bs_leaf_mac x"
    by (auto simp: x2 k)
  then show ?case using f k transmits_append [OF t1] by (intro exI [of _ "f # frames"]) simp
qed

text \<open>A command that is taken: every fragment has been sent, and the command waits for its acknowledgement.\<close>

lemma send_command_sent:
  assumes "send_command_to_leaf env leaf field val s = (True, t)"
  shows "\<exists>x frames pc. get_session s leaf = Some x \<and> bs_online x \<and> bs_session_key_valid x \<and>
    map (\<lambda>i. encrypted_frame (be_hmac env) (bp_crypto s) (bs_session_key x) (bs_leaf_mac x) PKT_COMMAND downstream_hop_count
        (bs_tx_counter x + word_of_nat i) (command_fragment (bs_max_entity_fragment x) field val i))
      [0..<command_chunk_count (bs_max_entity_fragment x) val] = map Some frames \<and>
    transmits s t (map (Pair (bs_next_hop_mac x)) frames) \<and>
    bp_command_queue t = bp_command_queue s @ [pc] \<and> pc_field_index pc = field \<and> pc_value pc = val \<and>
    pc_leaf_mac pc = bs_leaf_mac x \<and> pc_tx_base pc = bs_tx_counter x \<and> pc_retry_count pc = 0"
proof -
  obtain x where x: "get_session s leaf = Some x" "bs_online x" "bs_session_key_valid x"
    using assms by (auto simp: send_command_to_leaf_def split: option.splits if_splits)
  obtain y u where sc: "send_command_fragments env (bs_next_hop_mac x) field val (bs_tx_counter x) True 0 (x, s) = (True, y, u)"
    and t: "t = put_conn leaf (y, u\<lparr>bp_command_queue := bp_command_queue u @
      [\<lparr>pc_field_index = field, pc_value = val, pc_leaf_mac = bs_leaf_mac y, pc_next_hop_mac = bs_next_hop_mac x,
        pc_tx_base = bs_tx_counter x, pc_last_tx_ms = be_now env, pc_retry_count = 0\<rparr>]\<rparr>)"
  proof -
    obtain ok y u where q: "send_command_fragments env (bs_next_hop_mac x) field val (bs_tx_counter x) True 0 (x, s) = (ok, y, u)"
      by (metis prod_cases3)
    then show thesis using that assms x by (auto simp: send_command_to_leaf_def send_command_def split: if_splits)
  qed
  from send_chunks_sent [OF sc [unfolded send_command_fragments_def]] obtain frames where
    "map (\<lambda>i. encrypted_frame (be_hmac env) (bp_crypto s) (bs_session_key x) (bs_leaf_mac x) PKT_COMMAND downstream_hop_count
        (bs_tx_counter x + word_of_nat i) (command_fragment (bs_max_entity_fragment x) field val i))
      [0..<command_chunk_count (bs_max_entity_fragment x) val] = map Some frames"
    "transmits s u (map (Pair (bs_next_hop_mac x)) frames)" "bp_command_queue u = bp_command_queue s" "bs_leaf_mac y = bs_leaf_mac x"
    by auto
  then show ?thesis using x by (auto simp: t put_conn_def put_session_def transmits_def)
qed

text \<open>The outcome of a request, accepted or not.\<close>

lemma command_accepted:
  assumes "command_outcome env cv values request s = ((COMMAND_ACCEPTED, code, message), t)"
  shows "\<exists>leaf x entity val. parse_mac_hex (clean_mac_text (pcr_remote_mac request)) = Some leaf \<and> get_session s leaf = Some x \<and>
    find_entity x (pcr_object_id request) = Some entity \<and>
    decode_command_payload cv entity (command_route entity (pcr_command request)) (command_text (pcr_command request) (pcr_args request))
      (cached_value values leaf entity) = Some val \<and>
    send_command_to_leaf env leaf (es_entity_index entity) val s = (True, t)"
  using assms by (auto simp: command_outcome_def run_command_def split: option.splits if_splits prod.splits)

lemma send_encrypted_queue:
  "bp_command_queue (snd (snd (send_encrypted_with_tx_counter env dest ty hop tx plain c))) = bp_command_queue (snd c)"
  by (simp add: send_encrypted_with_tx_counter_def send_encrypted_with_tx_counter_result_def Let_def case_prod_beta
      esp_get_free_heap_size_def call_send_err_def call_send_def asked_def split: option.split)

lemma send_chunks_queue:
  "bp_command_queue (snd (snd (send_chunks env dest field val tx consume n chunks c))) = bp_command_queue (snd c)"
  by (induction chunks arbitrary: c) (simp_all add: Let_def case_prod_beta send_encrypted_queue)

text \<open>A command that is not taken is not retried later.\<close>

lemma send_command_refused:
  "\<not> fst (send_command_to_leaf env leaf field val s) \<Longrightarrow>
    bp_command_queue (snd (send_command_to_leaf env leaf field val s)) = bp_command_queue s"
  using send_chunks_queue
  by (auto simp: send_command_to_leaf_def send_command_def send_command_fragments_def Let_def case_prod_beta put_conn_def put_session_def
      split: option.split)

lemma command_refused:
  assumes "command_outcome env cv values request s = ((status, code, message), t)" "status \<noteq> COMMAND_ACCEPTED"
  shows "code \<noteq> [] \<and> bp_command_queue t = bp_command_queue s"
  using assms send_command_refused
  by (auto simp: command_outcome_def run_command_def Let_def case_prod_beta split: option.splits if_splits)

section \<open>What is chosen and what is reported\<close>

lemma index_of_found: "x \<in> set xs \<Longrightarrow> \<exists>i < length xs. index_of x xs = Some i \<and> xs ! i = x"
proof (induction xs)
  case (Cons y ys)
  then show ?case by (cases "y = x") auto
qed simp

lemma index_of_nth: "distinct xs \<Longrightarrow> i < length xs \<Longrightarrow> index_of (xs ! i) xs = Some i"
proof (induction xs arbitrary: i)
  case (Cons y ys)
  then show ?case by (cases i) auto
qed simp

text \<open>Options written behind a key, the way the firmware of a remote writes them.\<close>

definition plain_options :: "string list \<Rightarrow> bool" where
  "plain_options opts \<longleftrightarrow> opts \<noteq> [] \<and> opts \<noteq> [[]] \<and> (\<forall>part \<in> set opts. CHR ''|'' \<notin> set part \<and> CHR '';'' \<notin> set part)"

lemma written_options:
  assumes "plain_options opts" "CHR '';'' \<notin> set key" "CHR ''='' \<notin> set key"
  shows "bridge_option_list (parse_options_map (key @ ''='' @ join_parts CHR ''|'' opts)) key = opts"
    "option_list (parse_options_map (key @ ''='' @ join_parts CHR ''|'' opts)) key = opts"
proof -
  have "parse_options_map (key @ ''='' @ join_parts CHR ''|'' opts) = [key \<mapsto> join_parts CHR ''|'' opts]"
    using assms by (intro options_map_written) (auto simp: plain_options_def)
  moreover have "join_parts CHR ''|'' opts \<noteq> []" using assms(1) by (simp add: plain_options_def join_parts_nil)
  moreover have "split_string (join_parts CHR ''|'' opts) CHR ''|'' = opts"
    using assms(1) by (intro split_join_parts) (auto simp: plain_options_def)
  ultimately show "bridge_option_list (parse_options_map (key @ ''='' @ join_parts CHR ''|'' opts)) key = opts"
    "option_list (parse_options_map (key @ ''='' @ join_parts CHR ''|'' opts)) key = opts"
    by (simp_all add: bridge_option_list_def option_list_def)
qed

lemma select_command_chosen:
  assumes "plain_options opts" "choice \<in> set opts"
  shows "\<exists>i < length opts. select_command (''options='' @ join_parts CHR ''|'' opts) choice = [word_of_nat i] \<and> opts ! i = choice"
proof -
  have "bridge_option_list (parse_options_map (''options='' @ join_parts CHR ''|'' opts)) ''options'' = opts"
    using written_options(1) [OF assms(1), of "''options''"] by simp
  moreover have "opts \<noteq> []" using assms(1) by (simp add: plain_options_def)
  ultimately show ?thesis using index_of_found [OF assms(2)] by (auto simp: select_command_def)
qed

text \<open>A light's effect: the command counts from zero, the report from one.\<close>

lemma light_effect_command:
  assumes "index_of effect effects = Some i" "effect \<noteq> ''None''"
  shows "light_json cv effects [(''effect'', JsonText effect)] = Some ((replicate 9 0)[4 := word_of_nat i, 0 := 1])"
  using assms by (simp add: light_json_def light_effect_json_def light_color_json_def json_text_def json_int_def json_obj_def
      json_number_def Let_def)

lemma light_effect_report:
  assumes "plain_options effects" "length val > 4" "val ! 4 = word_of_nat i" "i < length effects" "length effects < 256"
  shows "light_effect (parse_options_map (''effects='' @ join_parts CHR ''|'' effects)) val =
    '','' @ json_member ''effect'' (json_quote (if i = 0 then ''None'' else json_escape (effects ! (i - 1))))"
proof -
  have "option_list (parse_options_map (''effects='' @ join_parts CHR ''|'' effects)) ''effects'' = effects"
    using written_options(2) [OF assms(1), of "''effects''"] by simp
  moreover have "effects \<noteq> []" using assms(1) by (simp add: plain_options_def)
  moreover have "unat (word_of_nat i :: u8) = i" using assms by (simp add: unat_of_nat)
  ultimately show ?thesis using assms by (simp add: light_effect_def Let_def word_greater_zero_iff unat_eq_0 [symmetric])
qed

end
