(* ===== verification/Bridge_Component_Laws.thy ===== *)
theory Bridge_Component_Laws
  imports Bridge_Component Bridge_Commands_Laws
begin

unbundle bit_operations_syntax

text \<open>
  The tables of the bridge component: which peers are evicted, and when a state is acknowledged to the remote it came
  from.
\<close>

section \<open>Decimal text\<close>

lemma dec_value_digit: "d < 10 \<Longrightarrow> dec_value (char_of (48 + d)) = Some d"
  by (simp add: dec_value_def)

lemma dec_prefix_app:
  "\<forall>ch \<in> set xs. dec_value ch \<noteq> None \<Longrightarrow> dec_prefix acc (xs @ ys) = dec_prefix (dec_prefix acc xs) ys"
  by (induction xs arbitrary: acc) (auto split: option.split)

lemma dec_digits_digits: "\<forall>ch \<in> set (dec_digits n). dec_value ch \<noteq> None"
proof (induction n rule: dec_digits.induct)
  case (1 n)
  then show ?case by (subst dec_digits.simps) (auto simp: dec_value_digit)
qed

text \<open>Numbers are printed without loss.\<close>

lemma dec_prefix_digits: "dec_prefix 0 (dec_digits n) = n"
proof (induction n rule: dec_digits.induct)
  case (1 n)
  show ?case
  proof (cases "n < 10")
    case True
    then show ?thesis by (subst dec_digits.simps) (simp add: dec_value_digit)
  next
    case False
    have m: "dec_value (char_of (48 + n mod 10)) = Some (n mod 10)" by (rule dec_value_digit) simp
    have "dec_prefix 0 (dec_digits n) = dec_prefix (dec_prefix 0 (dec_digits (n div 10))) [char_of (48 + n mod 10)]"
      using False by (subst dec_digits.simps) (simp add: dec_prefix_app dec_digits_digits)
    then show ?thesis using 1 [OF False] m by simp
  qed
qed

lemma dec_digits_inject: "dec_digits a = dec_digits b \<longleftrightarrow> a = b"
  by (metis dec_prefix_digits)

lemma underscore_not_digit: "CHR ''_'' \<notin> set (dec_digits n)"
  using dec_digits_digits [of n] by (auto simp: dec_value_def)

text \<open>The key of a delivery names one state of one entity.\<close>

lemma state_delivery_key_inject:
  assumes "length m = 6" "length m' = 6"
  shows "state_delivery_key m i tx = state_delivery_key m' i' tx' \<longleftrightarrow> m = m' \<and> i = i' \<and> tx = tx'"
proof
  assume k: "state_delivery_key m i tx = state_delivery_key m' i' tx'"
  have l: "length (mac_hex m) = length (mac_hex m')" by (simp add: mac_hex_def)
  from k have "mac_hex m = mac_hex m'"
    "dec_digits (unat i) @ CHR ''_'' # dec_digits (unat tx) = dec_digits (unat i') @ CHR ''_'' # dec_digits (unat tx')"
    using l by (simp_all add: state_delivery_key_def)
  then show "m = m' \<and> i = i' \<and> tx = tx'"
    using assms by (simp add: mac_hex_inject append_Cons_eq_iff underscore_not_digit dec_digits_inject word_unat_eq_iff)
qed simp

section \<open>Deliveries\<close>

datatype delivery_input =
    Publish component_env mac u8 u32 mac u8
  | Mark component_env mac u8 u32 u8
  | Expire component_env

fun delivery_step :: "delivery_input \<Rightarrow> component \<Rightarrow> component" where
  "delivery_step (Publish env m i tx hop sinks) c = begin_state_delivery env m i tx hop sinks c"
| "delivery_step (Mark env m i tx sink) c = mark_state_sink_delivered env m i tx sink c"
| "delivery_step (Expire env) c = expire_state_deliveries env c"

text \<open>The inputs that leave the state \<open>(m, i, tx)\<close>, published at \<open>created\<close>, pending or mark it.\<close>

fun undisturbed :: "mac \<Rightarrow> u8 \<Rightarrow> u32 \<Rightarrow> u32 \<Rightarrow> delivery_input \<Rightarrow> bool" where
  "undisturbed m i tx created (Publish env m' i' tx' hop sinks) \<longleftrightarrow> length m' = 6 \<and> (m', i', tx') \<noteq> (m, i, tx)"
| "undisturbed m i tx created (Mark env m' i' tx' sink) \<longleftrightarrow> length m' = 6"
| "undisturbed m i tx created (Expire env) \<longleftrightarrow> be_now (ce_bridge env) - created < 2000"

fun marks :: "mac \<Rightarrow> u8 \<Rightarrow> u32 \<Rightarrow> delivery_input list \<Rightarrow> u8" where
  "marks m i tx [] = 0"
| "marks m i tx (Mark env m' i' tx' sink # ins) = (if (m', i', tx') = (m, i, tx) then sink else 0) OR marks m i tx ins"
| "marks m i tx (_ # ins) = marks m i tx ins"

definition confirmations :: "mac \<Rightarrow> u8 \<Rightarrow> u32 \<Rightarrow> component \<Rightarrow> (mac \<times> u8 \<times> u32 \<times> mac) list" where
  "confirmations m i tx c = filter (\<lambda>(m', i', tx', hop). (m', i', tx') = (m, i, tx)) (co_confirmed c)"

text \<open>A delivery is stored under the key of the state it is about.\<close>

definition deliveries_ok :: "component \<Rightarrow> bool" where
  "deliveries_ok c \<longleftrightarrow> omap_ok (co_deliveries c) \<and>
     (\<forall>(k, d) \<in> set (co_deliveries c). length (sd_leaf_mac d) = 6 \<and>
       k = state_delivery_key (sd_leaf_mac d) (sd_entity_index d) (sd_message_tx_base d))"

lemma deliveries_find:
  "deliveries_ok c \<Longrightarrow> omap_find (co_deliveries c) k = Some d \<Longrightarrow>
    length (sd_leaf_mac d) = 6 \<and> k = state_delivery_key (sd_leaf_mac d) (sd_entity_index d) (sd_message_tx_base d)"
  unfolding deliveries_ok_def using omap_ok_entries [of "co_deliveries c" k d] by blast

lemma confirm_rest [simp]:
  "co_deliveries (confirm env m i tx hop c) = co_deliveries c"
  "co_confirmed (confirm env m i tx hop c) = co_confirmed c @ [(m, i, tx, hop)]"
  by (simp_all add: confirm_def)

lemma omap_ok_filter: "omap_ok m \<Longrightarrow> omap_ok (filter P m)"
  by (simp add: omap_ok_def sorted_wrt_map_filter)

lemma omap_find_filter:
  "omap_ok m \<Longrightarrow> omap_find (filter P m) k = (case omap_find m k of None \<Rightarrow> None | Some v \<Rightarrow> if P (k, v) then Some v else None)"
proof -
  assume ok: "omap_ok m"
  have "omap_find (filter P m) k = Some v \<longleftrightarrow> omap_find m k = Some v \<and> P (k, v)" for v
    unfolding omap_ok_entries [OF ok, symmetric] omap_ok_entries [OF omap_ok_filter [OF ok], symmetric] by simp
  note f = this
  show ?thesis
  proof (cases "omap_find m k")
    case None
    then have "omap_find (filter P m) k \<noteq> Some v" for v using f by simp
    then show ?thesis using None by (cases "omap_find (filter P m) k") auto
  next
    case (Some v)
    then have "omap_find (filter P m) k = Some v \<longleftrightarrow> P (k, v)" "omap_find (filter P m) k = Some w \<Longrightarrow> w = v" for w using f by auto
    then show ?thesis using Some by (cases "omap_find (filter P m) k") auto
  qed
qed

lemma deliveries_ok_step:
  assumes "deliveries_ok c" "case x of Publish env m i tx hop s \<Rightarrow> length m = 6 | _ \<Rightarrow> True"
  shows "deliveries_ok (delivery_step x c)"
proof (cases x)
  case (Publish env m i tx hop s)
  then show ?thesis using assms by (auto simp: deliveries_ok_def begin_state_delivery_def omap_ok_put omap.entries_put)
next
  case (Mark env m i tx sink)
  show ?thesis
  proof (cases "omap_find (co_deliveries c) (state_delivery_key m i tx)")
    case (Some d)
    note k = deliveries_find [OF assms(1) Some]
    let ?d = "d\<lparr>sd_delivered_sinks := sd_delivered_sinks d OR sink\<rparr>"
    have e: "co_deliveries (delivery_step x c) = (if (sd_delivered_sinks d OR sink) AND sd_required_sinks d \<noteq> sd_required_sinks d
        then omap_put (state_delivery_key m i tx) ?d (co_deliveries c) else omap_erase (state_delivery_key m i tx) (co_deliveries c))"
      by (simp add: Mark mark_state_sink_delivered_def Some Let_def)
    show ?thesis using assms(1) k
      by (auto simp: deliveries_ok_def e omap_ok_put omap_ok_erase omap.entries_put omap.entries_erase)
  qed (use assms in \<open>simp add: Mark mark_state_sink_delivered_def\<close>)
next
  case (Expire env)
  then show ?thesis using assms by (auto simp: deliveries_ok_def expire_state_deliveries_def omap_ok_filter)
qed

lemma and_or_covers: "(D :: u8) AND req = req \<Longrightarrow> (D OR s) AND req = req"
  by (rule bit_word_eqI) (metis bit_and_iff bit_or_iff)

text \<open>
  The state is pending with the marks \<open>D\<close> it has got so far, or it has been confirmed because they are all it needs.
\<close>

definition tracked :: "mac \<Rightarrow> u8 \<Rightarrow> u32 \<Rightarrow> mac \<Rightarrow> u8 \<Rightarrow> u32 \<Rightarrow> u8 \<Rightarrow> component \<Rightarrow> bool" where
  "tracked m i tx hop req created D c \<longleftrightarrow> omap_find (co_deliveries c) (state_delivery_key m i tx) =
     (if D AND req = req then None
      else Some \<lparr>sd_leaf_mac = m, sd_next_hop_mac = hop, sd_entity_index = i, sd_message_tx_base = tx, sd_required_sinks = req,
        sd_delivered_sinks = D, sd_created_ms = created\<rparr>)"

definition completes :: "mac \<Rightarrow> u8 \<Rightarrow> u32 \<Rightarrow> mac \<Rightarrow> u8 \<Rightarrow> u8 \<Rightarrow> u8 \<Rightarrow> (mac \<times> u8 \<times> u32 \<times> mac) list" where
  "completes m i tx hop req D D' = (if D AND req \<noteq> req \<and> D' AND req = req then [(m, i, tx, hop)] else [])"

lemma tracked_other_mark:
  assumes "deliveries_ok c" "length m = 6" "length m' = 6" "(m', i', tx') \<noteq> (m, i, tx)" "tracked m i tx hop req created D c"
  shows "tracked m i tx hop req created D (mark_state_sink_delivered env m' i' tx' sink c) \<and>
    confirmations m i tx (mark_state_sink_delivered env m' i' tx' sink c) = confirmations m i tx c"
proof (cases "omap_find (co_deliveries c) (state_delivery_key m' i' tx')")
  case None
  then show ?thesis using assms by (simp add: mark_state_sink_delivered_def)
next
  case (Some d)
  have k: "state_delivery_key m i tx \<noteq> state_delivery_key m' i' tx'" using assms by (simp add: state_delivery_key_inject) auto
  have d: "sd_leaf_mac d = m'" "sd_entity_index d = i'" "sd_message_tx_base d = tx'"
    using deliveries_find [OF assms(1) Some] assms(3)
      state_delivery_key_inject [of m' "sd_leaf_mac d" i' tx' "sd_entity_index d" "sd_message_tx_base d"] by auto
  show ?thesis using assms(4, 5) k
    by (auto simp: mark_state_sink_delivered_def Some Let_def tracked_def omap_find_put omap_find_erase confirmations_def d)
qed

lemma tracked_mark:
  assumes "tracked m i tx hop req created D c"
  shows "tracked m i tx hop req created (D OR sink) (mark_state_sink_delivered env m i tx sink c) \<and>
    confirmations m i tx (mark_state_sink_delivered env m i tx sink c) = confirmations m i tx c @ completes m i tx hop req D (D OR sink)"
proof (cases "D AND req = req")
  case True
  then show ?thesis using assms and_or_covers [OF True] by (simp add: mark_state_sink_delivered_def tracked_def completes_def)
next
  case False
  then show ?thesis using assms
    by (simp add: mark_state_sink_delivered_def tracked_def completes_def Let_def omap_find_put omap_find_erase confirmations_def)
qed

lemma tracked_step:
  assumes "deliveries_ok c" "length m = 6" "undisturbed m i tx created x" "tracked m i tx hop req created D c"
  shows "tracked m i tx hop req created (D OR marks m i tx [x]) (delivery_step x c) \<and>
    confirmations m i tx (delivery_step x c) = confirmations m i tx c @ completes m i tx hop req D (D OR marks m i tx [x])"
proof (cases x)
  case (Publish env m' i' tx' hop' s)
  then have "state_delivery_key m i tx \<noteq> state_delivery_key m' i' tx'" using assms by (simp add: state_delivery_key_inject) auto
  then show ?thesis using assms
    by (auto simp: Publish begin_state_delivery_def tracked_def omap_find_put confirmations_def completes_def)
next
  case (Mark env m' i' tx' sink)
  show ?thesis
  proof (cases "(m', i', tx') = (m, i, tx)")
    case True
    then show ?thesis using tracked_mark [OF assms(4), of sink env] by (simp add: Mark)
  next
    case False
    then show ?thesis using tracked_other_mark [OF assms(1, 2) _ False assms(4), of env sink] assms(3)
      by (auto simp: Mark completes_def)
  qed
next
  case (Expire env)
  then show ?thesis using assms
    by (auto simp: expire_state_deliveries_def tracked_def omap_find_filter deliveries_ok_def confirmations_def completes_def)
qed

text \<open>
  A pending state is confirmed when the last of the consumers it waits for has it, once, and not otherwise.
\<close>

lemma tracked_run:
  assumes "deliveries_ok c" "length m = 6" "\<forall>x \<in> set ins. undisturbed m i tx created x" "tracked m i tx hop req created D c"
  shows "confirmations m i tx (fold delivery_step ins c) = confirmations m i tx c @ completes m i tx hop req D (D OR marks m i tx ins)"
  using assms
proof (induction ins arbitrary: c D)
  case Nil
  then show ?case by (simp add: completes_def)
next
  case (Cons x ins)
  let ?D = "D OR marks m i tx [x]"
  have u: "undisturbed m i tx created x" using Cons.prems by simp
  note t = tracked_step [OF Cons.prems(1, 2) u Cons.prems(4)]
  have ok: "deliveries_ok (delivery_step x c)" by (rule deliveries_ok_step [OF Cons.prems(1)]) (use u in \<open>cases x; simp\<close>)
  have m: "?D OR marks m i tx ins = D OR marks m i tx (x # ins)" by (cases x) (simp_all add: or.assoc)
  have "confirmations m i tx (fold delivery_step ins (delivery_step x c)) =
      confirmations m i tx (delivery_step x c) @ completes m i tx hop req ?D (?D OR marks m i tx ins)"
    using Cons.IH [OF ok Cons.prems(2)] Cons.prems(3) t by simp
  then show ?case using t m and_or_covers [of D req "marks m i tx [x]"] and_or_covers [of ?D req "marks m i tx ins"]
    by (auto simp: completes_def)
qed

lemma tracked_publish:
  "req \<noteq> 0 \<Longrightarrow> tracked m i tx hop req (be_now (ce_bridge env)) 0 (begin_state_delivery env m i tx hop req c)"
  by (simp add: tracked_def begin_state_delivery_def omap_find_put)

text \<open>After the timeout the state is forgotten: no later mark confirms it.\<close>

lemma expired_not_confirmed:
  assumes "deliveries_ok c" "tracked m i tx hop req created D c" "be_now (ce_bridge env) - created \<ge> 2000"
  shows "mark_state_sink_delivered env' m i tx sink (expire_state_deliveries env c) = expire_state_deliveries env c"
  using assms by (auto simp: mark_state_sink_delivered_def expire_state_deliveries_def tracked_def omap_find_filter deliveries_ok_def
      split: option.split)

section \<open>Receipts\<close>

text \<open>A receipt that repeats the address, session and counter of a state event marks that state.\<close>

lemma receipt_marks:
  assumes "length m = 6" "get_session (co_protocol c) m = Some x"
    "sid = [] \<or> sid = runtime_session_id (be_hmac (ce_bridge env)) (co_network_id c) x"
  shows "api_runtime_handle_state_receipt env (mac_display m) sid tx i c = mark_state_sink_delivered env m i tx 2 c"
  using assms by (auto simp: api_runtime_handle_state_receipt_def parse_mac_display)

section \<open>Peers\<close>

text \<open>What a fold over the peers finds: an unprotected peer, and none of the others is older.\<close>

definition evictable :: "bridge \<Rightarrow> mac \<Rightarrow> string \<times> u32 \<Rightarrow> bool" where
  "evictable s preferred entry \<longleftrightarrow> (\<exists>m. parse_mac_hex (fst entry) = Some m \<and> m \<noteq> preferred \<and> \<not> is_peer_protected s m)"

lemma consider_peer_eq:
  "consider_peer s p e best = (if evictable s p e then (case best of None \<Rightarrow> Some e | Some b \<Rightarrow> if snd e < snd b then Some e else Some b) else best)"
  by (auto simp: consider_peer_def evictable_def split: option.split)

lemma stalest_fold:
  assumes "\<And>b. best = Some b \<Longrightarrow> evictable s p b" "fold (consider_peer s p) peers best = Some e"
  shows "evictable s p e \<and> (e \<in> set peers \<or> best = Some e) \<and> (\<forall>x \<in> set peers. evictable s p x \<longrightarrow> snd e \<le> snd x) \<and>
    (\<forall>b. best = Some b \<longrightarrow> snd e \<le> snd b)"
  using assms
proof (induction peers arbitrary: best)
  case (Cons x peers)
  let ?best = "consider_peer s p x best"
  have b: "evictable s p y" if "?best = Some y" for y
    using that Cons.prems(1) by (cases best) (auto simp: consider_peer_eq split: if_splits)
  have f: "fold (consider_peer s p) peers ?best = Some e" using Cons.prems(2) by simp
  have i: "evictable s p e \<and> (e \<in> set peers \<or> ?best = Some e) \<and> (\<forall>x \<in> set peers. evictable s p x \<longrightarrow> snd e \<le> snd x) \<and>
      (\<forall>b. ?best = Some b \<longrightarrow> snd e \<le> snd b)"
    using Cons.IH [OF b f] by blast
  show ?case
  proof (cases "evictable s p x")
    case False
    then show ?thesis using i by (auto simp: consider_peer_eq)
  next
    case True
    obtain k where k: "?best = Some k" "k = x \<or> best = Some k" "snd k \<le> snd x" "\<forall>b. best = Some b \<longrightarrow> snd k \<le> snd b"
    proof (cases best)
      case None
      then show thesis using that [of x] True by (simp add: consider_peer_eq)
    next
      case (Some b)
      then show thesis using that [of x] that [of b] True by (cases "snd x < snd b") (simp_all add: consider_peer_eq)
    qed
    then have "snd e \<le> snd k" using i by blast
    then show ?thesis using i k by (auto intro: order_trans)
  qed
qed auto

lemma stalest_peer_found:
  "stalest_peer s p peers = Some e \<Longrightarrow> evictable s p e \<and> e \<in> set peers \<and> (\<forall>x \<in> set peers. evictable s p x \<longrightarrow> snd e \<le> snd x)"
  unfolding stalest_peer_def using stalest_fold [of None s p peers e] by simp

lemma add_peer_calls:
  "\<exists>calls. co_radio (snd (add_peer env p c)) = co_radio c @ calls \<and>
    (\<forall>m. DelPeer m \<in> set calls \<longrightarrow> (\<exists>e. stalest_peer (co_protocol c) p (co_peer_last_used_ms c) = Some e \<and> parse_mac_hex (fst e) = Some m))"
  by (auto simp: add_peer_def evict_stale_peer_def radio_def note_peer_activity_def Let_def split: option.split)

section \<open>Received frames\<close>

text \<open>The queue never holds more than 64 frames, and a drained frame is not processed again.\<close>

lemma receive_bounded:
  "length (co_pending_rx c) \<le> 64 \<Longrightarrow> length (co_pending_rx (handle_received_frame env m data rssi c)) \<le> 64"
  by (simp add: handle_received_frame_def)

lemma confirm_pending [simp]: "co_pending_rx (confirm env m i tx hop c) = co_pending_rx c"
  by (simp add: confirm_def)

lemma deliver_event_pending [simp]: "co_pending_rx (deliver_event env ev c) = co_pending_rx c"
  by (simp add: deliver_event_def publish_state_def begin_state_delivery_def split: bridge_event.split)

lemma deliver_events_pending [simp]: "co_pending_rx (fold (deliver_event env) evs c) = co_pending_rx c"
  by (induction evs arbitrary: c) simp_all

lemma process_frame_pending [simp]: "co_pending_rx (process_frame env frame c) = co_pending_rx c"
  by (simp add: process_frame_def Let_def case_prod_beta)

lemma process_frames_pending: "co_pending_rx (fold (\<lambda>(i, frame). process_frame (envs i) frame) fs c) = co_pending_rx c"
  by (induction fs arbitrary: c) auto

lemma drain_empties: "ce_lock_ok env \<Longrightarrow> co_pending_rx (drain_received_frames env envs c) = []"
  by (simp add: drain_received_frames_def process_frames_pending)

end
