(* ===== verification/Runtime_Encode_Laws.thy ===== *)
theory Runtime_Encode_Laws
  imports Runtime_Encode Runtime_Pb_Laws Bridge_Component_Laws
begin

unbundle bit_operations_syntax

text \<open>
  The messages of the runtime API as a reader of protocol buffers sees them, and what follows for a client: the
  receipt it makes from a state event acknowledges that state, and an entity is described as writable exactly when
  the bridge has commands for it.
\<close>

section \<open>Reading a message\<close>

text \<open>The fields of a message, in order.\<close>

definition pb_fields :: "bytes \<Rightarrow> pb_field list option" where
  "pb_fields data = pb_loop (\<lambda>f fs. Some (fs @ [f])) data 0 []"

interpretation fields: pb_parser "\<lambda>f fs. Some (fs @ [f])" "[]" Some pb_fields
  by unfold_locales (simp add: pb_fields_def split: option.split)

lemma fold_fields_collect: "fold_fields (\<lambda>f fs. Some (fs @ [f])) fs acc = Some (acc @ fs)"
  by (induction fs arbitrary: acc) simp_all

text \<open>A call of the writer appends, and a reader finds these fields in what it appended.\<close>

definition emits :: "(bytes \<Rightarrow> bytes) \<Rightarrow> pb_field list \<Rightarrow> bool" where
  "emits call fs \<longleftrightarrow> (\<forall>out. call out = out @ call []) \<and> (\<exists>bss. call [] = concat bss \<and> list_all2 pb_encodes bss fs)"

lemma emits_fields: "emits call fs \<Longrightarrow> pb_fields (call []) = Some fs"
proof -
  assume "emits call fs"
  then obtain bss where "call [] = concat bss" "list_all2 pb_encodes bss fs" unfolding emits_def by blast
  then show ?thesis using fields.parse_fields [of bss fs] fold_fields_collect [of fs "[]"] by simp
qed

lemma emits_single:
  assumes "\<And>out. call out = out @ call []" "pb_encodes (call []) f"
  shows "emits call [f]"
proof -
  have "call [] = concat [call []] \<and> list_all2 pb_encodes [call []] [f]" using assms(2) by simp
  then show ?thesis unfolding emits_def using assms(1) by blast
qed

abbreviation (input) varint_field :: "u32 \<Rightarrow> u64 \<Rightarrow> pb_field" where
  "varint_field n v \<equiv> \<lparr>pf_field = n, pf_wire = 0, pf_value = [], pf_varint = v\<rparr>"

abbreviation (input) bytes_field :: "u32 \<Rightarrow> bytes \<Rightarrow> pb_field" where
  "bytes_field n bs \<equiv> \<lparr>pf_field = n, pf_wire = 2, pf_value = bs, pf_varint = 0\<rparr>"

definition string_fields :: "u32 \<Rightarrow> string \<Rightarrow> pb_field list" where
  "string_fields n s = (if s = [] then [] else [bytes_field n (bytes_of_string s)])"

lemma emits_varint: "emits (Writer_varint n v) [varint_field n v]"
  by (rule emits_single [OF varint_eq pb_encodes_varint])

lemma emits_message: "length (call []) < 2 ^ 64 \<Longrightarrow> emits (Writer_message n call) [bytes_field n (call [])]"
  by (rule emits_single [OF message_eq message_field])

lemma emits_string: "length s < 2 ^ 64 \<Longrightarrow> emits (Writer_string n s) (string_fields n s)"
proof (cases "s = []")
  case True
  then show ?thesis by (auto simp: emits_def string_fields_def Writer_string_def intro: exI [of _ "[]"])
next
  case False
  assume "length s < 2 ^ 64"
  then have "emits (Writer_string n s) [bytes_field n (bytes_of_string s)]" by (intro emits_single string_eq string_field False)
  then show ?thesis using False by (simp add: string_fields_def)
qed

lemma emits_writes: "list_all2 emits calls fss \<Longrightarrow> emits (writes calls) (concat fss)"
proof (induction calls fss rule: list_all2_induct)
  case Nil
  then show ?case by (auto simp: emits_def writes_def intro: exI [of _ "[]"])
next
  case (Cons call calls fs fss)
  have a: "call out = out @ call []" "writes calls out = out @ writes calls []" for out
    using Cons.hyps(1) Cons.IH unfolding emits_def by blast+
  have w: "writes (call # calls) out = out @ call [] @ writes calls []" for out
    using a(1) [of out] a(2) [of "call out"] by (simp add: writes_def)
  obtain bss css where "call [] = concat bss" "list_all2 pb_encodes bss fs" "writes calls [] = concat css" "list_all2 pb_encodes css (concat fss)"
    using Cons.hyps(1) Cons.IH unfolding emits_def by blast
  then show ?case unfolding emits_def w by (intro conjI allI exI [of _ "bss @ css"]) (simp_all add: list_all2_appendI)
qed

section \<open>State events and receipts\<close>

lemma part_shorter: "length (Writer_message n call []) < N \<Longrightarrow> length (call []) < N"
  by (simp add: Writer_message_def Writer_bytes_def)

lemma event_shorter:
  "length (event_batch n calls) < N \<Longrightarrow> length (writes calls []) < N \<and> length (Writer_message n (writes calls) []) < N"
proof -
  assume "length (event_batch n calls) < N"
  then have "length (Writer_message 16 (Writer_message 1 (Writer_message n (writes calls))) []) < N"
    by (simp add: event_batch_def envelope_concat)
  from part_shorter [OF this] have a: "length (Writer_message 1 (Writer_message n (writes calls)) []) < N" .
  from part_shorter [OF a] have b: "length (Writer_message n (writes calls) []) < N" .
  from part_shorter [OF b] b show ?thesis by blast
qed

text \<open>A reader takes the envelope apart, then the batch, then the event.\<close>

lemma event_batch_read:
  assumes "length (event_batch n calls) < 2 ^ 64"
  shows "parse_envelope (event_batch n calls) = Some
      \<lparr>pe_request_id = [], pe_api_version = 2, pe_msg_field = 16, pe_msg_data = Some (Writer_message 1 (Writer_message n (writes calls)) [])\<rparr>"
    "pb_fields (Writer_message 1 (Writer_message n (writes calls)) []) = Some [bytes_field 1 (Writer_message n (writes calls) [])]"
    "pb_fields (Writer_message n (writes calls) []) = Some [bytes_field n (writes calls [])]"
proof -
  note l = event_shorter [OF assms]
  have "length (Writer_message 1 (Writer_message n (writes calls)) []) < 2 ^ 64"
    using assms part_shorter [of 16] by (simp add: event_batch_def envelope_concat)
  then show "parse_envelope (event_batch n calls) = Some
      \<lparr>pe_request_id = [], pe_api_version = 2, pe_msg_field = 16, pe_msg_data = Some (Writer_message 1 (Writer_message n (writes calls)) [])\<rparr>"
    unfolding event_batch_def by (intro parse_envelope_roundtrip) simp_all
  show "pb_fields (Writer_message 1 (Writer_message n (writes calls)) []) = Some [bytes_field 1 (Writer_message n (writes calls) [])]"
    "pb_fields (Writer_message n (writes calls) []) = Some [bytes_field n (writes calls [])]"
    using emits_fields [OF emits_message] l by blast+
qed

text \<open>What a client reads from a message: the last value of a field, empty or zero when it is missing.\<close>

definition text_of :: "u32 \<Rightarrow> pb_field list \<Rightarrow> string" where
  "text_of n fs = fold (\<lambda>f t. if pf_field f = n \<and> pf_wire f = 2 then as_string (pf_value f) else t) fs []"

definition number_of_field :: "u32 \<Rightarrow> pb_field list \<Rightarrow> u64" where
  "number_of_field n fs = fold (\<lambda>f v. if pf_field f = n \<and> pf_wire f = 0 then pf_varint f else v) fs 0"

text \<open>The receipt a client makes from the fields of a state event.\<close>

definition receipt_for :: "pb_field list \<Rightarrow> bytes" where
  "receipt_for fs = writes [Writer_string 1 (text_of 1 fs), Writer_string 2 (text_of 2 fs), Writer_string 3 (text_of 3 fs),
     Writer_varint 4 (number_of_field 7 fs), Writer_varint 5 (number_of_field 8 fs)] []"

lemma as_string_bytes [simp]: "as_string (bytes_of_string s) = s"
  by (simp add: as_string_def string_of_bytes_of_string)

lemma mac_display_ne: "mac_display m \<noteq> []"
  by (simp add: mac_display_def hex2_upper_def)

lemma mac_display_length: "length (mac_display m) = 17"
  by (simp add: mac_display_def hex2_upper_def)

lemma receipt_parsed:
  assumes "text_of 1 fs \<noteq> []" "length (text_of 1 fs) < 2 ^ 64" "length (text_of 2 fs) < 2 ^ 64" "length (text_of 3 fs) < 2 ^ 64"
  shows "parse_state_receipt (receipt_for fs) = Some \<lparr>psr_remote_mac = text_of 1 fs, psr_bridge_mac = text_of 2 fs,
    psr_session_id = text_of 3 fs, psr_state_tx_counter = ucast (number_of_field 7 fs), psr_entity_index = ucast (number_of_field 8 fs)\<rparr>"
proof -
  let ?calls = "[Writer_string 1 (text_of 1 fs), Writer_string 2 (text_of 2 fs), Writer_string 3 (text_of 3 fs),
     Writer_varint 4 (number_of_field 7 fs), Writer_varint 5 (number_of_field 8 fs)]"
  have "emits (writes ?calls) (concat [string_fields 1 (text_of 1 fs), string_fields 2 (text_of 2 fs), string_fields 3 (text_of 3 fs),
      [varint_field 4 (number_of_field 7 fs)], [varint_field 5 (number_of_field 8 fs)]])"
    by (rule emits_writes) (use assms in \<open>simp add: emits_string emits_varint\<close>)
  then obtain bss where b: "receipt_for fs = concat bss" "list_all2 pb_encodes bss (concat [string_fields 1 (text_of 1 fs),
      string_fields 2 (text_of 2 fs), string_fields 3 (text_of 3 fs), [varint_field 4 (number_of_field 7 fs)], [varint_field 5 (number_of_field 8 fs)]])"
    unfolding emits_def receipt_for_def by blast
  from receipt.parse_fields [OF b(2)] show ?thesis unfolding b(1) using assms(1)
    by (simp add: string_fields_def state_receipt_step_def)
qed

lemma session_id_length: "length (event_session_id env c m) \<le> 16"
  by (auto simp: event_session_id_def runtime_session_id_def bytes_to_lower_hex_def length_concat comp_def sum_list_triv split: option.split)

lemma ucast_narrow: "(ucast (ucast (y :: u8) :: u64) :: u8) = y"
  by (rule bit_word_eqI) (auto simp: bit_ucast_iff)

text \<open>The fields of the event that carries a state.\<close>

lemma state_event_fields:
  assumes "length (api_runtime_encode_remote_state env c m entity val code tx) < 2 ^ 64"
  shows "\<exists>data fs. api_runtime_encode_remote_state env c m entity val code tx = event_batch 12 data \<and> pb_fields (writes data []) = Some fs \<and>
    text_of 1 fs = mac_display m \<and> text_of 2 fs = mac_display (co_sta_mac c) \<and> text_of 3 fs = event_session_id env c m \<and>
    number_of_field 7 fs = ucast tx \<and> number_of_field 8 fs = ucast (es_entity_index entity)"
proof -
  let ?st = "runtime_write_entity_state env (entity_object_id entity) True (runtime_now_unix_ms env) code val (es_entity_options entity)"
  let ?calls = "[Writer_string 1 (mac_display m), Writer_string 2 (mac_display (co_sta_mac c)), Writer_string 3 (event_session_id env c m),
       Writer_varint 4 (event_counter c m), Writer_message 5 ?st,
       Writer_varint 6 (runtime_now_unix_ms env), Writer_varint 7 (ucast tx), Writer_varint 8 (ucast (es_entity_index entity))]"
  let ?fss = "[string_fields 1 (mac_display m), string_fields 2 (mac_display (co_sta_mac c)), string_fields 3 (event_session_id env c m),
       [varint_field 4 (event_counter c m)], [bytes_field 5 (?st [])], [varint_field 6 (runtime_now_unix_ms env)], [varint_field 7 (ucast tx)],
       [varint_field 8 (ucast (es_entity_index entity))]]"
  have l: "length (writes ?calls []) < 2 ^ 64" using event_shorter [of 12 ?calls] assms by (simp add: api_runtime_encode_remote_state_def)
  let ?pre = "Writer_varint 4 (event_counter c m) (Writer_string 3 (event_session_id env c m)
    (Writer_string 2 (mac_display (co_sta_mac c)) (Writer_string 1 (mac_display m) [])))"
  have "writes ?calls [] = ?pre @ Writer_message 5 ?st [] @ Writer_varint 6 (runtime_now_unix_ms env) [] @ Writer_varint 7 (ucast tx) [] @
      Writer_varint 8 (ucast (es_entity_index entity)) []"
    unfolding writes_def using message_eq [of 5 ?st ?pre] varint_eq [of 6 _ "?pre @ Writer_message 5 ?st []"]
      varint_eq [of 7 _ "?pre @ Writer_message 5 ?st [] @ Writer_varint 6 (runtime_now_unix_ms env) []"]
      varint_eq [of 8 _ "?pre @ Writer_message 5 ?st [] @ Writer_varint 6 (runtime_now_unix_ms env) [] @ Writer_varint 7 (ucast tx) []"]
    by simp
  then have "length (Writer_message 5 ?st []) < 2 ^ 64" using l by simp
  then have st: "length (?st []) < 2 ^ 64" by (rule part_shorter)
  have "emits (writes ?calls) (concat ?fss)"
    by (rule emits_writes) (use session_id_length [of env c m] in \<open>simp add: emits_string emits_varint emits_message [of ?st, OF st] mac_display_length\<close>)
  from emits_fields [OF this] have f: "pb_fields (writes ?calls []) = Some (concat ?fss)" .
  show ?thesis
    by (intro exI [of _ ?calls] exI [of _ "concat ?fss"])
       (use f in \<open>simp add: api_runtime_encode_remote_state_def text_of_def number_of_field_def string_fields_def mac_display_ne\<close>)
qed

section \<open>Writable entities\<close>

text \<open>Some payload gives a command exactly for the types that are described as writable.\<close>

lemma writable_types:
  "runtime_entity_writable code \<longleftrightarrow> code \<in> field_type_code ` {FIELD_TYPE_SWITCH, FIELD_TYPE_BUTTON, FIELD_TYPE_NUMBER, FIELD_TYPE_TEXT,
     FIELD_TYPE_SELECT, FIELD_TYPE_LIGHT, FIELD_TYPE_FAN, FIELD_TYPE_COVER, FIELD_TYPE_VALVE, FIELD_TYPE_LOCK, FIELD_TYPE_ALARM}"
  unfolding runtime_entity_writable_def by (auto simp: field_type_of_Some image_iff eq_commute)

lemma unwritable_refused:
  "\<not> runtime_entity_writable (es_entity_type entity) \<Longrightarrow> decode_command_payload cv entity route payload current = None"
  by (auto simp: writable_types decode_command_payload_def Let_def)

lemma writable_accepted:
  assumes "runtime_entity_writable (es_entity_type entity)" "cv_strtof cv ''ON'' \<noteq> None"
  shows "decode_command_payload cv entity PRIMARY ''ON'' current \<noteq> None"
  using assms by (auto simp: writable_types decode_command_payload_def is_json_def fan_command_def Let_def)

end
