(* ===== verification/Json_Text.thy ===== *)
theory Json_Text
  imports Json_Utils
begin

text \<open>
  JSON as a specification: values, the text of a value, and a reader.  The web interface of the bridge builds its
  answers by appending strings; what it builds is compared with these.
\<close>

section \<open>Values and their text\<close>

datatype json = JNull | JBool bool | JInt int | JStr string | JArr "json list" | JObj "(string \<times> json) list"

definition show_int :: "int \<Rightarrow> string" where
  "show_int n = (if n < 0 then CHR ''-'' # dec_digits (nat (- n)) else dec_digits (nat n))"

definition show_bool :: "bool \<Rightarrow> string" where
  "show_bool b = (if b then ''true'' else ''false'')"

fun commas :: "string list \<Rightarrow> string" where
  "commas [] = []"
| "commas [x] = x"
| "commas (x # y # ys) = x @ '','' @ commas (y # ys)"

definition object_text :: "string list \<Rightarrow> string" where
  "object_text members = ''{'' @ commas members @ ''}''"

definition array_text :: "string list \<Rightarrow> string" where
  "array_text elements = ''['' @ commas elements @ '']''"

fun json_string :: "json \<Rightarrow> string" where
  "json_string JNull = ''null''"
| "json_string (JBool b) = show_bool b"
| "json_string (JInt n) = show_int n"
| "json_string (JStr s) = quoted_json_string s"
| "json_string (JArr vs) = array_text (map json_string vs)"
| "json_string (JObj ms) = object_text (map (\<lambda>(k, v). quoted_json_string k @ '':'' @ json_string v) ms)"

section \<open>Reading\<close>

definition skip_space :: "string \<Rightarrow> string" where
  "skip_space = dropWhile (\<lambda>ch. ch = CHR '' '' \<or> ch = CHR 0x09 \<or> ch = CHR 0x0A \<or> ch = CHR 0x0D)"

definition is_digit :: "char \<Rightarrow> bool" where
  "is_digit ch \<longleftrightarrow> 48 \<le> (of_char ch :: nat) \<and> (of_char ch :: nat) \<le> 57"

definition digits_value :: "string \<Rightarrow> nat" where
  "digits_value ds = foldl (\<lambda>n ch. 10 * n + (of_char ch - 48)) 0 ds"

definition read_int :: "string \<Rightarrow> (json \<times> string) option" where
  "read_int text =
     (let negative = (text \<noteq> [] \<and> hd text = CHR ''-''); body = (if negative then tl text else text);
          ds = takeWhile is_digit body; n = int (digits_value ds)
      in if ds = [] then None else Some (JInt (if negative then - n else n), dropWhile is_digit body))"

definition read_word :: "string \<Rightarrow> (json \<times> string) option" where
  "read_word text =
     (if take 4 text = ''null'' then Some (JNull, drop 4 text) else if take 4 text = ''true'' then Some (JBool True, drop 4 text)
      else if take 5 text = ''false'' then Some (JBool False, drop 5 text) else None)"

text \<open>The first argument bounds the depth of the recursion.\<close>

fun read_value :: "nat \<Rightarrow> string \<Rightarrow> (json \<times> string) option"
  and read_elements :: "nat \<Rightarrow> string \<Rightarrow> (json list \<times> string) option"
  and read_members :: "nat \<Rightarrow> string \<Rightarrow> ((string \<times> json) list \<times> string) option" where
  "read_value 0 text = None"
| "read_value (Suc n) text =
     (case skip_space text of
        [] \<Rightarrow> None
      | ch # rest \<Rightarrow>
          if ch = CHR 0x22 then map_option (apfst JStr) (read_json_string rest)
          else if ch = CHR ''['' then
            (if take 1 (skip_space rest) = '']'' then Some (JArr [], drop 1 (skip_space rest))
             else map_option (apfst JArr) (read_elements n rest))
          else if ch = CHR ''{'' then
            (if take 1 (skip_space rest) = ''}'' then Some (JObj [], drop 1 (skip_space rest))
             else map_option (apfst JObj) (read_members n rest))
          else if ch = CHR ''-'' \<or> is_digit ch then read_int (ch # rest)
          else read_word (ch # rest))"
| "read_elements 0 text = None"
| "read_elements (Suc n) text =
     (case read_value n text of
        None \<Rightarrow> None
      | Some (v, rest) \<Rightarrow>
          (case skip_space rest of
             [] \<Rightarrow> None
           | ch # rest2 \<Rightarrow>
               if ch = CHR '','' then map_option (apfst ((#) v)) (read_elements n rest2)
               else if ch = CHR '']'' then Some ([v], rest2) else None))"
| "read_members 0 text = None"
| "read_members (Suc n) text =
     (if take 1 (skip_space text) \<noteq> [CHR 0x22] then None
      else case read_json_string (drop 1 (skip_space text)) of
        None \<Rightarrow> None
      | Some (key, rest) \<Rightarrow>
          if take 1 (skip_space rest) \<noteq> '':'' then None
          else case read_value n (drop 1 (skip_space rest)) of
            None \<Rightarrow> None
          | Some (v, rest2) \<Rightarrow>
              (case skip_space rest2 of
                 [] \<Rightarrow> None
               | ch # rest3 \<Rightarrow>
                   if ch = CHR '','' then map_option (apfst ((#) (key, v))) (read_members n rest3)
                   else if ch = CHR ''}'' then Some ([(key, v)], rest3) else None))"

text \<open>The text reads as the value, whatever the bound, once it is large enough.\<close>

definition reads_as :: "string \<Rightarrow> json \<Rightarrow> bool" where
  "reads_as text v \<longleftrightarrow> (\<exists>bound. \<forall>n \<ge> bound. read_value n text = Some (v, []))"

definition is_json_text :: "string \<Rightarrow> bool" where
  "is_json_text text \<longleftrightarrow> (\<exists>n v. read_value n text = Some (v, []))"

section \<open>What is written is read back\<close>

lemma dec_value_char: "d < 10 \<Longrightarrow> is_digit (char_of (48 + d)) \<and> of_char (char_of (48 + d) :: char) - 48 = (d :: nat)"
  by (simp add: is_digit_def)

lemma dec_digits_are_digits: "\<forall>ch \<in> set (dec_digits n). is_digit ch"
proof (induction n rule: dec_digits.induct)
  case (1 n)
  then show ?case by (subst dec_digits.simps) (auto simp: dec_value_char)
qed

lemma digits_value_app: "digits_value (xs @ [ch]) = 10 * digits_value xs + (of_char ch - 48)"
  by (simp add: digits_value_def)

lemma digits_value_dec: "digits_value (dec_digits n) = n"
proof (induction n rule: dec_digits.induct)
  case (1 n)
  show ?case
  proof (cases "n < 10")
    case True
    then show ?thesis using dec_value_char [OF True] by (subst dec_digits.simps) (simp add: digits_value_def)
  next
    case False
    have "n mod 10 < 10" by simp
    from dec_value_char [OF this] 1 [OF False] False show ?thesis
      by (subst dec_digits.simps) (simp add: digits_value_app)
  qed
qed

lemma dec_digits_ne: "dec_digits n \<noteq> []"
  by (subst dec_digits.simps) simp

text \<open>What may stand behind a value: nothing, or a character that does not continue a number.\<close>

definition value_ends :: "string \<Rightarrow> bool" where
  "value_ends rest \<longleftrightarrow> rest = [] \<or> \<not> is_digit (hd rest)"

lemma digits_end:
  "value_ends rest \<Longrightarrow> takeWhile is_digit (dec_digits n @ rest) = dec_digits n \<and> dropWhile is_digit (dec_digits n @ rest) = rest"
  using dec_digits_are_digits [of n] by (cases rest) (auto simp: value_ends_def takeWhile_append dropWhile_append)

lemma read_int_shown: "value_ends rest \<Longrightarrow> read_int (show_int n @ rest) = Some (JInt n, rest)"
proof -
  assume e: "value_ends rest"
  have h: "hd (dec_digits k @ rest) \<noteq> CHR ''-''" for k
    using dec_digits_are_digits [of k] dec_digits_ne [of k] by (cases "dec_digits k") (auto simp: is_digit_def)
  show ?thesis using digits_end [OF e] h by (simp add: read_int_def show_int_def Let_def digits_value_dec dec_digits_ne)
qed

lemma skip_space_digit: "is_digit ch \<Longrightarrow> skip_space (ch # rest) = ch # rest"
  by (auto simp: skip_space_def is_digit_def)

lemma show_int_head: "\<exists>ch rest. show_int n = ch # rest \<and> (ch = CHR ''-'' \<or> is_digit ch)"
  using dec_digits_are_digits [of "nat n"] by (cases "dec_digits (nat n)") (auto simp: show_int_def dec_digits_ne)

text \<open>A value that is read back from its text, whatever follows.\<close>

definition readable :: "json \<Rightarrow> bool" where
  "readable v \<longleftrightarrow> (\<exists>bound. \<forall>n \<ge> bound. \<forall>rest. value_ends rest \<longrightarrow> read_value n (json_string v @ rest) = Some (v, rest))"

lemma readableI:
  "(\<And>n rest. value_ends rest \<Longrightarrow> n \<ge> bound \<Longrightarrow> read_value (Suc n) (json_string v @ rest) = Some (v, rest)) \<Longrightarrow> readable v"
  unfolding readable_def by (intro exI [of _ "Suc bound"]) (metis Suc_le_D Suc_le_mono)

lemma skip_space_simps [simp]:
  "skip_space [] = []" "skip_space (CHR 0x22 # t) = CHR 0x22 # t" "skip_space (CHR ''['' # t) = CHR ''['' # t"
  "skip_space (CHR ''{'' # t) = CHR ''{'' # t" "skip_space (CHR '']'' # t) = CHR '']'' # t" "skip_space (CHR ''}'' # t) = CHR ''}'' # t"
  "skip_space (CHR '','' # t) = CHR '','' # t" "skip_space (CHR '':'' # t) = CHR '':'' # t"
  "skip_space (CHR ''n'' # t) = CHR ''n'' # t" "skip_space (CHR ''t'' # t) = CHR ''t'' # t" "skip_space (CHR ''f'' # t) = CHR ''f'' # t"
  "skip_space (CHR ''-'' # t) = CHR ''-'' # t"
  by (simp_all add: skip_space_def)

lemma readable_plain: "readable JNull" "readable (JBool b)"
  by (rule readableI [of 0], simp add: read_word_def is_digit_def)
     (rule readableI [of 0], cases b, simp_all add: read_word_def is_digit_def show_bool_def)

lemma readable_str: "readable (JStr s)"
  by (rule readableI [of 0]) (use read_quoted [of s] in \<open>simp add: quoted_json_string_def\<close>)

lemma readable_int: "readable (JInt n)"
proof (rule readableI [of 0])
  fix k rest
  assume e: "value_ends rest"
  obtain ch t where s: "show_int n = ch # t" "ch = CHR ''-'' \<or> is_digit ch" using show_int_head by blast
  have ne: "ch \<noteq> CHR 0x22" "ch \<noteq> CHR ''[''" "ch \<noteq> CHR ''{''" using s(2) by (auto simp: is_digit_def)
  have sk: "skip_space (ch # t @ rest) = ch # t @ rest" using s(2) skip_space_digit by auto
  show "read_value (Suc k) (json_string (JInt n) @ rest) = Some (JInt n, rest)"
    using s ne sk read_int_shown [OF e, of n] by simp
qed

text \<open>Lists of values and of members.\<close>

lemma value_ends_simps [simp]: "value_ends (CHR '','' # t)" "value_ends (CHR '']'' # t)" "value_ends (CHR ''}'' # t)" "value_ends []"
  by (simp_all add: value_ends_def is_digit_def)

lemma read_elements_text:
  assumes "vs \<noteq> []" "\<forall>v \<in> set vs. readable v"
  shows "\<exists>bound. \<forall>n \<ge> bound. \<forall>rest. read_elements n (commas (map json_string vs) @ '']'' @ rest) = Some (vs, rest)"
  using assms
proof (induction vs rule: list_nonempty_induct)
  case (single v)
  obtain b where b: "\<And>n rest. n \<ge> b \<Longrightarrow> value_ends rest \<Longrightarrow> read_value n (json_string v @ rest) = Some (v, rest)"
    using single by (auto simp: readable_def)
  have "read_elements (Suc n) (commas (map json_string [v]) @ '']'' @ rest) = Some ([v], rest)" if "n \<ge> b" for n rest
    using b [OF that, of "'']'' @ rest"] by simp
  then show ?case by (intro exI [of _ "Suc b"]) (metis Suc_le_D Suc_le_mono)
next
  case (cons v vs)
  obtain b where b: "\<And>n rest. n \<ge> b \<Longrightarrow> value_ends rest \<Longrightarrow> read_value n (json_string v @ rest) = Some (v, rest)"
    using cons.prems unfolding readable_def by (meson list.set_intros(1))
  obtain c where c: "\<And>n rest. n \<ge> c \<Longrightarrow> read_elements n (commas (map json_string vs) @ '']'' @ rest) = Some (vs, rest)"
    using cons by auto
  have e: "commas (map json_string (v # vs)) = json_string v @ '','' @ commas (map json_string vs)" using cons.hyps(1) by (cases vs) simp_all
  have "read_elements (Suc n) (commas (map json_string (v # vs)) @ '']'' @ rest) = Some (v # vs, rest)" if "n \<ge> max b c" for n rest
    using b [of n "'','' @ commas (map json_string vs) @ '']'' @ rest"] c [of n rest] that unfolding e by simp
  then show ?case by (intro exI [of _ "Suc (max b c)"]) (metis Suc_le_D Suc_le_mono)
qed

abbreviation (input) member_text :: "string \<times> json \<Rightarrow> string" where
  "member_text m \<equiv> (case m of (k, v) \<Rightarrow> quoted_json_string k @ '':'' @ json_string v)"

lemma read_members_step:
  assumes "read_value n (json_string v @ behind) = Some (v, behind)"
  shows "read_members (Suc n) (member_text (k, v) @ behind) =
    (case skip_space behind of [] \<Rightarrow> None | ch # rest3 \<Rightarrow>
       if ch = CHR '','' then map_option (apfst ((#) (k, v))) (read_members n rest3)
       else if ch = CHR ''}'' then Some ([(k, v)], rest3) else None)"
  using assms read_quoted [of k "'':'' @ json_string v @ behind"] by (simp add: quoted_json_string_def)

lemma read_members_text:
  assumes "ms \<noteq> []" "\<forall>(k, v) \<in> set ms. readable v"
  shows "\<exists>bound. \<forall>n \<ge> bound. \<forall>rest. read_members n (commas (map member_text ms) @ ''}'' @ rest) = Some (ms, rest)"
  using assms
proof (induction ms rule: list_nonempty_induct)
  case (single m)
  obtain k v where m: "m = (k, v)" by (cases m)
  obtain b where b: "\<And>n rest. n \<ge> b \<Longrightarrow> value_ends rest \<Longrightarrow> read_value n (json_string v @ rest) = Some (v, rest)"
    using single m by (auto simp: readable_def)
  have "read_members (Suc n) (commas (map member_text [m]) @ ''}'' @ rest) = Some ([m], rest)" if "n \<ge> b" for n rest
    using read_members_step [OF b [OF that, of "''}'' @ rest"], of k] m by (simp del: read_members.simps)
  then show ?case by (intro exI [of _ "Suc b"]) (metis Suc_le_D Suc_le_mono)
next
  case (cons m ms)
  obtain k v where m: "m = (k, v)" by (cases m)
  have "readable v" using cons.prems m by simp
  then obtain b where b: "\<And>n rest. n \<ge> b \<Longrightarrow> value_ends rest \<Longrightarrow> read_value n (json_string v @ rest) = Some (v, rest)"
    unfolding readable_def by blast
  obtain c where c: "\<And>n rest. n \<ge> c \<Longrightarrow> read_members n (commas (map member_text ms) @ ''}'' @ rest) = Some (ms, rest)"
    using cons by auto
  have e: "commas (map member_text (m # ms)) = member_text m @ '','' @ commas (map member_text ms)" using cons.hyps(1) by (cases ms) simp_all
  have "read_members (Suc n) (commas (map member_text (m # ms)) @ ''}'' @ rest) = Some (m # ms, rest)" if n: "n \<ge> max b c" for n rest
  proof -
    let ?behind = "'','' @ commas (map member_text ms) @ ''}'' @ rest"
    have r: "read_value n (json_string v @ ?behind) = Some (v, ?behind)" using b [of n ?behind] n by simp
    show ?thesis unfolding m e [unfolded m] using read_members_step [OF r, of k] c [of n rest] n by (simp del: read_members.simps)
  qed
  then show ?case by (intro exI [of _ "Suc (max b c)"]) (metis Suc_le_D Suc_le_mono)
qed

text \<open>The text of a list that is not empty does not start with its closing bracket.\<close>

lemma json_string_head: "\<exists>ch rest. json_string v = ch # rest \<and> ch \<noteq> CHR '']'' \<and> skip_space (ch # t) = ch # t"
proof (cases v)
  case (JInt n)
  then show ?thesis using show_int_head [of n] skip_space_digit by (auto simp: is_digit_def)
qed (auto simp: show_bool_def array_text_def object_text_def quoted_json_string_def)

lemma commas_head: "xs \<noteq> [] \<Longrightarrow> x # t = hd xs \<Longrightarrow> \<exists>u. commas xs = x # u"
  by (cases xs rule: commas.cases) auto

lemma json_text_readable: "readable v"
proof (induction v)
  case (JArr vs)
  show ?case
  proof (cases "vs = []")
    case True
    then show ?thesis by (intro readableI [of 0]) (simp add: array_text_def)
  next
    case False
    obtain b where b: "\<And>n rest. n \<ge> b \<Longrightarrow> read_elements n (commas (map json_string vs) @ '']'' @ rest) = Some (vs, rest)"
      using read_elements_text [OF False] JArr by blast
    obtain ch u where u: "commas (map json_string vs) = ch # u" "ch \<noteq> CHR '']''" "\<And>t. skip_space (ch # t) = ch # t"
    proof -
      obtain ch r where h: "json_string (hd vs) = ch # r" "ch \<noteq> CHR '']''" using json_string_head [of "hd vs"] by blast
      have "skip_space (ch # t) = ch # t" for t using json_string_head [of "hd vs" t] h(1) by auto
      moreover have "\<exists>u. commas (map json_string vs) = ch # u"
        by (rule commas_head [of "map json_string vs" ch r]) (use False h(1) in \<open>auto simp: hd_map\<close>)
      ultimately show thesis using that h(2) by blast
    qed
    show ?thesis
    proof (rule readableI [of b])
      fix n rest
      assume n: "n \<ge> b"
      have "take 1 (skip_space (commas (map json_string vs) @ '']'' @ rest)) \<noteq> '']''" using u by simp
      then show "read_value (Suc n) (json_string (JArr vs) @ rest) = Some (JArr vs, rest)"
        using b [OF n, of rest] by (simp add: array_text_def)
    qed
  qed
next
  case (JObj ms)
  show ?case
  proof (cases "ms = []")
    case True
    then show ?thesis by (intro readableI [of 0]) (simp add: object_text_def)
  next
    case False
    have "\<forall>(k, v) \<in> set ms. readable v" using JObj by fastforce
    then obtain b where b: "\<And>n rest. n \<ge> b \<Longrightarrow> read_members n (commas (map member_text ms) @ ''}'' @ rest) = Some (ms, rest)"
      using read_members_text [OF False] by blast
    have "\<exists>r. hd (map member_text ms) = CHR 0x22 # r" using False by (cases ms) (auto simp: quoted_json_string_def split: prod.split)
    then obtain u where u: "commas (map member_text ms) = CHR 0x22 # u" using commas_head [of "map member_text ms"] False by fastforce
    show ?thesis
    proof (rule readableI [of b])
      fix n rest
      assume n: "n \<ge> b"
      have "take 1 (skip_space (commas (map member_text ms) @ ''}'' @ rest)) \<noteq> ''}''" using u by simp
      then show "read_value (Suc n) (json_string (JObj ms) @ rest) = Some (JObj ms, rest)"
        using b [OF n, of rest] by (simp add: object_text_def)
    qed
  qed
qed (simp_all add: readable_plain readable_int readable_str)

lemma json_string_reads: "reads_as (json_string v) v"
  using json_text_readable [of v] unfolding readable_def reads_as_def by (metis append_Nil2 value_ends_simps(4))

lemma reads_as_json: "reads_as text v \<Longrightarrow> is_json_text text"
  unfolding reads_as_def is_json_text_def by blast

end
