(* ===== verification/Bridge_Web.thy ===== *)
theory Bridge_Web
  imports Bridge_Info Json_Text
begin

unbundle bit_operations_syntax

text \<open>
  The web interface of the bridge (\<^verbatim>\<open>esp_tree_bridge.cpp\<close>): the JSON answers, built from text as the code builds
  them, login and sessions, and the handlers in the order in which they are registered.  The pages themselves are
  constants; the method, path, arguments and cookie of a request are its record.
\<close>

section \<open>Members of an object\<close>

definition text_member :: "string \<Rightarrow> string \<Rightarrow> string" where
  "text_member key s = json_member key (json_quote (json_escape s))"

definition raw_member :: "string \<Rightarrow> string \<Rightarrow> string" where
  "raw_member key s = json_member key (json_quote s)"

definition number_member :: "string \<Rightarrow> nat \<Rightarrow> string" where
  "number_member key n = json_member key (dec_digits n)"

definition int_member :: "string \<Rightarrow> int \<Rightarrow> string" where
  "int_member key n = json_member key (show_int n)"

definition bool_member :: "string \<Rightarrow> bool \<Rightarrow> string" where
  "bool_member key b = json_member key (show_bool b)"

definition object_member :: "string \<Rightarrow> string list \<Rightarrow> string" where
  "object_member key members = json_member key (object_text members)"

section \<open>State\<close>

record web =
  wb_component :: component
  wb_friendly_name :: string
  wb_hostname :: string
  wb_api_key :: string
  wb_session_token :: string
  wb_session_created_ms :: u32
  wb_snapshot_sequence :: u32

abbreviation (input) V2_SESSION_TIMEOUT_MS :: u32 where "V2_SESSION_TIMEOUT_MS \<equiv> 86400000"

abbreviation (input) OFFLINE_TIMEOUT_MS :: u32 where "OFFLINE_TIMEOUT_MS \<equiv> 86400000"

definition log_state_code :: "espnow_log_state_t \<Rightarrow> nat" where
  "log_state_code st =
     (case st of LOG_NONE \<Rightarrow> 0 | DISCOVERING \<Rightarrow> 1 | JOINING \<Rightarrow> 2 | JOINED \<Rightarrow> 3 | STATE_SYNC \<Rightarrow> 4 | NORMAL \<Rightarrow> 5 | PROVIDING_RELAY \<Rightarrow> 6)"

text \<open>The remotes that are listed: the time since the last contact is in seconds, the limit in milliseconds.\<close>

definition last_seen_ago :: "info_env \<Rightarrow> BridgeSession \<Rightarrow> u32" where
  "last_seen_ago env x =
     (if bs_last_seen_bridge_uptime_s x = 0 then 4294967295 else ie_millis env div 1000 - bs_last_seen_bridge_uptime_s x)"

definition listed_sessions :: "info_env \<Rightarrow> bridge \<Rightarrow> BridgeSession list" where
  "listed_sessions env s =
     filter (\<lambda>x. bs_online x \<or> last_seen_ago env x \<le> OFFLINE_TIMEOUT_MS) (map snd (bp_sessions s))"

section \<open>The public topology\<close>

definition topology_bridge :: "info_env \<Rightarrow> web \<Rightarrow> string" where
  "topology_bridge env w =
     (let s = co_protocol (wb_component w) in
      object_text
       [raw_member ''mac'' (mac_display (co_sta_mac (wb_component w))), raw_member ''label'' (wb_friendly_name w),
        raw_member ''parent_mac'' [], bool_member ''online'' True, number_member ''state'' 5, number_member ''hops'' 0,
        number_member ''uptime_s'' (unat (bp_bridge_uptime_s s)),
        number_member ''last_seen_bridge_uptime_s'' (unat (ie_millis env div 1000)),
        number_member ''chip_type'' (unat (bi_chip_model (bp_bridge_identity s))),
        raw_member ''chip_name'' (chip_model_string (bi_chip_model (bp_bridge_identity s))),
        number_member ''session_max_payload'' (if bp_bridge_session_flags s \<noteq> 0 then unat ESPNOW_V2_MAX_PAYLOAD else unat ESPNOW_V1_MAX_PAYLOAD),
        number_member ''bridge_session_flags'' (unat (bp_bridge_session_flags s))])"

definition topology_node :: "bridge \<Rightarrow> BridgeSession \<Rightarrow> string" where
  "topology_node s x =
     (let m = mac_display (bs_leaf_mac x) in
      object_text
       [raw_member ''mac'' m, raw_member ''label'' (if bs_node_label x = [] then m else bs_node_label x),
        raw_member ''parent_mac'' (mac_display (bs_parent_mac x)), bool_member ''online'' (bs_online x),
        number_member ''state'' (log_state_code (bs_remote_state x)), number_member ''hops'' (unat (bs_hops_to_bridge x)),
        number_member ''last_seen_bridge_uptime_s'' (unat (bs_last_seen_bridge_uptime_s x)),
        number_member ''uptime_s'' (unat (bs_uptime_seconds x)), number_member ''entity_count'' (length (bs_schema_entities x)),
        raw_member ''firmware_version'' (bs_project_version x), raw_member ''esphome_name'' (bs_esphome_name x),
        raw_member ''project_name'' (bs_project_name x), raw_member ''firmware_build_date'' (session_build_date x),
        number_member ''chip_type'' (unat (bs_chip_model x)), raw_member ''chip_name'' (chip_model_string (bs_chip_model x)),
        int_member ''rssi'' (sint (bs_last_rssi x)), number_member ''session_max_payload'' (unat (bs_session_max_payload x)),
        number_member ''leaf_session_flags'' (unat (bs_leaf_session_flags x)),
        number_member ''bridge_session_flags'' (unat (bp_bridge_session_flags s))])"

definition build_topology_json :: "info_env \<Rightarrow> web \<Rightarrow> string" where
  "build_topology_json env w =
     (let s = co_protocol (wb_component w)
      in array_text (topology_bridge env w # map (topology_node s) (listed_sessions env s)))"

text \<open>A comma stands before the closing brace.\<close>

definition build_remote_info_json :: "web \<Rightarrow> mac \<Rightarrow> string" where
  "build_remote_info_json w m =
     (case get_session (co_protocol (wb_component w)) m of
        None \<Rightarrow> ''{}''
      | Some x \<Rightarrow>
          ''{'' @ raw_member ''label'' (if bs_node_label x = [] then mac_hex m else bs_node_label x) @ '','' @
          bool_member ''online'' (bs_online x) @ '','' @ number_member ''uptime_s'' (unat (bs_uptime_seconds x)) @ '','' @
          number_member ''hops'' (unat (bs_hops_to_bridge x)) @ '','' @ int_member ''rssi'' (sint (bs_last_rssi x)) @ '','' @
          number_member ''entity_count'' (length (bs_schema_entities x)) @ '','' @
          raw_member ''firmware_version'' (bs_project_version x) @ '','' @ ''}'')"

definition bridge_json :: "web \<Rightarrow> string" where
  "bridge_json w =
     object_text [text_member ''friendly_name'' (wb_friendly_name w), text_member ''network_id'' (co_network_id (wb_component w)),
       number_member ''port'' 80, text_member ''hostname'' (wb_hostname w)]"

section \<open>The API\<close>

text \<open>The braces of \<^verbatim>\<open>limits\<close> and \<^verbatim>\<open>firmware\<close> are closed, the outer one is not.\<close>

definition api_bridge_info_json :: "info_env \<Rightarrow> web \<Rightarrow> string" where
  "api_bridge_info_json env w =
     (let name = sanitize_object_id (ie_app_name env) in
      ''{'' @ commas
       [number_member ''api_version'' 2, text_member ''name'' name, text_member ''mac'' (mac_display (co_sta_mac (wb_component w))),
        object_member ''firmware''
         [text_member ''name'' name, text_member ''version'' (ie_esphome_version env),
          text_member ''esphome_version'' (ie_esphome_version env),
          object_member ''features''
           [bool_member ''topology'' True, bool_member ''events'' True, bool_member ''ota_ws'' True, bool_member ''config_ws'' True,
            bool_member ''legacy_http'' True],
          object_member ''limits''
           [number_member ''max_json_bytes'' 8192, number_member ''max_ws_chunk_size'' 2048, number_member ''ota_max_increment_kb'' 8]]])"

definition snapshot_bridge :: "info_env \<Rightarrow> web \<Rightarrow> string list" where
  "snapshot_bridge env w =
     (let c = wb_component w; s = co_protocol c; ident = bp_bridge_identity s; name = sanitize_object_id (ie_app_name env);
          seconds = unat (ie_millis env div 1000) in
      [text_member ''mac'' (mac_display (co_sta_mac c)), text_member ''node_key'' (mac_hex (co_sta_mac c)),
       raw_member ''device_unique_id'' (''esp_tree_'' @ mac_hex (co_sta_mac c)), text_member ''name'' name,
       text_member ''friendly_name'' (wb_friendly_name w), raw_member ''manufacturer'' ''ESPHome'', raw_member ''model'' ''esp_tree_bridge'',
       text_member ''sw_version'' (bi_project_version ident), bool_member ''online'' True, raw_member ''parent_mac'' [],
       number_member ''hop_count'' 0, raw_member ''rssi'' ''N.A.'', number_member ''last_seen_bridge_uptime_s'' seconds,
       number_member ''uptime_s'' (unat (bp_bridge_uptime_s s)),
       object_member ''identity''
        ([text_member ''esphome_name'' name, text_member ''node_label'' (wb_friendly_name w),
          text_member ''project_name'' (bi_project_name ident), text_member ''project_version'' (bi_project_version ident),
          number_member ''firmware_epoch'' (unat (bi_firmware_epoch ident)), number_member ''chip_model'' (unat (bi_chip_model ident))] @
         (if co_network_id c \<noteq> [] then [text_member ''network_id'' (co_network_id c)] else []) @
         [raw_member ''firmware_build_date'' (format_build_date (bi_build_date ident) (bi_build_time ident)),
          raw_member ''firmware_md5'' (bytes_to_lower_hex (bi_firmware_md5 ident)), raw_member ''schema_hash'' ''N.A.'']),
       object_member ''session''
        [bool_member ''joined'' True, bool_member ''schema_complete'' True, bool_member ''state_complete'' True,
         number_member ''session_flags'' (unat (bp_bridge_session_flags s)), number_member ''max_payload'' 0,
         number_member ''max_entity_fragment'' 0, bool_member ''refresh_pending'' False],
       object_member ''radio''
        [raw_member ''rssi'' ''N.A.'', number_member ''last_seen_bridge_uptime_s'' seconds, number_member ''hops_to_bridge'' 0,
         raw_member ''parent_rssi'' ''N.A.''],
       object_member ''diagnostics'' [number_member ''dirty_count'' 0, number_member ''retry_count'' 0, raw_member ''last_error'' []]])"

definition relay_enabled :: "BridgeSession \<Rightarrow> bool" where
  "relay_enabled x \<longleftrightarrow> bs_direct_child_count x > 0 \<or> bs_total_child_count x > 0"

definition snapshot_node :: "BridgeSession \<Rightarrow> string list" where
  "snapshot_node x =
     (let m = mac_display (bs_leaf_mac x); key = mac_hex (bs_leaf_mac x) in
      [text_member ''mac'' m, text_member ''node_key'' key, text_member ''device_unique_id'' (''esp_tree_'' @ key),
       text_member ''name'' (if bs_esphome_name x = [] then key else bs_esphome_name x),
       text_member ''friendly_name'' (if bs_node_label x = [] then m else bs_node_label x),
       raw_member ''manufacturer'' ''ESPHome'', raw_member ''model'' ''esp_tree_remote'', text_member ''sw_version'' (bs_project_version x),
       bool_member ''online'' (bs_online x), text_member ''parent_mac'' (mac_display (bs_parent_mac x)),
       number_member ''hop_count'' (unat (bs_hops_to_bridge x)), int_member ''rssi'' (sint (bs_last_rssi x)),
       number_member ''last_seen_bridge_uptime_s'' (unat (bs_last_seen_bridge_uptime_s x)),
       number_member ''uptime_s'' (unat (bs_uptime_seconds x)), number_member ''direct_child_count'' (unat (bs_direct_child_count x)),
       number_member ''total_child_count'' (unat (bs_total_child_count x)),
       bool_member ''can_relay'' (bs_online x \<and> bs_session_key_valid x), bool_member ''relay_enabled'' (relay_enabled x),
       object_member ''identity''
        [text_member ''esphome_name'' (bs_esphome_name x), text_member ''node_label'' (bs_node_label x),
         text_member ''project_name'' (bs_project_name x), text_member ''project_version'' (bs_project_version x),
         number_member ''firmware_epoch'' (unat (bs_firmware_epoch x)), number_member ''chip_model'' (unat (bs_chip_model x)),
         raw_member ''firmware_build_date'' (session_build_date x), raw_member ''firmware_md5'' (bytes_to_lower_hex (bs_firmware_md5 x)),
         raw_member ''schema_hash'' (''sha256:'' @ bytes_to_lower_hex (bs_schema_hash x))],
       object_member ''session''
        [bool_member ''joined'' (bs_session_key_valid x), bool_member ''schema_complete'' (bs_schema_received x),
         bool_member ''state_complete'' (bs_schema_received x \<and> \<not> bs_state_sync_pending x),
         number_member ''session_flags'' (unat (bs_leaf_session_flags x)), number_member ''max_payload'' (unat (bs_session_max_payload x)),
         number_member ''max_entity_fragment'' (unat (bs_max_entity_fragment x)), bool_member ''refresh_pending'' False],
       object_member ''radio''
        [int_member ''rssi'' (sint (bs_last_rssi x)),
         number_member ''last_seen_bridge_uptime_s'' (unat (bs_last_seen_bridge_uptime_s x)),
         number_member ''hops_to_bridge'' (unat (bs_hops_to_bridge x)), int_member ''parent_rssi'' (sint (bs_last_rssi x))],
       object_member ''diagnostics''
        [number_member ''dirty_count'' 0, number_member ''retry_count'' 0, raw_member ''last_error'' [],
         number_member ''uptime_s'' (unat (bs_uptime_seconds x))]])"

definition api_topology_snapshot_json :: "info_env \<Rightarrow> web \<Rightarrow> string \<times> web" where
  "api_topology_snapshot_json env w =
     (object_text
       [object_member ''bridge'' (snapshot_bridge env w),
        json_member ''nodes'' (array_text (map (object_text \<circ> snapshot_node) (listed_sessions env (co_protocol (wb_component w)))))],
      w\<lparr>wb_snapshot_sequence := wb_snapshot_sequence w + 1\<rparr>)"

definition schema_entity :: "mac \<Rightarrow> espnow_entity_schema_t \<Rightarrow> string" where
  "schema_entity m entity =
     object_text
      ([text_member ''key'' (if es_entity_id entity = [] then es_entity_name entity else es_entity_id entity),
        text_member ''entity_id'' (es_entity_id entity),
        text_member ''unique_id'' (''esp_tree_'' @ mac_hex m @ ''_'' @ entity_object_id entity),
        number_member ''entity_index'' (unat (es_entity_index entity)), bool_member ''stable_identity'' (es_entity_id entity \<noteq> []),
        raw_member ''platform'' (component_for_type (es_entity_type entity)), text_member ''name'' (es_entity_name entity)] @
       (if es_entity_unit entity \<noteq> [] then [text_member ''unit'' (es_entity_unit entity)] else []) @
       [raw_member ''native_type'' (native_type_for_type (es_entity_type entity))])"

definition api_node_schema_json :: "web \<Rightarrow> string \<Rightarrow> string" where
  "api_node_schema_json w mac_colon =
     (case Option.bind (parse_mac_hex (clean_mac_text mac_colon)) (\<lambda>m. map_option (Pair m) (get_session (co_protocol (wb_component w)) m)) of
        None \<Rightarrow> object_text [text_member ''mac'' mac_colon, json_member ''schema_hash'' ''null'', json_member ''schema'' ''null'']
      | Some (m, x) \<Rightarrow>
          let entities = filter (\<lambda>e. es_entity_type e \<noteq> 0) (bs_schema_entities x) in
          object_text
           [text_member ''mac'' mac_colon, raw_member ''schema_hash'' (''sha256:'' @ bytes_to_lower_hex (bs_schema_hash x)),
            if bs_schema_received x \<and> bs_schema_entities x \<noteq> []
            then object_member ''schema''
                  [bool_member ''complete'' (bs_schema_received x), number_member ''total_entities'' (length entities),
                   json_member ''entities'' (array_text (map (schema_entity m) entities))]
            else json_member ''schema'' ''null''])"

text \<open>The values whose key starts with the address of the remote.\<close>

definition node_values :: "web \<Rightarrow> mac \<Rightarrow> EntityValueCache list" where
  "node_values w m =
     map snd (filter (\<lambda>(key, v). take (length (mac_hex m)) key = mac_hex m \<and> ev_current_value v \<noteq> []) (co_entity_values (wb_component w)))"

definition api_node_state_json :: "info_env \<Rightarrow> web \<Rightarrow> string \<Rightarrow> string" where
  "api_node_state_json env w mac_colon =
     (case parse_mac_hex (clean_mac_text mac_colon) of
        None \<Rightarrow> object_text [text_member ''mac'' mac_colon, json_member ''state'' ''{}'']
      | Some m \<Rightarrow>
          object_text [text_member ''mac'' mac_colon,
            object_member ''state'' (map (\<lambda>v.
              let schema = ev_schema v; key = (if es_entity_id schema = [] then es_entity_name schema else es_entity_id schema)
              in json_quote (json_escape key) @ '':'' @ state_text env (ev_current_type v) (ev_current_value v) (es_entity_options schema))
              (node_values w m))])"

section \<open>Login\<close>

definition key_matches :: "string \<Rightarrow> string \<Rightarrow> bool" where
  "key_matches configured key \<longleftrightarrow> length configured = length key \<and>
     fold (\<lambda>(a, b) diff. diff OR (a XOR b)) (zip (bytes_of_string configured) (bytes_of_string key)) (0 :: u8) = 0"

definition v2_generate_token :: "info_env \<Rightarrow> string" where
  "v2_generate_token env = bytes_to_lower_hex (c_array 16 (ie_random env))"

datatype http_method = HTTP_GET | HTTP_POST | HTTP_OTHER

record http_request =
  hr_method :: http_method
  hr_url :: string
  hr_args :: "string \<Rightarrow> string option"
  hr_cookie :: "string option"

datatype web_page = TOPOLOGY_PAGE | LOGIN_PAGE_HTML | TOPOLOGY_V2_PAGE_HTML

datatype web_reply = Send nat string | SendPage web_page | Redirect string

fun find_text :: "string \<Rightarrow> string \<Rightarrow> nat option" where
  "find_text pat [] = (if pat = [] then Some 0 else None)"
| "find_text pat (ch # text) = (if take (length pat) (ch # text) = pat then Some 0 else map_option Suc (find_text pat text))"

definition cookie_token :: "string \<Rightarrow> string option" where
  "cookie_token cookie =
     map_option (\<lambda>start. takeWhile (\<lambda>ch. ch \<noteq> CHR '';'') (drop (start + 15) cookie)) (find_text ''espnow_session='' cookie)"

text \<open>An expired session is forgotten.\<close>

definition v2_verify_session :: "info_env \<Rightarrow> http_request \<Rightarrow> web \<Rightarrow> bool \<times> web" where
  "v2_verify_session env request w =
     (if wb_api_key w = [] then (True, w)
      else case Option.bind (hr_cookie request) (\<lambda>cookie. cookie_token (c_text cookie)) of
        None \<Rightarrow> (False, w)
      | Some token \<Rightarrow>
          if token = [] \<or> token \<noteq> wb_session_token w then (False, w)
          else if ie_millis env - wb_session_created_ms w > V2_SESSION_TIMEOUT_MS
          then (False, w\<lparr>wb_session_token := [], wb_session_created_ms := 0\<rparr>)
          else (True, w))"

definition v2_http_authenticate :: "info_env \<Rightarrow> http_request \<Rightarrow> web \<Rightarrow> bool \<times> web" where
  "v2_http_authenticate env request w =
     (if wb_api_key w = [] then (True, w)
      else case hr_args request ''api_key'' of
        Some key \<Rightarrow> (key_matches (wb_api_key w) (c_text key), w)
      | None \<Rightarrow> v2_verify_session env request w)"

definition error_body :: "string \<Rightarrow> string" where
  "error_body message = object_text [raw_member ''error'' message]"

text \<open>The answer repeats the key as it came; the cookie goes into a header.\<close>

definition login :: "info_env \<Rightarrow> http_request \<Rightarrow> web \<Rightarrow> web_reply \<times> web" where
  "login env request w =
     (let key = (case hr_args request ''api_key'' of None \<Rightarrow> [] | Some key \<Rightarrow> c_text key) in
      if key = [] then (Send 400 (error_body ''empty api_key''), w)
      else if \<not> key_matches (wb_api_key w) key then (Send 401 (error_body ''invalid api_key''), w)
      else (Send 200 (object_text [raw_member ''status'' ''ok'', raw_member ''api_key'' key]),
            w\<lparr>wb_session_token := v2_generate_token env, wb_session_created_ms := ie_millis env\<rparr>))"

definition logout :: "web \<Rightarrow> web_reply \<times> web" where
  "logout w = (Send 200 (object_text [raw_member ''status'' ''logged_out'']), w\<lparr>wb_session_token := [], wb_session_created_ms := 0\<rparr>)"

section \<open>Handlers\<close>

datatype handler = PageHandler | JsonHandler | BridgeJsonHandler | LoginPageHandler | LoginHandler | LogoutHandler |
  TopologyHttpHandler | BridgeInfoHttpHandler | NodeStateHttpHandler | V2TopologyPageHandler

text \<open>\<^verbatim>\<open>strncmp\<close> of two texts without zero characters, up to \<open>n\<close> of them.\<close>

definition strncmp_equal :: "string \<Rightarrow> string \<Rightarrow> nat \<Rightarrow> bool" where
  "strncmp_equal a b n \<longleftrightarrow> take n (a @ [CHR 0x00]) = take n (b @ [CHR 0x00])"

definition can_handle :: "handler \<Rightarrow> http_request \<Rightarrow> bool" where
  "can_handle h request =
     (case h of
        PageHandler \<Rightarrow> hr_url request = ''/topology''
      | JsonHandler \<Rightarrow> hr_url request = ''/topology.json''
      | BridgeJsonHandler \<Rightarrow> hr_method request = HTTP_GET \<and> hr_url request = ''/bridge.json''
      | LoginPageHandler \<Rightarrow> hr_method request = HTTP_GET \<and> hr_url request = ''/login''
      | LoginHandler \<Rightarrow> hr_method request = HTTP_POST \<and> hr_url request = ''/api/auth/login''
      | LogoutHandler \<Rightarrow> hr_method request = HTTP_POST \<and> hr_url request = ''/api/auth/logout''
      | TopologyHttpHandler \<Rightarrow> hr_method request = HTTP_GET \<and> hr_url request = ''/api/v1/topology''
      | BridgeInfoHttpHandler \<Rightarrow> hr_method request = HTTP_GET \<and> hr_url request = ''/api/v1/bridge/info''
      | NodeStateHttpHandler \<Rightarrow> hr_method request = HTTP_GET \<and> strncmp_equal (hr_url request) ''/api/v1/node/'' 15
      | V2TopologyPageHandler \<Rightarrow> hr_method request = HTTP_GET \<and> hr_url request = ''/v2/topology'')"

definition to_upper :: "char \<Rightarrow> char" where
  "to_upper ch = (let n = of_char ch :: nat in if 97 \<le> n \<and> n \<le> 122 then char_of (n - 32) else ch)"

definition node_state_reply :: "info_env \<Rightarrow> http_request \<Rightarrow> web \<Rightarrow> web_reply" where
  "node_state_reply env request w =
     (let url = hr_url request in
      if length url \<le> 15 + 7 then Send 400 (error_body ''invalid path'')
      else let name = take (length url - 15 - 7) (drop 15 url);
               mac_colon = map to_upper (filter (\<lambda>ch. ch \<noteq> CHR ''-'' \<and> ch \<noteq> CHR '' '') name)
           in Send 200 (c_text (api_node_state_json env w mac_colon)))"

text \<open>What an authenticated request of the API gets.\<close>

definition guarded :: "info_env \<Rightarrow> http_request \<Rightarrow> (web \<Rightarrow> web_reply \<times> web) \<Rightarrow> web \<Rightarrow> web_reply \<times> web" where
  "guarded env request f w =
     (let (ok, w1) = v2_http_authenticate env request w in if ok then f w1 else (Send 401 (error_body ''unauthorized''), w1))"

definition web_handle_request :: "info_env \<Rightarrow> handler \<Rightarrow> http_request \<Rightarrow> web \<Rightarrow> web_reply \<times> web" where
  "web_handle_request env h request w =
     (case h of
        PageHandler \<Rightarrow> (SendPage TOPOLOGY_PAGE, w)
      | JsonHandler \<Rightarrow> (Send 200 (c_text (build_topology_json env w)), w)
      | BridgeJsonHandler \<Rightarrow> (Send 200 (c_text (bridge_json w)), w)
      | LoginPageHandler \<Rightarrow> (SendPage LOGIN_PAGE_HTML, w)
      | LoginHandler \<Rightarrow> login env request w
      | LogoutHandler \<Rightarrow> logout w
      | TopologyHttpHandler \<Rightarrow>
          guarded env request (\<lambda>w1. let (json, w2) = api_topology_snapshot_json env w1 in (Send 200 (c_text json), w2)) w
      | BridgeInfoHttpHandler \<Rightarrow> guarded env request (\<lambda>w1. (Send 200 (c_text (api_bridge_info_json env w1)), w1)) w
      | NodeStateHttpHandler \<Rightarrow> guarded env request (\<lambda>w1. (node_state_reply env request w1, w1)) w
      | V2TopologyPageHandler \<Rightarrow>
          let (ok, w1) = v2_verify_session env request w
          in (if ok then SendPage TOPOLOGY_V2_PAGE_HTML else Redirect ''/login?redirect=/v2/topology'', w1))"

definition handlers :: "handler list" where
  "handlers = [PageHandler, JsonHandler, BridgeJsonHandler, LoginPageHandler, LoginHandler, LogoutHandler, TopologyHttpHandler,
     BridgeInfoHttpHandler, NodeStateHttpHandler, V2TopologyPageHandler]"

text \<open>The server asks the handlers in order; a request none of them takes is not answered here.\<close>

definition serve :: "info_env \<Rightarrow> http_request \<Rightarrow> web \<Rightarrow> (handler \<times> web_reply) option \<times> web" where
  "serve env request w =
     (case find (\<lambda>h. can_handle h request) handlers of
        None \<Rightarrow> (None, w)
      | Some h \<Rightarrow> let (reply, w1) = web_handle_request env h request w in (Some (h, reply), w1))"

end
