(* ===== verification/Bridge_Web_Laws.thy ===== *)
theory Bridge_Web_Laws
  imports Bridge_Web Runtime_Ws_Laws
begin

unbundle bit_operations_syntax

text \<open>
  What the web interface promises: who gets an answer, and which of its answers are JSON.
\<close>

section \<open>Text that needs no escapes\<close>

definition plain_text :: "string \<Rightarrow> bool" where
  "plain_text s \<longleftrightarrow> list_all (\<lambda>ch. ch \<noteq> CHR 0x22 \<and> ch \<noteq> CHR 0x5C \<and> (of_char ch :: nat) \<ge> 0x20) s"

lemma escape_plain: "plain_text s \<Longrightarrow> json_escape s = s"
proof (induction s)
  case (Cons ch s)
  then have "json_escape_char ch = [ch]" by (auto simp: plain_text_def json_escape_char_def)
  then show ?case using Cons by (simp add: plain_text_def json_escape_def)
qed (simp add: json_escape_def)

lemma plain_text_app: "plain_text (s @ t) \<longleftrightarrow> plain_text s \<and> plain_text t"
  by (simp add: plain_text_def)

lemma plain_text_Nil: "plain_text []"
  by (simp add: plain_text_def)

lemma plain_text_sub: "plain_text s \<Longrightarrow> set t \<subseteq> set s \<Longrightarrow> plain_text t"
  by (auto simp: plain_text_def list_all_iff)

lemma plain_digits: "plain_text (dec_digits n)"
  unfolding plain_text_def list_all_iff using dec_digits_are_digits [of n] by (auto simp: is_digit_def)

lemma plain_hex_digits: "plain_text [lower_hex_digit v]" "n < 16 \<Longrightarrow> plain_text [hex_digit_upper n]"
proof -
  have "v AND 0x0F \<le> 0x0F" by (rule word_and_le1)
  then have "unat (v AND 0x0F) < 16" by (simp add: word_le_nat_alt)
  moreover have "plain_text ''0123456789abcdef''" by code_simp
  ultimately show "plain_text [lower_hex_digit v]" using nth_mem [of "unat (v AND 0x0F)" "''0123456789abcdef''"]
    by (auto simp: lower_hex_digit_def plain_text_def list_all_iff)
  show "n < 16 \<Longrightarrow> plain_text [hex_digit_upper n]" by (auto simp: plain_text_def hex_digit_upper_def dest!: arg_cong [where f = "of_char :: char \<Rightarrow> nat"])
qed

lemma plain_hex_byte: "plain_text (hex2_upper b)"
proof -
  have "unat b < 256" using unsigned_less [of b] by simp
  then have "unat b div 16 < 16" "unat b mod 16 < 16" by simp_all
  then show ?thesis using plain_hex_digits(2) by (simp add: hex2_upper_def plain_text_def)
qed

lemma plain_lower_hex: "plain_text (bytes_to_lower_hex bs)"
proof (induction bs)
  case (Cons b bs)
  then show ?case using plain_hex_digits(1) by (simp add: bytes_to_lower_hex_def plain_text_def)
qed (simp add: bytes_to_lower_hex_def plain_text_Nil)

lemma plain_colon: "plain_text '':''"
  by code_simp

lemma plain_mac: "plain_text (mac_hex m)" "plain_text (mac_display m)"
  using plain_hex_byte plain_colon by (simp_all add: mac_hex_def mac_display_def plain_text_app del: append.simps)

lemma plain_names: "plain_text (component_for_type code)" "plain_text (native_type_for_type code)" "plain_text (chip_model_string model)"
  by (simp_all add: component_for_type_def native_type_for_type_def chip_model_string_def plain_text_def
      split: option.split espnow_field_type_t.split)

text \<open>A build date is inserted as it is; it needs no escapes when the time does not.\<close>

lemma plain_build_date:
  assumes "plain_text t"
  shows "plain_text (format_build_date d t)"
proof -
  have m: "plain_text mon" if "mon \<in> set months" for mon
    using that unfolding months_def by (auto simp: plain_text_def)
  have i: "plain_text (print_int n)" "plain_text (print_int4 n)" for n
    using plain_digits by (auto simp: print_int_def print_int4_def Let_def plain_text_app) (auto simp: plain_text_def list_all_iff)
  have t: "plain_text (c_text t)" by (rule plain_text_sub [OF assms]) (auto simp: c_text_def dest: set_takeWhileD)
  have s: "plain_text '' ''" "plain_text ''unknown''" by code_simp+
  have p: "plain_text (take 31 (mon @ '' '' @ print_int a @ '' '' @ print_int4 b @ '' '' @ c_text t))" if "mon \<in> set months" for mon a b
    by (rule plain_text_sub [of "mon @ '' '' @ print_int a @ '' '' @ print_int4 b @ '' '' @ c_text t"])
       (use m [OF that] i t s in \<open>auto simp only: plain_text_app dest: in_set_takeD\<close>)
  show ?thesis using p s by (auto simp: format_build_date_def split: option.split simp del: append.simps)
qed

lemma plain_session_date: "plain_text (bs_build_time x) \<Longrightarrow> plain_text (session_build_date x)"
  by (simp add: session_build_date_def plain_build_date plain_text_Nil)

section \<open>Members\<close>

lemma json_member_eq: "plain_text k \<Longrightarrow> json_member k t = quoted_json_string k @ '':'' @ t"
  by (simp add: json_member_def quoted_json_string_def json_quote_def escape_plain)

lemma plain_quote: "plain_text s \<Longrightarrow> json_quote s = quoted_json_string s"
  by (simp add: quoted_json_string_def json_quote_def escape_plain)

lemma quote_escaped: "json_quote (json_escape s) = quoted_json_string s"
  by (simp add: quoted_json_string_def json_quote_def)

lemma dec_digits_int: "dec_digits n = show_int (int n)"
  by (simp add: show_int_def)

lemmas member_defs = text_member_def raw_member_def number_member_def int_member_def bool_member_def object_member_def

lemmas plain_parts = plain_mac plain_lower_hex plain_names plain_build_date plain_session_date

section \<open>The snapshot as a JSON value\<close>

definition bridge_members :: "info_env \<Rightarrow> web \<Rightarrow> (string \<times> json) list" where
  "bridge_members env w =
     (let c = wb_component w; s = co_protocol c; ident = bp_bridge_identity s; name = sanitize_object_id (ie_app_name env);
          seconds = unat (ie_millis env div 1000) in
      [(''mac'', JStr (mac_display (co_sta_mac c))), (''node_key'', JStr (mac_hex (co_sta_mac c))),
       (''device_unique_id'', JStr (''esp_tree_'' @ mac_hex (co_sta_mac c))), (''name'', JStr name),
       (''friendly_name'', JStr (wb_friendly_name w)), (''manufacturer'', JStr ''ESPHome''), (''model'', JStr ''esp_tree_bridge''),
       (''sw_version'', JStr (bi_project_version ident)), (''online'', JBool True), (''parent_mac'', JStr []),
       (''hop_count'', JInt (int 0)), (''rssi'', JStr ''N.A.''), (''last_seen_bridge_uptime_s'', JInt (int seconds)),
       (''uptime_s'', JInt (int (unat (bp_bridge_uptime_s s)))),
       (''identity'', JObj ([(''esphome_name'', JStr name), (''node_label'', JStr (wb_friendly_name w)),
          (''project_name'', JStr (bi_project_name ident)), (''project_version'', JStr (bi_project_version ident)),
          (''firmware_epoch'', JInt (int (unat (bi_firmware_epoch ident)))), (''chip_model'', JInt (int (unat (bi_chip_model ident))))] @
         (if co_network_id c \<noteq> [] then [(''network_id'', JStr (co_network_id c))] else []) @
         [(''firmware_build_date'', JStr (format_build_date (bi_build_date ident) (bi_build_time ident))),
          (''firmware_md5'', JStr (bytes_to_lower_hex (bi_firmware_md5 ident))), (''schema_hash'', JStr ''N.A.'')])),
       (''session'', JObj [(''joined'', JBool True), (''schema_complete'', JBool True), (''state_complete'', JBool True),
         (''session_flags'', JInt (int (unat (bp_bridge_session_flags s)))), (''max_payload'', JInt (int 0)),
         (''max_entity_fragment'', JInt (int 0)), (''refresh_pending'', JBool False)]),
       (''radio'', JObj [(''rssi'', JStr ''N.A.''), (''last_seen_bridge_uptime_s'', JInt (int seconds)), (''hops_to_bridge'', JInt (int 0)),
         (''parent_rssi'', JStr ''N.A.'')]),
       (''diagnostics'', JObj [(''dirty_count'', JInt (int 0)), (''retry_count'', JInt (int 0)), (''last_error'', JStr [])])])"

definition node_members :: "BridgeSession \<Rightarrow> (string \<times> json) list" where
  "node_members x =
     (let m = mac_display (bs_leaf_mac x); key = mac_hex (bs_leaf_mac x) in
      [(''mac'', JStr m), (''node_key'', JStr key), (''device_unique_id'', JStr (''esp_tree_'' @ key)),
       (''name'', JStr (if bs_esphome_name x = [] then key else bs_esphome_name x)),
       (''friendly_name'', JStr (if bs_node_label x = [] then m else bs_node_label x)),
       (''manufacturer'', JStr ''ESPHome''), (''model'', JStr ''esp_tree_remote''), (''sw_version'', JStr (bs_project_version x)),
       (''online'', JBool (bs_online x)), (''parent_mac'', JStr (mac_display (bs_parent_mac x))),
       (''hop_count'', JInt (int (unat (bs_hops_to_bridge x)))), (''rssi'', JInt (sint (bs_last_rssi x))),
       (''last_seen_bridge_uptime_s'', JInt (int (unat (bs_last_seen_bridge_uptime_s x)))),
       (''uptime_s'', JInt (int (unat (bs_uptime_seconds x)))), (''direct_child_count'', JInt (int (unat (bs_direct_child_count x)))),
       (''total_child_count'', JInt (int (unat (bs_total_child_count x)))),
       (''can_relay'', JBool (bs_online x \<and> bs_session_key_valid x)), (''relay_enabled'', JBool (relay_enabled x)),
       (''identity'', JObj [(''esphome_name'', JStr (bs_esphome_name x)), (''node_label'', JStr (bs_node_label x)),
         (''project_name'', JStr (bs_project_name x)), (''project_version'', JStr (bs_project_version x)),
         (''firmware_epoch'', JInt (int (unat (bs_firmware_epoch x)))), (''chip_model'', JInt (int (unat (bs_chip_model x)))),
         (''firmware_build_date'', JStr (session_build_date x)), (''firmware_md5'', JStr (bytes_to_lower_hex (bs_firmware_md5 x))),
         (''schema_hash'', JStr (''sha256:'' @ bytes_to_lower_hex (bs_schema_hash x)))]),
       (''session'', JObj [(''joined'', JBool (bs_session_key_valid x)), (''schema_complete'', JBool (bs_schema_received x)),
         (''state_complete'', JBool (bs_schema_received x \<and> \<not> bs_state_sync_pending x)),
         (''session_flags'', JInt (int (unat (bs_leaf_session_flags x)))), (''max_payload'', JInt (int (unat (bs_session_max_payload x)))),
         (''max_entity_fragment'', JInt (int (unat (bs_max_entity_fragment x)))), (''refresh_pending'', JBool False)]),
       (''radio'', JObj [(''rssi'', JInt (sint (bs_last_rssi x))),
         (''last_seen_bridge_uptime_s'', JInt (int (unat (bs_last_seen_bridge_uptime_s x)))),
         (''hops_to_bridge'', JInt (int (unat (bs_hops_to_bridge x)))), (''parent_rssi'', JInt (sint (bs_last_rssi x)))]),
       (''diagnostics'', JObj [(''dirty_count'', JInt (int 0)), (''retry_count'', JInt (int 0)), (''last_error'', JStr []),
         (''uptime_s'', JInt (int (unat (bs_uptime_seconds x))))])])"

definition snapshot_json :: "info_env \<Rightarrow> web \<Rightarrow> json" where
  "snapshot_json env w = JObj [(''bridge'', JObj (bridge_members env w)),
     (''nodes'', JArr (map (JObj \<circ> node_members) (listed_sessions env (co_protocol (wb_component w)))))]"

lemma plain_prefixes: "plain_text s \<Longrightarrow> plain_text (''esp_tree_'' @ s)" "plain_text s \<Longrightarrow> plain_text (''sha256:'' @ s)"
  by (simp_all add: plain_text_def)

lemma snapshot_node_text:
  assumes "plain_text (bs_build_time x)"
  shows "snapshot_node x = map member_text (node_members x)"
proof -
  have p: "plain_text (session_build_date x)" "plain_text (''sha256:'' @ bytes_to_lower_hex (bs_schema_hash x))"
    "plain_text (bytes_to_lower_hex (bs_firmware_md5 x))"
    using plain_session_date [OF assms] plain_prefixes plain_lower_hex by blast+
  note q = p [THEN plain_quote]
  show ?thesis unfolding snapshot_node_def node_members_def Let_def member_defs q quote_escaped
    by (simp add: json_member_eq plain_quote dec_digits_int plain_text_def)
qed

lemma snapshot_bridge_text:
  assumes "plain_text (bi_build_time (bp_bridge_identity (co_protocol (wb_component w))))"
  shows "snapshot_bridge env w = map member_text (bridge_members env w)"
proof -
  let ?i = "bp_bridge_identity (co_protocol (wb_component w))"
  have p: "plain_text (format_build_date (bi_build_date ?i) (bi_build_time ?i))" "plain_text (bytes_to_lower_hex (bi_firmware_md5 ?i))"
    "plain_text (''esp_tree_'' @ mac_hex (co_sta_mac (wb_component w)))"
    using plain_build_date [OF assms] plain_prefixes plain_lower_hex plain_mac by blast+
  note q = p [THEN plain_quote]
  show ?thesis unfolding snapshot_bridge_def bridge_members_def Let_def member_defs q quote_escaped
    by (simp add: json_member_eq plain_quote dec_digits_int plain_text_def)
qed

text \<open>The snapshot is the text of that value as long as no build time needs escapes.\<close>

lemma snapshot_text:
  assumes "plain_text (bi_build_time (bp_bridge_identity (co_protocol (wb_component w))))"
    and "\<forall>x \<in> set (listed_sessions env (co_protocol (wb_component w))). plain_text (bs_build_time x)"
  shows "fst (api_topology_snapshot_json env w) = json_string (snapshot_json env w)"
proof -
  have nodes: "map (object_text \<circ> snapshot_node) (listed_sessions env (co_protocol (wb_component w))) =
      map (json_string \<circ> (JObj \<circ> node_members)) (listed_sessions env (co_protocol (wb_component w)))"
    using assms(2) snapshot_node_text by simp
  have "plain_text ''bridge''" "plain_text ''nodes''" by code_simp+
  then show ?thesis
    by (simp add: api_topology_snapshot_json_def snapshot_json_def object_member_def json_member_eq snapshot_bridge_text [OF assms(1)] nodes)
qed

text \<open>JSON text has no zero character, so nothing is cut off when it is sent.\<close>

lemma escaped_char_printable: "\<forall>c \<in> set (json_escape_char ch). c \<noteq> CHR 0x00"
proof -
  have "lower_hex_digit v \<noteq> CHR 0x00" for v using plain_hex_digits(1) [of v] by (auto simp: plain_text_def)
  then show ?thesis by (auto simp: json_escape_char_def bytes_to_lower_hex_def)
qed

lemma digits_printable: "CHR 0x00 \<notin> set (dec_digits n)"
  using dec_digits_are_digits [of n] by (auto simp: is_digit_def)

lemma commas_set: "set (commas xs) \<subseteq> insert CHR '','' (\<Union> (set ` set xs))"
  by (induction xs rule: commas.induct) auto

lemma json_string_printable: "CHR 0x00 \<notin> set (json_string v)"
proof (induction v)
  case (JStr s)
  then show ?case using escaped_char_printable by (auto simp: quoted_json_string_def json_escape_def)
next
  case (JArr vs)
  then show ?case using commas_set [of "map json_string vs"] by (auto simp: array_text_def)
next
  case (JObj ms)
  have "CHR 0x00 \<notin> set (member_text (k, v))" if "(k, v) \<in> set ms" for k v
    using JObj that escaped_char_printable by (fastforce simp: quoted_json_string_def json_escape_def)
  then have "CHR 0x00 \<notin> set (commas (map member_text ms))" using commas_set [of "map member_text ms"] by fastforce
  then show ?case by (simp add: object_text_def)
qed (simp_all add: show_int_def show_bool_def digits_printable)

lemma c_text_json: "c_text (json_string v) = json_string v"
  using json_string_printable [of v] by (auto simp: c_text_def takeWhile_eq_all_conv)

section \<open>More depth reads no less\<close>

lemma read_more:
  "(\<forall>t r. read_value n t = Some r \<longrightarrow> read_value (Suc n) t = Some r) \<and>
   (\<forall>t r. read_elements n t = Some r \<longrightarrow> read_elements (Suc n) t = Some r) \<and>
   (\<forall>t r. read_members n t = Some r \<longrightarrow> read_members (Suc n) t = Some r)"
proof (induction n)
  case (Suc n)
  have v: "read_value (Suc n) t = Some r" if "read_value n t = Some r" for t r using Suc that by blast
  have e: "read_elements (Suc n) t = Some r" if "read_elements n t = Some r" for t r using Suc that by blast
  have m: "read_members (Suc n) t = Some r" if "read_members n t = Some r" for t r using Suc that by blast
  have "read_value (Suc (Suc n)) t = Some r" if h: "read_value (Suc n) t = Some r" for t r
    using h by (subst read_value.simps(2), subst (asm) read_value.simps(2)) (auto split: list.splits if_splits dest: e m simp del: read_value.simps read_elements.simps read_members.simps)
  moreover have "read_elements (Suc (Suc n)) t = Some r" if h: "read_elements (Suc n) t = Some r" for t r
    using h by (subst read_elements.simps(2), subst (asm) read_elements.simps(2)) (auto split: option.splits list.splits if_splits dest!: v e simp del: read_value.simps read_elements.simps read_members.simps)
  moreover have "read_members (Suc (Suc n)) t = Some r" if h: "read_members (Suc n) t = Some r" for t r
    using h by (subst read_members.simps(2), subst (asm) read_members.simps(2)) (auto split: option.splits list.splits if_splits dest!: v m simp del: read_value.simps read_elements.simps read_members.simps)
  ultimately show ?case by blast
qed simp

lemma read_value_mono: "read_value n t = Some r \<Longrightarrow> n \<le> k \<Longrightarrow> read_value k t = Some r"
proof -
  assume r: "read_value n t = Some r"
  assume "n \<le> k"
  then show ?thesis by (induction rule: dec_induct) (use r read_more in blast)+
qed

lemma read_value_text:
  assumes "value_ends rest" "read_value n (json_string v @ rest) = Some r"
  shows "r = (v, rest)"
proof -
  obtain b where "\<forall>k \<ge> b. read_value k (json_string v @ rest) = Some (v, rest)"
    using json_text_readable [of v] assms(1) unfolding readable_def by blast
  then have "read_value (max n b) (json_string v @ rest) = Some (v, rest)" by simp
  moreover have "read_value (max n b) (json_string v @ rest) = Some r" using read_value_mono [OF assms(2), of "max n b"] by simp
  ultimately show ?thesis by simp
qed

text \<open>Members without the closing brace are no object, however deep the reader goes.\<close>

lemma read_members_cases:
  assumes "value_ends behind" "skip_space behind = [] \<or> (\<exists>t. skip_space behind = CHR '','' # t \<and> (\<forall>n. read_members n t = None))"
  shows "read_members n (member_text (k, v) @ behind) = None"
proof (cases n)
  case (Suc n')
  show ?thesis
  proof (cases "read_value n' (json_string v @ behind)")
    case None
    then show ?thesis using read_quoted [of k "'':'' @ json_string v @ behind"] by (simp add: Suc quoted_json_string_def)
  next
    case (Some r)
    then have "read_value n' (json_string v @ behind) = Some (v, behind)" using read_value_text [OF assms(1) Some] by simp
    from read_members_step [OF this, of k] assms(2) show ?thesis by (auto simp: Suc simp del: read_members.simps)
  qed
qed simp

lemma unclosed_members: "ms \<noteq> [] \<Longrightarrow> read_members n (commas (map member_text ms)) = None"
proof (induction ms arbitrary: n rule: list_nonempty_induct)
  case (single m)
  then show ?case using read_members_cases [of "[]" n "fst m" "snd m"] by (simp add: case_prod_beta)
next
  case (cons m ms)
  have e: "commas (map member_text (m # ms)) = member_text (fst m, snd m) @ '','' @ commas (map member_text ms)"
    using cons.hyps(1) by (cases ms) (simp_all add: case_prod_beta)
  show ?case unfolding e by (rule read_members_cases) (use cons in auto)
qed

lemma unclosed_object: "ms \<noteq> [] \<Longrightarrow> \<not> is_json_text (''{'' @ commas (map member_text ms))"
proof -
  assume ms: "ms \<noteq> []"
  have "\<exists>r. hd (map member_text ms) = CHR 0x22 # r" using ms by (cases ms) (auto simp: quoted_json_string_def split: prod.split)
  then obtain u where u: "commas (map member_text ms) = CHR 0x22 # u" using commas_head [of "map member_text ms"] ms by fastforce
  have "read_value n (''{'' @ commas (map member_text ms)) = None" for n
    using unclosed_members [OF ms] u by (cases n) simp_all
  then show ?thesis by (simp add: is_json_text_def)
qed

section \<open>Keys and sessions\<close>

lemma diff_accumulates: "fold (\<lambda>(a, b) diff. diff OR (a XOR b)) ps d = (0 :: u8) \<longleftrightarrow> d = 0 \<and> (\<forall>(a, b) \<in> set ps. a = b)"
  by (induction ps arbitrary: d) (auto simp: or_eq_0_iff xor_zero_iff)

lemma key_matches_iff: "key_matches configured key \<longleftrightarrow> key = configured"
proof -
  have "key_matches configured key \<longleftrightarrow> bytes_of_string configured = bytes_of_string key"
    unfolding list_eq_iff_zip_eq [of "bytes_of_string configured"] by (simp add: key_matches_def diff_accumulates)
  then show ?thesis by (metis string_of_bytes_of_string)
qed

text \<open>The web interface as a service: what it has answered so far is kept.\<close>

type_synonym web_state = "web \<times> (handler \<times> web_reply) list"

definition web_step :: "info_env \<times> http_request \<Rightarrow> web_state \<Rightarrow> web_state" where
  "web_step i st =
     (let (r, w) = serve (fst i) (snd i) (fst st) in (w, snd st @ (case r of None \<Rightarrow> [] | Some x \<Rightarrow> [x])))"

text \<open>The answers that tell something about the tree and are not public.\<close>

fun discloses :: "handler \<times> web_reply \<Rightarrow> bool" where
  "discloses (h, Send status body) \<longleftrightarrow> h \<in> {TopologyHttpHandler, BridgeInfoHttpHandler, NodeStateHttpHandler} \<and> status = 200"
| "discloses (h, SendPage page) \<longleftrightarrow> page = TOPOLOGY_V2_PAGE_HTML"
| "discloses (h, Redirect url) \<longleftrightarrow> False"

definition disclosed :: "web_state \<Rightarrow> (handler \<times> web_reply) list" where
  "disclosed st = filter discloses (snd st)"

definition open_session :: "web_state \<Rightarrow> bool" where
  "open_session st \<longleftrightarrow> wb_api_key (fst st) = [] \<or> wb_session_token (fst st) \<noteq> []"

definition carries_key :: "info_env \<times> http_request \<Rightarrow> web_state \<Rightarrow> bool" where
  "carries_key i st \<longleftrightarrow> (\<exists>key. hr_args (snd i) ''api_key'' = Some key \<and> c_text key = wb_api_key (fst st))"

lemma verify_session_closed:
  "wb_api_key w \<noteq> [] \<Longrightarrow> wb_session_token w = [] \<Longrightarrow> v2_verify_session env request w = (False, w)"
  by (auto simp: v2_verify_session_def split: option.split)

lemma authenticate_closed:
  "wb_api_key w \<noteq> [] \<Longrightarrow> wb_session_token w = [] \<Longrightarrow> \<not> carries_key (env, request) (w, l) \<Longrightarrow>
    v2_http_authenticate env request w = (False, w)"
  by (auto simp: v2_http_authenticate_def verify_session_closed carries_key_def key_matches_iff split: option.split)

lemma login_closed:
  "wb_session_token w = [] \<Longrightarrow> \<not> carries_key (env, request) (w, l) \<Longrightarrow> wb_api_key w \<noteq> [] \<Longrightarrow>
    \<exists>status body. login env request w = (Send status body, w)"
  by (auto simp: login_def carries_key_def key_matches_iff Let_def split: option.split)

lemma closed_handler:
  assumes "wb_api_key w \<noteq> []" "wb_session_token w = []" "\<not> carries_key (env, request) (w, l)" "web_handle_request env h request w = (answer, w')"
  shows "\<not> discloses (h, answer) \<and> wb_session_token w' = []"
proof (cases h)
  case LoginHandler
  then show ?thesis using assms(4) login_closed [OF assms(2, 3, 1)] assms(2) by (auto simp: web_handle_request_def)
qed (use assms verify_session_closed [OF assms(1, 2), of env request] authenticate_closed [OF assms(1-3)] in
      \<open>auto simp: web_handle_request_def guarded_def logout_def\<close>)

lemma closed_step:
  assumes "\<not> open_session st" "\<not> carries_key i st"
  shows "disclosed (web_step i st) = disclosed st \<and> wb_session_token (fst (web_step i st)) = []"
proof -
  obtain env request where i: "i = (env, request)" by (cases i)
  obtain w l where st: "st = (w, l)" by (cases st)
  have c: "wb_api_key w \<noteq> []" "wb_session_token w = []" "\<not> carries_key (env, request) (w, l)"
    using assms by (auto simp: open_session_def st i)
  show ?thesis
  proof (cases "find (\<lambda>h. can_handle h request) handlers")
    case None
    then show ?thesis using c by (simp add: web_step_def serve_def st i disclosed_def)
  next
    case (Some h)
    obtain answer w' where r: "web_handle_request env h request w = (answer, w')" by (cases "web_handle_request env h request w")
    show ?thesis using closed_handler [OF c r] Some r by (simp add: web_step_def serve_def st i disclosed_def)
  qed
qed

lemma web_handle_request_key: "web_handle_request env h request w = (answer, w') \<Longrightarrow> wb_api_key w' = wb_api_key w"
  by (cases h) (auto simp: web_handle_request_def guarded_def logout_def login_def v2_http_authenticate_def v2_verify_session_def
      api_topology_snapshot_json_def Let_def split: option.splits if_splits prod.splits)

lemma web_step_key: "wb_api_key (fst (web_step i st)) = wb_api_key (fst st)"
  using web_handle_request_key by (auto simp: web_step_def serve_def case_prod_beta Let_def split: option.split) (metis prod.collapse)+

lemma web_steps_key: "wb_api_key (fst (fold web_step is st)) = wb_api_key (fst st)"
  by (induction "is" arbitrary: st) (simp_all add: web_step_key)

interpretation webui: guarded_service web_step open_session disclosed carries_key
proof unfold_locales
  fix st i
  assume n: "\<not> open_session st"
  show "\<not> carries_key i st \<Longrightarrow> disclosed (web_step i st) = disclosed st" using closed_step [OF n] by blast
  assume o: "open_session (web_step i st)"
  show "carries_key i st"
  proof (rule ccontr)
    assume "\<not> carries_key i st"
    then show False using closed_step [OF n] n o web_step_key [of i st] by (auto simp: open_session_def)
  qed
qed

section \<open>Routes\<close>

text \<open>The handler of node states compares fifteen characters of a prefix that has thirteen.\<close>

lemma node_state_url: "strncmp_equal url ''/api/v1/node/'' 15 \<Longrightarrow> url = ''/api/v1/node/''"
proof -
  assume s: "strncmp_equal url ''/api/v1/node/'' 15"
  have "take 15 (url @ [CHR 0x00]) = ''/api/v1/node/'' @ [CHR 0x00]"
    using s unfolding strncmp_equal_def by simp
  then have e: "take 15 (url @ [CHR 0x00]) = ''/api/v1/node/'' @ [CHR 0x00]" .
  then have "length (take 15 (url @ [CHR 0x00])) = 14" by simp
  then have "take 15 (url @ [CHR 0x00]) = url @ [CHR 0x00]" by simp
  then show ?thesis using e by simp
qed

lemma node_state_not_served:
  assumes "hr_url request = ''/api/v1/node/'' @ name" "name \<noteq> []"
  shows "serve env request w = (None, w)"
proof -
  have n: "\<not> strncmp_equal (hr_url request) ''/api/v1/node/'' 15" using node_state_url [of "hr_url request"] assms by auto
  have "\<not> can_handle h request" for h using n assms by (cases h) (simp_all add: can_handle_def)
  then show ?thesis by (simp add: serve_def handlers_def)
qed

section \<open>The bridge's own description\<close>

lemma bridge_info_unclosed: "\<exists>ms. ms \<noteq> [] \<and> api_bridge_info_json env w = ''{'' @ commas (map member_text ms)"
proof -
  let ?name = "sanitize_object_id (ie_app_name env)"
  let ?ms = "[(''api_version'', JInt 2), (''name'', JStr ?name), (''mac'', JStr (mac_display (co_sta_mac (wb_component w)))),
    (''firmware'', JObj [(''name'', JStr ?name), (''version'', JStr (ie_esphome_version env)),
       (''esphome_version'', JStr (ie_esphome_version env)),
       (''features'', JObj [(''topology'', JBool True), (''events'', JBool True), (''ota_ws'', JBool True), (''config_ws'', JBool True),
          (''legacy_http'', JBool True)]),
       (''limits'', JObj [(''max_json_bytes'', JInt 8192), (''max_ws_chunk_size'', JInt 2048), (''ota_max_increment_kb'', JInt 8)])])]"
  have "api_bridge_info_json env w = ''{'' @ commas (map member_text ?ms)"
    unfolding api_bridge_info_json_def Let_def member_defs quote_escaped
    by (simp add: json_member_eq dec_digits_int plain_text_def)
  then show ?thesis by blast
qed

end
