(* ===== verification/Bridge_Mqtt.thy ===== *)
theory Bridge_Mqtt
  imports Bridge_Component Json_Text
begin

unbundle bit_operations_syntax

text \<open>
  The MQTT export of the bridge (\<^verbatim>\<open>bridge_mqtt_export.cpp\<close>): the records of what has to be announced and published, the
  topics, the routes from command topics to entities, and the tick that sends a bounded amount of it.  The bridge
  the export points to is a member of its state: \<^verbatim>\<open>init\<close> sets the pointer before anything else is called.  The
  client of the broker belongs to a library: a call is appended to a list together with its result, which the
  environment chooses, and the clock is a function of the number of calls made.  The printing of a float and the
  conversion of a colour are arguments, as in the commands.  The model is of a build without the trace facility, so
  it has no processor load.
\<close>

section \<open>State\<close>

record MqttEntityRecord =
  me_leaf_mac :: mac
  me_node_id :: string
  me_schema :: espnow_entity_schema_t
  me_total_entities :: u8
  me_discovery_published :: bool
  me_first_state_publish_pending :: bool
  me_state_dirty :: bool
  me_command_subscribed :: bool
  me_discovery_published_ms :: u32
  me_current_value :: bytes
  me_current_type :: u8
  me_text_value :: string
  me_pending_state_ack :: bool
  me_pending_ack_message_tx_base :: u32
  me_pending_ack_entity_index :: u8
  me_pending_ack_queued_ms :: u32
  me_ack_next_hop_mac :: mac

record MqttDeviceRecord =
  md_leaf_mac :: mac
  md_node_id :: string
  md_device_id :: string
  md_display_name :: string
  md_entities :: "(u8, espnow_entity_schema_t) omap"
  md_total_entities :: u8
  md_schema_complete :: bool
  md_discovery_dirty :: bool
  md_discovery_published :: bool
  md_discovery_published_ms :: u32

record PendingEntityClear =
  pec_entity_key :: string
  pec_discovery_topic :: string
  pec_command_topics :: "string list"

record PendingDeviceClear =
  pdc_node_key :: string
  pdc_discovery_topic :: string

record AvailabilityEntry =
  ae_mac :: mac
  ae_online :: bool
  ae_reason :: string

record CommandRoute =
  cr_leaf_mac :: mac
  cr_entity_index :: u8
  cr_route_kind :: CommandRouteKind

record RemoteDiagCache =
  rdc_rssi :: u8
  rdc_tx_packets :: u32
  rdc_rx_packets :: u32
  rdc_hops :: u8
  rdc_direct_children :: u8
  rdc_total_children :: u8
  rdc_firmware_epoch :: u32
  rdc_esphome_name :: string
  rdc_project_name :: string
  rdc_project_version :: string
  rdc_chip_model :: u32
  rdc_last_publish_ms :: u32

datatype mqtt_payload = Text string | Document "(string \<times> json) list"

datatype mqtt_call = MqttPublish string mqtt_payload bool bool | MqttSubscribe string

text \<open>A \<^verbatim>\<open>std::set\<close> of strings is a map to the unit.\<close>

type_synonym string_set = "(string, unit) omap"

record mqtt =
  mq_bridge :: component
  mq_bridge_mac :: mac
  mq_discovery_prefix :: string
  mq_bridge_friendly_name :: string
  mq_force_rejoin_command_topic :: string
  mq_entities :: "(string, MqttEntityRecord) omap"
  mq_devices :: "(string, MqttDeviceRecord) omap"
  mq_pending_entity_clears :: "(string, PendingEntityClear) omap"
  mq_pending_device_clears :: "(string, PendingDeviceClear) omap"
  mq_availability_queue :: "AvailabilityEntry list"
  mq_subscribed_topics :: string_set
  mq_command_routes :: "(string, CommandRoute) omap"
  mq_was_connected :: bool
  mq_backoff_until_ms :: u32
  mq_retry_count :: u8
  mq_bridge_diag_discovery_published :: bool
  mq_remote_diag_discovery_published :: string_set
  mq_remote_diag_refresh_pending :: string_set
  mq_first_remote_diag_publish_pending :: string_set
  mq_remote_diag_cache :: "(string, RemoteDiagCache) omap"
  mq_delayed_diag_refresh_pending :: "(string, u32) omap"
  mq_remote_diag_last_publish_ms :: "(string, u32) omap"
  mq_last_published_bridge_diag_ms :: u32
  mq_diag_last_any_publish_ms :: u32
  mq_diag_rr_index :: nat
  mq_next_diag_check_ms :: u32
  mq_force_rejoin_button_discovery_published :: bool
  mq_cached_uptime_s :: u32
  mq_cached_remotes_online :: u8
  mq_cached_bridge_rssi :: u8
  mq_cached_wifi_channel :: u8
  mq_cached_ram_pct :: int
  mq_cached_cpu_pct :: int
  mq_cached_remotes_direct :: u8
  mq_tick_enter_ms :: u32
  mq_calls :: "mqtt_call list"

record mqtt_env =
  mv_component :: component_env
  mv_publish :: "mqtt_call list \<Rightarrow> bool"
  mv_now :: "nat \<Rightarrow> u32"
  mv_random :: u32
  mv_float_text :: "bytes \<Rightarrow> string"
  mv_rgb :: "u8 \<Rightarrow> u8 \<Rightarrow> u8 \<Rightarrow> u8 \<times> u8 \<times> u8"
  mv_conv :: conv

definition mqtt_entity_initial :: MqttEntityRecord where
  "mqtt_entity_initial =
     \<lparr>me_leaf_mac = replicate 6 0, me_node_id = [], me_schema = empty_entity, me_total_entities = 0,
      me_discovery_published = False, me_first_state_publish_pending = False, me_state_dirty = False,
      me_command_subscribed = False, me_discovery_published_ms = 0, me_current_value = [],
      me_current_type = field_type_code FIELD_TYPE_SENSOR, me_text_value = [], me_pending_state_ack = False,
      me_pending_ack_message_tx_base = 0, me_pending_ack_entity_index = 0, me_pending_ack_queued_ms = 0,
      me_ack_next_hop_mac = replicate 6 0\<rparr>"

definition mqtt_device_initial :: MqttDeviceRecord where
  "mqtt_device_initial =
     \<lparr>md_leaf_mac = replicate 6 0, md_node_id = [], md_device_id = [], md_display_name = [], md_entities = [],
      md_total_entities = 0, md_schema_complete = False, md_discovery_dirty = False, md_discovery_published = False,
      md_discovery_published_ms = 0\<rparr>"

definition diag_cache_initial :: RemoteDiagCache where
  "diag_cache_initial =
     \<lparr>rdc_rssi = - 127, rdc_tx_packets = 0, rdc_rx_packets = 0, rdc_hops = 0, rdc_direct_children = 0,
      rdc_total_children = 0, rdc_firmware_epoch = 0, rdc_esphome_name = [], rdc_project_name = [],
      rdc_project_version = [], rdc_chip_model = 0, rdc_last_publish_ms = 0\<rparr>"

definition mqtt_initial :: "component \<Rightarrow> mac \<Rightarrow> string \<Rightarrow> string \<Rightarrow> string \<Rightarrow> mqtt" where
  "mqtt_initial bridge bridge_mac prefix friendly_name force_rejoin_topic =
     \<lparr>mq_bridge = bridge, mq_bridge_mac = bridge_mac, mq_discovery_prefix = prefix,
      mq_bridge_friendly_name = friendly_name, mq_force_rejoin_command_topic = force_rejoin_topic, mq_entities = [],
      mq_devices = [], mq_pending_entity_clears = [], mq_pending_device_clears = [], mq_availability_queue = [],
      mq_subscribed_topics = [], mq_command_routes = [], mq_was_connected = False, mq_backoff_until_ms = 0,
      mq_retry_count = 0, mq_bridge_diag_discovery_published = False, mq_remote_diag_discovery_published = [],
      mq_remote_diag_refresh_pending = [], mq_first_remote_diag_publish_pending = [], mq_remote_diag_cache = [],
      mq_delayed_diag_refresh_pending = [], mq_remote_diag_last_publish_ms = [],
      mq_last_published_bridge_diag_ms = 0, mq_diag_last_any_publish_ms = 0, mq_diag_rr_index = 0,
      mq_next_diag_check_ms = 0, mq_force_rejoin_button_discovery_published = False, mq_cached_uptime_s = 0,
      mq_cached_remotes_online = 0, mq_cached_bridge_rssi = - 127, mq_cached_wifi_channel = 0,
      mq_cached_ram_pct = - 1, mq_cached_cpu_pct = - 1, mq_cached_remotes_direct = 0, mq_tick_enter_ms = 0,
      mq_calls = [MqttSubscribe force_rejoin_topic]\<rparr>"

abbreviation (input) LOOP_TIME_BUDGET_MS :: u32 where "LOOP_TIME_BUDGET_MS \<equiv> 200"

abbreviation (input) FIRST_STATE_PUBLISH_GRACE_MS :: u32 where "FIRST_STATE_PUBLISH_GRACE_MS \<equiv> 200"

abbreviation (input) DIAG_CHECK_INTERVAL_MS :: u32 where "DIAG_CHECK_INTERVAL_MS \<equiv> 250"

abbreviation (input) DIAG_SPACING_MS :: u32 where "DIAG_SPACING_MS \<equiv> 250"

abbreviation (input) DIAG_MIN_INTERVAL_MS :: u32 where "DIAG_MIN_INTERVAL_MS \<equiv> 10000"

abbreviation (input) DIAG_JITTER_MS :: u32 where "DIAG_JITTER_MS \<equiv> 50"

abbreviation (input) DIAG_DELAYED_REFRESH_DELAY_MS :: u32 where "DIAG_DELAYED_REFRESH_DELAY_MS \<equiv> 1000"

definition MQTT_RETRY_BACKOFF_MS :: "u16 list" where
  "MQTT_RETRY_BACKOFF_MS = [200, 400, 800, 1600, 3200, 6400, 12800, 30000]"

section \<open>The client\<close>

definition mqtt_now :: "mqtt_env \<Rightarrow> mqtt \<Rightarrow> u32" where
  "mqtt_now env s = mv_now env (length (mq_calls s))"

definition mqtt_connected :: "mqtt_env \<Rightarrow> bool" where
  "mqtt_connected env = ce_mqtt_connected (mv_component env)"

definition tick_budget_exceeded :: "mqtt_env \<Rightarrow> mqtt \<Rightarrow> bool" where
  "tick_budget_exceeded env s \<longleftrightarrow> mqtt_now env s - mq_tick_enter_ms s \<ge> LOOP_TIME_BUDGET_MS"

definition publish :: "mqtt_env \<Rightarrow> string \<Rightarrow> mqtt_payload \<Rightarrow> bool \<Rightarrow> mqtt \<Rightarrow> bool \<times> mqtt" where
  "publish env topic payload retain s =
     (let ok = mv_publish env (mq_calls s) in (ok, s\<lparr>mq_calls := mq_calls s @ [MqttPublish topic payload retain ok]\<rparr>))"

text \<open>A conjunction of calls: the first that fails ends it.\<close>

fun publish_all :: "mqtt_env \<Rightarrow> (string \<times> mqtt_payload) list \<Rightarrow> bool \<Rightarrow> mqtt \<Rightarrow> bool \<times> mqtt" where
  "publish_all env [] retain s = (True, s)"
| "publish_all env ((topic, payload) # rest) retain s =
     (let (ok, s1) = publish env topic payload retain s
      in if ok then publish_all env rest retain s1 else (False, s1))"

text \<open>Calls whose results are ignored, one after the other until the time of the tick is used up.\<close>

fun publish_within_budget :: "mqtt_env \<Rightarrow> (string \<times> string) list \<Rightarrow> mqtt \<Rightarrow> bool \<times> mqtt" where
  "publish_within_budget env [] s = (True, s)"
| "publish_within_budget env ((topic, text) # rest) s =
     (let s1 = snd (publish env topic (Text text) False s)
      in if tick_budget_exceeded env s1 then (False, s1) else publish_within_budget env rest s1)"

section \<open>Topics\<close>

definition mqtt_component_for_type :: "u8 \<Rightarrow> string" where
  "mqtt_component_for_type ty =
     (if ty = field_type_code FIELD_TYPE_SENSOR then ''sensor''
      else if ty = field_type_code FIELD_TYPE_SWITCH then ''switch''
      else if ty = field_type_code FIELD_TYPE_BINARY then ''binary_sensor''
      else if ty = field_type_code FIELD_TYPE_BUTTON then ''button''
      else if ty = field_type_code FIELD_TYPE_NUMBER then ''number''
      else if ty = field_type_code FIELD_TYPE_TEXT then ''text''
      else if ty = field_type_code FIELD_TYPE_TEXT_SENSOR then ''sensor''
      else if ty = field_type_code FIELD_TYPE_COVER then ''cover''
      else if ty = field_type_code FIELD_TYPE_LIGHT then ''light''
      else if ty = field_type_code FIELD_TYPE_FAN then ''fan''
      else if ty = field_type_code FIELD_TYPE_LOCK then ''lock''
      else if ty = field_type_code FIELD_TYPE_ALARM then ''alarm_control_panel''
      else if ty = field_type_code FIELD_TYPE_SELECT then ''select''
      else if ty = field_type_code FIELD_TYPE_EVENT then ''event''
      else if ty = field_type_code FIELD_TYPE_VALVE then ''valve''
      else ''sensor'')"

definition mqtt_chip_model_string :: "u32 \<Rightarrow> string" where
  "mqtt_chip_model_string model =
     (if model = 1 then ''ESP32'' else if model = 2 then ''ESP32-S2'' else if model = 5 then ''ESP32-C3''
      else if model = 9 then ''ESP32-S3'' else if model = 12 then ''ESP32-C2'' else if model = 13 then ''ESP32-C6''
      else if model = 16 then ''ESP32-H2'' else if model = 18 then ''ESP32-P4'' else if model = 20 then ''ESP32-C61''
      else if model = 23 then ''ESP32-C5'' else if model = 33382 then ''ESP8266'' else ''Unknown'')"

definition option_is_true :: "(string \<Rightarrow> string option) \<Rightarrow> string \<Rightarrow> bool" where
  "option_is_true options key =
     (case options key of None \<Rightarrow> False | Some v \<Rightarrow> v = ''1'' \<or> v = ''true'' \<or> v = ''yes'')"

definition mqtt_has_list_value :: "(string \<Rightarrow> string option) \<Rightarrow> string \<Rightarrow> string \<Rightarrow> bool" where
  "mqtt_has_list_value options key val \<longleftrightarrow> val \<in> set (bridge_option_list options key)"

definition mqtt_node_key :: "mqtt \<Rightarrow> mac \<Rightarrow> string" where
  "mqtt_node_key s m = node_key (mq_bridge s) m"

definition mqtt_object_id :: "mqtt \<Rightarrow> mac \<Rightarrow> espnow_entity_schema_t \<Rightarrow> string" where
  "mqtt_object_id s m entity =
     (let slug = slugify_name (if es_entity_id entity \<noteq> [] then es_entity_id entity else es_entity_name entity);
          base = (if slug = [] then ''entity'' else slug)
      in case get_session (co_protocol (mq_bridge s)) m of
           None \<Rightarrow> base
         | Some x \<Rightarrow>
             if unat (es_entity_index entity) \<ge> length (bs_schema_entities x) then base
             else if es_entity_id entity \<noteq> [] then base
             else
               let n = length (filter (\<lambda>e. es_entity_type e \<noteq> 0 \<and> slugify_name (es_entity_name e) = base)
                         (take (unat (es_entity_index entity) + 1) (bs_schema_entities x)))
               in if n > 1 then base @ ''_'' @ dec_digits n else base)"

definition default_entity_id :: "mqtt \<Rightarrow> mac \<Rightarrow> espnow_entity_schema_t \<Rightarrow> string" where
  "default_entity_id s m entity =
     (let slug = slugify_name (es_entity_name entity)
      in mqtt_component_for_type (es_entity_type entity) @ ''.'' @ (if slug = [] then mqtt_object_id s m entity else slug))"

definition availability_topic :: "mqtt \<Rightarrow> mac \<Rightarrow> string" where
  "availability_topic s m = ''esp-tree/'' @ mqtt_node_key s m @ ''/availability''"

text \<open>The topics of an entity differ in their last part only.\<close>

definition entity_topic :: "mqtt \<Rightarrow> mac \<Rightarrow> string \<Rightarrow> string \<Rightarrow> string" where
  "entity_topic s m object_id suffix = ''esp-tree/'' @ mqtt_node_key s m @ ''/'' @ object_id @ suffix"

definition state_topic :: "mqtt \<Rightarrow> mac \<Rightarrow> espnow_entity_schema_t \<Rightarrow> string" where
  "state_topic s m entity = entity_topic s m (mqtt_object_id s m entity) ''/state''"

definition command_topic :: "mqtt \<Rightarrow> mac \<Rightarrow> espnow_entity_schema_t \<Rightarrow> string" where
  "command_topic s m entity = entity_topic s m (mqtt_object_id s m entity) ''/set''"

definition fan_speed_state_topic :: "mqtt \<Rightarrow> mac \<Rightarrow> espnow_entity_schema_t \<Rightarrow> string" where
  "fan_speed_state_topic s m entity = entity_topic s m (mqtt_object_id s m entity) ''/percentage_state''"

definition fan_speed_command_topic :: "mqtt \<Rightarrow> mac \<Rightarrow> espnow_entity_schema_t \<Rightarrow> string" where
  "fan_speed_command_topic s m entity = entity_topic s m (mqtt_object_id s m entity) ''/percentage_set''"

definition fan_oscillation_state_topic :: "mqtt \<Rightarrow> mac \<Rightarrow> espnow_entity_schema_t \<Rightarrow> string" where
  "fan_oscillation_state_topic s m entity = entity_topic s m (mqtt_object_id s m entity) ''/oscillation_state''"

definition fan_oscillation_command_topic :: "mqtt \<Rightarrow> mac \<Rightarrow> espnow_entity_schema_t \<Rightarrow> string" where
  "fan_oscillation_command_topic s m entity = entity_topic s m (mqtt_object_id s m entity) ''/oscillation_set''"

definition fan_direction_state_topic :: "mqtt \<Rightarrow> mac \<Rightarrow> espnow_entity_schema_t \<Rightarrow> string" where
  "fan_direction_state_topic s m entity = entity_topic s m (mqtt_object_id s m entity) ''/direction_state''"

definition fan_direction_command_topic :: "mqtt \<Rightarrow> mac \<Rightarrow> espnow_entity_schema_t \<Rightarrow> string" where
  "fan_direction_command_topic s m entity = entity_topic s m (mqtt_object_id s m entity) ''/direction_set''"

definition mqtt_unique_id :: "mqtt \<Rightarrow> mac \<Rightarrow> espnow_entity_schema_t \<Rightarrow> string" where
  "mqtt_unique_id s m entity = ''esp_tree_'' @ mqtt_node_key s m @ ''_'' @ mqtt_object_id s m entity"

definition bridge_state_topic :: "mqtt \<Rightarrow> string \<Rightarrow> string" where
  "bridge_state_topic s suffix = ''esp-tree/bridge/'' @ mac_hex (mq_bridge_mac s) @ ''/'' @ suffix @ ''/state''"

definition remote_diag_state_topic :: "mqtt \<Rightarrow> mac \<Rightarrow> string \<Rightarrow> string" where
  "remote_diag_state_topic s m suffix = ''esp-tree/'' @ mqtt_node_key s m @ ''/diagnostic/'' @ suffix @ ''/state''"

definition entity_record_key :: "mqtt \<Rightarrow> mac \<Rightarrow> u8 \<Rightarrow> string" where
  "entity_record_key s m entity_index = mqtt_node_key s m @ ''_'' @ dec_digits (unat entity_index)"

section \<open>Payloads\<close>

definition mqtt_color_mode_name :: "u8 \<Rightarrow> string" where
  "mqtt_color_mode_name cm =
     (if cm = 1 then ''onoff'' else if cm = 3 then ''brightness'' else if cm = 7 then ''white''
      else if cm = 11 then ''color_temp'' else if cm = 19 \<or> cm = 35 then ''rgb'' else if cm = 39 then ''rgbw''
      else if cm = 47 then ''rgbww'' else ''brightness'')"

text \<open>A select without an \<open>options\<close> list takes its options as they are.\<close>

definition select_options :: "string \<Rightarrow> string list" where
  "select_options entity_options =
     (let listed = bridge_option_list (parse_options_map entity_options) ''options''
      in if listed = [] then split_string entity_options CHR ''|'' else listed)"

definition first_byte :: "bytes \<Rightarrow> u8" where
  "first_byte val = (if val = [] then 0 else val ! 0)"

definition on_off :: "bytes \<Rightarrow> string" where
  "on_off val = (if val \<noteq> [] \<and> val ! 0 \<noteq> 0 then ''ON'' else ''OFF'')"

definition encode_state_payload :: "mqtt_env \<Rightarrow> espnow_entity_schema_t \<Rightarrow> bytes \<Rightarrow> u8 \<Rightarrow> string" where
  "encode_state_payload env entity val ty =
     (if ty = field_type_code FIELD_TYPE_SENSOR \<or> ty = field_type_code FIELD_TYPE_NUMBER then
        (if length val < 4 then [] else mv_float_text env val)
      else if ty = field_type_code FIELD_TYPE_SWITCH \<or> ty = field_type_code FIELD_TYPE_BINARY then on_off val
      else if ty = field_type_code FIELD_TYPE_TEXT \<or> ty = field_type_code FIELD_TYPE_TEXT_SENSOR then string_of_bytes val
      else if ty = field_type_code FIELD_TYPE_COVER \<or> ty = field_type_code FIELD_TYPE_VALVE then
        dec_digits (unat (first_byte val))
      else if ty = field_type_code FIELD_TYPE_FAN \<or> ty = field_type_code FIELD_TYPE_LIGHT then on_off val
      else if ty = field_type_code FIELD_TYPE_LOCK then
        (if val \<noteq> [] \<and> val ! 0 = 1 then ''LOCKED'' else if val \<noteq> [] \<and> val ! 0 = 2 then ''JAMMED'' else ''UNLOCKED'')
      else if ty = field_type_code FIELD_TYPE_SELECT then
        (let options = select_options (es_entity_options entity)
         in if es_entity_options entity \<noteq> [] \<and> val \<noteq> [] \<and> unat (val ! 0) < length options
            then options ! unat (val ! 0) else dec_digits (unat (first_byte val)))
      else if ty = field_type_code FIELD_TYPE_ALARM then alarm_state (first_byte val)
      else if ty = field_type_code FIELD_TYPE_BUTTON then ''press''
      else if ty = field_type_code FIELD_TYPE_EVENT then string_of_bytes val
      else [])"

definition light_modes :: "(string \<Rightarrow> string option) \<Rightarrow> string list \<Rightarrow> bool" where
  "light_modes options modes = list_ex (mqtt_has_list_value options ''color_modes'') modes"

definition supports_rgb :: "(string \<Rightarrow> string option) \<Rightarrow> bool" where
  "supports_rgb options = light_modes options [''rgb'', ''rgbw'', ''rgbww'']"

definition supports_brightness :: "(string \<Rightarrow> string option) \<Rightarrow> bool" where
  "supports_brightness options =
     light_modes options [''brightness'', ''rgb'', ''rgbw'', ''rgbww'', ''white'', ''color_temp'']"

definition light_state_document :: "mqtt_env \<Rightarrow> (string \<Rightarrow> string option) \<Rightarrow> bytes \<Rightarrow> (string \<times> json) list" where
  "light_state_document env options val =
     (let mode = (if length val > 5 then mqtt_color_mode_name (val ! 5)
                  else if length val > 3 \<and> supports_rgb options then ''rgb''
                  else if length val > 1 \<and> mqtt_has_list_value options ''color_modes'' ''color_temp'' then ''color_temp''
                  else ''brightness'');
          ct = (ucast (val ! 6) OR push_bit 8 (ucast (val ! 7))) :: u16;
          effects = bridge_option_list options ''effects''
      in [(''state'', JStr (on_off val)), (''color_mode'', JStr mode)]
         @ (if supports_brightness options \<and> length val > 1 then [(''brightness'', JInt (uint (val ! 1)))] else [])
         @ (if supports_rgb options \<and> length val > 3
            then (case mv_rgb env (val ! 2) (val ! 3) (val ! 1) of (r, g, b) \<Rightarrow>
                    [(''color'', JObj [(''r'', JInt (uint r)), (''g'', JInt (uint g)), (''b'', JInt (uint b))])])
            else [])
         @ (if length val > 7 \<and> ct > 0 then [(''color_temp'', JInt (uint ct))] else [])
         @ (if length val > 8 \<and> val ! 8 > 0 then [(''white'', JInt (uint (val ! 8)))] else [])
         @ (if effects \<noteq> [] \<and> length val > 4
            then [(''effect'', JStr (if val ! 4 > 0 \<and> unat (val ! 4) \<le> length effects
                                    then effects ! (unat (val ! 4) - 1) else ''None''))]
            else []))"

text \<open>The level is held in a byte and limited by the number of speeds.\<close>

definition fan_percentage :: "u32 \<Rightarrow> u8 \<Rightarrow> u32" where
  "fan_percentage speed_count level0 =
     (let level = (if ucast level0 > speed_count then ucast speed_count else level0) :: u8
      in (ucast level * 100) div speed_count)"

definition fan_state_calls :: "mqtt \<Rightarrow> mac \<Rightarrow> espnow_entity_schema_t \<Rightarrow> bytes \<Rightarrow> (string \<times> mqtt_payload) list" where
  "fan_state_calls s m entity val =
     (let options = parse_options_map (es_entity_options entity); speed_count = option_u32 options ''speed_count'' 0
      in [(state_topic s m entity, Text (on_off val))]
         @ (if length val > 1 \<and> speed_count > 0
            then [(fan_speed_state_topic s m entity, Text (dec_digits (unat (fan_percentage speed_count (val ! 1)))))] else [])
         @ (if length val > 2 \<and> option_is_true options ''oscillation''
            then [(fan_oscillation_state_topic s m entity,
                   Text (if val ! 2 \<noteq> 0 then ''oscillate_on'' else ''oscillate_off''))] else [])
         @ (if length val > 3 \<and> option_is_true options ''direction''
            then [(fan_direction_state_topic s m entity, Text (if val ! 3 \<noteq> 0 then ''reverse'' else ''forward''))] else []))"

text \<open>The messages that publish the state of a record.\<close>

definition state_calls :: "mqtt_env \<Rightarrow> mqtt \<Rightarrow> MqttEntityRecord \<Rightarrow> (string \<times> mqtt_payload) list" where
  "state_calls env s r =
     (let m = me_leaf_mac r; entity = me_schema r; ty = me_current_type r; topic = state_topic s m entity in
      if ty = field_type_code FIELD_TYPE_BUTTON then [(topic, Document [(''event_type'', JStr ''press'')])]
      else if ty = field_type_code FIELD_TYPE_EVENT then [(topic, Document [(''event_type'', JStr (me_text_value r))])]
      else if ty = field_type_code FIELD_TYPE_FAN then fan_state_calls s m entity (me_current_value r)
      else if ty = field_type_code FIELD_TYPE_LIGHT then
        [(topic, Document (light_state_document env (parse_options_map (es_entity_options entity)) (me_current_value r)))]
      else if (ty = field_type_code FIELD_TYPE_TEXT \<or> ty = field_type_code FIELD_TYPE_TEXT_SENSOR) \<and> me_text_value r \<noteq> []
      then [(topic, Text (me_text_value r))]
      else [(topic, Text (encode_state_payload env entity (me_current_value r) ty))])"

text \<open>
  The record is a reference into the map of the export, named by its key.  A failure counts up to seven and
  chooses the pause from the table.
\<close>

definition note_publish_failure :: "mqtt_env \<Rightarrow> mqtt \<Rightarrow> mqtt" where
  "note_publish_failure env s =
     (let n = (if mq_retry_count s < 7 then mq_retry_count s + 1 else mq_retry_count s)
      in s\<lparr>mq_retry_count := n,
           mq_backoff_until_ms := mqtt_now env s + ucast (MQTT_RETRY_BACKOFF_MS ! min (unat n) 7)\<rparr>)"

definition note_published :: "mqtt_env \<Rightarrow> string \<Rightarrow> MqttEntityRecord \<Rightarrow> mqtt \<Rightarrow> mqtt" where
  "note_published env key r s =
     (let r1 = r\<lparr>me_text_value := [], me_state_dirty := False, me_first_state_publish_pending := False\<rparr>
      in if me_pending_state_ack r
         then s\<lparr>mq_bridge := mark_mqtt_state_delivered (mv_component env) (me_leaf_mac r) (me_pending_ack_entity_index r)
                               (me_pending_ack_message_tx_base r) (mq_bridge s),
                mq_entities := omap_put key (r1\<lparr>me_pending_state_ack := False\<rparr>) (mq_entities s)\<rparr>
         else s\<lparr>mq_entities := omap_put key r1 (mq_entities s)\<rparr>)"

definition do_publish_state :: "mqtt_env \<Rightarrow> string \<Rightarrow> MqttEntityRecord \<Rightarrow> mqtt \<Rightarrow> bool \<times> mqtt" where
  "do_publish_state env key r s =
     (if \<not> mqtt_connected env then (False, s)
      else
        let (ok, s1) = publish_all env (state_calls env s r) False s
        in (ok, if ok then note_published env key r s1 else note_publish_failure env s1))"

section \<open>Discovery documents\<close>

definition entity_document_fan :: "mqtt \<Rightarrow> mac \<Rightarrow> espnow_entity_schema_t \<Rightarrow> (string \<times> json) list" where
  "entity_document_fan s m entity =
     (let options = parse_options_map (es_entity_options entity); speed_count = option_u32 options ''speed_count'' 0
      in [(''ic'', JStr ''mdi:fan''), (''cmd_t'', JStr (command_topic s m entity)), (''pl_on'', JStr ''ON''),
          (''pl_off'', JStr ''OFF''), (''stat_on'', JStr ''ON''), (''stat_off'', JStr ''OFF''), (''payload_on'', JStr ''ON''),
          (''payload_off'', JStr ''OFF''), (''state_on'', JStr ''ON''), (''state_off'', JStr ''OFF'')]
         @ (if speed_count > 0 then
              [(''pct_cmd_t'', JStr (fan_speed_command_topic s m entity)), (''pct_stat_t'', JStr (fan_speed_state_topic s m entity)),
               (''spd_rng_max'', JInt (uint speed_count)),
               (''percentage_command_topic'', JStr (fan_speed_command_topic s m entity)),
               (''percentage_state_topic'', JStr (fan_speed_state_topic s m entity)),
               (''speed_range_max'', JInt (uint speed_count)), (''speed_range_min'', JInt 1)] else [])
         @ (if option_is_true options ''oscillation'' then
              [(''osc_cmd_t'', JStr (fan_oscillation_command_topic s m entity)),
               (''osc_stat_t'', JStr (fan_oscillation_state_topic s m entity)),
               (''oscillation_command_topic'', JStr (fan_oscillation_command_topic s m entity)),
               (''oscillation_state_topic'', JStr (fan_oscillation_state_topic s m entity)),
               (''payload_oscillation_on'', JStr ''oscillate_on''), (''payload_oscillation_off'', JStr ''oscillate_off'')] else [])
         @ (if option_is_true options ''direction'' then
              [(''dir_cmd_t'', JStr (fan_direction_command_topic s m entity)),
               (''dir_stat_t'', JStr (fan_direction_state_topic s m entity)),
               (''direction_command_topic'', JStr (fan_direction_command_topic s m entity)),
               (''direction_state_topic'', JStr (fan_direction_state_topic s m entity)),
               (''payload_direction_forward'', JStr ''forward''), (''payload_direction_reverse'', JStr ''reverse'')] else []))"

definition entity_document_light :: "mqtt \<Rightarrow> mac \<Rightarrow> espnow_entity_schema_t \<Rightarrow> (string \<times> json) list" where
  "entity_document_light s m entity =
     (let options = parse_options_map (es_entity_options entity);
          modes = bridge_option_list options ''color_modes''; effects = bridge_option_list options ''effects''
      in [(''ic'', JStr ''mdi:lightbulb''), (''cmd_t'', JStr (command_topic s m entity)), (''schema'', JStr ''json'')]
         @ (if modes \<noteq> [] then [(''supported_color_modes'', JArr (map JStr modes))] else [])
         @ (if supports_brightness options then [(''brt'', JBool True)] else [])
         @ (if supports_rgb options then [(''clr'', JBool True)] else [])
         @ (if mqtt_has_list_value options ''color_modes'' ''color_temp'' then [(''clr_temp'', JBool True)] else [])
         @ (if effects \<noteq> [] then
              [(''effect_list'', JArr (map JStr effects)), (''effect'', JBool True),
               (''effect_cmd_t'', JStr (command_topic s m entity))] else []))"

definition build_entity_component :: "mqtt \<Rightarrow> mac \<Rightarrow> espnow_entity_schema_t \<Rightarrow> (string \<times> json) list" where
  "build_entity_component s m entity =
     (let ty = es_entity_type entity; cmd = JStr (command_topic s m entity); stat = JStr (state_topic s m entity)
      in [(''p'', JStr (mqtt_component_for_type ty)), (''unique_id'', JStr (mqtt_unique_id s m entity)),
          (''name'', JStr (es_entity_name entity)), (''stat_t'', stat)]
         @ (if es_entity_unit entity \<noteq> [] then [(''unit_of_meas'', JStr (es_entity_unit entity))] else [])
         @ (if ty = field_type_code FIELD_TYPE_SWITCH then
              [(''ic'', JStr ''mdi:toggle-switch''), (''cmd_t'', cmd), (''pl_on'', JStr ''ON''), (''pl_off'', JStr ''OFF''),
               (''stat_on'', JStr ''ON''), (''stat_off'', JStr ''OFF'')]
            else if ty = field_type_code FIELD_TYPE_BINARY then
              [(''ic'', JStr ''mdi:check-circle-outline''), (''pl_on'', JStr ''ON''), (''pl_off'', JStr ''OFF'')]
            else if ty = field_type_code FIELD_TYPE_LOCK then
              [(''ic'', JStr ''mdi:lock''), (''cmd_t'', cmd), (''pl_lock'', JStr ''LOCK''), (''pl_unlk'', JStr ''UNLOCK''),
               (''stat_locked'', JStr ''LOCKED''), (''stat_unlocked'', JStr ''UNLOCKED''), (''payload_lock'', JStr ''LOCK''),
               (''payload_unlock'', JStr ''UNLOCK''), (''state_locked'', JStr ''LOCKED''), (''state_unlocked'', JStr ''UNLOCKED'')]
            else if ty = field_type_code FIELD_TYPE_BUTTON then
              [(''ic'', JStr ''mdi:gesture-tap-button''), (''cmd_t'', cmd), (''command_topic'', cmd)]
            else if ty = field_type_code FIELD_TYPE_COVER then
              [(''ic'', JStr ''mdi:window-shutter''), (''cmd_t'', cmd), (''pos_t'', stat)]
            else if ty = field_type_code FIELD_TYPE_VALVE then
              [(''ic'', JStr ''mdi:valve''), (''cmd_t'', cmd), (''pos_t'', stat)]
            else if ty = field_type_code FIELD_TYPE_FAN then entity_document_fan s m entity
            else if ty = field_type_code FIELD_TYPE_LIGHT then entity_document_light s m entity
            else []))"

definition protocol_version_text :: string where
  "protocol_version_text = dec_digits (unat ESPNOW_PROTOCOL_VER)"

definition remote_device :: "string \<Rightarrow> string \<Rightarrow> json" where
  "remote_device device_id display_name =
     JObj [(''ids'', JStr device_id), (''name'', JStr display_name), (''mf'', JStr ''ESP-NOW LR''), (''mdl'', JStr ''Remote''),
           (''sw'', JStr protocol_version_text)]"

definition origin_document :: json where
  "origin_document = JObj [(''name'', JStr ''esp-tree-bridge''), (''sw'', JStr protocol_version_text)]"

text \<open>The members of the entity follow those of the device in one document.\<close>

definition entity_discovery_document :: "mqtt \<Rightarrow> MqttEntityRecord \<Rightarrow> (string \<times> json) list" where
  "entity_discovery_document s r =
     (let m = me_leaf_mac r;
          display_name = (case omap_find (mq_devices s) (me_node_id r) of
                            Some dev \<Rightarrow> md_display_name dev | None \<Rightarrow> me_node_id r)
      in [(''default_entity_id'', JStr (default_entity_id s m (me_schema r))), (''avty_t'', JStr (availability_topic s m)),
          (''pl_avail'', JStr ''online''), (''pl_not_avail'', JStr ''offline''), (''o'', origin_document),
          (''device'', remote_device (''esp_tree_'' @ mqtt_node_key s m) display_name)]
         @ build_entity_component s m (me_schema r))"

definition entity_discovery_topic :: "mqtt \<Rightarrow> mac \<Rightarrow> u8 \<Rightarrow> string \<Rightarrow> string" where
  "entity_discovery_topic s m ty object_id =
     mq_discovery_prefix s @ ''/'' @ mqtt_component_for_type ty @ ''/'' @ mqtt_node_key s m @ ''/'' @ object_id @ ''/config''"

definition device_discovery_topic :: "mqtt \<Rightarrow> string \<Rightarrow> string" where
  "device_discovery_topic s key = mq_discovery_prefix s @ ''/device/'' @ key @ ''/config''"

end
