(* ===== verification/Bridge_Mqtt_Tick.thy ===== *)
theory Bridge_Mqtt_Tick
  imports Bridge_Mqtt
begin

unbundle bit_operations_syntax

text \<open>
  The operations of the MQTT export: routes of commands, discovery, diagnostics, the calls of the bridge that queue
  work, and the tick.  An entity or a device record is a reference into a map and is named by its key; a \<^verbatim>\<open>return\<close> from
  the middle of the tick is the first component of the stage that makes it.
\<close>

section \<open>Command routes\<close>

definition is_commandable_type :: "u8 \<Rightarrow> bool" where
  "is_commandable_type ty \<longleftrightarrow>
     ty \<in> field_type_code ` {FIELD_TYPE_SWITCH, FIELD_TYPE_NUMBER, FIELD_TYPE_TEXT, FIELD_TYPE_COVER, FIELD_TYPE_VALVE,
       FIELD_TYPE_LOCK, FIELD_TYPE_SELECT, FIELD_TYPE_ALARM, FIELD_TYPE_FAN, FIELD_TYPE_LIGHT, FIELD_TYPE_BUTTON}"

text \<open>The command topics of an entity with what arrives on them.\<close>

definition command_topic_kinds :: "mqtt \<Rightarrow> mac \<Rightarrow> espnow_entity_schema_t \<Rightarrow> string \<Rightarrow> (string \<times> CommandRouteKind) list" where
  "command_topic_kinds s m entity object_id =
     (if \<not> is_commandable_type (es_entity_type entity) then []
      else
        let options = parse_options_map (es_entity_options entity); topic = entity_topic s m object_id
        in [(topic ''/set'', PRIMARY)]
           @ (if es_entity_type entity = field_type_code FIELD_TYPE_FAN then
                (if option_u32 options ''speed_count'' 0 > 0 then [(topic ''/percentage_set'', FAN_SPEED)] else [])
                @ (if option_is_true options ''oscillation'' then [(topic ''/oscillation_set'', FAN_OSCILLATION)] else [])
                @ (if option_is_true options ''direction'' then [(topic ''/direction_set'', FAN_DIRECTION)] else [])
              else []))"

definition remove_command_routes_for_entity :: "mac \<Rightarrow> u8 \<Rightarrow> mqtt \<Rightarrow> mqtt" where
  "remove_command_routes_for_entity m entity_index s =
     s\<lparr>mq_command_routes :=
         filter (\<lambda>(topic, r). \<not> (cr_entity_index r = entity_index \<and> cr_leaf_mac r = m)) (mq_command_routes s)\<rparr>"

definition subscribe_route :: "mac \<Rightarrow> u8 \<Rightarrow> string \<times> CommandRouteKind \<Rightarrow> mqtt \<Rightarrow> mqtt" where
  "subscribe_route m entity_index tk s =
     (let topic = fst tk;
          s1 = s\<lparr>mq_command_routes := omap_put topic
                   \<lparr>cr_leaf_mac = m, cr_entity_index = entity_index, cr_route_kind = snd tk\<rparr> (mq_command_routes s)\<rparr>
      in if omap_find (mq_subscribed_topics s) topic = None
         then s1\<lparr>mq_subscribed_topics := omap_put topic () (mq_subscribed_topics s), mq_calls := mq_calls s @ [MqttSubscribe topic]\<rparr>
         else s1)"

definition subscribe_command_topic :: "mqtt_env \<Rightarrow> mac \<Rightarrow> espnow_entity_schema_t \<Rightarrow> mqtt \<Rightarrow> mqtt" where
  "subscribe_command_topic env m entity s =
     (if \<not> mqtt_connected env then s
      else if \<not> is_commandable_type (es_entity_type entity) then s
      else fold (subscribe_route m (es_entity_index entity))
             (command_topic_kinds s m entity (mqtt_object_id s m entity))
             (remove_command_routes_for_entity m (es_entity_index entity) s))"

definition command_topics_for_object_id :: "mqtt \<Rightarrow> mac \<Rightarrow> espnow_entity_schema_t \<Rightarrow> string \<Rightarrow> string list" where
  "command_topics_for_object_id s m entity object_id = map fst (command_topic_kinds s m entity object_id)"

text \<open>The count stops at the entity itself.\<close>

fun duplicate_index :: "string \<Rightarrow> u8 \<Rightarrow> espnow_entity_schema_t list \<Rightarrow> nat \<Rightarrow> nat" where
  "duplicate_index base i [] n = n"
| "duplicate_index base i (e # es) n =
     (if es_entity_type e = 0 \<or> slugify_name (es_entity_name e) \<noteq> base then duplicate_index base i es n
      else if es_entity_index e = i then n + 1 else duplicate_index base i es (n + 1))"

definition entity_object_id_from_schema :: "espnow_entity_schema_t list \<Rightarrow> espnow_entity_schema_t \<Rightarrow> string" where
  "entity_object_id_from_schema entities entity =
     (let slug = slugify_name (if es_entity_id entity \<noteq> [] then es_entity_id entity else es_entity_name entity);
          base = (if slug = [] then ''entity'' else slug);
          n = duplicate_index base (es_entity_index entity) entities 0
      in if es_entity_id entity \<noteq> [] then base else if n > 1 then base @ ''_'' @ dec_digits n else base)"

text \<open>
  The decoding is that of the bridge with one difference: here the presence of an effect is enough for a light, even
  if no effect of that name exists.
\<close>

definition mqtt_light_json :: "conv \<Rightarrow> string list \<Rightarrow> json_object \<Rightarrow> bytes option" where
  "mqtt_light_json cv effects root =
     (let v0 = replicate 9 0;
          v1 = (case json_text root ''state'' of Some t \<Rightarrow> v0[0 := bool_byte (parse_on t)] | None \<Rightarrow> v0);
          v2 = (case json_int root ''brightness'' of Some n \<Rightarrow> v1[1 := word_of_int (clamp 0 255 n)] | None \<Rightarrow> v1);
          v3 = snd (light_effect_json effects root v2);
          v4 = light_color_json cv root v3;
          v5 = (case json_number root ''color_temp'' of
                  Some n \<Rightarrow> let ct = cv_color_temp cv n in v4[6 := ucast ct, 7 := ucast (drop_bit 8 ct)] | None \<Rightarrow> v4);
          v6 = (case json_int root ''white'' of Some n \<Rightarrow> v5[8 := word_of_int (clamp 0 255 n)] | None \<Rightarrow> v5);
          has_state = (json_text root ''state'' \<noteq> None);
          other = (json_int root ''brightness'' \<noteq> None \<or> json_text root ''effect'' \<noteq> None \<or> json_obj root ''color'' \<noteq> None \<or>
                   json_number root ''color_temp'' \<noteq> None \<or> json_int root ''white'' \<noteq> None);
          v7 = (if \<not> has_state \<and> other then v6[0 := 1] else v6)
      in if has_state \<or> other then Some v7 else None)"

definition mqtt_decode_command_payload ::
  "conv \<Rightarrow> espnow_entity_schema_t \<Rightarrow> CommandRouteKind \<Rightarrow> string \<Rightarrow> bytes \<Rightarrow> bytes option" where
  "mqtt_decode_command_payload cv entity route payload current =
     (if es_entity_type entity = field_type_code FIELD_TYPE_LIGHT \<and> is_json payload
      then parse_json_with cv payload
             (mqtt_light_json cv (bridge_option_list (parse_options_map (es_entity_options entity)) ''effects''))
      else decode_command_payload cv entity route payload current)"

definition bridge_send_command :: "mqtt_env \<Rightarrow> mac \<Rightarrow> u8 \<Rightarrow> bytes \<Rightarrow> mqtt \<Rightarrow> mqtt" where
  "bridge_send_command env m entity_index val s =
     s\<lparr>mq_bridge := (mq_bridge s)\<lparr>co_protocol :=
         snd (send_command_to_leaf (ce_bridge (mv_component env)) m entity_index val (co_protocol (mq_bridge s)))\<rparr>\<rparr>"

definition handle_command_message :: "mqtt_env \<Rightarrow> string \<Rightarrow> string \<Rightarrow> mqtt \<Rightarrow> mqtt" where
  "handle_command_message env topic payload s =
     (case omap_find (mq_command_routes s) topic of
        None \<Rightarrow> s
      | Some route \<Rightarrow>
          (case get_session (co_protocol (mq_bridge s)) (cr_leaf_mac route) of
             None \<Rightarrow> s
           | Some session \<Rightarrow>
               if unat (cr_entity_index route) \<ge> length (bs_schema_entities session) then s
               else
                 let entity = bs_schema_entities session ! unat (cr_entity_index route);
                     key = entity_record_key s (cr_leaf_mac route) (cr_entity_index route);
                     current = (case omap_find (mq_entities s) key of Some r \<Rightarrow> me_current_value r | None \<Rightarrow> [])
                 in case mqtt_decode_command_payload (mv_conv env) entity (cr_route_kind route) payload current of
                      None \<Rightarrow> s
                    | Some val \<Rightarrow> bridge_send_command env (cr_leaf_mac route) (cr_entity_index route) val s))"

definition handle_force_rejoin_command :: "string \<Rightarrow> mqtt \<Rightarrow> mqtt" where
  "handle_force_rejoin_command payload s =
     (case parse_mac_hex (clean_mac_text payload) of
        None \<Rightarrow> s
      | Some m \<Rightarrow> s\<lparr>mq_bridge := send_force_rejoin m (mq_bridge s)\<rparr>)"

section \<open>Discovery\<close>

definition protocol_discovery_confirmed :: "mqtt_env \<Rightarrow> mac \<Rightarrow> u8 \<Rightarrow> bool \<Rightarrow> mqtt \<Rightarrow> mqtt" where
  "protocol_discovery_confirmed env m entity_index success s =
     s\<lparr>mq_bridge := (mq_bridge s)\<lparr>co_protocol :=
         on_discovery_confirmed (ce_bridge (mv_component env)) m entity_index success (co_protocol (mq_bridge s))\<rparr>\<rparr>"

definition do_publish_discovery :: "mqtt_env \<Rightarrow> string \<Rightarrow> MqttEntityRecord \<Rightarrow> mqtt \<Rightarrow> mqtt" where
  "do_publish_discovery env key r s =
     (if \<not> mqtt_connected env then s
      else
        let m = me_leaf_mac r; entity = me_schema r;
            topic = entity_discovery_topic s m (es_entity_type entity) (mqtt_object_id s m entity);
            (ok, s1) = publish env topic (Document (entity_discovery_document s r)) True s;
            s2 = subscribe_command_topic env m entity s1
        in if \<not> ok then s2
           else protocol_discovery_confirmed env m (es_entity_index entity) True
                  (s2\<lparr>mq_entities := omap_put key
                        (r\<lparr>me_discovery_published := True, me_first_state_publish_pending := False,
                           me_discovery_published_ms := mqtt_now env s2\<rparr>) (mq_entities s2)\<rparr>))"

definition device_discovery_document :: "mqtt \<Rightarrow> mac \<Rightarrow> MqttDeviceRecord \<Rightarrow> (string \<times> json) list" where
  "device_discovery_document s m dev =
     [(''dev'', remote_device (md_device_id dev) (md_display_name dev)), (''o'', origin_document),
      (''availability'', JArr [JObj [(''topic'', JStr (availability_topic s m)), (''payload_available'', JStr ''online''),
                                   (''payload_not_available'', JStr ''offline'')]])]"

definition publish_device_discovery :: "mqtt_env \<Rightarrow> mac \<Rightarrow> mqtt \<Rightarrow> mqtt" where
  "publish_device_discovery env m s =
     (if \<not> mqtt_connected env then s
      else
        let nk = mqtt_node_key s m in
        case omap_find (mq_devices s) nk of
          None \<Rightarrow> s
        | Some dev \<Rightarrow>
            if md_entities dev = [] then s
            else
              let (ok, s1) = publish env (device_discovery_topic s nk) (Document (device_discovery_document s m dev)) True s;
                  s2 = fold (\<lambda>(i, entity). subscribe_command_topic env m entity) (md_entities dev) s1
              in if \<not> ok then s2
                 else s2\<lparr>mq_devices := omap_put nk
                           (dev\<lparr>md_discovery_dirty := False, md_discovery_published := True,
                                md_discovery_published_ms := mqtt_now env s2\<rparr>) (mq_devices s2)\<rparr>)"

definition do_clear_device_discovery :: "mqtt_env \<Rightarrow> PendingDeviceClear \<Rightarrow> mqtt \<Rightarrow> bool \<times> mqtt" where
  "do_clear_device_discovery env r s =
     (if \<not> mqtt_connected env then (False, s) else publish env (pdc_discovery_topic r) (Text []) True s)"

definition do_clear_entity :: "mqtt_env \<Rightarrow> PendingEntityClear \<Rightarrow> mqtt \<Rightarrow> bool \<times> mqtt" where
  "do_clear_entity env r s =
     (if \<not> mqtt_connected env then (False, s) else publish env (pec_discovery_topic r) (Text []) True s)"

section \<open>Diagnostics of the bridge\<close>

definition opt_member :: "string \<Rightarrow> string option \<Rightarrow> (string \<times> json) list" where
  "opt_member key val = (case val of None \<Rightarrow> [] | Some v \<Rightarrow> [(key, JStr v)])"

definition bridge_device :: "mqtt \<Rightarrow> json" where
  "bridge_device s =
     JObj [(''ids'', JStr (''esp_tree_bridge_'' @ mac_hex (mq_bridge_mac s))), (''name'', JStr (mq_bridge_friendly_name s)),
           (''mf'', JStr ''ESP-NOW LR''), (''mdl'', JStr ''Bridge'')]"

definition bridge_sensor ::
  "mqtt \<Rightarrow> string \<Rightarrow> string \<Rightarrow> string option \<Rightarrow> string option \<Rightarrow> string option \<Rightarrow> string \<Rightarrow> int \<Rightarrow> string \<times> mqtt_payload" where
  "bridge_sensor s suffix name unit device_class state_class icon precision =
     (mq_discovery_prefix s @ ''/sensor/'' @ mac_hex (mq_bridge_mac s) @ ''/'' @ suffix @ ''/config'',
      Document ([(''name'', JStr name), (''uniq_id'', JStr (''esp_tree_bridge_'' @ mac_hex (mq_bridge_mac s) @ ''_'' @ suffix)),
                 (''stat_t'', JStr (bridge_state_topic s suffix)), (''ent_cat'', JStr ''diagnostic'')]
        @ opt_member ''unit_of_meas'' unit @ opt_member ''dev_cla'' device_class @ opt_member ''stat_cla'' state_class
        @ [(''ic'', JStr icon)]
        @ (if precision \<ge> 0 then [(''suggested_display_precision'', JInt precision)] else [])
        @ [(''device'', bridge_device s)]))"

definition publish_bridge_diag_discovery :: "mqtt_env \<Rightarrow> mqtt \<Rightarrow> mqtt" where
  "publish_bridge_diag_discovery env s =
     (if \<not> mqtt_connected env \<or> mq_bridge_diag_discovery_published s then s
      else
        let measurement = Some ''measurement'';
            (base_ok, s1) = publish_all env
              [bridge_sensor s ''wifi_signal'' ''WiFi Signal'' (Some ''dBm'') (Some ''signal_strength'') measurement ''mdi:wifi'' (- 1),
               bridge_sensor s ''uptime'' ''Uptime'' (Some ''s'') (Some ''duration'') measurement ''mdi:timer-outline'' 0,
               bridge_sensor s ''remotes_online'' ''Remotes Online'' (Some ''remotes'') None measurement ''mdi:tree'' (- 1),
               bridge_sensor s ''remotes_direct'' ''Remotes Direct'' (Some ''remotes'') None measurement ''mdi:account-group'' (- 1),
               bridge_sensor s ''wifi_channel'' ''WiFi Channel'' None None measurement ''mdi:wifi'' 0,
               bridge_sensor s ''mac_address'' ''MAC Address'' None None None ''mdi:identifier'' (- 1)] True s;
            (topic2, doc2) = bridge_sensor s ''topology_url'' ''IP Address'' None None None ''mdi:ip'' (- 1);
            s2 = snd (publish env topic2 doc2 True s1);
            (topic3, doc3) = bridge_sensor s ''ram_usage'' ''RAM Usage'' None None measurement ''mdi:memory'' 1;
            s3 = snd (publish env topic3 doc3 True s2)
        in if base_ok then s3\<lparr>mq_bridge_diag_discovery_published := True\<rparr> else s3)"

definition publish_bridge_diag_state :: "mqtt_env \<Rightarrow> mqtt \<Rightarrow> mqtt" where
  "publish_bridge_diag_state env s =
     (if \<not> mqtt_connected env \<or> \<not> mq_bridge_diag_discovery_published s then s
      else snd (publish_within_budget env
        ([(bridge_state_topic s ''wifi_signal'', show_int (sint (mq_cached_bridge_rssi s))),
          (bridge_state_topic s ''mac_address'', mac_display (mq_bridge_mac s)),
          (bridge_state_topic s ''uptime'', dec_digits (unat (mq_cached_uptime_s s))),
          (bridge_state_topic s ''remotes_online'', dec_digits (unat (mq_cached_remotes_online s))),
          (bridge_state_topic s ''remotes_direct'', dec_digits (unat (mq_cached_remotes_direct s)))]
         @ (if mq_cached_ram_pct s \<ge> 0 then [(bridge_state_topic s ''ram_usage'', show_int (mq_cached_ram_pct s))] else [])
         @ [(bridge_state_topic s ''wifi_channel'', dec_digits (unat (mq_cached_wifi_channel s)))]) s))"

definition publish_force_rejoin_button_discovery :: "mqtt_env \<Rightarrow> mqtt \<Rightarrow> mqtt" where
  "publish_force_rejoin_button_discovery env s =
     (if \<not> mqtt_connected env \<or> mq_force_rejoin_button_discovery_published s then s
      else
        let device_id = ''esp_tree_bridge_'' @ mac_hex (mq_bridge_mac s);
            (ok, s1) = publish env (mq_discovery_prefix s @ ''/button/'' @ mac_hex (mq_bridge_mac s) @ ''/force_rejoin/config'')
              (Document [(''name'', JStr ''Force Rejoin''), (''uniq_id'', JStr (device_id @ ''_force_rejoin'')),
                         (''cmd_t'', JStr (mq_force_rejoin_command_topic s)), (''ent_cat'', JStr ''diagnostic''),
                         (''ic'', JStr ''mdi:restart''), (''pl_prs'', JStr ''PRESS''), (''device'', bridge_device s)]) True s
        in if ok then s1\<lparr>mq_force_rejoin_button_discovery_published := True\<rparr> else s1)"

section \<open>Diagnostics of the remotes\<close>

definition remote_sensor ::
  "mqtt \<Rightarrow> mac \<Rightarrow> string \<Rightarrow> string \<Rightarrow> string \<Rightarrow> string \<Rightarrow> string option \<Rightarrow> string option \<Rightarrow> string \<Rightarrow> string \<times> mqtt_payload" where
  "remote_sensor s m nk display_name suffix name unit device_class icon =
     (mq_discovery_prefix s @ ''/sensor/'' @ nk @ ''/diagnostic_'' @ suffix @ ''/config'',
      Document ([(''name'', JStr name), (''uniq_id'', JStr (''esp_tree_'' @ nk @ ''_diagnostic_'' @ suffix)),
                 (''stat_t'', JStr (remote_diag_state_topic s m suffix)), (''avty_t'', JStr (availability_topic s m)),
                 (''pl_avail'', JStr ''online''), (''pl_not_avail'', JStr ''offline''), (''ent_cat'', JStr ''diagnostic'')]
        @ opt_member ''unit_of_meas'' unit @ opt_member ''dev_cla'' device_class
        @ [(''ic'', JStr icon), (''device'', remote_device (''esp_tree_'' @ nk) display_name)]))"

definition publish_remote_diag_discovery :: "mqtt_env \<Rightarrow> mac \<Rightarrow> mqtt \<Rightarrow> mqtt" where
  "publish_remote_diag_discovery env m s =
     (let nk = mqtt_node_key s m in
      if \<not> mqtt_connected env \<or> omap_find (mq_remote_diag_discovery_published s) nk \<noteq> None then s
      else
        let display_name = (case omap_find (mq_devices s) nk of Some dev \<Rightarrow> md_display_name dev | None \<Rightarrow> nk);
            sensor = remote_sensor s m nk display_name;
            (ok, s1) = publish_all env
              [sensor ''uptime_since_join'' ''Uptime Since Join'' (Some ''s'') (Some ''duration'') ''mdi:timer-outline'',
               sensor ''last_seen'' ''Last Seen (seconds ago)'' (Some ''s'') None ''mdi:eye'',
               sensor ''rssi_dbm'' ''RSSI'' (Some ''dBm'') (Some ''signal_strength'') ''mdi:wifi'',
               sensor ''rssi_pct'' ''RSSI (percent)'' (Some ''%'') None ''mdi:signal'',
               sensor ''tx_packets'' ''TX Packets'' (Some ''packets'') None ''mdi:arrow-up-bold'',
               sensor ''rx_packets'' ''RX Packets'' (Some ''packets'') None ''mdi:arrow-down-bold'',
               sensor ''hops_to_bridge'' ''Hops to Bridge'' (Some ''hops'') None ''mdi:swap-horizontal-bold'',
               sensor ''chip_type'' ''Chip Type'' None None ''mdi:chip'',
               sensor ''child_remotes_direct'' ''Direct Child Remotes'' (Some ''remotes'') None ''mdi:account-group'',
               sensor ''child_remotes_total'' ''Total Child Remotes'' (Some ''remotes'') None ''mdi:family-tree'',
               sensor ''esphome_name'' ''ESPHome Name'' None None ''mdi:identifier'',
               sensor ''project_name'' ''Project Name'' None None ''mdi:code-tags'',
               sensor ''project_version'' ''Project Version'' None None ''mdi:tag-outline'',
               sensor ''mac_address'' ''MAC Address'' None None ''mdi:identifier''] True s
        in if ok then s1\<lparr>mq_remote_diag_discovery_published := omap_put nk () (mq_remote_diag_discovery_published s1)\<rparr>
           else s1)"

definition rssi_percent :: "u8 \<Rightarrow> int" where
  "rssi_percent rssi = (let r = sint rssi in if r \<le> - 100 then 0 else if r \<ge> - 60 then 100 else (r + 100) * 5 div 2)"

definition uptime_since_join :: "u32 \<Rightarrow> BridgeSession \<Rightarrow> u32" where
  "uptime_since_join now x = (if bs_joined_ms x \<noteq> 0 then (now - bs_joined_ms x) div 1000 else 0)"

definition mqtt_last_seen_ago :: "u32 \<Rightarrow> BridgeSession \<Rightarrow> u32" where
  "mqtt_last_seen_ago now x = (if bs_last_seen_bridge_uptime_s x \<noteq> 0 then now div 1000 - bs_last_seen_bridge_uptime_s x else 0)"

definition remote_counters :: "mqtt \<Rightarrow> mac \<Rightarrow> BridgeSession \<Rightarrow> (string \<times> string) list" where
  "remote_counters s m x =
     [(remote_diag_state_topic s m ''rssi_dbm'', show_int (sint (bs_last_rssi x))),
      (remote_diag_state_topic s m ''rssi_pct'', show_int (rssi_percent (bs_last_rssi x))),
      (remote_diag_state_topic s m ''tx_packets'', dec_digits (unat (bs_tx_packets x))),
      (remote_diag_state_topic s m ''rx_packets'', dec_digits (unat (bs_rx_packets x))),
      (remote_diag_state_topic s m ''hops_to_bridge'', dec_digits (unat (bs_hops_to_bridge x))),
      (remote_diag_state_topic s m ''chip_type'', mqtt_chip_model_string (bs_chip_model x)),
      (remote_diag_state_topic s m ''esphome_name'', bs_esphome_name x),
      (remote_diag_state_topic s m ''child_remotes_direct'', dec_digits (unat (bs_direct_child_count x))),
      (remote_diag_state_topic s m ''child_remotes_total'', dec_digits (unat (bs_total_child_count x)))]"

definition publish_text :: "mqtt_env \<Rightarrow> string \<times> string \<Rightarrow> mqtt \<Rightarrow> mqtt" where
  "publish_text env tt s = snd (publish env (fst tt) (Text (snd tt)) False s)"

text \<open>The clock is read a second time after the first message.\<close>

definition publish_remote_diag_state :: "mqtt_env \<Rightarrow> mac \<Rightarrow> mqtt \<Rightarrow> mqtt" where
  "publish_remote_diag_state env m s =
     (if \<not> mqtt_connected env then s
      else case get_session (co_protocol (mq_bridge s)) m of
        None \<Rightarrow> s
      | Some x \<Rightarrow>
          let s1 = publish_text env (remote_diag_state_topic s m ''uptime_since_join'',
                     dec_digits (unat (uptime_since_join (mqtt_now env s) x))) s
          in fold (publish_text env)
               ([(remote_diag_state_topic s m ''last_seen'', dec_digits (unat (mqtt_last_seen_ago (mqtt_now env s1) x)))]
                @ remote_counters s m x
                @ [(remote_diag_state_topic s m ''project_name'', bs_project_name x),
                   (remote_diag_state_topic s m ''project_version'', bs_project_version x)]) s1)"

definition queue_remote_diag_refresh :: "mac \<Rightarrow> mqtt \<Rightarrow> mqtt" where
  "queue_remote_diag_refresh m s =
     s\<lparr>mq_remote_diag_refresh_pending := omap_put (mac_hex m) () (mq_remote_diag_refresh_pending s),
       mq_first_remote_diag_publish_pending := omap_put (mac_hex m) () (mq_first_remote_diag_publish_pending s)\<rparr>"

definition diag_unchanged :: "RemoteDiagCache \<Rightarrow> BridgeSession \<Rightarrow> bool" where
  "diag_unchanged cache x \<longleftrightarrow>
     bs_last_rssi x = rdc_rssi cache \<and> bs_tx_packets x = rdc_tx_packets cache \<and> bs_rx_packets x = rdc_rx_packets cache \<and>
     bs_hops_to_bridge x = rdc_hops cache \<and> bs_direct_child_count x = rdc_direct_children cache \<and>
     bs_total_child_count x = ucast (rdc_total_children cache) \<and> bs_chip_model x = rdc_chip_model cache \<and>
     bs_firmware_epoch x = rdc_firmware_epoch cache \<and> bs_esphome_name x = rdc_esphome_name cache \<and>
     bs_project_name x = rdc_project_name cache \<and> bs_project_version x = rdc_project_version cache"

definition diag_cache_of :: "BridgeSession \<Rightarrow> u32 \<Rightarrow> RemoteDiagCache" where
  "diag_cache_of x now =
     \<lparr>rdc_rssi = bs_last_rssi x, rdc_tx_packets = bs_tx_packets x, rdc_rx_packets = bs_rx_packets x,
      rdc_hops = bs_hops_to_bridge x, rdc_direct_children = bs_direct_child_count x,
      rdc_total_children = ucast (bs_total_child_count x), rdc_firmware_epoch = bs_firmware_epoch x,
      rdc_esphome_name = bs_esphome_name x, rdc_project_name = bs_project_name x,
      rdc_project_version = bs_project_version x, rdc_chip_model = bs_chip_model x, rdc_last_publish_ms = now\<rparr>"

text \<open>The name of the project is followed by a look at the clock, its version is not.\<close>

definition publish_remote_diag_state_cached :: "mqtt_env \<Rightarrow> mac \<Rightarrow> string \<Rightarrow> mqtt \<Rightarrow> mqtt" where
  "publish_remote_diag_state_cached env m nk s =
     (if \<not> mqtt_connected env then s
      else case get_session (co_protocol (mq_bridge s)) m of
        None \<Rightarrow> s
      | Some x \<Rightarrow>
          let now = mqtt_now env s;
              cache = (case omap_find (mq_remote_diag_cache s) nk of Some dc \<Rightarrow> dc | None \<Rightarrow> diag_cache_initial);
              first_publish = (omap_find (mq_first_remote_diag_publish_pending s) nk \<noteq> None);
              last_seen = (remote_diag_state_topic s m ''last_seen'', dec_digits (unat (mqtt_last_seen_ago now x)))
          in if \<not> first_publish \<and> diag_unchanged cache x then publish_text env last_seen s
             else
               let (in_time, s1) = publish_within_budget env
                     ([(remote_diag_state_topic s m ''uptime_since_join'', dec_digits (unat (uptime_since_join now x))),
                       (remote_diag_state_topic s m ''mac_address'', mac_display m), last_seen]
                      @ remote_counters s m x
                      @ (if bs_project_name x \<noteq> rdc_project_name cache
                         then [(remote_diag_state_topic s m ''project_name'', bs_project_name x)] else [])) s
               in if \<not> in_time then s1
                  else
                    let s2 = (if bs_project_version x \<noteq> rdc_project_version cache
                              then publish_text env (remote_diag_state_topic s m ''project_version'', bs_project_version x) s1
                              else s1)
                    in s2\<lparr>mq_remote_diag_cache := omap_put nk (diag_cache_of x now) (mq_remote_diag_cache s2),
                          mq_first_remote_diag_publish_pending := omap_erase nk (mq_first_remote_diag_publish_pending s2)\<rparr>)"

definition check_diag_publish_rr :: "mqtt_env \<Rightarrow> mqtt \<Rightarrow> mqtt" where
  "check_diag_publish_rr env s =
     (let now = mqtt_now env s; total = 1 + length (mq_remote_diag_discovery_published s) in
      if now - mq_diag_last_any_publish_ms s < DIAG_SPACING_MS then s
      else
        let i = (mq_diag_rr_index s + 1) mod total; s1 = s\<lparr>mq_diag_rr_index := i\<rparr> in
        if i = 0 then
          (if now - mq_last_published_bridge_diag_ms s1 \<ge> DIAG_MIN_INTERVAL_MS
           then (publish_bridge_diag_state env s1)\<lparr>mq_last_published_bridge_diag_ms := now, mq_diag_last_any_publish_ms := now\<rparr>
           else s1)
        else
          let nk = fst (mq_remote_diag_discovery_published s1 ! (i - 1));
              last_ms = (case omap_find (mq_remote_diag_last_publish_ms s1) nk of Some t \<Rightarrow> t | None \<Rightarrow> 0)
          in if now - last_ms < DIAG_MIN_INTERVAL_MS then s1
             else case get_remote_mac_by_node_key (mq_bridge s1) nk of
               None \<Rightarrow> s1
             | Some m \<Rightarrow>
                 let s2 = publish_remote_diag_state_cached env m nk s1
                 in s2\<lparr>mq_remote_diag_last_publish_ms := omap_put nk now (mq_remote_diag_last_publish_ms s2),
                       mq_diag_last_any_publish_ms := now\<rparr>)"

section \<open>Queued work\<close>

definition queue_discovery ::
  "mac \<Rightarrow> espnow_entity_schema_t \<Rightarrow> u8 \<Rightarrow> bool \<Rightarrow> string \<Rightarrow> mqtt \<Rightarrow> mqtt" where
  "queue_discovery m entity total_entities commandable display_name s =
     (let key = entity_record_key s m (es_entity_index entity); nk = mqtt_node_key s m;
          r = (case omap_find (mq_entities s) key of Some r \<Rightarrow> r | None \<Rightarrow> mqtt_entity_initial);
          r1 = r\<lparr>me_leaf_mac := m, me_node_id := nk, me_schema := entity, me_total_entities := total_entities,
                 me_discovery_published := False, me_first_state_publish_pending := False,
                 me_discovery_published_ms := 0, me_current_type := es_entity_type entity,
                 me_command_subscribed := commandable\<rparr>;
          dev = (case omap_find (mq_devices s) nk of Some d \<Rightarrow> d | None \<Rightarrow> mqtt_device_initial);
          dev1 = (if md_node_id dev = []
                  then dev\<lparr>md_leaf_mac := m, md_node_id := nk, md_device_id := ''esp_tree_'' @ nk,
                           md_display_name := display_name\<rparr>
                  else dev);
          dev2 = dev1\<lparr>md_entities := omap_put (es_entity_index entity) entity (md_entities dev1),
                      md_total_entities := total_entities, md_schema_complete := False, md_discovery_dirty := True,
                      md_discovery_published := False\<rparr>
      in s\<lparr>mq_entities := omap_put key r1 (mq_entities s), mq_devices := omap_put nk dev2 (mq_devices s)\<rparr>)"

definition queue_state ::
  "mqtt_env \<Rightarrow> mac \<Rightarrow> espnow_entity_schema_t \<Rightarrow> bytes \<Rightarrow> u8 \<Rightarrow> string \<Rightarrow> u32 \<Rightarrow> mac option \<Rightarrow> string \<Rightarrow> mqtt \<Rightarrow> mqtt" where
  "queue_state env m entity val ty text_value message_tx_base next_hop display_name s =
     (let key = entity_record_key s m (es_entity_index entity); nk = mqtt_node_key s m;
          r = (case omap_find (mq_entities s) key of Some r \<Rightarrow> r | None \<Rightarrow> mqtt_entity_initial);
          r1 = r\<lparr>me_leaf_mac := m, me_schema := (if es_entity_type (me_schema r) = 0 then entity else me_schema r),
                 me_current_value := val, me_current_type := ty, me_text_value := text_value, me_state_dirty := True\<rparr>;
          r2 = (if \<not> me_discovery_published r1 then r1\<lparr>me_first_state_publish_pending := True\<rparr> else r1);
          r3 = (case next_hop of
                  None \<Rightarrow> r2
                | Some nh \<Rightarrow> r2\<lparr>me_pending_state_ack := True, me_pending_ack_message_tx_base := message_tx_base,
                                me_pending_ack_entity_index := es_entity_index entity,
                                me_pending_ack_queued_ms := mqtt_now env s, me_ack_next_hop_mac := nh\<rparr>);
          s1 = s\<lparr>mq_entities := omap_put key r3 (mq_entities s)\<rparr>
      in case omap_find (mq_devices s1) nk of
           None \<Rightarrow> s1
         | Some dev \<Rightarrow>
             if md_display_name dev = [] \<and> display_name \<noteq> []
             then s1\<lparr>mq_devices := omap_put nk (dev\<lparr>md_display_name := display_name\<rparr>) (mq_devices s1)\<rparr>
             else s1)"

definition queue_availability :: "mac \<Rightarrow> bool \<Rightarrow> string \<Rightarrow> mqtt \<Rightarrow> mqtt" where
  "queue_availability m online reason s =
     (let s1 = s\<lparr>mq_availability_queue := mq_availability_queue s @ [\<lparr>ae_mac = m, ae_online = online, ae_reason = reason\<rparr>]\<rparr>
      in if online then queue_remote_diag_refresh m s1
         else s1\<lparr>mq_remote_diag_refresh_pending := omap_erase (mac_hex m) (mq_remote_diag_refresh_pending s1)\<rparr>)"

definition queue_clear_entity :: "mac \<Rightarrow> espnow_entity_schema_t list \<Rightarrow> espnow_entity_schema_t \<Rightarrow> mqtt \<Rightarrow> mqtt" where
  "queue_clear_entity m old_entities entity s =
     (let object_id = entity_object_id_from_schema old_entities entity;
          key = entity_record_key s m (es_entity_index entity);
          pending = \<lparr>pec_entity_key = key,
                     pec_discovery_topic = entity_discovery_topic s m (es_entity_type entity) object_id,
                     pec_command_topics = command_topics_for_object_id s m entity object_id\<rparr>;
          s1 = remove_command_routes_for_entity m (es_entity_index entity)
                 (s\<lparr>mq_pending_entity_clears := omap_put key pending (mq_pending_entity_clears s)\<rparr>)
      in s1\<lparr>mq_entities := omap_erase key (mq_entities s1)\<rparr>)"

definition queue_clear_entities :: "mac \<Rightarrow> espnow_entity_schema_t list \<Rightarrow> mqtt \<Rightarrow> mqtt" where
  "queue_clear_entities m old_entities s =
     (let nk = mqtt_node_key s m; s1 = fold (queue_clear_entity m old_entities) old_entities s
      in case omap_find (mq_devices s1) nk of
           None \<Rightarrow> s1
         | Some dev \<Rightarrow>
             let left = fold (\<lambda>e. omap_erase (es_entity_index e)) old_entities (md_entities dev)
             in if left = []
                then s1\<lparr>mq_pending_device_clears := omap_put nk
                          \<lparr>pdc_node_key = nk, pdc_discovery_topic = device_discovery_topic s1 nk\<rparr> (mq_pending_device_clears s1),
                        mq_devices := omap_erase nk (mq_devices s1)\<rparr>
                else s1\<lparr>mq_devices := omap_put nk
                          (dev\<lparr>md_entities := left, md_discovery_dirty := True, md_discovery_published := False\<rparr>)
                          (mq_devices s1)\<rparr>)"

definition on_schema_complete :: "mqtt_env \<Rightarrow> mac \<Rightarrow> mqtt \<Rightarrow> mqtt" where
  "on_schema_complete env m s =
     (let nk = mqtt_node_key s m;
          s1 = (case omap_find (mq_devices s) nk of
                  None \<Rightarrow> s
                | Some dev \<Rightarrow>
                    s\<lparr>mq_devices := omap_put nk (dev\<lparr>md_schema_complete := True, md_discovery_dirty := True,
                        md_discovery_published := False\<rparr>) (mq_devices s)\<rparr>);
          s2 = queue_remote_diag_refresh m s1
      in s2\<lparr>mq_delayed_diag_refresh_pending := omap_put (mac_hex m) (mqtt_now env s2 + DIAG_DELAYED_REFRESH_DELAY_MS)
             (mq_delayed_diag_refresh_pending s2)\<rparr>)"

definition set_bridge_diag :: "u32 \<Rightarrow> u8 \<Rightarrow> u8 \<Rightarrow> u8 \<Rightarrow> int \<Rightarrow> int \<Rightarrow> u8 \<Rightarrow> mqtt \<Rightarrow> mqtt" where
  "set_bridge_diag uptime_s remotes_online rssi wifi_channel ram_pct cpu_pct remotes_direct s =
     s\<lparr>mq_cached_uptime_s := uptime_s, mq_cached_remotes_online := remotes_online, mq_cached_bridge_rssi := rssi,
       mq_cached_wifi_channel := wifi_channel, mq_cached_ram_pct := ram_pct, mq_cached_cpu_pct := cpu_pct,
       mq_cached_remotes_direct := remotes_direct\<rparr>"

section \<open>The tick\<close>

definition on_reconnect :: "mqtt \<Rightarrow> mqtt" where
  "on_reconnect s =
     fold queue_remote_diag_refresh (get_online_macs (mq_bridge s))
       (s\<lparr>mq_retry_count := 0, mq_backoff_until_ms := 0,
          mq_devices := map (\<lambda>(k, d). (k, d\<lparr>md_discovery_dirty := True, md_discovery_published := False,
                                            md_schema_complete := True\<rparr>)) (mq_devices s),
          mq_entities := map (\<lambda>(k, r). (k, r\<lparr>me_discovery_published := False, me_state_dirty := True\<rparr>)) (mq_entities s),
          mq_bridge_diag_discovery_published := False, mq_remote_diag_discovery_published := [],
          mq_remote_diag_refresh_pending := [], mq_first_remote_diag_publish_pending := [],
          mq_delayed_diag_refresh_pending := []\<rparr>)"

text \<open>A stage returns whether the tick ends with it.\<close>

definition bridge_discovery_stage :: "mqtt_env \<Rightarrow> mqtt \<Rightarrow> bool \<times> mqtt" where
  "bridge_discovery_stage env s =
     (if mq_bridge_diag_discovery_published s then (False, s)
      else
        let s1 = publish_force_rejoin_button_discovery env s
        in if tick_budget_exceeded env s1 then (True, s1)
           else let s2 = publish_bridge_diag_discovery env s1 in (tick_budget_exceeded env s2, s2))"

text \<open>The loops over the clears leave with the first entry: on success with a return, on failure with a break.\<close>

definition entity_clear_stage :: "mqtt_env \<Rightarrow> mqtt \<Rightarrow> bool \<times> mqtt" where
  "entity_clear_stage env s =
     (case mq_pending_entity_clears s of
        [] \<Rightarrow> (False, s)
      | (key, pending) # rest \<Rightarrow>
          if tick_budget_exceeded env s then (True, s)
          else
            let (ok, s1) = do_clear_entity env pending s
            in if \<not> ok then (False, s1)
               else (True, s1\<lparr>mq_command_routes := fold omap_erase (pec_command_topics pending) (mq_command_routes s1),
                              mq_pending_entity_clears := rest\<rparr>))"

definition device_clear_stage :: "mqtt_env \<Rightarrow> mqtt \<Rightarrow> bool \<times> mqtt" where
  "device_clear_stage env s =
     (case mq_pending_device_clears s of
        [] \<Rightarrow> (False, s)
      | (key, pending) # rest \<Rightarrow>
          if tick_budget_exceeded env s then (True, s)
          else
            let (ok, s1) = do_clear_device_discovery env pending s
            in if \<not> ok then (False, s1) else (True, s1\<lparr>mq_pending_device_clears := rest\<rparr>))"

definition availability_stage :: "mqtt_env \<Rightarrow> mqtt \<Rightarrow> bool \<times> mqtt" where
  "availability_stage env s =
     (case mq_availability_queue s of
        [] \<Rightarrow> (False, s)
      | front # rest \<Rightarrow>
          (True, publish_text env (availability_topic s (ae_mac front), if ae_online front then ''online'' else ''offline'')
                   (s\<lparr>mq_availability_queue := rest\<rparr>)))"

text \<open>The keys are the texts of addresses.\<close>

definition key_mac :: "string \<Rightarrow> mac" where
  "key_mac key = (case parse_mac_hex key of Some m \<Rightarrow> m | None \<Rightarrow> replicate 6 0)"

fun delayed_refreshes :: "mqtt_env \<Rightarrow> (string \<times> u32) list \<Rightarrow> mqtt \<Rightarrow> mqtt" where
  "delayed_refreshes env [] s = s"
| "delayed_refreshes env ((key, due) # rest) s =
     (if tick_budget_exceeded env s then s
      else if mqtt_now env s \<ge> due then
        (let m = key_mac key; nk = mqtt_node_key s m;
             s1 = (if omap_find (mq_remote_diag_discovery_published s) nk \<noteq> None
                   then let s0 = publish_remote_diag_state_cached env m nk s
                        in s0\<lparr>mq_first_remote_diag_publish_pending := omap_erase nk (mq_first_remote_diag_publish_pending s0)\<rparr>
                   else s)
         in delayed_refreshes env rest
              (s1\<lparr>mq_delayed_diag_refresh_pending := omap_erase key (mq_delayed_diag_refresh_pending s1)\<rparr>))
      else delayed_refreshes env rest s)"

fun refresh_stage :: "mqtt_env \<Rightarrow> string_set \<Rightarrow> mqtt \<Rightarrow> bool \<times> mqtt" where
  "refresh_stage env [] s = (False, s)"
| "refresh_stage env ((key, u) # rest) s =
     (let m = key_mac key in
      case get_session (co_protocol (mq_bridge s)) m of
        None \<Rightarrow> refresh_stage env rest s
      | Some x \<Rightarrow>
          if \<not> bs_online x then refresh_stage env rest s
          else if omap_find (mq_remote_diag_discovery_published s) (mqtt_node_key s m) = None
          then (True, publish_remote_diag_discovery env m s)
          else
            let s1 = publish_remote_diag_state env m s
            in (True, s1\<lparr>mq_remote_diag_refresh_pending := omap_erase key (mq_remote_diag_refresh_pending s1),
                         mq_first_remote_diag_publish_pending := omap_erase key (mq_first_remote_diag_publish_pending s1)\<rparr>))"

definition device_stage :: "mqtt_env \<Rightarrow> mqtt \<Rightarrow> mqtt" where
  "device_stage env s =
     (case find (\<lambda>(k, d). md_discovery_dirty d) (mq_devices s) of
        None \<Rightarrow> s
      | Some (k, d) \<Rightarrow> publish_device_discovery env (md_leaf_mac d) s)"

definition device_is_published :: "mqtt \<Rightarrow> string \<Rightarrow> bool" where
  "device_is_published s key = (case omap_find (mq_devices s) key of Some dev \<Rightarrow> md_discovery_published dev | None \<Rightarrow> False)"

text \<open>The loop over the entity records, by their keys: the loop changes records but adds and removes none.\<close>

fun state_stage :: "mqtt_env \<Rightarrow> nat \<Rightarrow> string list \<Rightarrow> mqtt \<Rightarrow> mqtt" where
  "state_stage env n [] s = s"
| "state_stage env n (key # rest) s =
     (if tick_budget_exceeded env s then s
      else case omap_find (mq_entities s) key of
        None \<Rightarrow> state_stage env n rest s
      | Some r \<Rightarrow>
          if \<not> me_discovery_published r \<and> device_is_published s (me_node_id r) then do_publish_discovery env key r s
          else if \<not> (me_state_dirty r \<and> me_discovery_published r) then state_stage env n rest s
          else if me_first_state_publish_pending r \<and>
                  mqtt_now env s - me_discovery_published_ms r < FIRST_STATE_PUBLISH_GRACE_MS
          then state_stage env n rest s
          else
            let r1 = r\<lparr>me_first_state_publish_pending := False\<rparr>;
                s1 = snd (do_publish_state env key r1 (s\<lparr>mq_entities := omap_put key r1 (mq_entities s)\<rparr>))
            in if n + 1 \<ge> 2 then s1 else state_stage env (n + 1) rest s1)"

definition diagnostics_stage :: "mqtt_env \<Rightarrow> mqtt \<Rightarrow> mqtt" where
  "diagnostics_stage env s =
     (if mqtt_now env s \<ge> mq_next_diag_check_ms s
      then let s1 = check_diag_publish_rr env s
           in s1\<lparr>mq_next_diag_check_ms := mqtt_now env s1 + DIAG_CHECK_INTERVAL_MS + mv_random env mod (2 * DIAG_JITTER_MS) - DIAG_JITTER_MS\<rparr>
      else s)"

text \<open>Stages in order, up to the first that ends the tick.\<close>

fun run_tick_stages :: "(mqtt \<Rightarrow> bool \<times> mqtt) list \<Rightarrow> mqtt \<Rightarrow> bool \<times> mqtt" where
  "run_tick_stages [] s = (False, s)"
| "run_tick_stages (f # fs) s = (let (stop, s1) = f s in if stop then (True, s1) else run_tick_stages fs s1)"

definition tick_work :: "mqtt_env \<Rightarrow> mqtt \<Rightarrow> mqtt" where
  "tick_work env s =
     (let (stopped, s1) = run_tick_stages
            [bridge_discovery_stage env, entity_clear_stage env, device_clear_stage env, availability_stage env,
             \<lambda>s. (False, delayed_refreshes env (mq_delayed_diag_refresh_pending s) s),
             \<lambda>s. refresh_stage env (mq_remote_diag_refresh_pending s) s] s
      in if stopped then s1
         else let s2 = device_stage env s1
              in diagnostics_stage env (state_stage env 0 (map fst (mq_entities s2)) s2))"

definition mqtt_tick :: "mqtt_env \<Rightarrow> mqtt \<Rightarrow> mqtt" where
  "mqtt_tick env s =
     (let s0 = s\<lparr>mq_tick_enter_ms := mqtt_now env s\<rparr> in
      if \<not> mqtt_connected env then s0\<lparr>mq_was_connected := False\<rparr>
      else if mq_backoff_until_ms s0 \<noteq> 0 \<and> mqtt_now env s0 < mq_backoff_until_ms s0 then s0
      else
        let s1 = s0\<lparr>mq_backoff_until_ms := 0\<rparr>;
            s2 = (if mq_was_connected s1 then s1 else on_reconnect s1)
        in tick_work env (s2\<lparr>mq_was_connected := True\<rparr>))"

end
