(* ===== verification/Bridge_Mqtt_Laws.thy ===== *)
theory Bridge_Mqtt_Laws
  imports Bridge_Mqtt_Tick Bridge_Component_Laws Bridge_Inv
begin

unbundle bit_operations_syntax

text \<open>
  The MQTT export: what every operation keeps of its tables, where a message on an announced topic goes, and how fast
  changed states leave.
\<close>

section \<open>Properties the diagnostics cannot disturb\<close>

declare publish_all.simps [simp del] publish_within_budget.simps [simp del]

lemma publish_eq: "publish env topic p retain s =
    (mv_publish env (mq_calls s), s\<lparr>mq_calls := mq_calls s @ [MqttPublish topic p retain (mv_publish env (mq_calls s))]\<rparr>)"
  by (simp add: publish_def Let_def)

text \<open>
  The contract of a property of the export that does not look at the calls made, the cached diagnostics and the
  times of the round robin: then no publishing of diagnostics changes it.
\<close>

locale export_property =
  fixes I :: "mqtt \<Rightarrow> bool"
  assumes I_calls: "I (s\<lparr>mq_calls := cs\<rparr>) \<longleftrightarrow> I s"
    and I_cache: "I (s\<lparr>mq_remote_diag_cache := a\<rparr>) \<longleftrightarrow> I s"
    and I_first: "I (s\<lparr>mq_first_remote_diag_publish_pending := f\<rparr>) \<longleftrightarrow> I s"
    and I_index: "I (s\<lparr>mq_diag_rr_index := i\<rparr>) \<longleftrightarrow> I s"
    and I_bridge_time: "I (s\<lparr>mq_last_published_bridge_diag_ms := t\<rparr>) \<longleftrightarrow> I s"
    and I_any_time: "I (s\<lparr>mq_diag_last_any_publish_ms := t\<rparr>) \<longleftrightarrow> I s"
    and I_remote_times: "I (s\<lparr>mq_remote_diag_last_publish_ms := ts\<rparr>) \<longleftrightarrow> I s"
    and I_next: "I (s\<lparr>mq_next_diag_check_ms := t\<rparr>) \<longleftrightarrow> I s"
begin

lemma I_publish: "I (snd (publish env topic p retain s)) \<longleftrightarrow> I s"
  by (simp add: publish_eq I_calls)

lemma I_publish_all: "I (snd (publish_all env ps retain s)) \<longleftrightarrow> I s"
proof (induction ps arbitrary: s)
  case (Cons p ps)
  then show ?case by (cases p) (simp add: publish_all.simps publish_eq I_calls)
qed (simp add: publish_all.simps)

lemma I_publish_within_budget: "I (snd (publish_within_budget env ps s)) \<longleftrightarrow> I s"
proof (induction ps arbitrary: s)
  case (Cons p ps)
  then show ?case by (cases p) (simp add: publish_within_budget.simps publish_eq I_calls Let_def)
qed (simp add: publish_within_budget.simps)

lemma I_publish_text: "I (publish_text env tt s) \<longleftrightarrow> I s"
  by (simp add: publish_text_def I_publish)

lemma I_publish_texts: "I (fold (publish_text env) tts s) \<longleftrightarrow> I s"
  by (induction tts arbitrary: s) (simp_all add: I_publish_text)

lemma I_bridge_state: "I (publish_bridge_diag_state env s) \<longleftrightarrow> I s"
  by (simp add: publish_bridge_diag_state_def I_publish_within_budget)

lemma I_remote_state: "I (publish_remote_diag_state env m s) \<longleftrightarrow> I s"
  by (simp add: publish_remote_diag_state_def I_publish_texts I_publish_text Let_def split: option.split)

lemma I_remote_state_cached: "I (publish_remote_diag_state_cached env m nk s) \<longleftrightarrow> I s"
proof (cases "get_session (co_protocol (mq_bridge s)) m")
  case (Some x)
  have within: "I t \<longleftrightarrow> I s" if "publish_within_budget env ps s = (b, t)" for ps b t
    using I_publish_within_budget [of env ps s] that by simp
  show ?thesis
    by (simp add: publish_remote_diag_state_cached_def Some Let_def I_publish_text I_cache I_first within split: prod.split)
qed (simp add: publish_remote_diag_state_cached_def)

lemma I_round_robin: "I (check_diag_publish_rr env s) \<longleftrightarrow> I s"
  by (simp add: check_diag_publish_rr_def Let_def I_index I_bridge_time I_any_time I_remote_times I_bridge_state
      I_remote_state_cached split: option.split)

lemma I_diag_stage: "I (diagnostics_stage env s) \<longleftrightarrow> I s"
  by (simp add: diagnostics_stage_def Let_def I_next I_round_robin)

end

section \<open>The invariant\<close>

definition mac_text :: "string \<Rightarrow> bool" where
  "mac_text key \<longleftrightarrow> (\<exists>m. length m = 6 \<and> key = mac_hex m)"

definition entity_record_ok :: "MqttEntityRecord \<Rightarrow> bool" where
  "entity_record_ok r \<longleftrightarrow> (me_discovery_published r \<longrightarrow> \<not> me_first_state_publish_pending r)"

definition mqtt_ok :: "mqtt \<Rightarrow> bool" where
  "mqtt_ok s \<longleftrightarrow>
     mq_retry_count s \<le> 7 \<and>
     omap_ok (mq_command_routes s) \<and> fst ` set (mq_command_routes s) \<subseteq> fst ` set (mq_subscribed_topics s) \<and>
     omap_ok (mq_entities s) \<and> (\<forall>p \<in> set (mq_entities s). entity_record_ok (snd p)) \<and>
     (\<forall>p \<in> set (mq_remote_diag_refresh_pending s). mac_text (fst p)) \<and>
     (\<forall>p \<in> set (mq_delayed_diag_refresh_pending s). mac_text (fst p))"

interpretation tables: export_property mqtt_ok
  by unfold_locales (simp_all add: mqtt_ok_def)

lemma mac_text_hex: "mac_text (mac_hex m)"
  unfolding mac_text_def by (rule exI [of _ "map ((!) m) [0..<6]"]) (simp add: mac_hex_def numeral_2_eq_2)

text \<open>The keys of the refreshes can be read back, so the addresses they stand for are the right ones.\<close>

lemma key_mac_hex: "length m = 6 \<Longrightarrow> key_mac (mac_hex m) = m"
  by (simp add: key_mac_def parse_mac_hex_text)

lemma mqtt_ok_frame [simp]:
  "mqtt_ok (s\<lparr>mq_bridge := a\<rparr>) \<longleftrightarrow> mqtt_ok s" "mqtt_ok (s\<lparr>mq_devices := b\<rparr>) \<longleftrightarrow> mqtt_ok s"
  "mqtt_ok (s\<lparr>mq_pending_entity_clears := c\<rparr>) \<longleftrightarrow> mqtt_ok s" "mqtt_ok (s\<lparr>mq_pending_device_clears := d\<rparr>) \<longleftrightarrow> mqtt_ok s"
  "mqtt_ok (s\<lparr>mq_availability_queue := e\<rparr>) \<longleftrightarrow> mqtt_ok s" "mqtt_ok (s\<lparr>mq_was_connected := f\<rparr>) \<longleftrightarrow> mqtt_ok s"
  "mqtt_ok (s\<lparr>mq_backoff_until_ms := g\<rparr>) \<longleftrightarrow> mqtt_ok s" "mqtt_ok (s\<lparr>mq_tick_enter_ms := g\<rparr>) \<longleftrightarrow> mqtt_ok s"
  "mqtt_ok (s\<lparr>mq_bridge_diag_discovery_published := f\<rparr>) \<longleftrightarrow> mqtt_ok s"
  "mqtt_ok (s\<lparr>mq_force_rejoin_button_discovery_published := f\<rparr>) \<longleftrightarrow> mqtt_ok s"
  "mqtt_ok (s\<lparr>mq_remote_diag_discovery_published := h\<rparr>) \<longleftrightarrow> mqtt_ok s"
  by (simp_all add: mqtt_ok_def)

lemmas mqtt_ok_frames = mqtt_ok_frame tables.I_calls tables.I_first tables.I_publish tables.I_publish_all tables.I_publish_text

text \<open>Each table is changed by putting and erasing entries.\<close>

lemma ok_entities_put:
  assumes "mqtt_ok s" "entity_record_ok r" "es = mq_entities s"
  shows "mqtt_ok (s\<lparr>mq_entities := omap_put key r es\<rparr>)"
  using assms set_omap_put [of key r "mq_entities s"] by (auto simp: mqtt_ok_def omap_ok_put)

lemma ok_entities_erase: "mqtt_ok s \<Longrightarrow> es = mq_entities s \<Longrightarrow> mqtt_ok (s\<lparr>mq_entities := omap_erase key es\<rparr>)"
  by (auto simp: mqtt_ok_def omap_erase_def omap_ok_filter)

lemma ok_entity: "mqtt_ok s \<Longrightarrow> omap_find (mq_entities s) key = Some r \<Longrightarrow> entity_record_ok r"
  by (force simp: mqtt_ok_def omap_find_def dest: map_of_SomeD)

lemma ok_routes_filter: "mqtt_ok s \<Longrightarrow> rs = mq_command_routes s \<Longrightarrow> mqtt_ok (s\<lparr>mq_command_routes := filter P rs\<rparr>)"
  by (auto simp: mqtt_ok_def omap_ok_filter)

lemma ok_routes_erase: "mqtt_ok s \<Longrightarrow> rs = mq_command_routes s \<Longrightarrow> mqtt_ok (s\<lparr>mq_command_routes := fold omap_erase ts rs\<rparr>)"
proof (induction ts arbitrary: s rs)
  case (Cons t ts)
  from Cons.IH [OF ok_routes_filter [OF Cons.prems, of "\<lambda>p. fst p \<noteq> t"] refl] show ?case by (simp add: omap_erase_def)
qed simp

lemma ok_refresh_erase:
  "mqtt_ok s \<Longrightarrow> ks = mq_remote_diag_refresh_pending s \<Longrightarrow> mqtt_ok (s\<lparr>mq_remote_diag_refresh_pending := omap_erase key ks\<rparr>)"
  "mqtt_ok s \<Longrightarrow> ds = mq_delayed_diag_refresh_pending s \<Longrightarrow> mqtt_ok (s\<lparr>mq_delayed_diag_refresh_pending := omap_erase key ds\<rparr>)"
  by (auto simp: mqtt_ok_def omap_erase_def)

lemma ok_queue_refresh: "mqtt_ok s \<Longrightarrow> mqtt_ok (queue_remote_diag_refresh m s)"
  using set_omap_put [of "mac_hex m" "()" "mq_remote_diag_refresh_pending s"]
  by (auto simp: queue_remote_diag_refresh_def mqtt_ok_def mac_text_hex)

section \<open>Every operation keeps it\<close>

lemma ok_subscribe_route: "mqtt_ok s \<Longrightarrow> mqtt_ok (subscribe_route m i tk s)"
proof -
  assume ok: "mqtt_ok s"
  have "fst tk \<in> fst ` set (mq_subscribed_topics s)" if "omap_find (mq_subscribed_topics s) (fst tk) \<noteq> None"
    using that by (force simp: omap_find_def dest: map_of_SomeD)
  with ok show ?thesis
    by (cases "omap_find (mq_subscribed_topics s) (fst tk)")
       (auto simp: subscribe_route_def Let_def mqtt_ok_def omap_ok_put keys_omap_put)
qed

lemma ok_subscribe_routes: "mqtt_ok s \<Longrightarrow> mqtt_ok (fold (subscribe_route m i) tks s)"
  by (induction tks arbitrary: s) (simp_all add: ok_subscribe_route)

lemma ok_subscribe: "mqtt_ok s \<Longrightarrow> mqtt_ok (subscribe_command_topic env m entity s)"
  by (simp add: subscribe_command_topic_def remove_command_routes_for_entity_def ok_subscribe_routes ok_routes_filter)

lemma ok_subscribe_all: "mqtt_ok s \<Longrightarrow> mqtt_ok (fold (\<lambda>(i, entity). subscribe_command_topic env m entity) es s)"
  by (induction es arbitrary: s) (auto simp: ok_subscribe)

lemma ok_do_publish_discovery: "mqtt_ok s \<Longrightarrow> mqtt_ok (do_publish_discovery env key r s)"
  by (simp add: do_publish_discovery_def publish_eq protocol_discovery_confirmed_def Let_def ok_subscribe tables.I_calls
      ok_entities_put entity_record_ok_def)

lemma ok_publish_device_discovery: "mqtt_ok s \<Longrightarrow> mqtt_ok (publish_device_discovery env m s)"
  by (simp add: publish_device_discovery_def publish_eq Let_def ok_subscribe_all tables.I_calls split: option.split)

lemma ok_do_publish_state:
  assumes "mqtt_ok s"
  shows "mqtt_ok (snd (do_publish_state env key r s))"
proof -
  have ok: "mqtt_ok t" if "publish_all env ps b s = (c, t)" for ps b c t
    using tables.I_publish_all [of env ps b s] that assms by simp
  have "n + 1 \<le> 7" if "n < 7" for n :: u8 using that inc_le by blast
  then have f: "mqtt_ok (note_publish_failure env t)" if "mqtt_ok t" for t
    using that by (simp add: note_publish_failure_def Let_def mqtt_ok_def)
  show ?thesis
    by (simp add: do_publish_state_def note_published_def Let_def ok f ok_entities_put entity_record_ok_def assms
        split: prod.split)
qed

lemma ok_queue_discovery: "mqtt_ok s \<Longrightarrow> mqtt_ok (queue_discovery m entity n b name s)"
  by (simp add: queue_discovery_def Let_def ok_entities_put entity_record_ok_def)

lemma ok_queue_state:
  assumes "mqtt_ok s"
  shows "mqtt_ok (queue_state env m entity val ty text tx nh name s)"
proof -
  define r where "r = (case omap_find (mq_entities s) (entity_record_key s m (es_entity_index entity)) of
    Some r \<Rightarrow> r | None \<Rightarrow> mqtt_entity_initial)"
  have "entity_record_ok r" using ok_entity [OF assms]
    by (simp add: r_def entity_record_ok_def mqtt_entity_initial_def split: option.split)
  then show ?thesis
    unfolding queue_state_def Let_def r_def [symmetric]
    by (cases nh) (simp_all add: assms ok_entities_put entity_record_ok_def split: option.split)
qed

lemma ok_queue_availability: "mqtt_ok s \<Longrightarrow> mqtt_ok (queue_availability m online reason s)"
  by (simp add: queue_availability_def Let_def ok_queue_refresh ok_refresh_erase)

lemma ok_queue_clear_entity: "mqtt_ok s \<Longrightarrow> mqtt_ok (queue_clear_entity m es entity s)"
  by (simp add: queue_clear_entity_def Let_def remove_command_routes_for_entity_def ok_entities_erase ok_routes_filter)

lemma ok_queue_clear_entities:
  assumes "mqtt_ok s"
  shows "mqtt_ok (queue_clear_entities m es s)"
proof -
  have "mqtt_ok (fold (queue_clear_entity m es) xs s)" for xs
    using assms by (induction xs arbitrary: s) (simp_all add: ok_queue_clear_entity)
  then show ?thesis by (simp add: queue_clear_entities_def Let_def split: option.split)
qed

lemma ok_on_schema_complete: "mqtt_ok s \<Longrightarrow> mqtt_ok (on_schema_complete env m s)"
proof -
  have d: "mqtt_ok (t\<lparr>mq_delayed_diag_refresh_pending := omap_put (mac_hex m) due (mq_delayed_diag_refresh_pending t)\<rparr>)"
    if "mqtt_ok t" for t due
    using that set_omap_put [of "mac_hex m" due "mq_delayed_diag_refresh_pending t"] by (auto simp: mqtt_ok_def mac_text_hex)
  assume "mqtt_ok s"
  then show ?thesis
    by (simp add: on_schema_complete_def Let_def d ok_queue_refresh split: option.split)
qed

lemma ok_handle_command: "mqtt_ok s \<Longrightarrow> mqtt_ok (handle_command_message env topic payload s)"
  by (simp add: handle_command_message_def bridge_send_command_def Let_def split: option.split)

lemma ok_force_rejoin: "mqtt_ok s \<Longrightarrow> mqtt_ok (handle_force_rejoin_command payload s)"
  by (simp add: handle_force_rejoin_command_def split: option.split)

lemma ok_set_bridge_diag: "mqtt_ok s \<Longrightarrow> mqtt_ok (set_bridge_diag a b c d e f g s)"
  by (simp add: set_bridge_diag_def mqtt_ok_def)

lemma ok_on_reconnect: "mqtt_ok s \<Longrightarrow> mqtt_ok (on_reconnect s)"
proof -
  have q: "mqtt_ok (fold queue_remote_diag_refresh ms t)" if "mqtt_ok t" for ms t
    using that by (induction ms arbitrary: t) (simp_all add: ok_queue_refresh)
  have k: "map (fst \<circ> (\<lambda>(k, r). (k, f r))) xs = map fst xs" for xs :: "(string \<times> MqttEntityRecord) list" and f
    by (simp add: case_prod_beta)
  assume ok: "mqtt_ok s"
  show ?thesis unfolding on_reconnect_def
    by (rule q) (use ok in \<open>auto simp: mqtt_ok_def entity_record_ok_def omap_ok_def k\<close>)
qed

section \<open>The tick keeps it\<close>

lemma ok_bridge_discovery_stage: "mqtt_ok s \<Longrightarrow> mqtt_ok (snd (bridge_discovery_stage env s))"
proof -
  have all: "mqtt_ok u" if "publish_all env ps b t = (c, u)" "mqtt_ok t" for ps b c t u
    using tables.I_publish_all [of env ps b t] that by simp
  have b: "mqtt_ok (publish_force_rejoin_button_discovery env t)" if "mqtt_ok t" for t
    using that by (simp add: publish_force_rejoin_button_discovery_def publish_eq Let_def tables.I_calls)
  have d: "mqtt_ok (publish_bridge_diag_discovery env t)" if "mqtt_ok t" for t
    using that
    by (auto simp: publish_bridge_diag_discovery_def Let_def bridge_sensor_def mqtt_ok_frames dest: all split: prod.split)
  assume "mqtt_ok s"
  then show ?thesis by (simp add: bridge_discovery_stage_def Let_def b d)
qed

lemma ok_clear_stages:
  "mqtt_ok s \<Longrightarrow> mqtt_ok (snd (entity_clear_stage env s))" "mqtt_ok s \<Longrightarrow> mqtt_ok (snd (device_clear_stage env s))"
  "mqtt_ok s \<Longrightarrow> mqtt_ok (snd (availability_stage env s))"
  by (auto simp: entity_clear_stage_def device_clear_stage_def availability_stage_def do_clear_entity_def
      do_clear_device_discovery_def publish_eq mqtt_ok_frames ok_routes_erase Let_def split: list.split)

lemma ok_delayed_refreshes: "mqtt_ok s \<Longrightarrow> mqtt_ok (delayed_refreshes env ds s)"
proof (induction ds arbitrary: s)
  case (Cons d ds)
  then show ?case
    by (cases d) (simp add: Let_def ok_refresh_erase tables.I_first tables.I_remote_state_cached)
qed simp

lemma ok_remote_discovery: "mqtt_ok s \<Longrightarrow> mqtt_ok (publish_remote_diag_discovery env m s)"
proof -
  assume "mqtt_ok s"
  then have all: "mqtt_ok u" if "publish_all env ps b s = (c, u)" for ps b c u
    using tables.I_publish_all [of env ps b s] that by simp
  from \<open>mqtt_ok s\<close> show ?thesis
    by (auto simp: publish_remote_diag_discovery_def Let_def dest: all split: prod.split)
qed

lemma ok_refresh_stage: "mqtt_ok s \<Longrightarrow> mqtt_ok (snd (refresh_stage env ks s))"
proof (induction ks)
  case (Cons k ks)
  then show ?case
    by (cases k) (simp add: Let_def ok_remote_discovery tables.I_remote_state ok_refresh_erase tables.I_first split: option.split)
qed simp

lemma ok_device_stage: "mqtt_ok s \<Longrightarrow> mqtt_ok (device_stage env s)"
  by (simp add: device_stage_def ok_publish_device_discovery split: option.split prod.split)

lemma ok_state_stage: "mqtt_ok s \<Longrightarrow> mqtt_ok (state_stage env n ks s)"
proof (induction ks arbitrary: n s)
  case (Cons k ks)
  then show ?case
    by (simp add: Let_def ok_do_publish_discovery ok_do_publish_state ok_entities_put entity_record_ok_def split: option.split)
qed simp

lemma ok_run_stages:
  assumes "\<forall>f \<in> set fs. \<forall>s. mqtt_ok s \<longrightarrow> mqtt_ok (snd (f s))" "mqtt_ok s"
  shows "mqtt_ok (snd (run_tick_stages fs s))"
  using assms by (induction fs arbitrary: s) (auto simp: case_prod_beta Let_def)

lemma ok_tick_work:
  assumes "mqtt_ok s"
  shows "mqtt_ok (tick_work env s)"
proof -
  let ?fs = "[bridge_discovery_stage env, entity_clear_stage env, device_clear_stage env, availability_stage env,
    \<lambda>s. (False, delayed_refreshes env (mq_delayed_diag_refresh_pending s) s),
    \<lambda>s. refresh_stage env (mq_remote_diag_refresh_pending s) s]"
  have "mqtt_ok (snd (run_tick_stages ?fs s))"
    by (rule ok_run_stages [OF _ assms])
       (auto simp: ok_bridge_discovery_stage ok_clear_stages ok_delayed_refreshes ok_refresh_stage)
  then show ?thesis
    by (simp add: tick_work_def case_prod_beta Let_def ok_device_stage ok_state_stage tables.I_diag_stage del: run_tick_stages.simps)
qed

lemma ok_tick: "mqtt_ok s \<Longrightarrow> mqtt_ok (mqtt_tick env s)"
  by (simp add: mqtt_tick_def Let_def ok_tick_work ok_on_reconnect)

section \<open>Reachable states\<close>

text \<open>The bridge changes between the operations of the export; what arrives from the broker is a command or a request to rejoin.\<close>

inductive mqtt_reachable :: "mqtt \<Rightarrow> bool" where
  Start: "mqtt_reachable (mqtt_initial bridge bridge_mac prefix friendly_name topic)"
| Bridge_Runs: "mqtt_reachable s \<Longrightarrow> mqtt_reachable (s\<lparr>mq_bridge := c\<rparr>)"
| Discovery: "mqtt_reachable s \<Longrightarrow> mqtt_reachable (queue_discovery m entity n commandable name s)"
| State: "mqtt_reachable s \<Longrightarrow> mqtt_reachable (queue_state env m entity val ty text tx nh name s)"
| Availability: "mqtt_reachable s \<Longrightarrow> mqtt_reachable (queue_availability m online reason s)"
| Clear: "mqtt_reachable s \<Longrightarrow> mqtt_reachable (queue_clear_entities m entities s)"
| Schema_Complete: "mqtt_reachable s \<Longrightarrow> mqtt_reachable (on_schema_complete env m s)"
| Refresh: "mqtt_reachable s \<Longrightarrow> mqtt_reachable (queue_remote_diag_refresh m s)"
| Diag: "mqtt_reachable s \<Longrightarrow> mqtt_reachable (set_bridge_diag up online rssi ch ram cpu direct s)"
| Command: "mqtt_reachable s \<Longrightarrow> mqtt_reachable (handle_command_message env topic payload s)"
| Rejoin: "mqtt_reachable s \<Longrightarrow> mqtt_reachable (handle_force_rejoin_command payload s)"
| Tick: "mqtt_reachable s \<Longrightarrow> mqtt_reachable (mqtt_tick env s)"

lemma reachable_ok: "mqtt_reachable s \<Longrightarrow> mqtt_ok s"
proof (induction rule: mqtt_reachable.induct)
  case (Start bridge bridge_mac prefix friendly_name topic)
  show ?case by (simp add: mqtt_ok_def mqtt_initial_def)
qed (simp_all add: ok_queue_discovery ok_queue_state ok_queue_availability ok_queue_clear_entities ok_on_schema_complete
    ok_queue_refresh ok_set_bridge_diag ok_handle_command ok_force_rejoin ok_tick)

section \<open>Routes\<close>

lemma find_filter_none:
  "omap_find (filter (\<lambda>(k, v). \<not> P v) m) k = Some v \<Longrightarrow> \<not> P v"
  by (auto simp: omap_find_def dest!: map_of_SomeD)

lemma subscribed_route:
  "omap_find (mq_command_routes (fold (subscribe_route m i) tks s)) topic =
     (case map_of (rev tks) topic of
        Some kind \<Rightarrow> Some \<lparr>cr_leaf_mac = m, cr_entity_index = i, cr_route_kind = kind\<rparr>
      | None \<Rightarrow> omap_find (mq_command_routes s) topic)"
proof (induction tks arbitrary: s)
  case (Cons tk tks)
  then show ?case
    by (cases tk) (simp add: subscribe_route_def Let_def omap_find_put map_add_def split: option.split)
qed simp

lemma entity_topic_inject: "entity_topic s m object_id a = entity_topic s m object_id b \<longleftrightarrow> a = b"
  by (simp add: entity_topic_def)

lemma distinct_command_topics: "distinct (map fst (command_topic_kinds s m entity object_id))"
  by (auto simp: command_topic_kinds_def Let_def entity_topic_inject)

lemma subscribe_same [simp]:
  "mq_bridge (fold (subscribe_route m i) tks s) = mq_bridge s" "mq_entities (fold (subscribe_route m i) tks s) = mq_entities s"
  "mq_devices (fold (subscribe_route m i) tks s) = mq_devices s"
  by (induction tks arbitrary: s) (simp_all add: subscribe_route_def Let_def)

lemma subscribe_finds:
  assumes "mqtt_connected env" "(topic, kind) \<in> set (command_topic_kinds s m entity (mqtt_object_id s m entity))"
  shows "omap_find (mq_command_routes (subscribe_command_topic env m entity s)) topic =
    Some \<lparr>cr_leaf_mac = m, cr_entity_index = es_entity_index entity, cr_route_kind = kind\<rparr>"
proof -
  let ?tks = "command_topic_kinds s m entity (mqtt_object_id s m entity)"
  have "is_commandable_type (es_entity_type entity)" using assms(2) by (auto simp: command_topic_kinds_def split: if_splits)
  moreover have "map_of (rev ?tks) topic = Some kind"
    using assms(2) distinct_command_topics by (simp add: map_of_eq_Some_iff flip: rev_map)
  ultimately show ?thesis using assms(1) by (simp add: subscribe_command_topic_def subscribed_route)
qed

lemma subscribed_after: "(topic, kind) \<in> set tks \<Longrightarrow> omap_find (mq_subscribed_topics (fold (subscribe_route m i) tks s)) topic \<noteq> None"
proof (induction tks arbitrary: s)
  case (Cons tk tks)
  have keep: "omap_find (mq_subscribed_topics (fold (subscribe_route m i) xs t)) topic \<noteq> None"
    if "omap_find (mq_subscribed_topics t) topic \<noteq> None" for xs t
    using that by (induction xs arbitrary: t) (auto simp: subscribe_route_def Let_def omap_find_put)
  have "omap_find (mq_subscribed_topics (subscribe_route m i (topic, kind) s)) topic \<noteq> None"
    by (simp add: subscribe_route_def Let_def omap_find_put)
  from keep [OF this] Cons show ?case by auto
qed simp

text \<open>The names of the topics do not depend on the calls made.\<close>

lemma topics_calls [simp]:
  "mqtt_object_id (s\<lparr>mq_calls := cs\<rparr>) = mqtt_object_id s" "mqtt_node_key (s\<lparr>mq_calls := cs\<rparr>) = mqtt_node_key s"
  "command_topic_kinds (s\<lparr>mq_calls := cs\<rparr>) = command_topic_kinds s"
  by (intro ext; simp add: mqtt_object_id_def mqtt_node_key_def command_topic_kinds_def entity_topic_def Let_def)+

definition command_members :: "(string \<times> CommandRouteKind) list" where
  "command_members = [(''cmd_t'', PRIMARY), (''pct_cmd_t'', FAN_SPEED), (''osc_cmd_t'', FAN_OSCILLATION), (''dir_cmd_t'', FAN_DIRECTION)]"

lemma discovery_routes:
  assumes "mqtt_connected env" "(topic, kind) \<in> set (command_topic_kinds s (me_leaf_mac r) (me_schema r)
      (mqtt_object_id s (me_leaf_mac r) (me_schema r)))"
  shows "omap_find (mq_command_routes (do_publish_discovery env key r s)) topic =
    Some \<lparr>cr_leaf_mac = me_leaf_mac r, cr_entity_index = es_entity_index (me_schema r), cr_route_kind = kind\<rparr>"
  using subscribe_finds [OF assms(1), of topic kind "s\<lparr>mq_calls := cs\<rparr>" "me_leaf_mac r" "me_schema r" for cs] assms
  by (simp add: do_publish_discovery_def publish_eq protocol_discovery_confirmed_def Let_def)

lemma discovery_subscribes:
  assumes "mqtt_connected env" "(topic, kind) \<in> set (command_topic_kinds s (me_leaf_mac r) (me_schema r)
      (mqtt_object_id s (me_leaf_mac r) (me_schema r)))"
  shows "omap_find (mq_subscribed_topics (do_publish_discovery env key r s)) topic \<noteq> None"
proof -
  have "is_commandable_type (es_entity_type (me_schema r))" using assms(2) by (auto simp: command_topic_kinds_def split: if_splits)
  then show ?thesis
    using assms subscribed_after [OF assms(2)]
    by (simp add: do_publish_discovery_def publish_eq protocol_discovery_confirmed_def subscribe_command_topic_def Let_def)
qed

text \<open>What the document announces is among the topics that are routed.\<close>

lemma map_of_app: "map_of (xs @ ys) k = (case map_of xs k of None \<Rightarrow> map_of ys k | Some v \<Rightarrow> Some v)"
  by (simp add: map_add_def)

lemma map_of_if: "map_of (if b then xs else ys) k = (if b then map_of xs k else map_of ys k)"
  by simp

lemmas document_simps = map_of_app map_of_if Let_def

lemma announced_in_component:
  assumes "(field, kind) \<in> set command_members"
  shows "map_of (entity_discovery_document s r) field = map_of (build_entity_component s (me_leaf_mac r) (me_schema r)) field"
  using assms by (auto simp: entity_discovery_document_def command_members_def document_simps)

lemma fan_members:
  "map_of (entity_document_fan s m entity) ''cmd_t'' = Some (JStr (command_topic s m entity))"
  "map_of (entity_document_fan s m entity) ''pct_cmd_t'' =
     (if option_u32 (parse_options_map (es_entity_options entity)) ''speed_count'' 0 > 0
      then Some (JStr (fan_speed_command_topic s m entity)) else None)"
  "map_of (entity_document_fan s m entity) ''osc_cmd_t'' =
     (if option_is_true (parse_options_map (es_entity_options entity)) ''oscillation''
      then Some (JStr (fan_oscillation_command_topic s m entity)) else None)"
  "map_of (entity_document_fan s m entity) ''dir_cmd_t'' =
     (if option_is_true (parse_options_map (es_entity_options entity)) ''direction''
      then Some (JStr (fan_direction_command_topic s m entity)) else None)"
  unfolding entity_document_fan_def by (simp_all add: document_simps cong: if_cong)

lemma light_members:
  "map_of (entity_document_light s m entity) ''cmd_t'' = Some (JStr (command_topic s m entity))"
  "map_of (entity_document_light s m entity) ''pct_cmd_t'' = None"
  "map_of (entity_document_light s m entity) ''osc_cmd_t'' = None"
  "map_of (entity_document_light s m entity) ''dir_cmd_t'' = None"
  unfolding entity_document_light_def by (simp_all add: document_simps)

lemma announced_fan:
  assumes "map_of (entity_document_fan s m entity) field = Some (JStr topic)" "(field, kind) \<in> set command_members"
    "es_entity_type entity = field_type_code FIELD_TYPE_FAN"
  shows "(topic, kind) \<in> set (command_topic_kinds s m entity (mqtt_object_id s m entity))"
proof -
  have c: "is_commandable_type (field_type_code FIELD_TYPE_FAN)" by (simp add: is_commandable_type_def)
  from assms(2) consider "field = ''cmd_t''" "kind = PRIMARY" | "field = ''pct_cmd_t''" "kind = FAN_SPEED"
    | "field = ''osc_cmd_t''" "kind = FAN_OSCILLATION" | "field = ''dir_cmd_t''" "kind = FAN_DIRECTION"
    by (auto simp: command_members_def)
  then show ?thesis
    using assms(1) c unfolding command_topic_kinds_def Let_def assms(3)
    by cases (simp_all add: fan_members command_topic_def fan_speed_command_topic_def fan_oscillation_command_topic_def
        fan_direction_command_topic_def split: if_splits)
qed

definition has_plain_command :: "u8 \<Rightarrow> bool" where
  "has_plain_command ty \<longleftrightarrow> ty \<in> field_type_code ` {FIELD_TYPE_SWITCH, FIELD_TYPE_LOCK, FIELD_TYPE_BUTTON, FIELD_TYPE_COVER,
     FIELD_TYPE_VALVE, FIELD_TYPE_LIGHT}"

lemma other_members:
  assumes "es_entity_type entity \<noteq> field_type_code FIELD_TYPE_FAN"
  shows "map_of (build_entity_component s m entity) ''cmd_t'' =
      (if has_plain_command (es_entity_type entity) then Some (JStr (command_topic s m entity)) else None)"
    "map_of (build_entity_component s m entity) ''pct_cmd_t'' = None"
    "map_of (build_entity_component s m entity) ''osc_cmd_t'' = None"
    "map_of (build_entity_component s m entity) ''dir_cmd_t'' = None"
  using assms unfolding build_entity_component_def has_plain_command_def
  by (simp_all add: document_simps light_members)

lemma announced_other:
  assumes "map_of (build_entity_component s m entity) field = Some (JStr topic)" "(field, kind) \<in> set command_members"
    "es_entity_type entity \<noteq> field_type_code FIELD_TYPE_FAN"
  shows "is_commandable_type (es_entity_type entity) \<and> topic = command_topic s m entity \<and> kind = PRIMARY"
proof -
  have c: "has_plain_command (es_entity_type entity) \<Longrightarrow> is_commandable_type (es_entity_type entity)"
    by (auto simp: has_plain_command_def is_commandable_type_def)
  from assms(2) consider "field = ''cmd_t''" "kind = PRIMARY" | "field = ''pct_cmd_t''"
    | "field = ''osc_cmd_t''" | "field = ''dir_cmd_t''"
    by (auto simp: command_members_def)
  then show ?thesis
    using assms(1) c by cases (simp_all add: other_members [OF assms(3)] split: if_splits)
qed

lemma announced_is_routed:
  assumes "map_of (entity_discovery_document s r) field = Some (JStr topic)" "(field, kind) \<in> set command_members"
  shows "(topic, kind) \<in> set (command_topic_kinds s (me_leaf_mac r) (me_schema r) (mqtt_object_id s (me_leaf_mac r) (me_schema r)))"
proof (cases "es_entity_type (me_schema r) = field_type_code FIELD_TYPE_FAN")
  case True
  have "field \<notin> {''p'', ''unique_id'', ''name'', ''stat_t'', ''unit_of_meas''}" using assms(2) by (auto simp: command_members_def)
  then have "map_of (entity_document_fan s (me_leaf_mac r) (me_schema r)) field = Some (JStr topic)"
    using assms(1) True unfolding announced_in_component [OF assms(2)] build_entity_component_def
    by (simp add: document_simps split: if_splits)
  from announced_fan [OF this assms(2) True] show ?thesis .
next
  case False
  from announced_other [OF assms(1) [unfolded announced_in_component [OF assms(2)]] assms(2) this] show ?thesis
    by (simp add: command_topic_kinds_def command_topic_def Let_def)
qed

text \<open>Four types of entity take commands and are announced without a topic for them.\<close>

lemma no_command_topic_announced:
  assumes "es_entity_type (me_schema r) \<in> field_type_code ` {FIELD_TYPE_NUMBER, FIELD_TYPE_TEXT, FIELD_TYPE_SELECT, FIELD_TYPE_ALARM}"
  shows "is_commandable_type (es_entity_type (me_schema r))"
    "map_of (entity_discovery_document s r) ''cmd_t'' = None" "map_of (entity_discovery_document s r) ''command_topic'' = None"
  using assms unfolding entity_discovery_document_def build_entity_component_def is_commandable_type_def
  by (auto simp: document_simps)

section \<open>Changed states\<close>

definition dirty_keys :: "mqtt \<Rightarrow> string list" where
  "dirty_keys s = map fst (filter (me_state_dirty \<circ> snd) (mq_entities s))"

text \<open>Everything is announced and nothing but states has to be sent.\<close>

definition settled :: "mqtt \<Rightarrow> bool" where
  "settled s \<longleftrightarrow>
     mq_was_connected s \<and> mq_backoff_until_ms s = 0 \<and> mq_bridge_diag_discovery_published s \<and>
     mq_pending_entity_clears s = [] \<and> mq_pending_device_clears s = [] \<and> mq_availability_queue s = [] \<and>
     mq_delayed_diag_refresh_pending s = [] \<and> mq_remote_diag_refresh_pending s = [] \<and>
     (\<forall>p \<in> set (mq_devices s). \<not> md_discovery_dirty (snd p)) \<and>
     omap_ok (mq_entities s) \<and>
     (\<forall>p \<in> set (mq_entities s). me_discovery_published (snd p) \<and> \<not> me_first_state_publish_pending (snd p))"

text \<open>The broker takes everything and the clock never moves far within a tick.\<close>

definition prompt :: "mqtt_env \<Rightarrow> bool" where
  "prompt env \<longleftrightarrow> mqtt_connected env \<and> (\<forall>calls. mv_publish env calls) \<and> (\<forall>n k. mv_now env (n + k) - mv_now env n < LOOP_TIME_BUDGET_MS)"

interpretation settled: export_property "\<lambda>s. settled s \<and> dirty_keys s = ks" for ks
  by unfold_locales (simp_all add: settled_def dirty_keys_def)

lemma prompt_publish_all: "prompt env \<Longrightarrow> \<exists>cs. publish_all env ps retain s = (True, s\<lparr>mq_calls := mq_calls s @ cs\<rparr>)"
proof (induction ps arbitrary: s)
  case Nil
  have "s\<lparr>mq_calls := mq_calls s @ []\<rparr> = s" by simp
  then show ?case by (metis publish_all.simps(1))
next
  case (Cons p ps)
  obtain topic payload where p: "p = (topic, payload)" by (cases p)
  let ?call = "MqttPublish topic payload retain True"
  obtain cs where "publish_all env ps retain (s\<lparr>mq_calls := mq_calls s @ [?call]\<rparr>) =
      (True, s\<lparr>mq_calls := mq_calls s @ [?call] @ cs\<rparr>)"
    using Cons.IH [OF Cons.prems, of "s\<lparr>mq_calls := mq_calls s @ [?call]\<rparr>"] by auto
  then show ?case using Cons.prems by (auto simp: p publish_all.simps publish_eq prompt_def)
qed

definition in_tick :: "mqtt_env \<Rightarrow> mqtt \<Rightarrow> bool" where
  "in_tick env s \<longleftrightarrow> (\<exists>n k. length (mq_calls s) = n + k \<and> mq_tick_enter_ms s = mv_now env n)"

lemma in_budget: "prompt env \<Longrightarrow> in_tick env s \<Longrightarrow> \<not> tick_budget_exceeded env s"
  by (auto simp: in_tick_def prompt_def tick_budget_exceeded_def mqtt_now_def not_le)

lemma dirty_put:
  assumes "omap_ok es" "omap_find es k = Some r" "\<not> D r'"
  shows "map fst (filter (D \<circ> snd) (omap_put k r' es)) = filter (\<lambda>x. x \<noteq> k) (map fst (filter (D \<circ> snd) es))"
  using assms
proof (induction es)
  case (Cons p es)
  obtain k' v' where p: "p = (k', v')" by (cases p)
  have above: "\<forall>x \<in> fst ` set es. k' < x" using Cons.prems(1) by (auto simp: omap_ok_def p)
  show ?case
  proof (cases "k = k'")
    case True
    then have "\<forall>x \<in> set es. fst x \<noteq> k" using above by force
    then have "filter (\<lambda>x. x \<noteq> k) (map fst (filter (D \<circ> snd) es)) = map fst (filter (D \<circ> snd) es)" by (auto simp: filter_id_conv)
    then show ?thesis using True Cons.prems(3) by (simp add: p comp_def)
  next
    case False
    then have f: "omap_find es k = Some r" using Cons.prems(2) by (simp add: omap_find_def p)
    then have "k \<in> fst ` set es" by (force simp: omap_find_def dest: map_of_SomeD)
    then have "k' < k" using above by blast
    moreover have "omap_ok es" using Cons.prems(1) by (simp add: omap_ok_def)
    ultimately show ?thesis using Cons.IH [OF _ f Cons.prems(3)] False by (auto simp: p)
  qed
qed (simp add: omap_find_def)

lemma omap_put_same: "omap_ok es \<Longrightarrow> omap_find es k = Some r \<Longrightarrow> omap_put k r es = es"
proof (induction es)
  case (Cons p es)
  obtain k' v' where p: "p = (k', v')" by (cases p)
  have above: "\<forall>x \<in> fst ` set es. k' < x" using Cons.prems(1) by (auto simp: omap_ok_def p)
  show ?case
  proof (cases "k = k'")
    case False
    then have f: "omap_find es k = Some r" using Cons.prems(2) by (simp add: omap_find_def p)
    then have "k \<in> fst ` set es" by (force simp: omap_find_def dest: map_of_SomeD)
    then have "k' < k" using above by blast
    moreover have "omap_ok es" using Cons.prems(1) by (simp add: omap_ok_def)
    ultimately show ?thesis using Cons.IH [OF _ f] by (auto simp: p)
  qed (use Cons.prems(2) in \<open>simp add: p omap_find_def\<close>)
qed (simp add: omap_find_def)

lemma dirty_iff: "settled s \<Longrightarrow> omap_find (mq_entities s) k = Some r \<Longrightarrow> me_state_dirty r \<longleftrightarrow> k \<in> set (dirty_keys s)"
  using omap_ok_entries [of "mq_entities s"] by (force simp: settled_def dirty_keys_def)

lemma dirty_found: "k \<in> set (dirty_keys s) \<Longrightarrow> omap_find (mq_entities s) k \<noteq> None"
  by (auto simp: dirty_keys_def omap_find_def map_of_eq_None_iff image_iff) (metis fst_conv)

text \<open>Publishing a state takes it out of the changed ones and leaves everything else as it is.\<close>

lemma publish_one:
  assumes "prompt env" "settled s" "in_tick env s" "omap_find (mq_entities s) key = Some r"
  defines "s1 \<equiv> snd (do_publish_state env key r s)"
  shows "settled s1" "in_tick env s1" "dirty_keys s1 = filter (\<lambda>k. k \<noteq> key) (dirty_keys s)"
proof -
  obtain cs where p: "publish_all env (state_calls env s r) False s = (True, s\<lparr>mq_calls := mq_calls s @ cs\<rparr>)"
    using prompt_publish_all [OF assms(1)] by blast
  define r1 where "r1 = (let r0 = r\<lparr>me_text_value := [], me_state_dirty := False, me_first_state_publish_pending := False\<rparr>
    in if me_pending_state_ack r then r0\<lparr>me_pending_state_ack := False\<rparr> else r0)"
  have s1: "\<exists>c. s1 = s\<lparr>mq_calls := mq_calls s @ cs, mq_bridge := c, mq_entities := omap_put key r1 (mq_entities s)\<rparr>"
  proof (cases "me_pending_state_ack r")
    case False
    then have "s1 = s\<lparr>mq_calls := mq_calls s @ cs, mq_bridge := mq_bridge s, mq_entities := omap_put key r1 (mq_entities s)\<rparr>"
      using assms(1) by (simp add: s1_def do_publish_state_def p note_published_def r1_def prompt_def Let_def)
    then show ?thesis by blast
  qed (use assms(1) in \<open>auto simp: s1_def do_publish_state_def p note_published_def r1_def prompt_def Let_def\<close>)
  then obtain c where c: "s1 = s\<lparr>mq_calls := mq_calls s @ cs, mq_bridge := c, mq_entities := omap_put key r1 (mq_entities s)\<rparr>" ..
  have r: "me_discovery_published r1" "\<not> me_first_state_publish_pending r1" "\<not> me_state_dirty r1"
    using assms(2, 4) map_of_SomeD [of "mq_entities s" key r] by (auto simp: r1_def Let_def settled_def omap_find_def)
  have ok: "omap_ok (mq_entities s)" using assms(2) by (simp add: settled_def)
  show "settled s1"
    using assms(2) r set_omap_put [of key r1 "mq_entities s"] by (auto simp: c settled_def omap_ok_put)
  show "in_tick env s1"
    using assms(3) unfolding in_tick_def c by (auto simp: add.assoc) metis
  show "dirty_keys s1 = filter (\<lambda>k. k \<noteq> key) (dirty_keys s)"
    using dirty_put [OF ok assms(4), of me_state_dirty r1] r(3) by (simp add: c dirty_keys_def)
qed

lemma state_stage_step:
  assumes "prompt env" "settled s" "in_tick env s"
  shows "state_stage env n (k # ks) s =
    (if k \<in> set (dirty_keys s)
     then let s1 = snd (do_publish_state env k (the (omap_find (mq_entities s) k)) s)
          in if n + 1 \<ge> 2 then s1 else state_stage env (n + 1) ks s1
     else state_stage env n ks s)"
proof (cases "omap_find (mq_entities s) k")
  case None
  then show ?thesis using dirty_found [of k s] in_budget [OF assms(1, 3)] by auto
next
  case (Some r)
  have r: "me_discovery_published r" "\<not> me_first_state_publish_pending r"
    using assms(2) Some map_of_SomeD [of "mq_entities s" k r] by (auto simp: settled_def omap_find_def)
  have r1: "r\<lparr>me_first_state_publish_pending := False\<rparr> = r" using r(2) by (cases r) simp
  have "s\<lparr>mq_entities := omap_put k r (mq_entities s)\<rparr> = s"
    using omap_put_same [OF _ Some] assms(2) by (simp add: settled_def)
  then show ?thesis
    using dirty_iff [OF assms(2) Some] in_budget [OF assms(1, 3)] by (simp add: Some r r1 Let_def)
qed

lemma state_stage_cleans:
  assumes "prompt env" "settled s" "in_tick env s" "n < 2" "distinct ks"
  shows "settled (state_stage env n ks s) \<and>
    dirty_keys (state_stage env n ks s) =
      filter (\<lambda>k. k \<notin> set (take (2 - n) (filter (\<lambda>k. k \<in> set (dirty_keys s)) ks))) (dirty_keys s)"
  using assms(2-5)
proof (induction ks arbitrary: n s)
  case (Cons k ks)
  note step = state_stage_step [OF assms(1) Cons.prems(1, 2), of n k ks]
  show ?case
  proof (cases "k \<in> set (dirty_keys s)")
    case True
    define s1 where "s1 = snd (do_publish_state env k (the (omap_find (mq_entities s) k)) s)"
    from dirty_found [OF True] have "omap_find (mq_entities s) k = Some (the (omap_find (mq_entities s) k))" by auto
    note one = publish_one [OF assms(1) Cons.prems(1, 2) this, folded s1_def]
    have f: "filter (\<lambda>x. x \<in> set (dirty_keys s1)) ks = filter (\<lambda>x. x \<in> set (dirty_keys s)) ks"
      using Cons.prems(4) by (auto simp: one(3) intro!: filter_cong)
    show ?thesis
    proof (cases "n = 0")
      case True
      then have "settled (state_stage env 1 ks s1) \<and> dirty_keys (state_stage env 1 ks s1) =
          filter (\<lambda>x. x \<notin> set (take 1 (filter (\<lambda>x. x \<in> set (dirty_keys s)) ks))) (filter (\<lambda>x. x \<noteq> k) (dirty_keys s))"
        using Cons.IH [OF one(1, 2), of 1] Cons.prems(4) f one(3) by simp
      then show ?thesis using step True \<open>k \<in> set (dirty_keys s)\<close>
        by (auto simp: s1_def [symmetric] Let_def numeral_2_eq_2 intro!: filter_cong)
    next
      case False
      then have "n = 1" using Cons.prems(3) by simp
      then show ?thesis using step True one by (auto simp: s1_def [symmetric] Let_def intro!: filter_cong)
    qed
  qed (use step Cons.IH [OF Cons.prems(1-3)] Cons.prems(4) in simp)
qed simp

lemma take_is_gone: "distinct xs \<Longrightarrow> filter (\<lambda>x. x \<notin> set (take n xs)) xs = drop n xs"
proof -
  assume d: "distinct xs"
  then have "set (take n xs) \<inter> set (drop n xs) = {}" by (simp add: set_take_disj_set_drop_if_distinct)
  then have "filter (\<lambda>x. x \<notin> set (take n xs)) (take n xs @ drop n xs) = drop n xs"
    by (auto simp: filter_empty_conv filter_id_conv simp del: append_take_drop_id)
  then show ?thesis by simp
qed

text \<open>A tick sends the first two changed states.\<close>

lemma tick_sends_two:
  assumes "prompt env" "settled s"
  shows "settled (mqtt_tick env s) \<and> dirty_keys (mqtt_tick env s) = drop 2 (dirty_keys s)"
proof -
  define s0 where "s0 = s\<lparr>mq_tick_enter_ms := mqtt_now env s\<rparr>"
  let ?ks = "map fst (mq_entities s0)"
  have s0: "settled s0" "dirty_keys s0 = dirty_keys s" using assms(2) by (simp_all add: s0_def settled_def dirty_keys_def)
  have t: "in_tick env s0" unfolding in_tick_def by (rule exI [of _ "length (mq_calls s)"]) (simp add: s0_def mqtt_now_def)
  have d: "distinct ?ks" using s0(1) by (simp add: settled_def omap_ok_distinct)
  have "filter (\<lambda>k. k \<in> set (dirty_keys s0)) ?ks = dirty_keys s0"
  proof -
    have "me_state_dirty (snd p) \<longleftrightarrow> fst p \<in> set (dirty_keys s0)" if "p \<in> set (mq_entities s0)" for p
      using dirty_iff [OF s0(1), of "fst p" "snd p"] that s0(1) omap_ok_entries [of "mq_entities s0" "fst p" "snd p"]
      by (simp add: settled_def)
    then have "filter (\<lambda>p. fst p \<in> set (dirty_keys s0)) (mq_entities s0) = filter (me_state_dirty \<circ> snd) (mq_entities s0)"
      by (intro filter_cong) simp_all
    then show ?thesis by (simp add: filter_map comp_def dirty_keys_def)
  qed
  moreover have "distinct (dirty_keys s0)" using d by (simp add: dirty_keys_def distinct_map_filter)
  ultimately have st: "settled (state_stage env 0 ?ks s0) \<and> dirty_keys (state_stage env 0 ?ks s0) = drop 2 (dirty_keys s)"
    using state_stage_cleans [OF assms(1) s0(1) t _ d, of 0] s0(2) by (simp add: take_is_gone)
  have no_dirty: "find (\<lambda>(k, d). md_discovery_dirty d) (mq_devices s0) = None"
    using s0(1) by (auto simp: settled_def find_None_iff)
  have b: "s0\<lparr>mq_backoff_until_ms := 0, mq_was_connected := True\<rparr> = s0"
    using s0(1) by (cases s0) (simp add: settled_def)
  from no_dirty have "mqtt_tick env s = diagnostics_stage env (state_stage env 0 ?ks s0)"
    using assms(1) s0(1)
    by (simp add: b mqtt_tick_def tick_work_def s0_def [symmetric] settled_def prompt_def Let_def bridge_discovery_stage_def
        entity_clear_stage_def device_clear_stage_def availability_stage_def device_stage_def)
  then show ?thesis using st settled.I_diag_stage [of env "state_stage env 0 ?ks s0"] by simp
qed

lemma ticks_send_states:
  "\<forall>env \<in> set envs. prompt env \<Longrightarrow> settled s \<Longrightarrow>
     settled (fold mqtt_tick envs s) \<and> dirty_keys (fold mqtt_tick envs s) = drop (2 * length envs) (dirty_keys s)"
  by (induction envs arbitrary: s) (auto simp: tick_sends_two)

section \<open>What goes wrong\<close>

lemma find_put_other:
  assumes "omap_ok ds" "omap_find ds nk \<noteq> None" "nk \<noteq> k" "find (\<lambda>(k, d). D d) ds = Some (k, d)" "\<not> D d'"
  shows "find (\<lambda>(k, d). D d) (omap_put nk d' ds) = Some (k, d)"
  using assms
proof (induction ds)
  case (Cons p ds)
  obtain k' v' where p: "p = (k', v')" by (cases p)
  have above: "\<forall>x \<in> fst ` set ds. k' < x" using Cons.prems(1) by (auto simp: omap_ok_def p)
  show ?case
  proof (cases "nk = k'")
    case True
    with Cons.prems(3-5) show ?thesis by (auto simp: p split: if_splits)
  next
    case False
    then have f: "omap_find ds nk \<noteq> None" using Cons.prems(2) by (simp add: omap_find_def p)
    then have "nk \<in> fst ` set ds" by (auto simp: omap_find_def map_of_eq_None_iff)
    then have n: "k' < nk" using above by blast
    have "omap_ok ds" using Cons.prems(1) by (simp add: omap_ok_def)
    with Cons.IH [OF _ f Cons.prems(3) _ Cons.prems(5)] Cons.prems(4) n False show ?thesis by (auto simp: p split: if_splits)
  qed
qed simp

lemma subscribe_keeps_devices [simp]: "mq_devices (subscribe_command_topic env m entity s) = mq_devices s"
  by (simp add: subscribe_command_topic_def remove_command_routes_for_entity_def)

lemma subscribe_all_keeps_devices [simp]:
  "mq_devices (fold (\<lambda>(i, entity). subscribe_command_topic env m entity) es s) = mq_devices s"
  by (induction es arbitrary: s) auto

lemma subscribe_keeps_bridge [simp]: "mq_bridge (subscribe_command_topic env m entity s) = mq_bridge s"
  by (simp add: subscribe_command_topic_def remove_command_routes_for_entity_def)

lemma subscribe_all_keeps_bridge [simp]:
  "mq_bridge (fold (\<lambda>(i, entity). subscribe_command_topic env m entity) es s) = mq_bridge s"
  by (induction es arbitrary: s) auto

text \<open>
  A device record whose remote has another name by now is looked up under the new name: it is never marked as
  announced, and as it stays the first that has to be, no device behind it is announced either.
\<close>

definition first_dirty_device :: "mqtt \<Rightarrow> (string \<times> MqttDeviceRecord) option" where
  "first_dirty_device s = find (\<lambda>(k, d). md_discovery_dirty d) (mq_devices s)"

lemma renamed_device_stays_first:
  assumes "omap_ok (mq_devices s)" "first_dirty_device s = Some (k, d)" "mqtt_node_key s (md_leaf_mac d) \<noteq> k"
  shows "first_dirty_device (device_stage env s) = Some (k, d)" "mq_bridge (device_stage env s) = mq_bridge s"
    "omap_ok (mq_devices (device_stage env s))"
    "k' \<noteq> mqtt_node_key s (md_leaf_mac d) \<Longrightarrow> omap_find (mq_devices (device_stage env s)) k' = omap_find (mq_devices s) k'"
proof -
  have d: "device_stage env s = publish_device_discovery env (md_leaf_mac d) s"
    using assms(2) by (simp add: device_stage_def first_dirty_device_def)
  show "mq_bridge (device_stage env s) = mq_bridge s" "omap_ok (mq_devices (device_stage env s))"
    "k' \<noteq> mqtt_node_key s (md_leaf_mac d) \<Longrightarrow> omap_find (mq_devices (device_stage env s)) k' = omap_find (mq_devices s) k'"
    using assms(1)
    by (simp_all add: d publish_device_discovery_def publish_eq Let_def omap_ok_put omap_find_put split: option.split)
  show "first_dirty_device (device_stage env s) = Some (k, d)"
  proof (cases "omap_find (mq_devices s) (mqtt_node_key s (md_leaf_mac d))")
    case (Some dev)
    then have "omap_find (mq_devices s) (mqtt_node_key s (md_leaf_mac d)) \<noteq> None" by simp
    note f = find_put_other [OF assms(1) this assms(3) assms(2) [unfolded first_dirty_device_def]]
    show ?thesis
      using assms(2) by (simp add: d first_dirty_device_def publish_device_discovery_def Some publish_eq Let_def f)
  qed (use assms(2) in \<open>simp add: d first_dirty_device_def publish_device_discovery_def\<close>)
qed

text \<open>
  The clear of an entity that the broker does not take lets the tick go on with announcements; when it is taken
  later, it removes the routes of its topics, whoever they lead to by then.
\<close>

lemma failed_clear_goes_on:
  "mqtt_connected env \<Longrightarrow> \<not> mv_publish env (mq_calls s) \<Longrightarrow> \<not> tick_budget_exceeded env s \<Longrightarrow>
    fst (entity_clear_stage env s) = False \<and> mq_pending_entity_clears (snd (entity_clear_stage env s)) = mq_pending_entity_clears s"
  by (simp add: entity_clear_stage_def do_clear_entity_def publish_eq split: list.split)

lemma find_erased: "omap_find (fold omap_erase ks m) k = (if k \<in> set ks then None else omap_find m k)"
  by (induction ks arbitrary: m) (simp_all add: omap_find_erase)

lemma late_clear_removes_routes:
  assumes "mqtt_connected env" "mv_publish env (mq_calls s)" "\<not> tick_budget_exceeded env s"
    "mq_pending_entity_clears s = (key, pending) # rest" "topic \<in> set (pec_command_topics pending)"
  shows "omap_find (mq_command_routes (snd (entity_clear_stage env s))) topic = None"
  using assms by (simp add: entity_clear_stage_def do_clear_entity_def publish_eq find_erased)

text \<open>After a reconnection every record counts as changed, also one no state has ever been received for; it is published as if it had one.\<close>

lemma queue_refreshes_keep [simp]: "mq_entities (fold queue_remote_diag_refresh ms s) = mq_entities s"
  by (induction ms arbitrary: s) (simp_all add: queue_remote_diag_refresh_def)

lemma reconnect_marks_all: "\<forall>p \<in> set (mq_entities (on_reconnect s)). me_state_dirty (snd p)"
  by (auto simp: on_reconnect_def)

lemma unknown_lock_is_unlocked:
  "me_current_type r = field_type_code FIELD_TYPE_LOCK \<Longrightarrow> me_current_value r = [] \<Longrightarrow>
    state_calls env s r = [(state_topic s (me_leaf_mac r) (me_schema r), Text ''UNLOCKED'')]"
  by (simp add: state_calls_def encode_state_payload_def)

text \<open>The end of a pause is compared without regard to the wrap of the clock: read just behind the wrap, a pause lasts until the next one.\<close>

lemma pause_until_wrap:
  assumes "mqtt_connected env" "mq_backoff_until_ms s = 0xFFFFFFF0" "mqtt_now env s = t" "t < 0xFFFFFFF0"
  shows "mqtt_tick env s = s\<lparr>mq_tick_enter_ms := t\<rparr>"
proof -
  have "mqtt_now env (s\<lparr>mq_tick_enter_ms := t\<rparr>) = t" using assms(3) by (simp add: mqtt_now_def)
  then show ?thesis using assms by (simp add: mqtt_tick_def Let_def)
qed

lemma color_mode_tables_differ: "mqtt_color_mode_name 19 \<noteq> color_mode_name_json 19"
  by (simp add: mqtt_color_mode_name_def color_mode_name_json_def)

end
