(* ===== verification/Spec2Isabelle.thy ===== *)
theory Spec2Isabelle
  imports Transfer_Correct Runtime_Pb_Laws Frames Bridge_Timers Remote_Laws Runtime_Ws_Laws Runtime_Encode_Laws Bridge_Web_Laws Bridge_Mqtt_Laws
begin

text \<open>
  \<^bold>\<open>A verification library for the ESP-NOW tree firmware.\<close>

  \<^bold>\<open>The program.\<close>  A bridge and a tree of remote nodes speak an encrypted protocol over ESP-NOW frames
  (\<^verbatim>\<open>src/device_code/components\<close>).  \<^verbatim>\<open>esp_tree_common\<close> has the packed structs of the protocol,
  the frame builders and parsers and the cryptography both ends share.  \<^verbatim>\<open>esp_tree_bridge\<close> is the
  bridge: its protocol engine keeps a session per remote, joins remotes, collects their schemas and
  states and sends them commands; its OTA manager splits a firmware image into chunks and increments, sends them through a
  callback and reacts to the acknowledgements; its runtime API is a WebSocket server that authenticates the Home
  Assistant app, answers its requests and receives images from it as protocol buffers.  \<^verbatim>\<open>esp_tree_remote\<close> is the remote: its file receiver collects an increment
  in RAM, reports gaps as a bitmap, writes complete increments to flash and switches the boot partition.

  \<^bold>\<open>The theories.\<close>

  \<^item> Prelude: types, little-endian byte codecs, C arrays and strings, word lemmas.
  \<^item> Wire_Types, Wire_Payloads (\<^verbatim>\<open>espnow_types.h\<close>): one record, encoder and decoder per packed
    struct, tied by the locale wire_struct; entity, schema and identity payloads; the replay counter
    comparison; the MTU arithmetic at 16 bits.
  \<^item> Crypto, Crypto_Laws (\<^verbatim>\<open>espnow_crypto.cpp\<close>): AES-256, counter mode, HKDF and the tags; the
    locales stream_cipher and tag_scheme.  HMAC-SHA256 is linked from a library and is a parameter.
  \<^item> Frames (\<^verbatim>\<open>espnow_frames.h\<close>, \<^verbatim>\<open>espnow_mac_utils.h\<close>, \<^verbatim>\<open>esp_tree_utils.h\<close>): plain frames
    and the text forms of MAC addresses and object ids.
  \<^item> Runtime_Pb, Runtime_Pb_Laws (\<^verbatim>\<open>bridge_api_proto_messages.cpp\<close>): the protocol buffer reader,
    writer, parsers and encoders; the locale pb_parser, which every parser interprets.
  \<^item> Transfer_Geometry: the arithmetic of chunks and increments, as the locales chunk_geometry and
    word_geometry.
  \<^item> OTA_Manager, OTA_Laws (\<^verbatim>\<open>bridge_ota_manager.cpp\<close>): the state of \<^verbatim>\<open>ESPNowOTAManager\<close> as the
    record ota, every method as a function on it, the step relation ota_step and its invariant.
  \<^item> File_Receiver, File_Receiver_Laws (\<^verbatim>\<open>remote_file_receiver.cpp\<close>, ESP32 build): the state of
    \<^verbatim>\<open>FileReceiver\<close> and of its flash handler as the records recv and flash, every method, the
    step relation recv_step and its invariant.
  \<^item> Transfer_Correct: the two ends together.
  \<^item> Ordered_Map: \<^verbatim>\<open>std::map\<close> as a list sorted by key.
  \<^item> Fragments: the reassembly buffer of \<^verbatim>\<open>bridge_protocol.cpp\<close> and the locale fragment_store, what
    its clients rely on.
  \<^item> Bridge_Session, Bridge_Handlers, Bridge_Loop (\<^verbatim>\<open>bridge_protocol.cpp\<close>): the state of
    \<^verbatim>\<open>BridgeProtocol\<close> and \<^verbatim>\<open>BridgeSession\<close> as the records bridge and BridgeSession and everything that
    sends; the frame parser, the handlers of DISCOVER, JOIN, SCHEMA\_PUSH, STATE, HEARTBEAT and ACK and the
    dispatcher; eviction and the stages of the loop.
  \<^item> Bridge_Inv, Bridge_Reach: the locale session_property, which lifts a property of one session to the
    session map, its interpretation, and the reachable states bridge_reachable of the step relation
    bridge_step (any frame, any turn of the loop, any call of the public interface).
  \<^item> Bridge_Laws, Bridge_Timers: what accepted, replayed and forged frames do, key agreement, reassembly of
    commands; eviction and the bounded life of a queued command.

  \<^item> Packet_Log: the ring of log entries both ends keep.
  \<^item> Remote_Node, Remote_Send, Remote_Handlers, Remote_Loop (\<^verbatim>\<open>remote_protocol.cpp\<close>): the state of
    \<^verbatim>\<open>RemoteProtocol\<close> as the record remote, its routing table, frame builder and session resets; what a
    node sends, relayed frames included; the handlers of every packet and the dispatcher; the stages of the
    loop.  The file receiver of the node is the model of File_Receiver, its callback the node's own
    acknowledgements.
  \<^item> Remote_Inv, Remote_Reach: the invariant of a node, operation by operation, and the reachable states
    remote_reachable of the step relation remote_step (any frame, any turn of the loop, any call of the
    public interface).
  \<^item> Remote_Laws: nodes and the bridge together.  bears and carries say which packet a frame is,
    whatever relays did to its hop byte; along is a chain of relays; the locale routing_table is what
    relaying relies on.  The fragment_store laws are interpreted on the node's own reassembly buffer.

  \<^item> Json_Utils (\<^verbatim>\<open>bridge_json_utils.cpp\<close>, \<^verbatim>\<open>bridge_api_auth.cpp\<close>): JSON strings, entity
    options and states as JSON, with a JSON string reader to compare with.
  \<^item> Ota_Job (\<^verbatim>\<open>esp_tree_bridge.cpp\<close>, the \<^verbatim>\<open>api_ota_\<close> methods): the job that stands between the
    runtime API and the OTA manager.
  \<^item> Runtime_Ws, Runtime_Ws_Laws (\<^verbatim>\<open>bridge_api_proto_ws.cpp\<close>): the WebSocket frames, the session of a
    client, its authentication, the dispatcher of its requests and the batches of OTA chunks; the transitions
    ws_step of the transport and the locale guarded_service, which says that a service acts for nobody who has
    not proved who it is.
  \<^item> Bridge_Commands, Bridge_Commands_Laws (\<^verbatim>\<open>esp_tree_bridge.cpp\<close>): command and configuration requests of the
    API, from the text or JSON of a command to the bytes for the remote and the answer to the client.
  \<^item> Bridge_Component, Bridge_Component_Laws (\<^verbatim>\<open>esp_tree_bridge.cpp\<close>): the queue of received frames, the table
    of radio peers and the states that wait for their consumers.
  \<^item> Bridge_Info, Runtime_Encode, Runtime_Encode_Laws (\<^verbatim>\<open>esp_tree_bridge.cpp\<close>): build dates and names; the
    messages of the runtime API, read back with the parser contract pb_parser.
  \<^item> Json_Text: JSON values, their text and a reader.  Bridge_Web, Bridge_Web_Laws (\<^verbatim>\<open>esp_tree_bridge.cpp\<close>): the
    answers of the web interface, login and handlers, compared with Json_Text; the locale guarded_service again, with
    requests as steps.
  \<^item> Bridge_Mqtt, Bridge_Mqtt_Tick, Bridge_Mqtt_Laws (\<^verbatim>\<open>bridge_mqtt_export.cpp\<close>): the state of \<^verbatim>\<open>ESPTreeBridgeMQTT\<close> as the
    record mqtt with the bridge inside it, topics, payloads and discovery documents; routes, diagnostics, queued work and
    the stages of the tick; the locale export_property, a property that diagnostics cannot disturb, interpreted on the
    invariant and on the list of changed states; the reachable states mqtt_reachable.

  \<^bold>\<open>How state and effects are modelled.\<close>  An object is a record and a method a function that returns the
  updated record, with its result in front where it has one.  Callbacks and the platform are a record of
  functions per call (ota_env, recv_env, bridge_env, remote_env, ws_env, component_env, info_env, mqtt_env): the time, what sending a frame returns, what the flash calls
  return, the MD5.  Sent frames and acknowledgements are appended to a list in the state, and the answer
  of the environment may depend on that list.  A handler reads the clock once; the tick of the MQTT export, which has a time budget, reads it anew
  after every call of the client.  Sequence numbers, sizes
  and counters keep the width they have in the code, truncations included.  Recursions are structural or
  have a measure, so the model has no fuel; the JSON reader of Json_Text, a specification, takes a bound on its depth, and
  what it reads it reads with every larger one.

  \<^bold>\<open>What the theorems show.\<close>  C1, C22, C23 and C24 are the
  correctness of a firmware transfer: whatever the radio does, what is written is the file, only an
  announced image becomes the boot image, and a complete increment makes progress.  C25,
  C26 and the lemmas queued_chunk_fits_frame, increments_partition_file and increment_request_is_exact relate the two ends: gap reports, increments, geometry, chunk lengths.  C27,
  queued_chunk_fits_frame and C31 are invariants of the reachable states.  C32, C33, C34 and the lemma tags_are_exact
  are about cryptography, the lemma plain_frames_are_accepted about frames, C36 about payloads.  C40 and the lemma lost_gaps_ack_blocks_receiver describe two states the
  transfer does not leave.  The hypothesis increments_fit says that the number of increments fits the
  16-bit field both ends keep it in; it holds for every file up to 64 MB at full buffer size.

  For the bridge's protocol engine C16 and C19 say what frames without the key cannot do,
  C28 is about joining, C17
  says that no command stays queued, C18 and C29 hold in every reachable state and C30
  bounds eviction.

  For the tree C2 and C3 follow packets from the bridge or a node through any chain of relays to the
  other end: a command is executed once, a join leaves one key at both ends.  C21 is the single
  relay, C20 the invariant of a node, and C39 shows that the total of children a node reports is
  always zero.

  For the runtime API C4 says that nothing is done for a client without the key,
  C5 and C6 that of the chunks it sends exactly the requested and intact ones come to the
  OTA manager, and C9 that what the bridge writes is what a client needs to answer.

  For the component around the protocol engine C7 follows an accepted request to the radio, C35 compares what a
  client chooses with what it is told afterwards and the lemma effect_commands_are_off_by_one shows where the two differ, C8 says when a
  remote gets the acknowledgement of a state and C12 which radio peers are given up.

  For the web interface C10 says who is answered, C11 that the topology is JSON, and C37
  that the description of the bridge is not.

  For the MQTT export C13 says that what is announced can be commanded, C14 how fast changed states
  leave, C15 is its invariant, and C38 shows how a renamed remote keeps others from being announced.

  \<^bold>\<open>What is not modelled.\<close>  Logging; the set-up of WiFi, the radio driver and the web server and the HTML pages; the client of the
  MQTT broker; the glue of the remote to ESPHome entities (text and device calls around the modelled code); float arithmetic; the
  ESP8266 remote, a port of the ESP32 one; random number generation; the Python app and integration.
\<close>

unbundle bit_operations_syntax


section \<open>A small transfer, for the witnesses\<close>

text \<open>A one-byte file, announced, received and written; the platform answers every call with success.\<close>

definition demo_env :: recv_env where
  "demo_env = \<lparr>re_now = 1000, re_ack = (\<lambda>_. True), re_partition = Some 1000000, re_begin_ok = True,
     re_largest_free = 200000, re_write = (\<lambda>_. True), re_end_ok = True, re_set_boot_ok = True,
     re_md5 = (\<lambda>_. replicate 16 7)\<rparr>"

definition demo_file :: bytes where
  "demo_file = [0xE9]"

definition demo_announce :: espnow_file_announce_t where
  "demo_announce = \<lparr>fann_phase = 0, fann_file_size = 1, fann_md5 = replicate 16 7, fann_chunk_size = 221,
     fann_action = 1, fann_file_id = replicate 12 0\<rparr>"

definition demo_start :: recv where
  "demo_start = snd (handle_file_transfer demo_env [9] (set_send_ack_fn (set_ota_enabled True recv_initial)))"

definition demo_r1 :: recv where
  "demo_r1 = snd (handle_announce demo_env demo_announce demo_start)"

definition demo_r2 :: recv where
  "demo_r2 = snd (handle_file_data demo_env [0, 0, 0, 0, 0xE9] demo_r1)"

definition demo_r3 :: recv where
  "demo_r3 = snd (handle_blast_complete demo_env \<lparr>fblast_phase = 3, fblast_increment_index = 0\<rparr>
     (set_blast_complete_tx_counter 9 demo_r2))"

lemma demo_reachable: "recv_reachable demo_start"
  unfolding recv_reachable_def demo_start_def
  by (rule rtranclp.rtrancl_into_rtrancl [OF rtranclp.rtrancl_into_rtrancl [OF r_into_rtranclp]])
     (rule recv_step.intros)+

lemma demo_fits: "increments_fit (fr_file_size demo_r1) (fr_chunk_payload_size demo_r1) 8"
proof -
  have "fr_file_size demo_r1 = 1" "fr_chunk_payload_size demo_r1 = 221" by code_simp+
  then show ?thesis by (simp add: increments_fit_def ceil_div_def)
qed

lemma demo_receiving: "receiving demo_file demo_r1"
proof -
  have "fr_state demo_start = RV_IDLE" "fr_state demo_r1 = RV_RECEIVING"
    "length demo_file = unat (fann_file_size demo_announce)" by code_simp+
  with demo_fits show ?thesis
    using accepted_receiving [OF recv_reachable_inv [OF demo_reachable] _ demo_r1_def] by blast
qed

lemma demo_r2_inv: "receiving demo_file demo_r2"
  unfolding demo_r2_def by (rule receiving_data [OF demo_receiving]) code_simp

lemma demo_written: "written demo_file demo_r3"
proof -
  have "in_transfer demo_file demo_r2" using demo_r2_inv by (simp add: in_transfer_def)
  then have "in_transfer demo_file (set_blast_complete_tx_counter 9 demo_r2)" by (simp only: in_transfer_counter)
  moreover have "good_flash demo_env demo_file" by (simp add: good_flash_def demo_env_def demo_file_def)
  ultimately have t: "in_transfer demo_file demo_r3" unfolding demo_r3_def by (rule in_transfer_blast)
  have "fr_state demo_r3 = RV_WAITING_END" by code_simp
  with t show ?thesis by (auto simp: in_transfer_def receiving_def)
qed

text \<open>The same run as steps of the receiver.\<close>

lemma demo_r1_reachable: "recv_reachable demo_r1"
proof -
  have "snd (handle_file_transfer demo_env (enc_file_announce demo_announce) demo_start) = demo_r1" by code_simp
  then have "recv_step demo_start demo_r1" using recv_step.transfer by metis
  then show ?thesis using demo_reachable unfolding recv_reachable_def by (rule rtranclp.rtrancl_into_rtrancl [rotated])
qed

lemma demo_r2_reachable: "recv_reachable demo_r2"
  using demo_r1_reachable recv_step.data [of demo_r1 demo_env "[0, 0, 0, 0, 0xE9]"]
  unfolding recv_reachable_def demo_r2_def by (rule rtranclp.rtrancl_into_rtrancl)

lemma demo_r3_reachable: "recv_reachable demo_r3"
proof -
  let ?q = "set_blast_complete_tx_counter 9 demo_r2"
  have q: "recv_reachable ?q"
    using demo_r2_reachable recv_step.blast_counter unfolding recv_reachable_def
    by (rule rtranclp.rtrancl_into_rtrancl)
  have "snd (handle_file_transfer demo_env [3, 0, 0] ?q) = demo_r3" by code_simp
  then have "recv_step ?q demo_r3" using recv_step.transfer by metis
  with q show ?thesis unfolding recv_reachable_def by (rule rtranclp.rtrancl_into_rtrancl)
qed

section \<open>Firmware transfer\<close>





text \<open>
  C24.  END on a completely written file whose MD5 is the announced one makes exactly that file
  the boot image and starts the completion phase with result SUCCESS.
\<close>

theorem verified_file_boots:
  assumes "written F r" "re_md5 env F = fr_last_announce_md5 r" "re_end_ok env" "re_set_boot_ok env"
  shows "fl_boot_image (fr_flash (snd (handle_file_transfer env [1] r))) = Some F \<and>
    fr_in_complete_phase (snd (handle_file_transfer env [1] r)) \<and>
    fr_complete_result (snd (handle_file_transfer env [1] r)) = 0"
proof -
  have "written F (r\<lparr>fr_last_activity_ms := re_now env\<rparr>)" using assms(1) by (simp add: written_def)
  from written_end_boots [OF this] assms(2-4) show ?thesis
    by (simp add: handle_file_transfer_def)
qed

theorem verified_file_boots_witness:
  "fl_boot_image (fr_flash (snd (handle_file_transfer demo_env [1] demo_r3))) = Some demo_file"
proof -
  have "re_md5 demo_env demo_file = fr_last_announce_md5 demo_r3" "re_end_ok demo_env" "re_set_boot_ok demo_env"
    by code_simp+
  from verified_file_boots [OF demo_written this] show ?thesis by blast
qed

text \<open>
  C22.  Whatever frames arrive in whatever order and whichever flash calls fail: when a frame
  changes the boot image, the new image has the MD5 and, as a 32-bit number, the length of the file
  announced to the receiver.
\<close>

theorem only_announced_images_boot:
  assumes "recv_reachable r"
    and "fl_boot_image (fr_flash (snd (handle_file_transfer env p r))) \<noteq> fl_boot_image (fr_flash r)"
  shows "\<exists>w. fl_boot_image (fr_flash (snd (handle_file_transfer env p r))) = Some w \<and>
    re_md5 env w = fr_last_announce_md5 r \<and> word_of_nat (length w) = fr_file_size r"
  using recv_reachable_inv [OF assms(1)] assms(2) by (rule boot_file_transfer)

theorem only_announced_images_boot_witness:
  "\<exists>w. fl_boot_image (fr_flash (snd (handle_file_transfer demo_env [1] demo_r3))) = Some w \<and>
    re_md5 demo_env w = fr_last_announce_md5 demo_r3 \<and> word_of_nat (length w) = fr_file_size demo_r3"
proof -
  have "fl_boot_image (fr_flash (snd (handle_file_transfer demo_env [1] demo_r3))) \<noteq> fl_boot_image (fr_flash demo_r3)"
    by code_simp
  then show ?thesis by (rule only_announced_images_boot [OF demo_r3_reachable])
qed

text \<open>
  C27.  In every reachable state of the receiver, while it is receiving, the transfer's geometry is
  that of the announced file, the increment buffer has room for exactly the chunks of the current
  increment, the counter of received chunks is the number of marked chunks, and the retransmission
  counter is within its limit.
\<close>

theorem receiver_invariant_holds:
  assumes "recv_reachable r" "fr_state r = RV_RECEIVING"
  shows "geo_ok r \<and> length (ib_data (fr_increment_buf r)) =
      unat (chunks_in_increment r (fr_current_increment r)) * unat (fr_chunk_payload_size r) \<and>
    unat (ib_chunks_received (fr_increment_buf r)) =
      card {i. i < unat (chunks_in_increment r (fr_current_increment r)) \<and> recvd (fr_increment_buf r) i} \<and>
    fr_retransmit_round r \<le> 10"
  using recv_reachable_inv [OF assms(1)] assms(2)
  by (simp add: recv_inv_def buf_ok_def ib_wf_def received_set_def)

theorem receiver_invariant_holds_witness:
  "unat (ib_chunks_received (fr_increment_buf demo_r2)) =
      card {i. i < unat (chunks_in_increment demo_r2 (fr_current_increment demo_r2)) \<and> recvd (fr_increment_buf demo_r2) i}"
proof -
  have "fr_state demo_r2 = RV_RECEIVING" by code_simp
  from receiver_invariant_holds [OF demo_r2_reachable this] show ?thesis by blast
qed

section \<open>The bridge's OTA manager\<close>

text \<open>A transfer of 500 bytes on a frame size of 250, up to the first queued chunk.\<close>

definition ota_demo_env :: ota_env where
  "ota_demo_env = \<lparr>env_now = 1000, env_send = (\<lambda>l. (ESP_OK, word_of_nat (length l))), env_reachable = (\<lambda>_. True)\<rparr>"

definition ota_demo_s1 :: ota where
  "ota_demo_s1 = snd (start_transfer ota_demo_env [1, 2, 3, 4, 5, 6] 500 (replicate 16 7) 1 250 None
     (ota_initial default_ota_config True))"

definition ota_demo_s2 :: ota where
  "ota_demo_s2 = snd (on_file_ack ota_demo_env [1, 2, 3, 4, 5, 6]
     \<lparr>ack_ack_type = 0x12, ack_result = 0, ack_ref_tx_counter = 1\<rparr> [221, 0, 8, 1] ota_demo_s1)"

definition ota_demo_s3 :: ota where
  "ota_demo_s3 = snd (on_source_chunk 0 (replicate 221 0) ota_demo_s2)"

lemma ota_demo_reachable: "ota_reachable ota_demo_s3"
proof -
  have "ota_step (ota_initial default_ota_config True) ota_demo_s1" "ota_step ota_demo_s1 ota_demo_s2"
    "ota_step ota_demo_s2 ota_demo_s3"
    unfolding ota_demo_s1_def ota_demo_s2_def ota_demo_s3_def by (rule ota_step.intros)+
  then show ?thesis
    unfolding ota_reachable_def by (meson rtranclp.rtrancl_refl rtranclp.rtrancl_into_rtrancl)
qed

text \<open>
  In every reachable state of the manager, the chunk at the head of the queue has exactly
  the length its sequence number gives it and, with its header, fits the plaintext limit of the session:
  the branch that fails a transfer because a chunk exceeds the encrypted limit is never taken.
\<close>

lemma queued_chunk_fits_frame:
  assumes "ota_reachable s" "om_pending_chunks s = (q, d) # rest"
  shows "om_state s = BLASTING \<and> length d = expected_chunk_len s q \<and>
    4 + length d \<le> unat (om_max_encrypted_plaintext s)"
proof -
  have inv: "ota_inv s" by (rule ota_reachable_inv [OF assms(1)])
  then have b: "om_state s = BLASTING" using assms(2) by (auto simp: ota_inv_def)
  then show ?thesis
    using send_chunk_ok [OF inv b assms(2)] inv assms(2) by (simp add: ota_inv_def queue_ok_def)
qed

lemma queued_chunk_fits_frame_witness: "4 + 221 \<le> unat (om_max_encrypted_plaintext ota_demo_s3)"
proof -
  have "om_pending_chunks ota_demo_s3 = (0, replicate 221 0) # []" by code_simp
  from queued_chunk_fits_frame [OF ota_demo_reachable this] show ?thesis by simp
qed



text \<open>
  C26.  For every file size, chunk size and buffer size the manager and the receiver compute the same
  number of chunks, chunks per increment, increments and chunks in the last increment, at the widths of
  the code, truncation included.
\<close>

theorem both_ends_agree_on_geometry:
  "it_total_chunks (accept_geometry n c kb t) = fr_total_chunks (geometry_of r n c kb) \<and>
   it_chunks_per_increment (accept_geometry n c kb t) = fr_chunks_per_increment (geometry_of r n c kb) \<and>
   it_total_increments (accept_geometry n c kb t) = fr_total_increments (geometry_of r n c kb) \<and>
   it_chunks_in_last_increment (accept_geometry n c kb t) = fr_chunks_in_last_increment (geometry_of r n c kb)"
  using geometry_agrees by blast

text \<open>
  When the number of increments fits 16 bits, the increments the manager goes through ask for
  every chunk of the file exactly once, in order, and the chunks put together are the file.
\<close>

lemma increments_partition_file:
  assumes "c \<noteq> 0" "0 < n" "n \<le> 2 ^ 30" "increments_fit n c kb" "length F = unat n"
    and g_def: "g = accept_geometry n c kb t"
  shows "concat (map (tracker_seqs g) [0..<unat (it_total_increments g)]) = [0..<unat (it_total_chunks g)] \<and>
    concat (map (slice (unat c) F) [0..<unat (it_total_chunks g)]) = F"
proof -
  note fit = mgr.fit_geometry [OF assms(1,3,4), of t]
  have "concat (map (mgr.seqs g) [0..<unat (it_total_increments g)]) = [0..<ceil_div (unat n) (unat c)]"
    unfolding g_def by (rule mgr.increments_partition [OF assms(1-3) fit])
  then have "concat (map (tracker_seqs g) [0..<unat (it_total_increments g)]) = [0..<unat (it_total_chunks g)]"
    unfolding g_def mgr.total_eq [OF assms(1,3)] mgr.seqs_def by simp
  moreover have "concat (map (slice (unat c) F) [0..<unat (it_total_chunks g)]) = F"
    unfolding g_def by (rule mgr.chunks_cover_file [OF assms(1,3,5)])
  ultimately show ?thesis ..
qed

text \<open>
  The sequence numbers the manager requests from the file's source when it opens an increment are
  exactly the chunks of that increment.
\<close>

lemma increment_request_is_exact:
  assumes "c \<noteq> 0" "0 < n" "n \<le> 2 ^ 30" "increments_fit n c kb" "has_geometry t n c kb"
    and "unat (it_current_increment t) < unat (it_total_increments t)" "it_retransmit_round t = 0"
  shows "unat ` it_requested_sequences (request_increment_chunks t) =
           set (tracker_seqs t (unat (it_current_increment t)))"
  using assms by (rule request_increment_exact)

text \<open>
  C25.  The bitmap a receiver reports for its current increment, read by a manager that is at the same
  increment of the same geometry, makes the manager request exactly the chunks the receiver is missing,
  start a new retransmission round and stay at the increment.
\<close>

theorem gap_report_is_exact:
  assumes "recv_reachable r" "fr_state r = RV_RECEIVING"
    and "it_total_increments (om_tracker s) = fr_total_increments r"
    "it_chunks_per_increment (om_tracker s) = fr_chunks_per_increment r"
    "it_chunks_in_last_increment (om_tracker s) = fr_chunks_in_last_increment r"
    "it_current_increment (om_tracker s) = fr_current_increment r"
    and "i < unat (chunks_in_increment r (fr_current_increment r))" "\<not> recvd (fr_increment_buf r) i"
    and "it_retransmit_round (om_tracker s) < 10"
  shows "om_state (handle_gaps_ack env (gap_report r) s) = BLASTING \<and>
    it_requested_sequences (om_tracker (handle_gaps_ack env (gap_report r) s)) =
      {increment_start_seq (om_tracker s) + word_of_nat j | j.
         j < unat (chunks_in_increment r (fr_current_increment r)) \<and> \<not> recvd (fr_increment_buf r) j} \<and>
    it_current_increment (om_tracker (handle_gaps_ack env (gap_report r) s)) = fr_current_increment r"
proof -
  let ?gaps = "gap_set (om_tracker s) (drop 2 (gap_report r)) (le_word (part_of 0 2 (gap_report r)))"
  have inv: "recv_inv r" by (rule recv_reachable_inv [OF assms(1)])
  note gs = gap_set_missing [OF inv assms(2-6)]
  have ne: "?gaps \<noteq> {}" unfolding gs using assms(7,8) by blast
  have bm: "length (ib_received_bitmap (fr_increment_buf r)) =
      (unat (chunks_in_increment r (fr_current_increment r)) + 7) div 8"
    using inv assms(2) by (simp add: recv_inv_def buf_ok_def ib_wf_def)
  have lt: "length (ib_received_bitmap (fr_increment_buf r)) < 2 ^ 16"
    using bm unsigned_less [of "chunks_in_increment r (fr_current_increment r)", where 'a = nat] by simp
  note rd = gap_report_read [OF lt]
  have "unat (le_word (part_of 0 2 (gap_report r)) :: u16) \<noteq> 0" using rd(2) bm assms(7) by simp
  then have nz: "(le_word (part_of 0 2 (gap_report r)) :: u16) \<noteq> 0" by auto
  have len: "2 + unat (le_word (part_of 0 2 (gap_report r)) :: u16) \<le> length (gap_report r)" using rd by simp
  from handle_gaps_retransmit [OF len nz assms(9) ne, of env] gs assms(6) show ?thesis by simp
qed

theorem gap_report_is_exact_witness:
  "it_requested_sequences (om_tracker (handle_gaps_ack ota_demo_env (gap_report demo_r1)
     (ota_demo_s1\<lparr>om_tracker := accept_geometry 1 221 8 tracker_reset\<rparr>))) = {0}"
proof -
  let ?s = "ota_demo_s1\<lparr>om_tracker := accept_geometry 1 221 8 tracker_reset\<rparr>"
  have f: "fr_state demo_r1 = RV_RECEIVING" "it_total_increments (om_tracker ?s) = fr_total_increments demo_r1"
    "it_chunks_per_increment (om_tracker ?s) = fr_chunks_per_increment demo_r1"
    "it_chunks_in_last_increment (om_tracker ?s) = fr_chunks_in_last_increment demo_r1"
    "it_current_increment (om_tracker ?s) = fr_current_increment demo_r1"
    "unat (chunks_in_increment demo_r1 (fr_current_increment demo_r1)) = 1" "\<not> recvd (fr_increment_buf demo_r1) 0"
    "it_retransmit_round (om_tracker ?s) < 10" "increment_start_seq (om_tracker ?s) = 0" by code_simp+
  from gap_report_is_exact [OF demo_r1_reachable f(1-5) _ f(7,8), of ota_demo_env] f(6,7,9) show ?thesis by auto
qed

text \<open>
  C40.  A non-empty bitmap that reports every chunk of the last increment as received moves the
  manager past its last increment.  There it requests nothing, takes no chunk from the source, and each
  turn of the loop either ends the transfer by a timeout or leaves it so, with nothing transmitted:
  END is never sent.
\<close>

theorem full_bitmap_stalls_transfer:
  assumes "c \<noteq> 0" "0 < n" "n \<le> 2 ^ 30" "increments_fit n c kb" "has_geometry (om_tracker s) n c kb"
    and "unat (it_current_increment (om_tracker s)) + 1 = unat (it_total_increments (om_tracker s))"
    and "om_pending_chunks s = []"
    and "length tr \<ge> 2 + unat (le_word (part_of 0 2 tr) :: u16)" "(le_word (part_of 0 2 tr) :: u16) \<noteq> 0"
    and "it_retransmit_round (om_tracker s) < 10"
    and "gap_set (om_tracker s) (drop 2 tr) (le_word (part_of 0 2 tr)) = {}"
  shows "exhausted (handle_gaps_ack env tr s) \<and>
    (\<forall>s'. exhausted s' \<longrightarrow> om_state (ota_loop env' s') = OTA_IDLE \<or>
       (exhausted (ota_loop env' s') \<and> om_tx (ota_loop env' s') = om_tx s')) \<and>
    (\<forall>s' q d. exhausted s' \<longrightarrow> on_source_chunk q d s' = (False, s'))"
  using full_bitmap_exhausts [OF assms] exhausted_loop exhausted_rejects_chunks by blast

theorem full_bitmap_stalls_transfer_witness:
  "exhausted (handle_gaps_ack ota_demo_env [1, 0, 7] (ota_demo_s1\<lparr>om_tracker := accept_geometry 500 221 8 tracker_reset\<rparr>))"
proof -
  let ?s = "ota_demo_s1\<lparr>om_tracker := accept_geometry 500 221 8 tracker_reset\<rparr>"
  have f: "increments_fit 500 221 8" by (simp add: increments_fit_def ceil_div_def)
  have g: "has_geometry (om_tracker ?s) 500 221 8" by code_simp
  have v: "unat (it_current_increment (om_tracker ?s)) + 1 = unat (it_total_increments (om_tracker ?s))"
    "om_pending_chunks ?s = []" "2 + unat (le_word (part_of 0 2 [1, 0, 7 :: u8]) :: u16) \<le> length [1, 0, 7 :: u8]"
    "(le_word (part_of 0 2 [1, 0, 7 :: u8]) :: u16) \<noteq> 0" "it_retransmit_round (om_tracker ?s) < 10"
    "gap_set (om_tracker ?s) (drop 2 [1, 0, 7]) (le_word (part_of 0 2 [1, 0, 7])) = {}" by code_simp+
  show ?thesis using full_bitmap_stalls_transfer [OF _ _ _ f g v] by simp
qed

text \<open>
  When the acknowledgement of a completed increment cannot be sent, the receiver stays in
  WRITING, and from WRITING no BLAST_COMPLETE, data frame, END or passing of time moves it: there is no
  timeout.
\<close>

lemma lost_gaps_ack_blocks_receiver:
  assumes "recv_reachable r" "fr_state r = RV_RECEIVING"
    "fblast_increment_index bc = fr_current_increment r" "ib_is_complete (fr_increment_buf r)"
    and "re_ack env = (\<lambda>_. False)" "4 \<le> length p" "q = snd (handle_blast_complete env bc r)"
  shows "fr_state q = RV_WRITING \<and> fr_state (recv_loop env' q) = RV_WRITING \<and>
    handle_blast_complete env' bc' q = (False, q) \<and> handle_file_data env' p q = (False, q) \<and>
    handle_end env' ph q = (False, q)"
proof -
  have "\<not> fr_increment_written r" "\<not> fr_in_complete_phase r" "fr_active_handler r"
    using recv_reachable_inv [OF assms(1)] assms(2) by (simp_all add: recv_inv_def)
  then have w: "fr_state q = RV_WRITING" "\<not> fr_in_complete_phase q"
    using assms(2-5) unfolding assms(7) by (auto simp: handle_blast_complete_def send_gaps_ack_def send_ack_def Let_def)
  show ?thesis using w writing_stuck [OF w] assms(6) by simp
qed

lemma lost_gaps_ack_blocks_receiver_witness:
  "fr_state (snd (handle_blast_complete (demo_env\<lparr>re_ack := \<lambda>_. False\<rparr>) \<lparr>fblast_phase = 3, fblast_increment_index = 0\<rparr> demo_r2)) =
   RV_WRITING"
proof -
  have v: "fr_state demo_r2 = RV_RECEIVING"
    "fblast_increment_index \<lparr>fblast_phase = 3, fblast_increment_index = 0\<rparr> = fr_current_increment demo_r2"
    "ib_is_complete (fr_increment_buf demo_r2)" by code_simp+
  show ?thesis
    using lost_gaps_ack_blocks_receiver [OF demo_r2_reachable v _ _ refl,
        of "demo_env\<lparr>re_ack := \<lambda>_. False\<rparr>" "[0, 0, 0, 0]"] by simp
qed

section \<open>Cryptography and frames\<close>

definition demo_key :: crypto_state where
  "demo_key = \<lparr>g_psk = replicate 32 1, g_psk_set = True\<rparr>"

definition demo_hmac :: hmac_fn where
  "demo_hmac k d = k"


text \<open>
  C33.  Byte i of a ciphertext is the plaintext byte masked with AES of a counter block that is
  determined by the frame's tx counter and by i div 16; two different pairs of a tx counter and a block
  number below 2^96 have different counter blocks.  So within a session no keystream block is used twice
  as long as the tx counter does not repeat.
\<close>

theorem keystream_is_never_reused:
  assumes "i < length xs" "(tx, j) \<noteq> (tx', j')" "j < 256 ^ 12" "j' < 256 ^ 12"
  shows "aes256_ctr_crypt key tx xs ! i = xs ! i XOR
      aes256_encrypt_block (aes256_key_expand key) ((increment_counter ^^ (i div 16)) (initial_counter tx)) ! (i mod 16) \<and>
    (increment_counter ^^ j) (initial_counter tx) \<noteq> (increment_counter ^^ j') (initial_counter tx')"
  using session_blocks_distinct [OF assms(3,4)] assms(2) ctr_loop_nth [OF assms(1)]
  by (auto simp: aes256_ctr_crypt_def)

theorem keystream_is_never_reused_witness:
  "(increment_counter ^^ 1) (initial_counter 255) \<noteq> (increment_counter ^^ 0) (initial_counter 256)"
  using keystream_is_never_reused [of 0 "[0]" 255 1 256 0] by simp



text \<open>
  A session tag of eight bytes is accepted exactly when it equals the computed one, a PSK tag of
  four bytes exactly when a pre-shared key is set and it equals the computed one; both computed tags
  depend on the header only through bytes 2 to 12.
\<close>

lemma tags_are_exact:
  assumes "length st = 8" "length pt = 4" "part_of 2 11 h = part_of 2 11 h'"
  shows "espnow_crypto_verify_session_tag hmac key h c st = (st = espnow_crypto_session_tag hmac key h' c) \<and>
    espnow_crypto_verify_psk_tag hmac g h c pt = (g_psk_set g \<and> pt = espnow_crypto_psk_tag hmac g h' c)"
proof -
  have s: "espnow_crypto_verify_session_tag hmac key h c st = (st = espnow_crypto_session_tag hmac key h' c)"
    unfolding sess.tag_cong [OF assms(3), symmetric] by (rule sess.verify_iff [OF TrueI assms(1)])
  have "espnow_crypto_verify_psk_tag hmac g h c pt = (pt = espnow_crypto_psk_tag hmac g h' c)" if "g_psk_set g"
    unfolding psk.tag_cong [OF assms(3), symmetric] by (rule psk.verify_iff [OF that assms(2)])
  with s show ?thesis using verify_psk_unset by blast
qed

lemma tags_are_exact_witness:
  "\<not> espnow_crypto_verify_session_tag demo_hmac (replicate 32 1) (replicate 17 0) [] (replicate 8 0)"
  using tags_are_exact [of "replicate 8 0" "replicate 4 0" "replicate 17 0" "replicate 17 0" demo_hmac "replicate 32 1" "[]"]
  by (simp add: espnow_crypto_session_tag_def demo_hmac_def hmac_sha256_def c_array_def)

text \<open>
  A plain frame with a non-empty payload is taken apart by the receiver into the header fields and
  the payload it was built from, its tag verifies under the same pre-shared key, and it still verifies
  after a relay has rewritten the protocol byte and the hop byte.
\<close>

lemma plain_frames_are_accepted:
  assumes "length leaf = 6" "\<not> has_parent_check hop" "g_psk_set g" "pl \<noteq> []"
    and f_def: "f = assemble_plain_frame hmac g ty leaf hop tx pl"
  shows "(\<exists>tag. parse_received_header f =
     Some (\<lparr>fh_protocol_version = 3, fh_hop_count = hop, fh_packet_type = packet_type_code ty,
            fh_leaf_mac = leaf, fh_tx_counter = tx, fh_psk_tag = tag\<rparr>, replicate 6 0, pl)) \<and>
    verify_frame_psk_tag hmac g (f[0 := v, 1 := hop']) pl"
proof -
  have len: "17 \<le> length f" unfolding f_def using assms(1)
    by (simp add: assemble_plain_frame_def Let_def enc_frame_header_def)
  have "drop 2 (f[0 := v, 1 := hop']) = drop 2 f" by simp
  then have "verify_frame_psk_tag hmac g (f[0 := v, 1 := hop']) pl = verify_frame_psk_tag hmac g f pl"
    by (rule verify_relayed_frame [OF len, rotated]) simp
  with verify_plain_frame [OF assms(1,3,4), of hmac ty hop tx]
  have v: "verify_frame_psk_tag hmac g (f[0 := v, 1 := hop']) pl" unfolding f_def by (rule iffD2 [rotated])
  show ?thesis
    by (rule conjI [OF _ v]) (simp only: f_def parse_plain_frame [OF assms(1,2)])
qed

text \<open>
  A DISCOVER built for a network name of at most 32 characters passes the receiver's check exactly
  when the receiver's own network has the same name.
\<close>

lemma network_id_check_is_exact:
  assumes "length net \<le> 32"
  shows "verify_network_id (make_discover_payload net flags) expected \<longleftrightarrow> expected = net"
  using assms by (rule verify_network_id_discover)

text \<open>
  The folded column step of the firmware's AES computes the product with the circulant matrix
  (2 3 1 1) over GF(2^8) that FIPS 197 prescribes.
\<close>

lemma mix_column_is_fips197: "mix_column a b c d = fips_mix_column a b c d"
  by (rule mix_column_fips)

section \<open>Payloads\<close>


text \<open>
  Replay protection compares 32-bit counters as serial numbers: a counter is newer than another
  exactly when it is ahead of it by 1 to 2^31 - 1 modulo 2^32, so a counter is never newer than itself
  and of two counters at most one is newer.
\<close>

lemma counter_comparison_is_serial:
  "(counter_is_newer (p + k) p \<longleftrightarrow> 0 < k \<and> k < 2147483648) \<and> \<not> (counter_is_newer a b \<and> counter_is_newer b a)"
  using counter_is_newer_add counter_is_newer_asym by blast

section \<open>The runtime API's protocol buffers\<close>

text \<open>
  Every 64-bit value is written as a varint of at most ten bytes, which the reader recovers from any
  position of a buffer together with the position behind it; zigzag encoding loses nothing.
\<close>

lemma varints_are_bounded_and_read_back:
  "length (Writer_raw_varint v []) \<le> 10 \<and>
   read_varint (pre @ Writer_raw_varint v [] @ suf) (length pre) = Some (v, length pre + length (Writer_raw_varint v [])) \<and>
   unzigzag64 (zigzag64 w) = w"
  using raw_varint_length read_varint_encoding zigzag64_inverse by blast

section \<open>The bridge's protocol engine\<close>

text \<open>A bridge whose platform answers every call with success; its HMAC is a constant function.\<close>

definition demo_benv :: "u32 \<Rightarrow> bridge_env" where
  "demo_benv now = \<lparr>be_now = now, be_hmac = (\<lambda>_ _. replicate 32 1), be_random = (\<lambda>_. 0), be_nonce = (\<lambda>_. replicate 16 5),
     be_channel = 6, be_free_heap = (\<lambda>_. 1000000), be_total_heap = 2000000, be_send = (\<lambda>_. True),
     be_send_err = (\<lambda>_. ESP_OK)\<rparr>"

definition demo_leaf :: mac where
  "demo_leaf = [1, 2, 3, 4, 5, 6]"

definition demo_boot :: bridge where
  "demo_boot = snd (bridge_init (\<lambda>_ _. replicate 32 1) 1 ''secret'' ''net'' 60 bridge_initial)"

definition demo_session :: BridgeSession where
  "demo_session = new_session\<lparr>bs_leaf_mac := demo_leaf, bs_session_key := replicate 32 9, bs_session_key_valid := True\<rparr>"

definition demo_bridge :: bridge where
  "demo_bridge = put_session demo_leaf demo_session (set_fn SEND_FN True demo_boot)"

definition demo_header :: "espnow_packet_type_t \<Rightarrow> espnow_frame_header_t" where
  "demo_header ty = \<lparr>fh_protocol_version = 3, fh_hop_count = 1, fh_packet_type = packet_type_code ty,
     fh_leaf_mac = demo_leaf, fh_tx_counter = 7, fh_psk_tag = replicate 4 1\<rparr>"

text \<open>
  A frame the bridge encrypts for a session is taken apart by its own frame parser into the header,
  the ciphertext and the session tag, and whoever holds the session key gets the plaintext back; the frame
  is always built once a pre-shared key is set.
\<close>

lemma bridge_frames_round_trip:
  assumes "length leaf = 6" "\<not> has_parent_check hop" "is_encrypted_packet ty" "length plain \<le> 1445"
    and "g_psk_set (bp_crypto s)"
  shows "\<exists>frame header ct tag. encrypted_frame (be_hmac env) (bp_crypto s) key leaf ty hop tx plain = Some frame \<and>
    parse_frame env s frame = Some (header, ct, Some tag, replicate 6 0) \<and>
    fh_packet_type header = packet_type_code ty \<and> fh_leaf_mac header = leaf \<and> fh_tx_counter header = tx \<and>
    (\<forall>x. bs_session_key_valid x \<and> bs_session_key x = key \<longrightarrow>
      validate_session_packet env s x header ct (Some tag) = Some plain)"
proof -
  obtain frame where f: "encrypted_frame (be_hmac env) (bp_crypto s) key leaf ty hop tx plain = Some frame"
    using assms(5) by (auto simp: encrypted_frame_def espnow_crypto_crypt_def Let_def)
  show ?thesis by (rule parse_encrypted_frame [OF assms(1-4) f]) (use f in auto)
qed








text \<open>
  A fresh JOIN that the bridge answers leaves a session whose key is the one the remote derives from the
  JOIN\_ACK the bridge sent: the frame parses and verifies, says accepted, and its nonce with the remote's own
  gives the bridge's session key.  It is so on the path with a cached schema and on the one without.
\<close>

lemma join_keys_agree:
  assumes "length payload = 51" "length (fh_leaf_mac header) = 6" "SEND_FN \<in> set (bp_fns s)" "g_psk_set (bp_crypto s)"
    and "\<not> (bp_joining_in_progress s \<and> fh_leaf_mac header \<noteq> bp_joining_leaf_mac s)"
    and "\<not> bs_join_in_progress (ensure_session s (fh_leaf_mac header))"
    and "handle_join env sender header payload rssi s = (True, t)"
  shows "\<exists>x frame. get_session t (fh_leaf_mac header) = Some x \<and> bs_session_key_valid x \<and> sent_since s t sender frame \<and>
    offers_key (be_hmac env) (bp_crypto s) (fh_leaf_mac header) (join_remote_nonce (dec_join payload)) frame (bs_session_key x)"
proof -
  let ?x = "ensure_session s (fh_leaf_mac header)"
  obtain ok c where c: "join_session env sender header (dec_join payload) rssi (?x, s) = (ok, c)" by (metis surj_pair)
  have ok: ok and t: "t = put_conn (fh_leaf_mac header) c" using assms(1, 7) c by (simp_all add: handle_join_def)
  have "join_answered env (fh_leaf_mac header) (join_remote_nonce (dec_join payload)) sender s c"
    using join_session_answered [of ?x s header "dec_join payload" env sender rssi c] assms c ok by simp
  then show ?thesis
    by (auto simp: join_answered_def keyed_def t put_conn_def get_put_session sent_since_def)
qed

definition demo_join :: bytes where
  "demo_join = replicate 16 3 @ replicate 32 4 @ [1, 0, 0]"

definition demo_cached :: bridge where
  "demo_cached = (set_fn SEND_FN True demo_boot)\<lparr>bp_schema_hash_cache := [(mac_hex demo_leaf, replicate 32 4)]\<rparr>"

text \<open>
  C28.  While one remote holds the join slot, a JOIN of another one is answered with a refusal and the reason WAIT;
  the slot, the key of that remote's session and every other session stay as they are.
\<close>

theorem join_slot_is_exclusive:
  assumes "length payload = 51" "length (fh_leaf_mac header) = 6" "SEND_FN \<in> set (bp_fns s)"
    and "bp_joining_in_progress s" "fh_leaf_mac header \<noteq> bp_joining_leaf_mac s"
    and "handle_join env sender header payload rssi s = (ok, t)"
  shows "(\<exists>x nonce tx flags. get_session t (fh_leaf_mac header) = Some x \<and>
      bs_session_key x = bs_session_key (ensure_session s (fh_leaf_mac header)) \<and>
      bp_events t = bp_events s @ [SendFrame sender (assemble_plain_frame (be_hmac env) (bp_crypto s) PKT_JOIN_ACK
        (fh_leaf_mac header) downstream_hop_count tx (enc_join_ack \<lparr>jack_accepted = 0, jack_reason = 3, jack_stage = 0,
          jack_bridge_nonce = nonce, jack_session_flags = flags\<rparr>))]) \<and>
    bp_joining_in_progress t \<and> bp_joining_leaf_mac t = bp_joining_leaf_mac s \<and> bp_join_started_ms t = bp_join_started_ms s \<and>
    same_engine (fh_leaf_mac header) s t"
proof -
  let ?x = "ensure_session s (fh_leaf_mac header)"
  obtain b y u where a: "send_join_ack env sender 0 3 0 (?x, s) = (b, y, u)" by (metis prod_cases3)
  then have r: "send_join_ack env sender 0 3 0 (?x, s) = (ok, y, u)" and t: "t = put_session (fh_leaf_mac header) y u"
    using assms(1, 4-6) by (simp_all add: handle_join_def join_session_def put_conn_def)
  have slot: "bp_joining_in_progress (snd (send_plain_psk e d l ty h n p s)) = bp_joining_in_progress s"
    "bp_joining_leaf_mac (snd (send_plain_psk e d l ty h n p s)) = bp_joining_leaf_mac s"
    "bp_join_started_ms (snd (send_plain_psk e d l ty h n p s)) = bp_join_started_ms s" for e d l ty h n p
    by (simp_all add: send_plain_psk_def Let_def call_send_def asked_def queue_log_def)
  have u: "bp_sessions u = bp_sessions s" "bp_crypto u = bp_crypto s" "bp_command_queue u = bp_command_queue s"
    "bp_pending_configs u = bp_pending_configs s" "bp_schema_cache u = bp_schema_cache s"
    using r by (auto simp: send_join_ack_def Let_def case_prod_beta plain_rest)
  have "same_engine (fh_leaf_mac header) s t"
    by (simp add: t same_engine_def get_put_session u(2-5) get_session_cong [OF u(1)])
  moreover have "bp_joining_in_progress t" "bp_joining_leaf_mac t = bp_joining_leaf_mac s" "bp_join_started_ms t = bp_join_started_ms s"
    using r assms(4) by (auto simp: t put_session_def send_join_ack_def Let_def case_prod_beta slot)
  moreover have "get_session t (fh_leaf_mac header) = Some y" by (simp add: t get_put_session)
  moreover have "bs_session_key y = bs_session_key ?x"
    "bp_events t = bp_events s @ [SendFrame sender (assemble_plain_frame (be_hmac env) (bp_crypto s) PKT_JOIN_ACK
        (fh_leaf_mac header) downstream_hop_count (bs_tx_counter ?x) (enc_join_ack \<lparr>jack_accepted = 0, jack_reason = 3, jack_stage = 0,
          jack_bridge_nonce = bs_bridge_nonce ?x, jack_session_flags = bp_bridge_session_flags s\<rparr>))]"
    using r assms(3) by (auto simp: t send_join_ack_def Let_def case_prod_beta plain_events)
  ultimately show ?thesis by blast
qed

theorem join_slot_is_exclusive_witness:
  "\<exists>t. bp_joining_in_progress t \<and> bp_joining_leaf_mac t = [9, 9, 9, 9, 9, 9] \<and>
     snd (handle_join (demo_benv 5000) [7, 7, 7, 7, 7, 7] (demo_header PKT_JOIN) demo_join 0
       (demo_cached\<lparr>bp_joining_in_progress := True, bp_joining_leaf_mac := [9, 9, 9, 9, 9, 9]\<rparr>)) = t"
proof -
  let ?s = "demo_cached\<lparr>bp_joining_in_progress := True, bp_joining_leaf_mac := [9, 9, 9, 9, 9, 9]\<rparr>"
  have h: "length demo_join = 51" "length (fh_leaf_mac (demo_header PKT_JOIN)) = 6" "SEND_FN \<in> set (bp_fns ?s)"
    "bp_joining_in_progress ?s" "fh_leaf_mac (demo_header PKT_JOIN) \<noteq> bp_joining_leaf_mac ?s" by code_simp+
  obtain ok t where t: "handle_join (demo_benv 5000) [7, 7, 7, 7, 7, 7] (demo_header PKT_JOIN) demo_join 0 ?s = (ok, t)"
    by (metis surj_pair)
  from join_slot_is_exclusive [OF h t] show ?thesis by (simp add: t)
qed

text \<open>
  C29.  In every reachable state of the bridge the arrays of every session have the widths of their C types: keys
  of 32 bytes, nonces and digests of 16, schema hashes of 32, addresses of 6; and every open reassembly
  buffer has one slot per fragment, with what was received inside the buffer.
\<close>

theorem bridge_widths_are_kept:
  assumes "bridge_reachable s" "get_session s m = Some x"
  shows "length (bs_leaf_mac x) = 6 \<and> length (bs_parent_mac x) = 6 \<and> length (bs_next_hop_mac x) = 6 \<and>
    length (bs_session_key x) = 32 \<and> length (bs_bridge_nonce x) = 16 \<and> length (bs_remote_nonce x) = 16 \<and>
    length (bs_schema_hash x) = 32 \<and> length (bs_firmware_md5 x) = 16 \<and>
    (\<forall>a \<in> snd ` set (bs_pending_state_assemblies x) \<union> snd ` set (bs_pending_schema_assemblies x).
      assembly_ok (bs_max_entity_fragment x) a)"
proof -
  have "sane x" using bridge_inv.inv_get [OF bridge_reachable_ok [OF assms(1)] assms(2)] by simp
  then show ?thesis by (auto simp: sane_def assemblies_ok_def)
qed

text \<open>A DISCOVER for the bridge's network creates a session.\<close>

definition demo_discovered :: bridge where
  "demo_discovered = snd (on_espnow_frame (demo_benv 5000) [7, 7, 7, 7, 7, 7]
     (make_discover_frame (\<lambda>_ _. replicate 32 1) (bp_crypto demo_boot) demo_leaf ''net'' 0) 0 demo_boot)"

lemma demo_discovered_reachable: "bridge_reachable demo_discovered"
  unfolding demo_discovered_def demo_boot_def
  by (rule bridge_reachable.Step [OF bridge_reachable.Init bridge_step.Receive]) simp

theorem bridge_widths_are_kept_witness:
  "bridge_reachable demo_discovered \<and>
   (\<exists>x. get_session demo_discovered demo_leaf = Some x \<and> length (bs_session_key x) = 32 \<and> length (bs_leaf_mac x) = 6)"
proof -
  have "get_session demo_discovered demo_leaf \<noteq> None" by code_simp
  then obtain x where x: "get_session demo_discovered demo_leaf = Some x" by blast
  from bridge_widths_are_kept [OF demo_discovered_reachable x] x demo_discovered_reachable show ?thesis by blast
qed

text \<open>
  C18.  Whatever frames arrive and however often the loop turns: the session map is ordered and every session is
  filed under the key of its own address, a session never has more than eight open messages of a kind, the
  retry counters stay within the backoff table, the packet log is a consistent ring and the queues hold only
  requests within their retry limits.
\<close>

theorem bridge_invariant_holds:
  assumes "bridge_reachable s"
  shows "omap_ok (bp_sessions s) \<and> log_ok s \<and>
    (\<forall>k x. omap_find (bp_sessions s) k = Some x \<longrightarrow> k = mac_to_key (bs_leaf_mac x) \<and>
      length (bs_pending_state_assemblies x) \<le> 8 \<and> length (bs_pending_schema_assemblies x) \<le> 8 \<and>
      bs_schema_request_retries x \<le> 4 \<and> bs_join_complete_retry_count x \<le> 4) \<and>
    (\<forall>p\<in>set (bp_command_queue s). pc_retry_count p \<le> 4) \<and> (\<forall>p\<in>set (bp_pending_configs s). pg_retry_count p \<le> 3)"
  using bridge_reachable_ok [OF assms] by (simp add: sessions_inv_def sane_def engine_ok_def assemblies_ok_def)

theorem bridge_invariant_holds_witness:
  "length (bp_sessions demo_discovered) = 1 \<and> bp_log_count demo_discovered = 1 \<and> log_ok demo_discovered \<and>
   omap_ok (bp_sessions demo_discovered)"
proof -
  have "length (bp_sessions demo_discovered) = 1" "bp_log_count demo_discovered = 1" by code_simp+
  with bridge_invariant_holds [OF demo_discovered_reachable] show ?thesis by blast
qed







section \<open>The nodes of the tree\<close>

text \<open>Nodes of the same network, on a platform that answers every call with success.\<close>

definition demo_renv :: "u32 \<Rightarrow> remote_env" where
  "demo_renv now = \<lparr>rn_now = now, rn_hmac = (\<lambda>_ _. replicate 32 1), rn_sha = (\<lambda>_. replicate 32 4), rn_random = (\<lambda>_. 0),
     rn_nonce = (\<lambda>_. replicate 16 3), rn_send = (\<lambda>_. True), rn_get_channel = (\<lambda>_. Some 6), rn_set_channel = (\<lambda>_. WIFI_OK),
     rn_wifi_start = (\<lambda>_. WIFI_OK), rn_wifi_present = False, rn_wifi_connected = False, rn_running = None, rn_chip_model = 1,
     rn_flash = demo_env\<rparr>"

definition demo_node :: "mac \<Rightarrow> remote" where
  "demo_node m = set_local_mac m
     (snd (remote_init (demo_renv 0) ''secret'' ''net'' ''leaf'' ''label'' 1 ''p'' ''1'' 60 remote_initial))"

definition demo_relay_mac :: mac where
  "demo_relay_mac = [7, 7, 7, 7, 7, 7]"

definition demo_relay :: remote where
  "demo_relay = set_remote_fns True True (snd (remote_on_espnow_frame (demo_renv 10) [8, 8, 8, 8, 8, 8]
     (assemble_plain_frame (\<lambda>_ _. replicate 32 1) (rp_crypto (demo_node demo_relay_mac)) PKT_JOIN_ACK demo_relay_mac 0 1
        (enc_join_ack \<lparr>jack_accepted = 1, jack_reason = 0, jack_stage = 100, jack_bridge_nonce = replicate 16 5, jack_session_flags = 0\<rparr>))
     0xC4 (demo_node demo_relay_mac)))"

definition demo_join_frame :: bytes where
  "demo_join_frame = assemble_plain_frame (\<lambda>_ _. replicate 32 1) (rp_crypto demo_relay) PKT_JOIN demo_leaf 1 1 demo_join"

definition demo_relaying :: remote where
  "demo_relaying = snd (remote_on_espnow_frame (demo_renv 20) demo_leaf demo_join_frame 0xC4 demo_relay)"

lemma demo_relay_reachable: "remote_reachable demo_relay"
proof -
  have n: "remote_reachable (demo_node demo_relay_mac)"
    unfolding demo_node_def by (rule remote_reachable.start) (simp add: demo_relay_mac_def)
  show ?thesis unfolding demo_relay_def
    by (rule remote_reachable.step [OF remote_reachable.step [OF n remote_step.frame] remote_step.callbacks]) simp
qed

lemma demo_relaying_reachable: "remote_reachable demo_relaying"
  unfolding demo_relaying_def by (rule remote_reachable.step [OF demo_relay_reachable]) (rule remote_step.frame, simp add: demo_leaf_def)

text \<open>
  C20.  In every state a node reaches from start-up, whatever frames it is sent and however its loop is timed: no route
  leads to or through the node itself and no leaf has two routes; at most eight commands are being reassembled, each with a slot per fragment; the log
  and announce rings and the table of outstanding requests are within their arrays; a node relays only while relaying is
  enabled, it is in NORMAL, and it has a parent and a distance to the bridge; NORMAL implies joined; retry counters
  stay within their limits.
\<close>

theorem remote_invariant_holds:
  assumes "remote_reachable r"
  shows "distinct (map rt_leaf_mac (rp_routes r)) \<and>
    (\<forall>t\<in>set (rp_routes r). rt_leaf_mac t \<noteq> rp_leaf_mac r \<and> rt_next_hop_mac t \<noteq> rp_leaf_mac r) \<and>
    length (rp_pending_command_assemblies r) \<le> 8 \<and>
    (\<forall>(k, a)\<in>set (rp_pending_command_assemblies r). fa_active a \<longrightarrow> length (fa_received a) = unat (fa_fragment_count a)) \<and>
    length (rp_log_queue r) = PACKET_LOG_SIZE \<and> rp_log_count r \<le> PACKET_LOG_SIZE \<and>
    rp_log_head r = (rp_log_tail r + rp_log_count r) mod PACKET_LOG_SIZE \<and>
    rp_announce_queue_head r < length (rp_announce_queue r) \<and> rp_announce_queue_tail r < length (rp_announce_queue r) \<and>
    rp_outstanding_count r \<le> length (rp_outstanding_requests r) \<and>
    (rp_can_relay r \<longrightarrow> rp_relay_enabled r \<and> rp_normal r \<and> rp_parent_valid r \<and> rp_hops_to_bridge r \<noteq> 0xFF) \<and>
    (rp_normal r \<longrightarrow> rp_joined r) \<and>
    rp_join_retry_count r \<le> 4 \<and> rp_state_retry_count r \<le> 4 \<and> rp_wait_reject_count r \<le> 3 \<and>
    length (rp_remote_nonce r) = 16 \<and> length (rp_session_key r) = 32 \<and> recv_reachable (rp_file_receiver r)"
  using remote_reachable_inv [OF assms]
  by (auto simp: remote_inv_def remote_ok_def flags_ok_def remote_log_ok_def routes_ok_def command_assemblies_ok_def command_assembly_ok_def)

theorem remote_invariant_holds_witness:
  "length (rp_routes demo_relaying) = 1 \<and> rp_can_relay demo_relaying \<and> rp_joined demo_relaying \<and>
   rt_next_hop_mac (rp_routes demo_relaying ! 0) \<noteq> rp_leaf_mac demo_relaying"
proof -
  have l: "length (rp_routes demo_relaying) = 1" "rp_can_relay demo_relaying" by code_simp+
  then have "rp_routes demo_relaying ! 0 \<in> set (rp_routes demo_relaying)" by simp
  with l remote_invariant_holds [OF demo_relaying_reachable] show ?thesis by blast
qed



text \<open>
  C2.  A command that the bridge cuts into fragments and sends, each through some chain of relays, to a node that is ready for
  it: the fragments may arrive in any order, through different relays, repeatedly, and long after the command was executed. Once every fragment has
  arrived the command callback has run exactly once, with the value the bridge sent, which is now the value of the entity;
  before that it has not run.
\<close>

theorem commands_execute_once:
  assumes r: "commandable idx val r" "counter_is_newer tx (completed idx r)" "collecting idx (rp_max_entity_fragment r) val tx {} r"
    and size: "unat (rp_max_entity_fragment r) + 30 \<le> unat (rp_session_max_payload r)" "rp_session_max_payload r \<le> 1470" "length (rp_leaf_mac r) = 6"
    and ds: "\<forall>(i, env, sender, frame, rssi)\<in>set ds. i < command_chunk_count (rp_max_entity_fragment r) val \<and>
      (\<exists>sent hops. encrypted_frame (rn_hmac env) (rp_crypto r) (rp_session_key r) (rp_leaf_mac r) PKT_COMMAND downstream_hop_count
          (tx + word_of_nat i) (command_fragment (rp_max_entity_fragment r) idx val i) = Some sent \<and>
        along hops sent = Some frame \<and> relays_for (rn_hmac env) (rp_crypto r) (rp_leaf_mac r) hops \<and>
        length hops < 16 \<and> length hops < unat (rp_max_hops r))"
  shows "if {..<command_chunk_count (rp_max_entity_fragment r) val} \<subseteq> fst ` set ds
    then (\<exists>fl. filter is_command (rp_events (deliver (map snd ds) r)) = filter is_command (rp_events r) @ [CommandFn idx fl val]) \<and>
      er_current_value (rp_entity_records (deliver (map snd ds) r) ! unat idx) = val
    else filter is_command (rp_events (deliver (map snd ds) r)) = filter is_command (rp_events r)"
proof -
  let ?mef = "rp_max_entity_fragment r"
  have m: "unat (rp_session_max_payload r) \<le> 1470" using size(2) by (simp add: word_le_nat_alt)
  have b: "brings idx val tx r i env frame" if d: "(i, env, sender, frame, rssi) \<in> set ds" for i env sender frame rssi
  proof -
    obtain sent hops where i: "i < command_chunk_count ?mef val"
      and f: "encrypted_frame (rn_hmac env) (rp_crypto r) (rp_session_key r) (rp_leaf_mac r) PKT_COMMAND downstream_hop_count
          (tx + word_of_nat i) (command_fragment ?mef idx val i) = Some sent"
      and h: "along hops sent = Some frame" "relays_for (rn_hmac env) (rp_crypto r) (rp_leaf_mac r) hops" "length hops < 16"
        "length hops < unat (rp_max_hops r)"
      using bspec [OF ds d] unfolding prod.case by blast
    have "length (command_fragment ?mef idx val i) \<le> 1445" using length_command_fragment [of ?mef idx val i] size(1) m by linarith
    note c = relayed_command [OF f size(3) this h(1-3)]
    then show ?thesis
      using i h(4) length_command_fragment [of ?mef idx val i] size(1) by (simp add: brings_def admissible_def word_less_nat_alt)
  qed
  have n: "\<not> {..<command_chunk_count ?mef val} \<subseteq> {}" by (simp add: command_chunk_count_def lessThan_empty_iff bot_nat_def)
  have "\<forall>(i, env, sender, frame, rssi)\<in>set ds. brings idx val tx r i env frame" by (auto intro: b)
  from deliver_collecting [OF r n this] show ?thesis unfolding Un_empty_left .
qed

definition demo_member :: remote where
  "demo_member = (snd (register_entity FIELD_TYPE_TEXT ''text'' [] [] ''text'' (set_remote_fns False True (demo_node demo_leaf))))
     \<lparr>rp_joined := True, rp_session_key_valid := True\<rparr>"

theorem commands_execute_once_witness:
  "\<exists>f0 f1. deliver [(demo_renv 0, demo_relay_mac, f1, 0), (demo_renv 0, demo_relay_mac, f0, 0), (demo_renv 0, demo_relay_mac, f1, 0)] demo_member \<noteq> demo_member \<and>
    (\<exists>fl. filter is_command (rp_events (deliver [(demo_renv 0, demo_relay_mac, f1, 0), (demo_renv 0, demo_relay_mac, f0, 0),
      (demo_renv 0, demo_relay_mac, f1, 0)] demo_member)) = [CommandFn 0 fl (replicate 300 9)])"
proof -
  let ?v = "replicate 300 9 :: bytes" and ?r = demo_member
  have k: "rp_max_entity_fragment ?r = 220" "rp_session_max_payload ?r = 250" "rp_max_hops ?r = 5" "rp_max_assembly_bytes ?r = 1024"
    "rp_joined ?r" "rp_session_key_valid ?r" "rp_command_fn ?r" "length (rp_entity_records ?r) = 1" "g_psk_set (rp_crypto ?r)"
    "pending 0 ?r = None" "rp_pending_command_assemblies ?r = []" "rp_pending_command_reserved_bytes ?r = 0"
    "rp_max_total_fragment_bytes ?r = 4096" "completed 0 ?r = 0" "rp_leaf_mac ?r = demo_leaf" "rp_events ?r = []"
    "counter_is_newer 5 0" "length demo_leaf = 6" by code_simp+
  have n: "command_chunk_count 220 ?v = 2" by (simp add: command_chunk_count_def)
  obtain f where f: "encrypted_frame (rn_hmac (demo_renv 0)) (rp_crypto ?r) (rp_session_key ?r) (rp_leaf_mac ?r) PKT_COMMAND downstream_hop_count
      (5 + word_of_nat i) (command_fragment 220 0 ?v i) = Some (f i)" for i
    using k(9) by (simp add: encrypted_frame_def espnow_crypto_crypt_def Let_def)
  let ?d = "\<lambda>i. (i, demo_renv 0, demo_relay_mac, f i, 0 :: u8)"
  have c: "commandable 0 ?v ?r" "counter_is_newer 5 (completed 0 ?r)" "collecting 0 (rp_max_entity_fragment ?r) ?v 5 {} ?r"
    using k n by (simp_all add: commandable_def collecting_def)
  have s: "unat (rp_max_entity_fragment ?r) + 30 \<le> unat (rp_session_max_payload ?r)" "rp_session_max_payload ?r \<le> 1470" "length (rp_leaf_mac ?r) = 6"
    using k by simp_all
  have a: "\<exists>sent hops. encrypted_frame (rn_hmac (demo_renv 0)) (rp_crypto ?r) (rp_session_key ?r) (rp_leaf_mac ?r) PKT_COMMAND downstream_hop_count
      (5 + word_of_nat i) (command_fragment (rp_max_entity_fragment ?r) 0 ?v i) = Some sent \<and> along hops sent = Some (f i) \<and>
      relays_for (rn_hmac (demo_renv 0)) (rp_crypto ?r) (rp_leaf_mac ?r) hops \<and> length hops < 16 \<and> length hops < unat (rp_max_hops ?r)" for i
    using f [of i] k(1, 3) by (intro exI [of _ "f i"] exI [of _ "[]"]) (simp add: relays_for_def)
  have all: "{..<command_chunk_count (rp_max_entity_fragment ?r) ?v} \<subseteq> fst ` set [?d 1, ?d 0, ?d 1]" unfolding k(1) n by auto
  have i: "(0 :: nat) < command_chunk_count (rp_max_entity_fragment ?r) ?v" "1 < command_chunk_count (rp_max_entity_fragment ?r) ?v"
    unfolding k(1) n by simp_all
  have ds: "\<forall>(i, env, sender, frame, rssi)\<in>set [?d 1, ?d 0, ?d 1]. i < command_chunk_count (rp_max_entity_fragment ?r) ?v \<and>
      (\<exists>sent hops. encrypted_frame (rn_hmac env) (rp_crypto ?r) (rp_session_key ?r) (rp_leaf_mac ?r) PKT_COMMAND downstream_hop_count
          (5 + word_of_nat i) (command_fragment (rp_max_entity_fragment ?r) 0 ?v i) = Some sent \<and>
        along hops sent = Some frame \<and> relays_for (rn_hmac env) (rp_crypto ?r) (rp_leaf_mac ?r) hops \<and>
        length hops < 16 \<and> length hops < unat (rp_max_hops ?r))"
    unfolding list.set ball_simps prod.case using i a [of 0] a [of 1] by blast
  have e: "\<exists>fl. filter is_command (rp_events (deliver (map snd [?d 1, ?d 0, ?d 1]) ?r)) = [CommandFn 0 fl ?v]"
    using commands_execute_once [OF c s ds] unfolding if_P [OF all] k(16) by simp
  then have "deliver (map snd [?d 1, ?d 0, ?d 1]) ?r \<noteq> ?r" using k(16) by (metis filter.simps(1) list.distinct(1))
  with e show ?thesis by auto
qed

text \<open>
  C3.  A node sends JOIN; through any chain of relays it reaches the bridge, which answers it; through any chain
  of fewer than sixteen relays the answer reaches the node, still waiting with the nonce it sent. Then the node is joined and holds
  the session key that the bridge's session for it holds.
\<close>

theorem handshake_agrees_on_key:
  assumes join: "send_join env r = (True, r1)" "RemoteSend m frame \<in> set (drop (length (rp_events r)) (rp_events r1))"
    and r: "length (rp_leaf_mac r) = 6" "length (rp_remote_nonce r) = 16" "\<forall>d. length (rn_sha env d) = 32"
    and net: "rn_hmac env = be_hmac benv" "rp_crypto r = bp_crypto s" "g_psk_set (bp_crypto s)"
    and up: "along ups frame = Some frame1" "relays_for (be_hmac benv) (bp_crypto s) (rp_leaf_mac r) ups"
    and s: "SEND_FN \<in> set (bp_fns s)" "\<not> (bp_joining_in_progress s \<and> rp_leaf_mac r \<noteq> bp_joining_leaf_mac s)"
      "\<not> bs_join_in_progress (ensure_session s (rp_leaf_mac r))"
    and step: "on_espnow_frame benv sender frame1 rssi s = (True, t)"
  shows "\<exists>x ack. get_session t (rp_leaf_mac r) = Some x \<and> bs_session_key_valid x \<and> sent_since s t sender ack \<and>
    (\<forall>downs ack1 env2 sender2 rssi2 r2. along downs ack = Some ack1 \<and> relays_for (be_hmac benv) (bp_crypto s) (rp_leaf_mac r) downs \<and>
        length downs < 16 \<and> length downs < unat (rp_max_hops r2) \<and> rn_hmac env2 = be_hmac benv \<and> rp_crypto r2 = bp_crypto s \<and>
        rp_leaf_mac r2 = rp_leaf_mac r \<and> rp_remote_nonce r2 = rp_remote_nonce r \<and> \<not> rp_joined r2 \<longrightarrow>
      (\<exists>r3. remote_on_espnow_frame env2 sender2 ack1 rssi2 r2 = (True, r3) \<and> rp_joined r3 \<and> rp_session_key_valid r3 \<and>
        rp_session_key r3 = bs_session_key x))"
proof -
  let ?leaf = "rp_leaf_mac r" and ?g = "bp_crypto s" and ?hmac = "be_hmac benv" and ?j = "join_payload env r"
  have j: "wf_join ?j" by (rule wf_join_payload [OF r(2, 3)])
  have f: "frame = assemble_plain_frame ?hmac ?g PKT_JOIN ?leaf (upstream_hops r) (rp_tx_counter r) (enc_join ?j)"
    using join(2) send_join_frame [OF join(1)] net(1, 2) by simp
  have b: "bears ?hmac ?g ?leaf PKT_JOIN (rp_tx_counter r) (enc_join ?j) None frame" "fh_hop_count (dec_frame_header frame) = upstream_hops r"
    unfolding f using plain_frame_bears [OF r(1) upstream_no_parent _ net(3), of PKT_JOIN] join.enc_length [OF j] by simp_all
  have b1: "bears ?hmac ?g ?leaf PKT_JOIN (rp_tx_counter r) (enc_join ?j) None frame1" "hops_after (length ups) frame frame1"
    using relayed_bears [OF up(1) b(1) _ _ up(2)] by simp_all
  have "\<not> has_parent_check (fh_hop_count (dec_frame_header frame1))"
    using b1(2) b(2) upstream_no_parent by (simp add: hops_after_def Let_def)
  from bridge_answers_join [OF b1(1) j this r(1) s(1) net(3) s(2, 3) step]
  obtain x ack where x: "get_session t ?leaf = Some x" "bs_session_key_valid x" "sent_since s t sender ack"
    and k: "offers_key ?hmac ?g ?leaf (rp_remote_nonce r) ack (bs_session_key x)" by (auto simp: join_payload_def)
  obtain tx body where ack: "bears ?hmac ?g ?leaf PKT_JOIN_ACK tx body None ack" "length body = 20" "jack_accepted (dec_join_ack body) = 1"
    "espnow_crypto_derive_session_key ?hmac ?g (jack_bridge_nonce (dec_join_ack body)) (rp_remote_nonce r) = bs_session_key x"
    "fh_hop_count (dec_frame_header ack) = downstream_hop_count" by (rule offers_key_bears [OF k])
  have "\<exists>r3. remote_on_espnow_frame env2 sender2 ack1 rssi2 r2 = (True, r3) \<and> rp_joined r3 \<and> rp_session_key_valid r3 \<and>
        rp_session_key r3 = bs_session_key x"
    if d: "along downs ack = Some ack1" "relays_for ?hmac ?g ?leaf downs" "length downs < 16" "length downs < unat (rp_max_hops r2)"
      and r2: "rn_hmac env2 = ?hmac" "rp_crypto r2 = ?g" "rp_leaf_mac r2 = ?leaf" "rp_remote_nonce r2 = rp_remote_nonce r" "\<not> rp_joined r2"
    for downs ack1 env2 sender2 rssi2 r2
  proof -
    have a: "bears ?hmac ?g ?leaf PKT_JOIN_ACK tx body None ack1" "hops_after (length downs) ack ack1"
      using relayed_bears [OF d(1) ack(1) _ _ d(2)] by simp_all
    note h = relayed_downstream [OF a(2) ack(5) d(3)]
    have "ESPNOW_HOPS_COUNT (fh_hop_count (dec_frame_header ack1)) < rp_max_hops r2" using h(1) d(4) by (simp add: word_less_nat_alt)
    from join_ack_taken [OF a(1) [folded r2(1-3)] ack(2, 3) this h(2)] show ?thesis using r2 ack(4) by simp
  qed
  with x show ?thesis by blast
qed

definition demo_joiner :: remote where
  "demo_joiner = (set_remote_fns True True (demo_node demo_leaf))\<lparr>rp_parent_valid := True, rp_parent_mac := demo_relay_mac,
     rp_best_parent := no_candidate\<lparr>dc_valid := True, dc_next_hop_mac := demo_relay_mac, dc_hops_to_bridge := 0\<rparr>\<rparr>"

definition demo_sent_join :: bytes where
  "demo_sent_join = assemble_plain_frame (\<lambda>_ _. replicate 32 1) (rp_crypto demo_joiner) PKT_JOIN demo_leaf (upstream_hops demo_joiner)
     (rp_tx_counter demo_joiner) (enc_join (join_payload (demo_renv 0) demo_joiner))"

theorem handshake_agrees_on_key_witness:
  "\<exists>x ack r3. get_session (snd (on_espnow_frame (demo_benv 5000) demo_leaf demo_sent_join 0 demo_cached)) demo_leaf = Some x \<and>
     sent_since demo_cached (snd (on_espnow_frame (demo_benv 5000) demo_leaf demo_sent_join 0 demo_cached)) demo_leaf ack \<and>
     remote_on_espnow_frame (demo_renv 9) demo_relay_mac ack 0 (snd (send_join (demo_renv 0) demo_joiner)) = (True, r3) \<and>
     rp_joined r3 \<and> rp_session_key r3 = bs_session_key x"
proof -
  let ?r = demo_joiner and ?s = demo_cached and ?env = "demo_renv 0" and ?benv = "demo_benv 5000"
  define r1 where "r1 = snd (send_join ?env ?r)"
  define t where "t = snd (on_espnow_frame ?benv demo_leaf demo_sent_join 0 ?s)"
  have e: "fst (send_join ?env ?r)" "fst (on_espnow_frame ?benv demo_leaf demo_sent_join 0 ?s)"
    "RemoteSend demo_relay_mac demo_sent_join \<in> set (drop (length (rp_events ?r)) (rp_events (snd (send_join ?env ?r))))" by code_simp+
  have j: "send_join ?env ?r = (True, r1)" "on_espnow_frame ?benv demo_leaf demo_sent_join 0 ?s = (True, t)"
    "RemoteSend demo_relay_mac demo_sent_join \<in> set (drop (length (rp_events ?r)) (rp_events r1))"
    using e by (simp_all add: r1_def t_def prod_eq_iff)
  have k: "length (rp_leaf_mac ?r) = 6" "length (rp_remote_nonce ?r) = 16" "rp_crypto ?r = bp_crypto ?s" "g_psk_set (bp_crypto ?s)"
    "SEND_FN \<in> set (bp_fns ?s)" "\<not> (bp_joining_in_progress ?s \<and> rp_leaf_mac ?r \<noteq> bp_joining_leaf_mac ?s)"
    "\<not> bs_join_in_progress (ensure_session ?s (rp_leaf_mac ?r))" "rp_leaf_mac ?r = demo_leaf" by code_simp+
  have q: "rp_crypto (snd (send_join ?env ?r)) = bp_crypto ?s" "rp_leaf_mac (snd (send_join ?env ?r)) = demo_leaf"
    "rp_remote_nonce (snd (send_join ?env ?r)) = rp_remote_nonce ?r" "\<not> rp_joined (snd (send_join ?env ?r))"
    "0 < unat (rp_max_hops (snd (send_join ?env ?r)))" by code_simp+
  have h: "rn_hmac (demo_renv n) = be_hmac ?benv" "\<forall>d. length (rn_sha ?env d) = 32" for n by (simp_all add: demo_renv_def demo_benv_def)
  have rel: "relays_for (be_hmac ?benv) (bp_crypto ?s) (rp_leaf_mac ?r) []" by (simp add: relays_for_def)
  from handshake_agrees_on_key [OF j(1, 3) k(1, 2) h(2, 1) k(3, 4) along.simps(1) rel k(5-7) j(2)]
  obtain x ack where x: "get_session t demo_leaf = Some x" "sent_since ?s t demo_leaf ack"
    and a: "\<And>downs ack1 env2 sender2 rssi2 r2. along downs ack = Some ack1 \<and> relays_for (be_hmac ?benv) (bp_crypto ?s) (rp_leaf_mac ?r) downs \<and>
        length downs < 16 \<and> length downs < unat (rp_max_hops r2) \<and> rn_hmac env2 = be_hmac ?benv \<and> rp_crypto r2 = bp_crypto ?s \<and>
        rp_leaf_mac r2 = rp_leaf_mac ?r \<and> rp_remote_nonce r2 = rp_remote_nonce ?r \<and> \<not> rp_joined r2 \<Longrightarrow>
      \<exists>r3. remote_on_espnow_frame env2 sender2 ack1 rssi2 r2 = (True, r3) \<and> rp_joined r3 \<and> rp_session_key_valid r3 \<and>
        rp_session_key r3 = bs_session_key x" unfolding k(8) by blast
  have "\<exists>r3. remote_on_espnow_frame (demo_renv 9) demo_relay_mac ack 0 (snd (send_join ?env ?r)) = (True, r3) \<and> rp_joined r3 \<and>
      rp_session_key_valid r3 \<and> rp_session_key r3 = bs_session_key x"
    using a [of "[]" ack "snd (send_join ?env ?r)" "demo_renv 9" demo_relay_mac 0] q h(1) [of 9] k(8) rel by simp
  with x show ?thesis unfolding t_def by blast
qed

text \<open>
  C39.  A node's heartbeat reports a total of zero children in every state it can reach, also when it relays for
  others: the count follows next hops until they come to the node itself, but the routing table has no route to or
  through the node.
\<close>

theorem heartbeats_report_no_children:
  assumes "remote_reachable r"
  shows "total_children_count r = 0 \<and> hb_total_child_count (heartbeat_payload env r) = 0"
proof -
  have "routes_ok (rp_leaf_mac r) (rp_routes r)" using remote_reachable_inv [OF assms] by (simp add: remote_inv_def remote_ok_def)
  then show ?thesis by (simp add: heartbeat_payload_def no_children_counted)
qed

theorem heartbeats_report_no_children_witness:
  "rp_can_relay demo_relaying \<and> next_hop demo_leaf demo_relaying = Some demo_leaf \<and>
   hb_direct_child_count (heartbeat_payload (demo_renv 30) demo_relaying) = 1 \<and>
   hb_total_child_count (heartbeat_payload (demo_renv 30) demo_relaying) = 0"
proof -
  have "rp_can_relay demo_relaying" "next_hop demo_leaf demo_relaying = Some demo_leaf"
    "hb_direct_child_count (heartbeat_payload (demo_renv 30) demo_relaying) = 1" by code_simp+
  with heartbeats_report_no_children [OF demo_relaying_reachable] show ?thesis by blast
qed

section \<open>The runtime API\<close>

text \<open>A bridge with the key \<open>secret\<close>; the socket takes everything and the constant HMAC stands in again.\<close>

definition demo_ota_env :: ota_env where
  "demo_ota_env = \<lparr>env_now = 1000, env_send = (\<lambda>_. (ESP_OK, 1)), env_reachable = (\<lambda>_. True)\<rparr>"

definition demo_wenv :: ws_env where
  "demo_wenv = \<lparr>we_ota = demo_ota_env, we_hmac = (\<lambda>_ _. replicate 32 1), we_api_key = ''secret'', we_bridge_mac = ''00'',
     we_send = (\<lambda>_. True), we_nonce = replicate 16 5, we_accept_key = (\<lambda>k. k), we_async_ok = True, we_task_ok = True,
     we_protocol = bridge_initial, we_auth_ok = (\<lambda>_. [1]), we_snapshot = (\<lambda>_. [2]), we_heartbeat = [3],
     we_command = (\<lambda>_ _. [4]), we_config = (\<lambda>_ _. [])\<rparr>"

definition demo_auth :: bytes where
  "demo_auth = envelope ''r'' 11 (\<lambda>w. Writer_bytes 4 (replicate 32 1) (Writer_bytes 3 [9] (Writer_string 1 ''ha_integration'' w)))"

definition demo_abort :: bytes where
  "demo_abort = envelope ''r'' 32 (\<lambda>w. Writer_string 2 ''x'' (Writer_string 1 ''0001'' w))"

definition demo_connected :: api where
  "demo_connected = \<lparr>ap_ws = ws_initial\<lparr>ws_connected := True, ws_active_fd := 3, ws_server_nonce := replicate 16 5\<rparr>,
     ap_job = ota_job_initial, ap_calls = []\<rparr>"

definition demo_inputs :: "ws_input list" where
  "demo_inputs = [Frame demo_wenv 2 demo_auth, Frame demo_wenv 2 demo_abort]"

lemma demo_frames_parsed:
  "parse_envelope demo_auth = Some \<lparr>pe_request_id = ''r'', pe_api_version = 2, pe_msg_field = 11, pe_msg_data = Some
     (Writer_bytes 4 (replicate 32 1) (Writer_bytes 3 [9] (Writer_string 1 ''ha_integration'' [])))\<rparr>"
  "parse_envelope demo_abort = Some \<lparr>pe_request_id = ''r'', pe_api_version = 2, pe_msg_field = 32, pe_msg_data = Some
     (Writer_string 2 ''x'' (Writer_string 1 ''0001'' []))\<rparr>"
  "parse_auth_response (Writer_bytes 4 (replicate 32 1) (Writer_bytes 3 [9] (Writer_string 1 ''ha_integration'' []))) =
     Some \<lparr>par_client_kind = ''ha_integration'', par_client_name = [], par_client_nonce = [9], par_hmac_sha256 = replicate 32 1\<rparr>"
  "parse_ota_abort_request (Writer_string 2 ''x'' (Writer_string 1 ''0001'' [])) = Some \<lparr>poa_job_id = ''0001'', poa_reason = ''x''\<rparr>"
  by code_simp+

lemma demo_authenticates: "has_authenticated_client (ap_ws (ws_step (Frame demo_wenv 2 demo_auth) demo_connected))"
proof -
  have "verify_auth_response demo_wenv (ap_ws demo_connected)
      \<lparr>par_client_kind = ''ha_integration'', par_client_name = [], par_client_nonce = [9], par_hmac_sha256 = replicate 32 1\<rparr>"
    "\<not> has_authenticated_client (ap_ws demo_connected)" by code_simp+
  then show ?thesis
    by (simp add: on_frame_def handle_binary_def authenticate_def demo_frames_parsed on_ws_def)
       (simp add: demo_connected_def has_authenticated_client_def)
qed

lemma demo_aborts:
  "has_authenticated_client (ap_ws a) \<Longrightarrow> ap_calls (ws_step (Frame demo_wenv 2 demo_abort) a) = ap_calls a @ [CallOtaAbort ''0001'']"
  by (simp add: on_frame_def handle_binary_def handle_request_def handle_ota_abort_def demo_frames_parsed on_ws_def call_def)

text \<open>
  C4.  Whatever connects, sends, ticks and disconnects, in any order: from a state without an authenticated client the
  API makes no call into the bridge (commands, configuration, receipts, OTA) before a binary frame has arrived that carries the
  HMAC, with the bridge's key, of the nonce of the connection it arrived on.
\<close>

theorem only_authenticated_clients_act:
  assumes "\<not> has_authenticated_client (ap_ws a)" "ap_calls (fold ws_step is a) \<noteq> ap_calls a"
  shows "\<exists>us env payload vs. is = us @ Frame env 2 payload # vs \<and>
    proves_identity env (ws_server_nonce (ap_ws (fold ws_step us a))) payload"
proof -
  obtain us i vs where i: "is = us @ i # vs" "presents_credential i (fold ws_step us a)"
    using api.calls_need_credential [OF assms] by blast
  then show ?thesis by (cases i) (auto simp: presents_credential_def)
qed

theorem only_authenticated_clients_act_witness:
  "ap_calls (fold ws_step demo_inputs demo_connected) = [CallOtaAbort ''0001''] \<and>
   (\<exists>us env payload vs. demo_inputs = us @ Frame env 2 payload # vs \<and>
     proves_identity env (ws_server_nonce (ap_ws (fold ws_step us demo_connected))) payload)"
proof -
  have n: "\<not> has_authenticated_client (ap_ws demo_connected)" "ap_calls demo_connected = []" by code_simp+
  have "ap_calls (ws_step (Frame demo_wenv 2 demo_auth) demo_connected) = []" using unauthenticated_step [OF n(1), of "Frame demo_wenv 2 demo_auth"] n(2) by metis
  then have c: "ap_calls (fold ws_step demo_inputs demo_connected) = [CallOtaAbort ''0001'']"
    using demo_aborts [OF demo_authenticates] by (simp add: demo_inputs_def del: ws_step.simps)
  show ?thesis using only_authenticated_clients_act [OF n(1), of demo_inputs] c n(2) by simp
qed


definition demo_manager :: ota where
  "demo_manager = (ota_initial default_ota_config True)\<lparr>om_state := BLASTING, om_file_size := 3, om_negotiated_chunk_size := 2,
     om_tracker := tracker_reset\<lparr>it_total_chunks := 2, it_requested_sequences := {0, 1}\<rparr>\<rparr>"

definition demo_transferring :: api where
  "demo_transferring = \<lparr>ap_ws = ws_initial\<lparr>ws_connected := True, ws_authenticated := True, ws_active_fd := 3, ws_job_id := ''0001'',
       ws_chunk_request_id := ''0001-1'', ws_pending_sequences := {0, 1}, ws_max_chunk_size := 2\<rparr>,
     ap_job = ota_job_initial\<lparr>oj_manager := Some demo_manager, oj_state := TRANSFERRING, oj_job_id := ''0001'', oj_callbacks := True\<rparr>,
     ap_calls = []\<rparr>"

definition demo_batch :: bytes where
  "demo_batch = batch_message ''0001'' ''0001-1'' [source_chunk [7, 8, 9] 2 1, source_chunk [7, 8, 9] 2 0]"

lemma demo_batch_parsed: "parse_ota_chunk_batch demo_batch = Some
   \<lparr>pob_job_id = ''0001'', pob_response_request_id = ''0001-1'', pob_chunks = map (source_chunk [7, 8, 9] 2) [1, 0]\<rparr>"
proof -
  have "length (chunk_builder (source_chunk [7, 8, 9] 2 1) []) < 30" "length (chunk_builder (source_chunk [7, 8, 9] 2 0) []) < 30"
    by code_simp+
  then show ?thesis unfolding demo_batch_def by (subst parse_batch_roundtrip) (auto simp: source_chunk_def slice_def)
qed

lemma demo_transferring_ready:
  "oj_state (ap_job demo_transferring) = TRANSFERRING" "oj_manager (ap_job demo_transferring) = Some demo_manager"
  "om_state demo_manager = BLASTING" "ws_max_chunk_size (ap_ws demo_transferring) = ucast (om_negotiated_chunk_size demo_manager)"
  "om_negotiated_chunk_size demo_manager = 2" "oj_job_id (ap_job demo_transferring) = ''0001''" "om_pending_chunks demo_manager = []"
  "ws_chunk_request_id (ap_ws demo_transferring) = ''0001-1''" "unat (ws_max_chunks_per_batch (ap_ws demo_transferring)) = 6"
  "it_requested_sequences (om_tracker demo_manager) = {0, 1}" "injected (ap_calls demo_transferring) = []"
  by (simp_all add: demo_transferring_def demo_manager_def ota_initial_def ota_job_initial_def ws_initial_def)

lemma demo_asked_for: "\<forall>q\<in>set [1, 0]. asked_for [7, 8, 9] demo_manager (ap_ws demo_transferring) q"
  by (simp add: asked_for_def within_def demo_manager_def demo_transferring_def ota_initial_def)


text \<open>
  C6.  A batch that answers the last request of the running job with chunks of the file, any part of what was asked for in any
  order, is queued at the OTA manager completely and in that order, with the bytes of the file; nothing of it is asked for any
  more, and no error is sent.
\<close>

theorem requested_chunks_reach_manager:
  assumes parsed: "parse_ota_chunk_batch data = Some batch" and job: "oj_state (ap_job a) = TRANSFERRING" "oj_manager (ap_job a) = Some m"
    and m: "om_state m = BLASTING" "ws_max_chunk_size (ap_ws a) = ucast (om_negotiated_chunk_size m)"
    and batch: "pob_job_id batch = oj_job_id (ap_job a)" "pob_response_request_id batch = ws_chunk_request_id (ap_ws a)"
      "pob_chunks batch = map (source_chunk file (om_negotiated_chunk_size m)) qs" "length qs \<le> unat (ws_max_chunks_per_batch (ap_ws a))"
    and qs: "distinct qs" "\<forall>q\<in>set qs. asked_for file m (ap_ws a) q" and a': "a' = handle_ota_chunk_batch env rid data a"
  shows "(\<exists>m'. oj_manager (ap_job a') = Some m' \<and>
      om_pending_chunks m' = om_pending_chunks m @ map (\<lambda>q. (q, slice (unat (om_negotiated_chunk_size m)) file (unat q))) qs \<and>
      it_requested_sequences (om_tracker m') = it_requested_sequences (om_tracker m) - set qs) \<and>
    ws_pending_sequences (ap_ws a') = ws_pending_sequences (ap_ws a) - set qs \<and> ws_events (ap_ws a') = ws_events (ap_ws a)"
proof -
  have "a' = inject_chunks env rid (pob_job_id batch) (map (source_chunk file (om_negotiated_chunk_size m)) qs) a"
    using parsed job batch by (simp add: a' handle_ota_chunk_batch_def api_ota_has_active_job_def api_ota_active_job_id_def)
  from inject_source_chunks [OF job m qs refl this] show ?thesis by blast
qed

theorem requested_chunks_reach_manager_witness:
  "\<exists>m'. oj_manager (ap_job (handle_ota_chunk_batch demo_wenv ''r'' demo_batch demo_transferring)) = Some m' \<and>
    om_pending_chunks m' = [(1, [9]), (0, [7, 8])] \<and> it_requested_sequences (om_tracker m') = {}"
proof -
  let ?b = "\<lparr>pob_job_id = ''0001'', pob_response_request_id = ''0001-1'', pob_chunks = map (source_chunk [7, 8, 9] 2) [1, 0]\<rparr>"
  note r = demo_transferring_ready
  have b: "pob_job_id ?b = oj_job_id (ap_job demo_transferring)" "pob_response_request_id ?b = ws_chunk_request_id (ap_ws demo_transferring)"
    "pob_chunks ?b = map (source_chunk [7, 8, 9] (om_negotiated_chunk_size demo_manager)) [1, 0]"
    "length [1, 0 :: u32] \<le> unat (ws_max_chunks_per_batch (ap_ws demo_transferring))" "distinct [1, 0 :: u32]"
    unfolding r(5, 6, 8, 9) by (simp_all only: ParsedOtaChunkBatch.simps) simp_all
  have e: "{0, 1} - set [1, 0 :: u32] = {}" by auto
  have s: "map (\<lambda>q. (q, slice 2 [7, 8, 9 :: u8] (unat q))) [1, 0 :: u32] = [(1, [9]), (0, [7, 8])]" by (simp add: slice_def)
  from requested_chunks_reach_manager [OF demo_batch_parsed r(1-4) b demo_asked_for refl, of demo_wenv "''r''"]
  show ?thesis unfolding r(5, 7, 10) e by (simp add: s del: list.map)
qed


section \<open>The bridge component\<close>

definition demo_select :: espnow_entity_schema_t where
  "demo_select = \<lparr>es_entity_index = 3, es_entity_type = field_type_code FIELD_TYPE_SELECT, es_entity_name = ''Mode'',
     es_entity_unit = [], es_entity_options = ''options=low|high'', es_entity_id = ''mode''\<rparr>"

definition demo_commanded :: bridge where
  "demo_commanded = put_session demo_leaf
     (demo_session\<lparr>bs_online := True, bs_schema_entities := [demo_select], bs_max_entity_fragment := 200\<rparr>) demo_bridge"

definition demo_conv :: conv where
  "demo_conv = \<lparr>cv_parse_json = (\<lambda>t. if t = ''{E}'' then Some [(''effect'', JsonText ''Rainbow'')] else None), cv_strtof = (\<lambda>_. None),
     cv_hsv = (\<lambda>_. (0, 0, 0)), cv_color_temp = (\<lambda>_. 0)\<rparr>"

definition demo_request :: ParsedCommandRequest where
  "demo_request = \<lparr>pcr_remote_mac = ''01:02:03:04:05:06'', pcr_object_id = ''mode'', pcr_command = ''select_option'',
     pcr_args = [\<lparr>pca_name = ''option'', pca_value = ''high''\<rparr>]\<rparr>"

text \<open>
  C7.  A command request that is accepted named an online remote by its address and an entity of its schema by its object id,
  its text was understood as a value for that entity, and that value is on its way: every fragment of it, encrypted with the key of
  the session under consecutive counters, has been handed to the radio for the next hop of the remote, and the command waits in the queue for its
  acknowledgement.
\<close>

theorem api_commands_are_on_air:
  assumes "command_outcome env cv values request s = ((COMMAND_ACCEPTED, code, message), t)"
  shows "\<exists>leaf x entity val frames pc.
    parse_mac_hex (clean_mac_text (pcr_remote_mac request)) = Some leaf \<and> get_session s leaf = Some x \<and>
    bs_online x \<and> bs_session_key_valid x \<and>
    entity \<in> set (bs_schema_entities x) \<and> entity_object_id entity = pcr_object_id request \<and>
    decode_command_payload cv entity (command_route entity (pcr_command request)) (command_text (pcr_command request) (pcr_args request))
      (cached_value values leaf entity) = Some val \<and>
    map (\<lambda>i. encrypted_frame (be_hmac env) (bp_crypto s) (bs_session_key x) (bs_leaf_mac x) PKT_COMMAND downstream_hop_count
        (bs_tx_counter x + word_of_nat i) (command_fragment (bs_max_entity_fragment x) (es_entity_index entity) val i))
      [0..<command_chunk_count (bs_max_entity_fragment x) val] = map Some frames \<and>
    transmits s t (map (Pair (bs_next_hop_mac x)) frames) \<and>
    bp_command_queue t = bp_command_queue s @ [pc] \<and> pc_field_index pc = es_entity_index entity \<and> pc_value pc = val \<and>
    pc_leaf_mac pc = bs_leaf_mac x \<and> pc_tx_base pc = bs_tx_counter x"
proof -
  obtain leaf x entity val where a: "parse_mac_hex (clean_mac_text (pcr_remote_mac request)) = Some leaf" "get_session s leaf = Some x"
    "find_entity x (pcr_object_id request) = Some entity"
    "decode_command_payload cv entity (command_route entity (pcr_command request)) (command_text (pcr_command request) (pcr_args request))
      (cached_value values leaf entity) = Some val"
    and s: "send_command_to_leaf env leaf (es_entity_index entity) val s = (True, t)"
    using command_accepted [OF assms] by blast
  have e: "entity \<in> set (bs_schema_entities x)" "entity_object_id entity = pcr_object_id request"
    using a(3) by (auto simp: find_entity_def find_Some_iff)
  obtain x' frames pc where "get_session s leaf = Some x'" and f: "bs_online x'" "bs_session_key_valid x'"
    "map (\<lambda>i. encrypted_frame (be_hmac env) (bp_crypto s) (bs_session_key x') (bs_leaf_mac x') PKT_COMMAND downstream_hop_count
        (bs_tx_counter x' + word_of_nat i) (command_fragment (bs_max_entity_fragment x') (es_entity_index entity) val i))
      [0..<command_chunk_count (bs_max_entity_fragment x') val] = map Some frames"
    "transmits s t (map (Pair (bs_next_hop_mac x')) frames)" "bp_command_queue t = bp_command_queue s @ [pc]"
    "pc_field_index pc = es_entity_index entity" "pc_value pc = val" "pc_leaf_mac pc = bs_leaf_mac x'" "pc_tx_base pc = bs_tx_counter x'"
    using send_command_sent [OF s] by blast
  then have "x' = x" using a(2) by simp
  then show ?thesis using a e f by blast
qed

lemma demo_commanded_facts:
  "g_psk_set (bp_crypto demo_commanded)" "bp_fns demo_commanded = [SEND_FN]" "length (command_fragment 200 3 [1] 0) = 6"
  "unat (espnow_max_plaintext (bs_session_max_payload demo_session)) \<ge> 6" "command_chunk_count 200 [1] = 1" "bp_command_queue demo_commanded = []"
  "get_session demo_commanded demo_leaf =
    Some (demo_session\<lparr>bs_online := True, bs_schema_entities := [demo_select], bs_max_entity_fragment := 200\<rparr>)"
  "parse_mac_hex (clean_mac_text (pcr_remote_mac demo_request)) = Some demo_leaf"
  by code_simp+

lemma demo_option_understood:
  "find_entity (demo_session\<lparr>bs_online := True, bs_schema_entities := [demo_select], bs_max_entity_fragment := 200\<rparr>) (pcr_object_id demo_request) =
    Some demo_select"
  "decode_command_payload demo_conv demo_select (command_route demo_select (pcr_command demo_request))
    (command_text (pcr_command demo_request) (pcr_args demo_request)) c = Some [1]"
  by code_simp+

lemma demo_command_sent: "fst (send_command_to_leaf (demo_benv 1000) demo_leaf 3 [1] demo_commanded)"
proof -
  obtain frame where f: "encrypted_frame (\<lambda>_ _. replicate 32 1) (bp_crypto demo_commanded) (bs_session_key demo_session) (bs_leaf_mac demo_session)
      PKT_COMMAND downstream_hop_count (bs_tx_counter demo_session) (command_fragment 200 3 [1] 0) = Some frame"
    using demo_commanded_facts(1) by (auto simp: encrypted_frame_def espnow_crypto_crypt_def Let_def)
  have v: "bs_session_key_valid demo_session" by (simp add: demo_session_def)
  show ?thesis using f v demo_commanded_facts
    by (simp add: send_command_to_leaf_def send_command_def send_command_fragments_def Let_def send_encrypted_with_tx_counter_def
        send_encrypted_with_tx_counter_result_def esp_get_free_heap_size_def demo_benv_def call_send_def asked_def queue_log_def case_prod_beta)
qed

theorem api_commands_are_on_air_witness:
  "\<exists>code message t frame pc. command_outcome (demo_benv 1000) demo_conv [] demo_request demo_commanded = ((COMMAND_ACCEPTED, code, message), t) \<and>
    encrypted_frame (\<lambda>_ _. replicate 32 1) (bp_crypto demo_commanded) (replicate 32 9) demo_leaf PKT_COMMAND downstream_hop_count
      (bs_tx_counter demo_session) (command_fragment 200 3 [1] 0) = Some frame \<and>
    transmits demo_commanded t [(bs_next_hop_mac demo_session, frame)] \<and> bp_command_queue t = [pc] \<and> pc_value pc = [1]"
proof -
  note d = demo_commanded_facts
  obtain t where t: "send_command_to_leaf (demo_benv 1000) demo_leaf 3 [1] demo_commanded = (True, t)"
    using demo_command_sent by (metis eq_fst_iff eqTrueI)
  have k: "bs_session_key_valid demo_session" "bs_session_key demo_session = replicate 32 9" "bs_leaf_mac demo_session = demo_leaf"
    "es_entity_index demo_select = 3" by (simp_all add: demo_session_def demo_select_def)
  have o: "command_outcome (demo_benv 1000) demo_conv [] demo_request demo_commanded = ((COMMAND_ACCEPTED, [], []), t)"
    using t k d(7, 8) demo_option_understood by (simp add: command_outcome_def run_command_def)
  show ?thesis using api_commands_are_on_air [OF o] o k d demo_option_understood
    by (auto simp: demo_benv_def)
qed



text \<open>
  Choosing an effect of a light does not do this: the command carries the index counted from zero, the state is read counting
  from one.  A light that does what it is told reports the effect listed before the chosen one, and for the first effect none.
\<close>

lemma effect_commands_are_off_by_one:
  assumes "plain_options effects" "length effects < 256" "i < length effects" "distinct effects" "effects ! i \<noteq> ''None''"
    and "es_entity_type entity = field_type_code FIELD_TYPE_LIGHT" "es_entity_options entity = ''effects='' @ join_parts CHR ''|'' effects"
    and "is_json payload" "cv_parse_json cv payload = Some [(''effect'', JsonText (effects ! i))]"
  shows "\<exists>val. decode_command_payload cv entity route payload current = Some val \<and>
    light_effect (parse_options_map (es_entity_options entity)) val =
      '','' @ json_member ''effect'' (json_quote (if i = 0 then ''None'' else json_escape (effects ! (i - 1))))"
proof -
  have "bridge_option_list (parse_options_map (es_entity_options entity)) ''effects'' = effects"
    using written_options(1) [OF assms(1), of "''effects''"] assms(7) by simp
  then have "decode_command_payload cv entity route payload current = Some ((replicate 9 0)[4 := word_of_nat i, 0 := 1])"
    using assms(6, 8, 9) light_effect_command [OF index_of_nth [OF assms(4, 3)] assms(5)]
    by (simp add: decode_command_payload_def parse_json_with_def Let_def)
  moreover have "light_effect (parse_options_map (es_entity_options entity)) ((replicate 9 0)[4 := word_of_nat i, 0 := 1]) =
      '','' @ json_member ''effect'' (json_quote (if i = 0 then ''None'' else json_escape (effects ! (i - 1))))"
    unfolding assms(7) using assms(1, 2, 3) by (intro light_effect_report) simp_all
  ultimately show ?thesis by blast
qed

lemma effect_commands_are_off_by_one_witness:
  "\<exists>val. decode_command_payload demo_conv
      (demo_select\<lparr>es_entity_type := field_type_code FIELD_TYPE_LIGHT, es_entity_options := ''effects=Pulse|Rainbow''\<rparr>) PRIMARY ''{E}'' [] = Some val \<and>
    light_effect (parse_options_map ''effects=Pulse|Rainbow'') val = '','' @ json_member ''effect'' (json_quote (json_escape ''Pulse''))"
proof -
  let ?e = "demo_select\<lparr>es_entity_type := field_type_code FIELD_TYPE_LIGHT, es_entity_options := ''effects=Pulse|Rainbow''\<rparr>"
  have h: "plain_options [''Pulse'', ''Rainbow'']" "length [''Pulse'', ''Rainbow''] < 256" "1 < length [''Pulse'', ''Rainbow'']"
    "distinct [''Pulse'', ''Rainbow'']" "[''Pulse'', ''Rainbow''] ! 1 \<noteq> ''None''" "es_entity_type ?e = field_type_code FIELD_TYPE_LIGHT"
    "es_entity_options ?e = ''effects='' @ join_parts CHR ''|'' [''Pulse'', ''Rainbow'']" "is_json ''{E}''"
    "cv_parse_json demo_conv ''{E}'' = Some [(''effect'', JsonText ([''Pulse'', ''Rainbow''] ! 1))]"
    by (simp_all add: plain_options_def is_json_def demo_conv_def)
  from effect_commands_are_off_by_one [OF h, of PRIMARY "[]"] show ?thesis by simp
qed

text \<open>
  C8.  A state that is published to the consumers \<open>req\<close> is acknowledged to its remote once, as soon as every one of them has reported
  it, and not before, whatever else is published, marked and expired in between, as long as the timeout of two seconds has not
  passed and the same state is not published again.
\<close>

theorem states_confirmed_when_consumed:
  assumes "deliveries_ok c" "length m = 6" "req \<noteq> 0" "\<forall>x \<in> set ins. undisturbed m i tx (be_now (ce_bridge env)) x"
  shows "confirmations m i tx (fold delivery_step ins (begin_state_delivery env m i tx hop req c)) =
    confirmations m i tx c @ (if marks m i tx ins AND req = req then [(m, i, tx, hop)] else [])"
proof -
  have ok: "deliveries_ok (begin_state_delivery env m i tx hop req c)"
    using deliveries_ok_step [OF assms(1), of "Publish env m i tx hop req"] assms(2) by simp
  have c: "confirmations m i tx (begin_state_delivery env m i tx hop req c) = confirmations m i tx c"
    using assms(3) by (simp add: begin_state_delivery_def confirmations_def)
  show ?thesis using tracked_run [OF ok assms(2, 4) tracked_publish [OF assms(3)]] assms(3) by (simp add: c completes_def)
qed

definition demo_component :: component where
  "demo_component = \<lparr>co_protocol = demo_commanded, co_network_id = ''net'', co_sta_mac = replicate 6 9, co_espnow_allowed = True,
     co_pending_rx = [], co_rx_packets = 0, co_rx_dropped = 0, co_rx_dropped_while_disallowed = 0, co_tx_ok = 0, co_tx_fail = 0,
     co_peer_last_used_ms = [], co_airtime = \<lparr>as_tx_packets = 0, as_rx_packets = 0, as_tx_airtime_us = 0, as_rx_airtime_us = 0,
       as_rssi_sum = 0, as_rssi_count = 0\<rparr>, co_entity_values = [], co_deliveries = [], co_radio = [], co_confirmed = []\<rparr>"

text \<open>The radio holds two peers and no more.\<close>

definition demo_cenv :: "u32 \<Rightarrow> component_env" where
  "demo_cenv now = \<lparr>ce_bridge = demo_benv now, ce_radio = (\<lambda>calls call. case call of PeerExists m \<Rightarrow> False
       | AddPeer m \<Rightarrow> list_ex (\<lambda>k. case k of DelPeer _ \<Rightarrow> True | _ \<Rightarrow> False) calls | _ \<Rightarrow> True),
     ce_send = (\<lambda>_. ESP_OK), ce_lock_ok = True, ce_wifi_connected = True, ce_api_client = True, ce_mqtt_connected = True\<rparr>"

theorem states_confirmed_when_consumed_witness:
  "confirmations demo_leaf 3 9 (fold delivery_step [Mark (demo_cenv 1100) demo_leaf 3 9 1, Expire (demo_cenv 1200), Mark (demo_cenv 1300) demo_leaf 3 9 2]
      (begin_state_delivery (demo_cenv 1000) demo_leaf 3 9 demo_leaf 3 demo_component)) = [(demo_leaf, 3, 9, demo_leaf)] \<and>
   confirmations demo_leaf 3 9 (fold delivery_step [Mark (demo_cenv 1100) demo_leaf 3 9 1, Expire (demo_cenv 1200)]
      (begin_state_delivery (demo_cenv 1000) demo_leaf 3 9 demo_leaf 3 demo_component)) = []"
proof -
  have h: "deliveries_ok demo_component" "length demo_leaf = 6" "(3 :: u8) \<noteq> 0" "confirmations demo_leaf 3 9 demo_component = []"
    by (simp_all add: deliveries_ok_def demo_component_def demo_leaf_def confirmations_def omap_ok_def)
  have u: "\<forall>x \<in> set [Mark (demo_cenv 1100) demo_leaf 3 9 1, Expire (demo_cenv 1200), Mark (demo_cenv 1300) demo_leaf 3 9 2].
      undisturbed demo_leaf 3 9 (be_now (ce_bridge (demo_cenv 1000))) x"
    "\<forall>x \<in> set [Mark (demo_cenv 1100) demo_leaf 3 9 1, Expire (demo_cenv 1200)].
      undisturbed demo_leaf 3 9 (be_now (ce_bridge (demo_cenv 1000))) x"
    by (simp_all add: demo_cenv_def demo_benv_def demo_leaf_def)
  show ?thesis
    using states_confirmed_when_consumed [OF h(1-3) u(1), of demo_leaf] states_confirmed_when_consumed [OF h(1-3) u(2), of demo_leaf] h(4) by simp
qed



section \<open>Events, receipts and the web interface\<close>












text \<open>
  C37.  The description of the bridge at \<open>/api/v1/bridge/info\<close> is never JSON: its outermost brace is not closed, so a reader comes to the
  end of the text inside the object, however the bridge is named and whatever it answers to.
\<close>

theorem bridge_info_is_not_json: "\<not> is_json_text (api_bridge_info_json info w)"
  using bridge_info_unclosed [of info w] unclosed_object by fastforce

section \<open>The MQTT export\<close>


definition demo_switch :: espnow_entity_schema_t where
  "demo_switch = \<lparr>es_entity_index = 0, es_entity_type = field_type_code FIELD_TYPE_SWITCH, es_entity_name = ''Pump'',
     es_entity_unit = [], es_entity_options = [], es_entity_id = ''pump''\<rparr>"

definition demo_pump :: component where
  "demo_pump = demo_component\<lparr>co_protocol := put_session demo_leaf
     (demo_session\<lparr>bs_online := True, bs_schema_entities := [demo_switch], bs_max_entity_fragment := 200\<rparr>) demo_bridge\<rparr>"

definition demo_export :: mqtt where
  "demo_export = mqtt_initial demo_pump (replicate 6 9) ''homeassistant'' ''Bridge'' ''rejoin''"

definition demo_menv :: "u32 \<Rightarrow> mqtt_env" where
  "demo_menv now = \<lparr>mv_component = demo_cenv now, mv_publish = (\<lambda>_. True), mv_now = (\<lambda>_. now), mv_random = 7, mv_float_text = (\<lambda>_. ''0''),
     mv_rgb = (\<lambda>h s v. (h, s, v)), mv_conv = demo_conv\<rparr>"



text \<open>
  C15.  Whatever the bridge queues, the broker answers and the clock shows, the retry counter stays within the
  table of pauses, every command route belongs to a topic that is subscribed to, an announced entity never waits for the
  grace period of its first state, and the keys of the postponed diagnostics are addresses that can be read back.
\<close>

theorem mqtt_tables_are_consistent:
  assumes "mqtt_reachable s"
  shows "mqtt_ok s"
  by (rule reachable_ok [OF assms])

theorem mqtt_tables_are_consistent_witness:
  "mqtt_ok (mqtt_tick (demo_menv 1000) (queue_discovery demo_leaf demo_switch 1 True ''Pump'' demo_export))"
  using mqtt_tables_are_consistent [OF mqtt_reachable.Tick [OF mqtt_reachable.Discovery [OF mqtt_reachable.Start]]]
  by (simp add: demo_export_def)






end
